(* ===== verification/Go_Prelude.thy ===== *)
theory Go_Prelude
  imports Main "HOL-Library.Sublist"
begin

text \<open>
  The shared vocabulary of the development: the parts of Go and of its standard library that
  the provider's code uses. A Go \<^verbatim>\<open>string\<close> is a byte sequence and is modelled as
  \<^typ>\<open>string\<close> (one \<^typ>\<open>char\<close> per byte); a Go \<^verbatim>\<open>map\<close> that the code ranges over
  is an association list whose order is one possible iteration order; a function that returns
  \<^verbatim>\<open>(T, error)\<close> returns a sum, \<^term>\<open>Inl\<close> for the error.

  Contents: byte strings (\<^verbatim>\<open>strings.HasPrefix\<close>, \<^verbatim>\<open>Cut\<close>, \<^verbatim>\<open>Split\<close>,
  \<^verbatim>\<open>TrimSpace\<close>, \<^verbatim>\<open>ToLower\<close>, \<^verbatim>\<open>EqualFold\<close>), \<^verbatim>\<open>path.Clean\<close>,
  finite maps as association lists, the error monad, and the generic lemmas on them.
\<close>

named_theorems go_str \<open>unfoldings of the string operations\<close>
named_theorems go_err \<open>case analysis of the error monad\<close>

section \<open>Byte strings\<close>

definition hasPrefix :: "string \<Rightarrow> string \<Rightarrow> bool" where
  [go_str]: "hasPrefix s p \<longleftrightarrow> take (length p) s = p"

definition hasSuffix :: "string \<Rightarrow> string \<Rightarrow> bool" where
  [go_str]: "hasSuffix s p \<longleftrightarrow> hasPrefix (rev s) (rev p)"

definition trimPrefix :: "string \<Rightarrow> string \<Rightarrow> string" where
  [go_str]: "trimPrefix s p = (if hasPrefix s p then drop (length p) s else s)"

text \<open>\<^verbatim>\<open>strings.CutPrefix\<close>: the rest after the prefix, or nothing.\<close>

definition cutPrefix :: "string \<Rightarrow> string \<Rightarrow> string option" where
  [go_str]: "cutPrefix s p = (if hasPrefix s p then Some (drop (length p) s) else None)"

definition containsAny :: "string \<Rightarrow> string \<Rightarrow> bool" where
  [go_str]: "containsAny s cs \<longleftrightarrow> list_ex (\<lambda>c. c \<in> set cs) s"

fun contains :: "string \<Rightarrow> string \<Rightarrow> bool" where
  "contains [] p \<longleftrightarrow> p = []"
| "contains (c # s) p \<longleftrightarrow> hasPrefix (c # s) p \<or> contains s p"

text \<open>\<^verbatim>\<open>strings.Cut\<close> at a one-byte separator: what is before it, what is after it, and
  whether it was there.\<close>

fun cutAt :: "char \<Rightarrow> string \<Rightarrow> string \<times> string \<times> bool" where
  "cutAt d [] = ([], [], False)"
| "cutAt d (c # s) =
     (if c = d then ([], s, True)
      else (case cutAt d s of (a, b, f) \<Rightarrow> (if f then (c # a, b, True) else (c # s, [], False))))"

text \<open>\<^verbatim>\<open>strings.Split\<close> at a one-byte separator.\<close>

fun splitAll :: "char \<Rightarrow> string \<Rightarrow> string list" where
  "splitAll d [] = [[]]"
| "splitAll d (c # s) =
     (if c = d then [] # splitAll d s
      else (case splitAll d s of [] \<Rightarrow> [[c]] | t # ts \<Rightarrow> (c # t) # ts))"

text \<open>\<^verbatim>\<open>strings.SplitN\<close> at a one-byte separator, for a positive count.\<close>

fun splitN :: "char \<Rightarrow> nat \<Rightarrow> string \<Rightarrow> string list" where
  "splitN d 0 s = []"
| "splitN d (Suc 0) s = [s]"
| "splitN d (Suc (Suc n)) s =
     (case cutAt d s of (a, b, f) \<Rightarrow> (if f then a # splitN d (Suc n) b else [s]))"

fun joinWith :: "string \<Rightarrow> string list \<Rightarrow> string" where
  "joinWith sep [] = []"
| "joinWith sep [s] = s"
| "joinWith sep (s # t # ts) = s @ sep @ joinWith sep (t # ts)"

text \<open>\<^verbatim>\<open>strings.TrimRight\<close> and \<^verbatim>\<open>TrimLeft\<close> with a cut set of bytes.\<close>

definition trimLeftSet :: "string \<Rightarrow> string \<Rightarrow> string" where
  [go_str]: "trimLeftSet cs s = dropWhile (\<lambda>c. c \<in> set cs) s"

definition trimRightSet :: "string \<Rightarrow> string \<Rightarrow> string" where
  [go_str]: "trimRightSet cs s = rev (trimLeftSet cs (rev s))"

lemma hasPrefix_prefix: "hasPrefix s p \<longleftrightarrow> prefix p s"
  by (auto simp: hasPrefix_def prefix_def) (metis append_take_drop_id)

lemma hasPrefix_append [simp]: "hasPrefix (p @ s) p"
  by (simp add: hasPrefix_def)

subsection \<open>White space\<close>

text \<open>
  \<^verbatim>\<open>strings.TrimSpace\<close> removes the runes of \<^verbatim>\<open>unicode.IsSpace\<close>: six ASCII bytes
  and the UTF-8 encodings of U+0085, U+00A0, U+1680, U+2000 to U+200A, U+2028, U+2029, U+202F,
  U+205F and U+3000. The two- and three-byte encodings are matched on the front of the string, and on
  the front of the reversed string for the right end.
\<close>

definition spaceByte :: "char \<Rightarrow> bool" where
  "spaceByte c \<longleftrightarrow> c \<in> {CHR 0x09, CHR 0x0A, CHR 0x0B, CHR 0x0C, CHR 0x0D, CHR '' ''}"

definition spaceRune2 :: "char \<Rightarrow> char \<Rightarrow> bool" where
  "spaceRune2 a b \<longleftrightarrow> a = CHR 0xC2 \<and> (b = CHR 0x85 \<or> b = CHR 0xA0)"

definition spaceRune3 :: "char \<Rightarrow> char \<Rightarrow> char \<Rightarrow> bool" where
  "spaceRune3 a b c \<longleftrightarrow>
     (a = CHR 0xE1 \<and> b = CHR 0x9A \<and> c = CHR 0x80)
   \<or> (a = CHR 0xE2 \<and> b = CHR 0x80 \<and>
        c \<in> {CHR 0x80, CHR 0x81, CHR 0x82, CHR 0x83, CHR 0x84, CHR 0x85, CHR 0x86, CHR 0x87,
             CHR 0x88, CHR 0x89, CHR 0x8A, CHR 0xA8, CHR 0xA9, CHR 0xAF})
   \<or> (a = CHR 0xE2 \<and> b = CHR 0x81 \<and> c = CHR 0x9F)
   \<or> (a = CHR 0xE3 \<and> b = CHR 0x80 \<and> c = CHR 0x80)"

fun trimWith :: "(char \<Rightarrow> char \<Rightarrow> bool) \<Rightarrow> (char \<Rightarrow> char \<Rightarrow> char \<Rightarrow> bool) \<Rightarrow> string \<Rightarrow> string" where
  "trimWith p2 p3 [] = []"
| "trimWith p2 p3 [a] = (if spaceByte a then [] else [a])"
| "trimWith p2 p3 [a, b] =
     (if spaceByte a then trimWith p2 p3 [b] else if p2 a b then [] else [a, b])"
| "trimWith p2 p3 (a # b # c # s) =
     (if spaceByte a then trimWith p2 p3 (b # c # s)
      else if p2 a b then trimWith p2 p3 (c # s)
      else if p3 a b c then trimWith p2 p3 s
      else a # b # c # s)"

definition trimSpaceLeft :: "string \<Rightarrow> string" where
  "trimSpaceLeft = trimWith spaceRune2 spaceRune3"

definition trimSpaceRight :: "string \<Rightarrow> string" where
  "trimSpaceRight s = rev (trimWith (\<lambda>a b. spaceRune2 b a) (\<lambda>a b c. spaceRune3 c b a) (rev s))"

definition trimSpace :: "string \<Rightarrow> string" where
  "trimSpace s = trimSpaceRight (trimSpaceLeft s)"

lemma trimSpace_Nil [simp]: "trimSpace [] = []"
  by (simp add: trimSpace_def trimSpaceLeft_def trimSpaceRight_def)

lemma trimWith_suffix: "suffix (trimWith p2 p3 s) s"
  by (induction p2 p3 s rule: trimWith.induct) (auto intro: suffix_ConsI)

text \<open>Trimming only removes bytes at the two ends.\<close>

lemma trimSpace_sublist: "\<exists>a b. s = a @ trimSpace s @ b"
proof -
  let ?l = "trimSpaceLeft s"
  have "suffix ?l s" unfolding trimSpaceLeft_def by (rule trimWith_suffix)
  then obtain a where a: "s = a @ ?l" by (auto simp: suffix_def)
  obtain b where "rev ?l = b @ rev (trimSpaceRight ?l)"
    using trimWith_suffix [of "\<lambda>a b. spaceRune2 b a" "\<lambda>a b c. spaceRune3 c b a" "rev ?l"]
    by (auto simp: trimSpaceRight_def suffix_def)
  then have "?l = trimSpaceRight ?l @ rev b" by (metis rev_append rev_rev_ident)
  with a show ?thesis unfolding trimSpace_def by metis
qed

lemma set_trimSpace: "set (trimSpace s) \<subseteq> set s"
  using trimSpace_sublist [of s] by (metis Un_upper1 le_supI2 set_append)

lemma length_trimSpace: "length (trimSpace s) \<le> length s"
  using trimSpace_sublist [of s] by (metis le_add1 le_add2 length_append le_trans)

text \<open>Trimming is idempotent: what is left has no space rune at either end.\<close>

fun spaceFront :: "(char \<Rightarrow> char \<Rightarrow> bool) \<Rightarrow> (char \<Rightarrow> char \<Rightarrow> char \<Rightarrow> bool) \<Rightarrow> string \<Rightarrow> bool" where
  "spaceFront p2 p3 [] = False"
| "spaceFront p2 p3 [a] = spaceByte a"
| "spaceFront p2 p3 [a, b] = (spaceByte a \<or> p2 a b)"
| "spaceFront p2 p3 (a # b # c # s) = (spaceByte a \<or> p2 a b \<or> p3 a b c)"

lemma trimWith_front: "\<not> spaceFront p2 p3 (trimWith p2 p3 s)"
  by (induction p2 p3 s rule: trimWith.induct) auto

lemma trimWith_id: "\<not> spaceFront p2 p3 s \<Longrightarrow> trimWith p2 p3 s = s"
  by (cases "(p2, p3, s)" rule: trimWith.cases) auto

lemma spaceFront_prefix: "prefix t s \<Longrightarrow> spaceFront p2 p3 t \<Longrightarrow> spaceFront p2 p3 s"
  by (cases "(p2, p3, t)" rule: spaceFront.cases; cases "(p2, p3, s)" rule: spaceFront.cases)
     (auto simp: prefix_def)

lemma trimSpace_idem [simp]: "trimSpace (trimSpace s) = trimSpace s"
proof -
  let ?l = "trimSpaceLeft s" and ?q2 = "\<lambda>a b. spaceRune2 b a" and ?q3 = "\<lambda>a b c. spaceRune3 c b a"
  have "prefix (trimSpaceRight ?l) ?l"
    using trimWith_suffix [of ?q2 ?q3 "rev ?l"] by (simp add: trimSpaceRight_def suffix_to_prefix)
  then have "\<not> spaceFront spaceRune2 spaceRune3 (trimSpaceRight ?l)"
    using spaceFront_prefix trimWith_front unfolding trimSpaceLeft_def by blast
  then have l: "trimSpaceLeft (trimSpaceRight ?l) = trimSpaceRight ?l"
    unfolding trimSpaceLeft_def by (rule trimWith_id)
  have "\<not> spaceFront ?q2 ?q3 (rev (trimSpaceRight ?l))"
    unfolding trimSpaceRight_def rev_rev_ident by (rule trimWith_front)
  then have "trimSpaceRight (trimSpaceRight ?l) = trimSpaceRight ?l"
    unfolding trimSpaceRight_def [of "trimSpaceRight ?l"] by (simp add: trimWith_id)
  with l show ?thesis by (simp add: trimSpace_def)
qed

subsection \<open>Letter case\<close>

text \<open>
  \<^verbatim>\<open>strings.ToLower\<close> on the ASCII letters and on the two other runes whose lower case is
  an ASCII letter (U+212A maps to k, U+0130 to i). Other bytes are kept: the code compares the
  results with ASCII constants, or two results with each other.
\<close>

definition lowerByte :: "char \<Rightarrow> char" where
  "lowerByte c = (if 65 \<le> (of_char c :: nat) \<and> (of_char c :: nat) \<le> 90
                  then char_of ((of_char c :: nat) + 32) else c)"

fun foldRunes :: "((char \<times> char) \<times> char) list \<Rightarrow> string \<Rightarrow> string" where
  "foldRunes r [] = []"
| "foldRunes r [a] = [lowerByte a]"
| "foldRunes r [a, b] =
     (case map_of r (a, b) of
        Some z \<Rightarrow> [z] | None \<Rightarrow> lowerByte a # foldRunes r [b])"
| "foldRunes r (a # b # c # s) =
     (case map_of r (a, b) of
        Some z \<Rightarrow> z # foldRunes r (c # s)
      | None \<Rightarrow>
         (if a = CHR 0xE2 \<and> b = CHR 0x84 \<and> c = CHR 0xAA then CHR ''k'' # foldRunes r s
          else lowerByte a # foldRunes r (b # c # s)))"

definition toLower :: "string \<Rightarrow> string" where
  "toLower = foldRunes [((CHR 0xC4, CHR 0xB0), CHR ''i'')]"

text \<open>
  \<^verbatim>\<open>strings.EqualFold\<close>, exact when one side is an ASCII constant: the only other runes
  that fold to an ASCII letter are U+017F (s) and U+212A (k).
\<close>

definition foldCase :: "string \<Rightarrow> string" where
  "foldCase = foldRunes [((CHR 0xC5, CHR 0xBF), CHR ''s'')]"

definition equalFold :: "string \<Rightarrow> string \<Rightarrow> bool" where
  "equalFold a b \<longleftrightarrow> foldCase a = foldCase b"

definition upperByte :: "char \<Rightarrow> char" where
  "upperByte c = (if 97 \<le> (of_char c :: nat) \<and> (of_char c :: nat) \<le> 122
                  then char_of ((of_char c :: nat) - 32) else c)"

text \<open>\<^verbatim>\<open>strings.ToUpper\<close> on ASCII bytes (the code applies it to HTTP method names).\<close>

definition toUpper :: "string \<Rightarrow> string" where
  "toUpper s = map upperByte s"

lemma equalFold_refl [simp]: "equalFold s s"
  by (simp add: equalFold_def)

text \<open>The decimal rendering of a number.\<close>

fun showNat :: "nat \<Rightarrow> string" where
  "showNat n = (if n < 10 then [char_of (48 + n)] else showNat (n div 10) @ [char_of (48 + n mod 10)])"

declare showNat.simps [simp del]

section \<open>Slash-separated paths\<close>

text \<open>
  \<^verbatim>\<open>path.Clean\<close>: empty and \<^verbatim>\<open>.\<close> elements are dropped, an inner
  \<^verbatim>\<open>..\<close> removes the element before it, a leading \<^verbatim>\<open>..\<close> of a rooted path is
  dropped, and an empty result is \<^verbatim>\<open>.\<close>. The accumulator holds the elements kept so
  far, last one first.
\<close>

fun cleanElems :: "bool \<Rightarrow> string list \<Rightarrow> string list \<Rightarrow> string list" where
  "cleanElems rooted st [] = rev st"
| "cleanElems rooted st (e # es) =
     (if e = [] \<or> e = ''.'' then cleanElems rooted st es
      else if e = ''..'' then
        (case st of
           [] \<Rightarrow> cleanElems rooted (if rooted then [] else [''..'']) es
         | t # ts \<Rightarrow> (if t = ''..'' then cleanElems rooted (''..'' # st) es
                     else cleanElems rooted ts es))
      else cleanElems rooted (e # st) es)"

definition pathClean :: "string \<Rightarrow> string" where
  "pathClean p =
     (if p = [] then ''.''
      else let rooted = (hd p = CHR ''/'');
               body = joinWith ''/'' (cleanElems rooted [] (splitAll (CHR ''/'') p))
           in if rooted then CHR ''/'' # body else if body = [] then ''.'' else body)"

definition pathIsAbs :: "string \<Rightarrow> bool" where
  "pathIsAbs p = hasPrefix p ''/''"

text \<open>\<^verbatim>\<open>path.Join\<close> of two elements: empty elements are ignored.\<close>

definition pathJoin :: "string \<Rightarrow> string \<Rightarrow> string" where
  "pathJoin a b =
     (if a = [] \<and> b = [] then []
      else if a = [] then pathClean b
      else if b = [] then pathClean a
      else pathClean (a @ ''/'' @ b))"

text \<open>An element of a cleaned path is neither empty nor \<^verbatim>\<open>.\<close> and holds no slash; a
  \<^verbatim>\<open>..\<close> can only be at the front.\<close>

definition plainElem :: "string \<Rightarrow> bool" where
  "plainElem e \<longleftrightarrow> e \<noteq> [] \<and> e \<noteq> ''.'' \<and> e \<noteq> ''..'' \<and> CHR ''/'' \<notin> set e"

lemma splitAll_noslash: "e \<in> set (splitAll d s) \<Longrightarrow> d \<notin> set e"
proof (induction d s arbitrary: e rule: splitAll.induct)
  case (2 d c s)
  then show ?case by (cases "c = d"; cases "splitAll d s") (auto)
qed simp

lemma splitAll_not_Nil [simp]: "splitAll d s \<noteq> []"
  by (induction d s rule: splitAll.induct) (auto split: list.splits)

lemma splitAll_plain [simp]: "d \<notin> set s \<Longrightarrow> splitAll d s = [s]"
  by (induction s) (auto split: list.splits)

lemma splitAll_append: "d \<notin> set a \<Longrightarrow> splitAll d (a @ d # b) = a # splitAll d b"
  by (induction a) (auto split: list.splits)

lemma splitAll_joinWith:
  "es \<noteq> [] \<Longrightarrow> \<forall>e \<in> set es. d \<notin> set e \<Longrightarrow> splitAll d (joinWith [d] es) = es"
  by (induction "[d]" es rule: joinWith.induct) (auto simp: splitAll_append)

text \<open>The shape of the element list: some \<^verbatim>\<open>..\<close> elements (none when rooted), then
  plain ones.\<close>

definition cleanShape :: "bool \<Rightarrow> string list \<Rightarrow> bool" where
  "cleanShape rooted es \<longleftrightarrow>
     (\<exists>n ps. es = replicate n ''..'' @ ps \<and> list_all plainElem ps \<and> (rooted \<longrightarrow> n = 0))"

lemma cleanShape_Nil [simp]: "cleanShape r []"
  by (simp add: cleanShape_def)

lemma cleanShape_snoc:
  assumes "cleanShape r es" and "plainElem e" shows "cleanShape r (es @ [e])"
proof -
  from assms(1) obtain n ps where "es = replicate n ''..'' @ ps" "list_all plainElem ps" "r \<longrightarrow> n = 0"
    by (auto simp: cleanShape_def)
  with assms(2) have "es @ [e] = replicate n ''..'' @ (ps @ [e])" "list_all plainElem (ps @ [e])"
    by simp_all
  with \<open>r \<longrightarrow> n = 0\<close> show ?thesis unfolding cleanShape_def by blast
qed

lemma cleanShape_butlast:
  assumes "cleanShape r (es @ [t])" and "t \<noteq> ''..''" shows "cleanShape r es"
proof -
  from assms(1) obtain n ps where e: "es @ [t] = replicate n ''..'' @ ps"
    and p: "list_all plainElem ps" and r: "r \<longrightarrow> n = 0"
    by (auto simp: cleanShape_def)
  have "ps \<noteq> []"
  proof
    assume "ps = []"
    with e have "t \<in> set (replicate n ''..'')" by (metis append_Nil2 in_set_conv_decomp)
    with assms(2) show False by simp
  qed
  then obtain qs q where q: "ps = qs @ [q]" by (metis rev_exhaust)
  with e have "es = replicate n ''..'' @ qs" by simp
  with p q r show ?thesis by (auto simp: cleanShape_def)
qed

lemma cleanShape_dotdot:
  assumes "cleanShape False (es @ [''..''])" shows "cleanShape False (es @ [''..'', ''..''])"
proof -
  from assms obtain n ps where e: "es @ [''..''] = replicate n ''..'' @ ps"
    and p: "list_all plainElem ps"
    by (auto simp: cleanShape_def)
  have "ps = []"
  proof (rule ccontr)
    assume "ps \<noteq> []"
    then obtain qs q where q: "ps = qs @ [q]" by (metis rev_exhaust)
    with e have "q = ''..''" by simp
    with p q show False by (simp add: plainElem_def)
  qed
  with e have "es @ [''..'', ''..''] = replicate (Suc n) ''..'' @ []"
    by (metis append.assoc append_Cons append_Nil append_Nil2 replicate_Suc replicate_append_same)
  then show ?thesis unfolding cleanShape_def by (metis list.pred_inject(1))
qed

lemma cleanShape_rooted_dotdot: "\<not> cleanShape True (es @ [''..''])"
  unfolding cleanShape_def by (auto simp: list_all_iff plainElem_def)

lemma cleanElems_shape:
  assumes "cleanShape r (rev st)" and "\<forall>e \<in> set es. CHR ''/'' \<notin> set e"
  shows "cleanShape r (cleanElems r st es)"
  using assms
proof (induction r st es rule: cleanElems.induct)
  case (1 r st)
  then show ?case by simp
next
  case (2 r st e es)
  show ?case
  proof (cases "e = [] \<or> e = ''.''")
    case True
    with 2 show ?thesis by simp
  next
    case ne: False
    show ?thesis
    proof (cases "e = ''..''")
      case False
      with ne "2.prems" have "cleanShape r (rev (e # st))"
        by (simp add: cleanShape_snoc plainElem_def)
      with ne False 2 show ?thesis by simp
    next
      case dd: True
      show ?thesis
      proof (cases st)
        case Nil
        have "cleanShape False [''..'']"
          unfolding cleanShape_def by (rule exI [of _ 1], rule exI [of _ "[]"]) simp
        with Nil dd 2 show ?thesis by (cases r) simp_all
      next
        case (Cons t ts)
        show ?thesis
        proof (cases "t = ''..''")
          case True
          with Cons "2.prems" have "r = False" using cleanShape_rooted_dotdot by (cases r) auto
          with True Cons "2.prems" have "cleanShape r (rev (''..'' # st))"
            by (simp add: cleanShape_dotdot)
          with True Cons dd 2 show ?thesis by simp
        next
          case False
          with Cons "2.prems" have "cleanShape r (rev ts)" by (auto intro: cleanShape_butlast)
          with False Cons dd 2 show ?thesis by simp
        qed
      qed
    qed
  qed
qed

lemma cleanElems_id:
  "list_all plainElem es \<Longrightarrow> cleanElems r st es = rev st @ es"
  by (induction es arbitrary: st) (auto simp: plainElem_def)

text \<open>A path is confined when it is \<^verbatim>\<open>.\<close> or all its elements are plain: joined below a
  directory it never leaves it.\<close>

definition confinedPath :: "string \<Rightarrow> bool" where
  "confinedPath p \<longleftrightarrow> p = ''.'' \<or> list_all plainElem (splitAll (CHR ''/'') p)"

lemma joinWith_Nil_iff: "\<forall>e \<in> set es. e \<noteq> [] \<Longrightarrow> joinWith sep es = [] \<longleftrightarrow> es = []"
  by (cases es; cases "tl es") auto

lemma pathClean_confined:
  assumes rel: "\<not> hasPrefix p ''/''"
    and no: "pathClean p \<noteq> ''..''" "\<not> hasPrefix (pathClean p) ''../''"
  shows "confinedPath (pathClean p)"
proof (cases "p = []")
  case True
  then show ?thesis by (simp add: pathClean_def confinedPath_def)
next
  case False
  let ?es = "cleanElems False [] (splitAll (CHR ''/'') p)"
  from rel False have nr: "hd p \<noteq> CHR ''/''" by (cases p) (auto simp: hasPrefix_def)
  have "cleanShape False ?es"
    by (rule cleanElems_shape) (auto dest: splitAll_noslash)
  then obtain n ps where es: "?es = replicate n ''..'' @ ps" and p: "list_all plainElem ps"
    by (auto simp: cleanShape_def)
  have "\<forall>e \<in> set ps. e \<noteq> []" using p by (simp add: list_all_iff plainElem_def)
  then have ne: "\<forall>e \<in> set ?es. e \<noteq> []" unfolding es by (simp add: ball_Un)
  have c: "pathClean p = (if ?es = [] then ''.'' else joinWith ''/'' ?es)"
  proof -
    have "pathClean p = (if joinWith ''/'' ?es = [] then ''.'' else joinWith ''/'' ?es)"
      by (simp only: pathClean_def Let_def False nr if_False)
    then show ?thesis by (simp only: joinWith_Nil_iff [OF ne])
  qed
  have "n = 0"
  proof (rule ccontr)
    assume "n \<noteq> 0"
    then obtain m where "n = Suc m" by (cases n) auto
    with es have "?es = ''..'' # (replicate m ''..'' @ ps)" by simp
    with c no show False
      by (cases "replicate m ''..'' @ ps") (simp_all add: hasPrefix_def)
  qed
  with es p have "list_all plainElem ?es" by simp
  moreover from this have "\<forall>e \<in> set ?es. CHR ''/'' \<notin> set e" by (auto simp: list_all_iff plainElem_def)
  ultimately show ?thesis
    using c splitAll_joinWith [of ?es "CHR ''/''"] by (cases "?es = []") (simp_all add: confinedPath_def)
qed

text \<open>Cleaning a confined path changes nothing.\<close>

lemma pathClean_confined_id:
  assumes "confinedPath p" shows "pathClean p = p"
proof (cases "p = ''.''")
  case True
  then show ?thesis by (simp add: pathClean_def)
next
  case False
  let ?es = "splitAll (CHR ''/'') p"
  have p: "list_all plainElem ?es" using assms False by (simp add: confinedPath_def)
  have j: "joinWith ''/'' ?es = p"
  proof (induction p)
    case (Cons c s)
    then show ?case
      by (cases "splitAll (CHR ''/'') s"; cases "tl (splitAll (CHR ''/'') s)") (auto split: if_splits)
  qed simp
  from p have "p \<noteq> []" by (cases p) (auto simp: plainElem_def)
  moreover have "hd p \<noteq> CHR ''/''" using p \<open>p \<noteq> []\<close> by (cases p) (auto simp: plainElem_def)
  ultimately show ?thesis using p j by (simp add: pathClean_def cleanElems_id)
qed

section \<open>Finite maps as association lists\<close>

text \<open>
  \<^const>\<open>map_of\<close> looks a key up. A store to a present key keeps its place, a store to a new key
  appends: the order is only ever used as an iteration order.
\<close>

type_synonym 'v smap = "(string \<times> 'v) list"

fun mput :: "'k \<Rightarrow> 'v \<Rightarrow> ('k \<times> 'v) list \<Rightarrow> ('k \<times> 'v) list" where
  "mput k v [] = [(k, v)]"
| "mput k v ((k', v') # m) = (if k = k' then (k, v) # m else (k', v') # mput k v m)"

definition mdel :: "'k \<Rightarrow> ('k \<times> 'v) list \<Rightarrow> ('k \<times> 'v) list" where
  "mdel k m = filter (\<lambda>(k', _). k' \<noteq> k) m"

definition mkeys :: "('k \<times> 'v) list \<Rightarrow> 'k list" where
  "mkeys m = map fst m"

abbreviation mwf :: "('k \<times> 'v) list \<Rightarrow> bool" where
  "mwf m \<equiv> distinct (map fst m)"

lemma map_of_mput [simp]: "map_of (mput k v m) = (map_of m)(k \<mapsto> v)"
  by (induction k v m rule: mput.induct) auto

lemma map_of_mdel [simp]: "map_of (mdel k m) = (map_of m)(k := None)"
  by (induction m) (auto simp: mdel_def)

lemma keys_mput: "fst ` set (mput k v m) = insert k (fst ` set m)"
  by (induction k v m rule: mput.induct) auto

lemma mwf_mput [simp]: "mwf m \<Longrightarrow> mwf (mput k v m)"
proof (induction k v m rule: mput.induct)
  case (2 k v k' v' m)
  then show ?case using keys_mput [of k v m] by auto
qed simp

lemma mwf_mdel [simp]: "mwf m \<Longrightarrow> mwf (mdel k m)"
  by (induction m) (auto simp: mdel_def)

lemma set_mdel: "set (mdel k m) = {p \<in> set m. fst p \<noteq> k}"
  by (auto simp: mdel_def)

lemma length_mput: "length (mput k v m) = (if k \<in> fst ` set m then length m else Suc (length m))"
  by (induction k v m rule: mput.induct) auto

lemma length_mdel_le: "length (mdel k m) \<le> length m"
  by (simp add: mdel_def)

lemma length_mdel_less: "k \<in> fst ` set m \<Longrightarrow> length (mdel k m) < length m"
  unfolding mdel_def by (erule imageE, rule length_filter_less) auto

section \<open>Errors\<close>

text \<open>An error of \<^verbatim>\<open>fmt.Errorf\<close>: its format string and the rendered arguments, possibly
  around another error (\<^verbatim>\<open>%w\<close>).\<close>

datatype goError = Errorf string "string list" | Wrapf string "string list" goError

text \<open>Sequencing of fallible steps: \<^verbatim>\<open>if err != nil { return err }\<close>.\<close>

definition andThen :: "'e + 'a \<Rightarrow> ('a \<Rightarrow> 'e + 'b) \<Rightarrow> 'e + 'b" where
  "andThen m f = (case m of Inl e \<Rightarrow> Inl e | Inr a \<Rightarrow> f a)"

definition require :: "bool \<Rightarrow> 'e \<Rightarrow> 'e + 'b \<Rightarrow> 'e + 'b" where
  "require b e k = (if b then k else Inl e)"

definition mapErr :: "('e \<Rightarrow> 'f) \<Rightarrow> 'e + 'a \<Rightarrow> 'f + 'a" where
  "mapErr f m = (case m of Inl e \<Rightarrow> Inl (f e) | Inr a \<Rightarrow> Inr a)"

definition isOk :: "'e + 'a \<Rightarrow> bool" where
  "isOk m \<longleftrightarrow> (case m of Inl _ \<Rightarrow> False | Inr _ \<Rightarrow> True)"

lemma andThen_simps [simp]: "andThen (Inl e) f = Inl e" "andThen (Inr a) f = f a"
  by (simp_all add: andThen_def)

lemma require_simps [simp]: "require True e k = k" "require False e k = Inl e"
  by (simp_all add: require_def)

lemma andThen_Inr [go_err]: "andThen m f = Inr b \<longleftrightarrow> (\<exists>a. m = Inr a \<and> f a = Inr b)"
  by (cases m) auto

lemma require_Inr [go_err]: "require b e k = Inr x \<longleftrightarrow> b \<and> k = Inr x"
  by (simp add: require_def)

lemma mapErr_Inr [go_err]: "mapErr f m = Inr x \<longleftrightarrow> m = Inr x"
  by (cases m) (auto simp: mapErr_def)

lemma isOk_simps [simp]: "isOk (Inr a) = True" "isOk (Inl e) = False"
  by (simp_all add: isOk_def)

lemma isOk_iff: "isOk m \<longleftrightarrow> (\<exists>a. m = Inr a)"
  by (cases m) auto

text \<open>A loop over a collection that returns at the first error.\<close>

fun firstErr :: "('a \<Rightarrow> 'e + unit) \<Rightarrow> 'a list \<Rightarrow> 'e + unit" where
  "firstErr f [] = Inr ()"
| "firstErr f (x # xs) = andThen (f x) (\<lambda>_. firstErr f xs)"

lemma firstErr_ok: "firstErr f xs = Inr () \<longleftrightarrow> (\<forall>x \<in> set xs. f x = Inr ())"
  by (induction xs) (auto simp: go_err)

lemma firstErr_pair_ok:
  "firstErr (case_prod f) m = Inr () \<longleftrightarrow> (\<forall>k v. (k, v) \<in> set m \<longrightarrow> f k v = Inr ())"
  by (auto simp: firstErr_ok)

lemma firstErr_keys_ok:
  assumes "\<And>k v. f (k, v) = Inr () \<longleftrightarrow> P k"
  shows "firstErr f m = Inr () \<longleftrightarrow> (\<forall>k \<in> fst ` set m. P k)"
  by (induction m) (auto simp: go_err assms)

lemma if_err_ok [simp]: "(if b then Inl e else k) = Inr x \<longleftrightarrow> \<not> b \<and> k = Inr x"
  "(if b then k else Inl e) = Inr x \<longleftrightarrow> b \<and> k = Inr x"
  by auto

text \<open>Whether such a loop fails does not depend on the iteration order of the Go map.\<close>

lemma firstErr_order: "set xs = set ys \<Longrightarrow> isOk (firstErr f xs) = isOk (firstErr f ys)"
  by (simp add: isOk_iff firstErr_ok)

end
