(* ===== verification/Json_Model.thy ===== *)
theory Json_Model
  imports Complex_Main Go_Prelude
begin

text \<open>
  Decoded JSON, the shape in which the provider handles Kubernetes objects
  (\<^verbatim>\<open>map[string]any\<close>), and the accessors the code applies to it. The accessors of
  \<^verbatim>\<open>k8s.io/apimachinery\<close> (\<^verbatim>\<open>unstructured.NestedString\<close> and its relatives, the
  metadata getters and \<^verbatim>\<open>equality.Semantic.DeepEqual\<close>) are third-party code: they are the
  fields of the record \<open>unstr\<close>, an argument of every definition that calls them. The
  predicate \<open>unstructured_laws\<close> states what their documentation promises, and
  \<open>reference_unstr\<close> is an implementation of it, used where a concrete input is evaluated.
\<close>

section \<open>JSON values\<close>

text \<open>\<^verbatim>\<open>any\<close> after decoding: \<^verbatim>\<open>nil\<close>, \<^verbatim>\<open>bool\<close>, \<^verbatim>\<open>int64\<close>,
  \<^verbatim>\<open>float64\<close> (the rational it denotes), \<^verbatim>\<open>string\<close>, \<^verbatim>\<open>[]any\<close> and
  \<^verbatim>\<open>map[string]any\<close>.\<close>

datatype json =
    JNull
  | JBool bool
  | JInt int
  | JFloat rat
  | JStr string
  | JArr "json list"
  | JObj "(string \<times> json) list"

type_synonym jmap = "(string \<times> json) list"

text \<open>Reading a key of a Go map that lacks it gives \<^verbatim>\<open>nil\<close>.\<close>

definition jget :: "jmap \<Rightarrow> string \<Rightarrow> json" where
  "jget m k = (case map_of m k of None \<Rightarrow> JNull | Some v \<Rightarrow> v)"

text \<open>The checked type assertions, and the unchecked reading \<^verbatim>\<open>s, _ := v.(string)\<close>.\<close>

definition isStr :: "json \<Rightarrow> string option" where
  "isStr v = (case v of JStr s \<Rightarrow> Some s | _ \<Rightarrow> None)"

definition asStr :: "json \<Rightarrow> string" where
  "asStr v = (case v of JStr s \<Rightarrow> s | _ \<Rightarrow> [])"

definition isObj :: "json \<Rightarrow> jmap option" where
  "isObj v = (case v of JObj m \<Rightarrow> Some m | _ \<Rightarrow> None)"

definition asObj :: "json \<Rightarrow> jmap" where
  "asObj v = (case v of JObj m \<Rightarrow> m | _ \<Rightarrow> [])"

definition isArr :: "json \<Rightarrow> json list option" where
  "isArr v = (case v of JArr xs \<Rightarrow> Some xs | _ \<Rightarrow> None)"

definition asArr :: "json \<Rightarrow> json list" where
  "asArr v = (case v of JArr xs \<Rightarrow> xs | _ \<Rightarrow> [])"

lemma as_simps [simp]: "asStr (JStr t) = t" "asObj (JObj m) = m" "asArr (JArr xs) = xs"
  by (simp_all add: asStr_def asObj_def asArr_def)

lemmas json_access = jget_def isStr_def asStr_def isObj_def asObj_def isArr_def asArr_def

lemma isStr_Some [simp]: "isStr v = Some s \<longleftrightarrow> v = JStr s"
  by (cases v) (auto simp: isStr_def)

lemma isObj_Some [simp]: "isObj v = Some m \<longleftrightarrow> v = JObj m"
  by (cases v) (auto simp: isObj_def)

lemma isArr_Some [simp]: "isArr v = Some xs \<longleftrightarrow> v = JArr xs"
  by (cases v) (auto simp: isArr_def)

lemma jget_mput [simp]: "jget (mput k v m) k' = (if k' = k then v else jget m k')"
  by (simp add: jget_def)

text \<open>Keys are unique in every object of a value.\<close>

fun jwf :: "json \<Rightarrow> bool" where
  "jwf (JArr xs) = list_all jwf xs"
| "jwf (JObj m) = (mwf m \<and> list_all (\<lambda>(k, v). jwf v) m)"
| "jwf v = True"

section \<open>The accessors of apimachinery\<close>

text \<open>
  Each \<^verbatim>\<open>Nested\<close> accessor returns the value, whether it was found, and an error when a
  value on the way or at the end has another type: \<^term>\<open>Inl ()\<close> is the error,
  \<^term>\<open>Inr None\<close> is "not found".
\<close>

record unstr =
  nestedField :: "json \<Rightarrow> string list \<Rightarrow> unit + json option"
  nestedStr :: "json \<Rightarrow> string list \<Rightarrow> unit + string option"
  nestedBool :: "json \<Rightarrow> string list \<Rightarrow> unit + bool option"
  nestedMap :: "json \<Rightarrow> string list \<Rightarrow> unit + jmap option"
  nestedSlice :: "json \<Rightarrow> string list \<Rightarrow> unit + json list option"
  nestedStrMap :: "json \<Rightarrow> string list \<Rightarrow> unit + string smap option"
  setNested :: "json \<Rightarrow> json \<Rightarrow> string list \<Rightarrow> unit + json"
  removeNested :: "json \<Rightarrow> string list \<Rightarrow> json"
  getName :: "json \<Rightarrow> string"
  getNamespace :: "json \<Rightarrow> string"
  getUID :: "json \<Rightarrow> string"
  getResourceVersion :: "json \<Rightarrow> string"
  getGeneration :: "json \<Rightarrow> int"
  getLabels :: "json \<Rightarrow> string smap"
  getAnnotations :: "json \<Rightarrow> string smap"
  getFinalizers :: "json \<Rightarrow> string list"
  getCreation :: "json \<Rightarrow> int option"
  getDeletion :: "json \<Rightarrow> int option"
  setLabels :: "json \<Rightarrow> string smap \<Rightarrow> json"
  setFinalizers :: "json \<Rightarrow> string list \<Rightarrow> json"
  setResourceVersion :: "json \<Rightarrow> string \<Rightarrow> json"
  semanticDeepEqual :: "json \<Rightarrow> json \<Rightarrow> bool"

text \<open>The value when the accessor found one and the zero value otherwise:
  \<^verbatim>\<open>v, _, _ := unstructured.NestedString(...)\<close>.\<close>

definition foundOr :: "'a \<Rightarrow> unit + 'a option \<Rightarrow> 'a" where
  "foundOr d r = (case r of Inr (Some v) \<Rightarrow> v | _ \<Rightarrow> d)"

lemma foundOr_simps [simp]:
  "foundOr d (Inr (Some v)) = v" "foundOr d (Inr None) = d" "foundOr d (Inl e) = d"
  by (simp_all add: foundOr_def)

section \<open>A reference implementation\<close>

fun refField :: "json \<Rightarrow> string list \<Rightarrow> unit + json option" where
  "refField v [] = Inr (Some v)"
| "refField (JObj m) (f # fs) = (case map_of m f of None \<Rightarrow> Inr None | Some v \<Rightarrow> refField v fs)"
| "refField JNull (f # fs) = Inr None"
| "refField v (f # fs) = Inl ()"

definition refTyped :: "(json \<Rightarrow> 'a option) \<Rightarrow> json \<Rightarrow> string list \<Rightarrow> unit + 'a option" where
  "refTyped t v fs =
     (case refField v fs of
        Inl e \<Rightarrow> Inl e
      | Inr None \<Rightarrow> Inr None
      | Inr (Some w) \<Rightarrow> (case t w of None \<Rightarrow> Inl () | Some x \<Rightarrow> Inr (Some x)))"

definition isBool :: "json \<Rightarrow> bool option" where
  "isBool v = (case v of JBool b \<Rightarrow> Some b | _ \<Rightarrow> None)"

definition isStrMap :: "json \<Rightarrow> string smap option" where
  "isStrMap v =
     (case v of
        JObj m \<Rightarrow> (if list_all (\<lambda>(k, w). isStr w \<noteq> None) m then Some (map (\<lambda>(k, w). (k, asStr w)) m) else None)
      | _ \<Rightarrow> None)"

fun refSet :: "json \<Rightarrow> json \<Rightarrow> string list \<Rightarrow> unit + json" where
  "refSet v w [] = Inl ()"
| "refSet (JObj m) w [f] = Inr (JObj (mput f w m))"
| "refSet (JObj m) w (f # g # fs) =
     (case map_of m f of
        None \<Rightarrow> andThen (refSet (JObj []) w (g # fs)) (\<lambda>x. Inr (JObj (mput f x m)))
      | Some x \<Rightarrow> andThen (refSet x w (g # fs)) (\<lambda>y. Inr (JObj (mput f y m))))"
| "refSet v w (f # fs) = Inl ()"

fun refRemove :: "json \<Rightarrow> string list \<Rightarrow> json" where
  "refRemove (JObj m) [f] = JObj (mdel f m)"
| "refRemove (JObj m) (f # g # fs) =
     (case map_of m f of None \<Rightarrow> JObj m | Some x \<Rightarrow> JObj (mput f (refRemove x (g # fs)) m))"
| "refRemove v fs = v"

definition refMetaStr :: "string \<Rightarrow> json \<Rightarrow> string" where
  "refMetaStr f v = foundOr [] (refTyped isStr v [''metadata'', f])"

definition refMetaInt :: "string \<Rightarrow> json \<Rightarrow> int option" where
  "refMetaInt f v = (case refField v [''metadata'', f] of Inr (Some (JInt n)) \<Rightarrow> Some n | _ \<Rightarrow> None)"

definition refSetMeta :: "string \<Rightarrow> json \<Rightarrow> json \<Rightarrow> json" where
  "refSetMeta f w v = (case refSet v w [''metadata'', f] of Inr x \<Rightarrow> x | Inl _ \<Rightarrow> v)"

text \<open>Timestamps of the reference implementation are integers, the nanoseconds they denote.\<close>

definition reference_unstr :: unstr where
  "reference_unstr =
     \<lparr> nestedField = refField,
       nestedStr = refTyped isStr,
       nestedBool = refTyped isBool,
       nestedMap = refTyped isObj,
       nestedSlice = refTyped isArr,
       nestedStrMap = refTyped isStrMap,
       setNested = refSet,
       removeNested = refRemove,
       getName = refMetaStr ''name'',
       getNamespace = refMetaStr ''namespace'',
       getUID = refMetaStr ''uid'',
       getResourceVersion = refMetaStr ''resourceVersion'',
       getGeneration = (\<lambda>v. case refMetaInt ''generation'' v of Some n \<Rightarrow> n | None \<Rightarrow> 0),
       getLabels = (\<lambda>v. foundOr [] (refTyped isStrMap v [''metadata'', ''labels''])),
       getAnnotations = (\<lambda>v. foundOr [] (refTyped isStrMap v [''metadata'', ''annotations''])),
       getFinalizers = (\<lambda>v. map asStr (foundOr [] (refTyped isArr v [''metadata'', ''finalizers'']))),
       getCreation = refMetaInt ''creationTimestamp'',
       getDeletion = refMetaInt ''deletionTimestamp'',
       setLabels = (\<lambda>v ls. refSetMeta ''labels'' (JObj (map (\<lambda>(k, s). (k, JStr s)) ls)) v),
       setFinalizers = (\<lambda>v fs. refSetMeta ''finalizers'' (JArr (map JStr fs)) v),
       setResourceVersion = (\<lambda>v s. refSetMeta ''resourceVersion'' (JStr s) v),
       semanticDeepEqual = (\<lambda>a b. a = b) \<rparr>"

text \<open>
  The documented behaviour the proofs use: the typed accessors read what the untyped one finds,
  a value set is the value read back and leaves paths that branch off alone, and a value is
  deeply equal to itself.
\<close>

definition unstructured_laws :: "unstr \<Rightarrow> bool" where
  "unstructured_laws U \<longleftrightarrow>
     (\<forall>v fs. nestedStr U v fs =
        (case nestedField U v fs of Inl e \<Rightarrow> Inl e | Inr None \<Rightarrow> Inr None
         | Inr (Some w) \<Rightarrow> (case isStr w of None \<Rightarrow> Inl () | Some s \<Rightarrow> Inr (Some s))))
   \<and> (\<forall>v w fs v'. setNested U v w fs = Inr v' \<longrightarrow> nestedField U v' fs = Inr (Some w))
   \<and> (\<forall>v w fs v' p a b r. setNested U v w (p @ a # fs) = Inr v' \<longrightarrow> a \<noteq> b \<longrightarrow>
        nestedField U v' (p @ b # r) = nestedField U v (p @ b # r))
   \<and> (\<forall>v. semanticDeepEqual U v v)"

lemma refField_refSet: "refSet v w fs = Inr v' \<Longrightarrow> refField v' fs = Inr (Some w)"
  by (induction v w fs arbitrary: v' rule: refSet.induct)
     (auto simp: go_err split: option.splits)

lemma refField_refSet_other:
  "refSet v w (p @ a # fs) = Inr v' \<Longrightarrow> a \<noteq> b \<Longrightarrow>
   refField v' (p @ b # r) = refField v (p @ b # r)"
proof (induction p arbitrary: v v')
  case Nil
  then show ?case by (cases v; cases fs) (auto simp: go_err split: option.splits)
next
  case (Cons x p)
  obtain y ys where y: "p @ a # fs = y # ys" by (cases p) auto
  with Cons.prems(1) obtain m where v: "v = JObj m" by (cases v) auto
  obtain z zs where z: "p @ b # r = z # zs" by (cases p) auto
  show ?case
  proof (cases "map_of m x")
    case None
    with Cons.prems(1) v y obtain u where u: "refSet (JObj []) w (p @ a # fs) = Inr u"
      and v': "v' = JObj (mput x u m)" by (auto simp: go_err)
    from Cons.IH [OF u Cons.prems(2)] z have "refField u (p @ b # r) = Inr None" by simp
    with v v' None show ?thesis by simp
  next
    case (Some q)
    with Cons.prems(1) v y obtain u where u: "refSet q w (p @ a # fs) = Inr u"
      and v': "v' = JObj (mput x u m)" by (auto simp: go_err)
    from Cons.IH [OF u Cons.prems(2)] v v' Some show ?thesis by simp
  qed
qed

lemma reference_unstr_laws: "unstructured_laws reference_unstr"
  unfolding unstructured_laws_def
  by (auto simp: reference_unstr_def refTyped_def refField_refSet refField_refSet_other
           split: sum.splits option.splits)

end
