(* ===== verification/Api_Types.thy ===== *)
theory Api_Types
  imports Json_Model
begin

text \<open>
  The API types of \<^verbatim>\<open>apis/v1alpha1\<close> (\<^verbatim>\<open>types_template.go\<close>) as records: one
  field per Go field that the modelled code reads, a pointer as an option, a Go map as an
  association list. A \<^verbatim>\<open>*runtime.RawExtension\<close> is the result of decoding it: absent or
  empty, not JSON, or a value.
\<close>

datatype rawExtension = RawAbsent | RawInvalid | RawJson json

section \<open>The data-plane block\<close>

record dpEndpoint =
  ep_FromStatus :: bool
  ep_ServicePath :: string
  ep_Port :: string
  ep_UpstreamPath :: string
  ep_Methods :: "string list option"  \<comment> \<open>a nil slice is \<^term>\<open>None\<close>\<close>
  ep_Stream :: bool
  ep_Upgrade :: bool

record dpExec =
  ex_MaxTimeoutSeconds :: int
  ex_MaxOutputBytes :: int

record dpComponent =
  dc_Endpoints :: "dpEndpoint smap"
  dc_Exec :: "dpExec option"

record dataPlane =
  dp_RuntimeNamespacePath :: string
  dp_TokenSecretPath :: string
  dp_Endpoints :: "dpEndpoint smap"
  dp_Components :: "dpComponent smap"

section \<open>The development block\<close>

record reloadRule =
  rr_Paths :: "string list"
  rr_Command :: string

record devReload =
  rl_Strategy :: string
  rl_Rules :: "reloadRule list"

record devComponent =
  dv_WorkspacePath :: string
  dv_DevImage :: string
  dv_WorkingDir :: string
  dv_StartCommand :: string
  dv_Port :: string
  dv_ImageInput :: string
  dv_Reload :: "devReload option"

record devScaffold =
  sc_Repository :: string
  sc_Ref :: string

record development =
  dv_ProviderActions :: "bool option"
  dv_MaxLifetimeSeconds :: int
  dv_IdleTimeoutSeconds :: int
  dv_Build :: "string option"  \<comment> \<open>\<^verbatim>\<open>Build.WorkflowPath\<close>\<close>
  dv_Components :: "devComponent smap"
  dv_Scaffold :: "devScaffold option"

section \<open>Templates\<close>

record instanceCRD =
  crd_Group :: string
  crd_Version :: string
  crd_Resource :: string
  crd_Kind :: string

record templateSpec =
  ts_Version :: string
  ts_Exposure :: string
  ts_Backend :: string
  ts_InstanceCRD :: instanceCRD
  ts_Schema :: rawExtension
  ts_BackendConfig :: rawExtension
  ts_SampleValues :: rawExtension
  ts_DataPlane :: "dataPlane option"
  ts_Development :: "development option"

record tmplCondition =
  tc_Type :: string
  tc_Status :: string
  tc_Reason :: string
  tc_Message :: string
  tc_LastTransitionTime :: int
  tc_ObservedGeneration :: int

record backendStatus =
  bs_Name :: string
  bs_Ready :: bool
  bs_Message :: string

record templateStatus =
  st_ObservedGeneration :: int
  st_Backend :: backendStatus
  st_Conditions :: "tmplCondition list"

record template =
  tm_Name :: string
  tm_Labels :: "string smap"
  tm_Generation :: int
  tm_DeletionTimestamp :: "int option"
  tm_Finalizers :: "string list"
  tm_Spec :: templateSpec
  tm_Status :: templateStatus

definition UniversalCodingSandboxTemplateName :: string where
  "UniversalCodingSandboxTemplateName = ''universal-coding-sandbox''"

definition GroupName :: string where "GroupName = ''infrastructure.railgrid.ai''"

definition ApiVersion :: string where "ApiVersion = ''v1alpha1''"

definition NetworkPhaseField :: string where "NetworkPhaseField = ''railgridNetworkPhase''"

definition NetworkPhaseSetup :: string where "NetworkPhaseSetup = ''setup''"

definition NetworkPhaseRuntime :: string where "NetworkPhaseRuntime = ''runtime''"

definition NetworkPhaseStatusField :: string where "NetworkPhaseStatusField = ''railgridNetworkPhase''"

lemmas api_consts = UniversalCodingSandboxTemplateName_def GroupName_def ApiVersion_def
  NetworkPhaseField_def NetworkPhaseSetup_def NetworkPhaseRuntime_def

text \<open>\<^verbatim>\<open>TemplateSpec.ExposureClass\<close>: an empty class reads as internal.\<close>

definition exposureClass :: "templateSpec \<Rightarrow> string" where
  "exposureClass s = (if ts_Exposure s = [] then ''internal'' else ts_Exposure s)"

definition publishable :: "templateSpec \<Rightarrow> bool" where
  "publishable s \<longleftrightarrow> exposureClass s \<noteq> ''internal''"

end
