(* ===== verification/Template_Validation.thy ===== *)
theory Template_Validation
  imports Api_Types "HOL-Library.Multiset"
begin

text \<open>
  \<^verbatim>\<open>apis/v1alpha1/template_validation.go\<close>: the structural rules on a Template's
  development block and on its relation to the data-plane block. The theorems give the validator
  a declarative specification, show that its verdict does not depend on the iteration order of
  the Go maps, and that an accepted template assigns every workspace file to at most one
  component, inside the workspace.
\<close>

section \<open>The validators\<close>

definition lowerLetter :: "char \<Rightarrow> bool" where
  "lowerLetter c \<longleftrightarrow> c \<in> set ''abcdefghijklmnopqrstuvwxyz''"

definition digit :: "char \<Rightarrow> bool" where
  "digit c \<longleftrightarrow> c \<in> set ''0123456789''"

text \<open>\<^verbatim>\<open>^[a-z][a-z0-9-]*$\<close>\<close>

definition componentNameRE :: "string \<Rightarrow> bool" where
  "componentNameRE s \<longleftrightarrow>
     (case s of [] \<Rightarrow> False
      | c # cs \<Rightarrow> lowerLetter c \<and> list_all (\<lambda>c. lowerLetter c \<or> digit c \<or> c = CHR ''-'') cs)"

text \<open>\<^verbatim>\<open>^[^@\s]+@sha256:[a-f0-9]{64}$\<close>: the name holds no \<^verbatim>\<open>@\<close>, so the first one is
  the separator.\<close>

definition immutableImageRefRE :: "string \<Rightarrow> bool" where
  "immutableImageRefRE s \<longleftrightarrow>
     (case cutAt (CHR ''@'') s of (name, rest, found) \<Rightarrow>
        found \<and> name \<noteq> []
        \<and> list_all (\<lambda>c. c \<notin> {CHR 0x09, CHR 0x0A, CHR 0x0C, CHR 0x0D, CHR '' ''}) name
        \<and> hasPrefix rest ''sha256:'' \<and> length rest = 71
        \<and> list_all (\<lambda>c. c \<in> set ''abcdef0123456789'') (drop 7 rest))"

definition validateImmutableImageRef :: "string \<Rightarrow> string + unit" where
  "validateImmutableImageRef image0 =
     (let image = trimSpace image0 in
      if immutableImageRefRE image then Inr () else Inl image)"

datatype pathError = PathEmpty | PathAbsolute string | PathEscapes string

definition normalizeWorkspacePath :: "string \<Rightarrow> pathError + string" where
  "normalizeWorkspacePath p0 =
     (let p = trimSpace p0; clean = pathClean p in
      if p = [] then Inl PathEmpty
      else if hasPrefix p ''/'' then Inl (PathAbsolute p)
      else if clean = ''..'' \<or> hasPrefix clean ''../'' then Inl (PathEscapes p)
      else Inr clean)"

datatype workflowError = WorkflowRequired | WorkflowMalformed string

text \<open>\<^verbatim>\<open>^\.github/workflows/[^/]+\.ya?ml$\<close>\<close>

definition developmentWorkflowPathRE :: "string \<Rightarrow> bool" where
  "developmentWorkflowPathRE s \<longleftrightarrow>
     (case cutPrefix s ''.github/workflows/'' of
        None \<Rightarrow> False
      | Some rest \<Rightarrow> CHR ''/'' \<notin> set rest \<and>
          ((hasSuffix rest ''.yml'' \<and> 4 < length rest) \<or> (hasSuffix rest ''.yaml'' \<and> 5 < length rest)))"

definition validateDevelopmentWorkflowPath :: "string \<Rightarrow> workflowError + unit" where
  "validateDevelopmentWorkflowPath w0 =
     (let w = trimSpace w0 in
      if w = [] then Inl WorkflowRequired
      else if \<not> developmentWorkflowPathRE w \<or> pathClean w \<noteq> w then Inl (WorkflowMalformed w)
      else Inr ())"

datatype devError =
    DataPlaneEmpty
  | DataPlaneKey string
  | ExecNeedsDevelopment string
  | MaxLifetimeRange
  | IdleTimeoutRange
  | NoComponents
  | WorkflowPathError workflowError
  | ComponentKey string
  | WorkspacePathError string pathError
  | DuplicatePath string string string
  | StartCommandRequired string
  | RulePathsRequired string nat
  | RuleCommandRequired string nat
  | RootClaimed string string
  | PrefixPath string string string string
  | UnmatchedDataPlane string

text \<open>The rules of one component, numbered as in the slice.\<close>

fun checkRules :: "string \<Rightarrow> nat \<Rightarrow> reloadRule list \<Rightarrow> devError + unit" where
  "checkRules name i [] = Inr ()"
| "checkRules name i (r # rs) =
     (if rr_Paths r = [] then Inl (RulePathsRequired name i)
      else if trimSpace (rr_Command r) = [] then Inl (RuleCommandRequired name i)
      else checkRules name (Suc i) rs)"

definition checkReload :: "string \<Rightarrow> devReload option \<Rightarrow> devError + unit" where
  "checkReload name rl = (case rl of None \<Rightarrow> Inr () | Some r \<Rightarrow> checkRules name 0 (rl_Rules r))"

text \<open>The loop over the components; the accumulator is \<^verbatim>\<open>seenPaths\<close>, which maps a
  normalized path to the component that claimed it.\<close>

fun checkComponents :: "string smap \<Rightarrow> devComponent smap \<Rightarrow> devError + string smap" where
  "checkComponents seen [] = Inr seen"
| "checkComponents seen ((name, cmp) # cs) =
     (if \<not> componentNameRE name then Inl (ComponentKey name)
      else case normalizeWorkspacePath (dv_WorkspacePath cmp) of
        Inl e \<Rightarrow> Inl (WorkspacePathError name e)
      | Inr wp \<Rightarrow>
          (case map_of seen wp of
             Some prev \<Rightarrow> Inl (DuplicatePath name (dv_WorkspacePath cmp) prev)
           | None \<Rightarrow>
               let seen' = mput wp name seen in
               if trimSpace (dv_StartCommand cmp) = [] then Inl (StartCommandRequired name)
               else andThen (checkReload name (dv_Reload cmp)) (\<lambda>_. checkComponents seen' cs)))"

definition checkPathPair :: "string smap \<Rightarrow> string \<times> string \<Rightarrow> devError + unit" where
  "checkPathPair seen p =
     (case p of (a, an) \<Rightarrow>
        if a = ''.'' \<and> 1 < length seen then Inl (RootClaimed an a)
        else firstErr (\<lambda>(b, bn).
               if a = b \<or> a = ''.'' \<or> b = ''.'' then Inr ()
               else if hasPrefix (b @ ''/'') (a @ ''/'') then Inl (PrefixPath an a bn b)
               else Inr ()) seen)"

definition checkDataPlane :: "templateSpec \<Rightarrow> devError + unit" where
  "checkDataPlane s =
     (case ts_DataPlane s of
        None \<Rightarrow> Inr ()
      | Some dp \<Rightarrow>
          if dp_Endpoints dp = [] \<and> dp_Components dp = [] then Inl DataPlaneEmpty
          else firstErr (\<lambda>(name, cmp).
                 if \<not> componentNameRE name then Inl (DataPlaneKey name)
                 else if dc_Exec cmp \<noteq> None \<and> ts_Development s = None
                   then Inl (ExecNeedsDevelopment name)
                 else Inr ()) (dp_Components dp))"

definition checkDataPlaneSubset :: "dataPlane option \<Rightarrow> development \<Rightarrow> devError + unit" where
  "checkDataPlaneSubset dp dev =
     (case dp of
        None \<Rightarrow> Inr ()
      | Some d \<Rightarrow> firstErr (\<lambda>(name, _).
          if map_of (dv_Components dev) name = None then Inl (UnmatchedDataPlane name) else Inr ())
          (dp_Components d))"

definition checkDevelopmentBlock :: "dataPlane option \<Rightarrow> development \<Rightarrow> devError + unit" where
  "checkDevelopmentBlock dp dev =
     (if dv_MaxLifetimeSeconds dev < 0 \<or> 604800 < dv_MaxLifetimeSeconds dev then Inl MaxLifetimeRange
      else if dv_IdleTimeoutSeconds dev < 0 \<or> 604800 < dv_IdleTimeoutSeconds dev then Inl IdleTimeoutRange
      else if dv_Components dev = [] then Inl NoComponents
      else andThen
        (case dv_Build dev of
           None \<Rightarrow> Inr ()
         | Some w \<Rightarrow> mapErr WorkflowPathError (validateDevelopmentWorkflowPath w))
        (\<lambda>_. andThen (checkComponents [] (dv_Components dev))
        (\<lambda>seen. andThen (firstErr (checkPathPair seen) seen)
        (\<lambda>_. checkDataPlaneSubset dp dev))))"

definition validateDevelopment :: "templateSpec \<Rightarrow> devError + unit" where
  "validateDevelopment s =
     andThen (checkDataPlane s)
       (\<lambda>_. case ts_Development s of
              None \<Rightarrow> Inr ()
            | Some dev \<Rightarrow> checkDevelopmentBlock (ts_DataPlane s) dev)"

section \<open>What acceptance means\<close>

definition workspacePathOf :: "devComponent \<Rightarrow> string" where
  "workspacePathOf c = (case normalizeWorkspacePath (dv_WorkspacePath c) of Inr wp \<Rightarrow> wp | Inl _ \<Rightarrow> [])"

definition ruleOk :: "reloadRule \<Rightarrow> bool" where
  "ruleOk r \<longleftrightarrow> rr_Paths r \<noteq> [] \<and> trimSpace (rr_Command r) \<noteq> []"

definition componentOk :: "string \<times> devComponent \<Rightarrow> bool" where
  "componentOk p \<longleftrightarrow>
     componentNameRE (fst p)
   \<and> isOk (normalizeWorkspacePath (dv_WorkspacePath (snd p)))
   \<and> trimSpace (dv_StartCommand (snd p)) \<noteq> []
   \<and> (\<forall>rl. dv_Reload (snd p) = Some rl \<longrightarrow> list_all ruleOk (rl_Rules rl))"

text \<open>Path \<open>a\<close> claims the files at and below itself; \<^verbatim>\<open>.\<close> claims the whole workspace.\<close>

definition ownsFile :: "string \<Rightarrow> string \<Rightarrow> bool" where
  "ownsFile a f \<longleftrightarrow> a = ''.'' \<or> hasPrefix (f @ ''/'') (a @ ''/'')"

text \<open>The specification of the development block, with no reference to iteration: every
  component is well formed, the normalized paths are pairwise distinct and none is at or below
  another.\<close>

definition developmentSpec :: "dataPlane option \<Rightarrow> development \<Rightarrow> bool" where
  "developmentSpec dp dev \<longleftrightarrow>
     0 \<le> dv_MaxLifetimeSeconds dev \<and> dv_MaxLifetimeSeconds dev \<le> 604800
   \<and> 0 \<le> dv_IdleTimeoutSeconds dev \<and> dv_IdleTimeoutSeconds dev \<le> 604800
   \<and> dv_Components dev \<noteq> []
   \<and> (\<forall>w. dv_Build dev = Some w \<longrightarrow> isOk (validateDevelopmentWorkflowPath w))
   \<and> (\<forall>p \<in> set (dv_Components dev). componentOk p)
   \<and> distinct (map (workspacePathOf \<circ> snd) (dv_Components dev))
   \<and> (\<forall>p \<in> set (dv_Components dev). \<forall>q \<in> set (dv_Components dev).
        workspacePathOf (snd p) \<noteq> workspacePathOf (snd q) \<longrightarrow>
        \<not> ownsFile (workspacePathOf (snd p)) (workspacePathOf (snd q)))
   \<and> (\<forall>d. dp = Some d \<longrightarrow> fst ` set (dp_Components d) \<subseteq> fst ` set (dv_Components dev))"

definition dataPlaneSpec :: "templateSpec \<Rightarrow> bool" where
  "dataPlaneSpec s \<longleftrightarrow>
     (\<forall>dp. ts_DataPlane s = Some dp \<longrightarrow>
        (dp_Endpoints dp \<noteq> [] \<or> dp_Components dp \<noteq> [])
      \<and> (\<forall>p \<in> set (dp_Components dp). componentNameRE (fst p)
           \<and> (dc_Exec (snd p) \<noteq> None \<longrightarrow> ts_Development s \<noteq> None)))"

lemma mput_new: "k \<notin> fst ` set m \<Longrightarrow> mput k v m = m @ [(k, v)]"
  by (induction k v m rule: mput.induct) auto

lemma checkRules_ok: "checkRules n i rs = Inr () \<longleftrightarrow> list_all ruleOk rs"
  by (induction n i rs rule: checkRules.induct) (auto simp: ruleOk_def)

lemma checkReload_ok:
  "checkReload n rl = Inr () \<longleftrightarrow> (\<forall>r. rl = Some r \<longrightarrow> list_all ruleOk (rl_Rules r))"
  by (cases rl) (auto simp: checkReload_def checkRules_ok)

lemma checkComponents_ok:
  "checkComponents seen cs = Inr seen' \<longleftrightarrow>
     (\<forall>p \<in> set cs. componentOk p) \<and> distinct (map (workspacePathOf \<circ> snd) cs)
   \<and> fst ` set seen \<inter> set (map (workspacePathOf \<circ> snd) cs) = {}
   \<and> seen' = seen @ map (\<lambda>(n, c). (workspacePathOf c, n)) cs"
proof (induction cs arbitrary: seen)
  case Nil
  then show ?case by auto
next
  case (Cons p cs)
  obtain name cmp where [simp]: "p = (name, cmp)" by (cases p)
  show ?case
  proof (cases "componentOk (name, cmp)")
    case False
    then show ?thesis
      using checkReload_ok [of name "dv_Reload cmp"]
      by (auto simp: componentOk_def Let_def andThen_def split: sum.splits option.splits)
  next
    case ok: True
    then obtain wp where wp: "normalizeWorkspacePath (dv_WorkspacePath cmp) = Inr wp"
      by (auto simp: componentOk_def isOk_iff)
    then have w: "workspacePathOf cmp = wp" by (simp add: workspacePathOf_def)
    have rl: "checkReload name (dv_Reload cmp) = Inr ()"
      using ok by (simp add: componentOk_def checkReload_ok)
    show ?thesis
    proof (cases "map_of seen wp")
      case (Some prev)
      then have "wp \<in> fst ` set seen" by (metis domI dom_map_of_conv_image_fst)
      with Some ok wp w show ?thesis by (auto simp: componentOk_def)
    next
      case None
      then have n: "wp \<notin> fst ` set seen" by (simp add: map_of_eq_None_iff)
      have "checkComponents seen (p # cs) = checkComponents (seen @ [(wp, name)]) cs"
        using ok wp None rl n by (simp add: componentOk_def Let_def mput_new)
      also have "\<dots> = Inr seen' \<longleftrightarrow>
        (\<forall>p \<in> set cs. componentOk p) \<and> distinct (map (workspacePathOf \<circ> snd) cs)
        \<and> fst ` set (seen @ [(wp, name)]) \<inter> set (map (workspacePathOf \<circ> snd) cs) = {}
        \<and> seen' = (seen @ [(wp, name)]) @ map (\<lambda>(n, c). (workspacePathOf c, n)) cs"
        by (rule Cons.IH)
      finally show ?thesis using ok w n by auto
    qed
  qed
qed

lemma ownsFile_prefix:
  assumes "ownsFile a f" "ownsFile b f" "a \<noteq> ''.''" "b \<noteq> ''.''"
  shows "ownsFile a b \<or> ownsFile b a"
  using assms prefix_same_cases unfolding ownsFile_def hasPrefix_prefix by blast

lemma ownsFile_root: "a \<noteq> ''.'' \<Longrightarrow> \<not> ownsFile a ''.''"
  by (cases a; cases "tl a") (auto simp: ownsFile_def hasPrefix_def)

lemma checkPathPair_ok:
  "checkPathPair seen (a, an) = Inr () \<longleftrightarrow>
     (a = ''.'' \<longrightarrow> length seen \<le> 1)
   \<and> (a \<noteq> ''.'' \<longrightarrow> (\<forall>b \<in> fst ` set seen. b = a \<or> b = ''.'' \<or> \<not> hasPrefix (b @ ''/'') (a @ ''/'')))"
proof -
  have "firstErr (\<lambda>(b, bn). if a = b \<or> a = ''.'' \<or> b = ''.'' then Inr ()
          else if hasPrefix (b @ ''/'') (a @ ''/'') then Inl (PrefixPath an a bn b) else Inr ()) seen = Inr ()
    \<longleftrightarrow> (\<forall>b \<in> fst ` set seen. a = ''.'' \<or> b = a \<or> b = ''.'' \<or> \<not> hasPrefix (b @ ''/'') (a @ ''/''))"
    by (rule firstErr_keys_ok) auto
  then show ?thesis unfolding checkPathPair_def by (cases "a = ''.''") (simp_all add: not_less)
qed

text \<open>The pairwise check of the seen paths decides the overlap clause of the specification.\<close>

lemma pathPairs_ok:
  assumes d: "distinct (map fst seen)"
  shows "firstErr (checkPathPair seen) seen = Inr () \<longleftrightarrow>
    (\<forall>a \<in> fst ` set seen. \<forall>b \<in> fst ` set seen. a \<noteq> b \<longrightarrow> \<not> ownsFile a b)"
proof -
  have root: "length seen \<le> 1" if "''.'' \<in> fst ` set seen"
    and "\<forall>a \<in> fst ` set seen. \<forall>b \<in> fst ` set seen. a \<noteq> b \<longrightarrow> \<not> ownsFile a b"
  proof -
    have "b = ''.''" if "b \<in> fst ` set seen" for b
    proof (rule ccontr)
      assume "b \<noteq> ''.''"
      then have "\<not> ownsFile ''.'' b" using \<open>''.'' \<in> fst ` set seen\<close> that
          \<open>\<forall>a \<in> fst ` set seen. \<forall>b \<in> fst ` set seen. a \<noteq> b \<longrightarrow> \<not> ownsFile a b\<close> by metis
      then show False by (simp add: ownsFile_def)
    qed
    then have "fst ` set seen \<subseteq> {''.''}" by blast
    then have "card (set (map fst seen)) \<le> card {''.''}" by (intro card_mono) auto
    then show ?thesis using distinct_card [OF d] by simp
  qed
  have "firstErr (checkPathPair seen) seen = Inr () \<longleftrightarrow>
    (\<forall>a \<in> fst ` set seen. (a = ''.'' \<longrightarrow> length seen \<le> 1) \<and>
       (a \<noteq> ''.'' \<longrightarrow> (\<forall>b \<in> fst ` set seen. b = a \<or> b = ''.'' \<or> \<not> ownsFile a b)))"
    by (rule firstErr_keys_ok) (simp add: checkPathPair_ok ownsFile_def)
  also have "\<dots> \<longleftrightarrow> (\<forall>a \<in> fst ` set seen. \<forall>b \<in> fst ` set seen. a \<noteq> b \<longrightarrow> \<not> ownsFile a b)"
    (is "?l \<longleftrightarrow> ?r")
  proof
    assume l: ?l
    show ?r
    proof (intro ballI impI)
      fix a b assume ab: "a \<in> fst ` set seen" "b \<in> fst ` set seen" "a \<noteq> b"
      show "\<not> ownsFile a b"
      proof (cases "a = ''.'' \<or> b = ''.''")
        case True
        with bspec [OF l ab(1)] bspec [OF l ab(2)] have "length seen \<le> 1" by auto
        then have "a = b" using ab(1,2) by (cases seen) auto
        with ab(3) show ?thesis by simp
      next
        case False
        with bspec [OF l ab(1)] ab(2,3) show ?thesis by auto
      qed
    qed
  next
    assume r: ?r
    then show ?l using root by (metis)
  qed
  finally show ?thesis .
qed

lemma subset_ok:
  "checkDataPlaneSubset dp dev = Inr () \<longleftrightarrow>
     (\<forall>d. dp = Some d \<longrightarrow> fst ` set (dp_Components d) \<subseteq> fst ` set (dv_Components dev))"
proof (cases dp)
  case (Some d)
  have "checkDataPlaneSubset dp dev = Inr () \<longleftrightarrow>
      (\<forall>k \<in> fst ` set (dp_Components d). k \<in> fst ` set (dv_Components dev))"
    unfolding checkDataPlaneSubset_def Some option.case
    by (rule firstErr_keys_ok) (simp add: map_of_eq_None_iff)
  with Some show ?thesis by (simp add: image_subset_iff)
qed (simp add: checkDataPlaneSubset_def)

lemma checkDevelopmentBlock_spec:
  "checkDevelopmentBlock dp dev = Inr () \<longleftrightarrow> developmentSpec dp dev"
proof -
  let ?cs = "dv_Components dev"
  let ?seen = "map (\<lambda>(n, c). (workspacePathOf c, n)) ?cs"
  have f: "fst ` set ?seen = (workspacePathOf \<circ> snd) ` set ?cs" by (force simp: image_def)
  have m: "map fst ?seen = map (workspacePathOf \<circ> snd) ?cs" by auto
  have wf: "(case dv_Build dev of None \<Rightarrow> Inr ()
             | Some w \<Rightarrow> mapErr WorkflowPathError (validateDevelopmentWorkflowPath w)) = Inr () \<longleftrightarrow>
            (\<forall>w. dv_Build dev = Some w \<longrightarrow> isOk (validateDevelopmentWorkflowPath w))"
    by (cases "dv_Build dev") (auto simp: go_err isOk_iff)
  show ?thesis
    unfolding checkDevelopmentBlock_def developmentSpec_def
    using pathPairs_ok [of ?seen, unfolded m f]
    by (auto simp: go_err checkComponents_ok wf subset_ok not_less)
qed

lemma checkDataPlane_spec: "checkDataPlane s = Inr () \<longleftrightarrow> dataPlaneSpec s"
  by (cases "ts_DataPlane s") (fastforce simp: checkDataPlane_def dataPlaneSpec_def firstErr_pair_ok)+

lemma normalizeWorkspacePath_confined:
  "normalizeWorkspacePath p = Inr wp \<Longrightarrow> confinedPath wp"
  using pathClean_confined [of "trimSpace p"]
  by (auto simp: normalizeWorkspacePath_def Let_def split: if_splits)

lemma workspacePathOf_confined: "componentOk p \<Longrightarrow> confinedPath (workspacePathOf (snd p))"
  by (auto simp: componentOk_def workspacePathOf_def isOk_iff dest: normalizeWorkspacePath_confined)

lemma developmentSpec_order:
  assumes "mset cs = mset cs'"
  shows "developmentSpec dp (dev\<lparr>dv_Components := cs\<rparr>) = developmentSpec dp (dev\<lparr>dv_Components := cs'\<rparr>)"
proof -
  have "set cs = set cs'" and "cs = [] \<longleftrightarrow> cs' = []"
    using assms by (auto dest: mset_eq_setD)
  moreover have "distinct (map (workspacePathOf \<circ> snd) cs) = distinct (map (workspacePathOf \<circ> snd) cs')"
    using assms by (metis mset_eq_imp_distinct_iff mset_map)
  ultimately show ?thesis by (simp add: developmentSpec_def)
qed

section \<open>Properties\<close>

text \<open>C15: \<^verbatim>\<open>ValidateDevelopment\<close> accepts a template exactly when the declarative
  specification of its data-plane block and of its development block holds: the loop with its
  \<^verbatim>\<open>seenPaths\<close> accumulator and the quadratic prefix check decide "component names are
  labels, paths normalize, no component's path is at or below another's".\<close>

theorem validateDevelopment_spec:
  "validateDevelopment s = Inr () \<longleftrightarrow>
     dataPlaneSpec s \<and> (\<forall>dev. ts_Development s = Some dev \<longrightarrow> developmentSpec (ts_DataPlane s) dev)"
  by (cases "ts_Development s")
     (simp_all add: validateDevelopment_def go_err checkDataPlane_spec checkDevelopmentBlock_spec)

definition sample_component :: "string \<Rightarrow> devComponent" where
  "sample_component wp = \<lparr>dv_WorkspacePath = wp, dv_DevImage = ''node'', dv_WorkingDir = [],
     dv_StartCommand = ''npm start'', dv_Port = [], dv_ImageInput = [], dv_Reload = None\<rparr>"

definition sample_development :: development where
  "sample_development = \<lparr>dv_ProviderActions = None, dv_MaxLifetimeSeconds = 3600,
     dv_IdleTimeoutSeconds = 600, dv_Build = None,
     dv_Components = [(''web'', sample_component ''web''), (''api'', sample_component ''srv/api'')],
     dv_Scaffold = None\<rparr>"

definition sample_spec :: templateSpec where
  "sample_spec = \<lparr>ts_Version = ''1.0.0'', ts_Exposure = ''optional'', ts_Backend = ''kro'',
     ts_InstanceCRD = \<lparr>crd_Group = ''g'', crd_Version = ''v1'', crd_Resource = ''apps'', crd_Kind = ''App''\<rparr>,
     ts_Schema = RawAbsent, ts_BackendConfig = RawAbsent, ts_SampleValues = RawAbsent,
     ts_DataPlane = None, ts_Development = Some sample_development\<rparr>"

lemma sample_spec_ok: "validateDevelopment sample_spec = Inr ()"
  by code_simp

theorem validateDevelopment_spec_witness:
  "developmentSpec (ts_DataPlane sample_spec) sample_development"
  using validateDevelopment_spec [of sample_spec] sample_spec_ok by (simp add: sample_spec_def)

text \<open>an accepted template routes every workspace file to at most one development
  component, and every component's path stays inside the workspace: two components of which both
  own a file are the same entry.\<close>

theorem validateDevelopment_routing:
  assumes "validateDevelopment s = Inr ()" and "ts_Development s = Some dev"
    and "p \<in> set (dv_Components dev)" and "q \<in> set (dv_Components dev)"
    and "ownsFile (workspacePathOf (snd p)) f" and "ownsFile (workspacePathOf (snd q)) f"
  shows "p = q \<and> confinedPath (workspacePathOf (snd p))"
proof -
  have spec: "developmentSpec (ts_DataPlane s) dev"
    using assms(1,2) by (simp add: validateDevelopment_def go_err checkDevelopmentBlock_spec)
  then have ov: "\<And>a b. a \<in> set (dv_Components dev) \<Longrightarrow> b \<in> set (dv_Components dev) \<Longrightarrow>
      workspacePathOf (snd a) \<noteq> workspacePathOf (snd b) \<Longrightarrow>
      \<not> ownsFile (workspacePathOf (snd a)) (workspacePathOf (snd b))"
    and inj: "inj_on (workspacePathOf \<circ> snd) (set (dv_Components dev))"
    and ok: "componentOk p"
    using assms(3) by (simp_all add: developmentSpec_def distinct_map)
  have "workspacePathOf (snd p) = workspacePathOf (snd q)"
  proof (rule ccontr)
    assume ne: "workspacePathOf (snd p) \<noteq> workspacePathOf (snd q)"
    have "\<not> ownsFile ''.'' f" if "ownsFile ''.'' x \<Longrightarrow> False" for x
      using that by (simp add: ownsFile_def)
    with ov [OF assms(3,4) ne] ov [OF assms(4,3)] ne
      ownsFile_prefix [OF assms(5,6)] show False by (metis ownsFile_def)
  qed
  then have "p = q" using inj_onD [OF inj _ assms(3,4)] by simp
  with ok show ?thesis by (simp add: workspacePathOf_confined)
qed

theorem validateDevelopment_routing_witness:
  "confinedPath (workspacePathOf (sample_component ''srv/api''))"
proof -
  have "ownsFile (workspacePathOf (snd (''api'', sample_component ''srv/api''))) ''srv/api/main.go''"
    by code_simp
  then show ?thesis
    using validateDevelopment_routing [OF sample_spec_ok, of sample_development
        "(''api'', sample_component ''srv/api'')" "(''api'', sample_component ''srv/api'')" "''srv/api/main.go''"]
    by (simp add: sample_spec_def sample_development_def)
qed

text \<open>the verdict does not depend on the order in which Go ranges over the components map:
  for any two iteration orders of the same components either both are accepted or both are
  rejected.\<close>

theorem validateDevelopment_order:
  assumes "mset cs = mset cs'"
  shows "isOk (validateDevelopment (s\<lparr>ts_Development := Some (dev\<lparr>dv_Components := cs\<rparr>)\<rparr>)) =
         isOk (validateDevelopment (s\<lparr>ts_Development := Some (dev\<lparr>dv_Components := cs'\<rparr>)\<rparr>))"
  using developmentSpec_order [OF assms, of "ts_DataPlane s" dev]
  by (simp add: isOk_iff validateDevelopment_def go_err checkDevelopmentBlock_spec checkDataPlane_spec
        dataPlaneSpec_def)

theorem validateDevelopment_order_witness:
  "isOk (validateDevelopment (sample_spec\<lparr>ts_Development := Some (sample_development\<lparr>dv_Components :=
      [(''api'', sample_component ''srv/api''), (''web'', sample_component ''web'')]\<rparr>)\<rparr>))"
proof -
  have "isOk (validateDevelopment (sample_spec\<lparr>ts_Development := Some (sample_development\<lparr>dv_Components :=
      [(''web'', sample_component ''web''), (''api'', sample_component ''srv/api'')]\<rparr>)\<rparr>))"
    using sample_spec_ok by (simp add: sample_spec_def sample_development_def)
  then show ?thesis
    using validateDevelopment_order [of "[(''web'', sample_component ''web''), (''api'', sample_component ''srv/api'')]"
        "[(''api'', sample_component ''srv/api''), (''web'', sample_component ''web'')]" sample_development sample_spec]
    by (simp add: add_mset_commute)
qed

end
