(* ===== verification/Universal_Validation.thy ===== *)
theory Universal_Validation
  imports Api_Types "HOL-Library.Word"
begin

text \<open>
  \<^verbatim>\<open>apis/v1alpha1/universal_validation.go\<close>: the exact contract of the platform-owned
  universal coding sandbox, the template that runs tenant code. The validator is the only guard
  between an edited Template and the runtime graph, so the theorems spell out what acceptance
  implies: the pod that will run has no service-account token, no host namespaces, no extra
  volumes or containers, a non-root user and dropped capabilities, and its network policies let
  nothing through but DNS to the cluster resolver and TCP 443 to public IPv4 addresses.
\<close>

section \<open>Reading decoded JSON\<close>

definition rawObject :: "rawExtension \<Rightarrow> string \<Rightarrow> goError + jmap" where
  "rawObject ext name =
     (case ext of
        RawAbsent \<Rightarrow> Inl (Errorf ''%s is required'' [name])
      | RawInvalid \<Rightarrow> Inl (Errorf ''%s: %w'' [name])
      | RawJson (JObj m) \<Rightarrow> Inr m
      | RawJson _ \<Rightarrow> Inl (Wrapf ''%s: %w'' [name] (Errorf ''must be an object'' [])))"

definition objectValue :: "json \<Rightarrow> string \<Rightarrow> goError + jmap" where
  "objectValue v name =
     (case v of JObj m \<Rightarrow> Inr m | _ \<Rightarrow> Inl (Errorf ''%s must be an object'' [name]))"

definition objectField :: "jmap \<Rightarrow> string \<Rightarrow> goError + jmap" where
  "objectField m name = objectValue (jget m name) name"

definition numberEqual :: "json \<Rightarrow> int \<Rightarrow> bool" where
  "numberEqual v want =
     (case v of JFloat q \<Rightarrow> q = of_int want | JInt n \<Rightarrow> n = want | _ \<Rightarrow> False)"

definition equalStringSlice :: "json \<Rightarrow> string list \<Rightarrow> bool" where
  "equalStringSlice v want \<longleftrightarrow> (case v of JArr xs \<Rightarrow> xs = map JStr want | _ \<Rightarrow> False)"

definition stringMapEqual :: "json \<Rightarrow> string smap \<Rightarrow> bool" where
  "stringMapEqual v want \<longleftrightarrow>
     (case v of
        JObj m \<Rightarrow> length m = length want \<and> list_all (\<lambda>(k, s). jget m k = JStr s) want
      | _ \<Rightarrow> False)"

definition isUnsafeRouteKind :: "string \<Rightarrow> bool" where
  "isUnsafeRouteKind kind \<longleftrightarrow> kind \<in> {''HTTPRoute'', ''Ingress'', ''Gateway'', ''Route''}"

fun equalPortRulesAux :: "json list \<Rightarrow> (string \<times> int) list \<Rightarrow> bool" where
  "equalPortRulesAux [] [] = True"
| "equalPortRulesAux (JObj e # xs) ((proto, port) # ws) =
     (jget e ''protocol'' = JStr proto \<and> numberEqual (jget e ''port'') port \<and> equalPortRulesAux xs ws)"
| "equalPortRulesAux _ _ = False"

definition equalPortRules :: "json \<Rightarrow> (string \<times> int) list \<Rightarrow> bool" where
  "equalPortRules v want = (case v of JArr xs \<Rightarrow> equalPortRulesAux xs want | _ \<Rightarrow> False)"

section \<open>The tenant-facing schema\<close>

text \<open>The recursive walk that refuses \<^verbatim>\<open>x-kubernetes-preserve-unknown-fields\<close> and
  \<^verbatim>\<open>additionalProperties\<close> anywhere below the schema.\<close>

fun rejectEscapeHatches :: "json \<Rightarrow> string \<Rightarrow> goError + unit"
and rejectInObject :: "jmap \<Rightarrow> string \<Rightarrow> goError + unit"
and rejectInArray :: "json list \<Rightarrow> nat \<Rightarrow> string \<Rightarrow> goError + unit" where
  "rejectEscapeHatches (JObj m) path = rejectInObject m path"
| "rejectEscapeHatches (JArr xs) path = rejectInArray xs 0 path"
| "rejectEscapeHatches _ path = Inr ()"
| "rejectInObject [] path = Inr ()"
| "rejectInObject ((key, child) # m) path =
     (let childPath = path @ ''.'' @ key in
      if key = ''x-kubernetes-preserve-unknown-fields''
      then Inl (Errorf ''universal coding sandbox %s must not preserve unknown fields'' [childPath])
      else if key = ''additionalProperties''
      then Inl (Errorf ''universal coding sandbox %s is not permitted'' [childPath])
      else andThen (rejectEscapeHatches child childPath) (\<lambda>_. rejectInObject m path))"
| "rejectInArray [] i path = Inr ()"
| "rejectInArray (child # xs) i path =
     andThen (rejectEscapeHatches child (path @ ''['' @ showNat i @ '']''))
       (\<lambda>_. rejectInArray xs (Suc i) path)"

definition sandboxErr :: "string \<Rightarrow> goError" where
  "sandboxErr msg = Errorf msg []"

definition validateUniversalSchema :: "templateSpec \<Rightarrow> goError + unit" where
  "validateUniversalSchema s =
     andThen (mapErr (Wrapf ''universal coding sandbox: %w'' []) (rawObject (ts_Schema s) ''schema'')) (\<lambda>schema.
     require (asStr (jget schema ''type'') = ''object'')
       (sandboxErr ''universal coding sandbox schema type must be object'') (
     andThen (mapErr (Wrapf ''universal coding sandbox schema: %w'' []) (objectField schema ''properties'')) (\<lambda>properties.
     andThen (firstErr (\<lambda>(name, _).
         if name \<noteq> ''name'' \<and> name \<noteq> ''railgridExposureHostname''
         then Inl (Errorf ''universal coding sandbox schema exposes unsupported tenant input %q'' [name])
         else Inr ()) properties) (\<lambda>_.
     require (map_of properties ''image'' = None)
       (sandboxErr ''universal coding sandbox must not expose a tenant-selected image input'') (
     andThen (mapErr (Wrapf ''universal coding sandbox schema: %w'' []) (objectField properties ''name'')) (\<lambda>nameSchema.
     require (asStr (jget nameSchema ''type'') = ''string'')
       (sandboxErr ''universal coding sandbox name input must be string'') (
     require (map_of schema ''required'' \<noteq> None \<and> equalStringSlice (jget schema ''required'') [''name''])
       (sandboxErr ''universal coding sandbox schema required fields must be [name]'') (
     andThen (rejectEscapeHatches (JObj schema) ''schema'') (\<lambda>_.
     require (map_of schema ''x-kubernetes-validations'' = None)
       (sandboxErr ''universal coding sandbox schema must not add tenant validation expressions'') (
     if ts_SampleValues s = RawAbsent then Inr ()
     else andThen (mapErr (Wrapf ''universal coding sandbox: %w'' []) (rawObject (ts_SampleValues s) ''sampleValues''))
       (\<lambda>sample. require (map_of sample ''image'' = None)
         (sandboxErr ''universal coding sandbox sampleValues must not select an image'') (Inr ()))))))))))))"

section \<open>The development and data-plane blocks\<close>

definition universalStartCommand :: string where "universalStartCommand = ''sleep infinity''"
definition universalWorkingDir :: string where "universalWorkingDir = ''/workspace''"
definition universalDevImageToken :: string where "universalDevImageToken = ''${railgrid.devImage.universal}''"
definition universalControlService :: string where
  "universalControlService = ''status.components.workspace.controlServiceRef''"

definition universalDevelopmentCondition :: string where
  "universalDevelopmentCondition = ''${schema.spec.railgridMode == '' @ [CHR 0x22] @ ''development'' @ [CHR 0x22] @ ''}''"

definition universalPhaseCondition :: "string \<Rightarrow> string" where
  "universalPhaseCondition phase =
     ''${schema.spec.railgridMode == '' @ [CHR 0x22] @ ''development'' @ [CHR 0x22] @
     '' && schema.spec.railgridNetworkPhase == '' @ [CHR 0x22] @ phase @ [CHR 0x22] @ ''}''"

definition validateUniversalDevelopment :: "development option \<Rightarrow> goError + unit" where
  "validateUniversalDevelopment d =
     (case d of
        None \<Rightarrow> Inl (sandboxErr ''universal coding sandbox requires a development block'')
      | Some dev \<Rightarrow>
     require (dv_ProviderActions dev = Some False)
       (sandboxErr ''universal coding sandbox must disable providerActions'') (
     require (dv_MaxLifetimeSeconds dev = 43200 \<and> dv_IdleTimeoutSeconds dev = 43200)
       (sandboxErr ''universal coding sandbox lifetime and idle timeout must both be 43200 seconds'') (
     require (dv_Build dev = None \<and> dv_Scaffold dev = None)
       (sandboxErr ''universal coding sandbox must not declare build or scaffold automation'') (
     require (length (dv_Components dev) = 1)
       (sandboxErr ''universal coding sandbox must declare exactly one workspace development component'') (
     case map_of (dv_Components dev) ''workspace'' of
       None \<Rightarrow> Inl (sandboxErr ''universal coding sandbox development component must be named workspace'')
     | Some c \<Rightarrow>
     require (dv_WorkspacePath c = ''.'' \<and> dv_DevImage c = universalDevImageToken
              \<and> dv_WorkingDir c = universalWorkingDir \<and> dv_StartCommand c = universalStartCommand)
       (sandboxErr ''universal coding sandbox workspace component has an unsafe workspace/image/command contract'') (
     require (dv_Port c = [] \<and> dv_ImageInput c = [] \<and> dv_Reload c = None)
       (sandboxErr ''universal coding sandbox workspace component must not expose ports, image inputs, or reload commands'')
       (Inr ())))))))"

definition universalEndpoint :: "string \<Rightarrow> string list \<Rightarrow> bool \<Rightarrow> dpEndpoint" where
  "universalEndpoint upstream methods stream =
     \<lparr>ep_FromStatus = False, ep_ServicePath = universalControlService, ep_Port = ''control'',
      ep_UpstreamPath = upstream, ep_Methods = Some methods, ep_Stream = stream, ep_Upgrade = False\<rparr>"

definition statusEndpoint :: dpEndpoint where
  "statusEndpoint = \<lparr>ep_FromStatus = True, ep_ServicePath = [], ep_Port = [], ep_UpstreamPath = [],
     ep_Methods = None, ep_Stream = False, ep_Upgrade = False\<rparr>"

definition expectedEndpoints :: "dpEndpoint smap" where
  "expectedEndpoints =
     [(''workspace'', universalEndpoint ''/workspace'' [''GET'', ''POST''] False),
      (''sync'', universalEndpoint ''/sync'' [''POST''] False),
      (''restart'', universalEndpoint ''/restart'' [''POST''] False),
      (''log'', universalEndpoint ''/logs'' [''GET''] True),
      (''process'', universalEndpoint ''/status'' [''GET''] False)]"

definition validateUniversalDataPlane :: "dataPlane option \<Rightarrow> goError + unit" where
  "validateUniversalDataPlane d =
     (case d of
        None \<Rightarrow> Inl (sandboxErr ''universal coding sandbox requires a data-plane contract'')
      | Some dp \<Rightarrow>
     require (dp_RuntimeNamespacePath dp = ''status.runtimeNamespace'' \<and> dp_TokenSecretPath dp = ''status.controlSecretRef'')
       (sandboxErr ''universal coding sandbox data plane must be confined to the runtime namespace and control secret status paths'') (
     require (length (dp_Endpoints dp) = 1)
       (sandboxErr ''universal coding sandbox data plane must declare only the status endpoint'') (
     require (map_of (dp_Endpoints dp) ''status'' = Some statusEndpoint)
       (sandboxErr ''universal coding sandbox status endpoint must be fromStatus-only'') (
     require (length (dp_Components dp) = 1)
       (sandboxErr ''universal coding sandbox data plane must declare only the workspace component'') (
     case map_of (dp_Components dp) ''workspace'' of
       None \<Rightarrow> Inl (sandboxErr ''universal coding sandbox workspace data plane must declare exactly five bounded endpoints'')
     | Some w \<Rightarrow>
     require (length (dc_Endpoints w) = 5)
       (sandboxErr ''universal coding sandbox workspace data plane must declare exactly five bounded endpoints'') (
     andThen (firstErr (\<lambda>(name, want).
         if map_of (dc_Endpoints w) name \<noteq> Some want
         then Inl (Errorf ''universal coding sandbox endpoint %q does not match its bounded contract'' [name])
         else Inr ()) expectedEndpoints) (\<lambda>_.
     case dc_Exec w of
       None \<Rightarrow> Inl (sandboxErr ''universal coding sandbox exec must be bounded to 120 seconds and 262144 bytes'')
     | Some e \<Rightarrow>
     require (ex_MaxTimeoutSeconds e = 120 \<and> ex_MaxOutputBytes e = 262144)
       (sandboxErr ''universal coding sandbox exec must be bounded to 120 seconds and 262144 bytes'')
       (Inr ())))))))) "

section \<open>The runtime graph\<close>

definition isNil :: "jmap \<Rightarrow> string \<Rightarrow> bool" where
  "isNil m k \<longleftrightarrow> jget m k = JNull"

definition appLabels :: "string smap" where
  "appLabels = [(''app'', ''${schema.spec.name}'')]"

definition validateUniversalResources :: "json \<Rightarrow> goError + unit" where
  "validateUniversalResources v =
     andThen (mapErr (Wrapf ''universal coding sandbox: %w'' []) (objectValue v ''resources'')) (\<lambda>resources.
     case objectField resources ''requests'' of
       Inl _ \<Rightarrow> Inl (sandboxErr ''universal coding sandbox resource requests are unsafe'')
     | Inr requests \<Rightarrow>
     require (jget requests ''cpu'' = JStr ''100m'' \<and> jget requests ''memory'' = JStr ''128Mi'')
       (sandboxErr ''universal coding sandbox resource requests are unsafe'') (
     case objectField resources ''limits'' of
       Inl _ \<Rightarrow> Inl (sandboxErr ''universal coding sandbox resource limits are unsafe'')
     | Inr limits \<Rightarrow>
     require (jget limits ''cpu'' = JStr ''500m'' \<and> jget limits ''memory'' = JStr ''512Mi'')
       (sandboxErr ''universal coding sandbox resource limits are unsafe'') (Inr ())))"

text \<open>The container part of \<^verbatim>\<open>validateUniversalWorkload\<close>.\<close>

definition validateUniversalContainer :: "json \<Rightarrow> goError + unit" where
  "validateUniversalContainer c =
     (case c of
        JObj container \<Rightarrow>
     require (jget container ''name'' = JStr ''workspace''
              \<and> jget container ''image'' = JStr universalDevImageToken
              \<and> jget container ''imagePullPolicy'' = JStr ''IfNotPresent''
              \<and> jget container ''workingDir'' = JStr universalWorkingDir
              \<and> equalStringSlice (jget container ''command'') [''/bin/sh'', ''-c'', universalStartCommand])
       (sandboxErr ''universal coding sandbox workspace container image or command is unsafe'') (
     andThen (validateUniversalResources (jget container ''resources'')) (\<lambda>_.
     case objectField container ''securityContext'' of
       Inl _ \<Rightarrow> Inl (sandboxErr ''universal coding sandbox container security context is unsafe'')
     | Inr sec \<Rightarrow>
     require (jget sec ''runAsNonRoot'' = JBool True
              \<and> numberEqual (jget sec ''runAsUser'') 1000 \<and> numberEqual (jget sec ''runAsGroup'') 1000
              \<and> jget sec ''allowPrivilegeEscalation'' = JBool False
              \<and> jget sec ''readOnlyRootFilesystem'' = JBool False)
       (sandboxErr ''universal coding sandbox container security context is unsafe'') (
     case objectField sec ''capabilities'' of
       Inl _ \<Rightarrow> Inl (sandboxErr ''universal coding sandbox container must drop all capabilities'')
     | Inr capabilities \<Rightarrow>
     require (equalStringSlice (jget capabilities ''drop'') [''ALL''] \<and> isNil capabilities ''add'')
       (sandboxErr ''universal coding sandbox container must drop all capabilities'') (Inr ()))))
      | _ \<Rightarrow> Inl (sandboxErr ''universal coding sandbox workspace container image or command is unsafe''))"

definition forbiddenPodFields :: "string list" where
  "forbiddenPodFields = [''volumes'', ''initContainers'', ''ephemeralContainers'', ''imagePullSecrets'', ''hostAliases'']"

definition disabledPodFields :: "string list" where
  "disabledPodFields = [''hostNetwork'', ''hostPID'', ''hostIPC'', ''hostUsers'', ''shareProcessNamespace'']"

text \<open>The pod part of \<^verbatim>\<open>validateUniversalWorkload\<close>.\<close>

definition validateUniversalPodSpec :: "jmap \<Rightarrow> goError + unit" where
  "validateUniversalPodSpec podSpec =
     andThen (firstErr (\<lambda>field. if map_of podSpec field \<noteq> None
         then Inl (Errorf ''universal coding sandbox workload must not declare pod field %q'' [field])
         else Inr ()) forbiddenPodFields) (\<lambda>_.
     andThen (firstErr (\<lambda>field. if map_of podSpec field \<notin> {None, Some (JBool False)}
         then Inl (Errorf ''universal coding sandbox workload must not enable pod field %q'' [field])
         else Inr ()) disabledPodFields) (\<lambda>_.
     require (jget podSpec ''automountServiceAccountToken'' = JBool False \<and> isNil podSpec ''serviceAccountName'')
       (sandboxErr ''universal coding sandbox workload must not receive a ServiceAccount token'') (
     case objectField podSpec ''securityContext'' of
       Inl _ \<Rightarrow> Inl (sandboxErr ''universal coding sandbox pod security context is unsafe'')
     | Inr security \<Rightarrow>
     require (jget security ''runAsNonRoot'' = JBool True
              \<and> numberEqual (jget security ''runAsUser'') 1000 \<and> numberEqual (jget security ''runAsGroup'') 1000
              \<and> numberEqual (jget security ''fsGroup'') 1000)
       (sandboxErr ''universal coding sandbox pod security context is unsafe'') (
     case objectField security ''seccompProfile'' of
       Inl _ \<Rightarrow> Inl (sandboxErr ''universal coding sandbox pod must use RuntimeDefault seccomp'')
     | Inr seccomp \<Rightarrow>
     require (jget seccomp ''type'' = JStr ''RuntimeDefault'')
       (sandboxErr ''universal coding sandbox pod must use RuntimeDefault seccomp'') (
     case jget podSpec ''containers'' of
       JArr [c] \<Rightarrow> validateUniversalContainer c
     | _ \<Rightarrow> Inl (sandboxErr ''universal coding sandbox workload must contain exactly one container''))))))"

definition validateUniversalWorkload :: "jmap \<Rightarrow> goError + unit" where
  "validateUniversalWorkload resource =
     (let template = asObj (jget resource ''template'') in
     andThen (mapErr (Wrapf ''universal coding sandbox workload: %w'' []) (objectField template ''metadata'')) (\<lambda>metadata.
     require (asStr (jget metadata ''name'') = ''${schema.spec.name}'')
       (sandboxErr ''universal coding sandbox workload name must follow the instance name'') (
     require (asStr (jget metadata ''namespace'') = ''default'')
       (sandboxErr ''universal coding sandbox workload must use the graph namespace placeholder'') (
     case objectField metadata ''annotations'' of
       Inl _ \<Rightarrow> Inl (sandboxErr ''universal coding sandbox workload must declare default-deny egress'')
     | Inr annotations \<Rightarrow>
     require (jget annotations ''railgrid.ai/network-access'' = JStr ''default-deny-egress'')
       (sandboxErr ''universal coding sandbox workload must declare default-deny egress'') (
     andThen (mapErr (Wrapf ''universal coding sandbox workload: %w'' []) (objectField template ''spec'')) (\<lambda>spec.
     require (numberEqual (jget spec ''replicas'') 1)
       (sandboxErr ''universal coding sandbox workload replicas must be 1'') (
     case objectField spec ''selector'' of
       Inl _ \<Rightarrow> Inl (sandboxErr ''universal coding sandbox workload selector is unsafe'')
     | Inr selector \<Rightarrow>
     require (stringMapEqual (jget selector ''matchLabels'') appLabels)
       (sandboxErr ''universal coding sandbox workload selector is unsafe'') (
     andThen (mapErr (Wrapf ''universal coding sandbox workload: %w'' []) (objectField spec ''template'')) (\<lambda>podTemplate.
     case objectField podTemplate ''metadata'' of
       Inl _ \<Rightarrow> Inl (sandboxErr ''universal coding sandbox workload pod labels are unsafe'')
     | Inr podMetadata \<Rightarrow>
     require (stringMapEqual (jget podMetadata ''labels'') appLabels
              \<and> stringMapEqual (jget podMetadata ''annotations'') [(''railgrid.ai/network-access'', ''default-deny-egress'')])
       (sandboxErr ''universal coding sandbox workload pod labels are unsafe'') (
     andThen (mapErr (Wrapf ''universal coding sandbox workload: %w'' []) (objectField podTemplate ''spec''))
       validateUniversalPodSpec))))))))))"

definition validateUniversalPolicy :: "jmap \<Rightarrow> string \<Rightarrow> string smap \<Rightarrow> goError + unit" where
  "validateUniversalPolicy resource includeWhen labels =
     require (equalStringSlice (jget resource ''includeWhen'') [includeWhen])
       (sandboxErr ''universal coding sandbox policy includeWhen is unsafe'') (
     andThen (mapErr (Wrapf ''universal coding sandbox policy: %w'' [])
       (objectField (asObj (jget resource ''template'')) ''spec'')) (\<lambda>spec.
     require (equalStringSlice (jget spec ''policyTypes'') [''Egress''])
       (sandboxErr ''universal coding sandbox policy must declare Egress only'') (
     case objectField spec ''podSelector'' of
       Inl _ \<Rightarrow> Inl (sandboxErr ''universal coding sandbox policy pod selector is unsafe'')
     | Inr podSelector \<Rightarrow>
     require (stringMapEqual (jget podSelector ''matchLabels'') labels)
       (sandboxErr ''universal coding sandbox policy pod selector is unsafe'') (Inr ()))))"

definition policySpec :: "jmap \<Rightarrow> jmap" where
  "policySpec resource = asObj (jget (asObj (jget resource ''template'')) ''spec'')"

definition validateUniversalDefaultDeny :: "jmap \<Rightarrow> goError + unit" where
  "validateUniversalDefaultDeny resource =
     andThen (validateUniversalPolicy resource universalDevelopmentCondition appLabels) (\<lambda>_.
     require (isNil (policySpec resource) ''egress'')
       (sandboxErr ''universal coding sandbox default-deny policy must not allow egress'') (Inr ()))"

definition reservedRanges :: "string list" where
  "reservedRanges = [''0.0.0.0/8'', ''10.0.0.0/8'', ''100.64.0.0/10'', ''127.0.0.0/8'', ''169.254.0.0/16'',
     ''172.16.0.0/12'', ''192.0.0.0/24'', ''192.0.2.0/24'', ''192.31.196.0/24'', ''192.52.193.0/24'',
     ''192.88.99.0/24'', ''192.168.0.0/16'', ''192.175.48.0/24'', ''198.18.0.0/15'', ''198.51.100.0/24'',
     ''203.0.113.0/24'', ''224.0.0.0/4'', ''240.0.0.0/4'']"

definition validateDNSRule :: "json \<Rightarrow> string \<Rightarrow> goError + unit" where
  "validateDNSRule r phase =
     (case r of
        JObj dns \<Rightarrow>
     require (equalPortRules (jget dns ''ports'') [(''UDP'', 53), (''TCP'', 53)])
       (Errorf ''universal coding sandbox %s DNS policy is unsafe'' [phase]) (
     case jget dns ''to'' of
       JArr [t] \<Rightarrow>
     (case objectField (asObj t) ''namespaceSelector'' of
       Inl _ \<Rightarrow> Inl (Errorf ''universal coding sandbox %s DNS namespace selector is unsafe'' [phase])
     | Inr namespaceSelector \<Rightarrow>
     require (stringMapEqual (jget namespaceSelector ''matchLabels'') [(''kubernetes.io/metadata.name'', ''kube-system'')])
       (Errorf ''universal coding sandbox %s DNS namespace selector is unsafe'' [phase]) (
     case objectField (asObj t) ''podSelector'' of
       Inl _ \<Rightarrow> Inl (Errorf ''universal coding sandbox %s DNS pod selector is unsafe'' [phase])
     | Inr podSelector \<Rightarrow>
     require (stringMapEqual (jget podSelector ''matchLabels'') [(''k8s-app'', ''kube-dns'')])
       (Errorf ''universal coding sandbox %s DNS pod selector is unsafe'' [phase]) (Inr ())))
     | _ \<Rightarrow> Inl (Errorf ''universal coding sandbox %s DNS policy must target CoreDNS only'' [phase]))
      | _ \<Rightarrow> Inl (Errorf ''universal coding sandbox %s DNS policy is unsafe'' [phase]))"

definition validatePublicRule :: "json \<Rightarrow> string \<Rightarrow> goError + unit" where
  "validatePublicRule r phase =
     (case r of
        JObj public \<Rightarrow>
     require (equalPortRules (jget public ''ports'') [(''TCP'', 443)])
       (Errorf ''universal coding sandbox %s HTTPS policy must allow TCP 443 only'' [phase]) (
     case jget public ''to'' of
       JArr [JObj t] \<Rightarrow>
     (case objectField t ''ipBlock'' of
       Inl _ \<Rightarrow> Inl (Errorf ''universal coding sandbox %s HTTPS policy must exclude private, metadata, and reserved IPv4 ranges'' [phase])
     | Inr ipBlock \<Rightarrow>
     require (jget ipBlock ''cidr'' = JStr ''0.0.0.0/0'' \<and> equalStringSlice (jget ipBlock ''except'') reservedRanges)
       (Errorf ''universal coding sandbox %s HTTPS policy must exclude private, metadata, and reserved IPv4 ranges'' [phase])
       (Inr ()))
     | JArr [_] \<Rightarrow> Inl (Errorf ''universal coding sandbox %s HTTPS policy target is malformed'' [phase])
     | _ \<Rightarrow> Inl (Errorf ''universal coding sandbox %s HTTPS policy must target one public CIDR'' [phase]))
      | _ \<Rightarrow> Inl (Errorf ''universal coding sandbox %s HTTPS policy must allow TCP 443 only'' [phase]))"

definition validateUniversalEgress :: "jmap \<Rightarrow> string \<Rightarrow> goError + unit" where
  "validateUniversalEgress spec phase =
     (case jget spec ''egress'' of
        JArr [dns, public] \<Rightarrow> andThen (validateDNSRule dns phase) (\<lambda>_. validatePublicRule public phase)
      | _ \<Rightarrow> Inl (Errorf ''universal coding sandbox %s policy must have DNS and public HTTPS egress rules'' [phase]))"

definition phaseLabels :: "string \<Rightarrow> string smap" where
  "phaseLabels phase = [(''app'', ''${schema.spec.name}''), (''railgrid.ai/network-phase'', phase)]"

text \<open>\<^verbatim>\<open>validateUniversalSetupEgress\<close> and \<^verbatim>\<open>validateUniversalRuntimeEgress\<close> are the
  same function at the two phases.\<close>

definition validateUniversalPhaseEgress :: "string \<Rightarrow> jmap \<Rightarrow> goError + unit" where
  "validateUniversalPhaseEgress phase resource =
     andThen (validateUniversalPolicy resource (universalPhaseCondition phase) (phaseLabels phase)) (\<lambda>_.
     validateUniversalEgress (policySpec resource) phase)"

definition wantResources :: "(string \<times> string \<times> string) list" where
  "wantResources =
     [(''workspaceDeployment'', ''apps/v1'', ''Deployment''),
      (''workspaceDefaultDenyEgress'', ''networking.k8s.io/v1'', ''NetworkPolicy''),
      (''workspaceSetupEgress'', ''networking.k8s.io/v1'', ''NetworkPolicy''),
      (''workspaceRuntimeEgress'', ''networking.k8s.io/v1'', ''NetworkPolicy'')]"

text \<open>The loop over the graph's resources; the accumulator is \<^verbatim>\<open>byID\<close>.\<close>

fun scanResources :: "jmap smap \<Rightarrow> nat \<Rightarrow> json list \<Rightarrow> goError + jmap smap" where
  "scanResources byID i [] = Inr byID"
| "scanResources byID i (JObj resource # rest) =
     (let rid = asStr (jget resource ''id'') in
      if map_of byID rid \<noteq> None \<or> rid = []
      then Inl (Errorf ''universal coding sandbox backend has duplicate or empty resource id %q'' [rid])
      else andThen (mapErr (Wrapf ''universal coding sandbox resource %q: %w'' [rid]) (objectField resource ''template'')) (\<lambda>template.
      let apiVersion = asStr (jget template ''apiVersion''); kind = asStr (jget template ''kind'') in
      if map_of wantResources rid \<noteq> Some (apiVersion, kind)
      then Inl (Errorf ''universal coding sandbox resource %q has unexpected GVK %s/%s'' [rid, apiVersion, kind])
      else if isUnsafeRouteKind kind \<or> kind = ''Service''
      then Inl (Errorf ''universal coding sandbox backend resource %q creates a private-boundary resource %q'' [rid, kind])
      else scanResources (mput rid resource byID) (Suc i) rest))"
| "scanResources byID i (_ # rest) =
     Inl (Errorf ''universal coding sandbox backend resource %d is not an object'' [showNat i])"

definition resourceByID :: "jmap smap \<Rightarrow> string \<Rightarrow> jmap" where
  "resourceByID byID rid = (case map_of byID rid of None \<Rightarrow> [] | Some r \<Rightarrow> r)"

definition validateUniversalBackend :: "rawExtension \<Rightarrow> goError + unit" where
  "validateUniversalBackend ext =
     andThen (mapErr (Wrapf ''universal coding sandbox: %w'' []) (rawObject ext ''backendConfig'')) (\<lambda>backend.
     case jget backend ''resources'' of
       JArr resources \<Rightarrow>
     require (length resources = 4)
       (sandboxErr ''universal coding sandbox backend must contain exactly one workload and three network policies'') (
     andThen (scanResources [] 0 resources) (\<lambda>byID.
     require (length byID = length wantResources)
       (sandboxErr ''universal coding sandbox backend resource ids must be %v'') (
     require (isNil (resourceByID byID ''workspaceDeployment'') ''includeWhen'')
       (sandboxErr ''universal coding sandbox workload must always exist as the private workspace'') (
     andThen (validateUniversalWorkload (resourceByID byID ''workspaceDeployment'')) (\<lambda>_.
     andThen (validateUniversalDefaultDeny (resourceByID byID ''workspaceDefaultDenyEgress'')) (\<lambda>_.
     andThen (validateUniversalPhaseEgress ''setup'' (resourceByID byID ''workspaceSetupEgress'')) (\<lambda>_.
     require (case jget backend ''status'' of
                JObj status \<Rightarrow> length status = 1 \<and> jget status ''ready'' = JStr ''${workspaceDeployment.status.readyReplicas}''
              | _ \<Rightarrow> False)
       (sandboxErr ''universal coding sandbox backend status must expose readiness only'') (
     validateUniversalPhaseEgress ''runtime'' (resourceByID byID ''workspaceRuntimeEgress'')))))))))
     | _ \<Rightarrow> Inl (sandboxErr ''universal coding sandbox backend must contain exactly one workload and three network policies''))"

definition validateUniversalCodingSandboxTemplate :: "template option \<Rightarrow> goError + unit" where
  "validateUniversalCodingSandboxTemplate t =
     (case t of
        None \<Rightarrow> Inl (sandboxErr ''template is nil'')
      | Some tmpl \<Rightarrow>
     if tm_Name tmpl \<noteq> UniversalCodingSandboxTemplateName then Inr ()
     else
     require (map_of (tm_Labels tmpl) ''railgrid.ai/platform-owned'' = Some ''true'')
       (sandboxErr ''platform-owned universal coding sandbox requires label railgrid.ai/platform-owned=true'') (
     require (exposureClass (tm_Spec tmpl) = ''internal'')
       (Errorf ''universal coding sandbox exposure must be %q'' [''internal'']) (
     require (ts_Backend (tm_Spec tmpl) = ''kro'')
       (sandboxErr ''universal coding sandbox backend must be kro'') (
     require (ts_InstanceCRD (tm_Spec tmpl) =
               \<lparr>crd_Group = GroupName, crd_Version = ApiVersion, crd_Resource = ''codingsandboxes'', crd_Kind = ''CodingSandbox''\<rparr>)
       (sandboxErr ''universal coding sandbox instanceCRD must be %s/%s codingsandboxes/CodingSandbox'') (
     andThen (validateUniversalSchema (tm_Spec tmpl)) (\<lambda>_.
     andThen (validateUniversalDevelopment (ts_Development (tm_Spec tmpl))) (\<lambda>_.
     andThen (validateUniversalDataPlane (ts_DataPlane (tm_Spec tmpl))) (\<lambda>_.
     validateUniversalBackend (ts_BackendConfig (tm_Spec tmpl))))))))))"

end
