(* ===== verification/Universal_Contract.thy ===== *)
theory Universal_Contract
  imports Universal_Validation
begin

text \<open>
  What acceptance by \<^verbatim>\<open>ValidateUniversalCodingSandboxTemplate\<close> means for the objects the
  runtime will create: the graph read back as resources by id, the pod, and the network policies
  given the packet semantics of a Kubernetes \<^verbatim>\<open>ipBlock\<close> over 32-bit addresses.
\<close>

section \<open>Reading the accepted graph\<close>

definition graphResources :: "templateSpec \<Rightarrow> json list" where
  "graphResources s =
     (case ts_BackendConfig s of RawJson j \<Rightarrow> asArr (jget (asObj j) ''resources'') | _ \<Rightarrow> [])"

definition resourceId :: "json \<Rightarrow> string" where
  "resourceId x = asStr (jget (asObj x) ''id'')"

definition graphResource :: "templateSpec \<Rightarrow> string \<Rightarrow> jmap" where
  "graphResource s rid =
     (case find (\<lambda>x. resourceId x = rid) (graphResources s) of None \<Rightarrow> [] | Some x \<Rightarrow> asObj x)"

fun jfield :: "string list \<Rightarrow> jmap \<Rightarrow> json" where
  "jfield [] m = JObj m"
| "jfield [k] m = jget m k"
| "jfield (k # ks) m = jfield ks (asObj (jget m k))"

definition podSpecOf :: "templateSpec \<Rightarrow> jmap" where
  "podSpecOf s = asObj (jfield [''template'', ''spec'', ''template'', ''spec''] (graphResource s ''workspaceDeployment''))"

definition egressOf :: "templateSpec \<Rightarrow> string \<Rightarrow> json" where
  "egressOf s rid = jget (policySpec (graphResource s rid)) ''egress''"

lemma mput_fresh: "map_of m k = None \<Longrightarrow> mput k v m = m @ [(k, v)]"
  by (induction m) (auto split: if_splits)

lemma objectValue_Inr [go_err]: "objectValue v n = Inr m \<longleftrightarrow> v = JObj m"
  by (cases v) (simp_all add: objectValue_def)

lemma objectField_Inr [go_err]: "objectField m k = Inr m' \<longleftrightarrow> jget m k = JObj m'"
  by (simp add: objectField_def go_err)

lemma objectField_case_Inr [go_err]:
  "(case objectField m k of Inl e \<Rightarrow> Inl e' | Inr x \<Rightarrow> f x) = Inr y \<longleftrightarrow> (\<exists>x. jget m k = JObj x \<and> f x = Inr y)"
  by (cases "jget m k") (simp_all add: objectField_def objectValue_def)

lemma jarr_case_Inr [go_err]:
  "(case v of JArr xs \<Rightarrow> f xs | _ \<Rightarrow> Inl e) = Inr y \<longleftrightarrow> (\<exists>xs. v = JArr xs \<and> f xs = Inr y)"
  by (cases v) simp_all

lemma jobj_case_Inr [go_err]:
  "(case v of JObj m \<Rightarrow> f m | _ \<Rightarrow> Inl e) = Inr y \<longleftrightarrow> (\<exists>m. v = JObj m \<and> f m = Inr y)"
  by (cases v) simp_all

lemma rawObject_Inr [go_err]: "rawObject e n = Inr m \<longleftrightarrow> e = RawJson (JObj m)"
  by (auto simp: rawObject_def split: rawExtension.splits json.splits)

lemma scanResources_ok:
  "scanResources byID i xs = Inr m \<Longrightarrow>
     m = byID @ map (\<lambda>x. (resourceId x, asObj x)) xs
     \<and> (\<forall>x \<in> set xs. \<exists>t. jget (asObj x) ''template'' = JObj t
          \<and> map_of wantResources (resourceId x) = Some (asStr (jget t ''apiVersion''), asStr (jget t ''kind'')))
     \<and> (mwf byID \<longrightarrow> mwf m)"
proof (induction byID i xs arbitrary: m rule: scanResources.induct)
  case (2 byID i resource rest)
  let ?r = "asStr (jget resource ''id'')"
  from "2.prems" obtain t where
    fresh: "map_of byID ?r = None" and ne: "?r \<noteq> []" and t: "jget resource ''template'' = JObj t"
    and gvk: "map_of wantResources ?r = Some (asStr (jget t ''apiVersion''), asStr (jget t ''kind''))"
    and k: "\<not> (isUnsafeRouteKind (asStr (jget t ''kind'')) \<or> asStr (jget t ''kind'') = ''Service'')"
    and rec: "scanResources (mput ?r resource byID) (Suc i) rest = Inr m"
    by (auto simp: go_err Let_def split: if_splits)
  have ih': "m = mput ?r resource byID @ map (\<lambda>x. (resourceId x, asObj x)) rest
     \<and> (\<forall>x \<in> set rest. \<exists>t. jget (asObj x) ''template'' = JObj t
          \<and> map_of wantResources (resourceId x) = Some (asStr (jget t ''apiVersion''), asStr (jget t ''kind'')))
     \<and> (mwf (mput ?r resource byID) \<longrightarrow> mwf m)"
    by (rule "2.IH" [OF refl _ refl refl _ k rec]) (simp_all add: fresh ne gvk)
  show ?case
  proof (intro conjI impI)
    show "m = byID @ map (\<lambda>x. (resourceId x, asObj x)) (JObj resource # rest)"
      using ih' fresh by (simp add: mput_fresh resourceId_def)
    show "\<forall>x \<in> set (JObj resource # rest). \<exists>t. jget (asObj x) ''template'' = JObj t
          \<and> map_of wantResources (resourceId x) = Some (asStr (jget t ''apiVersion''), asStr (jget t ''kind''))"
      using ih' t gvk by (simp add: resourceId_def)
    show "mwf m" if "mwf byID" using ih' mwf_mput [OF that] by blast
  qed
qed simp_all


lemma map_of_pairs_find:
  "map_of (map (\<lambda>x. (f x, g x)) xs) k = map_option g (find (\<lambda>x. f x = k) xs)"
  by (induction xs) auto

lemma resourceByID_graph:
  assumes "graphResources s = xs"
  shows "resourceByID (map (\<lambda>x. (resourceId x, asObj x)) xs) rid = graphResource s rid"
  using assms by (simp add: resourceByID_def graphResource_def map_of_pairs_find option.case_eq_if option.map_sel)

text \<open>The structural consequence of acceptance every property below starts from.\<close>

lemma validateUniversalBackend_graph:
  assumes "validateUniversalBackend (ts_BackendConfig s) = Inr ()"
  shows "length (graphResources s) = 4" "distinct (map resourceId (graphResources s))"
    "\<forall>x \<in> set (graphResources s). \<exists>t. jget (asObj x) ''template'' = JObj t
       \<and> map_of wantResources (resourceId x) = Some (asStr (jget t ''apiVersion''), asStr (jget t ''kind''))"
    "isNil (graphResource s ''workspaceDeployment'') ''includeWhen''"
    "validateUniversalWorkload (graphResource s ''workspaceDeployment'') = Inr ()"
    "validateUniversalDefaultDeny (graphResource s ''workspaceDefaultDenyEgress'') = Inr ()"
    "validateUniversalPhaseEgress ''setup'' (graphResource s ''workspaceSetupEgress'') = Inr ()"
    "validateUniversalPhaseEgress ''runtime'' (graphResource s ''workspaceRuntimeEgress'') = Inr ()"
proof -
  from assms obtain b xs byID where
    b: "ts_BackendConfig s = RawJson (JObj b)" "jget b ''resources'' = JArr xs"
    and len: "length xs = 4" and scan: "scanResources [] 0 xs = Inr byID"
    and rest: "isNil (resourceByID byID ''workspaceDeployment'') ''includeWhen''"
      "validateUniversalWorkload (resourceByID byID ''workspaceDeployment'') = Inr ()"
      "validateUniversalDefaultDeny (resourceByID byID ''workspaceDefaultDenyEgress'') = Inr ()"
      "validateUniversalPhaseEgress ''setup'' (resourceByID byID ''workspaceSetupEgress'') = Inr ()"
      "validateUniversalPhaseEgress ''runtime'' (resourceByID byID ''workspaceRuntimeEgress'') = Inr ()"
    unfolding validateUniversalBackend_def
    by (auto simp: go_err)
  have g: "graphResources s = xs" by (simp add: graphResources_def b )
  note ok = scanResources_ok [OF scan]
  have byID: "byID = map (\<lambda>x. (resourceId x, asObj x)) xs" using ok by simp
  have eq: "resourceByID byID r = graphResource s r" for r
    unfolding byID by (rule resourceByID_graph [OF g])
  have "mwf byID" using ok [THEN conjunct2, THEN conjunct2] by simp
  then show "distinct (map resourceId (graphResources s))" unfolding byID g by (simp add: comp_def)
  show "length (graphResources s) = 4" by (simp add: g len)
  show "\<forall>x \<in> set (graphResources s). \<exists>t. jget (asObj x) ''template'' = JObj t
       \<and> map_of wantResources (resourceId x) = Some (asStr (jget t ''apiVersion''), asStr (jget t ''kind''))"
    using ok g by simp
  show "isNil (graphResource s ''workspaceDeployment'') ''includeWhen''"
    "validateUniversalWorkload (graphResource s ''workspaceDeployment'') = Inr ()"
    "validateUniversalDefaultDeny (graphResource s ''workspaceDefaultDenyEgress'') = Inr ()"
    "validateUniversalPhaseEgress ''setup'' (graphResource s ''workspaceSetupEgress'') = Inr ()"
    "validateUniversalPhaseEgress ''runtime'' (graphResource s ''workspaceRuntimeEgress'') = Inr ()"
    using rest by (simp_all add: eq)
qed

lemma validateUniversal_accepts:
  assumes "validateUniversalCodingSandboxTemplate (Some t) = Inr ()"
    and "tm_Name t = UniversalCodingSandboxTemplateName"
  shows "validateUniversalSchema (tm_Spec t) = Inr ()"
    "validateUniversalDevelopment (ts_Development (tm_Spec t)) = Inr ()"
    "validateUniversalDataPlane (ts_DataPlane (tm_Spec t)) = Inr ()"
    "validateUniversalBackend (ts_BackendConfig (tm_Spec t)) = Inr ()"
    "map_of (tm_Labels t) ''railgrid.ai/platform-owned'' = Some ''true''"
    "\<not> publishable (tm_Spec t)"
  using assms unfolding validateUniversalCodingSandboxTemplate_def publishable_def
  by (simp_all add: go_err)

section \<open>The packet semantics of an egress list\<close>

text \<open>The published meaning of \<^verbatim>\<open>networking.k8s.io/v1\<close> egress rules for a destination outside the
  cluster, an IPv4 address: a rule with no \<^verbatim>\<open>ports\<close> matches every port and one with no \<^verbatim>\<open>to\<close> every
  address; a peer matches an external address by its \<^verbatim>\<open>ipBlock\<close> only, less the \<^verbatim>\<open>except\<close> ranges; a
  port entry with \<^verbatim>\<open>endPort\<close> is the whole range from \<^verbatim>\<open>port\<close> up to it. A peer with a selector
  matches pods, not external addresses (the API server refuses one that has an \<^verbatim>\<open>ipBlock\<close> as well).\<close>

definition parseDecimal :: "string \<Rightarrow> int" where
  "parseDecimal = foldl (\<lambda>n c. 10 * n + (of_char c - 48)) 0"

definition parseCIDR :: "string \<Rightarrow> (int \<times> int) option" where
  "parseCIDR s =
     (let (addr, len, ok) = cutAt CHR ''/'' s in
      case map parseDecimal (splitAll CHR ''.'' addr) of
        [a, b, c, d] \<Rightarrow> if ok then Some (((a * 256 + b) * 256 + c) * 256 + d, parseDecimal len) else None
      | _ \<Rightarrow> None)"

definition cidrContains :: "string \<Rightarrow> 32 word \<Rightarrow> bool" where
  "cidrContains s a =
     (case parseCIDR s of
        None \<Rightarrow> False
      | Some (net, len) \<Rightarrow> uint a div 2 ^ nat (32 - len) = net div 2 ^ nat (32 - len))"

definition numOf :: "json \<Rightarrow> int" where
  "numOf v = (case v of JInt n \<Rightarrow> n | JFloat q \<Rightarrow> floor q | _ \<Rightarrow> 0)"

definition portMatches :: "json \<Rightarrow> string \<Rightarrow> int \<Rightarrow> bool" where
  "portMatches e proto port \<longleftrightarrow>
     (let m = asObj e; want = jget m ''protocol'' in
      (if want = JNull then proto = ''TCP'' else want = JStr proto) \<and>
      (jget m ''port'' = JNull \<or>
       (if jget m ''endPort'' = JNull then port = numOf (jget m ''port'')
        else numOf (jget m ''port'') \<le> port \<and> port \<le> numOf (jget m ''endPort''))))"

definition peerMatches :: "json \<Rightarrow> 32 word \<Rightarrow> bool" where
  "peerMatches p a \<longleftrightarrow>
     jget (asObj p) ''namespaceSelector'' = JNull \<and> jget (asObj p) ''podSelector'' = JNull \<and>
     (case jget (asObj p) ''ipBlock'' of
        JObj b \<Rightarrow> cidrContains (asStr (jget b ''cidr'')) a
          \<and> list_all (\<lambda>x. \<not> cidrContains (asStr x) a) (asArr (jget b ''except''))
      | _ \<Rightarrow> False)"

definition ruleAllows :: "json \<Rightarrow> string \<Rightarrow> int \<Rightarrow> 32 word \<Rightarrow> bool" where
  "ruleAllows r proto port a \<longleftrightarrow>
     (let m = asObj r; ports = asArr (jget m ''ports''); peers = asArr (jget m ''to'') in
      (ports = [] \<or> list_ex (\<lambda>e. portMatches e proto port) ports) \<and>
      (peers = [] \<or> list_ex (\<lambda>p. peerMatches p a) peers))"

definition egressAllows :: "json \<Rightarrow> string \<Rightarrow> int \<Rightarrow> 32 word \<Rightarrow> bool" where
  "egressAllows egress proto port a \<longleftrightarrow> list_ex (\<lambda>r. ruleAllows r proto port a) (asArr egress)"

text \<open>The non-public IPv4 space as address intervals, written without reference to the source's
  CIDR strings.\<close>

definition nonPublic :: "32 word \<Rightarrow> bool" where
  "nonPublic a \<longleftrightarrow> list_ex (\<lambda>(lo, hi). lo \<le> uint a \<and> uint a < hi)
     [(0x00000000, 0x1000000), (0x0A000000, 0xB000000), (0x64400000, 0x64800000),
      (0x7F000000, 0x80000000), (0xA9FE0000, 0xA9FF0000), (0xAC100000, 0xAC200000),
      (0xC0000000, 0xC0000100), (0xC0000200, 0xC0000300), (0xC01FC400, 0xC01FC500),
      (0xC034C100, 0xC034C200), (0xC0586300, 0xC0586400), (0xC0A80000, 0xC0A90000),
      (0xC0AF3000, 0xC0AF3100), (0xC6120000, 0xC6140000), (0xC6336400, 0xC6336500),
      (0xCB007100, 0xCB007200), (0xE0000000, 0xF0000000), (0xF0000000, 0x100000000)]"

lemma div_eq_interval: 
  assumes k: "0 < (k::int)"
  shows "a div k = c \<longleftrightarrow> c * k \<le> a \<and> a \<le> c * k + k - 1"
proof
  assume "a div k = c"
  then have "a = c * k + a mod k" by (metis div_mult_mod_eq)
  then show "c * k \<le> a \<and> a \<le> c * k + k - 1" using k pos_mod_bound [of k a] pos_mod_sign [of k a] by linarith
qed (use int_div_pos_eq [of a k c "a - c * k"] k in \<open>simp add: mult.commute\<close>)

lemma reservedRanges_nonPublic:
  "(\<exists>s \<in> set reservedRanges. cidrContains s a) \<longleftrightarrow> nonPublic a"
proof -
  have p: "map parseCIDR reservedRanges = map Some
     [(0x00000000, 8), (0x0A000000, 8), (0x64400000, 10), (0x7F000000, 8), (0xA9FE0000, 16),
      (0xAC100000, 12), (0xC0000000, 24), (0xC0000200, 24), (0xC01FC400, 24), (0xC034C100, 24),
      (0xC0586300, 24), (0xC0A80000, 16), (0xC0AF3000, 24), (0xC6120000, 15), (0xC6336400, 24),
      (0xCB007100, 24), (0xE0000000, 4), (0xF0000000, 4)]"
    by code_simp
  have "(\<exists>s \<in> set reservedRanges. cidrContains s a) \<longleftrightarrow>
    list_ex (\<lambda>o'. case o' of None \<Rightarrow> False | Some (net, len) \<Rightarrow> uint a div 2 ^ nat (32 - len) = net div 2 ^ nat (32 - len))
      (map parseCIDR reservedRanges)"
    by (simp add: list_ex_iff cidrContains_def)
  also have "\<dots> \<longleftrightarrow> nonPublic a"
    unfolding p nonPublic_def
    by (simp add: div_eq_interval)
  finally show ?thesis .
qed

section \<open>The pod\<close>

definition containerConfined :: "jmap \<Rightarrow> bool" where
  "containerConfined c \<longleftrightarrow>
     jget c ''image'' = JStr universalDevImageToken
     \<and> jget c ''command'' = JArr (map JStr [''/bin/sh'', ''-c'', universalStartCommand])
     \<and> jfield [''securityContext'', ''runAsNonRoot''] c = JBool True
     \<and> numberEqual (jfield [''securityContext'', ''runAsUser''] c) 1000
     \<and> jfield [''securityContext'', ''allowPrivilegeEscalation''] c = JBool False
     \<and> jfield [''securityContext'', ''capabilities'', ''drop''] c = JArr [JStr ''ALL'']
     \<and> jfield [''securityContext'', ''capabilities'', ''add''] c = JNull
     \<and> jfield [''resources'', ''limits'', ''cpu''] c = JStr ''500m''
     \<and> jfield [''resources'', ''limits'', ''memory''] c = JStr ''512Mi''"

definition podConfined :: "jmap \<Rightarrow> bool" where
  "podConfined pod \<longleftrightarrow>
     list_all (\<lambda>f. map_of pod f = None)
       [''volumes'', ''initContainers'', ''ephemeralContainers'', ''imagePullSecrets'', ''hostAliases'']
     \<and> list_all (\<lambda>f. jget pod f \<in> {JNull, JBool False})
       [''hostNetwork'', ''hostPID'', ''hostIPC'', ''hostUsers'', ''shareProcessNamespace'']
     \<and> jget pod ''automountServiceAccountToken'' = JBool False
     \<and> jget pod ''serviceAccountName'' = JNull
     \<and> jfield [''securityContext'', ''runAsNonRoot''] pod = JBool True
     \<and> jfield [''securityContext'', ''seccompProfile'', ''type''] pod = JStr ''RuntimeDefault''
     \<and> (case jget pod ''containers'' of JArr [JObj c] \<Rightarrow> containerConfined c | _ \<Rightarrow> False)"

lemma equalStringSlice_iff: "equalStringSlice v want \<longleftrightarrow> v = JArr (map JStr want)"
  by (cases v) (auto simp: equalStringSlice_def)

lemma single_case_Inr [go_err]:
  "(case xs of [c] \<Rightarrow> f c | _ \<Rightarrow> Inl e) = Inr y \<longleftrightarrow> (\<exists>c. xs = [c] \<and> f c = Inr y)"
  by (auto split: list.splits)

lemma validateUniversalResources_ok:
  "validateUniversalResources v = Inr () \<Longrightarrow>
     \<exists>r. v = JObj r \<and> jfield [''limits'', ''cpu''] r = JStr ''500m'' \<and> jfield [''limits'', ''memory''] r = JStr ''512Mi''"
  unfolding validateUniversalResources_def by (auto simp: go_err)

lemma validateUniversalContainer_ok:
  assumes "validateUniversalContainer v = Inr ()"
  shows "\<exists>c. v = JObj c \<and> containerConfined c"
proof -
  from assms obtain c where c: "v = JObj c" unfolding validateUniversalContainer_def by (auto simp: go_err)
  from assms [unfolded c] obtain sec caps where
    "jget c ''securityContext'' = JObj sec" "jget sec ''capabilities'' = JObj caps"
    "validateUniversalResources (jget c ''resources'') = Inr ()"
    "jget c ''image'' = JStr universalDevImageToken"
    "jget c ''command'' = JArr (map JStr [''/bin/sh'', ''-c'', universalStartCommand])"
    "jget sec ''runAsNonRoot'' = JBool True" "numberEqual (jget sec ''runAsUser'') 1000"
    "jget sec ''allowPrivilegeEscalation'' = JBool False"
    "jget caps ''drop'' = JArr [JStr ''ALL'']" "jget caps ''add'' = JNull"
    unfolding validateUniversalContainer_def by (auto simp: go_err equalStringSlice_iff isNil_def)
  then show ?thesis
    using validateUniversalResources_ok [of "jget c ''resources''"] by (auto simp: c containerConfined_def)
qed

lemma validateUniversalPodSpec_ok:
  assumes "validateUniversalPodSpec pod = Inr ()"
  shows "podConfined pod"
proof -
  from assms have forb: "\<forall>f \<in> set forbiddenPodFields. map_of pod f = None"
    and dis: "\<forall>f \<in> set disabledPodFields. map_of pod f \<in> {None, Some (JBool False)}"
    unfolding validateUniversalPodSpec_def by (simp_all add: go_err firstErr_ok)
  from assms obtain sec seccomp c where
    rest: "jget pod ''automountServiceAccountToken'' = JBool False" "jget pod ''serviceAccountName'' = JNull"
    "jget pod ''securityContext'' = JObj sec" "jget sec ''runAsNonRoot'' = JBool True"
    "jget sec ''seccompProfile'' = JObj seccomp" "jget seccomp ''type'' = JStr ''RuntimeDefault''"
    "jget pod ''containers'' = JArr [c]" "validateUniversalContainer c = Inr ()"
    unfolding validateUniversalPodSpec_def by (auto simp: go_err isNil_def)
  from dis have dis': "\<forall>f \<in> set disabledPodFields. jget pod f \<in> {JNull, JBool False}"
    by (auto simp: jget_def)
  show ?thesis
    using forb dis' rest validateUniversalContainer_ok [OF rest(8)]
    unfolding podConfined_def forbiddenPodFields_def disabledPodFields_def by auto
qed

lemma validateUniversalWorkload_ok:
  assumes "validateUniversalWorkload r = Inr ()"
  shows "podConfined (asObj (jfield [''template'', ''spec'', ''template'', ''spec''] r))"
  using assms validateUniversalPodSpec_ok
  unfolding validateUniversalWorkload_def by (auto simp: go_err Let_def)

lemma graph_kinds:
  assumes "length xs = 4" "distinct (map resourceId xs)"
    "\<forall>x \<in> set xs. \<exists>t. jget (asObj x) ''template'' = JObj t
       \<and> map_of wantResources (resourceId x) = Some (asStr (jget t ''apiVersion''), asStr (jget t ''kind''))"
  shows "set (map (\<lambda>x. (resourceId x, asStr (jfield [''template'', ''kind''] (asObj x)))) xs) =
    set (map (\<lambda>(i, _, k). (i, k)) wantResources)"
proof -
  let ?f = "\<lambda>x. (resourceId x, asStr (jfield [''template'', ''kind''] (asObj x)))"
  have inj: "inj_on (fst \<circ> ?f) (set xs)" using assms(2) by (simp add: distinct_map comp_def)
  then have "inj_on ?f (set xs)" by (rule inj_on_imageI2)
  moreover have "card (set xs) = 4" using assms(1,2) by (metis distinct_card distinct_map)
  ultimately have "card (?f ` set xs) = 4" by (simp add: card_image)
  moreover have sub: "?f ` set xs \<subseteq> set (map (\<lambda>(i, _, k). (i, k)) wantResources)"
  proof (rule image_subsetI)
    fix x assume "x \<in> set xs"
    with assms(3) obtain t where "jget (asObj x) ''template'' = JObj t"
      "map_of wantResources (resourceId x) = Some (asStr (jget t ''apiVersion''), asStr (jget t ''kind''))" by blast
    then show "?f x \<in> set (map (\<lambda>(i, _, k). (i, k)) wantResources)"
      using map_of_SomeD by (force simp: image_iff)
  qed
  moreover have "card (set (map (\<lambda>(i, _, k). (i, k)) wantResources)) = 4"
    by (simp add: wantResources_def)
  ultimately show ?thesis by (simp add: card_subset_eq)
qed

section \<open>The egress policies\<close>

definition endPortFree :: "json \<Rightarrow> bool" where
  "endPortFree egress \<longleftrightarrow>
     list_all (\<lambda>r. list_all (\<lambda>e. jget (asObj e) ''endPort'' = JNull) (asArr (jget (asObj r) ''ports''))) (asArr egress)"

lemma validateDNSRule_internal:
  assumes "validateDNSRule r phase = Inr ()"
  shows "\<not> ruleAllows r proto port a"
proof -
  from assms obtain dns t ns where
    "r = JObj dns" "jget dns ''to'' = JArr [t]" "jget (asObj t) ''namespaceSelector'' = JObj ns"
    unfolding validateDNSRule_def by (auto simp: go_err)
  then show ?thesis by (simp add: ruleAllows_def peerMatches_def)
qed

lemma numberEqual_numOf: "numberEqual v n \<Longrightarrow> numOf v = n \<and> v \<noteq> JNull"
  by (cases v) (auto simp: numberEqual_def numOf_def)

lemma public_ports:
  assumes "equalPortRules v [(''TCP'', 443)]"
  obtains e where "v = JArr [JObj e]" "jget e ''protocol'' = JStr ''TCP''" "numOf (jget e ''port'') = 443"
    "jget e ''port'' \<noteq> JNull"
proof -
  from assms obtain xs where v: "v = JArr xs" and x: "equalPortRulesAux xs [(''TCP'', 443)]"
    by (auto simp: equalPortRules_def split: json.splits)
  from x obtain e where "xs = [JObj e]" "jget e ''protocol'' = JStr ''TCP''" "numberEqual (jget e ''port'') 443"
    by (cases xs rule: list.exhaust; cases "hd xs"; cases "tl xs") auto
  then show thesis using numberEqual_numOf that v by blast
qed

lemma pair_case_Inr [go_err]:
  "(case xs of [a, b] \<Rightarrow> f a b | _ \<Rightarrow> Inl e) = Inr y \<longleftrightarrow> (\<exists>a b. xs = [a, b] \<and> f a b = Inr y)"
  by (auto split: list.splits)

lemma jarr_obj_case_Inr [go_err]:
  "(case v of JArr [JObj t] \<Rightarrow> f t | JArr [_] \<Rightarrow> Inl e | _ \<Rightarrow> Inl e') = Inr y
     \<longleftrightarrow> (\<exists>t. v = JArr [JObj t] \<and> f t = Inr y)" (is "?l = _ \<longleftrightarrow> _")
proof (cases v)
  case (JArr xs)
  then show ?thesis
    by (cases xs; cases "hd xs"; cases "tl xs") simp_all
qed simp_all

lemma validatePublicRule_public:
  assumes "validatePublicRule r phase = Inr ()" and allows: "ruleAllows r proto port a"
  shows "proto = ''TCP'' \<and> 443 \<le> port \<and> \<not> nonPublic a \<and> (endPortFree (JArr [r]) \<longrightarrow> port = 443)"
proof -
  from assms(1) obtain pub t b where
    r: "r = JObj pub" and ports: "equalPortRules (jget pub ''ports'') [(''TCP'', 443)]"
    and t: "jget pub ''to'' = JArr [JObj t]" and b: "jget t ''ipBlock'' = JObj b"
    and exc: "jget b ''except'' = JArr (map JStr reservedRanges)"
    unfolding validatePublicRule_def
    unfolding jobj_case_Inr require_Inr jarr_obj_case_Inr objectField_case_Inr equalStringSlice_iff by auto
  from public_ports [OF ports] obtain e where e: "jget pub ''ports'' = JArr [JObj e]"
    "jget e ''protocol'' = JStr ''TCP''" "numOf (jget e ''port'') = 443" "jget e ''port'' \<noteq> JNull" .
  from allows have m: "portMatches (JObj e) proto port" and pm: "peerMatches (JObj t) a"
    by (simp_all add: ruleAllows_def r t e)
  from m e have "proto = ''TCP'' \<and> 443 \<le> port \<and> (jget e ''endPort'' = JNull \<longrightarrow> port = 443)"
    by (auto simp: portMatches_def Let_def split: if_splits)
  moreover from pm have "\<not> nonPublic a"
    by (simp add: peerMatches_def b exc list_all_iff flip: reservedRanges_nonPublic)
  ultimately show ?thesis by (simp add: endPortFree_def r e)
qed

lemma validateUniversalPhaseEgress_public:
  assumes ok: "validateUniversalPhaseEgress phase r = Inr ()"
    and allows: "egressAllows (jget (policySpec r) ''egress'') proto port a"
  shows "proto = ''TCP'' \<and> 443 \<le> port \<and> \<not> nonPublic a
    \<and> (endPortFree (jget (policySpec r) ''egress'') \<longrightarrow> port = 443)"
proof -
  from ok obtain dns pub where e: "jget (policySpec r) ''egress'' = JArr [dns, pub]"
    and d: "validateDNSRule dns phase = Inr ()" and p: "validatePublicRule pub phase = Inr ()"
    unfolding validateUniversalPhaseEgress_def validateUniversalEgress_def by (auto simp: go_err)
  from allows have "ruleAllows pub proto port a"
    using validateDNSRule_internal [OF d] by (simp add: egressAllows_def e)
  from validatePublicRule_public [OF p this] show ?thesis
    by (simp add: e endPortFree_def)
qed

lemma validateUniversalDefaultDeny_ok:
  assumes "validateUniversalDefaultDeny r = Inr ()"
  shows "jget (policySpec r) ''egress'' = JNull"
    "jget (policySpec r) ''policyTypes'' = JArr [JStr ''Egress'']"
    "stringMapEqual (jfield [''podSelector'', ''matchLabels''] (policySpec r)) appLabels"
proof -
  show "jget (policySpec r) ''egress'' = JNull"
    using assms unfolding validateUniversalDefaultDeny_def by (auto simp: go_err isNil_def)
  from assms obtain sp sel where
    "jget (asObj (jget r ''template'')) ''spec'' = JObj sp" "jget sp ''policyTypes'' = JArr [JStr ''Egress'']"
    "jget sp ''podSelector'' = JObj sel" "stringMapEqual (jget sel ''matchLabels'') appLabels"
    unfolding validateUniversalDefaultDeny_def validateUniversalPolicy_def
    by (auto simp: go_err equalStringSlice_iff)
  then show "jget (policySpec r) ''policyTypes'' = JArr [JStr ''Egress'']"
    "stringMapEqual (jfield [''podSelector'', ''matchLabels''] (policySpec r)) appLabels"
    by (simp_all add: policySpec_def)
qed

section \<open>The tenant-facing surface\<close>

text \<open>Every object key of a JSON value, at any depth.\<close>

fun allKeys :: "json \<Rightarrow> string list" where
  "allKeys (JObj m) = concat (map (\<lambda>(k, v). k # allKeys v) m)"
| "allKeys (JArr xs) = concat (map allKeys xs)"
| "allKeys _ = []"

definition escapeHatchKeys :: "string set" where
  "escapeHatchKeys = {''x-kubernetes-preserve-unknown-fields'', ''additionalProperties''}"

lemma rejectEscapeHatches_iff:
  "rejectEscapeHatches v path = Inr () \<longleftrightarrow> set (allKeys v) \<inter> escapeHatchKeys = {}"
  "rejectInObject m path = Inr () \<longleftrightarrow> set (allKeys (JObj m)) \<inter> escapeHatchKeys = {}"
  "rejectInArray xs i path = Inr () \<longleftrightarrow> set (allKeys (JArr xs)) \<inter> escapeHatchKeys = {}"
proof (induction v path and m path and xs i path rule: rejectEscapeHatches_rejectInObject_rejectInArray.induct)
  case (5 key child m path)
  show ?case
  proof (cases "key \<in> escapeHatchKeys")
    case True
    then show ?thesis by (auto simp: escapeHatchKeys_def)
  next
    case False
    then have "key \<noteq> ''x-kubernetes-preserve-unknown-fields''" "key \<noteq> ''additionalProperties''"
      by (simp_all add: escapeHatchKeys_def)
    with 5 False show ?thesis by (simp add: go_err Let_def Int_Un_distrib2)
  qed
qed (simp_all add: go_err Int_Un_distrib2)

lemma map_keys_exact:
  assumes "mwf m" "mwf want" "length m = length want" "\<forall>(k, v) \<in> set want. map_of m k = Some v"
  shows "map_of m = map_of want"
proof -
  have sub: "set want \<subseteq> set m" using assms(4) map_of_SomeD by fastforce
  have "card (set m) = length m" "card (set want) = length want"
    using assms(1,2) by (auto simp: distinct_map intro: distinct_card)
  then have "set want = set m" using sub assms(3) by (simp add: card_subset_eq)
  then show ?thesis using assms(1,2) map_of_inject_set by metis
qed

lemma one_entry: "map_of m k = Some v \<Longrightarrow> length m = 1 \<Longrightarrow> m = [(k, v)]"
  by (cases m) (auto split: if_splits)

lemma unit_Ex: "(\<exists>x::unit. P x) \<longleftrightarrow> P ()"
  by (metis old.unit.exhaust)

lemma validateUniversalSchema_ok:
  assumes "validateUniversalSchema s = Inr ()"
  shows "\<exists>schema props. ts_Schema s = RawJson (JObj schema) \<and> jget schema ''properties'' = JObj props
    \<and> fst ` set props \<subseteq> {''name'', ''railgridExposureHostname''}
    \<and> set (allKeys (JObj schema)) \<inter> escapeHatchKeys = {}"
proof -
  from assms obtain schema props where
    a: "ts_Schema s = RawJson (JObj schema)" "jget schema ''properties'' = JObj props"
    and f: "firstErr (\<lambda>(name, _).
         if name \<noteq> ''name'' \<and> name \<noteq> ''railgridExposureHostname''
         then Inl (Errorf ''universal coding sandbox schema exposes unsupported tenant input %q'' [name])
         else Inr ()) props = Inr ()"
    and r: "rejectEscapeHatches (JObj schema) ''schema'' = Inr ()"
    unfolding validateUniversalSchema_def andThen_Inr mapErr_Inr require_Inr rawObject_Inr objectField_Inr unit_Ex by blast
  from f have "\<forall>x \<in> set props. fst x \<in> {''name'', ''railgridExposureHostname''}"
    by (auto simp: firstErr_ok split: if_splits)
  with a r show ?thesis by (auto simp: rejectEscapeHatches_iff)
qed

lemma validateUniversalDataPlane_ok:
  assumes "validateUniversalDataPlane (Some dp) = Inr ()"
  shows "\<exists>w e. map_of (dp_Components dp) ''workspace'' = Some w \<and> length (dp_Components dp) = 1
    \<and> length (dc_Endpoints w) = length expectedEndpoints
    \<and> (\<forall>(n, ep) \<in> set expectedEndpoints. map_of (dc_Endpoints w) n = Some ep)
    \<and> dc_Exec w = Some e \<and> ex_MaxTimeoutSeconds e = 120 \<and> ex_MaxOutputBytes e = 262144
    \<and> map_of (dp_Endpoints dp) ''status'' = Some statusEndpoint \<and> length (dp_Endpoints dp) = 1"
proof -
  from assms obtain w e where
    w: "map_of (dp_Components dp) ''workspace'' = Some w" "length (dp_Components dp) = 1" "length (dc_Endpoints w) = 5"
    and f: "firstErr (\<lambda>(name, want). if map_of (dc_Endpoints w) name \<noteq> Some want
         then Inl (Errorf ''universal coding sandbox endpoint %q does not match its bounded contract'' [name])
         else Inr ()) expectedEndpoints = Inr ()"
    and e: "dc_Exec w = Some e" "ex_MaxTimeoutSeconds e = 120" "ex_MaxOutputBytes e = 262144"
      "map_of (dp_Endpoints dp) ''status'' = Some statusEndpoint" "length (dp_Endpoints dp) = 1"
    unfolding validateUniversalDataPlane_def
    by (auto simp: andThen_Inr require_Inr split: option.splits)
  have "length expectedEndpoints = 5" by (simp add: expectedEndpoints_def)
  moreover have "\<forall>(n, ep) \<in> set expectedEndpoints. map_of (dc_Endpoints w) n = Some ep"
    using f by (auto simp: firstErr_ok split: if_splits)
  ultimately show ?thesis using w e by auto
qed

section \<open>The seeded template\<close>

text \<open>\<^verbatim>\<open>install/templates/universal-coding-sandbox.yaml\<close>, decoded. The validator is run on it at every
  reconcile, so its acceptance is part of the development and the theorems are applied to it.\<close>

definition seedPolicy :: "string \<Rightarrow> string \<Rightarrow> string smap \<Rightarrow> (string \<times> json) list \<Rightarrow> json" where
  "seedPolicy rid cond labels egress =
     JObj [(''id'', JStr rid), (''includeWhen'', JArr [JStr cond]),
       (''template'', JObj [(''apiVersion'', JStr ''networking.k8s.io/v1''), (''kind'', JStr ''NetworkPolicy''),
         (''metadata'', JObj [(''namespace'', JStr ''default'')]),
         (''spec'', JObj ([(''podSelector'', JObj [(''matchLabels'', JObj (map (\<lambda>(k, v). (k, JStr v)) labels))]),
            (''policyTypes'', JArr [JStr ''Egress''])] @ egress))])]"

definition seedEgress :: "(string \<times> json) list \<Rightarrow> (string \<times> json) list" where
  "seedEgress extra =
     [(''egress'', JArr
       [JObj [(''to'', JArr [JObj
            [(''namespaceSelector'', JObj [(''matchLabels'', JObj [(''kubernetes.io/metadata.name'', JStr ''kube-system'')])]),
             (''podSelector'', JObj [(''matchLabels'', JObj [(''k8s-app'', JStr ''kube-dns'')])])]]),
          (''ports'', JArr [JObj [(''protocol'', JStr ''UDP''), (''port'', JFloat 53)],
                          JObj [(''protocol'', JStr ''TCP''), (''port'', JFloat 53)]])],
        JObj [(''to'', JArr [JObj [(''ipBlock'', JObj [(''cidr'', JStr ''0.0.0.0/0''), (''except'', JArr (map JStr reservedRanges))])]]),
          (''ports'', JArr [JObj ([(''protocol'', JStr ''TCP''), (''port'', JFloat 443)] @ extra)])]])]"

definition seedWorkload :: json where
  "seedWorkload =
     JObj [(''id'', JStr ''workspaceDeployment''),
       (''template'', JObj [(''apiVersion'', JStr ''apps/v1''), (''kind'', JStr ''Deployment''),
         (''metadata'', JObj [(''name'', JStr ''${schema.spec.name}''), (''namespace'', JStr ''default''),
            (''annotations'', JObj [(''railgrid.ai/network-access'', JStr ''default-deny-egress'')])]),
         (''spec'', JObj [(''replicas'', JFloat 1), (''strategy'', JObj [(''type'', JStr ''Recreate'')]),
            (''selector'', JObj [(''matchLabels'', JObj [(''app'', JStr ''${schema.spec.name}'')])]),
            (''template'', JObj
              [(''metadata'', JObj [(''labels'', JObj [(''app'', JStr ''${schema.spec.name}'')]),
                 (''annotations'', JObj [(''railgrid.ai/network-access'', JStr ''default-deny-egress'')])]),
               (''spec'', JObj [(''automountServiceAccountToken'', JBool False),
                 (''securityContext'', JObj [(''runAsNonRoot'', JBool True), (''runAsUser'', JFloat 1000),
                    (''runAsGroup'', JFloat 1000), (''fsGroup'', JFloat 1000),
                    (''seccompProfile'', JObj [(''type'', JStr ''RuntimeDefault'')])]),
                 (''containers'', JArr [JObj
                   [(''name'', JStr ''workspace''), (''image'', JStr ''${railgrid.devImage.universal}''),
                    (''imagePullPolicy'', JStr ''IfNotPresent''),
                    (''command'', JArr [JStr ''/bin/sh'', JStr ''-c'', JStr ''sleep infinity'']),
                    (''workingDir'', JStr ''/workspace''),
                    (''ports'', JArr [JObj [(''name'', JStr ''http''), (''containerPort'', JFloat 8080)]]),
                    (''resources'', JObj [(''requests'', JObj [(''cpu'', JStr ''100m''), (''memory'', JStr ''128Mi'')]),
                       (''limits'', JObj [(''cpu'', JStr ''500m''), (''memory'', JStr ''512Mi'')])]),
                    (''securityContext'', JObj [(''runAsNonRoot'', JBool True), (''runAsUser'', JFloat 1000),
                       (''runAsGroup'', JFloat 1000), (''allowPrivilegeEscalation'', JBool False),
                       (''readOnlyRootFilesystem'', JBool False),
                       (''capabilities'', JObj [(''drop'', JArr [JStr ''ALL''])])])]])])])])])]"

definition seedBackend :: "(string \<times> json) list \<Rightarrow> json" where
  "seedBackend extra =
     JObj [(''resources'', JArr [seedWorkload,
        seedPolicy ''workspaceDefaultDenyEgress'' universalDevelopmentCondition appLabels [],
        seedPolicy ''workspaceSetupEgress'' (universalPhaseCondition ''setup'') (phaseLabels ''setup'') (seedEgress []),
        seedPolicy ''workspaceRuntimeEgress'' (universalPhaseCondition ''runtime'') (phaseLabels ''runtime'') (seedEgress extra)]),
       (''status'', JObj [(''ready'', JStr ''${workspaceDeployment.status.readyReplicas}'')])]"

definition seedSpec :: "(string \<times> json) list \<Rightarrow> templateSpec" where
  "seedSpec extra =
     \<lparr>ts_Version = ''0.1.0'', ts_Exposure = ''internal'', ts_Backend = ''kro'',
      ts_InstanceCRD = \<lparr>crd_Group = GroupName, crd_Version = ApiVersion, crd_Resource = ''codingsandboxes'', crd_Kind = ''CodingSandbox''\<rparr>,
      ts_Schema = RawJson (JObj [(''type'', JStr ''object''),
        (''properties'', JObj [(''name'', JObj [(''type'', JStr ''string'')]),
           (''railgridExposureHostname'', JObj [(''type'', JStr ''string'')])]),
        (''required'', JArr [JStr ''name''])]),
      ts_BackendConfig = RawJson (seedBackend extra),
      ts_SampleValues = RawJson (JObj [(''name'', JStr ''coding-sandbox'')]),
      ts_DataPlane = Some \<lparr>dp_RuntimeNamespacePath = ''status.runtimeNamespace'', dp_TokenSecretPath = ''status.controlSecretRef'',
        dp_Endpoints = [(''status'', statusEndpoint)],
        dp_Components = [(''workspace'', \<lparr>dc_Endpoints = expectedEndpoints,
           dc_Exec = Some \<lparr>ex_MaxTimeoutSeconds = 120, ex_MaxOutputBytes = 262144\<rparr>\<rparr>)]\<rparr>,
      ts_Development = Some \<lparr>dv_ProviderActions = Some False, dv_MaxLifetimeSeconds = 43200, dv_IdleTimeoutSeconds = 43200,
        dv_Build = None, dv_Components = [(''workspace'', \<lparr>dv_WorkspacePath = ''.'', dv_DevImage = universalDevImageToken,
           dv_WorkingDir = universalWorkingDir, dv_StartCommand = universalStartCommand, dv_Port = [], dv_ImageInput = [],
           dv_Reload = None\<rparr>)], dv_Scaffold = None\<rparr>\<rparr>"

definition seedTemplate :: "(string \<times> json) list \<Rightarrow> template" where
  "seedTemplate extra =
     \<lparr>tm_Name = UniversalCodingSandboxTemplateName, tm_Labels = [(''railgrid.ai/platform-owned'', ''true'')],
      tm_Generation = 1, tm_DeletionTimestamp = None, tm_Finalizers = [], tm_Spec = seedSpec extra,
      tm_Status = \<lparr>st_ObservedGeneration = 0, st_Backend = \<lparr>bs_Name = [], bs_Ready = False, bs_Message = []\<rparr>, st_Conditions = []\<rparr>\<rparr>"

lemma seed_accepted: "validateUniversalCodingSandboxTemplate (Some (seedTemplate [])) = Inr ()"
  by code_simp

lemma seed_endPort_accepted:
  "validateUniversalCodingSandboxTemplate (Some (seedTemplate [(''endPort'', JFloat 65535)])) = Inr ()"
  by code_simp

section \<open>What acceptance guarantees\<close>

text \<open>When the universal coding sandbox template is accepted, the graph it will install consists of
  exactly one Deployment and three NetworkPolicies (no Service, route, Secret or ServiceAccount),
  the workload is unconditional, and its pod is confined: no volumes, init or ephemeral
  containers, no host namespaces, no service-account token, non-root with the runtime's default
  seccomp profile, and a single container that runs the platform's own image and command with all
  capabilities dropped and fixed resource limits.\<close>

theorem universal_pod_confined:
  assumes "validateUniversalCodingSandboxTemplate (Some t) = Inr ()"
    and "tm_Name t = UniversalCodingSandboxTemplateName"
  shows "set (map (\<lambda>x. (resourceId x, asStr (jfield [''template'', ''kind''] (asObj x)))) (graphResources (tm_Spec t))) =
      {(''workspaceDeployment'', ''Deployment''), (''workspaceDefaultDenyEgress'', ''NetworkPolicy''),
       (''workspaceSetupEgress'', ''NetworkPolicy''), (''workspaceRuntimeEgress'', ''NetworkPolicy'')}
    \<and> length (graphResources (tm_Spec t)) = 4
    \<and> jget (graphResource (tm_Spec t) ''workspaceDeployment'') ''includeWhen'' = JNull
    \<and> podConfined (podSpecOf (tm_Spec t))"
proof (intro conjI)
  note ok = validateUniversalBackend_graph [OF validateUniversal_accepts(4) [OF assms]]
  show "set (map (\<lambda>x. (resourceId x, asStr (jfield [''template'', ''kind''] (asObj x)))) (graphResources (tm_Spec t))) =
      {(''workspaceDeployment'', ''Deployment''), (''workspaceDefaultDenyEgress'', ''NetworkPolicy''),
       (''workspaceSetupEgress'', ''NetworkPolicy''), (''workspaceRuntimeEgress'', ''NetworkPolicy'')}"
    unfolding graph_kinds [OF ok(1-3)] by (simp add: wantResources_def)
  show "length (graphResources (tm_Spec t)) = 4" by (rule ok(1))
  show "jget (graphResource (tm_Spec t) ''workspaceDeployment'') ''includeWhen'' = JNull"
    using ok(4) by (simp add: isNil_def)
  show "podConfined (podSpecOf (tm_Spec t))"
    unfolding podSpecOf_def by (rule validateUniversalWorkload_ok [OF ok(5)])
qed

theorem universal_pod_confined_witness:
  "podConfined (podSpecOf (tm_Spec (seedTemplate []))) \<and> length (graphResources (tm_Spec (seedTemplate []))) = 4"
  using universal_pod_confined [OF seed_accepted] by (simp add: seedTemplate_def)

text \<open>C11: The network boundary of an accepted universal template, in packets: the default-deny
  policy selects the workload's pods for Egress and allows nothing, and in both phases the only
  external destinations the allow policies open are TCP, on ports from 443 up, to addresses
  outside every private, link-local (metadata), CGNAT, loopback, multicast and reserved IPv4 range
  - on port 443 exactly when no rule carries an \<^verbatim>\<open>endPort\<close>.\<close>

theorem universal_egress_public_https:
  assumes "validateUniversalCodingSandboxTemplate (Some t) = Inr ()"
    and "tm_Name t = UniversalCodingSandboxTemplateName"
  shows "egressOf (tm_Spec t) ''workspaceDefaultDenyEgress'' = JNull
    \<and> jget (policySpec (graphResource (tm_Spec t) ''workspaceDefaultDenyEgress'')) ''policyTypes'' = JArr [JStr ''Egress'']
    \<and> (\<forall>rid \<in> {''workspaceSetupEgress'', ''workspaceRuntimeEgress''}. \<forall>proto port a.
        egressAllows (egressOf (tm_Spec t) rid) proto port a \<longrightarrow>
          proto = ''TCP'' \<and> 443 \<le> port \<and> \<not> nonPublic a
          \<and> (endPortFree (egressOf (tm_Spec t) rid) \<longrightarrow> port = 443))"
proof -
  note ok = validateUniversalBackend_graph [OF validateUniversal_accepts(4) [OF assms]]
  show ?thesis
    using validateUniversalDefaultDeny_ok [OF ok(6)]
      validateUniversalPhaseEgress_public [OF ok(7)] validateUniversalPhaseEgress_public [OF ok(8)]
    unfolding egressOf_def by blast
qed

theorem universal_egress_public_https_witness:
  "egressAllows (egressOf (seedSpec []) ''workspaceRuntimeEgress'') ''TCP'' 443 0x68101A23
   \<and> endPortFree (egressOf (seedSpec []) ''workspaceRuntimeEgress'')
   \<and> \<not> egressAllows (egressOf (seedSpec []) ''workspaceRuntimeEgress'') ''TCP'' 443 0xA9FEA9FE"
proof (intro conjI)
  show "egressAllows (egressOf (seedSpec []) ''workspaceRuntimeEgress'') ''TCP'' 443 0x68101A23"
    "endPortFree (egressOf (seedSpec []) ''workspaceRuntimeEgress'')" by code_simp+
  have np: "nonPublic 0xA9FEA9FE" by (simp add: nonPublic_def)
  show "\<not> egressAllows (egressOf (seedSpec []) ''workspaceRuntimeEgress'') ''TCP'' 443 0xA9FEA9FE"
    using universal_egress_public_https [of "seedTemplate []"] seed_accepted np
    unfolding seedTemplate_def template.simps by blast
qed

text \<open>The port check of the HTTPS rule reads \<^verbatim>\<open>protocol\<close> and \<^verbatim>\<open>port\<close> only. A template whose runtime
  policy adds \<^verbatim>\<open>endPort: 65535\<close> is accepted, and that policy opens every TCP port from 443 up -
  8443 here - although the error message says the policy must allow TCP 443 only.\<close>

theorem universal_egress_endPort_gap:
  "validateUniversalCodingSandboxTemplate (Some (seedTemplate [(''endPort'', JFloat 65535)])) = Inr ()
   \<and> egressAllows (egressOf (seedSpec [(''endPort'', JFloat 65535)]) ''workspaceRuntimeEgress'') ''TCP'' 8443 0x68101A23"
  by (intro conjI seed_endPort_accepted) code_simp

text \<open>The tenant surface of an accepted universal template: the only inputs its schema declares
  are \<^verbatim>\<open>name\<close> and the deprecated \<^verbatim>\<open>railgridExposureHostname\<close>, no key of the schema at any depth opens
  it to unknown fields, it is never publishable, provider actions are off, the session lifetime is
  twelve hours, and its data plane offers exactly the five bounded workspace endpoints and an exec
  limited to 120 seconds and 256 KiB of output.\<close>

theorem universal_surface:
  assumes "validateUniversalCodingSandboxTemplate (Some t) = Inr ()"
    and "tm_Name t = UniversalCodingSandboxTemplateName"
    and dp: "ts_DataPlane (tm_Spec t) = Some dp"
    and wf: "\<forall>(_, c) \<in> set (dp_Components dp). mwf (dc_Endpoints c)"
  shows "\<not> publishable (tm_Spec t)
    \<and> (\<exists>schema props. ts_Schema (tm_Spec t) = RawJson (JObj schema) \<and> jget schema ''properties'' = JObj props
        \<and> fst ` set props \<subseteq> {''name'', ''railgridExposureHostname''}
        \<and> set (allKeys (JObj schema)) \<inter> escapeHatchKeys = {})
    \<and> (\<exists>dev. ts_Development (tm_Spec t) = Some dev \<and> dv_ProviderActions dev = Some False
        \<and> dv_MaxLifetimeSeconds dev = 43200 \<and> dv_Build dev = None \<and> dv_Scaffold dev = None)
    \<and> (\<exists>w e. dp_Components dp = [(''workspace'', w)] \<and> map_of (dc_Endpoints w) = map_of expectedEndpoints
        \<and> dc_Exec w = Some e \<and> ex_MaxTimeoutSeconds e = 120 \<and> ex_MaxOutputBytes e = 262144
        \<and> dp_Endpoints dp = [(''status'', statusEndpoint)])"
proof (intro conjI)
  note ok = validateUniversal_accepts [OF assms(1,2)]
  show "\<not> publishable (tm_Spec t)" by (rule ok(6))
  show "\<exists>schema props. ts_Schema (tm_Spec t) = RawJson (JObj schema) \<and> jget schema ''properties'' = JObj props
        \<and> fst ` set props \<subseteq> {''name'', ''railgridExposureHostname''}
        \<and> set (allKeys (JObj schema)) \<inter> escapeHatchKeys = {}"
    by (rule validateUniversalSchema_ok [OF ok(1)])
  show "\<exists>dev. ts_Development (tm_Spec t) = Some dev \<and> dv_ProviderActions dev = Some False
        \<and> dv_MaxLifetimeSeconds dev = 43200 \<and> dv_Build dev = None \<and> dv_Scaffold dev = None"
    using ok(2) unfolding validateUniversalDevelopment_def by (auto simp: require_Inr split: option.splits)
  from validateUniversalDataPlane_ok [OF ok(3) [unfolded dp]] obtain w e where
    w: "map_of (dp_Components dp) ''workspace'' = Some w" "length (dp_Components dp) = 1"
    "length (dc_Endpoints w) = length expectedEndpoints"
    "\<forall>(n, ep) \<in> set expectedEndpoints. map_of (dc_Endpoints w) n = Some ep"
    and e: "dc_Exec w = Some e" "ex_MaxTimeoutSeconds e = 120" "ex_MaxOutputBytes e = 262144"
    and st: "map_of (dp_Endpoints dp) ''status'' = Some statusEndpoint" "length (dp_Endpoints dp) = 1" by blast
  have "(''workspace'', w) \<in> set (dp_Components dp)" by (rule map_of_SomeD [OF w(1)])
  then have "mwf (dc_Endpoints w)" using wf by blast
  moreover have "mwf expectedEndpoints" by (simp add: expectedEndpoints_def)
  ultimately have "map_of (dc_Endpoints w) = map_of expectedEndpoints"
    using map_keys_exact [OF _ _ w(3,4)] by blast
  then show "\<exists>w e. dp_Components dp = [(''workspace'', w)] \<and> map_of (dc_Endpoints w) = map_of expectedEndpoints
        \<and> dc_Exec w = Some e \<and> ex_MaxTimeoutSeconds e = 120 \<and> ex_MaxOutputBytes e = 262144
        \<and> dp_Endpoints dp = [(''status'', statusEndpoint)]"
    using one_entry [OF w(1,2)] one_entry [OF st] e by blast
qed

theorem universal_surface_witness:
  "\<not> publishable (seedSpec []) \<and> dp_Endpoints (the (ts_DataPlane (seedSpec []))) = [(''status'', statusEndpoint)]"
proof -
  have "mwf expectedEndpoints" by (simp add: expectedEndpoints_def)
  then show ?thesis
    using universal_surface [OF seed_accepted, of "the (ts_DataPlane (seedSpec []))"]
    by (simp add: seedTemplate_def seedSpec_def)
qed

end
