(* ===== verification/Data_Plane_Resolver.thy ===== *)
theory Data_Plane_Resolver
  imports Api_Types
begin

text \<open>
  \<^verbatim>\<open>dataplane/resolver.go\<close>: a template's declared data-plane contract resolved against an
  instance, to the Service (and the control-token Secret) a verb is proxied to. The invariant is
  namespace confinement: whatever a forged status says, a resolved reference lies in the runtime
  namespace the provider derived itself. \<^verbatim>\<open>U\<close> stands for apimachinery's accessors.
\<close>

section \<open>Status paths\<close>

definition splitPath :: "string \<Rightarrow> goError + string list" where
  "splitPath path0 =
     (let path = trimSpace path0 in
      if path = [] then Inl (Errorf ''empty status path'' [])
      else let parts = splitAll CHR ''.'' path in
        if list_ex (\<lambda>p. trimSpace p = []) parts
        then Inl (Errorf ''malformed status path %q'' [path])
        else Inr parts)"

definition nestedString :: "unstr \<Rightarrow> json \<Rightarrow> string \<Rightarrow> goError + string" where
  "nestedString U inst path =
     andThen (splitPath path) (\<lambda>fields.
     case nestedStr U inst fields of
       Inl _ \<Rightarrow> Inl (Errorf ''status path %q is not a string: %w'' [path])
     | Inr None \<Rightarrow> Inr []
     | Inr (Some v) \<Rightarrow> Inr (trimSpace v))"

record objectRef =
  ref_Namespace :: string
  ref_Name :: string

definition strKey :: "string smap \<Rightarrow> string \<Rightarrow> string" where
  "strKey m k = (case map_of m k of None \<Rightarrow> [] | Some v \<Rightarrow> v)"

definition nestedRef :: "unstr \<Rightarrow> json \<Rightarrow> string \<Rightarrow> goError + objectRef" where
  "nestedRef U inst path =
     andThen (splitPath path) (\<lambda>fields.
     case nestedStrMap U inst fields of
       Inl _ \<Rightarrow> Inl (Errorf ''status path %q is not a {name, namespace} object: %w'' [path])
     | Inr None \<Rightarrow> Inl (Errorf ''status path %q is absent; instance is not ready'' [path])
     | Inr (Some m) \<Rightarrow> Inr \<lparr>ref_Namespace = trimSpace (strKey m ''namespace''), ref_Name = trimSpace (strKey m ''name'')\<rparr>)"

definition refInNamespace :: "unstr \<Rightarrow> json \<Rightarrow> string \<Rightarrow> string \<Rightarrow> goError + objectRef" where
  "refInNamespace U inst path runtimeNamespace =
     andThen (nestedRef U inst path) (\<lambda>ref0.
     if ref_Name ref0 = [] then Inl (Errorf ''ref at %q has no name; instance is not ready'' [path])
     else let ref = (if ref_Namespace ref0 = [] then ref0\<lparr>ref_Namespace := runtimeNamespace\<rparr> else ref0) in
       if ref_Namespace ref \<noteq> runtimeNamespace
       then Inl (Errorf ''ref at %q points to namespace %q outside the instance runtime namespace %q''
                   [path, ref_Namespace ref, runtimeNamespace])
       else Inr ref)"

definition normalizeUpstreamPath :: "string \<Rightarrow> string" where
  "normalizeUpstreamPath p0 =
     (let p = trimSpace p0 in
      if p = [] then ''/'' else if \<not> hasPrefix p ''/'' then ''/'' @ p else p)"

section \<open>Methods\<close>

definition endpointMethodAllowed :: "dpEndpoint \<Rightarrow> string \<Rightarrow> bool" where
  "endpointMethodAllowed ep method0 =
     (let method = toUpper (trimSpace method0) in
      case ep_Methods ep of
        None \<Rightarrow> method = ''GET''
      | Some [] \<Rightarrow> method = ''GET''
      | Some ms \<Rightarrow> list_ex (\<lambda>m. toUpper (trimSpace m) = method) ms)"

definition methodAllowed :: "dataPlane option \<Rightarrow> string \<Rightarrow> string \<Rightarrow> bool" where
  "methodAllowed contract verb method =
     (case contract of
        None \<Rightarrow> False
      | Some dp \<Rightarrow> (case map_of (dp_Endpoints dp) verb of
            None \<Rightarrow> False
          | Some ep \<Rightarrow> endpointMethodAllowed ep method))"

definition componentMethodAllowed :: "dataPlane option \<Rightarrow> string \<Rightarrow> string \<Rightarrow> string \<Rightarrow> bool" where
  "componentMethodAllowed contract component verb method =
     (case contract of
        None \<Rightarrow> False
      | Some dp \<Rightarrow> (case map_of (dp_Components dp) component of
            None \<Rightarrow> False
          | Some c \<Rightarrow> (case map_of (dc_Endpoints c) verb of
                None \<Rightarrow> False
              | Some ep \<Rightarrow> endpointMethodAllowed ep method)))"

section \<open>Resolution\<close>

record resolvedTarget =
  rt_FromStatus :: bool
  rt_ServiceNamespace :: string
  rt_ServiceName :: string
  rt_ServicePort :: string
  rt_UpstreamPath :: string
  rt_Stream :: bool
  rt_Upgrade :: bool
  rt_TokenSecretNamespace :: string
  rt_TokenSecretName :: string

definition zeroTarget :: resolvedTarget where
  "zeroTarget = \<lparr>rt_FromStatus = False, rt_ServiceNamespace = [], rt_ServiceName = [], rt_ServicePort = [],
     rt_UpstreamPath = [], rt_Stream = False, rt_Upgrade = False, rt_TokenSecretNamespace = [], rt_TokenSecretName = []\<rparr>"

definition resolveServiceReference :: "unstr \<Rightarrow> dataPlane option \<Rightarrow> json option \<Rightarrow> string \<Rightarrow> goError + objectRef" where
  "resolveServiceReference U contract inst servicePath =
     (case contract of
        None \<Rightarrow> Inl (Errorf ''data-plane contract is nil'' [])
      | Some dp \<Rightarrow> (case inst of
        None \<Rightarrow> Inl (Errorf ''instance is nil'' [])
      | Some i \<Rightarrow>
     andThen (nestedString U i (dp_RuntimeNamespacePath dp)) (\<lambda>runtimeNamespace.
     if runtimeNamespace = []
     then Inl (Errorf ''runtime namespace at %q is empty; instance is not ready'' [dp_RuntimeNamespacePath dp])
     else if trimSpace servicePath = [] then Inl (Errorf ''servicePath is required'' [])
     else refInNamespace U i servicePath runtimeNamespace)))"

definition resolveEndpoint :: "unstr \<Rightarrow> dataPlane \<Rightarrow> json \<Rightarrow> dpEndpoint \<Rightarrow> string \<Rightarrow> goError + resolvedTarget" where
  "resolveEndpoint U dp i ep verb =
     (if ep_FromStatus ep then Inr (zeroTarget\<lparr>rt_FromStatus := True\<rparr>)
      else if trimSpace (ep_ServicePath ep) = []
      then Inl (Errorf ''verb %q: servicePath is required for a proxy endpoint'' [verb])
      else if trimSpace (ep_Port ep) = []
      then Inl (Errorf ''verb %q: port is required for a proxy endpoint'' [verb])
      else
     andThen (mapErr (Wrapf ''verb %q service: %w'' [verb])
       (resolveServiceReference U (Some dp) (Some i) (ep_ServicePath ep))) (\<lambda>svc.
     let target = zeroTarget\<lparr>rt_ServiceNamespace := ref_Namespace svc, rt_ServiceName := ref_Name svc,
           rt_ServicePort := trimSpace (ep_Port ep), rt_UpstreamPath := normalizeUpstreamPath (ep_UpstreamPath ep),
           rt_Stream := ep_Stream ep, rt_Upgrade := ep_Upgrade ep\<rparr>;
         path = trimSpace (dp_TokenSecretPath dp) in
     if path = [] then Inr target
     else
     andThen (mapErr (Wrapf ''verb %q: %w'' [verb]) (nestedString U i (dp_RuntimeNamespacePath dp))) (\<lambda>runtimeNamespace.
     andThen (mapErr (Wrapf ''verb %q token secret: %w'' [verb]) (refInNamespace U i path runtimeNamespace)) (\<lambda>secret.
     Inr (target\<lparr>rt_TokenSecretNamespace := ref_Namespace secret, rt_TokenSecretName := ref_Name secret\<rparr>)))))"

definition resolveVerb :: "unstr \<Rightarrow> dataPlane option \<Rightarrow> json option \<Rightarrow> string \<Rightarrow> goError + resolvedTarget" where
  "resolveVerb U contract inst verb =
     (case contract of
        None \<Rightarrow> Inl (Errorf ''template declares no data plane'' [])
      | Some dp \<Rightarrow> (case inst of
        None \<Rightarrow> Inl (Errorf ''instance is nil'' [])
      | Some i \<Rightarrow> (case map_of (dp_Endpoints dp) verb of
        None \<Rightarrow> Inl (Errorf ''data-plane verb %q is not declared by this template'' [verb])
      | Some ep \<Rightarrow> resolveEndpoint U dp i ep verb)))"

definition resolveComponent :: "unstr \<Rightarrow> dataPlane option \<Rightarrow> json option \<Rightarrow> string \<Rightarrow> string \<Rightarrow> goError + resolvedTarget" where
  "resolveComponent U contract inst component verb =
     (case contract of
        None \<Rightarrow> Inl (Errorf ''template declares no data plane'' [])
      | Some dp \<Rightarrow> (case inst of
        None \<Rightarrow> Inl (Errorf ''instance is nil'' [])
      | Some i \<Rightarrow> (case map_of (dp_Components dp) component of
        None \<Rightarrow> Inl (Errorf ''data-plane component %q is not declared by this template'' [component])
      | Some c \<Rightarrow> (case map_of (dc_Endpoints c) verb of
        None \<Rightarrow> Inl (Errorf ''data-plane verb %q is not declared by component %q'' [verb, component])
      | Some ep \<Rightarrow> resolveEndpoint U dp i ep (component @ ''/'' @ verb)))))"

definition resolveComponentSyncTarget :: "unstr \<Rightarrow> dataPlane option \<Rightarrow> json option \<Rightarrow> string \<Rightarrow> goError + resolvedTarget" where
  "resolveComponentSyncTarget U contract inst component =
     (case (contract, inst) of
        (Some dp, Some i) \<Rightarrow>
     (case map_of (dp_Components dp) component of
        None \<Rightarrow> Inl (Errorf ''data-plane component %q is not declared by this template'' [component])
      | Some c \<Rightarrow> (case map_of (dc_Endpoints c) ''sync'' of
        None \<Rightarrow> Inl (Errorf ''component %q must declare a proxy sync endpoint for exec'' [component])
      | Some ep \<Rightarrow> if ep_FromStatus ep
          then Inl (Errorf ''component %q must declare a proxy sync endpoint for exec'' [component])
          else andThen (resolveEndpoint U dp i ep (component @ ''/sync'')) (\<lambda>target.
            Inr (target\<lparr>rt_Stream := False, rt_Upgrade := False\<rparr>))))
      | _ \<Rightarrow> Inl (Errorf ''template contract and instance are required'' []))"

definition resolveComponentExecTarget :: "unstr \<Rightarrow> dataPlane option \<Rightarrow> json option \<Rightarrow> string \<Rightarrow> goError + resolvedTarget" where
  "resolveComponentExecTarget U contract inst component =
     andThen (resolveComponentSyncTarget U contract inst component) (\<lambda>target.
     Inr (target\<lparr>rt_UpstreamPath := ''/exec'', rt_ServicePort := ''exec''\<rparr>))"

definition resolveComponentStatusTarget :: "unstr \<Rightarrow> dataPlane option \<Rightarrow> json option \<Rightarrow> string \<Rightarrow> goError + resolvedTarget" where
  "resolveComponentStatusTarget U contract inst component =
     andThen (resolveComponentSyncTarget U contract inst component) (\<lambda>target.
     Inr (target\<lparr>rt_UpstreamPath := ''/status''\<rparr>))"

definition validateRuntimeNamespace :: "unstr \<Rightarrow> dataPlane option \<Rightarrow> json option \<Rightarrow> string \<Rightarrow> goError + unit" where
  "validateRuntimeNamespace U contract inst expected0 =
     (case (contract, inst) of
        (Some dp, Some i) \<Rightarrow>
     (let expected = trimSpace expected0 in
      if expected = [] then Inl (Errorf ''expected runtime namespace is required'' [])
      else andThen (nestedString U i (dp_RuntimeNamespacePath dp)) (\<lambda>actual.
        if actual = []
        then Inl (Errorf ''runtime namespace at %q is empty; instance is not ready'' [dp_RuntimeNamespacePath dp])
        else if actual \<noteq> expected
        then Inl (Errorf ''runtime namespace at %q is %q, want provider-derived namespace %q''
                    [dp_RuntimeNamespacePath dp, actual, expected])
        else Inr ()))
      | _ \<Rightarrow> Inl (Errorf ''template contract and instance are required'' []))"

section \<open>Confinement\<close>

text \<open>What a resolved target promises relative to the runtime namespace \<^verbatim>\<open>ns\<close>.\<close>

definition targetConfined :: "string \<Rightarrow> resolvedTarget \<Rightarrow> bool" where
  "targetConfined ns t \<longleftrightarrow>
     (if rt_FromStatus t then t = zeroTarget\<lparr>rt_FromStatus := True\<rparr>
      else rt_ServiceNamespace t = ns \<and> rt_ServiceName t \<noteq> [] \<and> rt_ServicePort t \<noteq> []
        \<and> hasPrefix (rt_UpstreamPath t) ''/''
        \<and> (rt_TokenSecretName t = [] \<and> rt_TokenSecretNamespace t = []
           \<or> rt_TokenSecretName t \<noteq> [] \<and> rt_TokenSecretNamespace t = ns))"

lemma refInNamespace_ok:
  "refInNamespace U i path ns = Inr ref \<Longrightarrow> ref_Namespace ref = ns \<and> ref_Name ref \<noteq> []"
  by (auto simp: refInNamespace_def go_err Let_def split: if_splits)

lemma resolveServiceReference_ok:
  assumes "resolveServiceReference U (Some dp) (Some i) path = Inr ref"
  shows "nestedString U i (dp_RuntimeNamespacePath dp) = Inr (ref_Namespace ref)"
    "ref_Namespace ref \<noteq> []" "ref_Name ref \<noteq> []"
  using assms refInNamespace_ok by (auto simp: resolveServiceReference_def go_err)

lemma normalizeUpstreamPath_slash: "hasPrefix (normalizeUpstreamPath p) ''/''"
  by (simp add: normalizeUpstreamPath_def Let_def hasPrefix_def)

lemma resolveEndpoint_confined:
  assumes ok: "resolveEndpoint U dp i ep v = Inr t"
    and ns: "nestedString U i (dp_RuntimeNamespacePath dp) = Inr ns"
  shows "targetConfined ns t"
proof (cases "ep_FromStatus ep")
  case True
  with ok show ?thesis by (auto simp: resolveEndpoint_def targetConfined_def)
next
  case False
  with ok obtain svc where svc: "resolveServiceReference U (Some dp) (Some i) (ep_ServicePath ep) = Inr svc"
    by (auto simp: resolveEndpoint_def go_err split: if_splits)
  note s = resolveServiceReference_ok [OF svc]
  with ns have [simp]: "ref_Namespace svc = ns" by simp
  from ok False svc s show ?thesis
    by (auto simp: resolveEndpoint_def go_err Let_def ns targetConfined_def zeroTarget_def
        normalizeUpstreamPath_slash dest!: refInNamespace_ok split: if_splits)
qed

section \<open>The interface of a verb resolver\<close>

text \<open>
  The instance-level verbs and the component-level ones promise the same: a verb that is not
  declared resolves to nothing and admits no method, and a declared one resolves as its endpoint
  does. The consequences are proved once.
\<close>

locale verb_resolver =
  fixes U :: unstr
    and look :: "dataPlane \<Rightarrow> 'k \<Rightarrow> dpEndpoint option"
    and resolve :: "dataPlane option \<Rightarrow> json option \<Rightarrow> 'k \<Rightarrow> goError + resolvedTarget"
    and allowed :: "dataPlane option \<Rightarrow> 'k \<Rightarrow> string \<Rightarrow> bool"
  assumes resolve_Some: "look dp k = Some ep \<Longrightarrow> \<exists>n. resolve (Some dp) (Some i) k = resolveEndpoint U dp i ep n"
    and resolve_None: "look dp k = None \<Longrightarrow> \<exists>e. resolve (Some dp) inst k = Inl e"
    and resolve_nil: "\<exists>e. resolve None inst k = Inl e" "\<exists>e. resolve contract None k = Inl e"
    and allowed_iff: "allowed contract k m \<longleftrightarrow>
      (\<exists>dp ep. contract = Some dp \<and> look dp k = Some ep \<and> endpointMethodAllowed ep m)"
begin

lemma resolved_declared:
  assumes "resolve contract inst k = Inr t"
  obtains dp i ep n where "contract = Some dp" "inst = Some i" "look dp k = Some ep"
    "resolveEndpoint U dp i ep n = Inr t"
  using assms resolve_nil resolve_None resolve_Some
  by (metis Inl_Inr_False not_None_eq)

lemma resolved_confined:
  assumes "resolve contract inst k = Inr t" "validateRuntimeNamespace U contract inst expected = Inr ()"
  shows "targetConfined (trimSpace expected) t"
proof -
  from resolved_declared [OF assms(1)] obtain dp i ep n where
    c: "contract = Some dp" "inst = Some i" and r: "resolveEndpoint U dp i ep n = Inr t" .
  from assms(2) have "nestedString U i (dp_RuntimeNamespacePath dp) = Inr (trimSpace expected)"
    by (auto simp: validateRuntimeNamespace_def c Let_def go_err split: if_splits)
  with r show ?thesis by (rule resolveEndpoint_confined)
qed

lemma undeclared_denied:
  "(\<And>dp. contract = Some dp \<Longrightarrow> look dp k = None) \<Longrightarrow>
   \<not> allowed contract k m \<and> \<not> isOk (resolve contract inst k)"
  by (auto simp: allowed_iff isOk_iff elim!: resolved_declared)

end

definition componentEndpoint :: "dataPlane \<Rightarrow> string \<times> string \<Rightarrow> dpEndpoint option" where
  "componentEndpoint dp k =
     (case map_of (dp_Components dp) (fst k) of None \<Rightarrow> None | Some c \<Rightarrow> map_of (dc_Endpoints c) (snd k))"

interpretation inst: verb_resolver U "\<lambda>dp. map_of (dp_Endpoints dp)" "resolveVerb U" methodAllowed
  for U
  by unfold_locales (auto simp: resolveVerb_def methodAllowed_def split: option.splits)

interpretation cmpnt: verb_resolver U componentEndpoint
  "\<lambda>contract i k. resolveComponent U contract i (fst k) (snd k)"
  "\<lambda>contract k. componentMethodAllowed contract (fst k) (snd k)"
  for U
  by unfold_locales (auto simp: resolveComponent_def componentMethodAllowed_def componentEndpoint_def split: option.splits)

lemma syncTarget_component:
  assumes "resolveComponentSyncTarget U contract inst component = Inr t"
  shows "\<exists>t'. resolveComponent U contract inst component ''sync'' = Inr t' \<and> \<not> rt_FromStatus t'
    \<and> t = t'\<lparr>rt_Stream := False, rt_Upgrade := False\<rparr>"
proof -
  from assms obtain dp i c ep t' where
    "contract = Some dp" "inst = Some i" "map_of (dp_Components dp) component = Some c"
    "map_of (dc_Endpoints c) ''sync'' = Some ep" and nf: "\<not> ep_FromStatus ep"
    and r: "resolveEndpoint U dp i ep (component @ ''/sync'') = Inr t'"
    and "t = t'\<lparr>rt_Stream := False, rt_Upgrade := False\<rparr>"
    by (auto simp: resolveComponentSyncTarget_def go_err split: option.splits if_splits)
  moreover from nf r have "\<not> rt_FromStatus t'"
    by (auto simp: resolveEndpoint_def go_err Let_def zeroTarget_def split: if_splits)
  ultimately show ?thesis by (simp add: resolveComponent_def)
qed

lemma syncTarget_confined:
  assumes "resolveComponentSyncTarget U contract inst component = Inr t"
    and "validateRuntimeNamespace U contract inst expected = Inr ()"
  shows "targetConfined (trimSpace expected) t \<and> \<not> rt_FromStatus t"
proof -
  from syncTarget_component [OF assms(1)] obtain t' where
    t': "resolveComponent U contract inst component ''sync'' = Inr t'" "\<not> rt_FromStatus t'"
    "t = t'\<lparr>rt_Stream := False, rt_Upgrade := False\<rparr>" by blast
  with cmpnt.resolved_confined [of U contract inst "(component, ''sync'')" t' expected] assms(2)
  show ?thesis by (simp add: targetConfined_def)
qed

text \<open>When a reference can be used, in terms of the status alone.\<close>

definition refReady :: "unstr \<Rightarrow> json \<Rightarrow> string \<Rightarrow> string \<Rightarrow> bool" where
  "refReady U i path ns \<longleftrightarrow>
     (\<exists>fields m. splitPath path = Inr fields \<and> nestedStrMap U i fields = Inr (Some m)
        \<and> trimSpace (strKey m ''name'') \<noteq> [] \<and> trimSpace (strKey m ''namespace'') \<in> {[], ns})"

lemma nestedRef_Inr:
  "nestedRef U i path = Inr ref \<longleftrightarrow>
     (\<exists>fields m. splitPath path = Inr fields \<and> nestedStrMap U i fields = Inr (Some m)
        \<and> ref = \<lparr>ref_Namespace = trimSpace (strKey m ''namespace''), ref_Name = trimSpace (strKey m ''name'')\<rparr>)"
proof (cases "splitPath path")
  case (Inr fields)
  show ?thesis
    by (cases "nestedStrMap U i fields"; cases "projr (nestedStrMap U i fields)") (auto simp: nestedRef_def Inr)
qed (simp add: nestedRef_def)

lemma refInNamespace_ready: "isOk (refInNamespace U i path ns) \<longleftrightarrow> refReady U i path ns"
proof -
  have "isOk (refInNamespace U i path ns) \<longleftrightarrow>
    (\<exists>ref. nestedRef U i path = Inr ref \<and> ref_Name ref \<noteq> [] \<and> ref_Namespace ref \<in> {[], ns})"
    by (auto simp: refInNamespace_def isOk_iff go_err Let_def)
  also have "\<dots> \<longleftrightarrow> refReady U i path ns"
    unfolding nestedRef_Inr refReady_def by (metis objectRef.select_convs)
  finally show ?thesis .
qed

section \<open>Properties\<close>

definition sample_contract :: dataPlane where
  "sample_contract =
     \<lparr>dp_RuntimeNamespacePath = ''status.runtimeNamespace'', dp_TokenSecretPath = ''status.controlSecretRef'',
      dp_Endpoints = [(''status'', \<lparr>ep_FromStatus = True, ep_ServicePath = [], ep_Port = [], ep_UpstreamPath = [],
         ep_Methods = None, ep_Stream = False, ep_Upgrade = False\<rparr>)],
      dp_Components = [(''app'', \<lparr>dc_Endpoints =
         [(''sync'', \<lparr>ep_FromStatus = False, ep_ServicePath = ''status.app'', ep_Port = ''control'', ep_UpstreamPath = ''sync'',
            ep_Methods = Some [''POST''], ep_Stream = False, ep_Upgrade = False\<rparr>)], dc_Exec = None\<rparr>)]\<rparr>"

definition sample_instance :: "string \<Rightarrow> json" where
  "sample_instance svcNamespace =
     JObj [(''status'', JObj [(''runtimeNamespace'', JStr ''rg-abc-default''),
       (''controlSecretRef'', JObj [(''name'', JStr ''token'')]),
       (''app'', JObj [(''name'', JStr ''app-control''), (''namespace'', JStr svcNamespace)])])]"

text \<open>Namespace confinement of the data plane. Once the published runtime namespace has been
  checked against the namespace the provider derived, every target that any of the four resolvers
  returns names a Service, and when there is one a token Secret, in exactly that namespace, with a
  non-empty name and port and a rooted upstream path; a status verb carries no proxy target at all.\<close>

theorem resolve_confined:
  assumes "validateRuntimeNamespace U contract inst expected = Inr ()"
    and "resolveVerb U contract inst verb = Inr t
       \<or> resolveComponent U contract inst component verb = Inr t
       \<or> resolveComponentExecTarget U contract inst component = Inr t
       \<or> resolveComponentStatusTarget U contract inst component = Inr t"
  shows "targetConfined (trimSpace expected) t"
  using assms(2)
proof (elim disjE)
  assume "resolveVerb U contract inst verb = Inr t"
  then show ?thesis by (rule inst.resolved_confined [OF _ assms(1)])
next
  assume "resolveComponent U contract inst component verb = Inr t"
  then show ?thesis
    using cmpnt.resolved_confined [of U contract inst "(component, verb)" t expected] assms(1) by simp
next
  assume "resolveComponentExecTarget U contract inst component = Inr t"
  then obtain t' where t': "resolveComponentSyncTarget U contract inst component = Inr t'"
    and t: "t = t'\<lparr>rt_UpstreamPath := ''/exec'', rt_ServicePort := ''exec''\<rparr>"
    by (auto simp: resolveComponentExecTarget_def go_err)
  from syncTarget_confined [OF t' assms(1)] show ?thesis by (simp add: t targetConfined_def hasPrefix_def)
next
  assume "resolveComponentStatusTarget U contract inst component = Inr t"
  then obtain t' where t': "resolveComponentSyncTarget U contract inst component = Inr t'"
    and t: "t = t'\<lparr>rt_UpstreamPath := ''/status''\<rparr>"
    by (auto simp: resolveComponentStatusTarget_def go_err)
  from syncTarget_confined [OF t' assms(1)] show ?thesis by (simp add: t targetConfined_def hasPrefix_def)
qed

theorem resolve_confined_witness:
  "\<exists>t. resolveComponentExecTarget reference_unstr (Some sample_contract) (Some (sample_instance [])) ''app'' = Inr t
     \<and> targetConfined ''rg-abc-default'' t"
proof -
  let ?t = "\<lparr>rt_FromStatus = False, rt_ServiceNamespace = ''rg-abc-default'', rt_ServiceName = ''app-control'',
     rt_ServicePort = ''exec'', rt_UpstreamPath = ''/exec'', rt_Stream = False, rt_Upgrade = False,
     rt_TokenSecretNamespace = ''rg-abc-default'', rt_TokenSecretName = ''token''\<rparr>"
  have v: "validateRuntimeNamespace reference_unstr (Some sample_contract) (Some (sample_instance [])) ''rg-abc-default'' = Inr ()"
    by code_simp
  have r: "resolveComponentExecTarget reference_unstr (Some sample_contract) (Some (sample_instance [])) ''app'' = Inr ?t"
    by code_simp
  have e: "trimSpace ''rg-abc-default'' = ''rg-abc-default''" by code_simp
  from resolve_confined [OF v, of "[]" ?t "''app''"] r e show ?thesis by simp
qed

text \<open>A verb resolves exactly when it is usable: a status verb always, and a proxy verb when its
  declaration has a service path and a port, the status publishes a runtime namespace, and the
  Service (and, where the contract names one, the token Secret) is published with a name and
  either no namespace or the runtime namespace. A reference into any other namespace is refused.\<close>

theorem resolveEndpoint_iff:
  "isOk (resolveEndpoint U dp i ep verb) \<longleftrightarrow>
     ep_FromStatus ep \<or>
     trimSpace (ep_ServicePath ep) \<noteq> [] \<and> trimSpace (ep_Port ep) \<noteq> [] \<and>
     (\<exists>ns. nestedString U i (dp_RuntimeNamespacePath dp) = Inr ns \<and> ns \<noteq> []
        \<and> refReady U i (ep_ServicePath ep) ns
        \<and> (trimSpace (dp_TokenSecretPath dp) = [] \<or> refReady U i (trimSpace (dp_TokenSecretPath dp)) ns))"
proof (cases "nestedString U i (dp_RuntimeNamespacePath dp)")
  case (Inr ns)
  show ?thesis
    unfolding refInNamespace_ready [symmetric]
    by (auto simp: resolveEndpoint_def resolveServiceReference_def Inr isOk_iff go_err Let_def split: if_splits)
next
  case (Inl e)
  then show ?thesis
    by (auto simp: resolveEndpoint_def resolveServiceReference_def isOk_iff go_err Let_def)
qed

text \<open>The data plane is default-deny: a verb that the contract does not declare, at the instance or
  at the component level, admits no method and resolves to an error; a declared verb with no
  method list admits GET only.\<close>

theorem undeclared_verb_denied:
  "(\<not> (\<exists>dp. contract = Some dp \<and> map_of (dp_Endpoints dp) verb \<noteq> None) \<longrightarrow>
      \<not> methodAllowed contract verb m \<and> \<not> isOk (resolveVerb U contract inst verb))
   \<and> (\<not> (\<exists>dp. contract = Some dp \<and> componentEndpoint dp (component, verb) \<noteq> None) \<longrightarrow>
      \<not> componentMethodAllowed contract component verb m \<and> \<not> isOk (resolveComponent U contract inst component verb))
   \<and> (ep_Methods ep \<in> {None, Some []} \<longrightarrow> endpointMethodAllowed ep m = (toUpper (trimSpace m) = ''GET''))"
  using inst.undeclared_denied [of contract verb m U inst]
    cmpnt.undeclared_denied [of contract "(component, verb)" m U inst]
  by (auto simp: endpointMethodAllowed_def Let_def)

theorem undeclared_verb_denied_witness:
  "\<not> methodAllowed (Some sample_contract) ''sync'' ''POST''
   \<and> \<not> isOk (resolveComponent reference_unstr (Some sample_contract) (Some (sample_instance [])) ''app'' ''exec'')
   \<and> componentMethodAllowed (Some sample_contract) ''app'' ''sync'' ''post''"
proof (intro conjI)
  show "\<not> methodAllowed (Some sample_contract) ''sync'' ''POST''"
    using undeclared_verb_denied [of "Some sample_contract" "''sync''" "''POST''" reference_unstr None "''app''"]
    by (simp add: sample_contract_def)
  show "\<not> isOk (resolveComponent reference_unstr (Some sample_contract) (Some (sample_instance [])) ''app'' ''exec'')"
    "componentMethodAllowed (Some sample_contract) ''app'' ''sync'' ''post''" by code_simp+
qed

end
