(* ===== verification/Sha256.thy ===== *)
theory Sha256
  imports Go_Prelude "HOL-Library.Word"
begin

unbundle bit_operations_syntax

text \<open>
  The parts of \<^verbatim>\<open>crypto/sha256\<close> and \<^verbatim>\<open>encoding/hex\<close> the provider uses, over 32-bit words: FIPS 180-4
  written as Go's generic block function has it. Strings are byte strings.
\<close>

section \<open>Bytes\<close>

definition byteOf :: "char \<Rightarrow> nat" where
  "byteOf c = of_char c"

definition hexDigit :: "nat \<Rightarrow> char" where
  "hexDigit n = ''0123456789abcdef'' ! (n mod 16)"

definition hexEncode :: "nat list \<Rightarrow> string" where
  "hexEncode bs = concat (map (\<lambda>b. [hexDigit (b div 16), hexDigit b]) bs)"

definition isHexDigit :: "char \<Rightarrow> bool" where
  "isHexDigit c \<longleftrightarrow> c \<in> set ''0123456789abcdefABCDEF''"

text \<open>\<^verbatim>\<open>hex.DecodeString\<close> succeeds on an even number of hexadecimal digits.\<close>

definition hexDecodable :: "string \<Rightarrow> bool" where
  "hexDecodable s \<longleftrightarrow> even (length s) \<and> list_all isHexDigit s"

section \<open>The compression function\<close>

text \<open>The round constants and the initial state, in decimal.\<close>

definition sha_K :: "32 word list" where
  "sha_K =
    [1116352408, 1899447441, 3049323471, 3921009573, 961987163, 1508970993,
     2453635748, 2870763221, 3624381080, 310598401, 607225278, 1426881987,
     1925078388, 2162078206, 2614888103, 3248222580, 3835390401, 4022224774,
     264347078, 604807628, 770255983, 1249150122, 1555081692, 1996064986,
     2554220882, 2821834349, 2952996808, 3210313671, 3336571891, 3584528711,
     113926993, 338241895, 666307205, 773529912, 1294757372, 1396182291,
     1695183700, 1986661051, 2177026350, 2456956037, 2730485921, 2820302411,
     3259730800, 3345764771, 3516065817, 3600352804, 4094571909, 275423344,
     430227734, 506948616, 659060556, 883997877, 958139571, 1322822218,
     1537002063, 1747873779, 1955562222, 2024104815, 2227730452, 2361852424,
     2428436474, 2756734187, 3204031479, 3329325298]"

definition sha_init :: "32 word list" where
  "sha_init = [1779033703, 3144134277, 1013904242, 2773480762, 1359893119, 2600822924, 528734635, 1541459225]"

definition rotr :: "nat \<Rightarrow> 32 word \<Rightarrow> 32 word" where
  "rotr n w = drop_bit n w OR push_bit (32 - n) w"

text \<open>The message schedule, newest word first: \<^verbatim>\<open>W[i] = s1(W[i-2]) + W[i-7] + s0(W[i-15]) + W[i-16]\<close>.\<close>

fun sha_schedule :: "nat \<Rightarrow> 32 word list \<Rightarrow> 32 word list" where
  "sha_schedule 0 ws = ws"
| "sha_schedule (Suc n) ws =
     (let v1 = ws ! 1; t1 = rotr 17 v1 XOR rotr 19 v1 XOR drop_bit 10 v1;
          v2 = ws ! 14; t2 = rotr 7 v2 XOR rotr 18 v2 XOR drop_bit 3 v2
      in sha_schedule n ((t1 + ws ! 6 + t2 + ws ! 15) # ws))"

fun sha_round :: "32 word list \<Rightarrow> 32 word \<times> 32 word \<Rightarrow> 32 word list" where
  "sha_round [a, b, c, d, e, f, g, h] (k, w) =
     (let t1 = h + (rotr 6 e XOR rotr 11 e XOR rotr 25 e) + ((e AND f) XOR (NOT e AND g)) + k + w;
          t2 = (rotr 2 a XOR rotr 13 a XOR rotr 22 a) + ((a AND b) XOR (a AND c) XOR (b AND c))
      in [t1 + t2, a, b, c, d + t1, e, f, g])"
| "sha_round hs _ = hs"

definition sha_block :: "32 word list \<Rightarrow> 32 word list \<Rightarrow> 32 word list" where
  "sha_block hs block =
     (let ws = rev (sha_schedule 48 (rev block)) in
      map2 (+) hs (foldl sha_round hs (zip sha_K ws)))"

section \<open>Padding and the digest\<close>

definition beWord :: "nat list \<Rightarrow> 32 word" where
  "beWord bs = foldl (\<lambda>w b. push_bit 8 w OR of_nat b) 0 bs"

fun chunks :: "nat \<Rightarrow> nat \<Rightarrow> 'a list \<Rightarrow> 'a list list" where
  "chunks 0 n xs = []"
| "chunks (Suc k) n xs = take n xs # chunks k n (drop n xs)"

text \<open>The length of the padding in zero bytes, and the message bit length in eight big-endian bytes.\<close>

definition sha_pad :: "nat list \<Rightarrow> nat list" where
  "sha_pad msg =
     (let n = length msg; z = (119 - n mod 64) mod 64 in
      msg @ [128] @ replicate z 0 @ map (\<lambda>i. unat (drop_bit (8 * i) (of_nat (8 * n) :: 64 word) AND 255)) [7, 6, 5, 4, 3, 2, 1, 0])"

definition wordBytes :: "32 word \<Rightarrow> nat list" where
  "wordBytes w = map (\<lambda>i. unat (drop_bit (8 * i) w AND 255)) [3, 2, 1, 0]"

definition sum256 :: "string \<Rightarrow> nat list" where
  "sum256 s =
     (let p = sha_pad (map byteOf s);
          blocks = chunks (length p div 64) 64 p
      in concat (map wordBytes (foldl (\<lambda>hs b. sha_block hs (map beWord (chunks 16 4 b))) sha_init blocks)))"

definition sha256Hex :: "string \<Rightarrow> string" where
  "sha256Hex s = hexEncode (sum256 s)"

section \<open>Shape\<close>

lemma length_sha_pad: "length (sha_pad msg) = 64 * (Suc ((length msg + 8) div 64))"
proof -
  define n where "n = length msg"
  define q where "q = n div 64"
  define r where "r = n mod 64"
  have n: "n = 64 * q + r" "r < 64" by (simp_all add: q_def r_def)
  have "length (sha_pad msg) = n + 9 + (119 - r) mod 64"
    by (simp add: sha_pad_def Let_def n_def r_def)
  moreover have "(119 - r) mod 64 = (if r < 56 then 55 - r else 119 - r)"
  proof (cases "r < 56")
    case True
    then have "119 - r = 64 + (55 - r)" by simp
    then have "(119 - r) mod 64 = (55 - r) mod 64" by (metis mod_add_self1)
    with True show ?thesis by simp
  qed (use n(2) in simp)
  moreover have "(n + 8) div 64 = (if r < 56 then q else Suc q)"
    using n by (auto simp: div_nat_eqI)
  ultimately show ?thesis using n by (auto simp: n_def split: if_splits)
qed

lemma length_sha_round [simp]: "length hs = 8 \<Longrightarrow> length (sha_round hs kw) = 8"
  by (cases "(hs, kw)" rule: sha_round.cases) (auto simp: Let_def)

lemma length_sha_rounds: "length hs = 8 \<Longrightarrow> length (foldl sha_round hs kws) = 8"
  by (induction kws arbitrary: hs) auto

lemma length_sha_block [simp]: "length hs = 8 \<Longrightarrow> length (sha_block hs b) = 8"
  by (simp add: sha_block_def Let_def length_sha_rounds)

lemma length_sum256: "length (sum256 s) = 32"
proof -
  have "length (foldl (\<lambda>hs b. sha_block hs (map beWord (chunks 16 4 b))) hs bl) = 8"
    if "length hs = 8" for hs bl
    using that by (induction bl arbitrary: hs) auto
  from this [of sha_init] show ?thesis
    by (simp add: sum256_def Let_def length_concat comp_def wordBytes_def sha_init_def sum_list_triv)
qed

lemma length_hexEncode: "length (hexEncode bs) = 2 * length bs"
  by (induction bs) (simp_all add: hexEncode_def)

lemma length_sha256Hex [simp]: "length (sha256Hex s) = 64"
  by (simp add: sha256Hex_def length_hexEncode length_sum256)

lemma hexDigit_isHex: "isHexDigit (hexDigit n)"
proof -
  have "n mod 16 < length ''0123456789abcdef''" by simp
  then have "hexDigit n \<in> set ''0123456789abcdef''" unfolding hexDigit_def by (rule nth_mem)
  then show ?thesis unfolding isHexDigit_def by auto
qed

lemma hexEncode_digits: "list_all isHexDigit (hexEncode bs)"
  by (induction bs) (simp_all add: hexEncode_def hexDigit_isHex)

text \<open>The first round and the first scheduled words of the standard's worked example, the
  message \<^verbatim>\<open>abc\<close>.\<close>

lemma sha256_abc_round0:
  "sha_round sha_init (hd sha_K, hd (map beWord (chunks 16 4 (sha_pad (map byteOf ''abc''))))) =
     [0x5d6aebcd, 0x6a09e667, 0xbb67ae85, 0x3c6ef372, 0xfa2a4622, 0x510e527f, 0x9b05688c, 0x1f83d9ab]"
  by code_simp

lemma sha256_abc_schedule:
  "take 4 (sha_schedule 4 (rev (map beWord (chunks 16 4 (sha_pad (map byteOf ''abc'')))))) =
     [0x600003c6, 0x7da86405, 0x000f0000, 0x61626380]"
  by code_simp

end
