(* ===== verification/Json_Text.thy ===== *)
theory Json_Text
  imports Go_Prelude Sha256
begin

text \<open>
  \<^verbatim>\<open>encoding/json\<close>'s rendering of strings, numbers and lists, as the provider hashes it: quotes,
  backslashes and control bytes are escaped, \<^verbatim>\<open>< > &\<close> and the two line separators go out as
  \<^verbatim>\<open>\u\<close> escapes, and a byte that is not part of valid UTF-8 is replaced by U+FFFD.
\<close>

definition contByte :: "char \<Rightarrow> bool" where
  "contByte c \<longleftrightarrow> 0x80 \<le> byteOf c \<and> byteOf c < 0xC0"

text \<open>The length of the valid UTF-8 sequence at the front of a string that starts with a byte
  from 0x80 up, 0 when it is invalid.\<close>

definition utf8Len :: "string \<Rightarrow> nat" where
  "utf8Len s =
     (case s of
        [] \<Rightarrow> 0
      | a # r \<Rightarrow>
        let n = byteOf a; c1 = (case r of b # _ \<Rightarrow> byteOf b | [] \<Rightarrow> 0) in
        if 0xC2 \<le> n \<and> n \<le> 0xDF \<and> r \<noteq> [] \<and> contByte (hd r) then 2
        else if 0xE0 \<le> n \<and> n \<le> 0xEF \<and> 2 \<le> length r \<and> list_all contByte (take 2 r)
          \<and> (n = 0xE0 \<longrightarrow> 0xA0 \<le> c1) \<and> (n = 0xED \<longrightarrow> c1 < 0xA0) then 3
        else if 0xF0 \<le> n \<and> n \<le> 0xF4 \<and> 3 \<le> length r \<and> list_all contByte (take 3 r)
          \<and> (n = 0xF0 \<longrightarrow> 0x90 \<le> c1) \<and> (n = 0xF4 \<longrightarrow> c1 < 0x90) then 4
        else 0)"

definition u00 :: "nat \<Rightarrow> string" where
  "u00 n = [CHR 0x5C] @ ''u00'' @ [hexDigit (n div 16), hexDigit n]"

definition escapeAscii :: "char \<Rightarrow> string" where
  "escapeAscii c =
     (let n = byteOf c in
      if n = 0x22 \<or> n = 0x5C then [CHR 0x5C, c]
      else if n = 0x08 then CHR 0x5C # ''b'' else if n = 0x0C then CHR 0x5C # ''f''
      else if n = 0x0A then CHR 0x5C # ''n'' else if n = 0x0D then CHR 0x5C # ''r''
      else if n = 0x09 then CHR 0x5C # ''t''
      else if n < 0x20 \<or> n = 0x3C \<or> n = 0x3E \<or> n = 0x26 then u00 n
      else [c])"

text \<open>\<^verbatim>\<open>skip\<close> counts the bytes of a multi-byte rune that have already been copied.\<close>

fun escapeBytes :: "nat \<Rightarrow> string \<Rightarrow> string" where
  "escapeBytes k [] = []"
| "escapeBytes (Suc k) (c # s) = escapeBytes k s"
| "escapeBytes 0 (c # s) =
     (if byteOf c < 0x80 then escapeAscii c @ escapeBytes 0 s
      else let n = utf8Len (c # s) in
        if n = 0 then (CHR 0x5C # ''ufffd'') @ escapeBytes 0 s
        else (if map byteOf (take 3 (c # s)) = [0xE2, 0x80, 0xA8] then CHR 0x5C # ''u2028''
              else if map byteOf (take 3 (c # s)) = [0xE2, 0x80, 0xA9] then CHR 0x5C # ''u2029''
              else take n (c # s)) @ escapeBytes (n - 1) s)"

definition jsonString :: "string \<Rightarrow> string" where
  "jsonString s = [CHR 0x22] @ escapeBytes 0 s @ [CHR 0x22]"

text \<open>A nil slice is rendered as \<^verbatim>\<open>null\<close>.\<close>

definition jsonStrings :: "string list \<Rightarrow> string" where
  "jsonStrings xs = (if xs = [] then ''null'' else ''['' @ joinWith '','' (map jsonString xs) @ '']'')"

definition showInt :: "int \<Rightarrow> string" where
  "showInt i = (if i < 0 then CHR ''-'' # showNat (nat (- i)) else showNat (nat i))"

definition jsonFields :: "(string \<times> string) list \<Rightarrow> string" where
  "jsonFields fs = ''{'' @ joinWith '','' (map (\<lambda>(k, v). jsonString k @ '':'' @ v) fs) @ ''}''"

end
