(* ===== verification/Data_Plane_Exec.thy ===== *)
theory Data_Plane_Exec
  imports Data_Plane_Resolver Json_Text
begin

text \<open>
  \<^verbatim>\<open>dataplane/exec.go\<close>, \<^verbatim>\<open>exec_run.go\<close> and \<^verbatim>\<open>persistent_executor.go\<close>: the bounded exec capability. The
  body the JSON decoder read, the clock, the random source and the coordinator's answers are
  arguments; everything the provider decides about them is computed.
\<close>

section \<open>Requests, results and limits\<close>

definition ExecActionStart :: string where "ExecActionStart = ''start''"
definition ExecActionRun :: string where "ExecActionRun = ''run''"
definition ExecActionPoll :: string where "ExecActionPoll = ''poll''"
definition ExecActionCancel :: string where "ExecActionCancel = ''cancel''"

lemmas exec_actions = ExecActionStart_def ExecActionRun_def ExecActionPoll_def ExecActionCancel_def

definition ExecMaxTimeoutSeconds :: int where "ExecMaxTimeoutSeconds = 120"
definition ExecDefaultTimeoutSeconds :: int where "ExecDefaultTimeoutSeconds = 120"
definition ExecMaxOutputBytes :: int where "ExecMaxOutputBytes = 262144"
definition ExecDefaultOutputBytes :: int where "ExecDefaultOutputBytes = 262144"
definition execMaxArgv :: nat where "execMaxArgv = 64"
definition execMaxArgBytes :: int where "execMaxArgBytes = 4096"
definition execMaxWorkdirBytes :: int where "execMaxWorkdirBytes = 256"
definition execMaxDigestBytes :: int where "execMaxDigestBytes = 128"
definition execMaxIdentifierBytes :: int where "execMaxIdentifierBytes = 128"

lemmas exec_consts = ExecMaxTimeoutSeconds_def ExecDefaultTimeoutSeconds_def ExecMaxOutputBytes_def
  ExecDefaultOutputBytes_def execMaxArgv_def execMaxArgBytes_def execMaxWorkdirBytes_def
  execMaxDigestBytes_def execMaxIdentifierBytes_def

record execRequest =
  er_Action :: string
  er_SessionID :: string
  er_RequestID :: string
  er_SourceRevision :: nat
  er_Argv :: "string list"
  er_Workdir :: string
  er_TimeoutSeconds :: int
  er_SourceDigest :: string

record execResult =
  xr_SessionID :: string
  xr_RequestID :: string
  xr_State :: string
  xr_ExitCode :: "int option"
  xr_Stdout :: string
  xr_Stderr :: string
  xr_Truncated :: bool
  xr_SourceRevision :: nat
  xr_SourceDigest :: string

record execLimits =
  lim_timeoutSeconds :: int
  lim_outputBytes :: int

definition blen :: "string \<Rightarrow> int" where
  "blen s = int (length s)"

definition hasNul :: "string \<Rightarrow> bool" where
  "hasNul s \<longleftrightarrow> CHR 0x00 \<in> set s"

definition limitsForCapability :: "dpExec option \<Rightarrow> goError + execLimits" where
  "limitsForCapability capability =
     (case capability of
        None \<Rightarrow> Inl (Errorf ''component does not declare an exec capability'' [])
      | Some c \<Rightarrow>
     if ExecMaxTimeoutSeconds < ex_MaxTimeoutSeconds c \<or> ex_MaxTimeoutSeconds c < 0
     then Inl (Errorf ''exec maxTimeoutSeconds must be between 0 and %d'' [''120''])
     else if ExecMaxOutputBytes < ex_MaxOutputBytes c \<or> ex_MaxOutputBytes c < 0
     then Inl (Errorf ''exec maxOutputBytes must be between 0 and %d'' [''262144''])
     else Inr \<lparr>lim_timeoutSeconds = (if ex_MaxTimeoutSeconds c \<noteq> 0 then ex_MaxTimeoutSeconds c else ExecDefaultTimeoutSeconds),
               lim_outputBytes = (if ex_MaxOutputBytes c \<noteq> 0 then ex_MaxOutputBytes c else ExecDefaultOutputBytes)\<rparr>)"

text \<open>\<^verbatim>\<open>limits, _ := limitsForCapability(c)\<close>: the provider defaults when the capability is refused.\<close>

definition limitsOrDefault :: "dpExec option \<Rightarrow> execLimits" where
  "limitsOrDefault capability =
     (case limitsForCapability capability of
        Inr l \<Rightarrow> l
      | Inl _ \<Rightarrow> \<lparr>lim_timeoutSeconds = ExecDefaultTimeoutSeconds, lim_outputBytes = ExecDefaultOutputBytes\<rparr>)"

definition normalizeExecPath :: "string \<Rightarrow> goError + string" where
  "normalizeExecPath value0 =
     (let value = trimSpace value0 in
      if value = [] then Inl (Errorf ''must not be empty'' [])
      else if contains value [CHR 0x5C] \<or> hasPrefix value ''/'' then Inl (Errorf ''must be workspace-relative'' [])
      else let clean = pathClean value in
        if clean = ''.'' \<or> clean = ''..'' \<or> hasPrefix clean ''../'' then Inl (Errorf ''escapes the workspace'' [])
        else Inr clean)"

definition normalizeExecWorkdir :: "string \<Rightarrow> goError + string" where
  "normalizeExecWorkdir value0 =
     (let value = trimSpace value0 in
      if value = ''.'' then Inr value else normalizeExecPath value)"

section \<open>Decoding a request\<close>

text \<open>What the JSON decoder made of the body: an error (a malformed or oversized body, an unknown
  field), or a request followed by the end, a further value, or garbage.\<close>

datatype trailing = AtEOF | ExtraValue | TrailingGarbage goError

datatype execBody = BodyError goError | BodyRequest execRequest trailing

definition execMaxBodyBytes :: nat where "execMaxBodyBytes = 524288"

text \<open>\<^verbatim>\<open>newExecIdempotencyKey\<close>: the outcome of \<^verbatim>\<open>rand.Read\<close> on 16 bytes is an argument.\<close>

definition newExecIdempotencyKey :: "goError + nat list \<Rightarrow> goError + string" where
  "newExecIdempotencyKey rnd =
     (case rnd of
        Inl e \<Rightarrow> Inl (Wrapf ''generate idempotency key: %w'' [] e)
      | Inr raw \<Rightarrow> Inr (hexEncode raw))"

definition execLaunch :: "string \<Rightarrow> bool" where
  "execLaunch action \<longleftrightarrow> action = ExecActionStart \<or> action = ExecActionRun"

definition launchKey :: "execRequest \<Rightarrow> string \<Rightarrow> goError + nat list \<Rightarrow> goError + string" where
  "launchKey req key rnd =
     (if key = [] \<and> er_Action req = ExecActionRun
      then if er_RequestID req = [] then newExecIdempotencyKey rnd else Inr (er_RequestID req)
      else Inr key)"

definition checkArgv :: "string \<Rightarrow> string list \<Rightarrow> goError + unit" where
  "checkArgv action argv =
     firstErr (\<lambda>(i, arg).
       if arg = [] \<or> execMaxArgBytes < blen arg \<or> hasNul arg
       then Inl (Errorf ''%s argv[%d] must be non-empty, at most %d bytes, and contain no NUL'' [action, showNat i])
       else Inr ()) (zip [0..<length argv] argv)"

definition decodeLaunch :: "execLimits \<Rightarrow> execRequest \<Rightarrow> string \<Rightarrow> goError + nat list \<Rightarrow> goError + (execRequest \<times> string)" where
  "decodeLaunch limits req key0 rnd =
     andThen (launchKey req key0 rnd) (\<lambda>key.
     require (key \<noteq> []) (Errorf ''Idempotency-Key is required for start'' []) (
     require (er_RequestID req = [] \<or> er_RequestID req = key) (Errorf ''requestID must match Idempotency-Key'' []) (
     let req = req\<lparr>er_RequestID := key\<rparr> in
     require (er_SessionID req = []) (Errorf ''sessionID is not accepted for %s'' [er_Action req]) (
     require (er_Argv req \<noteq> [] \<and> length (er_Argv req) \<le> execMaxArgv)
       (Errorf ''%s argv must contain between 1 and %d arguments'' [er_Action req, ''64'']) (
     andThen (checkArgv (er_Action req) (er_Argv req)) (\<lambda>_.
     require (er_SourceRevision req = 0 \<or> er_SourceDigest req \<noteq> [])
       (Errorf ''sourceDigest is required for %s when sourceRevision is set (omit both to use the applied revision)'' [er_Action req]) (
     require (er_SourceRevision req \<noteq> 0 \<or> er_SourceDigest req = [])
       (Errorf ''sourceRevision is required for %s when sourceDigest is set (omit both to use the applied revision)'' [er_Action req]) (
     require (0 \<le> er_TimeoutSeconds req \<and> er_TimeoutSeconds req \<le> lim_timeoutSeconds limits)
       (Errorf ''timeoutSeconds must be between 0 and %d'' [showInt (lim_timeoutSeconds limits)]) (
     Inr (req, key))))))))))"

definition decodeFollowUp :: "execRequest \<Rightarrow> string \<Rightarrow> goError + (execRequest \<times> string)" where
  "decodeFollowUp req key =
     require (er_SessionID req \<noteq> []) (Errorf ''sessionID is required for %s'' [er_Action req]) (
     require (er_Argv req = [] \<and> er_Workdir req = [] \<and> er_TimeoutSeconds req = 0 \<and> er_SourceRevision req = 0 \<and> er_SourceDigest req = [])
       (Errorf ''%s accepts only sessionID and optional requestID'' [er_Action req]) (
     Inr (req, if key = [] then er_RequestID req else key)))"

definition decodeExecRequest ::
    "dpExec option \<Rightarrow> execBody \<Rightarrow> string \<Rightarrow> goError + nat list \<Rightarrow> goError + (execRequest \<times> string)" where
  "decodeExecRequest capability body header rnd =
     andThen (limitsForCapability capability) (\<lambda>limits.
     case body of
       BodyError e \<Rightarrow> Inl (Wrapf ''decode exec request: %w'' [] e)
     | BodyRequest req ExtraValue \<Rightarrow> Inl (Errorf ''exec request must contain one JSON object'' [])
     | BodyRequest req (TrailingGarbage e) \<Rightarrow> Inl (Wrapf ''decode trailing exec request data: %w'' [] e)
     | BodyRequest req AtEOF \<Rightarrow>
     require (er_Action req \<in> {ExecActionStart, ExecActionRun, ExecActionPoll, ExecActionCancel})
       (Errorf ''action must be %q, %q, %q, or %q'' []) (
     require (blen (er_SessionID req) \<le> execMaxIdentifierBytes \<and> blen (er_RequestID req) \<le> execMaxIdentifierBytes)
       (Errorf ''sessionID and requestID must be at most %d bytes'' []) (
     require (\<not> hasNul (er_SessionID req) \<and> \<not> hasNul (er_RequestID req))
       (Errorf ''sessionID and requestID must not contain NUL'' []) (
     require (blen (er_Workdir req) \<le> execMaxWorkdirBytes) (Errorf ''workdir must be at most %d bytes'' []) (
     andThen (if er_Workdir req = [] then Inr []
              else mapErr (Wrapf ''workdir: %w'' []) (normalizeExecWorkdir (er_Workdir req))) (\<lambda>_.
     require (blen (er_SourceDigest req) \<le> execMaxDigestBytes \<and> \<not> hasNul (er_SourceDigest req))
       (Errorf ''sourceDigest must be at most %d bytes and contain no NUL'' []) (
     let key = trimSpace header in
     require (blen key \<le> execMaxIdentifierBytes \<and> \<not> hasNul key)
       (Errorf ''Idempotency-Key must be at most %d bytes and contain no NUL'' []) (
     if execLaunch (er_Action req) then decodeLaunch limits req key rnd else decodeFollowUp req key))))))))"

section \<open>Bounding the result\<close>

definition boundExecResult :: "execResult \<Rightarrow> int \<Rightarrow> execResult" where
  "boundExecResult result outputBytes =
     (let remaining = nat (if outputBytes < 0 then 0 else outputBytes) in
      if remaining < length (xr_Stdout result)
      then result\<lparr>xr_Stdout := take remaining (xr_Stdout result), xr_Stderr := [], xr_Truncated := True\<rparr>
      else let left = remaining - length (xr_Stdout result) in
        if left < length (xr_Stderr result)
        then result\<lparr>xr_Stderr := take left (xr_Stderr result), xr_Truncated := True\<rparr>
        else result)"

section \<open>Calls, errors and the trace of external actions\<close>

record execCall =
  ec_Workspace :: string
  ec_Resource :: string
  ec_Name :: string
  ec_Component :: string
  ec_Instance :: json
  ec_Capability :: "dpExec option"
  ec_WorkingDir :: string
  ec_WorkspacePath :: string
  ec_CallerKey :: string
  ec_RuntimeNamespace :: string
  ec_ControlTarget :: resolvedTarget
  ec_Request :: execRequest
  ec_IdempotencyKey :: string

record execAuthorization =
  ea_Workspace :: string
  ea_Resource :: string
  ea_Name :: string
  ea_Component :: string
  ea_User :: string
  ea_CallerToken :: string
  ea_Action :: string
  ea_Request :: execRequest
  ea_Instance :: json

record execCoordinatorRequest =
  cr_Action :: string
  cr_SessionID :: string
  cr_RequestID :: string
  cr_CallerKey :: string
  cr_Fingerprint :: string
  cr_Argv :: "string list"
  cr_WorkDir :: string
  cr_TimeoutMS :: int
  cr_MaxOutputBytes :: int
  cr_SourceRevision :: nat
  cr_SourceDigest :: string

text \<open>An error as the handler tells errors apart: a Kubernetes status error with its reason and
  code, the cancellation of the request's context, or any other error.\<close>

datatype kubeReason = NotFound | Forbidden | Conflict | Unauthorized | OtherReason

datatype callError = KubeErr kubeReason int string | CtxErr goError | PlainErr goError

text \<open>What a request does outside the process, in order.\<close>

datatype event =
    EvGetInstance string string string string
  | EvGetContract string
  | EvGetDevelopment string string
  | EvAuthorize execAuthorization
  | EvRecordActivity json
  | EvControlToken string string
  | EvStatusGet string string
  | EvCoordinator string string execCoordinatorRequest
  | EvProxy string "string smap"

type_synonym 'a traced = "event list \<times> 'a"

section \<open>The path through the API server\<close>

definition ensureLeadingSlash :: "string \<Rightarrow> string" where
  "ensureLeadingSlash p = (if hasPrefix p ''/'' then p else ''/'' @ p)"

definition joinPaths :: "string \<Rightarrow> string \<Rightarrow> string" where
  "joinPaths upstream0 caller0 =
     (let upstream = trimSpace upstream0; caller = trimSpace (trimPrefix caller0 ''/'') in
      if upstream = [] \<and> caller = [] then ''/''
      else if caller = [] then ensureLeadingSlash upstream
      else if upstream = [] \<or> upstream = ''/'' then ''/'' @ caller
      else ensureLeadingSlash (pathJoin upstream caller))"

definition serviceProxyPath :: "resolvedTarget \<Rightarrow> string \<Rightarrow> string" where
  "serviceProxyPath target callerPath =
     (let svc = rt_ServiceName target @ '':'' @ rt_ServicePort target;
          base = ''/api/v1/namespaces/'' @ rt_ServiceNamespace target @ ''/services/'' @ svc @ ''/proxy'';
          tail = joinPaths (rt_UpstreamPath target) callerPath
      in if tail = [] \<or> tail = ''/'' then base @ ''/'' else base @ tail)"

section \<open>The persistent executor\<close>

definition execCallerKey :: "string \<Rightarrow> string" where
  "execCallerKey token = sha256Hex token"

definition execSessionInput :: "execCall \<Rightarrow> string" where
  "execSessionInput call =
     joinWith [CHR 0x00] [ec_CallerKey call, ec_Workspace call, ec_Resource call, ec_Name call, ec_Component call, ec_IdempotencyKey call]"

definition execSessionID :: "execCall \<Rightarrow> string" where
  "execSessionID call = hexEncode (take 16 (sum256 (execSessionInput call)))"

definition execTimeoutSeconds :: "execCall \<Rightarrow> int" where
  "execTimeoutSeconds call =
     (if 0 < er_TimeoutSeconds (ec_Request call) then er_TimeoutSeconds (ec_Request call)
      else lim_timeoutSeconds (limitsOrDefault (ec_Capability call)))"

definition execTerminalState :: "string \<Rightarrow> bool" where
  "execTerminalState state \<longleftrightarrow> state \<in> {''succeeded'', ''failed'', ''canceled'', ''timed_out''}"

definition persistentExecCallFingerprint :: "execCall \<Rightarrow> string" where
  "persistentExecCallFingerprint call =
     (let r = ec_Request call in
      sha256Hex (jsonFields
        [(''Namespace'', jsonString (ec_RuntimeNamespace call)), (''Resource'', jsonString (ec_Resource call)),
         (''Name'', jsonString (ec_Name call)), (''Component'', jsonString (ec_Component call)),
         (''WorkingDir'', jsonString (ec_WorkingDir call)), (''WorkspacePath'', jsonString (ec_WorkspacePath call)),
         (''Digest'', jsonString (er_SourceDigest r)), (''Revision'', showNat (er_SourceRevision r)),
         (''Argv'', jsonStrings (er_Argv r)), (''Workdir'', jsonString (er_Workdir r)),
         (''Timeout'', showInt (er_TimeoutSeconds r))]))"

definition validatePersistentExecTarget :: "execCall \<Rightarrow> goError + unit" where
  "validatePersistentExecTarget call =
     (let t = ec_ControlTarget call in
      if trimSpace (ec_CallerKey call) = [] then Inl (Errorf ''persistent executor caller binding is required'' [])
      else if rt_ServiceName t = [] \<or> rt_ServicePort t = [] then Inl (Errorf ''persistent executor control Service is unavailable'' [])
      else if rt_TokenSecretNamespace t = [] \<or> rt_TokenSecretName t = []
      then Inl (Errorf ''persistent executor control token Secret is unavailable'' [])
      else Inr ())"

definition validatePersistentExecCall :: "execCall \<Rightarrow> goError + unit" where
  "validatePersistentExecCall call =
     andThen (validatePersistentExecTarget call) (\<lambda>_.
     if er_Action (ec_Request call) \<noteq> ExecActionStart \<or> trimSpace (ec_IdempotencyKey call) = []
     then Inl (Errorf ''persistent executor start requires a start request and idempotency key'' [])
     else if trimSpace (ec_RuntimeNamespace call) = [] then Inl (Errorf ''persistent executor runtime namespace is required'' [])
     else if \<not> pathIsAbs (ec_WorkingDir call) \<or> pathClean (ec_WorkingDir call) = ''/''
     then Inl (Errorf ''persistent executor working directory must be an absolute non-root path'' [])
     else if er_SourceRevision (ec_Request call) = 0 then Inl (Errorf ''sourceRevision is required for persistent execution'' [])
     else let digest = trimPrefix (trimSpace (er_SourceDigest (ec_Request call))) ''sha256:'' in
       if length digest \<noteq> 64 \<or> \<not> hexDecodable digest then Inl (Errorf ''sourceDigest must be a SHA-256 hex digest'' [])
       else Inr ())"

text \<open>One attempt at the coordinator: the request could not be built, the connection or the read of
  the answer failed, or an answer with its status, its text and what the JSON decoder made of it.\<close>

datatype attempt = BadURL goError | ConnFailed goError | ReadFailed goError | Answer int string "goError + execResult"

record execRuntime =
  xt_transport :: "goError + unit"
  xt_host :: "goError + unit"  \<comment> \<open>\<^verbatim>\<open>url.Parse(Host())\<close> with a scheme and a host\<close>
  xt_controlToken :: "goError + string"
  xt_attempt :: "nat \<Rightarrow> attempt"
  xt_ctxDone :: "nat \<Rightarrow> bool"

definition persistentExecRetryAttempts :: nat where "persistentExecRetryAttempts = 3"

definition truncMessage :: "nat \<Rightarrow> string \<Rightarrow> string" where
  "truncMessage n msg = (if n < length msg then take n msg @ ''...'' else msg)"

definition execCoordinatorStatusError :: "int \<Rightarrow> string \<Rightarrow> string \<Rightarrow> callError" where
  "execCoordinatorStatusError status sessionID message0 =
     (let cause = ''exec coordinator: '' @ truncMessage 2048 message0 in
      if status = 403 \<or> status = 401 then KubeErr Forbidden 403 cause
      else if status = 404 then KubeErr NotFound 404 sessionID
      else if status = 409 then KubeErr Conflict 409 cause
      else PlainErr (Errorf ''exec coordinator: %s'' [truncMessage 2048 message0]))"

definition canceledErr :: callError where
  "canceledErr = CtxErr (Errorf ''context canceled'' [])"

text \<open>The retry loop; \<^verbatim>\<open>k\<close> attempts are left, \<^verbatim>\<open>i\<close> is the index of the next one.\<close>

fun execAttempts :: "execRuntime \<Rightarrow> resolvedTarget \<Rightarrow> string \<Rightarrow> execCoordinatorRequest \<Rightarrow> nat \<Rightarrow> nat \<Rightarrow> goError
    \<Rightarrow> (callError + execResult) traced" where
  "execAttempts X target token input 0 i lastErr = ([], Inl (PlainErr lastErr))"
| "execAttempts X target token input (Suc k) i lastErr =
     (if 0 < i \<and> xt_ctxDone X i then ([], Inl canceledErr)
      else
       let again = (\<lambda>e. let (evs, r) = execAttempts X target token input k (Suc i) e in
             (EvCoordinator (serviceProxyPath target []) token input # evs, r));
           sent = (\<lambda>r. ([EvCoordinator (serviceProxyPath target []) token input], r)) in
       (case xt_attempt X i of
          BadURL e \<Rightarrow> ([], Inl (PlainErr e))
        | ConnFailed e \<Rightarrow> again (Wrapf ''exec coordinator request: %w'' [] e)
        | ReadFailed e \<Rightarrow> again (Wrapf ''read exec coordinator response: %w'' [] e)
        | Answer status body decoded \<Rightarrow>
            if status = 502 \<or> status = 503 \<or> status = 504
            then again (Errorf ''exec coordinator temporarily unavailable: %s'' [trimSpace body])
            else if status < 200 \<or> 300 \<le> status
            then sent (Inl (execCoordinatorStatusError status (cr_SessionID input) (trimSpace body)))
            else (case decoded of
                Inl e \<Rightarrow> again (Wrapf ''decode exec coordinator response: %w'' [] e)
              | Inr result \<Rightarrow> sent (Inr result))))"

definition execute :: "execRuntime \<Rightarrow> resolvedTarget \<Rightarrow> execCoordinatorRequest \<Rightarrow> (callError + execResult) traced" where
  "execute X target input =
     (case xt_transport X of
        Inl e \<Rightarrow> ([], Inl (PlainErr (Wrapf ''runtime transport unavailable: %w'' [] e)))
      | Inr _ \<Rightarrow> (case xt_host X of
        Inl e \<Rightarrow> ([], Inl (PlainErr (Wrapf ''invalid runtime host: %v'' [] e)))
      | Inr _ \<Rightarrow>
     let tok = EvControlToken (rt_TokenSecretNamespace target) (rt_TokenSecretName target) in
     (case xt_controlToken X of
        Inl e \<Rightarrow> ([tok], Inl (PlainErr (Wrapf ''control token unavailable: %w'' [] e)))
      | Inr token \<Rightarrow>
          let (evs, r) = execAttempts X target token input persistentExecRetryAttempts 0 (Errorf [] []) in (tok # evs, r))))"

definition executorStart :: "execRuntime \<Rightarrow> execCall \<Rightarrow> (callError + execResult) traced" where
  "executorStart X call =
     (case validatePersistentExecCall call of
        Inl e \<Rightarrow> ([], Inl (PlainErr e))
      | Inr _ \<Rightarrow> execute X (ec_ControlTarget call)
          \<lparr>cr_Action = ExecActionStart, cr_SessionID = execSessionID call, cr_RequestID = er_RequestID (ec_Request call),
           cr_CallerKey = ec_CallerKey call, cr_Fingerprint = persistentExecCallFingerprint call,
           cr_Argv = er_Argv (ec_Request call), cr_WorkDir = er_Workdir (ec_Request call),
           cr_TimeoutMS = execTimeoutSeconds call * 1000, cr_MaxOutputBytes = lim_outputBytes (limitsOrDefault (ec_Capability call)),
           cr_SourceRevision = er_SourceRevision (ec_Request call), cr_SourceDigest = er_SourceDigest (ec_Request call)\<rparr>)"

definition executorLifecycle :: "execRuntime \<Rightarrow> execCall \<Rightarrow> string \<Rightarrow> (callError + execResult) traced" where
  "executorLifecycle X call action =
     (case validatePersistentExecTarget call of
        Inl e \<Rightarrow> ([], Inl (PlainErr e))
      | Inr _ \<Rightarrow> execute X (ec_ControlTarget call)
          \<lparr>cr_Action = action, cr_SessionID = trimSpace (er_SessionID (ec_Request call)),
           cr_RequestID = trimSpace (er_RequestID (ec_Request call)), cr_CallerKey = ec_CallerKey call,
           cr_Fingerprint = [], cr_Argv = [], cr_WorkDir = [], cr_TimeoutMS = 0, cr_MaxOutputBytes = 0,
           cr_SourceRevision = 0, cr_SourceDigest = []\<rparr>)"

section \<open>Synchronous runs\<close>

text \<open>Durations and instants are nanoseconds.\<close>

definition execRunPollInitial :: int where "execRunPollInitial = 250000000"
definition execRunPollMax :: int where "execRunPollMax = 1000000000"
definition execRunMaxWait :: int where "execRunMaxWait = 90000000000"

definition execRunWaitBudget :: "int \<Rightarrow> int" where
  "execRunWaitBudget timeoutSeconds = min (timeoutSeconds * 1000000000 + 10000000000) execRunMaxWait"

text \<open>The executor seen by a run: the start, the poll of each iteration, and at each iteration the
  clock and whether the request's context ended before the timer.\<close>

record runEnv =
  re_start :: "execCall \<Rightarrow> (callError + execResult) traced"
  re_poll :: "nat \<Rightarrow> execCall \<Rightarrow> (callError + execResult) traced"
  re_begin :: int
  re_now :: "nat \<Rightarrow> int"
  re_done :: "nat \<Rightarrow> bool"

definition wrapCallError :: "(goError \<Rightarrow> goError) \<Rightarrow> callError \<Rightarrow> callError" where
  "wrapCallError f e = (case e of KubeErr r c m \<Rightarrow> KubeErr r c m | CtxErr g \<Rightarrow> CtxErr (f g) | PlainErr g \<Rightarrow> PlainErr (f g))"

fun runPolls :: "nat \<Rightarrow> runEnv \<Rightarrow> execCall \<Rightarrow> string \<Rightarrow> int \<Rightarrow> nat \<Rightarrow> int \<Rightarrow> execResult
    \<Rightarrow> (callError + execResult) traced option" where
  "runPolls 0 R pollCall sessionID deadline i delay result = None"
| "runPolls (Suc n) R pollCall sessionID deadline i delay result =
     (if deadline - re_now R i \<le> 0 then Some ([], Inr result)
      else if re_done R i then Some ([], Inl canceledErr)
      else (case re_poll R i pollCall of
          (evs, Inl e) \<Rightarrow> Some (evs, Inl (wrapCallError
            (Wrapf ''exec session %s was started but polling it failed (poll it again with action %q): %w'' [sessionID, ExecActionPoll]) e))
        | (evs, Inr polled0) \<Rightarrow>
            let polled = (if xr_SessionID polled0 = [] then polled0\<lparr>xr_SessionID := sessionID\<rparr> else polled0) in
            if execTerminalState (xr_State polled) then Some (evs, Inr polled)
            else map_option (\<lambda>(evs', r). (evs @ evs', r))
              (runPolls n R pollCall sessionID deadline (Suc i) (min (2 * delay) execRunPollMax) polled)))"

definition pollCallOf :: "execCall \<Rightarrow> string \<Rightarrow> execCall" where
  "pollCallOf call sessionID = call\<lparr>ec_Request := \<lparr>er_Action = ExecActionPoll, er_SessionID = sessionID,
     er_RequestID = er_RequestID (ec_Request call), er_SourceRevision = 0, er_Argv = [], er_Workdir = [],
     er_TimeoutSeconds = 0, er_SourceDigest = []\<rparr>\<rparr>"

definition startCallOf :: "execCall \<Rightarrow> execCall" where
  "startCallOf call = call\<lparr>ec_Request := (ec_Request call)\<lparr>er_Action := ExecActionStart\<rparr>\<rparr>"

definition runExec :: "nat \<Rightarrow> runEnv \<Rightarrow> execCall \<Rightarrow> (callError + execResult) traced option" where
  "runExec n R call =
     (case re_start R (startCallOf call) of
        (evs, Inl e) \<Rightarrow> Some (evs, Inl e)
      | (evs, Inr result) \<Rightarrow>
          if execTerminalState (xr_State result) \<or> xr_SessionID result = [] then Some (evs, Inr result)
          else map_option (\<lambda>(evs', r). (evs @ evs', r))
            (runPolls n R (pollCallOf call (xr_SessionID result)) (xr_SessionID result)
              (re_begin R + execRunWaitBudget (execTimeoutSeconds call)) 0 execRunPollInitial result))"

end
