(* ===== verification/Kro_Naming.thy ===== *)
theory Kro_Naming
  imports Sha256
begin

text \<open>
  The names the components agree on: the runtime namespace, tenant hash and labels of
  \<^verbatim>\<open>kro/namespace.go\<close>, \<^verbatim>\<open>kro/types.go\<close> and \<^verbatim>\<open>kro/instance.go\<close>, and the
  public hostname of \<^verbatim>\<open>apps/host.go\<close>.
\<close>

section \<open>Namespaces and labels\<close>

definition runtimeNamespace :: "string \<Rightarrow> string \<Rightarrow> string" where
  "runtimeNamespace sourceCluster sourceNamespace0 =
     (let sourceNamespace = (if sourceNamespace0 = [] then ''default'' else sourceNamespace0) in
      sourceCluster @ ''-'' @ sourceNamespace)"

text \<open>\<^verbatim>\<open>tenantHash\<close>: the first six bytes of the SHA-256 sum in hexadecimal.\<close>

definition tenantHash :: "string \<Rightarrow> string" where
  "tenantHash tenantPath = hexEncode (take 6 (sum256 tenantPath))"

definition LabelTenantValue :: "string \<Rightarrow> string" where
  "LabelTenantValue tenantPath = tenantHash tenantPath"

definition LabelTenant :: string where "LabelTenant = ''railgrid.ai/tenant''"
definition LabelTemplate :: string where "LabelTemplate = ''railgrid.ai/template''"
definition LabelManagedBy :: string where "LabelManagedBy = ''railgrid.ai/managed-by''"
definition ManagedByValue :: string where "ManagedByValue = ''infrastructure-provider''"

definition CredentialsSecretName :: "string \<Rightarrow> string" where
  "CredentialsSecretName instanceName = ''cloud-credentials-'' @ instanceName"

lemma labels_distinct [simp]:
  "LabelTenant \<noteq> LabelTemplate" "LabelTemplate \<noteq> LabelTenant"
  "LabelTenant \<noteq> LabelManagedBy" "LabelManagedBy \<noteq> LabelTenant"
  "LabelTemplate \<noteq> LabelManagedBy" "LabelManagedBy \<noteq> LabelTemplate"
  by (simp_all add: LabelTenant_def LabelTemplate_def LabelManagedBy_def)

section \<open>Public hostnames\<close>

text \<open>The expression \<^verbatim>\<open>^[a-z0-9]([-a-z0-9]*[a-z0-9])?$\<close>: one lower-case DNS label.\<close>

definition dnsAlnum :: "char \<Rightarrow> bool" where
  "dnsAlnum c \<longleftrightarrow> c \<in> set ''abcdefghijklmnopqrstuvwxyz0123456789''"

definition dnsLabel :: "string \<Rightarrow> bool" where
  "dnsLabel s \<longleftrightarrow> s \<noteq> [] \<and> dnsAlnum (hd s) \<and> dnsAlnum (last s)
     \<and> list_all (\<lambda>c. c = CHR ''-'' \<or> dnsAlnum c) s"

definition tenantHashLen :: nat where "tenantHashLen = 12"

definition maxPrefixLen :: nat where "maxPrefixLen = 63 - tenantHashLen - 1"

text \<open>The error of \<^verbatim>\<open>Host\<close> renders the two lengths in decimal.\<close>

definition host :: "string \<Rightarrow> string \<Rightarrow> string \<Rightarrow> string \<Rightarrow> goError + string" where
  "host prefix0 instanceName tenantIdentity baseDomain =
     (let prefix = (if prefix0 = [] then instanceName else prefix0) in
      if \<not> dnsLabel prefix
      then Inl (Errorf ''hostname prefix %q is not a valid DNS label (lowercase alphanumeric + internal hyphens)'' [prefix])
      else if maxPrefixLen < length prefix
      then Inl (Errorf ''hostname prefix %q is too long (%d > %d)'' [prefix, showNat (length prefix), showNat maxPrefixLen])
      else if baseDomain = []
      then Inl (Errorf ''base domain is empty (set RAILGRID_APP_BASE_DOMAIN)'' [])
      else Inr (prefix @ ''-'' @ LabelTenantValue tenantIdentity @ ''.'' @ baseDomain))"

definition OAuth2CallbackPath :: string where "OAuth2CallbackPath = ''/oauth2/callback''"

definition hostURL :: "string \<Rightarrow> string" where "hostURL h = ''https://'' @ h"

definition redirectURL :: "string \<Rightarrow> string" where "redirectURL h = hostURL h @ OAuth2CallbackPath"

subsection \<open>Hostnames are valid and tenant-distinct\<close>

lemma length_tenantHash [simp]: "length (tenantHash t) = tenantHashLen"
  by (simp add: tenantHash_def length_hexEncode length_sum256 tenantHashLen_def)

lemma dnsAlnum_hexDigit: "dnsAlnum (hexDigit n)"
proof -
  have "hexDigit n \<in> set ''0123456789abcdef''" unfolding hexDigit_def by (rule nth_mem) simp
  moreover have "set ''0123456789abcdef'' \<subseteq> set ''abcdefghijklmnopqrstuvwxyz0123456789''" by simp
  ultimately show ?thesis unfolding dnsAlnum_def by blast
qed

lemma hexEncode_alnum: "list_all dnsAlnum (hexEncode bs)"
  by (induction bs) (simp_all add: hexEncode_def dnsAlnum_hexDigit)

lemma tenantHash_alnum: "list_all dnsAlnum (tenantHash t)"
  unfolding tenantHash_def by (rule hexEncode_alnum)

lemma tenantHash_not_Nil [simp]: "tenantHash t \<noteq> []"
  using length_tenantHash [of t] unfolding tenantHashLen_def by fastforce

text \<open>A hostname that is computed has as its first label the requested prefix (the instance name
  when none is given), a hyphen and the tenant hash. That label is a valid DNS label of at most 63
  bytes and contains no dot, the rest is the configured base domain, and under one base domain two
  hostnames are equal only for the same prefix and tenant hash.\<close>

theorem host_valid:
  assumes "host p n t d = Inr h"
  shows "(\<exists>lbl. h = lbl @ ''.'' @ d \<and> lbl = (if p = [] then n else p) @ ''-'' @ tenantHash t
            \<and> dnsLabel lbl \<and> length lbl \<le> 63 \<and> CHR ''.'' \<notin> set lbl)
       \<and> (\<forall>p' n' t'. host p' n' t' d = Inr h \<longrightarrow>
            (if p' = [] then n' else p') = (if p = [] then n else p) \<and> tenantHash t' = tenantHash t)"
proof -
  have dec: "host p n t d = Inr h \<longleftrightarrow> dnsLabel (if p = [] then n else p) \<and> length (if p = [] then n else p) \<le> 50
      \<and> d \<noteq> [] \<and> h = (if p = [] then n else p) @ ''-'' @ tenantHash t @ ''.'' @ d" for p n t h
    by (auto simp: host_def Let_def LabelTenantValue_def maxPrefixLen_def tenantHashLen_def)
  define q where "q = (if p = [] then n else p)"
  have q: "dnsLabel q" "length q \<le> 50" "h = q @ ''-'' @ tenantHash t @ ''.'' @ d"
    using assms unfolding dec q_def by auto
  let ?l = "q @ ''-'' @ tenantHash t"
  have la: "list_all (\<lambda>c. c = CHR ''-'' \<or> dnsAlnum c) ?l"
    using q(1) tenantHash_alnum [of t] by (auto simp: dnsLabel_def list_all_iff)
  moreover have "dnsAlnum (last ?l)"
    using tenantHash_alnum [of t] by (auto simp: list_all_iff last_in_set)
  ultimately have "dnsLabel ?l" using q(1) by (simp add: dnsLabel_def)
  moreover have "length ?l \<le> 63" using q(2) by (simp add: tenantHashLen_def)
  moreover have "\<not> dnsAlnum CHR ''.''" by (simp add: dnsAlnum_def)
  then have "CHR ''.'' \<notin> set ?l" using la by (auto simp: list_all_iff)
  moreover have "h = ?l @ ''.'' @ d" using q(3) by simp
  moreover have "(if p' = [] then n' else p') = q \<and> tenantHash t' = tenantHash t"
    if h': "host p' n' t' d = Inr h" for p' n' t'
  proof -
    define q' where "q' = (if p' = [] then n' else p')"
    have "q' @ ''-'' @ tenantHash t' @ ''.'' @ d = q @ ''-'' @ tenantHash t @ ''.'' @ d"
      using h' q(3) unfolding dec q'_def by simp
    then have "q' @ ''-'' @ tenantHash t' = q @ ''-'' @ tenantHash t" by simp
    moreover from this have "length q' = length q" by (metis add_right_cancel length_append length_tenantHash)
    ultimately show ?thesis unfolding q'_def [symmetric] by simp
  qed
  ultimately show ?thesis unfolding q_def [symmetric] by blast
qed

theorem host_valid_witness:
  "\<exists>h. host [] ''shop'' ''root'' ''apps.example.com'' = Inr h
     \<and> (\<exists>lbl. h = lbl @ ''.'' @ ''apps.example.com'' \<and> lbl = ''shop'' @ ''-'' @ tenantHash ''root''
           \<and> dnsLabel lbl \<and> length lbl \<le> 63 \<and> CHR ''.'' \<notin> set lbl)"
proof -
  let ?h = "''shop'' @ ''-'' @ tenantHash ''root'' @ ''.'' @ ''apps.example.com''"
  have "dnsLabel ''shop''" by (simp add: dnsLabel_def dnsAlnum_def)
  then have h: "host [] ''shop'' ''root'' ''apps.example.com'' = Inr ?h"
    unfolding host_def by (simp add: Let_def LabelTenantValue_def maxPrefixLen_def tenantHashLen_def)
  have "\<exists>lbl. ?h = lbl @ ''.'' @ ''apps.example.com'' \<and> lbl = ''shop'' @ ''-'' @ tenantHash ''root''
      \<and> dnsLabel lbl \<and> length lbl \<le> 63 \<and> CHR ''.'' \<notin> set lbl"
    using conjunct1 [OF host_valid [OF h]] unfolding if_P [OF refl] .
  with h show ?thesis by (rule conjI [THEN exI [of _ ?h]])
qed

end
