(* ===== verification/Data_Plane_Handler.thy ===== *)
theory Data_Plane_Handler
  imports Data_Plane_Exec Kro_Naming
begin

text \<open>
  \<^verbatim>\<open>dataplane/handler.go\<close>, \<^verbatim>\<open>proxy.go\<close>, \<^verbatim>\<open>identity.go\<close>, \<^verbatim>\<open>authorizer.go\<close> and \<^verbatim>\<open>runtime.go\<close>: one data-plane request from its path to its response. A request is a pure
  function of the answers of the outside world; it returns the trace of external actions in
  order, and the response (of an error response the status code).
\<close>

section \<open>Addressing\<close>

record dpRequest =
  rq_workspace :: string
  rq_resource :: string
  rq_name :: string
  rq_component :: string
  rq_verb :: string
  rq_callerPath :: string

definition PathPrefix :: string where "PathPrefix = ''/dataplane/''"

text \<open>\<^verbatim>\<open>parsePath\<close>; \<^verbatim>\<open>verbAndTail\<close> is the fourth part of the split.\<close>

definition parseVerb :: "dpRequest \<Rightarrow> string \<Rightarrow> dpRequest option" where
  "parseVerb req verbAndTail =
     (case cutPrefix verbAndTail ''components/'' of
        Some trimmed \<Rightarrow>
          (let seg = splitN CHR ''/'' 3 trimmed in
           if length seg < 2 then None
           else let component = trimSpace (seg ! 0); verb = trimSpace (seg ! 1) in
             if component = [] then None
             else Some (req\<lparr>rq_component := component, rq_verb := verb,
                            rq_callerPath := (if length seg = 3 then ''/'' @ seg ! 2 else [])\<rparr>))
      | None \<Rightarrow>
          (let seg = splitN CHR ''/'' 2 verbAndTail in
           Some (req\<lparr>rq_verb := trimSpace (seg ! 0),
                     rq_callerPath := (if length seg = 2 then ''/'' @ seg ! 1 else [])\<rparr>)))"

definition parsePath :: "string \<Rightarrow> dpRequest option" where
  "parsePath p =
     (let rest0 = trimPrefix p PathPrefix in
      if rest0 = p then None
      else (case cutPrefix rest0 ''clusters/'' of
        None \<Rightarrow> None
      | Some rest \<Rightarrow>
          let parts = splitN CHR ''/'' 4 rest in
          if length parts < 4 then None
          else (case parseVerb \<lparr>rq_workspace = trimSpace (parts ! 0), rq_resource = trimSpace (parts ! 1),
                  rq_name = trimSpace (parts ! 2), rq_component = [], rq_verb = [], rq_callerPath = []\<rparr> (parts ! 3) of
              None \<Rightarrow> None
            | Some req \<Rightarrow>
                if rq_workspace req = [] \<or> rq_resource req = [] \<or> rq_name req = [] \<or> rq_verb req = [] then None
                else Some req)))"

section \<open>The caller\<close>

record httpReq =
  hr_Method :: string
  hr_Path :: string
  hr_RawQuery :: string
  hr_QueryToken :: string  \<comment> \<open>\<^verbatim>\<open>r.URL.Query().Get("token")\<close>\<close>
  hr_Headers :: "string smap"  \<comment> \<open>by canonical name\<close>
  hr_Body :: execBody

definition headerGet :: "string smap \<Rightarrow> string \<Rightarrow> string" where
  "headerGet hs k = (case map_of hs k of None \<Rightarrow> [] | Some v \<Rightarrow> v)"

record identity =
  id_tenant :: string
  id_user :: string
  id_token :: string

definition bearerToken :: "httpReq \<Rightarrow> string" where
  "bearerToken r =
     (let auth = headerGet (hr_Headers r) ''Authorization'' in
      if hasPrefix auth ''Bearer '' then trimPrefix auth ''Bearer '' else [])"

definition identityFromRequest :: "bool \<Rightarrow> httpReq \<Rightarrow> identity" where
  "identityFromRequest devQuery r =
     (let t = bearerToken r in
      \<lparr>id_tenant = headerGet (hr_Headers r) ''X-Railgrid-Tenant'', id_user = headerGet (hr_Headers r) ''X-Railgrid-User'',
       id_token = (if devQuery \<and> t = [] then hr_QueryToken r else t)\<rparr>)"

section \<open>Readiness\<close>

definition observedGenerationValue :: "json \<Rightarrow> int option" where
  "observedGenerationValue v =
     (case v of
        JInt n \<Rightarrow> Some n
      | JFloat q \<Rightarrow> if of_int (floor q) = q \<and> - (2 ^ 63) \<le> floor q \<and> floor q < 2 ^ 63 then Some (floor q) else None
      | _ \<Rightarrow> None)"

text \<open>The scan of the conditions: the first \<^verbatim>\<open>Ready\<close> condition decides.\<close>

fun readyCondition :: "int \<Rightarrow> json list \<Rightarrow> bool" where
  "readyCondition generation [] = False"
| "readyCondition generation (JObj c # rest) =
     (if asStr (jget c ''type'') \<noteq> ''Ready'' then readyCondition generation rest
      else observedGenerationValue (jget c ''observedGeneration'') = Some generation
        \<and> asStr (jget c ''status'') = ''True'')"
| "readyCondition generation (_ # rest) = readyCondition generation rest"

definition instanceReadyForExec :: "unstr \<Rightarrow> json option \<Rightarrow> string \<Rightarrow> bool" where
  "instanceReadyForExec U inst templateName =
     (case inst of
        None \<Rightarrow> False
      | Some i \<Rightarrow>
     (let generation = getGeneration U i in
      0 < generation \<and>
      (case nestedField U i [''status'', ''observedGeneration''] of
         Inr (Some v) \<Rightarrow> observedGenerationValue v = Some generation | _ \<Rightarrow> False) \<and>
      nestedStr U i [''status'', ''phase''] = Inr (Some ''Ready'') \<and>
      (case nestedSlice U i [''status'', ''conditions''] of
         Inr (Some cs) \<Rightarrow> readyCondition generation cs | _ \<Rightarrow> False) \<and>
      (case nestedField U i [''status'', NetworkPhaseStatusField] of
         Inl _ \<Rightarrow> False
       | Inr found \<Rightarrow>
           templateName = UniversalCodingSandboxTemplateName \<longrightarrow> found = Some (JStr NetworkPhaseRuntime))))"

definition resolveExecWorkdir :: "string \<Rightarrow> string \<Rightarrow> goError + string" where
  "resolveExecWorkdir requested0 base0 =
     (let base = pathClean (trimSpace base0) in
      if base = ''.'' \<or> \<not> hasPrefix base ''/'' \<or> contains base [CHR 0x00]
      then Inl (Errorf ''development workingDir must be absolute'' [])
      else let requested = trimSpace requested0 in
        if requested = [] \<or> requested = ''.'' then Inr ''.''
        else mapErr (Wrapf ''workdir: %w'' []) (normalizeExecPath requested))"

section \<open>The activity marker\<close>

text \<open>\<^verbatim>\<open>restRuntime.RecordActivity\<close> up to the patch: the object it will patch. \<^verbatim>\<open>parseGV\<close> is
  apimachinery's \<^verbatim>\<open>schema.ParseGroupVersion\<close>.\<close>

record activityRef =
  ar_Group :: string
  ar_Version :: string
  ar_Resource :: string
  ar_Namespace :: string
  ar_Name :: string

definition activityTarget :: "unstr \<Rightarrow> (string \<Rightarrow> goError + string \<times> string) \<Rightarrow> json \<Rightarrow> goError + activityRef" where
  "activityTarget U parseGV inst =
     (case nestedMap U inst [''status'', ''runtimeRef''] of
        Inl _ \<Rightarrow> Inl (Errorf ''read status.runtimeRef: %w'' [])
      | Inr None \<Rightarrow> Inl (Errorf ''status.runtimeRef is absent'' [])
      | Inr (Some ref) \<Rightarrow>
     (let apiVersion = asStr (jget ref ''apiVersion'') in
      case parseGV (trimSpace apiVersion) of
        Inl e \<Rightarrow> Inl (Wrapf ''invalid status.runtimeRef apiVersion %q: %w'' [apiVersion] e)
      | Inr (g, v) \<Rightarrow>
      if g = [] \<or> v = []
      then Inl (Wrapf ''invalid status.runtimeRef apiVersion %q: %w'' [apiVersion] (Errorf ''group or version is empty'' []))
      else
      let resource = trimSpace (asStr (jget ref ''resource'')); namespace = trimSpace (asStr (jget ref ''namespace''));
          name = trimSpace (asStr (jget ref ''name'')) in
      if resource = [] \<or> namespace = [] \<or> name = []
      then Inl (Errorf ''status.runtimeRef must include resource, namespace, and name'' [])
      else let expected = foundOr [] (nestedStr U inst [''status'', ''runtimeNamespace'']) in
        if expected \<noteq> [] \<and> namespace \<noteq> expected
        then Inl (Errorf ''status.runtimeRef namespace %q does not match runtimeNamespace %q'' [namespace, expected])
        else Inr \<lparr>ar_Group = g, ar_Version = v, ar_Resource = resource, ar_Namespace = namespace, ar_Name = name\<rparr>))"

section \<open>The outside world of one request\<close>

datatype statusAttempt = StatusBadURL goError | StatusConnFailed goError | StatusReadFailed goError
  | StatusAnswer int string "goError + nat \<times> string"

record handlerEnv =
  he_available :: bool  \<comment> \<open>no nil dependency\<close>
  he_devQuery :: bool  \<comment> \<open>\<^verbatim>\<open>RAILGRID_DEV_ALLOW_TENANT_QUERY=true\<close>\<close>
  he_getInstance :: "string \<Rightarrow> string \<Rightarrow> string \<Rightarrow> string \<Rightarrow> callError + json"
  he_contractFor :: "string \<Rightarrow> goError + dataPlane option"
  he_developmentFor :: "(string \<Rightarrow> string \<Rightarrow> goError + devComponent) option"
  he_execWired :: bool  \<comment> \<open>executor and authorizer configured\<close>
  he_review :: "execAuthorization \<Rightarrow> callError + bool \<times> string"  \<comment> \<open>the caller's SelfSubjectAccessReview\<close>
  he_recorder :: "(json \<Rightarrow> goError + unit) option"
  he_transport :: "goError + unit"
  he_host :: "goError + unit"  \<comment> \<open>\<^verbatim>\<open>url.Parse(Host())\<close>\<close>
  he_hostComplete :: bool  \<comment> \<open>with a scheme and a host\<close>
  he_controlToken :: "string \<Rightarrow> string \<Rightarrow> goError + string"
  he_statusAttempt :: statusAttempt
  he_attempt :: "nat \<Rightarrow> nat \<Rightarrow> attempt"  \<comment> \<open>per coordinator exchange and attempt\<close>
  he_ctxDone :: "nat \<Rightarrow> nat \<Rightarrow> bool"
  he_rand :: "goError + nat list"
  he_begin :: int
  he_now :: "nat \<Rightarrow> int"
  he_pollDone :: "nat \<Rightarrow> bool"

datatype response =
    HttpError int
  | InstanceStatus jmap
  | ExecResponse execResult
  | Proxied
  | NotReturned

definition emit :: "event \<Rightarrow> 'a traced \<Rightarrow> 'a traced" where
  "emit e x = (e # fst x, snd x)"

definition emits :: "event list \<Rightarrow> 'a traced \<Rightarrow> 'a traced" where
  "emits es x = (es @ fst x, snd x)"

definition fail :: "int \<Rightarrow> response traced" where
  "fail code = ([], HttpError code)"

definition kubeStatus :: "callError \<Rightarrow> int" where
  "kubeStatus e = (case e of KubeErr _ code _ \<Rightarrow> if code = 0 then 502 else code | _ \<Rightarrow> 502)"

text \<open>\<^verbatim>\<open>writeKubeError\<close>, \<^verbatim>\<open>writeExecAuthorizationError\<close> and \<^verbatim>\<open>writeExecError\<close>.\<close>

definition writeKubeError :: "callError \<Rightarrow> response" where
  "writeKubeError e = HttpError (kubeStatus e)"

definition writeExecAuthorizationError :: "callError \<Rightarrow> response" where
  "writeExecAuthorizationError e =
     (case e of
        KubeErr Forbidden _ _ \<Rightarrow> writeKubeError e
      | KubeErr Unauthorized _ _ \<Rightarrow> writeKubeError e
      | _ \<Rightarrow> HttpError 403)"

definition writeExecError :: "callError \<Rightarrow> response" where
  "writeExecError e =
     (case e of
        KubeErr NotFound _ _ \<Rightarrow> writeKubeError e
      | KubeErr Forbidden _ _ \<Rightarrow> writeKubeError e
      | KubeErr Conflict _ _ \<Rightarrow> writeKubeError e
      | CtxErr _ \<Rightarrow> HttpError 408
      | _ \<Rightarrow> HttpError 502)"

text \<open>\<^verbatim>\<open>callerExecAuthorizer.AuthorizeExec\<close>: the caller's own access review decides.\<close>

definition authorizeExec :: "handlerEnv \<Rightarrow> execAuthorization \<Rightarrow> callError + unit" where
  "authorizeExec E request =
     (case he_review E request of
        Inl e \<Rightarrow> Inl (wrapCallError (Wrapf ''authorize instance exec as caller: %w'' []) e)
      | Inr (allowed, reason) \<Rightarrow>
          if \<not> allowed
          then Inl (KubeErr Forbidden 403 (if trimSpace reason = [] then ''caller is not allowed to execute commands for this instance'' else trimSpace reason))
          else Inr ())"

definition recordActivity :: "handlerEnv \<Rightarrow> json \<Rightarrow> (goError + unit) traced" where
  "recordActivity E inst =
     (case he_recorder E of None \<Rightarrow> ([], Inr ()) | Some record \<Rightarrow> ([EvRecordActivity inst], record inst))"

section \<open>The reverse proxy\<close>

definition controlTokenHeader :: string where "controlTokenHeader = ''X-Sandbox-Control-Token''"

text \<open>The headers the director leaves on the outgoing request.\<close>

definition directorHeaders :: "string \<Rightarrow> string smap \<Rightarrow> string smap" where
  "directorHeaders token hs =
     (let hs' = mdel ''Authorization'' hs in
      if token \<noteq> [] then mput controlTokenHeader token hs' else mdel controlTokenHeader hs')"

definition serveProxy :: "handlerEnv \<Rightarrow> httpReq \<Rightarrow> resolvedTarget \<Rightarrow> string \<Rightarrow> response traced" where
  "serveProxy E r target callerPath =
     (case he_transport E of
        Inl _ \<Rightarrow> fail 502
      | Inr _ \<Rightarrow> (case he_host E of
        Inl _ \<Rightarrow> fail 502
      | Inr _ \<Rightarrow>
     let forward = (\<lambda>token. ([EvProxy (serviceProxyPath target callerPath) (directorHeaders token (hr_Headers r))], Proxied)) in
     if rt_TokenSecretName target \<noteq> []
     then emit (EvControlToken (rt_TokenSecretNamespace target) (rt_TokenSecretName target))
       (case he_controlToken E (rt_TokenSecretNamespace target) (rt_TokenSecretName target) of
          Inl _ \<Rightarrow> fail 502
        | Inr token \<Rightarrow> forward token)
     else forward []))"

section \<open>The applied source revision\<close>

datatype sourceError = NoAppliedSource | SourceFailed goError

definition statusRequest :: "handlerEnv \<Rightarrow> resolvedTarget \<Rightarrow> string \<Rightarrow> (sourceError + nat \<times> string) traced" where
  "statusRequest E target token =
     (let sent = (\<lambda>r. ([EvStatusGet (serviceProxyPath target []) token], r)) in
      case he_statusAttempt E of
        StatusBadURL e \<Rightarrow> ([], Inl (SourceFailed e))
      | StatusConnFailed e \<Rightarrow> sent (Inl (SourceFailed (Wrapf ''component status request: %w'' [] e)))
      | StatusReadFailed e \<Rightarrow> sent (Inl (SourceFailed (Wrapf ''read component status: %w'' [] e)))
      | StatusAnswer status body decoded \<Rightarrow> sent
          (if status \<noteq> 200
           then Inl (SourceFailed (Errorf ''component status returned %d: %s'' [showInt status, truncMessage 512 (trimSpace body)]))
           else (case decoded of
              Inl e \<Rightarrow> Inl (SourceFailed (Wrapf ''decode component status: %w'' [] e))
            | Inr (revision, digest0) \<Rightarrow>
                if revision = 0 \<or> trimSpace digest0 = [] then Inl NoAppliedSource
                else Inr (revision, trimSpace digest0))))"

definition fetchComponentSource :: "handlerEnv \<Rightarrow> resolvedTarget \<Rightarrow> (sourceError + nat \<times> string) traced" where
  "fetchComponentSource E target =
     (case he_transport E of
        Inl e \<Rightarrow> ([], Inl (SourceFailed (Wrapf ''runtime transport unavailable: %w'' [] e)))
      | Inr _ \<Rightarrow>
     if \<not> isOk (he_host E) \<or> \<not> he_hostComplete E then ([], Inl (SourceFailed (Errorf ''invalid runtime host: %v'' [])))
     else if rt_TokenSecretName target \<noteq> []
     then emit (EvControlToken (rt_TokenSecretNamespace target) (rt_TokenSecretName target))
       (case he_controlToken E (rt_TokenSecretNamespace target) (rt_TokenSecretName target) of
          Inl e \<Rightarrow> ([], Inl (SourceFailed (Wrapf ''control token unavailable: %w'' [] e)))
        | Inr token \<Rightarrow> statusRequest E target token)
     else statusRequest E target [])"

section \<open>Exec\<close>

text \<open>The persistent executor of this request: exchange 0 is the start, a poll or a cancel, exchange
  \<^verbatim>\<open>Suc i\<close> the i-th poll of a run.\<close>

definition exchange :: "handlerEnv \<Rightarrow> resolvedTarget \<Rightarrow> nat \<Rightarrow> execRuntime" where
  "exchange E target i =
     \<lparr>xt_transport = he_transport E,
      xt_host = (if isOk (he_host E) \<and> he_hostComplete E then Inr () else Inl (Errorf ''invalid runtime host: %v'' [])),
      xt_controlToken = he_controlToken E (rt_TokenSecretNamespace target) (rt_TokenSecretName target),
      xt_attempt = he_attempt E i, xt_ctxDone = he_ctxDone E i\<rparr>"

definition runEnvOf :: "handlerEnv \<Rightarrow> resolvedTarget \<Rightarrow> runEnv" where
  "runEnvOf E target =
     \<lparr>re_start = executorStart (exchange E target 0),
      re_poll = (\<lambda>i call. executorLifecycle (exchange E target (Suc i)) call ExecActionPoll),
      re_begin = he_begin E, re_now = he_now E, re_done = he_pollDone E\<rparr>"

definition runFuel :: nat where "runFuel = 361"

definition dispatchExec :: "handlerEnv \<Rightarrow> execCall \<Rightarrow> (callError + execResult) traced option" where
  "dispatchExec E call =
     (let action = er_Action (ec_Request call); t = ec_ControlTarget call in
      if action = ExecActionStart then Some (executorStart (exchange E t 0) call)
      else if action = ExecActionRun then runExec runFuel (runEnvOf E t) call
      else if action = ExecActionPoll then Some (executorLifecycle (exchange E t 0) call ExecActionPoll)
      else Some (executorLifecycle (exchange E t 0) call ExecActionCancel))"

text \<open>The last part of \<^verbatim>\<open>serveExec\<close>: run the call, stamp and bound the result.\<close>

definition finishExec :: "handlerEnv \<Rightarrow> execCall \<Rightarrow> response traced" where
  "finishExec E call =
     (let reqBody = ec_Request call in
      case dispatchExec E call of
        None \<Rightarrow> ([], NotReturned)
      | Some (evs, Inl e) \<Rightarrow> (evs, writeExecError e)
      | Some (evs, Inr result0) \<Rightarrow>
          let result = (if execLaunch (er_Action reqBody)
                then result0\<lparr>xr_SourceRevision := er_SourceRevision reqBody, xr_SourceDigest := er_SourceDigest reqBody,
                             xr_RequestID := (if xr_RequestID result0 = [] then er_RequestID reqBody else xr_RequestID result0)\<rparr>
                else result0) in
          (case limitsForCapability (ec_Capability call) of
             Inl _ \<Rightarrow> (evs, HttpError 409)
           | Inr limits \<Rightarrow> (evs, ExecResponse (boundExecResult result (lim_outputBytes limits)))))"

text \<open>The middle part: activity marker, then the default source revision of a launch.\<close>

definition launchExec :: "handlerEnv \<Rightarrow> unstr \<Rightarrow> dataPlane \<Rightarrow> json \<Rightarrow> execCall \<Rightarrow> response traced" where
  "launchExec E U contract inst call =
     (let (evA, act) = recordActivity E inst; reqBody = ec_Request call in
      emits evA
      (case act of
         Inl _ \<Rightarrow> fail 503
       | Inr _ \<Rightarrow>
           if execLaunch (er_Action reqBody) \<and> er_SourceRevision reqBody = 0 \<and> er_SourceDigest reqBody = []
           then (case resolveComponentStatusTarget U (Some contract) (Some inst) (ec_Component call) of
               Inl _ \<Rightarrow> fail 409
             | Inr statusTarget \<Rightarrow>
                 let (evS, src) = fetchComponentSource E statusTarget in
                 emits evS
                 (case src of
                    Inl NoAppliedSource \<Rightarrow> fail 400
                  | Inl (SourceFailed _) \<Rightarrow> fail 502
                  | Inr (revision, digest) \<Rightarrow>
                      finishExec E (call\<lparr>ec_Request := reqBody\<lparr>er_SourceRevision := revision, er_SourceDigest := digest\<rparr>\<rparr>)))
           else finishExec E call))"

definition serveExec :: "handlerEnv \<Rightarrow> unstr \<Rightarrow> httpReq \<Rightarrow> identity \<Rightarrow> dpRequest \<Rightarrow> string \<Rightarrow> dataPlane \<Rightarrow> json \<Rightarrow> response traced" where
  "serveExec E U r ident req templateName contract inst =
     (if rq_component req = [] then fail 404
      else if hr_Method r \<noteq> ''POST'' then fail 405
      else if rq_callerPath req \<noteq> [] \<or> hr_RawQuery r \<noteq> [] then fail 400
      else
     case map_of (dp_Components contract) (rq_component req) of
       None \<Rightarrow> fail 404
     | Some component \<Rightarrow>
     if dc_Exec component = None then fail 404
     else if \<not> he_execWired E then fail 503
     else if \<not> instanceReadyForExec U (Some inst) templateName then fail 409
     else
     (case decodeExecRequest (dc_Exec component) (hr_Body r) (headerGet (hr_Headers r) ''Idempotency-Key'') (he_rand E) of
       Inl _ \<Rightarrow> fail 400
     | Inr (reqBody0, idempotencyKey) \<Rightarrow>
     (case he_developmentFor E of
       None \<Rightarrow> fail 503
     | Some developmentFor \<Rightarrow> emit (EvGetDevelopment templateName (rq_component req))
     (case developmentFor templateName (rq_component req) of
       Inl _ \<Rightarrow> fail 409
     | Inr dev \<Rightarrow>
     let workingDir0 = (if trimSpace (dv_WorkingDir dev) = [] then ''/workspace'' else trimSpace (dv_WorkingDir dev)) in
     if \<not> hasPrefix workingDir0 ''/'' \<or> contains workingDir0 [CHR 0x00] then fail 409
     else
     let workingDir = pathClean workingDir0 in
     (case resolveExecWorkdir (er_Workdir reqBody0) workingDir of
       Inl _ \<Rightarrow> fail 400
     | Inr resolved \<Rightarrow>
     let reqBody = reqBody0\<lparr>er_Workdir := resolved\<rparr> in
     (case nestedString U inst (dp_RuntimeNamespacePath contract) of
       Inl _ \<Rightarrow> fail 409
     | Inr runtimeNs \<Rightarrow>
     if runtimeNs = [] then fail 409
     else
     (case resolveComponentExecTarget U (Some contract) (Some inst) (rq_component req) of
       Inl _ \<Rightarrow> fail 409
     | Inr controlTarget \<Rightarrow>
     let auth = \<lparr>ea_Workspace = rq_workspace req, ea_Resource = rq_resource req, ea_Name = rq_name req,
           ea_Component = rq_component req, ea_User = id_user ident, ea_CallerToken = id_token ident,
           ea_Action = er_Action reqBody, ea_Request = reqBody, ea_Instance = inst\<rparr> in
     emit (EvAuthorize auth)
     (case authorizeExec E auth of
       Inl e \<Rightarrow> ([], writeExecAuthorizationError e)
     | Inr _ \<Rightarrow> launchExec E U contract inst
         \<lparr>ec_Workspace = rq_workspace req, ec_Resource = rq_resource req, ec_Name = rq_name req,
          ec_Component = rq_component req, ec_Instance = inst, ec_Capability = dc_Exec component,
          ec_WorkingDir = workingDir, ec_WorkspacePath = trimSpace (dv_WorkspacePath dev),
          ec_CallerKey = execCallerKey (id_token ident), ec_RuntimeNamespace = runtimeNs,
          ec_ControlTarget = controlTarget, ec_Request = reqBody, ec_IdempotencyKey = idempotencyKey\<rparr>))))))))"

section \<open>The handler\<close>

definition InstancesResource :: string where "InstancesResource = ''instances''"

text \<open>The method allowlist and the resolution of an ordinary verb.\<close>

definition verbTarget :: "unstr \<Rightarrow> dataPlane \<Rightarrow> json \<Rightarrow> dpRequest \<Rightarrow> string \<Rightarrow> int + resolvedTarget" where
  "verbTarget U contract inst req method =
     (if rq_component req \<noteq> []
      then if \<not> componentMethodAllowed (Some contract) (rq_component req) (rq_verb req) method then Inl 405
           else mapErr (\<lambda>_. 409) (resolveComponent U (Some contract) (Some inst) (rq_component req) (rq_verb req))
      else if \<not> methodAllowed (Some contract) (rq_verb req) method then Inl 405
           else mapErr (\<lambda>_. 409) (resolveVerb U (Some contract) (Some inst) (rq_verb req)))"

definition serveVerb :: "handlerEnv \<Rightarrow> unstr \<Rightarrow> httpReq \<Rightarrow> dpRequest \<Rightarrow> dataPlane \<Rightarrow> json \<Rightarrow> response traced" where
  "serveVerb E U r req contract inst =
     (case verbTarget U contract inst req (hr_Method r) of
        Inl code \<Rightarrow> fail code
      | Inr target \<Rightarrow>
     (let (evA, act) = recordActivity E inst in
      emits evA
      (case act of
         Inl _ \<Rightarrow> fail 503
       | Inr _ \<Rightarrow>
           if rt_FromStatus target then ([], InstanceStatus (foundOr [] (nestedMap U inst [''status''])))
           else serveProxy E r target (rq_callerPath req))))"

definition serveHTTP :: "handlerEnv \<Rightarrow> unstr \<Rightarrow> httpReq \<Rightarrow> response traced" where
  "serveHTTP E U r =
     (if \<not> he_available E then fail 503
      else
     let ident = identityFromRequest (he_devQuery E) r in
     if id_token ident = [] then fail 401
     else
     case parsePath (hr_Path r) of
       None \<Rightarrow> fail 400
     | Some req \<Rightarrow>
     if rq_resource req \<noteq> InstancesResource then fail 404
     else emit (EvGetInstance (rq_workspace req) (id_token ident) (rq_resource req) (rq_name req))
     (case he_getInstance E (rq_workspace req) (id_token ident) (rq_resource req) (rq_name req) of
       Inl e \<Rightarrow> ([], writeKubeError e)
     | Inr inst \<Rightarrow>
     let templateName = foundOr [] (nestedStr U inst [''spec'', ''template'']) in
     emit (EvGetContract templateName)
     (case he_contractFor E templateName of
       Inl _ \<Rightarrow> fail 404
     | Inr None \<Rightarrow> fail 404
     | Inr (Some contract) \<Rightarrow>
     if \<not> isOk (validateRuntimeNamespace U (Some contract) (Some inst) (runtimeNamespace (rq_workspace req) (getNamespace U inst)))
     then fail 409
     else if rq_verb req = ''exec'' then serveExec E U r ident req templateName contract inst
     else serveVerb E U r req contract inst)))"

end
