(* ===== verification/Exec_Contract.thy ===== *)
theory Exec_Contract
  imports Data_Plane_Exec
begin

text \<open>
  What the exec capability promises: a request that passes the decoder is bounded in every
  dimension, a template can only lower the provider's ceilings, the answer never exceeds them, a
  synchronous run ends within its budget, a definite answer of the coordinator is never retried,
  and a session identifier is bound to its caller.
\<close>

section \<open>Limits and output\<close>

lemma limitsForCapability_bounds:
  "limitsForCapability c = Inr l \<Longrightarrow>
     0 < lim_timeoutSeconds l \<and> lim_timeoutSeconds l \<le> 120 \<and> 0 < lim_outputBytes l \<and> lim_outputBytes l \<le> 262144"
  by (cases c) (auto simp: limitsForCapability_def exec_consts)

lemma limitsOrDefault_bounds:
  "0 < lim_timeoutSeconds (limitsOrDefault c) \<and> lim_timeoutSeconds (limitsOrDefault c) \<le> 120
   \<and> 0 < lim_outputBytes (limitsOrDefault c) \<and> lim_outputBytes (limitsOrDefault c) \<le> 262144"
  using limitsForCapability_bounds [of c]
  by (auto simp: limitsOrDefault_def exec_consts split: sum.splits)

text \<open>Bounding a result to a byte budget: what goes out fits the budget, is a prefix of what the
  command wrote, standard output first, nothing is dropped when it fits, and output that was cut
  is always marked truncated.\<close>

theorem boundExecResult_spec:
  fixes r :: execResult and n :: int
  shows "let out = xr_Stdout r @ xr_Stderr r; b = boundExecResult r n in
      xr_Stdout b @ xr_Stderr b = take (nat n) out
    \<and> length (xr_Stdout b) + length (xr_Stderr b) \<le> nat n
    \<and> prefix (xr_Stdout b) (xr_Stdout r) \<and> prefix (xr_Stderr b) (xr_Stderr r)
    \<and> xr_Truncated b = (xr_Truncated r \<or> nat n < length out)
    \<and> (length out \<le> nat n \<longrightarrow> b = r)
    \<and> xr_State b = xr_State r \<and> xr_SessionID b = xr_SessionID r \<and> xr_ExitCode b = xr_ExitCode r"
proof -
  have n: "nat (if n < 0 then 0 else n) = nat n" by simp
  show ?thesis
    by (auto simp: boundExecResult_def n Let_def take_is_prefix)
qed

theorem boundExecResult_spec_witness:
  "(let r = \<lparr>xr_SessionID = ''s'', xr_RequestID = [], xr_State = ''succeeded'', xr_ExitCode = Some 0, xr_Stdout = ''abc'',
       xr_Stderr = ''de'', xr_Truncated = False, xr_SourceRevision = 1, xr_SourceDigest = []\<rparr> in
    boundExecResult r 5 = r \<and> xr_Stderr (boundExecResult r 4) = ''d'' \<and> xr_Truncated (boundExecResult r 4))"
  using boundExecResult_spec [of "\<lparr>xr_SessionID = ''s'', xr_RequestID = [], xr_State = ''succeeded'', xr_ExitCode = Some 0,
    xr_Stdout = ''abc'', xr_Stderr = ''de'', xr_Truncated = False, xr_SourceRevision = 1, xr_SourceDigest = []\<rparr>" 5]
  by (simp add: boundExecResult_def Let_def)

section \<open>Requests\<close>

definition identOk :: "string \<Rightarrow> bool" where
  "identOk s \<longleftrightarrow> length s \<le> 128 \<and> CHR 0x00 \<notin> set s"

definition argOk :: "string \<Rightarrow> bool" where
  "argOk a \<longleftrightarrow> a \<noteq> [] \<and> length a \<le> 4096 \<and> CHR 0x00 \<notin> set a"

text \<open>The workdir a request may carry: none, or one that stays below the component directory.\<close>

definition workdirOk :: "string \<Rightarrow> bool" where
  "workdirOk w \<longleftrightarrow> length w \<le> 256 \<and>
     (w = [] \<or> trimSpace w = ''.'' \<or> \<not> hasPrefix (trimSpace w) ''/'' \<and> confinedPath (pathClean (trimSpace w)))"

definition launchOk :: "execLimits \<Rightarrow> execRequest \<Rightarrow> string \<Rightarrow> bool" where
  "launchOk l r key \<longleftrightarrow>
     key \<noteq> [] \<and> er_RequestID r = key \<and> er_SessionID r = [] \<and> er_Argv r \<noteq> [] \<and> length (er_Argv r) \<le> 64
     \<and> list_all argOk (er_Argv r) \<and> (er_SourceRevision r = 0 \<longleftrightarrow> er_SourceDigest r = [])
     \<and> 0 \<le> er_TimeoutSeconds r \<and> er_TimeoutSeconds r \<le> lim_timeoutSeconds l"

definition followUpOk :: "execRequest \<Rightarrow> bool" where
  "followUpOk r \<longleftrightarrow> er_SessionID r \<noteq> [] \<and> er_Argv r = [] \<and> er_Workdir r = [] \<and> er_TimeoutSeconds r = 0
     \<and> er_SourceRevision r = 0 \<and> er_SourceDigest r = []"

lemma normalizeExecPath_confined:
  assumes "normalizeExecPath v = Inr p"
  shows "confinedPath p" "p \<noteq> ''.''" "p = pathClean (trimSpace v)" "\<not> hasPrefix (trimSpace v) ''/''"
  using assms pathClean_confined [of "trimSpace v"]
  by (auto simp: normalizeExecPath_def Let_def split: if_splits)

lemma checkArgv_ok: "checkArgv a argv = Inr () \<longleftrightarrow> list_all argOk argv"
proof -
  let ?z = "zip [0..<length argv] argv"
  have z: "snd ` set ?z = set argv"
    by (metis diff_zero length_upt list.set_map map_snd_zip)
  have "checkArgv a argv = Inr () \<longleftrightarrow> (\<forall>x \<in> set ?z. argOk (snd x))"
    unfolding checkArgv_def firstErr_ok
    by (auto simp: argOk_def blen_def hasNul_def exec_consts split: if_splits)
  also have "\<dots> \<longleftrightarrow> (\<forall>x \<in> snd ` set ?z. argOk x)" by blast
  finally show ?thesis unfolding z by (simp add: list_all_iff)
qed

lemma normalizeExecWorkdir_ok:
  "w = [] \<or> normalizeExecWorkdir w = Inr p \<Longrightarrow> blen w \<le> execMaxWorkdirBytes \<Longrightarrow> workdirOk w"
  using normalizeExecPath_confined [of "trimSpace w" p]
  by (auto simp: normalizeExecWorkdir_def workdirOk_def Let_def blen_def exec_consts split: if_splits)

lemma hexEncode_identOk: "length raw = 16 \<Longrightarrow> identOk (hexEncode raw)"
proof -
  assume "length raw = 16"
  moreover have "\<not> isHexDigit (CHR 0x00)" by code_simp
  ultimately show ?thesis
    using hexEncode_digits [of raw] unfolding identOk_def list_all_iff by (auto simp: length_hexEncode)
qed

lemma hexEncode_Nil_iff: "hexEncode raw = [] \<longleftrightarrow> raw = []"
  by (cases raw) (simp_all add: hexEncode_def)

lemma decodeLaunch_ok:
  assumes "decodeLaunch l req key0 rnd = Inr (r, key)"
    and "identOk key0" "identOk (er_RequestID req)" "\<And>raw. rnd = Inr raw \<Longrightarrow> length raw = 16"
  shows "launchOk l r key \<and> identOk key \<and> r = req\<lparr>er_RequestID := key\<rparr>"
proof -
  from assms(1) have k: "launchKey req key0 rnd = Inr key"
    and r: "r = req\<lparr>er_RequestID := key\<rparr>" and l: "launchOk l r key"
    by (auto simp: decodeLaunch_def andThen_Inr require_Inr Let_def checkArgv_ok launchOk_def execMaxArgv_def)
  from k assms(2-4) have "identOk key"
    by (auto simp: launchKey_def newExecIdempotencyKey_def hexEncode_identOk split: if_splits sum.splits)
  with r l show ?thesis by simp
qed

lemma decodeFollowUp_ok:
  "decodeFollowUp req key0 = Inr (r, key) \<Longrightarrow> followUpOk r \<and> r = req"
  by (auto simp: decodeFollowUp_def require_Inr followUpOk_def)

text \<open>What the checks before the action-specific part establish.\<close>

lemma decodeExecRequest_parts:
  assumes "decodeExecRequest cap body header rnd = Inr x"
  obtains l req where "limitsForCapability cap = Inr l" "body = BodyRequest req AtEOF"
    "er_Action req \<in> {ExecActionStart, ExecActionRun, ExecActionPoll, ExecActionCancel}"
    "identOk (er_SessionID req)" "identOk (er_RequestID req)" "workdirOk (er_Workdir req)"
    "identOk (er_SourceDigest req)" "identOk (trimSpace header)"
    "(if execLaunch (er_Action req) then decodeLaunch l req (trimSpace header) rnd
      else decodeFollowUp req (trimSpace header)) = Inr x"
proof -
  from assms obtain l where l: "limitsForCapability cap = Inr l"
    unfolding decodeExecRequest_def andThen_Inr by blast
  obtain req where b: "body = BodyRequest req AtEOF"
    using assms by (cases body) (auto simp: decodeExecRequest_def l split: trailing.splits)
  note d = assms [unfolded decodeExecRequest_def l b andThen_simps execBody.case trailing.case require_Inr Let_def andThen_Inr]
  from d obtain p where w: "(if er_Workdir req = [] then Inr []
      else mapErr (Wrapf ''workdir: %w'' []) (normalizeExecWorkdir (er_Workdir req))) = Inr p" by blast
  have "workdirOk (er_Workdir req)"
    using d w by (intro normalizeExecWorkdir_ok) (auto simp: mapErr_Inr split: if_splits)
  with that [OF l b] d show thesis
    by (simp add: identOk_def blen_def hasNul_def exec_consts)
qed

text \<open>Every request that passes the exec decoder is bounded: one JSON object with a known action;
  identifiers, digest and idempotency key at most 128 bytes without NUL; a workdir of at most 256
  bytes that cannot leave the component directory; and for a launch 1 to 64 non-empty arguments of
  at most 4096 bytes, a timeout within the capability (itself at most 120 seconds), source revision
  and digest given together or not at all, and a request identifier equal to the idempotency key. A
  poll or cancel carries nothing but its session.\<close>

theorem decodeExecRequest_bounded:
  assumes "decodeExecRequest cap body header rnd = Inr (r, key)"
    and "\<And>raw. rnd = Inr raw \<Longrightarrow> length raw = 16"
  shows "\<exists>l. limitsForCapability cap = Inr l \<and> lim_timeoutSeconds l \<le> 120
    \<and> er_Action r \<in> {''start'', ''run'', ''poll'', ''cancel''}
    \<and> identOk (er_SessionID r) \<and> identOk (er_RequestID r) \<and> identOk (er_SourceDigest r) \<and> identOk key
    \<and> workdirOk (er_Workdir r)
    \<and> (if er_Action r \<in> {''start'', ''run''} then launchOk l r key else followUpOk r)"
proof -
  from decodeExecRequest_parts [OF assms(1)] obtain l req where
    l: "limitsForCapability cap = Inr l"
    and act: "er_Action req \<in> {ExecActionStart, ExecActionRun, ExecActionPoll, ExecActionCancel}"
    and ids: "identOk (er_SessionID req)" "identOk (er_RequestID req)" "workdirOk (er_Workdir req)"
      "identOk (er_SourceDigest req)" "identOk (trimSpace header)"
    and k: "(if execLaunch (er_Action req) then decodeLaunch l req (trimSpace header) rnd
      else decodeFollowUp req (trimSpace header)) = Inr (r, key)" .
  note lb = limitsForCapability_bounds [OF l]
  show ?thesis
  proof (cases "execLaunch (er_Action req)")
    case True
    with k have "decodeLaunch l req (trimSpace header) rnd = Inr (r, key)" by simp
    from decodeLaunch_ok [OF this ids(5) ids(2) assms(2)] act ids l lb True show ?thesis
      by (auto simp: execLaunch_def exec_actions)
  next
    case False
    with k have f: "decodeFollowUp req (trimSpace header) = Inr (r, key)" by simp
    then have "key = trimSpace header \<or> key = er_RequestID req"
      by (auto simp: decodeFollowUp_def require_Inr split: if_splits)
    with decodeFollowUp_ok [OF f] act ids l lb False show ?thesis
      by (auto simp: execLaunch_def exec_actions)
  qed
qed

definition sample_exec :: execRequest where
  "sample_exec = \<lparr>er_Action = ''run'', er_SessionID = [], er_RequestID = [], er_SourceRevision = 0,
     er_Argv = [''npm'', ''test''], er_Workdir = ''pkg/web'', er_TimeoutSeconds = 60, er_SourceDigest = []\<rparr>"

theorem decodeExecRequest_bounded_witness:
  "\<exists>r key. decodeExecRequest (Some \<lparr>ex_MaxTimeoutSeconds = 90, ex_MaxOutputBytes = 0\<rparr>) (BodyRequest sample_exec AtEOF) [] (Inr (replicate 16 7))
      = Inr (r, key) \<and> launchOk \<lparr>lim_timeoutSeconds = 90, lim_outputBytes = 262144\<rparr> r key \<and> workdirOk (er_Workdir r)"
proof -
  let ?cap = "Some \<lparr>ex_MaxTimeoutSeconds = 90, ex_MaxOutputBytes = 0\<rparr>" and ?k = "hexEncode (replicate 16 7)"
  have d: "decodeExecRequest ?cap (BodyRequest sample_exec AtEOF) [] (Inr (replicate 16 7)) = Inr (sample_exec\<lparr>er_RequestID := ?k\<rparr>, ?k)"
    by code_simp
  have l: "limitsForCapability ?cap = Inr \<lparr>lim_timeoutSeconds = 90, lim_outputBytes = 262144\<rparr>" by code_simp
  have a: "er_Action (sample_exec\<lparr>er_RequestID := ?k\<rparr>) = ''run''" by (simp add: sample_exec_def)
  from decodeExecRequest_bounded [OF d] l a d show ?thesis by auto
qed

section \<open>Synchronous runs end\<close>

text \<open>The delay of each iteration, and a clock that lets every timer run out.\<close>

fun delayAt :: "nat \<Rightarrow> int" where
  "delayAt 0 = execRunPollInitial"
| "delayAt (Suc i) = min (2 * delayAt i) execRunPollMax"

definition timersRespected :: "runEnv \<Rightarrow> int \<Rightarrow> bool" where
  "timersRespected R deadline \<longleftrightarrow>
     re_begin R \<le> re_now R 0 \<and> (\<forall>i. re_now R i + min (delayAt i) (deadline - re_now R i) \<le> re_now R (Suc i))"

lemma delayAt_ge: "execRunPollInitial \<le> delayAt i"
  by (induction i) (auto simp: execRunPollInitial_def execRunPollMax_def)

lemma runPolls_total:
  assumes t: "timersRespected R deadline"
  shows "deadline - re_now R i \<le> int n * execRunPollInitial \<Longrightarrow>
    \<exists>x. runPolls (Suc n) R pc sid deadline i (delayAt i) res = Some x"
proof (induction n arbitrary: i res)
  case 0
  then show ?case by simp
next
  case (Suc n)
  show ?case
  proof (cases "deadline - re_now R i \<le> 0")
    case True
    then show ?thesis by simp
  next
    case False
    have "re_now R i + min (delayAt i) (deadline - re_now R i) \<le> re_now R (Suc i)"
      using t by (simp add: timersRespected_def)
    moreover have "0 \<le> int n * execRunPollInitial" by (simp add: execRunPollInitial_def)
    ultimately have "deadline - re_now R (Suc i) \<le> int n * execRunPollInitial"
      using Suc.prems delayAt_ge [of i] by (auto simp: min_def algebra_simps split: if_splits)
    from Suc.IH [OF this] have ih: "\<exists>b a. runPolls (Suc n) R pc sid deadline (Suc i) (min (2 * delayAt i) execRunPollMax) r = Some (a, b)" for r
      unfolding delayAt.simps by (metis surj_pair)
    show ?thesis
      unfolding runPolls.simps(2) [of "Suc n"]
      using ih by (auto simp: Let_def simp del: runPolls.simps split: prod.splits sum.splits)
  qed
qed

lemma runPolls_result:
  "runPolls n R pc sid deadline i delay res = Some (evs, Inr r) \<Longrightarrow> sid \<noteq> [] \<Longrightarrow> xr_SessionID res \<noteq> [] \<Longrightarrow>
     xr_SessionID r \<noteq> [] \<and> (execTerminalState (xr_State r) \<or> (\<exists>j. deadline \<le> re_now R j))"
proof (induction n arbitrary: i delay res evs)
  case (Suc n)
  show ?case
  proof (cases "deadline - re_now R i \<le> 0")
    case True
    with Suc.prems show ?thesis by auto
  next
    case False
    with Suc.prems obtain ev p where d: "\<not> re_done R i" and p: "re_poll R i pc = (ev, Inr p)"
      by (auto split: if_splits prod.splits sum.splits)
    let ?p = "if xr_SessionID p = [] then p\<lparr>xr_SessionID := sid\<rparr> else p"
    have ne: "xr_SessionID ?p \<noteq> []" using Suc.prems(2) by simp
    show ?thesis
    proof (cases "execTerminalState (xr_State ?p)")
      case True
      with Suc.prems False d p ne show ?thesis by (auto simp: Let_def)
    next
      case nt: False
      with Suc.prems(1) False d p obtain evs' where
        "runPolls n R pc sid deadline (Suc i) (min (2 * delay) execRunPollMax) ?p = Some (evs', Inr r)"
        by (auto simp: Let_def)
      from Suc.IH [OF this Suc.prems(2) ne] show ?thesis .
    qed
  qed
qed simp

text \<open>A synchronous run always returns, after at most 361 rounds of its loop: with a clock that lets
  each timer run out, the 90-second ceiling and the 250-millisecond first delay bound the number of
  polls whatever the coordinator answers. A result that comes back is final, or carries no session,
  or is handed back with its session identifier only after the deadline passed.\<close>

theorem runExec_returns:
  assumes "timersRespected R (re_begin R + execRunWaitBudget (execTimeoutSeconds call))" and "361 \<le> n"
  shows "\<exists>evs r. runExec n R call = Some (evs, r) \<and>
    (case r of
       Inl e \<Rightarrow> True
     | Inr res \<Rightarrow> execTerminalState (xr_State res) \<or> xr_SessionID res = []
         \<or> (\<exists>j. re_begin R + execRunWaitBudget (execTimeoutSeconds call) \<le> re_now R j))"
proof -
  let ?d = "re_begin R + execRunWaitBudget (execTimeoutSeconds call)"
  obtain evs0 r0 where st: "re_start R (startCallOf call) = (evs0, r0)" by force
  show ?thesis
  proof (cases r0)
    case (Inl e)
    then show ?thesis by (simp add: runExec_def st)
  next
    case (Inr res)
    show ?thesis
    proof (cases "execTerminalState (xr_State res) \<or> xr_SessionID res = []")
      case True
      then show ?thesis by (auto simp: runExec_def st Inr)
    next
      case False
      from assms(2) obtain m where m: "n = Suc m" "360 \<le> m" by (cases n) auto
      have "?d - re_now R 0 \<le> execRunMaxWait"
        using assms(1) by (simp add: timersRespected_def execRunWaitBudget_def min_def split: if_splits)
      also have "\<dots> \<le> int m * execRunPollInitial"
        using m(2) by (simp add: execRunMaxWait_def execRunPollInitial_def)
      finally obtain evs1 r1 where
        p: "runPolls n R (pollCallOf call (xr_SessionID res)) (xr_SessionID res) ?d 0 execRunPollInitial res = Some (evs1, r1)"
        using runPolls_total [OF assms(1), of 0 m "pollCallOf call (xr_SessionID res)" "xr_SessionID res" res]
        unfolding m(1) delayAt.simps by (metis surj_pair)
      have run: "runExec n R call = Some (evs0 @ evs1, r1)" using False p by (simp add: runExec_def st Inr)
      show ?thesis
      proof (cases r1)
        case (Inr r)
        with runPolls_result [OF p [unfolded Inr]] False run show ?thesis by auto
      qed (simp add: run)
    qed
  qed
qed

definition sample_call :: execCall where
  "sample_call = \<lparr>ec_Workspace = ''ws'', ec_Resource = ''instances'', ec_Name = ''n'', ec_Component = ''app'', ec_Instance = JNull,
     ec_Capability = Some \<lparr>ex_MaxTimeoutSeconds = 0, ex_MaxOutputBytes = 0\<rparr>, ec_WorkingDir = ''/workspace'', ec_WorkspacePath = ''.'',
     ec_CallerKey = ''k'', ec_RuntimeNamespace = ''ws-default'', ec_ControlTarget = zeroTarget, ec_Request = sample_exec, ec_IdempotencyKey = ''key''\<rparr>"

definition sample_result :: "string \<Rightarrow> execResult" where
  "sample_result st = \<lparr>xr_SessionID = ''s'', xr_RequestID = [], xr_State = st, xr_ExitCode = None, xr_Stdout = [],
     xr_Stderr = [], xr_Truncated = False, xr_SourceRevision = 0, xr_SourceDigest = []\<rparr>"

text \<open>A coordinator that never finishes the command, on a clock of one second per round.\<close>

definition sample_run :: runEnv where
  "sample_run = \<lparr>re_start = (\<lambda>_. ([], Inr (sample_result ''queued''))), re_poll = (\<lambda>_ _. ([], Inr (sample_result ''running''))),
     re_begin = 0, re_now = (\<lambda>i. int i * 1000000000), re_done = (\<lambda>_. False)\<rparr>"

lemma delayAt_le: "delayAt i \<le> 1000000000"
  by (cases i) (simp_all add: execRunPollInitial_def execRunPollMax_def)

theorem runExec_returns_witness: "\<exists>evs r. runExec 400 sample_run sample_call = Some (evs, r)"
proof -
  have "int i * 1000000000 + min (delayAt i) (d - int i * 1000000000) \<le> int (Suc i) * 1000000000" for i d
    using delayAt_le [of i] min.cobounded1 [of "delayAt i" "d - int i * 1000000000"] by simp
  then have "timersRespected sample_run d" for d
    by (simp only: timersRespected_def sample_run_def runEnv.simps) simp
  then show ?thesis using runExec_returns [of sample_run sample_call 400] by fastforce
qed

section \<open>The coordinator is retried only when it gave no answer\<close>

text \<open>An attempt that may be repeated: no connection, no complete answer, a gateway status, or a
  success whose body does not decode.\<close>

definition transientAttempt :: "attempt \<Rightarrow> bool" where
  "transientAttempt a =
     (case a of
        BadURL e \<Rightarrow> False | ConnFailed e \<Rightarrow> True | ReadFailed e \<Rightarrow> True
      | Answer status body decoded \<Rightarrow>
          status \<in> {502, 503, 504} \<or> 200 \<le> status \<and> status < 300 \<and> \<not> isOk decoded)"

definition finalOutcome :: "string \<Rightarrow> attempt \<Rightarrow> callError + execResult" where
  "finalOutcome sid a =
     (case a of
        Answer status body (Inr result) \<Rightarrow>
          if status < 200 \<or> 300 \<le> status then Inl (execCoordinatorStatusError status sid (trimSpace body)) else Inr result
      | Answer status body (Inl e) \<Rightarrow> Inl (execCoordinatorStatusError status sid (trimSpace body))
      | BadURL e \<Rightarrow> Inl (PlainErr e)
      | _ \<Rightarrow> Inl canceledErr)"

definition isBadURL :: "attempt \<Rightarrow> bool" where
  "isBadURL a = (case a of BadURL e \<Rightarrow> True | _ \<Rightarrow> False)"

lemma execAttempts_step:
  assumes "0 < i \<longrightarrow> \<not> xt_ctxDone X i" "\<not> isBadURL (xt_attempt X i)"
  shows "if transientAttempt (xt_attempt X i)
    then \<exists>e'. execAttempts X t tok inp (Suc k) i e =
       (let (evs, r) = execAttempts X t tok inp k (Suc i) e' in (EvCoordinator (serviceProxyPath t []) tok inp # evs, r))
    else execAttempts X t tok inp (Suc k) i e =
       ([EvCoordinator (serviceProxyPath t []) tok inp], finalOutcome (cr_SessionID inp) (xt_attempt X i))"
proof (cases "xt_attempt X i")
  case (Answer status body d)
  with assms show ?thesis
    by (cases d) (auto simp: transientAttempt_def finalOutcome_def Let_def)
qed (use assms in \<open>auto simp: transientAttempt_def isBadURL_def Let_def\<close>)

lemma execAttempts_retries:
  assumes "\<forall>j. i \<le> j \<and> j < i + k \<longrightarrow> (0 < j \<longrightarrow> \<not> xt_ctxDone X j) \<and> \<not> isBadURL (xt_attempt X j)"
  shows "let lead = length (takeWhile transientAttempt (map (xt_attempt X) [i..<i + k])) in
    fst (execAttempts X t tok inp k i e) = replicate (min k (Suc lead)) (EvCoordinator (serviceProxyPath t []) tok inp)
    \<and> (lead < k \<longrightarrow> snd (execAttempts X t tok inp k i e) = finalOutcome (cr_SessionID inp) (xt_attempt X (i + lead)))
    \<and> (lead = k \<longrightarrow> (\<exists>g. snd (execAttempts X t tok inp k i e) = Inl (PlainErr g)))"
  using assms
proof (induction k arbitrary: i e)
  case (Suc k)
  have up: "[i..<i + Suc k] = i # [Suc i..<Suc i + k]" by (simp add: upt_rec)
  from Suc.prems have here: "0 < i \<longrightarrow> \<not> xt_ctxDone X i" "\<not> isBadURL (xt_attempt X i)"
    and later: "\<forall>j. Suc i \<le> j \<and> j < Suc i + k \<longrightarrow> (0 < j \<longrightarrow> \<not> xt_ctxDone X j) \<and> \<not> isBadURL (xt_attempt X j)" by auto
  note step = execAttempts_step [OF here, of t tok inp k e]
  show ?case
  proof (cases "transientAttempt (xt_attempt X i)")
    case True
    with step obtain e' where "execAttempts X t tok inp (Suc k) i e =
       (let (evs, r) = execAttempts X t tok inp k (Suc i) e' in (EvCoordinator (serviceProxyPath t []) tok inp # evs, r))"
      by auto
    with Suc.IH [OF later, of e'] True show ?thesis
      unfolding up by (simp add: Let_def split: prod.splits del: execAttempts.simps upt_Suc)
  next
    case False
    with step have "execAttempts X t tok inp (Suc k) i e =
       ([EvCoordinator (serviceProxyPath t []) tok inp], finalOutcome (cr_SessionID inp) (xt_attempt X i))" by simp
    with False show ?thesis unfolding up by (simp add: Let_def del: execAttempts.simps upt_Suc)
  qed
qed simp

text \<open>Talking to the coordinator: the control token is read once and every request goes to the fixed
  service-proxy path with that token and the same payload. The request is repeated exactly while
  attempts are transient (no answer, a gateway status, an undecodable success), three times at the
  most; the first definite answer ends the exchange and is the result, errors mapped to 403, 404 and
  409 where the coordinator said so.\<close>

theorem execute_retries:
  assumes "xt_transport X = Inr ()" "xt_host X = Inr ()" "xt_controlToken X = Inr tok"
    and "\<forall>j < 3. \<not> xt_ctxDone X j \<and> \<not> isBadURL (xt_attempt X j)"
  shows "let lead = length (takeWhile transientAttempt (map (xt_attempt X) [0, 1, 2])) in
    fst (execute X t inp) = EvControlToken (rt_TokenSecretNamespace t) (rt_TokenSecretName t)
      # replicate (min 3 (Suc lead)) (EvCoordinator (serviceProxyPath t []) tok inp)
    \<and> (lead < 3 \<longrightarrow> snd (execute X t inp) = finalOutcome (cr_SessionID inp) (xt_attempt X lead))
    \<and> (lead = 3 \<longrightarrow> (\<exists>g. snd (execute X t inp) = Inl (PlainErr g)))"
proof -
  have up: "[0..<0 + 3] = [0, 1, 2::nat]" by code_simp
  have "\<forall>j. 0 \<le> j \<and> j < 0 + 3 \<longrightarrow> (0 < j \<longrightarrow> \<not> xt_ctxDone X j) \<and> \<not> isBadURL (xt_attempt X j)"
    using assms(4) by auto
  note ret = execAttempts_retries [OF this, unfolded up, of t tok inp "Errorf [] []"]
  have ex: "execute X t inp = (EvControlToken (rt_TokenSecretNamespace t) (rt_TokenSecretName t)
      # fst (execAttempts X t tok inp 3 0 (Errorf [] [])), snd (execAttempts X t tok inp 3 0 (Errorf [] [])))"
    using assms(1-3)
    by (simp add: execute_def persistentExecRetryAttempts_def Let_def split_beta del: execAttempts.simps)
  from ret show ?thesis unfolding ex Let_def fst_conv snd_conv list.inject add_0 by blast
qed

definition sample_runtime :: execRuntime where
  "sample_runtime = \<lparr>xt_transport = Inr (), xt_host = Inr (), xt_controlToken = Inr ''t0'',
     xt_attempt = (\<lambda>i. if i = 0 then ConnFailed (Errorf ''refused'' []) else Answer 409 ''busy'' (Inl (Errorf [] []))),
     xt_ctxDone = (\<lambda>_. False)\<rparr>"

theorem execute_retries_witness:
  "\<forall>inp. snd (execute sample_runtime zeroTarget inp) = Inl (KubeErr Conflict 409 ''exec coordinator: busy'')
   \<and> length (fst (execute sample_runtime zeroTarget inp)) = 3"
proof
  fix inp :: execCoordinatorRequest
  have l: "takeWhile transientAttempt (map (xt_attempt sample_runtime) [0, 1, 2]) = [ConnFailed (Errorf ''refused'' [])]"
    by code_simp
  have f: "finalOutcome (cr_SessionID inp) (xt_attempt sample_runtime 1) = Inl (KubeErr Conflict 409 ''exec coordinator: busy'')"
    by (simp add: sample_runtime_def finalOutcome_def execCoordinatorStatusError_def truncMessage_def) code_simp
  from execute_retries [of sample_runtime "''t0''" zeroTarget inp] l f
  show "snd (execute sample_runtime zeroTarget inp) = Inl (KubeErr Conflict 409 ''exec coordinator: busy'')
    \<and> length (fst (execute sample_runtime zeroTarget inp)) = 3"
    by (simp add: sample_runtime_def isBadURL_def)
qed

section \<open>Sessions are bound to their caller\<close>

lemma joinWith_inj:
  assumes "length xs = length ys" "\<forall>x \<in> set xs \<union> set ys. d \<notin> set x" "xs \<noteq> []"
  shows "joinWith [d] xs = joinWith [d] ys \<longleftrightarrow> xs = ys"
proof
  assume "joinWith [d] xs = joinWith [d] ys"
  then have "splitAll d (joinWith [d] xs) = splitAll d (joinWith [d] ys)" by simp
  moreover have "ys \<noteq> []" using assms(1,3) by auto
  ultimately show "xs = ys" using assms(2,3) splitAll_joinWith [of xs d] splitAll_joinWith [of ys d] by simp
qed simp

text \<open>The session identifier of a start is the hash of an input that determines the caller: for
  NUL-free fields two starts hash the same input exactly when caller key, workspace, resource,
  instance, component and idempotency key all agree, so no caller can name another's session by
  moving bytes between fields; the identifier itself is 32 hexadecimal digits.\<close>

theorem execSession_binds_caller:
  assumes "\<forall>c \<in> {c1, c2}. \<forall>f \<in> {ec_CallerKey, ec_Workspace, ec_Resource, ec_Name, ec_Component, ec_IdempotencyKey}. \<not> hasNul (f c)"
  shows "(execSessionInput c1 = execSessionInput c2 \<longleftrightarrow>
      ec_CallerKey c1 = ec_CallerKey c2 \<and> ec_Workspace c1 = ec_Workspace c2 \<and> ec_Resource c1 = ec_Resource c2
      \<and> ec_Name c1 = ec_Name c2 \<and> ec_Component c1 = ec_Component c2 \<and> ec_IdempotencyKey c1 = ec_IdempotencyKey c2)
    \<and> length (execSessionID c1) = 32 \<and> list_all isHexDigit (execSessionID c1)"
proof
  show "execSessionInput c1 = execSessionInput c2 \<longleftrightarrow>
      ec_CallerKey c1 = ec_CallerKey c2 \<and> ec_Workspace c1 = ec_Workspace c2 \<and> ec_Resource c1 = ec_Resource c2
      \<and> ec_Name c1 = ec_Name c2 \<and> ec_Component c1 = ec_Component c2 \<and> ec_IdempotencyKey c1 = ec_IdempotencyKey c2"
    unfolding execSessionInput_def by (subst joinWith_inj) (use assms in \<open>auto simp: hasNul_def\<close>)
  show "length (execSessionID c1) = 32 \<and> list_all isHexDigit (execSessionID c1)"
    by (simp add: execSessionID_def length_hexEncode length_sum256 hexEncode_digits)
qed

theorem execSession_binds_caller_witness:
  "execSessionInput (sample_call\<lparr>ec_CallerKey := ''a'', ec_Workspace := ''bc''\<rparr>)
     \<noteq> execSessionInput (sample_call\<lparr>ec_CallerKey := ''ab'', ec_Workspace := ''c''\<rparr>)"
  using execSession_binds_caller [of "sample_call\<lparr>ec_CallerKey := ''a'', ec_Workspace := ''bc''\<rparr>"
      "sample_call\<lparr>ec_CallerKey := ''ab'', ec_Workspace := ''c''\<rparr>"]
  by (simp add: sample_call_def hasNul_def)

end
