(* ===== verification/Handler_Contract.thy ===== *)
theory Handler_Contract
  imports Data_Plane_Handler Exec_Contract
begin

text \<open>
  What a data-plane request may do: nothing before the caller's own read of the instance
  succeeded, nothing outside the runtime namespace the provider derived, no command before the
  caller's access review, and never the caller's credential towards the runtime cluster.
\<close>

section \<open>Events\<close>

definition serviceBase :: "string \<Rightarrow> string" where
  "serviceBase ns = ''/api/v1/namespaces/'' @ ns @ ''/services/''"

definition eventConfined :: "string \<Rightarrow> event \<Rightarrow> bool" where
  "eventConfined ns ev =
     (case ev of
        EvControlToken n _ \<Rightarrow> n = ns
      | EvStatusGet p _ \<Rightarrow> hasPrefix p (serviceBase ns)
      | EvCoordinator p _ _ \<Rightarrow> hasPrefix p (serviceBase ns)
      | EvProxy p _ \<Rightarrow> hasPrefix p (serviceBase ns)
      | _ \<Rightarrow> True)"

definition runtimeEvent :: "event \<Rightarrow> bool" where
  "runtimeEvent ev =
     (case ev of
        EvControlToken _ _ \<Rightarrow> True | EvStatusGet _ _ \<Rightarrow> True | EvCoordinator _ _ _ \<Rightarrow> True
      | EvProxy _ _ \<Rightarrow> True | EvRecordActivity _ \<Rightarrow> True | _ \<Rightarrow> False)"

abbreviation confinedTrace :: "string \<Rightarrow> 'a traced \<Rightarrow> bool" where
  "confinedTrace ns x \<equiv> list_all (eventConfined ns) (fst x)"

lemma emit_simps [simp]: "fst (emit e x) = e # fst x" "snd (emit e x) = snd x"
  by (simp_all add: emit_def)

lemma emits_simps [simp]: "fst (emits es x) = es @ fst x" "snd (emits es x) = snd x"
  by (simp_all add: emits_def)

lemma fail_simps [simp]: "fst (fail c) = []" "snd (fail c) = HttpError c"
  by (simp_all add: fail_def)

lemma serviceProxyPath_base:
  "rt_ServiceNamespace t = ns \<Longrightarrow> hasPrefix (serviceProxyPath t p) (serviceBase ns)"
  by (auto simp: serviceProxyPath_def serviceBase_def Let_def hasPrefix_def)

lemma execAttempts_confined:
  "rt_ServiceNamespace t = ns \<Longrightarrow> confinedTrace ns (execAttempts X t tok inp k i e)"
  by (induction k arbitrary: i e)
     (auto simp: Let_def eventConfined_def serviceProxyPath_base split_beta split: attempt.splits sum.splits)

lemma execute_confined:
  "rt_ServiceNamespace t = ns \<Longrightarrow> rt_TokenSecretNamespace t = ns \<Longrightarrow> confinedTrace ns (execute X t inp)"
  using execAttempts_confined [of t ns X]
  by (auto simp: execute_def Let_def split_beta eventConfined_def split: sum.splits)

text \<open>The executor refuses a target without a control token, so its exchanges stay in the
  namespace of a confined target.\<close>

lemma executor_confined:
  assumes "targetConfined ns (ec_ControlTarget call)" "\<not> rt_FromStatus (ec_ControlTarget call)"
  shows "confinedTrace ns (executorStart X call)" "confinedTrace ns (executorLifecycle X call a)"
proof -
  let ?t = "ec_ControlTarget call"
  have t: "rt_ServiceNamespace ?t = ns \<and> rt_TokenSecretNamespace ?t = ns"
    if "validatePersistentExecTarget call = Inr ()"
    using that assms by (auto simp: validatePersistentExecTarget_def targetConfined_def Let_def split: if_splits)
  show "confinedTrace ns (executorLifecycle X call a)"
    using t execute_confined by (auto simp: executorLifecycle_def split: sum.splits)
  show "confinedTrace ns (executorStart X call)"
  proof (cases "validatePersistentExecCall call")
    case (Inr u)
    then have "validatePersistentExecTarget call = Inr ()" by (simp add: validatePersistentExecCall_def andThen_Inr)
    with t execute_confined show ?thesis by (simp add: executorStart_def Inr)
  qed (simp add: executorStart_def)
qed

lemma runPolls_confined:
  assumes "\<And>i. confinedTrace ns (re_poll R i pc)"
  shows "runPolls n R pc sid d i delay res = Some x \<Longrightarrow> confinedTrace ns x"
proof (induction n arbitrary: i delay res x)
  case (Suc n)
  from assms [of i] Suc show ?case
    by (auto simp: Let_def split: if_splits prod.splits sum.splits)
qed simp

lemma runExec_confined:
  assumes st: "confinedTrace ns (re_start R (startCallOf call))"
    and po: "\<And>i sid. confinedTrace ns (re_poll R i (pollCallOf call sid))"
    and run: "runExec n R call = Some x"
  shows "confinedTrace ns x"
proof -
  obtain evs r where s: "re_start R (startCallOf call) = (evs, r)" by force
  show ?thesis
  proof (cases "\<exists>res. r = Inr res \<and> \<not> (execTerminalState (xr_State res) \<or> xr_SessionID res = [])")
    case False
    with run st show ?thesis by (auto simp: runExec_def s split: sum.splits if_splits)
  next
    case True
    then obtain res where r: "r = Inr res" "\<not> (execTerminalState (xr_State res) \<or> xr_SessionID res = [])" by blast
    with run obtain evs' r' where x: "x = (evs @ evs', r')"
      and p: "runPolls n R (pollCallOf call (xr_SessionID res)) (xr_SessionID res)
         (re_begin R + execRunWaitBudget (execTimeoutSeconds call)) 0 execRunPollInitial res = Some (evs', r')"
      by (auto simp: runExec_def s)
    from runPolls_confined [OF po p] st show ?thesis by (simp add: x s)
  qed
qed

lemma dispatchExec_confined:
  assumes "targetConfined ns (ec_ControlTarget call)" "\<not> rt_FromStatus (ec_ControlTarget call)"
    and "dispatchExec E call = Some x"
  shows "confinedTrace ns x"
proof (cases "er_Action (ec_Request call) = ExecActionRun")
  case False
  with assms executor_confined [OF assms(1,2)] show ?thesis
    by (auto simp: dispatchExec_def Let_def split: if_splits)
next
  case True
  let ?R = "runEnvOf E (ec_ControlTarget call)"
  have st: "confinedTrace ns (re_start ?R (startCallOf call))"
    using executor_confined(1) [of ns "startCallOf call"] assms(1,2) by (simp add: runEnvOf_def startCallOf_def)
  have po: "confinedTrace ns (re_poll ?R i (pollCallOf call sid))" for i sid
    using executor_confined(2) [of ns "pollCallOf call sid"] assms(1,2) by (simp add: runEnvOf_def pollCallOf_def)
  have "runExec runFuel ?R call = Some x"
    using assms(3) True by (simp add: dispatchExec_def exec_actions)
  then show ?thesis by (rule runExec_confined [OF st po])
qed

lemma statusRequest_confined:
  "rt_ServiceNamespace t = ns \<Longrightarrow> confinedTrace ns (statusRequest E t tok)"
  by (auto simp: statusRequest_def Let_def eventConfined_def serviceProxyPath_base split: statusAttempt.splits)

lemma fetchComponentSource_confined:
  assumes "targetConfined ns t" "\<not> rt_FromStatus t"
  shows "confinedTrace ns (fetchComponentSource E t)"
  using assms statusRequest_confined [of t ns E]
  by (auto simp: fetchComponentSource_def targetConfined_def eventConfined_def split: sum.splits)

lemma serveProxy_confined:
  assumes "targetConfined ns t" "\<not> rt_FromStatus t"
  shows "confinedTrace ns (serveProxy E r t p)"
  using assms
  by (auto simp: serveProxy_def Let_def targetConfined_def eventConfined_def serviceProxyPath_base split: sum.splits)

lemma recordActivity_confined: "confinedTrace ns (recordActivity E i)"
  by (auto simp: recordActivity_def eventConfined_def split: option.splits)

lemma finishExec_confined:
  assumes "targetConfined ns (ec_ControlTarget call)" "\<not> rt_FromStatus (ec_ControlTarget call)"
  shows "confinedTrace ns (finishExec E call)"
  using dispatchExec_confined [OF assms, of E]
  by (auto simp: finishExec_def Let_def split: option.splits prod.splits sum.splits)

lemma launchExec_confined:
  assumes "targetConfined ns (ec_ControlTarget call)" "\<not> rt_FromStatus (ec_ControlTarget call)"
    and v: "validateRuntimeNamespace U (Some contract) (Some inst) expected = Inr ()" and ns: "ns = trimSpace expected"
  shows "confinedTrace ns (launchExec E U contract inst call)"
proof -
  obtain evA act where a: "recordActivity E inst = (evA, act)" by force
  have ca: "list_all (eventConfined ns) evA" using recordActivity_confined [of ns E inst] a by simp
  have st: "confinedTrace ns (fetchComponentSource E t)"
    if "resolveComponentStatusTarget U (Some contract) (Some inst) c = Inr t" for t c
  proof -
    from that obtain t' where t': "resolveComponentSyncTarget U (Some contract) (Some inst) c = Inr t'"
      "t = t'\<lparr>rt_UpstreamPath := ''/status''\<rparr>" by (auto simp: resolveComponentStatusTarget_def andThen_Inr)
    from syncTarget_confined [OF t'(1) v] t'(2) ns show ?thesis
      by (intro fetchComponentSource_confined) (auto simp: targetConfined_def hasPrefix_def)
  qed
  have fin: "confinedTrace ns (finishExec E (call\<lparr>ec_Request := q\<rparr>))" for q
    using finishExec_confined [of ns "call\<lparr>ec_Request := q\<rparr>"] assms(1,2) by simp
  show ?thesis
    unfolding launchExec_def a
    using ca st fin finishExec_confined [OF assms(1,2)]
    by (auto simp: Let_def split_beta split: sum.splits prod.splits sourceError.splits)
qed

section \<open>Exec is gated\<close>

definition quietError :: "response traced \<Rightarrow> bool" where
  "quietError x \<longleftrightarrow> (\<forall>ev \<in> set (fst x). \<not> runtimeEvent ev) \<and> (\<exists>code. snd x = HttpError code)"

lemma quietError_simps [simp]:
  "quietError (fail c)" "quietError (emit e x) \<longleftrightarrow> \<not> runtimeEvent e \<and> quietError x"
  "quietError ([], HttpError c)"
  by (auto simp: quietError_def)

text \<open>Everything that held when an exec request got as far as its launch.\<close>

definition execAdmitted ::
    "handlerEnv \<Rightarrow> unstr \<Rightarrow> httpReq \<Rightarrow> identity \<Rightarrow> dpRequest \<Rightarrow> string \<Rightarrow> dataPlane \<Rightarrow> json \<Rightarrow> execAuthorization \<Rightarrow> execCall \<Rightarrow> bool" where
  "execAdmitted E U r ident req tn contract inst auth call \<longleftrightarrow>
     authorizeExec E auth = Inr () \<and> ea_CallerToken auth = id_token ident
     \<and> ea_Workspace auth = rq_workspace req \<and> ea_Resource auth = rq_resource req \<and> ea_Name auth = rq_name req
     \<and> hr_Method r = ''POST'' \<and> rq_component req \<noteq> [] \<and> instanceReadyForExec U (Some inst) tn
     \<and> resolveComponentExecTarget U (Some contract) (Some inst) (rq_component req) = Inr (ec_ControlTarget call)
     \<and> ec_CallerKey call = execCallerKey (id_token ident) \<and> ec_Capability call \<noteq> None
     \<and> (\<exists>q. decodeExecRequest (ec_Capability call) (hr_Body r) (headerGet (hr_Headers r) ''Idempotency-Key'') (he_rand E)
           = Inr (q, ec_IdempotencyKey call) \<and> er_Argv (ec_Request call) = er_Argv q \<and> er_Action (ec_Request call) = er_Action q)"

definition execLaunched ::
    "handlerEnv \<Rightarrow> unstr \<Rightarrow> httpReq \<Rightarrow> identity \<Rightarrow> dpRequest \<Rightarrow> string \<Rightarrow> dataPlane \<Rightarrow> json \<Rightarrow> response traced \<Rightarrow> bool" where
  "execLaunched E U r ident req tn contract inst x \<longleftrightarrow>
     (\<exists>auth call. execAdmitted E U r ident req tn contract inst auth call
        \<and> x = emit (EvGetDevelopment tn (rq_component req)) (emit (EvAuthorize auth) (launchExec E U contract inst call)))"

lemma writeExecAuthorizationError_code: "\<exists>c. writeExecAuthorizationError e = HttpError c"
  by (auto simp: writeExecAuthorizationError_def writeKubeError_def split: callError.splits kubeReason.splits)

lemma quietError_branches:
  "\<not> quietError (if b then fail c else x) \<longleftrightarrow> \<not> b \<and> \<not> quietError x"
  "\<not> quietError (case p of None \<Rightarrow> fail c | Some y \<Rightarrow> f y) \<longleftrightarrow> (\<exists>y. p = Some y \<and> \<not> quietError (f y))"
  "\<not> quietError (case q of Inl e \<Rightarrow> fail c | Inr z \<Rightarrow> g z) \<longleftrightarrow> (\<exists>z. q = Inr z \<and> \<not> quietError (g z))"
  "\<not> quietError (case u of Inl e \<Rightarrow> ([], writeExecAuthorizationError e) | Inr (z::unit) \<Rightarrow> g') \<longleftrightarrow> u = Inr () \<and> \<not> quietError g'"
  "\<not> quietError (case w of (a, b) \<Rightarrow> h a b) \<longleftrightarrow> (\<exists>a b. w = (a, b) \<and> \<not> quietError (h a b))"
  using writeExecAuthorizationError_code
  by (auto split: option.splits sum.splits prod.splits simp: quietError_def)

lemma quietError_emits:
  "\<not> quietError (emit (EvGetDevelopment a b) x) \<longleftrightarrow> \<not> quietError x"
  "\<not> quietError (emit (EvAuthorize c) x) \<longleftrightarrow> \<not> quietError x"
  by (simp_all add: runtimeEvent_def)

lemma serveExec_cases:
  "quietError (serveExec E U r ident req tn contract inst)
   \<or> execLaunched E U r ident req tn contract inst (serveExec E U r ident req tn contract inst)"
  (is "quietError ?x \<or> _")
proof (cases "quietError ?x")
  case False
  from False [unfolded serveExec_def Let_def quietError_branches quietError_emits] obtain c q key devf dev wd ns t where
    c: "map_of (dp_Components contract) (rq_component req) = Some c"
    and pre: "rq_component req \<noteq> []" "\<not> hr_Method r \<noteq> ''POST''" "\<not> (rq_callerPath req \<noteq> [] \<or> hr_RawQuery r \<noteq> [])"
      "dc_Exec c \<noteq> None" "\<not> \<not> he_execWired E" "\<not> \<not> instanceReadyForExec U (Some inst) tn"
    and d: "decodeExecRequest (dc_Exec c) (hr_Body r) (headerGet (hr_Headers r) ''Idempotency-Key'') (he_rand E) = Inr (q, key)"
    and dv: "he_developmentFor E = Some devf" "devf tn (rq_component req) = Inr dev"
    and w: "\<not> (\<not> hasPrefix (if trimSpace (dv_WorkingDir dev) = [] then ''/workspace'' else trimSpace (dv_WorkingDir dev)) ''/''
        \<or> contains (if trimSpace (dv_WorkingDir dev) = [] then ''/workspace'' else trimSpace (dv_WorkingDir dev)) [CHR 0x00])"
      "resolveExecWorkdir (er_Workdir q) (pathClean (if trimSpace (dv_WorkingDir dev) = [] then ''/workspace'' else trimSpace (dv_WorkingDir dev))) = Inr wd"
      "nestedString U inst (dp_RuntimeNamespacePath contract) = Inr ns" "ns \<noteq> []"
      "resolveComponentExecTarget U (Some contract) (Some inst) (rq_component req) = Inr t"
    and auth: "authorizeExec E \<lparr>ea_Workspace = rq_workspace req, ea_Resource = rq_resource req, ea_Name = rq_name req,
           ea_Component = rq_component req, ea_User = id_user ident, ea_CallerToken = id_token ident,
           ea_Action = er_Action (q\<lparr>er_Workdir := wd\<rparr>), ea_Request = q\<lparr>er_Workdir := wd\<rparr>, ea_Instance = inst\<rparr> = Inr ()"
    by blast
  let ?auth = "\<lparr>ea_Workspace = rq_workspace req, ea_Resource = rq_resource req, ea_Name = rq_name req,
           ea_Component = rq_component req, ea_User = id_user ident, ea_CallerToken = id_token ident,
           ea_Action = er_Action (q\<lparr>er_Workdir := wd\<rparr>), ea_Request = q\<lparr>er_Workdir := wd\<rparr>, ea_Instance = inst\<rparr>"
  let ?call = "\<lparr>ec_Workspace = rq_workspace req, ec_Resource = rq_resource req, ec_Name = rq_name req,
          ec_Component = rq_component req, ec_Instance = inst, ec_Capability = dc_Exec c,
          ec_WorkingDir = pathClean (if trimSpace (dv_WorkingDir dev) = [] then ''/workspace'' else trimSpace (dv_WorkingDir dev)),
          ec_WorkspacePath = trimSpace (dv_WorkspacePath dev), ec_CallerKey = execCallerKey (id_token ident), ec_RuntimeNamespace = ns,
          ec_ControlTarget = t, ec_Request = q\<lparr>er_Workdir := wd\<rparr>, ec_IdempotencyKey = key\<rparr>"
  have "?x = emit (EvGetDevelopment tn (rq_component req)) (emit (EvAuthorize ?auth) (launchExec E U contract inst ?call))"
    using pre w(1,4) by (simp only: serveExec_def Let_def c d dv w auth option.case sum.case prod.case if_False if_True simp_thms)
  moreover have "execAdmitted E U r ident req tn contract inst ?auth ?call"
    using auth pre d w(5) by (simp add: execAdmitted_def)
  ultimately show ?thesis unfolding execLaunched_def by blast
qed simp

lemma execLaunched_confined:
  assumes "execLaunched E U r ident req tn contract inst x"
    and v: "validateRuntimeNamespace U (Some contract) (Some inst) expected = Inr ()"
  shows "confinedTrace (trimSpace expected) x"
proof -
  from assms(1) obtain auth call where
    a: "execAdmitted E U r ident req tn contract inst auth call"
    and x: "x = emit (EvGetDevelopment tn (rq_component req)) (emit (EvAuthorize auth) (launchExec E U contract inst call))"
    unfolding execLaunched_def by blast
  from a have "resolveComponentExecTarget U (Some contract) (Some inst) (rq_component req) = Inr (ec_ControlTarget call)"
    by (simp add: execAdmitted_def)
  then obtain t' where t': "resolveComponentSyncTarget U (Some contract) (Some inst) (rq_component req) = Inr t'"
    "ec_ControlTarget call = t'\<lparr>rt_UpstreamPath := ''/exec'', rt_ServicePort := ''exec''\<rparr>"
    by (auto simp: resolveComponentExecTarget_def andThen_Inr)
  from syncTarget_confined [OF t'(1) v] t'(2)
  have "targetConfined (trimSpace expected) (ec_ControlTarget call)" "\<not> rt_FromStatus (ec_ControlTarget call)"
    by (auto simp: targetConfined_def hasPrefix_def)
  from launchExec_confined [OF this v refl, of E] show ?thesis by (simp add: x eventConfined_def)
qed

lemma quietError_confined: "quietError x \<Longrightarrow> confinedTrace ns x"
  by (auto simp: quietError_def list_all_iff runtimeEvent_def eventConfined_def split: event.splits)

lemma serveVerb_confined:
  assumes v: "validateRuntimeNamespace U (Some contract) (Some inst) expected = Inr ()"
  shows "confinedTrace (trimSpace expected) (serveVerb E U r req contract inst)"
proof (cases "verbTarget U contract inst req (hr_Method r)")
  case (Inr t)
  then have "resolveVerb U (Some contract) (Some inst) (rq_verb req) = Inr t
     \<or> resolveComponent U (Some contract) (Some inst) (rq_component req) (rq_verb req) = Inr t"
    by (auto simp: verbTarget_def mapErr_Inr split: if_splits)
  then have t: "targetConfined (trimSpace expected) t"
    using inst.resolved_confined [OF _ v, of "rq_verb req" t]
      cmpnt.resolved_confined [OF _ v, of "(rq_component req, rq_verb req)" t] by auto
  show ?thesis
    using serveProxy_confined [OF t] recordActivity_confined [of "trimSpace expected" E inst]
    by (auto simp: serveVerb_def Inr split_beta split: sum.splits)
qed (simp add: serveVerb_def)

section \<open>Properties of a request\<close>

text \<open>The continuation of a request once its address is known.\<close>

lemma serveHTTP_cases:
  fixes E U r
  defines "tok \<equiv> id_token (identityFromRequest (he_devQuery E) r)"
  obtains (refused) c where "serveHTTP E U r = fail c" "c \<in> {400, 401, 404, 503}"
  | (fetched) req where "parsePath (hr_Path r) = Some req" "rq_resource req = InstancesResource" "tok \<noteq> []" "he_available E"
    "serveHTTP E U r = emit (EvGetInstance (rq_workspace req) tok (rq_resource req) (rq_name req))
     (case he_getInstance E (rq_workspace req) tok (rq_resource req) (rq_name req) of
       Inl e \<Rightarrow> ([], writeKubeError e)
     | Inr inst \<Rightarrow>
     let templateName = foundOr [] (nestedStr U inst [''spec'', ''template'']) in
     emit (EvGetContract templateName)
     (case he_contractFor E templateName of
       Inl _ \<Rightarrow> fail 404
     | Inr None \<Rightarrow> fail 404
     | Inr (Some contract) \<Rightarrow>
     if \<not> isOk (validateRuntimeNamespace U (Some contract) (Some inst) (runtimeNamespace (rq_workspace req) (getNamespace U inst)))
     then fail 409
     else if rq_verb req = ''exec'' then serveExec E U r (identityFromRequest (he_devQuery E) r) req templateName contract inst
     else serveVerb E U r req contract inst))"
proof (cases "he_available E \<and> tok \<noteq> [] \<and> (\<exists>req. parsePath (hr_Path r) = Some req \<and> rq_resource req = InstancesResource)")
  case False
  then show thesis
    by (intro refused [of "if \<not> he_available E then 503 else if tok = [] then 401
        else if parsePath (hr_Path r) = None then 400 else 404"])
       (auto simp: serveHTTP_def Let_def tok_def split: option.splits)
next
  case True
  then obtain req where "he_available E" "tok \<noteq> []" "parsePath (hr_Path r) = Some req" "rq_resource req = InstancesResource" by blast
  then show thesis
    by (intro fetched [of req]) (simp_all add: serveHTTP_def Let_def tok_def)
qed

text \<open>C8: The data plane acts on the caller's own authority. A request either is refused without any
  external action, or its first action is to read the addressed instance with the caller's own token
  (the bearer token of the request, unless the development query switch is on); when that read fails
  nothing else happens and the caller sees the API server's status code.\<close>

theorem data_plane_gate:
  "(\<exists>c. serveHTTP E U r = ([], HttpError c) \<and> c \<in> {400, 401, 404, 503})
   \<or> (\<exists>req tok rest. parsePath (hr_Path r) = Some req \<and> rq_resource req = ''instances'' \<and> tok \<noteq> []
        \<and> (\<not> he_devQuery E \<longrightarrow> tok = bearerToken r)
        \<and> fst (serveHTTP E U r) = EvGetInstance (rq_workspace req) tok ''instances'' (rq_name req) # rest
        \<and> (\<forall>e. he_getInstance E (rq_workspace req) tok ''instances'' (rq_name req) = Inl e \<longrightarrow>
              rest = [] \<and> snd (serveHTTP E U r) = HttpError (kubeStatus e)))"
proof (cases rule: serveHTTP_cases [where E = E and U = U and r = r])
  case (refused c)
  then show ?thesis by (simp add: fail_def)
next
  case (fetched req)
  let ?tok = "id_token (identityFromRequest (he_devQuery E) r)"
  have 1: "\<not> he_devQuery E \<longrightarrow> ?tok = bearerToken r" by (simp add: identityFromRequest_def Let_def)
  have 2: "fst (serveHTTP E U r) = EvGetInstance (rq_workspace req) ?tok ''instances'' (rq_name req) # tl (fst (serveHTTP E U r))"
    using fetched(2,5) by (simp add: InstancesResource_def)
  have 3: "\<forall>e. he_getInstance E (rq_workspace req) ?tok ''instances'' (rq_name req) = Inl e \<longrightarrow>
      tl (fst (serveHTTP E U r)) = [] \<and> snd (serveHTTP E U r) = HttpError (kubeStatus e)"
    using fetched(2,5) by (simp add: InstancesResource_def writeKubeError_def)
  from fetched(1-3) 1 2 3 show ?thesis unfolding InstancesResource_def by blast
qed

text \<open>C1: No request leaves the tenant's runtime namespace. Whatever the instance's status claims, every
  control-token Secret read, status probe, coordinator call and proxied request of one data-plane
  call addresses the namespace derived from the workspace in the URL and the instance's own
  namespace.\<close>

theorem data_plane_confined:
  assumes "parsePath (hr_Path r) = Some req"
    and "he_getInstance E (rq_workspace req) (id_token (identityFromRequest (he_devQuery E) r)) (rq_resource req) (rq_name req) = Inr i"
  shows "list_all (eventConfined (trimSpace (runtimeNamespace (rq_workspace req) (getNamespace U i)))) (fst (serveHTTP E U r))"
    (is "list_all (eventConfined ?ns) _")
proof (cases rule: serveHTTP_cases [where E = E and U = U and r = r])
  case (fetched req')
  with assms(1) have [simp]: "req' = req" by simp
  have "confinedTrace ?ns (serveExec E U r ident req tn contract i)"
    if "validateRuntimeNamespace U (Some contract) (Some i) (runtimeNamespace (rq_workspace req) (getNamespace U i)) = Inr ()"
    for ident tn contract
    using serveExec_cases [of E U r ident req tn contract i] execLaunched_confined [OF _ that] quietError_confined by blast
  then show ?thesis
    using fetched(5) assms(2) serveVerb_confined
    by (auto simp: Let_def eventConfined_def isOk_iff split: sum.splits option.splits)
qed simp

lemma authorizeExec_allowed: "authorizeExec E auth = Inr () \<Longrightarrow> \<exists>reason. he_review E auth = Inr (True, reason)"
  by (auto simp: authorizeExec_def split: sum.splits prod.splits if_splits)

lemma ready_universal_runtime:
  "instanceReadyForExec U (Some i) UniversalCodingSandboxTemplateName \<Longrightarrow>
     nestedField U i [''status'', ''railgridNetworkPhase''] = Inr (Some (JStr ''runtime''))"
  by (auto simp: instanceReadyForExec_def Let_def NetworkPhaseStatusField_def NetworkPhaseRuntime_def split: sum.splits)

text \<open>C5: No command without an explicit permission. When an exec request touches the runtime cluster at
  all - the activity marker, a Secret, the component status or the coordinator - it was a POST, the
  instance was read as the caller and is ready at its current generation (with network phase
  \<^verbatim>\<open>runtime\<close> for the universal sandbox), and before the first such action the caller's own access review for
  this instance answered that the command is allowed.\<close>

theorem exec_authorized_first:
  assumes p: "parsePath (hr_Path r) = Some req" and "rq_verb req = ''exec''"
    and ev: "ev \<in> set (fst (serveHTTP E U r))" "runtimeEvent ev"
  shows "\<exists>i auth reason pre post.
    fst (serveHTTP E U r) = pre @ EvAuthorize auth # post \<and> (\<forall>e \<in> set pre. \<not> runtimeEvent e) \<and> ev \<in> set post
    \<and> he_review E auth = Inr (True, reason)
    \<and> ea_CallerToken auth = id_token (identityFromRequest (he_devQuery E) r)
    \<and> ea_Workspace auth = rq_workspace req \<and> ea_Name auth = rq_name req
    \<and> he_getInstance E (rq_workspace req) (ea_CallerToken auth) (rq_resource req) (rq_name req) = Inr i
    \<and> hr_Method r = ''POST''
    \<and> instanceReadyForExec U (Some i) (foundOr [] (nestedStr U i [''spec'', ''template'']))
    \<and> (foundOr [] (nestedStr U i [''spec'', ''template'']) = UniversalCodingSandboxTemplateName \<longrightarrow>
         nestedField U i [''status'', ''railgridNetworkPhase''] = Inr (Some (JStr ''runtime'')))"
proof (cases rule: serveHTTP_cases [where E = E and U = U and r = r])
  case (refused c)
  with ev show ?thesis by simp
next
  case (fetched req')
  with p have [simp]: "req' = req" by simp
  let ?id = "identityFromRequest (he_devQuery E) r"
  from ev fetched(5) obtain i where i: "he_getInstance E (rq_workspace req) (id_token ?id) (rq_resource req) (rq_name req) = Inr i"
    by (auto simp: runtimeEvent_def split: sum.splits)
  let ?tn = "foundOr [] (nestedStr U i [''spec'', ''template''])"
  from ev fetched(5) i assms(2) obtain contract where
    s: "serveHTTP E U r = emit (EvGetInstance (rq_workspace req) (id_token ?id) (rq_resource req) (rq_name req))
       (emit (EvGetContract ?tn) (serveExec E U r ?id req ?tn contract i))"
    and e: "ev \<in> set (fst (serveExec E U r ?id req ?tn contract i))"
    by (auto simp: runtimeEvent_def Let_def split: sum.splits option.splits if_splits)
  from e ev(2) have "\<not> quietError (serveExec E U r ?id req ?tn contract i)" by (auto simp: quietError_def)
  with serveExec_cases obtain auth call where
    a: "execAdmitted E U r ?id req ?tn contract i auth call"
    and x: "serveExec E U r ?id req ?tn contract i =
      emit (EvGetDevelopment ?tn (rq_component req)) (emit (EvAuthorize auth) (launchExec E U contract i call))"
    unfolding execLaunched_def by blast
  let ?pre = "[EvGetInstance (rq_workspace req) (id_token ?id) (rq_resource req) (rq_name req), EvGetContract ?tn, EvGetDevelopment ?tn (rq_component req)]"
  have "fst (serveHTTP E U r) = ?pre @ EvAuthorize auth # fst (launchExec E U contract i call)" by (simp add: s x)
  moreover have "\<forall>e \<in> set ?pre. \<not> runtimeEvent e" by (simp add: runtimeEvent_def)
  moreover have "ev \<in> set (fst (launchExec E U contract i call))" using e ev(2) by (auto simp: x runtimeEvent_def)
  moreover from a authorizeExec_allowed obtain reason where "he_review E auth = Inr (True, reason)"
    unfolding execAdmitted_def by blast
  moreover from a have adm: "ea_CallerToken auth = id_token ?id" "ea_Workspace auth = rq_workspace req" "ea_Name auth = rq_name req"
    "hr_Method r = ''POST''" "instanceReadyForExec U (Some i) ?tn" unfolding execAdmitted_def by simp_all
  moreover have "?tn = UniversalCodingSandboxTemplateName \<longrightarrow>
      nestedField U i [''status'', ''railgridNetworkPhase''] = Inr (Some (JStr ''runtime''))"
    using adm(5) ready_universal_runtime [of U i] by metis
  moreover have "he_getInstance E (rq_workspace req) (ea_CallerToken auth) (rq_resource req) (rq_name req) = Inr i"
    using i adm(1) by simp
  ultimately show ?thesis by blast
qed

text \<open>The caller's credential never reaches the runtime cluster, and a caller cannot smuggle a
  control token: an ordinary proxied request carries no Authorization header, and its control-token
  header is absent or is the token read from the namespace-confined Secret.\<close>

theorem proxied_credentials:
  assumes "parsePath (hr_Path r) = Some req" "rq_verb req \<noteq> ''exec''"
    and "EvProxy p hs \<in> set (fst (serveHTTP E U r))"
  shows "map_of hs ''Authorization'' = None
    \<and> (map_of hs controlTokenHeader = None
       \<or> (\<exists>ns n tok. EvControlToken ns n \<in> set (fst (serveHTTP E U r)) \<and> he_controlToken E ns n = Inr tok
            \<and> map_of hs controlTokenHeader = Some tok))"
proof (cases rule: serveHTTP_cases [where E = E and U = U and r = r])
  case (refused c)
  with assms(3) show ?thesis by simp
next
  case (fetched req')
  with assms(1) have [simp]: "req' = req" by simp
  from fetched(5) assms(2,3) obtain i contract where
    sub: "set (fst (serveVerb E U r req contract i)) \<subseteq> set (fst (serveHTTP E U r))"
    and e: "EvProxy p hs \<in> set (fst (serveVerb E U r req contract i))"
    by (auto simp: Let_def split: sum.splits option.splits if_splits)
  from e obtain t where sp: "EvProxy p hs \<in> set (fst (serveProxy E r t (rq_callerPath req)))"
    and sub': "set (fst (serveProxy E r t (rq_callerPath req))) \<subseteq> set (fst (serveVerb E U r req contract i))"
    by (auto simp: serveVerb_def recordActivity_def split: sum.splits option.splits if_splits)
  have ne: "controlTokenHeader \<noteq> ''Authorization''" by (simp add: controlTokenHeader_def)
  from sp have "map_of hs ''Authorization'' = None \<and> (map_of hs controlTokenHeader = None
       \<or> (\<exists>ns n tok. EvControlToken ns n \<in> set (fst (serveProxy E r t (rq_callerPath req))) \<and> he_controlToken E ns n = Inr tok
            \<and> map_of hs controlTokenHeader = Some tok))"
    using ne by (auto simp: serveProxy_def Let_def directorHeaders_def split: sum.splits if_splits)
  with sub sub' show ?thesis by blast
qed

lemma finishExec_bounded:
  assumes "snd (finishExec E call) = ExecResponse res"
  shows "length (xr_Stdout res) + length (xr_Stderr res) \<le> 262144"
proof -
  from assms obtain x l where res: "res = boundExecResult x (lim_outputBytes l)"
    and l: "limitsForCapability (ec_Capability call) = Inr l"
    by (auto simp: finishExec_def Let_def writeExecError_def writeKubeError_def
        split: option.splits prod.splits sum.splits callError.splits kubeReason.splits)
  have "nat (lim_outputBytes l) \<le> 262144" using limitsForCapability_bounds [OF l] by (simp add: nat_le_iff)
  moreover have "length (xr_Stdout res) + length (xr_Stderr res) \<le> nat (lim_outputBytes l)"
    unfolding res by (auto simp: boundExecResult_def Let_def)
  ultimately show ?thesis by simp
qed

lemma dispatchExec_returns:
  assumes "\<And>d. timersRespected \<lparr>re_start = f, re_poll = g, re_begin = he_begin E, re_now = he_now E, re_done = h\<rparr> d"
  shows "dispatchExec E call \<noteq> None"
proof -
  have "timersRespected (runEnvOf E t) d" for t d
    using assms [of d] by (simp add: timersRespected_def runEnvOf_def)
  from runExec_returns [of "runEnvOf E (ec_ControlTarget call)" call runFuel, OF this] show ?thesis
    by (auto simp: dispatchExec_def Let_def runFuel_def)
qed

lemma launchExec_cases:
  "(\<exists>c. snd (launchExec E U contract i call) = HttpError c) \<or>
   (\<exists>call'. snd (launchExec E U contract i call) = snd (finishExec E call'))"
  unfolding launchExec_def Let_def split_beta
  by (auto split: sum.splits prod.splits sourceError.splits)

text \<open>The response of any request is an error, the instance status, a proxied answer, or what one
  executed call gives.\<close>

definition knownResponse :: "handlerEnv \<Rightarrow> response \<Rightarrow> bool" where
  "knownResponse E x \<longleftrightarrow>
     (\<exists>c. x = HttpError c) \<or> (\<exists>m. x = InstanceStatus m) \<or> x = Proxied \<or> (\<exists>call. x = snd (finishExec E call))"

lemma serveHTTP_response: "knownResponse E (snd (serveHTTP E U r))"
proof (cases rule: serveHTTP_cases [where E = E and U = U and r = r])
  case (refused c)
  then show ?thesis by (simp add: knownResponse_def)
next
  case (fetched req)
  have h: "knownResponse E (HttpError c)" for c by (simp add: knownResponse_def)
  have v: "knownResponse E (snd (serveVerb E U r req contract i))" for contract i
    by (auto simp: knownResponse_def serveVerb_def serveProxy_def Let_def split_beta split: sum.splits)
  have x: "knownResponse E (snd (serveExec E U r d req tn contract i))" for d tn contract i
    using serveExec_cases [of E U r d req tn contract i]
  proof
    assume "execLaunched E U r d req tn contract i (serveExec E U r d req tn contract i)"
    then obtain call where "snd (serveExec E U r d req tn contract i) = snd (launchExec E U contract i call)"
      unfolding execLaunched_def by auto
    with launchExec_cases [of E U contract i call] show ?thesis by (auto simp: knownResponse_def)
  qed (auto simp: quietError_def knownResponse_def)
  show ?thesis
    using fetched(5) by (simp add: Let_def writeKubeError_def h v x split: sum.splits option.splits)
qed

text \<open>An exec request always gets an answer, and a bounded one: on a clock that lets the poll timers
  run out, the run loop's fuel is never exhausted, and the output in any exec response is at most the
  provider ceiling of 262144 bytes, whatever the template declares and the coordinator returns.\<close>

theorem exec_response_bounded:
  assumes "\<And>d. timersRespected \<lparr>re_start = f, re_poll = g, re_begin = he_begin E, re_now = he_now E, re_done = h\<rparr> d"
  shows "snd (serveHTTP E U r) \<noteq> NotReturned
    \<and> (\<forall>res. snd (serveHTTP E U r) = ExecResponse res \<longrightarrow> length (xr_Stdout res) + length (xr_Stderr res) \<le> 262144)"
proof -
  have "snd (finishExec E call) \<noteq> NotReturned" for call
    using dispatchExec_returns [OF assms, of call]
    by (auto simp: finishExec_def Let_def writeExecError_def writeKubeError_def
        split: option.splits prod.splits sum.splits callError.splits kubeReason.splits)
  with serveHTTP_response [of E U r] finishExec_bounded [of E] show ?thesis
    unfolding knownResponse_def by (elim disjE exE) simp_all
qed

section \<open>Addresses\<close>

lemma takeWhile_upto: "d \<notin> set a \<Longrightarrow> takeWhile (\<lambda>x. x \<noteq> d) (a @ d # b) = a"
  by (induction a) auto

text \<open>Runtime namespaces do not collide between tenants: for logical-cluster identifiers without a
  hyphen - kcp's are base-36 - two instances get the same runtime namespace only when cluster and
  namespace agree, the empty namespace counting as \<^verbatim>\<open>default\<close>.\<close>

theorem runtimeNamespace_injective:
  assumes "CHR ''-'' \<notin> set c1" "CHR ''-'' \<notin> set c2"
  shows "runtimeNamespace c1 n1 = runtimeNamespace c2 n2 \<longleftrightarrow>
    c1 = c2 \<and> (if n1 = [] then ''default'' else n1) = (if n2 = [] then ''default'' else n2)"
proof -
  have "c1 = c2 \<and> m1 = m2" if "c1 @ CHR ''-'' # m1 = c2 @ CHR ''-'' # m2" for m1 m2
  proof -
    have "c1 = c2" using takeWhile_upto [OF assms(1), of m1] takeWhile_upto [OF assms(2), of m2] that by simp
    with that show ?thesis by simp
  qed
  then have "c1 @ CHR ''-'' # m1 = c2 @ CHR ''-'' # m2 \<longleftrightarrow> c1 = c2 \<and> m1 = m2" for m1 m2 by blast
  then show ?thesis unfolding runtimeNamespace_def Let_def append_Cons append_Nil .
qed

theorem runtimeNamespace_injective_witness:
  "runtimeNamespace ''rgl3'' [] = runtimeNamespace ''rgl3'' ''default'' \<and> runtimeNamespace ''a'' ''b'' \<noteq> runtimeNamespace ''ab'' ''b''
   \<and> runtimeNamespace ''a-b'' ''c'' = runtimeNamespace ''a'' ''b-c''"
proof (intro conjI)
  show "runtimeNamespace ''rgl3'' [] = runtimeNamespace ''rgl3'' ''default''"
    "runtimeNamespace ''a-b'' ''c'' = runtimeNamespace ''a'' ''b-c''" by code_simp+
  show "runtimeNamespace ''a'' ''b'' \<noteq> runtimeNamespace ''ab'' ''b''"
    by (subst runtimeNamespace_injective) simp_all
qed

section \<open>A concrete request\<close>

definition demo_contract :: dataPlane where
  "demo_contract = sample_contract\<lparr>dp_Components := [(''app'', \<lparr>dc_Endpoints = [(''sync'',
     \<lparr>ep_FromStatus = False, ep_ServicePath = ''status.app'', ep_Port = ''control'', ep_UpstreamPath = ''/sync'',
      ep_Methods = Some [''POST''], ep_Stream = False, ep_Upgrade = False\<rparr>)],
     dc_Exec = Some \<lparr>ex_MaxTimeoutSeconds = 0, ex_MaxOutputBytes = 0\<rparr>\<rparr>)]\<rparr>"

definition demo_instance :: json where
  "demo_instance = JObj [
     (''metadata'', JObj [(''name'', JStr ''demo''), (''generation'', JInt 3)]),
     (''spec'', JObj [(''template'', JStr ''web'')]),
     (''status'', JObj [(''runtimeNamespace'', JStr ''ws-default''), (''observedGeneration'', JInt 3), (''phase'', JStr ''Ready''),
        (''conditions'', JArr [JObj [(''type'', JStr ''Ready''), (''status'', JStr ''True''), (''observedGeneration'', JInt 3)]]),
        (''controlSecretRef'', JObj [(''name'', JStr ''token'')]), (''app'', JObj [(''name'', JStr ''app-control'')])])]"

definition demo_env :: "(json \<Rightarrow> goError + unit) option \<Rightarrow> handlerEnv" where
  "demo_env recorder =
     \<lparr>he_available = True, he_devQuery = False,
      he_getInstance = (\<lambda>ws tok res name. if tok = ''t'' then Inr demo_instance else Inl (KubeErr Forbidden 403 ''no'')),
      he_contractFor = (\<lambda>_. Inr (Some demo_contract)),
      he_developmentFor = Some (\<lambda>_ _. Inr \<lparr>dv_WorkspacePath = ''.'', dv_DevImage = [], dv_WorkingDir = [], dv_StartCommand = [],
         dv_Port = [], dv_ImageInput = [], dv_Reload = None\<rparr>),
      he_execWired = True, he_review = (\<lambda>_. Inr (True, [])), he_recorder = recorder,
      he_transport = Inr (), he_host = Inr (), he_hostComplete = True, he_controlToken = (\<lambda>_ _. Inr ''secret''),
      he_statusAttempt = StatusConnFailed (Errorf [] []), he_attempt = (\<lambda>_ _. ConnFailed (Errorf [] [])), he_ctxDone = (\<lambda>_ _. False),
      he_rand = Inr (replicate 16 2), he_begin = 0, he_now = (\<lambda>i. int i * 1000000000), he_pollDone = (\<lambda>_. False)\<rparr>"

definition demo_request :: "string \<Rightarrow> string \<Rightarrow> httpReq" where
  "demo_request token verb =
     \<lparr>hr_Method = ''POST'', hr_Path = ''/dataplane/clusters/ws/instances/demo/components/app/'' @ verb, hr_RawQuery = [], hr_QueryToken = [],
      hr_Headers = [(''Authorization'', ''Bearer '' @ token), (controlTokenHeader, ''forged'')],
      hr_Body = BodyRequest \<lparr>er_Action = ''poll'', er_SessionID = ''s1'', er_RequestID = [], er_SourceRevision = 0, er_Argv = [],
         er_Workdir = [], er_TimeoutSeconds = 0, er_SourceDigest = []\<rparr> AtEOF\<rparr>"

definition demo_address :: "string \<Rightarrow> dpRequest" where
  "demo_address verb = \<lparr>rq_workspace = ''ws'', rq_resource = ''instances'', rq_name = ''demo'', rq_component = ''app'',
     rq_verb = verb, rq_callerPath = []\<rparr>"

lemma demo_sync:
  "serveHTTP (demo_env None) reference_unstr (demo_request ''t'' ''sync'') =
     ([EvGetInstance ''ws'' ''t'' ''instances'' ''demo'', EvGetContract ''web'', EvControlToken ''ws-default'' ''token'',
       EvProxy ''/api/v1/namespaces/ws-default/services/app-control:control/proxy/sync'' [(controlTokenHeader, ''secret'')]], Proxied)"
  by code_simp

lemma demo_parse: "parsePath (hr_Path (demo_request ''t'' ''sync'')) = Some (demo_address ''sync'')"
  "parsePath (hr_Path (demo_request ''t'' ''exec'')) = Some (demo_address ''exec'')"
  by code_simp+

theorem data_plane_gate_witness:
  "serveHTTP (demo_env None) reference_unstr (demo_request ''x'' ''sync'') =
     ([EvGetInstance ''ws'' ''x'' ''instances'' ''demo''], HttpError 403)"
proof -
  let ?x = "serveHTTP (demo_env None) reference_unstr (demo_request ''x'' ''sync'')"
  have ne: "fst ?x \<noteq> []" by code_simp
  have p: "parsePath (hr_Path (demo_request ''x'' ''sync'')) = Some (demo_address ''sync'')"
    "bearerToken (demo_request ''x'' ''sync'') = ''x''" by code_simp+
  from data_plane_gate [of "demo_env None" reference_unstr "demo_request ''x'' ''sync''"] ne obtain rest where
    "fst ?x = EvGetInstance ''ws'' ''x'' ''instances'' ''demo'' # rest"
    and "\<forall>e. he_getInstance (demo_env None) ''ws'' ''x'' ''instances'' ''demo'' = Inl e \<longrightarrow> rest = [] \<and> snd ?x = HttpError (kubeStatus e)"
    unfolding p by (auto simp: demo_address_def demo_env_def)
  moreover have "he_getInstance (demo_env None) ''ws'' ''x'' ''instances'' ''demo'' = Inl (KubeErr Forbidden 403 ''no'')" by code_simp
  ultimately show ?thesis by (simp add: prod_eq_iff kubeStatus_def)
qed

theorem data_plane_confined_witness:
  "list_all (eventConfined ''ws-default'') (fst (serveHTTP (demo_env None) reference_unstr (demo_request ''t'' ''sync'')))"
proof -
  have "he_getInstance (demo_env None) (rq_workspace (demo_address ''sync''))
      (id_token (identityFromRequest (he_devQuery (demo_env None)) (demo_request ''t'' ''sync'')))
      (rq_resource (demo_address ''sync'')) (rq_name (demo_address ''sync'')) = Inr demo_instance" by code_simp
  moreover have "trimSpace (runtimeNamespace (rq_workspace (demo_address ''sync'')) (getNamespace reference_unstr demo_instance)) = ''ws-default''"
    by code_simp
  ultimately show ?thesis using data_plane_confined [OF demo_parse(1)] by metis
qed

theorem proxied_credentials_witness:
  "\<exists>p hs. EvProxy p hs \<in> set (fst (serveHTTP (demo_env None) reference_unstr (demo_request ''t'' ''sync'')))
     \<and> map_of hs ''Authorization'' = None \<and> map_of hs controlTokenHeader = Some ''secret''"
proof -
  let ?p = "''/api/v1/namespaces/ws-default/services/app-control:control/proxy/sync''" and ?hs = "[(controlTokenHeader, ''secret'')]"
  have e: "EvProxy ?p ?hs \<in> set (fst (serveHTTP (demo_env None) reference_unstr (demo_request ''t'' ''sync'')))"
    unfolding demo_sync by simp
  from proxied_credentials [OF demo_parse(1) _ e] have "map_of ?hs ''Authorization'' = None"
    by (simp add: demo_address_def)
  then have "map_of ?hs ''Authorization'' = None \<and> map_of ?hs controlTokenHeader = Some ''secret''" by simp
  with e show ?thesis by blast
qed

theorem exec_response_bounded_witness:
  "snd (serveHTTP (demo_env None) reference_unstr (demo_request ''t'' ''sync'')) \<noteq> NotReturned"
proof -
  have "int i * 1000000000 + min (delayAt i) (d - int i * 1000000000) \<le> int (Suc i) * 1000000000" for i d
    using delayAt_le [of i] min.cobounded1 [of "delayAt i" "d - int i * 1000000000"] by simp
  then have "timersRespected \<lparr>re_start = \<lambda>_. ([], Inl canceledErr), re_poll = \<lambda>_ _. ([], Inl canceledErr),
      re_begin = he_begin (demo_env None), re_now = he_now (demo_env None), re_done = \<lambda>_. False\<rparr> d" for d
    by (simp only: timersRespected_def demo_env_def runEnv.simps handlerEnv.simps) simp
  from exec_response_bounded [OF this] show ?thesis by blast
qed

abbreviation demo_exec :: "response traced" where
  "demo_exec \<equiv> serveHTTP (demo_env (Some (\<lambda>_. Inl (Errorf ''api down'' [])))) reference_unstr (demo_request ''t'' ''exec'')"

lemma demo_exec_facts:
  "identityFromRequest False (demo_request ''t'' ''exec'') = \<lparr>id_tenant = [], id_user = [], id_token = ''t''\<rparr>"
  "foundOr [] (nestedStr reference_unstr demo_instance [''spec'', ''template'']) = ''web''"
  "validateRuntimeNamespace reference_unstr (Some demo_contract) (Some demo_instance) (runtimeNamespace ''ws'' (getNamespace reference_unstr demo_instance)) = Inr ()"
  "instanceReadyForExec reference_unstr (Some demo_instance) ''web''"
  "decodeExecRequest (Some \<lparr>ex_MaxTimeoutSeconds = 0, ex_MaxOutputBytes = 0\<rparr>) (hr_Body (demo_request ''t'' ''exec''))
     (headerGet (hr_Headers (demo_request ''t'' ''exec'')) ''Idempotency-Key'') (Inr (replicate 16 2)) =
     Inr (\<lparr>er_Action = ''poll'', er_SessionID = ''s1'', er_RequestID = [], er_SourceRevision = 0, er_Argv = [],
         er_Workdir = [], er_TimeoutSeconds = 0, er_SourceDigest = []\<rparr>, [])"
  "resolveExecWorkdir [] (pathClean ''/workspace'') = Inr ''.''"
  "nestedString reference_unstr demo_instance (dp_RuntimeNamespacePath demo_contract) = Inr ''ws-default''"
  "isOk (resolveComponentExecTarget reference_unstr (Some demo_contract) (Some demo_instance) ''app'')"
  "hr_Method (demo_request ''t'' ''exec'') = ''POST''" "hr_RawQuery (demo_request ''t'' ''exec'') = []"
  "hasPrefix ''/workspace'' ''/''" "\<not> contains ''/workspace'' [CHR 0x00]"
  by code_simp+

lemma demo_exec_trace: "EvRecordActivity demo_instance \<in> set (fst demo_exec)"
proof -
  obtain t where t: "resolveComponentExecTarget reference_unstr (Some demo_contract) (Some demo_instance) ''app'' = Inr t"
    using demo_exec_facts(8) by (auto simp: isOk_iff)
  have c: "map_of (dp_Components demo_contract) ''app'' = Some \<lparr>dc_Endpoints = [(''sync'',
     \<lparr>ep_FromStatus = False, ep_ServicePath = ''status.app'', ep_Port = ''control'', ep_UpstreamPath = ''/sync'',
      ep_Methods = Some [''POST''], ep_Stream = False, ep_Upgrade = False\<rparr>)],
     dc_Exec = Some \<lparr>ex_MaxTimeoutSeconds = 0, ex_MaxOutputBytes = 0\<rparr>\<rparr>"
    by (simp add: demo_contract_def)
  show ?thesis
    unfolding serveHTTP_def serveExec_def launchExec_def recordActivity_def
    by (simp add: demo_env_def demo_parse demo_exec_facts demo_address_def InstancesResource_def c t Let_def
        authorizeExec_def) (simp add: hasPrefix_def)
qed

theorem exec_authorized_first_witness:
  "\<exists>auth pre post. fst demo_exec = pre @ EvAuthorize auth # post \<and> EvRecordActivity demo_instance \<in> set post
     \<and> ea_CallerToken auth = ''t'' \<and> ea_Name auth = ''demo''"
proof -
  have tok: "id_token (identityFromRequest (he_devQuery (demo_env (Some (\<lambda>_. Inl (Errorf ''api down'' []))))) (demo_request ''t'' ''exec'')) = ''t''"
    by (simp add: demo_env_def demo_exec_facts)
  have "runtimeEvent (EvRecordActivity demo_instance)" "rq_verb (demo_address ''exec'') = ''exec''" "rq_name (demo_address ''exec'') = ''demo''"
    by (simp_all add: runtimeEvent_def demo_address_def)
  with exec_authorized_first [OF demo_parse(2) _ demo_exec_trace] tok show ?thesis by metis
qed

section \<open>Addresses round trip and stay on their Service\<close>

definition segment :: "string \<Rightarrow> bool" where
  "segment x \<longleftrightarrow> x \<noteq> [] \<and> CHR ''/'' \<notin> set x \<and> trimSpace x = x"

definition renderAddress :: "dpRequest \<Rightarrow> string" where
  "renderAddress q =
     ''/dataplane/clusters/'' @ rq_workspace q @ ''/'' @ rq_resource q @ ''/'' @ rq_name q @ ''/'' @
     (if rq_component q = [] then [] else ''components/'' @ rq_component q @ ''/'') @ rq_verb q @ rq_callerPath q"

definition wfAddress :: "dpRequest \<Rightarrow> bool" where
  "wfAddress q \<longleftrightarrow>
     segment (rq_workspace q) \<and> segment (rq_resource q) \<and> segment (rq_name q) \<and> segment (rq_verb q)
     \<and> (rq_component q = [] \<and> rq_verb q \<noteq> ''components'' \<or> segment (rq_component q))
     \<and> (rq_callerPath q = [] \<or> hasPrefix (rq_callerPath q) ''/'')"

lemma cutAt_append: "d \<notin> set a \<Longrightarrow> cutAt d (a @ d # b) = (a, b, True)"
  by (induction a) auto

lemma cutAt_none: "d \<notin> set a \<Longrightarrow> cutAt d a = (a, [], False)"
  by (induction a) auto

lemma splitN_append: "d \<notin> set a \<Longrightarrow> splitN d (Suc (Suc n)) (a @ d # b) = a # splitN d (Suc n) b"
  by (simp add: cutAt_append)

lemma splitN_last: "d \<notin> set a \<Longrightarrow> splitN d (Suc n) a = [a]"
  by (cases n) (simp_all add: cutAt_none)

lemma callerPath_cases:
  assumes "rq_callerPath q = [] \<or> hasPrefix (rq_callerPath q) ''/''"
  obtains "rq_callerPath q = []" | p where "rq_callerPath q = CHR ''/'' # p"
  using assms by (cases "rq_callerPath q") (auto simp: hasPrefix_def)

lemma splitN_verb:
  assumes "segment v" "c = [] \<or> hasPrefix c ''/''"
  shows "splitN CHR ''/'' (Suc (Suc 0)) (v @ c) = (if c = [] then [v] else [v, tl c])"
  using assms by (cases c) (auto simp: hasPrefix_def segment_def splitN_append splitN_last simp del: splitN.simps(3))

lemma no_component_prefix:
  assumes "segment v" "v \<noteq> ''components''" "c = [] \<or> hasPrefix c ''/''"
  shows "cutPrefix (v @ c) ''components/'' = None"
proof (rule ccontr)
  assume "\<not> ?thesis"
  then have "hasPrefix (v @ c) (''components'' @ ''/'')" by (auto simp: cutPrefix_def split: if_splits)
  then obtain w where w: "v @ c = ''components'' @ CHR ''/'' # w" by (auto simp: hasPrefix_prefix prefix_def)
  have "takeWhile (\<lambda>x. x \<noteq> CHR ''/'') (v @ c) = v"
    using assms(1,3) takeWhile_upto [of "CHR ''/''" v]
    by (cases c) (auto simp: segment_def hasPrefix_def takeWhile_eq_all_conv)
  moreover have "takeWhile (\<lambda>x. x \<noteq> CHR ''/'') (v @ c) = ''components''" unfolding w by simp
  ultimately show False using assms(2) by simp
qed

lemma parseVerb_render:
  assumes "wfAddress q" and b: "b = q\<lparr>rq_component := [], rq_verb := [], rq_callerPath := []\<rparr>"
  shows "parseVerb b ((if rq_component q = [] then [] else ''components/'' @ rq_component q @ ''/'') @ rq_verb q @ rq_callerPath q) = Some q"
proof -
  let ?v = "rq_verb q" and ?c = "rq_callerPath q" and ?m = "rq_component q"
  from assms(1) have v: "segment ?v" "?c = [] \<or> hasPrefix ?c ''/''"
    and m: "?m = [] \<and> ?v \<noteq> ''components'' \<or> segment ?m" by (auto simp: wfAddress_def)
  have c: "?c = [] \<or> ''/'' @ tl ?c = ?c" using v(2) by (cases ?c) (auto simp: hasPrefix_def)
  have n2: "splitN CHR ''/'' 2 (?v @ ?c) = (if ?c = [] then [?v] else [?v, tl ?c])"
    using splitN_verb [OF v] by (simp add: eval_nat_numeral)
  show ?thesis
  proof (cases "?m = []")
    case True
    with m v(1) have "cutPrefix (?v @ ?c) ''components/'' = None"
      using no_component_prefix [OF v(1) _ v(2)] by (auto simp: segment_def)
    with True n2 c v(1) show ?thesis by (auto simp: parseVerb_def Let_def b segment_def)
  next
    case False
    with m have sm: "segment ?m" by simp
    have cp: "cutPrefix (''components/'' @ ?m @ ''/'' @ ?v @ ?c) ''components/'' = Some (?m @ ''/'' @ ?v @ ?c)"
      by (simp add: cutPrefix_def hasPrefix_def)
    have n3: "splitN CHR ''/'' 3 (?m @ ''/'' @ ?v @ ?c) = ?m # (if ?c = [] then [?v] else [?v, tl ?c])"
      using splitN_append [of "CHR ''/''" ?m 1 "?v @ ?c"] splitN_verb [OF v] sm
      by (simp add: eval_nat_numeral segment_def del: splitN.simps(3))
    show ?thesis
      using False cp n3 c v(1) sm by (auto simp: parseVerb_def Let_def b segment_def)
  qed
qed

text \<open>Addresses round trip: rendering the workspace, resource, instance, component, verb and tail of a
  data-plane call as its URL path and parsing that path gives back the same call, for segments that are
  non-empty, without slash and without surrounding space (and a verb other than the reserved
  \<^verbatim>\<open>components\<close> at the instance level).\<close>

theorem parsePath_render:
  assumes "wfAddress q"
  shows "parsePath (renderAddress q) = Some q"
proof -
  let ?vt = "(if rq_component q = [] then [] else ''components/'' @ rq_component q @ ''/'') @ rq_verb q @ rq_callerPath q"
  let ?rest = "rq_workspace q @ ''/'' @ rq_resource q @ ''/'' @ rq_name q @ ''/'' @ ?vt"
  from assms have seg: "segment (rq_workspace q)" "segment (rq_resource q)" "segment (rq_name q)" "segment (rq_verb q)"
    by (auto simp: wfAddress_def)
  have r: "renderAddress q = PathPrefix @ ''clusters/'' @ ?rest" by (simp add: renderAddress_def PathPrefix_def)
  have t: "trimPrefix (renderAddress q) PathPrefix = ''clusters/'' @ ?rest"
    unfolding r by (simp add: trimPrefix_def)
  have ne: "''clusters/'' @ ?rest \<noteq> renderAddress q" unfolding r by (simp add: PathPrefix_def)
  have cp: "cutPrefix (''clusters/'' @ ?rest) ''clusters/'' = Some ?rest" by (simp add: cutPrefix_def hasPrefix_def)
  have sp: "splitN CHR ''/'' 4 ?rest = [rq_workspace q, rq_resource q, rq_name q, ?vt]"
    using seg splitN_append [of "CHR ''/''" "rq_workspace q" 2] splitN_append [of "CHR ''/''" "rq_resource q" 1]
      splitN_append [of "CHR ''/''" "rq_name q" 0]
    by (simp add: eval_nat_numeral segment_def del: splitN.simps(3))
  have pv: "parseVerb \<lparr>rq_workspace = rq_workspace q, rq_resource = rq_resource q, rq_name = rq_name q,
      rq_component = [], rq_verb = [], rq_callerPath = []\<rparr> ?vt = Some q"
    by (rule parseVerb_render [OF assms]) simp
  have "trimSpace (rq_workspace q) = rq_workspace q" "trimSpace (rq_resource q) = rq_resource q" "trimSpace (rq_name q) = rq_name q"
    "rq_workspace q \<noteq> []" "rq_resource q \<noteq> []" "rq_name q \<noteq> []" "rq_verb q \<noteq> []"
    using seg by (simp_all add: segment_def)
  with ne cp sp pv show ?thesis by (simp add: parsePath_def t Let_def del: splitN.simps)
qed

theorem parsePath_render_witness:
  "parsePath ''/dataplane/clusters/ws/instances/demo/components/app/sync'' = Some (demo_address ''sync'')"
proof -
  have "renderAddress (demo_address ''sync'') = ''/dataplane/clusters/ws/instances/demo/components/app/sync''"
    "wfAddress (demo_address ''sync'')" by code_simp+
  with parsePath_render show ?thesis by metis
qed

lemma pathClean_rooted:
  assumes "hasPrefix p ''/''"
  shows "hasPrefix (pathClean p) ''/''" "''..'' \<notin> set (splitAll CHR ''/'' (pathClean p))"
proof -
  let ?es = "cleanElems True [] (splitAll CHR ''/'' p)"
  from assms have p: "p \<noteq> []" "hd p = CHR ''/''" by (cases p; auto simp: hasPrefix_def)+
  have c: "pathClean p = CHR ''/'' # joinWith ''/'' ?es" using p by (simp add: pathClean_def Let_def)
  have "cleanShape True ?es" by (rule cleanElems_shape) (auto dest: splitAll_noslash)
  then have pl: "list_all plainElem ?es" by (auto simp: cleanShape_def)
  then have "\<forall>e \<in> set ?es. CHR ''/'' \<notin> set e" by (auto simp: list_all_iff plainElem_def)
  then have "splitAll CHR ''/'' (joinWith ''/'' ?es) = (if ?es = [] then [[]] else ?es)"
    using splitAll_joinWith [of ?es "CHR ''/''"] by simp
  with pl show "''..'' \<notin> set (splitAll CHR ''/'' (pathClean p))"
    by (auto simp: c list_all_iff plainElem_def split: if_splits)
  show "hasPrefix (pathClean p) ''/''" by (simp add: c hasPrefix_def)
qed

lemma joinPaths_rooted: "hasPrefix (joinPaths u c) ''/''"
  by (auto simp: joinPaths_def Let_def ensureLeadingSlash_def hasPrefix_def)

text \<open>The URL a proxied call is sent to is the service-proxy subresource of the resolved Service and
  port, followed by a rooted path; when the declared upstream path is more than the root, a caller's
  tail cannot climb out of the Service: the joined path has no \<^verbatim>\<open>..\<close> element left.\<close>

theorem serviceProxyPath_on_service:
  "\<exists>tl. serviceProxyPath t c = serviceBase (rt_ServiceNamespace t) @ rt_ServiceName t @ '':'' @ rt_ServicePort t @ ''/proxy'' @ tl
     \<and> hasPrefix tl ''/''
     \<and> (hasPrefix (trimSpace (rt_UpstreamPath t)) ''/'' \<and> trimSpace (rt_UpstreamPath t) \<noteq> ''/'' \<and> trimSpace (trimPrefix c ''/'') \<noteq> []
          \<longrightarrow> ''..'' \<notin> set (splitAll CHR ''/'' tl))"
proof -
  let ?j = "joinPaths (rt_UpstreamPath t) c" and ?u = "trimSpace (rt_UpstreamPath t)" and ?c = "trimSpace (trimPrefix c ''/'')"
  have ne: "?j \<noteq> []" using joinPaths_rooted [of "rt_UpstreamPath t" c] by (auto simp: hasPrefix_def)
  have path: "serviceProxyPath t c = serviceBase (rt_ServiceNamespace t) @ rt_ServiceName t @ '':'' @ rt_ServicePort t @ ''/proxy'' @ ?j"
    using ne by (simp add: serviceProxyPath_def serviceBase_def Let_def)
  have "''..'' \<notin> set (splitAll CHR ''/'' ?j)" if h: "hasPrefix ?u ''/''" "?u \<noteq> ''/''" "?c \<noteq> []"
  proof -
    have u: "?u \<noteq> []" using h(1) by (auto simp: hasPrefix_def)
    have r: "hasPrefix (?u @ ''/'' @ ?c) ''/''" using h(1) by (cases ?u) (auto simp: hasPrefix_def)
    have "?j = pathClean (?u @ ''/'' @ ?c)"
      using h u pathClean_rooted(1) [OF r] by (simp add: joinPaths_def Let_def pathJoin_def ensureLeadingSlash_def)
    with pathClean_rooted(2) [OF r] show ?thesis by simp
  qed
  with path joinPaths_rooted show ?thesis by blast
qed

theorem serviceProxyPath_on_service_witness:
  "(let t = zeroTarget\<lparr>rt_ServiceNamespace := ''ns'', rt_ServiceName := ''app'', rt_ServicePort := ''web'', rt_UpstreamPath := ''/logs''\<rparr> in
    serviceProxyPath t ''/../../../../secrets'' = ''/api/v1/namespaces/ns/services/app:web/proxy/secrets''
    \<and> (\<exists>tl. serviceProxyPath t ''/../../../../secrets'' = serviceBase ''ns'' @ ''app:web/proxy'' @ tl \<and> ''..'' \<notin> set (splitAll CHR ''/'' tl)))"
proof -
  let ?t = "zeroTarget\<lparr>rt_ServiceNamespace := ''ns'', rt_ServiceName := ''app'', rt_ServicePort := ''web'', rt_UpstreamPath := ''/logs''\<rparr>"
  have h: "hasPrefix (trimSpace (rt_UpstreamPath ?t)) ''/''" "trimSpace (rt_UpstreamPath ?t) \<noteq> ''/''"
    "trimSpace (trimPrefix ''/../../../../secrets'' ''/'') \<noteq> []" by code_simp+
  have "serviceProxyPath ?t ''/../../../../secrets'' = ''/api/v1/namespaces/ns/services/app:web/proxy/secrets''" by code_simp
  with serviceProxyPath_on_service [of ?t "''/../../../../secrets''"] h show ?thesis by (auto simp: Let_def)
qed

text \<open>The declared upstream path does not confine a caller's tail: the tail is appended for every verb
  and joined with \<^verbatim>\<open>..\<close> elements resolved, so a verb declared for \<^verbatim>\<open>/logs\<close> reaches the agent's \<^verbatim>\<open>/exec\<close>, and
  under an upstream path of \<^verbatim>\<open>/\<close> the tail is sent as it came, \<^verbatim>\<open>..\<close> elements included.\<close>

theorem joinPaths_tail_escapes_upstream:
  "joinPaths ''/logs'' ''/../exec'' = ''/exec'' \<and> joinPaths ''/'' ''/../../../secrets'' = ''/../../../secrets''"
  by code_simp

section \<open>The activity marker\<close>

text \<open>The activity marker is patched in the tenant's own runtime namespace: for a contract that
  publishes its namespace at \<^verbatim>\<open>status.runtimeNamespace\<close>, once that value was checked against the
  derived namespace, the object named by \<^verbatim>\<open>status.runtimeRef\<close> is patched only when it lies there.\<close>

theorem activity_confined:
  assumes "dp_RuntimeNamespacePath contract = ''status.runtimeNamespace''"
    and "validateRuntimeNamespace U (Some contract) (Some i) expected = Inr ()"
    and "activityTarget U parseGV i = Inr ref"
  shows "ar_Namespace ref = trimSpace expected \<and> ar_Name ref \<noteq> [] \<and> ar_Resource ref \<noteq> [] \<and> ar_Group ref \<noteq> []"
proof -
  have sp: "splitPath ''status.runtimeNamespace'' = Inr [''status'', ''runtimeNamespace'']" by code_simp
  from assms(1,2) obtain v where v: "nestedStr U i [''status'', ''runtimeNamespace''] = Inr (Some v)"
    and t: "trimSpace v = trimSpace expected" "trimSpace v \<noteq> []"
    by (auto simp: validateRuntimeNamespace_def nestedString_def sp andThen_Inr Let_def split: sum.splits option.splits if_splits)
  from t(2) have "v \<noteq> []" by auto
  from assms(3) v \<open>v \<noteq> []\<close> obtain m where "ar_Namespace ref = trimSpace (asStr (jget m ''namespace''))" "ar_Namespace ref = v"
    and "ar_Name ref \<noteq> [] \<and> ar_Resource ref \<noteq> [] \<and> ar_Group ref \<noteq> []"
    by (auto simp: activityTarget_def Let_def split: sum.splits option.splits prod.splits if_splits)
  with t(1) show ?thesis by (metis trimSpace_idem)
qed

definition demo_ref :: "string \<Rightarrow> string \<Rightarrow> json" where
  "demo_ref field ns = JObj [(''status'', JObj [(field, JStr ''ws-default''),
     (''runtimeRef'', JObj [(''apiVersion'', JStr ''g/v1''), (''resource'', JStr ''apps''), (''namespace'', JStr ns), (''name'', JStr ''demo'')])])]"

definition demo_parseGV :: "string \<Rightarrow> goError + string \<times> string" where
  "demo_parseGV s = (case splitAll CHR ''/'' s of [g, v] \<Rightarrow> Inr (g, v) | [v] \<Rightarrow> Inr ([], v) | _ \<Rightarrow> Inl (Errorf ''unexpected GroupVersion string: %v'' [s]))"

theorem activity_confined_witness:
  "\<exists>ref. activityTarget reference_unstr demo_parseGV (demo_ref ''runtimeNamespace'' ''ws-default'') = Inr ref \<and> ar_Namespace ref = ''ws-default''"
proof -
  let ?ref = "\<lparr>ar_Group = ''g'', ar_Version = ''v1'', ar_Resource = ''apps'', ar_Namespace = ''ws-default'', ar_Name = ''demo''\<rparr>"
  have a: "activityTarget reference_unstr demo_parseGV (demo_ref ''runtimeNamespace'' ''ws-default'') = Inr ?ref" by code_simp
  have v: "validateRuntimeNamespace reference_unstr (Some sample_contract) (Some (demo_ref ''runtimeNamespace'' ''ws-default'')) ''ws-default'' = Inr ()"
    by code_simp
  have "dp_RuntimeNamespacePath sample_contract = ''status.runtimeNamespace''" by (simp add: sample_contract_def)
  from activity_confined [OF this v a] have "ar_Namespace ?ref = trimSpace ''ws-default''" by simp
  also have "trimSpace ''ws-default'' = ''ws-default''" by code_simp
  finally show ?thesis using a by blast
qed

text \<open>The marker's own check reads the fixed field \<^verbatim>\<open>status.runtimeNamespace\<close>, not the contract's
  \<^verbatim>\<open>runtimeNamespacePath\<close>: for a contract that publishes the namespace elsewhere the handler's check passes
  and a \<^verbatim>\<open>runtimeRef\<close> into another tenant's namespace is accepted as the object to patch.\<close>

theorem activity_other_path_unconfined:
  "validateRuntimeNamespace reference_unstr (Some (sample_contract\<lparr>dp_RuntimeNamespacePath := ''status.namespace''\<rparr>))
      (Some (demo_ref ''namespace'' ''other-default'')) ''ws-default'' = Inr ()
   \<and> (case activityTarget reference_unstr demo_parseGV (demo_ref ''namespace'' ''other-default'') of
        Inr ref \<Rightarrow> ar_Namespace ref = ''other-default'' | Inl e \<Rightarrow> False)"
  by code_simp

end
