(* ===== verification/Interaction.thy ===== *)
theory Interaction
  imports Main "HOL-Library.Sublist"
begin

text \<open>
  Programs that talk to the outside world. A controller operation is a tree: it either returns a
  value or issues a request and continues with the answer. Nothing is assumed of the answers, so a
  statement about all of them covers concurrent writers, lost responses and stale reads. \<open>run\<close>
  executes a program against a world, a function from the requests and answers so far to the next
  answer; it is total, so every operation of the model returns once its calls do.

  Two judgements on programs are used: \<open>onlyAsks\<close> (every request satisfies a predicate) and
  \<open>wp\<close> (every request satisfies a guarantee that may depend on the history, and the result
  satisfies a postcondition); both are compositional, and \<open>wp_run\<close> turns the second one into a
  statement about the trace of an execution.
\<close>

section \<open>Programs\<close>

datatype ('q, 'r, 'a) prog =
    Ret 'a
  | Ask 'q "'r \<Rightarrow> ('q, 'r, 'a) prog"

primrec bind :: "('q, 'r, 'a) prog \<Rightarrow> ('a \<Rightarrow> ('q, 'r, 'b) prog) \<Rightarrow> ('q, 'r, 'b) prog" where
  "bind (Ret a) f = f a"
| "bind (Ask q k) f = Ask q (\<lambda>r. bind (k r) f)"

text \<open>Continue with the result, or return the error: \<^verbatim>\<open>if err != nil { return err }\<close>.\<close>

definition bindE :: "('q, 'r, 'e + 'a) prog \<Rightarrow> ('a \<Rightarrow> ('q, 'r, 'e + 'b) prog) \<Rightarrow> ('q, 'r, 'e + 'b) prog" where
  "bindE p f = bind p (\<lambda>x. case x of Inl e \<Rightarrow> Ret (Inl e) | Inr a \<Rightarrow> f a)"

text \<open>The same, with the error wrapped on the way.\<close>

definition wrapE :: "('e \<Rightarrow> 'f) \<Rightarrow> ('q, 'r, 'e + 'a) prog \<Rightarrow> ('q, 'r, 'f + 'a) prog" where
  "wrapE w p = bind p (\<lambda>x. Ret (case x of Inl e \<Rightarrow> Inl (w e) | Inr a \<Rightarrow> Inr a))"

text \<open>A loop over a list that stops at the first error.\<close>

primrec eachE :: "('x \<Rightarrow> ('q, 'r, 'e + unit) prog) \<Rightarrow> 'x list \<Rightarrow> ('q, 'r, 'e + unit) prog" where
  "eachE f [] = Ret (Inr ())"
| "eachE f (x # xs) = bindE (f x) (\<lambda>_. eachE f xs)"

lemma bind_assoc: "bind (bind p f) g = bind p (\<lambda>a. bind (f a) g)"
  by (induction p) auto

lemma bind_Ret [simp]: "bind p Ret = p"
  by (induction p) auto

lemma bindE_simps [simp]:
  "bindE (Ret (Inr a)) f = f a" "bindE (Ret (Inl e)) f = Ret (Inl e)"
  "bindE (Ask q k) f = Ask q (\<lambda>r. bindE (k r) f)"
  by (simp_all add: bindE_def)

section \<open>Execution\<close>

type_synonym ('q, 'r) history = "('q \<times> 'r) list"

type_synonym ('q, 'r) world = "('q, 'r) history \<Rightarrow> 'q \<Rightarrow> 'r"

primrec run :: "('q, 'r) world \<Rightarrow> ('q, 'r, 'a) prog \<Rightarrow> ('q, 'r) history \<Rightarrow> ('q, 'r) history \<times> 'a" where
  "run w (Ret a) h = (h, a)"
| "run w (Ask q k) h = run w (k (w h q)) (h @ [(q, w h q)])"

lemma run_bind: "run w (bind p f) h = (case run w p h of (h', a) \<Rightarrow> run w (f a) h')"
  by (induction p arbitrary: h) auto

text \<open>Requests are only ever appended.\<close>

lemma run_prefix: "prefix h (fst (run w p h))"
proof (induction p arbitrary: h)
  case (Ask q k)
  have "prefix h (h @ [(q, w h q)])" by simp
  also have "prefix \<dots> (fst (run w (k (w h q)) (h @ [(q, w h q)])))" by (rule Ask.IH) simp
  finally show ?case by simp
qed simp

section \<open>Footprints\<close>

primrec onlyAsks :: "('q \<Rightarrow> bool) \<Rightarrow> ('q, 'r, 'a) prog \<Rightarrow> bool" where
  "onlyAsks P (Ret a) = True"
| "onlyAsks P (Ask q k) = (P q \<and> (\<forall>r. onlyAsks P (k r)))"

lemma onlyAsks_bind: "onlyAsks P p \<Longrightarrow> (\<And>a. onlyAsks P (f a)) \<Longrightarrow> onlyAsks P (bind p f)"
  by (induction p) auto

lemma onlyAsks_bindE: "onlyAsks P p \<Longrightarrow> (\<And>a. onlyAsks P (f a)) \<Longrightarrow> onlyAsks P (bindE p f)"
  unfolding bindE_def by (rule onlyAsks_bind) (auto split: sum.split)

lemma onlyAsks_wrapE: "onlyAsks P p \<Longrightarrow> onlyAsks P (wrapE w p)"
  unfolding wrapE_def by (rule onlyAsks_bind) auto

lemma onlyAsks_eachE: "(\<And>x. x \<in> set xs \<Longrightarrow> onlyAsks P (f x)) \<Longrightarrow> onlyAsks P (eachE f xs)"
  by (induction xs) (auto intro!: onlyAsks_bindE)

lemma onlyAsks_mono: "onlyAsks P p \<Longrightarrow> (\<And>q. P q \<Longrightarrow> R q) \<Longrightarrow> onlyAsks R p"
  by (induction p) auto

named_theorems footprint \<open>which requests an operation issues\<close>

lemmas onlyAsks_rules = onlyAsks_bind onlyAsks_bindE onlyAsks_wrapE onlyAsks_eachE

section \<open>Guarantees that depend on the history\<close>

primrec wp :: "(('q, 'r) history \<Rightarrow> 'q \<Rightarrow> bool) \<Rightarrow> ('q, 'r, 'a) prog \<Rightarrow>
    ('a \<Rightarrow> ('q, 'r) history \<Rightarrow> bool) \<Rightarrow> ('q, 'r) history \<Rightarrow> bool" where
  "wp G (Ret a) Q h = Q a h"
| "wp G (Ask q k) Q h = (G h q \<and> (\<forall>r. wp G (k r) Q (h @ [(q, r)])))"

lemma wp_Ret: "wp G (Ret a) Q = Q a"
  by (rule ext) simp

lemma wp_bind: "wp G (bind p f) Q h = wp G p (\<lambda>a. wp G (f a) Q) h"
  by (induction p arbitrary: h) auto

lemma wp_mono: "wp G p Q h \<Longrightarrow> (\<And>a h'. prefix h h' \<Longrightarrow> Q a h' \<Longrightarrow> R a h') \<Longrightarrow> wp G p R h"
proof (induction p arbitrary: h)
  case (Ask q k)
  show ?case
  proof (simp, intro conjI allI)
    show "G h q" using Ask.prems(1) by simp
    fix r
    have "prefix h (h @ [(q, r)])" by simp
    then have "\<And>a h'. prefix (h @ [(q, r)]) h' \<Longrightarrow> Q a h' \<Longrightarrow> R a h'"
      using Ask.prems(2) prefix_order.trans by blast
    moreover have "wp G (k r) Q (h @ [(q, r)])" using Ask.prems(1) by simp
    ultimately show "wp G (k r) R (h @ [(q, r)])" by (intro Ask.IH) auto
  qed
qed simp

lemma wp_bindE:
  "wp G (bindE p f) Q h = wp G p (\<lambda>x h'. case x of Inl e \<Rightarrow> Q (Inl e) h' | Inr a \<Rightarrow> wp G (f a) Q h') h"
proof -
  have e: "\<And>x. wp G (case x of Inl e \<Rightarrow> Ret (Inl e) | Inr a \<Rightarrow> f a) Q
      = (\<lambda>h'. case x of Inl e \<Rightarrow> Q (Inl e) h' | Inr a \<Rightarrow> wp G (f a) Q h')"
    by (auto split: sum.split)
  show ?thesis unfolding bindE_def wp_bind by (simp only: e)
qed

lemma wp_wrapE:
  "wp G (wrapE w p) Q h = wp G p (\<lambda>x h'. Q (case x of Inl e \<Rightarrow> Inl (w e) | Inr a \<Rightarrow> Inr a) h') h"
  unfolding wrapE_def wp_bind by (simp only: wp_Ret)

lemmas wp_rules = wp_bind wp_bindE wp_wrapE

text \<open>A program whose requests all satisfy \<open>P\<close> meets any guarantee that \<open>P\<close> implies.\<close>

lemma wp_onlyAsks:
  "onlyAsks P p \<Longrightarrow> (\<And>h' q. prefix h h' \<Longrightarrow> P q \<Longrightarrow> G h' q) \<Longrightarrow>
   (\<And>a h'. prefix h h' \<Longrightarrow> Q a h') \<Longrightarrow> wp G p Q h"
proof (induction p arbitrary: h)
  case (Ask q k)
  show ?case
  proof (simp, intro conjI allI)
    show "G h q" using Ask.prems by simp
    fix r
    have up: "\<And>h'. prefix (h @ [(q, r)]) h' \<Longrightarrow> prefix h h'" by (meson append_prefixD)
    show "wp G (k r) Q (h @ [(q, r)])"
      by (rule Ask.IH) (use Ask.prems up in auto)
  qed
qed simp

lemma wp_weaken:
  "wp G p Q h \<Longrightarrow> (\<And>h' q. prefix h h' \<Longrightarrow> G h' q \<Longrightarrow> G' h' q) \<Longrightarrow> wp G' p Q h"
proof (induction p arbitrary: h)
  case (Ask q k)
  show ?case
  proof (simp, intro conjI allI)
    show "G' h q" using Ask.prems by simp
    fix r
    have up: "\<And>h'. prefix (h @ [(q, r)]) h' \<Longrightarrow> prefix h h'" by (meson append_prefixD)
    show "wp G' (k r) Q (h @ [(q, r)])"
      by (rule Ask.IH) (use Ask.prems up in auto)
  qed
qed simp

lemma onlyAsks_any [simp]: "onlyAsks (\<lambda>_. True) p"
  by (induction p) auto

text \<open>The footprint may be used together with a postcondition proved separately.\<close>

lemma wp_conj_onlyAsks:
  "onlyAsks P p \<Longrightarrow> (\<And>h' q. prefix h h' \<Longrightarrow> P q \<Longrightarrow> G h' q) \<Longrightarrow>
   wp (\<lambda>_ _. True) p Q h \<Longrightarrow> wp G p Q h"
proof (induction p arbitrary: h)
  case (Ask q k)
  show ?case
  proof (simp, intro conjI allI)
    show "G h q" using Ask.prems by simp
    fix r
    have up: "\<And>h'. prefix (h @ [(q, r)]) h' \<Longrightarrow> prefix h h'" by (meson append_prefixD)
    show "wp G (k r) Q (h @ [(q, r)])"
      by (rule Ask.IH) (use Ask.prems up in auto)
  qed
qed simp

text \<open>The guarantee holds at every request of an execution.\<close>

definition obeys :: "(('q, 'r) history \<Rightarrow> 'q \<Rightarrow> bool) \<Rightarrow> nat \<Rightarrow> ('q, 'r) history \<Rightarrow> bool" where
  "obeys G n h \<longleftrightarrow> (\<forall>i. n \<le> i \<longrightarrow> i < length h \<longrightarrow> G (take i h) (fst (h ! i)))"

theorem wp_run:
  "wp G p Q h \<Longrightarrow> obeys G (length h) (fst (run w p h)) \<and> Q (snd (run w p h)) (fst (run w p h))"
proof (induction p arbitrary: h)
  case (Ask q k)
  let ?h = "h @ [(q, w h q)]" and ?t = "fst (run w (k (w h q)) (h @ [(q, w h q)]))"
  have "wp G (k (w h q)) Q ?h" using Ask.prems by simp
  then have IH: "obeys G (length ?h) ?t" "Q (snd (run w (k (w h q)) ?h)) ?t"
    using Ask.IH [OF rangeI, of "w h q" ?h] by auto
  obtain s where s: "?t = ?h @ s" using run_prefix [of ?h w "k (w h q)"] by (auto simp: prefix_def)
  have "G (take (length h) ?t) (fst (?t ! length h))" using Ask.prems by (simp add: s nth_append)
  with IH(1) have "obeys G (length h) ?t"
    unfolding obeys_def by (metis Suc_leI le_neq_implies_less length_append_singleton)
  with IH(2) show ?case by simp
qed (simp add: obeys_def)

corollary wp_trace:
  assumes "wp G p Q []" and "run w p [] = (tr, a)"
  shows "obeys G 0 tr \<and> Q a tr"
  using wp_run [OF assms(1), of w] assms(2) by simp

corollary onlyAsks_trace:
  assumes "onlyAsks P p" and "run w p [] = (tr, a)" and "e \<in> set tr"
  shows "P (fst e)"
proof -
  have "wp (\<lambda>_ q. P q) p (\<lambda>_ _. True) []" by (rule wp_onlyAsks [OF assms(1)]) auto
  from wp_trace [OF this assms(2)] have "obeys (\<lambda>_ q. P q) 0 tr" by simp
  with assms(3) show ?thesis by (auto simp: obeys_def in_set_conv_nth)
qed

end
