(* ===== verification/Instance_Spec.thy ===== *)
theory Instance_Spec
  imports Api_Types Kro_Naming
begin

text \<open>
  What a Template says about its instances: the effective values schema of
  \<^verbatim>\<open>instancespec/instancespec.go\<close> and the exposure gate of
  \<^verbatim>\<open>controller/instance/stamp.go\<close>. Decoding a schema and compiling it (structural schema,
  OpenAPI and CEL validators) is code of \<^verbatim>\<open>apiextensions-apiserver\<close>: the record
  \<open>schemaLib\<close> holds those functions.
\<close>

section \<open>The effective schema\<close>

text \<open>\<^verbatim>\<open>apiextensionsv1.JSONSchemaProps\<close>, with the fields the provider reads or writes. The raw
  JSON of an enumeration value or a default is the value it denotes.\<close>

datatype schemaProps =
  SchemaProps (sp_Type: string) (sp_Description: string) (sp_Enum: "json list")
    (sp_Default: "json option") (sp_Properties: "(string \<times> schemaProps) list")

definition setProperty :: "string \<Rightarrow> schemaProps \<Rightarrow> schemaProps \<Rightarrow> schemaProps" where
  "setProperty k p s =
     SchemaProps (sp_Type s) (sp_Description s) (sp_Enum s) (sp_Default s) (mput k p (sp_Properties s))"

definition declares :: "schemaProps \<Rightarrow> string \<Rightarrow> bool" where
  "declares s k \<longleftrightarrow> map_of (sp_Properties s) k \<noteq> None"

definition RailgridModeField :: string where "RailgridModeField = ''railgridMode''"
definition RailgridModeProduction :: string where "RailgridModeProduction = ''production''"
definition RailgridModeDevelopment :: string where "RailgridModeDevelopment = ''development''"

definition railgridActionsFields :: "string list" where
  "railgridActionsFields =
     [''railgridActionsExchangeURL'', ''railgridActionsBaseURL'', ''railgridActionsTenantPath'',
      ''railgridActionsOrg'', ''railgridActionsWorkspace'', ''railgridActionsProject'',
      ''railgridActionsProjectUID'', ''railgridActionsEnvironment'', ''railgridActionsInstance'',
      ''railgridActionsCABundle'']"

definition modeProperty :: "bool \<Rightarrow> schemaProps" where
  "modeProperty dev =
     SchemaProps ''string''
       (if dev
        then ''Platform-reserved provisioning mode. In development mode the declared development components run platform-managed dev images with the hot-reload agent; everything else runs as declared.''
        else ''Platform-reserved provisioning mode. This template is production-only.'')
       ([JStr RailgridModeProduction] @ (if dev then [JStr RailgridModeDevelopment] else []))
       (Some (JStr RailgridModeProduction)) []"

definition injectRailgridMode :: "schemaProps \<Rightarrow> template \<Rightarrow> goError + schemaProps" where
  "injectRailgridMode spec tmpl =
     (if declares spec RailgridModeField
      then Inl (Errorf ''spec.schema declares reserved property %q; the platform injects it'' [RailgridModeField])
      else Inr (setProperty RailgridModeField (modeProperty (ts_Development (tm_Spec tmpl) \<noteq> None)) spec))"

definition actionsProperty :: schemaProps where
  "actionsProperty =
     SchemaProps ''string'' ''Platform-reserved Provider Actions context; values are supplied by App Studio.''
       [] (Some (JStr [])) []"

definition injectRailgridActions :: "schemaProps \<Rightarrow> bool \<Rightarrow> goError + schemaProps" where
  "injectRailgridActions spec enabled =
     (case filter (declares spec) railgridActionsFields of
        f # _ \<Rightarrow> Inl (Errorf ''spec.schema declares reserved property %q; the platform injects Provider Actions context'' [f])
      | [] \<Rightarrow>
          if \<not> enabled then Inr spec
          else Inr (fold (\<lambda>f s. setProperty f actionsProperty s) railgridActionsFields spec))"

definition phaseProperty :: schemaProps where
  "phaseProperty =
     SchemaProps ''string'' ''Platform-reserved network phase. Setup egress is removed when the runtime graph becomes Ready.''
       [JStr NetworkPhaseSetup, JStr NetworkPhaseRuntime] (Some (JStr NetworkPhaseSetup)) []"

definition injectRailgridNetworkPhase :: "schemaProps \<Rightarrow> bool \<Rightarrow> goError + schemaProps" where
  "injectRailgridNetworkPhase spec enabled =
     (if declares spec NetworkPhaseField
      then Inl (Errorf ''spec.schema declares reserved property %q; the platform injects network phase'' [NetworkPhaseField])
      else if \<not> enabled then Inr spec
      else Inr (setProperty NetworkPhaseField phaseProperty spec))"

text \<open>\<^verbatim>\<open>instancespec.Contract\<close>: the three compiled validators. \<open>sl_decode\<close> is
  \<^verbatim>\<open>json.Unmarshal\<close> into \<^verbatim>\<open>JSONSchemaProps\<close>, \<open>sl_compile\<close> the conversion to a
  structural schema and the construction of the validators.\<close>

record contract =
  ct_default :: "json \<Rightarrow> json"
  ct_openapi :: "json \<Rightarrow> string list"
  ct_cel :: "json \<Rightarrow> string list"

record schemaLib =
  sl_decode :: "json \<Rightarrow> goError + schemaProps"
  sl_compile :: "schemaProps \<Rightarrow> goError + contract"

definition effectiveSchema :: "schemaLib \<Rightarrow> template \<Rightarrow> goError + schemaProps" where
  "effectiveSchema L tmpl =
     (let dev = (ts_Development (tm_Spec tmpl) \<noteq> None) in
      case ts_Schema (tm_Spec tmpl) of
        RawAbsent \<Rightarrow> Inl (Errorf ''template.spec.schema is required'' [])
      | RawInvalid \<Rightarrow> Inl (Errorf ''decode spec.schema as JSONSchemaProps: %w'' [])
      | RawJson j \<Rightarrow>
          andThen (mapErr (Wrapf ''decode spec.schema as JSONSchemaProps: %w'' []) (sl_decode L j)) (\<lambda>spec.
          andThen (injectRailgridMode spec tmpl) (\<lambda>spec.
          andThen (injectRailgridActions spec dev) (\<lambda>spec.
          injectRailgridNetworkPhase spec dev))))"

definition newContract :: "schemaLib \<Rightarrow> template \<Rightarrow> goError + contract" where
  "newContract L tmpl = andThen (effectiveSchema L tmpl) (sl_compile L)"

text \<open>\<^verbatim>\<open>ValidateAndDefault\<close>; nil values are the empty object.\<close>

definition validateAndDefault :: "contract \<Rightarrow> jmap option \<Rightarrow> json \<times> string list" where
  "validateAndDefault c values0 =
     (let values = (case values0 of None \<Rightarrow> [] | Some m \<Rightarrow> m);
          defaulted = ct_default c (JObj values)
      in (defaulted, ct_openapi c defaulted @ ct_cel c defaulted))"

section \<open>Exposure traits and the gate\<close>

definition modeNone :: string where "modeNone = ''none''"
definition modeBYO :: string where "modeBYO = ''byo''"
definition modePlatform :: string where "modePlatform = ''platform''"

lemmas gate_modes = modeNone_def modeBYO_def modePlatform_def

record templateTraits =
  tt_publishable :: bool
  tt_optionalExposure :: bool
  tt_hasFQDN :: bool
  tt_hasOIDC :: bool
  tt_gateRequired :: bool
  tt_hasCredentials :: bool
  tt_hasRailgridCluster :: bool

definition oidcModeAllowsNone :: "schemaProps \<Rightarrow> bool" where
  "oidcModeAllowsNone oidc =
     (case map_of (sp_Properties oidc) ''mode'' of
        None \<Rightarrow> True
      | Some mode \<Rightarrow> sp_Enum mode = [] \<or> list_ex (\<lambda>e. isStr e = Some modeNone) (sp_Enum mode))"

definition traitsFor :: "schemaLib \<Rightarrow> template \<Rightarrow> goError + templateTraits" where
  "traitsFor L tmpl =
     andThen (effectiveSchema L tmpl) (\<lambda>spec.
       let expose = map_of (sp_Properties spec) ''expose''; oidc = map_of (sp_Properties spec) ''oidc'' in
       Inr \<lparr> tt_publishable = publishable (tm_Spec tmpl),
             tt_optionalExposure = (exposureClass (tm_Spec tmpl) = ''optional''),
             tt_hasFQDN = (case expose of None \<Rightarrow> False | Some e \<Rightarrow> declares e ''fqdn''),
             tt_hasOIDC = (oidc \<noteq> None),
             tt_gateRequired = (case oidc of None \<Rightarrow> False | Some p \<Rightarrow> \<not> oidcModeAllowsNone p),
             tt_hasCredentials = declares spec ''credentialsSecretName'',
             tt_hasRailgridCluster = declares spec ''railgridCluster'' \<rparr>)"

record conditionSpec =
  cs_condType :: string
  cs_status :: bool  \<comment> \<open>\<^verbatim>\<open>ConditionTrue\<close> or \<^verbatim>\<open>ConditionFalse\<close>; the code uses no other\<close>
  cs_reason :: string
  cs_message :: string

definition statusText :: "bool \<Rightarrow> string" where
  "statusText b = (if b then ''True'' else ''False'')"

definition ConditionInstanceValid :: string where "ConditionInstanceValid = ''Valid''"
definition oidcConditionType :: string where "oidcConditionType = ''OIDCConfigured''"

definition validCondition :: "bool \<Rightarrow> string \<Rightarrow> string \<Rightarrow> conditionSpec" where
  "validCondition status reason message =
     \<lparr> cs_condType = ConditionInstanceValid, cs_status = status, cs_reason = reason, cs_message = message \<rparr>"

definition oidcCondition :: "bool \<Rightarrow> string \<Rightarrow> string \<Rightarrow> conditionSpec" where
  "oidcCondition status reason message =
     \<lparr> cs_condType = oidcConditionType, cs_status = status, cs_reason = reason, cs_message = message \<rparr>"

record gateDecision =
  gd_cond :: "conditionSpec option"
  gd_stamp :: bool
  gd_withCredentials :: bool
  gd_bridgeOIDC :: bool

text \<open>The bytes of an em dash, which the messages contain.\<close>

definition emDash :: string where "emDash = [CHR '' '', CHR 0xE2, CHR 0x80, CHR 0x94, CHR '' '']"

definition notExposed :: conditionSpec where
  "notExposed = oidcCondition True ''NotExposed''
     (''not published on a hostname'' @ emDash @ ''reachable only over the platform data plane, authorized per caller'')"

definition gateRequired :: conditionSpec where
  "gateRequired = oidcCondition False ''GateRequired''
     (''this instance has no authentication of its own, so it cannot be published without an OIDC gate'' @ emDash @ ''set oidc.mode=byo or unset expose.enabled'')"

definition gateDisabled :: conditionSpec where
  "gateDisabled = oidcCondition True ''GateDisabled''
     (''oidc.mode=none'' @ emDash @ ''no auth gate (demo/dev only); anyone with the URL can reach the app'')"

definition gateConfigured :: conditionSpec where
  "gateConfigured = oidcCondition True ''Configured''
     ''BYO OIDC client secret bridged from the tenant's cloud-credentials Secret''"

definition platformSSOUnsupported :: conditionSpec where
  "platformSSOUnsupported = oidcCondition False ''PlatformSSOUnsupported''
     ''oidc.mode=platform was retired; configure public or organization invite-only access when publishing the app''"

definition decideGate :: "templateTraits \<Rightarrow> bool \<Rightarrow> string \<Rightarrow> goError + gateDecision" where
  "decideGate traits exposeEnabled mode0 =
     (let exposed = (tt_publishable traits \<and> (\<not> tt_optionalExposure traits \<or> exposeEnabled));
          mode = (if mode0 = [] then modeNone else mode0) in
      if \<not> tt_hasOIDC traits
      then Inr \<lparr> gd_cond = None, gd_stamp = exposed \<and> tt_hasFQDN traits, gd_withCredentials = False, gd_bridgeOIDC = False \<rparr>
      else if tt_optionalExposure traits \<and> \<not> exposeEnabled
      then Inr \<lparr> gd_cond = Some notExposed, gd_stamp = False, gd_withCredentials = False, gd_bridgeOIDC = False \<rparr>
      else if tt_gateRequired traits \<and> mode = modeNone
      then Inr \<lparr> gd_cond = Some gateRequired, gd_stamp = False, gd_withCredentials = False, gd_bridgeOIDC = False \<rparr>
      else if mode = modeNone
      then Inr \<lparr> gd_cond = Some gateDisabled, gd_stamp = True, gd_withCredentials = tt_hasCredentials traits, gd_bridgeOIDC = False \<rparr>
      else if mode = modeBYO
      then Inr \<lparr> gd_cond = Some gateConfigured, gd_stamp = True, gd_withCredentials = tt_hasCredentials traits, gd_bridgeOIDC = True \<rparr>
      else if mode = modePlatform
      then Inr \<lparr> gd_cond = Some platformSSOUnsupported, gd_stamp = True, gd_withCredentials = tt_hasCredentials traits, gd_bridgeOIDC = False \<rparr>
      else Inl (Errorf ''unknown oidc.mode %q'' [mode]))"

section \<open>The platform owns the reserved fields\<close>

definition reservedFields :: "string list" where
  "reservedFields = RailgridModeField # NetworkPhaseField # railgridActionsFields"

lemma sp_Properties_setProperty [simp]:
  "map_of (sp_Properties (setProperty k p s)) = (map_of (sp_Properties s))(k \<mapsto> p)"
  by (simp add: setProperty_def)

lemma declares_setProperty [simp]: "declares (setProperty k p s) f \<longleftrightarrow> f = k \<or> declares s f"
  by (simp add: declares_def)

lemma reserved_distinct:
  "RailgridModeField \<noteq> NetworkPhaseField" "RailgridModeField \<notin> set railgridActionsFields"
  "NetworkPhaseField \<notin> set railgridActionsFields" "distinct railgridActionsFields"
  by (simp_all add: RailgridModeField_def NetworkPhaseField_def railgridActionsFields_def)

lemma fold_setProperty:
  "map_of (sp_Properties (fold (\<lambda>f s. setProperty f p s) fs s)) k
     = (if k \<in> set fs then Some p else map_of (sp_Properties s) k)"
  by (induction fs arbitrary: s) auto

lemma injectRailgridMode_ok:
  "injectRailgridMode s t = Inr s' \<longleftrightarrow> \<not> declares s RailgridModeField \<and>
     s' = setProperty RailgridModeField (modeProperty (ts_Development (tm_Spec t) \<noteq> None)) s"
  unfolding injectRailgridMode_def if_err_ok sum.inject by (simp only: eq_commute [of s'])

lemma injectRailgridActions_ok:
  "injectRailgridActions s b = Inr s' \<longleftrightarrow> (\<forall>f \<in> set railgridActionsFields. \<not> declares s f) \<and>
     s' = (if b then fold (\<lambda>f s. setProperty f actionsProperty s) railgridActionsFields s else s)"
proof (cases "filter (declares s) railgridActionsFields")
  case Nil
  then have "\<forall>f \<in> set railgridActionsFields. \<not> declares s f" by (simp add: filter_empty_conv)
  with Nil show ?thesis unfolding injectRailgridActions_def by (simp add: eq_commute [of s'])
next
  case (Cons f fs)
  then have "f \<in> set railgridActionsFields \<and> declares s f" by (metis filter_eq_ConsD in_set_conv_decomp)
  with Cons show ?thesis unfolding injectRailgridActions_def by auto
qed

lemma injectRailgridNetworkPhase_ok:
  "injectRailgridNetworkPhase s b = Inr s' \<longleftrightarrow> \<not> declares s NetworkPhaseField \<and>
     s' = (if b then setProperty NetworkPhaseField phaseProperty s else s)"
  unfolding injectRailgridNetworkPhase_def if_err_ok by (cases b) (simp_all add: eq_commute [of s'])

lemma modeProperty_development:
  "JStr RailgridModeDevelopment \<in> set (sp_Enum (modeProperty d)) \<longleftrightarrow> d"
  unfolding modeProperty_def schemaProps.sel by (simp add: RailgridModeDevelopment_def RailgridModeProduction_def)

lemma phaseProperty_sel:
  "sp_Enum phaseProperty = [JStr NetworkPhaseSetup, JStr NetworkPhaseRuntime]"
  "sp_Default phaseProperty = Some (JStr NetworkPhaseSetup)"
  unfolding phaseProperty_def schemaProps.sel by (rule refl)+

text \<open>A template's effective values schema exists only when its author's schema declares none of the
  platform-reserved properties. It then agrees with the author's schema on every other property;
  the provisioning mode is always there and offers development exactly for a template with a
  development block; the network phase and the Provider Actions context are there exactly for such a
  template, the phase limited to setup and runtime with setup as its default.\<close>

theorem effective_schema_reserved:
  assumes "effectiveSchema L t = Inr s"
  shows "\<exists>j a. ts_Schema (tm_Spec t) = RawJson j \<and> sl_decode L j = Inr a
     \<and> (\<forall>f \<in> set reservedFields. \<not> declares a f)
     \<and> (\<forall>f. f \<notin> set reservedFields \<longrightarrow> map_of (sp_Properties s) f = map_of (sp_Properties a) f)
     \<and> (\<exists>m. map_of (sp_Properties s) RailgridModeField = Some m
          \<and> (JStr RailgridModeDevelopment \<in> set (sp_Enum m) \<longleftrightarrow> ts_Development (tm_Spec t) \<noteq> None))
     \<and> (\<forall>f \<in> set (NetworkPhaseField # railgridActionsFields). declares s f \<longleftrightarrow> ts_Development (tm_Spec t) \<noteq> None)
     \<and> (\<forall>p. map_of (sp_Properties s) NetworkPhaseField = Some p \<longrightarrow>
          set (sp_Enum p) = {JStr NetworkPhaseSetup, JStr NetworkPhaseRuntime} \<and> sp_Default p = Some (JStr NetworkPhaseSetup))"
proof -
  let ?d = "ts_Development (tm_Spec t) \<noteq> None"
  obtain j where j: "ts_Schema (tm_Spec t) = RawJson j"
    using assms by (cases "ts_Schema (tm_Spec t)") (auto simp: effectiveSchema_def Let_def)
  from assms j obtain a s1 s2 where a: "sl_decode L j = Inr a"
    and s1: "injectRailgridMode a t = Inr s1" and s2: "injectRailgridActions s1 ?d = Inr s2"
    and s: "injectRailgridNetworkPhase s2 ?d = Inr s"
    unfolding effectiveSchema_def Let_def by (auto simp: go_err)
  note s1' = s1 [unfolded injectRailgridMode_ok] and s2' = s2 [unfolded injectRailgridActions_ok]
    and s' = s [unfolded injectRailgridNetworkPhase_ok]
  have na: "\<not> declares a f" if "f \<in> set railgridActionsFields" for f
    using s1' s2' that reserved_distinct by auto
  have k2: "map_of (sp_Properties s2) f
      = (if ?d \<and> f \<in> set railgridActionsFields then Some actionsProperty
         else if f = RailgridModeField then Some (modeProperty ?d) else map_of (sp_Properties a) f)" for f
    using s1' s2' by (simp add: fold_setProperty)
  have np: "\<not> declares a NetworkPhaseField"
    using s' k2 [of NetworkPhaseField] reserved_distinct by (auto simp: declares_def)
  have k: "map_of (sp_Properties s) f =
      (if ?d \<and> f = NetworkPhaseField then Some phaseProperty
       else if ?d \<and> f \<in> set railgridActionsFields then Some actionsProperty
       else if f = RailgridModeField then Some (modeProperty ?d) else map_of (sp_Properties a) f)" for f
    using s' k2 [of f] by (cases ?d) auto
  have "declares s f \<longleftrightarrow> ?d" if f: "f \<in> set (NetworkPhaseField # railgridActionsFields)" for f
  proof -
    have "f \<noteq> RailgridModeField" "map_of (sp_Properties a) f = None"
      using f na [of f] np reserved_distinct by (auto simp: declares_def)
    with f show ?thesis unfolding declares_def k by (cases ?d) auto
  qed
  moreover have "\<exists>m. map_of (sp_Properties s) RailgridModeField = Some m
      \<and> (JStr RailgridModeDevelopment \<in> set (sp_Enum m) \<longleftrightarrow> ?d)"
    unfolding k using reserved_distinct modeProperty_development by simp
  moreover have "set (sp_Enum p) = {JStr NetworkPhaseSetup, JStr NetworkPhaseRuntime} \<and> sp_Default p = Some (JStr NetworkPhaseSetup)"
    if p: "map_of (sp_Properties s) NetworkPhaseField = Some p" for p
  proof -
    have "p = phaseProperty" using p np reserved_distinct unfolding k declares_def by (cases ?d) auto
    then show ?thesis by (simp add: phaseProperty_sel)
  qed
  moreover have "map_of (sp_Properties s) f = map_of (sp_Properties a) f" if "f \<notin> set reservedFields" for f
    using that unfolding k reservedFields_def by auto
  moreover have "\<forall>f \<in> set reservedFields. \<not> declares a f"
    using na np s1' by (auto simp: reservedFields_def)
  ultimately show ?thesis using j a by blast
qed

text \<open>A sandbox template with one declared property, and a schema library that reads every schema as
  that property and compiles it to a contract without complaints: the concrete input of the
  witnesses on the instance controller.\<close>

definition demoSchema :: schemaProps where
  "demoSchema = SchemaProps ''object'' [] [] None [(''size'', SchemaProps ''string'' [] [] None [])]"

definition demoLib :: schemaLib where
  "demoLib = \<lparr> sl_decode = (\<lambda>j. Inr demoSchema),
     sl_compile = (\<lambda>s. Inr \<lparr> ct_default = (\<lambda>v. v), ct_openapi = (\<lambda>v. []), ct_cel = (\<lambda>v. []) \<rparr>) \<rparr>"

definition demoDevelopment :: development where
  "demoDevelopment = \<lparr> dv_ProviderActions = None, dv_MaxLifetimeSeconds = 600, dv_IdleTimeoutSeconds = 60,
     dv_Build = None, dv_Components = [], dv_Scaffold = None \<rparr>"

definition demoTemplate :: template where
  "demoTemplate =
     \<lparr> tm_Name = ''sandbox'', tm_Labels = [], tm_Generation = 1, tm_DeletionTimestamp = None, tm_Finalizers = [],
       tm_Spec = \<lparr> ts_Version = ''1.0.0'', ts_Exposure = [], ts_Backend = ''kro'',
         ts_InstanceCRD = \<lparr> crd_Group = ''kro.run'', crd_Version = ''v1alpha1'', crd_Resource = ''sandboxes'', crd_Kind = ''Sandbox'' \<rparr>,
         ts_Schema = RawJson (JObj []), ts_BackendConfig = RawAbsent, ts_SampleValues = RawAbsent,
         ts_DataPlane = None, ts_Development = Some demoDevelopment \<rparr>,
       tm_Status = \<lparr> st_ObservedGeneration = 0, st_Backend = \<lparr> bs_Name = [], bs_Ready = False, bs_Message = [] \<rparr>, st_Conditions = [] \<rparr> \<rparr>"

lemma demo_schema_ok: "isOk (effectiveSchema demoLib demoTemplate)"
  by code_simp

theorem effective_schema_reserved_witness:
  "\<exists>s. effectiveSchema demoLib demoTemplate = Inr s
     \<and> declares s NetworkPhaseField \<and> (\<exists>a. sl_decode demoLib (JObj []) = Inr a \<and> \<not> declares a NetworkPhaseField)"
proof -
  obtain s where s: "effectiveSchema demoLib demoTemplate = Inr s" using demo_schema_ok by (auto simp: isOk_iff)
  have dev: "ts_Development (tm_Spec demoTemplate) \<noteq> None" "ts_Schema (tm_Spec demoTemplate) = RawJson (JObj [])"
    by (simp_all add: demoTemplate_def)
  have m: "NetworkPhaseField \<in> set reservedFields" "NetworkPhaseField \<in> set (NetworkPhaseField # railgridActionsFields)"
    by (simp_all add: reservedFields_def)
  from effective_schema_reserved [OF s] dev m show ?thesis using s by (metis rawExtension.inject)
qed

section \<open>The gate fails closed\<close>

lemma gate_status [simp]:
  "cs_status notExposed" "\<not> cs_status gateRequired" "cs_status gateDisabled"
  "cs_status gateConfigured" "\<not> cs_status platformSSOUnsupported"
  unfolding notExposed_def gateRequired_def gateDisabled_def gateConfigured_def platformSSOUnsupported_def
    oidcCondition_def conditionSpec.simps by simp_all

lemma mode_facts:
  "modeNone \<noteq> []" "modeBYO \<noteq> []" "modePlatform \<noteq> []" "modeNone \<noteq> modeBYO" "modeNone \<noteq> modePlatform" "modeBYO \<noteq> modePlatform"
  by (simp_all add: gate_modes)

lemma decideGate_cases:
  assumes "decideGate t e m = Inr d" and "tt_hasOIDC t"
  shows "(tt_optionalExposure t \<and> \<not> e \<and> \<not> gd_stamp d \<and> \<not> gd_bridgeOIDC d)
     \<or> ((\<not> tt_optionalExposure t \<or> e) \<and> m \<in> {[], modeNone} \<and> tt_gateRequired t \<and> \<not> gd_stamp d \<and> \<not> gd_bridgeOIDC d)
     \<or> ((\<not> tt_optionalExposure t \<or> e) \<and> m \<in> {[], modeNone} \<and> \<not> tt_gateRequired t \<and> gd_stamp d \<and> \<not> gd_bridgeOIDC d)
     \<or> ((\<not> tt_optionalExposure t \<or> e) \<and> m = modeBYO \<and> gd_stamp d \<and> gd_bridgeOIDC d)
     \<or> ((\<not> tt_optionalExposure t \<or> e) \<and> m = modePlatform \<and> gd_stamp d \<and> \<not> gd_bridgeOIDC d
          \<and> (\<exists>c. gd_cond d = Some c \<and> \<not> cs_status c))"
proof (cases "tt_optionalExposure t \<and> \<not> e")
  case True
  with assms show ?thesis unfolding decideGate_def Let_def by auto
next
  case False
  define md where "md = (if m = [] then modeNone else m)"
  have md: "md = modeNone \<longleftrightarrow> m \<in> {[], modeNone}" "md = modeBYO \<longleftrightarrow> m = modeBYO" "md = modePlatform \<longleftrightarrow> m = modePlatform"
    using mode_facts by (auto simp: md_def)
  show ?thesis
    using assms False unfolding decideGate_def Let_def md_def [symmetric]
    by (cases "md = modeNone"; cases "tt_gateRequired t"; cases "md = modeBYO"; cases "md = modePlatform")
       (use md mode_facts in auto)
qed

text \<open>The exposure gate fails closed. The client secret is bridged only for an exposed instance whose
  mode is the tenant's own identity provider; a workload whose schema offers no ungated mode gets
  its public hostname stamped and is reported as configured only in that mode; an instance that
  has not opted in to optional exposure is neither stamped nor bridged; and an unknown mode on
  an exposed instance is an error.\<close>

theorem gate_fail_closed:
  "(\<forall>d. decideGate t e m = Inr d \<longrightarrow>
      (gd_bridgeOIDC d \<longrightarrow> tt_hasOIDC t \<and> (\<not> tt_optionalExposure t \<or> e) \<and> m = modeBYO \<and> gd_stamp d)
    \<and> (tt_hasOIDC t \<and> tt_gateRequired t \<and> gd_stamp d \<and> (\<exists>c. gd_cond d = Some c \<and> cs_status c) \<longrightarrow> m = modeBYO)
    \<and> (tt_optionalExposure t \<and> \<not> e \<longrightarrow> \<not> gd_stamp d \<and> \<not> gd_bridgeOIDC d))
   \<and> ((\<exists>err. decideGate t e m = Inl err) \<longleftrightarrow>
        tt_hasOIDC t \<and> (\<not> tt_optionalExposure t \<or> e) \<and> m \<notin> {[], modeNone, modeBYO, modePlatform})"
proof (intro conjI allI impI)
  fix d assume d: "decideGate t e m = Inr d"
  show "tt_hasOIDC t" "\<not> tt_optionalExposure t \<or> e" "m = modeBYO" "gd_stamp d" if "gd_bridgeOIDC d"
  proof -
    have "tt_hasOIDC t" using d that by (auto simp: decideGate_def Let_def split: if_splits)
    from decideGate_cases [OF d this] that
    show "tt_hasOIDC t" "\<not> tt_optionalExposure t \<or> e" "m = modeBYO" "gd_stamp d"
      using \<open>tt_hasOIDC t\<close> by auto
  qed
  show "m = modeBYO"
    if "tt_hasOIDC t \<and> tt_gateRequired t \<and> gd_stamp d \<and> (\<exists>c. gd_cond d = Some c \<and> cs_status c)"
    using decideGate_cases [OF d] that by auto
  assume "tt_optionalExposure t \<and> \<not> e"
  then show "\<not> gd_stamp d" "\<not> gd_bridgeOIDC d"
    using d by (auto simp: decideGate_def Let_def split: if_splits)
next
  show "(\<exists>err. decideGate t e m = Inl err) \<longleftrightarrow>
      tt_hasOIDC t \<and> (\<not> tt_optionalExposure t \<or> e) \<and> m \<notin> {[], modeNone, modeBYO, modePlatform}"
    unfolding decideGate_def Let_def using mode_facts by (cases "m = []") simp_all
qed

theorem gate_fail_closed_witness:
  "\<exists>d. decideGate \<lparr>tt_publishable = True, tt_optionalExposure = True, tt_hasFQDN = True, tt_hasOIDC = True,
       tt_gateRequired = True, tt_hasCredentials = True, tt_hasRailgridCluster = False\<rparr> True ''byo'' = Inr d
     \<and> gd_bridgeOIDC d \<and> gd_stamp d \<and> ''byo'' = modeBYO"
proof -
  let ?t = "\<lparr>tt_publishable = True, tt_optionalExposure = True, tt_hasFQDN = True, tt_hasOIDC = True,
       tt_gateRequired = True, tt_hasCredentials = True, tt_hasRailgridCluster = False\<rparr>"
  have "decideGate ?t True ''byo'' = Inr \<lparr> gd_cond = Some gateConfigured, gd_stamp = True, gd_withCredentials = True, gd_bridgeOIDC = True \<rparr>"
    unfolding decideGate_def Let_def by (simp add: gate_modes)
  moreover from this conjunct1 [OF gate_fail_closed [of ?t True "''byo''"]] have "''byo'' = modeBYO" by simp
  ultimately show ?thesis by simp
qed

end
