(* ===== verification/Go_Time.thy ===== *)
theory Go_Time
  imports Main "HOL-Library.Word"
begin

text \<open>
  Instants and durations of Go's \<^verbatim>\<open>time\<close> package, in nanoseconds. An instant is an unbounded integer
  (nanoseconds since the Unix epoch), a \<^verbatim>\<open>time.Duration\<close> is computed in 64-bit arithmetic.
\<close>

definition second :: int where "second = 1000000000"

text \<open>\<^verbatim>\<open>time.Duration(s) * time.Second\<close> in 64-bit arithmetic.\<close>

definition durSeconds :: "int \<Rightarrow> int" where
  "durSeconds s = sint (word_of_int (s * second) :: 64 word)"

lemma durSeconds_exact: "0 \<le> s \<Longrightarrow> s \<le> 604800 \<Longrightarrow> durSeconds s = s * second"
  unfolding durSeconds_def second_def
  unfolding sint_sbintrunc' by (rule signed_take_bit_int_eq_self) simp_all

text \<open>\<^verbatim>\<open>time.Unix(s, 0)\<close>: the seconds are kept relative to the year 1 in a 64-bit integer.\<close>

definition unixToInternal :: int where "unixToInternal = 62135596800"

definition unixTime :: "int \<Rightarrow> int" where
  "unixTime s = (sint (word_of_int (s + unixToInternal) :: 64 word) - unixToInternal) * second"

text \<open>The zero \<^verbatim>\<open>time.Time\<close>, and \<^verbatim>\<open>Time.Unix()\<close>.\<close>

definition zeroTime :: int where "zeroTime = - unixToInternal * second"

definition unixSeconds :: "int \<Rightarrow> int" where "unixSeconds t = t div second"

lemma unixTime_exact: "0 \<le> s \<Longrightarrow> s < 2 ^ 62 \<Longrightarrow> unixTime s = s * second"
  unfolding unixTime_def unixToInternal_def sint_sbintrunc'
  by (subst signed_take_bit_int_eq_self) simp_all

end
