(* ===== verification/Instance_Lifecycle.thy ===== *)
theory Instance_Lifecycle
  imports Instance_Spec Go_Time
begin

unbundle bit_operations_syntax

text \<open>
  \<^verbatim>\<open>controller/instance/lifecycle.go\<close> and the pure decisions of \<^verbatim>\<open>controller.go\<close>: when a
  development instance is due for deletion, when it is looked at again, and which network phase it
  is in. Times are nanoseconds since the Unix epoch (a zero \<^verbatim>\<open>metav1.Time\<close> is
  \<^term>\<open>None\<close>); \<^verbatim>\<open>time.Duration\<close> arithmetic wraps at 64 bits.
\<close>

section \<open>Reading an RFC 3339 timestamp\<close>

text \<open>
  \<^verbatim>\<open>time.Parse(time.RFC3339Nano, s)\<close>: year, month, day, minute and second have a fixed width, the
  hour one or two digits; a fraction after a period or comma is optional and cut to nine digits;
  the zone is Z or a signed offset of at most 24 hours and 60 minutes; nothing may follow.
\<close>

definition digit :: "char \<Rightarrow> int option" where
  "digit c = (let n = of_char c - (48 :: int) in if 0 \<le> n \<and> n \<le> 9 then Some n else None)"

fun number :: "int \<Rightarrow> string \<Rightarrow> int option" where
  "number acc [] = Some acc"
| "number acc (c # s) = (case digit c of None \<Rightarrow> None | Some d \<Rightarrow> number (10 * acc + d) s)"

definition fixedNum :: "nat \<Rightarrow> string \<Rightarrow> (int \<times> string) option" where
  "fixedNum w s =
     (if length s < w then None
      else case number 0 (take w s) of None \<Rightarrow> None | Some n \<Rightarrow> Some (n, drop w s))"

definition hourNum :: "string \<Rightarrow> (int \<times> string) option" where
  "hourNum s = (case fixedNum 2 s of None \<Rightarrow> fixedNum 1 s | Some r \<Rightarrow> Some r)"

definition expectByte :: "char \<Rightarrow> string \<Rightarrow> string option" where
  "expectByte c s = (case s of [] \<Rightarrow> None | d # r \<Rightarrow> if d = c then Some r else None)"

definition bindO :: "'a option \<Rightarrow> ('a \<Rightarrow> 'b option) \<Rightarrow> 'b option" where
  "bindO m f = (case m of None \<Rightarrow> None | Some a \<Rightarrow> f a)"

definition parseFraction :: "string \<Rightarrow> int \<times> string" where
  "parseFraction s =
     (case s of
        c # d # r \<Rightarrow>
          (if (c = CHR ''.'' \<or> c = CHR '','') \<and> digit d \<noteq> None
           then let ds = takeWhile (\<lambda>x. digit x \<noteq> None) (d # r);
                    nine = take 9 ds
                in (case number 0 nine of Some n \<Rightarrow> n * 10 ^ (9 - length nine) | None \<Rightarrow> 0,
                    dropWhile (\<lambda>x. digit x \<noteq> None) (d # r))
           else (0, s))
      | _ \<Rightarrow> (0, s))"

definition parseZone :: "string \<Rightarrow> (int \<times> string) option" where
  "parseZone s =
     (case s of
        [] \<Rightarrow> None
      | c # r \<Rightarrow>
          if c = CHR ''Z'' then Some (0, r)
          else if c \<noteq> CHR ''+'' \<and> c \<noteq> CHR ''-'' then None
          else bindO (fixedNum 2 r) (\<lambda>(hr, r). bindO (expectByte CHR '':'' r) (\<lambda>r.
               bindO (fixedNum 2 r) (\<lambda>(mm, r).
               if hr > 24 \<or> mm > 60 then None
               else Some ((if c = CHR ''-'' then -1 else 1) * (hr * 60 + mm) * 60, r)))))"

definition leapYear :: "int \<Rightarrow> bool" where
  "leapYear y \<longleftrightarrow> y mod 4 = 0 \<and> (y mod 100 \<noteq> 0 \<or> y mod 400 = 0)"

definition daysIn :: "int \<Rightarrow> int \<Rightarrow> int" where
  "daysIn m y = (if m = 2 then (if leapYear y then 29 else 28) else if m = 4 \<or> m = 6 \<or> m = 9 \<or> m = 11 then 30 else 31)"

text \<open>Days from the epoch to a date of the Gregorian calendar.\<close>

definition civilDays :: "int \<Rightarrow> int \<Rightarrow> int \<Rightarrow> int" where
  "civilDays y0 m d =
     (let y = (if m \<le> 2 then y0 - 1 else y0); era = y div 400; yoe = y mod 400;
          doy = (153 * (if m > 2 then m - 3 else m + 9) + 2) div 5 + d - 1;
          doe = yoe * 365 + yoe div 4 - yoe div 100 + doy
      in era * 146097 + doe - 719468)"

definition parseRFC3339Nano :: "string \<Rightarrow> int option" where
  "parseRFC3339Nano s =
     bindO (fixedNum 4 s) (\<lambda>(year, s). bindO (expectByte CHR ''-'' s) (\<lambda>s.
     bindO (fixedNum 2 s) (\<lambda>(month, s). bindO (expectByte CHR ''-'' s) (\<lambda>s.
     bindO (fixedNum 2 s) (\<lambda>(day, s). bindO (expectByte CHR ''T'' s) (\<lambda>s.
     bindO (hourNum s) (\<lambda>(hour, s). bindO (expectByte CHR '':'' s) (\<lambda>s.
     bindO (fixedNum 2 s) (\<lambda>(minute, s). bindO (expectByte CHR '':'' s) (\<lambda>s.
     bindO (fixedNum 2 s) (\<lambda>(sec, s).
     case parseFraction s of (nsec, s) \<Rightarrow>
     bindO (parseZone s) (\<lambda>(offset, s).
     if month < 1 \<or> 12 < month \<or> day < 1 \<or> daysIn month year < day \<or> 24 \<le> hour \<or> 60 \<le> minute \<or> 60 \<le> sec \<or> s \<noteq> []
     then None
     else Some (((civilDays year month day * 24 + hour) * 60 + minute) * 60 * second + sec * second + nsec
                - offset * second)))))))))))))"

lemma parseRFC3339Nano_examples:
  "parseRFC3339Nano ''1970-01-01T00:00:00Z'' = Some 0"
  "parseRFC3339Nano ''2024-02-29T12:30:15.5+01:00'' = Some 1709206215500000000"
  "parseRFC3339Nano ''2023-02-29T12:30:15Z'' = None"
  by code_simp+

section \<open>Expiry\<close>

definition LastActivityAnnotation :: string where "LastActivityAnnotation = ''railgrid.ai/last-activity''"

text \<open>The time of the last activity that counts: the marker on the runtime object when it can be
  read and lies after the creation and not after now, else the creation.\<close>

definition lastActivity :: "unstr \<Rightarrow> int \<Rightarrow> int \<Rightarrow> json option \<Rightarrow> int" where
  "lastActivity U now created runtimeObj =
     (case runtimeObj of
        None \<Rightarrow> created
      | Some obj \<Rightarrow>
          let raw = (case map_of (getAnnotations U obj) LastActivityAnnotation of None \<Rightarrow> [] | Some s \<Rightarrow> s) in
          if raw = [] then created
          else case parseRFC3339Nano raw of
              None \<Rightarrow> created
            | Some parsed \<Rightarrow> if created < parsed \<and> \<not> now < parsed then parsed else created)"

datatype expiry = SandboxExpired | SandboxIdle

definition lifecycleDue :: "unstr \<Rightarrow> int \<Rightarrow> int option \<Rightarrow> development option \<Rightarrow> json option \<Rightarrow> expiry option" where
  "lifecycleDue U now created0 development0 runtimeObj =
     (case (development0, created0) of
        (Some development, Some created) \<Rightarrow>
          (if 0 < dv_MaxLifetimeSeconds development \<and> \<not> now < created + durSeconds (dv_MaxLifetimeSeconds development)
           then Some SandboxExpired
           else let last = lastActivity U now created runtimeObj in
             if 0 < dv_IdleTimeoutSeconds development \<and> \<not> now < last + durSeconds (dv_IdleTimeoutSeconds development)
             then Some SandboxIdle
             else None)
      | _ \<Rightarrow> None)"

text \<open>The clock is read again by \<^verbatim>\<open>time.Until\<close>: \<open>now2\<close>.\<close>

definition lifecycleDeadline :: "unstr \<Rightarrow> int \<Rightarrow> int \<Rightarrow> development \<Rightarrow> json option \<Rightarrow> int option" where
  "lifecycleDeadline U now created development runtimeObj =
     (let deadline = (if 0 < dv_MaxLifetimeSeconds development
                      then Some (created + durSeconds (dv_MaxLifetimeSeconds development)) else None);
          last = lastActivity U now created runtimeObj;
          idle = last + durSeconds (dv_IdleTimeoutSeconds development)
      in if 0 < dv_IdleTimeoutSeconds development
         then (case deadline of
                 None \<Rightarrow> Some idle
               | Some d \<Rightarrow> if idle < d then Some idle else Some d)
         else deadline)"

definition lifecycleRequeueAfter ::
    "unstr \<Rightarrow> int \<Rightarrow> int \<Rightarrow> int option \<Rightarrow> development option \<Rightarrow> json option \<Rightarrow> int \<Rightarrow> int" where
  "lifecycleRequeueAfter U now now2 created0 development0 runtimeObj fallback =
     (case (development0, created0) of
        (Some development, Some created) \<Rightarrow>
          (case lifecycleDeadline U now created development runtimeObj of
             None \<Rightarrow> second
           | Some deadline \<Rightarrow>
               if \<not> now < deadline then second
               else let wait = deadline - now2 in
                 if 0 < wait \<and> wait < fallback then wait else fallback)
      | _ \<Rightarrow> fallback)"

section \<open>Readiness and the network phase\<close>

text \<open>\<^verbatim>\<open>conditionTrue\<close>: the first condition of the type decides. A condition whose
  \<^verbatim>\<open>type\<close> is not a string never matches.\<close>

fun conditionTrue :: "json list \<Rightarrow> string \<Rightarrow> bool" where
  "conditionTrue [] t = False"
| "conditionTrue (JObj m # cs) t =
     (if jget m ''type'' = JStr t then jget m ''status'' = JStr ''True'' else conditionTrue cs t)"
| "conditionTrue (_ # cs) t = conditionTrue cs t"

definition runtimeReady :: "unstr \<Rightarrow> json option \<Rightarrow> bool" where
  "runtimeReady U obj =
     (case obj of
        None \<Rightarrow> False
      | Some ob \<Rightarrow>
          let status = foundOr [] (nestedMap U ob [''status'']) in
          asStr (jget status ''phase'') = ''Ready'' \<or> conditionTrue (asArr (jget status ''conditions'')) ''Ready'')"

definition generationValue :: "json \<Rightarrow> int option" where
  "generationValue v =
     (case v of
        JInt n \<Rightarrow> Some n
      | JFloat q \<Rightarrow> if of_int (floor q) = q \<and> - (2 ^ 63) \<le> floor q \<and> floor q < 2 ^ 63 then Some (floor q) else None
      | _ \<Rightarrow> None)"

text \<open>The scan of \<^verbatim>\<open>runtimeReadyForNetwork\<close>: \<^term>\<open>None\<close> when a Ready condition is not True,
  else whether one was found and whether one is current.\<close>

fun readyScan :: "int \<Rightarrow> json list \<Rightarrow> bool \<times> bool \<Rightarrow> (bool \<times> bool) option" where
  "readyScan generation [] acc = Some acc"
| "readyScan generation (JObj c # cs) (found, current) =
     (if jget c ''type'' \<noteq> JStr ''Ready'' then readyScan generation cs (found, current)
      else if jget c ''status'' \<noteq> JStr ''True'' then None
      else readyScan generation cs (True, current \<or> generationValue (jget c ''observedGeneration'') = Some generation))"
| "readyScan generation (_ # cs) acc = readyScan generation cs acc"

definition runtimeReadyForNetwork :: "unstr \<Rightarrow> json option \<Rightarrow> bool" where
  "runtimeReadyForNetwork U obj =
     (case obj of
        None \<Rightarrow> False
      | Some ob \<Rightarrow>
          if getGeneration U ob \<le> 0 then False
          else case nestedMap U ob [''status''] of
            Inr (Some status) \<Rightarrow>
              (case readyScan (getGeneration U ob) (asArr (jget status ''conditions'')) (False, False) of
                 None \<Rightarrow> False
               | Some (found, current) \<Rightarrow>
                   if \<not> asStr (jget status ''phase'') = ''Ready'' \<and> \<not> found then False
                   else case generationValue (jget status ''observedGeneration'') of
                       Some observed \<Rightarrow> observed = getGeneration U ob
                     | None \<Rightarrow> current)
          | _ \<Rightarrow> False)"

definition runtimeNetworkPhase :: "unstr \<Rightarrow> template option \<Rightarrow> json option \<Rightarrow> string option" where
  "runtimeNetworkPhase U tmpl runtimeObj =
     (case tmpl of
        None \<Rightarrow> None
      | Some t \<Rightarrow>
          if ts_Development (tm_Spec t) = None then None
          else (case runtimeObj of
              None \<Rightarrow> Some NetworkPhaseSetup
            | Some obj \<Rightarrow>
                if nestedStr U obj [''spec'', NetworkPhaseField] \<noteq> Inr (Some NetworkPhaseRuntime)
                   \<or> \<not> runtimeReadyForNetwork U runtimeObj
                then Some NetworkPhaseSetup
                else Some NetworkPhaseRuntime))"

definition desiredNetworkPhase :: "unstr \<Rightarrow> json option \<Rightarrow> string" where
  "desiredNetworkPhase U runtimeObj =
     (case runtimeObj of
        None \<Rightarrow> NetworkPhaseSetup
      | Some obj \<Rightarrow>
          if nestedStr U obj [''spec'', NetworkPhaseField] = Inr (Some NetworkPhaseRuntime) then NetworkPhaseRuntime
          else if runtimeReady U runtimeObj \<and> runtimeReadyForNetwork U runtimeObj then NetworkPhaseRuntime
          else NetworkPhaseSetup)"

definition requeueNotReady :: int where "requeueNotReady = 10 * second"
definition requeueReady :: int where "requeueReady = 60 * second"

definition instanceRequeueAfter ::
    "unstr \<Rightarrow> int \<Rightarrow> int \<Rightarrow> int option \<Rightarrow> template option \<Rightarrow> json option \<Rightarrow> bool \<Rightarrow> int" where
  "instanceRequeueAfter U now now2 created tmpl runtimeObj ready =
     (let development = (case tmpl of None \<Rightarrow> None | Some t \<Rightarrow> ts_Development (tm_Spec t)) in
      if development \<noteq> None \<and> runtimeNetworkPhase U tmpl runtimeObj \<noteq> Some NetworkPhaseRuntime then requeueNotReady
      else if \<not> ready then requeueNotReady
      else lifecycleRequeueAfter U now now2 created development runtimeObj requeueReady)"

section \<open>Expiry is exact and is looked at in time\<close>

definition validLimits :: "development \<Rightarrow> bool" where
  "validLimits d \<longleftrightarrow> 0 \<le> dv_MaxLifetimeSeconds d \<and> dv_MaxLifetimeSeconds d \<le> 604800
     \<and> 0 \<le> dv_IdleTimeoutSeconds d \<and> dv_IdleTimeoutSeconds d \<le> 604800"

lemma lastActivity_bounds: "created \<le> lastActivity U now created obj"
  "created \<le> now \<Longrightarrow> lastActivity U now created obj \<le> now"
  unfolding lastActivity_def Let_def by (auto split: option.splits)

text \<open>A later clock reading can only let a later marker count.\<close>

lemma lastActivity_mono: "now \<le> t \<Longrightarrow> lastActivity U now created obj \<le> lastActivity U t created obj"
  unfolding lastActivity_def Let_def by (auto split: option.splits)

lemma lifecycleDue_None:
  "lifecycleDue U now (Some c) (Some d) obj = None \<longleftrightarrow>
     (0 < dv_MaxLifetimeSeconds d \<longrightarrow> now < c + durSeconds (dv_MaxLifetimeSeconds d))
   \<and> (0 < dv_IdleTimeoutSeconds d \<longrightarrow> now < lastActivity U now c obj + durSeconds (dv_IdleTimeoutSeconds d))"
  unfolding lifecycleDue_def Let_def by auto

text \<open>Expiry is exact. Once the hard lifetime has passed the sandbox is due whatever its activity
  marker says; before it, the sandbox is due exactly when the idle limit is set and the last
  counted activity is that long ago; that activity is never before the creation and never in the
  future, so an unreadable marker or one ahead of the clock neither deletes a sandbox early nor keeps it.\<close>

theorem lifecycle_due_exact:
  assumes "validLimits d" and "c \<le> now"
  shows "lifecycleDue U now (Some c) (Some d) obj =
      (if 0 < dv_MaxLifetimeSeconds d \<and> c + dv_MaxLifetimeSeconds d * second \<le> now then Some SandboxExpired
       else if 0 < dv_IdleTimeoutSeconds d
          \<and> lastActivity U now c obj + dv_IdleTimeoutSeconds d * second \<le> now then Some SandboxIdle
       else None)
    \<and> c \<le> lastActivity U now c obj \<and> lastActivity U now c obj \<le> now"
  using assms lastActivity_bounds [where created = c and now = now and U = U and obj = obj]
  unfolding lifecycleDue_def Let_def validLimits_def by (auto simp: durSeconds_exact)

theorem lifecycle_due_exact_witness:
  "validLimits demoDevelopment \<and>
   lifecycleDue reference_unstr (100 * second) (Some 0) (Some demoDevelopment)
     (Some (JObj [(''metadata'', JObj [(''annotations'', JObj [(LastActivityAnnotation, JStr ''1970-01-01T00:00:50Z'')])])])) = None"
proof -
  let ?o = "JObj [(''metadata'', JObj [(''annotations'', JObj [(LastActivityAnnotation, JStr ''1970-01-01T00:00:50Z'')])])]"
  have v: "validLimits demoDevelopment" by (simp add: validLimits_def demoDevelopment_def)
  have l: "lastActivity reference_unstr (100 * second) 0 (Some ?o) = 50 * second" by code_simp
  have "0 \<le> 100 * second" by (simp add: second_def)
  from conjunct1 [OF lifecycle_due_exact [OF v this, of reference_unstr "Some ?o"]] l v show ?thesis
    by (simp add: demoDevelopment_def second_def)
qed

lemma lifecycleDeadline_due:
  assumes "lifecycleDeadline U now c d obj = Some dl" and "now \<le> t" and "t < dl"
  shows "lifecycleDue U t (Some c) (Some d) obj = None"
proof -
  let ?l = "lastActivity U now c obj + durSeconds (dv_IdleTimeoutSeconds d)"
  have a: "0 < dv_MaxLifetimeSeconds d \<longrightarrow> t < c + durSeconds (dv_MaxLifetimeSeconds d)"
    and b: "0 < dv_IdleTimeoutSeconds d \<longrightarrow> t < ?l"
    using assms(1,3) unfolding lifecycleDeadline_def Let_def by (auto split: if_splits)
  have "?l \<le> lastActivity U t c obj + durSeconds (dv_IdleTimeoutSeconds d)"
    using lastActivity_mono [OF assms(2)] by simp
  with a b show ?thesis unfolding lifecycleDue_None by auto
qed

lemma lifecycleRequeueAfter_bounds:
  assumes "now \<le> now2" "0 < fallback"
  shows "0 < lifecycleRequeueAfter U now now2 (Some c) dev obj fallback
    \<and> lifecycleRequeueAfter U now now2 (Some c) dev obj fallback \<le> max fallback second"
  using assms unfolding lifecycleRequeueAfter_def by (auto simp: second_def Let_def split: option.split)

lemma lifecycleRequeueAfter_before:
  assumes "now \<le> now2" and "\<forall>dl. lifecycleDeadline U now c d obj = Some dl \<longrightarrow> now2 < dl"
    and "now \<le> t" "t < now2 + lifecycleRequeueAfter U now now2 (Some c) (Some d) obj fallback"
  shows "lifecycleDue U t (Some c) (Some d) obj = None"
proof (cases "lifecycleDeadline U now c d obj")
  case None
  then have "\<not> 0 < dv_MaxLifetimeSeconds d" "\<not> 0 < dv_IdleTimeoutSeconds d"
    unfolding lifecycleDeadline_def Let_def by (auto split: if_splits option.splits)
  then show ?thesis unfolding lifecycleDue_None by simp
next
  case (Some dl)
  then have "now2 < dl" using assms(2) by simp
  then have "lifecycleRequeueAfter U now now2 (Some c) (Some d) obj fallback = (if dl - now2 < fallback then dl - now2 else fallback)"
    using Some assms(1) unfolding lifecycleRequeueAfter_def by simp
  then have "t < dl" using assms(4) by (auto split: if_splits)
  then show ?thesis using lifecycleDeadline_due [OF Some assms(3)] by simp
qed

text \<open>C19: When a reconcile looks at a sandbox again. The wait is always positive and at most a minute, so a sandbox is looked at
  at most a minute after its deadline. A sandbox that is ready, in the runtime phase, and whose deadline lies after both
  readings of the clock is not overslept at all: at no time before the next look does it become due, if it is left undisturbed.\<close>

theorem requeue_no_oversleep:
  assumes "now \<le> now2"
  shows "0 < instanceRequeueAfter U now now2 (Some c) tmpl obj ready \<and> instanceRequeueAfter U now now2 (Some c) tmpl obj ready \<le> 60 * second
    \<and> (\<forall>T d t. tmpl = Some T \<and> ts_Development (tm_Spec T) = Some d \<and> ready \<and> runtimeNetworkPhase U tmpl obj = Some NetworkPhaseRuntime
         \<and> (\<forall>dl. lifecycleDeadline U now c d obj = Some dl \<longrightarrow> now2 < dl) \<and> now \<le> t
         \<and> t < now2 + instanceRequeueAfter U now now2 (Some c) tmpl obj ready
         \<longrightarrow> lifecycleDue U t (Some c) (Some d) obj = None)"
proof (intro conjI allI impI)
  show "0 < instanceRequeueAfter U now now2 (Some c) tmpl obj ready" "instanceRequeueAfter U now now2 (Some c) tmpl obj ready \<le> 60 * second"
    using lifecycleRequeueAfter_bounds [OF assms, of requeueReady U c _ obj]
    by (auto simp: instanceRequeueAfter_def Let_def requeueNotReady_def requeueReady_def second_def)
  fix T d t
  assume t: "tmpl = Some T \<and> ts_Development (tm_Spec T) = Some d \<and> ready \<and> runtimeNetworkPhase U tmpl obj = Some NetworkPhaseRuntime
         \<and> (\<forall>dl. lifecycleDeadline U now c d obj = Some dl \<longrightarrow> now2 < dl) \<and> now \<le> t
         \<and> t < now2 + instanceRequeueAfter U now now2 (Some c) tmpl obj ready"
  then have a: "tmpl = Some T" "ts_Development (tm_Spec T) = Some d" "ready" "runtimeNetworkPhase U tmpl obj = Some NetworkPhaseRuntime" by blast+
  have "instanceRequeueAfter U now now2 (Some c) tmpl obj ready = lifecycleRequeueAfter U now now2 (Some c) (Some d) obj requeueReady"
    using a(2-4) unfolding a(1) by (simp add: instanceRequeueAfter_def Let_def)
  with t show "lifecycleDue U t (Some c) (Some d) obj = None" by (intro lifecycleRequeueAfter_before [OF assms]) auto
qed

definition runningSandbox :: json where
  "runningSandbox = JObj [(''metadata'', JObj [(''generation'', JInt 1)]), (''spec'', JObj [(NetworkPhaseField, JStr NetworkPhaseRuntime)]),
     (''status'', JObj [(''phase'', JStr ''Ready''), (''conditions'', JArr [JObj [(''type'', JStr ''Ready''), (''status'', JStr ''True''),
        (''observedGeneration'', JInt 1)]])])]"

definition sandboxTemplate :: template where
  "sandboxTemplate = demoTemplate\<lparr>tm_Spec := (tm_Spec demoTemplate)\<lparr>ts_Development := Some demoDevelopment\<rparr>\<rparr>"

theorem requeue_no_oversleep_witness:
  "instanceRequeueAfter reference_unstr (50 * second) (51 * second) (Some 0) (Some sandboxTemplate) (Some runningSandbox) True = 9 * second
   \<and> lifecycleDue reference_unstr (59 * second) (Some 0) (Some demoDevelopment) (Some runningSandbox) = None"
proof -
  have w: "instanceRequeueAfter reference_unstr (50 * second) (51 * second) (Some 0) (Some sandboxTemplate) (Some runningSandbox) True = 9 * second"
    and p: "runtimeNetworkPhase reference_unstr (Some sandboxTemplate) (Some runningSandbox) = Some NetworkPhaseRuntime"
    and l: "lifecycleDeadline reference_unstr (50 * second) 0 demoDevelopment (Some runningSandbox) = Some (60 * second)" by code_simp+
  have n: "50 * second \<le> 51 * second" "50 * second \<le> 59 * second" "59 * second < 51 * second + 9 * second" "51 * second < 60 * second"
    by (simp_all add: second_def)
  have d: "ts_Development (tm_Spec sandboxTemplate) = Some demoDevelopment" by (simp add: sandboxTemplate_def)
  note rule = conjunct2 [OF conjunct2 [OF requeue_no_oversleep [OF n(1), of reference_unstr 0 "Some sandboxTemplate" "Some runningSandbox" True]], rule_format]
  have "lifecycleDue reference_unstr (59 * second) (Some 0) (Some demoDevelopment) (Some runningSandbox) = None"
    by (rule rule [of sandboxTemplate demoDevelopment "59 * second"]) (use d p l n in \<open>simp add: w\<close>)
  then show ?thesis using w by blast
qed

text \<open>A deadline between the two readings is overslept: the wait is then the whole fallback interval.\<close>

theorem deadline_between_readings:
  "lifecycleRequeueAfter reference_unstr (59 * second) (60 * second) (Some 0) (Some demoDevelopment) None requeueReady = 60 * second
   \<and> lifecycleDue reference_unstr (60 * second) (Some 0) (Some demoDevelopment) None \<noteq> None"
  by code_simp

text \<open>With both limits disabled there is no deadline, and a ready development instance is looked at every
  second instead of at the fallback interval.\<close>

theorem unlimited_requeues_each_second:
  assumes "dv_MaxLifetimeSeconds d = 0" and "dv_IdleTimeoutSeconds d = 0"
  shows "lifecycleRequeueAfter U now now2 (Some c) (Some d) obj fallback = second"
  using assms unfolding lifecycleRequeueAfter_def lifecycleDeadline_def by simp

section \<open>Readiness of the current generation\<close>

definition isReadyCondition :: "json \<Rightarrow> bool" where
  "isReadyCondition v \<longleftrightarrow> (case isObj v of Some c \<Rightarrow> jget c ''type'' = JStr ''Ready'' | None \<Rightarrow> False)"

lemma isReadyCondition_simps [simp]:
  "isReadyCondition (JObj c) \<longleftrightarrow> jget c ''type'' = JStr ''Ready''"
  "\<not> isReadyCondition JNull" "\<not> isReadyCondition (JBool b)" "\<not> isReadyCondition (JInt n)"
  "\<not> isReadyCondition (JFloat q)" "\<not> isReadyCondition (JStr s)" "\<not> isReadyCondition (JArr xs)"
  by (simp_all add: isReadyCondition_def isObj_def)

definition conditionGeneration :: "json \<Rightarrow> int option" where
  "conditionGeneration v = generationValue (jget (asObj v) ''observedGeneration'')"

text \<open>The reference reading: the object has a generation and a status; every Ready condition is True; the
  status says Ready by its phase or by a condition; and the status was observed at this generation,
  or says nothing about it while a Ready condition was.\<close>

definition readyAtGeneration :: "unstr \<Rightarrow> json \<Rightarrow> bool" where
  "readyAtGeneration U ob \<longleftrightarrow>
     0 < getGeneration U ob \<and>
     (\<exists>status. nestedMap U ob [''status''] = Inr (Some status) \<and>
       (let ready = filter isReadyCondition (asArr (jget status ''conditions'')) in
        (\<forall>c \<in> set ready. jget (asObj c) ''status'' = JStr ''True'') \<and>
        (jget status ''phase'' = JStr ''Ready'' \<or> ready \<noteq> []) \<and>
        (case generationValue (jget status ''observedGeneration'') of
           Some observed \<Rightarrow> observed = getGeneration U ob
         | None \<Rightarrow> \<exists>c \<in> set ready. conditionGeneration c = Some (getGeneration U ob))))"

lemma readyScan_spec:
  "readyScan g cs acc =
     (if \<exists>c \<in> set (filter isReadyCondition cs). jget (asObj c) ''status'' \<noteq> JStr ''True'' then None
      else Some (fst acc \<or> filter isReadyCondition cs \<noteq> [],
                 snd acc \<or> (\<exists>c \<in> set (filter isReadyCondition cs). conditionGeneration c = Some g)))"
proof (induction g cs acc rule: readyScan.induct)
  case (2 generation c cs found current)
  show ?case
  proof (cases "jget c ''type'' = JStr ''Ready''")
    case False
    with 2(1) show ?thesis by auto
  next
    case True
    with 2(2) show ?thesis by (auto simp: conditionGeneration_def)
  qed
qed auto

lemma asStr_eq: "s \<noteq> [] \<Longrightarrow> asStr v = s \<longleftrightarrow> v = JStr s"
  by (cases v) (auto simp: asStr_def)

text \<open>The readiness predicate that opens the network gate is the reference reading of the runtime
  object's status: no Ready signal from another generation, and no Ready condition that is not True, is accepted.\<close>

theorem runtimeReadyForNetwork_iff:
  "runtimeReadyForNetwork U (Some ob) \<longleftrightarrow> readyAtGeneration U ob"
proof (cases "0 < getGeneration U ob \<and> (\<exists>status. nestedMap U ob [''status''] = Inr (Some status))")
  case False
  then show ?thesis unfolding runtimeReadyForNetwork_def readyAtGeneration_def
    by (auto split: sum.splits option.splits)
next
  case True
  then obtain status where g: "0 < getGeneration U ob" and st: "nestedMap U ob [''status''] = Inr (Some status)" by auto
  let ?r = "filter isReadyCondition (asArr (jget status ''conditions''))"
  have p: "asStr (jget status ''phase'') = ''Ready'' \<longleftrightarrow> jget status ''phase'' = JStr ''Ready''"
    by (rule asStr_eq) simp
  show ?thesis
  proof (cases "\<exists>c \<in> set ?r. jget (asObj c) ''status'' \<noteq> JStr ''True''")
    case True
    then show ?thesis using g st unfolding runtimeReadyForNetwork_def readyAtGeneration_def readyScan_spec Let_def by auto
  next
    case False
    then show ?thesis using g st p
      unfolding runtimeReadyForNetwork_def readyAtGeneration_def readyScan_spec Let_def
      by (cases "generationValue (jget status ''observedGeneration'')") auto
  qed
qed

section \<open>The network phase only moves forward\<close>

datatype networkPhase = SetupPhase | RuntimePhase

instantiation networkPhase :: linorder
begin

definition less_eq_networkPhase :: "networkPhase \<Rightarrow> networkPhase \<Rightarrow> bool" where
  "a \<le> b \<longleftrightarrow> a = SetupPhase \<or> b = RuntimePhase"

definition less_networkPhase :: "networkPhase \<Rightarrow> networkPhase \<Rightarrow> bool" where
  "a < b \<longleftrightarrow> a = SetupPhase \<and> b = RuntimePhase"

instance
  by standard (auto simp: less_eq_networkPhase_def less_networkPhase_def intro: networkPhase.exhaust)

end

definition phaseOf :: "string \<Rightarrow> networkPhase" where
  "phaseOf s = (if s = NetworkPhaseRuntime then RuntimePhase else SetupPhase)"

definition specPhase :: "unstr \<Rightarrow> json \<Rightarrow> networkPhase" where
  "specPhase U ob = phaseOf (foundOr [] (nestedStr U ob [''spec'', NetworkPhaseField]))"

lemma phase_consts: "NetworkPhaseRuntime \<noteq> NetworkPhaseSetup" "NetworkPhaseRuntime \<noteq> []"
  by (simp_all add: api_consts)

lemma specPhase_runtime:
  "specPhase U ob = RuntimePhase \<longleftrightarrow> nestedStr U ob [''spec'', NetworkPhaseField] = Inr (Some NetworkPhaseRuntime)"
  using phase_consts unfolding specPhase_def phaseOf_def foundOr_def by (auto split: sum.splits option.splits)

lemma specPhase_setup:
  "specPhase U ob = SetupPhase \<longleftrightarrow> nestedStr U ob [''spec'', NetworkPhaseField] \<noteq> Inr (Some NetworkPhaseRuntime)"
  using specPhase_runtime [of U ob] by (cases "specPhase U ob") auto

text \<open>C10: The network phase the controller asks for is never behind the one the runtime object has, it moves
  to runtime only for an object that is ready at its current generation, and without an object it is setup.\<close>

theorem network_phase_one_way:
  "specPhase U ob \<le> phaseOf (desiredNetworkPhase U (Some ob))
   \<and> (specPhase U ob < phaseOf (desiredNetworkPhase U (Some ob)) \<longrightarrow> readyAtGeneration U ob)
   \<and> desiredNetworkPhase U None = NetworkPhaseSetup"
  using phase_consts
  unfolding desiredNetworkPhase_def less_eq_networkPhase_def less_networkPhase_def
  by (auto simp: phaseOf_def specPhase_setup specPhase_runtime runtimeReadyForNetwork_iff)

theorem network_phase_one_way_witness:
  "let ob = JObj [(''metadata'', JObj [(''generation'', JInt 2)]), (''spec'', JObj [(NetworkPhaseField, JStr ''setup'')]),
       (''status'', JObj [(''phase'', JStr ''Ready''), (''observedGeneration'', JInt 2)])] in
   specPhase reference_unstr ob < phaseOf (desiredNetworkPhase reference_unstr (Some ob)) \<and> readyAtGeneration reference_unstr ob"
proof -
  let ?o = "JObj [(''metadata'', JObj [(''generation'', JInt 2)]), (''spec'', JObj [(NetworkPhaseField, JStr ''setup'')]),
       (''status'', JObj [(''phase'', JStr ''Ready''), (''observedGeneration'', JInt 2)])]"
  have "specPhase reference_unstr ?o < phaseOf (desiredNetworkPhase reference_unstr (Some ?o))" by code_simp
  with network_phase_one_way [of reference_unstr ?o] show ?thesis unfolding Let_def by blast
qed

text \<open>The runtime phase is published to the tenant exactly for a development template whose runtime object
  has selected that phase and is ready at its current generation; every other development instance is published as setup.\<close>

theorem published_phase_runtime:
  "runtimeNetworkPhase U (Some t) obj = Some NetworkPhaseRuntime \<longleftrightarrow>
     ts_Development (tm_Spec t) \<noteq> None \<and> (\<exists>ob. obj = Some ob \<and> specPhase U ob = RuntimePhase \<and> readyAtGeneration U ob)"
  using phase_consts unfolding runtimeNetworkPhase_def
  by (cases obj) (auto simp: specPhase_runtime runtimeReadyForNetwork_iff)

end
