(* ===== verification/Go_Format.thy ===== *)
theory Go_Format
  imports Go_Time
begin

text \<open>Instants as text: \<^verbatim>\<open>time.RFC3339\<close> and the form \<^verbatim>\<open>encoding/json\<close> writes.\<close>

text \<open>\<^verbatim>\<open>Time.UTC().Format(time.RFC3339)\<close>.\<close>

fun padNum :: "nat \<Rightarrow> int \<Rightarrow> string" where
  "padNum 0 n = []"
| "padNum (Suc w) n = padNum w (n div 10) @ [char_of (48 + nat (n mod 10))]"

definition civilDate :: "int \<Rightarrow> int \<times> int \<times> int" where
  "civilDate days =
     (let z = days + 719468; era = z div 146097; doe = z mod 146097;
          yoe = (doe - doe div 1460 + doe div 36524 - doe div 146096) div 365;
          doy = doe - (365 * yoe + yoe div 4 - yoe div 100);
          mp = (5 * doy + 2) div 153; d = doy - (153 * mp + 2) div 5 + 1;
          m = (if mp < 10 then mp + 3 else mp - 9);
          y = yoe + era * 400 + (if m \<le> 2 then 1 else 0)
      in (y, m, d))"

definition formatRFC3339 :: "int \<Rightarrow> string" where
  "formatRFC3339 t =
     (let secs = t div second; days = secs div 86400; rest = secs mod 86400 in
      case civilDate days of (y, m, d) \<Rightarrow>
        padNum 4 y @ ''-'' @ padNum 2 m @ ''-'' @ padNum 2 d @ ''T'' @ padNum 2 (rest div 3600) @ '':'' @
        padNum 2 (rest div 60 mod 60) @ '':'' @ padNum 2 (rest mod 60) @ ''Z'')"

text \<open>\<^verbatim>\<open>time.Time\<close> as \<^verbatim>\<open>encoding/json\<close> writes it, with the fraction of a second where there is one.\<close>

definition formatRFC3339Nano :: "int \<Rightarrow> string" where
  "formatRFC3339Nano t =
     (let f = rev (dropWhile (\<lambda>c. c = CHR ''0'') (rev (padNum 9 (t mod second)))) in
      butlast (formatRFC3339 t) @ (if f = [] then [] else ''.'' @ f) @ ''Z'')"

end
