(* ===== verification/Instance_Status.thy ===== *)
theory Instance_Status
  imports Instance_Lifecycle Go_Format
begin

text \<open>
  The pure half of \<^verbatim>\<open>controller/instance/runtime.go\<close>: comparing and merging the stamped
  values with the runtime object's spec, and composing the status that is mirrored to the tenant.
\<close>

section \<open>Converging the runtime spec\<close>

text \<open>\<^verbatim>\<open>specSubset\<close> and \<^verbatim>\<open>overlayValues\<close>; the loops range over the wanted map.\<close>

function (sequential) specSubset :: "unstr \<Rightarrow> jmap \<Rightarrow> jmap \<Rightarrow> bool" where
  "specSubset U [] got = True"
| "specSubset U ((k, wv) # want) got =
     ((case map_of got k of
         None \<Rightarrow> False
       | Some gv \<Rightarrow>
           (case wv of
              JObj wm \<Rightarrow> (case gv of JObj gm \<Rightarrow> specSubset U wm gm | _ \<Rightarrow> False)
            | _ \<Rightarrow> semanticDeepEqual U wv gv))
      \<and> specSubset U want got)"
  by pat_completeness auto
termination by (relation "measure (\<lambda>(U, w, g). size (JObj w))") auto

function (sequential) overlayValues :: "jmap \<Rightarrow> jmap \<Rightarrow> jmap" where
  "overlayValues dst [] = dst"
| "overlayValues dst ((k, wv) # want) =
     overlayValues
       (mput k (case wv of
                  JObj wm \<Rightarrow> (case map_of dst k of Some (JObj dm) \<Rightarrow> JObj (overlayValues dm wm) | _ \<Rightarrow> wv)
                | _ \<Rightarrow> wv) dst) want"
  by pat_completeness auto
termination by (relation "measure (\<lambda>(d, w). size (JObj w))") auto

text \<open>What a wanted value becomes over the stored one.\<close>

definition overlayOne :: "json \<Rightarrow> json option \<Rightarrow> json" where
  "overlayOne wv cur =
     (case wv of
        JObj wm \<Rightarrow> (case cur of Some (JObj dm) \<Rightarrow> JObj (overlayValues dm wm) | _ \<Rightarrow> wv)
      | _ \<Rightarrow> wv)"

lemma overlayValues_Cons:
  "overlayValues dst ((k, wv) # want) = overlayValues (mput k (overlayOne wv (map_of dst k)) dst) want"
  by (simp add: overlayOne_def)

declare overlayValues.simps(2) [simp del]

lemma overlayValues_lookup:
  "mwf want \<Longrightarrow> map_of (overlayValues dst want) k =
     (case map_of want k of None \<Rightarrow> map_of dst k | Some wv \<Rightarrow> Some (overlayOne wv (map_of dst k)))"
proof (induction want arbitrary: dst)
  case (Cons p want)
  obtain k' wv where p: "p = (k', wv)" by (cases p)
  have "map_of want k' = None" using Cons.prems p by (simp add: map_of_eq_None_iff)
  with Cons p show ?case by (cases "k = k'"; cases "map_of want k") (simp_all add: overlayValues_Cons)
qed simp

definition fieldSubset :: "unstr \<Rightarrow> json \<Rightarrow> json \<Rightarrow> bool" where
  "fieldSubset U wv gv =
     (case wv of
        JObj wm \<Rightarrow> (case gv of JObj gm \<Rightarrow> specSubset U wm gm | _ \<Rightarrow> False)
      | _ \<Rightarrow> semanticDeepEqual U wv gv)"

lemma specSubset_Cons:
  "specSubset U ((k, wv) # want) got \<longleftrightarrow> (\<exists>gv. map_of got k = Some gv \<and> fieldSubset U wv gv) \<and> specSubset U want got"
  by (cases "map_of got k") (simp_all add: fieldSubset_def)

declare specSubset.simps(2) [simp del]

lemma specSubset_all:
  "specSubset U want got \<longleftrightarrow> (\<forall>k wv. (k, wv) \<in> set want \<longrightarrow> (\<exists>gv. map_of got k = Some gv \<and> fieldSubset U wv gv))"
proof (induction want)
  case (Cons p want)
  then show ?case by (cases p) (simp add: specSubset_Cons, blast)
qed simp

lemma member_size: "(k, v) \<in> set m \<Longrightarrow> size v < size (JObj m)"
  using size_list_estimation' [of "(k, v)" m "size v" "size_prod (\<lambda>_. 0) size"] by simp

lemma jwf_member: "jwf (JObj m) \<Longrightarrow> (k, v) \<in> set m \<Longrightarrow> jwf v"
  by (auto simp: list_all_iff)

lemma specSubset_refl:
  assumes "\<And>v. semanticDeepEqual U v v"
  shows "jwf (JObj m) \<Longrightarrow> specSubset U m m"
proof (induction "size (JObj m)" arbitrary: m rule: less_induct)
  case less
  have "fieldSubset U wv wv" if kv: "(k, wv) \<in> set m" for k wv
  proof (cases wv)
    case (JObj wm)
    have "specSubset U wm wm"
      by (rule less.hyps) (use member_size [OF kv] jwf_member [OF less.prems kv] JObj in simp_all)
    then show ?thesis by (simp add: JObj fieldSubset_def)
  qed (simp_all add: fieldSubset_def assms)
  moreover have "map_of m k = Some wv" if "(k, wv) \<in> set m" for k wv using less.prems that by simp
  ultimately show ?case by (subst specSubset_all) blast
qed

lemma overlay_subset:
  assumes "\<And>v. semanticDeepEqual U v v"
  shows "jwf (JObj want) \<Longrightarrow> specSubset U want (overlayValues dst want)"
proof (induction "size (JObj want)" arbitrary: want dst rule: less_induct)
  case less
  have "fieldSubset U wv (overlayOne wv cur)" if kv: "(k, wv) \<in> set want" for k wv cur
  proof (cases wv)
    case (JObj wm)
    have wf: "jwf (JObj wm)" using jwf_member [OF less.prems kv] JObj by simp
    have "specSubset U wm (overlayValues dm wm)" for dm
      by (rule less.hyps) (use member_size [OF kv] wf JObj in simp_all)
    moreover have "specSubset U wm wm" by (rule specSubset_refl [OF assms wf])
    ultimately show ?thesis unfolding JObj fieldSubset_def overlayOne_def
      by (cases cur; cases "the cur") simp_all
  qed (simp_all add: fieldSubset_def overlayOne_def assms)
  moreover have "map_of (overlayValues dst want) k = Some (overlayOne wv (map_of dst k))" if "(k, wv) \<in> set want" for k wv
    using less.prems that by (simp add: overlayValues_lookup)
  ultimately show ?case by (subst specSubset_all) blast
qed

lemma overlayValues_id:
  "jwf (JObj want) \<Longrightarrow> (\<And>k wv. (k, wv) \<in> set want \<Longrightarrow> map_of dst k = Some (overlayOne wv (map_of dst k))) \<Longrightarrow>
   overlayValues dst want = dst"
proof (induction want)
  case (Cons p want)
  obtain k wv where p: "p = (k, wv)" by (cases p)
  have same: "mput k v m = m" if "map_of m k = Some v" for k :: string and v :: json and m
    using that by (induction m) (auto split: if_splits)
  have "mput k (overlayOne wv (map_of dst k)) dst = dst" by (rule same) (use Cons.prems(2) p in auto)
  then show ?case using Cons p by (simp add: overlayValues_Cons)
qed simp

lemma overlayOne_self: "jwf wv \<Longrightarrow> overlayOne wv (Some (overlayOne wv cur)) = overlayOne wv cur"
proof (induction "size wv" arbitrary: wv cur rule: less_induct)
  case less
  have sub: "overlayOne v (Some (overlayOne v c)) = overlayOne v c" if "wv = JObj wm" "(k, v) \<in> set wm" for wm k v c
  proof (rule less.hyps)
    show "size v < size wv" using that member_size [of k v wm] by simp
    show "jwf v" using jwf_member less.prems that by blast
  qed
  show ?case
  proof (cases wv)
    case (JObj wm)
    have wf: "mwf wm" using less.prems JObj by simp
    have over: "overlayValues (overlayValues dm wm) wm = overlayValues dm wm" for dm
    proof (rule overlayValues_id)
      show "jwf (JObj wm)" using less.prems JObj by simp
      fix k v assume "(k, v) \<in> set wm"
      with wf sub [OF JObj, of k v] show "map_of (overlayValues dm wm) k = Some (overlayOne v (map_of (overlayValues dm wm) k))"
        by (simp add: overlayValues_lookup)
    qed
    have self: "overlayValues wm wm = wm"
    proof (rule overlayValues_id)
      show "jwf (JObj wm)" using less.prems JObj by simp
      fix k v assume kv: "(k, v) \<in> set wm"
      have "overlayOne v (Some (overlayOne v None)) = overlayOne v None" using sub [OF JObj kv] .
      moreover have "overlayOne v None = v" by (cases v) (simp_all add: overlayOne_def)
      ultimately show "map_of wm k = Some (overlayOne v (map_of wm k))" using wf kv by simp
    qed
    show ?thesis unfolding JObj overlayOne_def using over self
      by (cases cur; cases "the cur") simp_all
  qed (simp_all add: overlayOne_def)
qed

text \<open>Merging the stamped values into a stored spec converges in one step: afterwards every wanted field
  is there with an equal value, a field that is not wanted keeps its stored value (the defaults of
  the runtime API survive), and merging again changes nothing.\<close>

theorem overlay_converges:
  assumes "unstructured_laws U" and "jwf (JObj want)"
  shows "specSubset U want (overlayValues dst want)
    \<and> (\<forall>k. map_of want k = None \<longrightarrow> map_of (overlayValues dst want) k = map_of dst k)
    \<and> overlayValues (overlayValues dst want) want = overlayValues dst want"
proof (intro conjI allI impI)
  have wf: "mwf want" using assms(2) by simp
  show "specSubset U want (overlayValues dst want)"
    by (rule overlay_subset) (use assms in \<open>auto simp: unstructured_laws_def\<close>)
  show "map_of (overlayValues dst want) k = map_of dst k" if "map_of want k = None" for k
    using that wf by (simp add: overlayValues_lookup)
  show "overlayValues (overlayValues dst want) want = overlayValues dst want"
  proof (rule overlayValues_id [OF assms(2)])
    fix k v assume kv: "(k, v) \<in> set want"
    then have "jwf v" using assms(2) jwf_member by blast
    from overlayOne_self [OF this, of "map_of dst k"] kv wf
    show "map_of (overlayValues dst want) k = Some (overlayOne v (map_of (overlayValues dst want) k))"
      by (simp add: overlayValues_lookup)
  qed
qed

theorem overlay_converges_witness:
  "let want = [(''size'', JStr ''l''), (''net'', JObj [(''port'', JInt 80)])];
       dst = [(''net'', JObj [(''port'', JInt 1), (''proto'', JStr ''tcp'')]), (''zone'', JStr ''a'')] in
   specSubset reference_unstr want (overlayValues dst want) \<and> map_of (overlayValues dst want) ''zone'' = Some (JStr ''a'')"
proof -
  let ?w = "[(''size'', JStr ''l''), (''net'', JObj [(''port'', JInt 80)])]"
    and ?d = "[(''net'', JObj [(''port'', JInt 1), (''proto'', JStr ''tcp'')]), (''zone'', JStr ''a'')]"
  have "jwf (JObj ?w)" by simp
  from overlay_converges [OF reference_unstr_laws this, of ?d] show ?thesis by simp
qed

section \<open>Conditions\<close>

lemma formatRFC3339_examples:
  "formatRFC3339 0 = ''1970-01-01T00:00:00Z''"
  "parseRFC3339Nano (formatRFC3339 1709206215000000000) = Some 1709206215000000000"
  by code_simp+

definition hasType :: "string \<Rightarrow> json \<Rightarrow> bool" where
  "hasType t raw \<longleftrightarrow> (case isObj raw of Some m \<Rightarrow> jget m ''type'' = JStr t | None \<Rightarrow> False)"

text \<open>The loop of \<^verbatim>\<open>upsertCondition\<close> over the previous conditions: an unchanged condition keeps its
  transition time.\<close>

fun upsertTransition :: "conditionSpec \<Rightarrow> json list \<Rightarrow> string \<Rightarrow> string" where
  "upsertTransition cond [] transition = transition"
| "upsertTransition cond (raw # rest) transition =
     upsertTransition cond rest
       (if hasType (cs_condType cond) raw
           \<and> jget (asObj raw) ''status'' = JStr (statusText (cs_status cond))
           \<and> jget (asObj raw) ''reason'' = JStr (cs_reason cond)
           \<and> jget (asObj raw) ''message'' = JStr (cs_message cond)
           \<and> asStr (jget (asObj raw) ''lastTransitionTime'') \<noteq> []
        then asStr (jget (asObj raw) ''lastTransitionTime'') else transition)"

definition conditionEntry :: "conditionSpec \<Rightarrow> string \<Rightarrow> int \<Rightarrow> json" where
  "conditionEntry cond transition generation =
     JObj [(''type'', JStr (cs_condType cond)), (''status'', JStr (statusText (cs_status cond))),
           (''reason'', JStr (cs_reason cond)), (''message'', JStr (cs_message cond)),
           (''lastTransitionTime'', JStr transition), (''observedGeneration'', JInt generation)]"

definition upsertCondition :: "json list \<Rightarrow> json list \<Rightarrow> conditionSpec option \<Rightarrow> int \<Rightarrow> string \<Rightarrow> json list" where
  "upsertCondition conds prevConds cond0 generation now =
     (case cond0 of
        None \<Rightarrow> conds
      | Some cond \<Rightarrow>
          filter (\<lambda>raw. \<not> hasType (cs_condType cond) raw) conds
            @ [conditionEntry cond (upsertTransition cond prevConds now) generation])"

fun stampConditionObservedGeneration :: "json list \<Rightarrow> string \<Rightarrow> int \<Rightarrow> json list" where
  "stampConditionObservedGeneration [] conditionType generation = []"
| "stampConditionObservedGeneration (raw # conds) conditionType generation =
     (if hasType conditionType raw
      then JObj (mput ''observedGeneration'' (JInt generation) (asObj raw)) # conds
      else raw # stampConditionObservedGeneration conds conditionType generation)"

fun derivePhase :: "json list \<Rightarrow> string" where
  "derivePhase [] = ''Pending''"
| "derivePhase (raw # conds) =
     (if hasType ''Ready'' raw \<and> jget (asObj raw) ''status'' = JStr ''True'' then ''Ready''
      else if hasType ''Ready'' raw \<and> jget (asObj raw) ''status'' = JStr ''False'' then ''Failed''
      else derivePhase conds)"

section \<open>The mirrored status\<close>

definition runtimeRefKey :: string where "runtimeRefKey = ''runtimeRef''"

text \<open>The status \<^verbatim>\<open>mirrorStatus\<close> composes, in the order of its assignments. \<open>now1\<close> and
  \<open>now2\<close> are the rendered clock readings of the two calls of \<^verbatim>\<open>upsertCondition\<close>; \<open>gv\<close> is
  \<^verbatim>\<open>schema.GroupVersion.String\<close>.\<close>

definition prevStatusOf :: "unstr \<Rightarrow> json \<Rightarrow> jmap option" where
  "prevStatusOf U inst = (case nestedMap U inst [''status''] of Inr (Some m) \<Rightarrow> Some m | _ \<Rightarrow> None)"

definition baseStatus :: "unstr \<Rightarrow> jmap option \<Rightarrow> json option \<Rightarrow> jmap" where
  "baseStatus U prev runtimeObj =
     (case runtimeObj of
        Some obj \<Rightarrow> (case nestedMap U obj [''status''] of Inr (Some rs) \<Rightarrow> rs | _ \<Rightarrow> [])
      | None \<Rightarrow> (case prev of Some m \<Rightarrow> m | None \<Rightarrow> []))"

definition composeConditions ::
    "jmap \<Rightarrow> jmap \<Rightarrow> int \<Rightarrow> conditionSpec option \<Rightarrow> conditionSpec option \<Rightarrow> string \<Rightarrow> string \<Rightarrow> json list" where
  "composeConditions base prev generation valid oidc now1 now2 =
     (let prevConds = asArr (jget prev ''conditions'');
          conds = stampConditionObservedGeneration (asArr (jget base ''conditions'')) ''Ready'' generation;
          conds = upsertCondition conds prevConds valid generation now1
      in upsertCondition conds prevConds oidc generation now2)"

definition composePhase :: "conditionSpec option \<Rightarrow> json list \<Rightarrow> jmap \<Rightarrow> jmap" where
  "composePhase valid conds next =
     (let phase = asStr (jget next ''phase'') in
      case valid of
        Some v \<Rightarrow>
          if \<not> cs_status v then mput ''phase'' (JStr ''Failed'') (mput ''message'' (JStr (cs_message v)) next)
          else mput ''phase'' (JStr (if phase = [] then derivePhase conds else phase)) next
      | None \<Rightarrow> mput ''phase'' (JStr (if phase = [] then derivePhase conds else phase)) next)"

definition runtimeRefOf :: "unstr \<Rightarrow> (string \<Rightarrow> string \<Rightarrow> string) \<Rightarrow> template \<Rightarrow> json \<Rightarrow> json" where
  "runtimeRefOf U gv t obj =
     (let crd = ts_InstanceCRD (tm_Spec t) in
      JObj [(''apiVersion'', JStr (gv (crd_Group crd) (crd_Version crd))), (''kind'', JStr (crd_Kind crd)),
            (''resource'', JStr (crd_Resource crd)), (''namespace'', JStr (getNamespace U obj)),
            (''name'', JStr (getName U obj))])"

definition composeTemplate ::
    "unstr \<Rightarrow> (string \<Rightarrow> string \<Rightarrow> string) \<Rightarrow> template option \<Rightarrow> json option \<Rightarrow> jmap \<Rightarrow> jmap" where
  "composeTemplate U gv tmpl runtimeObj next =
     (case tmpl of
        None \<Rightarrow> next
      | Some t \<Rightarrow>
          let next = mput ''templateVersion'' (JStr (ts_Version (tm_Spec t))) (mput ''template'' (JStr (tm_Name t)) next) in
          case runtimeObj of None \<Rightarrow> next | Some obj \<Rightarrow> mput runtimeRefKey (runtimeRefOf U gv t obj) next)"

definition keepRuntimeRef :: "jmap \<Rightarrow> jmap \<Rightarrow> jmap" where
  "keepRuntimeRef prev next =
     (case map_of prev runtimeRefKey of
        Some ref \<Rightarrow> if jget next runtimeRefKey = JNull then mput runtimeRefKey ref next else next
      | None \<Rightarrow> next)"

definition composeNetworkPhase :: "unstr \<Rightarrow> template option \<Rightarrow> json option \<Rightarrow> jmap \<Rightarrow> jmap" where
  "composeNetworkPhase U tmpl runtimeObj next =
     (case runtimeNetworkPhase U tmpl runtimeObj of
        None \<Rightarrow> next
      | Some p \<Rightarrow> mput NetworkPhaseStatusField (JStr p) next)"

definition nextStatus ::
    "unstr \<Rightarrow> (string \<Rightarrow> string \<Rightarrow> string) \<Rightarrow> json \<Rightarrow> template option \<Rightarrow> json option \<Rightarrow>
     conditionSpec option \<Rightarrow> conditionSpec option \<Rightarrow> string \<Rightarrow> string \<Rightarrow> jmap" where
  "nextStatus U gv inst tmpl runtimeObj valid oidc now1 now2 =
     (let prev0 = prevStatusOf U inst;
          prev = (case prev0 of None \<Rightarrow> [] | Some m \<Rightarrow> m);
          base = baseStatus U prev0 runtimeObj;
          conds = composeConditions base prev (getGeneration U inst) valid oidc now1 now2;
          next = composePhase valid conds (mput ''conditions'' (JArr conds) base);
          next = mput ''observedGeneration'' (JInt (getGeneration U inst)) next;
          next = keepRuntimeRef prev (composeTemplate U gv tmpl runtimeObj next)
      in composeNetworkPhase U tmpl runtimeObj next)"

section \<open>What the mirrored status says\<close>

lemmas status_keys = runtimeRefKey_def NetworkPhaseStatusField_def

lemma jget_composePhase:
  "k \<noteq> ''phase'' \<Longrightarrow> k \<noteq> ''message'' \<Longrightarrow> jget (composePhase valid conds next) k = jget next k"
  unfolding composePhase_def Let_def by (auto split: option.splits)

lemma jget_composeTemplate:
  "k \<notin> {''template'', ''templateVersion'', runtimeRefKey} \<Longrightarrow> jget (composeTemplate U gv tmpl obj next) k = jget next k"
  unfolding composeTemplate_def Let_def by (auto split: option.splits)

lemma jget_keepRuntimeRef: "k \<noteq> runtimeRefKey \<Longrightarrow> jget (keepRuntimeRef prev next) k = jget next k"
  unfolding keepRuntimeRef_def by (auto split: option.splits)

lemma jget_composeNetworkPhase:
  "jget (composeNetworkPhase U tmpl obj next) k =
     (if k = NetworkPhaseStatusField \<and> runtimeNetworkPhase U tmpl obj \<noteq> None
      then JStr (the (runtimeNetworkPhase U tmpl obj)) else jget next k)"
  unfolding composeNetworkPhase_def by (auto split: option.splits)

lemmas compose_lookup = jget_composePhase jget_composeTemplate jget_keepRuntimeRef jget_composeNetworkPhase

lemma nextStatus_conditions:
  "jget (nextStatus U gv inst tmpl obj valid oidc n1 n2) ''conditions'' =
     JArr (composeConditions (baseStatus U (prevStatusOf U inst) obj)
             (case prevStatusOf U inst of None \<Rightarrow> [] | Some m \<Rightarrow> m) (getGeneration U inst) valid oidc n1 n2)"
  unfolding nextStatus_def Let_def by (simp add: compose_lookup status_keys)

lemma nextStatus_observedGeneration:
  "jget (nextStatus U gv inst tmpl obj valid oidc n1 n2) ''observedGeneration'' = JInt (getGeneration U inst)"
  unfolding nextStatus_def Let_def by (simp add: compose_lookup status_keys)

lemma nextStatus_failed_phase:
  "\<not> cs_status v \<Longrightarrow> jget (nextStatus U gv inst tmpl obj (Some v) oidc n1 n2) ''phase'' = JStr ''Failed''"
  unfolding nextStatus_def Let_def by (simp add: compose_lookup status_keys, simp add: composePhase_def Let_def)

lemma nextStatus_networkPhase:
  "jget (nextStatus U gv inst tmpl obj valid oidc n1 n2) NetworkPhaseStatusField =
     (case runtimeNetworkPhase U tmpl obj of
        Some p \<Rightarrow> JStr p
      | None \<Rightarrow> jget (baseStatus U (prevStatusOf U inst) obj) NetworkPhaseStatusField)"
  unfolding nextStatus_def Let_def
  by (cases "runtimeNetworkPhase U tmpl obj") (simp_all add: compose_lookup status_keys)

lemma hasType_entry [simp]: "hasType t (conditionEntry c tr g) \<longleftrightarrow> t = cs_condType c"
  by (auto simp: hasType_def conditionEntry_def isObj_def jget_def)

lemma hasType_unique: "hasType t raw \<Longrightarrow> hasType t' raw \<Longrightarrow> t = t'"
  by (auto simp: hasType_def split: option.splits)

lemma upsert_None [simp]: "upsertCondition conds prev None g n = conds"
  by (simp add: upsertCondition_def)

lemma filter_upsert:
  "filter (hasType t) (upsertCondition conds prev (Some c) g n) =
     (if t = cs_condType c then [conditionEntry c (upsertTransition c prev n) g] else filter (hasType t) conds)"
proof -
  have "filter (hasType t) (filter (\<lambda>raw. \<not> hasType (cs_condType c) raw) conds)
      = (if t = cs_condType c then [] else filter (hasType t) conds)"
    by (auto simp: filter_empty_conv intro: filter_cong dest: hasType_unique)
  then show ?thesis by (simp add: upsertCondition_def)
qed

lemma hasType_stamped:
  "hasType t raw \<Longrightarrow> hasType t (JObj (mput ''observedGeneration'' v (asObj raw)))"
  by (cases raw) (simp_all add: hasType_def isObj_def)

lemma filter_stamp_other:
  "t \<noteq> t' \<Longrightarrow> filter (hasType t) (stampConditionObservedGeneration conds t' g) = filter (hasType t) conds"
  by (induction conds) (auto dest: hasType_unique hasType_stamped)

text \<open>The provider's own conditions are mirrored exactly once each, with the current generation: the status
  has one Valid condition and, when the gate reports one, one OIDCConfigured condition, both as
  decided in this pass; conditions of every other type but Ready are exactly the backend's, in order.\<close>

theorem status_provider_conditions:
  assumes "cs_condType v = ConditionInstanceValid" and "\<forall>c. oidc = Some c \<longrightarrow> cs_condType c = oidcConditionType"
  shows "let conds = asArr (jget (nextStatus U gv inst tmpl obj (Some v) oidc n1 n2) ''conditions'') in
     (\<exists>tr. filter (hasType ConditionInstanceValid) conds = [conditionEntry v tr (getGeneration U inst)])
   \<and> (\<forall>c. oidc = Some c \<longrightarrow>
        (\<exists>tr. filter (hasType oidcConditionType) conds = [conditionEntry c tr (getGeneration U inst)]))
   \<and> (\<forall>t. t \<notin> {ConditionInstanceValid, oidcConditionType, ''Ready''} \<longrightarrow> filter (hasType t) conds =
        filter (hasType t) (asArr (jget (baseStatus U (prevStatusOf U inst) obj) ''conditions'')))"
proof -
  have ne: "ConditionInstanceValid \<noteq> oidcConditionType"
    by (simp add: ConditionInstanceValid_def oidcConditionType_def)
  show ?thesis
  proof (cases oidc)
    case None
    then show ?thesis using assms(1) ne
      unfolding Let_def nextStatus_conditions composeConditions_def
      by (auto simp: filter_upsert filter_stamp_other)
  next
    case (Some c)
    then show ?thesis using assms ne
      unfolding Let_def nextStatus_conditions composeConditions_def
      by (auto simp: filter_upsert filter_stamp_other)
  qed
qed

theorem status_provider_conditions_witness:
  "\<exists>tr. filter (hasType ConditionInstanceValid)
     (asArr (jget (nextStatus reference_unstr (\<lambda>g v. g) (JObj [(''metadata'', JObj [(''generation'', JInt 3)])]) None None
        (Some (validCondition True ''Ready'' [])) None ''a'' ''b'') ''conditions''))
     = [conditionEntry (validCondition True ''Ready'' []) tr 3]"
proof -
  let ?i = "JObj [(''metadata'', JObj [(''generation'', JInt 3)])]"
  have "cs_condType (validCondition True ''Ready'' []) = ConditionInstanceValid" by (simp add: validCondition_def)
  moreover have "getGeneration reference_unstr ?i = 3" by code_simp
  ultimately show ?thesis
    using status_provider_conditions [of "validCondition True ''Ready'' []" None reference_unstr "\<lambda>g v. g" ?i None None "''a''" "''b''"]
    unfolding Let_def by simp
qed

subsection \<open>A failed validation leaves the last good status\<close>

lemma map_of_composePhase_failed:
  "\<not> cs_status v \<Longrightarrow> map_of (composePhase (Some v) conds next) =
     (map_of next)(''message'' \<mapsto> JStr (cs_message v), ''phase'' \<mapsto> JStr ''Failed'')"
  by (simp add: composePhase_def Let_def)

text \<open>C18: A validation failure is reported without forgetting the running instance: the phase becomes Failed
  with the reason's message at the current generation, and every other field of the status except the
  conditions (the runtime reference that deletion needs among them) stays what it was.\<close>

theorem failed_keeps_last_good:
  assumes "prevStatusOf U inst = Some prev" and "\<not> cs_status v"
  shows "let st = nextStatus U gv inst None None (Some v) None n1 n2 in
     map_of st ''phase'' = Some (JStr ''Failed'') \<and> map_of st ''message'' = Some (JStr (cs_message v))
   \<and> map_of st ''observedGeneration'' = Some (JInt (getGeneration U inst))
   \<and> (\<forall>k. k \<notin> {''conditions'', ''phase'', ''message'', ''observedGeneration''} \<longrightarrow> map_of st k = map_of prev k)"
proof -
  have ref: "map_of (keepRuntimeRef prev nx) k = map_of nx k"
    if "map_of nx runtimeRefKey = map_of prev runtimeRefKey" for nx k
    using that unfolding keepRuntimeRef_def by (auto simp: jget_def split: option.splits)
  have "map_of (nextStatus U gv inst None None (Some v) None n1 n2) k =
      ((map_of prev)(''conditions'' \<mapsto> JArr (composeConditions prev prev (getGeneration U inst) (Some v) None n1 n2),
         ''message'' \<mapsto> JStr (cs_message v), ''phase'' \<mapsto> JStr ''Failed'',
         ''observedGeneration'' \<mapsto> JInt (getGeneration U inst))) k" for k
    using assms
    unfolding nextStatus_def Let_def composeNetworkPhase_def runtimeNetworkPhase_def composeTemplate_def baseStatus_def
    by (simp add: ref map_of_composePhase_failed runtimeRefKey_def)
  then show ?thesis unfolding Let_def by simp
qed

theorem failed_keeps_last_good_witness:
  "map_of (nextStatus reference_unstr (\<lambda>g v. g) (JObj [(''status'', JObj [(''phase'', JStr ''Ready''), (runtimeRefKey, JStr ''ref'')])])
     None None (Some (validCondition False ''InvalidValues'' ''bad'')) None ''a'' ''b'') runtimeRefKey = Some (JStr ''ref'')"
proof -
  let ?p = "[(''phase'', JStr ''Ready''), (runtimeRefKey, JStr ''ref'')]"
  have "prevStatusOf reference_unstr (JObj [(''status'', JObj ?p)]) = Some ?p" by code_simp
  moreover have "\<not> cs_status (validCondition False ''InvalidValues'' ''bad'')" by (simp add: validCondition_def)
  ultimately show ?thesis
    using failed_keeps_last_good [of reference_unstr "JObj [(''status'', JObj ?p)]" ?p] unfolding Let_def
    by (simp add: runtimeRefKey_def)
qed

end
