(* ===== verification/Go_Strconv.thy ===== *)
theory Go_Strconv
  imports Main
begin

text \<open>\<^verbatim>\<open>strconv.ParseBool\<close> and \<^verbatim>\<open>strconv.Atoi\<close> of Go, the second with the value it returns beside an error.\<close>

definition parseBool :: "string \<Rightarrow> bool option" where
  "parseBool s =
     (if s \<in> set [''1'', ''t'', ''T'', ''true'', ''TRUE'', ''True''] then Some True
      else if s \<in> set [''0'', ''f'', ''F'', ''false'', ''FALSE'', ''False''] then Some False
      else None)"

text \<open>The digits of an unsigned 64-bit number; past its range the loop stops with the largest one.\<close>

fun uintDigits :: "nat \<Rightarrow> string \<Rightarrow> nat option" where
  "uintDigits n [] = Some n"
| "uintDigits n (c # cs) =
     (let b = of_char c :: nat in
      if b < 48 \<or> 57 < b then None
      else let n1 = n * 10 + (b - 48) in if 2 ^ 64 \<le> n1 then Some (2 ^ 64 - 1) else uintDigits n1 cs)"

definition intMax :: int where "intMax = 9223372036854775807"

definition atoiValue :: "string \<Rightarrow> int" where
  "atoiValue s =
     (let neg = (s \<noteq> [] \<and> hd s = CHR ''-'');
          ds = (if s \<noteq> [] \<and> (hd s = CHR ''-'' \<or> hd s = CHR ''+'') then tl s else s) in
      if ds = [] then 0
      else (case uintDigits 0 ds of
              None \<Rightarrow> 0
            | Some n \<Rightarrow> if neg then max (- int n) (- intMax - 1) else min (int n) intMax))"

end
