(* ===== verification/Network_Policy.thy ===== *)
theory Network_Policy
  imports Json_Model Kro_Naming Go_Strconv
begin

text \<open>
  \<^verbatim>\<open>networkpolicy/networkpolicy.go\<close>: the ingress policy that isolates a tenant's runtime
  namespace, its configuration, and what it admits. The label check
  \<^verbatim>\<open>validation.IsDNS1123Label\<close> of apimachinery and the canonical form of a CIDR
  (\<^verbatim>\<open>net.ParseCIDR\<close>, then \<^verbatim>\<open>String\<close>) are arguments of the validation.
\<close>

section \<open>Configuration\<close>

definition networkPolicyName :: string where "networkPolicyName = ''railgrid-tenant-isolation''"
definition npLabelKey :: string where "npLabelKey = ''railgrid.ai/network-policy''"
definition npLabelValue :: string where "npLabelValue = ''tenant-isolation''"
definition namespaceNameLabel :: string where "namespaceNameLabel = ''kubernetes.io/metadata.name''"

definition EnvEnabled :: string where "EnvEnabled = ''RAILGRID_TENANT_NETWORK_POLICY_ENABLED''"
definition EnvAllowedNamespaces :: string where
  "EnvAllowedNamespaces = ''RAILGRID_TENANT_NETWORK_POLICY_ALLOWED_NAMESPACES''"
definition EnvAllowedCIDRs :: string where "EnvAllowedCIDRs = ''RAILGRID_TENANT_NETWORK_POLICY_ALLOWED_CIDRS''"

record npConfig =
  nc_Enabled :: bool
  nc_GatewayNamespace :: string
  nc_AllowedNamespaces :: "string list"
  nc_AllowedCIDRs :: "string list"

text \<open>Appending the elements that are not there yet.\<close>

fun appendNew :: "string list \<Rightarrow> string list \<Rightarrow> string list" where
  "appendNew out [] = out"
| "appendNew out (x # xs) = appendNew (if x \<in> set out then out else out @ [x]) xs"

text \<open>\<^verbatim>\<open>strings.FieldsFunc\<close>: the maximal runs of bytes that are no separators.\<close>

fun fieldsFunc :: "(char \<Rightarrow> bool) \<Rightarrow> string \<Rightarrow> string \<Rightarrow> string list" where
  "fieldsFunc sep cur [] = (if cur = [] then [] else [rev cur])"
| "fieldsFunc sep cur (c # s) =
     (if sep c then (if cur = [] then fieldsFunc sep [] s else rev cur # fieldsFunc sep [] s)
      else fieldsFunc sep (c # cur) s)"

definition listSep :: "char \<Rightarrow> bool" where
  "listSep c \<longleftrightarrow> c = CHR '','' \<or> c = CHR '' '' \<or> c = CHR 0x0A \<or> c = CHR 0x09"

definition splitList :: "string \<Rightarrow> string list" where
  "splitList raw = appendNew [] (fieldsFunc listSep [] raw)"

definition fromEnv :: "(string \<Rightarrow> string) \<Rightarrow> string \<Rightarrow> goError + npConfig" where
  "fromEnv getenv gatewayNamespace =
     (let cfg = \<lparr> nc_Enabled = False, nc_GatewayNamespace = trimSpace gatewayNamespace,
                  nc_AllowedNamespaces = splitList (getenv EnvAllowedNamespaces),
                  nc_AllowedCIDRs = splitList (getenv EnvAllowedCIDRs) \<rparr>;
          raw = trimSpace (getenv EnvEnabled)
      in if raw = [] then Inr cfg
         else case parseBool raw of
             None \<Rightarrow> Inl (Errorf ''%s=%q: want true or false'' [EnvEnabled, raw])
           | Some enabled \<Rightarrow> Inr (cfg\<lparr>nc_Enabled := enabled\<rparr>))"

definition npNamespaces :: "npConfig \<Rightarrow> string list" where
  "npNamespaces c = appendNew [] (filter (\<lambda>ns. ns \<noteq> []) (nc_GatewayNamespace c # nc_AllowedNamespaces c))"

definition npValidate :: "(string \<Rightarrow> string list) \<Rightarrow> (string \<Rightarrow> string option) \<Rightarrow> npConfig \<Rightarrow> goError + unit" where
  "npValidate isDNS1123Label canonicalCIDR c =
     (if \<not> nc_Enabled c then Inr ()
      else andThen (firstErr (\<lambda>ns. let errs = isDNS1123Label ns in
               if errs \<noteq> [] then Inl (Errorf ''tenant network policy: allowed namespace %q is invalid: %s'' [ns, joinWith ''; '' errs])
               else Inr ()) (npNamespaces c)) (\<lambda>_.
           firstErr (\<lambda>cidr. case canonicalCIDR cidr of
               None \<Rightarrow> Inl (Errorf ''tenant network policy: allowed CIDR %q is invalid: %w'' [cidr])
             | Some network \<Rightarrow>
                 if network \<noteq> cidr
                 then Inl (Errorf ''tenant network policy: allowed CIDR %q is not in canonical form, use %q'' [cidr, network])
                 else Inr ()) (nc_AllowedCIDRs c)))"

section \<open>The policy\<close>

text \<open>\<^verbatim>\<open>networkingv1.NetworkPolicyPeer\<close> and \<^verbatim>\<open>NetworkPolicySpec\<close>; a selector is its
  \<^verbatim>\<open>matchLabels\<close>.\<close>

record npPeer =
  pr_PodSelector :: "string smap option"
  pr_NamespaceSelector :: "string smap option"
  pr_IPBlock :: "string option"

record npSpec =
  ns_PodSelector :: "string smap"
  ns_PolicyTypes :: "string list"
  ns_Ingress :: "npPeer list list"

record networkPolicy =
  np_APIVersion :: string
  np_Kind :: string
  np_Name :: string
  np_Namespace :: string
  np_Labels :: "string smap"
  np_Spec :: npSpec

definition npLabels :: "string \<Rightarrow> string smap" where
  "npLabels tenant =
     [(npLabelKey, npLabelValue), (LabelManagedBy, ManagedByValue), (LabelTenant, LabelTenantValue tenant)]"

text \<open>Reading a key of a Go \<^verbatim>\<open>map[string]string\<close>: the empty string when absent.\<close>

definition lget :: "string smap \<Rightarrow> string \<Rightarrow> string" where
  "lget m k = (case map_of m k of None \<Rightarrow> [] | Some v \<Rightarrow> v)"

definition isProviderOwned :: "string smap \<Rightarrow> bool" where
  "isProviderOwned labels \<longleftrightarrow> lget labels npLabelKey = npLabelValue \<and> lget labels LabelManagedBy = ManagedByValue"

definition buildPolicy :: "string \<Rightarrow> string \<Rightarrow> npConfig \<Rightarrow> networkPolicy" where
  "buildPolicy namespace tenant cfg =
     (let peers =
            [\<lparr> pr_PodSelector = Some [], pr_NamespaceSelector = None, pr_IPBlock = None \<rparr>,
             \<lparr> pr_PodSelector = None,
               pr_NamespaceSelector = Some [(LabelTenant, LabelTenantValue tenant), (LabelManagedBy, ManagedByValue)],
               pr_IPBlock = None \<rparr>]
          @ map (\<lambda>ns. \<lparr> pr_PodSelector = None, pr_NamespaceSelector = Some [(namespaceNameLabel, ns)], pr_IPBlock = None \<rparr>)
              (npNamespaces cfg)
          @ map (\<lambda>cidr. \<lparr> pr_PodSelector = None, pr_NamespaceSelector = None, pr_IPBlock = Some cidr \<rparr>) (nc_AllowedCIDRs cfg)
      in \<lparr> np_APIVersion = ''networking.k8s.io/v1'', np_Kind = ''NetworkPolicy'',
           np_Name = networkPolicyName, np_Namespace = namespace, np_Labels = npLabels tenant,
           np_Spec = \<lparr> ns_PodSelector = [], ns_PolicyTypes = [''Ingress''], ns_Ingress = [peers] \<rparr> \<rparr>)"

section \<open>What the policy admits\<close>

text \<open>
  The Kubernetes reading of an ingress policy, as its API documentation states it: a pod
  is isolated when a policy of type Ingress selects it; then a connection is admitted when some peer
  of some rule matches its source. A peer with only a pod selector matches pods of the policy's own
  namespace, one with a namespace selector the pods of the namespaces with those labels, and an
  address block the addresses in it (\<open>inBlock\<close>).
\<close>

record ingressSource =
  is_Namespace :: string
  is_NamespaceLabels :: "string smap"
  is_PodLabels :: "string smap"
  is_Address :: string

definition selects :: "string smap \<Rightarrow> string smap \<Rightarrow> bool" where
  "selects sel labels \<longleftrightarrow> list_all (\<lambda>(k, v). map_of labels k = Some v) sel"

definition peerMatches :: "(string \<Rightarrow> string \<Rightarrow> bool) \<Rightarrow> string \<Rightarrow> ingressSource \<Rightarrow> npPeer \<Rightarrow> bool" where
  "peerMatches inBlock ns src p =
     (case pr_IPBlock p of
        Some cidr \<Rightarrow> inBlock (is_Address src) cidr
      | None \<Rightarrow>
          (case pr_NamespaceSelector p of
             Some sel \<Rightarrow> selects sel (is_NamespaceLabels src)
           | None \<Rightarrow> is_Namespace src = ns)
        \<and> (case pr_PodSelector p of Some sel \<Rightarrow> selects sel (is_PodLabels src) | None \<Rightarrow> True))"

definition admits :: "(string \<Rightarrow> string \<Rightarrow> bool) \<Rightarrow> networkPolicy \<Rightarrow> string smap \<Rightarrow> ingressSource \<Rightarrow> bool" where
  "admits inBlock np podLabels src \<longleftrightarrow>
     \<not> (selects (ns_PodSelector (np_Spec np)) podLabels \<and> ''Ingress'' \<in> set (ns_PolicyTypes (np_Spec np)))
     \<or> list_ex (list_ex (peerMatches inBlock (np_Namespace np) src)) (ns_Ingress (np_Spec np))"

lemma set_appendNew [simp]: "set (appendNew out xs) = set out \<union> set xs"
  by (induction out xs rule: appendNew.induct) auto

lemma distinct_appendNew: "distinct out \<Longrightarrow> distinct (appendNew out xs)"
  by (induction out xs rule: appendNew.induct) auto

lemma fieldsFunc_elems:
  "f \<in> set (fieldsFunc sep cur s) \<Longrightarrow> \<forall>c \<in> set cur. \<not> sep c \<Longrightarrow> f \<noteq> [] \<and> (\<forall>c \<in> set f. \<not> sep c)"
proof (induction sep cur s arbitrary: f rule: fieldsFunc.induct)
  case (2 sep cur c s)
  show ?case
  proof (cases "sep c")
    case False
    then have "f \<in> set (fieldsFunc sep (c # cur) s)" using "2.prems"(1) by simp
    moreover have "\<forall>x \<in> set (c # cur). \<not> sep x" using "2.prems"(2) False by simp
    ultimately show ?thesis using "2.IH"(3) False by blast
  next
    case True
    show ?thesis
    proof (cases "cur \<noteq> [] \<and> f = rev cur")
      case self: True
      then show ?thesis using "2.prems"(2) by simp
    next
      case False
      then have "f \<in> set (fieldsFunc sep [] s)" using "2.prems"(1) True by (auto split: if_splits)
      moreover have "\<forall>c \<in> set []. \<not> sep c" by simp
      ultimately show ?thesis using "2.IH"(1) [OF True] "2.IH"(2) [OF True] by blast
    qed
  qed
qed (simp split: if_splits)

lemma fieldsFunc_concat: "concat (fieldsFunc sep cur s) = rev cur @ filter (\<lambda>c. \<not> sep c) s"
  by (induction sep cur s rule: fieldsFunc.induct) auto

text \<open>Isolation. In a namespace under the policy a connection is admitted exactly when its source is in the
  same namespace, in a namespace the provider labelled for the same tenant, in the gateway's or an
  explicitly allowed namespace, or at an explicitly allowed address; whatever the target pod's labels.\<close>

theorem policy_admits_iff:
  assumes "map_of (is_NamespaceLabels src) namespaceNameLabel = Some (is_Namespace src)"
  shows "admits inBlock (buildPolicy ns tenant cfg) podLabels src \<longleftrightarrow>
      is_Namespace src = ns
    \<or> (map_of (is_NamespaceLabels src) LabelTenant = Some (tenantHash tenant)
         \<and> map_of (is_NamespaceLabels src) LabelManagedBy = Some ManagedByValue)
    \<or> (is_Namespace src \<noteq> [] \<and> is_Namespace src \<in> set (nc_GatewayNamespace cfg # nc_AllowedNamespaces cfg))
    \<or> (\<exists>cidr \<in> set (nc_AllowedCIDRs cfg). inBlock (is_Address src) cidr)"
proof -
  have "list_ex (peerMatches inBlock ns src)
      (map (\<lambda>ns. \<lparr> pr_PodSelector = None, pr_NamespaceSelector = Some [(namespaceNameLabel, ns)], pr_IPBlock = None \<rparr>) xs)
      \<longleftrightarrow> is_Namespace src \<in> set xs" for xs
    using assms by (induction xs) (auto simp: peerMatches_def selects_def)
  moreover have "list_ex (peerMatches inBlock ns src)
      (map (\<lambda>cidr. \<lparr> pr_PodSelector = None, pr_NamespaceSelector = None, pr_IPBlock = Some cidr \<rparr>) xs)
      \<longleftrightarrow> (\<exists>cidr \<in> set xs. inBlock (is_Address src) cidr)" for xs
    by (induction xs) (auto simp: peerMatches_def)
  moreover have "is_Namespace src \<in> set (npNamespaces cfg) \<longleftrightarrow>
      is_Namespace src \<noteq> [] \<and> is_Namespace src \<in> set (nc_GatewayNamespace cfg # nc_AllowedNamespaces cfg)"
    by (auto simp: npNamespaces_def)
  ultimately show ?thesis
    unfolding admits_def buildPolicy_def Let_def
    by (simp add: list_ex_append del: list.map, simp add: peerMatches_def selects_def LabelTenantValue_def)
qed

theorem policy_admits_iff_witness:
  "\<not> admits (\<lambda>a c. False) (buildPolicy ''a-default'' ''a'' \<lparr>nc_Enabled = True, nc_GatewayNamespace = ''gw'', nc_AllowedNamespaces = [], nc_AllowedCIDRs = []\<rparr>)
       [] \<lparr>is_Namespace = ''b-default'', is_NamespaceLabels = [(namespaceNameLabel, ''b-default'')], is_PodLabels = [], is_Address = []\<rparr>"
proof -
  let ?s = "\<lparr>is_Namespace = ''b-default'', is_NamespaceLabels = [(namespaceNameLabel, ''b-default'')], is_PodLabels = [], is_Address = []\<rparr>"
  have l: "map_of (is_NamespaceLabels ?s) namespaceNameLabel = Some (is_Namespace ?s)" by simp
  have "namespaceNameLabel \<noteq> LabelTenant" by (simp add: namespaceNameLabel_def LabelTenant_def)
  with policy_admits_iff [OF l, where tenant = "''a''"] show ?thesis by simp
qed

text \<open>An allow list read from the environment is exactly the comma- or white-space-separated words of the
  variable: every entry is non-empty and free of separators, there are no duplicates, no word is lost,
  and every byte of the variable that is not a separator is in one of the words.\<close>

theorem splitList_words:
  "distinct (splitList raw) \<and> set (splitList raw) = set (fieldsFunc listSep [] raw)
   \<and> list_all (\<lambda>w. w \<noteq> [] \<and> list_all (\<lambda>c. \<not> listSep c) w) (splitList raw)
   \<and> concat (fieldsFunc listSep [] raw) = filter (\<lambda>c. \<not> listSep c) raw"
proof -
  have "list_all (\<lambda>w. w \<noteq> [] \<and> list_all (\<lambda>c. \<not> listSep c) w) (splitList raw)"
    unfolding splitList_def using fieldsFunc_elems [of _ listSep "[]" raw] by (auto simp: list_all_iff)
  then show ?thesis by (simp add: splitList_def distinct_appendNew fieldsFunc_concat)
qed

end
