(* ===== verification/Kube_Api.thy ===== *)
theory Kube_Api
  imports Interaction Instance_Status Network_Policy
begin

text \<open>
  The calls the Instance controller makes: requests to the runtime cluster (the dynamic client),
  to the tenant workspace (the controller-runtime client), to the template catalog, to the clock and
  to the controller's two caches. An answer is a record with one field per kind of reply; each call
  reads its own field. \<open>ctrlEnv\<close> holds the configuration and the third-party functions the code
  applies to values.
\<close>

section \<open>Requests and answers\<close>

datatype apiError = NotFound | AlreadyExists | Conflict | OtherError string

record gvr =
  gr_Group :: string
  gr_Version :: string
  gr_Resource :: string

record cachedContract =
  cc_resourceVersion :: string
  cc_template :: template
  cc_contract :: "goError + contract"

datatype tenantKind = KInstance | KSecret

text \<open>A cluster-scoped resource has the namespace \<open>[]\<close>; a delete may carry a UID precondition.\<close>

datatype request =
    RtGet gvr string string
  | RtList gvr string "string smap"
  | RtCreate gvr string json
  | RtUpdate gvr string json
  | RtPatch gvr string string json
  | RtDelete gvr string string "string option"
  | TnGet tenantKind string string
  | TnUpdate json
  | TnUpdateStatus json
  | TnDelete json
  | TmGet string
  | GetCluster string
  | ReadClock
  | SyncLoad string
  | SyncStore string string int
  | ContractLoad string
  | ContractStore string cachedContract

record answer =
  an_obj :: "apiError + json"
  an_list :: "apiError + json list"
  an_time :: int
  an_sync :: "(string \<times> int) option"
  an_contract :: "cachedContract option"

type_synonym 'a act = "(request, answer, 'a) prog"

definition api :: "request \<Rightarrow> (apiError + json) act" where
  "api q = Ask q (\<lambda>r. Ret (an_obj r))"

definition clock :: "int act" where
  "clock = Ask ReadClock (\<lambda>r. Ret (an_time r))"

section \<open>Errors\<close>

text \<open>An error of the controller: an API error, a plain one, or one wrapped by
  \<^verbatim>\<open>fmt.Errorf\<close> with \<^verbatim>\<open>%w\<close>. \<^verbatim>\<open>apierrors.IsNotFound\<close> looks through wrapping.\<close>

datatype cerr = CApi apiError | CErr goError | CWrap string "string list" cerr

fun isNotFound :: "cerr \<Rightarrow> bool" where
  "isNotFound (CApi e) = (e = NotFound)"
| "isNotFound (CErr e) = False"
| "isNotFound (CWrap f args e) = isNotFound e"

section \<open>Configuration and library functions\<close>

record ctrlConfig =
  cf_BaseDomain :: string
  cf_CredentialsNamespace :: string
  cf_CodingSandboxEnabled :: bool
  cf_NetworkPolicy :: npConfig

text \<open>
  \<^item> \<open>ce_gvString\<close>, \<open>ce_parseGV\<close>: \<^verbatim>\<open>schema.GroupVersion.String\<close> and \<^verbatim>\<open>ParseGroupVersion\<close>;
  \<^item> \<open>ce_decodeTemplate\<close>: marshalling an object and unmarshalling it as a Template;
  \<^item> \<open>ce_decodePolicy\<close>, \<open>ce_encodePolicy\<close>: the unstructured converter for NetworkPolicy (the first
    component carries the metadata the code does not touch);
  \<^item> \<open>ce_policySpecEqual\<close>: \<^verbatim>\<open>equality.Semantic.DeepEqual\<close> on policy specs;
  \<^item> \<open>ce_containsFinalizer\<close>, \<open>ce_addFinalizer\<close>, \<open>ce_removeFinalizer\<close>: \<^verbatim>\<open>controllerutil\<close>;
  \<^item> \<open>ce_aggregate\<close>: \<^verbatim>\<open>field.ErrorList.ToAggregate().Error()\<close>;
  \<^item> \<open>ce_retrySteps\<close>: the steps of \<^verbatim>\<open>retry.DefaultRetry\<close>.
\<close>

record ctrlEnv =
  ce_U :: unstr
  ce_lib :: schemaLib
  ce_cfg :: ctrlConfig
  ce_gvString :: "string \<Rightarrow> string \<Rightarrow> string"
  ce_parseGV :: "string \<Rightarrow> (string \<times> string) option"
  ce_decodeTemplate :: "json \<Rightarrow> goError + template"
  ce_decodePolicy :: "json \<Rightarrow> goError + json \<times> networkPolicy"
  ce_encodePolicy :: "json \<Rightarrow> networkPolicy \<Rightarrow> goError + json"
  ce_policySpecEqual :: "npSpec \<Rightarrow> npSpec \<Rightarrow> bool"
  ce_containsFinalizer :: "json \<Rightarrow> string \<Rightarrow> bool"
  ce_addFinalizer :: "json \<Rightarrow> string \<Rightarrow> json"
  ce_removeFinalizer :: "json \<Rightarrow> string \<Rightarrow> json"
  ce_aggregate :: "string list \<Rightarrow> string"
  ce_retrySteps :: nat

definition namespaceGVR :: gvr where "namespaceGVR = \<lparr>gr_Group = [], gr_Version = ''v1'', gr_Resource = ''namespaces''\<rparr>"
definition secretGVR :: gvr where "secretGVR = \<lparr>gr_Group = [], gr_Version = ''v1'', gr_Resource = ''secrets''\<rparr>"
definition serviceAccountGVR :: gvr where "serviceAccountGVR = \<lparr>gr_Group = [], gr_Version = ''v1'', gr_Resource = ''serviceaccounts''\<rparr>"
definition podsGVR :: gvr where "podsGVR = \<lparr>gr_Group = [], gr_Version = ''v1'', gr_Resource = ''pods''\<rparr>"
definition jobsGVR :: gvr where "jobsGVR = \<lparr>gr_Group = ''batch'', gr_Version = ''v1'', gr_Resource = ''jobs''\<rparr>"
definition networkPolicyGVR :: gvr where
  "networkPolicyGVR = \<lparr>gr_Group = ''networking.k8s.io'', gr_Version = ''v1'', gr_Resource = ''networkpolicies''\<rparr>"

definition finalizer :: string where "finalizer = ''instances.infrastructure.railgrid.ai/runtime''"

section \<open>Groups of requests\<close>

text \<open>A write of a workload: creating or updating anything in a namespace of the runtime cluster other
  than the isolation policy itself.\<close>

fun workloadWrite :: "request \<Rightarrow> bool" where
  "workloadWrite (RtCreate g ns v) = (ns \<noteq> [] \<and> g \<noteq> networkPolicyGVR)"
| "workloadWrite (RtUpdate g ns v) = (ns \<noteq> [] \<and> g \<noteq> networkPolicyGVR)"
| "workloadWrite q = False"

fun runtimeWrite :: "request \<Rightarrow> bool" where
  "runtimeWrite (RtCreate g ns v) = True"
| "runtimeWrite (RtUpdate g ns v) = True"
| "runtimeWrite (RtPatch g ns n v) = True"
| "runtimeWrite (RtDelete g ns n u) = True"
| "runtimeWrite q = False"

fun tenantWrite :: "request \<Rightarrow> bool" where
  "tenantWrite (TnUpdate v) = True"
| "tenantWrite (TnUpdateStatus v) = True"
| "tenantWrite (TnDelete v) = True"
| "tenantWrite q = False"

text \<open>A call to the tenant workspace.\<close>

fun tenantCall :: "request \<Rightarrow> bool" where
  "tenantCall (TnGet k ns n) = True"
| "tenantCall (TnUpdate v) = True"
| "tenantCall (TnUpdateStatus v) = True"
| "tenantCall (TnDelete v) = True"
| "tenantCall q = False"

text \<open>A runtime request inside the namespace \<open>ns\<close>, or one that reads or creates the Namespace object of that name.\<close>

definition objectName :: "json \<Rightarrow> string" where
  "objectName v = asStr (jget (asObj (jget (asObj v) ''metadata'')) ''name'')"

fun inNamespace :: "string \<Rightarrow> request \<Rightarrow> bool" where
  "inNamespace ns (RtGet g n x) = (n = ns \<or> n = [] \<and> g = namespaceGVR \<and> x = ns)"
| "inNamespace ns (RtList g n s) = (n = ns)"
| "inNamespace ns (RtCreate g n v) = (n = ns \<or> n = [] \<and> g = namespaceGVR \<and> objectName v = ns)"
| "inNamespace ns (RtUpdate g n v) = (n = ns)"
| "inNamespace ns (RtPatch g n x v) = (n = ns)"
| "inNamespace ns (RtDelete g n x u) = (n = ns)"
| "inNamespace ns q = True"

end
