(* ===== verification/Instance_Controller.thy ===== *)
theory Instance_Controller
  imports Kube_Api
begin

text \<open>
  The Instance controller, one definition per function of \<^verbatim>\<open>controller/instance\<close>:
  \<^verbatim>\<open>networkpolicy.go\<close>, \<^verbatim>\<open>bridge.go\<close>, \<^verbatim>\<open>run_cleanup.go\<close>, \<^verbatim>\<open>runtime.go\<close>,
  \<^verbatim>\<open>stamp.go\<close> and \<^verbatim>\<open>controller.go\<close>, as programs over the calls of the theory of the
  cluster API. Log lines are left out. Errors of the Go code are the \<^term>\<open>Inl\<close> results.
\<close>

section \<open>networkpolicy.go\<close>

definition networkPolicyResync :: int where "networkPolicyResync = 600 * second"

definition toUnstructuredNetworkPolicy :: "ctrlEnv \<Rightarrow> json \<Rightarrow> networkPolicy \<Rightarrow> cerr + json" where
  "toUnstructuredNetworkPolicy E meta np =
     mapErr (\<lambda>e. CErr (Wrapf ''encode networkpolicy %s/%s: %w'' [np_Namespace np, np_Name np] e)) (ce_encodePolicy E meta np)"

text \<open>The part of \<^verbatim>\<open>applyTenantNetworkPolicy\<close> after the policy was read.\<close>

definition policyCurrent :: "ctrlEnv \<Rightarrow> networkPolicy \<Rightarrow> networkPolicy \<Rightarrow> bool" where
  "policyCurrent E desired current \<longleftrightarrow>
     list_all (\<lambda>(k, v). lget (np_Labels current) k = v) (np_Labels desired)
     \<and> ce_policySpecEqual E (np_Spec current) (np_Spec desired)"

definition convergeNetworkPolicy :: "ctrlEnv \<Rightarrow> string \<Rightarrow> networkPolicy \<Rightarrow> json \<Rightarrow> (cerr + unit) act" where
  "convergeNetworkPolicy E ns desired existing =
     (case ce_decodePolicy E existing of
        Inl e \<Rightarrow> Ret (Inl (CErr (Wrapf ''decode networkpolicy %s/%s: %w'' [ns, np_Name desired] e)))
      | Inr (meta, current) \<Rightarrow>
          if policyCurrent E desired current then Ret (Inr ())
          else let current = current\<lparr> np_Labels := fold (\<lambda>(k, v) m. mput k v m) (np_Labels desired) (np_Labels current),
                        np_Spec := np_Spec desired, np_APIVersion := np_APIVersion desired, np_Kind := np_Kind desired \<rparr> in
            (case toUnstructuredNetworkPolicy E meta current of
               Inl e \<Rightarrow> Ret (Inl e)
             | Inr obj \<Rightarrow>
                 bind (api (RtUpdate networkPolicyGVR ns obj)) (\<lambda>r.
                   Ret (mapErr (\<lambda>e. CWrap ''update networkpolicy %s/%s: %w'' [ns, np_Name desired] (CApi e))
                     (case r of Inl e \<Rightarrow> Inl e | Inr _ \<Rightarrow> Inr ())))))"

definition getNetworkPolicy :: "ctrlEnv \<Rightarrow> string \<Rightarrow> networkPolicy \<Rightarrow> (apiError + json) \<Rightarrow> (cerr + unit) act" where
  "getNetworkPolicy E ns desired r =
     (case r of
        Inl e \<Rightarrow> Ret (Inl (CWrap ''get networkpolicy %s/%s: %w'' [ns, np_Name desired] (CApi e)))
      | Inr existing \<Rightarrow> convergeNetworkPolicy E ns desired existing)"

definition applyTenantNetworkPolicy :: "ctrlEnv \<Rightarrow> string \<Rightarrow> string \<Rightarrow> (cerr + unit) act" where
  "applyTenantNetworkPolicy E ns tenant =
     (let desired = buildPolicy ns tenant (cf_NetworkPolicy (ce_cfg E)) in
      bind (api (RtGet networkPolicyGVR ns (np_Name desired))) (\<lambda>got.
      if got = Inl NotFound
      then (case toUnstructuredNetworkPolicy E (JObj []) desired of
              Inl e \<Rightarrow> Ret (Inl e)
            | Inr obj \<Rightarrow>
                bind (api (RtCreate networkPolicyGVR ns obj)) (\<lambda>created.
                case created of
                  Inr _ \<Rightarrow> Ret (Inr ())
                | Inl e \<Rightarrow>
                    if e \<noteq> AlreadyExists then Ret (Inl (CWrap ''create networkpolicy %s/%s: %w'' [ns, np_Name desired] (CApi e)))
                    else bind (api (RtGet networkPolicyGVR ns (np_Name desired))) (getNetworkPolicy E ns desired)))
      else getNetworkPolicy E ns desired got))"

definition removeTenantNetworkPolicy :: "ctrlEnv \<Rightarrow> string \<Rightarrow> unit act" where
  "removeTenantNetworkPolicy E ns =
     bind (api (RtGet networkPolicyGVR ns networkPolicyName)) (\<lambda>got.
     case got of
       Inl _ \<Rightarrow> Ret ()
     | Inr existing \<Rightarrow>
         if \<not> isProviderOwned (getLabels (ce_U E) existing) then Ret ()
         else bind (api (RtDelete networkPolicyGVR ns networkPolicyName (Some (getUID (ce_U E) existing)))) (\<lambda>_. Ret ()))"

definition syncFresh :: "string \<Rightarrow> string \<times> int \<Rightarrow> int \<Rightarrow> bool" where
  "syncFresh uid s now \<longleftrightarrow> fst s = uid \<and> now - snd s < networkPolicyResync"

definition convergeAndStore :: "ctrlEnv \<Rightarrow> string \<Rightarrow> string \<Rightarrow> string \<Rightarrow> (cerr + unit) act" where
  "convergeAndStore E ns tenant uid =
     bindE (if nc_Enabled (cf_NetworkPolicy (ce_cfg E)) then applyTenantNetworkPolicy E ns tenant
            else bind (removeTenantNetworkPolicy E ns) (\<lambda>_. Ret (Inr ()))) (\<lambda>_.
     bind clock (\<lambda>now. Ask (SyncStore ns uid now) (\<lambda>_. Ret (Inr ()))))"

definition ensureTenantNetworkPolicy :: "ctrlEnv \<Rightarrow> string \<Rightarrow> string \<Rightarrow> string \<Rightarrow> (cerr + unit) act" where
  "ensureTenantNetworkPolicy E ns tenant uid =
     Ask (SyncLoad ns) (\<lambda>r.
     case an_sync r of
       None \<Rightarrow> convergeAndStore E ns tenant uid
     | Some s \<Rightarrow>
         bind clock (\<lambda>now. if syncFresh uid s now then Ret (Inr ()) else convergeAndStore E ns tenant uid))"

section \<open>runtime.go: namespaces\<close>

definition runtimeNamespaceLabels :: "string \<Rightarrow> string smap" where
  "runtimeNamespaceLabels tenant = [(LabelManagedBy, ManagedByValue), (LabelTenant, LabelTenantValue tenant)]"

definition labelsJson :: "string smap \<Rightarrow> json" where
  "labelsJson ls = JObj (map (\<lambda>(k, v). (k, JStr v)) ls)"

definition backfillRuntimeNamespaceLabels :: "ctrlEnv \<Rightarrow> json \<Rightarrow> string \<Rightarrow> (cerr + unit) act" where
  "backfillRuntimeNamespaceLabels E ns tenant =
     (let current = getLabels (ce_U E) ns;
          missing = filter (\<lambda>(k, w). map_of current k = None) (runtimeNamespaceLabels tenant);
          foreign = list_ex (\<lambda>(k, w). map_of current k \<noteq> None \<and> map_of current k \<noteq> Some w) (runtimeNamespaceLabels tenant)
      in if foreign \<or> missing = [] then Ret (Inr ())
         else bind (api (RtPatch namespaceGVR [] (getName (ce_U E) ns)
                  (JObj [(''metadata'', JObj [(''labels'', labelsJson missing)])]))) (\<lambda>r.
              Ret (case r of
                     Inl e \<Rightarrow> Inl (CWrap ''label namespace %s for tenant isolation: %w'' [getName (ce_U E) ns] (CApi e))
                   | Inr _ \<Rightarrow> Inr ())))"

definition ensureRuntimeNamespace :: "ctrlEnv \<Rightarrow> string \<Rightarrow> string \<Rightarrow> (cerr + string) act" where
  "ensureRuntimeNamespace E ns tenant =
     bind (api (RtGet namespaceGVR [] ns)) (\<lambda>got.
     case got of
       Inr existing \<Rightarrow>
         bindE (if nc_Enabled (cf_NetworkPolicy (ce_cfg E)) then backfillRuntimeNamespaceLabels E existing tenant
                else Ret (Inr ())) (\<lambda>_. Ret (Inr (getUID (ce_U E) existing)))
     | Inl e \<Rightarrow>
         if e \<noteq> NotFound then Ret (Inl (CWrap ''get namespace %s: %w'' [ns] (CApi e)))
         else bind (api (RtCreate namespaceGVR []
                  (JObj [(''apiVersion'', JStr ''v1''), (''kind'', JStr ''Namespace''),
                     (''metadata'', JObj [(''name'', JStr ns), (''labels'', labelsJson (runtimeNamespaceLabels tenant))])]))) (\<lambda>created.
              bind (if created = Inl AlreadyExists then api (RtGet namespaceGVR [] ns) else Ret created) (\<lambda>created.
              Ret (case created of
                     Inl e \<Rightarrow> Inl (CWrap ''create namespace %s: %w'' [ns] (CApi e))
                   | Inr o' \<Rightarrow> Inr (getUID (ce_U E) o')))))"

definition ensureNamespace :: "ctrlEnv \<Rightarrow> string \<Rightarrow> string \<Rightarrow> (cerr + unit) act" where
  "ensureNamespace E ns tenant =
     bindE (ensureRuntimeNamespace E ns tenant) (\<lambda>uid. ensureTenantNetworkPolicy E ns tenant uid)"

section \<open>bridge.go\<close>

definition oidcClientSecretKey :: string where "oidcClientSecretKey = ''oidc_client_secret''"
definition cloudCredentialsSecret :: string where "cloudCredentialsSecret = ''cloud-credentials''"

definition registryPullSecretName :: "string \<Rightarrow> string" where
  "registryPullSecretName inst = inst @ ''-registry''"

text \<open>The common tail of \<^verbatim>\<open>writeBridgedSecret\<close> and \<^verbatim>\<open>writeRuntimePullSecret\<close>: create or
  replace; \<open>what\<close> is the noun of the error messages.\<close>

definition upsertSecret :: "ctrlEnv \<Rightarrow> string \<Rightarrow> string \<Rightarrow> string \<Rightarrow> json \<Rightarrow> (cerr + unit) act" where
  "upsertSecret E what ns secretName desired =
     bind (api (RtGet secretGVR ns secretName)) (\<lambda>got.
     case got of
       Inl e \<Rightarrow>
         if e = NotFound
         then bind (api (RtCreate secretGVR ns desired)) (\<lambda>created.
              Ret (case created of
                     Inl e \<Rightarrow> if e \<noteq> AlreadyExists then Inl (CWrap (''create '' @ what @ '': %w'') [] (CApi e)) else Inr ()
                   | Inr _ \<Rightarrow> Inr ()))
         else Ret (Inl (CWrap (''get '' @ what @ '': %w'') [] (CApi e)))
     | Inr existing \<Rightarrow>
         bind (api (RtUpdate secretGVR ns (setResourceVersion (ce_U E) desired (getResourceVersion (ce_U E) existing)))) (\<lambda>updated.
         Ret (case updated of
                Inl e \<Rightarrow> Inl (CWrap (''update '' @ what @ '': %w'') [] (CApi e))
              | Inr _ \<Rightarrow> Inr ())))"

definition bridgedSecret :: "string \<Rightarrow> string \<Rightarrow> string \<Rightarrow> string smap \<Rightarrow> json" where
  "bridgedSecret tenant ns secretName data =
     JObj [(''apiVersion'', JStr ''v1''), (''kind'', JStr ''Secret''),
       (''metadata'', JObj [(''name'', JStr secretName), (''namespace'', JStr ns),
          (''labels'', labelsJson [(LabelTenant, LabelTenantValue tenant), (LabelManagedBy, ManagedByValue)])]),
       (''type'', JStr ''Opaque''), (''data'', labelsJson data)]"

definition writeBridgedSecret :: "ctrlEnv \<Rightarrow> string \<Rightarrow> string \<Rightarrow> string \<Rightarrow> string smap \<Rightarrow> (cerr + unit) act" where
  "writeBridgedSecret E tenant srcNamespace name data =
     (let ns = runtimeNamespace tenant srcNamespace; secretName = CredentialsSecretName name in
      bindE (ensureNamespace E ns tenant) (\<lambda>_.
      upsertSecret E ''bridged secret'' ns secretName (bridgedSecret tenant ns secretName data)))"

definition bridgeBYOSecret :: "ctrlEnv \<Rightarrow> string \<Rightarrow> string \<Rightarrow> string \<Rightarrow> (cerr + unit) act" where
  "bridgeBYOSecret E tenant srcNamespace name =
     (let cns = cf_CredentialsNamespace (ce_cfg E) in
      bind (api (TnGet KSecret cns cloudCredentialsSecret)) (\<lambda>got.
      case got of
        Inl e \<Rightarrow>
          if e = NotFound
          then Ret (Inl (CErr (Errorf (''tenant Secret %s/%s not found'' @ emDash @ ''create it with key %q before provisioning a BYO application'')
                 [cns, cloudCredentialsSecret, oidcClientSecretKey])))
          else Ret (Inl (CWrap ''reading tenant cloud-credentials: %w'' [] (CApi e)))
      | Inr src \<Rightarrow>
          let encoded = lget (foundOr [] (nestedStrMap (ce_U E) src [''data''])) oidcClientSecretKey in
          if encoded = []
          then Ret (Inl (CErr (Errorf ''tenant Secret %s/%s has no key %q'' [cns, cloudCredentialsSecret, oidcClientSecretKey])))
          else writeBridgedSecret E tenant srcNamespace name [(oidcClientSecretKey, encoded)]))"

definition deleteBridgedSecret :: "string \<Rightarrow> string \<Rightarrow> string \<Rightarrow> (cerr + unit) act" where
  "deleteBridgedSecret tenant srcNamespace name =
     bind (api (RtDelete secretGVR (runtimeNamespace tenant srcNamespace) (CredentialsSecretName name) None)) (\<lambda>r.
     Ret (case r of Inl e \<Rightarrow> if e \<noteq> NotFound then Inl (CApi e) else Inr () | Inr _ \<Rightarrow> Inr ()))"

definition runtimePullSecret :: "string \<Rightarrow> string \<Rightarrow> string \<Rightarrow> json" where
  "runtimePullSecret ns secretName dockerconfigjson =
     JObj [(''apiVersion'', JStr ''v1''), (''kind'', JStr ''Secret''),
       (''metadata'', JObj [(''name'', JStr secretName), (''namespace'', JStr ns),
          (''labels'', labelsJson [(LabelManagedBy, ManagedByValue)])]),
       (''type'', JStr ''kubernetes.io/dockerconfigjson''), (''data'', labelsJson [(''.dockerconfigjson'', dockerconfigjson)])]"

definition writeRuntimePullSecret :: "ctrlEnv \<Rightarrow> string \<Rightarrow> string \<Rightarrow> string \<Rightarrow> string \<Rightarrow> (cerr + unit) act" where
  "writeRuntimePullSecret E ns tenant secretName dockerconfigjson =
     bindE (ensureNamespace E ns tenant) (\<lambda>_.
     upsertSecret E ''runtime pull secret'' ns secretName (runtimePullSecret ns secretName dockerconfigjson))"

text \<open>Whether an entry of \<^verbatim>\<open>imagePullSecrets\<close> names the Secret.\<close>

definition namesSecret :: "string \<Rightarrow> json \<Rightarrow> bool" where
  "namesSecret secretName ps \<longleftrightarrow> (case isObj ps of Some m \<Rightarrow> jget m ''name'' = JStr secretName | None \<Rightarrow> False)"

definition ensureDefaultSAImagePullSecret :: "ctrlEnv \<Rightarrow> string \<Rightarrow> string \<Rightarrow> (cerr + unit) act" where
  "ensureDefaultSAImagePullSecret E ns secretName =
     bind (api (RtGet serviceAccountGVR ns ''default'')) (\<lambda>got.
     case got of
       Inl e \<Rightarrow> Ret (Inl (CWrap ''get default serviceaccount in %s: %w'' [ns] (CApi e)))
     | Inr sa \<Rightarrow>
         let pullSecrets = foundOr [] (nestedSlice (ce_U E) sa [''imagePullSecrets'']) in
         if list_ex (namesSecret secretName) pullSecrets then Ret (Inr ())
         else (case setNested (ce_U E) sa (JArr (pullSecrets @ [JObj [(''name'', JStr secretName)]])) [''imagePullSecrets''] of
            Inl _ \<Rightarrow> Ret (Inl (CErr (Errorf ''set imagePullSecrets'' [])))
          | Inr sa' \<Rightarrow>
              bind (api (RtUpdate serviceAccountGVR ns sa')) (\<lambda>r.
              Ret (case r of
                     Inl e \<Rightarrow> Inl (CWrap ''attach imagePullSecret to default serviceaccount in %s: %w'' [ns] (CApi e))
                   | Inr _ \<Rightarrow> Inr ()))))"

definition detachDefaultSAImagePullSecret :: "ctrlEnv \<Rightarrow> string \<Rightarrow> string \<Rightarrow> (cerr + unit) act" where
  "detachDefaultSAImagePullSecret E ns secretName =
     bind (api (RtGet serviceAccountGVR ns ''default'')) (\<lambda>got.
     case got of
       Inl e \<Rightarrow>
         if e = NotFound then Ret (Inr ())
         else Ret (Inl (CWrap ''get default serviceaccount in %s: %w'' [ns] (CApi e)))
     | Inr sa \<Rightarrow>
         let pullSecrets = foundOr [] (nestedSlice (ce_U E) sa [''imagePullSecrets'']);
             kept = filter (\<lambda>ps. \<not> namesSecret secretName ps) pullSecrets in
         if \<not> list_ex (namesSecret secretName) pullSecrets then Ret (Inr ())
         else (case (if kept = [] then Inr (removeNested (ce_U E) sa [''imagePullSecrets''])
                     else setNested (ce_U E) sa (JArr kept) [''imagePullSecrets'']) of
            Inl _ \<Rightarrow> Ret (Inl (CErr (Errorf ''set imagePullSecrets'' [])))
          | Inr sa' \<Rightarrow>
              bind (api (RtUpdate serviceAccountGVR ns sa')) (\<lambda>r.
              Ret (case r of
                     Inl e \<Rightarrow> Inl (CWrap ''detach imagePullSecret from default serviceaccount in %s: %w'' [ns] (CApi e))
                   | Inr _ \<Rightarrow> Inr ()))))"

definition bridgeRegistryPullSecret :: "ctrlEnv \<Rightarrow> string \<Rightarrow> string \<Rightarrow> string \<Rightarrow> (cerr + unit) act" where
  "bridgeRegistryPullSecret E tenant srcNamespace name =
     (let cns = cf_CredentialsNamespace (ce_cfg E) in
      bind (api (TnGet KSecret cns (registryPullSecretName name))) (\<lambda>got.
      case got of
        Inl e \<Rightarrow>
          if e = NotFound then Ret (Inr ())
          else Ret (Inl (CWrap ''reading tenant registry secret: %w'' [] (CApi e)))
      | Inr src \<Rightarrow>
          let encoded = lget (foundOr [] (nestedStrMap (ce_U E) src [''data''])) ''.dockerconfigjson'';
              ns = runtimeNamespace tenant srcNamespace; secretName = registryPullSecretName name in
          if encoded = []
          then Ret (Inl (CErr (Errorf ''tenant Secret %s/%s has no .dockerconfigjson'' [cns, registryPullSecretName name])))
          else bindE (writeRuntimePullSecret E ns tenant secretName encoded) (\<lambda>_.
               ensureDefaultSAImagePullSecret E ns secretName)))"

definition tenantHasPullSecret :: "ctrlEnv \<Rightarrow> string \<Rightarrow> (cerr + bool) act" where
  "tenantHasPullSecret E name =
     bind (api (TnGet KSecret (cf_CredentialsNamespace (ce_cfg E)) (registryPullSecretName name))) (\<lambda>got.
     Ret (case got of Inl e \<Rightarrow> if e = NotFound then Inr False else Inl (CApi e) | Inr _ \<Rightarrow> Inr True))"

definition cleanupRegistryPullSecret :: "ctrlEnv \<Rightarrow> string \<Rightarrow> string \<Rightarrow> string \<Rightarrow> (cerr + unit) act" where
  "cleanupRegistryPullSecret E tenant srcNamespace name =
     (let ns = runtimeNamespace tenant srcNamespace; secretName = registryPullSecretName name in
      bind (api (RtDelete secretGVR ns secretName None)) (\<lambda>r.
      case r of
        Inl e \<Rightarrow>
          if e \<noteq> NotFound then Ret (Inl (CWrap ''delete runtime pull secret: %w'' [] (CApi e)))
          else detachDefaultSAImagePullSecret E ns secretName
      | Inr _ \<Rightarrow> detachDefaultSAImagePullSecret E ns secretName))"

definition bridgeSecrets :: "ctrlEnv \<Rightarrow> string \<Rightarrow> json \<Rightarrow> bool \<Rightarrow> (cerr + unit) act" where
  "bridgeSecrets E tenant inst bridgeOIDC =
     (let name = getName (ce_U E) inst; srcNamespace = getNamespace (ce_U E) inst in
      bindE (wrapE (CWrap ''checking registry pull secret: %w'' []) (tenantHasPullSecret E name)) (\<lambda>hasPull.
      bindE (if hasPull
             then wrapE (CWrap ''bridging registry pull secret: %w'' []) (bridgeRegistryPullSecret E tenant srcNamespace name)
             else Ret (Inr ())) (\<lambda>_.
      if bridgeOIDC
      then wrapE (CWrap ''bridging BYO OIDC client secret: %w'' []) (bridgeBYOSecret E tenant srcNamespace name)
      else Ret (Inr ()))))"

end
