(* ===== verification/Instance_Reconcile.thy ===== *)
theory Instance_Reconcile
  imports Instance_Controller
begin

text \<open>
  The second half of the Instance controller: \<^verbatim>\<open>run_cleanup.go\<close>, the synchronisation,
  status and finalization of \<^verbatim>\<open>runtime.go\<close>, the stamps of \<^verbatim>\<open>stamp.go\<close> and the
  reconcile loop of \<^verbatim>\<open>controller.go\<close>.
\<close>

section \<open>run\_cleanup.go\<close>

definition runSandboxTemplateName :: string where "runSandboxTemplateName = ''universal-coding-sandbox''"
definition runSandboxDevComponent :: string where "runSandboxDevComponent = ''railgrid-dev''"
definition runSandboxManagedBy :: string where "runSandboxManagedBy = ''railgrid-infrastructure''"
definition runSandboxJobNameLabel :: string where "runSandboxJobNameLabel = ''job-name''"
definition runSandboxNameLabel :: string where "runSandboxNameLabel = ''app.kubernetes.io/name''"
definition runSandboxComponentLabel :: string where "runSandboxComponentLabel = ''app.kubernetes.io/component''"
definition runSandboxManagedByLabel :: string where "runSandboxManagedByLabel = ''app.kubernetes.io/managed-by''"

definition runSandboxLabelsMatch :: "string smap \<Rightarrow> bool" where
  "runSandboxLabelsMatch got \<longleftrightarrow>
     lget got runSandboxNameLabel = runSandboxTemplateName \<and>
     lget got runSandboxComponentLabel = runSandboxDevComponent \<and>
     lget got runSandboxManagedByLabel = runSandboxManagedBy"

definition runSandboxInstanceTemplateName :: "unstr \<Rightarrow> json \<Rightarrow> string" where
  "runSandboxInstanceTemplateName U inst =
     (let name = foundOr [] (nestedStr U inst [''spec'', ''template'']) in
      if name \<noteq> [] then name else foundOr [] (nestedStr U inst [''status'', ''template'']))"

definition tokenPodSelector :: "string \<Rightarrow> string smap" where
  "tokenPodSelector instanceName =
     [(runSandboxNameLabel, runSandboxTemplateName), (runSandboxComponentLabel, runSandboxDevComponent),
      (runSandboxManagedByLabel, runSandboxManagedBy), (runSandboxJobNameLabel, instanceName @ ''-dev-token'')]"

definition cleanupRunSandboxTokenPods :: "ctrlEnv \<Rightarrow> string \<Rightarrow> string \<Rightarrow> string \<Rightarrow> (cerr + bool) act" where
  "cleanupRunSandboxTokenPods E templateName namespace instanceName =
     (if templateName \<noteq> runSandboxTemplateName then Ret (Inr True)
      else if namespace = [] \<or> instanceName = []
      then Ret (Inl (CErr (Errorf ''run-sandbox pod cleanup requires namespace and instance name'' [])))
      else Ask (RtList podsGVR namespace (tokenPodSelector instanceName)) (\<lambda>r.
        case an_list r of
          Inl e \<Rightarrow> Ret (Inl (CWrap ''list run-sandbox token pods in %s: %w'' [namespace] (CApi e)))
        | Inr items \<Rightarrow>
            if items = [] then Ret (Inr True)
            else bindE (eachE (\<lambda>pod.
                   let name = getName (ce_U E) pod in
                   if name = [] then Ret (Inr ())
                   else bind (api (RtDelete podsGVR namespace name None)) (\<lambda>d.
                     Ret (case d of
                            Inl e \<Rightarrow> if e \<noteq> NotFound
                              then Inl (CWrap ''delete run-sandbox token pod %s/%s: %w'' [namespace, name] (CApi e)) else Inr ()
                          | Inr _ \<Rightarrow> Inr ()))) items) (\<lambda>_.
                 Ret (Inr False))))"

definition cleanupRunSandboxTokenResource :: "ctrlEnv \<Rightarrow> gvr \<Rightarrow> string \<Rightarrow> string \<Rightarrow> string \<Rightarrow> (cerr + bool) act" where
  "cleanupRunSandboxTokenResource E g namespace name kind =
     bind (api (RtGet g namespace name)) (\<lambda>got.
     case got of
       Inl e \<Rightarrow>
         if e = NotFound then Ret (Inr True)
         else Ret (Inl (CWrap ''get run-sandbox token %s %s/%s: %w'' [kind, namespace, name] (CApi e)))
     | Inr obj \<Rightarrow>
         if \<not> runSandboxLabelsMatch (getLabels (ce_U E) obj)
         then Ret (Inl (CErr (Errorf ''refusing to delete run-sandbox token %s %s/%s with unexpected labels'' [kind, namespace, name])))
         else bind (api (RtDelete g namespace name None)) (\<lambda>d.
           Ret (case d of
                  Inl e \<Rightarrow> if e \<noteq> NotFound
                    then Inl (CWrap ''delete run-sandbox token %s %s/%s: %w'' [kind, namespace, name] (CApi e)) else Inr False
                | Inr _ \<Rightarrow> Inr False)))"

text \<open>\<^verbatim>\<open>New\<close> refuses a nil runtime client, so the branch for one cannot be reached.\<close>

definition cleanupRunSandboxTokenResources :: "ctrlEnv \<Rightarrow> string \<Rightarrow> string \<Rightarrow> string \<Rightarrow> (cerr + bool) act" where
  "cleanupRunSandboxTokenResources E templateName namespace instanceName =
     (if templateName \<noteq> runSandboxTemplateName then Ret (Inr True)
      else if namespace = [] \<or> instanceName = []
      then Ret (Inl (CErr (Errorf ''run-sandbox token cleanup requires namespace and instance name'' [])))
      else bindE (cleanupRunSandboxTokenPods E templateName namespace instanceName) (\<lambda>podsDone.
           bindE (cleanupRunSandboxTokenResource E jobsGVR namespace (instanceName @ ''-dev-token'') ''Job'') (\<lambda>jobDone.
           bindE (cleanupRunSandboxTokenResource E secretGVR namespace (instanceName @ ''-dev-control'') ''Secret'') (\<lambda>secretDone.
           Ret (Inr (podsDone \<and> jobDone \<and> secretDone))))))"

section \<open>runtime.go: the runtime object\<close>

definition runtimeGVRFor :: "template \<Rightarrow> gvr" where
  "runtimeGVRFor t =
     \<lparr> gr_Group = crd_Group (ts_InstanceCRD (tm_Spec t)), gr_Version = crd_Version (ts_InstanceCRD (tm_Spec t)),
       gr_Resource = crd_Resource (ts_InstanceCRD (tm_Spec t)) \<rparr>"

definition currentRuntime :: "ctrlEnv \<Rightarrow> string \<Rightarrow> template \<Rightarrow> json \<Rightarrow> (apiError + json option) act" where
  "currentRuntime E tenant tmpl inst =
     bind (api (RtGet (runtimeGVRFor tmpl) (runtimeNamespace tenant (getNamespace (ce_U E) inst)) (getName (ce_U E) inst))) (\<lambda>r.
     Ret (case r of
            Inl e \<Rightarrow> if e = NotFound then Inr None else Inl e
          | Inr obj \<Rightarrow> Inr (Some obj)))"

definition runtimeLabels :: "template \<Rightarrow> string \<Rightarrow> string smap" where
  "runtimeLabels tmpl tenant =
     [(LabelTemplate, tm_Name tmpl), (LabelTenant, LabelTenantValue tenant), (LabelManagedBy, ManagedByValue)]"

definition desiredRuntime :: "ctrlEnv \<Rightarrow> string \<Rightarrow> template \<Rightarrow> json \<Rightarrow> jmap \<Rightarrow> json" where
  "desiredRuntime E tenant tmpl inst values =
     (let g = runtimeGVRFor tmpl; ns = runtimeNamespace tenant (getNamespace (ce_U E) inst) in
      JObj [(''apiVersion'', JStr (ce_gvString E (gr_Group g) (gr_Version g))),
            (''kind'', JStr (crd_Kind (ts_InstanceCRD (tm_Spec tmpl)))),
            (''metadata'', JObj [(''name'', JStr (getName (ce_U E) inst)), (''namespace'', JStr ns),
               (''labels'', labelsJson (runtimeLabels tmpl tenant))]),
            (''spec'', JObj values)])"

text \<open>What \<^verbatim>\<open>syncRuntime\<close> does with an existing object: nothing when it is current, else the merged
  object to write.\<close>

definition convergedRuntime :: "ctrlEnv \<Rightarrow> string \<Rightarrow> template \<Rightarrow> jmap \<Rightarrow> json \<Rightarrow> cerr + json option" where
  "convergedRuntime E tenant tmpl values existing =
     (let curSpec = foundOr [] (nestedMap (ce_U E) existing [''spec'']);
          curLabels = getLabels (ce_U E) existing;
          labelsCurrent = list_all (\<lambda>(k, v). lget curLabels k = v) (runtimeLabels tmpl tenant)
      in if specSubset (ce_U E) values curSpec \<and> labelsCurrent then Inr None
         else (case setNested (ce_U E) existing (JObj (overlayValues curSpec values)) [''spec''] of
             Inl _ \<Rightarrow> Inl (CErr (Errorf ''set runtime spec: %w'' []))
           | Inr obj \<Rightarrow>
               Inr (Some (setLabels (ce_U E) obj (fold (\<lambda>(k, v) m. mput k v m) (runtimeLabels tmpl tenant) curLabels)))))"

definition syncExisting :: "ctrlEnv \<Rightarrow> string \<Rightarrow> template \<Rightarrow> string \<Rightarrow> jmap \<Rightarrow> json \<Rightarrow> (cerr + json) act" where
  "syncExisting E tenant tmpl ns values existing =
     (case convergedRuntime E tenant tmpl values existing of
        Inl e \<Rightarrow> Ret (Inl e)
      | Inr None \<Rightarrow> Ret (Inr existing)
      | Inr (Some obj) \<Rightarrow>
          bind (api (RtUpdate (runtimeGVRFor tmpl) ns obj)) (\<lambda>r.
          Ret (mapErr (\<lambda>e. CWrap ''update runtime instance: %w'' [] (CApi e)) r)))"

definition syncRuntime :: "ctrlEnv \<Rightarrow> string \<Rightarrow> template \<Rightarrow> json \<Rightarrow> jmap \<Rightarrow> (cerr + json) act" where
  "syncRuntime E tenant tmpl inst values =
     (let ns = runtimeNamespace tenant (getNamespace (ce_U E) inst); name = getName (ce_U E) inst; g = runtimeGVRFor tmpl in
      bindE (ensureNamespace E ns tenant) (\<lambda>_.
      bind (api (RtGet g ns name)) (\<lambda>got.
      case got of
        Inl e \<Rightarrow>
          if e = NotFound
          then bind (api (RtCreate g ns (desiredRuntime E tenant tmpl inst values))) (\<lambda>created.
               case created of
                 Inl ce \<Rightarrow>
                   if ce = AlreadyExists then wrapE CApi (api (RtGet g ns name))
                   else Ret (Inl (CWrap ''create runtime instance: %w'' [] (CApi ce)))
               | Inr obj \<Rightarrow> Ret (Inr obj))
          else Ret (Inl (CWrap ''get runtime instance: %w'' [] (CApi e)))
      | Inr existing \<Rightarrow> syncExisting E tenant tmpl ns values existing)))"

definition clockIf :: "bool \<Rightarrow> int act" where
  "clockIf b = (if b then clock else Ret 0)"

definition mirrorStatus ::
    "ctrlEnv \<Rightarrow> json \<Rightarrow> template option \<Rightarrow> json option \<Rightarrow> conditionSpec option \<Rightarrow> conditionSpec option \<Rightarrow> (cerr + bool) act" where
  "mirrorStatus E inst tmpl runtimeObj valid oidc =
     bind (clockIf (valid \<noteq> None)) (\<lambda>t1. bind (clockIf (oidc \<noteq> None)) (\<lambda>t2.
     let U = ce_U E;
         prev = (case prevStatusOf U inst of None \<Rightarrow> [] | Some m \<Rightarrow> m);
         next = nextStatus U (ce_gvString E) inst tmpl runtimeObj valid oidc (formatRFC3339 t1) (formatRFC3339 t2);
         ready = conditionTrue (asArr (jget next ''conditions'')) ''Ready''
     in if semanticDeepEqual U (JObj prev) (JObj next) then Ret (Inr ready)
        else (case setNested U inst (JObj next) [''status''] of
            Inl _ \<Rightarrow> Ret (Inl (CErr (Errorf ''set status: %w'' [])))
          | Inr inst' \<Rightarrow>
              bind (api (TnUpdateStatus inst')) (\<lambda>r.
              Ret (case r of Inl e \<Rightarrow> Inl (CWrap ''update status: %w'' [] (CApi e)) | Inr _ \<Rightarrow> Inr ready)))))"

section \<open>controller.go: templates\<close>

definition resolveTemplate :: "ctrlEnv \<Rightarrow> string \<Rightarrow> (cerr + template \<times> contract option) act" where
  "resolveTemplate E name =
     (if name = [] then Ret (Inl (CApi NotFound))
      else bind (api (TmGet name)) (\<lambda>got.
        case got of
          Inl e \<Rightarrow> Ret (Inl (CApi e))
        | Inr obj \<Rightarrow>
            let rv = getResourceVersion (ce_U E) obj;
                fresh =
                  (case ce_decodeTemplate E obj of
                     Inl e \<Rightarrow> Ret (Inl (CErr (Wrapf ''decode template: %w'' [] e)))
                   | Inr tmpl \<Rightarrow>
                       let c = newContract (ce_lib E) tmpl in
                       Ask (ContractStore name \<lparr>cc_resourceVersion = rv, cc_template = tmpl, cc_contract = c\<rparr>) (\<lambda>_.
                       Ret (Inr (tmpl, case c of Inl _ \<Rightarrow> None | Inr k \<Rightarrow> Some k))))
            in Ask (ContractLoad name) (\<lambda>r.
              case an_contract r of
                Some cached \<Rightarrow>
                  if cc_resourceVersion cached = rv
                  then Ret (Inr (cc_template cached, case cc_contract cached of Inl _ \<Rightarrow> None | Inr k \<Rightarrow> Some k))
                  else fresh
              | None \<Rightarrow> fresh)))"

section \<open>runtime.go: finalization\<close>

definition refStr :: "jmap \<Rightarrow> string \<Rightarrow> string" where
  "refStr ref k = asStr (jget ref k)"

definition recordedTarget :: "ctrlEnv \<Rightarrow> json \<Rightarrow> (gvr \<times> string \<times> string) option" where
  "recordedTarget E inst =
     (case nestedMap (ce_U E) inst [''status'', runtimeRefKey] of
        Inr (Some ref) \<Rightarrow>
          (case ce_parseGV E (refStr ref ''apiVersion'') of
             Some (g, v) \<Rightarrow>
               if refStr ref ''resource'' \<noteq> [] \<and> refStr ref ''namespace'' \<noteq> [] \<and> refStr ref ''name'' \<noteq> []
               then Some (\<lparr>gr_Group = g, gr_Version = v, gr_Resource = refStr ref ''resource''\<rparr>,
                          refStr ref ''namespace'', refStr ref ''name'')
               else None
           | None \<Rightarrow> None)
      | _ \<Rightarrow> None)"

definition runtimeTarget :: "ctrlEnv \<Rightarrow> string \<Rightarrow> json \<Rightarrow> (gvr \<times> string \<times> string) option act" where
  "runtimeTarget E tenant inst =
     (case recordedTarget E inst of
        Some t \<Rightarrow> Ret (Some t)
      | None \<Rightarrow>
          bind (resolveTemplate E (foundOr [] (nestedStr (ce_U E) inst [''spec'', ''template'']))) (\<lambda>r.
          Ret (case r of
                 Inl _ \<Rightarrow> None
               | Inr (tmpl, _) \<Rightarrow>
                   Some (runtimeGVRFor tmpl, runtimeNamespace tenant (getNamespace (ce_U E) inst), getName (ce_U E) inst))))"

definition tryRemoveFinalizer :: "ctrlEnv \<Rightarrow> string \<Rightarrow> string \<Rightarrow> (apiError + unit) act" where
  "tryRemoveFinalizer E ns name =
     bind (api (TnGet KInstance ns name)) (\<lambda>got.
     case got of
       Inl e \<Rightarrow> Ret (if e = NotFound then Inr () else Inl e)
     | Inr current \<Rightarrow>
         if \<not> ce_containsFinalizer E current finalizer then Ret (Inr ())
         else bind (api (TnUpdate (ce_removeFinalizer E current finalizer))) (\<lambda>r.
              Ret (case r of Inl e \<Rightarrow> Inl e | Inr _ \<Rightarrow> Inr ())))"

text \<open>\<^verbatim>\<open>retry.RetryOnConflict\<close>: again while the attempt ends in a conflict and steps are left.\<close>

fun retryOnConflict :: "nat \<Rightarrow> (apiError + unit) act \<Rightarrow> (apiError + unit) act" where
  "retryOnConflict 0 p = Ret (Inl Conflict)"
| "retryOnConflict (Suc 0) p = p"
| "retryOnConflict (Suc (Suc n)) p =
     bind p (\<lambda>r. if r = Inl Conflict then retryOnConflict (Suc n) p else Ret r)"

definition removeInstanceFinalizer :: "ctrlEnv \<Rightarrow> string \<Rightarrow> string \<Rightarrow> (cerr + unit) act" where
  "removeInstanceFinalizer E ns name =
     wrapE CApi (retryOnConflict (ce_retrySteps E) (tryRemoveFinalizer E ns name))"

text \<open>The part of \<^verbatim>\<open>finalize\<close> that deletes the runtime object: \<^term>\<open>Inr True\<close> once it is gone,
  \<^term>\<open>Inr False\<close> while the backend still tears it down.\<close>

definition checkGone :: "gvr \<Rightarrow> string \<Rightarrow> string \<Rightarrow> (cerr + bool) act" where
  "checkGone g ns name =
     bind (api (RtGet g ns name)) (\<lambda>got.
     Ret (case got of
            Inr _ \<Rightarrow> Inr False
          | Inl e \<Rightarrow> if e \<noteq> NotFound then Inl (CWrap ''check runtime instance gone: %w'' [] (CApi e)) else Inr True))"

definition deleteRuntime :: "gvr \<Rightarrow> string \<Rightarrow> string \<Rightarrow> (cerr + bool) act" where
  "deleteRuntime g ns name =
     bind (api (RtDelete g ns name None)) (\<lambda>d.
     case d of
       Inl e \<Rightarrow>
         if e \<noteq> NotFound then Ret (Inl (CWrap ''delete runtime instance: %w'' [] (CApi e)))
         else checkGone g ns name
     | Inr _ \<Rightarrow> checkGone g ns name)"

text \<open>The cleanup after the runtime object is gone; \<open>ns\<close> is the namespace of the target, or empty.\<close>

definition releaseInstance :: "ctrlEnv \<Rightarrow> string \<Rightarrow> json \<Rightarrow> (cerr + int) act" where
  "releaseInstance E tenant inst =
     (let srcNamespace = getNamespace (ce_U E) inst; name = getName (ce_U E) inst in
      bindE (wrapE (CWrap ''cleanup bridged secret: %w'' []) (deleteBridgedSecret tenant srcNamespace name)) (\<lambda>_.
      bindE (wrapE (CWrap ''cleanup registry pull secret: %w'' []) (cleanupRegistryPullSecret E tenant srcNamespace name)) (\<lambda>_.
      bindE (wrapE (CWrap ''removing finalizer: %w'' []) (removeInstanceFinalizer E srcNamespace name)) (\<lambda>_.
      Ret (Inr 0)))))"

definition cleanupInstance :: "ctrlEnv \<Rightarrow> string \<Rightarrow> json \<Rightarrow> string \<Rightarrow> (cerr + int) act" where
  "cleanupInstance E tenant inst ns =
     (if runSandboxInstanceTemplateName (ce_U E) inst = runSandboxTemplateName
      then let cleanupNamespace = (if ns = [] then runtimeNamespace tenant (getNamespace (ce_U E) inst) else ns) in
        bindE (wrapE (CWrap ''cleanup run-sandbox token resources: %w'' [])
            (cleanupRunSandboxTokenResources E runSandboxTemplateName cleanupNamespace (getName (ce_U E) inst))) (\<lambda>done.
        if \<not> done then Ret (Inr second) else releaseInstance E tenant inst)
      else releaseInstance E tenant inst)"

definition finalize :: "ctrlEnv \<Rightarrow> string \<Rightarrow> json \<Rightarrow> (cerr + int) act" where
  "finalize E tenant inst =
     (if \<not> ce_containsFinalizer E inst finalizer then Ret (Inr 0)
      else bind (runtimeTarget E tenant inst) (\<lambda>target.
        case target of
          Some (g, ns, name) \<Rightarrow>
            bindE (deleteRuntime g ns name) (\<lambda>gone.
            if \<not> gone then Ret (Inr (3 * second)) else cleanupInstance E tenant inst ns)
        | None \<Rightarrow> cleanupInstance E tenant inst []))"

section \<open>stamp.go\<close>

definition stampOne :: "unstr \<Rightarrow> string \<Rightarrow> string \<Rightarrow> string list \<Rightarrow> json \<Rightarrow> cerr + json" where
  "stampOne U what v path inst =
     (case setNested U inst (JStr v) path of
        Inl _ \<Rightarrow> Inl (CErr (Errorf (''set '' @ what @ '': %w'') []))
      | Inr x \<Rightarrow> Inr x)"

text \<open>The new object of \<^verbatim>\<open>stampValues\<close>, or \<^term>\<open>None\<close> when everything is already stamped.\<close>

definition stampedInstance :: "ctrlEnv \<Rightarrow> string \<Rightarrow> json \<Rightarrow> bool \<Rightarrow> bool \<Rightarrow> cerr + json option" where
  "stampedInstance E tenant inst withCredentials withCluster =
     (let U = ce_U E; baseDomain = cf_BaseDomain (ce_cfg E);
          str = (\<lambda>path. foundOr [] (nestedStr U inst path)) in
      if baseDomain = []
      then Inl (CErr (Errorf ''cannot compute the public hostname: RAILGRID_APP_BASE_DOMAIN is not configured on this provider'' []))
      else (case host (str [''spec'', ''values'', ''expose'', ''hostnamePrefix'']) (getName U inst) tenant baseDomain of
          Inl e \<Rightarrow> Inl (CErr (Wrapf ''computing fqdn: %w'' [] e))
        | Inr fqdn \<Rightarrow>
            let stampCluster = (withCluster \<and> str [''spec'', ''values'', ''railgridCluster''] \<noteq> tenant);
                credentials = CredentialsSecretName (getName U inst);
                current = (str [''spec'', ''values'', ''expose'', ''fqdn''] = fqdn \<and> \<not> stampCluster
                  \<and> (withCredentials \<longrightarrow> str [''spec'', ''values'', ''credentialsSecretName''] = credentials))
            in if current then Inr None
               else andThen (stampOne U ''spec.values.expose.fqdn'' fqdn [''spec'', ''values'', ''expose'', ''fqdn''] inst) (\<lambda>i1.
                    andThen (if stampCluster then stampOne U ''spec.values.railgridCluster'' tenant [''spec'', ''values'', ''railgridCluster''] i1
                             else Inr i1) (\<lambda>i2.
                    andThen (if withCredentials
                             then stampOne U ''spec.values.credentialsSecretName'' credentials [''spec'', ''values'', ''credentialsSecretName''] i2
                             else Inr i2) (\<lambda>i3.
                    Inr (Some i3))))))"

definition stampValues :: "ctrlEnv \<Rightarrow> string \<Rightarrow> json \<Rightarrow> bool \<Rightarrow> bool \<Rightarrow> (cerr + bool) act" where
  "stampValues E tenant inst withCredentials withCluster =
     (case stampedInstance E tenant inst withCredentials withCluster of
        Inl e \<Rightarrow> Ret (Inl e)
      | Inr None \<Rightarrow> Ret (Inr False)
      | Inr (Some inst') \<Rightarrow>
          bind (api (TnUpdate inst')) (\<lambda>r.
          Ret (case r of Inl e \<Rightarrow> Inl (CWrap ''stamping spec.values: %w'' [] (CApi e)) | Inr _ \<Rightarrow> Inr True)))"

record exposureOutcome =
  eo_stampedSpec :: bool
  eo_bridgeOIDC :: bool

definition applyExposure :: "ctrlEnv \<Rightarrow> string \<Rightarrow> json \<Rightarrow> templateTraits \<Rightarrow> (cerr + conditionSpec option \<times> exposureOutcome) act" where
  "applyExposure E tenant inst traits =
     (let exposeEnabled = foundOr False (nestedBool (ce_U E) inst [''spec'', ''values'', ''expose'', ''enabled'']);
          mode = foundOr [] (nestedStr (ce_U E) inst [''spec'', ''values'', ''oidc'', ''mode'']) in
      case decideGate traits exposeEnabled mode of
        Inl e \<Rightarrow> Ret (Inl (CErr e))
      | Inr d \<Rightarrow>
          if \<not> gd_stamp d then Ret (Inr (gd_cond d, \<lparr>eo_stampedSpec = False, eo_bridgeOIDC = False\<rparr>))
          else bindE (stampValues E tenant inst (gd_withCredentials d) (tt_hasRailgridCluster traits)) (\<lambda>stamped.
               if stamped then Ret (Inr (gd_cond d, \<lparr>eo_stampedSpec = True, eo_bridgeOIDC = False\<rparr>))
               else Ret (Inr (gd_cond d, \<lparr>eo_stampedSpec = False, eo_bridgeOIDC = gd_bridgeOIDC d\<rparr>))))"

section \<open>controller.go: reconcile\<close>

definition ReasonInvalidValues :: string where "ReasonInvalidValues = ''InvalidValues''"
definition ReasonTemplateNotFound :: string where "ReasonTemplateNotFound = ''TemplateNotFound''"
definition ReasonCodingSandboxDisabled :: string where "ReasonCodingSandboxDisabled = ''CodingSandboxDisabled''"
definition ReasonReady :: string where "ReasonReady = ''Ready''"

text \<open>The rendering of \<^verbatim>\<open>%q\<close> for the bytes a template name may have: printable ASCII, with quotes and
  backslashes escaped; other bytes are kept.\<close>

definition goQuote :: "string \<Rightarrow> string" where
  "goQuote s = [CHR 0x22] @ concat (map (\<lambda>c. if c = CHR 0x22 \<or> c = CHR 0x5C then [CHR 0x5C, c] else [c]) s) @ [CHR 0x22]"

definition failValidation :: "ctrlEnv \<Rightarrow> json \<Rightarrow> string \<Rightarrow> string \<Rightarrow> (cerr + int) act" where
  "failValidation E inst reason message =
     bindE (mirrorStatus E inst None None (Some (validCondition False reason message)) None) (\<lambda>_.
     Ret (Inr requeueReady))"

definition deleteDue :: "json \<Rightarrow> string \<Rightarrow> (cerr + int) act" where
  "deleteDue inst what =
     bind (api (TnDelete inst)) (\<lambda>r.
     Ret (case r of
            Inl e \<Rightarrow> if e \<noteq> NotFound then Inl (CWrap what [] (CApi e)) else Inr 0
          | Inr _ \<Rightarrow> Inr 0))"

text \<open>From the runtime synchronisation on: converge, check the lifetime again, mirror, requeue.\<close>

definition runtimeValues :: "unstr \<Rightarrow> template \<Rightarrow> json \<Rightarrow> apiError + json option \<Rightarrow> jmap" where
  "runtimeValues U tmpl inst cur0 =
     (let stamped = foundOr [] (nestedMap U inst [''spec'', ''values'']);
          cur = (case cur0 of Inl _ \<Rightarrow> None | Inr ob \<Rightarrow> ob) in
      if ts_Development (tm_Spec tmpl) \<noteq> None
      then mput NetworkPhaseField (JStr (desiredNetworkPhase U cur)) stamped else stamped)"

definition convergeInstance :: "ctrlEnv \<Rightarrow> string \<Rightarrow> json \<Rightarrow> template \<Rightarrow> conditionSpec option \<Rightarrow> (cerr + int) act" where
  "convergeInstance E tenant inst tmpl oidcCond =
     (let U = ce_U E in
      bind (currentRuntime E tenant tmpl inst) (\<lambda>cur0.
      bindE (wrapE (CWrap ''syncing runtime instance: %w'' [])
          (syncRuntime E tenant tmpl inst (runtimeValues U tmpl inst cur0))) (\<lambda>runtimeObj.
      bind clock (\<lambda>now.
      if lifecycleDue U now (getCreation U inst) (ts_Development (tm_Spec tmpl)) (Some runtimeObj) \<noteq> None
      then deleteDue inst ''delete idle sandbox: %w''
      else bindE (wrapE (CWrap ''mirroring status: %w'' [])
               (mirrorStatus E inst (Some tmpl) (Some runtimeObj) (Some (validCondition True ReasonReady [])) oidcCond)) (\<lambda>ready.
           bind clock (\<lambda>t1. bind clock (\<lambda>t2.
           Ret (Inr (instanceRequeueAfter U t1 t2 (getCreation U inst) (Some tmpl) (Some runtimeObj) ready)))))))))"

text \<open>From the lifetime check on, for an instance whose template is in the catalog and compiles.\<close>

definition serveInstance :: "ctrlEnv \<Rightarrow> string \<Rightarrow> json \<Rightarrow> template \<Rightarrow> contract \<Rightarrow> (cerr + int) act" where
  "serveInstance E tenant inst tmpl contract =
     (let U = ce_U E in
      bind clock (\<lambda>now.
      if lifecycleDue U now (getCreation U inst) (ts_Development (tm_Spec tmpl)) None \<noteq> None
      then deleteDue inst ''delete expired sandbox: %w''
      else let values = (case nestedMap U inst [''spec'', ''values''] of Inr (Some m) \<Rightarrow> Some m | _ \<Rightarrow> None);
               errs = snd (validateAndDefault contract values) in
        if errs \<noteq> [] then failValidation E inst ReasonInvalidValues (ce_aggregate E errs)
        else (case traitsFor (ce_lib E) tmpl of
            Inl e \<Rightarrow> Ret (Inl (CErr (Wrapf ''deriving template traits: %w'' [] e)))
          | Inr traits \<Rightarrow>
              bindE (applyExposure E tenant inst traits) (\<lambda>(oidcCond, proceed).
              if eo_stampedSpec proceed then Ret (Inr 0)
              else bindE (bridgeSecrets E tenant inst (eo_bridgeOIDC proceed)) (\<lambda>_.
                   convergeInstance E tenant inst tmpl oidcCond)))))"

definition reconcileInstance :: "ctrlEnv \<Rightarrow> string \<Rightarrow> json \<Rightarrow> (cerr + int) act" where
  "reconcileInstance E tenant inst =
     (let templateName = foundOr [] (nestedStr (ce_U E) inst [''spec'', ''template'']) in
      bind (resolveTemplate E templateName) (\<lambda>r.
      case r of
        Inl e \<Rightarrow>
          if isNotFound e
          then failValidation E inst ReasonTemplateNotFound (''template '' @ goQuote templateName @ '' is not in the catalog'')
          else Ret (Inl (CWrap ''resolving template %q: %w'' [templateName] e))
      | Inr (tmpl, None) \<Rightarrow>
          failValidation E inst ReasonInvalidValues
            (''template '' @ goQuote templateName @ '' has an invalid values schema; see the Template's SchemaValid condition'')
      | Inr (tmpl, Some contract) \<Rightarrow>
          if templateName = UniversalCodingSandboxTemplateName \<and> \<not> cf_CodingSandboxEnabled (ce_cfg E)
          then failValidation E inst ReasonCodingSandboxDisabled ''the universal coding sandbox is disabled by provider configuration''
          else serveInstance E tenant inst tmpl contract))"

definition reconcile :: "ctrlEnv \<Rightarrow> string \<Rightarrow> string \<Rightarrow> string \<Rightarrow> (cerr + int) act" where
  "reconcile E tenant ns name =
     bind (api (GetCluster tenant)) (\<lambda>cl.
     case cl of
       Inl e \<Rightarrow> Ret (Inl (CWrap ''getting workspace cluster %s: %w'' [tenant] (CApi e)))
     | Inr _ \<Rightarrow>
         bind (api (TnGet KInstance ns name)) (\<lambda>got.
         case got of
           Inl e \<Rightarrow> Ret (if e = NotFound then Inr 0 else Inl (CApi e))
         | Inr inst \<Rightarrow>
             if getDeletion (ce_U E) inst \<noteq> None then finalize E tenant inst
             else if \<not> ce_containsFinalizer E inst finalizer
             then bind (api (TnUpdate (ce_addFinalizer E inst finalizer))) (\<lambda>r.
                  Ret (case r of Inl e \<Rightarrow> Inl (CWrap ''adding finalizer: %w'' [] (CApi e)) | Inr _ \<Rightarrow> Inr 0))
             else reconcileInstance E tenant inst))"

end
