(* ===== verification/Instance_Contract.thy ===== *)
theory Instance_Contract
  imports Instance_Reconcile
begin

text \<open>
  What the Instance controller guarantees, for every behaviour of the API servers, the clock and
  concurrent writers: where it writes on the runtime cluster, in which order, and when it lets go
  of an instance.
\<close>

lemma onlyAsks_api [footprint]: "P q \<Longrightarrow> onlyAsks P (api q)"
  by (simp add: api_def)

lemma onlyAsks_clock [footprint]: "P ReadClock \<Longrightarrow> onlyAsks P clock"
  by (simp add: clock_def)

section \<open>Confinement to the runtime namespace\<close>

text \<open>Preparing a namespace stays in it (up to the labels of a Namespace object, treated below), writes no workload and calls
  no tenant workspace.\<close>

definition patchesNamespace :: "request \<Rightarrow> bool" where
  "patchesNamespace q \<longleftrightarrow> (\<exists>x v. q = RtPatch namespaceGVR [] x v)"

definition guardScope :: "string \<Rightarrow> request \<Rightarrow> bool" where
  "guardScope ns q \<longleftrightarrow> (inNamespace ns q \<or> patchesNamespace q) \<and> \<not> workloadWrite q \<and> \<not> tenantCall q"

lemma ensureNamespace_scope: "onlyAsks (guardScope ns) (ensureNamespace E ns tenant)"
proof -
  have c: "onlyAsks (guardScope ns) (convergeNetworkPolicy E ns d e)" for d e
    unfolding convergeNetworkPolicy_def Let_def
    by (auto simp: guardScope_def intro!: onlyAsks_rules footprint split: sum.split prod.split)
  then have g: "onlyAsks (guardScope ns) (getNetworkPolicy E ns d r)" for d r
    unfolding getNetworkPolicy_def by (auto split: sum.split)
  have a: "onlyAsks (guardScope ns) (applyTenantNetworkPolicy E ns tenant)"
    "onlyAsks (guardScope ns) (removeTenantNetworkPolicy E ns)"
    unfolding applyTenantNetworkPolicy_def removeTenantNetworkPolicy_def Let_def
    by (auto simp: guardScope_def intro!: onlyAsks_rules onlyAsks_api g split: sum.split)
  have s: "onlyAsks (guardScope ns) (convergeAndStore E ns tenant uid)" for uid
    unfolding convergeAndStore_def by (auto simp: guardScope_def intro!: onlyAsks_rules onlyAsks_clock a)
  have p: "onlyAsks (guardScope ns) (ensureTenantNetworkPolicy E ns tenant uid)" for uid
    unfolding ensureTenantNetworkPolicy_def
    by (auto simp: guardScope_def intro!: onlyAsks_rules onlyAsks_clock s split: option.split)
  have b: "onlyAsks (guardScope ns) (backfillRuntimeNamespaceLabels E o' tenant)" for o'
    unfolding backfillRuntimeNamespaceLabels_def Let_def
    by (auto simp: guardScope_def patchesNamespace_def intro!: onlyAsks_rules onlyAsks_api)
  have "onlyAsks (guardScope ns) (ensureRuntimeNamespace E ns tenant)"
    unfolding ensureRuntimeNamespace_def
    by (auto simp: guardScope_def objectName_def jget_def intro!: onlyAsks_rules onlyAsks_api b split: sum.split)
  with p show ?thesis unfolding ensureNamespace_def by (auto intro!: onlyAsks_rules)
qed

text \<open>The labels of the Namespace object: only those the controller owns are added, and only to the object the server answered
  when asked for the namespace of that name.\<close>

definition labelsOwn :: "ctrlEnv \<Rightarrow> string \<Rightarrow> string \<Rightarrow> (request, answer) history \<Rightarrow> request \<Rightarrow> bool" where
  "labelsOwn E tenant ns h q \<longleftrightarrow>
     (\<exists>ls x r. set ls \<subseteq> set (runtimeNamespaceLabels tenant) \<and> (RtGet namespaceGVR [] ns, r) \<in> set h \<and> an_obj r = Inr x
        \<and> q = RtPatch namespaceGVR [] (getName (ce_U E) x) (JObj [(''metadata'', JObj [(''labels'', labelsJson ls)])]))"

definition reaches :: "ctrlEnv \<Rightarrow> string \<Rightarrow> string \<Rightarrow> (request, answer) history \<Rightarrow> request \<Rightarrow> bool" where
  "reaches E tenant ns h q \<longleftrightarrow> inNamespace ns q \<or> labelsOwn E tenant ns h q"

text \<open>Every request of a program satisfies a guarantee, wherever it is run.\<close>

definition throughout :: "((request, answer) history \<Rightarrow> request \<Rightarrow> bool) \<Rightarrow> 'a act \<Rightarrow> bool" where
  "throughout G p \<longleftrightarrow> (\<forall>h. wp G p (\<lambda>_ _. True) h)"

lemma throughout_Ret: "throughout G (Ret a)"
  by (simp add: throughout_def)

lemma throughout_bind: "throughout G p \<Longrightarrow> (\<And>a. throughout G (f a)) \<Longrightarrow> throughout G (bind p f)"
  unfolding throughout_def wp_bind by (blast intro: wp_mono)

lemma throughout_bindE: "throughout G p \<Longrightarrow> (\<And>a. throughout G (f a)) \<Longrightarrow> throughout G (bindE p f)"
  unfolding bindE_def by (rule throughout_bind) (auto split: sum.split intro: throughout_Ret)

lemma throughout_wrapE: "throughout G p \<Longrightarrow> throughout G (wrapE w p)"
  unfolding wrapE_def by (rule throughout_bind, assumption) (rule throughout_Ret)

lemma throughout_onlyAsks: "onlyAsks (inNamespace ns) p \<Longrightarrow> throughout (reaches E tenant ns) p"
  unfolding throughout_def by (auto intro!: wp_onlyAsks simp: reaches_def)

lemmas throughout_rules = throughout_bind throughout_bindE throughout_wrapE throughout_Ret

lemma ensureNamespace_throughout [footprint]: "throughout (reaches E tenant ns) (ensureNamespace E ns tenant)"
proof -
  have c: "onlyAsks (inNamespace ns) (convergeNetworkPolicy E ns d e)" for d e
    unfolding convergeNetworkPolicy_def Let_def by (auto intro!: onlyAsks_rules footprint split: sum.split prod.split)
  then have g: "onlyAsks (inNamespace ns) (getNetworkPolicy E ns d r)" for d r
    unfolding getNetworkPolicy_def by (auto split: sum.split)
  have a: "onlyAsks (inNamespace ns) (applyTenantNetworkPolicy E ns tenant)" "onlyAsks (inNamespace ns) (removeTenantNetworkPolicy E ns)"
    unfolding applyTenantNetworkPolicy_def removeTenantNetworkPolicy_def Let_def
    by (auto intro!: onlyAsks_rules onlyAsks_api g split: sum.split)
  have s: "onlyAsks (inNamespace ns) (convergeAndStore E ns tenant uid)" for uid
    unfolding convergeAndStore_def by (auto intro!: onlyAsks_rules onlyAsks_clock a)
  have p: "onlyAsks (inNamespace ns) (ensureTenantNetworkPolicy E ns tenant uid)" for uid
    unfolding ensureTenantNetworkPolicy_def by (auto intro!: onlyAsks_rules onlyAsks_clock s split: option.split)
  have b: "wp (reaches E tenant ns) (backfillRuntimeNamespaceLabels E x tenant) (\<lambda>_ _. True) h"
    if "(RtGet namespaceGVR [] ns, r) \<in> set h" "an_obj r = Inr x" for h r x
  proof -
    have "labelsOwn E tenant ns h (RtPatch namespaceGVR [] (getName (ce_U E) x)
        (JObj [(''metadata'', JObj [(''labels'', labelsJson (filter Q (runtimeNamespaceLabels tenant)))])]))" for Q
      unfolding labelsOwn_def using that by (intro exI [of _ "filter Q (runtimeNamespaceLabels tenant)"] exI [of _ x] exI [of _ r]) auto
    then show ?thesis unfolding backfillRuntimeNamespaceLabels_def Let_def by (simp add: wp_bind api_def reaches_def)
  qed
  have n: "objectName (JObj [(''apiVersion'', JStr ''v1''), (''kind'', JStr ''Namespace''),
       (''metadata'', JObj [(''name'', JStr ns), (''labels'', labelsJson ls)])]) = ns" for ls
    by (simp add: objectName_def jget_def)
  have "wp (reaches E tenant ns) (ensureRuntimeNamespace E ns tenant) (\<lambda>_ _. True) h" for h
    unfolding ensureRuntimeNamespace_def wp_bind
    using b [of _ "h @ [(RtGet namespaceGVR [] ns, _)]"]
    by (auto simp: api_def wp_bind wp_bindE reaches_def n split: sum.split)
  then have "throughout (reaches E tenant ns) (ensureRuntimeNamespace E ns tenant)" by (simp add: throughout_def)
  with throughout_onlyAsks [OF p] show ?thesis unfolding ensureNamespace_def by (auto intro!: throughout_rules)
qed

lemma upsertSecret_confined [footprint]: "onlyAsks (inNamespace ns) (upsertSecret E what ns n d)"
  unfolding upsertSecret_def by (auto intro!: onlyAsks_rules footprint split: sum.split)

lemma pullSecret_confined [footprint]:
  "onlyAsks (inNamespace ns) (ensureDefaultSAImagePullSecret E ns n)"
  "onlyAsks (inNamespace ns) (detachDefaultSAImagePullSecret E ns n)"
  unfolding ensureDefaultSAImagePullSecret_def detachDefaultSAImagePullSecret_def Let_def
  by (auto intro!: onlyAsks_rules footprint split: sum.split)

lemma writeRuntimePullSecret_throughout: "throughout (reaches E tenant ns) (writeRuntimePullSecret E ns tenant n d)"
  unfolding writeRuntimePullSecret_def
  by (auto intro!: throughout_rules ensureNamespace_throughout throughout_onlyAsks [OF upsertSecret_confined] split: sum.split)

lemma tenantHasPullSecret_confined [footprint]: "onlyAsks (inNamespace ns) (tenantHasPullSecret E name)"
  unfolding tenantHasPullSecret_def by (auto intro!: onlyAsks_rules footprint split: sum.split)

lemma throughout_api: "inNamespace ns q \<Longrightarrow> throughout (reaches E tenant ns) (api q)"
  by (rule throughout_onlyAsks) (rule onlyAsks_api)

lemma bridge_throughout [footprint]:
  "throughout (reaches E tenant (runtimeNamespace tenant src)) (bridgeBYOSecret E tenant src name)"
  "throughout (reaches E tenant (runtimeNamespace tenant src)) (bridgeRegistryPullSecret E tenant src name)"
  unfolding bridgeBYOSecret_def writeBridgedSecret_def bridgeRegistryPullSecret_def Let_def
  by (auto intro!: throughout_rules throughout_api ensureNamespace_throughout throughout_onlyAsks [OF upsertSecret_confined] throughout_onlyAsks [OF pullSecret_confined(1)]
      writeRuntimePullSecret_throughout split: sum.split)

lemma bridgeSecrets_throughout [footprint]:
  "throughout (reaches E tenant (runtimeNamespace tenant (getNamespace (ce_U E) inst))) (bridgeSecrets E tenant inst b)"
  unfolding bridgeSecrets_def Let_def
  by (auto intro!: throughout_rules bridge_throughout throughout_onlyAsks [OF tenantHasPullSecret_confined])

lemma syncRuntime_throughout [footprint]:
  "throughout (reaches E tenant (runtimeNamespace tenant (getNamespace (ce_U E) inst))) (syncRuntime E tenant tmpl inst values)"
proof -
  have s: "onlyAsks (inNamespace ns) (syncExisting E tenant tmpl ns values e)" for ns e
    unfolding syncExisting_def by (auto intro!: onlyAsks_rules footprint split: sum.split option.split)
  then show ?thesis unfolding syncRuntime_def Let_def
    by (auto intro!: throughout_rules throughout_api ensureNamespace_throughout throughout_onlyAsks [OF s] split: sum.split)
qed

lemma mirror_confined [footprint]:
  "onlyAsks (inNamespace ns) (mirrorStatus E inst tmpl obj valid oidc)"
  "onlyAsks (inNamespace ns) (resolveTemplate E name)"
  "onlyAsks (inNamespace ns) (applyExposure E tenant inst traits)"
  "onlyAsks (inNamespace ns) (deleteDue inst what)"
  unfolding mirrorStatus_def resolveTemplate_def applyExposure_def stampValues_def deleteDue_def clockIf_def Let_def
  by (auto intro!: onlyAsks_rules footprint split: sum.split option.split)

lemma reconcileInstance_throughout:
  "throughout (reaches E tenant (runtimeNamespace tenant (getNamespace (ce_U E) inst))) (reconcileInstance E tenant inst)"
proof -
  let ?ns = "runtimeNamespace tenant (getNamespace (ce_U E) inst)"
  let ?P = "inNamespace ?ns" and ?T = "throughout (reaches E tenant ?ns) :: (cerr + int) act \<Rightarrow> bool"
  have f: "onlyAsks ?P (failValidation E inst r m)" for r m
    unfolding failValidation_def by (auto intro!: onlyAsks_rules footprint)
  have k: "onlyAsks ?P (currentRuntime E tenant tmpl inst)" for tmpl
    unfolding currentRuntime_def by (auto intro!: onlyAsks_rules footprint)
  note outside = throughout_onlyAsks [OF f] throughout_onlyAsks [OF k] throughout_onlyAsks [OF mirror_confined(1)]
    throughout_onlyAsks [OF mirror_confined(2)] throughout_onlyAsks [OF mirror_confined(3)] throughout_onlyAsks [OF mirror_confined(4)]
    throughout_onlyAsks [OF onlyAsks_clock]
  have c: "?T (convergeInstance E tenant inst tmpl oidc)" for tmpl oidc
    unfolding convergeInstance_def Let_def by (auto intro!: throughout_rules syncRuntime_throughout outside)
  have s: "?T (serveInstance E tenant inst tmpl ct)" for tmpl ct
    unfolding serveInstance_def Let_def
    by (auto intro!: throughout_rules bridgeSecrets_throughout outside c split: sum.split)
  show ?thesis unfolding reconcileInstance_def Let_def
    by (auto intro!: throughout_rules outside s split: sum.split option.split)
qed

section \<open>Isolation before workloads\<close>

text \<open>The interface between the namespace guard and the operations that write beside tenant workloads: the
  guard writes no workload itself, and when it succeeds the namespace is settled and stays so.\<close>

locale namespace_guard =
  fixes ensure :: "(cerr + unit) act" and settled :: "(request, answer) history \<Rightarrow> bool"
  assumes settled_mono: "settled h \<Longrightarrow> prefix h h' \<Longrightarrow> settled h'"
    and quiet: "onlyAsks (\<lambda>q. \<not> workloadWrite q) ensure"
    and settles: "wp (\<lambda>_ _. True) ensure (\<lambda>x h'. x = Inr () \<longrightarrow> settled h') h"
begin

abbreviation guarantee :: "(request, answer) history \<Rightarrow> request \<Rightarrow> bool" where
  "guarantee \<equiv> (\<lambda>h q. workloadWrite q \<longrightarrow> settled h)"

lemma settled_any:
  assumes "settled h" and "\<And>a h'. prefix h h' \<Longrightarrow> settled h' \<Longrightarrow> Q a h'"
  shows "wp guarantee p Q h"
  by (rule wp_onlyAsks [OF onlyAsks_any]) (use assms settled_mono in blast)+

lemma quiet_any:
  assumes "onlyAsks (\<lambda>q. \<not> workloadWrite q) p" and "\<And>a h'. prefix h h' \<Longrightarrow> Q a h'"
  shows "wp guarantee p Q h"
  by (rule wp_onlyAsks [OF assms(1)]) (use assms(2) in auto)

text \<open>Whatever follows a successful guard may write.\<close>

lemma guarded: "wp guarantee (bindE ensure body) (\<lambda>x h'. (\<exists>a. x = Inr a) \<longrightarrow> settled h') h"
proof -
  have "wp guarantee ensure (\<lambda>x h'. x = Inr () \<longrightarrow> settled h') h"
    by (rule wp_conj_onlyAsks [OF quiet _ settles]) simp
  then show ?thesis unfolding wp_bindE
    by (rule wp_mono) (auto split: sum.split intro!: settled_any)
qed

end

text \<open>Evidence in the history that the isolation policy of a namespace is in place: the desired policy was
  created or written, a current one was read, or a fresh entry of the cache says so.\<close>

definition policyWritten :: "ctrlEnv \<Rightarrow> string \<Rightarrow> string \<Rightarrow> json \<Rightarrow> bool" where
  "policyWritten E ns tenant obj \<longleftrightarrow>
     (\<exists>meta np. ce_encodePolicy E meta np = Inr obj
        \<and> np_Spec np = np_Spec (buildPolicy ns tenant (cf_NetworkPolicy (ce_cfg E))))"

definition policyEvidence :: "ctrlEnv \<Rightarrow> string \<Rightarrow> string \<Rightarrow> request \<times> answer \<Rightarrow> bool" where
  "policyEvidence E ns tenant e \<longleftrightarrow>
     (\<exists>x. an_obj (snd e) = Inr x) \<and>
     ((\<exists>obj. fst e \<in> {RtCreate networkPolicyGVR ns obj, RtUpdate networkPolicyGVR ns obj} \<and> policyWritten E ns tenant obj)
      \<or> (fst e = RtGet networkPolicyGVR ns networkPolicyName \<and>
          (\<exists>obj meta np. an_obj (snd e) = Inr obj \<and> ce_decodePolicy E obj = Inr (meta, np)
             \<and> policyCurrent E (buildPolicy ns tenant (cf_NetworkPolicy (ce_cfg E))) np)))"

text \<open>The Namespace object of that name, as this run read or created it. A cache entry counts only for the object it was stored
  for, by its UID, and within the resynchronisation interval.\<close>

definition namespaceSeen :: "string \<Rightarrow> json \<Rightarrow> (request, answer) history \<Rightarrow> bool" where
  "namespaceSeen ns x h \<longleftrightarrow>
     (\<exists>q r. (q, r) \<in> set h \<and> an_obj r = Inr x
        \<and> (q = RtGet namespaceGVR [] ns \<or> (\<exists>v. q = RtCreate namespaceGVR [] v \<and> objectName v = ns)))"

lemma namespaceSeen_mono: "namespaceSeen ns x h \<Longrightarrow> prefix h h' \<Longrightarrow> namespaceSeen ns x h'"
  unfolding namespaceSeen_def using set_mono_prefix by blast

definition policySettled :: "ctrlEnv \<Rightarrow> string \<Rightarrow> string \<Rightarrow> (request, answer) history \<Rightarrow> bool" where
  "policySettled E ns tenant h \<longleftrightarrow>
     (nc_Enabled (cf_NetworkPolicy (ce_cfg E)) \<longrightarrow>
       (\<exists>e \<in> set h. policyEvidence E ns tenant e)
       \<or> (\<exists>x s r r'. namespaceSeen ns x h \<and> (SyncLoad ns, r) \<in> set h \<and> an_sync r = Some s \<and> (ReadClock, r') \<in> set h
            \<and> fst s = getUID (ce_U E) x \<and> an_time r' - snd s < networkPolicyResync))"

lemma policySettled_mono: "policySettled E ns tenant h \<Longrightarrow> prefix h h' \<Longrightarrow> policySettled E ns tenant h'"
  unfolding policySettled_def by (meson namespaceSeen_mono set_mono_prefix subsetD)

lemma np_Name_buildPolicy [simp]: "np_Name (buildPolicy ns t c) = networkPolicyName"
  by (simp add: buildPolicy_def Let_def)

lemma converge_settles:
  assumes "(RtGet networkPolicyGVR ns networkPolicyName, r) \<in> set h" and "an_obj r = Inr existing"
  shows "wp (\<lambda>_ _. True) (convergeNetworkPolicy E ns (buildPolicy ns tenant (cf_NetworkPolicy (ce_cfg E))) existing)
           (\<lambda>x h'. x = Inr () \<longrightarrow> policySettled E ns tenant h') h"
proof (cases "ce_decodePolicy E existing")
  case (Inr p)
  obtain meta np where p: "p = (meta, np)" by (cases p)
  show ?thesis
  proof (cases "policyCurrent E (buildPolicy ns tenant (cf_NetworkPolicy (ce_cfg E))) np")
    case True
    have "policyEvidence E ns tenant (RtGet networkPolicyGVR ns networkPolicyName, r)"
      using assms(2) Inr p True unfolding policyEvidence_def by auto
    then show ?thesis using Inr p True assms(1) by (auto simp: convergeNetworkPolicy_def policySettled_def)
  next
    case False
    let ?d = "buildPolicy ns tenant (cf_NetworkPolicy (ce_cfg E))"
    define np' where "np' = np\<lparr> np_Labels := fold (\<lambda>(k, v) m. mput k v m) (np_Labels ?d) (np_Labels np),
        np_Spec := np_Spec ?d, np_APIVersion := np_APIVersion ?d, np_Kind := np_Kind ?d \<rparr>"
    have "np_Spec np' = np_Spec ?d" by (simp add: np'_def)
    then have w: "policyWritten E ns tenant obj" if "ce_encodePolicy E meta np' = Inr obj" for obj
      using that unfolding policyWritten_def by blast
    have "policySettled E ns tenant (h @ [(RtUpdate networkPolicyGVR ns obj, r')])"
      if "ce_encodePolicy E meta np' = Inr obj" "an_obj r' = Inr x" for obj r' x
      using that w unfolding policySettled_def policyEvidence_def by auto
    then show ?thesis using Inr p False
      unfolding convergeNetworkPolicy_def Let_def toUnstructuredNetworkPolicy_def api_def
      by (cases "ce_encodePolicy E meta np'") (auto simp: np'_def [symmetric] mapErr_def split: sum.split)
  qed
qed (simp add: convergeNetworkPolicy_def)

lemma apply_settles:
  "wp (\<lambda>_ _. True) (applyTenantNetworkPolicy E ns tenant) (\<lambda>x h'. x = Inr () \<longrightarrow> policySettled E ns tenant h') h"
proof -
  let ?d = "buildPolicy ns tenant (cf_NetworkPolicy (ce_cfg E))"
  let ?Q = "\<lambda>x h'. x = Inr () \<longrightarrow> policySettled E ns tenant h'"
  have get: "wp (\<lambda>_ _. True) (getNetworkPolicy E ns ?d (an_obj r)) ?Q h"
    if "(RtGet networkPolicyGVR ns networkPolicyName, r) \<in> set h" for h r
  proof (cases "an_obj r")
    case (Inr existing)
    with that show ?thesis unfolding getNetworkPolicy_def by (auto intro: converge_settles)
  qed (simp add: getNetworkPolicy_def)
  have create: "?Q (Inr ()) h"
    if "(RtCreate networkPolicyGVR ns obj, r) \<in> set h" "ce_encodePolicy E (JObj []) ?d = Inr obj" "an_obj r = Inr x" for h obj r x
    using that unfolding policySettled_def policyEvidence_def policyWritten_def by fastforce
  show ?thesis
    unfolding applyTenantNetworkPolicy_def Let_def wp_bind
    by (auto simp: api_def wp_bind toUnstructuredNetworkPolicy_def mapErr_def split: sum.splits
          intro!: get create [THEN mp, OF _ _ _ refl])
qed

lemma ensureRuntimeNamespace_seen:
  "wp (\<lambda>_ _. True) (ensureRuntimeNamespace E ns tenant)
     (\<lambda>r h'. \<forall>uid. r = Inr uid \<longrightarrow> (\<exists>x. uid = getUID (ce_U E) x \<and> namespaceSeen ns x h')) h"
proof -
  have got: "\<exists>x'. getUID (ce_U E) x = getUID (ce_U E) x' \<and> namespaceSeen ns x' h'"
    if "(RtGet namespaceGVR [] ns, r) \<in> set h'" "an_obj r = Inr x" for r x h'
    using that unfolding namespaceSeen_def by blast
  have made: "\<exists>x'. getUID (ce_U E) x = getUID (ce_U E) x' \<and> namespaceSeen ns x' h'"
    if "(RtCreate namespaceGVR [] (JObj [(''apiVersion'', JStr ''v1''), (''kind'', JStr ''Namespace''),
       (''metadata'', JObj [(''name'', JStr ns), (''labels'', labelsJson ls)])]), r) \<in> set h'" "an_obj r = Inr x" for r x h' ls
  proof -
    have "objectName (JObj [(''apiVersion'', JStr ''v1''), (''kind'', JStr ''Namespace''),
       (''metadata'', JObj [(''name'', JStr ns), (''labels'', labelsJson ls)])]) = ns" by (simp add: objectName_def jget_def)
    with that show ?thesis unfolding namespaceSeen_def by blast
  qed
  have fill: "wp (\<lambda>_ _. True) (backfillRuntimeNamespaceLabels E x tenant)
      (\<lambda>r h'. case r of Inl e \<Rightarrow> True | Inr _ \<Rightarrow> \<exists>x'. getUID (ce_U E) x = getUID (ce_U E) x' \<and> namespaceSeen ns x' h') h1"
    if "namespaceSeen ns x h1" for x h1
    by (rule wp_onlyAsks [OF onlyAsks_any]) (use that namespaceSeen_mono in \<open>auto split: sum.split\<close>)
  have seen: "namespaceSeen ns x (h1 @ [(RtGet namespaceGVR [] ns, r)])" if "an_obj r = Inr x" for x r h1
    using that unfolding namespaceSeen_def by (intro exI [of _ "RtGet namespaceGVR [] ns"] exI [of _ r]) simp
  show ?thesis unfolding ensureRuntimeNamespace_def
    by (auto simp: api_def wp_bind wp_bindE split: sum.split intro: got made intro!: wp_mono [OF fill [OF seen]])
qed

lemma ensure_settles:
  "wp (\<lambda>_ _. True) (ensureNamespace E ns tenant) (\<lambda>x h'. x = Inr () \<longrightarrow> policySettled E ns tenant h') h"
proof -
  let ?Q = "\<lambda>x h'. x = Inr () \<longrightarrow> policySettled E ns tenant h'"
  have store: "wp (\<lambda>_ _. True) (convergeAndStore E ns tenant uid) ?Q h" for uid h
  proof (cases "nc_Enabled (cf_NetworkPolicy (ce_cfg E))")
    case True
    have "wp (\<lambda>_ _. True) (applyTenantNetworkPolicy E ns tenant) ?Q h" by (rule apply_settles)
    then have "wp (\<lambda>_ _. True) (applyTenantNetworkPolicy E ns tenant)
        (\<lambda>x h'. case x of Inl e \<Rightarrow> ?Q (Inl e) h'
           | Inr a \<Rightarrow> wp (\<lambda>_ _. True) (bind clock (\<lambda>now. Ask (SyncStore ns uid now) (\<lambda>_. Ret (Inr ())))) ?Q h') h"
      by (rule wp_mono) (auto simp: clock_def wp_bind split: sum.split intro: policySettled_mono)
    then show ?thesis using True unfolding convergeAndStore_def wp_bindE by simp
  next
    case False
    then have "policySettled E ns tenant h'" for h' by (simp add: policySettled_def)
    then show ?thesis by (intro wp_onlyAsks [OF onlyAsks_any]) auto
  qed
  have fresh: "policySettled E ns tenant (h @ [(SyncLoad ns, r), (ReadClock, r')])"
    if "an_sync r = Some s" "syncFresh (getUID (ce_U E) x) s (an_time r')" "namespaceSeen ns x h" for h r r' s x
    unfolding policySettled_def using that namespaceSeen_mono [OF that(3), of "h @ [(SyncLoad ns, r), (ReadClock, r')]"]
    by (intro impI disjI2 exI [of _ x] exI [of _ s] exI [of _ r] exI [of _ r']) (simp add: syncFresh_def split_beta)
  have policy: "wp (\<lambda>_ _. True) (ensureTenantNetworkPolicy E ns tenant uid) ?Q h"
    if seen: "uid = getUID (ce_U E) x" "namespaceSeen ns x h" for uid h x
    unfolding ensureTenantNetworkPolicy_def
  proof (simp, intro allI)
    fix r
    show "wp (\<lambda>_ _. True) (case an_sync r of None \<Rightarrow> convergeAndStore E ns tenant uid
        | Some s \<Rightarrow> bind clock (\<lambda>now. if syncFresh uid s now then Ret (Inr ()) else convergeAndStore E ns tenant uid))
        ?Q (h @ [(SyncLoad ns, r)])"
      using store fresh [OF _ _ seen(2)] seen(1) by (cases "an_sync r") (auto simp: clock_def wp_bind)
  qed
  have "wp (\<lambda>_ _. True) (ensureRuntimeNamespace E ns tenant)
      (\<lambda>x h'. case x of Inl e \<Rightarrow> ?Q (Inl e) h' | Inr uid \<Rightarrow> wp (\<lambda>_ _. True) (ensureTenantNetworkPolicy E ns tenant uid) ?Q h') h"
    by (rule wp_mono [OF ensureRuntimeNamespace_seen]) (use policy in \<open>auto split: sum.split\<close>)
  then show ?thesis unfolding ensureNamespace_def wp_bindE .
qed

lemma workload_quiet [footprint]:
  "onlyAsks (\<lambda>q. \<not> workloadWrite q) (ensureNamespace E ns tenant)"
  "onlyAsks (\<lambda>q. \<not> workloadWrite q) (tenantHasPullSecret E name)"
  "onlyAsks (\<lambda>q. \<not> workloadWrite q) (currentRuntime E tenant tmpl inst)"
  "onlyAsks (\<lambda>q. \<not> workloadWrite q) (mirrorStatus E inst tm obj valid oidc)"
  "onlyAsks (\<lambda>q. \<not> workloadWrite q) (resolveTemplate E tn)"
  "onlyAsks (\<lambda>q. \<not> workloadWrite q) (applyExposure E tenant inst traits)"
  "onlyAsks (\<lambda>q. \<not> workloadWrite q) (deleteDue inst what)"
  "onlyAsks (\<lambda>q. \<not> workloadWrite q) (failValidation E inst reason msg)"
proof -
  let ?P = "\<lambda>q. \<not> workloadWrite q"
  show "onlyAsks ?P (ensureNamespace E ns tenant)"
    by (rule onlyAsks_mono [OF ensureNamespace_scope]) (simp add: guardScope_def)
  show m: "onlyAsks ?P (mirrorStatus E inst tm obj valid oidc)" for tm obj valid oidc
    unfolding mirrorStatus_def clockIf_def Let_def by (auto intro!: onlyAsks_rules footprint split: sum.split)
  show "onlyAsks ?P (failValidation E inst reason msg)"
    unfolding failValidation_def by (auto intro!: onlyAsks_rules m)
  show "onlyAsks ?P (tenantHasPullSecret E name)" "onlyAsks ?P (currentRuntime E tenant tmpl inst)"
    "onlyAsks ?P (resolveTemplate E tn)" "onlyAsks ?P (applyExposure E tenant inst traits)" "onlyAsks ?P (deleteDue inst what)"
    unfolding tenantHasPullSecret_def currentRuntime_def resolveTemplate_def applyExposure_def stampValues_def deleteDue_def Let_def
    by (auto intro!: onlyAsks_rules footprint split: sum.split option.split)
qed

interpretation iso: namespace_guard "ensureNamespace E ns tenant" "policySettled E ns tenant" for E ns tenant
  by unfold_locales (auto intro: policySettled_mono footprint ensure_settles)

text \<open>The guarantee of the operations that write beside workloads.\<close>

abbreviation isolationFirst :: "ctrlEnv \<Rightarrow> string \<Rightarrow> string \<Rightarrow> (request, answer) history \<Rightarrow> request \<Rightarrow> bool" where
  "isolationFirst E ns tenant \<equiv> (\<lambda>h q. workloadWrite q \<longrightarrow> policySettled E ns tenant h)"

lemma quiet_bindE:
  assumes "onlyAsks (\<lambda>q. \<not> workloadWrite q) p" and "\<And>a h'. wp (isolationFirst E ns tenant) (f a) (\<lambda>_ _. True) h'"
  shows "wp (isolationFirst E ns tenant) (bindE p f) (\<lambda>_ _. True) h"
  unfolding wp_bindE by (rule iso.quiet_any [OF assms(1)]) (auto split: sum.split intro: assms(2))

lemma quiet_bind:
  assumes "onlyAsks (\<lambda>q. \<not> workloadWrite q) p" and "\<And>a h'. wp (isolationFirst E ns tenant) (f a) (\<lambda>_ _. True) h'"
  shows "wp (isolationFirst E ns tenant) (bind p f) (\<lambda>_ _. True) h"
  unfolding wp_bind by (rule iso.quiet_any [OF assms(1)]) (auto intro: assms(2))

lemma then_bindE:
  assumes "wp (isolationFirst E ns tenant) p (\<lambda>_ _. True) h" and "\<And>a h'. wp (isolationFirst E ns tenant) (f a) (\<lambda>_ _. True) h'"
  shows "wp (isolationFirst E ns tenant) (bindE p f) (\<lambda>_ _. True) h"
  unfolding wp_bindE by (rule wp_mono [OF assms(1)]) (auto split: sum.split intro: assms(2))

lemma guarded_weak: "wp (isolationFirst E ns tenant) (bindE (ensureNamespace E ns tenant) body) (\<lambda>_ _. True) h"
  by (rule wp_mono [OF iso.guarded]) simp

lemma bridge_isolated:
  "wp (isolationFirst E (runtimeNamespace tenant src) tenant) (bridgeBYOSecret E tenant src name) (\<lambda>_ _. True) h"
  "wp (isolationFirst E (runtimeNamespace tenant src) tenant) (bridgeRegistryPullSecret E tenant src name) (\<lambda>_ _. True) h"
proof -
  let ?ns = "runtimeNamespace tenant src"
  show "wp (isolationFirst E ?ns tenant) (bridgeBYOSecret E tenant src name) (\<lambda>_ _. True) h"
    unfolding bridgeBYOSecret_def Let_def writeBridgedSecret_def
    by (rule quiet_bind) (auto intro!: footprint guarded_weak split: sum.split)
  have "wp (isolationFirst E ?ns tenant)
      (bindE (writeRuntimePullSecret E ?ns tenant n d) (\<lambda>_. ensureDefaultSAImagePullSecret E ?ns n)) (\<lambda>_ _. True) h" for n d h
    unfolding writeRuntimePullSecret_def
    by (subst wp_bindE, rule wp_mono [OF iso.guarded]) (auto split: sum.split intro!: iso.settled_any)
  then show "wp (isolationFirst E ?ns tenant) (bridgeRegistryPullSecret E tenant src name) (\<lambda>_ _. True) h"
    unfolding bridgeRegistryPullSecret_def Let_def
    by (intro quiet_bind) (auto intro!: footprint split: sum.split)
qed

lemma reconcileInstance_isolated:
  "wp (isolationFirst E (runtimeNamespace tenant (getNamespace (ce_U E) inst)) tenant) (reconcileInstance E tenant inst) (\<lambda>_ _. True) h"
proof -
  let ?ns = "runtimeNamespace tenant (getNamespace (ce_U E) inst)"
  let ?G = "isolationFirst E ?ns tenant"
  note quiet = iso.quiet_any [where E = E and ns = ?ns and tenant = tenant]
  have b: "wp ?G (bridgeSecrets E tenant inst oidc) (\<lambda>_ _. True) h" for oidc h
    unfolding bridgeSecrets_def Let_def
    by (intro quiet_bindE then_bindE onlyAsks_wrapE footprint)
       (auto simp: wp_wrapE intro!: bridge_isolated)
  have c: "wp ?G (convergeInstance E tenant inst tmpl oidc) (\<lambda>_ _. True) h" for tmpl oidc h
    unfolding convergeInstance_def Let_def
  proof (rule quiet_bind, rule footprint, rule then_bindE)
    show "wp ?G (wrapE w (syncRuntime E tenant tmpl inst v)) (\<lambda>_ _. True) h'" for w v h'
      unfolding wp_wrapE syncRuntime_def Let_def by (rule guarded_weak)
    fix a h'
    show "wp ?G (bind clock (\<lambda>now.
        if lifecycleDue (ce_U E) now (getCreation (ce_U E) inst) (ts_Development (tm_Spec tmpl)) (Some a) \<noteq> None
        then deleteDue inst ''delete idle sandbox: %w''
        else bindE (wrapE (CWrap ''mirroring status: %w'' []) (mirrorStatus E inst (Some tmpl) (Some a) (Some (validCondition True ReasonReady [])) oidc))
          (\<lambda>ready. bind clock (\<lambda>t1. bind clock (\<lambda>t2. Ret (Inr
             (instanceRequeueAfter (ce_U E) t1 t2 (getCreation (ce_U E) inst) (Some tmpl) (Some a) ready))))))) (\<lambda>_ _. True) h'"
      by (rule quiet) (auto intro!: onlyAsks_rules footprint)
  qed
  have d: "wp ?G (deleteDue inst w) (\<lambda>_ _. True) h" "wp ?G (failValidation E inst r m) (\<lambda>_ _. True) h"
    "wp ?G (applyExposure E tenant inst tr) (\<lambda>_ _. True) h" for w r m tr h
    by (auto intro!: quiet footprint)
  have s: "wp ?G (serveInstance E tenant inst tmpl ct) (\<lambda>_ _. True) h" for tmpl ct h
    unfolding serveInstance_def Let_def
  proof (rule quiet_bind, rule footprint, simp)
    fix now h'
    show "wp ?G (if P then deleteDue inst w else if Q then failValidation E inst r m
        else case traitsFor L tmpl of Inl e \<Rightarrow> Ret (Inl (CErr (Wrapf f xs e)))
          | Inr traits \<Rightarrow> bindE (applyExposure E tenant inst traits) (\<lambda>(oidcCond, proceed).
              if eo_stampedSpec proceed then Ret (Inr 0)
              else bindE (bridgeSecrets E tenant inst (eo_bridgeOIDC proceed)) (\<lambda>_. convergeInstance E tenant inst tmpl oidcCond)))
        (\<lambda>_ _. True) h'" for P Q w r m L f xs
      by (auto intro!: d then_bindE b c split: sum.split)
  qed
  show ?thesis unfolding reconcileInstance_def Let_def
    by (rule quiet_bind) (auto intro!: footprint d s split: sum.split option.split)
qed

section \<open>A concrete run\<close>

text \<open>A provider with the isolation policy switched on, a world in which a sandbox instance with the
  finalizer exists and nothing does yet on the runtime cluster, and the run of one reconcile there.
  The creation of the runtime object is answered with an error, which ends the run.\<close>

definition demoEnv :: ctrlEnv where
  "demoEnv =
     \<lparr> ce_U = reference_unstr, ce_lib = demoLib,
       ce_cfg = \<lparr> cf_BaseDomain = ''apps.example.com'', cf_CredentialsNamespace = ''default'', cf_CodingSandboxEnabled = True,
         cf_NetworkPolicy = \<lparr>nc_Enabled = True, nc_GatewayNamespace = ''gw'', nc_AllowedNamespaces = [], nc_AllowedCIDRs = []\<rparr> \<rparr>,
       ce_gvString = (\<lambda>g v. g @ ''/'' @ v), ce_parseGV = (\<lambda>s. Some (s, ''v1'')),
       ce_decodeTemplate = (\<lambda>j. Inr demoTemplate), ce_decodePolicy = (\<lambda>j. Inl (Errorf [] [])),
       ce_encodePolicy = (\<lambda>m np. Inr JNull), ce_policySpecEqual = (\<lambda>a b. a = b),
       ce_containsFinalizer = (\<lambda>j f. f \<in> set (getFinalizers reference_unstr j)),
       ce_addFinalizer = (\<lambda>j f. j), ce_removeFinalizer = (\<lambda>j f. j),
       ce_aggregate = concat, ce_retrySteps = 5 \<rparr>"

definition demoInstance :: json where
  "demoInstance = JObj [(''metadata'', JObj [(''name'', JStr ''box''), (''namespace'', JStr ''team''),
       (''finalizers'', JArr [JStr finalizer])]),
     (''spec'', JObj [(''template'', JStr ''sandbox'')])]"

definition answerObj :: "apiError + json \<Rightarrow> answer" where
  "answerObj x = \<lparr> an_obj = x, an_list = Inr [], an_time = 0, an_sync = None, an_contract = None \<rparr>"

fun demoAnswer :: "request \<Rightarrow> answer" where
  "demoAnswer (TnGet KInstance n x) = answerObj (Inr demoInstance)"
| "demoAnswer (TmGet n) = answerObj (Inr (JObj []))"
| "demoAnswer (GetCluster n) = answerObj (Inr JNull)"
| "demoAnswer (RtCreate g n v) = answerObj (if n = [] \<or> g = networkPolicyGVR then Inr JNull else Inl Conflict)"
| "demoAnswer q = answerObj (Inl NotFound)"

definition demoWorld :: "(request, answer) world" where
  "demoWorld h q = demoAnswer q"

lemma demo_traits: "traitsFor demoLib demoTemplate =
    Inr \<lparr>tt_publishable = False, tt_optionalExposure = False, tt_hasFQDN = False, tt_hasOIDC = False,
      tt_gateRequired = False, tt_hasCredentials = False, tt_hasRailgridCluster = False\<rparr>"
  by code_simp

lemma demo_contract: "\<exists>c. newContract demoLib demoTemplate = Inr c \<and> (\<forall>v. snd (validateAndDefault c v) = [])"
proof -
  obtain s where "effectiveSchema demoLib demoTemplate = Inr s" using demo_schema_ok by (auto simp: isOk_iff)
  then show ?thesis by (simp add: newContract_def demoLib_def validateAndDefault_def Let_def)
qed

lemma demo_instance:
  "getName reference_unstr demoInstance = ''box''" "getNamespace reference_unstr demoInstance = ''team''"
  "getDeletion reference_unstr demoInstance = None" "getCreation reference_unstr demoInstance = None"
  "finalizer \<in> set (getFinalizers reference_unstr demoInstance)"
  "nestedStr reference_unstr demoInstance [''spec'', ''template''] = Inr (Some ''sandbox'')"
  "nestedStr reference_unstr demoInstance [''spec'', ''values'', ''oidc'', ''mode''] = Inr None"
  "nestedBool reference_unstr demoInstance [''spec'', ''values'', ''expose'', ''enabled''] = Inr None"
  by code_simp+

lemma demo_gvr: "runtimeGVRFor demoTemplate \<noteq> networkPolicyGVR"
  by code_simp

lemma runtimeNamespace_not_Nil [simp]: "runtimeNamespace c n \<noteq> []"
  by (simp add: runtimeNamespace_def Let_def)

lemma demo_env:
  "ce_U demoEnv = reference_unstr" "ce_lib demoEnv = demoLib" "nc_Enabled (cf_NetworkPolicy (ce_cfg demoEnv))"
  "ce_decodeTemplate demoEnv j = Inr demoTemplate" "ce_encodePolicy demoEnv m np = Inr JNull"
  "ce_containsFinalizer demoEnv j f \<longleftrightarrow> f \<in> set (getFinalizers reference_unstr j)"
  by (simp_all add: demoEnv_def)

lemma demo_not_universal: "''sandbox'' \<noteq> UniversalCodingSandboxTemplateName" by code_simp

lemma answerObj_sel [simp]:
  "an_obj (answerObj x) = x" "an_sync (answerObj x) = None" "an_contract (answerObj x) = None" "an_list (answerObj x) = Inr []"
  "an_time (answerObj x) = 0"
  by (simp_all add: answerObj_def)

lemma lifecycleDue_uncreated: "lifecycleDue U now None d ob = None"
  by (cases d) (simp_all add: lifecycleDue_def)

lemma demo_run:
  "\<exists>tr res. run demoWorld (reconcile demoEnv ''c1'' ''team'' ''box'') [] = (tr, res)
     \<and> workloadWrite (fst (last tr)) \<and> tr \<noteq> []"
proof -
  obtain c where c: "newContract demoLib demoTemplate = Inr c" "\<And>v. snd (validateAndDefault c v) = []"
    using demo_contract by blast
  show ?thesis
    unfolding reconcile_def reconcileInstance_def resolveTemplate_def serveInstance_def applyExposure_def
      convergeInstance_def bridgeSecrets_def tenantHasPullSecret_def currentRuntime_def syncRuntime_def ensureNamespace_def
      ensureRuntimeNamespace_def ensureTenantNetworkPolicy_def convergeAndStore_def applyTenantNetworkPolicy_def
      toUnstructuredNetworkPolicy_def bindE_def wrapE_def api_def clock_def Let_def
    by (simp add: demo_env demo_instance demo_traits c demo_gvr demo_not_universal demoWorld_def decideGate_def
          lifecycleDue_uncreated mapErr_def)
qed

section \<open>The order of a reconcile\<close>

text \<open>An instance was read by this run.\<close>

definition instanceRead :: "string \<Rightarrow> string \<Rightarrow> json \<Rightarrow> (request, answer) history \<Rightarrow> bool" where
  "instanceRead ns name inst h \<longleftrightarrow> (\<exists>r. (TnGet KInstance ns name, r) \<in> set h \<and> an_obj r = Inr inst)"

lemma instanceRead_mono: "instanceRead ns name inst h \<Longrightarrow> prefix h h' \<Longrightarrow> instanceRead ns name inst h'"
  unfolding instanceRead_def using set_mono_prefix by blast

lemma wp_reconcile:
  assumes "\<And>inst h. instanceRead ns name inst h \<Longrightarrow> getDeletion (ce_U E) inst \<noteq> None \<Longrightarrow>
      wp G (finalize E tenant inst) (\<lambda>_ _. True) h"
    and "\<And>inst h. instanceRead ns name inst h \<Longrightarrow> getDeletion (ce_U E) inst = None \<Longrightarrow>
      ce_containsFinalizer E inst finalizer \<Longrightarrow> wp G (reconcileInstance E tenant inst) (\<lambda>_ _. True) h"
    and "\<And>h. G h (GetCluster tenant)" "\<And>h. G h (TnGet KInstance ns name)"
    and "\<And>h inst. instanceRead ns name inst h \<Longrightarrow> getDeletion (ce_U E) inst = None \<Longrightarrow>
      \<not> ce_containsFinalizer E inst finalizer \<Longrightarrow> G h (TnUpdate (ce_addFinalizer E inst finalizer))"
  shows "wp G (reconcile E tenant ns name) (\<lambda>_ _. True) []"
proof -
  have "instanceRead ns name inst [(GetCluster tenant, r), (TnGet KInstance ns name, r')]" if "an_obj r' = Inr inst" for inst r r'
    using that by (auto simp: instanceRead_def)
  with assms show ?thesis unfolding reconcile_def
    by (auto simp: api_def wp_bind split: sum.split)
qed

text \<open>C2: Nothing is written beside a tenant's workloads before the tenant's isolation is in place. Whenever a
  reconcile creates or updates an object in a runtime namespace, it has read the instance before, and
  unless the instance is being deleted it carries the finalizer that makes its deletion clean up, and, if the isolation policy
  is enabled in the configuration, the policy of its runtime namespace was written or found current earlier in the same run, or
  its cache entry was found fresh for the UID of the Namespace object this run read or created, whatever the API servers
  answer. (Two cases promise nothing: a deletion writes without the policy, and a provider with the policy switched off has none.)\<close>

theorem isolation_before_workloads:
  assumes "run w (reconcile E tenant ns name) [] = (tr, res)" and "i < length tr" and "workloadWrite (fst (tr ! i))"
  shows "\<exists>inst. instanceRead ns name inst (take i tr) \<and>
     (getDeletion (ce_U E) inst \<noteq> None \<or>
      ce_containsFinalizer E inst finalizer
      \<and> policySettled E (runtimeNamespace tenant (getNamespace (ce_U E) inst)) tenant (take i tr))"
proof -
  let ?S = "\<lambda>h. \<exists>inst. instanceRead ns name inst h \<and>
     (getDeletion (ce_U E) inst \<noteq> None \<or> ce_containsFinalizer E inst finalizer
      \<and> policySettled E (runtimeNamespace tenant (getNamespace (ce_U E) inst)) tenant h)"
  let ?G = "\<lambda>h q. workloadWrite q \<longrightarrow> ?S h"
  have "wp ?G (reconcile E tenant ns name) (\<lambda>_ _. True) []"
  proof (rule wp_reconcile)
    fix inst h assume r: "instanceRead ns name inst h"
    show "wp ?G (finalize E tenant inst) (\<lambda>_ _. True) h" if "getDeletion (ce_U E) inst \<noteq> None"
      by (rule wp_onlyAsks [OF onlyAsks_any]) (use that r instanceRead_mono in blast)+
    show "wp ?G (reconcileInstance E tenant inst) (\<lambda>_ _. True) h" if "ce_containsFinalizer E inst finalizer"
      by (rule wp_weaken [OF reconcileInstance_isolated]) (use that r instanceRead_mono in blast)
  qed simp_all
  from wp_trace [OF this assms(1)] have "obeys ?G 0 tr" by simp
  with assms(2,3) show ?thesis unfolding obeys_def by blast
qed

theorem isolation_before_workloads_witness:
  "\<exists>tr res i. run demoWorld (reconcile demoEnv ''c1'' ''team'' ''box'') [] = (tr, res) \<and> i < length tr \<and> workloadWrite (fst (tr ! i))
     \<and> (\<exists>inst. instanceRead ''team'' ''box'' inst (take i tr) \<and>
         (getDeletion reference_unstr inst \<noteq> None \<or> ce_containsFinalizer demoEnv inst finalizer
          \<and> policySettled demoEnv (runtimeNamespace ''c1'' (getNamespace reference_unstr inst)) ''c1'' (take i tr)))"
proof -
  obtain tr res where r: "run demoWorld (reconcile demoEnv ''c1'' ''team'' ''box'') [] = (tr, res)"
    and w: "workloadWrite (fst (last tr))" and ne: "tr \<noteq> []" using demo_run by blast
  have i: "length tr - 1 < length tr" and l: "workloadWrite (fst (tr ! (length tr - 1)))"
    using ne w by (simp_all add: last_conv_nth)
  from isolation_before_workloads [OF r i l] r i l show ?thesis unfolding demo_env by blast
qed

end
