(* ===== verification/Release_Contract.thy ===== *)
theory Release_Contract
  imports Instance_Contract
begin

text \<open>
  Deletion and convergence of an Instance: where finalization reaches, that the finalizer is dropped
  last, that a tenant credential is only read for the tenant's own identity provider, and that a
  converged runtime object is left alone.
\<close>

section \<open>Where a reconcile reaches\<close>

text \<open>The requests of a finalization: in the instance's runtime namespace, or in the namespace the
  recorded runtime reference names.\<close>

definition releaseScope :: "ctrlEnv \<Rightarrow> string \<Rightarrow> json \<Rightarrow> request \<Rightarrow> bool" where
  "releaseScope E tenant inst q \<longleftrightarrow>
     inNamespace (runtimeNamespace tenant (getNamespace (ce_U E) inst)) q
     \<or> (\<exists>g ns n. recordedTarget E inst = Some (g, ns, n) \<and> inNamespace ns q)"

lemma cleanup_confined [footprint]:
  "onlyAsks (inNamespace ns) (cleanupRunSandboxTokenResources E t ns n)"
  "onlyAsks (inNamespace ns) (deleteRuntime g ns n)"
  "onlyAsks (inNamespace (runtimeNamespace tenant src)) (deleteBridgedSecret tenant src n)"
  "onlyAsks (inNamespace (runtimeNamespace tenant src)) (cleanupRegistryPullSecret E tenant src n)"
proof -
  have "onlyAsks (inNamespace ns) (cleanupRunSandboxTokenPods E t ns n)"
    "onlyAsks (inNamespace ns) (cleanupRunSandboxTokenResource E g ns n k)" for t n g k
    unfolding cleanupRunSandboxTokenPods_def cleanupRunSandboxTokenResource_def Let_def
    by (auto intro!: onlyAsks_rules footprint split: sum.split)
  then show "onlyAsks (inNamespace ns) (cleanupRunSandboxTokenResources E t ns n)"
    unfolding cleanupRunSandboxTokenResources_def by (auto intro!: onlyAsks_rules)
  show "onlyAsks (inNamespace ns) (deleteRuntime g ns n)"
    unfolding deleteRuntime_def checkGone_def by (auto intro!: onlyAsks_rules footprint split: sum.split)
  show "onlyAsks (inNamespace (runtimeNamespace tenant src)) (deleteBridgedSecret tenant src n)"
    "onlyAsks (inNamespace (runtimeNamespace tenant src)) (cleanupRegistryPullSecret E tenant src n)"
    unfolding deleteBridgedSecret_def cleanupRegistryPullSecret_def Let_def
    by (auto intro!: onlyAsks_rules footprint split: sum.split)
qed

lemma onlyAsks_retry [footprint]: "onlyAsks P p \<Longrightarrow> onlyAsks P (retryOnConflict n p)"
  by (induction n p rule: retryOnConflict.induct) (auto intro!: onlyAsks_rules)

lemma removeFinalizer_confined [footprint]: "onlyAsks (inNamespace ns) (removeInstanceFinalizer E n x)"
  unfolding removeInstanceFinalizer_def tryRemoveFinalizer_def
  by (auto intro!: onlyAsks_rules footprint split: sum.split)

lemma finalize_scope: "onlyAsks (releaseScope E tenant inst) (finalize E tenant inst)"
proof -
  let ?S = "releaseScope E tenant inst" and ?ns = "runtimeNamespace tenant (getNamespace (ce_U E) inst)"
  have own: "onlyAsks ?S p" if "onlyAsks (inNamespace ?ns) p" for p :: "'b act"
    by (rule onlyAsks_mono [OF that]) (simp add: releaseScope_def)
  have rel: "onlyAsks ?S (releaseInstance E tenant inst)"
    unfolding releaseInstance_def Let_def by (rule own) (auto intro!: onlyAsks_rules footprint)
  have cl: "onlyAsks ?S (cleanupInstance E tenant inst ns)"
    if "\<And>q. inNamespace (if ns = [] then ?ns else ns) q \<Longrightarrow> ?S q" for ns
    unfolding cleanupInstance_def Let_def
    using onlyAsks_mono [OF cleanup_confined(1) that] by (auto intro!: onlyAsks_rules rel)
  have t: "onlyAsks ?S (runtimeTarget E tenant inst)"
    unfolding runtimeTarget_def by (rule own) (auto intro!: onlyAsks_rules footprint split: option.split)
  show ?thesis
  proof (cases "recordedTarget E inst")
    case (Some tg)
    obtain g ns n where tg: "tg = (g, ns, n)" by (cases tg)
    have ne: "ns \<noteq> []" using Some tg unfolding recordedTarget_def by (auto split: sum.splits option.splits if_splits)
    have in_s: "?S q" if "inNamespace ns q" for q using that Some tg by (auto simp: releaseScope_def)
    have d: "onlyAsks ?S (deleteRuntime g ns n)" by (rule onlyAsks_mono [OF cleanup_confined(2) in_s])
    from Some tg show ?thesis
      unfolding finalize_def runtimeTarget_def
      by (auto intro!: onlyAsks_rules d cl in_s simp: ne)
  next
    case None
    have d: "onlyAsks ?S (deleteRuntime g ?ns n)" for g n by (rule own) (rule footprint)
    have c1: "onlyAsks ?S (cleanupInstance E tenant inst [])" "onlyAsks ?S (cleanupInstance E tenant inst ?ns)"
      by (auto intro!: cl simp: releaseScope_def)
    have r: "onlyAsks ?S (resolveTemplate E tn)" for tn by (rule own) (rule footprint)
    show ?thesis
      unfolding finalize_def runtimeTarget_def using None
      by (auto simp: bind_assoc intro!: onlyAsks_rules r d c1 split: sum.split option.split)
  qed
qed

text \<open>C7: A reconcile of one tenant's instance stays in that tenant's runtime namespace: every request to the
  runtime cluster is in the namespace derived from the tenant and the instance's own namespace, or reads or creates the Namespace
  object of exactly that name, or adds the controller's own labels to the object the server answered when asked for that
  name; only while the instance is being deleted may it also be in the namespace recorded in its runtime reference.\<close>

theorem reconcile_confined:
  assumes "run w (reconcile E tenant ns name) [] = (tr, res)" and "i < length tr"
  shows "(\<forall>n. inNamespace n (fst (tr ! i)))
     \<or> (\<exists>inst. instanceRead ns name inst (take i tr)
          \<and> (reaches E tenant (runtimeNamespace tenant (getNamespace (ce_U E) inst)) (take i tr) (fst (tr ! i))
             \<or> (getDeletion (ce_U E) inst \<noteq> None \<and> releaseScope E tenant inst (fst (tr ! i)))))"
proof -
  let ?G = "\<lambda>h q. (\<forall>n. inNamespace n q) \<or> (\<exists>inst. instanceRead ns name inst h
     \<and> (reaches E tenant (runtimeNamespace tenant (getNamespace (ce_U E) inst)) h q
        \<or> (getDeletion (ce_U E) inst \<noteq> None \<and> releaseScope E tenant inst q)))"
  have "wp ?G (reconcile E tenant ns name) (\<lambda>_ _. True) []"
  proof (rule wp_reconcile)
    fix inst h assume r: "instanceRead ns name inst h"
    show "wp ?G (finalize E tenant inst) (\<lambda>_ _. True) h" if "getDeletion (ce_U E) inst \<noteq> None"
      by (rule wp_onlyAsks [OF finalize_scope]) (use that r instanceRead_mono in blast)+
    show "wp ?G (reconcileInstance E tenant inst) (\<lambda>_ _. True) h"
      by (rule wp_weaken [OF reconcileInstance_throughout [unfolded throughout_def, rule_format]]) (use r instanceRead_mono in blast)
  qed simp_all
  from wp_trace [OF this assms(1)] have "obeys ?G 0 tr" by simp
  with assms(2) show ?thesis unfolding obeys_def by blast
qed

theorem reconcile_confined_witness:
  "\<exists>tr res i inst. run demoWorld (reconcile demoEnv ''c1'' ''team'' ''box'') [] = (tr, res) \<and> i < length tr
     \<and> workloadWrite (fst (tr ! i)) \<and> instanceRead ''team'' ''box'' inst (take i tr)
     \<and> (reaches demoEnv ''c1'' (runtimeNamespace ''c1'' (getNamespace reference_unstr inst)) (take i tr) (fst (tr ! i))
        \<or> (getDeletion reference_unstr inst \<noteq> None \<and> releaseScope demoEnv ''c1'' inst (fst (tr ! i))))"
proof -
  obtain tr res where r: "run demoWorld (reconcile demoEnv ''c1'' ''team'' ''box'') [] = (tr, res)"
    and w: "workloadWrite (fst (last tr))" and ne: "tr \<noteq> []" using demo_run by blast
  have i: "length tr - 1 < length tr" and l: "workloadWrite (fst (tr ! (length tr - 1)))"
    using ne w by (simp_all add: last_conv_nth)
  have "\<not> (\<forall>n. inNamespace n (fst (tr ! (length tr - 1))))"
  proof
    assume all: "\<forall>n. inNamespace n (fst (tr ! (length tr - 1)))"
    from l show False
      by (cases rule: workloadWrite.elims(2)) (use all [rule_format, of "[CHR ''a'']"] all [rule_format, of "[CHR ''b'']"] in auto)
  qed
  with reconcile_confined [OF r i] r i l show ?thesis unfolding demo_env by blast
qed

section \<open>The finalizer is dropped last\<close>

definition answeredGone :: "request \<Rightarrow> (request, answer) history \<Rightarrow> bool" where
  "answeredGone q h \<longleftrightarrow> (\<exists>r. (q, r) \<in> set h \<and> an_obj r = Inl NotFound)"

definition deletedOk :: "request \<Rightarrow> (request, answer) history \<Rightarrow> bool" where
  "deletedOk q h \<longleftrightarrow> (\<exists>r. (q, r) \<in> set h \<and> (an_obj r = Inl NotFound \<or> (\<exists>x. an_obj r = Inr x)))"

definition listedEmpty :: "request \<Rightarrow> (request, answer) history \<Rightarrow> bool" where
  "listedEmpty q h \<longleftrightarrow> (\<exists>r. (q, r) \<in> set h \<and> an_list r = Inr [])"

lemma evidence_mono:
  "answeredGone q h \<Longrightarrow> prefix h h' \<Longrightarrow> answeredGone q h'"
  "deletedOk q h \<Longrightarrow> prefix h h' \<Longrightarrow> deletedOk q h'"
  "listedEmpty q h \<Longrightarrow> prefix h h' \<Longrightarrow> listedEmpty q h'"
  unfolding answeredGone_def deletedOk_def listedEmpty_def using set_mono_prefix by blast+

text \<open>The Template whose kind names the runtime object: the one the catalog answered, decoded now or under its resource version
  before.\<close>

definition templateOfInstance :: "ctrlEnv \<Rightarrow> json \<Rightarrow> string" where
  "templateOfInstance E inst = foundOr [] (nestedStr (ce_U E) inst [''spec'', ''template''])"

definition templateRead :: "ctrlEnv \<Rightarrow> string \<Rightarrow> template \<Rightarrow> (request, answer) history \<Rightarrow> bool" where
  "templateRead E tn tmpl h \<longleftrightarrow>
     (\<exists>r obj. (TmGet tn, r) \<in> set h \<and> an_obj r = Inr obj
        \<and> (ce_decodeTemplate E obj = Inr tmpl
           \<or> (\<exists>r' cc. (ContractLoad tn, r') \<in> set h \<and> an_contract r' = Some cc \<and> cc_template cc = tmpl
                \<and> cc_resourceVersion cc = getResourceVersion (ce_U E) obj)))"

text \<open>The runtime object was answered NotFound: the one the reference names, or else the one of the Template's kind.\<close>

definition runtimeSeenGone :: "ctrlEnv \<Rightarrow> string \<Rightarrow> json \<Rightarrow> (request, answer) history \<Rightarrow> bool" where
  "runtimeSeenGone E tenant inst h \<longleftrightarrow>
     (case recordedTarget E inst of
        Some (g, ns, n) \<Rightarrow> answeredGone (RtGet g ns n) h
      | None \<Rightarrow> (\<exists>tmpl. templateRead E (templateOfInstance E inst) tmpl h
          \<and> answeredGone (RtGet (runtimeGVRFor tmpl) (runtimeNamespace tenant (getNamespace (ce_U E) inst)) (getName (ce_U E) inst)) h))"

text \<open>No runtime object was addressable: no usable reference is recorded, and no Template is named or its lookup failed, be it that the
  Template is gone, that reading it failed for another reason, or that it could not be decoded.\<close>

definition templateLookupFailed :: "ctrlEnv \<Rightarrow> string \<Rightarrow> (request, answer) history \<Rightarrow> bool" where
  "templateLookupFailed E tn h \<longleftrightarrow>
     (\<exists>r. (TmGet tn, r) \<in> set h \<and> ((\<exists>e. an_obj r = Inl e) \<or> (\<exists>obj e. an_obj r = Inr obj \<and> ce_decodeTemplate E obj = Inl e)))"

definition runtimeUnaddressable :: "ctrlEnv \<Rightarrow> json \<Rightarrow> (request, answer) history \<Rightarrow> bool" where
  "runtimeUnaddressable E inst h \<longleftrightarrow>
     recordedTarget E inst = None \<and> (templateOfInstance E inst = [] \<or> templateLookupFailed E (templateOfInstance E inst) h)"

definition runtimeSettled :: "ctrlEnv \<Rightarrow> string \<Rightarrow> json \<Rightarrow> (request, answer) history \<Rightarrow> bool" where
  "runtimeSettled E tenant inst h \<longleftrightarrow> runtimeSeenGone E tenant inst h \<or> runtimeUnaddressable E inst h"

text \<open>Of a run sandbox the credential pods, Job and Secret are gone from the given namespace.\<close>

definition tokensGone :: "string \<Rightarrow> string \<Rightarrow> (request, answer) history \<Rightarrow> bool" where
  "tokensGone ns n h \<longleftrightarrow>
     listedEmpty (RtList podsGVR ns (tokenPodSelector n)) h
     \<and> answeredGone (RtGet jobsGVR ns (n @ ''-dev-token'')) h
     \<and> answeredGone (RtGet secretGVR ns (n @ ''-dev-control'')) h"

definition released :: "ctrlEnv \<Rightarrow> string \<Rightarrow> json \<Rightarrow> (request, answer) history \<Rightarrow> bool" where
  "released E tenant inst h \<longleftrightarrow>
     (let ns = runtimeNamespace tenant (getNamespace (ce_U E) inst); n = getName (ce_U E) inst in
      runtimeSettled E tenant inst h
      \<and> (runSandboxInstanceTemplateName (ce_U E) inst = runSandboxTemplateName \<longrightarrow>
           (\<exists>cns. (cns = ns \<or> (\<exists>g x. recordedTarget E inst = Some (g, cns, x))) \<and> tokensGone cns n h))
      \<and> deletedOk (RtDelete secretGVR ns (CredentialsSecretName n) None) h
      \<and> deletedOk (RtDelete secretGVR ns (registryPullSecretName n) None) h)"

fun isTnUpdate :: "request \<Rightarrow> bool" where
  "isTnUpdate (TnUpdate v) = True"
| "isTnUpdate q = False"

abbreviation releaseFirst :: "ctrlEnv \<Rightarrow> string \<Rightarrow> json \<Rightarrow> (request, answer) history \<Rightarrow> request \<Rightarrow> bool" where
  "releaseFirst E tenant inst \<equiv> (\<lambda>h q. isTnUpdate q \<longrightarrow> released E tenant inst h)"

text \<open>An operation that updates no tenant object, with a postcondition.\<close>

lemma releaseFirst_step:
  assumes "onlyAsks (\<lambda>q. \<not> isTnUpdate q) p" and "wp (\<lambda>_ _. True) p Q h"
    and "\<And>a h'. prefix h h' \<Longrightarrow> Q a h' \<Longrightarrow> R a h'"
  shows "wp (releaseFirst E tenant inst) p R h"
  by (rule wp_mono [OF wp_conj_onlyAsks [OF assms(1) _ assms(2)]]) (use assms(3) in auto)

lemma noTnUpdate [footprint]:
  "onlyAsks (\<lambda>q. \<not> isTnUpdate q) (deleteRuntime g ns n)"
  "onlyAsks (\<lambda>q. \<not> isTnUpdate q) (resolveTemplate E tn)"
  "onlyAsks (\<lambda>q. \<not> isTnUpdate q) (cleanupRunSandboxTokenResources E t ns n)"
  "onlyAsks (\<lambda>q. \<not> isTnUpdate q) (deleteBridgedSecret tenant src n)"
  "onlyAsks (\<lambda>q. \<not> isTnUpdate q) (cleanupRegistryPullSecret E tenant src n)"
  unfolding deleteRuntime_def checkGone_def resolveTemplate_def cleanupRunSandboxTokenResources_def
    cleanupRunSandboxTokenPods_def cleanupRunSandboxTokenResource_def deleteBridgedSecret_def
    cleanupRegistryPullSecret_def detachDefaultSAImagePullSecret_def Let_def
  by (auto intro!: onlyAsks_rules footprint split: sum.split option.split)

subsection \<open>What each step leaves behind\<close>

lemma deleteRuntime_post:
  "wp (\<lambda>_ _. True) (deleteRuntime g ns n) (\<lambda>x h'. x = Inr True \<longrightarrow> answeredGone (RtGet g ns n) h') h"
  unfolding deleteRuntime_def checkGone_def
  by (auto simp: wp_bind api_def answeredGone_def split: sum.split)

lemma deleteSecret_post:
  "wp (\<lambda>_ _. True) (deleteBridgedSecret tenant src n)
     (\<lambda>x h'. x = Inr () \<longrightarrow> deletedOk (RtDelete secretGVR (runtimeNamespace tenant src) (CredentialsSecretName n) None) h') h"
  unfolding deleteBridgedSecret_def
  by (auto simp: wp_bind api_def deletedOk_def split: sum.split)

lemma pullSecret_post:
  "wp (\<lambda>_ _. True) (cleanupRegistryPullSecret E tenant src n)
     (\<lambda>x h'. x = Inr () \<longrightarrow> deletedOk (RtDelete secretGVR (runtimeNamespace tenant src) (registryPullSecretName n) None) h') h"
proof -
  let ?q = "RtDelete secretGVR (runtimeNamespace tenant src) (registryPullSecretName n) None"
  have "wp (\<lambda>_ _. True) (detachDefaultSAImagePullSecret E ns s) (\<lambda>x h'. x = Inr () \<longrightarrow> deletedOk ?q h') h"
    if "deletedOk ?q h" for ns s h
    by (rule wp_onlyAsks [OF onlyAsks_any]) (use that evidence_mono(2) in auto)
  moreover have "deletedOk ?q (h @ [(?q, r)])" if "an_obj r = Inl NotFound \<or> (\<exists>x. an_obj r = Inr x)" for r
    using that by (auto simp: deletedOk_def)
  ultimately show ?thesis unfolding cleanupRegistryPullSecret_def Let_def
    by (auto simp: wp_bind api_def split: sum.split)
qed

lemma tokenPods_post:
  "wp (\<lambda>_ _. True) (cleanupRunSandboxTokenPods E runSandboxTemplateName ns n)
     (\<lambda>x h'. x = Inr True \<longrightarrow> listedEmpty (RtList podsGVR ns (tokenPodSelector n)) h') h"
proof -
  have "wp (\<lambda>_ _. True) (bindE p (\<lambda>_. Ret (Inr False))) (\<lambda>x h'. x = Inr True \<longrightarrow> Q h') h" for p :: "(cerr + unit) act" and Q h
    unfolding wp_bindE by (rule wp_onlyAsks [OF onlyAsks_any]) (auto split: sum.split)
  then show ?thesis unfolding cleanupRunSandboxTokenPods_def
    by (auto simp: listedEmpty_def split: sum.split)
qed

lemma tokenResource_post:
  "wp (\<lambda>_ _. True) (cleanupRunSandboxTokenResource E g ns n k) (\<lambda>x h'. x = Inr True \<longrightarrow> answeredGone (RtGet g ns n) h') h"
  unfolding cleanupRunSandboxTokenResource_def
  by (auto simp: wp_bind api_def answeredGone_def split: sum.split) (metis sum.exhaust)

lemma tokens_post:
  "wp (\<lambda>_ _. True) (cleanupRunSandboxTokenResources E runSandboxTemplateName ns n) (\<lambda>x h'. x = Inr True \<longrightarrow> tokensGone ns n h') h"
proof -
  let ?J = "answeredGone (RtGet jobsGVR ns (n @ ''-dev-token''))" and ?S = "answeredGone (RtGet secretGVR ns (n @ ''-dev-control''))"
    and ?L = "listedEmpty (RtList podsGVR ns (tokenPodSelector n))"
  have 3: "wp (\<lambda>_ _. True) (bindE (cleanupRunSandboxTokenResource E secretGVR ns (n @ ''-dev-control'') k)
      (\<lambda>s. Ret (Inr (p \<and> j \<and> s)))) (\<lambda>x h'. x = Inr True \<longrightarrow> tokensGone ns n h') h"
    if "p \<longrightarrow> ?L h" "j \<longrightarrow> ?J h" for p j k h
    unfolding wp_bindE
    by (rule wp_mono [OF tokenResource_post]) (use that evidence_mono in \<open>auto simp: tokensGone_def split: sum.split\<close>)
  have 2: "wp (\<lambda>_ _. True) (bindE (cleanupRunSandboxTokenResource E jobsGVR ns (n @ ''-dev-token'') k) (\<lambda>j.
      bindE (cleanupRunSandboxTokenResource E secretGVR ns (n @ ''-dev-control'') k') (\<lambda>s. Ret (Inr (p \<and> j \<and> s)))))
      (\<lambda>x h'. x = Inr True \<longrightarrow> tokensGone ns n h') h" if "p \<longrightarrow> ?L h" for p k k' h
    by (subst wp_bindE, rule wp_mono [OF tokenResource_post])
       (use that evidence_mono(3) in \<open>auto split: sum.split intro!: 3\<close>)
  show ?thesis unfolding cleanupRunSandboxTokenResources_def
    by (auto, subst wp_bindE, rule wp_mono [OF tokenPods_post]) (auto split: sum.split intro!: 2)
qed

lemma runtimeTarget_post:
  "wp (\<lambda>_ _. True) (runtimeTarget E tenant inst)
     (\<lambda>t h'. case t of
        Some (g, ns, n) \<Rightarrow> (recordedTarget E inst = Some (g, ns, n)
          \<or> (recordedTarget E inst = None \<and> ns = runtimeNamespace tenant (getNamespace (ce_U E) inst)
             \<and> n = getName (ce_U E) inst \<and> (\<exists>tmpl. g = runtimeGVRFor tmpl \<and> templateRead E (templateOfInstance E inst) tmpl h')))
      | None \<Rightarrow> runtimeSettled E tenant inst h') h"
proof (cases "recordedTarget E inst")
  case (Some a)
  then show ?thesis unfolding runtimeTarget_def by (cases a) simp
next
  case None
  let ?tn = "templateOfInstance E inst"
  have "wp (\<lambda>_ _. True) (resolveTemplate E ?tn)
      (\<lambda>x h'. case x of Inl e \<Rightarrow> runtimeSettled E tenant inst h' | Inr (tmpl, _) \<Rightarrow> templateRead E ?tn tmpl h') h"
  proof (cases "?tn = []")
    case True
    then show ?thesis using None unfolding resolveTemplate_def runtimeSettled_def runtimeUnaddressable_def by simp
  next
    case False
    have lost: "runtimeSettled E tenant inst h'"
      if "(TmGet ?tn, r) \<in> set h'" "(\<exists>e. an_obj r = Inl e) \<or> (\<exists>obj e. an_obj r = Inr obj \<and> ce_decodeTemplate E obj = Inl e)" for h' r
      using that None unfolding runtimeSettled_def runtimeUnaddressable_def templateLookupFailed_def by blast
    have decoded: "templateRead E ?tn tmpl h'"
      if "(TmGet ?tn, r) \<in> set h'" "an_obj r = Inr obj" "ce_decodeTemplate E obj = Inr tmpl" for h' r obj tmpl
      using that unfolding templateRead_def by blast
    have cached: "templateRead E ?tn (cc_template cc) h'"
      if "(TmGet ?tn, r) \<in> set h'" "an_obj r = Inr obj" "(ContractLoad ?tn, r') \<in> set h'" "an_contract r' = Some cc"
        "cc_resourceVersion cc = getResourceVersion (ce_U E) obj" for h' r r' obj cc
      using that unfolding templateRead_def by blast
    show ?thesis using False unfolding resolveTemplate_def Let_def
      by (auto simp: wp_bind api_def split: sum.split option.split intro: lost decoded cached)
  qed
  then show ?thesis using None unfolding runtimeTarget_def templateOfInstance_def
    by (simp add: wp_bind) (erule wp_mono, auto split: sum.split)
qed

lemma templateRead_mono: "templateRead E tn tmpl h \<Longrightarrow> prefix h h' \<Longrightarrow> templateRead E tn tmpl h'"
  unfolding templateRead_def using set_mono_prefix [of h h'] by blast

lemma runtimeGone_mono: "runtimeSettled E tenant inst h \<Longrightarrow> prefix h h' \<Longrightarrow> runtimeSettled E tenant inst h'"
proof -
  assume p: "prefix h h'"
  have "runtimeSeenGone E tenant inst h \<Longrightarrow> runtimeSeenGone E tenant inst h'"
    unfolding runtimeSeenGone_def using evidence_mono(1) [OF _ p] templateRead_mono [OF _ p]
    by (cases "recordedTarget E inst") (simp_all split: prod.splits, blast)
  moreover have "runtimeUnaddressable E inst h \<Longrightarrow> runtimeUnaddressable E inst h'"
    unfolding runtimeUnaddressable_def templateLookupFailed_def using set_mono_prefix [OF p] by blast
  ultimately show "runtimeSettled E tenant inst h \<Longrightarrow> runtimeSettled E tenant inst h'" unfolding runtimeSettled_def by blast
qed

subsection \<open>Composition\<close>

lemma releaseInstance_first:
  assumes "runtimeSettled E tenant inst h"
    and "runSandboxInstanceTemplateName (ce_U E) inst = runSandboxTemplateName \<longrightarrow>
      (\<exists>cns. (cns = runtimeNamespace tenant (getNamespace (ce_U E) inst) \<or> (\<exists>g x. recordedTarget E inst = Some (g, cns, x)))
        \<and> tokensGone cns (getName (ce_U E) inst) h)"
  shows "wp (releaseFirst E tenant inst) (releaseInstance E tenant inst) (\<lambda>_ _. True) h"
proof -
  let ?ns = "runtimeNamespace tenant (getNamespace (ce_U E) inst)" and ?n = "getName (ce_U E) inst"
  let ?G = "releaseFirst E tenant inst"
  have tok: "tokensGone cns n h \<Longrightarrow> prefix h h' \<Longrightarrow> tokensGone cns n h'" for cns n h h'
    unfolding tokensGone_def using evidence_mono by blast
  have rel: "released E tenant inst h'"
    if "prefix h h'" "deletedOk (RtDelete secretGVR ?ns (CredentialsSecretName ?n) None) h'"
      "deletedOk (RtDelete secretGVR ?ns (registryPullSecretName ?n) None) h'" for h'
    using assms runtimeGone_mono [OF assms(1) that(1)] tok [OF _ that(1)] that(2,3)
    unfolding released_def Let_def by blast
  have last: "wp ?G (bindE (wrapE w (removeInstanceFinalizer E src n)) k) (\<lambda>_ _. True) h'"
    if "\<And>h''. prefix h' h'' \<Longrightarrow> released E tenant inst h''" for w src n h' and k :: "unit \<Rightarrow> (cerr + int) act"
    by (rule wp_onlyAsks [OF onlyAsks_any]) (use that in auto)
  have rel': "released E tenant inst h3"
    if "prefix h h1" "deletedOk (RtDelete secretGVR ?ns (CredentialsSecretName ?n) None) h1"
      "prefix h1 h2" "deletedOk (RtDelete secretGVR ?ns (registryPullSecretName ?n) None) h2" "prefix h2 h3" for h1 h2 h3
    by (rule rel) (use that evidence_mono(2) prefix_order.trans in blast)+
  have second: "wp ?G (bindE (wrapE w (cleanupRegistryPullSecret E tenant (getNamespace (ce_U E) inst) ?n))
      (\<lambda>_. bindE (wrapE w' (removeInstanceFinalizer E src n)) k)) (\<lambda>_ _. True) h1"
    if "prefix h h1" "deletedOk (RtDelete secretGVR ?ns (CredentialsSecretName ?n) None) h1"
    for w w' src n h1 and k :: "unit \<Rightarrow> (cerr + int) act"
    unfolding wp_bindE [where p = "wrapE w _"] wp_wrapE [where p = "cleanupRegistryPullSecret _ _ _ _"]
    by (rule releaseFirst_step [OF noTnUpdate(5) pullSecret_post])
       (auto split: sum.split intro!: last rel' [OF that])
  show ?thesis unfolding releaseInstance_def Let_def
    by (subst wp_bindE, subst wp_wrapE, rule releaseFirst_step [OF noTnUpdate(4) deleteSecret_post])
       (auto split: sum.split intro!: second)
qed

lemma cleanupInstance_first:
  assumes "runtimeSettled E tenant inst h" and "ns = [] \<or> ns = runtimeNamespace tenant (getNamespace (ce_U E) inst)
      \<or> (\<exists>g x. recordedTarget E inst = Some (g, ns, x))"
  shows "wp (releaseFirst E tenant inst) (cleanupInstance E tenant inst ns) (\<lambda>_ _. True) h"
proof (cases "runSandboxInstanceTemplateName (ce_U E) inst = runSandboxTemplateName")
  case False
  then show ?thesis unfolding cleanupInstance_def using releaseInstance_first [OF assms(1)] by simp
next
  case True
  define cns where "cns = (if ns = [] then runtimeNamespace tenant (getNamespace (ce_U E) inst) else ns)"
  have c: "cns = runtimeNamespace tenant (getNamespace (ce_U E) inst) \<or> (\<exists>g x. recordedTarget E inst = Some (g, cns, x))"
    using assms(2) by (auto simp: cns_def)
  have "wp (releaseFirst E tenant inst) (releaseInstance E tenant inst) (\<lambda>_ _. True) h'"
    if "prefix h h'" "tokensGone cns (getName (ce_U E) inst) h'" for h'
    by (rule releaseInstance_first) (use runtimeGone_mono [OF assms(1) that(1)] c that(2) in blast)+
  then show ?thesis unfolding cleanupInstance_def Let_def cns_def [symmetric] using True
    by (simp, subst wp_bindE, subst wp_wrapE)
       (rule releaseFirst_step [OF noTnUpdate(3) tokens_post], auto split: sum.split)
qed

text \<open>C4: The finalizer is dropped last. Whenever finalization updates the tenant's object (to drop the finalizer), the runtime
  object, named by the recorded reference or else by the kind of the Template this run read, was answered NotFound, or none was
  addressable: no usable reference is recorded, and the instance names no Template or the lookup of its Template failed, for
  whatever reason. Besides, the deletions of the bridged credentials and of the registry pull secret were answered with success or
  NotFound, and of a run sandbox the token pods were listed as none, and Job and control Secret answered NotFound; whatever the servers answer.\<close>

theorem finalizer_dropped_last:
  assumes "run w (finalize E tenant inst) [] = (tr, res)" and "i < length tr" and "isTnUpdate (fst (tr ! i))"
  shows "released E tenant inst (take i tr)"
proof -
  let ?G = "releaseFirst E tenant inst" and ?rns = "runtimeNamespace tenant (getNamespace (ce_U E) inst)"
  have found: "wp ?G (bindE (deleteRuntime g ns n) (\<lambda>gone. if \<not> gone then Ret (Inr (3 * second)) else cleanupInstance E tenant inst ns))
      (\<lambda>_ _. True) h"
    if t: "recordedTarget E inst = Some (g, ns, n) \<or> (recordedTarget E inst = None \<and> ns = ?rns
         \<and> n = getName (ce_U E) inst \<and> (\<exists>tmpl. g = runtimeGVRFor tmpl \<and> templateRead E (templateOfInstance E inst) tmpl h))" for g ns n h
  proof -
    have gone: "runtimeSettled E tenant inst h'" if "answeredGone (RtGet g ns n) h'" "prefix h h'" for h'
    proof -
      from t consider "recordedTarget E inst = Some (g, ns, n)" | tmpl where "recordedTarget E inst = None" "ns = ?rns"
        "n = getName (ce_U E) inst" "g = runtimeGVRFor tmpl" "templateRead E (templateOfInstance E inst) tmpl h" by blast
      then have "runtimeSeenGone E tenant inst h'"
      proof cases
        case 2
        then show ?thesis using that(1) templateRead_mono [OF 2(5) that(2)] unfolding runtimeSeenGone_def by auto
      qed (use that(1) in \<open>simp add: runtimeSeenGone_def\<close>)
      then show ?thesis by (simp add: runtimeSettled_def)
    qed
    have "wp ?G (cleanupInstance E tenant inst ns) (\<lambda>_ _. True) h'" if "answeredGone (RtGet g ns n) h'" "prefix h h'" for h'
      by (rule cleanupInstance_first) (use gone [OF that] t in auto)
    then show ?thesis
      by (subst wp_bindE, intro releaseFirst_step [OF noTnUpdate(1) deleteRuntime_post]) (auto split: sum.split)
  qed
  have t: "onlyAsks (\<lambda>q. \<not> isTnUpdate q) (runtimeTarget E tenant inst)"
    unfolding runtimeTarget_def by (auto intro!: onlyAsks_rules footprint split: option.split)
  have "wp ?G (finalize E tenant inst) (\<lambda>_ _. True) []"
    unfolding finalize_def wp_bind
    by (auto simp: wp_bind intro!: releaseFirst_step [OF t runtimeTarget_post])
       (auto split: option.splits intro!: found cleanupInstance_first)
  from wp_trace [OF this assms(1)] have "obeys ?G 0 tr" by simp
  with assms(2,3) show ?thesis unfolding obeys_def by blast
qed

lemma demo_release:
  "\<exists>tr res. run demoWorld (finalize demoEnv ''c1'' demoInstance) [] = (tr, res) \<and> isTnUpdate (fst (last tr)) \<and> tr \<noteq> []"
proof -
  have r: "recordedTarget demoEnv demoInstance = None" by code_simp
  have n: "runSandboxInstanceTemplateName reference_unstr demoInstance \<noteq> runSandboxTemplateName" by code_simp
  have "ce_retrySteps demoEnv = 5" by (simp add: demoEnv_def)
  then obtain k where s: "ce_retrySteps demoEnv = Suc (Suc k)" using that [of 3] by simp
  obtain c where c: "newContract demoLib demoTemplate = Inr c" using demo_contract by blast
  show ?thesis
    unfolding finalize_def runtimeTarget_def resolveTemplate_def deleteRuntime_def checkGone_def cleanupInstance_def releaseInstance_def
      deleteBridgedSecret_def cleanupRegistryPullSecret_def detachDefaultSAImagePullSecret_def removeInstanceFinalizer_def
      tryRemoveFinalizer_def bindE_def wrapE_def api_def Let_def
    by (simp add: demo_env demo_instance r n s c demoWorld_def)
qed

text \<open>A failed lookup is taken for a Template that is gone: when the catalog answers an error just once, the finalizer of an
  instance without a recorded reference is dropped, and the runtime object was neither deleted nor looked at.\<close>

definition flakyWorld :: "(request, answer) world" where
  "flakyWorld h q = (case q of TmGet n \<Rightarrow> answerObj (Inl (OtherError ''timeout'')) | _ \<Rightarrow> demoAnswer q)"

theorem failed_lookup_drops_finalizer:
  "\<exists>tr res. run flakyWorld (finalize demoEnv ''c1'' demoInstance) [] = (tr, res) \<and> (\<exists>e \<in> set tr. isTnUpdate (fst e))
     \<and> (\<forall>e \<in> set tr. \<forall>g ns n u. fst e = RtDelete g ns n u \<longrightarrow> g = secretGVR)
     \<and> (\<forall>e \<in> set tr. \<forall>g ns n. fst e = RtGet g ns n \<longrightarrow> g = serviceAccountGVR)"
proof -
  have r: "recordedTarget demoEnv demoInstance = None" by code_simp
  have n: "runSandboxInstanceTemplateName reference_unstr demoInstance \<noteq> runSandboxTemplateName" by code_simp
  have "ce_retrySteps demoEnv = 5" by (simp add: demoEnv_def)
  then obtain k where s: "ce_retrySteps demoEnv = Suc (Suc k)" using that [of 3] by simp
  show ?thesis
    unfolding finalize_def runtimeTarget_def resolveTemplate_def cleanupInstance_def releaseInstance_def
      deleteBridgedSecret_def cleanupRegistryPullSecret_def detachDefaultSAImagePullSecret_def removeInstanceFinalizer_def
      tryRemoveFinalizer_def bindE_def wrapE_def api_def Let_def
    by (simp add: demo_env demo_instance r n s flakyWorld_def)
qed

theorem finalizer_dropped_last_witness:
  "\<exists>tr res i. run demoWorld (finalize demoEnv ''c1'' demoInstance) [] = (tr, res) \<and> i < length tr \<and> isTnUpdate (fst (tr ! i))
     \<and> released demoEnv ''c1'' demoInstance (take i tr)"
proof -
  obtain tr res where r: "run demoWorld (finalize demoEnv ''c1'' demoInstance) [] = (tr, res)"
    and w: "isTnUpdate (fst (last tr))" and ne: "tr \<noteq> []" using demo_release by blast
  have i: "length tr - 1 < length tr" and l: "isTnUpdate (fst (tr ! (length tr - 1)))"
    using ne w by (simp_all add: last_conv_nth)
  from finalizer_dropped_last [OF r i l] r i l show ?thesis by blast
qed

section \<open>Credentials\<close>

fun readsCredentials :: "request \<Rightarrow> bool" where
  "readsCredentials (TnGet KSecret ns n) = (n = cloudCredentialsSecret)"
| "readsCredentials q = False"

lemma registry_not_credentials: "registryPullSecretName n \<noteq> cloudCredentialsSecret"
proof
  assume "registryPullSecretName n = cloudCredentialsSecret"
  then have "rev (registryPullSecretName n) = rev cloudCredentialsSecret" by simp
  then show False by (simp add: registryPullSecretName_def cloudCredentialsSecret_def)
qed

lemma noCredentials [footprint]:
  "onlyAsks (\<lambda>q. \<not> readsCredentials q) (ensureNamespace E ns tenant)"
  "onlyAsks (\<lambda>q. \<not> readsCredentials q) (tenantHasPullSecret E n)"
  "onlyAsks (\<lambda>q. \<not> readsCredentials q) (upsertSecret E what ns sn d)"
  "onlyAsks (\<lambda>q. \<not> readsCredentials q) (ensureDefaultSAImagePullSecret E ns sn)"
  "onlyAsks (\<lambda>q. \<not> readsCredentials q) (mirrorStatus E inst tm obj valid oidc)"
  "onlyAsks (\<lambda>q. \<not> readsCredentials q) (resolveTemplate E tn)"
  "onlyAsks (\<lambda>q. \<not> readsCredentials q) (stampValues E tenant inst b1 b2)"
  "onlyAsks (\<lambda>q. \<not> readsCredentials q) (deleteDue inst w)"
  "onlyAsks (\<lambda>q. \<not> readsCredentials q) (currentRuntime E tenant tmpl inst)"
  "onlyAsks (\<lambda>q. \<not> readsCredentials q) (syncExisting E tenant tmpl ns values e)"
proof -
  show "onlyAsks (\<lambda>q. \<not> readsCredentials q) (ensureNamespace E ns tenant)"
    by (rule onlyAsks_mono [OF ensureNamespace_scope]) (auto simp: guardScope_def elim: readsCredentials.elims)
qed (auto simp: registry_not_credentials tenantHasPullSecret_def upsertSecret_def ensureDefaultSAImagePullSecret_def
      mirrorStatus_def clockIf_def resolveTemplate_def stampValues_def deleteDue_def currentRuntime_def syncExisting_def Let_def
      intro!: onlyAsks_rules footprint split: sum.split option.split)

lemma noCredentials_sync [footprint]:
  "onlyAsks (\<lambda>q. \<not> readsCredentials q) (syncRuntime E tenant tmpl inst values)"
  "onlyAsks (\<lambda>q. \<not> readsCredentials q) (bridgeRegistryPullSecret E tenant src n)"
  unfolding syncRuntime_def bridgeRegistryPullSecret_def writeRuntimePullSecret_def Let_def
  by (auto simp: registry_not_credentials
        intro!: onlyAsks_rules footprint split: sum.split)

text \<open>The tenant's cloud credentials are read in a reconcile only when the instance asks for the tenant's
  own identity provider; with any other gate mode, published or not, no request for that Secret is made.\<close>

theorem credentials_only_for_byo:
  assumes "run w (reconcileInstance E tenant inst) [] = (tr, res)" and "e \<in> set tr" and "readsCredentials (fst e)"
  shows "foundOr [] (nestedStr (ce_U E) inst [''spec'', ''values'', ''oidc'', ''mode'']) = modeBYO"
proof (rule ccontr)
  let ?P = "\<lambda>q. \<not> readsCredentials q"
  assume m: "foundOr [] (nestedStr (ce_U E) inst [''spec'', ''values'', ''oidc'', ''mode'']) \<noteq> modeBYO"
  have f: "onlyAsks ?P (failValidation E inst r ms)" for r ms
    unfolding failValidation_def by (auto intro!: onlyAsks_rules footprint)
  have c: "onlyAsks ?P (convergeInstance E tenant inst tmpl oidc)" for tmpl oidc
    unfolding convergeInstance_def Let_def by (auto intro!: onlyAsks_rules footprint)
  have b: "onlyAsks ?P (bridgeSecrets E tenant inst False)"
    unfolding bridgeSecrets_def Let_def by (auto intro!: onlyAsks_rules footprint)
  have a: "onlyAsks ?P (bindE (applyExposure E tenant inst traits) (\<lambda>(oidc, proceed).
      if eo_stampedSpec proceed then Ret (Inr 0)
      else bindE (bridgeSecrets E tenant inst (eo_bridgeOIDC proceed)) (\<lambda>_. convergeInstance E tenant inst tmpl oidc)))" for traits tmpl
  proof -
    let ?d = "decideGate traits (foundOr False (nestedBool (ce_U E) inst [''spec'', ''values'', ''expose'', ''enabled'']))
        (foundOr [] (nestedStr (ce_U E) inst [''spec'', ''values'', ''oidc'', ''mode'']))"
    have nb: "\<not> gd_bridgeOIDC d" if "?d = Inr d" for d
    proof (cases "tt_hasOIDC traits")
      case True
      from decideGate_cases [OF that True] m show ?thesis by blast
    next
      case False
      with that show ?thesis by (auto simp: decideGate_def Let_def)
    qed
    show ?thesis
    proof (cases ?d)
      case (Inr d)
      have rest: "onlyAsks ?P (bindE (bridgeSecrets E tenant inst False) (\<lambda>_. convergeInstance E tenant inst tmpl oidc))" for oidc
        by (auto intro!: onlyAsks_rules b c)
      have assoc: "bindE (bindE p g) k = bindE p (\<lambda>x. bindE (g x) k)"
        for p :: "(cerr + bool) act" and g :: "bool \<Rightarrow> (cerr + conditionSpec option \<times> exposureOutcome) act" and k :: "_ \<Rightarrow> (cerr + int) act"
        unfolding bindE_def bind_assoc by (rule arg_cong [where f = "bind p"], rule ext) (auto split: sum.split)
      show ?thesis unfolding applyExposure_def Let_def Inr using nb [OF Inr]
        by (cases "gd_stamp d") (auto simp: assoc intro!: onlyAsks_bindE [OF noCredentials(7)] rest)
    qed (simp add: applyExposure_def Let_def)
  qed
  have s: "onlyAsks ?P (serveInstance E tenant inst tmpl ct)" for tmpl ct
    unfolding serveInstance_def Let_def
    by (auto intro!: onlyAsks_bind footprint f a split: sum.split)
  have "onlyAsks ?P (reconcileInstance E tenant inst)" unfolding reconcileInstance_def Let_def
    by (auto intro!: onlyAsks_rules footprint f s split: sum.split option.split)
  from onlyAsks_trace [OF this assms(1,2)] assms(3) show False by simp
qed

text \<open>A run that reads the credentials: a template with an \<^verbatim>\<open>oidc\<close> block and an instance in mode
  \<^verbatim>\<open>byo\<close> whose hostname is already stamped.\<close>

definition byoLib :: schemaLib where
  "byoLib = demoLib\<lparr>sl_decode := (\<lambda>j. Inr (SchemaProps ''object'' [] [] None [(''oidc'', SchemaProps ''object'' [] [] None [])]))\<rparr>"

definition byoEnv :: ctrlEnv where "byoEnv = demoEnv\<lparr>ce_lib := byoLib\<rparr>"

definition byoInstance :: json where
  "byoInstance = JObj [(''metadata'', JObj [(''name'', JStr ''box''), (''namespace'', JStr ''team''),
       (''finalizers'', JArr [JStr finalizer])]),
     (''spec'', JObj [(''template'', JStr ''sandbox''), (''values'', JObj [(''oidc'', JObj [(''mode'', JStr ''byo'')]),
        (''expose'', JObj [(''fqdn'', JStr (''box'' @ ''-'' @ LabelTenantValue ''c1'' @ ''.'' @ ''apps.example.com''))])])])]"

lemma byo_traits: "traitsFor byoLib demoTemplate =
    Inr \<lparr>tt_publishable = False, tt_optionalExposure = False, tt_hasFQDN = False, tt_hasOIDC = True,
      tt_gateRequired = False, tt_hasCredentials = False, tt_hasRailgridCluster = False\<rparr>"
  by code_simp

lemma byo_instance:
  "getName reference_unstr byoInstance = ''box''" "getNamespace reference_unstr byoInstance = ''team''"
  "getCreation reference_unstr byoInstance = None"
  "nestedStr reference_unstr byoInstance [''spec'', ''template''] = Inr (Some ''sandbox'')"
  "nestedStr reference_unstr byoInstance [''spec'', ''values'', ''oidc'', ''mode''] = Inr (Some ''byo'')"
  "nestedStr reference_unstr byoInstance [''spec'', ''values'', ''expose'', ''hostnamePrefix''] = Inr None"
  "nestedStr reference_unstr byoInstance [''spec'', ''values'', ''expose'', ''fqdn'']
     = Inr (Some (''box'' @ ''-'' @ LabelTenantValue ''c1'' @ ''.'' @ ''apps.example.com''))"
  by (simp_all add: byoInstance_def reference_unstr_def refTyped_def refMetaStr_def refMetaInt_def isStr_def)

lemma byo_env:
  "ce_U byoEnv = reference_unstr" "ce_lib byoEnv = byoLib" "ce_decodeTemplate byoEnv j = Inr demoTemplate"
  "cf_BaseDomain (ce_cfg byoEnv) = ''apps.example.com''"
  by (simp_all add: byoEnv_def demoEnv_def)

lemma byo_host:
  "host [] ''box'' ''c1'' ''apps.example.com'' = Inr (''box'' @ ''-'' @ LabelTenantValue ''c1'' @ ''.'' @ ''apps.example.com'')"
proof -
  have "dnsLabel ''box''" by (simp add: dnsLabel_def dnsAlnum_def)
  then show ?thesis unfolding host_def by (simp add: Let_def maxPrefixLen_def tenantHashLen_def)
qed

lemma byo_gate:
  assumes "tt_hasOIDC t" and "\<not> tt_optionalExposure t" and "\<not> tt_hasCredentials t"
  shows "decideGate t e ''byo'' = Inr \<lparr>gd_cond = Some gateConfigured, gd_stamp = True, gd_withCredentials = False, gd_bridgeOIDC = True\<rparr>"
  using assms unfolding decideGate_def Let_def by (simp add: gate_modes)

lemma byo_run:
  "\<exists>tr res. run demoWorld (reconcileInstance byoEnv ''c1'' byoInstance) [] = (tr, res) \<and> (\<exists>e \<in> set tr. readsCredentials (fst e))"
proof -
  have "isOk (effectiveSchema byoLib demoTemplate)" by code_simp
  then obtain c where c: "newContract byoLib demoTemplate = Inr c" "\<And>v. snd (validateAndDefault c v) = []"
    by (auto simp: isOk_iff newContract_def byoLib_def demoLib_def validateAndDefault_def Let_def)
  have st: "stampedInstance byoEnv ''c1'' byoInstance False False = Inr None"
    unfolding stampedInstance_def Let_def byo_env byo_instance foundOr_simps byo_host by simp
  show ?thesis
    unfolding reconcileInstance_def resolveTemplate_def serveInstance_def applyExposure_def stampValues_def
      bridgeSecrets_def tenantHasPullSecret_def bridgeBYOSecret_def bindE_def wrapE_def api_def clock_def Let_def
    by (simp add: byo_env byo_instance byo_traits c st demo_not_universal demoWorld_def byo_gate lifecycleDue_uncreated)
qed

theorem credentials_only_for_byo_witness:
  "\<exists>tr res e. run demoWorld (reconcileInstance byoEnv ''c1'' byoInstance) [] = (tr, res) \<and> e \<in> set tr \<and> readsCredentials (fst e)
     \<and> foundOr [] (nestedStr (ce_U byoEnv) byoInstance [''spec'', ''values'', ''oidc'', ''mode'']) = modeBYO"
proof -
  obtain tr res e where r: "run demoWorld (reconcileInstance byoEnv ''c1'' byoInstance) [] = (tr, res)"
    and e: "e \<in> set tr" "readsCredentials (fst e)" using byo_run by blast
  from credentials_only_for_byo [OF r e] r e show ?thesis by blast
qed

end
