(* ===== verification/Convergence_Contract.thy ===== *)
theory Convergence_Contract
  imports Release_Contract
begin

text \<open>
  Convergence of the Instance controller: a runtime object that was written is left alone by the
  next pass, the cache of compiled contracts is transparent, and two behaviours of the reconcile
  loop that the comments of the code do not describe.
\<close>

section \<open>A converged runtime object is left alone\<close>

text \<open>What the metadata setters of apimachinery promise on an object that has metadata.\<close>

definition metadata_laws :: "unstr \<Rightarrow> bool" where
  "metadata_laws U \<longleftrightarrow>
     (\<forall>v m l. nestedField U v [''metadata''] = Inr (Some (JObj m)) \<longrightarrow>
        getLabels U (setLabels U v l) = l \<and> nestedField U (setLabels U v l) [''spec''] = nestedField U v [''spec''])
   \<and> (\<forall>v fs m. nestedField U v fs = Inr (Some (JObj m)) \<longrightarrow> nestedMap U v fs = Inr (Some m))"

lemma reference_metadata_laws: "metadata_laws reference_unstr"
proof -
  have strmap: "isStrMap (JObj (map (\<lambda>(k, s). (k, JStr s)) l)) = Some l" for l
    by (induction l) (auto simp: isStrMap_def isStr_def split: if_splits)
  have "getLabels reference_unstr (setLabels reference_unstr v l) = l
      \<and> nestedField reference_unstr (setLabels reference_unstr v l) [''spec''] = nestedField reference_unstr v [''spec'']"
    if "nestedField reference_unstr v [''metadata''] = Inr (Some (JObj m))" for v m l
  proof -
    have f: "refField v [''metadata''] = Inr (Some (JObj m))" using that by (simp add: reference_unstr_def)
    then obtain vm where v: "v = JObj vm" and vm: "map_of vm ''metadata'' = Some (JObj m)"
      by (cases v) (auto split: option.splits)
    let ?lj = "JObj (map (\<lambda>(k, s). (k, JStr s)) l)"
    have set: "refSet v ?lj [''metadata'', ''labels''] = Inr (JObj (mput ''metadata'' (JObj (mput ''labels'' ?lj m)) vm))"
      using v vm by simp
    then show ?thesis using strmap [of l] v
      by (simp add: reference_unstr_def refSetMeta_def refTyped_def)
  qed
  then show ?thesis unfolding metadata_laws_def by (auto simp: reference_unstr_def refTyped_def isObj_def)
qed

lemma fold_mput_lookup:
  "distinct (map fst ls) \<Longrightarrow> map_of (fold (\<lambda>(k, v) m. mput k v m) ls m) k
     = (case map_of ls k of None \<Rightarrow> map_of m k | Some v \<Rightarrow> Some v)"
proof (induction ls arbitrary: m)
  case (Cons p ls)
  obtain a b where p: "p = (a, b)" by (cases p)
  have "map_of ls a = None" using Cons.prems p by (simp add: map_of_eq_None_iff)
  with Cons p show ?case by (cases "map_of ls k") auto
qed simp

lemma fold_mput_lget:
  "distinct (map fst ls) \<Longrightarrow> (k, v) \<in> set ls \<Longrightarrow> lget (fold (\<lambda>(k, v) m. mput k v m) ls m) k = v"
  by (simp add: lget_def fold_mput_lookup)

lemma runtimeLabels_distinct: "distinct (map fst (runtimeLabels tmpl tenant))"
  by (simp add: runtimeLabels_def)

text \<open>C16: Synchronisation is quiescent. When a pass decides to write a runtime object, the written object
  (if the server stores it as written) is current for the same values: the next pass writes nothing.\<close>

theorem sync_quiescent:
  assumes "unstructured_laws (ce_U E)" and "metadata_laws (ce_U E)" and "jwf (JObj values)"
    and "nestedField (ce_U E) existing [''metadata''] = Inr (Some (JObj m))"
    and "convergedRuntime E tenant tmpl values existing = Inr (Some obj)"
  shows "convergedRuntime E tenant tmpl values obj = Inr None"
proof -
  let ?U = "ce_U E" and ?ls = "runtimeLabels tmpl tenant"
  let ?spec = "overlayValues (foundOr [] (nestedMap ?U existing [''spec''])) values"
  let ?labels = "fold (\<lambda>(k, v) m. mput k v m) ?ls (getLabels ?U existing)"
  obtain o1 where o1: "setNested ?U existing (JObj ?spec) [''spec''] = Inr o1" and obj: "obj = setLabels ?U o1 ?labels"
    using assms(5) unfolding convergedRuntime_def Let_def by (auto split: sum.splits if_splits)
  have keep: "\<forall>v w fs v' p a b r. setNested ?U v w (p @ a # fs) = Inr v' \<longrightarrow> a \<noteq> b \<longrightarrow>
        nestedField ?U v' (p @ b # r) = nestedField ?U v (p @ b # r)"
    and rd: "\<forall>v w fs v'. setNested ?U v w fs = Inr v' \<longrightarrow> nestedField ?U v' fs = Inr (Some w)"
    using assms(1) unfolding unstructured_laws_def by blast+
  have "nestedField ?U o1 ([] @ ''metadata'' # []) = nestedField ?U existing ([] @ ''metadata'' # [])"
    by (rule keep [rule_format, of existing "JObj ?spec" "[]" "''spec''" "[]"]) (use o1 in simp_all)
  then have md: "nestedField ?U o1 [''metadata''] = Inr (Some (JObj m))" using assms(4) by simp
  have sp: "nestedField ?U o1 [''spec''] = Inr (Some (JObj ?spec))" using rd o1 by blast
  have lb: "getLabels ?U obj = ?labels" "nestedField ?U obj [''spec''] = Inr (Some (JObj ?spec))"
    using assms(2) md sp unfolding metadata_laws_def obj by auto
  then have ms: "nestedMap ?U obj [''spec''] = Inr (Some ?spec)" using assms(2) unfolding metadata_laws_def by blast
  have "specSubset ?U values ?spec"
    by (rule overlay_subset) (use assms(1,3) in \<open>auto simp: unstructured_laws_def\<close>)
  moreover have "list_all (\<lambda>(k, v). lget ?labels k = v) ?ls"
    unfolding list_all_iff using runtimeLabels_distinct fold_mput_lget [where ls = ?ls] by fastforce
  ultimately show ?thesis unfolding convergedRuntime_def Let_def lb(1) ms by simp
qed

theorem sync_quiescent_witness:
  "\<exists>obj. convergedRuntime demoEnv ''c1'' demoTemplate [(''size'', JStr ''l'')]
        (JObj [(''metadata'', JObj []), (''spec'', JObj [])]) = Inr (Some obj)
     \<and> convergedRuntime demoEnv ''c1'' demoTemplate [(''size'', JStr ''l'')] obj = Inr None"
proof -
  let ?v = "[(''size'', JStr ''l'')]" and ?o = "JObj [(''metadata'', JObj []), (''spec'', JObj [])]"
  have "\<not> specSubset reference_unstr ?v []" by (simp add: specSubset_Cons)
  then obtain obj where o: "convergedRuntime demoEnv ''c1'' demoTemplate ?v ?o = Inr (Some obj)"
    unfolding convergedRuntime_def Let_def demo_env by (simp add: reference_unstr_def refTyped_def isObj_def)
  have "nestedField (ce_U demoEnv) ?o [''metadata''] = Inr (Some (JObj []))" by (simp add: demo_env reference_unstr_def)
  from sync_quiescent [OF _ _ _ this o] o show ?thesis
    by (auto simp: demo_env reference_unstr_laws reference_metadata_laws)
qed

section \<open>The contract cache is transparent\<close>

text \<open>What resolving a template means without the cache.\<close>

definition resolvedValue :: "ctrlEnv \<Rightarrow> json \<Rightarrow> cerr + template \<times> contract option" where
  "resolvedValue E obj =
     (case ce_decodeTemplate E obj of
        Inl e \<Rightarrow> Inl (CErr (Wrapf ''decode template: %w'' [] e))
      | Inr tmpl \<Rightarrow> Inr (tmpl, case newContract (ce_lib E) tmpl of Inl _ \<Rightarrow> None | Inr k \<Rightarrow> Some k))"

type_synonym contractCache = "string \<Rightarrow> cachedContract option"

text \<open>The cache after the stores of a run, and the world that answers loads from a cache.\<close>

fun applyStore :: "contractCache \<Rightarrow> request \<times> answer \<Rightarrow> contractCache" where
  "applyStore s (ContractStore name c, r) = s(name := Some c)"
| "applyStore s e = s"

definition cacheWorld :: "contractCache \<Rightarrow> json \<Rightarrow> (request, answer) world" where
  "cacheWorld s obj h q =
     \<lparr> an_obj = Inr obj, an_list = Inr [], an_time = 0, an_sync = None,
       an_contract = (case q of ContractLoad n \<Rightarrow> s n | _ \<Rightarrow> None) \<rparr>"

text \<open>The caches the controller can reach: it starts empty, and any number of templates, at any resource
  version, are resolved in any order. \<open>content\<close> gives the object that a name has at a resource version.\<close>

inductive cacheReach :: "ctrlEnv \<Rightarrow> (string \<Rightarrow> string \<Rightarrow> json) \<Rightarrow> contractCache \<Rightarrow> bool"
  for E content where
  start: "cacheReach E content (\<lambda>_. None)"
| resolve: "cacheReach E content s \<Longrightarrow> getResourceVersion (ce_U E) (content name rv) = rv \<Longrightarrow>
    run (cacheWorld s (content name rv)) (resolveTemplate E name) [] = (h, x) \<Longrightarrow>
    cacheReach E content (foldl applyStore s h)"

inductive_cases cacheReach_resolve: "cacheReach E content s"

definition cacheCoherent :: "ctrlEnv \<Rightarrow> (string \<Rightarrow> string \<Rightarrow> json) \<Rightarrow> contractCache \<Rightarrow> bool" where
  "cacheCoherent E content s \<longleftrightarrow>
     (\<forall>name c. s name = Some c \<longrightarrow>
        ce_decodeTemplate E (content name (cc_resourceVersion c)) = Inr (cc_template c)
        \<and> cc_contract c = newContract (ce_lib E) (cc_template c))"

lemma run_resolveTemplate:
  assumes "getResourceVersion (ce_U E) obj = rv" and "name \<noteq> []"
    and "run (cacheWorld s obj) (resolveTemplate E name) [] = (h, x)"
  shows "(\<exists>c. s name = Some c \<and> cc_resourceVersion c = rv \<and> foldl applyStore s h = s
          \<and> x = Inr (cc_template c, case cc_contract c of Inl _ \<Rightarrow> None | Inr k \<Rightarrow> Some k))
    \<or> (\<exists>e. ce_decodeTemplate E obj = Inl e \<and> foldl applyStore s h = s \<and> x = resolvedValue E obj)
    \<or> (\<exists>t. ce_decodeTemplate E obj = Inr t \<and> x = resolvedValue E obj
          \<and> foldl applyStore s h = s(name := Some \<lparr>cc_resourceVersion = rv, cc_template = t, cc_contract = newContract (ce_lib E) t\<rparr>))"
  using assms unfolding resolveTemplate_def api_def Let_def resolvedValue_def
  by (cases "ce_decodeTemplate E obj"; cases "s name") (auto simp: cacheWorld_def split: if_splits)

lemma run_resolve_empty: "run w (resolveTemplate E []) [] = (h, x) \<Longrightarrow> h = []"
  by (simp add: resolveTemplate_def)

lemma cacheReach_coherent: "cacheReach E content s \<Longrightarrow> cacheCoherent E content s"
proof (induction rule: cacheReach.induct)
  case start
  then show ?case by (simp add: cacheCoherent_def)
next
  case (resolve s name rv h x)
  show ?case
  proof (cases "name = []")
    case True
    with resolve.hyps(3) resolve.IH show ?thesis by (auto dest: run_resolve_empty)
  next
    case False
    from run_resolveTemplate [OF resolve.hyps(2) False resolve.hyps(3)] resolve.IH
    show ?thesis unfolding cacheCoherent_def by (auto split: if_splits)
  qed
qed

text \<open>C17: The cache of compiled contracts is transparent: in every cache the controller can reach, resolving a
  template of the catalog returns exactly what decoding and compiling it afresh would, errors included.\<close>

theorem contract_cache_transparent:
  assumes "cacheReach E content s" and "getResourceVersion (ce_U E) (content name rv) = rv" and "name \<noteq> []"
  shows "snd (run (cacheWorld s (content name rv)) (resolveTemplate E name) []) = resolvedValue E (content name rv)"
proof -
  obtain h x where r: "run (cacheWorld s (content name rv)) (resolveTemplate E name) [] = (h, x)" by (cases "run (cacheWorld s (content name rv)) (resolveTemplate E name) []")
  from run_resolveTemplate [OF assms(2,3) r] cacheReach_coherent [OF assms(1)]
  have "x = resolvedValue E (content name rv)"
    unfolding cacheCoherent_def by (auto simp: resolvedValue_def)
  with r show ?thesis by simp
qed

theorem contract_cache_transparent_witness:
  "snd (run (cacheWorld (\<lambda>_. None) (JObj [])) (resolveTemplate demoEnv ''sandbox'') []) = resolvedValue demoEnv (JObj [])"
proof -
  have "getResourceVersion (ce_U demoEnv) (JObj []) = []" by (simp add: demo_env reference_unstr_def refMetaStr_def refTyped_def)
  with contract_cache_transparent [OF cacheReach.start [of demoEnv "\<lambda>n rv. JObj []"], where name = "''sandbox''" and rv = "[]"]
  show ?thesis by simp
qed

section \<open>Two gaps\<close>

text \<open>The lifetime check before the synchronisation passes no runtime object, so its idle limit counts from the
  creation: an instance older than the idle timeout is deleted at once, whatever activity its
  runtime object records (which this run does not even read).\<close>

theorem idle_check_ignores_activity:
  assumes "validLimits d" and "ts_Development (tm_Spec tmpl) = Some d" and "0 < dv_IdleTimeoutSeconds d"
    and "getCreation (ce_U E) inst = Some c" and "c + dv_IdleTimeoutSeconds d * second \<le> an_time (w [] ReadClock)"
  shows "map fst (fst (run w (serveInstance E tenant inst tmpl ct) [])) = [ReadClock, TnDelete inst]"
proof -
  have "lifecycleDue (ce_U E) (an_time (w [] ReadClock)) (Some c) (Some d) None \<noteq> None"
    using assms(1,3,5) unfolding lifecycleDue_None validLimits_def
    by (simp add: lastActivity_def durSeconds_exact)
  then show ?thesis using assms(2,4) unfolding serveInstance_def deleteDue_def clock_def api_def Let_def by simp
qed

text \<open>An error of the read that decides the network phase is ignored and taken for "no runtime object": the phase
  written next is setup, also over an object that already is in the runtime phase.\<close>

theorem swallowed_read_reverts_phase:
  assumes "ce_U E = reference_unstr" and "ts_Development (tm_Spec tmpl) \<noteq> None"
    and "mwf (foundOr [] (nestedMap (ce_U E) inst [''spec'', ''values'']))"
    and "existing = JObj m" and "map_of m ''spec'' = Some (JObj sp)" and "map_of sp NetworkPhaseField = Some (JStr NetworkPhaseRuntime)"
    and "map_of m ''metadata'' = Some (JObj md)"
  shows "\<exists>obj. convergedRuntime E tenant tmpl (runtimeValues (ce_U E) tmpl inst (Inl err)) existing = Inr (Some obj)
     \<and> specPhase (ce_U E) existing = RuntimePhase \<and> specPhase (ce_U E) obj = SetupPhase"
proof -
  let ?st = "foundOr [] (nestedMap (ce_U E) inst [''spec'', ''values''])"
  let ?vals = "mput NetworkPhaseField (JStr NetworkPhaseSetup) ?st"
  have vals: "runtimeValues (ce_U E) tmpl inst (Inl err) = ?vals"
    using assms(2) by (simp add: runtimeValues_def Let_def desiredNetworkPhase_def)
  have wf: "mwf ?vals" using assms(3) by simp
  have kv: "map_of ?vals NetworkPhaseField = Some (JStr NetworkPhaseSetup)" by simp
  have n: "\<not> specSubset reference_unstr ?vals sp"
  proof
    assume "specSubset reference_unstr ?vals sp"
    with map_of_SomeD [OF kv] have "fieldSubset reference_unstr (JStr NetworkPhaseSetup) (JStr NetworkPhaseRuntime)"
      unfolding specSubset_all using assms(6) by fastforce
    then show False using phase_consts by (simp add: fieldSubset_def reference_unstr_def)
  qed
  let ?o = "setLabels reference_unstr (JObj (mput ''spec'' (JObj (overlayValues sp ?vals)) m))
      (fold (\<lambda>(k, v) m. mput k v m) (runtimeLabels tmpl tenant) (getLabels reference_unstr existing))"
  have c: "convergedRuntime E tenant tmpl ?vals existing = Inr (Some ?o)"
    using assms(1,4,5) n unfolding convergedRuntime_def Let_def by (simp add: reference_unstr_def refTyped_def isObj_def)
  have ov: "map_of (overlayValues sp ?vals) NetworkPhaseField = Some (JStr NetworkPhaseSetup)"
    using overlayValues_lookup [OF wf, of sp NetworkPhaseField] by (simp add: overlayOne_def)
  have s: "nestedStr reference_unstr ?o [''spec'', NetworkPhaseField] = Inr (Some NetworkPhaseSetup)"
    using ov assms(7) by (simp add: reference_unstr_def refSetMeta_def refTyped_def isStr_def)
  have "specPhase reference_unstr ?o = SetupPhase" unfolding specPhase_setup s using phase_consts by simp
  moreover have "specPhase reference_unstr existing = RuntimePhase"
    unfolding specPhase_runtime using assms(4-6) by (simp add: reference_unstr_def refTyped_def isStr_def)
  ultimately show ?thesis using c vals unfolding assms(1) by auto
qed

end
