(* ===== verification/Net_Url.thy ===== *)
theory Net_Url
  imports Go_Prelude
begin

text \<open>
  The parts of Go's \<^verbatim>\<open>net/url\<close> and \<^verbatim>\<open>encoding/base64\<close> the access proxy uses: percent encoding, parsing
  and printing of URLs, and unpadded URL-safe base64. A parse error is \<^term>\<open>None\<close> (the callers put
  their own message in its place). Of the user information of an authority only its presence
  is kept. An IP literal in square brackets is read by the argument \<open>lit\<close>, whose answer is the decoded host.
\<close>

section \<open>Percent encoding\<close>

datatype encMode = EncPath | EncHost | EncUser | EncQuery | EncFragment

definition alnum :: "char \<Rightarrow> bool" where
  "alnum c \<longleftrightarrow> (let n = (of_char c :: nat) in 97 \<le> n \<and> n \<le> 122 \<or> 65 \<le> n \<and> n \<le> 90 \<or> 48 \<le> n \<and> n \<le> 57)"

definition shouldEscape :: "char \<Rightarrow> encMode \<Rightarrow> bool" where
  "shouldEscape c m =
     (if alnum c then False
      else if m = EncHost \<and> c \<in> set (''!$&()*+,;=:[]<>'' @ [CHR 0x22, CHR 0x27]) then False
      else if c \<in> set ''-_.~'' then False
      else if c \<in> set ''$&+,/:;=?@''
      then (case m of
              EncPath \<Rightarrow> c = CHR ''?''
            | EncUser \<Rightarrow> c \<in> set ''@/?:''
            | EncQuery \<Rightarrow> True
            | EncFragment \<Rightarrow> False
            | EncHost \<Rightarrow> True)
      else \<not> (m = EncFragment \<and> c \<in> set ''!()*''))"

definition hexVal :: "char \<Rightarrow> nat option" where
  "hexVal c =
     (let n = (of_char c :: nat) in
      if 48 \<le> n \<and> n \<le> 57 then Some (n - 48)
      else if 97 \<le> n \<and> n \<le> 102 then Some (n - 87)
      else if 65 \<le> n \<and> n \<le> 70 then Some (n - 55)
      else None)"

definition hexUpper :: "nat \<Rightarrow> char" where
  "hexUpper n = ''0123456789ABCDEF'' ! (n mod 16)"

definition escapeByte :: "encMode \<Rightarrow> char \<Rightarrow> string" where
  "escapeByte m c =
     (if c = CHR '' '' \<and> m = EncQuery then ''+''
      else if shouldEscape c m
      then [CHR ''%'', hexUpper ((of_char c :: nat) div 16), hexUpper ((of_char c :: nat) mod 16)]
      else [c])"

definition escape :: "encMode \<Rightarrow> string \<Rightarrow> string" where
  "escape m s = concat (map (escapeByte m) s)"

fun unescape :: "encMode \<Rightarrow> string \<Rightarrow> string option" where
  "unescape m [] = Some []"
| "unescape m (c # s) =
     (if c = CHR ''%''
      then (case s of
              a # b # t \<Rightarrow>
                (case (hexVal a, hexVal b) of
                   (Some x, Some y) \<Rightarrow>
                     if m = EncHost \<and> x < 8 \<and> \<not> (a = CHR ''2'' \<and> b = CHR ''5'') then None
                     else map_option (\<lambda>r. char_of (16 * x + y) # r) (unescape m t)
                 | _ \<Rightarrow> None)
            | _ \<Rightarrow> None)
      else if c = CHR ''+'' \<and> m = EncQuery then map_option ((#) (CHR '' '')) (unescape m s)
      else if m = EncHost \<and> (of_char c :: nat) < 128 \<and> shouldEscape c m then None
      else map_option ((#) c) (unescape m s))"

definition validEncoded :: "encMode \<Rightarrow> string \<Rightarrow> bool" where
  "validEncoded m s \<longleftrightarrow> list_all (\<lambda>c. c \<in> set (''!$&()*+,;=:@[]%'' @ [CHR 0x27]) \<or> \<not> shouldEscape c m) s"

text \<open>\<^verbatim>\<open>EscapedPath\<close> and \<^verbatim>\<open>EscapedFragment\<close>: the raw form when it is a valid encoding of the decoded one.\<close>

definition escapedForm :: "encMode \<Rightarrow> string \<Rightarrow> string \<Rightarrow> string" where
  "escapedForm m raw decoded =
     (if raw \<noteq> [] \<and> validEncoded m raw \<and> unescape m raw = Some decoded then raw
      else if m = EncPath \<and> decoded = ''*'' then ''*''
      else escape m decoded)"

section \<open>Parsing\<close>

record url =
  ur_Scheme :: string
  ur_Opaque :: string
  ur_User :: bool
  ur_Host :: string
  ur_Path :: string
  ur_RawPath :: string
  ur_OmitHost :: bool
  ur_ForceQuery :: bool
  ur_RawQuery :: string
  ur_Fragment :: string
  ur_RawFragment :: string

definition emptyURL :: url where
  "emptyURL = \<lparr> ur_Scheme = [], ur_Opaque = [], ur_User = False, ur_Host = [], ur_Path = [], ur_RawPath = [],
     ur_OmitHost = False, ur_ForceQuery = False, ur_RawQuery = [], ur_Fragment = [], ur_RawFragment = [] \<rparr>"

text \<open>\<^verbatim>\<open>getScheme\<close>; the first argument is what was read so far.\<close>

fun getScheme :: "string \<Rightarrow> string \<Rightarrow> (string \<times> string) option" where
  "getScheme acc [] = Some ([], acc)"
| "getScheme acc (c # s) =
     (let n = (of_char c :: nat) in
      if 97 \<le> n \<and> n \<le> 122 \<or> 65 \<le> n \<and> n \<le> 90 then getScheme (acc @ [c]) s
      else if 48 \<le> n \<and> n \<le> 57 \<or> c \<in> set ''+-.''
      then (if acc = [] then Some ([], c # s) else getScheme (acc @ [c]) s)
      else if c = CHR '':'' then (if acc = [] then None else Some (acc, s))
      else Some ([], acc @ c # s))"

definition validOptionalPort :: "string \<Rightarrow> bool" where
  "validOptionalPort port \<longleftrightarrow>
     port = [] \<or> hd port = CHR '':'' \<and> list_all (\<lambda>c. 48 \<le> (of_char c :: nat) \<and> (of_char c :: nat) \<le> 57) (tl port)"

definition parseHost :: "(string \<Rightarrow> string option) \<Rightarrow> string \<Rightarrow> string option" where
  "parseHost lit host =
     (if CHR ''['' \<in> set host
      then (if hd host = CHR ''['' then lit host else None)
      else if \<not> validOptionalPort (dropWhile (\<lambda>c. c \<noteq> CHR '':'') host) then None
      else unescape EncHost host)"

definition validUserinfo :: "string \<Rightarrow> bool" where
  "validUserinfo s \<longleftrightarrow> list_all (\<lambda>c. alnum c \<or> c \<in> set (''-._:~!$&()*+,;=%@'' @ [CHR 0x27])) s"

text \<open>The split at the last occurrence of a byte.\<close>

definition cutLast :: "char \<Rightarrow> string \<Rightarrow> (string \<times> string) option" where
  "cutLast d s =
     (if d \<in> set s
      then Some (rev (tl (dropWhile (\<lambda>c. c \<noteq> d) (rev s))), rev (takeWhile (\<lambda>c. c \<noteq> d) (rev s)))
      else None)"

definition parseAuthority :: "(string \<Rightarrow> string option) \<Rightarrow> string \<Rightarrow> (bool \<times> string) option" where
  "parseAuthority lit authority =
     (case cutLast (CHR ''@'') authority of
        None \<Rightarrow> map_option (Pair False) (parseHost lit authority)
      | Some (userinfo, hostpart) \<Rightarrow>
          (case parseHost lit hostpart of
             None \<Rightarrow> None
           | Some host \<Rightarrow>
               if \<not> validUserinfo userinfo then None
               else (case cutAt (CHR '':'') userinfo of (name, password, found) \<Rightarrow>
                 if unescape EncUser name = None \<or> unescape EncUser password = None then None
                 else Some (True, host))))"

text \<open>\<^verbatim>\<open>setPath\<close> and \<^verbatim>\<open>setFragment\<close>.\<close>

definition setPath :: "string \<Rightarrow> url \<Rightarrow> url option" where
  "setPath p u =
     (case unescape EncPath p of
        None \<Rightarrow> None
      | Some path \<Rightarrow> Some (u\<lparr>ur_Path := path, ur_RawPath := (if p = escape EncPath path then [] else p)\<rparr>))"

definition setFragment :: "string \<Rightarrow> url \<Rightarrow> url option" where
  "setFragment f u =
     (case unescape EncFragment f of
        None \<Rightarrow> None
      | Some frag \<Rightarrow> Some (u\<lparr>ur_Fragment := frag, ur_RawFragment := (if f = escape EncFragment frag then [] else f)\<rparr>))"

definition controlByte :: "char \<Rightarrow> bool" where
  "controlByte c \<longleftrightarrow> (of_char c :: nat) < 32 \<or> (of_char c :: nat) = 127"

text \<open>The query: a single question mark at the very end only forces one.\<close>

definition splitQuery :: "string \<Rightarrow> string \<times> bool \<times> string" where
  "splitQuery rest =
     (case cutAt (CHR ''?'') rest of (before, after, found) \<Rightarrow>
      if found \<and> after = [] then (before, True, []) else (before, False, after))"

text \<open>From the path on: the authority, when there is one, and the path.\<close>

definition parseHier :: "(string \<Rightarrow> string option) \<Rightarrow> url \<Rightarrow> string \<Rightarrow> url option" where
  "parseHier lit u rest =
     (if (ur_Scheme u \<noteq> [] \<or> \<not> hasPrefix rest ''///'') \<and> hasPrefix rest ''//''
      then let authority = takeWhile (\<lambda>c. c \<noteq> CHR ''/'') (drop 2 rest);
               path = dropWhile (\<lambda>c. c \<noteq> CHR ''/'') (drop 2 rest)
           in (case parseAuthority lit authority of
                 None \<Rightarrow> None
               | Some (user, host) \<Rightarrow> setPath path (u\<lparr>ur_User := user, ur_Host := host\<rparr>))
      else setPath rest (u\<lparr>ur_OmitHost := (ur_Scheme u \<noteq> [] \<and> hasPrefix rest ''/'')\<rparr>))"

definition parseRaw :: "(string \<Rightarrow> string option) \<Rightarrow> string \<Rightarrow> url option" where
  "parseRaw lit raw =
     (if list_ex controlByte raw then None
      else if raw = ''*'' then Some (emptyURL\<lparr>ur_Path := ''*''\<rparr>)
      else (case getScheme [] raw of
          None \<Rightarrow> None
        | Some (scheme, rest0) \<Rightarrow>
            (case splitQuery rest0 of (rest, force, query) \<Rightarrow>
             let u = emptyURL\<lparr>ur_Scheme := toLower scheme, ur_ForceQuery := force, ur_RawQuery := query\<rparr> in
             if hasPrefix rest ''/'' then parseHier lit u rest
             else if scheme \<noteq> [] then Some (u\<lparr>ur_Opaque := rest\<rparr>)
             else if CHR '':'' \<in> set (fst (cutAt (CHR ''/'') rest)) then None
             else parseHier lit u rest)))"

definition urlParse :: "(string \<Rightarrow> string option) \<Rightarrow> string \<Rightarrow> url option" where
  "urlParse lit raw =
     (case cutAt (CHR ''#'') raw of (u, frag, found) \<Rightarrow>
      (case parseRaw lit u of
         None \<Rightarrow> None
       | Some v \<Rightarrow> if frag = [] then Some v else setFragment frag v))"

section \<open>Reading and printing\<close>

definition escapedPath :: "url \<Rightarrow> string" where
  "escapedPath u = escapedForm EncPath (ur_RawPath u) (ur_Path u)"

definition isAbs :: "url \<Rightarrow> bool" where
  "isAbs u \<longleftrightarrow> ur_Scheme u \<noteq> []"

definition withQuery :: "url \<Rightarrow> string \<Rightarrow> string" where
  "withQuery u s = (if ur_ForceQuery u \<or> ur_RawQuery u \<noteq> [] then s @ ''?'' @ ur_RawQuery u else s)"

definition requestURI :: "url \<Rightarrow> string" where
  "requestURI u =
     withQuery u
       (if ur_Opaque u = [] then (if escapedPath u = [] then ''/'' else escapedPath u)
        else if hasPrefix (ur_Opaque u) ''//'' then ur_Scheme u @ '':'' @ ur_Opaque u
        else ur_Opaque u)"

definition hostname :: "url \<Rightarrow> string" where
  "hostname u =
     (let h = ur_Host u;
          host = (case cutLast (CHR '':'') h of
                    Some (a, b) \<Rightarrow> if validOptionalPort (CHR '':'' # b) then a else h
                  | None \<Rightarrow> h)
      in if hasPrefix host ''['' \<and> hasSuffix host '']'' then butlast (tl host) else host)"

text \<open>\<^verbatim>\<open>URL.String\<close> of a URL without user information.\<close>

definition urlString :: "url \<Rightarrow> string" where
  "urlString u =
     (let scheme = (if ur_Scheme u \<noteq> [] then ur_Scheme u @ '':'' else []);
          body =
            (if ur_Opaque u \<noteq> [] then ur_Opaque u
             else let slashes = (if (ur_Scheme u \<noteq> [] \<or> ur_Host u \<noteq> []) \<and> \<not> (ur_OmitHost u \<and> ur_Host u = [])
                                    \<and> (ur_Host u \<noteq> [] \<or> ur_Path u \<noteq> [])
                                 then ''//'' else []);
                      authority = slashes @ escape EncHost (ur_Host u);
                      path = escapedPath u;
                      sep = (if path \<noteq> [] \<and> hd path \<noteq> CHR ''/'' \<and> ur_Host u \<noteq> [] then ''/'' else []);
                      dot = (if scheme @ authority @ sep = [] \<and> CHR '':'' \<in> set (fst (cutAt (CHR ''/'') path)) then ''./'' else [])
                  in authority @ sep @ dot @ path);
          frag = (if ur_Fragment u \<noteq> [] then ''#'' @ escapedForm EncFragment (ur_RawFragment u) (ur_Fragment u) else [])
      in withQuery u (scheme @ body) @ frag)"

section \<open>Percent encoding is a round trip\<close>

lemma hexVal_hexUpper: "n < 16 \<Longrightarrow> hexVal (hexUpper n) = Some n"
proof -
  have "list_all (\<lambda>n. hexVal (hexUpper n) = Some n) [0..<16]" by code_simp
  then show "n < 16 \<Longrightarrow> hexVal (hexUpper n) = Some n" by (simp add: list_all_iff)
qed

lemma hexUpper_plain: "n < 16 \<Longrightarrow> alnum (hexUpper n)"
proof -
  have "list_all (\<lambda>n. alnum (hexUpper n)) [0..<16]" by code_simp
  then show "n < 16 \<Longrightarrow> alnum (hexUpper n)" by (simp add: list_all_iff)
qed

lemma byte_lt: "(of_char c :: nat) < 256"
proof -
  have "(of_char c :: nat) mod 256 = of_char c" by (rule of_char_mod_256)
  then show ?thesis by (metis mod_less_divisor zero_less_numeral)
qed

lemma nibbles: "(of_char c :: nat) div 16 < 16" "(of_char c :: nat) mod 16 < 16"
proof -
  have "(of_char c :: nat) < 16 * 16" using byte_lt [of c] by simp
  then show "(of_char c :: nat) div 16 < 16" by (rule less_mult_imp_div_less)
qed simp

lemma byte_split: "16 * ((of_char c :: nat) div 16) + (of_char c :: nat) mod 16 = of_char c"
  by simp

lemma percent_escaped: "shouldEscape (CHR ''%'') m" "shouldEscape (CHR ''+'') EncQuery" "shouldEscape (CHR '' '') EncPath"
  by (simp_all add: shouldEscape_def alnum_def)

lemma unescape_escapeByte:
  assumes "m \<noteq> EncHost" shows "unescape m (escapeByte m c @ s) = map_option ((#) c) (unescape m s)"
proof -
  have c: "char_of (16 * ((of_char c :: nat) div 16) + (of_char c :: nat) mod 16) = c"
    unfolding byte_split by simp
  show ?thesis
    using assms percent_escaped nibbles [of c] c
    by (auto simp: escapeByte_def hexVal_hexUpper)
qed

lemma unescape_escape: "m \<noteq> EncHost \<Longrightarrow> unescape m (escape m s) = Some s"
  unfolding escape_def by (induction s) (simp_all add: unescape_escapeByte)

lemma escape_valid: "validEncoded m (escape m s)"
proof -
  have "validEncoded m (escapeByte m c)" for c
  proof -
    have "alnum (hexUpper ((of_char c :: nat) div 16))" "alnum (hexUpper ((of_char c :: nat) mod 16))"
      using nibbles [of c] by (auto intro: hexUpper_plain)
    then show ?thesis by (auto simp: escapeByte_def validEncoded_def shouldEscape_def)
  qed
  then show ?thesis unfolding escape_def validEncoded_def by (induction s) auto
qed

end
