(* ===== verification/Base64.thy ===== *)
theory Base64
  imports Net_Url
begin

text \<open>
  \<^verbatim>\<open>encoding/base64\<close>, the unpadded URL-safe encoding (\<^verbatim>\<open>RawURLEncoding\<close>): three bytes as four
  digits, one or two bytes at the end as two or three. The decoder skips line breaks and ignores the
  unused bits of the last digit.
\<close>

definition b64Digit :: "nat \<Rightarrow> char" where
  "b64Digit n =
     (let k = n mod 64 in
      char_of (if k < 26 then k + 65 else if k < 52 then k + 71 else if k < 62 then k - 4 else if k = 62 then 45 else 95))"

definition b64Val :: "char \<Rightarrow> nat option" where
  "b64Val c =
     (let n = (of_char c :: nat) in
      if 65 \<le> n \<and> n \<le> 90 then Some (n - 65)
      else if 97 \<le> n \<and> n \<le> 122 then Some (n - 71)
      else if 48 \<le> n \<and> n \<le> 57 then Some (n + 4)
      else if n = 45 then Some 62
      else if n = 95 then Some 63
      else None)"

fun b64Groups :: "nat list \<Rightarrow> nat list" where
  "b64Groups [] = []"
| "b64Groups [x] = [x div 4, (x mod 4) * 16]"
| "b64Groups [x, y] = [x div 4, (x mod 4) * 16 + y div 16, (y mod 16) * 4]"
| "b64Groups (x # y # z # r) = [x div 4, (x mod 4) * 16 + y div 16, (y mod 16) * 4 + z div 64, z mod 64] @ b64Groups r"

definition encodeToString :: "string \<Rightarrow> string" where
  "encodeToString s = map b64Digit (b64Groups (map of_char s))"

fun b64Bytes :: "nat list \<Rightarrow> nat list option" where
  "b64Bytes [] = Some []"
| "b64Bytes [a] = None"
| "b64Bytes [a, b] = Some [a * 4 + b div 16]"
| "b64Bytes [a, b, c] = Some [a * 4 + b div 16, (b mod 16) * 16 + c div 4]"
| "b64Bytes (a # b # c # d # r) =
     map_option (\<lambda>t. (a * 4 + b div 16) # ((b mod 16) * 16 + c div 4) # ((c mod 4) * 64 + d) # t) (b64Bytes r)"

definition decodeString :: "string \<Rightarrow> string option" where
  "decodeString s =
     (let digits = map b64Val (filter (\<lambda>c. c \<noteq> CHR 0x0A \<and> c \<noteq> CHR 0x0D) s) in
      if None \<in> set digits then None
      else map_option (map char_of) (b64Bytes (map the digits)))"

section \<open>Round trip\<close>

lemma b64Val_Digit: "n < 64 \<Longrightarrow> b64Val (b64Digit n) = Some n"
  by (auto simp: b64Val_def b64Digit_def Let_def)

lemma b64Digit_plain: "n < 64 \<Longrightarrow> alnum (b64Digit n) \<or> b64Digit n \<in> {CHR ''-'', CHR ''_''}"
proof -
  have "(char_of (45 :: nat) :: char) = CHR ''-''" "(char_of (95 :: nat) :: char) = CHR ''_''" by code_simp+
  then show "n < 64 \<Longrightarrow> alnum (b64Digit n) \<or> b64Digit n \<in> {CHR ''-'', CHR ''_''}"
    by (auto simp: alnum_def b64Digit_def Let_def)
qed

lemma b64Groups_range: "list_all (\<lambda>n. n < 256) bs \<Longrightarrow> list_all (\<lambda>n. n < 64) (b64Groups bs)"
  by (induction bs rule: b64Groups.induct) auto

lemma digits: "b < (n :: nat) \<Longrightarrow> (a * n + b) mod n = b" "b < (n :: nat) \<Longrightarrow> (a * n + b) div n = a"
  by simp_all

lemma quotients: "x < 256 \<Longrightarrow> (x :: nat) div 16 < 16" "x < 256 \<Longrightarrow> (x :: nat) div 64 < 4" "x mod 4 < (4 :: nat)" "x mod 16 < (16 :: nat)"
  using less_mult_imp_div_less [of x 16 16] less_mult_imp_div_less [of x 4 64] by simp_all

lemma b64Bytes_Groups: "list_all (\<lambda>n. n < 256) bs \<Longrightarrow> b64Bytes (b64Groups bs) = Some bs"
proof (induction bs rule: b64Groups.induct)
  case (2 x)
  show ?case by simp
next
  case (3 x y)
  then have "y div 16 < 16" by (simp add: quotients)
  then show ?case by (simp add: digits)
next
  case (4 x y z r)
  then have "y div 16 < 16" "z div 64 < 4" by (simp_all add: quotients)
  with 4 show ?case by (simp add: digits)
qed simp

lemma byte_list: "list_all (\<lambda>n. n < 256) (map (of_char :: char \<Rightarrow> nat) s)"
  by (induction s) (simp_all add: byte_lt)

lemma encode_digits: "list_all (\<lambda>c. alnum c \<or> c \<in> {CHR ''-'', CHR ''_''}) (encodeToString s)"
  using b64Groups_range [OF byte_list [of s]] b64Digit_plain
  unfolding encodeToString_def by (fastforce simp: list_all_iff)

lemma decode_encode: "decodeString (encodeToString s) = Some s"
proof -
  let ?g = "b64Groups (map of_char s)"
  have r: "\<forall>n \<in> set ?g. n < 64" using b64Groups_range [OF byte_list [of s]] by (simp add: list_all_iff)
  have nl: "filter (\<lambda>c. c \<noteq> CHR 0x0A \<and> c \<noteq> CHR 0x0D) (encodeToString s) = encodeToString s"
    using encode_digits [of s] by (auto simp: filter_id_conv list_all_iff alnum_def)
  have v: "map b64Val (encodeToString s) = map Some ?g"
    unfolding encodeToString_def using r by (simp add: b64Val_Digit)
  have "None \<notin> set (map Some ?g)" "map the (map Some ?g) = ?g" by (auto simp: o_def)
  then show ?thesis
    unfolding decodeString_def Let_def nl v using b64Bytes_Groups [OF byte_list [of s]] by (simp add: o_def)
qed

end
