(* ===== verification/Access_Config.thy ===== *)
theory Access_Config
  imports Base64 Go_Time
begin

text \<open>
  \<^verbatim>\<open>accessproxy/config.go\<close>: the configuration of the proxy in front of one published instance, its
  validation, and the choice of a route; \<^verbatim>\<open>parseRoutes\<close> of \<^verbatim>\<open>cmd/access-proxy/main.go\<close>. The HTTP
  client of the hub is not part of the model; host names are compared after lowering their ASCII letters.
\<close>

definition SessionCookieName :: string where "SessionCookieName = ''__Host-railgrid-app-session''"
definition ReturnCookieName :: string where "ReturnCookieName = ''railgrid-app-return''"
definition CallbackPath :: string where "CallbackPath = ''/__railgrid/auth/callback''"
definition hubAuthorizePath :: string where "hubAuthorizePath = ''/auth/apps/authorize''"
definition hubExchangePath :: string where "hubExchangePath = ''/auth/apps/exchange''"
definition hubVerifyPath :: string where "hubVerifyPath = ''/auth/apps/verify''"
definition clusterLocalSuffix :: string where "clusterLocalSuffix = ''.svc.cluster.local''"
definition defaultListenAddress :: string where "defaultListenAddress = '':8080''"
definition defaultPublicScheme :: string where "defaultPublicScheme = ''https''"
definition defaultHubTimeout :: int where "defaultHubTimeout = 10 * second"
definition maxSessionTTL :: int where "maxSessionTTL = 24 * 3600 * second"
definition defaultSessionTTL :: int where "defaultSessionTTL = 15 * 60 * second"
definition ModePublic :: string where "ModePublic = ''public''"
definition ModePrivate :: string where "ModePrivate = ''private''"

record instanceRef =
  ir_Cluster :: string
  ir_Group :: string
  ir_Resource :: string
  ir_Name :: string

definition validateRef :: "instanceRef \<Rightarrow> goError + unit" where
  "validateRef ref =
     firstErr (\<lambda>(label, v0). let v = trimSpace v0 in
         if v = [] \<or> containsAny v ([CHR '' '', CHR 0x0D, CHR 0x0A, CHR ''/'', CHR 0x5C] @ ''@?#&'')
         then Inl (Errorf ''instance %s is malformed'' [label]) else Inr ())
       [(''cluster'', ir_Cluster ref), (''group'', ir_Group ref), (''resource'', ir_Resource ref), (''name'', ir_Name ref)]"

record route =
  rt_Prefix :: string
  rt_Target :: string

record proxyConfig =
  pc_ListenAddress :: string
  pc_Mode :: string
  pc_Host :: string
  pc_Routes :: "route list"
  pc_Instance :: instanceRef
  pc_HubURL :: string
  pc_HubPublicURL :: string
  pc_HubInsecure :: bool
  pc_PublicScheme :: string
  pc_AllowNonClusterTargets :: bool
  pc_HubTimeout :: int

record normalizedRoute =
  nr_prefix :: string
  nr_target :: url

record normalizedConfig =
  nz_Config :: proxyConfig
  nz_host :: string
  nz_hubURL :: string
  nz_hubPublicURL :: string
  nz_publicScheme :: string
  nz_routes :: "normalizedRoute list"
  nz_hubTimeout :: int

text \<open>What is used of \<^verbatim>\<open>net\<close>: the reader of IP literals of \<^verbatim>\<open>net/url\<close> and the test for a loopback address.\<close>

record netLib =
  nb_literal :: "string \<Rightarrow> string option"
  nb_loopback :: "string \<Rightarrow> bool"

definition parseHTTPOrigin :: "netLib \<Rightarrow> string \<Rightarrow> goError + string" where
  "parseHTTPOrigin N raw =
     (case urlParse (nb_literal N) (trimRightSet ''/'' (trimSpace raw)) of
        None \<Rightarrow> Inl (Errorf ''malformed origin'' [])
      | Some u \<Rightarrow>
          if ur_Scheme u = [] \<or> ur_Host u = [] \<or> ur_User u then Inl (Errorf ''malformed origin'' [])
          else if \<not> equalFold (ur_Scheme u) ''http'' \<and> \<not> equalFold (ur_Scheme u) ''https''
          then Inl (Errorf ''origin must use http or https'' [])
          else Inr (trimRightSet ''/'' (urlString u)))"

definition normalizePrefix :: "string \<Rightarrow> goError + string" where
  "normalizePrefix raw =
     (let pfx = (if trimSpace raw = [] then ''/'' else trimSpace raw) in
      if \<not> hasPrefix pfx ''/'' \<or> containsAny pfx [CHR 0x0D, CHR 0x0A]
      then Inl (Errorf ''route prefix %q must be an absolute path'' [raw])
      else if pfx \<noteq> ''/''
      then let p = trimRightSet ''/'' pfx in Inr (if p = [] then ''/'' else p)
      else Inr pfx)"

definition canonicalHost :: "string \<Rightarrow> goError + string" where
  "canonicalHost raw =
     (let host = trimSpace raw in
      if host = [] \<or> containsAny host [CHR 0x0D, CHR 0x0A, CHR ''/'', CHR 0x5C, CHR ''@''] \<or> contains host ''://''
      then Inl (Errorf ''host is malformed'' [])
      else Inr (toLower host))"

definition pathMatches :: "string \<Rightarrow> string \<Rightarrow> bool" where
  "pathMatches pfx path =
     (if pfx = ''/'' then hasPrefix path ''/''
      else path = pfx \<or> hasPrefix path (pfx @ ''/''))"

definition routeSuffix :: "string \<Rightarrow> string \<Rightarrow> string" where
  "routeSuffix pfx path =
     (if pfx = ''/'' then path
      else let suffix = trimPrefix path pfx in
        if suffix = [] then ''/''
        else if \<not> hasPrefix suffix ''/'' then ''/'' @ suffix
        else suffix)"

text \<open>The target of one route.\<close>

definition routeTarget :: "netLib \<Rightarrow> bool \<Rightarrow> string \<Rightarrow> string \<Rightarrow> goError + url" where
  "routeTarget N allowNonCluster pfx raw =
     (case urlParse (nb_literal N) (trimSpace raw) of
        None \<Rightarrow> Inl (Errorf ''invalid target URL for route %q'' [pfx])
      | Some target \<Rightarrow>
          if ur_Scheme target = [] \<or> ur_Host target = [] \<or> ur_User target
          then Inl (Errorf ''invalid target URL for route %q'' [pfx])
          else if \<not> equalFold (ur_Scheme target) ''http'' \<and> \<not> equalFold (ur_Scheme target) ''https''
          then Inl (Errorf ''target URL for route %q must use http or https'' [pfx])
          else if \<not> allowNonCluster \<and> \<not> hasSuffix (toLower (hostname target)) clusterLocalSuffix
          then Inl (Errorf ''target URL for route %q must be a cluster-local Service (*.svc.cluster.local)'' [pfx])
          else Inr target)"

text \<open>The loop over the routes; \<open>seen\<close> are the prefixes so far.\<close>

fun normalizeRoutes :: "netLib \<Rightarrow> bool \<Rightarrow> string list \<Rightarrow> route list \<Rightarrow> goError + normalizedRoute list" where
  "normalizeRoutes N allowNonCluster seen [] = Inr []"
| "normalizeRoutes N allowNonCluster seen (r # rs) =
     andThen (normalizePrefix (rt_Prefix r)) (\<lambda>pfx.
     if pfx \<in> set seen then Inl (Errorf ''duplicate proxy route prefix %q'' [pfx])
     else andThen (routeTarget N allowNonCluster pfx (rt_Target r)) (\<lambda>target.
          andThen (normalizeRoutes N allowNonCluster (pfx # seen) rs) (\<lambda>routes.
          Inr (\<lparr>nr_prefix = pfx, nr_target = target\<rparr> # routes))))"

text \<open>\<^verbatim>\<open>sort.SliceStable\<close>: longer prefixes first.\<close>

definition sortRoutes :: "normalizedRoute list \<Rightarrow> normalizedRoute list" where
  "sortRoutes = sort_key (\<lambda>r. - int (length (nr_prefix r)))"

text \<open>The hub origins, read in private mode only.\<close>

definition hubOrigins :: "netLib \<Rightarrow> proxyConfig \<Rightarrow> goError + string \<times> string" where
  "hubOrigins N config =
     andThen (mapErr (Wrapf ''private mode: %w'' []) (validateRef (pc_Instance config))) (\<lambda>_.
     if trimSpace (pc_HubURL config) = [] then Inl (Errorf ''private mode: hub URL is required'' [])
     else andThen (mapErr (Wrapf ''invalid hub URL: %w'' []) (parseHTTPOrigin N (pc_HubURL config))) (\<lambda>hubURL.
          let hubPublicRaw = (if trimSpace (pc_HubPublicURL config) = [] then hubURL else trimSpace (pc_HubPublicURL config)) in
          andThen (mapErr (Wrapf ''invalid public hub URL: %w'' []) (parseHTTPOrigin N hubPublicRaw)) (\<lambda>hubPublicURL.
          Inr (hubURL, hubPublicURL))))"

definition normalizeConfig :: "netLib \<Rightarrow> proxyConfig \<Rightarrow> goError + normalizedConfig" where
  "normalizeConfig N config =
     andThen (mapErr (Wrapf ''invalid app host: %w'' []) (canonicalHost (pc_Host config))) (\<lambda>host.
     let mode = (if pc_Mode config = [] then ModePublic else pc_Mode config) in
     if mode \<noteq> ModePublic \<and> mode \<noteq> ModePrivate then Inl (Errorf ''invalid mode %q: want public or private'' [mode])
     else andThen (if mode = ModePrivate then hubOrigins N config else Inr ([], [])) (\<lambda>(hubURL, hubPublicURL).
       let scheme0 = toLower (trimSpace (pc_PublicScheme config));
           publicScheme = (if scheme0 = [] then defaultPublicScheme else scheme0) in
       if publicScheme \<noteq> ''http'' \<and> publicScheme \<noteq> ''https'' then Inl (Errorf ''public scheme must be http or https'' [])
       else if pc_Routes config = [] then Inl (Errorf ''at least one proxy route is required'' [])
       else andThen (normalizeRoutes N (pc_AllowNonClusterTargets config) [] (pc_Routes config)) (\<lambda>routes.
         let listenAddress = (if trimSpace (pc_ListenAddress config) = [] then defaultListenAddress else trimSpace (pc_ListenAddress config)) in
         Inr \<lparr> nz_Config = config\<lparr>pc_ListenAddress := listenAddress, pc_Mode := mode, pc_PublicScheme := publicScheme\<rparr>,
               nz_host = host, nz_hubURL = hubURL, nz_hubPublicURL = hubPublicURL, nz_publicScheme = publicScheme,
               nz_routes = sortRoutes routes,
               nz_hubTimeout = (if pc_HubTimeout config \<le> 0 then defaultHubTimeout else pc_HubTimeout config) \<rparr>)))"

definition routeFor :: "normalizedConfig \<Rightarrow> string \<Rightarrow> normalizedRoute option" where
  "routeFor cfg path = find (\<lambda>r. pathMatches (nr_prefix r) path) (nz_routes cfg)"

definition joinTargetPath :: "string \<Rightarrow> string \<Rightarrow> string" where
  "joinTargetPath base0 suffix0 =
     (let base = (if base0 = [] then ''/'' else base0); suffix = (if suffix0 = [] then ''/'' else suffix0) in
      if base = ''/'' then suffix
      else trimRightSet ''/'' base @ ''/'' @ trimLeftSet ''/'' suffix)"

definition hubURLProtectsTokens :: "netLib \<Rightarrow> string \<Rightarrow> bool" where
  "hubURLProtectsTokens N hubURL =
     (case urlParse (nb_literal N) hubURL of
        None \<Rightarrow> False
      | Some u \<Rightarrow>
          let scheme = toLower (ur_Scheme u); h = hostname u in
          if scheme = ''https'' then True
          else if scheme = ''http'' then equalFold h ''localhost'' \<or> nb_loopback N h
          else False)"

text \<open>\<^verbatim>\<open>parseRoutes\<close>: the route list of the command line.\<close>

definition parseRoutes :: "string \<Rightarrow> route list" where
  "parseRoutes raw =
     concat (map (\<lambda>entry0. let entry = trimSpace entry0 in
         if entry = [] then []
         else (case cutAt (CHR ''='') entry of (pfx, target, found) \<Rightarrow>
           if \<not> found then [\<lparr>rt_Prefix = entry, rt_Target = []\<rparr>]
           else [\<lparr>rt_Prefix = trimSpace pfx, rt_Target = trimSpace target\<rparr>]))
       (splitAll (CHR '','') raw))"

end
