(* ===== verification/Access_Routing.thy ===== *)
theory Access_Routing
  imports Access_Config
begin

text \<open>
  What an accepted configuration of the access proxy means: its targets are Services of the cluster, and a
  request goes to the route with the longest matching prefix.
\<close>

lemma pathMatches_prefix: "pathMatches p path \<Longrightarrow> Sublist.prefix p path"
  unfolding pathMatches_def hasPrefix_prefix by (auto split: if_splits intro: append_prefixD)

lemma same_length_prefix: "Sublist.prefix p s \<Longrightarrow> Sublist.prefix q s \<Longrightarrow> length p = length q \<Longrightarrow> p = q"
  by (auto simp: prefix_def)

text \<open>What is checked of one route.\<close>

definition routeOk :: "bool \<Rightarrow> normalizedRoute \<Rightarrow> bool" where
  "routeOk allowNonCluster rt \<longleftrightarrow>
     hasPrefix (nr_prefix rt) ''/'' \<and> ur_Host (nr_target rt) \<noteq> [] \<and> \<not> ur_User (nr_target rt)
   \<and> (equalFold (ur_Scheme (nr_target rt)) ''http'' \<or> equalFold (ur_Scheme (nr_target rt)) ''https'')
   \<and> (allowNonCluster \<or> hasSuffix (toLower (hostname (nr_target rt))) clusterLocalSuffix)"

lemma normalizePrefix_slash: "normalizePrefix raw = Inr p \<Longrightarrow> hasPrefix p ''/''"
proof -
  have keep: "hasPrefix (trimRightSet ''/'' s) ''/''" if "hasPrefix s ''/''" "trimRightSet ''/'' s \<noteq> []" for s
  proof -
    obtain t where s: "s = trimRightSet ''/'' s @ t"
      using takeWhile_dropWhile_id [of "\<lambda>c. c \<in> set ''/''" "rev s"]
      unfolding trimRightSet_def trimLeftSet_def by (metis rev_append rev_rev_ident)
    have "hd s = CHR ''/''" using that(1) by (cases s) (auto simp: hasPrefix_def)
    then have "hd (trimRightSet ''/'' s) = CHR ''/''" using that(2) s by (metis hd_append2)
    then show ?thesis using that(2) by (cases "trimRightSet ''/'' s") (auto simp: hasPrefix_def)
  qed
  show "normalizePrefix raw = Inr p \<Longrightarrow> hasPrefix p ''/''"
    unfolding normalizePrefix_def Let_def using keep
    by (auto split: if_splits simp: hasPrefix_def)
qed

lemma normalizeRoutes_ok:
  "normalizeRoutes N b seen rs = Inr routes \<Longrightarrow>
   list_all (routeOk b) routes \<and> distinct (map nr_prefix routes) \<and> set (map nr_prefix routes) \<inter> set seen = {}
   \<and> length routes = length rs"
proof (induction N b seen rs arbitrary: routes rule: normalizeRoutes.induct)
  case (2 N b seen r rs)
  from 2(2) obtain p target rest where
    p: "normalizePrefix (rt_Prefix r) = Inr p" "p \<notin> set seen" "routeTarget N b p (rt_Target r) = Inr target"
      "normalizeRoutes N b (p # seen) rs = Inr rest" "routes = \<lparr>nr_prefix = p, nr_target = target\<rparr> # rest"
    by (auto simp: go_err split: if_splits)
  have "routeOk b \<lparr>nr_prefix = p, nr_target = target\<rparr>"
    using normalizePrefix_slash [OF p(1)] p(3)
    by (auto simp: routeOk_def routeTarget_def split: option.splits if_splits)
  with 2(1) [OF p(2,4)] p(2,5) show ?case by auto
qed simp

lemma find_first:
  "find P xs = Some x \<Longrightarrow> \<exists>ys zs. xs = ys @ x # zs \<and> P x \<and> (\<forall>y \<in> set ys. \<not> P y)"
proof (induction xs)
  case (Cons a xs)
  show ?case
  proof (cases "P a")
    case True
    with Cons.prems have "a # xs = [] @ x # xs \<and> P x" by simp
    then show ?thesis by fastforce
  next
    case False
    with Cons obtain ys zs where "xs = ys @ x # zs" "P x" "\<forall>y \<in> set ys. \<not> P y" by auto
    with False have "a # xs = (a # ys) @ x # zs \<and> P x \<and> (\<forall>y \<in> set (a # ys). \<not> P y)" by simp
    then show ?thesis by blast
  qed
qed simp

text \<open>In an accepted configuration every route has an absolute prefix and a target that names an http or https
  Service of the cluster without user information; and the route of a path is exactly the one with the
  longest prefix that matches it, whatever the order in which the routes were given.\<close>

theorem access_routes:
  assumes "normalizeConfig N c = Inr n"
  shows "list_all (routeOk (pc_AllowNonClusterTargets c)) (nz_routes n) \<and> length (nz_routes n) = length (pc_Routes c)
    \<and> (routeFor n path = Some rt \<longleftrightarrow>
        rt \<in> set (nz_routes n) \<and> pathMatches (nr_prefix rt) path
      \<and> (\<forall>other \<in> set (nz_routes n). pathMatches (nr_prefix other) path \<longrightarrow> length (nr_prefix other) \<le> length (nr_prefix rt)))"
proof -
  obtain routes where r: "normalizeRoutes N (pc_AllowNonClusterTargets c) [] (pc_Routes c) = Inr routes" "nz_routes n = sortRoutes routes"
    using assms unfolding normalizeConfig_def Let_def by (auto simp: go_err split: if_splits)
  note ok = normalizeRoutes_ok [OF r(1)]
  let ?f = "\<lambda>r. - int (length (nr_prefix r))"
  have set: "set (nz_routes n) = set routes" unfolding r(2) sortRoutes_def by simp
  have sorted: "sorted (map ?f (nz_routes n))" unfolding r(2) sortRoutes_def by (rule sorted_sort_key)
  have inj: "inj_on nr_prefix (set (nz_routes n))" using ok unfolding set by (simp add: distinct_map)
  have iff: "routeFor n path = Some rt \<longleftrightarrow>
      rt \<in> set (nz_routes n) \<and> pathMatches (nr_prefix rt) path
      \<and> (\<forall>other \<in> set (nz_routes n). pathMatches (nr_prefix other) path \<longrightarrow> length (nr_prefix other) \<le> length (nr_prefix rt))"
    (is "_ \<longleftrightarrow> ?longest rt")
  proof
    assume "routeFor n path = Some rt"
    then obtain ys zs where s: "nz_routes n = ys @ rt # zs" "pathMatches (nr_prefix rt) path" "\<forall>y \<in> set ys. \<not> pathMatches (nr_prefix y) path"
      unfolding routeFor_def using find_first [where xs = "nz_routes n"] by blast
    have "?f rt \<le> ?f z" if "z \<in> set zs" for z using sorted that unfolding s(1) by (simp add: sorted_append)
    with s show "?longest rt" by auto
  next
    assume l: "?longest rt"
    then have "find (\<lambda>r. pathMatches (nr_prefix r) path) (nz_routes n) \<noteq> None" by (auto simp: find_None_iff)
    then obtain rt' where f: "routeFor n path = Some rt'" unfolding routeFor_def by blast
    then obtain ys zs where s: "nz_routes n = ys @ rt' # zs" "pathMatches (nr_prefix rt') path" "\<forall>y \<in> set ys. \<not> pathMatches (nr_prefix y) path"
      unfolding routeFor_def using find_first [where xs = "nz_routes n"] by blast
    have "rt = rt' \<or> rt \<in> set zs" using l s by auto
    then have "length (nr_prefix rt) \<le> length (nr_prefix rt')" using sorted unfolding s(1) by (auto simp: sorted_append)
    moreover have "length (nr_prefix rt') \<le> length (nr_prefix rt)" using l s by auto
    ultimately have "nr_prefix rt = nr_prefix rt'"
      using same_length_prefix [OF pathMatches_prefix pathMatches_prefix] l s(2) by fastforce
    moreover have "rt' \<in> set (nz_routes n)" using s(1) by simp
    ultimately have "rt = rt'" using inj_onD [OF inj] l by blast
    with f show "routeFor n path = Some rt" by simp
  qed
  have "list_all (routeOk (pc_AllowNonClusterTargets c)) (nz_routes n)" using ok set by (simp add: list_all_iff)
  moreover have "length (nz_routes n) = length (pc_Routes c)" using ok unfolding r(2) sortRoutes_def by simp
  ultimately show ?thesis using iff by blast
qed

definition twoRoutes :: proxyConfig where
  "twoRoutes = \<lparr>pc_ListenAddress = [], pc_Mode = [], pc_Host = ''Shop.example'',
     pc_Routes = [\<lparr>rt_Prefix = ''/'', rt_Target = ''http://web.ns.svc.cluster.local:80''\<rparr>,
                  \<lparr>rt_Prefix = ''/api/'', rt_Target = ''http://api.ns.svc.cluster.local/v1''\<rparr>],
     pc_Instance = \<lparr>ir_Cluster = [], ir_Group = [], ir_Resource = [], ir_Name = []\<rparr>, pc_HubURL = [], pc_HubPublicURL = [],
     pc_HubInsecure = False, pc_PublicScheme = [], pc_AllowNonClusterTargets = False, pc_HubTimeout = 0\<rparr>"

definition plainNet :: netLib where
  "plainNet = \<lparr>nb_literal = (\<lambda>_. None), nb_loopback = (\<lambda>h. h = ''127.0.0.1'')\<rparr>"

theorem access_routes_witness:
  "\<exists>n rt. normalizeConfig plainNet twoRoutes = Inr n \<and> length (nz_routes n) = 2 \<and> routeFor n ''/api/orders'' = Some rt \<and> nr_prefix rt = ''/api''"
proof -
  have "isOk (normalizeConfig plainNet twoRoutes)" by code_simp
  then obtain n where n: "normalizeConfig plainNet twoRoutes = Inr n" by (auto simp: isOk_iff)
  have "map_option nr_prefix (case normalizeConfig plainNet twoRoutes of Inr n \<Rightarrow> routeFor n ''/api/orders'' | Inl _ \<Rightarrow> None) = Some ''/api''"
    by code_simp
  then obtain rt where "routeFor n ''/api/orders'' = Some rt" "nr_prefix rt = ''/api''" unfolding n by auto
  with access_routes [OF n, of "''/api/orders''" rt] n show ?thesis by (auto simp: twoRoutes_def)
qed

end
