(* ===== verification/Access_Headers.thy ===== *)
theory Access_Headers
  imports Access_Config
begin

text \<open>
  The header handling of the access proxy (\<^verbatim>\<open>accessproxy/proxy.go\<close>): which request headers and cookies
  reach the application, which response headers and cookies reach the browser, and the reading of
  cookies and query parameters (\<^verbatim>\<open>net/http\<close>, \<^verbatim>\<open>net/url\<close>). A header map has canonical names;
  the removal of hop-by-hop headers by \<^verbatim>\<open>httputil.ReverseProxy\<close> is not modelled (it only removes headers).
\<close>

type_synonym headers = "string list smap"

definition hdrValues :: "headers \<Rightarrow> string \<Rightarrow> string list" where
  "hdrValues hs k = (case map_of hs k of None \<Rightarrow> [] | Some vs \<Rightarrow> vs)"

definition hdrGet :: "headers \<Rightarrow> string \<Rightarrow> string" where
  "hdrGet hs k = (case hdrValues hs k of [] \<Rightarrow> [] | v # vs \<Rightarrow> v)"

section \<open>Cookies of a request\<close>

text \<open>\<^verbatim>\<open>http.Request.Cookies\<close>: the parts of every Cookie line, with a token as name and a valid
  value, which may be quoted. \<open>trimHTTP\<close> is \<^verbatim>\<open>textproto.TrimString\<close>.\<close>

definition trimHTTP :: "string \<Rightarrow> string" where
  "trimHTTP s = (let ws = [CHR '' '', CHR 0x09, CHR 0x0A, CHR 0x0D] in trimLeftSet ws (trimRightSet ws s))"

definition tokenByte :: "char \<Rightarrow> bool" where
  "tokenByte c \<longleftrightarrow> alnum c \<or> c \<in> set (''!#$%&*+-.^_|~'' @ [CHR 0x27, CHR 0x60])"

definition isToken :: "string \<Rightarrow> bool" where
  "isToken s \<longleftrightarrow> s \<noteq> [] \<and> list_all tokenByte s"

definition validCookieValueByte :: "char \<Rightarrow> bool" where
  "validCookieValueByte c \<longleftrightarrow> 32 \<le> (of_char c :: nat) \<and> (of_char c :: nat) < 127 \<and> c \<notin> {CHR 0x22, CHR '';'', CHR 0x5C}"

definition parseCookieValue :: "string \<Rightarrow> string option" where
  "parseCookieValue raw =
     (let v = (if 1 < length raw \<and> hd raw = CHR 0x22 \<and> last raw = CHR 0x22 then butlast (tl raw) else raw) in
      if list_all validCookieValueByte v then Some v else None)"

definition readCookiePart :: "string \<Rightarrow> (string \<times> string) list" where
  "readCookiePart part0 =
     (let part = trimHTTP part0 in
      if part = [] then []
      else (case cutAt (CHR ''='') part of (name0, val, found) \<Rightarrow>
        let name = trimHTTP name0 in
        if \<not> isToken name then []
        else (case parseCookieValue val of None \<Rightarrow> [] | Some v \<Rightarrow> [(name, v)])))"

definition readCookies :: "headers \<Rightarrow> (string \<times> string) list" where
  "readCookies hs = concat (map (\<lambda>line. concat (map readCookiePart (splitAll (CHR '';'') (trimHTTP line)))) (hdrValues hs ''Cookie''))"

text \<open>\<^verbatim>\<open>http.Request.Cookie\<close>: the first cookie of that name.\<close>

definition cookieNamed :: "headers \<Rightarrow> string \<Rightarrow> string option" where
  "cookieNamed hs name = (if name = [] then None else map_of (readCookies hs) name)"

section \<open>Query parameters\<close>

text \<open>\<^verbatim>\<open>url.Values.Get\<close> of the parsed query: the first value of that key.\<close>

definition queryPart :: "string \<Rightarrow> (string \<times> string) list" where
  "queryPart part =
     (if CHR '';'' \<in> set part \<or> part = [] then []
      else (case cutAt (CHR ''='') part of (k, v, found) \<Rightarrow>
        (case (unescape EncQuery k, unescape EncQuery v) of
           (Some k', Some v') \<Rightarrow> [(k', v')]
         | _ \<Rightarrow> [])))"

definition queryGet :: "string \<Rightarrow> string \<Rightarrow> string" where
  "queryGet raw k = (case map_of (concat (map queryPart (splitAll (CHR ''&'') raw))) k of None \<Rightarrow> [] | Some v \<Rightarrow> v)"

text \<open>\<^verbatim>\<open>url.Values.Encode\<close> of keys in sorted order.\<close>

definition encodeQuery :: "(string \<times> string) list \<Rightarrow> string" where
  "encodeQuery kvs = joinWith ''&'' (map (\<lambda>(k, v). escape EncQuery k @ ''='' @ escape EncQuery v) kvs)"

section \<open>What passes\<close>

definition isInternalCookie :: "string \<Rightarrow> bool" where
  "isInternalCookie name \<longleftrightarrow>
     equalFold name SessionCookieName \<or> equalFold name ReturnCookieName
   \<or> hasPrefix (toLower name) (toLower ReturnCookieName @ ''-'')"

definition isProxyReservedHeader :: "string \<Rightarrow> bool" where
  "isProxyReservedHeader lower \<longleftrightarrow>
     lower \<in> set [''authorization'', ''proxy-authorization'', ''forwarded'', ''via'', ''x-forwarded-for'', ''x-forwarded-host'',
       ''x-forwarded-proto'', ''x-forwarded-port'', ''x-real-ip'', ''x-original-url'', ''x-rewrite-url'']"

definition keepCookiePart :: "string \<Rightarrow> string list" where
  "keepCookiePart part0 =
     (let part = trimSpace part0 in
      if part = [] then []
      else (case cutAt (CHR ''='') part of (name, rest, found) \<Rightarrow>
        if \<not> found \<or> isInternalCookie (trimSpace name) then [] else [part]))"

definition filterCookieHeader :: "headers \<Rightarrow> headers" where
  "filterCookieHeader hs =
     (if hdrValues hs ''Cookie'' = [] then hs
      else let keep = concat (map (\<lambda>line. concat (map keepCookiePart (splitAll (CHR '';'') line))) (hdrValues hs ''Cookie'')) in
        if keep = [] then mdel ''Cookie'' hs
        else mput ''Cookie'' [joinWith ''; '' keep] hs)"

definition droppedRequestHeader :: "string \<Rightarrow> bool" where
  "droppedRequestHeader key \<longleftrightarrow> hasPrefix (toLower key) ''x-railgrid-'' \<or> isProxyReservedHeader (toLower key)"

definition stripUpstreamRequestHeaders :: "headers \<Rightarrow> headers" where
  "stripUpstreamRequestHeaders hs = filterCookieHeader (filter (\<lambda>(k, vs). \<not> droppedRequestHeader k) hs)"

definition stripCookieDomain :: "string \<Rightarrow> string" where
  "stripCookieDomain v =
     (let parts = splitAll (CHR '';'') v in
      if length parts < 2 then v
      else joinWith ''; ''
        (trimSpace (hd parts)
         # filter (\<lambda>part. part \<noteq> [] \<and> \<not> equalFold (trimSpace (fst (cutAt (CHR ''='') part))) ''domain'')
             (map trimSpace (tl parts))))"

definition droppedResponseHeader :: "string \<Rightarrow> bool" where
  "droppedResponseHeader key \<longleftrightarrow>
     hasPrefix (toLower key) ''x-railgrid-'' \<or> toLower key \<in> {''authorization'', ''proxy-authenticate'', ''www-authenticate''}"

definition keepSetCookie :: "string \<Rightarrow> string list" where
  "keepSetCookie v = (if isInternalCookie (trimSpace (hd (splitN (CHR ''='') 2 v))) then [] else [stripCookieDomain v])"

definition stripUpstreamResponseHeaders :: "headers \<Rightarrow> headers" where
  "stripUpstreamResponseHeaders hs0 =
     (let hs = filter (\<lambda>(k, vs). \<not> droppedResponseHeader k) hs0; values = hdrValues hs ''Set-Cookie'' in
      if values = [] then hs
      else let kept = concat (map keepSetCookie values); hs' = mdel ''Set-Cookie'' hs in
        if kept = [] then hs' else mput ''Set-Cookie'' kept hs')"

end
