(* ===== verification/Access_Store.thy ===== *)
theory Access_Store
  imports Access_Config Sha256
begin

text \<open>
  The in-memory state of the access proxy (\<^verbatim>\<open>accessproxy/proxy.go\<close>, \<^verbatim>\<open>bearer.go\<close>): the sessions with the
  cached bearer verdicts, and the spent sign-in states. Every access runs under one mutex, so
  the store is a machine with one atomic operation per critical section; requests interleave as sequences of operations.
  The clock is read just before the lock is taken: the instant is an argument of the operation.
  A map is an association list in the order of the iteration.
\<close>

section \<open>State\<close>

definition stateTTL :: int where "stateTTL = 5 * 60 * second"
definition maxUsedStates :: nat where "maxUsedStates = 5000"
definition maxSessions :: nat where "maxSessions = 20000"
definition sweepInterval :: int where "sweepInterval = 30 * second"
definition bearerKeyPrefix :: string where "bearerKeyPrefix = ''bearer:''"

record appSession =
  as_userID :: string
  as_expiresAt :: int
  as_bearer :: bool
  as_denyStatus :: nat

record store =
  so_usedStates :: "int smap"
  so_sessions :: "appSession smap"
  so_lastUsedSweep :: int
  so_lastSessionSweep :: int

definition emptyStore :: store where
  "emptyStore = \<lparr>so_usedStates = [], so_sessions = [], so_lastUsedSweep = zeroTime, so_lastSessionSweep = zeroTime\<rparr>"

definition sessionKey :: "string \<Rightarrow> string" where
  "sessionKey v = sha256Hex v"

definition bearerKey :: "string \<Rightarrow> string" where
  "bearerKey token = bearerKeyPrefix @ sha256Hex token"

section \<open>Sweeping and evicting\<close>

definition sweepUsedStates :: "int \<Rightarrow> store \<Rightarrow> store" where
  "sweepUsedStates now s =
     (if now - so_lastUsedSweep s < sweepInterval \<and> length (so_usedStates s) < maxUsedStates then s
      else s\<lparr>so_lastUsedSweep := now, so_usedStates := filter (\<lambda>(k, exp). now < exp) (so_usedStates s)\<rparr>)"

definition sweepSessions :: "int \<Rightarrow> store \<Rightarrow> store" where
  "sweepSessions now s =
     (if now - so_lastSessionSweep s < sweepInterval \<and> length (so_sessions s) < maxSessions then s
      else s\<lparr>so_lastSessionSweep := now, so_sessions := filter (\<lambda>(k, a). now < as_expiresAt a) (so_sessions s)\<rparr>)"

text \<open>The scan for the entry that expires first: the key so far and its expiry. An empty key counts as none.\<close>

fun oldestKey :: "('v \<Rightarrow> int) \<Rightarrow> 'v smap \<Rightarrow> string \<Rightarrow> int \<Rightarrow> string" where
  "oldestKey f [] k t = k"
| "oldestKey f ((k', v) # m) k t =
     (if k = [] \<or> f v < t then oldestKey f m k' (f v) else oldestKey f m k t)"

definition evictOldest :: "('v \<Rightarrow> int) \<Rightarrow> 'v smap \<Rightarrow> 'v smap" where
  "evictOldest f m = (let k = oldestKey f m [] zeroTime in if k \<noteq> [] then mdel k m else m)"

definition evictOldestUsed :: "int smap \<Rightarrow> int smap" where
  "evictOldestUsed = evictOldest (\<lambda>exp. exp)"

definition evictOldestSession :: "appSession smap \<Rightarrow> appSession smap" where
  "evictOldestSession = evictOldest as_expiresAt"

text \<open>\<^verbatim>\<open>for len(m) >= cap { evict(m) }\<close>; \<^term>\<open>None\<close> would be a loop that never ends.\<close>

partial_function (option) evictLoop :: "('v smap \<Rightarrow> 'v smap) \<Rightarrow> nat \<Rightarrow> 'v smap \<Rightarrow> 'v smap option" where
  "evictLoop evict cap m = (if cap \<le> length m then evictLoop evict cap (evict m) else Some m)"

declare evictLoop.simps [code]

section \<open>The critical sections\<close>

definition markStateUsed :: "int \<Rightarrow> string \<Rightarrow> int \<Rightarrow> store \<Rightarrow> (bool \<times> store) option" where
  "markStateUsed now nonce exp s0 =
     (let s = sweepUsedStates now s0 in
      if map_of (so_usedStates s) nonce \<noteq> None then Some (False, s)
      else (case evictLoop evictOldestUsed maxUsedStates (so_usedStates s) of
              None \<Rightarrow> None
            | Some m \<Rightarrow> Some (True, s\<lparr>so_usedStates := mput nonce exp m\<rparr>)))"

definition sessionTTL :: "int \<Rightarrow> int" where
  "sessionTTL ttlSeconds =
     (let ttl = durSeconds ttlSeconds; ttl = (if ttl \<le> 0 then defaultSessionTTL else ttl) in
      if maxSessionTTL < ttl then maxSessionTTL else ttl)"

definition insertSession :: "int \<Rightarrow> string \<Rightarrow> string \<Rightarrow> int \<Rightarrow> store \<Rightarrow> store option" where
  "insertSession now v userID ttl s0 =
     (let s = sweepSessions now s0 in
      case evictLoop evictOldestSession maxSessions (so_sessions s) of
        None \<Rightarrow> None
      | Some m \<Rightarrow>
          Some (s\<lparr>so_sessions := mput (sessionKey v)
                   \<lparr>as_userID = userID, as_expiresAt = now + ttl, as_bearer = False, as_denyStatus = 0\<rparr> m\<rparr>))"

text \<open>\<^verbatim>\<open>currentSession\<close> on the values of the request's session cookies that are not blank, in order.\<close>

fun scanSessions :: "int \<Rightarrow> string list \<Rightarrow> appSession smap \<Rightarrow> appSession option \<times> appSession smap" where
  "scanSessions now [] m = (None, m)"
| "scanSessions now (v # vs) m =
     (case map_of m (sessionKey v) of
        Some a \<Rightarrow>
          if as_bearer a then scanSessions now vs m
          else if now < as_expiresAt a then (Some a, m)
          else scanSessions now vs (mdel (sessionKey v) m)
      | None \<Rightarrow> scanSessions now vs (mdel (sessionKey v) m))"

definition currentSession :: "int \<Rightarrow> string list \<Rightarrow> store \<Rightarrow> appSession option \<times> store" where
  "currentSession now vs s0 =
     (let s = sweepSessions now s0 in
      case scanSessions now vs (so_sessions s) of (r, m) \<Rightarrow> (r, s\<lparr>so_sessions := m\<rparr>))"

definition cachedBearerVerdict :: "int \<Rightarrow> string \<Rightarrow> store \<Rightarrow> appSession option \<times> store" where
  "cachedBearerVerdict now key s0 =
     (let s = sweepSessions now s0 in
      case map_of (so_sessions s) key of
        None \<Rightarrow> (None, s)
      | Some verdict \<Rightarrow>
          if \<not> as_bearer verdict \<or> \<not> now < as_expiresAt verdict
          then (None, s\<lparr>so_sessions := mdel key (so_sessions s)\<rparr>)
          else (Some verdict, s))"

definition putBearerVerdict :: "int \<Rightarrow> string \<Rightarrow> appSession \<Rightarrow> int \<Rightarrow> store \<Rightarrow> store option" where
  "putBearerVerdict now key verdict0 ttl s0 =
     (let verdict = verdict0\<lparr>as_expiresAt := now + ttl\<rparr>; s = sweepSessions now s0 in
      if map_of (so_sessions s) key = None
      then (case evictLoop evictOldestSession maxSessions (so_sessions s) of
              None \<Rightarrow> None
            | Some m \<Rightarrow> Some (s\<lparr>so_sessions := mput key verdict m\<rparr>))
      else Some (s\<lparr>so_sessions := mput key verdict (so_sessions s)\<rparr>))"

section \<open>The store as a machine\<close>

datatype storeOp =
    OpCurrent int "string list"
  | OpMarkUsed int string int
  | OpPutSession int string string int
  | OpCachedVerdict int string
  | OpPutVerdict int string appSession int

datatype storeReply = RpSession "appSession option" | RpFresh bool | RpDone

definition stepOp :: "storeOp \<Rightarrow> store \<Rightarrow> (storeReply \<times> store) option" where
  "stepOp oper s =
     (case oper of
        OpCurrent now vs \<Rightarrow> Some (map_prod RpSession id (currentSession now vs s))
      | OpMarkUsed now nonce exp \<Rightarrow> map_option (map_prod RpFresh id) (markStateUsed now nonce exp s)
      | OpPutSession now v userID ttlSeconds \<Rightarrow>
          map_option (Pair RpDone) (insertSession now v userID (sessionTTL ttlSeconds) s)
      | OpCachedVerdict now token \<Rightarrow> Some (map_prod RpSession id (cachedBearerVerdict now (bearerKey token) s))
      | OpPutVerdict now token verdict ttl \<Rightarrow> map_option (Pair RpDone) (putBearerVerdict now (bearerKey token) verdict ttl s))"

text \<open>What the proxy passes: a sign-in state is not empty, and a verdict is marked as one.\<close>

fun opOk :: "storeOp \<Rightarrow> bool" where
  "opOk (OpMarkUsed now nonce exp) = (nonce \<noteq> [])"
| "opOk (OpPutVerdict now token verdict ttl) = as_bearer verdict"
| "opOk oper = True"

text \<open>The stores that can be reached, with the operations so far, the latest first.\<close>

inductive storeReach :: "storeOp list \<Rightarrow> store \<Rightarrow> bool" where
  start: "storeReach [] emptyStore"
| step: "storeReach ops s \<Longrightarrow> opOk oper \<Longrightarrow> stepOp oper s = Some (r, s') \<Longrightarrow> storeReach (oper # ops) s'"

inductive_cases storeReach_ConsE: "storeReach (oper # ops) s"

end
