(* ===== verification/Access_Proxy.thy ===== *)
theory Access_Proxy
  imports Access_Headers Access_Store Interaction Json_Text
begin

text \<open>
  \<^verbatim>\<open>accessproxy/proxy.go\<close> and \<^verbatim>\<open>bearer.go\<close>: one request through the proxy, as a program over the clock, the random
  source, the store and the hub. The hub's answer is its status, its Retry-After header and its
  decoded body; \<^verbatim>\<open>json.Marshal\<close> of a struct of strings does not fail. Logging is left out.
\<close>

section \<open>Requests, responses and calls\<close>

record pxRequest =
  px_Host :: string
  px_URL :: url
  px_Headers :: headers

datatype sameSite = SameSiteLax | SameSiteNone

record cookie =
  ck_Name :: string
  ck_Value :: string
  ck_Path :: string
  ck_Secure :: bool
  ck_HttpOnly :: bool
  ck_SameSite :: sameSite
  ck_Partitioned :: bool
  ck_MaxAge :: int

record verifyRequest =
  vr_Cluster :: string
  vr_Group :: string
  vr_Resource :: string
  vr_Name :: string

datatype body = NoBody | TextBody string | BearerBody string string string "verifyRequest option"

record pxResponse =
  rs_Status :: nat
  rs_Cookies :: "cookie list"
  rs_Headers :: "string smap"
  rs_Body :: body

text \<open>A request is answered, or forwarded to a URL with headers.\<close>

datatype outcome = Respond pxResponse | Forward url headers

record returnStatePayload =
  rp_Nonce :: string
  rp_Path :: string
  rp_ExpiresAt :: int
  rp_Partitioned :: bool

record exchangeRequest =
  er_Code :: string
  er_Host :: string
  er_Ref :: verifyRequest

record exchangeResponse =
  ex_Allowed :: bool
  ex_UserID :: string
  ex_SessionTTLSeconds :: int

record hubReply =
  hb_Status :: nat
  hb_RetryAfter :: string
  hb_Body :: "exchangeResponse option"

datatype hubOutcome = HubNoRequest | HubUnreachable | HubReplied hubReply

datatype pxAsk =
    AskNow
  | AskRandom nat
  | AskStore storeOp
  | AskExchange string exchangeRequest
  | AskVerify string string verifyRequest

record pxAnswer =
  pa_now :: int
  pa_random :: "string option"
  pa_store :: storeReply
  pa_hub :: hubOutcome

type_synonym 'a px = "(pxAsk, pxAnswer, 'a) prog"

record proxyEnv =
  pe_net :: netLib
  pe_cfg :: normalizedConfig
  pe_relay :: bool  \<comment> \<open>\<^verbatim>\<open>bearerRelayAllowed\<close>\<close>
  pe_unmarshal :: "string \<Rightarrow> returnStatePayload option"  \<comment> \<open>\<^verbatim>\<open>json.Unmarshal\<close> of a return state\<close>

definition newProxy :: "netLib \<Rightarrow> (string \<Rightarrow> returnStatePayload option) \<Rightarrow> proxyConfig \<Rightarrow> goError + proxyEnv" where
  "newProxy N unmarshal config =
     andThen (normalizeConfig N config) (\<lambda>normalized.
     Inr \<lparr>pe_net = N, pe_cfg = normalized, pe_relay = hubURLProtectsTokens N (nz_hubURL normalized), pe_unmarshal = unmarshal\<rparr>)"

definition readNow :: "int px" where "readNow = Ask AskNow (\<lambda>r. Ret (pa_now r))"

definition storeSession :: "storeOp \<Rightarrow> appSession option px" where
  "storeSession oper = Ask (AskStore oper) (\<lambda>r. Ret (case pa_store r of RpSession a \<Rightarrow> a | _ \<Rightarrow> None))"

definition randomString :: "nat \<Rightarrow> string option px" where
  "randomString n = Ask (AskRandom n) (\<lambda>r. Ret (map_option encodeToString (pa_random r)))"

definition reply :: "nat \<Rightarrow> string \<Rightarrow> pxResponse" where
  "reply status text = \<lparr>rs_Status = status, rs_Cookies = [], rs_Headers = [], rs_Body = TextBody text\<rparr>"

section \<open>Return states and cookies\<close>

definition maxReturnPathBytes :: nat where "maxReturnPathBytes = 1024"
definition maxReturnCookieBytes :: nat where "maxReturnCookieBytes = 4096"

definition cleanReturnPath :: "netLib \<Rightarrow> string \<Rightarrow> string" where
  "cleanReturnPath N raw =
     (if raw = [] \<or> \<not> hasPrefix raw ''/'' \<or> hasPrefix raw ''//'' \<or> containsAny raw [CHR 0x0D, CHR 0x0A] then []
      else (case urlParse (nb_literal N) raw of
          None \<Rightarrow> []
        | Some parsed \<Rightarrow>
            if isAbs parsed \<or> ur_Host parsed \<noteq> [] \<or> ur_Fragment parsed \<noteq> [] \<or> ur_Path parsed = [] then []
            else requestURI parsed))"

definition marshalReturnState :: "returnStatePayload \<Rightarrow> string" where
  "marshalReturnState p =
     jsonFields ([(''n'', jsonString (rp_Nonce p)), (''p'', jsonString (rp_Path p)), (''e'', showInt (rp_ExpiresAt p))]
                 @ (if rp_Partitioned p then [(''c'', ''true'')] else []))"

text \<open>\<^verbatim>\<open>newReturnState\<close>: the nonce and the cookie value, or nothing when the random source fails.\<close>

definition newReturnState :: "string \<Rightarrow> bool \<Rightarrow> (string \<times> string) option px" where
  "newReturnState path0 partitioned =
     (if path0 = [] then Ret None
      else let path = (if maxReturnPathBytes < length path0 then ''/'' else path0) in
        bind (randomString 32) (\<lambda>nonce0.
        case nonce0 of
          None \<Rightarrow> Ret None
        | Some nonce \<Rightarrow>
            bind readNow (\<lambda>t.
            Ret (Some (nonce, encodeToString (marshalReturnState
              \<lparr>rp_Nonce = nonce, rp_Path = path, rp_ExpiresAt = unixSeconds (t + stateTTL), rp_Partitioned = partitioned\<rparr>))))))"

definition decodeReturnState :: "proxyEnv \<Rightarrow> string \<Rightarrow> returnStatePayload option" where
  "decodeReturnState E value0 =
     (let v = trimSpace value0 in
      if v = [] \<or> maxReturnCookieBytes < length v then None
      else (case decodeString v of
          None \<Rightarrow> None
        | Some raw \<Rightarrow>
            (case pe_unmarshal E raw of
               None \<Rightarrow> None
             | Some payload \<Rightarrow> if rp_Nonce payload = [] \<or> rp_ExpiresAt payload = 0 then None else Some payload)))"

definition requestUsesPartitionedCookies :: "pxRequest \<Rightarrow> bool" where
  "requestUsesPartitionedCookies r \<longleftrightarrow>
     equalFold (trimSpace (hdrGet (px_Headers r) ''Sec-Fetch-Dest'')) ''iframe''
   \<and> equalFold (trimSpace (hdrGet (px_Headers r) ''Sec-Fetch-Site'')) ''cross-site''"

definition appCookieSameSite :: "bool \<Rightarrow> sameSite" where
  "appCookieSameSite partitioned = (if partitioned then SameSiteNone else SameSiteLax)"

definition returnCookieName :: "string \<Rightarrow> string" where
  "returnCookieName state = ReturnCookieName @ ''-'' @ hexEncode (take 16 (sum256 state))"

definition returnCookie :: "string \<Rightarrow> string \<Rightarrow> bool \<Rightarrow> cookie" where
  "returnCookie state v partitioned =
     \<lparr>ck_Name = returnCookieName state, ck_Value = v, ck_Path = CallbackPath, ck_Secure = True, ck_HttpOnly = True,
      ck_SameSite = appCookieSameSite partitioned, ck_Partitioned = partitioned, ck_MaxAge = stateTTL div second\<rparr>"

definition clearReturnCookie :: "string \<Rightarrow> bool \<Rightarrow> cookie" where
  "clearReturnCookie name partitioned =
     \<lparr>ck_Name = name, ck_Value = [], ck_Path = (if equalFold name ReturnCookieName then ''/'' else CallbackPath),
      ck_Secure = True, ck_HttpOnly = True, ck_SameSite = appCookieSameSite partitioned, ck_Partitioned = partitioned,
      ck_MaxAge = - 1\<rparr>"

definition sessionCookie :: "string \<Rightarrow> bool \<Rightarrow> int \<Rightarrow> cookie" where
  "sessionCookie v partitioned maxAge =
     \<lparr>ck_Name = SessionCookieName, ck_Value = v, ck_Path = ''/'', ck_Secure = True, ck_HttpOnly = True,
      ck_SameSite = appCookieSameSite partitioned, ck_Partitioned = partitioned, ck_MaxAge = maxAge\<rparr>"

definition clearSessionCookie :: "bool \<Rightarrow> cookie" where
  "clearSessionCookie partitioned = sessionCookie [] partitioned (- 1)"

section \<open>Redirects\<close>

text \<open>\<^verbatim>\<open>http.Redirect\<close>: a URL without scheme and host is made absolute and cleaned; bytes beyond ASCII are escaped.\<close>

definition hexEscapeNonASCII :: "string \<Rightarrow> string" where
  "hexEscapeNonASCII s =
     concat (map (\<lambda>c. let n = (of_char c :: nat) in
        if 128 \<le> n then [CHR ''%'', hexDigit (n div 16), hexDigit (n mod 16)] else [c]) s)"

definition redirectLocation :: "netLib \<Rightarrow> string \<Rightarrow> string \<Rightarrow> string" where
  "redirectLocation N oldpath0 target =
     hexEscapeNonASCII
       (case urlParse (nb_literal N) target of
          None \<Rightarrow> target
        | Some u \<Rightarrow>
            if ur_Scheme u \<noteq> [] \<or> ur_Host u \<noteq> [] then target
            else let oldpath = (if oldpath0 = [] then ''/'' else oldpath0);
                     absolute = (if target = [] \<or> hd target \<noteq> CHR ''/''
                                 then rev (dropWhile (\<lambda>c. c \<noteq> CHR ''/'') (rev oldpath)) @ target else target);
                     path = takeWhile (\<lambda>c. c \<noteq> CHR ''?'') absolute;
                     query = dropWhile (\<lambda>c. c \<noteq> CHR ''?'') absolute;
                     clean = pathClean path
                 in (if hasSuffix path ''/'' \<and> \<not> hasSuffix clean ''/'' then clean @ ''/'' else clean) @ query)"

definition redirect :: "proxyEnv \<Rightarrow> pxRequest \<Rightarrow> cookie list \<Rightarrow> string \<Rightarrow> outcome" where
  "redirect E r cookies target =
     Respond \<lparr>rs_Status = 302, rs_Cookies = cookies,
       rs_Headers = [(''Cache-Control'', ''no-store''), (''Location'', redirectLocation (pe_net E) (ur_Path (px_URL r)) target)],
       rs_Body = NoBody\<rparr>"

definition authorizeLocation :: "proxyEnv \<Rightarrow> string \<Rightarrow> string" where
  "authorizeLocation E handle =
     (let cfg = pe_cfg E; ref = pc_Instance (nz_Config cfg) in
      nz_hubPublicURL cfg @ hubAuthorizePath @ ''?''
        @ encodeQuery [(''cluster'', ir_Cluster ref), (''group'', ir_Group ref), (''name'', ir_Name ref),
            (''redirect_uri'', nz_publicScheme cfg @ ''://'' @ nz_host cfg @ CallbackPath),
            (''resource'', ir_Resource ref), (''state'', handle)])"

text \<open>\<open>before\<close> are the cookies already set on the response.\<close>

definition redirectToAuthorizeWithMode :: "proxyEnv \<Rightarrow> pxRequest \<Rightarrow> cookie list \<Rightarrow> string \<Rightarrow> bool \<Rightarrow> outcome px" where
  "redirectToAuthorizeWithMode E r before path0 partitioned =
     bind (newReturnState (if path0 = [] then ''/'' else path0) partitioned) (\<lambda>st.
     Ret (case st of
            None \<Rightarrow> Respond ((reply 500 ''app access state unavailable'')\<lparr>rs_Cookies := before\<rparr>)
          | Some (handle, cookieValue) \<Rightarrow>
              redirect E r (before @ [returnCookie handle cookieValue partitioned]) (authorizeLocation E handle)))"

definition redirectToAuthorize :: "proxyEnv \<Rightarrow> pxRequest \<Rightarrow> string \<Rightarrow> outcome px" where
  "redirectToAuthorize E r path = redirectToAuthorizeWithMode E r [] path (requestUsesPartitionedCookies r)"

section \<open>The callback\<close>

record returnStateOutcome =
  ro_Path :: string
  ro_CookieName :: string
  ro_OK :: bool
  ro_Restart :: bool
  ro_RestartPath :: string
  ro_Partitioned :: bool

definition noOutcome :: returnStateOutcome where
  "noOutcome = \<lparr>ro_Path = [], ro_CookieName = [], ro_OK = False, ro_Restart = False, ro_RestartPath = [], ro_Partitioned = False\<rparr>"

text \<open>The cookies it sets on the response come with the outcome.\<close>

definition returnCookieOf :: "pxRequest \<Rightarrow> string \<Rightarrow> (string \<times> string) option" where
  "returnCookieOf r state =
     (case cookieNamed (px_Headers r) (returnCookieName state) of
        Some v \<Rightarrow> Some (returnCookieName state, v)
      | None \<Rightarrow> map_option (Pair ReturnCookieName) (cookieNamed (px_Headers r) ReturnCookieName))"

definition spendState :: "returnStatePayload \<Rightarrow> bool px" where
  "spendState payload =
     bind readNow (\<lambda>t. Ask (AskStore (OpMarkUsed t (rp_Nonce payload) (unixTime (rp_ExpiresAt payload)))) (\<lambda>r.
     Ret (case pa_store r of RpFresh b \<Rightarrow> b | _ \<Rightarrow> False)))"

definition consumeReturnState :: "proxyEnv \<Rightarrow> pxRequest \<Rightarrow> string \<Rightarrow> bool \<Rightarrow> (returnStateOutcome \<times> cookie list) px" where
  "consumeReturnState E r state partitioned =
     (case returnCookieOf r state of
        None \<Rightarrow> Ret (noOutcome, [])
      | Some (cookieName, v) \<Rightarrow>
          (case decodeReturnState E v of
             None \<Rightarrow> Ret (noOutcome\<lparr>ro_Restart := True, ro_RestartPath := ''/'', ro_Partitioned := partitioned\<rparr>,
                          [clearReturnCookie cookieName partitioned])
           | Some payload \<Rightarrow>
               if state = [] \<or> rp_Nonce payload \<noteq> state then Ret (noOutcome, [])
               else bind readNow (\<lambda>t.
                 if \<not> t < unixTime (rp_ExpiresAt payload)
                 then Ret (noOutcome\<lparr>ro_Restart := True, ro_RestartPath := cleanReturnPath (pe_net E) (rp_Path payload),
                                     ro_Partitioned := rp_Partitioned payload\<rparr>,
                           [clearReturnCookie cookieName partitioned])
                 else bind (spendState payload) (\<lambda>fresh.
                   if \<not> fresh then Ret (noOutcome, [clearReturnCookie cookieName partitioned])
                   else let path = cleanReturnPath (pe_net E) (rp_Path payload) in
                     Ret (noOutcome\<lparr>ro_Path := (if path = [] then ''/'' else path), ro_CookieName := cookieName,
                                    ro_OK := True, ro_Partitioned := rp_Partitioned payload\<rparr>, [])))))"

definition refOf :: "proxyEnv \<Rightarrow> verifyRequest" where
  "refOf E = (let ref = pc_Instance (nz_Config (pe_cfg E)) in
     \<lparr>vr_Cluster = ir_Cluster ref, vr_Group = ir_Group ref, vr_Resource = ir_Resource ref, vr_Name = ir_Name ref\<rparr>)"

text \<open>\<^verbatim>\<open>putSession\<close>: the value of the new session, or nothing when the random source fails.\<close>

definition putSession :: "string \<Rightarrow> int \<Rightarrow> string option px" where
  "putSession userID ttlSeconds =
     bind (randomString 32) (\<lambda>v0.
     case v0 of
       None \<Rightarrow> Ret None
     | Some v \<Rightarrow> bind readNow (\<lambda>t. Ask (AskStore (OpPutSession t v userID ttlSeconds)) (\<lambda>_. Ret (Some v))))"

text \<open>From the answer of the exchange on; \<open>clear\<close> clears the return cookie.\<close>

definition finishSignIn :: "proxyEnv \<Rightarrow> pxRequest \<Rightarrow> cookie \<Rightarrow> string \<Rightarrow> bool \<Rightarrow> exchangeResponse \<Rightarrow> outcome px" where
  "finishSignIn E r clear returnPath partitioned exchange =
     (if \<not> ex_Allowed exchange \<or> trimSpace (ex_UserID exchange) = []
      then Ret (Respond ((reply 502 ''invalid app access exchange'')\<lparr>rs_Cookies := [clear]\<rparr>))
      else bind (putSession (ex_UserID exchange) (ex_SessionTTLSeconds exchange)) (\<lambda>v0.
        Ret (case v0 of
               None \<Rightarrow> Respond ((reply 500 ''app session unavailable'')\<lparr>rs_Cookies := [clear]\<rparr>)
             | Some v \<Rightarrow> redirect E r [clear, sessionCookie v partitioned 0] returnPath)))"

definition exchangeCode :: "proxyEnv \<Rightarrow> pxRequest \<Rightarrow> string \<Rightarrow> returnStateOutcome \<Rightarrow> outcome px" where
  "exchangeCode E r code outcome =
     (let cfg = pe_cfg E; partitioned = ro_Partitioned outcome;
          clear = clearReturnCookie (ro_CookieName outcome) partitioned;
          gone = clearSessionCookie partitioned in
      Ask (AskExchange (nz_hubURL cfg @ hubExchangePath) \<lparr>er_Code = code, er_Host = nz_host cfg, er_Ref = refOf E\<rparr>) (\<lambda>a.
      case pa_hub a of
        HubNoRequest \<Rightarrow> Ret (Respond ((reply 502 ''app access exchange unavailable'')\<lparr>rs_Cookies := [clear]\<rparr>))
      | HubUnreachable \<Rightarrow> Ret (Respond ((reply 502 ''app access exchange unavailable'')\<lparr>rs_Cookies := [clear, gone]\<rparr>))
      | HubReplied h \<Rightarrow>
          if hb_Status h = 410 then redirectToAuthorizeWithMode E r [clear] (ro_Path outcome) partitioned
          else if hb_Status h < 200 \<or> 300 \<le> hb_Status h
          then Ret (Respond ((reply 502 ''app access exchange denied'')\<lparr>rs_Cookies := [clear, gone]\<rparr>))
          else (case hb_Body h of
              None \<Rightarrow> Ret (Respond ((reply 502 ''invalid app access exchange'')\<lparr>rs_Cookies := [clear]\<rparr>))
            | Some exchange \<Rightarrow> finishSignIn E r clear (ro_Path outcome) partitioned exchange)))"

definition handleCallback :: "proxyEnv \<Rightarrow> pxRequest \<Rightarrow> outcome px" where
  "handleCallback E r =
     (let partitioned = requestUsesPartitionedCookies r; query = ur_RawQuery (px_URL r) in
      bind (consumeReturnState E r (queryGet query ''state'') partitioned) (\<lambda>(outcome, cookies).
      if \<not> ro_OK outcome
      then (if ro_Restart outcome
            then redirectToAuthorizeWithMode E r cookies (ro_RestartPath outcome) (ro_Partitioned outcome)
            else Ret (Respond ((reply 400 ''invalid app access state'')\<lparr>rs_Cookies := cookies\<rparr>)))
      else let code = trimSpace (queryGet query ''code'') in
        if code = []
        then Ret (Respond ((reply 400 ''missing app access code'')\<lparr>rs_Cookies :=
               cookies @ [clearReturnCookie (ro_CookieName outcome) (ro_Partitioned outcome)]\<rparr>))
        else exchangeCode E r code outcome))"

section \<open>Bearer tokens\<close>

definition bearerAllowMaxTTL :: int where "bearerAllowMaxTTL = 15 * 60 * second"
definition bearerDenyTTL :: int where "bearerDenyTTL = 30 * second"
definition maxBearerTokenBytes :: nat where "maxBearerTokenBytes = 16384"
definition appTokenPrefix :: string where "appTokenPrefix = ''fapp_''"
definition hubTokenPath :: string where "hubTokenPath = ''/auth/apps/token''"

text \<open>\<^verbatim>\<open>bearerCredential\<close>: \<^term>\<open>None\<close> for a request that is not a bearer request; an empty token is a refused credential.\<close>

definition bearerCredential :: "pxRequest \<Rightarrow> string option" where
  "bearerCredential r =
     (let vs = hdrValues (px_Headers r) ''Authorization'' in
      if \<not> list_ex (\<lambda>v. equalFold (fst (cutAt (CHR '' '') (trimSpace v))) ''Bearer'') vs then None
      else if length vs \<noteq> 1 then Some []
      else let token = trimSpace (fst (snd (cutAt (CHR '' '') (trimSpace (hd vs))))) in
        if token = [] \<or> maxBearerTokenBytes < length token \<or> containsAny token [CHR '' '', CHR 0x09, CHR 0x0D, CHR 0x0A]
        then Some [] else Some token)"

definition bearerHeaders :: "string smap" where
  "bearerHeaders = [(''Content-Type'', ''application/json''), (''Cache-Control'', ''no-store''), (''X-Content-Type-Options'', ''nosniff'')]"

definition writeBearerError :: "proxyEnv \<Rightarrow> nat \<Rightarrow> string \<Rightarrow> pxResponse" where
  "writeBearerError E status retryAfter =
     (if status = 401
      then \<lparr>rs_Status = 401, rs_Cookies = [],
            rs_Headers = (''WWW-Authenticate'', ''Bearer realm='' @ [CHR 0x22] @ ''railgrid'' @ [CHR 0x22] @ '', error='' @ [CHR 0x22] @ ''invalid_token'' @ [CHR 0x22]) # bearerHeaders,
            rs_Body = BearerBody ''invalid_token''
              ''This app accepts only app access tokens. Mint one for this app at the token endpoint with your platform token, then send it as a Bearer token.''
              (nz_hubPublicURL (pe_cfg E) @ hubTokenPath) (Some (refOf E))\<rparr>
      else if status = 403
      then \<lparr>rs_Status = 403, rs_Cookies = [], rs_Headers = bearerHeaders,
            rs_Body = BearerBody ''access_denied'' ''This account does not have access to this application. Ask the app owner to share it with you.'' [] None\<rparr>
      else if status = 429
      then \<lparr>rs_Status = 429, rs_Cookies = [],
            rs_Headers = (''Retry-After'',
               if retryAfter = [] \<or> 6 < length retryAfter \<or> trimLeftSet ''0123456789'' retryAfter \<noteq> [] then ''30'' else retryAfter) # bearerHeaders,
            rs_Body = BearerBody ''rate_limited'' ''Too many failed verifications. Try again shortly.'' [] None\<rparr>
      else \<lparr>rs_Status = 502, rs_Cookies = [], rs_Headers = bearerHeaders,
            rs_Body = BearerBody ''unavailable'' ''App access verification is unavailable. Try again shortly.'' [] None\<rparr>)"

text \<open>\<^verbatim>\<open>verifyBearer\<close>: the status, the grant and the Retry-After header.\<close>

definition noGrant :: exchangeResponse where
  "noGrant = \<lparr>ex_Allowed = False, ex_UserID = [], ex_SessionTTLSeconds = 0\<rparr>"

definition verifyBearer :: "proxyEnv \<Rightarrow> string \<Rightarrow> (nat \<times> exchangeResponse \<times> string) px" where
  "verifyBearer E token =
     Ask (AskVerify (nz_hubURL (pe_cfg E) @ hubVerifyPath) token (refOf E)) (\<lambda>a.
     Ret (case pa_hub a of
            HubNoRequest \<Rightarrow> (502, noGrant, [])
          | HubUnreachable \<Rightarrow> (502, noGrant, [])
          | HubReplied h \<Rightarrow>
              if hb_Status h = 200
              then (case hb_Body h of
                      None \<Rightarrow> (502, noGrant, [])
                    | Some grant \<Rightarrow>
                        if \<not> ex_Allowed grant \<or> trimSpace (ex_UserID grant) = [] then (502, noGrant, [])
                        else (200, grant, []))
              else if hb_Status h = 401 \<or> hb_Status h = 403 then (hb_Status h, noGrant, [])
              else if hb_Status h = 429 then (429, noGrant, hb_RetryAfter h)
              else (502, noGrant, [])))"

definition putVerdict :: "string \<Rightarrow> string \<Rightarrow> nat \<Rightarrow> int \<Rightarrow> unit px" where
  "putVerdict token userID denyStatus ttl =
     bind readNow (\<lambda>t. Ask (AskStore (OpPutVerdict t token
        \<lparr>as_userID = userID, as_expiresAt = 0, as_bearer = True, as_denyStatus = denyStatus\<rparr> ttl)) (\<lambda>_. Ret ()))"

definition verdictTTL :: "int \<Rightarrow> int" where
  "verdictTTL seconds =
     (let ttl = durSeconds seconds in if ttl \<le> 0 \<or> bearerAllowMaxTTL < ttl then bearerAllowMaxTTL else ttl)"

text \<open>\<^verbatim>\<open>authorizeBearer\<close>: \<^term>\<open>None\<close> when the request may be forwarded, else the response.\<close>

definition authorizeBearer :: "proxyEnv \<Rightarrow> string \<Rightarrow> pxResponse option px" where
  "authorizeBearer E token =
     (if token = [] \<or> \<not> hasPrefix token appTokenPrefix then Ret (Some (writeBearerError E 401 []))
      else bind readNow (\<lambda>t. bind (storeSession (OpCachedVerdict t token)) (\<lambda>cached.
        case cached of
          Some verdict \<Rightarrow> Ret (if as_denyStatus verdict = 0 then None else Some (writeBearerError E (as_denyStatus verdict) []))
        | None \<Rightarrow>
            if \<not> pe_relay E then Ret (Some (writeBearerError E 502 []))
            else bind (verifyBearer E token) (\<lambda>(status, grant, retryAfter).
              if status = 200
              then bind (putVerdict token (ex_UserID grant) 0 (verdictTTL (ex_SessionTTLSeconds grant))) (\<lambda>_. Ret None)
              else if status = 401 \<or> status = 403
              then bind (putVerdict token [] status bearerDenyTTL) (\<lambda>_. Ret (Some (writeBearerError E status [])))
              else if status = 429 then Ret (Some (writeBearerError E 429 retryAfter))
              else Ret (Some (writeBearerError E 502 []))))))"

section \<open>Serving\<close>

definition requestHost :: "pxRequest \<Rightarrow> string" where
  "requestHost r = (if trimSpace (px_Host r) \<noteq> [] then px_Host r else ur_Host (px_URL r))"

definition forward :: "pxRequest \<Rightarrow> normalizedRoute \<Rightarrow> outcome" where
  "forward r rt =
     Forward ((nr_target rt)\<lparr>ur_Path := joinTargetPath (ur_Path (nr_target rt)) (routeSuffix (nr_prefix rt) (ur_Path (px_URL r))),
                             ur_RawPath := [], ur_RawQuery := ur_RawQuery (px_URL r)\<rparr>)
       (stripUpstreamRequestHeaders (px_Headers r))"

definition sessionCookies :: "pxRequest \<Rightarrow> string list" where
  "sessionCookies r = map snd (filter (\<lambda>(name, v). name = SessionCookieName \<and> trimSpace v \<noteq> []) (readCookies (px_Headers r)))"

definition gateRequest :: "proxyEnv \<Rightarrow> pxRequest \<Rightarrow> outcome \<Rightarrow> outcome px" where
  "gateRequest E r pass =
     bind readNow (\<lambda>t. bind (storeSession (OpCurrent t (sessionCookies r))) (\<lambda>session.
     if session \<noteq> None then Ret pass
     else (case bearerCredential r of
         Some token \<Rightarrow>
           bind (authorizeBearer E token) (\<lambda>refused.
           Ret (case refused of None \<Rightarrow> pass | Some resp \<Rightarrow> Respond resp))
       | None \<Rightarrow> redirectToAuthorize E r (cleanReturnPath (pe_net E) (requestURI (px_URL r))))))"

definition serveAccess :: "proxyEnv \<Rightarrow> pxRequest \<Rightarrow> outcome px" where
  "serveAccess E r =
     (let cfg = pe_cfg E; mode = pc_Mode (nz_Config cfg) in
      if canonicalHost (requestHost r) \<noteq> Inr (nz_host cfg)
      then Ret (Respond \<lparr>rs_Status = 421, rs_Cookies = [], rs_Headers = [], rs_Body = NoBody\<rparr>)
      else if ur_Path (px_URL r) = CallbackPath
      then (if mode \<noteq> ModePrivate then Ret (Respond (reply 404 ''404 page not found'')) else handleCallback E r)
      else (case routeFor cfg (ur_Path (px_URL r)) of
          None \<Rightarrow> Ret (Respond (reply 404 ''404 page not found''))
        | Some rt \<Rightarrow> if mode = ModePrivate then gateRequest E r (forward r rt) else Ret (forward r rt)))"

end
