(* ===== verification/Access_Sessions.thy ===== *)
theory Access_Sessions
  imports Access_Store
begin

text \<open>
  What the store of the access proxy guarantees, whatever the interleaving of requests: it stays
  bounded and its loops end, a session or verdict it returns was put there earlier and has not
  expired, and what was put can be read back.
\<close>

section \<open>Eviction\<close>

definition keysOk :: "'v smap \<Rightarrow> bool" where
  "keysOk m \<longleftrightarrow> mwf m \<and> (\<forall>(k, v) \<in> set m. k \<noteq> [])"

lemma keysOk_mdel [simp]: "keysOk m \<Longrightarrow> keysOk (mdel k m)"
  by (auto simp: keysOk_def set_mdel)

lemma set_mput: "set (mput k v m) \<subseteq> insert (k, v) (set m)"
  by (induction m) (auto split: if_splits)

lemma keysOk_mput [simp]: "keysOk m \<Longrightarrow> k \<noteq> [] \<Longrightarrow> keysOk (mput k v m)"
  using set_mput [of k v m] by (auto simp: keysOk_def)

lemma keysOk_filter [simp]: "keysOk m \<Longrightarrow> keysOk (filter P m)"
  by (auto simp: keysOk_def distinct_map_filter)

text \<open>Eviction removes one entry, and none that expires earlier stays.\<close>

locale eviction =
  fixes evict :: "'v smap \<Rightarrow> 'v smap" and age :: "'v \<Rightarrow> int"
  assumes evict_oldest: "keysOk m \<Longrightarrow> m \<noteq> [] \<Longrightarrow>
    \<exists>k v. (k, v) \<in> set m \<and> evict m = mdel k m \<and> (\<forall>(k', v') \<in> set m. age v \<le> age v')"
begin

lemma evict_shrinks: "keysOk m \<Longrightarrow> m \<noteq> [] \<Longrightarrow> length (evict m) < length m \<and> keysOk (evict m) \<and> set (evict m) \<subseteq> set m"
proof -
  assume m: "keysOk m" "m \<noteq> []"
  from evict_oldest [OF m] obtain k v where "(k, v) \<in> set m" "evict m = mdel k m" by blast
  moreover from this(1) have "k \<in> fst ` set m" by (rule image_eqI [rotated]) simp
  ultimately show ?thesis using m(1) by (auto simp: set_mdel intro: length_mdel_less)
qed

lemma evictLoop_returns:
  assumes "keysOk m" and "0 < cap"
  shows "\<exists>m'. evictLoop evict cap m = Some m' \<and> length m' < cap \<and> keysOk m' \<and> set m' \<subseteq> set m"
  using assms(1)
proof (induction "length m" arbitrary: m rule: less_induct)
  case less
  show ?case
  proof (cases "cap \<le> length m")
    case True
    then have "m \<noteq> []" using assms(2) by auto
    from evict_shrinks [OF less.prems this] less.hyps [of "evict m"] True show ?thesis
      by (subst evictLoop.simps) auto
  qed (use less.prems in \<open>subst evictLoop.simps, simp\<close>)
qed

lemma evictLoop_id: "length m < cap \<Longrightarrow> evictLoop evict cap m = Some m"
  by (subst evictLoop.simps) simp

text \<open>What the loop drops expires no later than what it keeps.\<close>

lemma evictLoop_oldest:
  assumes "keysOk m" and "0 < cap" and "evictLoop evict cap m = Some m'"
    and "(k, v) \<in> set m" and "(k, v) \<notin> set m'" and "(k', v') \<in> set m'"
  shows "age v \<le> age v'"
  using assms(1,3-6)
proof (induction "length m" arbitrary: m rule: less_induct)
  case less
  show ?case
  proof (cases "cap \<le> length m")
    case True
    then have ne: "m \<noteq> []" using assms(2) by auto
    from evict_oldest [OF less.prems(1) ne] obtain k0 v0 where
      e: "(k0, v0) \<in> set m" "evict m = mdel k0 m" "\<forall>(k', v') \<in> set m. age v0 \<le> age v'" by blast
    have l: "evictLoop evict cap (evict m) = Some m'" using less.prems(2) True by (subst (asm) evictLoop.simps) simp
    from evict_shrinks [OF less.prems(1) ne] have s: "length (evict m) < length m" "keysOk (evict m)" by auto
    have "(k', v') \<in> set m" using less.prems(5) evictLoop_returns [OF s(2) assms(2)] l e(2) by (auto simp: set_mdel)
    show ?thesis
    proof (cases "(k, v) \<in> set (evict m)")
      case True
      then show ?thesis using less.hyps [OF s(1,2) l] less.prems(4,5) by blast
    next
      case False
      then have "k = k0" using less.prems(3) e(2) by (auto simp: set_mdel)
      then have "v = v0" using less.prems(1,3) e(1) by (auto simp: keysOk_def eq_key_imp_eq_value)
      then show ?thesis using e(3) \<open>(k', v') \<in> set m\<close> by auto
    qed
  next
    case False
    then show ?thesis using less.prems by (subst (asm) evictLoop.simps) simp
  qed
qed

end

lemma oldestKey_min:
  "\<forall>(k, v) \<in> set m. k \<noteq> [] \<Longrightarrow> k \<noteq> [] \<Longrightarrow>
   \<exists>x. (oldestKey f m k t = k \<and> x = t \<or> (\<exists>v. (oldestKey f m k t, v) \<in> set m \<and> x = f v))
     \<and> x \<le> t \<and> (\<forall>(k', v') \<in> set m. x \<le> f v')"
proof (induction m arbitrary: k t)
  case (Cons p m)
  obtain k' v' where p: "p = (k', v')" by (cases p)
  have ok: "\<forall>(k, v) \<in> set m. k \<noteq> []" "k' \<noteq> []" using Cons.prems(1) p by auto
  define k1 t1 where "k1 = (if f v' < t then k' else k)" and "t1 = (if f v' < t then f v' else t)"
  have r: "oldestKey f (p # m) k t = oldestKey f m k1 t1" unfolding k1_def t1_def p using Cons.prems(2) by simp
  have "k1 \<noteq> []" unfolding k1_def using ok(2) Cons.prems(2) by simp
  from Cons.IH [OF ok(1) this, of t1] obtain x where
    x: "oldestKey f m k1 t1 = k1 \<and> x = t1 \<or> (\<exists>v. (oldestKey f m k1 t1, v) \<in> set m \<and> x = f v)"
       "x \<le> t1" "\<forall>(k', v') \<in> set m. x \<le> f v'" by blast
  have "t1 \<le> t" "t1 \<le> f v'" unfolding t1_def by auto
  then have "x \<le> t" "\<forall>(k', v') \<in> set (p # m). x \<le> f v'" using x(2,3) p by auto
  moreover have "oldestKey f m k1 t1 = k \<and> x = t \<or> (\<exists>v. (oldestKey f m k1 t1, v) \<in> set (p # m) \<and> x = f v)"
    using x(1) unfolding k1_def t1_def p by (auto split: if_splits)
  ultimately show ?case unfolding r by blast
qed auto

lemma evictOldest_oldest:
  assumes "keysOk m" and "m \<noteq> []"
  shows "\<exists>k v. (k, v) \<in> set m \<and> evictOldest f m = mdel k m \<and> (\<forall>(k', v') \<in> set m. f v \<le> f v')"
proof -
  obtain k v r where m: "m = (k, v) # r" using assms(2) by (cases m) auto
  then have "k \<noteq> []" "\<forall>(k, v) \<in> set r. k \<noteq> []" using assms(1) by (auto simp: keysOk_def)
  from oldestKey_min [OF this(2,1), of f "f v"] obtain x where
    x: "oldestKey f r k (f v) = k \<and> x = f v \<or> (\<exists>v'. (oldestKey f r k (f v), v') \<in> set r \<and> x = f v')"
       "x \<le> f v" "\<forall>(k', v') \<in> set r. x \<le> f v'" by blast
  have all: "\<forall>(k', w) \<in> set m. x \<le> f w" using x(2,3) unfolding m by simp
  have "\<exists>v'. (oldestKey f r k (f v), v') \<in> set m \<and> x = f v'" using x(1) unfolding m by auto
  then obtain v' where v': "(oldestKey f r k (f v), v') \<in> set m" "\<forall>(k', w) \<in> set m. f v' \<le> f w" using all by blast
  then have "oldestKey f r k (f v) \<noteq> []" using assms(1) by (auto simp: keysOk_def)
  then have "evictOldest f m = mdel (oldestKey f r k (f v)) m" unfolding evictOldest_def m by simp
  with v' show ?thesis by blast
qed

interpretation used: eviction evictOldestUsed "\<lambda>exp. exp"
  by unfold_locales (simp add: evictOldestUsed_def evictOldest_oldest)

interpretation sess: eviction evictOldestSession as_expiresAt
  by unfold_locales (simp add: evictOldestSession_def evictOldest_oldest)

section \<open>The invariant of the store\<close>

definition storeWf :: "store \<Rightarrow> bool" where
  "storeWf s \<longleftrightarrow> keysOk (so_usedStates s) \<and> keysOk (so_sessions s)
     \<and> length (so_usedStates s) \<le> maxUsedStates \<and> length (so_sessions s) \<le> maxSessions"

lemma caps_pos [simp]: "0 < maxUsedStates" "0 < maxSessions"
  by (simp_all add: maxUsedStates_def maxSessions_def)

lemma keys_not_Nil [simp]: "sessionKey v \<noteq> []" "bearerKey t \<noteq> []"
proof -
  have "length (sha256Hex v) = 64" by simp
  then show "sessionKey v \<noteq> []" unfolding sessionKey_def by (metis list.size(3) zero_neq_numeral)
qed (simp add: bearerKey_def bearerKeyPrefix_def)

lemma keys_disjoint: "sessionKey v \<noteq> bearerKey t"
proof
  assume "sessionKey v = bearerKey t"
  then have "length (sessionKey v) = length (bearerKey t)" by simp
  then show False by (simp add: sessionKey_def bearerKey_def bearerKeyPrefix_def)
qed

lemma storeWf_empty: "storeWf emptyStore"
  by (simp add: storeWf_def emptyStore_def keysOk_def)

lemma sweepSessions_wf:
  "storeWf s \<Longrightarrow> storeWf (sweepSessions now s)"
  "set (so_sessions (sweepSessions now s)) \<subseteq> set (so_sessions s)"
  "so_usedStates (sweepSessions now s) = so_usedStates s"
  by (auto simp: sweepSessions_def storeWf_def intro: order_trans [OF length_filter_le])

lemma sweepUsedStates_wf:
  "storeWf s \<Longrightarrow> storeWf (sweepUsedStates now s)"
  "set (so_usedStates (sweepUsedStates now s)) \<subseteq> set (so_usedStates s)"
  "so_sessions (sweepUsedStates now s) = so_sessions s"
  by (auto simp: sweepUsedStates_def storeWf_def intro: order_trans [OF length_filter_le])

lemma scanSessions_sub:
  assumes "scanSessions now vs m = (r, m')"
  shows "set m' \<subseteq> set m \<and> length m' \<le> length m \<and> (keysOk m \<longrightarrow> keysOk m')"
  using assms
proof (induction now vs m rule: scanSessions.induct)
  case (2 now v vs m)
  show ?case
    using 2 length_mdel_le [of "sessionKey v" m]
    by (auto simp: set_mdel split: option.splits if_splits)
qed simp

lemma length_mput_le: "length (mput k v m) \<le> Suc (length m)"
  by (simp add: length_mput)

text \<open>Where the entries of the session map come from.\<close>

fun grants :: "storeOp \<Rightarrow> string \<times> appSession \<Rightarrow> bool" where
  "grants (OpPutSession now v u ttl) e =
     (e = (sessionKey v, \<lparr>as_userID = u, as_expiresAt = now + sessionTTL ttl, as_bearer = False, as_denyStatus = 0\<rparr>))"
| "grants (OpPutVerdict now t verdict ttl) e = (as_bearer verdict \<and> e = (bearerKey t, verdict\<lparr>as_expiresAt := now + ttl\<rparr>))"
| "grants oper e = False"

lemma mput_absent:
  assumes "evictLoop evictOldestSession maxSessions (so_sessions s) = Some m" and "storeWf s" and "k \<noteq> []"
  shows "storeWf (s\<lparr>so_sessions := mput k a m\<rparr>) \<and> set (mput k a m) \<subseteq> insert (k, a) (set (so_sessions s))"
proof -
  from sess.evictLoop_returns [of "so_sessions s" maxSessions] assms(1,2)
  have m: "length m < maxSessions" "keysOk m" "set m \<subseteq> set (so_sessions s)" by (auto simp: storeWf_def)
  have "length (mput k a m) \<le> maxSessions" using m(1) length_mput_le [of k a m] by linarith
  then show ?thesis using m assms(2,3) set_mput [of k a m] by (auto simp: storeWf_def)
qed

text \<open>One operation: it returns, keeps the invariant, and adds only what it was told to add.\<close>

definition safeStep :: "storeOp \<Rightarrow> store \<Rightarrow> (storeReply \<times> store) option \<Rightarrow> bool" where
  "safeStep oper s x \<longleftrightarrow>
     (case x of
        None \<Rightarrow> False
      | Some (r, s') \<Rightarrow> storeWf s' \<and> (\<forall>e \<in> set (so_sessions s'). e \<in> set (so_sessions s) \<or> grants oper e))"

lemma stepOp_safe:
  assumes wf: "storeWf s" and ok: "opOk oper"
  shows "safeStep oper s (stepOp oper s)"
proof (cases oper)
  case (OpCurrent now vs)
  obtain r m where sc: "scanSessions now vs (so_sessions (sweepSessions now s)) = (r, m)" by (metis surj_pair)
  show ?thesis
    using OpCurrent scanSessions_sub [OF sc] sweepSessions_wf [where s = s and now = now] wf sc
    by (auto simp: safeStep_def stepOp_def currentSession_def Let_def storeWf_def)
next
  case (OpMarkUsed now nonce exp)
  let ?s = "sweepUsedStates now s"
  have w: "storeWf ?s" by (rule sweepUsedStates_wf(1) [OF wf])
  from used.evictLoop_returns [of "so_usedStates ?s" maxUsedStates] w obtain m where
    m: "evictLoop evictOldestUsed maxUsedStates (so_usedStates ?s) = Some m" "length m < maxUsedStates" "keysOk m"
    by (auto simp: storeWf_def)
  have "length (mput nonce exp m) \<le> maxUsedStates" using m(2) length_mput_le [of nonce exp m] by linarith
  then show ?thesis
    using OpMarkUsed ok m w sweepUsedStates_wf(3) [of now s]
    by (auto simp: safeStep_def stepOp_def markStateUsed_def Let_def storeWf_def)
next
  case (OpPutSession now v u ttl)
  let ?s = "sweepSessions now s"
  have w: "storeWf ?s" by (rule sweepSessions_wf(1) [OF wf])
  from sess.evictLoop_returns [of "so_sessions ?s" maxSessions] w obtain m where
    m: "evictLoop evictOldestSession maxSessions (so_sessions ?s) = Some m" by (auto simp: storeWf_def)
  from mput_absent [OF m w keys_not_Nil(1)] show ?thesis
    using OpPutSession m sweepSessions_wf(2) [of now s] 
    by (auto simp: safeStep_def stepOp_def insertSession_def Let_def)
next
  case (OpCachedVerdict now t)
  let ?s = "sweepSessions now s"
  have w: "storeWf ?s" by (rule sweepSessions_wf(1) [OF wf])
  have "storeWf (?s\<lparr>so_sessions := mdel k (so_sessions ?s)\<rparr>)" for k
    using w length_mdel_le [of k "so_sessions ?s"] by (simp add: storeWf_def)
  then show ?thesis
    using OpCachedVerdict w sweepSessions_wf(2) [of now s]
    by (auto simp: safeStep_def stepOp_def cachedBearerVerdict_def Let_def set_mdel split: option.split)
next
  case (OpPutVerdict now t verdict ttl)
  let ?s = "sweepSessions now s" and ?v = "verdict\<lparr>as_expiresAt := now + ttl\<rparr>"
  have w: "storeWf ?s" by (rule sweepSessions_wf(1) [OF wf])
  have g: "grants oper (bearerKey t, ?v)" using ok OpPutVerdict by simp
  from sess.evictLoop_returns [of "so_sessions ?s" maxSessions] w obtain m where
    m: "evictLoop evictOldestSession maxSessions (so_sessions ?s) = Some m" by (auto simp: storeWf_def)
  show ?thesis
  proof (cases "map_of (so_sessions ?s) (bearerKey t)")
    case None
    with mput_absent [OF m w keys_not_Nil(2), of t ?v] show ?thesis
      using OpPutVerdict m sweepSessions_wf(2) [of now s] g
      by (auto simp: safeStep_def stepOp_def putBearerVerdict_def Let_def)
  next
    case (Some a)
    then have "bearerKey t \<in> fst ` set (so_sessions ?s)" by (metis map_of_eq_None_iff option.distinct(1))
    then have "storeWf (?s\<lparr>so_sessions := mput (bearerKey t) ?v (so_sessions ?s)\<rparr>)"
      using w by (simp add: storeWf_def length_mput)
    with Some show ?thesis
      using OpPutVerdict sweepSessions_wf(2) [of now s] set_mput [of "bearerKey t" ?v "so_sessions ?s"] g
      by (auto simp: safeStep_def stepOp_def putBearerVerdict_def Let_def)
  qed
qed

lemma storeReach_wf: "storeReach ops s \<Longrightarrow> storeWf s \<and> (\<forall>e \<in> set (so_sessions s). \<exists>oper \<in> set ops. grants oper e)"
proof (induction rule: storeReach.induct)
  case start
  show ?case by (simp add: storeWf_empty) (simp add: emptyStore_def)
next
  case (step ops s oper r s')
  then have wf: "storeWf s" by simp
  from stepOp_safe [OF wf step.hyps(2)] step.hyps(3)
  have "storeWf s'" "\<forall>e \<in> set (so_sessions s'). e \<in> set (so_sessions s) \<or> grants oper e"
    by (simp_all add: safeStep_def)
  with step.IH show ?case by auto
qed

section \<open>Authenticity\<close>

lemma scanSessions_found:
  "scanSessions now vs m = (Some a, m') \<Longrightarrow>
   \<exists>v \<in> set vs. map_of m (sessionKey v) = Some a \<and> \<not> as_bearer a \<and> now < as_expiresAt a"
proof (induction now vs m rule: scanSessions.induct)
  case (2 now v vs m)
  show ?case
  proof (cases "map_of m (sessionKey v)")
    case None
    with 2 show ?thesis by (fastforce split: if_splits)
  next
    case (Some b)
    with 2 show ?thesis by (fastforce split: if_splits)
  qed
qed simp

text \<open>A session that is returned was put there by an earlier operation and has not expired.\<close>

lemma session_traced:
  assumes "storeReach ops s" and "stepOp (OpCurrent now vs) s = Some (RpSession (Some a), s')"
  shows "\<exists>v \<in> set vs. \<exists>t v' ttl. OpPutSession t v' (as_userID a) ttl \<in> set ops \<and> sha256Hex v' = sha256Hex v
           \<and> now < t + sessionTTL ttl \<and> sessionTTL ttl \<le> 24 * 3600 * second"
proof -
  obtain m where sc: "scanSessions now vs (so_sessions (sweepSessions now s)) = (Some a, m)"
    using assms(2) by (auto simp: stepOp_def currentSession_def Let_def split: prod.splits)
  from scanSessions_found [OF sc] obtain v where
    v: "v \<in> set vs" "(sessionKey v, a) \<in> set (so_sessions s)" "\<not> as_bearer a" "now < as_expiresAt a"
    using sweepSessions_wf(2) [of now s] by (meson map_of_SomeD subsetD)
  from storeReach_wf [OF assms(1)] v(2) obtain oper where g: "oper \<in> set ops" "grants oper (sessionKey v, a)" by blast
  from g(2) v(3) obtain t v' ttl where
    p: "oper = OpPutSession t v' (as_userID a) ttl" "sessionKey v = sessionKey v'" "as_expiresAt a = t + sessionTTL ttl"
    by (cases oper) auto
  have "sessionTTL ttl \<le> 24 * 3600 * second" by (simp add: sessionTTL_def maxSessionTTL_def Let_def)
  with v g(1) p show ?thesis unfolding sessionKey_def by (metis (no_types, lifting))
qed

text \<open>The same for the cached verdict of a bearer token.\<close>

lemma verdict_authentic:
  assumes "storeReach ops s" and "stepOp (OpCachedVerdict now token) s = Some (RpSession (Some a), s')"
  shows "\<exists>t token' verdict ttl. OpPutVerdict t token' verdict ttl \<in> set ops \<and> sha256Hex token' = sha256Hex token
           \<and> as_userID verdict = as_userID a \<and> as_denyStatus verdict = as_denyStatus a \<and> now < t + ttl"
proof -
  have m: "map_of (so_sessions (sweepSessions now s)) (bearerKey token) = Some a" "as_bearer a" "now < as_expiresAt a"
    using assms(2) by (auto simp: stepOp_def cachedBearerVerdict_def Let_def split: option.splits if_splits)
  then have "(bearerKey token, a) \<in> set (so_sessions s)"
    using sweepSessions_wf(2) [of now s] by (meson map_of_SomeD subsetD)
  with storeReach_wf [OF assms(1)] obtain oper where g: "oper \<in> set ops" "grants oper (bearerKey token, a)" by blast
  from g(2) m(2) obtain t token' verdict ttl where
    p: "oper = OpPutVerdict t token' verdict ttl" "bearerKey token = bearerKey token'" "a = verdict\<lparr>as_expiresAt := t + ttl\<rparr>"
    by (cases oper) auto
  with g(1) m(3) show ?thesis unfolding bearerKey_def by fastforce
qed

text \<open>C12: Whatever requests are interleaved, the store holds at most 5,000 spent states and 20,000 sessions and verdicts,
  and every operation on it returns: its eviction loops end.\<close>

theorem store_bounded:
  assumes "storeReach ops s"
  shows "length (so_usedStates s) \<le> 5000 \<and> length (so_sessions s) \<le> 20000
    \<and> (\<forall>oper. opOk oper \<longrightarrow> (\<exists>r s'. stepOp oper s = Some (r, s')))"
proof -
  have wf: "storeWf s" using storeReach_wf [OF assms] by simp
  have "\<exists>r s'. stepOp oper s = Some (r, s')" if "opOk oper" for oper
    using stepOp_safe [OF wf that] by (auto simp: safeStep_def split: option.splits)
  with wf show ?thesis by (auto simp: storeWf_def maxUsedStates_def maxSessions_def)
qed

section \<open>Reading back\<close>

fun opTime :: "storeOp \<Rightarrow> int" where
  "opTime (OpCurrent now vs) = now"
| "opTime (OpMarkUsed now nonce exp) = now"
| "opTime (OpPutSession now v u ttl) = now"
| "opTime (OpCachedVerdict now token) = now"
| "opTime (OpPutVerdict now token verdict ttl) = now"

fun runOps :: "storeOp list \<Rightarrow> store \<Rightarrow> store option" where
  "runOps [] s = Some s"
| "runOps (oper # ops) s = (case stepOp oper s of None \<Rightarrow> None | Some (r, s') \<Rightarrow> runOps ops s')"

text \<open>An entry that has not expired stays while there is room and its key is not written again.\<close>

fun putsKey :: "storeOp \<Rightarrow> string \<Rightarrow> bool" where
  "putsKey (OpPutSession now v u ttl) k = (sessionKey v = k)"
| "putsKey (OpPutVerdict now token verdict ttl) k = (bearerKey token = k)"
| "putsKey oper k = False"

lemma sweepSessions_keeps:
  assumes "mwf (so_sessions s)" "map_of (so_sessions s) k = Some a" and "now < as_expiresAt a"
  shows "map_of (so_sessions (sweepSessions now s)) k = Some a"
proof -
  have "(k, a) \<in> set (filter (\<lambda>(k, a). now < as_expiresAt a) (so_sessions s))" using assms(2,3) by (auto dest: map_of_SomeD)
  moreover have "mwf (filter (\<lambda>(k, a). now < as_expiresAt a) (so_sessions s))" using assms(1) by (simp add: distinct_map_filter)
  ultimately show ?thesis using assms(2) by (simp add: sweepSessions_def)
qed

lemma scanSessions_keeps:
  "map_of m k = Some a \<Longrightarrow> now < as_expiresAt a \<Longrightarrow> scanSessions now vs m = (r, m') \<Longrightarrow> map_of m' k = Some a"
proof (induction now vs m rule: scanSessions.induct)
  case (2 now v vs m)
  then show ?case by (fastforce split: option.splits if_splits)
qed simp

lemma length_sweepSessions: "length (so_sessions (sweepSessions now s)) \<le> length (so_sessions s)"
  by (simp add: sweepSessions_def)

lemma mput_room: "length (mput k v (so_sessions (sweepSessions now s))) \<le> Suc (length (so_sessions s))"
  using length_mput_le [of k v "so_sessions (sweepSessions now s)"] length_sweepSessions [of now s] by linarith

lemma stepOp_keeps:
  assumes "storeWf s" and "length (so_sessions s) < maxSessions" and "map_of (so_sessions s) k = Some a"
    and "opTime oper < as_expiresAt a" and "\<not> putsKey oper k" and "as_bearer a = (\<exists>t. k = bearerKey t)"
    and "stepOp oper s = Some (r, s')"
  shows "map_of (so_sessions s') k = Some a \<and> length (so_sessions s') \<le> Suc (length (so_sessions s))"
proof -
  have sw: "map_of (so_sessions (sweepSessions now s)) k = Some a" if "now < as_expiresAt a" for now
    by (rule sweepSessions_keeps) (use assms(1,3) that in \<open>auto simp: storeWf_def keysOk_def\<close>)
  have room: "length (so_sessions (sweepSessions now s)) < maxSessions" for now
    using assms(2) length_sweepSessions [of now s] by linarith
  note le = length_sweepSessions [of _ s]
  show ?thesis
  proof (cases oper)
    case (OpCurrent now vs)
    obtain r0 m where sc: "scanSessions now vs (so_sessions (sweepSessions now s)) = (r0, m)" by (metis surj_pair)
    then show ?thesis
      using OpCurrent assms(4,7) sw scanSessions_keeps [OF _ _ sc, of k a] scanSessions_sub [OF sc] le [of now]
      by (auto simp: stepOp_def currentSession_def Let_def)
  next
    case (OpMarkUsed now nonce exp)
    then show ?thesis
      using assms(3,7) sweepUsedStates_wf(3) [of now s]
      by (auto simp: stepOp_def markStateUsed_def Let_def split: if_splits option.splits)
  next
    case (OpPutSession now v u ttl)
    then show ?thesis
      using assms(4,5,7) sw [of now] room [of now] mput_room
      by (auto simp: stepOp_def insertSession_def Let_def sess.evictLoop_id)
  next
    case (OpCachedVerdict now token)
    then show ?thesis
      using assms(4,6,7) sw [of now] le [of now] length_mdel_le [of "bearerKey token" "so_sessions (sweepSessions now s)"]
      by (auto simp: stepOp_def cachedBearerVerdict_def Let_def split: option.splits if_splits)
  next
    case (OpPutVerdict now token verdict ttl)
    then show ?thesis
      using assms(4,5,7) sw [of now] room [of now] mput_room
      by (auto simp: stepOp_def putBearerVerdict_def Let_def sess.evictLoop_id split: if_splits)
  qed
qed

lemma runOps_keeps:
  assumes "storeWf s" and "length (so_sessions s) + length ops \<le> maxSessions" and "map_of (so_sessions s) k = Some a"
    and "\<forall>oper \<in> set ops. opOk oper \<and> opTime oper < as_expiresAt a \<and> \<not> putsKey oper k"
    and "as_bearer a = (\<exists>t. k = bearerKey t)" and "runOps ops s = Some s'"
  shows "map_of (so_sessions s') k = Some a \<and> storeWf s'"
  using assms
proof (induction ops arbitrary: s)
  case (Cons oper ops)
  from Cons.prems(6) obtain r s1 where st: "stepOp oper s = Some (r, s1)" "runOps ops s1 = Some s'"
    by (auto split: option.splits)
  have wf: "storeWf s1" using stepOp_safe [OF Cons.prems(1), of oper] Cons.prems(4) st(1) by (simp add: safeStep_def)
  have "map_of (so_sessions s1) k = Some a \<and> length (so_sessions s1) \<le> Suc (length (so_sessions s))"
    by (rule stepOp_keeps [OF Cons.prems(1) _ Cons.prems(3) _ _ Cons.prems(5) st(1)]) (use Cons.prems(2,4) in auto)
  then show ?case using Cons.IH [OF wf _ _ _ Cons.prems(5) st(2)] Cons.prems(2,4) by auto
qed simp

text \<open>A signed-in browser stays signed in: after the session is put, and whatever other requests do in
  the meantime as long as the store has room for them and the same session value is not drawn again, its cookie is
  recognised until the granted time has passed, for the user who signed in.\<close>

theorem session_recognised:
  assumes "storeReach ops0 s" and "stepOp (OpPutSession t v u ttl) s = Some (RpDone, s1)"
    and "runOps ops s1 = Some s2" and "length (so_sessions s1) + length ops \<le> maxSessions"
    and "\<forall>oper \<in> set ops. opOk oper \<and> opTime oper < t + sessionTTL ttl \<and> \<not> putsKey oper (sessionKey v)"
    and "now < t + sessionTTL ttl"
  shows "\<exists>a s3. stepOp (OpCurrent now [v]) s2 = Some (RpSession (Some a), s3) \<and> as_userID a = u"
proof -
  let ?a = "\<lparr>as_userID = u, as_expiresAt = t + sessionTTL ttl, as_bearer = False, as_denyStatus = 0\<rparr>"
  have wf0: "storeWf s" using storeReach_wf [OF assms(1)] by simp
  have wf1: "storeWf s1" using stepOp_safe [OF wf0, of "OpPutSession t v u ttl"] assms(2) by (simp add: safeStep_def)
  have m: "map_of (so_sessions s1) (sessionKey v) = Some ?a"
    using assms(2) by (auto simp: stepOp_def insertSession_def Let_def split: option.splits)
  have k: "map_of (so_sessions s2) (sessionKey v) = Some ?a \<and> storeWf s2"
    by (rule runOps_keeps [OF wf1 assms(4) m _ _ assms(3)]) (use assms(5) keys_disjoint in auto)
  have "map_of (so_sessions (sweepSessions now s2)) (sessionKey v) = Some ?a"
    by (rule sweepSessions_keeps) (use k assms(6) in \<open>auto simp: storeWf_def keysOk_def\<close>)
  then show ?thesis using assms(6) by (simp add: stepOp_def currentSession_def Let_def)
qed

section \<open>Spent states\<close>

lemma sweepUsedStates_keeps:
  assumes "mwf (so_usedStates s)" "map_of (so_usedStates s) k = Some e" and "now < e"
  shows "map_of (so_usedStates (sweepUsedStates now s)) k = Some e"
proof -
  have "(k, e) \<in> set (filter (\<lambda>(k, e). now < e) (so_usedStates s))" using assms(2,3) by (auto dest: map_of_SomeD)
  moreover have "mwf (filter (\<lambda>(k, e). now < e) (so_usedStates s))" using assms(1) by (simp add: distinct_map_filter)
  ultimately show ?thesis using assms(2) by (simp add: sweepUsedStates_def)
qed

lemma stepOp_keeps_used:
  assumes "storeWf s" and "length (so_usedStates s) < maxUsedStates" and "map_of (so_usedStates s) k = Some e"
    and "opTime oper < e" and "stepOp oper s = Some (r, s')"
  shows "map_of (so_usedStates s') k = Some e \<and> length (so_usedStates s') \<le> Suc (length (so_usedStates s))"
proof (cases "\<exists>now nonce exp. oper = OpMarkUsed now nonce exp")
  case True
  then obtain now nonce exp where oper: "oper = OpMarkUsed now nonce exp" by blast
  let ?s = "sweepUsedStates now s"
  have sw: "map_of (so_usedStates ?s) k = Some e"
    by (rule sweepUsedStates_keeps) (use assms(1,3,4) oper in \<open>auto simp: storeWf_def keysOk_def\<close>)
  have le: "length (so_usedStates ?s) \<le> length (so_usedStates s)" by (simp add: sweepUsedStates_def)
  then have "length (mput nonce exp (so_usedStates ?s)) \<le> Suc (length (so_usedStates s))"
    using length_mput_le [of nonce exp "so_usedStates ?s"] by linarith
  with sw le show ?thesis
    using assms(2,5) oper
    by (auto simp: stepOp_def markStateUsed_def Let_def used.evictLoop_id split: if_splits)
next
  case False
  have sw: "so_usedStates (sweepSessions now s) = so_usedStates s" for now by (rule sweepSessions_wf(3))
  with False assms(3,5) show ?thesis
    by (cases oper)
       (auto simp: stepOp_def currentSession_def insertSession_def cachedBearerVerdict_def putBearerVerdict_def Let_def
          split: prod.splits option.splits if_splits)
qed

text \<open>A sign-in state is spent by its first use: until it expires, and as long as the cache of spent states has
  room, every further use is refused, whatever other requests do in between.\<close>

theorem state_single_use:
  assumes "storeReach ops0 s" and "nonce \<noteq> []" and "stepOp (OpMarkUsed t nonce exp) s = Some (RpFresh True, s1)"
    and "runOps ops s1 = Some s2" and "length (so_usedStates s1) + length ops \<le> maxUsedStates"
    and "\<forall>oper \<in> set ops. opOk oper \<and> opTime oper < exp" and "now < exp"
  shows "\<exists>s3. stepOp (OpMarkUsed now nonce exp') s2 = Some (RpFresh False, s3)"
proof -
  have keep: "runOps ops s = Some s' \<Longrightarrow> storeWf s \<Longrightarrow> length (so_usedStates s) + length ops \<le> maxUsedStates \<Longrightarrow>
      map_of (so_usedStates s) nonce = Some exp \<Longrightarrow> \<forall>oper \<in> set ops. opOk oper \<and> opTime oper < exp \<Longrightarrow>
      map_of (so_usedStates s') nonce = Some exp \<and> storeWf s'" for ops s s'
  proof (induction ops arbitrary: s)
    case (Cons oper ops)
    from Cons.prems(1) obtain r s1 where st: "stepOp oper s = Some (r, s1)" "runOps ops s1 = Some s'"
      by (auto split: option.splits)
    have wf: "storeWf s1" using stepOp_safe [OF Cons.prems(2), of oper] Cons.prems(5) st(1) by (simp add: safeStep_def)
    have "map_of (so_usedStates s1) nonce = Some exp \<and> length (so_usedStates s1) \<le> Suc (length (so_usedStates s))"
      by (rule stepOp_keeps_used [OF Cons.prems(2) _ Cons.prems(4) _ st(1)]) (use Cons.prems(3,5) in auto)
    then show ?case using Cons.IH [OF st(2) wf] Cons.prems(3,5) by auto
  qed simp
  have wf0: "storeWf s" using storeReach_wf [OF assms(1)] by simp
  have wf1: "storeWf s1" using stepOp_safe [OF wf0, of "OpMarkUsed t nonce exp"] assms(2,3) by (simp add: safeStep_def)
  have m: "map_of (so_usedStates s1) nonce = Some exp"
    using assms(3) by (auto simp: stepOp_def markStateUsed_def Let_def split: option.splits if_splits)
  from keep [OF assms(4) wf1 assms(5) m assms(6)] have k: "map_of (so_usedStates s2) nonce = Some exp" "storeWf s2" by auto
  have "map_of (so_usedStates (sweepUsedStates now s2)) nonce = Some exp"
    by (rule sweepUsedStates_keeps) (use k assms(7) in \<open>auto simp: storeWf_def keysOk_def\<close>)
  then show ?thesis by (simp add: stepOp_def markStateUsed_def Let_def)
qed

section \<open>Examples\<close>

definition annSession :: appSession where
  "annSession = \<lparr>as_userID = ''ann'', as_expiresAt = 60 * second, as_bearer = False, as_denyStatus = 0\<rparr>"

definition annStore :: store where
  "annStore = \<lparr>so_usedStates = [], so_sessions = [(sessionKey ''v'', annSession)], so_lastUsedSweep = zeroTime, so_lastSessionSweep = 0\<rparr>"

definition annLater :: store where
  "annLater = annStore\<lparr>so_usedStates := [(''n'', 90 * second)], so_lastUsedSweep := second\<rparr>"

lemma ttl_60: "sessionTTL 60 = 60 * second"
  by (simp add: sessionTTL_def durSeconds_exact Let_def maxSessionTTL_def second_def)

lemmas demo_times = zeroTime_def unixToInternal_def sweepInterval_def second_def

lemma ann_put: "stepOp (OpPutSession 0 ''v'' ''ann'' 60) emptyStore = Some (RpDone, annStore)"
  by (simp add: stepOp_def insertSession_def emptyStore_def sweepSessions_def Let_def sess.evictLoop_id ttl_60 annStore_def annSession_def demo_times)

lemma ann_mark: "stepOp (OpMarkUsed second ''n'' (90 * second)) annStore = Some (RpFresh True, annLater)"
  by (simp add: stepOp_def markStateUsed_def annStore_def annLater_def sweepUsedStates_def Let_def used.evictLoop_id demo_times)

lemma ann_reach: "storeReach [OpPutSession 0 ''v'' ''ann'' 60] annStore"
  by (rule storeReach.step [OF storeReach.start _ ann_put]) simp

lemma ann_current:
  "stepOp (OpCurrent (2 * second) [''v'']) annLater = Some (RpSession (Some annSession), annLater)"
  by (simp add: stepOp_def currentSession_def annLater_def annStore_def annSession_def sweepSessions_def Let_def demo_times maxSessions_def)

theorem store_bounded_witness:
  "length (so_sessions annStore) \<le> 20000 \<and> (\<exists>r s'. stepOp (OpMarkUsed 5 ''n'' 9) annStore = Some (r, s'))"
proof -
  have "opOk (OpMarkUsed 5 ''n'' 9)" by simp
  with store_bounded [OF ann_reach] show ?thesis by blast
qed

theorem session_recognised_witness:
  "\<exists>a s3. stepOp (OpCurrent (10 * second) [''v'']) annLater = Some (RpSession (Some a), s3) \<and> as_userID a = ''ann''"
proof (rule session_recognised [OF storeReach.start ann_put])
  show "runOps [OpMarkUsed second ''n'' (90 * second)] annStore = Some annLater" by (simp add: ann_mark)
qed (simp_all add: annStore_def maxSessions_def ttl_60 second_def)

theorem state_single_use_witness:
  "\<exists>s3. stepOp (OpMarkUsed (3 * second) ''n'' 7) annLater = Some (RpFresh False, s3)"
proof (rule state_single_use [OF ann_reach _ ann_mark])
  show "runOps [OpCurrent (2 * second) [''v'']] annLater = Some annLater" by (simp add: ann_current)
qed (simp_all add: annLater_def maxUsedStates_def second_def)

end
