(* ===== verification/Access_System.thy ===== *)
theory Access_System
  imports Access_Proxy Access_Sessions
begin

text \<open>
  The proxy as a running system: any number of requests in flight, their calls interleaved, one shared store.
  First what a single request does whatever it is answered; then, for every interleaving, that
  nobody reaches a private application without a grant of the hub that is still in force.
\<close>

section \<open>Grants\<close>

text \<open>The hub granted access: to a browser (code exchange) or to a token (verification).\<close>

definition grantBody :: "pxAnswer \<Rightarrow> exchangeResponse \<Rightarrow> bool" where
  "grantBody a g \<longleftrightarrow> (\<exists>h. pa_hub a = HubReplied h \<and> 200 \<le> hb_Status h \<and> hb_Status h < 300
      \<and> hb_Body h = Some g \<and> ex_Allowed g \<and> trimSpace (ex_UserID g) \<noteq> [])"

type_synonym pxHistory = "(pxAsk, pxAnswer) history"

definition exchangeGranted :: "proxyEnv \<Rightarrow> string \<Rightarrow> int \<Rightarrow> pxHistory \<Rightarrow> bool" where
  "exchangeGranted E user ttl h \<longleftrightarrow>
     (\<exists>url req a g. (AskExchange url req, a) \<in> set h \<and> er_Ref req = refOf E \<and> er_Host req = nz_host (pe_cfg E)
        \<and> grantBody a g \<and> ex_UserID g = user \<and> ex_SessionTTLSeconds g = ttl)"

definition tokenGranted :: "proxyEnv \<Rightarrow> string \<Rightarrow> string \<Rightarrow> pxHistory \<Rightarrow> bool" where
  "tokenGranted E token user h \<longleftrightarrow>
     (\<exists>url a g. (AskVerify url token (refOf E), a) \<in> set h \<and> grantBody a g \<and> ex_UserID g = user)"

lemma exchangeGranted_mono: "exchangeGranted E u ttl h \<Longrightarrow> set h \<subseteq> set h' \<Longrightarrow> exchangeGranted E u ttl h'"
  unfolding exchangeGranted_def by blast

lemma tokenGranted_mono: "tokenGranted E t u h \<Longrightarrow> set h \<subseteq> set h' \<Longrightarrow> tokenGranted E t u h'"
  unfolding tokenGranted_def by blast

section \<open>One request\<close>

text \<open>The sign-in state of the request was matched with the browser's cookie and spent.\<close>

definition stateSpent :: "proxyEnv \<Rightarrow> pxRequest \<Rightarrow> pxHistory \<Rightarrow> bool" where
  "stateSpent E r h \<longleftrightarrow>
     (\<exists>name v payload t e a.
        returnCookieOf r (queryGet (ur_RawQuery (px_URL r)) ''state'') = Some (name, v)
      \<and> decodeReturnState E v = Some payload \<and> rp_Nonce payload = queryGet (ur_RawQuery (px_URL r)) ''state''
      \<and> (AskStore (OpMarkUsed t (rp_Nonce payload) e), a) \<in> set h \<and> pa_store a = RpFresh True)"

text \<open>When a call is justified by what the request is and by the answers so far.\<close>

definition justified :: "proxyEnv \<Rightarrow> pxRequest \<Rightarrow> pxHistory \<Rightarrow> pxAsk \<Rightarrow> bool" where
  "justified E r h q \<longleftrightarrow>
     pc_Mode (nz_Config (pe_cfg E)) = ModePrivate \<and>
     (case q of
        AskExchange url req \<Rightarrow>
          url = nz_hubURL (pe_cfg E) @ hubExchangePath \<and> er_Ref req = refOf E \<and> er_Host req = nz_host (pe_cfg E)
          \<and> stateSpent E r h
      | AskVerify url token ref \<Rightarrow>
          url = nz_hubURL (pe_cfg E) @ hubVerifyPath \<and> ref = refOf E \<and> pe_relay E
          \<and> bearerCredential r = Some token \<and> hasPrefix token appTokenPrefix
      | AskStore oper \<Rightarrow>
          opOk oper \<and>
          (case oper of
             OpPutSession t v user ttl \<Rightarrow> exchangeGranted E user ttl h
           | OpPutVerdict t token verdict ttl \<Rightarrow>
               (as_denyStatus verdict = 0 \<longrightarrow> tokenGranted E token (as_userID verdict) h) \<and> ttl \<le> bearerAllowMaxTTL
           | _ \<Rightarrow> True)
      | _ \<Rightarrow> True)"

text \<open>When a request may be forwarded: a session for one of its cookies, an allowing verdict for its token, or a
  grant of the hub for its token.\<close>

definition admitted :: "proxyEnv \<Rightarrow> pxRequest \<Rightarrow> pxHistory \<Rightarrow> bool" where
  "admitted E r h \<longleftrightarrow>
     (\<exists>t a s. (AskStore (OpCurrent t (sessionCookies r)), a) \<in> set h \<and> pa_store a = RpSession (Some s))
   \<or> (\<exists>token t a s. bearerCredential r = Some token \<and> (AskStore (OpCachedVerdict t token), a) \<in> set h
        \<and> pa_store a = RpSession (Some s) \<and> as_denyStatus s = 0)
   \<or> (\<exists>token user. bearerCredential r = Some token \<and> tokenGranted E token user h)"

definition forwarded :: "outcome \<Rightarrow> bool" where
  "forwarded out \<longleftrightarrow> (\<exists>u hs. out = Forward u hs)"

lemma forwarded_simps [simp]: "\<not> forwarded (Respond x)" "forwarded (Forward u hs)" "\<not> forwarded (redirect E r cs t)"
  by (simp_all add: forwarded_def redirect_def)

abbreviation gate :: "proxyEnv \<Rightarrow> pxRequest \<Rightarrow> outcome \<Rightarrow> pxHistory \<Rightarrow> bool" where
  "gate E r out h \<equiv> forwarded out \<longrightarrow> admitted E r h"

lemma exchangeGrantedI:
  "(AskExchange url req, a) \<in> set h \<Longrightarrow> er_Ref req = refOf E \<Longrightarrow> er_Host req = nz_host (pe_cfg E) \<Longrightarrow> grantBody a g \<Longrightarrow>
   exchangeGranted E (ex_UserID g) (ex_SessionTTLSeconds g) h"
  unfolding exchangeGranted_def by blast

lemma stateSpentI:
  "returnCookieOf r (queryGet (ur_RawQuery (px_URL r)) ''state'') = Some (name, v) \<Longrightarrow> decodeReturnState E v = Some payload \<Longrightarrow>
   rp_Nonce payload = queryGet (ur_RawQuery (px_URL r)) ''state'' \<Longrightarrow>
   (AskStore (OpMarkUsed t (rp_Nonce payload) e), a) \<in> set h \<Longrightarrow> pa_store a = RpFresh True \<Longrightarrow> stateSpent E r h"
  unfolding stateSpent_def by metis

lemma exchangeGranted_append [simp]: "exchangeGranted E u ttl h \<Longrightarrow> exchangeGranted E u ttl (h @ h')"
  by (rule exchangeGranted_mono) auto

lemma tokenGranted_append [simp]: "tokenGranted E t u h \<Longrightarrow> tokenGranted E t u (h @ h')"
  by (rule tokenGranted_mono) auto

definition privateMode :: "proxyEnv \<Rightarrow> bool" where
  "privateMode E \<longleftrightarrow> pc_Mode (nz_Config (pe_cfg E)) = ModePrivate"

lemma justified_simps [simp]:
  "justified E r h AskNow \<longleftrightarrow> privateMode E" "justified E r h (AskRandom n) \<longleftrightarrow> privateMode E"
  "justified E r h (AskStore (OpCurrent t vs)) \<longleftrightarrow> privateMode E"
  "justified E r h (AskStore (OpCachedVerdict t token)) \<longleftrightarrow> privateMode E"
  "justified E r h (AskStore (OpMarkUsed t nonce e)) \<longleftrightarrow> privateMode E \<and> nonce \<noteq> []"
  "justified E r h (AskStore (OpPutSession t v user ttl)) \<longleftrightarrow> privateMode E \<and> exchangeGranted E user ttl h"
  "justified E r h (AskStore (OpPutVerdict t token verdict d)) \<longleftrightarrow> privateMode E \<and> as_bearer verdict
     \<and> (as_denyStatus verdict = 0 \<longrightarrow> tokenGranted E token (as_userID verdict) h) \<and> d \<le> bearerAllowMaxTTL"
  "justified E r h (AskExchange url req) \<longleftrightarrow> privateMode E \<and> url = nz_hubURL (pe_cfg E) @ hubExchangePath \<and> er_Ref req = refOf E
     \<and> er_Host req = nz_host (pe_cfg E) \<and> stateSpent E r h"
  "justified E r h (AskVerify url token ref) \<longleftrightarrow> privateMode E \<and> url = nz_hubURL (pe_cfg E) @ hubVerifyPath \<and> ref = refOf E
     \<and> pe_relay E \<and> bearerCredential r = Some token \<and> hasPrefix token appTokenPrefix"
  by (auto simp: justified_def privateMode_def)

lemmas calls = readNow_def randomString_def storeSession_def

lemma wp_newReturnState: "privateMode E \<Longrightarrow> wp (justified E r) (newReturnState path p) (\<lambda>_ _. True) h"
  unfolding newReturnState_def Let_def calls by (auto simp: wp_bind split: option.split)

lemma wp_authorize: "privateMode E \<Longrightarrow> wp (justified E r) (redirectToAuthorizeWithMode E r cs path p) (gate E r) h"
  unfolding redirectToAuthorizeWithMode_def wp_bind
  by (rule wp_mono [OF wp_newReturnState]) (auto split: option.split)

lemma wp_putSession:
  "privateMode E \<Longrightarrow> exchangeGranted E user ttl h \<Longrightarrow> wp (justified E r) (putSession user ttl) (\<lambda>_ _. True) h"
  unfolding putSession_def calls by (auto simp: wp_bind split: option.split)

lemma wp_finishSignIn:
  assumes "privateMode E" and "ex_Allowed g \<and> trimSpace (ex_UserID g) \<noteq> [] \<longrightarrow> exchangeGranted E (ex_UserID g) (ex_SessionTTLSeconds g) h"
  shows "wp (justified E r) (finishSignIn E r clear path p g) (gate E r) h"
proof (cases "\<not> ex_Allowed g \<or> trimSpace (ex_UserID g) = []")
  case True
  then show ?thesis unfolding finishSignIn_def by simp
next
  case False
  then have "exchangeGranted E (ex_UserID g) (ex_SessionTTLSeconds g) h" using assms(2) by simp
  from wp_putSession [OF assms(1) this] have
    "wp (justified E r) (putSession (ex_UserID g) (ex_SessionTTLSeconds g)) (\<lambda>_ _. True) h" .
  then show ?thesis using False unfolding finishSignIn_def
    by (simp add: wp_bind) (erule wp_mono, auto split: option.split)
qed

lemma wp_exchangeCode:
  assumes "privateMode E" and "stateSpent E r h"
  shows "wp (justified E r) (exchangeCode E r code out) (gate E r) h"
proof -
  let ?req = "\<lparr>er_Code = code, er_Host = nz_host (pe_cfg E), er_Ref = refOf E\<rparr>"
    and ?url = "nz_hubURL (pe_cfg E) @ hubExchangePath"
  have "exchangeGranted E (ex_UserID g) (ex_SessionTTLSeconds g) (h @ [(AskExchange ?url ?req, a)])"
    if "pa_hub a = HubReplied hb" "\<not> (hb_Status hb < 200 \<or> 300 \<le> hb_Status hb)" "hb_Body hb = Some g"
      "ex_Allowed g \<and> trimSpace (ex_UserID g) \<noteq> []" for a hb g
  proof -
    have "grantBody a g" using that by (auto simp: grantBody_def)
    then show ?thesis by (intro exchangeGrantedI [where url = ?url and req = ?req and a = a]) simp_all
  qed
  then show ?thesis using assms
    unfolding exchangeCode_def Let_def
    by (auto intro!: wp_authorize wp_finishSignIn split: hubOutcome.split option.split)
qed

lemma decoded_nonce: "decodeReturnState E v = Some payload \<Longrightarrow> rp_Nonce payload \<noteq> []"
  unfolding decodeReturnState_def Let_def by (auto split: option.splits if_splits)

text \<open>A sign-in state is accepted only when it is spent.\<close>

lemma wp_consume:
  assumes "privateMode E" and "st = queryGet (ur_RawQuery (px_URL r)) ''state''"
  shows "wp (justified E r) (consumeReturnState E r st p) (\<lambda>(out, cs) h'. ro_OK out \<longrightarrow> stateSpent E r h') h"
proof (cases "returnCookieOf r st")
  case None
  then show ?thesis by (simp add: consumeReturnState_def noOutcome_def)
next
  case (Some nv)
  obtain name v where nv: "nv = (name, v)" by (cases nv)
  show ?thesis
  proof (cases "decodeReturnState E v")
    case None
    with Some nv show ?thesis by (simp add: consumeReturnState_def noOutcome_def)
  next
    case d: (Some payload)
    have "stateSpent E r (h' @ [x, y, (AskStore (OpMarkUsed t (rp_Nonce payload) e), a)])"
      if "pa_store a = RpFresh True" "rp_Nonce payload = st" for t e a h' x y
      by (rule stateSpentI [where name = name and v = v and payload = payload and t = t and e = e and a = a])
         (use that Some nv d assms(2) in simp_all)
    with Some nv d decoded_nonce [OF d] assms(1) show ?thesis
      unfolding consumeReturnState_def spendState_def Let_def readNow_def
      by (auto simp: wp_bind noOutcome_def split: storeReply.split)
  qed
qed

lemma stateSpent_append [simp]: "stateSpent E r h \<Longrightarrow> stateSpent E r (h @ h')"
  unfolding stateSpent_def by fastforce

lemma wp_handleCallback:
  assumes "privateMode E" shows "wp (justified E r) (handleCallback E r) (gate E r) h"
  unfolding handleCallback_def Let_def wp_bind
  by (rule wp_mono [OF wp_consume [OF assms refl]])
     (use assms in \<open>auto intro!: wp_authorize wp_exchangeCode\<close>)

lemma admitted_verdict:
  "bearerCredential r = Some token \<Longrightarrow> pa_store a = RpSession (Some s) \<Longrightarrow> as_denyStatus s = 0 \<Longrightarrow>
   admitted E r (h @ [x, (AskStore (OpCachedVerdict t token), a)])"
  unfolding admitted_def by fastforce

lemma admitted_token: "bearerCredential r = Some token \<Longrightarrow> tokenGranted E token user h \<Longrightarrow> admitted E r h"
  unfolding admitted_def by blast

lemma admitted_session:
  "pa_store a = RpSession (Some s) \<Longrightarrow> admitted E r (h @ [x, (AskStore (OpCurrent t (sessionCookies r)), a)])"
  unfolding admitted_def by fastforce

lemma tokenGrantedI:
  "grantBody a g \<Longrightarrow> tokenGranted E token (ex_UserID g) (h @ [(AskVerify url token (refOf E), a)])"
  unfolding tokenGranted_def by fastforce

lemma wp_verifyBearer:
  assumes "privateMode E" "pe_relay E" "bearerCredential r = Some token" "hasPrefix token appTokenPrefix"
  shows "wp (justified E r) (verifyBearer E token) (\<lambda>(status, grant, ra) h'. status = 200 \<longrightarrow> tokenGranted E token (ex_UserID grant) h') h"
proof -
  have "tokenGranted E token (ex_UserID g) (h @ [(AskVerify url token (refOf E), a)])"
    if "pa_hub a = HubReplied hb" "hb_Status hb = 200" "hb_Body hb = Some g" "ex_Allowed g" "trimSpace (ex_UserID g) \<noteq> []" for a hb g url
    by (rule tokenGrantedI) (use that in \<open>auto simp: grantBody_def\<close>)
  with assms show ?thesis
    unfolding verifyBearer_def by (auto simp: noGrant_def split: hubOutcome.split option.split)
qed

lemma wp_putVerdict:
  "privateMode E \<Longrightarrow> deny = 0 \<longrightarrow> tokenGranted E token user h \<Longrightarrow> d \<le> bearerAllowMaxTTL \<Longrightarrow>
   tokenGranted E token u' h \<or> deny \<noteq> 0 \<Longrightarrow>
   wp (justified E r) (putVerdict token user deny d) (\<lambda>_ h'. deny = 0 \<longrightarrow> tokenGranted E token u' h') h"
  unfolding putVerdict_def readNow_def by (auto simp: wp_bind)

lemma deny_short: "bearerDenyTTL \<le> bearerAllowMaxTTL"
  by (simp add: bearerDenyTTL_def bearerAllowMaxTTL_def second_def)

lemma wp_verdict:
  assumes "privateMode E" "bearerCredential r = Some token" "status = 200 \<longrightarrow> tokenGranted E token (ex_UserID grant) h"
  shows "wp (justified E r)
     (if status = 200
      then bind (putVerdict token (ex_UserID grant) 0 (verdictTTL (ex_SessionTTLSeconds grant))) (\<lambda>_. Ret None)
      else if status = 401 \<or> status = 403
      then bind (putVerdict token [] status bearerDenyTTL) (\<lambda>_. Ret (Some (writeBearerError E status [])))
      else if status = 429 then Ret (Some (writeBearerError E 429 retryAfter))
      else Ret (Some (writeBearerError E 502 []))) (\<lambda>refused h'. refused = None \<longrightarrow> admitted E r h') h"
proof (cases "status = 200")
  case True
  have d: "verdictTTL n \<le> bearerAllowMaxTTL" for n by (simp add: verdictTTL_def Let_def)
  have "wp (justified E r) (putVerdict token (ex_UserID grant) 0 (verdictTTL (ex_SessionTTLSeconds grant)))
      (\<lambda>_ h'. (0::nat) = 0 \<longrightarrow> tokenGranted E token (ex_UserID grant) h') h"
    by (rule wp_putVerdict) (use assms True d in auto)
  then show ?thesis using True assms(2)
    by (simp add: wp_bind) (erule wp_mono, auto intro: admitted_token)
next
  case False
  have "wp (justified E r) (putVerdict token [] status bearerDenyTTL) (\<lambda>_ h'. status = 0 \<longrightarrow> tokenGranted E token [] h') h"
    if "status = 401 \<or> status = 403"
    by (rule wp_putVerdict) (use assms(1) that deny_short in auto)
  with False show ?thesis by (auto simp: wp_bind intro: wp_mono)
qed

lemma wp_authorizeBearer:
  assumes "privateMode E" "bearerCredential r = Some token"
  shows "wp (justified E r) (authorizeBearer E token) (\<lambda>refused h'. refused = None \<longrightarrow> admitted E r h') h"
proof -
  have v: "wp (justified E r) (verifyBearer E token) (\<lambda>a. wp (justified E r) (f a) Q) h'"
    if "\<And>status grant ra h''. prefix h' h'' \<Longrightarrow> (status = 200 \<longrightarrow> tokenGranted E token (ex_UserID grant) h'') \<Longrightarrow>
          wp (justified E r) (f (status, grant, ra)) Q h''" "pe_relay E" "hasPrefix token appTokenPrefix" for f Q h'
    by (rule wp_mono [OF wp_verifyBearer]) (use assms that in auto)
  show ?thesis
    using assms admitted_verdict [OF assms(2)]
    unfolding authorizeBearer_def calls
    by (auto simp: wp_bind intro!: v wp_verdict split: option.split storeReply.split)
qed

lemma wp_gateRequest:
  assumes "privateMode E" shows "wp (justified E r) (gateRequest E r pass) (gate E r) h"
proof -
  have b: "wp (justified E r) (authorizeBearer E token)
      (\<lambda>a. wp (justified E r) (Ret (case a of None \<Rightarrow> pass | Some resp \<Rightarrow> Respond resp)) (gate E r)) h'" if "bearerCredential r = Some token" for token h'
    by (rule wp_mono [OF wp_authorizeBearer [OF assms that]]) (auto split: option.split)
  show ?thesis
    using assms admitted_session unfolding gateRequest_def redirectToAuthorize_def calls
    by (auto simp: wp_bind intro!: b wp_authorize split: option.split storeReply.split)
qed

lemma wp_serveAccess: "wp (justified E r) (serveAccess E r) (\<lambda>out h'. privateMode E \<longrightarrow> gate E r out h') h"
proof (cases "privateMode E")
  case True
  then show ?thesis unfolding serveAccess_def Let_def
    by (auto simp: privateMode_def [symmetric] wp_handleCallback wp_gateRequest split: option.split)
next
  case False
  then show ?thesis unfolding serveAccess_def Let_def privateMode_def by (auto split: option.split)
qed

section \<open>All requests\<close>

text \<open>The store, the log of all calls with their answers, the requests in flight (each with the rest of its
  program and its own calls so far) and the ones that are done.\<close>

record sys =
  sy_store :: store
  sy_log :: pxHistory
  sy_running :: "(pxRequest \<times> outcome px \<times> pxHistory) list"
  sy_done :: "(pxRequest \<times> outcome) list"

text \<open>The store answers its operations; clock, random source and hub answer anything.\<close>

definition answers :: "store \<Rightarrow> pxAsk \<Rightarrow> pxAnswer \<Rightarrow> store \<Rightarrow> bool" where
  "answers s q a s' \<longleftrightarrow> (case q of AskStore oper \<Rightarrow> stepOp oper s = Some (pa_store a, s') | _ \<Rightarrow> s' = s)"

inductive sysReach :: "proxyEnv \<Rightarrow> sys \<Rightarrow> bool" for E where
  boot: "sysReach E \<lparr>sy_store = emptyStore, sy_log = [], sy_running = [], sy_done = []\<rparr>"
| arrive: "sysReach E y \<Longrightarrow> sysReach E (y\<lparr>sy_running := (r, serveAccess E r, []) # sy_running y\<rparr>)"
| call: "sysReach E y \<Longrightarrow> sy_running y = xs @ (r, Ask q k, h) # ys \<Longrightarrow> answers (sy_store y) q a s' \<Longrightarrow>
    sysReach E (y\<lparr>sy_store := s', sy_log := sy_log y @ [(q, a)], sy_running := xs @ (r, k a, h @ [(q, a)]) # ys\<rparr>)"
| finish: "sysReach E y \<Longrightarrow> sy_running y = xs @ (r, Ret out, h) # ys \<Longrightarrow>
    sysReach E (y\<lparr>sy_running := xs @ ys, sy_done := (r, out) # sy_done y\<rparr>)"

fun storeOpsOf :: "pxHistory \<Rightarrow> storeOp list" where
  "storeOpsOf [] = []"
| "storeOpsOf ((AskStore oper, a) # h) = storeOpsOf h @ [oper]"
| "storeOpsOf ((q, a) # h) = storeOpsOf h"

lemma storeOpsOf_snoc [simp]: "storeOpsOf (h @ [(q, a)]) = (case q of AskStore oper \<Rightarrow> oper # storeOpsOf h | _ \<Rightarrow> storeOpsOf h)"
  by (induction h rule: storeOpsOf.induct) (auto split: pxAsk.split)

lemma in_storeOpsOf: "oper \<in> set (storeOpsOf h) \<longleftrightarrow> (\<exists>a. (AskStore oper, a) \<in> set h)"
  by (induction h rule: storeOpsOf.induct) auto

text \<open>A session or verdict that was read back, traced to the call that stored it.\<close>

definition sessionTraced :: "int \<Rightarrow> string list \<Rightarrow> appSession \<Rightarrow> pxHistory \<Rightarrow> bool" where
  "sessionTraced t vs s log \<longleftrightarrow>
     (\<exists>v \<in> set vs. \<exists>t' v' ttl. OpPutSession t' v' (as_userID s) ttl \<in> set (storeOpsOf log) \<and> sha256Hex v' = sha256Hex v
        \<and> t < t' + sessionTTL ttl \<and> sessionTTL ttl \<le> 24 * 3600 * second)"

definition verdictTraced :: "int \<Rightarrow> string \<Rightarrow> appSession \<Rightarrow> pxHistory \<Rightarrow> bool" where
  "verdictTraced t token s log \<longleftrightarrow>
     (\<exists>t' token' verdict ttl. OpPutVerdict t' token' verdict ttl \<in> set (storeOpsOf log) \<and> sha256Hex token' = sha256Hex token
        \<and> as_denyStatus verdict = as_denyStatus s \<and> t < t' + ttl)"

text \<open>What is known of a call in the log.\<close>

definition loggedOk :: "proxyEnv \<Rightarrow> pxHistory \<Rightarrow> pxAsk \<Rightarrow> pxAnswer \<Rightarrow> bool" where
  "loggedOk E log q a \<longleftrightarrow>
     (case q of
        AskStore (OpPutSession t v user ttl) \<Rightarrow> exchangeGranted E user ttl log
      | AskStore (OpPutVerdict t token verdict ttl) \<Rightarrow>
          (as_denyStatus verdict = 0 \<longrightarrow> tokenGranted E token (as_userID verdict) log) \<and> ttl \<le> bearerAllowMaxTTL
      | AskStore (OpCurrent t vs) \<Rightarrow> (\<forall>s. pa_store a = RpSession (Some s) \<longrightarrow> sessionTraced t vs s log)
      | AskStore (OpCachedVerdict t token) \<Rightarrow> (\<forall>s. pa_store a = RpSession (Some s) \<longrightarrow> verdictTraced t token s log)
      | _ \<Rightarrow> True)"

definition sysOk :: "proxyEnv \<Rightarrow> sys \<Rightarrow> bool" where
  "sysOk E y \<longleftrightarrow>
     storeReach (storeOpsOf (sy_log y)) (sy_store y)
   \<and> (\<forall>(r, p, h) \<in> set (sy_running y). wp (justified E r) p (\<lambda>out h'. privateMode E \<longrightarrow> gate E r out h') h \<and> set h \<subseteq> set (sy_log y))
   \<and> (\<forall>(q, a) \<in> set (sy_log y). loggedOk E (sy_log y) q a)
   \<and> (\<forall>(r, out) \<in> set (sy_done y). privateMode E \<longrightarrow> gate E r out (sy_log y))"

lemma admitted_mono: "admitted E r h \<Longrightarrow> set h \<subseteq> set h' \<Longrightarrow> admitted E r h'"
  unfolding admitted_def using tokenGranted_mono by (meson subsetD)

lemma storeOpsOf_mono: "set (storeOpsOf log) \<subseteq> set (storeOpsOf (log @ [(q, a)]))"
  by (auto split: pxAsk.split)

lemma loggedOk_mono: "loggedOk E log q a \<Longrightarrow> loggedOk E (log @ [(q', a')]) q a"
proof -
  have "sessionTraced t vs s log \<Longrightarrow> sessionTraced t vs s (log @ [(q', a')])" for t vs s
    unfolding sessionTraced_def using storeOpsOf_mono [of log q' a'] by (meson subsetD)
  moreover have "verdictTraced t token s log \<Longrightarrow> verdictTraced t token s (log @ [(q', a')])" for t token s
    unfolding verdictTraced_def using storeOpsOf_mono [of log q' a'] by (meson subsetD)
  ultimately show "loggedOk E log q a \<Longrightarrow> loggedOk E (log @ [(q', a')]) q a"
    unfolding loggedOk_def by (auto split: pxAsk.split storeOp.split)
qed

text \<open>A justified call, answered by a reachable store, is as the log promises.\<close>

lemma loggedOk_new:
  assumes "storeReach (storeOpsOf log) s" and "justified E r h q" and "set h \<subseteq> set log" and "answers s q a s'"
  shows "loggedOk E (log @ [(q, a)]) q a"
proof (cases q)
  case (AskStore oper)
  have st: "stepOp oper s = Some (pa_store a, s')" using assms(4) AskStore by (simp add: answers_def)
  have sub: "set h \<subseteq> set (log @ [(q, a)])" using assms(3) by auto
  show ?thesis
  proof (cases oper)
    case (OpCurrent t vs)
    have "sessionTraced t vs x (log @ [(q, a)])" if "pa_store a = RpSession (Some x)" for x
    proof -
      have "stepOp (OpCurrent t vs) s = Some (RpSession (Some x), s')" using st OpCurrent that by simp
      from session_traced [OF assms(1) this] show ?thesis
        unfolding sessionTraced_def using storeOpsOf_mono [of log q a] by (meson subsetD)
    qed
    with AskStore OpCurrent show ?thesis by (simp add: loggedOk_def)
  next
    case (OpCachedVerdict t token)
    have "verdictTraced t token x (log @ [(q, a)])" if "pa_store a = RpSession (Some x)" for x
    proof -
      have "stepOp (OpCachedVerdict t token) s = Some (RpSession (Some x), s')" using st OpCachedVerdict that by simp
      from verdict_authentic [OF assms(1) this] show ?thesis
        unfolding verdictTraced_def using storeOpsOf_mono [of log q a] by (meson subsetD)
    qed
    with AskStore OpCachedVerdict show ?thesis by (simp add: loggedOk_def)
  next
    case (OpPutSession t v user ttl)
    with AskStore assms(2) have "exchangeGranted E user ttl h" by simp
    from exchangeGranted_mono [OF this sub] AskStore OpPutSession show ?thesis by (simp add: loggedOk_def)
  next
    case (OpPutVerdict t token verdict ttl)
    with AskStore assms(2) have "as_denyStatus verdict = 0 \<longrightarrow> tokenGranted E token (as_userID verdict) h" "ttl \<le> bearerAllowMaxTTL"
      by simp_all
    with tokenGranted_mono [OF _ sub] AskStore OpPutVerdict show ?thesis by (auto simp: loggedOk_def)
  qed (simp add: loggedOk_def AskStore)
qed (simp_all add: loggedOk_def)

lemma storeReach_call:
  assumes "storeReach (storeOpsOf log) s" and "justified E r h q" and "answers s q a s'"
  shows "storeReach (storeOpsOf (log @ [(q, a)])) s'"
proof (cases q)
  case (AskStore oper)
  have "opOk oper" using assms(2) AskStore by (simp add: justified_def)
  then show ?thesis using assms(1,3) AskStore by (auto simp: answers_def intro: storeReach.step)
qed (use assms in \<open>auto simp: answers_def\<close>)

lemma sysReach_ok: "sysReach E y \<Longrightarrow> sysOk E y"
proof (induction rule: sysReach.induct)
  case boot
  show ?case by (simp add: sysOk_def storeReach.start)
next
  case (arrive y r)
  then show ?case using wp_serveAccess [of E r "[]"] by (auto simp: sysOk_def)
next
  case (call y xs r q k h ys a s')
  let ?log = "sy_log y @ [(q, a)]"
  have run: "wp (justified E r) (Ask q k) (\<lambda>out h'. privateMode E \<longrightarrow> gate E r out h') h" "set h \<subseteq> set (sy_log y)"
    using call.IH call.hyps(2) by (auto simp: sysOk_def)
  have j: "justified E r h q" using run(1) by simp
  have reach: "storeReach (storeOpsOf (sy_log y)) (sy_store y)" using call.IH by (simp add: sysOk_def)
  have 1: "storeReach (storeOpsOf ?log) s'" by (rule storeReach_call [OF reach j call.hyps(3)])
  have 2: "loggedOk E ?log q a" by (rule loggedOk_new [OF reach j run(2) call.hyps(3)])
  have 3: "loggedOk E ?log q' a'" if "(q', a') \<in> set (sy_log y)" for q' a'
    using that call.IH loggedOk_mono by (auto simp: sysOk_def)
  have 4: "admitted E r' (sy_log y) \<Longrightarrow> admitted E r' ?log" for r' by (rule admitted_mono) auto
  show ?case using call.IH call.hyps(2) run 1 2 3 4 unfolding sysOk_def by fastforce
next
  case (finish y xs r out h ys)
  have "privateMode E \<longrightarrow> gate E r out h" "set h \<subseteq> set (sy_log y)" using finish.IH finish.hyps(2) by (auto simp: sysOk_def)
  then have "privateMode E \<longrightarrow> gate E r out (sy_log y)" using admitted_mono by blast
  with finish.IH finish.hyps(2) show ?case unfolding sysOk_def by auto
qed

section \<open>Access needs a grant in force\<close>

text \<open>The request was admitted on a grant of the hub for this instance that was still in force when it was checked:
  a sign-in of at most 24 hours ago for a session cookie of the request, or for its token a
  verification by this request or one of at most 15 minutes ago.\<close>

definition grantInForce :: "proxyEnv \<Rightarrow> pxRequest \<Rightarrow> pxHistory \<Rightarrow> bool" where
  "grantInForce E r log \<longleftrightarrow>
     (\<exists>t t' v v' user ttl. v \<in> set (sessionCookies r) \<and> sha256Hex v' = sha256Hex v
        \<and> OpCurrent t (sessionCookies r) \<in> set (storeOpsOf log) \<and> OpPutSession t' v' user ttl \<in> set (storeOpsOf log)
        \<and> t < t' + sessionTTL ttl \<and> sessionTTL ttl \<le> 24 * 3600 * second \<and> exchangeGranted E user ttl log)
   \<or> (\<exists>token user. bearerCredential r = Some token \<and> tokenGranted E token user log)
   \<or> (\<exists>token token' t t' verdict ttl. bearerCredential r = Some token \<and> sha256Hex token' = sha256Hex token
        \<and> OpCachedVerdict t token \<in> set (storeOpsOf log) \<and> OpPutVerdict t' token' verdict ttl \<in> set (storeOpsOf log)
        \<and> t < t' + ttl \<and> ttl \<le> 15 * 60 * second \<and> tokenGranted E token' (as_userID verdict) log)"

lemma logged_session:
  assumes "sysOk E y" and "(AskStore (OpCurrent t vs), a) \<in> set (sy_log y)" and "pa_store a = RpSession (Some s)"
  shows "\<exists>v \<in> set vs. \<exists>t' v' ttl. OpPutSession t' v' (as_userID s) ttl \<in> set (storeOpsOf (sy_log y)) \<and> sha256Hex v' = sha256Hex v
    \<and> t < t' + sessionTTL ttl \<and> sessionTTL ttl \<le> 24 * 3600 * second \<and> exchangeGranted E (as_userID s) ttl (sy_log y)"
proof -
  have "sessionTraced t vs s (sy_log y)" using assms by (fastforce simp: sysOk_def loggedOk_def)
  moreover have "exchangeGranted E u ttl (sy_log y)" if "OpPutSession t' v' u ttl \<in> set (storeOpsOf (sy_log y))" for t' v' u ttl
    using assms(1) that unfolding in_storeOpsOf by (fastforce simp: sysOk_def loggedOk_def)
  ultimately show ?thesis unfolding sessionTraced_def by blast
qed

lemma logged_verdict:
  assumes "sysOk E y" and "(AskStore (OpCachedVerdict t token), a) \<in> set (sy_log y)" and "pa_store a = RpSession (Some s)"
    and "as_denyStatus s = 0"
  shows "\<exists>t' token' verdict ttl. OpPutVerdict t' token' verdict ttl \<in> set (storeOpsOf (sy_log y)) \<and> sha256Hex token' = sha256Hex token
    \<and> t < t' + ttl \<and> ttl \<le> 15 * 60 * second \<and> tokenGranted E token' (as_userID verdict) (sy_log y)"
proof -
  have "verdictTraced t token s (sy_log y)" using assms by (fastforce simp: sysOk_def loggedOk_def)
  moreover have "(as_denyStatus verdict = 0 \<longrightarrow> tokenGranted E token' (as_userID verdict) (sy_log y)) \<and> ttl \<le> bearerAllowMaxTTL"
    if "OpPutVerdict t' token' verdict ttl \<in> set (storeOpsOf (sy_log y))" for t' token' verdict ttl
    using assms(1) that unfolding in_storeOpsOf by (fastforce simp: sysOk_def loggedOk_def)
  ultimately show ?thesis using assms(4) unfolding verdictTraced_def bearerAllowMaxTTL_def by metis
qed

text \<open>C3: Nobody reaches a private application without a grant of the hub that is still in force, whatever
  requests run at the same time and whatever clock, random source and hub answer.\<close>

theorem private_access_granted:
  assumes "sysReach E y" and "pc_Mode (nz_Config (pe_cfg E)) = ModePrivate" and "(r, Forward u hs) \<in> set (sy_done y)"
  shows "grantInForce E r (sy_log y)"
proof -
  have ok: "sysOk E y" by (rule sysReach_ok [OF assms(1)])
  with assms(2,3) have "admitted E r (sy_log y)" by (fastforce simp: sysOk_def privateMode_def)
  then consider
      (session) t a s where "(AskStore (OpCurrent t (sessionCookies r)), a) \<in> set (sy_log y)" "pa_store a = RpSession (Some s)"
    | (verdict) token t a s where "bearerCredential r = Some token" "(AskStore (OpCachedVerdict t token), a) \<in> set (sy_log y)"
        "pa_store a = RpSession (Some s)" "as_denyStatus s = 0"
    | (token) token user where "bearerCredential r = Some token" "tokenGranted E token user (sy_log y)"
    unfolding admitted_def by blast
  then show ?thesis
  proof cases
    case session
    have "OpCurrent t (sessionCookies r) \<in> set (storeOpsOf (sy_log y))" using session(1) in_storeOpsOf by blast
    with logged_session [OF ok session] show ?thesis unfolding grantInForce_def by blast
  next
    case verdict
    have "OpCachedVerdict t token \<in> set (storeOpsOf (sy_log y))" using verdict(2) in_storeOpsOf by blast
    with logged_verdict [OF ok verdict(2-4)] verdict(1) show ?thesis unfolding grantInForce_def by blast
  next
    case token
    then show ?thesis unfolding grantInForce_def by blast
  qed
qed

section \<open>A request on its own\<close>

text \<open>A request that runs alone: the world answers everything but the store.\<close>

primrec play :: "(pxAsk \<Rightarrow> pxAnswer) \<Rightarrow> 'a px \<Rightarrow> store \<Rightarrow> pxHistory \<Rightarrow> (store \<times> pxHistory \<times> 'a) option" where
  "play w (Ret x) s h = Some (s, h, x)"
| "play w (Ask q k) s h =
     (case q of
        AskStore oper \<Rightarrow>
          (case stepOp oper s of
             None \<Rightarrow> None
           | Some (rp, s') \<Rightarrow> play w (k ((w q)\<lparr>pa_store := rp\<rparr>)) s' (h @ [(q, (w q)\<lparr>pa_store := rp\<rparr>)]))
      | _ \<Rightarrow> play w (k (w q)) s (h @ [(q, w q)]))"

lemma play_reach:
  "play w p s h = Some (s', h', out) \<Longrightarrow>
   sysReach E \<lparr>sy_store = s, sy_log = h0 @ h, sy_running = [(r, p, h)], sy_done = d\<rparr> \<Longrightarrow>
   sysReach E \<lparr>sy_store = s', sy_log = h0 @ h', sy_running = [], sy_done = (r, out) # d\<rparr>"
proof (induction p arbitrary: s h)
  case (Ret x)
  then show ?case using sysReach.finish [OF Ret.prems(2), of "[]" r out h "[]"] by simp
next
  case (Ask q k)
  have step: "sysReach E \<lparr>sy_store = s1, sy_log = h0 @ h @ [(q, a)], sy_running = [(r, k a, h @ [(q, a)])], sy_done = d\<rparr>"
    if "answers s q a s1" for a s1
    using sysReach.call [OF Ask.prems(2), of "[]" r q k h "[]" a s1] that by simp
  show ?case
  proof (cases "\<exists>oper. q = AskStore oper")
    case True
    then obtain oper where q: "q = AskStore oper" by blast
    with Ask.prems(1) obtain rp s1 where st: "stepOp oper s = Some (rp, s1)"
      and pl: "play w (k ((w q)\<lparr>pa_store := rp\<rparr>)) s1 (h @ [(q, (w q)\<lparr>pa_store := rp\<rparr>)]) = Some (s', h', out)"
      by (auto split: option.splits)
    have "answers s q ((w q)\<lparr>pa_store := rp\<rparr>) s1" using st q by (simp add: answers_def)
    from step [OF this] Ask.IH [OF rangeI pl] show ?thesis by simp
  next
    case False
    then have "play w (k (w q)) s (h @ [(q, w q)]) = Some (s', h', out)" "answers s q (w q) s"
      using Ask.prems(1) by (auto simp: answers_def split: pxAsk.splits)
    with Ask.IH [OF rangeI] step show ?thesis by simp
  qed
qed

text \<open>Every request is answered: in every store that can be reached, the program of a request runs to an outcome,
  whatever the world answers.\<close>

lemma play_returns:
  "wp (justified E r) p Q h \<Longrightarrow> storeWf s \<Longrightarrow> \<exists>s' h' out. play w p s h = Some (s', h', out) \<and> storeWf s'"
proof (induction p arbitrary: s h)
  case (Ask q k)
  show ?case
  proof (cases "\<exists>oper. q = AskStore oper")
    case True
    then obtain oper where q: "q = AskStore oper" by blast
    have "opOk oper" using Ask.prems(1) q by (simp add: justified_def)
    from stepOp_safe [OF Ask.prems(2) this] obtain rp s1 where st: "stepOp oper s = Some (rp, s1)" "storeWf s1"
      by (auto simp: safeStep_def split: option.splits)
    then show ?thesis using Ask.IH [OF rangeI _ st(2)] Ask.prems(1) q by auto
  next
    case False
    then show ?thesis using Ask.IH [OF rangeI _ Ask.prems(2)] Ask.prems(1) by (cases q) auto
  qed
qed simp

text \<open>C14: Every request is answered, whatever clock, random source and hub answer: from every store that requests can
  lead to, the handler and the operations of the store it calls return, and the store stays within its bounds.\<close>

theorem access_request_answered:
  assumes "storeReach ops s"
  shows "\<exists>s' h out. play w (serveAccess E r) s [] = Some (s', h, out) \<and> length (so_sessions s') \<le> 20000 \<and> length (so_usedStates s') \<le> 5000"
proof -
  have "storeWf s" using storeReach_wf [OF assms] by simp
  from play_returns [OF wp_serveAccess this, where E = E and r = r and w = w and h = "[]"] show ?thesis
    by (auto simp: storeWf_def maxSessions_def maxUsedStates_def)
qed

text \<open>A URL that keeps a bearer token from the network: \<^verbatim>\<open>https\<close>, or \<^verbatim>\<open>http\<close> to the host itself.\<close>

definition protectedURL :: "netLib \<Rightarrow> string \<Rightarrow> bool" where
  "protectedURL N address \<longleftrightarrow>
     (\<exists>u. urlParse (nb_literal N) address = Some u
        \<and> (toLower (ur_Scheme u) = ''https''
           \<or> toLower (ur_Scheme u) = ''http'' \<and> (equalFold (hostname u) ''localhost'' \<or> nb_loopback N (hostname u))))"

text \<open>C9: What a request may ask for, whatever it is answered, of a proxy as its constructor makes it from a configuration. In public mode
  it asks for nothing: neither hub nor store is involved. In private mode a code is exchanged only at the configured hub and only
  after the sign-in state of the request was matched with the browser's cookie and spent; only an app access token presented by
  this request is sent for verification, and only if the URL of the hub is https or names the host itself; a session is stored
  only for a user the hub granted access, and an allowing verdict only for a token the hub granted.\<close>

theorem access_calls_justified:
  assumes "newProxy N unmarshal config = Inr E" and "run w (serveAccess E r) [] = (tr, out)" and "i < length tr"
  shows "justified E r (take i tr) (fst (tr ! i))
    \<and> (\<forall>address token ref. fst (tr ! i) = AskVerify address token ref \<longrightarrow> protectedURL N (nz_hubURL (pe_cfg E)))"
proof -
  have j: "justified E r (take i tr) (fst (tr ! i))"
    using wp_trace [OF wp_serveAccess assms(2)] assms(3) by (simp add: obeys_def)
  moreover have "protectedURL N (nz_hubURL (pe_cfg E))" if "pe_relay E"
    using that assms(1) by (auto simp: newProxy_def andThen_def hubURLProtectsTokens_def protectedURL_def Let_def
        split: sum.splits option.splits if_splits)
  ultimately show ?thesis by (auto simp: justified_def)
qed

section \<open>An example\<close>

definition demoRef :: instanceRef where
  "demoRef = \<lparr>ir_Cluster = ''c1'', ir_Group = ''g'', ir_Resource = ''apps'', ir_Name = ''shop''\<rparr>"

definition demoProxyConfig :: proxyConfig where
  "demoProxyConfig = \<lparr>pc_ListenAddress = [], pc_Mode = ''private'', pc_Host = ''Shop.example'',
     pc_Routes = [\<lparr>rt_Prefix = ''/'', rt_Target = ''http://web.ns.svc.cluster.local:80''\<rparr>,
                  \<lparr>rt_Prefix = ''/api/'', rt_Target = ''http://api.ns.svc.cluster.local/v1''\<rparr>],
     pc_Instance = demoRef, pc_HubURL = ''https://hub.example'', pc_HubPublicURL = [], pc_HubInsecure = False,
     pc_PublicScheme = [], pc_AllowNonClusterTargets = False, pc_HubTimeout = 0\<rparr>"

definition demoNet :: netLib where
  "demoNet = \<lparr>nb_literal = (\<lambda>_. None), nb_loopback = (\<lambda>h. h = ''127.0.0.1'')\<rparr>"

definition demoTarget :: "string \<Rightarrow> string \<Rightarrow> url" where
  "demoTarget h p = emptyURL\<lparr>ur_Scheme := ''http'', ur_Host := h, ur_Path := p\<rparr>"

definition demoProxy :: proxyEnv where
  "demoProxy = \<lparr>pe_net = demoNet, pe_cfg =
     \<lparr>nz_Config = demoProxyConfig\<lparr>pc_ListenAddress := '':8080'', pc_PublicScheme := ''https''\<rparr>,
      nz_host = ''shop.example'', nz_hubURL = ''https://hub.example'', nz_hubPublicURL = ''https://hub.example'', nz_publicScheme = ''https'',
      nz_routes = [\<lparr>nr_prefix = ''/api'', nr_target = demoTarget ''api.ns.svc.cluster.local'' ''/v1''\<rparr>,
                   \<lparr>nr_prefix = ''/'', nr_target = demoTarget ''web.ns.svc.cluster.local:80'' []\<rparr>],
      nz_hubTimeout = 10 * second\<rparr>, pe_relay = True, pe_unmarshal = (\<lambda>_. None)\<rparr>"

lemma demo_proxy: "newProxy demoNet (\<lambda>_. None) demoProxyConfig = Inr demoProxy"
proof -
  have "normalizeConfig demoNet demoProxyConfig = Inr (pe_cfg demoProxy)" by code_simp
  moreover have "hubURLProtectsTokens demoNet (nz_hubURL (pe_cfg demoProxy))" by code_simp
  ultimately show ?thesis by (simp add: newProxy_def) (simp add: demoProxy_def)
qed

definition demoCall :: pxRequest where
  "demoCall = \<lparr>px_Host = ''shop.example'', px_URL = emptyURL\<lparr>ur_Path := ''/api/orders''\<rparr>,
     px_Headers = [(''Authorization'', [''Bearer fapp_1'']), (''Accept'', [''*/*''])]\<rparr>"

definition demoHub :: "pxAsk \<Rightarrow> pxAnswer" where
  "demoHub q = \<lparr>pa_now = 0, pa_random = None, pa_store = RpDone,
     pa_hub = HubReplied \<lparr>hb_Status = 200, hb_RetryAfter = [],
       hb_Body = Some \<lparr>ex_Allowed = True, ex_UserID = ''ann'', ex_SessionTTLSeconds = 60\<rparr>\<rparr>\<rparr>"

definition demoToken :: string where "demoToken = ''fapp_1''"

lemma demo_call:
  "canonicalHost (requestHost demoCall) = Inr (nz_host (pe_cfg demoProxy))" "ur_Path (px_URL demoCall) \<noteq> CallbackPath"
  "routeFor (pe_cfg demoProxy) (ur_Path (px_URL demoCall)) = Some (hd (nz_routes (pe_cfg demoProxy)))"
  "sessionCookies demoCall = []" "bearerCredential demoCall = Some demoToken" "hasPrefix demoToken appTokenPrefix"
  "demoToken \<noteq> []" "pe_relay demoProxy" "pc_Mode (nz_Config (pe_cfg demoProxy)) = ModePrivate"
  by code_simp+

lemma demo_access_run: "\<exists>s h u hs. play demoHub (serveAccess demoProxy demoCall) emptyStore [] = Some (s, h, Forward u hs)"
proof -
  have "trimSpace ''ann'' \<noteq> []" by code_simp
  then show ?thesis
    unfolding serveAccess_def gateRequest_def authorizeBearer_def verifyBearer_def putVerdict_def calls Let_def
    by (simp add: demo_call demoHub_def stepOp_def currentSession_def cachedBearerVerdict_def putBearerVerdict_def
          emptyStore_def sweepSessions_def Let_def sess.evictLoop_id forward_def)
qed

theorem private_access_granted_witness:
  "\<exists>y u hs. sysReach demoProxy y \<and> (demoCall, Forward u hs) \<in> set (sy_done y) \<and> grantInForce demoProxy demoCall (sy_log y)"
proof -
  from demo_access_run obtain s h u hs where p: "play demoHub (serveAccess demoProxy demoCall) emptyStore [] = Some (s, h, Forward u hs)" by blast
  have "sysReach demoProxy \<lparr>sy_store = emptyStore, sy_log = [] @ [], sy_running = [(demoCall, serveAccess demoProxy demoCall, [])], sy_done = []\<rparr>"
    using sysReach.arrive [OF sysReach.boot, of demoProxy demoCall] by simp
  from play_reach [OF p this] have y: "sysReach demoProxy \<lparr>sy_store = s, sy_log = h, sy_running = [], sy_done = [(demoCall, Forward u hs)]\<rparr>"
    by simp
  from private_access_granted [OF y demo_call(9), of demoCall u hs] y show ?thesis by fastforce
qed

theorem access_request_answered_witness:
  "\<exists>s' h out. play demoHub (serveAccess demoProxy demoCall) emptyStore [] = Some (s', h, out) \<and> length (so_sessions s') \<le> 20000"
  using access_request_answered [OF storeReach.start, of demoHub demoProxy demoCall] by blast

theorem access_calls_justified_witness:
  "(\<exists>h. justified demoProxy demoCall h (AskVerify (nz_hubURL (pe_cfg demoProxy) @ hubVerifyPath) demoToken (refOf demoProxy)))
   \<and> protectedURL demoNet (nz_hubURL (pe_cfg demoProxy))"
proof -
  obtain tr out where r: "run (\<lambda>_. demoHub) (serveAccess demoProxy demoCall) [] = (tr, out)" by (metis surj_pair)
  have "trimSpace ''ann'' \<noteq> []" by code_simp
  with r have "length tr = 7 \<and> fst (tr ! 4) = AskVerify (nz_hubURL (pe_cfg demoProxy) @ hubVerifyPath) demoToken (refOf demoProxy)"
    unfolding serveAccess_def gateRequest_def authorizeBearer_def verifyBearer_def putVerdict_def calls Let_def
    by (auto simp: demo_call demoHub_def)
  with access_calls_justified [OF demo_proxy r, of 4] show ?thesis by auto
qed

end
