(* ===== verification/Access_Filters.thy ===== *)
theory Access_Filters
  imports Access_Headers
begin

text \<open>
  What the access proxy lets through: the application sees neither credentials nor the proxy's own cookies, and
  cannot set them or widen a cookie of its own to the shared parent domain. Both statements are about the
  cookies as their readers parse them.
\<close>

section \<open>Splitting and trimming\<close>

lemma splitAll_joinWith_space:
  "ps \<noteq> [] \<Longrightarrow> \<forall>p \<in> set ps. d \<notin> set p \<Longrightarrow> d \<noteq> CHR '' '' \<Longrightarrow>
   splitAll d (joinWith [d, CHR '' ''] ps) = hd ps # map ((#) (CHR '' '')) (tl ps)"
proof (induction "[d, CHR '' '']" ps rule: joinWith.induct)
  case (3 s t ts)
  have j: "joinWith [d, CHR '' ''] (s # t # ts) = s @ d # CHR '' '' # joinWith [d, CHR '' ''] (t # ts)" by simp
  have "splitAll d (CHR '' '' # x) = (CHR '' '' # hd (splitAll d x)) # tl (splitAll d x)" for x
    using 3(4) splitAll_not_Nil [of d x] by (cases "splitAll d x") (auto simp: splitAll.simps(2))
  then show ?case using 3 unfolding j by (simp add: splitAll_append)
qed simp_all

lemma trimWith_space: "spaceByte c \<Longrightarrow> trimWith p2 p3 (c # s) = trimWith p2 p3 s"
  by (cases s; cases "tl s") auto

lemma trimWith_spaces: "list_all spaceByte a \<Longrightarrow> trimWith p2 p3 (a @ s) = trimWith p2 p3 s"
  by (induction a) (simp_all add: trimWith_space)

lemma trimSpace_space: "trimSpace (CHR '' '' # s) = trimSpace s"
  by (simp add: trimSpace_def trimSpaceLeft_def trimWith_space spaceByte_def)

text \<open>A byte that is not part of a white-space rune.\<close>

definition solid :: "(char \<Rightarrow> char \<Rightarrow> bool) \<Rightarrow> (char \<Rightarrow> char \<Rightarrow> char \<Rightarrow> bool) \<Rightarrow> char \<Rightarrow> bool" where
  "solid p2 p3 d \<longleftrightarrow> \<not> spaceByte d \<and> (\<forall>x. \<not> p2 d x \<and> \<not> p2 x d) \<and> (\<forall>x y. \<not> p3 d x y \<and> \<not> p3 x d y \<and> \<not> p3 x y d)"

lemma solid_ascii:
  assumes "(of_char c :: nat) < 128" and "\<not> spaceByte c"
  shows "solid spaceRune2 spaceRune3 c" "solid (\<lambda>a b. spaceRune2 b a) (\<lambda>a b c. spaceRune3 c b a) c"
proof -
  have "c \<notin> {CHR 0xC2, CHR 0x85, CHR 0xA0, CHR 0xE1, CHR 0x9A, CHR 0x80, CHR 0xE2, CHR 0x81, CHR 0x82, CHR 0x83, CHR 0x84, CHR 0x86,
      CHR 0x87, CHR 0x88, CHR 0x89, CHR 0x8A, CHR 0xA8, CHR 0xA9, CHR 0xAF, CHR 0x9F, CHR 0xE3}" using assms(1) by auto
  then show "solid spaceRune2 spaceRune3 c" "solid (\<lambda>a b. spaceRune2 b a) (\<lambda>a b c. spaceRune3 c b a) c"
    using assms(2) unfolding solid_def spaceRune2_def spaceRune3_def by auto
qed

lemma trimWith_solid: "solid p2 p3 d \<Longrightarrow> trimWith p2 p3 (s @ d # r) = trimWith p2 p3 s @ d # r"
proof (induction p2 p3 s rule: trimWith.induct)
  case (1 p2 p3)
  then show ?case by (cases r; cases "tl r") (auto simp: solid_def)
next
  case (2 p2 p3 a)
  then show ?case by (cases r; cases "tl r") (auto simp: solid_def)
next
  case (3 p2 p3 a b)
  then show ?case by (cases r; cases "tl r") (auto simp: solid_def)
next
  case (4 p2 p3 a b c s)
  then show ?case by auto
qed

lemma trimSpace_solid:
  assumes "(of_char d :: nat) < 128" and "\<not> spaceByte d"
  shows "\<exists>r'. trimSpace (s @ d # r) = trimSpaceLeft s @ d # r'"
proof -
  have "trimSpaceLeft (s @ d # r) = trimSpaceLeft s @ d # r"
    unfolding trimSpaceLeft_def by (rule trimWith_solid [OF solid_ascii(1) [OF assms]])
  moreover have "trimSpaceRight (l @ d # r) = l @ d # rev (trimWith (\<lambda>a b. spaceRune2 b a) (\<lambda>a b c. spaceRune3 c b a) (rev r))" for l
    unfolding trimSpaceRight_def using trimWith_solid [OF solid_ascii(2) [OF assms], of "rev r" "rev l"] by simp
  ultimately show ?thesis unfolding trimSpace_def by auto
qed

lemma trimSpaceLeft_idem: "trimSpaceLeft (trimSpaceLeft s) = trimSpaceLeft s"
  unfolding trimSpaceLeft_def by (rule trimWith_id [OF trimWith_front])

lemma cutAt_found: "cutAt d s = (a, b, True) \<Longrightarrow> s = a @ d # b \<and> d \<notin> set a"
  by (induction s arbitrary: a b) (auto split: if_splits prod.splits)

lemma cutAt_first [simp]: "d \<notin> set a \<Longrightarrow> cutAt d (a @ d # b) = (a, b, True)"
  by (induction a) auto

lemma cutAt_missing: "d \<notin> set s \<Longrightarrow> cutAt d s = (s, [], False)"
  by (induction s) auto

lemma cutAt_Cons: "c \<noteq> d \<Longrightarrow> fst (cutAt d (c # s)) = c # fst (cutAt d s)"
proof (cases "d \<in> set s")
  case True
  then obtain a b where s: "s = a @ d # b" "d \<notin> set a" by (meson split_list_first)
  assume "c \<noteq> d"
  with s show ?thesis by simp
qed (simp add: cutAt_missing)

text \<open>The name of a cookie is the same whether the part is trimmed first or not.\<close>

lemma name_trimmed:
  assumes "cutAt (CHR ''='') (trimSpace s) = (a, b, True)"
  shows "\<exists>c b'. cutAt (CHR ''='') s = (c, b', True) \<and> trimSpace c = trimSpace a"
proof -
  have eq: "CHR ''='' \<in> set s" using cutAt_found [OF assms] set_trimSpace [of s] by auto
  then obtain c b' where s: "s = c @ CHR ''='' # b'" "CHR ''='' \<notin> set c" by (meson split_list_first)
  have a: "(of_char (CHR ''='') :: nat) < 128" "\<not> spaceByte (CHR ''='')" by (simp_all add: spaceByte_def)
  obtain r' where r: "trimSpace s = trimSpaceLeft c @ CHR ''='' # r'" using trimSpace_solid [OF a, of c b'] s(1) by auto
  have "CHR ''='' \<notin> set (trimSpaceLeft c)"
    using s(2) trimWith_suffix [of spaceRune2 spaceRune3 c] unfolding trimSpaceLeft_def by (auto dest: set_mono_suffix)
  then have "a = trimSpaceLeft c" using assms r by simp
  then have "trimSpace a = trimSpace c" by (simp add: trimSpace_def trimSpaceLeft_idem)
  with s show ?thesis by simp
qed

lemma part_plain: "p \<in> set (splitAll d s) \<Longrightarrow> d \<notin> set (trimSpace p)"
  using splitAll_noslash [of p d s] set_trimSpace [of p] by auto

section \<open>Responses\<close>

lemma splitN_name: "hd (splitN d 2 s) = fst (cutAt d s)"
  by (auto simp: numeral_2_eq_2 split: prod.split) (metis cutAt_missing fst_conv split_list_first cutAt_first prod.inject)

text \<open>The name of a Set-Cookie line is the part before the first equals sign of its first part; the attributes are the parts after it.\<close>

definition setCookieName :: "string \<Rightarrow> string option" where
  "setCookieName line =
     (case cutAt (CHR ''='') (hd (splitAll (CHR '';'') line)) of (name, v, found) \<Rightarrow> if found then Some (trimSpace name) else None)"

definition setCookieAttributes :: "string \<Rightarrow> string list" where
  "setCookieAttributes line = map (\<lambda>part. trimSpace (fst (cutAt (CHR ''='') part))) (tl (splitAll (CHR '';'') line))"

lemma splitAll_hd: "\<exists>rest. s = hd (splitAll d s) @ rest"
proof (induction s)
  case (Cons c s)
  then show ?case by (cases "splitAll d s") (auto simp: splitAll_not_Nil)
qed simp

lemma setCookieName_line:
  assumes "setCookieName line = Some n" shows "trimSpace (fst (cutAt (CHR ''='') line)) = n"
proof -
  obtain name v where c: "cutAt (CHR ''='') (hd (splitAll (CHR '';'') line)) = (name, v, True)" "n = trimSpace name"
    using assms by (auto simp: setCookieName_def split: prod.splits if_splits)
  obtain rest where r: "line = hd (splitAll (CHR '';'') line) @ rest" using splitAll_hd by blast
  have "line = name @ CHR ''='' # v @ rest" "CHR ''='' \<notin> set name" using r cutAt_found [OF c(1)] by auto
  then show ?thesis using c(2) by simp
qed

lemma stripCookieDomain_safe:
  assumes "\<not> isInternalCookie (trimSpace (hd (splitN (CHR ''='') 2 v)))"
  shows "(\<forall>n. setCookieName (stripCookieDomain v) = Some n \<longrightarrow> \<not> isInternalCookie n)
    \<and> (\<forall>a \<in> set (setCookieAttributes (stripCookieDomain v)). \<not> equalFold a ''domain'')"
proof (cases "length (splitAll (CHR '';'') v) < 2")
  case True
  then have s: "stripCookieDomain v = v" "tl (splitAll (CHR '';'') v) = []"
    by (simp_all add: stripCookieDomain_def Let_def) (cases "splitAll (CHR '';'') v"; cases "tl (splitAll (CHR '';'') v)"; simp)
  then show ?thesis using assms setCookieName_line [of v] unfolding splitN_name by (auto simp: setCookieAttributes_def)
next
  case False
  let ?parts = "splitAll (CHR '';'') v"
  let ?keep = "filter (\<lambda>part. part \<noteq> [] \<and> \<not> equalFold (trimSpace (fst (cutAt (CHR ''='') part))) ''domain'') (map trimSpace (tl ?parts))"
  have j: "stripCookieDomain v = joinWith [CHR '';'', CHR '' ''] (trimSpace (hd ?parts) # ?keep)"
    using False by (simp add: stripCookieDomain_def Let_def)
  have "hd ?parts \<in> set ?parts" "set (tl ?parts) \<subseteq> set ?parts"
    using splitAll_not_Nil [of "CHR '';''" v] by (cases ?parts; auto)+
  then have "\<forall>p \<in> set (trimSpace (hd ?parts) # ?keep). CHR '';'' \<notin> set p"
    using part_plain [of _ "CHR '';''" v] by auto
  from splitAll_joinWith_space [OF _ this] have sp:
    "splitAll (CHR '';'') (stripCookieDomain v) = trimSpace (hd ?parts) # map ((#) (CHR '' '')) ?keep"
    unfolding j by simp
  have "\<not> isInternalCookie n" if "setCookieName (stripCookieDomain v) = Some n" for n
  proof -
    from that obtain name w where c: "cutAt (CHR ''='') (trimSpace (hd ?parts)) = (name, w, True)" "n = trimSpace name"
      unfolding setCookieName_def sp by (auto split: prod.splits if_splits)
    from name_trimmed [OF c(1)] have "setCookieName v = Some n" using c(2) by (auto simp: setCookieName_def)
    from setCookieName_line [OF this] assms show ?thesis unfolding splitN_name by simp
  qed
  moreover have "\<not> equalFold a ''domain''" if "a \<in> set (setCookieAttributes (stripCookieDomain v))" for a
    using that unfolding setCookieAttributes_def sp by (auto simp: cutAt_Cons trimSpace_space simp del: cutAt.simps)
  ultimately show ?thesis by blast
qed

lemma keys_replace:
  "fst ` set (if a then m else if b then mdel k m else mput k v (mdel k m)) \<subseteq> insert k (fst ` set m)"
  using keys_mput [of k v "mdel k m"] by (auto simp: set_mdel split: if_splits)

lemma keys_kept:
  assumes "\<not> D k'" and "fst ` set m \<subseteq> insert k' (fst ` set (filter (\<lambda>(k, vs). \<not> D k) hs))" and "(k, v) \<in> set m"
  shows "\<not> D k"
proof -
  have "k \<in> fst ` set m" using assms(3) by force
  with assms(1,2) show ?thesis by auto
qed

lemma hdrValues_replace:
  "(hdrValues m k = [] \<longrightarrow> v = []) \<Longrightarrow>
   hdrValues (if hdrValues m k = [] then m else if v = [] then mdel k m else mput k v (mdel k m)) k = v"
  by (simp add: hdrValues_def)

text \<open>No response lets an application touch the proxy's cookies or widen its own: of the headers that reach the
  browser none is an authentication challenge or platform header, no cookie has the name of a proxy cookie, and none has a
  Domain attribute.\<close>

theorem response_cookies_confined:
  assumes "line \<in> set (hdrValues (stripUpstreamResponseHeaders hs) ''Set-Cookie'')"
  shows "(\<forall>n. setCookieName line = Some n \<longrightarrow> \<not> isInternalCookie n)
    \<and> (\<forall>a \<in> set (setCookieAttributes line). \<not> equalFold a ''domain'')
    \<and> (\<forall>(k, vs) \<in> set (stripUpstreamResponseHeaders hs). \<not> droppedResponseHeader k)"
proof -
  let ?hs = "filter (\<lambda>(k, vs). \<not> droppedResponseHeader k) hs" and ?S = "''Set-Cookie''"
  let ?kept = "concat (map keepSetCookie (hdrValues ?hs ?S))"
  have set: "\<not> droppedResponseHeader ?S" by code_simp
  have strip: "stripUpstreamResponseHeaders hs =
      (if hdrValues ?hs ?S = [] then ?hs else if ?kept = [] then mdel ?S ?hs else mput ?S ?kept (mdel ?S ?hs))"
    unfolding stripUpstreamResponseHeaders_def Let_def by (rule refl)
  have vals: "hdrValues (stripUpstreamResponseHeaders hs) ?S = ?kept"
    unfolding strip by (rule hdrValues_replace) simp
  obtain v where v: "line = stripCookieDomain v" "\<not> isInternalCookie (trimSpace (hd (splitN (CHR ''='') 2 v)))"
    using assms unfolding vals by (auto simp: keepSetCookie_def split: if_splits)
  have keys: "fst ` set (stripUpstreamResponseHeaders hs) \<subseteq> insert ?S (fst ` set ?hs)"
    unfolding strip by (rule keys_replace)
  have "\<not> droppedResponseHeader k" if "(k, vs) \<in> set (stripUpstreamResponseHeaders hs)" for k vs
    by (rule keys_kept [OF set keys that])
  then have "\<forall>(k, vs) \<in> set (stripUpstreamResponseHeaders hs). \<not> droppedResponseHeader k" by blast
  with stripCookieDomain_safe [OF v(2)] v(1) show ?thesis by simp
qed

text \<open>The proxy's cookie is dropped and the Domain attribute of the application's cookie is cut.\<close>

definition annResponse :: "headers" where
  "annResponse = [(''Set-Cookie'', [''app=1; Domain=example.com; Path=/'', SessionCookieName @ ''=stolen'']), (''X-Railgrid-User'', [''eve''])]"

lemma annResponse_line: "hdrValues (stripUpstreamResponseHeaders annResponse) ''Set-Cookie'' = [''app=1; Path=/'']"
  by code_simp

lemma response_cookies_confined_witness:
  "setCookieName ''app=1; Path=/'' = Some ''app'' \<and> \<not> isInternalCookie ''app''
   \<and> setCookieAttributes ''app=1; Path=/'' = [''Path''] \<and> \<not> equalFold ''Path'' ''domain''"
proof -
  have n: "setCookieName ''app=1; Path=/'' = Some ''app''" "setCookieAttributes ''app=1; Path=/'' = [''Path'']" by code_simp+
  have "''app=1; Path=/'' \<in> set (hdrValues (stripUpstreamResponseHeaders annResponse) ''Set-Cookie'')"
    by (simp add: annResponse_line)
  from response_cookies_confined [OF this] n show ?thesis by simp
qed

section \<open>Requests\<close>

definition httpSpace :: "string" where "httpSpace = [CHR '' '', CHR 0x09, CHR 0x0A, CHR 0x0D]"

lemma httpSpace_byte: "c \<in> set httpSpace \<Longrightarrow> spaceByte c"
  by (auto simp: httpSpace_def spaceByte_def)

lemma trimHTTP_alt: "trimHTTP s = trimLeftSet httpSpace (trimRightSet httpSpace s)"
  unfolding trimHTTP_def httpSpace_def Let_def by (rule refl)

text \<open>A trimmed string has no space byte at either end.\<close>

lemma trimSpace_ends:
  assumes "trimSpace p = p" and "p \<noteq> []"
  shows "\<not> spaceByte (hd p)" "\<not> spaceByte (last p)"
proof -
  have front: "spaceByte (hd q) \<Longrightarrow> q \<noteq> [] \<Longrightarrow> spaceFront p2 p3 q" for q p2 p3
    by (cases "(p2, p3, q)" rule: spaceFront.cases) auto
  have "length (trimSpaceRight l) \<le> length l" for l
    using suffix_length_le [OF trimWith_suffix [of "\<lambda>a b. spaceRune2 b a" "\<lambda>a b c. spaceRune3 c b a" "rev l"]]
    by (simp add: trimSpaceRight_def)
  moreover have sl: "suffix (trimSpaceLeft p) p" unfolding trimSpaceLeft_def by (rule trimWith_suffix)
  ultimately have "length p \<le> length (trimSpaceLeft p)" using assms(1) unfolding trimSpace_def by metis
  with sl have l: "trimSpaceLeft p = p" by (metis le_antisym suffix_length_le suffix_order.order_iff_strict suffix_length_less not_less)
  then show "\<not> spaceByte (hd p)"
    using front [of p spaceRune2 spaceRune3] assms(2) trimWith_front unfolding trimSpaceLeft_def by metis
  have "trimSpaceRight p = p" using assms(1) l unfolding trimSpace_def by simp
  then have r: "trimWith (\<lambda>a b. spaceRune2 b a) (\<lambda>a b c. spaceRune3 c b a) (rev p) = rev p"
    unfolding trimSpaceRight_def by (metis rev_rev_ident)
  have "\<not> spaceByte (hd (rev p))"
    using front [of "rev p"] assms(2) trimWith_front r by (metis rev_is_Nil_conv)
  then show "\<not> spaceByte (last p)" using assms(2) by (simp add: hd_rev)
qed

lemma trimHTTP_id: "p = [] \<or> \<not> spaceByte (hd p) \<and> \<not> spaceByte (last p) \<Longrightarrow> trimHTTP p = p"
proof -
  assume p: "p = [] \<or> \<not> spaceByte (hd p) \<and> \<not> spaceByte (last p)"
  have dw: "trimLeftSet httpSpace q = q" if "q = [] \<or> \<not> spaceByte (hd q)" for q
    using that httpSpace_byte by (cases q) (auto simp: trimLeftSet_def)
  have "trimRightSet httpSpace p = p" unfolding trimRightSet_def using dw [of "rev p"] p by (auto simp: hd_rev)
  with dw p show ?thesis unfolding trimHTTP_alt by auto
qed

lemma trimHTTP_space: "p = [] \<or> \<not> spaceByte (hd p) \<and> \<not> spaceByte (last p) \<Longrightarrow> trimHTTP (CHR '' '' # p) = p"
proof (cases "p = []")
  case False
  assume "p = [] \<or> \<not> spaceByte (hd p) \<and> \<not> spaceByte (last p)"
  with False have e: "\<not> spaceByte (hd p)" "\<not> spaceByte (last p)" by auto
  have "hd (rev p) \<notin> set httpSpace" using e(2) httpSpace_byte False by (auto simp: hd_rev)
  then have "trimRightSet httpSpace (CHR '' '' # p) = CHR '' '' # p"
    using False unfolding trimRightSet_def trimLeftSet_def by (cases "rev p") (auto simp: rev_swap)
  moreover have "trimLeftSet httpSpace (CHR '' '' # p) = p"
    using e(1) httpSpace_byte False unfolding trimLeftSet_def by (cases p) (auto simp: httpSpace_def)
  ultimately show ?thesis unfolding trimHTTP_alt by simp
qed (simp add: trimHTTP_def trimLeftSet_def trimRightSet_def)

text \<open>A name that is a token after trimming HTTP spaces is the same after trimming all white space.\<close>

lemma tokenByte_solid: "tokenByte c \<Longrightarrow> (of_char c :: nat) < 128 \<and> \<not> spaceByte c"
  by (auto simp: tokenByte_def alnum_def spaceByte_def Let_def)

lemma trimLeftSet_split: "\<exists>a. s = a @ trimLeftSet cs s \<and> set a \<subseteq> set cs"
  using takeWhile_dropWhile_id [of "\<lambda>c. c \<in> set cs" s] set_takeWhileD [of _ "\<lambda>c. c \<in> set cs" s]
  unfolding trimLeftSet_def by (metis subsetI)

lemma trimRightSet_split: "\<exists>b. s = trimRightSet cs s @ b \<and> set b \<subseteq> set cs"
proof -
  obtain a where "rev s = a @ trimLeftSet cs (rev s)" "set a \<subseteq> set cs" using trimLeftSet_split by blast
  then have "s = trimRightSet cs s @ rev a" "set (rev a) \<subseteq> set cs"
    unfolding trimRightSet_def by (metis rev_append rev_rev_ident, simp)
  then show ?thesis by blast
qed

lemma token_name:
  assumes "isToken (trimHTTP s)" shows "trimSpace s = trimHTTP s"
proof -
  define n where "n = trimHTTP s"
  obtain b where b: "s = trimRightSet httpSpace s @ b" "set b \<subseteq> set httpSpace" using trimRightSet_split by blast
  obtain a where a: "trimRightSet httpSpace s = a @ n" "set a \<subseteq> set httpSpace"
    using trimLeftSet_split unfolding n_def trimHTTP_alt by blast
  have sp: "list_all spaceByte a" "list_all spaceByte (rev b)"
    using a(2) b(2) httpSpace_byte by (auto simp: list_all_iff)
  have n: "n \<noteq> []" "tokenByte (hd n)" "tokenByte (last n)" using assms unfolding n_def [symmetric] by (auto simp: isToken_def list_all_iff)
  have s: "s = a @ n @ b" using b(1) unfolding a(1) by simp
  have keep: "trimWith p2 p3 q = q" if "q \<noteq> []" "solid p2 p3 (hd q)" for p2 p3 q
    by (rule trimWith_id) (use that in \<open>cases "(p2, p3, q)" rule: spaceFront.cases; auto simp: solid_def\<close>)
  have "trimWith spaceRune2 spaceRune3 (n @ b) = n @ b"
    by (rule keep) (use n solid_ascii(1) tokenByte_solid in auto)
  then have l: "trimSpaceLeft s = n @ b"
    unfolding trimSpaceLeft_def s by (simp add: trimWith_spaces [OF sp(1)])
  have "trimWith (\<lambda>a b. spaceRune2 b a) (\<lambda>a b c. spaceRune3 c b a) (rev n) = rev n"
    by (rule keep) (use n solid_ascii(2) tokenByte_solid in \<open>auto simp: hd_rev\<close>)
  then have "trimSpaceRight (n @ b) = n"
    unfolding trimSpaceRight_def by (simp add: trimWith_spaces [OF sp(2)])
  with l show ?thesis unfolding trimSpace_def n_def by simp
qed

text \<open>A kept part, with or without the space the join puts before it, is read as a cookie that is not internal.\<close>

definition keptPart :: "string \<Rightarrow> bool" where
  "keptPart p \<longleftrightarrow> p \<noteq> [] \<and> trimSpace p = p \<and> CHR '';'' \<notin> set p
     \<and> (\<exists>name rest. cutAt (CHR ''='') p = (name, rest, True) \<and> \<not> isInternalCookie (trimSpace name))"

lemma keepCookiePart_kept: "CHR '';'' \<notin> set part \<Longrightarrow> p \<in> set (keepCookiePart part) \<Longrightarrow> keptPart p"
  unfolding keepCookiePart_def keptPart_def Let_def using set_trimSpace [of part]
  by (cases "cutAt (CHR ''='') (trimSpace part)") (auto split: if_splits)

lemma readCookiePart_kept:
  assumes "keptPart p" and "(n, v) \<in> set (readCookiePart p) \<union> set (readCookiePart (CHR '' '' # p))"
  shows "\<not> isInternalCookie n"
proof -
  have e: "p = [] \<or> \<not> spaceByte (hd p) \<and> \<not> spaceByte (last p)" using assms(1) trimSpace_ends unfolding keptPart_def by blast
  obtain name rest where c: "cutAt (CHR ''='') p = (name, rest, True)" "\<not> isInternalCookie (trimSpace name)"
    using assms(1) unfolding keptPart_def by blast
  have t: "trimHTTP p = p" "trimHTTP (CHR '' '' # p) = p" using trimHTTP_id [OF e] trimHTTP_space [OF e] by auto
  have "n = trimHTTP name \<and> isToken (trimHTTP name)"
    using assms(2) c(1) unfolding readCookiePart_def Let_def t by (auto split: if_splits option.splits)
  with token_name c(2) show ?thesis by metis
qed

lemma joinWith_ends:
  assumes "ps \<noteq> []" and "\<forall>p \<in> set ps. p \<noteq> []"
  shows "hd (joinWith sep ps) = hd (hd ps) \<and> last (joinWith sep ps) = last (last ps) \<and> joinWith sep ps \<noteq> []"
  using assms by (induction sep ps rule: joinWith.induct) (auto simp: last_append)

lemma joined_cookies:
  assumes "ps \<noteq> []" and "\<forall>p \<in> set ps. keptPart p"
    and "(n, v) \<in> set (concat (map readCookiePart (splitAll (CHR '';'') (trimHTTP (joinWith [CHR '';'', CHR '' ''] ps)))))"
  shows "\<not> isInternalCookie n"
proof -
  have ne: "\<forall>p \<in> set ps. p \<noteq> []" using assms(2) by (simp add: keptPart_def)
  have "keptPart (hd ps)" "keptPart (last ps)" using assms(1,2) by simp_all
  then have "\<not> spaceByte (hd (hd ps))" "\<not> spaceByte (last (last ps))" using trimSpace_ends unfolding keptPart_def by blast+
  with joinWith_ends [OF assms(1) ne] have t: "trimHTTP (joinWith [CHR '';'', CHR '' ''] ps) = joinWith [CHR '';'', CHR '' ''] ps"
    by (intro trimHTTP_id) simp
  have plain: "\<forall>p \<in> set ps. CHR '';'' \<notin> set p" using assms(2) by (simp add: keptPart_def)
  have "splitAll (CHR '';'') (joinWith [CHR '';'', CHR '' ''] ps) = hd ps # map ((#) (CHR '' '')) (tl ps)"
    by (rule splitAll_joinWith_space [OF assms(1) plain]) simp
  with assms(3) t have "(n, v) \<in> set (concat (map readCookiePart (hd ps # map ((#) (CHR '' '')) (tl ps))))" by simp
  then obtain p where "p \<in> set ps" "(n, v) \<in> set (readCookiePart p) \<union> set (readCookiePart (CHR '' '' # p))"
    using assms(1) by (cases ps) auto
  with assms(2) readCookiePart_kept show ?thesis by blast
qed

lemma stripped_request:
  "map_of (stripUpstreamRequestHeaders hs) ''Authorization'' = None
   \<and> (\<forall>(k, vs) \<in> set (stripUpstreamRequestHeaders hs). \<not> droppedRequestHeader k)
   \<and> (\<forall>(n, v) \<in> set (readCookies (stripUpstreamRequestHeaders hs)). \<not> isInternalCookie n)"
proof -
  let ?hs = "filter (\<lambda>(k, vs). \<not> droppedRequestHeader k) hs" and ?C = "''Cookie''" and ?join = "joinWith [CHR '';'', CHR '' '']"
  define keep where "keep = concat (map (\<lambda>line. concat (map keepCookiePart (splitAll (CHR '';'') line))) (hdrValues ?hs ?C))"
  have C: "\<not> droppedRequestHeader ?C" by code_simp
  have strip: "stripUpstreamRequestHeaders hs =
      (if hdrValues ?hs ?C = [] then ?hs else if keep = [] then mdel ?C ?hs else mput ?C [?join keep] ?hs)"
    unfolding stripUpstreamRequestHeaders_def filterCookieHeader_def Let_def keep_def by (rule refl)
  have sub: "fst ` set (if a then m else if b then mdel k m else mput k v m) \<subseteq> insert k (fst ` set m)"
    for a b k and v :: "string list" and m
    using keys_mput [of k v m] by (auto simp: set_mdel split: if_splits)
  have keys: "fst ` set (stripUpstreamRequestHeaders hs) \<subseteq> insert ?C (fst ` set ?hs)"
    unfolding strip by (rule sub)
  have drop: "\<not> droppedRequestHeader k" if "(k, vs) \<in> set (stripUpstreamRequestHeaders hs)" for k vs
    by (rule keys_kept [OF C keys that])
  have A: "droppedRequestHeader ''Authorization''" by code_simp
  have auth: "map_of (stripUpstreamRequestHeaders hs) ''Authorization'' = None"
  proof (rule ccontr)
    assume "map_of (stripUpstreamRequestHeaders hs) ''Authorization'' \<noteq> None"
    then obtain vs where "map_of (stripUpstreamRequestHeaders hs) ''Authorization'' = Some vs" by blast
    from drop [OF map_of_SomeD [OF this]] A show False by contradiction
  qed
  have kept: "\<forall>p \<in> set keep. keptPart p"
    unfolding keep_def using keepCookiePart_kept splitAll_noslash by fastforce
  have vals: "hdrValues (if hdrValues m k = [] then m else if keep = [] then mdel k m else mput k [?join keep] m) k =
      (if hdrValues m k = [] \<or> keep = [] then [] else [?join keep])" for m k
    by (simp add: hdrValues_def)
  have read: "readCookies (stripUpstreamRequestHeaders hs) =
      (if hdrValues ?hs ?C = [] \<or> keep = [] then [] else concat (map readCookiePart (splitAll (CHR '';'') (trimHTTP (?join keep)))))"
    unfolding readCookies_def strip vals by simp
  have "\<not> isInternalCookie n" if "(n, v) \<in> set (readCookies (stripUpstreamRequestHeaders hs))" for n v
  proof (cases "hdrValues ?hs ?C = [] \<or> keep = []")
    case True
    with that read show ?thesis by simp
  next
    case False
    then have "keep \<noteq> []" by simp
    from joined_cookies [OF this kept] that read False show ?thesis by simp
  qed
  then have "\<forall>(n, v) \<in> set (readCookies (stripUpstreamRequestHeaders hs)). \<not> isInternalCookie n" by blast
  moreover have "\<forall>(k, vs) \<in> set (stripUpstreamRequestHeaders hs). \<not> droppedRequestHeader k" using drop by blast
  ultimately show ?thesis using auth by simp
qed

text \<open>C13: The application sees neither the caller's credentials nor the proxy's cookies: of the headers that reach it none
  is an Authorization header, a forwarding header or a platform header, and none of the cookies it
  can read has the name of a cookie of the proxy.\<close>

theorem request_credentials_stripped:
  "map_of (stripUpstreamRequestHeaders hs) ''Authorization'' = None
   \<and> (\<forall>(k, vs) \<in> set (stripUpstreamRequestHeaders hs). \<not> hasPrefix (toLower k) ''x-railgrid-''
        \<and> toLower k \<notin> set [''authorization'', ''proxy-authorization'', ''forwarded'', ''via'', ''x-forwarded-for'', ''x-forwarded-host'',
             ''x-forwarded-proto'', ''x-forwarded-port'', ''x-real-ip'', ''x-original-url'', ''x-rewrite-url''])
   \<and> (\<forall>(n, v) \<in> set (readCookies (stripUpstreamRequestHeaders hs)). \<not> equalFold n SessionCookieName \<and> \<not> equalFold n ReturnCookieName
        \<and> \<not> hasPrefix (toLower n) (toLower ReturnCookieName @ ''-''))"
  using stripped_request [of hs] unfolding droppedRequestHeader_def isProxyReservedHeader_def isInternalCookie_def de_Morgan_disj .

text \<open>The application gets its own cookie and neither the caller's token nor the proxy's session.\<close>

definition annRequest :: "headers" where
  "annRequest = [(''Authorization'', [''Bearer token'']), (''Cookie'', [SessionCookieName @ ''=secret; app=1'']), (''Accept'', [''*''])]"

lemma annRequest_passed: "stripUpstreamRequestHeaders annRequest = [(''Cookie'', [''app=1'']), (''Accept'', [''*''])]"
  by code_simp

lemma request_credentials_stripped_witness:
  "map_of (stripUpstreamRequestHeaders annRequest) ''Authorization'' = None
   \<and> \<not> hasPrefix (toLower ''Cookie'') ''x-railgrid-'' \<and> \<not> hasPrefix (toLower ''Accept'') ''x-railgrid-''
   \<and> readCookies (stripUpstreamRequestHeaders annRequest) = [(''app'', ''1'')] \<and> \<not> equalFold ''app'' SessionCookieName"
proof -
  have "readCookies [(''Cookie'', [''app=1'']), (''Accept'', [''*''])] = [(''app'', ''1'')]" by code_simp
  with request_credentials_stripped [of annRequest] show ?thesis unfolding annRequest_passed by simp
qed

end
