(* ===== verification/Access_SignIn.thy ===== *)
theory Access_SignIn
  imports Access_System Access_Filters
begin

text \<open>
  The return state of a sign-in (\<^verbatim>\<open>accessproxy/proxy.go\<close>): where \<^verbatim>\<open>cleanReturnPath\<close> can send a browser, and that the cookie
  set before the redirect to the hub is read back by the callback.
\<close>

section \<open>The return path\<close>

text \<open>The raw path of a URL without scheme and host: up to the query or fragment.\<close>

definition rawPath :: "string \<Rightarrow> string" where
  "rawPath raw = fst (splitQuery (fst (cutAt (CHR ''#'') raw)))"

lemma cutAt_slash: "hasPrefix s ''/'' \<Longrightarrow> d \<noteq> CHR ''/'' \<Longrightarrow> hasPrefix (fst (cutAt d s)) ''/''"
  by (cases s) (auto simp: hasPrefix_def cutAt_Cons simp del: cutAt.simps)

lemma cutAt_prefix: "prefix (fst (cutAt d s)) s"
proof (induction s)
  case (Cons c s)
  then show ?case by (cases "cutAt d s") auto
qed simp

lemma no_slashes: "prefix t s \<Longrightarrow> \<not> hasPrefix s ''//'' \<Longrightarrow> \<not> hasPrefix t ''//''"
  unfolding hasPrefix_prefix using prefix_order.trans by blast

lemma splitQuery_join:
  assumes "splitQuery s = (p, force, q)"
  shows "s = (if force \<or> q \<noteq> [] then p @ ''?'' @ q else p) \<and> prefix p s \<and> (hasPrefix s ''/'' \<longrightarrow> hasPrefix p ''/'')"
proof -
  obtain a b f where c: "cutAt (CHR ''?'') s = (a, b, f)" by (metis prod_cases3)
  have p: "prefix a s" using cutAt_prefix [of "CHR ''?''" s] c by simp
  have h: "hasPrefix s ''/'' \<longrightarrow> hasPrefix a ''/''" using cutAt_slash [of s "CHR ''?''"] c by auto
  have e: "s = (if f then a @ CHR ''?'' # b else a) \<and> (f \<or> b = [])"
  proof (cases f)
    case True
    with c cutAt_found [of "CHR ''?''" s a b] show ?thesis by simp
  next
    case False
    have "CHR ''?'' \<notin> set s"
    proof
      assume "CHR ''?'' \<in> set s"
      then obtain x y where "s = x @ CHR ''?'' # y" "CHR ''?'' \<notin> set x" by (meson split_list_first)
      with c False show False by simp
    qed
    with c cutAt_missing [of "CHR ''?''" s] False show ?thesis by simp
  qed
  show ?thesis using assms p h e unfolding splitQuery_def c by (cases f; cases b) auto
qed

lemma unescape_slash: "hasPrefix p ''/'' \<Longrightarrow> unescape EncPath p = Some path \<Longrightarrow> hasPrefix path ''/''"
  by (cases p) (auto simp: hasPrefix_def)

lemma escapedForm_valid:
  assumes "validEncoded EncPath p" and "hasPrefix p ''/''" and "unescape EncPath p = Some path"
  shows "escapedForm EncPath (if p = escape EncPath path then [] else p) path = p"
proof -
  have "path \<noteq> ''*''" using unescape_slash [OF assms(2,3)] by (auto simp: hasPrefix_def)
  moreover have "p \<noteq> []" using assms(2) by (auto simp: hasPrefix_def)
  ultimately show ?thesis using assms(1,3) by (simp add: escapedForm_def)
qed

text \<open>Where a path with a valid encoding is parsed and printed, it comes back as it was.\<close>

lemma parse_print_path:
  assumes "hasPrefix u ''/''" and "\<not> hasPrefix u ''//''" and "validEncoded EncPath (fst (splitQuery u))"
    and "parseRaw lit u = Some v"
  shows "requestURI v = u \<and> ur_Fragment v = []"
proof -
  obtain p force q where s: "splitQuery u = (p, force, q)" by (metis prod_cases3)
  note j = splitQuery_join [OF s]
  from assms(1) obtain r where u: "u = CHR ''/'' # r" by (cases u) (auto simp: hasPrefix_def)
  have star: "u \<noteq> ''*''" using u by simp
  have scheme: "getScheme [] u = Some ([], u)" unfolding u by simp
  have slash: "hasPrefix p ''/''" "\<not> hasPrefix p ''//''" using j assms(1,2) no_slashes by blast+
  let ?w = "emptyURL\<lparr>ur_Scheme := [], ur_ForceQuery := force, ur_RawQuery := q\<rparr>"
  have "setPath p (?w\<lparr>ur_OmitHost := False\<rparr>) = Some v"
    using assms(4) star slash by (auto simp: parseRaw_def scheme s parseHier_def toLower_def emptyURL_def Let_def split: if_splits)
  then obtain path where path: "unescape EncPath p = Some path"
    and v: "v = ?w\<lparr>ur_OmitHost := False, ur_Path := path, ur_RawPath := (if p = escape EncPath path then [] else p)\<rparr>"
    by (auto simp: setPath_def split: option.splits)
  have "escapedPath v = p"
    using escapedForm_valid [OF _ slash(1) path] assms(3) s by (simp add: escapedPath_def v)
  moreover have "p \<noteq> []" using slash by (auto simp: hasPrefix_def)
  ultimately have "requestURI v = (if force \<or> q \<noteq> [] then p @ ''?'' @ q else p)"
    by (simp add: requestURI_def withQuery_def v emptyURL_def)
  then show ?thesis using j by (simp add: v emptyURL_def)
qed

lemma requestURI_fragment: "requestURI (u\<lparr>ur_Fragment := a, ur_RawFragment := b\<rparr>) = requestURI u"
  unfolding requestURI_def withQuery_def escapedPath_def by simp

lemma setFragment_requestURI: "setFragment f u = Some v \<Longrightarrow> requestURI v = requestURI u"
  using requestURI_fragment unfolding setFragment_def by (fastforce split: option.splits)

text \<open>A return path with a valid encoding is kept as it is, less its empty fragment, and is a path on the same origin.\<close>

theorem return_path_same_origin:
  assumes "cleanReturnPath N raw \<noteq> []" and "validEncoded EncPath (rawPath raw)"
  shows "cleanReturnPath N raw = fst (cutAt (CHR ''#'') raw)
    \<and> hasPrefix (cleanReturnPath N raw) ''/'' \<and> \<not> hasPrefix (cleanReturnPath N raw) ''//''"
proof -
  obtain u frag f where c: "cutAt (CHR ''#'') raw = (u, frag, f)" by (metis prod_cases3)
  have raw: "hasPrefix raw ''/''" "\<not> hasPrefix raw ''//''" using assms(1) by (auto simp: cleanReturnPath_def split: if_splits)
  obtain v where v: "urlParse (nb_literal N) raw = Some v" "cleanReturnPath N raw = requestURI v" "ur_Fragment v = []"
    using assms(1) by (auto simp: cleanReturnPath_def split: if_splits option.splits)
  have u: "hasPrefix u ''/''" "\<not> hasPrefix u ''//''"
    using cutAt_slash [OF raw(1), of "CHR ''#''"] no_slashes [OF cutAt_prefix raw(2), of "CHR ''#''"] c by auto
  obtain v0 where v0: "parseRaw (nb_literal N) u = Some v0" "v0 = v \<or> setFragment frag v0 = Some v"
    using v(1) unfolding urlParse_def c by (auto split: option.splits if_splits)
  have "requestURI v0 = u" using parse_print_path [OF u _ v0(1)] assms(2) c by (simp add: rawPath_def)
  moreover have "requestURI v = requestURI v0"
    using v0(2) setFragment_requestURI by blast
  ultimately show ?thesis using v(2) u c by simp
qed

lemma return_path_same_origin_witness:
  "cleanReturnPath demoNet ''/a%20b?q=1#'' = fst (cutAt (CHR ''#'') ''/a%20b?q=1#'')
   \<and> hasPrefix (cleanReturnPath demoNet ''/a%20b?q=1#'') ''/'' \<and> \<not> hasPrefix (cleanReturnPath demoNet ''/a%20b?q=1#'') ''//''"
proof (rule return_path_same_origin)
  have "cleanReturnPath demoNet ''/a%20b?q=1#'' = ''/a%20b?q=1''" by code_simp
  then show "cleanReturnPath demoNet ''/a%20b?q=1#'' \<noteq> []" by simp
  have "rawPath ''/a%20b?q=1#'' = ''/a%20b''" by code_simp
  then show "validEncoded EncPath (rawPath ''/a%20b?q=1#'')" by (simp add: validEncoded_def shouldEscape_def alnum_def)
qed

text \<open>Without a valid encoding the path is printed from its decoded form, and the result may name another host.\<close>

lemma tampered_return_path: "cleanReturnPath demoNet ''/%2Fevil.example/ x'' = ''//evil.example/%20x''"
  by code_simp

lemma tampered_redirect: "redirectLocation demoNet ''/cb'' ''//evil.example/%20x'' = ''//evil.example/%20x''"
  by code_simp

section \<open>The return cookie\<close>

lemma trimSpace_token:
  assumes "list_all (\<lambda>c. alnum c \<or> c \<in> {CHR ''-'', CHR ''_''}) s" shows "trimSpace s = s"
proof (cases "s = []")
  case False
  have "tokenByte (CHR ''-'')" "tokenByte (CHR ''_'')" by code_simp+
  then have "\<forall>c \<in> set s. tokenByte c" using assms unfolding list_all_iff by (metis insertE singletonD tokenByte_def)
  then have t: "tokenByte (hd s)" "tokenByte (last s)" using False by simp_all
  have keep: "trimWith p2 p3 q = q" if "q \<noteq> []" "solid p2 p3 (hd q)" for p2 p3 q
    by (rule trimWith_id) (use that in \<open>cases "(p2, p3, q)" rule: spaceFront.cases; auto simp: solid_def\<close>)
  have "trimSpaceLeft s = s" unfolding trimSpaceLeft_def
    by (rule keep) (use False t solid_ascii(1) tokenByte_solid in auto)
  moreover have "trimSpaceRight s = s" unfolding trimSpaceRight_def
    using keep [of "rev s"] solid_ascii(2) [of "last s"] tokenByte_solid [OF t(2)] False by (simp add: hd_rev)
  ultimately show ?thesis by (simp add: trimSpace_def)
qed (simp add: trimSpace_def trimSpaceLeft_def trimSpaceRight_def)

lemma decodeReturnState_marshal:
  assumes "pe_unmarshal E (marshalReturnState p) = Some p"
    and "length (encodeToString (marshalReturnState p)) \<le> maxReturnCookieBytes"
    and "rp_Nonce p \<noteq> []" and "rp_ExpiresAt p \<noteq> 0"
  shows "decodeReturnState E (encodeToString (marshalReturnState p)) = Some p"
proof -
  have "encodeToString (marshalReturnState p) \<noteq> []"
    using decode_encode [of "marshalReturnState p"] by (auto simp: decodeString_def marshalReturnState_def jsonFields_def)
  then show ?thesis
    using assms trimSpace_token [OF encode_digits [of "marshalReturnState p"]]
    by (simp add: decodeReturnState_def decode_encode)
qed

text \<open>A callback whose return cookie is the one the sign-in set, before it expires and for a state not used before, resumes
  at the path the sign-in came from.\<close>

theorem sign_in_resumes:
  assumes "returnCookieOf r (rp_Nonce p) = Some (name, encodeToString (marshalReturnState p))"
    and "pe_unmarshal E (marshalReturnState p) = Some p"
    and "length (encodeToString (marshalReturnState p)) \<le> maxReturnCookieBytes"
    and "rp_Nonce p \<noteq> []" and "rp_ExpiresAt p \<noteq> 0"
    and "\<And>h. pa_now (w h AskNow) < unixTime (rp_ExpiresAt p)"
    and "\<And>h oper. pa_store (w h (AskStore oper)) = RpFresh True"
  shows "snd (run w (consumeReturnState E r (rp_Nonce p) c) h) =
    (\<lparr>ro_Path = (if cleanReturnPath (pe_net E) (rp_Path p) = [] then ''/'' else cleanReturnPath (pe_net E) (rp_Path p)),
      ro_CookieName = name, ro_OK = True, ro_Restart = False, ro_RestartPath = [], ro_Partitioned = rp_Partitioned p\<rparr>, [])"
  using assms(1,4,6,7) decodeReturnState_marshal [OF assms(2-5)]
  by (simp add: consumeReturnState_def readNow_def spendState_def noOutcome_def Let_def)

text \<open>A browser that still has a cookie with the name older releases gave it.\<close>

definition deepLink :: returnStatePayload where
  "deepLink = \<lparr>rp_Nonce = ''n1'', rp_Path = ''/orders?q=1'', rp_ExpiresAt = 600, rp_Partitioned = False\<rparr>"

definition signInEnv :: proxyEnv where
  "signInEnv = demoProxy\<lparr>pe_unmarshal := (\<lambda>raw. if raw = marshalReturnState deepLink then Some deepLink else None)\<rparr>"

definition callbackRequest :: pxRequest where
  "callbackRequest = \<lparr>px_Host = ''shop.example'', px_URL = emptyURL\<lparr>ur_Path := CallbackPath, ur_RawQuery := ''state=n1&code=c''\<rparr>,
     px_Headers = [(''Cookie'', [ReturnCookieName @ ''='' @ encodeToString (marshalReturnState deepLink)])]\<rparr>"

lemma callback_cookies:
  "readCookies (px_Headers callbackRequest) = [(ReturnCookieName, encodeToString (marshalReturnState deepLink))]"
  by code_simp

lemma callback_cookie:
  "returnCookieOf callbackRequest (rp_Nonce deepLink) = Some (ReturnCookieName, encodeToString (marshalReturnState deepLink))"
  by (simp add: returnCookieOf_def cookieNamed_def callback_cookies returnCookieName_def) (simp add: ReturnCookieName_def)

lemma deep_link: "cleanReturnPath demoNet ''/orders?q=1'' = ''/orders?q=1''" by code_simp

lemma sign_in_resumes_witness:
  "snd (run (\<lambda>h q. \<lparr>pa_now = 5 * second, pa_random = None, pa_store = RpFresh True, pa_hub = HubNoRequest\<rparr>)
     (consumeReturnState signInEnv callbackRequest ''n1'' False) []) =
   (\<lparr>ro_Path = ''/orders?q=1'', ro_CookieName = ReturnCookieName, ro_OK = True, ro_Restart = False, ro_RestartPath = [],
     ro_Partitioned = False\<rparr>, [])"
proof -
  have "length (encodeToString (marshalReturnState deepLink)) \<le> maxReturnCookieBytes" by code_simp
  moreover have "5 * second < unixTime (rp_ExpiresAt deepLink)" by code_simp
  ultimately have "snd (run (\<lambda>h q. \<lparr>pa_now = 5 * second, pa_random = None, pa_store = RpFresh True, pa_hub = HubNoRequest\<rparr>)
     (consumeReturnState signInEnv callbackRequest (rp_Nonce deepLink) False) []) =
   (\<lparr>ro_Path = (if cleanReturnPath (pe_net signInEnv) (rp_Path deepLink) = [] then ''/'' else cleanReturnPath (pe_net signInEnv) (rp_Path deepLink)),
      ro_CookieName = ReturnCookieName, ro_OK = True, ro_Restart = False, ro_RestartPath = [], ro_Partitioned = rp_Partitioned deepLink\<rparr>, [])"
    by (intro sign_in_resumes [OF callback_cookie]) (simp_all add: signInEnv_def deepLink_def)
  then show ?thesis by (simp add: signInEnv_def demoProxy_def deepLink_def deep_link)
qed

end
