(* ===== verification/Agent_Paths.thy ===== *)
theory Agent_Paths
  imports Go_Prelude Sha256 "HOL-Library.List_Lexorder" "HOL-Library.Char_ord"
begin

text \<open>
  The agent inside a sandbox (\<^verbatim>\<open>dev-agent/\<close>): the checks every path from outside passes before it
  reaches the file system (\<^verbatim>\<open>main.go\<close>, \<^verbatim>\<open>exec_server.go\<close>), and the source digest of a set of files.
\<close>

definition workspaceManifestName :: string where
  "workspaceManifestName = ''.railgrid-workspace-manifest.json''"

definition errExecPathEscape :: goError where
  "errExecPathEscape = Errorf ''path escapes execution workspace'' []"

definition errExecSymlink :: goError where
  "errExecSymlink = Errorf ''symbolic links are not allowed in execution workspace paths'' []"

section \<open>Paths\<close>

definition reservedComponent :: "string \<Rightarrow> bool" where
  "reservedComponent part \<longleftrightarrow> toLower part \<in> {''.git'', ''node_modules'', ''.assistant-snapshots''}"

definition cleanWorkspacePath :: "string \<Rightarrow> goError + string" where
  "cleanWorkspacePath raw0 =
     (let raw = map (\<lambda>c. if c = CHR 0x5C then CHR ''/'' else c) (trimSpace raw0) in
      if raw = [] then Inl (Errorf ''path is required'' [])
      else if pathIsAbs raw then Inl (Errorf ''absolute path %q is not allowed'' [raw])
      else let clean = pathClean raw in
        if clean = ''.'' \<or> clean = ''..'' \<or> hasPrefix clean ''../'' then Inl (Errorf ''path %q escapes workspace'' [raw])
        else if clean = workspaceManifestName then Inl (Errorf ''path %q is reserved for the platform sync manifest'' [raw])
        else Inr clean)"

definition checkManagedPart :: "string \<Rightarrow> goError + unit" where
  "checkManagedPart part =
     (if reservedComponent part then Inl (Errorf ''workspace path contains reserved component %q'' [part]) else Inr ())"

definition validateManagedWorkspacePath :: "string \<Rightarrow> goError + unit" where
  "validateManagedWorkspacePath clean = firstErr checkManagedPart (splitAll (CHR ''/'') clean)"

definition checkExecPart :: "string \<Rightarrow> goError + unit" where
  "checkExecPart part =
     (if part = ''..'' then Inl errExecPathEscape
      else if reservedComponent part then Inl (Errorf ''workspace path contains reserved component %q'' [part])
      else Inr ())"

definition cleanExecPath :: "string \<Rightarrow> goError + string" where
  "cleanExecPath raw0 =
     (let raw = trimSpace raw0 in
      if raw = [] \<or> CHR 0x00 \<in> set raw \<or> CHR 0x5C \<in> set raw
      then Inl (Errorf ''workspace path must be non-empty and use slash-separated components'' [])
      else if pathIsAbs raw then Inl errExecPathEscape
      else andThen (firstErr checkExecPart (splitAll (CHR ''/'') raw)) (\<lambda>_.
        let clean = pathClean raw in
        if clean = ''.'' \<or> clean = ''..'' \<or> hasPrefix clean ''../'' then Inl errExecPathEscape
        else if clean = workspaceManifestName
        then Inl (Errorf ''workspace path %q is reserved for the platform sync manifest'' [raw])
        else Inr clean))"

definition execMaxWorkDirBytes :: nat where "execMaxWorkDirBytes = 256"

definition cleanExecWorkDir :: "string \<Rightarrow> goError + string" where
  "cleanExecWorkDir raw0 =
     (let raw = trimSpace raw0 in
      if raw = [] then Inr ''.''
      else if execMaxWorkDirBytes < length raw then Inl (Errorf ''workdir exceeds %d bytes'' [showNat execMaxWorkDirBytes])
      else if pathClean raw = ''.''
      then (if ''..'' \<in> set (splitAll (CHR ''/'') raw) then Inl errExecPathEscape else Inr ''.'')
      else cleanExecPath raw)"

text \<open>What such a path is: relative, without \<^verbatim>\<open>..\<close>, below the workspace, and not the manifest.\<close>

definition workspacePath :: "string \<Rightarrow> bool" where
  "workspacePath p \<longleftrightarrow> confinedPath p \<and> p \<noteq> ''.'' \<and> p \<noteq> workspaceManifestName"

definition managedPath :: "string \<Rightarrow> bool" where
  "managedPath p \<longleftrightarrow> workspacePath p \<and> (\<forall>part \<in> set (splitAll (CHR ''/'') p). \<not> reservedComponent part)"

named_theorems agent_path \<open>what the path checks of the agent establish\<close>

lemma cleanWorkspacePath_ok [agent_path]: "cleanWorkspacePath raw = Inr p \<Longrightarrow> workspacePath p"
  unfolding cleanWorkspacePath_def workspacePath_def pathIsAbs_def Let_def
  using pathClean_confined [of "map (\<lambda>c. if c = CHR 0x5C then CHR ''/'' else c) (trimSpace raw)"] by (auto split: if_splits)

lemma validateManaged_ok [agent_path]:
  "workspacePath p \<Longrightarrow> validateManagedWorkspacePath p = Inr () \<longleftrightarrow> managedPath p"
  unfolding validateManagedWorkspacePath_def managedPath_def firstErr_ok by (auto simp: checkManagedPart_def)

lemma cleanExecPath_ok [agent_path]: "cleanExecPath raw = Inr p \<Longrightarrow> workspacePath p"
  unfolding cleanExecPath_def workspacePath_def pathIsAbs_def Let_def
  using pathClean_confined [of "trimSpace raw"] by (auto split: if_splits simp: go_err)

lemma cleanExecWorkDir_ok [agent_path]: "cleanExecWorkDir raw = Inr p \<Longrightarrow> p = ''.'' \<or> workspacePath p"
  unfolding cleanExecWorkDir_def Let_def using cleanExecPath_ok by (auto split: if_splits)

text \<open>A path that passed once passes again, unchanged.\<close>

lemma plainElem_noslash: "list_all plainElem ps \<Longrightarrow> \<forall>p \<in> set ps. CHR ''/'' \<notin> set p"
  by (auto simp: list_all_iff plainElem_def)

end
