(* ===== verification/Agent_Files.thy ===== *)
theory Agent_Files
  imports Agent_Paths Interaction Json_Text
begin

text \<open>
  The files of the sandbox (\<^verbatim>\<open>dev-agent/main.go\<close>, \<^verbatim>\<open>exec_server.go\<close>): programs over the calls of \<^verbatim>\<open>os\<close> and \<^verbatim>\<open>os.Root\<close>, the
  checks against symbolic links, the manifest of the managed files, and the digest that identifies
  their content. Nothing is assumed of the answers of the file system.
\<close>

section \<open>Calls of the agent\<close>

text \<open>A path below the opened workspace root, or one of the host.\<close>

datatype loc = InRoot string | OnHost string

datatype fileKind = KFile | KDir | KSymlink | KSpecial

record fileInfo =
  fi_Kind :: fileKind
  fi_Size :: nat
  fi_Perm :: nat

record processStatus =
  ps_Configured :: bool
  ps_Running :: bool

datatype agAsk =
    AgMkdirAll loc
  | AgOpenRoot string
  | AgLstat loc
  | AgStat loc
  | AgReadFile loc
  | AgStream loc  \<comment> \<open>open, and copy to a hash\<close>
  | AgReadDir loc
  | AgWriteFile loc string
  | AgRename loc loc
  | AgRemove loc
  | AgRemoveAll loc
  | AgLock  \<comment> \<open>the mutation lock shared with the exec coordinator\<close>
  | AgUnlock
  | AgStatus
  | AgReload "string list"
  | AgRestart
  | AgExitContainer
  | AgNow

record agAnswer =
  ag_err :: "goError option"
  ag_info :: fileInfo
  ag_bytes :: string
  ag_entries :: "(string \<times> fileKind) list"
  ag_status :: processStatus
  ag_now :: int

type_synonym 'a ag = "(agAsk, agAnswer, 'a) prog"

definition agDo :: "agAsk \<Rightarrow> (goError + unit) ag" where
  "agDo q = Ask q (\<lambda>a. Ret (case ag_err a of Some e \<Rightarrow> Inl e | None \<Rightarrow> Inr ()))"

definition agGet :: "(agAnswer \<Rightarrow> 'a) \<Rightarrow> agAsk \<Rightarrow> (goError + 'a) ag" where
  "agGet f q = Ask q (\<lambda>a. Ret (case ag_err a of Some e \<Rightarrow> Inl e | None \<Rightarrow> Inr (f a)))"

definition lstat :: "loc \<Rightarrow> (goError + fileInfo) ag" where "lstat l = agGet ag_info (AgLstat l)"

definition readFile :: "loc \<Rightarrow> (goError + string) ag" where "readFile l = agGet ag_bytes (AgReadFile l)"

definition streamFile :: "loc \<Rightarrow> (goError + string) ag" where "streamFile l = agGet ag_bytes (AgStream l)"

section \<open>Errors\<close>

text \<open>\<^verbatim>\<open>errors.Is\<close>, and \<^verbatim>\<open>err.Error()\<close> with the arguments in place of the verbs.\<close>

primrec errorsIs :: "goError \<Rightarrow> goError \<Rightarrow> bool" where
  "errorsIs target (Errorf f as) \<longleftrightarrow> Errorf f as = target"
| "errorsIs target (Wrapf f as e) \<longleftrightarrow> Wrapf f as e = target \<or> errorsIs target e"

definition errNotExist :: goError where "errNotExist = Errorf ''file does not exist'' []"
definition errNotDir :: goError where "errNotDir = Errorf ''not a directory'' []"

fun fmtText :: "string \<Rightarrow> string list \<Rightarrow> string \<Rightarrow> string" where
  "fmtText [] as w = []"
| "fmtText [c] as w = [c]"
| "fmtText (c # d # f) as w =
     (if c \<noteq> CHR ''%'' then c # fmtText (d # f) as w
      else if d = CHR ''w'' then w @ fmtText f as w
      else (case as of
              [] \<Rightarrow> fmtText f [] w
            | a # as' \<Rightarrow> (if d = CHR ''q'' then CHR 0x22 # a @ [CHR 0x22] else a) @ fmtText f as' w))"

primrec errorText :: "goError \<Rightarrow> string" where
  "errorText (Errorf f as) = fmtText f as []"
| "errorText (Wrapf f as e) = fmtText f as (errorText e)"

section \<open>Symbolic links\<close>

text \<open>\<^verbatim>\<open>ensureExecPathNoSymlink\<close>: every prefix of the path is looked at; one that does not exist ends the walk.
  The loop is over the prefixes still to look at, each with its last component and whether it is the whole path.\<close>

fun walkNoSymlink :: "(string \<times> string \<times> bool) list \<Rightarrow> bool \<Rightarrow> (goError + unit) ag" where
  "walkNoSymlink [] includeTarget = Ret (Inr ())"
| "walkNoSymlink ((current, part, final) # ps) includeTarget =
     bind (lstat (InRoot current)) (\<lambda>r.
     case r of
       Inl e \<Rightarrow> if errorsIs errNotExist e then Ret (Inr ()) else Ret (Inl e)
     | Inr info \<Rightarrow>
         if fi_Kind info = KSymlink then Ret (Inl errExecSymlink)
         else if \<not> final \<and> fi_Kind info \<noteq> KDir
         then Ret (Inl (Errorf ''workspace path component %q is not a directory'' [part]))
         else if final \<and> \<not> includeTarget then Ret (Inr ())
         else walkNoSymlink ps includeTarget)"

definition pathPrefixes :: "string \<Rightarrow> (string \<times> string \<times> bool) list" where
  "pathPrefixes clean =
     (let parts = splitAll (CHR ''/'') clean in
      map (\<lambda>i. (joinWith ''/'' (take (Suc i) parts), parts ! i, Suc i = length parts)) [0..<length parts])"

definition ensureExecPathNoSymlink :: "string \<Rightarrow> bool \<Rightarrow> (goError + unit) ag" where
  "ensureExecPathNoSymlink clean includeTarget = walkNoSymlink (pathPrefixes clean) includeTarget"

definition openWorkspaceRoot :: "string \<Rightarrow> (goError + unit) ag" where
  "openWorkspaceRoot workdir = bindE (agDo (AgMkdirAll (OnHost workdir))) (\<lambda>_. agDo (AgOpenRoot workdir))"

section \<open>The source digest\<close>

definition normalizeSourceDigest :: "string \<Rightarrow> string" where
  "normalizeSourceDigest raw = trimPrefix (trimSpace raw) ''sha256:''"

text \<open>\<^verbatim>\<open>syncDigester\<close>: the bytes written to the hash so far.\<close>

definition digesterAdd :: "string \<Rightarrow> string \<Rightarrow> string \<Rightarrow> string" where
  "digesterAdd d clean content = d @ clean @ [CHR 0x00] @ content @ [CHR 0x00]"

definition digesterSum :: "string \<Rightarrow> string" where
  "digesterSum d = sha256Hex d"

definition digestBytes :: "string \<Rightarrow> string" where
  "digestBytes content = sha256Hex content"

text \<open>\<^verbatim>\<open>addFile\<close>: the digester with the file's bytes, the file's own digest and its size.\<close>

definition digesterAddFile :: "string \<Rightarrow> string \<Rightarrow> (goError + string \<times> string \<times> nat) ag" where
  "digesterAddFile d clean =
     bindE (streamFile (InRoot clean)) (\<lambda>content. Ret (Inr (digesterAdd d clean content, digestBytes content, length content)))"

definition hashWorkspaceFile :: "string \<Rightarrow> (goError + string \<times> nat) ag" where
  "hashWorkspaceFile clean = bindE (streamFile (InRoot clean)) (\<lambda>content. Ret (Inr (digestBytes content, length content)))"

section \<open>The manifest\<close>

record workspaceManifest =
  wm_SourceRevision :: "64 word"
  wm_SourceDigest :: string
  wm_Files :: "string list"
  wm_PendingReloadCommands :: "string list"

definition marshalManifest :: "workspaceManifest \<Rightarrow> string" where
  "marshalManifest m =
     jsonFields ([(''sourceRevision'', showNat (unat (wm_SourceRevision m))), (''sourceDigest'', jsonString (wm_SourceDigest m)),
                  (''files'', if wm_Files m = [] then ''[]'' else jsonStrings (wm_Files m))]
       @ (if wm_PendingReloadCommands m = [] then [] else [(''pendingReloadCommands'', jsonStrings (wm_PendingReloadCommands m))]))"

text \<open>The checks of \<^verbatim>\<open>readWorkspaceManifest\<close> on the paths and on the pending commands; \<open>i\<close> counts the entries and
  \<open>seen\<close> holds the clean paths so far.\<close>

fun checkManifestFiles :: "nat \<Rightarrow> string list \<Rightarrow> string list \<Rightarrow> goError + string list" where
  "checkManifestFiles i seen [] = Inr []"
| "checkManifestFiles i seen (rawPath # ps) =
     andThen (mapErr (Wrapf ''manifest files[%d]: %w'' [showNat i]) (cleanWorkspacePath rawPath)) (\<lambda>clean.
     andThen (mapErr (Wrapf ''manifest files[%d]: %w'' [showNat i]) (validateManagedWorkspacePath clean)) (\<lambda>_.
     if clean \<in> set seen then Inl (Errorf ''manifest duplicates path %q'' [clean])
     else andThen (checkManifestFiles (Suc i) (clean # seen) ps) (\<lambda>rest. Inr (clean # rest))))"

fun checkManifestPending :: "nat \<Rightarrow> string list \<Rightarrow> goError + string list" where
  "checkManifestPending i [] = Inr []"
| "checkManifestPending i (rawCommand # cs) =
     (let command = trimSpace rawCommand in
      if command = [] \<or> 4096 < length command
      then Inl (Errorf ''manifest pendingReloadCommands[%d] is empty or too large'' [showNat i])
      else andThen (checkManifestPending (Suc i) cs) (\<lambda>rest. Inr (command # rest)))"

definition checkManifest :: "workspaceManifest \<Rightarrow> goError + workspaceManifest" where
  "checkManifest m =
     (if wm_SourceRevision m = 0 \<or> normalizeSourceDigest (wm_SourceDigest m) = []
      then Inl (Errorf ''manifest has no source revision or digest'' [])
      else andThen (checkManifestFiles 0 [] (wm_Files m)) (\<lambda>files.
        if 32 < length (wm_PendingReloadCommands m) then Inl (Errorf ''manifest has too many pending reload commands'' [])
        else andThen (checkManifestPending 0 (wm_PendingReloadCommands m)) (\<lambda>pending.
          Inr (m\<lparr>wm_Files := sort files, wm_PendingReloadCommands := pending\<rparr>))))"

text \<open>\<^verbatim>\<open>json.Unmarshal\<close> of a manifest is the argument \<open>U\<close>; nothing when there is no manifest.\<close>

definition readWorkspaceManifest :: "(string \<Rightarrow> goError + workspaceManifest) \<Rightarrow> (goError + workspaceManifest option) ag" where
  "readWorkspaceManifest U =
     bind (readFile (InRoot workspaceManifestName)) (\<lambda>r.
     Ret (case r of
            Inl e \<Rightarrow> if errorsIs errNotExist e then Inr None else Inl e
          | Inr raw \<Rightarrow> andThen (U raw) (\<lambda>m. andThen (checkManifest m) (\<lambda>m'. Inr (Some m')))))"

definition manifestTmp :: string where "manifestTmp = workspaceManifestName @ ''.tmp''"

definition writeWorkspaceManifest :: "workspaceManifest \<Rightarrow> (goError + unit) ag" where
  "writeWorkspaceManifest manifest =
     (let raw = marshalManifest (manifest\<lparr>wm_Files := sort (wm_Files manifest)\<rparr>) in
      bindE (agDo (AgWriteFile (InRoot manifestTmp) raw)) (\<lambda>_.
      bind (agDo (AgRename (InRoot manifestTmp) (InRoot workspaceManifestName))) (\<lambda>r.
      case r of
        Inr _ \<Rightarrow> Ret (Inr ())
      | Inl e \<Rightarrow> bind (agDo (AgRemove (InRoot manifestTmp))) (\<lambda>_. Ret (Inl e)))))"

text \<open>The paths of a manifest as \<^verbatim>\<open>verifyWorkspaceManifest\<close> cleans them, and the digest of the files on disk.\<close>

fun cleanManaged :: "string list \<Rightarrow> goError + string list" where
  "cleanManaged [] = Inr []"
| "cleanManaged (raw # rs) =
     andThen (cleanWorkspacePath raw) (\<lambda>clean.
     andThen (validateManagedWorkspacePath clean) (\<lambda>_.
     andThen (cleanManaged rs) (\<lambda>rest. Inr (clean # rest))))"

fun digestOnDisk :: "string \<Rightarrow> string list \<Rightarrow> (goError + string) ag" where
  "digestOnDisk d [] = Ret (Inr d)"
| "digestOnDisk d (clean # ps) =
     bindE (ensureExecPathNoSymlink clean True) (\<lambda>_.
     bindE (lstat (InRoot clean)) (\<lambda>info.
     if fi_Kind info \<noteq> KFile then Ret (Inl (Errorf ''managed path %q is not a regular file'' [clean]))
     else bindE (digesterAddFile d clean) (\<lambda>(d', _, _). digestOnDisk d' ps)))"

definition verifyWorkspaceManifest :: "workspaceManifest \<Rightarrow> (goError + unit) ag" where
  "verifyWorkspaceManifest manifest =
     (if wm_SourceRevision manifest = 0 \<or> normalizeSourceDigest (wm_SourceDigest manifest) = []
      then Ret (Inl (Errorf ''workspace manifest has no source revision or digest'' []))
      else (case cleanManaged (wm_Files manifest) of
          Inl e \<Rightarrow> Ret (Inl e)
        | Inr paths \<Rightarrow>
            bindE (digestOnDisk [] (sort paths)) (\<lambda>d.
            if normalizeSourceDigest (wm_SourceDigest manifest) \<noteq> digesterSum d
            then Ret (Inl (Errorf ''workspace manifest digest does not match managed files'' []))
            else Ret (Inr ()))))"

section \<open>Writing and removing\<close>

definition pathDir :: "string \<Rightarrow> string" where
  "pathDir p = pathClean (rev (dropWhile (\<lambda>c. c \<noteq> CHR ''/'') (rev p)))"

definition pathBase :: "string \<Rightarrow> string" where
  "pathBase p =
     (if p = [] then ''.''
      else let q = trimRightSet ''/'' p in
        if q = [] then ''/'' else rev (takeWhile (\<lambda>c. c \<noteq> CHR ''/'') (rev q)))"

definition writeWorkspaceFile :: "string \<Rightarrow> string \<Rightarrow> (goError + unit) ag" where
  "writeWorkspaceFile clean content =
     (let parent = pathDir clean in
      bindE (if parent \<noteq> ''.'' then wrapE (Wrapf ''create parent: %w'' []) (agDo (AgMkdirAll (InRoot parent))) else Ret (Inr ())) (\<lambda>_.
      agDo (AgWriteFile (InRoot clean) content)))"

definition workspaceFileContentChanged :: "string \<Rightarrow> string \<Rightarrow> bool ag" where
  "workspaceFileContentChanged clean next =
     bind (agGet ag_info (AgStat (InRoot clean))) (\<lambda>r.
     case r of
       Inl _ \<Rightarrow> Ret True
     | Inr info \<Rightarrow>
         if fi_Kind info \<noteq> KFile \<or> fi_Size info \<noteq> length next then Ret True
         else bind (readFile (InRoot clean)) (\<lambda>c. Ret (c \<noteq> Inr next)))"

text \<open>Whether a file was removed.\<close>

definition removeManagedWorkspaceFile :: "string \<Rightarrow> (goError + bool) ag" where
  "removeManagedWorkspaceFile raw =
     (case cleanWorkspacePath raw of
        Inl e \<Rightarrow> Ret (Inl e)
      | Inr clean \<Rightarrow>
          bind (ensureExecPathNoSymlink clean True) (\<lambda>r.
          case r of
            Inl e \<Rightarrow> if errorsIs errNotExist e then Ret (Inr False) else Ret (Inl e)
          | Inr _ \<Rightarrow>
              bind (lstat (InRoot clean)) (\<lambda>r.
              case r of
                Inl e \<Rightarrow> if errorsIs errNotExist e then Ret (Inr False) else Ret (Inl e)
              | Inr info \<Rightarrow>
                  if fi_Kind info \<noteq> KFile then Ret (Inl (Errorf ''managed path is not a regular file'' []))
                  else bindE (agDo (AgRemove (InRoot clean))) (\<lambda>_. Ret (Inr True)))))"

end
