(* ===== verification/Agent_Exec.thy ===== *)
theory Agent_Exec
  imports Agent_Files Go_Time
begin

text \<open>
  The stateless executor of a sandbox (\<^verbatim>\<open>dev-agent/exec_server.go\<close>) and the clean-up of the processes a command
  leaves behind (\<^verbatim>\<open>process_cleanup_linux.go\<close>): what a request may ask for, what a command sees of its
  environment, how its output is cut, and the run itself as a program over the calls of the host.
\<close>

section \<open>Requests\<close>

definition execDefaultTimeout :: int where "execDefaultTimeout = 30 * second"
definition execMaxTimeout :: int where "execMaxTimeout = 2 * 60 * second"
definition execDefaultOutputBytes :: int where "execDefaultOutputBytes = 262144"
definition execMaxOutputBytes :: int where "execMaxOutputBytes = 262144"

record persistentExecRequest =
  pq_Argv :: "string list"
  pq_WorkDir :: string
  pq_TimeoutMS :: int
  pq_MaxOutputBytes :: int
  pq_SourceRevision :: "64 word"
  pq_SourceDigest :: string

record execResponse =
  xp_Phase :: string
  xp_Argv :: "string list"
  xp_WorkDir :: string
  xp_ExitCode :: int
  xp_TimedOut :: bool
  xp_Cancelled :: bool
  xp_Stdout :: string
  xp_Stderr :: string
  xp_StdoutTruncated :: bool
  xp_StderrTruncated :: bool
  xp_SourceRevision :: "64 word"
  xp_SourceDigest :: string
  xp_DurationMS :: int
  xp_Error :: string

record execContext =
  xc_Port :: string
  xc_Component :: string

text \<open>\<^verbatim>\<open>time.Duration(ms) * time.Millisecond\<close> in 64-bit arithmetic.\<close>

definition durMillis :: "int \<Rightarrow> int" where
  "durMillis ms = sint (word_of_int (ms * 1000000) :: 64 word)"

fun checkArgs :: "nat \<Rightarrow> string list \<Rightarrow> goError + unit" where
  "checkArgs i [] = Inr ()"
| "checkArgs i (arg # args) =
     (if CHR 0x00 \<in> set arg then Inl (Errorf ''argv[%d] contains NUL'' [showNat i])
      else if 16384 < length arg then Inl (Errorf ''argv[%d] is too large'' [showNat i])
      else checkArgs (Suc i) args)"

definition validatePersistentExecRequest :: "persistentExecRequest \<Rightarrow> goError + unit" where
  "validatePersistentExecRequest req =
     (if pq_Argv req = [] \<or> trimSpace (hd (pq_Argv req)) = [] then Inl (Errorf ''argv must contain an executable'' [])
      else if 128 < length (pq_Argv req) then Inl (Errorf ''argv contains too many arguments'' [])
      else andThen (checkArgs 0 (pq_Argv req)) (\<lambda>_.
        if pq_SourceRevision req = 0 then Inl (Errorf ''source revision is required'' [])
        else let digest = normalizeSourceDigest (pq_SourceDigest req) in
        if length digest \<noteq> 64 then Inl (Errorf ''source digest is required'' [])
        else if \<not> hexDecodable digest then Inl (Errorf ''source digest must be a SHA-256 hex digest'' [])
        else if pq_TimeoutMS req < 0 \<or> (0 < pq_TimeoutMS req \<and> execMaxTimeout < durMillis (pq_TimeoutMS req))
        then Inl (Errorf ''timeout must be between 1ms and %s'' [''2m0s''])
        else if pq_MaxOutputBytes req < 0 \<or> execMaxOutputBytes < pq_MaxOutputBytes req
        then Inl (Errorf ''maxOutputBytes must be between 1 and %d'' [''262144''])
        else Inr ()))"

definition boundedExecTimeout :: "int \<Rightarrow> int" where
  "boundedExecTimeout timeoutMS = (if timeoutMS \<le> 0 then execDefaultTimeout else durMillis timeoutMS)"

definition boundedExecOutput :: "int \<Rightarrow> nat" where
  "boundedExecOutput limit = nat (if limit \<le> 0 then execDefaultOutputBytes else limit)"

section \<open>The environment of a command\<close>

definition decNat :: "string \<Rightarrow> nat" where
  "decNat s = foldl (\<lambda>acc c. 10 * acc + (of_char c - 48)) 0 s"

definition validExecPort :: "string \<Rightarrow> bool" where
  "validExecPort port \<longleftrightarrow>
     port \<noteq> [] \<and> list_all (\<lambda>c. c \<in> set ''0123456789'') port
   \<and> 0 < decNat port \<and> decNat port \<le> 65535 \<and> showNat (decNat port) = port"

definition execEnvValues :: "string \<Rightarrow> execContext \<Rightarrow> (string \<times> string) list" where
  "execEnvValues workDir execEnv =
     [(''HOME'', ''/tmp''), (''LANG'', ''C.UTF-8''), (''NPM_CONFIG_CACHE'', ''/tmp/railgrid-cache/npm''),
      (''PATH'', ''/usr/local/go/bin:/go/bin:/usr/local/bin:/usr/bin:/bin'')]
   @ (if validExecPort (trimSpace (xc_Port execEnv)) then [(''PORT'', trimSpace (xc_Port execEnv))] else [])
   @ [(''PWD'', workDir)]
   @ (let component = trimSpace (xc_Component execEnv) in
      if component \<noteq> [] \<and> \<not> containsAny component [CHR 0x00, CHR 0x0A] then [(''RAILGRID_COMPONENT'', component)] else [])
   @ [(''TMPDIR'', ''/tmp'')]"

text \<open>The entries are written in the order of their keys, which is the order above.\<close>

definition sanitizedExecEnvironment :: "string \<Rightarrow> execContext \<Rightarrow> string list" where
  "sanitizedExecEnvironment workDir execEnv = map (\<lambda>(k, v). k @ ''='' @ v) (execEnvValues workDir execEnv)"

section \<open>Output\<close>

record execOutputBuffer =
  ob_bytes :: string
  ob_limit :: nat
  ob_truncated :: bool

definition newExecOutputBuffer :: "nat \<Rightarrow> execOutputBuffer" where
  "newExecOutputBuffer limit = \<lparr>ob_bytes = [], ob_limit = limit, ob_truncated = False\<rparr>"

definition writeOutput :: "string \<Rightarrow> execOutputBuffer \<Rightarrow> execOutputBuffer" where
  "writeOutput data b =
     (if ob_limit b \<le> length (ob_bytes b) then b\<lparr>ob_truncated := (ob_truncated b \<or> data \<noteq> [])\<rparr>
      else let remaining = ob_limit b - length (ob_bytes b) in
        if remaining < length data
        then b\<lparr>ob_bytes := ob_bytes b @ take remaining data, ob_truncated := True\<rparr>
        else b\<lparr>ob_bytes := ob_bytes b @ data\<rparr>)"

text \<open>\<^verbatim>\<open>ReadFrom\<close> writes the chunks it reads, up to the end or an error.\<close>

definition readFrom :: "string list \<Rightarrow> execOutputBuffer \<Rightarrow> execOutputBuffer" where
  "readFrom reads b = fold (\<lambda>data b. if data = [] then b else writeOutput data b) reads b"

text \<open>What \<^verbatim>\<open>cmd.Wait\<close> returned: success, an exit status, a signal, another state of the process, or an
  error that is not an \<^verbatim>\<open>ExitError\<close>.\<close>

datatype waitResult = WaitOk | WaitExited int | WaitSignaled int | WaitOther | WaitFailed goError

fun execExitCode :: "waitResult \<Rightarrow> int \<times> bool" where
  "execExitCode WaitOk = (0, True)"
| "execExitCode (WaitFailed e) = (- 1, False)"
| "execExitCode (WaitExited n) = (n, True)"
| "execExitCode (WaitSignaled s) = (128 + s, True)"
| "execExitCode WaitOther = (- 1, True)"

section \<open>Processes\<close>

type_synonym processId = "int \<times> nat"  \<comment> \<open>pid and start time\<close>

record execProcessStat =
  st_identity :: processId
  st_parentPID :: int
  st_state :: char

text \<open>What reading the marker of a process gives.\<close>

datatype markerResult = Marked bool | MarkerGone | MarkerDenied | MarkerError goError

datatype waitEvent = EventExited waitResult | EventTimer | EventParentDone

datatype exAsk =
    ExFs agAsk
  | ExSubreaper
  | ExProcessTable
  | ExHasMarker int string
  | ExStart string "string list" string "string list"
  | ExSelect int
  | ExKillGroup
  | ExWait
  | ExKillProcess processId
  | ExReap
  | ExSleep
  | ExNow
  | ExLoadFailed
  | ExSwapFailed  \<comment> \<open>\<^verbatim>\<open>CompareAndSwap(false, true)\<close>\<close>
  | ExLock
  | ExUnlock
  | ExExit

record exAnswer =
  ex_fs :: agAnswer
  ex_err :: "goError option"
  ex_stats :: "(int \<times> execProcessStat) list"
  ex_marker :: markerResult
  ex_event :: waitEvent
  ex_wait :: waitResult
  ex_stdout :: "string list"
  ex_stderr :: "string list"
  ex_now :: int
  ex_flag :: bool

type_synonym 'a ex = "(exAsk, exAnswer, 'a) prog"

primrec onFiles :: "'a ag \<Rightarrow> 'a ex" where
  "onFiles (Ret a) = Ret a"
| "onFiles (Ask q k) = Ask (ExFs q) (\<lambda>a. onFiles (k (ex_fs a)))"

definition exDo :: "exAsk \<Rightarrow> (goError + unit) ex" where
  "exDo q = Ask q (\<lambda>a. Ret (case ex_err a of Some e \<Rightarrow> Inl e | None \<Rightarrow> Inr ()))"

definition exStats :: "(goError + (int \<times> execProcessStat) list) ex" where
  "exStats = Ask ExProcessTable (\<lambda>a. Ret (case ex_err a of Some e \<Rightarrow> Inl e | None \<Rightarrow> Inr (ex_stats a)))"

definition exNow :: "int ex" where "exNow = Ask ExNow (\<lambda>a. Ret (ex_now a))"

definition errExecCleanupUnproven :: goError where
  "errExecCleanupUnproven = Errorf ''exec process cleanup could not be proven'' []"

text \<open>The walk to the ancestor; \<open>seen\<close> stops it on a cycle.\<close>

function descendsWalk :: "int list \<Rightarrow> int \<Rightarrow> int \<Rightarrow> (int \<times> execProcessStat) list \<Rightarrow> bool" where
  "descendsWalk seen pid ancestor stats =
     (if pid \<le> 0 then False
      else if pid = ancestor then True
      else if pid \<in> set seen then False
      else (case map_of stats pid of
              None \<Rightarrow> False
            | Some process \<Rightarrow>
                if st_parentPID process = pid then False
                else descendsWalk (pid # seen) (st_parentPID process) ancestor stats))"
  by pat_completeness auto

termination
proof (relation "measure (\<lambda>(seen, pid, ancestor, stats). card (fst ` set stats - set seen))")
  fix seen :: "int list" and pid ancestor :: int and stats and x2 :: execProcessStat
  assume a: "pid \<notin> set seen" "map_of stats pid = Some x2"
  then have "pid \<in> fst ` set stats - set seen" by (auto dest!: map_of_SomeD intro: rev_image_eqI)
  then have "fst ` set stats - set (pid # seen) \<subset> fst ` set stats - set seen" by auto
  then show "((pid # seen, st_parentPID x2, ancestor, stats), (seen, pid, ancestor, stats))
      \<in> measure (\<lambda>(seen, pid, ancestor, stats). card (fst ` set stats - set seen))"
    by (simp add: psubset_card_mono)
qed simp

declare descendsWalk.simps [simp del]

definition execProcessDescendsFrom :: "int \<Rightarrow> int \<Rightarrow> (int \<times> execProcessStat) list \<Rightarrow> bool" where
  "execProcessDescendsFrom pid ancestor stats = descendsWalk [] pid ancestor stats"

definition hasMarker :: "int \<Rightarrow> string \<Rightarrow> markerResult ex" where
  "hasMarker pid marker = Ask (ExHasMarker pid marker) (\<lambda>a. Ret (ex_marker a))"

text \<open>\<^verbatim>\<open>selectExecProcessIDs\<close> over the process table \<open>todo\<close>, which is part of \<open>stats\<close>.\<close>

fun selectExecProcessIDs ::
    "int \<Rightarrow> string \<Rightarrow> processId list \<Rightarrow> (int \<times> execProcessStat) list \<Rightarrow> (int \<times> execProcessStat) list \<Rightarrow> (goError + processId list) ex" where
  "selectExecProcessIDs self marker baseline stats [] = Ret (Inr [])"
| "selectExecProcessIDs self marker baseline stats ((pid, process) # todo) =
     (let skip = selectExecProcessIDs self marker baseline stats todo;
          keep = bindE skip (\<lambda>rest. Ret (Inr (st_identity process # rest))) in
      if pid \<le> 1 \<or> pid = self then skip
      else if st_state process = CHR ''Z'' then skip
      else if st_identity process \<in> set baseline then skip
      else if execProcessDescendsFrom pid self stats then keep
      else bind (hasMarker pid marker) (\<lambda>m.
        case m of
          MarkerGone \<Rightarrow> skip
        | MarkerDenied \<Rightarrow> skip
        | MarkerError e \<Rightarrow> Ret (Inl e)
        | Marked b \<Rightarrow> if b then keep else skip))"

definition execProcessIDs :: "int \<Rightarrow> string \<Rightarrow> processId list \<Rightarrow> (goError + processId list) ex" where
  "execProcessIDs self marker baseline =
     bindE exStats (\<lambda>stats. selectExecProcessIDs self marker baseline stats stats)"

definition captureExecProcessBaseline :: "(goError + processId list) ex" where
  "captureExecProcessBaseline = bindE exStats (\<lambda>stats. Ret (Inr (map (\<lambda>(_, p). st_identity p) stats)))"

definition execCleanupStableEmptyScans :: nat where "execCleanupStableEmptyScans = 3"

definition killAll :: "processId list \<Rightarrow> (goError + unit) ex" where
  "killAll = eachE (\<lambda>p. wrapE (\<lambda>e. Wrapf ''%w: kill residual pid %d: %v'' [showInt (fst p), errorText e] errExecCleanupUnproven)
                          (exDo (ExKillProcess p)))"

text \<open>The message names the bound, which is two seconds wherever the loop is called, and the processes left.\<close>

definition processesText :: "processId list \<Rightarrow> string" where
  "processesText pids = ''['' @ joinWith '' '' (map (\<lambda>p. ''{'' @ showInt (fst p) @ '' '' @ showNat (snd p) @ ''}'') pids) @ '']''"

definition cleanupOverdue :: "processId list \<Rightarrow> nat \<Rightarrow> goError" where
  "cleanupOverdue pids emptyScans =
     Wrapf ''%w within %s (remaining pids %v, stable empty scans %d/%d)''
       [''2s'', processesText pids, showNat emptyScans, showNat execCleanupStableEmptyScans] errExecCleanupUnproven"

text \<open>The loop of \<^verbatim>\<open>cleanupExecProcesses\<close>. A round sleeps for 10 ms; \<open>fuel\<close> counts the rounds, and running out of
  it is read as the deadline, which comes first as soon as the clock advances in each round.\<close>

fun cleanupLoop :: "nat \<Rightarrow> int \<Rightarrow> string \<Rightarrow> processId list \<Rightarrow> int \<Rightarrow> nat \<Rightarrow> (goError + unit) ex" where
  "cleanupLoop 0 self marker baseline deadline emptyScans = Ret (Inl (cleanupOverdue [] emptyScans))"
| "cleanupLoop (Suc fuel) self marker baseline deadline emptyScans =
     bind (execProcessIDs self marker baseline) (\<lambda>r.
     case r of
       Inl e \<Rightarrow> Ret (Inl (Wrapf ''%w: inspect process namespace: %v'' [errorText e] errExecCleanupUnproven))
     | Inr pids \<Rightarrow>
         let continue = (\<lambda>n. bind exNow (\<lambda>t.
               if deadline < t then Ret (Inl (cleanupOverdue pids n))
               else Ask ExReap (\<lambda>_. Ask ExSleep (\<lambda>_. cleanupLoop fuel self marker baseline deadline n)))) in
         if pids = []
         then (if execCleanupStableEmptyScans \<le> Suc emptyScans then Ret (Inr ()) else continue (Suc emptyScans))
         else bindE (killAll pids) (\<lambda>_. continue 0))"

definition cleanupRounds :: "int \<Rightarrow> nat" where
  "cleanupRounds bound = nat (bound div 10000000) + 2"

definition cleanupExecProcesses :: "int \<Rightarrow> string \<Rightarrow> processId list \<Rightarrow> int \<Rightarrow> (goError + unit) ex" where
  "cleanupExecProcesses self marker baseline bound =
     bind exNow (\<lambda>t. cleanupLoop (cleanupRounds bound) self marker baseline (t + bound) 0)"

section \<open>The run\<close>

text \<open>The process, its working directory and the JSON decoder.\<close>

record execHost =
  xh_self :: int
  xh_cwd :: string
  xh_unmarshal :: "string \<Rightarrow> goError + workspaceManifest"

definition absPath :: "string \<Rightarrow> string \<Rightarrow> string" where
  "absPath cwd p = (if pathIsAbs p then pathClean p else pathJoin cwd p)"

text \<open>\<^verbatim>\<open>rejectRootSymlink\<close>: the loop over the components, with the path so far.\<close>

fun rejectSymlinks :: "string \<Rightarrow> string list \<Rightarrow> (goError + unit) ag" where
  "rejectSymlinks current [] = Ret (Inr ())"
| "rejectSymlinks current (part # parts) =
     (if part = [] \<or> part = ''.'' then rejectSymlinks current parts
      else let here = pathJoin current part in
        bind (lstat (OnHost here)) (\<lambda>r.
        case r of
          Inl e \<Rightarrow> if errorsIs errNotExist e then Ret (Inr ()) else Ret (Inl e)
        | Inr info \<Rightarrow> if fi_Kind info = KSymlink then Ret (Inl errExecSymlink) else rejectSymlinks here parts))"

definition rejectRootSymlink :: "string \<Rightarrow> (goError + unit) ag" where
  "rejectRootSymlink rootPath0 =
     (let rootPath = pathClean rootPath0; current = (if hasPrefix rootPath ''/'' then ''/'' else []) in
      rejectSymlinks current (splitAll (CHR ''/'') (trimPrefix rootPath current)))"

definition ensureExecDirectory :: "string \<Rightarrow> (goError + unit) ag" where
  "ensureExecDirectory clean =
     (if clean = ''.'' then Ret (Inr ())
      else bindE (ensureExecPathNoSymlink clean True) (\<lambda>_.
           bindE (wrapE (Wrapf ''workdir %q: %w'' [clean]) (agGet ag_info (AgStat (InRoot clean)))) (\<lambda>info.
           if fi_Kind info \<noteq> KDir then Ret (Inl (Errorf ''workdir %q is not a directory'' [clean])) else Ret (Inr ()))))"

definition executable :: "fileInfo \<Rightarrow> bool" where
  "executable info \<longleftrightarrow> fi_Kind info = KFile
     \<and> (fi_Perm info div 64 mod 2 = 1 \<or> fi_Perm info div 8 mod 2 = 1 \<or> fi_Perm info mod 2 = 1)"

fun searchPath :: "string \<Rightarrow> string list \<Rightarrow> (goError + string) ag" where
  "searchPath name [] = Ret (Inl (Errorf ''executable %q was not found in explicit PATH'' [name]))"
| "searchPath name (directory # ds) =
     (if directory = [] \<or> \<not> pathIsAbs directory then Ret (Inl (Errorf ''execution PATH entries must be absolute'' []))
      else let candidate = pathJoin directory name in
        bind (agGet ag_info (AgStat (OnHost candidate))) (\<lambda>r.
        case r of
          Inl _ \<Rightarrow> searchPath name ds
        | Inr info \<Rightarrow> if executable info then Ret (Inr candidate) else searchPath name ds))"

definition resolveExecExecutable :: "string \<Rightarrow> string list \<Rightarrow> string \<Rightarrow> (goError + string) ag" where
  "resolveExecExecutable name env workDir =
     (if trimSpace name = [] \<or> CHR 0x00 \<in> set name then Ret (Inl (Errorf ''argv executable is invalid'' []))
      else if CHR ''/'' \<in> set name
      then (if pathIsAbs name then Ret (Inr name)
            else Ret (andThen (cleanExecPath name) (\<lambda>clean. Inr (pathJoin workDir clean))))
      else (case find (\<lambda>v. hasPrefix v ''PATH='') env of
              None \<Rightarrow> Ret (Inl (Errorf ''argv executable must be absolute or PATH must be supplied explicitly'' []))
            | Some v \<Rightarrow>
                let pathValue = trimPrefix v ''PATH='' in
                if pathValue = []
                then Ret (Inl (Errorf ''argv executable must be absolute or PATH must be supplied explicitly'' []))
                else searchPath name (splitAll (CHR '':'') pathValue)))"

text \<open>The manifest must be the applied revision the request names, and the files on disk must be the ones it lists.\<close>

definition requireAppliedSource :: "execHost \<Rightarrow> persistentExecRequest \<Rightarrow> (goError + unit) ag" where
  "requireAppliedSource H req =
     bindE (wrapE (Wrapf ''read workspace manifest: %w'' []) (readWorkspaceManifest (xh_unmarshal H))) (\<lambda>m.
     case m of
       None \<Rightarrow> Ret (Inl (Errorf ''source revision is not synchronized: workspace manifest is missing'' []))
     | Some manifest \<Rightarrow>
         if wm_SourceRevision manifest \<noteq> pq_SourceRevision req
         then Ret (Inl (Errorf ''source revision %d is not the applied source revision %d''
                     [showNat (unat (pq_SourceRevision req)), showNat (unat (wm_SourceRevision manifest))]))
         else if normalizeSourceDigest (wm_SourceDigest manifest) \<noteq> normalizeSourceDigest (pq_SourceDigest req)
         then Ret (Inl (Errorf ''source digest does not match the applied workspace manifest'' []))
         else if wm_PendingReloadCommands manifest \<noteq> []
         then Ret (Inl (Errorf ''source revision dependency reload is still pending'' []))
         else wrapE (Wrapf ''workspace manifest verification failed: %w'' []) (verifyWorkspaceManifest manifest))"

text \<open>Up to the launch: the directory, the environment and the program.\<close>

definition prepareExec :: "execHost \<Rightarrow> string \<Rightarrow> execContext \<Rightarrow> persistentExecRequest \<Rightarrow>
    (goError + string \<times> string \<times> string list \<times> string) ag" where
  "prepareExec H workspace execEnv req =
     (case validatePersistentExecRequest req of
        Inl e \<Rightarrow> Ret (Inl e)
      | Inr _ \<Rightarrow>
        if trimSpace workspace = [] then Ret (Inl (Errorf ''execution workspace is required'' []))
        else let rootPath = absPath (xh_cwd H) (trimSpace workspace) in
          bindE (rejectRootSymlink rootPath) (\<lambda>_.
          bindE (wrapE (Wrapf ''create execution workspace: %w'' []) (agDo (AgMkdirAll (OnHost rootPath)))) (\<lambda>_.
          bindE (wrapE (Wrapf ''open execution workspace: %w'' []) (agDo (AgOpenRoot rootPath))) (\<lambda>_.
          bindE (Ret (cleanExecWorkDir (pq_WorkDir req))) (\<lambda>workDir.
          bindE (ensureExecDirectory workDir) (\<lambda>_.
          bindE (requireAppliedSource H req) (\<lambda>_.
          let workPath = pathJoin rootPath workDir; env = sanitizedExecEnvironment workPath execEnv in
          bindE (resolveExecExecutable (hd (pq_Argv req)) env workPath) (\<lambda>exe.
          Ret (Inr (workDir, workPath, env, exe))))))))))"

text \<open>After a timeout or a cancellation: the group is killed, its processes are cleaned up, and the command is waited for.\<close>

definition abortExec :: "execHost \<Rightarrow> string \<Rightarrow> processId list \<Rightarrow> string \<Rightarrow> (goError + waitResult \<times> string list \<times> string list) ex" where
  "abortExec H marker baseline format =
     bindE (wrapE (\<lambda>e. Wrapf format [errorText e] errExecCleanupUnproven) (exDo ExKillGroup)) (\<lambda>_.
     bindE (cleanupExecProcesses (xh_self H) marker baseline (2 * second)) (\<lambda>_.
     Ask ExWait (\<lambda>a. Ret (Inr (ex_wait a, ex_stdout a, ex_stderr a)))))"

definition superviseExec :: "execHost \<Rightarrow> persistentExecRequest \<Rightarrow> string \<Rightarrow> string \<Rightarrow> processId list \<Rightarrow> int \<Rightarrow> (goError + execResponse) ex" where
  "superviseExec H req workDir marker baseline started =
     Ask (ExSelect (boundedExecTimeout (pq_TimeoutMS req))) (\<lambda>a.
     let cancelled = (ex_event a = EventParentDone); timedOut = (ex_event a = EventTimer) in
     bindE (case ex_event a of
              EventExited w \<Rightarrow> Ret (Inr (w, ex_stdout a, ex_stderr a))
            | EventTimer \<Rightarrow> abortExec H marker baseline ''%w: terminate timed-out command: %v''
            | EventParentDone \<Rightarrow> abortExec H marker baseline ''%w: terminate cancelled command: %v'') (\<lambda>(waitErr, outs, errs).
     bindE (cleanupExecProcesses (xh_self H) marker baseline (2 * second)) (\<lambda>_.
     Ask ExReap (\<lambda>_.
     bind exNow (\<lambda>t.
     let limit = boundedExecOutput (pq_MaxOutputBytes req);
         stdout = readFrom outs (newExecOutputBuffer limit); stderr = readFrom errs (newExecOutputBuffer limit) in
     Ret (Inr \<lparr>xp_Phase = (if timedOut then ''timed_out'' else if cancelled then ''cancelled'' else ''completed''),
       xp_Argv = pq_Argv req, xp_WorkDir = workDir,
       xp_ExitCode = (case execExitCode waitErr of (code, ok) \<Rightarrow> if ok then code else - 1),
       xp_TimedOut = timedOut, xp_Cancelled = cancelled, xp_Stdout = ob_bytes stdout, xp_Stderr = ob_bytes stderr,
       xp_StdoutTruncated = ob_truncated stdout, xp_StderrTruncated = ob_truncated stderr,
       xp_SourceRevision = pq_SourceRevision req, xp_SourceDigest = pq_SourceDigest req,
       xp_DurationMS = (t - started) div 1000000,
       xp_Error = (if timedOut \<or> cancelled then [] else case waitErr of WaitFailed e \<Rightarrow> errorText e | _ \<Rightarrow> [])\<rparr>))))))"

definition runPersistentExecWithContext :: "execHost \<Rightarrow> string \<Rightarrow> execContext \<Rightarrow> persistentExecRequest \<Rightarrow> (goError + execResponse) ex" where
  "runPersistentExecWithContext H workspace execEnv req =
     bindE (onFiles (prepareExec H workspace execEnv req)) (\<lambda>(workDir, workPath, env, exe).
     bind exNow (\<lambda>started.
     bind exNow (\<lambda>nano.
     let marker = showInt (xh_self H) @ ''-'' @ showInt nano in
     bindE (wrapE (Wrapf ''enable child subreaper: %w'' []) (exDo ExSubreaper)) (\<lambda>_.
     bindE (wrapE (Wrapf ''capture exec process baseline: %w'' []) captureExecProcessBaseline) (\<lambda>baseline.
     bindE (wrapE (Wrapf ''start %q: %w'' [hd (pq_Argv req)])
              (exDo (ExStart exe (tl (pq_Argv req)) workPath (env @ [''RAILGRID_EXEC_SESSION='' @ marker])))) (\<lambda>_.
     superviseExec H req workDir marker baseline started))))))"

section \<open>The server\<close>

text \<open>A decoded body: an error of the decoder, a further value after it, or the value.\<close>

datatype 'a jsonBody = BodyInvalid goError | BodyTrailing | BodyValue 'a

datatype 'a agReply = AgError nat goError | AgJSON nat 'a

definition failStop :: "unit ex" where
  "failStop = Ask ExSwapFailed (\<lambda>a. if ex_flag a then Ask ExExit (\<lambda>_. Ret ()) else Ret ())"

definition execErrorStatus :: "goError \<Rightarrow> nat" where
  "execErrorStatus e =
     (if errorsIs errExecCleanupUnproven e then 500
      else if contains (errorText e) ''source revision'' \<or> contains (errorText e) ''source digest''
        \<or> contains (errorText e) ''workspace manifest'' then 409
      else 400)"

definition executorUnavailable :: "'a agReply" where
  "executorUnavailable = AgError 503 (Errorf ''executor is unavailable after an unproven process cleanup'' [])"

definition serveExecutor :: "execHost \<Rightarrow> string \<Rightarrow> execContext \<Rightarrow> string \<Rightarrow> string \<Rightarrow> persistentExecRequest jsonBody \<Rightarrow> execResponse agReply ex" where
  "serveExecutor H workspace execEnv path method body =
     (if path \<noteq> ''/internal/exec'' then Ret (AgError 404 (Errorf ''404 page not found'' []))
      else if method \<noteq> ''POST'' then Ret (AgError 405 (Errorf ''method not allowed'' []))
      else Ask ExLoadFailed (\<lambda>a.
        if ex_flag a then Ret executorUnavailable
        else (case body of
            BodyInvalid e \<Rightarrow> Ret (AgError 400 (Wrapf ''invalid JSON body: %w'' [] e))
          | BodyTrailing \<Rightarrow> Ret (AgError 400 (Errorf ''request body must contain one JSON object'' []))
          | BodyValue req \<Rightarrow>
              Ask ExLock (\<lambda>_.
              Ask ExLoadFailed (\<lambda>b.
              if ex_flag b then Ask ExUnlock (\<lambda>_. Ret executorUnavailable)
              else bind (runPersistentExecWithContext H workspace execEnv req) (\<lambda>r.
                case r of
                  Inr result \<Rightarrow> Ask ExUnlock (\<lambda>_. Ret (AgJSON 200 result))
                | Inl e \<Rightarrow>
                    bind (if errorsIs errExecCleanupUnproven e then failStop else Ret ()) (\<lambda>_.
                    Ask ExUnlock (\<lambda>_. Ret (AgError (execErrorStatus e) e)))))))))"

end
