(* ===== verification/Agent_Exec_Contract.thy ===== *)
theory Agent_Exec_Contract
  imports Agent_Exec
begin

text \<open>
  What the stateless executor guarantees whatever the host answers: a command starts only on the applied source, with a closed
  environment; only processes that came after the baseline and belong to the command are killed; a clean-up that succeeds saw
  an empty table three times in a row; the loop never runs out of rounds before its deadline; output is cut, not lost.
\<close>

section \<open>File calls of the executor\<close>

type_synonym agHistory = "(agAsk, agAnswer) history"
type_synonym exHistory = "(exAsk, exAnswer) history"

primrec fsCalls :: "exHistory \<Rightarrow> agHistory" where
  "fsCalls [] = []"
| "fsCalls (e # h) = (case fst e of ExFs q \<Rightarrow> [(q, ex_fs (snd e))] | _ \<Rightarrow> []) @ fsCalls h"

lemma fsCalls_append [simp]: "fsCalls (h @ h') = fsCalls h @ fsCalls h'"
  by (induction h) auto

lemma fsCalls_mono: "set h \<subseteq> set h' \<Longrightarrow> set (fsCalls h) \<subseteq> set (fsCalls h')"
proof -
  have "set (fsCalls h) = {(q, ex_fs a) | q a. (ExFs q, a) \<in> set h}" for h
    by (induction h) (auto split: exAsk.splits)
  then show "set h \<subseteq> set h' \<Longrightarrow> set (fsCalls h) \<subseteq> set (fsCalls h')" by auto
qed

lemma wp_onFiles:
  "wp (\<lambda>_ _. True) p Q (fsCalls h) \<Longrightarrow> (\<And>h' q. G h' (ExFs q)) \<Longrightarrow> (\<And>x h'. prefix h h' \<Longrightarrow> Q x (fsCalls h') \<Longrightarrow> R x h') \<Longrightarrow>
   wp G (onFiles p) R h"
proof (induction p arbitrary: h)
  case (Ask q k)
  have "wp G (onFiles (k (ex_fs r))) R (h @ [(ExFs q, r)])" for r
    by (rule Ask.IH [OF rangeI]) (use Ask.prems in \<open>auto dest: append_prefixD\<close>)
  then show ?case using Ask.prems(2) by simp
qed simp

section \<open>The applied source\<close>

definition streamed :: "agHistory \<Rightarrow> string \<Rightarrow> string \<Rightarrow> bool" where
  "streamed h p c \<longleftrightarrow> (\<exists>i. (AgLstat (InRoot p), i) \<in> set h \<and> ag_err i = None \<and> fi_Kind (ag_info i) = KFile)
     \<and> (\<exists>a. (AgStream (InRoot p), a) \<in> set h \<and> ag_err a = None \<and> ag_bytes a = c)"

lemma streamed_mono: "streamed h p c \<Longrightarrow> set h \<subseteq> set h' \<Longrightarrow> streamed h' p c"
  unfolding streamed_def by blast

definition filesDigest :: "string list \<Rightarrow> string list \<Rightarrow> string" where
  "filesDigest ps cs = concat (map2 (digesterAdd []) ps cs)"

text \<open>Every file of the manifest was read as a regular file, and the contents have the digest of the manifest.\<close>

definition verifiedSource :: "agHistory \<Rightarrow> workspaceManifest \<Rightarrow> bool" where
  "verifiedSource h m \<longleftrightarrow> (\<exists>ps cs. cleanManaged (wm_Files m) = Inr ps \<and> list_all2 (streamed h) (sort ps) cs
     \<and> normalizeSourceDigest (wm_SourceDigest m) = sha256Hex (filesDigest (sort ps) cs))"

text \<open>The manifest was read, it is of the revision and digest of the request, nothing is left to reload, and its files are on disk.\<close>

definition appliedSource :: "execHost \<Rightarrow> persistentExecRequest \<Rightarrow> agHistory \<Rightarrow> bool" where
  "appliedSource H req h \<longleftrightarrow>
     (\<exists>a m0 m. (AgReadFile (InRoot workspaceManifestName), a) \<in> set h \<and> ag_err a = None
        \<and> xh_unmarshal H (ag_bytes a) = Inr m0 \<and> checkManifest m0 = Inr m
        \<and> wm_SourceRevision m = pq_SourceRevision req
        \<and> normalizeSourceDigest (wm_SourceDigest m) = normalizeSourceDigest (pq_SourceDigest req)
        \<and> wm_PendingReloadCommands m = [] \<and> verifiedSource h m)"

lemma digestOnDisk_wp:
  "wp (\<lambda>_ _. True) (digestOnDisk d ps)
     (\<lambda>x h'. \<forall>d'. x = Inr d' \<longrightarrow> (\<exists>cs. list_all2 (streamed h') ps cs \<and> d' = d @ filesDigest ps cs)) h"
proof (induction ps arbitrary: d h)
  case Nil
  then show ?case by (simp add: filesDigest_def)
next
  case (Cons p ps)
  have step: "wp (\<lambda>_ _. True) (digestOnDisk (digesterAdd d p c) ps)
      (\<lambda>x h'. \<forall>d'. x = Inr d' \<longrightarrow> (\<exists>cs. list_all2 (streamed h') (p # ps) cs \<and> d' = d @ filesDigest (p # ps) cs)) h1"
    if s: "streamed h1 p c" for c h1
  proof (rule wp_mono [OF Cons.IH], intro allI impI)
    fix x h' d'
    assume pre: "prefix h1 h'" and "\<forall>d'. x = Inr d' \<longrightarrow> (\<exists>cs. list_all2 (streamed h') ps cs \<and> d' = digesterAdd d p c @ filesDigest ps cs)"
      and "x = Inr d'"
    then obtain cs where cs: "list_all2 (streamed h') ps cs" "d' = digesterAdd d p c @ filesDigest ps cs" by blast
    have "streamed h' p c" using streamed_mono [OF s] set_mono_prefix [OF pre] by blast
    then show "\<exists>cs. list_all2 (streamed h') (p # ps) cs \<and> d' = d @ filesDigest (p # ps) cs"
      using cs by (intro exI [of _ "c # cs"]) (simp add: filesDigest_def digesterAdd_def)
  qed
  have links: "wp (\<lambda>_ _. True) (ensureExecPathNoSymlink p True) (\<lambda>_ _. True) h" for h
    by (rule wp_onlyAsks [OF onlyAsks_any]) auto
  show ?case
    unfolding digestOnDisk.simps wp_bindE
    by (rule wp_mono [OF links])
      (auto simp: lstat_def agGet_def digesterAddFile_def streamFile_def streamed_def intro!: step split: sum.split option.split)
qed

lemma verifyWorkspaceManifest_wp:
  "wp (\<lambda>_ _. True) (verifyWorkspaceManifest m) (\<lambda>x h'. x = Inr () \<longrightarrow> verifiedSource h' m) h"
proof (cases "cleanManaged (wm_Files m)")
  case (Inr ps)
  have "wp (\<lambda>_ _. True) (bindE (digestOnDisk [] (sort ps)) (\<lambda>d.
      if normalizeSourceDigest (wm_SourceDigest m) \<noteq> digesterSum d
      then Ret (Inl (Errorf ''workspace manifest digest does not match managed files'' [])) else Ret (Inr ())))
    (\<lambda>x h'. x = Inr () \<longrightarrow> verifiedSource h' m) h"
    unfolding wp_bindE
    by (rule wp_mono [OF digestOnDisk_wp]) (auto simp: verifiedSource_def Inr digesterSum_def split: sum.split)
  then show ?thesis by (simp add: verifyWorkspaceManifest_def Inr)
qed (simp add: verifyWorkspaceManifest_def)

lemma requireAppliedSource_wp:
  "wp (\<lambda>_ _. True) (requireAppliedSource H req) (\<lambda>x h'. x = Inr () \<longrightarrow> appliedSource H req h') h"
proof -
  have verified: "wp (\<lambda>_ _. True) (verifyWorkspaceManifest m) (\<lambda>x h'. x = Inr () \<longrightarrow> appliedSource H req h') (h @ [(AgReadFile (InRoot workspaceManifestName), a)])"
    if "ag_err a = None" "xh_unmarshal H (ag_bytes a) = Inr m0" "checkManifest m0 = Inr m"
      "wm_SourceRevision m = pq_SourceRevision req" "normalizeSourceDigest (wm_SourceDigest m) = normalizeSourceDigest (pq_SourceDigest req)"
      "wm_PendingReloadCommands m = []" for a m0 m
  proof (rule wp_mono [OF verifyWorkspaceManifest_wp], intro impI)
    fix x h'
    assume pre: "prefix (h @ [(AgReadFile (InRoot workspaceManifestName), a)]) h'" and "x = Inr () \<longrightarrow> verifiedSource h' m" "x = Inr ()"
    then have "verifiedSource h' m" by simp
    moreover have "(AgReadFile (InRoot workspaceManifestName), a) \<in> set h'" using set_mono_prefix [OF pre] by auto
    ultimately show "appliedSource H req h'" unfolding appliedSource_def using that by blast
  qed
  have wrap: "wp (\<lambda>_ _. True) (wrapE f (verifyWorkspaceManifest m)) (\<lambda>x h'. x = Inr () \<longrightarrow> appliedSource H req h') h1"
    if "wp (\<lambda>_ _. True) (verifyWorkspaceManifest m) (\<lambda>x h'. x = Inr () \<longrightarrow> appliedSource H req h') h1" for f :: "goError \<Rightarrow> goError" and m h1
    unfolding wp_wrapE by (rule wp_mono [OF that]) (auto split: sum.splits)
  show ?thesis
    unfolding requireAppliedSource_def wp_bindE wp_wrapE readWorkspaceManifest_def wp_bind readFile_def agGet_def
    using verified wrap by (auto split: sum.split option.split simp: andThen_def)
qed

text \<open>What \<^verbatim>\<open>ExStart\<close> is called with.\<close>

definition commandEnvNames :: "string set" where
  "commandEnvNames = {''HOME'', ''LANG'', ''NPM_CONFIG_CACHE'', ''PATH'', ''PORT'', ''PWD'', ''RAILGRID_COMPONENT'', ''TMPDIR'',
     ''RAILGRID_EXEC_SESSION''}"

definition closedEnvironment :: "string list \<Rightarrow> bool" where
  "closedEnvironment env \<longleftrightarrow> (\<forall>v \<in> set env. \<exists>k x. v = k @ ''='' @ x \<and> k \<in> commandEnvNames)"

lemma closedEnvironment_append: "closedEnvironment (a @ b) \<longleftrightarrow> closedEnvironment a \<and> closedEnvironment b"
  by (auto simp: closedEnvironment_def)

lemma closedEnvironment_entries: "fst ` set kvs \<subseteq> commandEnvNames \<Longrightarrow> closedEnvironment (map (\<lambda>(k, v). k @ ''='' @ v) kvs)"
  unfolding closedEnvironment_def by fastforce

lemma sanitized_closed: "closedEnvironment (sanitizedExecEnvironment workPath E @ [''RAILGRID_EXEC_SESSION='' @ marker])"
proof -
  have "fst ` set (execEnvValues workPath E) \<subseteq> commandEnvNames"
    by (auto simp: execEnvValues_def commandEnvNames_def Let_def)
  then have "closedEnvironment (map (\<lambda>(k, v). k @ ''='' @ v) (execEnvValues workPath E))" by (rule closedEnvironment_entries)
  moreover have "closedEnvironment (map (\<lambda>(k, v). k @ ''='' @ v) [(''RAILGRID_EXEC_SESSION'', marker)])"
    by (rule closedEnvironment_entries) (simp add: commandEnvNames_def)
  ultimately show ?thesis by (simp add: closedEnvironment_append sanitizedExecEnvironment_def)
qed

lemma wp_skip:
  assumes "\<And>x h'. prefix h h' \<Longrightarrow> wp (\<lambda>_ _. True) (f x) Q h'" and "\<And>e h'. Q (Inl e) h'"
  shows "wp (\<lambda>_ _. True) (bindE p f) Q h"
  unfolding wp_bindE by (rule wp_onlyAsks [OF onlyAsks_any]) (use assms in \<open>auto split: sum.split\<close>)

lemma appliedSource_mono: "appliedSource H req h \<Longrightarrow> set h \<subseteq> set h' \<Longrightarrow> appliedSource H req h'"
proof -
  assume a: "appliedSource H req h" and sub: "set h \<subseteq> set h'"
  have "verifiedSource h m \<Longrightarrow> verifiedSource h' m" for m
    unfolding verifiedSource_def using streamed_mono [OF _ sub] by (metis (no_types, lifting) list_all2_mono)
  then show ?thesis using a sub unfolding appliedSource_def by blast
qed

lemma prepareExec_wp:
  "wp (\<lambda>_ _. True) (prepareExec H workspace E req)
     (\<lambda>x h'. \<forall>workDir workPath env exe. x = Inr (workDir, workPath, env, exe) \<longrightarrow>
        appliedSource H req h' \<and> validatePersistentExecRequest req = Inr () \<and> cleanExecWorkDir (pq_WorkDir req) = Inr workDir
        \<and> workPath = pathJoin (absPath (xh_cwd H) (trimSpace workspace)) workDir
        \<and> env = sanitizedExecEnvironment workPath E) h"
  (is "wp _ _ ?Q h")
proof (cases "validatePersistentExecRequest req")
  case (Inr u)
  let ?root = "absPath (xh_cwd H) (trimSpace workspace)"
  have err: "?Q (Inl e) h'" for e h' by simp
  have resolve: "wp (\<lambda>_ _. True) (bindE (resolveExecExecutable c env path) (\<lambda>exe. Ret (Inr (workDir, path, env, exe)))) ?Q h1"
    if "appliedSource H req h1" "cleanExecWorkDir (pq_WorkDir req) = Inr workDir" "path = pathJoin ?root workDir"
      "env = sanitizedExecEnvironment path E" for c env path workDir h1
    unfolding wp_bindE
    by (rule wp_onlyAsks [OF onlyAsks_any])
      (use that Inr appliedSource_mono [OF that(1)] set_mono_prefix in \<open>auto split: sum.split\<close>)
  have require: "wp (\<lambda>_ _. True) (bindE (requireAppliedSource H req) (\<lambda>_.
        let workPath = pathJoin ?root workDir; env = sanitizedExecEnvironment workPath E in
        bindE (resolveExecExecutable (hd (pq_Argv req)) env workPath) (\<lambda>exe. Ret (Inr (workDir, workPath, env, exe))))) ?Q h1"
    if "cleanExecWorkDir (pq_WorkDir req) = Inr workDir" for workDir h1
    unfolding wp_bindE [of _ "requireAppliedSource H req"]
    by (rule wp_mono [OF requireAppliedSource_wp]) (use that resolve in \<open>auto simp: Let_def split: sum.split\<close>)
  have rest: "wp (\<lambda>_ _. True) (bindE (Ret (cleanExecWorkDir (pq_WorkDir req))) (\<lambda>workDir.
      bindE (ensureExecDirectory workDir) (\<lambda>_. bindE (requireAppliedSource H req) (\<lambda>_.
        let workPath = pathJoin ?root workDir; env = sanitizedExecEnvironment workPath E in
        bindE (resolveExecExecutable (hd (pq_Argv req)) env workPath) (\<lambda>exe. Ret (Inr (workDir, workPath, env, exe))))))) ?Q h1" for h1
  proof (cases "cleanExecWorkDir (pq_WorkDir req)")
    case dir: (Inr workDir)
    have e: "bindE (Ret (cleanExecWorkDir (pq_WorkDir req))) f = f workDir" for f :: "string \<Rightarrow> (goError + 'b) ag"
      by (simp add: dir)
    show ?thesis unfolding e by (rule wp_skip, rule require [OF dir]) simp
  qed simp
  show ?thesis
  proof (cases "trimSpace workspace = []")
    case False
    then show ?thesis unfolding prepareExec_def Inr sum.case Let_def
      by (simp only: if_False, intro wp_skip [OF wp_skip [OF wp_skip [OF rest [unfolded Let_def Inr]]]]) simp_all
  qed (simp add: prepareExec_def Inr)
qed (simp add: prepareExec_def)

text \<open>A command is started only on the applied source, in the workspace, with a closed environment.\<close>

definition startJustified :: "execHost \<Rightarrow> string \<Rightarrow> persistentExecRequest \<Rightarrow> exHistory \<Rightarrow> exAsk \<Rightarrow> bool" where
  "startJustified H workspace req h q \<longleftrightarrow>
     (\<forall>exe args workPath env. q = ExStart exe args workPath env \<longrightarrow>
        appliedSource H req (fsCalls h) \<and> args = tl (pq_Argv req) \<and> closedEnvironment env
        \<and> (\<exists>workDir. cleanExecWorkDir (pq_WorkDir req) = Inr workDir
             \<and> workPath = pathJoin (absPath (xh_cwd H) (trimSpace workspace)) workDir))"

definition isStart :: "exAsk \<Rightarrow> bool" where
  "isStart q \<longleftrightarrow> (\<exists>exe args workPath env. q = ExStart exe args workPath env)"

lemma startJustified_other: "\<not> isStart q \<Longrightarrow> startJustified H w req h q"
  by (auto simp: startJustified_def isStart_def)

abbreviation noStart :: "'a ex \<Rightarrow> bool" where "noStart p \<equiv> onlyAsks (\<lambda>q. \<not> isStart q) p"

lemma isStart_simps [simp]:
  "isStart (ExStart a b c d)" "\<not> isStart (ExFs q)" "\<not> isStart ExSubreaper" "\<not> isStart ExProcessTable" "\<not> isStart (ExHasMarker i m)"
  "\<not> isStart (ExSelect t)" "\<not> isStart ExKillGroup" "\<not> isStart ExWait" "\<not> isStart (ExKillProcess p)" "\<not> isStart ExReap"
  "\<not> isStart ExSleep" "\<not> isStart ExNow" "\<not> isStart ExLoadFailed" "\<not> isStart ExSwapFailed" "\<not> isStart ExLock" "\<not> isStart ExUnlock"
  "\<not> isStart ExExit"
  by (simp_all add: isStart_def)

lemma noStart_scan: "noStart (selectExecProcessIDs self marker baseline stats todo)"
  by (induction self marker baseline stats todo rule: selectExecProcessIDs.induct)
    (auto simp: Let_def hasMarker_def intro!: onlyAsks_bindE split: markerResult.split)

lemma noStart_calls: "noStart (execProcessIDs self marker baseline)" "noStart (killAll pids)" "noStart captureExecProcessBaseline"
  by (auto simp: execProcessIDs_def exStats_def killAll_def exDo_def captureExecProcessBaseline_def noStart_scan
      intro!: onlyAsks_bindE onlyAsks_eachE onlyAsks_wrapE)

lemma noStart_loop: "noStart (cleanupLoop fuel self marker baseline deadline n)"
  by (induction fuel self marker baseline deadline n rule: cleanupLoop.induct)
    (auto simp: exNow_def Let_def noStart_calls intro!: onlyAsks_bind onlyAsks_bindE split: sum.split)

lemma noStart_cleanup: "noStart (cleanupExecProcesses self marker baseline bound)"
  by (simp add: cleanupExecProcesses_def exNow_def noStart_loop)

lemma noStart_supervise: "noStart (superviseExec H req workDir marker baseline started)"
  by (auto simp: superviseExec_def abortExec_def exDo_def exNow_def Let_def noStart_cleanup
      intro!: onlyAsks_bindE onlyAsks_bind onlyAsks_wrapE split: waitEvent.split)

lemma onFiles_fs: "onlyAsks (\<lambda>q. \<exists>a. q = ExFs a) (onFiles p)"
  by (induction p) auto

lemma wp_other: "noStart p \<Longrightarrow> (\<And>x h'. prefix h h' \<Longrightarrow> Q x h') \<Longrightarrow> wp (startJustified H w req) p Q h"
  by (rule wp_onlyAsks [where P = "\<lambda>q. \<not> isStart q"]) (simp_all add: startJustified_other)

lemma runPersistentExec_wp:
  "wp (startJustified H workspace req) (runPersistentExecWithContext H workspace E req) (\<lambda>_ _. True) h"
proof -
  let ?root = "absPath (xh_cwd H) (trimSpace workspace)" and ?G = "startJustified H workspace req"
  have go: "wp ?G (bindE (wrapE f (exDo (ExStart exe (tl (pq_Argv req)) workPath (env @ [''RAILGRID_EXEC_SESSION='' @ marker]))))
        (\<lambda>_. superviseExec H req workDir marker baseline started)) (\<lambda>_ _. True) h1"
    if "appliedSource H req (fsCalls h1)" "cleanExecWorkDir (pq_WorkDir req) = Inr workDir" "workPath = pathJoin ?root workDir"
      "env = sanitizedExecEnvironment workPath E" for f :: "goError \<Rightarrow> goError" and exe workPath env marker workDir baseline started h1
    unfolding wp_bindE wp_wrapE
    using that by (auto simp: exDo_def startJustified_def sanitized_closed [simplified] noStart_supervise intro!: wp_other split: sum.split)
  have skip: "wp ?G (bindE p f) (\<lambda>_ _. True) h1"
    if "noStart p" "\<And>x h'. prefix h1 h' \<Longrightarrow> wp ?G (f x) (\<lambda>_ _. True) h'" for p :: "(goError + 'a) ex" and f :: "'a \<Rightarrow> (goError + 'b) ex" and h1
    unfolding wp_bindE by (rule wp_other [OF that(1)]) (use that(2) in \<open>auto split: sum.split\<close>)
  have rest: "wp ?G (bind exNow (\<lambda>started. bind exNow (\<lambda>nano.
      let marker = showInt (xh_self H) @ ''-'' @ showInt nano in
      bindE (wrapE (Wrapf ''enable child subreaper: %w'' []) (exDo ExSubreaper)) (\<lambda>_.
      bindE (wrapE (Wrapf ''capture exec process baseline: %w'' []) captureExecProcessBaseline) (\<lambda>baseline.
      bindE (wrapE (Wrapf ''start %q: %w'' [hd (pq_Argv req)])
        (exDo (ExStart exe (tl (pq_Argv req)) workPath (env @ [''RAILGRID_EXEC_SESSION='' @ marker])))) (\<lambda>_.
      superviseExec H req workDir marker baseline started)))))) (\<lambda>_ _. True) h1"
    if a: "appliedSource H req (fsCalls h1)" and d: "cleanExecWorkDir (pq_WorkDir req) = Inr workDir" "workPath = pathJoin ?root workDir"
      "env = sanitizedExecEnvironment workPath E" for exe workPath env workDir h1
  proof -
    have later: "appliedSource H req (fsCalls h')" if "prefix h1 h'" for h'
      by (rule appliedSource_mono [OF a fsCalls_mono]) (rule set_mono_prefix [OF that])
    have "wp ?G (let marker = showInt (xh_self H) @ ''-'' @ showInt nano in
      bindE (wrapE (Wrapf ''enable child subreaper: %w'' []) (exDo ExSubreaper)) (\<lambda>_.
      bindE (wrapE (Wrapf ''capture exec process baseline: %w'' []) captureExecProcessBaseline) (\<lambda>baseline.
      bindE (wrapE (Wrapf ''start %q: %w'' [hd (pq_Argv req)])
        (exDo (ExStart exe (tl (pq_Argv req)) workPath (env @ [''RAILGRID_EXEC_SESSION='' @ marker])))) (\<lambda>_.
      superviseExec H req workDir marker baseline started)))) (\<lambda>_ _. True) h2" if "prefix h1 h2" for nano started h2
      unfolding Let_def
      by (rule skip, simp add: exDo_def onlyAsks_wrapE, rule skip, rule onlyAsks_wrapE, rule noStart_calls, rule go)
        (use that d prefix_order.trans in \<open>auto intro!: later\<close>)
    then show ?thesis by (simp add: exNow_def startJustified_other)
  qed
  have files: "wp ?G (onFiles (prepareExec H workspace E req)) (\<lambda>x h'. \<forall>workDir workPath env exe. x = Inr (workDir, workPath, env, exe) \<longrightarrow>
        appliedSource H req (fsCalls h') \<and> cleanExecWorkDir (pq_WorkDir req) = Inr workDir
        \<and> workPath = pathJoin ?root workDir \<and> env = sanitizedExecEnvironment workPath E) h"
    by (rule wp_onFiles [OF prepareExec_wp]) (auto simp: startJustified_other)
  show ?thesis
    unfolding runPersistentExecWithContext_def wp_bindE [of _ "onFiles (prepareExec H workspace E req)"]
  proof (rule wp_mono [OF files], goal_cases)
    case (1 x h')
    show ?case
    proof (cases x)
      case (Inr quad)
      obtain workDir workPath env exe where q: "quad = (workDir, workPath, env, exe)" by (cases quad) auto
      show ?thesis unfolding Inr q sum.case prod.case by (rule rest) (use 1(2) Inr q in auto)
    qed simp
  qed
qed

section \<open>Cleaning up\<close>

text \<open>Ancestry in a process table: the reflexive and transitive closure of the parent entries, which the walk of the code decides.\<close>

definition parentIn :: "(int \<times> execProcessStat) list \<Rightarrow> int \<Rightarrow> int \<Rightarrow> bool" where
  "parentIn stats pid parent \<longleftrightarrow> (\<exists>process. map_of stats pid = Some process \<and> st_parentPID process = parent)"

lemma descendsWalk_ancestor: "descendsWalk seen pid ancestor stats \<Longrightarrow> (parentIn stats)\<^sup>*\<^sup>* pid ancestor"
proof (induction seen pid ancestor stats rule: descendsWalk.induct)
  case (1 seen pid ancestor stats)
  show ?case
  proof (cases "pid = ancestor")
    case False
    have walk: "(if pid \<le> 0 then False else if pid = ancestor then True else if pid \<in> set seen then False
       else (case map_of stats pid of None \<Rightarrow> False
             | Some process \<Rightarrow> if st_parentPID process = pid then False
                 else descendsWalk (pid # seen) (st_parentPID process) ancestor stats))"
      using 1(2) by (simp only: descendsWalk.simps [of seen])
    then obtain process where p: "map_of stats pid = Some process" "descendsWalk (pid # seen) (st_parentPID process) ancestor stats"
        "\<not> pid \<le> 0" "pid \<notin> set seen" "st_parentPID process \<noteq> pid"
      using False by (auto split: if_splits option.splits)
    have "(parentIn stats)\<^sup>*\<^sup>* (st_parentPID process) ancestor" using 1(1) p False by blast
    moreover have "parentIn stats pid (st_parentPID process)" using p(1) by (simp add: parentIn_def)
    ultimately show ?thesis by (rule converse_rtranclp_into_rtranclp [rotated])
  qed simp
qed

text \<open>A process of the command: it came after the baseline, and the executor is among its ancestors in the table it was read from,
  or it carries the marker.\<close>

definition ownProcess :: "int \<Rightarrow> string \<Rightarrow> processId list \<Rightarrow> exHistory \<Rightarrow> processId \<Rightarrow> bool" where
  "ownProcess self marker baseline h p \<longleftrightarrow>
     (\<exists>a pid st. (ExProcessTable, a) \<in> set h \<and> ex_err a = None \<and> (pid, st) \<in> set (ex_stats a) \<and> st_identity st = p
        \<and> 1 < pid \<and> pid \<noteq> self \<and> st_state st \<noteq> CHR ''Z'' \<and> p \<notin> set baseline
        \<and> ((parentIn (ex_stats a))\<^sup>*\<^sup>* pid self \<or> (\<exists>b. (ExHasMarker pid marker, b) \<in> set h \<and> ex_marker b = Marked True)))"

lemma ownProcess_mono: "ownProcess self marker baseline h p \<Longrightarrow> set h \<subseteq> set h' \<Longrightarrow> ownProcess self marker baseline h' p"
  unfolding ownProcess_def by blast

definition killJustified :: "int \<Rightarrow> string \<Rightarrow> processId list \<Rightarrow> exHistory \<Rightarrow> exAsk \<Rightarrow> bool" where
  "killJustified self marker baseline h q \<longleftrightarrow> (\<forall>p. q = ExKillProcess p \<longrightarrow> ownProcess self marker baseline h p)"

lemma killJustified_simps [simp]:
  "killJustified self marker baseline h (ExKillProcess p) \<longleftrightarrow> ownProcess self marker baseline h p"
  "killJustified self marker baseline h ExProcessTable" "killJustified self marker baseline h (ExHasMarker i m)"
  "killJustified self marker baseline h ExReap" "killJustified self marker baseline h ExSleep" "killJustified self marker baseline h ExNow"
  by (simp_all add: killJustified_def)

lemma selectExecProcessIDs_wp:
  assumes "(ExProcessTable, a) \<in> set h" and "ex_err a = None" and "ex_stats a = stats" and "set todo \<subseteq> set stats"
  shows "wp (killJustified self marker baseline) (selectExecProcessIDs self marker baseline stats todo)
    (\<lambda>x h'. \<forall>ps. x = Inr ps \<longrightarrow> (\<forall>p \<in> set ps. ownProcess self marker baseline h' p)) h"
  using assms(1,4)
proof (induction todo arbitrary: h)
  case (Cons e todo)
  obtain pid st where e: "e = (pid, st)" by force
  let ?Q = "\<lambda>x h'. \<forall>ps. x = Inr ps \<longrightarrow> (\<forall>p \<in> set ps. ownProcess self marker baseline h' p)"
  have skip: "wp (killJustified self marker baseline) (selectExecProcessIDs self marker baseline stats todo) ?Q h1" if "set h \<subseteq> set h1" for h1
    by (rule Cons.IH) (use Cons.prems that in auto)
  have keep: "wp (killJustified self marker baseline) (bindE (selectExecProcessIDs self marker baseline stats todo)
      (\<lambda>rest. Ret (Inr (st_identity st # rest)))) ?Q h1"
    if sub: "set h \<subseteq> set h1" and own: "ownProcess self marker baseline h1 (st_identity st)" for h1
  proof (unfold wp_bindE, rule wp_mono [OF skip [OF sub]], goal_cases)
    case (1 x h')
    then show ?case using ownProcess_mono [OF own set_mono_prefix] by (auto split: sum.split)
  qed
  have own: "ownProcess self marker baseline h1 (st_identity st)"
    if "set h \<subseteq> set h1" "1 < pid" "pid \<noteq> self" "st_state st \<noteq> CHR ''Z''" "st_identity st \<notin> set baseline"
      "execProcessDescendsFrom pid self stats \<or> (\<exists>b. (ExHasMarker pid marker, b) \<in> set h1 \<and> ex_marker b = Marked True)" for h1
  proof -
    have "(parentIn (ex_stats a))\<^sup>*\<^sup>* pid self \<or> (\<exists>b. (ExHasMarker pid marker, b) \<in> set h1 \<and> ex_marker b = Marked True)"
      using that(6) descendsWalk_ancestor assms(3) unfolding execProcessDescendsFrom_def by blast
    then show ?thesis unfolding ownProcess_def using that(1-5) Cons.prems assms(2,3) e by (intro exI [of _ a] exI [of _ pid] exI [of _ st]) auto
  qed
  let ?p = "selectExecProcessIDs self marker baseline stats todo"
  let ?keep = "bindE ?p (\<lambda>rest. Ret (Inr (st_identity st # rest)))"
  consider "pid \<le> 1 \<or> pid = self \<or> st_state st = CHR ''Z'' \<or> st_identity st \<in> set baseline"
    | "1 < pid" "pid \<noteq> self" "st_state st \<noteq> CHR ''Z''" "st_identity st \<notin> set baseline" by linarith
  then show ?case
  proof cases
    case 1
    then have "selectExecProcessIDs self marker baseline stats (e # todo) = ?p" by (auto simp: e Let_def)
    then show ?thesis using skip [of h] by simp
  next
    case 2
    show ?thesis
    proof (cases "execProcessDescendsFrom pid self stats")
      case True
      then have "selectExecProcessIDs self marker baseline stats (e # todo) = ?keep" using 2 by (simp add: e)
      moreover have "wp (killJustified self marker baseline) ?keep ?Q h" by (rule keep [OF _ own]) (use 2 True in auto)
      ultimately show ?thesis by simp
    next
      case False
      then have "selectExecProcessIDs self marker baseline stats (e # todo) = Ask (ExHasMarker pid marker) (\<lambda>a. case ex_marker a of
          MarkerGone \<Rightarrow> ?p | MarkerDenied \<Rightarrow> ?p | MarkerError err \<Rightarrow> Ret (Inl err) | Marked b \<Rightarrow> if b then ?keep else ?p)"
        using 2 by (simp add: e Let_def hasMarker_def)
      moreover have "wp (killJustified self marker baseline) (case ex_marker r of
          MarkerGone \<Rightarrow> ?p | MarkerDenied \<Rightarrow> ?p | MarkerError err \<Rightarrow> Ret (Inl err) | Marked b \<Rightarrow> if b then ?keep else ?p) ?Q
          (h @ [(ExHasMarker pid marker, r)])" for r
      proof (cases "ex_marker r = Marked True")
        case True
        have "wp (killJustified self marker baseline) ?keep ?Q (h @ [(ExHasMarker pid marker, r)])"
          by (rule keep [OF _ own]) (use 2 True in auto)
        then show ?thesis using True by simp
      next
        case False
        then show ?thesis using skip [of "h @ [(ExHasMarker pid marker, r)]"] by (auto split: markerResult.split)
      qed
      ultimately show ?thesis by simp
    qed
  qed
qed simp

lemma execProcessIDs_wp:
  "wp (killJustified self marker baseline) (execProcessIDs self marker baseline)
    (\<lambda>x h'. \<forall>ps. x = Inr ps \<longrightarrow> (\<forall>p \<in> set ps. ownProcess self marker baseline h' p)) h"
  by (auto simp: execProcessIDs_def exStats_def intro!: selectExecProcessIDs_wp split: option.split)

lemma killAll_wp:
  assumes "\<forall>p \<in> set ps. ownProcess self marker baseline h p"
  shows "wp (killJustified self marker baseline) (killAll ps) (\<lambda>_ _. True) h"
  using assms
proof (induction ps arbitrary: h)
  case (Cons p ps)
  have "wp (killJustified self marker baseline) (killAll ps) (\<lambda>_ _. True) (h @ [(ExKillProcess p, r)])" for r
  proof (rule Cons.IH, intro ballI)
    fix p' assume "p' \<in> set ps"
    then have "ownProcess self marker baseline h p'" using Cons.prems by simp
    then show "ownProcess self marker baseline (h @ [(ExKillProcess p, r)]) p'" by (rule ownProcess_mono) auto
  qed
  then show ?case
    using Cons.prems by (auto simp: killAll_def wp_bindE wp_wrapE exDo_def split: option.split)
qed (simp add: killAll_def)

lemma cleanupLoop_kills:
  "wp (killJustified self marker baseline) (cleanupLoop fuel self marker baseline deadline n) (\<lambda>_ _. True) h"
proof (induction fuel arbitrary: n h)
  case (Suc fuel)
  let ?G = "killJustified self marker baseline"
  have continue: "wp ?G (bind exNow (\<lambda>t. if deadline < t then Ret (Inl (cleanupOverdue ps m))
      else Ask ExReap (\<lambda>_. Ask ExSleep (\<lambda>_. cleanupLoop fuel self marker baseline deadline m)))) (\<lambda>_ _. True) h1" for ps m h1
    using Suc.IH by (simp add: exNow_def)
  have kill: "wp ?G (bindE (killAll ps) (\<lambda>_. bind exNow (\<lambda>t. if deadline < t then Ret (Inl (cleanupOverdue ps 0))
      else Ask ExReap (\<lambda>_. Ask ExSleep (\<lambda>_. cleanupLoop fuel self marker baseline deadline 0))))) (\<lambda>_ _. True) h1"
    if "\<forall>p \<in> set ps. ownProcess self marker baseline h1 p" for ps h1
    unfolding wp_bindE by (rule wp_mono [OF killAll_wp [OF that]]) (auto split: sum.split intro: continue)
  show ?case unfolding cleanupLoop.simps wp_bind [of _ "execProcessIDs self marker baseline"]
    by (rule wp_mono [OF execProcessIDs_wp]) (auto simp: Let_def continue kill split: sum.split)
qed simp

lemma cleanupExecProcesses_kills:
  "wp (killJustified self marker baseline) (cleanupExecProcesses self marker baseline bound) (\<lambda>_ _. True) h"
  by (simp add: cleanupExecProcesses_def exNow_def cleanupLoop_kills)

subsection \<open>A clean-up that succeeds\<close>

text \<open>The last \<open>n\<close> reads of the process table succeeded, and nothing was killed since the first of them.\<close>

definition quietScans :: "nat \<Rightarrow> exHistory \<Rightarrow> bool" where
  "quietScans n h \<longleftrightarrow> (\<exists>h1 h2. h = h1 @ h2 \<and> (\<forall>p a. (ExKillProcess p, a) \<notin> set h2)
     \<and> (\<forall>a. (ExProcessTable, a) \<in> set h2 \<longrightarrow> ex_err a = None)
     \<and> length (filter (\<lambda>e. fst e = ExProcessTable) h2) = n)"

lemma quietScans_0 [simp]: "quietScans 0 h"
  unfolding quietScans_def by (intro exI [of _ h] exI [of _ "[]"]) simp

lemma quietScans_snoc:
  assumes "quietScans n h" and that: "\<forall>p. q \<noteq> ExKillProcess p" "q = ExProcessTable \<longrightarrow> ex_err a = None"
  shows "quietScans (if q = ExProcessTable then Suc n else n) (h @ [(q, a)])"
proof -
  obtain h1 h2 where h: "h = h1 @ h2" "\<forall>p a. (ExKillProcess p, a) \<notin> set h2"
      "\<forall>a. (ExProcessTable, a) \<in> set h2 \<longrightarrow> ex_err a = None" "length (filter (\<lambda>e. fst e = ExProcessTable) h2) = n"
    using assms(1) unfolding quietScans_def by blast
  then show ?thesis unfolding quietScans_def
    by (intro exI [of _ h1] exI [of _ "h2 @ [(q, a)]"]) (use that in auto)
qed

lemma select_quiet:
  "quietScans n h \<Longrightarrow> wp (\<lambda>_ _. True) (selectExecProcessIDs self marker baseline stats todo) (\<lambda>_ h'. quietScans n h') h"
proof (induction self marker baseline stats todo arbitrary: h rule: selectExecProcessIDs.induct)
  case (2 self marker baseline stats pid st todo)
  have m: "quietScans n (h @ [(ExHasMarker pid marker, r)])" for r using quietScans_snoc [OF 2(2), of "ExHasMarker pid marker" r] by simp
  have skip: "wp (\<lambda>_ _. True) (selectExecProcessIDs self marker baseline stats todo) (\<lambda>_ h'. quietScans n h') h1" if "quietScans n h1" for h1
    by (rule 2(1)) (rule that)
  have keep: "wp (\<lambda>_ _. True) (bindE (selectExecProcessIDs self marker baseline stats todo) (\<lambda>rest. Ret (Inr (i # rest)))) (\<lambda>_ h'. quietScans n h') h1"
    if "quietScans n h1" for h1 i
    unfolding wp_bindE by (rule wp_mono [OF skip [OF that]]) (auto split: sum.split)
  show ?case
    using skip [OF 2(2)] keep [OF 2(2)] skip [OF m] keep [OF m] 2(2) m
    by (auto simp: Let_def hasMarker_def split: markerResult.split)
qed simp

lemma cleanupLoop_quiet:
  "quietScans n h \<Longrightarrow> wp (\<lambda>_ _. True) (cleanupLoop fuel self marker baseline deadline n)
     (\<lambda>x h'. x = Inr () \<longrightarrow> (\<exists>m. execCleanupStableEmptyScans \<le> m \<and> quietScans m h')) h"
proof (induction fuel arbitrary: n h)
  case (Suc fuel)
  let ?Q = "\<lambda>x h'. x = Inr () \<longrightarrow> (\<exists>m. execCleanupStableEmptyScans \<le> m \<and> quietScans m h')"
  have continue: "wp (\<lambda>_ _. True) (bind exNow (\<lambda>t. if deadline < t then Ret (Inl (cleanupOverdue ps m))
      else Ask ExReap (\<lambda>_. Ask ExSleep (\<lambda>_. cleanupLoop fuel self marker baseline deadline m)))) ?Q h1" if "quietScans m h1" for ps m h1
  proof -
    have "quietScans m (h1 @ [(ExNow, a), (ExReap, b), (ExSleep, c)])" for a b c
      using quietScans_snoc [OF quietScans_snoc [OF quietScans_snoc [OF that, of ExNow a], of ExReap b], of ExSleep c] by simp
    then show ?thesis using Suc.IH by (simp add: exNow_def)
  qed
  have kill: "wp (\<lambda>_ _. True) (bindE (killAll ps) (\<lambda>_. bind exNow (\<lambda>t. if deadline < t then Ret (Inl (cleanupOverdue ps 0))
      else Ask ExReap (\<lambda>_. Ask ExSleep (\<lambda>_. cleanupLoop fuel self marker baseline deadline 0))))) ?Q h1" for ps h1
    unfolding wp_bindE by (rule wp_onlyAsks [OF onlyAsks_any]) (auto split: sum.split intro!: continue)
  have scan: "wp (\<lambda>_ _. True) (execProcessIDs self marker baseline) (\<lambda>x h'. \<forall>ps. x = Inr ps \<longrightarrow> quietScans (Suc n) h') h"
  proof -
    have q: "quietScans (Suc n) (h @ [(ExProcessTable, a)])" if "ex_err a = None" for a
      using quietScans_snoc [OF Suc.prems, of ExProcessTable a] that by simp
    have "wp (\<lambda>_ _. True) (selectExecProcessIDs self marker baseline (ex_stats a) (ex_stats a))
        (\<lambda>x h'. \<forall>ps. x = Inr ps \<longrightarrow> quietScans (Suc n) h') (h @ [(ExProcessTable, a)])" if "ex_err a = None" for a
      by (rule wp_mono [OF select_quiet [OF q [OF that]]]) simp
    then show ?thesis by (auto simp: execProcessIDs_def exStats_def split: option.split)
  qed
  show ?case unfolding cleanupLoop.simps wp_bind [of _ "execProcessIDs self marker baseline"]
  proof (rule wp_mono [OF scan], goal_cases)
    case (1 x h')
    show ?case
    proof (cases x)
      case (Inr ps)
      then have "quietScans (Suc n) h'" using 1(2) by simp
      then show ?thesis using continue [of "Suc n" h' ps] kill [of ps h'] unfolding Inr Let_def by auto
    qed simp
  qed
qed simp

section \<open>The deadline\<close>

text \<open>A clock that advances by at least 10 ms with every sleep of the loop, counted from \<open>t0\<close>.\<close>

definition sleeps :: "exHistory \<Rightarrow> nat" where
  "sleeps h = length (filter (\<lambda>e. fst e = ExSleep) h)"

definition tickingFrom :: "int \<Rightarrow> (exAsk, exAnswer) world \<Rightarrow> bool" where
  "tickingFrom t0 w \<longleftrightarrow> (\<forall>h. t0 + 10000000 * int (sleeps h) \<le> ex_now (w h ExNow))"

lemma sleeps_mono: "prefix h h' \<Longrightarrow> sleeps h \<le> sleeps h'"
  by (auto simp: sleeps_def prefix_def)

lemma run_prefix': "run w p h = (h', a) \<Longrightarrow> prefix h h'"
  using run_prefix [of h w p] by simp

text \<open>Once the rounds left reach past the deadline, more rounds change nothing: the loop has ended by then.\<close>

definition cleanupNext :: "processId list \<Rightarrow> int \<Rightarrow> (nat \<Rightarrow> (goError + unit) ex) \<Rightarrow> nat \<Rightarrow> (goError + unit) ex" where
  "cleanupNext pids deadline loop n = bind exNow (\<lambda>t.
     if deadline < t then Ret (Inl (cleanupOverdue pids n)) else Ask ExReap (\<lambda>_. Ask ExSleep (\<lambda>_. loop n)))"

lemma cleanupLoop_Suc:
  "cleanupLoop (Suc fuel) self marker baseline deadline n =
     bind (execProcessIDs self marker baseline) (\<lambda>r.
     case r of
       Inl e \<Rightarrow> Ret (Inl (Wrapf ''%w: inspect process namespace: %v'' [errorText e] errExecCleanupUnproven))
     | Inr pids \<Rightarrow>
         if pids = []
         then (if execCleanupStableEmptyScans \<le> Suc n then Ret (Inr ())
               else cleanupNext pids deadline (cleanupLoop fuel self marker baseline deadline) (Suc n))
         else bindE (killAll pids) (\<lambda>_. cleanupNext pids deadline (cleanupLoop fuel self marker baseline deadline) 0))"
  unfolding cleanupLoop.simps cleanupNext_def Let_def by (rule refl)

lemma run_cong:
  assumes "\<And>h' a. prefix h h' \<Longrightarrow> run w (f a) h' = run w (g a) h'"
  shows "run w (bind p f) h = run w (bind p g) h"
  using assms run_prefix [of h w p] by (auto simp: run_bind split: prod.split)

lemma run_bindE_cong:
  assumes "\<And>h' a. prefix h h' \<Longrightarrow> run w (f a) h' = run w (g a) h'"
  shows "run w (bindE p f) h = run w (bindE p g) h"
  unfolding bindE_def by (rule run_cong) (use assms in \<open>auto split: sum.split\<close>)

lemma cleanupNext_run:
  assumes w: "tickingFrom t0 w" and sl: "sleeps h0 \<le> sleeps h"
    and loop: "\<And>h' m. Suc (sleeps h0) \<le> sleeps h' \<Longrightarrow> t0 + 10000000 * int (sleeps h0) \<le> deadline \<Longrightarrow> run w (f m) h' = run w (g m) h'"
  shows "run w (cleanupNext pids deadline f m) h = run w (cleanupNext pids deadline g m) h"
proof -
  have "t0 + 10000000 * int (sleeps h0) \<le> ex_now (w h ExNow)"
    using w sl unfolding tickingFrom_def by (smt (verit) of_nat_mono mult_left_mono)
  then show ?thesis using loop sl by (auto simp: cleanupNext_def exNow_def sleeps_def)
qed

lemma cleanupLoop_fuel:
  assumes w: "tickingFrom t0 w" and "deadline < t0 + 10000000 * (int (sleeps h) + int fuel)"
  shows "run w (cleanupLoop (Suc fuel) self marker baseline deadline n) h = run w (cleanupLoop (Suc (fuel + extra)) self marker baseline deadline n) h"
  using assms(2)
proof (induction fuel arbitrary: n h)
  case fuel0: 0
  have next0: "run w (cleanupNext ps deadline (cleanupLoop 0 self marker baseline deadline) m) h1
      = run w (cleanupNext ps deadline (cleanupLoop (0 + extra) self marker baseline deadline) m) h1" if "prefix h h1" for ps m h1
    by (rule cleanupNext_run [OF w sleeps_mono [OF that]]) (use fuel0 in auto)
  show ?case unfolding cleanupLoop_Suc
    by (rule run_cong) (use next0 prefix_order.trans in \<open>auto split: sum.split intro!: run_bindE_cong\<close>)
next
  case (Suc fuel)
  have next1: "run w (cleanupNext ps deadline (cleanupLoop (Suc fuel) self marker baseline deadline) m) h1
      = run w (cleanupNext ps deadline (cleanupLoop (Suc fuel + extra) self marker baseline deadline) m) h1" if "prefix h h1" for ps m h1
  proof (rule cleanupNext_run [OF w sleeps_mono [OF that]])
    fix h' m assume "Suc (sleeps h) \<le> sleeps h'"
    then have "int (sleeps h) + int (Suc fuel) \<le> int (sleeps h') + int fuel" by simp
    then have "deadline < t0 + 10000000 * (int (sleeps h') + int fuel)" using Suc.prems by (smt (verit) mult_left_mono)
    then show "run w (cleanupLoop (Suc fuel) self marker baseline deadline m) h'
        = run w (cleanupLoop (Suc fuel + extra) self marker baseline deadline m) h'"
      using Suc.IH [of h' m] by simp
  qed
  show ?case unfolding cleanupLoop_Suc [of "Suc fuel"] cleanupLoop_Suc [of "Suc fuel + extra"]
    by (rule run_cong) (use next1 prefix_order.trans in \<open>auto split: sum.split intro!: run_bindE_cong\<close>)
qed

section \<open>Output\<close>

lemma writeOutput_spec:
  assumes "ob_bytes b = take (ob_limit b) seen" and "ob_truncated b = (ob_limit b < length seen)"
  shows "ob_limit (writeOutput d b) = ob_limit b" "ob_bytes (writeOutput d b) = take (ob_limit b) (seen @ d)"
    "ob_truncated (writeOutput d b) = (ob_limit b < length (seen @ d))"
  using assms by (auto simp: writeOutput_def Let_def min_def)

lemma readFrom_from:
  assumes "ob_bytes b = take (ob_limit b) seen" and "ob_truncated b = (ob_limit b < length seen)"
  shows "readFrom reads b = \<lparr>ob_bytes = take (ob_limit b) (seen @ concat reads), ob_limit = ob_limit b,
     ob_truncated = (ob_limit b < length (seen @ concat reads))\<rparr>"
  using assms
proof (induction reads arbitrary: b seen)
  case Nil
  then show ?case by (simp add: readFrom_def)
next
  case (Cons d reads)
  show ?case
  proof (cases "d = []")
    case True
    then show ?thesis using Cons by (simp add: readFrom_def)
  next
    case False
    note sp = writeOutput_spec [OF Cons.prems, of d]
    have "readFrom (d # reads) b = readFrom reads (writeOutput d b)" using False by (simp add: readFrom_def)
    also have "\<dots> = \<lparr>ob_bytes = take (ob_limit b) ((seen @ d) @ concat reads), ob_limit = ob_limit b,
        ob_truncated = (ob_limit b < length ((seen @ d) @ concat reads))\<rparr>"
      using Cons.IH [of "writeOutput d b" "seen @ d"] sp by simp
    finally show ?thesis by simp
  qed
qed

section \<open>Theorems\<close>

text \<open>C24: A command starts only on the source its caller names: before the process is started the manifest was read, has the
  requested revision and digest and nothing left to reload, and the content of every file it lists was read from the disk and has
  that digest; the environment of the command has nothing but the nine variables of the executor, and its directory is a clean
  path below the workspace.\<close>

theorem exec_starts_on_applied_source:
  assumes "run w (runPersistentExecWithContext H workspace E req) [] = (tr, r)"
    and "i < length tr" and "fst (tr ! i) = ExStart exe args workPath env"
  shows "appliedSource H req (fsCalls (take i tr)) \<and> args = tl (pq_Argv req) \<and> closedEnvironment env
    \<and> (\<exists>workDir. cleanExecWorkDir (pq_WorkDir req) = Inr workDir
         \<and> workPath = pathJoin (absPath (xh_cwd H) (trimSpace workspace)) workDir)"
  using wp_trace [OF runPersistentExec_wp assms(1)] assms(2,3) by (simp add: obeys_def startJustified_def)

definition sampleManifest :: workspaceManifest where
  "sampleManifest = \<lparr>wm_SourceRevision = 1, wm_SourceDigest = sha256Hex [], wm_Files = [], wm_PendingReloadCommands = []\<rparr>"

definition sampleHost :: execHost where
  "sampleHost = \<lparr>xh_self = 7, xh_cwd = ''/'', xh_unmarshal = (\<lambda>_. Inr sampleManifest)\<rparr>"

definition sampleExec :: persistentExecRequest where
  "sampleExec = \<lparr>pq_Argv = [''/bin/true''], pq_WorkDir = [], pq_TimeoutMS = 0, pq_MaxOutputBytes = 0, pq_SourceRevision = 1,
     pq_SourceDigest = sha256Hex []\<rparr>"

definition calmAnswer :: exAnswer where
  "calmAnswer = \<lparr>ex_fs = \<lparr>ag_err = None, ag_info = \<lparr>fi_Kind = KDir, fi_Size = 0, fi_Perm = 0\<rparr>, ag_bytes = [], ag_entries = [],
       ag_status = \<lparr>ps_Configured = False, ps_Running = False\<rparr>, ag_now = 0\<rparr>,
     ex_err = None, ex_stats = [], ex_marker = MarkerGone, ex_event = EventExited WaitOk, ex_wait = WaitOk, ex_stdout = [], ex_stderr = [],
     ex_now = 0, ex_flag = False\<rparr>"

lemma calm_simps [simp]:
  "ex_err calmAnswer = None" "ex_stats calmAnswer = []" "ex_event calmAnswer = EventExited WaitOk" "ex_now calmAnswer = 0"
  "ag_err (ex_fs calmAnswer) = None" "fi_Kind (ag_info (ex_fs calmAnswer)) = KDir" "ag_bytes (ex_fs calmAnswer) = []"
  by (simp_all add: calmAnswer_def)

lemma hex_not_space: "isHexDigit c \<Longrightarrow> \<not> spaceByte c" "\<not> (isHexDigit a \<and> spaceRune2 a b)" "\<not> (isHexDigit a \<and> spaceRune3 a b c)"
  by (auto simp: isHexDigit_def spaceByte_def spaceRune2_def spaceRune3_def)

lemma hex_front:
  assumes "list_all isHexDigit s"
  shows "\<not> spaceFront spaceRune2 spaceRune3 s" "\<not> spaceFront (\<lambda>a b. spaceRune2 b a) (\<lambda>a b c. spaceRune3 c b a) s"
  using assms hex_not_space by (cases "(spaceRune2, spaceRune3, s)" rule: spaceFront.cases; auto)+

lemma trimSpace_hex:
  assumes "list_all isHexDigit s"
  shows "trimSpace s = s"
  using hex_front(1) [OF assms] hex_front(2) [of "rev s"] assms
  by (simp add: trimSpace_def trimSpaceLeft_def trimSpaceRight_def trimWith_id list_all_iff)

lemma normalize_hex:
  assumes "list_all isHexDigit s"
  shows "normalizeSourceDigest s = s"
proof -
  have "\<not> hasPrefix s ''sha256:''"
  proof
    assume "hasPrefix s ''sha256:''"
    then have "CHR ''s'' \<in> set s" by (auto simp: hasPrefix_prefix prefix_def)
    then have "isHexDigit (CHR ''s'')" using assms by (auto simp: list_all_iff)
    then show False by (simp add: isHexDigit_def)
  qed
  then show ?thesis by (simp add: normalizeSourceDigest_def trimPrefix_def trimSpace_hex [OF assms])
qed

lemma normalize_sha [simp]: "normalizeSourceDigest (sha256Hex s) = sha256Hex s"
  by (rule normalize_hex) (simp add: sha256Hex_def hexEncode_digits)

lemma sha_decodable [simp]: "hexDecodable (sha256Hex s)" "sha256Hex s \<noteq> []"
  using length_sha256Hex [of s] by (auto simp: hexDecodable_def sha256Hex_def hexEncode_digits simp del: length_sha256Hex)

lemma sample_texts [simp]:
  "trimSpace ''/bin/true'' = ''/bin/true''" "trimSpace ''/w'' = ''/w''" "absPath ''/'' ''/w'' = ''/w''" "pathClean ''/w'' = ''/w''"
  "splitAll CHR ''/'' ''w'' = [''w'']" "pathJoin ''/'' ''w'' = ''/w''" "cleanExecWorkDir [] = Inr ''.''"
  by code_simp+

lemma sampleExec_valid: "validatePersistentExecRequest sampleExec = Inr ()"
  by (simp add: validatePersistentExecRequest_def sampleExec_def Let_def execMaxOutputBytes_def)

lemma sampleManifest_ok: "checkManifest sampleManifest = Inr sampleManifest"
  by (simp add: checkManifest_def sampleManifest_def)

lemma sample_fields [simp]:
  "pq_Argv sampleExec = [''/bin/true'']" "pq_WorkDir sampleExec = []" "pq_SourceRevision sampleExec = 1" "pq_SourceDigest sampleExec = sha256Hex []"
  "xh_cwd sampleHost = ''/''" "xh_unmarshal sampleHost raw = Inr sampleManifest"
  "wm_SourceRevision sampleManifest = 1" "wm_SourceDigest sampleManifest = sha256Hex []" "wm_PendingReloadCommands sampleManifest = []"
  "wm_Files sampleManifest = []"
  by (simp_all add: sampleExec_def sampleHost_def sampleManifest_def)

lemma sample_prepare:
  "run (\<lambda>_ _. ex_fs calmAnswer) (prepareExec sampleHost ''/w'' E sampleExec) [] =
     (map (\<lambda>q. (q, ex_fs calmAnswer)) [AgLstat (OnHost ''/w''), AgMkdirAll (OnHost ''/w''), AgOpenRoot ''/w'', AgReadFile (InRoot workspaceManifestName)],
      Inr (''.'', pathJoin ''/w'' ''.'', sanitizedExecEnvironment (pathJoin ''/w'' ''.'') E, ''/bin/true''))"
  by (simp add: prepareExec_def sampleExec_valid rejectRootSymlink_def lstat_def agGet_def agDo_def wrapE_def Let_def
    requireAppliedSource_def readWorkspaceManifest_def readFile_def ensureExecDirectory_def hasPrefix_def trimPrefix_def sampleManifest_ok
    verifyWorkspaceManifest_def digesterSum_def resolveExecExecutable_def pathIsAbs_def)

lemma run_const_onFiles:
  "run (\<lambda>_ _. a) (onFiles p) (map (\<lambda>q. (ExFs q, a)) qs) =
     (case run (\<lambda>_ _. ex_fs a) p (map (\<lambda>q. (q, ex_fs a)) qs) of (h, x) \<Rightarrow> (map (\<lambda>e. (ExFs (fst e), a)) h, x))"
proof (induction p arbitrary: qs)
  case (Ask q k)
  show ?case using Ask.IH [OF rangeI, of "ex_fs a" "qs @ [q]"] by simp
qed (simp add: o_def)

theorem exec_starts_on_applied_source_witness:
  "\<exists>tr r env. run (\<lambda>_ _. calmAnswer) (runPersistentExecWithContext sampleHost ''/w'' \<lparr>xc_Port = [], xc_Component = []\<rparr> sampleExec) [] = (tr, r)
     \<and> fst (tr ! 8) = ExStart ''/bin/true'' [] (pathJoin ''/w'' ''.'') env
     \<and> appliedSource sampleHost sampleExec (fsCalls (take 8 tr)) \<and> closedEnvironment env"
proof -
  let ?E = "\<lparr>xc_Port = [], xc_Component = []\<rparr>" and ?w = "\<lambda>_ _. calmAnswer" and ?path = "pathJoin ''/w'' ''.''"
  let ?marker = "showInt (xh_self sampleHost) @ ''-'' @ showInt 0"
  let ?env = "sanitizedExecEnvironment ?path ?E @ [''RAILGRID_EXEC_SESSION='' @ ?marker]"
  define h where "h = map (\<lambda>q. (q, calmAnswer)) [ExFs (AgLstat (OnHost ''/w'')), ExFs (AgMkdirAll (OnHost ''/w'')), ExFs (AgOpenRoot ''/w''),
    ExFs (AgReadFile (InRoot workspaceManifestName)), ExNow, ExNow, ExSubreaper, ExProcessTable, ExStart ''/bin/true'' [] ?path ?env]"
  obtain tr r where run: "run ?w (runPersistentExecWithContext sampleHost ''/w'' ?E sampleExec) [] = (tr, r)" by force
  have files: "run ?w (onFiles (prepareExec sampleHost ''/w'' ?E sampleExec)) [] =
      (map (\<lambda>q. (q, calmAnswer)) [ExFs (AgLstat (OnHost ''/w'')), ExFs (AgMkdirAll (OnHost ''/w'')), ExFs (AgOpenRoot ''/w''),
        ExFs (AgReadFile (InRoot workspaceManifestName))], Inr (''.'', ?path, sanitizedExecEnvironment ?path ?E, ''/bin/true''))"
    using run_const_onFiles [of calmAnswer "prepareExec sampleHost ''/w'' ?E sampleExec" "[]"] by (simp add: sample_prepare)
  have "run ?w (runPersistentExecWithContext sampleHost ''/w'' ?E sampleExec) [] = run ?w (superviseExec sampleHost sampleExec ''.'' ?marker [] 0) h"
    unfolding runPersistentExecWithContext_def bindE_def [of "onFiles p" for p] run_bind files h_def
    by (simp add: exNow_def exDo_def Let_def wrapE_def captureExecProcessBaseline_def exStats_def)
  then have "prefix h tr" using run run_prefix [of h ?w] by (metis fst_conv)
  then obtain t where t: "tr = h @ t" by (auto simp: prefix_def)
  have at: "8 < length tr" "fst (tr ! 8) = ExStart ''/bin/true'' [] ?path ?env" by (simp_all add: t h_def)
  show ?thesis
    using exec_starts_on_applied_source [OF run at] run at(2) by blast
qed

text \<open>C25: The clean-up kills only what belongs to the command: a process it read from the process table, that was not there before the command, is
  not the executor, its init or a zombie, and that has the executor among its ancestors in the table it was read from (in the
  reflexive and transitive closure of the parent entries) or carries the marker of the command.\<close>

theorem cleanup_kills_own_processes:
  assumes "run w (cleanupExecProcesses self marker baseline bound) [] = (tr, r)" and "i < length tr" and "fst (tr ! i) = ExKillProcess p"
  shows "ownProcess self marker baseline (take i tr) p"
  using wp_trace [OF cleanupExecProcesses_kills assms(1)] assms(2,3) by (cases p) (auto simp: obeys_def killJustified_def)

definition strayAnswer :: exAnswer where
  "strayAnswer = calmAnswer\<lparr>ex_stats := [(7, \<lparr>st_identity = (7, 3), st_parentPID = 1, st_state = CHR ''S''\<rparr>)]\<rparr>"

lemma stray_simps [simp]:
  "ex_err strayAnswer = None" "ex_now strayAnswer = 0"
  "ex_stats strayAnswer = [(7, \<lparr>st_identity = (7, 3), st_parentPID = 1, st_state = CHR ''S''\<rparr>)]"
  by (simp_all add: strayAnswer_def)

lemma stray_descends: "execProcessDescendsFrom 7 1 [(7, \<lparr>st_identity = (7, 3), st_parentPID = 1, st_state = CHR ''S''\<rparr>)]"
  by code_simp

lemma stray_run:
  "run (\<lambda>_ _. strayAnswer) (cleanupExecProcesses 1 [] [] 0) [] =
     (map (\<lambda>q. (q, strayAnswer)) [ExNow, ExProcessTable, ExKillProcess (7, 3), ExNow, ExReap, ExSleep,
        ExProcessTable, ExKillProcess (7, 3), ExNow, ExReap, ExSleep], Inl (cleanupOverdue [] 0))"
  by (simp add: cleanupExecProcesses_def cleanupRounds_def numeral_2_eq_2 exNow_def execProcessIDs_def exStats_def stray_descends
      killAll_def exDo_def wrapE_def Let_def)

theorem cleanup_kills_own_processes_witness:
  "ownProcess 1 [] [] [(ExNow, strayAnswer), (ExProcessTable, strayAnswer)] (7, 3)"
  using cleanup_kills_own_processes [OF stray_run, of 2 "(7, 3)"] by (simp add: numeral_2_eq_2)

text \<open>A clean-up that reports success read the process table at least three times in a row without an error and without finding
  anything to kill since the first of the three.\<close>

theorem cleanup_success_is_quiet:
  assumes "run w (cleanupExecProcesses self marker baseline bound) [] = (tr, Inr ())"
  shows "\<exists>m \<ge> 3. quietScans m tr"
proof -
  have "wp (\<lambda>_ _. True) (cleanupExecProcesses self marker baseline bound)
      (\<lambda>x h'. x = Inr () \<longrightarrow> (\<exists>m. execCleanupStableEmptyScans \<le> m \<and> quietScans m h')) []"
    by (simp add: cleanupExecProcesses_def exNow_def cleanupLoop_quiet)
  from wp_trace [OF this assms] show ?thesis by (auto simp: execCleanupStableEmptyScans_def)
qed

lemma calm_run:
  "run (\<lambda>_ _. calmAnswer) (cleanupExecProcesses 1 [] [] 20000000) [] =
     (map (\<lambda>q. (q, calmAnswer)) [ExNow, ExProcessTable, ExNow, ExReap, ExSleep, ExProcessTable, ExNow, ExReap, ExSleep, ExProcessTable], Inr ())"
proof -
  have "cleanupRounds 20000000 = Suc (Suc (Suc (Suc 0)))" by (simp add: cleanupRounds_def)
  then show ?thesis
    by (simp add: cleanupExecProcesses_def exNow_def execProcessIDs_def exStats_def execCleanupStableEmptyScans_def Let_def)
qed

theorem cleanup_success_is_quiet_witness:
  "\<exists>m \<ge> 3. quietScans m (map (\<lambda>q. (q, calmAnswer)) [ExNow, ExProcessTable, ExNow, ExReap, ExSleep, ExProcessTable, ExNow, ExReap, ExSleep,
     ExProcessTable])"
  by (rule cleanup_success_is_quiet [OF calm_run])

text \<open>The clean-up ends: the rounds the model allows are never what ends it, for on a clock that advances by 10 ms with every
  sleep the deadline has passed before they are used up, and any number of further rounds gives the same run.\<close>

theorem cleanup_rounds_suffice:
  assumes "tickingFrom t w" and "0 \<le> bound"
  shows "run w (cleanupLoop (cleanupRounds bound) self marker baseline (t + bound) n) []
       = run w (cleanupLoop (cleanupRounds bound + extra) self marker baseline (t + bound) n) []"
proof -
  have "bound < 10000000 * (bound div 10000000 + 1)" by simp
  also have "\<dots> = 10000000 * (int (sleeps []) + int (nat (bound div 10000000) + 1))" using assms(2) by (simp add: sleeps_def)
  finally show ?thesis
    using cleanupLoop_fuel [OF assms(1), of "t + bound" "[]" "nat (bound div 10000000) + 1" self marker baseline n extra]
    by (simp add: cleanupRounds_def)
qed

theorem cleanup_rounds_suffice_witness:
  "run (\<lambda>h _. calmAnswer\<lparr>ex_now := 10000000 * int (sleeps h)\<rparr>) (cleanupLoop (cleanupRounds 0) 1 [] [] (0 + 0) 0) []
     = run (\<lambda>h _. calmAnswer\<lparr>ex_now := 10000000 * int (sleeps h)\<rparr>) (cleanupLoop (cleanupRounds 0 + 5) 1 [] [] (0 + 0) 0) []"
  by (rule cleanup_rounds_suffice) (simp_all add: tickingFrom_def)

text \<open>Output is cut, not lost: however it arrives, what is kept is its first bytes up to the limit, and it is marked as truncated exactly
  when there was more.\<close>

theorem output_kept_up_to_limit:
  "readFrom reads (newExecOutputBuffer limit) = \<lparr>ob_bytes = take limit (concat reads), ob_limit = limit,
     ob_truncated = (limit < length (concat reads))\<rparr>"
  using readFrom_from [of "newExecOutputBuffer limit" "[]" reads] by (simp add: newExecOutputBuffer_def)

end
