(* ===== verification/Agent_Coordinator.thy ===== *)
theory Agent_Coordinator
  imports Agent_Exec
begin

unbundle bit_operations_syntax

text \<open>
  The exec coordinator of a sandbox (\<^verbatim>\<open>dev-agent/exec_worker.go\<close>), which owns the authority to execute: sessions are
  records in a directory that survives restarts, every operation on them is a critical section
  of the coordinator's mutex, and each accepted command is a goroutine that runs it under the lock it shares with
  workspace mutations. Critical sections are programs over the calls to the disk; a goroutine is a
  program over locks, sections and the executor.
\<close>

section \<open>Requests, results, records\<close>

definition execSessionRetention :: int where "execSessionRetention = 10 * 60 * second"
definition execSessionCapacity :: nat where "execSessionCapacity = 128"

record workerExecRequest =
  wq_Action :: string
  wq_SessionID :: string
  wq_RequestID :: string
  wq_CallerKey :: string
  wq_Fingerprint :: string
  wq_Exec :: persistentExecRequest

record workerExecResult =
  wr_SessionID :: string
  wr_RequestID :: string
  wr_State :: string
  wr_ExitCode :: "int option"
  wr_Stdout :: string
  wr_Stderr :: string
  wr_Truncated :: bool

record execSessionRecord =
  xs_SessionID :: string
  xs_RequestID :: string
  xs_CallerKey :: string
  xs_Fingerprint :: string
  xs_Result :: workerExecResult
  xs_CreatedAt :: int
  xs_UpdatedAt :: int

datatype workerErr = WorkerHTTP nat string | WorkerErr goError

definition workerTerminal :: "string \<Rightarrow> bool" where
  "workerTerminal state \<longleftrightarrow> state \<in> {''succeeded'', ''failed'', ''timed_out'', ''canceled''}"

definition emptyResult :: "string \<Rightarrow> workerExecResult" where
  "emptyResult state = \<lparr>wr_SessionID = [], wr_RequestID = [], wr_State = state, wr_ExitCode = None, wr_Stdout = [], wr_Stderr = [],
     wr_Truncated = False\<rparr>"

definition lowerHex :: "string \<Rightarrow> bool" where
  "lowerHex s \<longleftrightarrow> trimLeftSet ''0123456789abcdef'' (trimRightSet ''0123456789abcdef'' s) = []"

definition validateWorkerIdentity :: "workerExecRequest \<Rightarrow> goError + unit" where
  "validateWorkerIdentity req =
     (if length (wq_SessionID req) \<noteq> 32 \<or> \<not> lowerHex (wq_SessionID req)
      then Inl (Errorf ''sessionID must be 32 lowercase hex characters'' [])
      else if trimSpace (wq_CallerKey req) = [] \<or> 128 < length (wq_CallerKey req) \<or> 128 < length (wq_RequestID req)
      then Inl (Errorf ''callerKey is required and callerKey/requestID must be bounded'' [])
      else if wq_Action req = ''start'' \<and> trimSpace (wq_RequestID req) = [] then Inl (Errorf ''start requestID is required'' [])
      else if wq_Action req = ''start'' \<and> (length (wq_Fingerprint req) \<noteq> 64 \<or> \<not> lowerHex (wq_Fingerprint req))
      then Inl (Errorf ''start fingerprint must be 64 lowercase hex characters'' [])
      else Inr ())"

definition errCanceled :: goError where "errCanceled = Errorf ''context canceled'' []"

definition workerResultFromExec :: "execResponse \<Rightarrow> goError option \<Rightarrow> workerExecResult" where
  "workerResultFromExec response err =
     (let state = (if xp_Cancelled response \<or> (\<exists>e. err = Some e \<and> errorsIs errCanceled e) then ''canceled''
                   else if xp_TimedOut response then ''timed_out''
                   else if err \<noteq> None \<or> xp_ExitCode response \<noteq> 0 then ''failed''
                   else ''succeeded'') in
      \<lparr>wr_SessionID = [], wr_RequestID = [], wr_State = state,
       wr_ExitCode = Some (sint (word_of_int (xp_ExitCode response) :: 32 word)),
       wr_Stdout = xp_Stdout response,
       wr_Stderr = (case err of Some e \<Rightarrow> if xp_Stderr response = [] then errorText e else xp_Stderr response | None \<Rightarrow> xp_Stderr response),
       wr_Truncated = (xp_StdoutTruncated response \<or> xp_StderrTruncated response)\<rparr>)"

section \<open>Critical sections\<close>

text \<open>Calls made while the mutex is held. \<open>CwWrite\<close> is \<^verbatim>\<open>writeSession\<close>, which replaces a record file; \<open>CwLaunch\<close> creates the
  context of a command, enters it in the map of active sessions and starts the goroutine; \<open>CwCancel\<close> cancels the
  context of an active session, if there is one.\<close>

datatype cwAsk =
    CwNow
  | CwReadDir
  | CwReadFile string
  | CwWrite execSessionRecord
  | CwRemove string
  | CwLaunch workerExecRequest
  | CwCancel string
  | CwDropActive string

record cwAnswer =
  cw_err :: "goError option"
  cw_entries :: "(string \<times> bool) list"  \<comment> \<open>name, and whether it is a directory\<close>
  cw_record :: "goError + execSessionRecord"
  cw_now :: int

type_synonym 'a cw = "(cwAsk, cwAnswer, 'a) prog"

definition recordPath :: "string \<Rightarrow> string" where
  "recordPath sessionID = sessionID @ ''.json''"

definition isRecordName :: "string \<Rightarrow> bool" where
  "isRecordName name \<longleftrightarrow> hasSuffix name ''.json''"

definition sessionOf :: "string \<Rightarrow> string" where
  "sessionOf name = (if isRecordName name then take (length name - 5) name else name)"

definition cwTime :: "int cw" where "cwTime = Ask CwNow (\<lambda>a. Ret (cw_now a))"

definition cwDo :: "cwAsk \<Rightarrow> unit cw" where "cwDo q = Ask q (\<lambda>_. Ret ())"

definition readDir :: "(workerErr + (string \<times> bool) list) cw" where
  "readDir = Ask CwReadDir (\<lambda>a. Ret (case cw_err a of Some e \<Rightarrow> Inl (WorkerErr e) | None \<Rightarrow> Inr (cw_entries a)))"

definition readRecord :: "string \<Rightarrow> (workerErr + execSessionRecord option) cw" where
  "readRecord sessionID =
     Ask (CwReadFile (recordPath sessionID)) (\<lambda>a. Ret
       (case cw_err a of
          Some e \<Rightarrow> if errorsIs errNotExist e then Inr None else Inl (WorkerErr e)
        | None \<Rightarrow> (case cw_record a of
            Inl e \<Rightarrow> Inl (WorkerErr (Wrapf ''decode exec session %s: %w'' [sessionID] e))
          | Inr r \<Rightarrow> Inr (Some r))))"

definition persistRecord :: "execSessionRecord \<Rightarrow> (workerErr + unit) cw" where
  "persistRecord r = Ask (CwWrite r) (\<lambda>a. Ret (case cw_err a of Some e \<Rightarrow> Inl (WorkerErr e) | None \<Rightarrow> Inr ()))"

text \<open>The terminal records of the directory: their file and the time of their last update.\<close>

fun collectTerminal :: "(string \<times> bool) list \<Rightarrow> (workerErr + (string \<times> int) list) cw" where
  "collectTerminal [] = Ret (Inr [])"
| "collectTerminal ((name, isDir) # es) =
     (if isDir \<or> \<not> isRecordName name then collectTerminal es
      else bindE (readRecord (sessionOf name)) (\<lambda>found.
        case found of
          Some r \<Rightarrow>
            if workerTerminal (wr_State (xs_Result r))
            then bindE (collectTerminal es) (\<lambda>ts. Ret (Inr ((recordPath (xs_SessionID r), xs_UpdatedAt r) # ts)))
            else collectTerminal es
        | None \<Rightarrow> collectTerminal es))"

definition removeRecord :: "string \<Rightarrow> (workerErr + unit) cw" where
  "removeRecord file = Ask (CwRemove file) (\<lambda>a. Ret
     (case cw_err a of Some e \<Rightarrow> if errorsIs errNotExist e then Inr () else Inl (WorkerErr e) | None \<Rightarrow> Inr ()))"

text \<open>The loop over the terminal records, oldest first; \<open>left\<close> is the number of entries less the index.\<close>

fun sweepTerminal :: "int \<Rightarrow> nat \<Rightarrow> (string \<times> int) list \<Rightarrow> (workerErr + unit) cw" where
  "sweepTerminal now0 left [] = Ret (Inr ())"
| "sweepTerminal now0 left ((file, at) # ts) =
     bindE (if at < now0 - execSessionRetention \<or> execSessionCapacity < left then removeRecord file else Ret (Inr ())) (\<lambda>_.
     sweepTerminal now0 (left - 1) ts)"

definition gcLocked :: "int \<Rightarrow> (workerErr + unit) cw" where
  "gcLocked now0 =
     bindE readDir (\<lambda>entries.
     bindE (collectTerminal entries) (\<lambda>terminal.
     sweepTerminal now0 (length entries) (sort_key snd terminal)))"

definition recordCount :: "(workerErr + nat) cw" where
  "recordCount = bindE readDir (\<lambda>entries. Ret (Inr (length (filter (\<lambda>(name, isDir). \<not> isDir \<and> isRecordName name) entries))))"

fun scanForRequest :: "string \<Rightarrow> string \<Rightarrow> (string \<times> bool) list \<Rightarrow> (workerErr + execSessionRecord option) cw" where
  "scanForRequest callerKey requestID [] = Ret (Inr None)"
| "scanForRequest callerKey requestID ((name, isDir) # es) =
     (if isDir \<or> \<not> isRecordName name then scanForRequest callerKey requestID es
      else bindE (readRecord (sessionOf name)) (\<lambda>found.
        case found of
          Some r \<Rightarrow>
            if xs_CallerKey r = callerKey \<and> xs_RequestID r = requestID then Ret (Inr (Some r))
            else scanForRequest callerKey requestID es
        | None \<Rightarrow> scanForRequest callerKey requestID es))"

definition findByRequest :: "string \<Rightarrow> string \<Rightarrow> (workerErr + execSessionRecord option) cw" where
  "findByRequest callerKey requestID = bindE readDir (scanForRequest callerKey requestID)"

definition httpFail :: "nat \<Rightarrow> string \<Rightarrow> (workerErr + 'a) cw" where
  "httpFail status message = Ret (Inl (WorkerHTTP status message))"

definition keyReused :: string where "keyReused = ''idempotency key was already used for a different execution request''"
definition otherCaller :: string where "otherCaller = ''execution session belongs to another caller''"

definition queuedRecord :: "workerExecRequest \<Rightarrow> int \<Rightarrow> execSessionRecord" where
  "queuedRecord req t = \<lparr>xs_SessionID = wq_SessionID req, xs_RequestID = wq_RequestID req, xs_CallerKey = wq_CallerKey req,
     xs_Fingerprint = wq_Fingerprint req,
     xs_Result = (emptyResult ''queued'')\<lparr>wr_SessionID := wq_SessionID req, wr_RequestID := wq_RequestID req\<rparr>,
     xs_CreatedAt = t, xs_UpdatedAt = t\<rparr>"

text \<open>The last part of \<^verbatim>\<open>start\<close>: the record is durable before the command is launched.\<close>

definition createSession :: "workerExecRequest \<Rightarrow> (workerErr + workerExecResult) cw" where
  "createSession req =
     bindE recordCount (\<lambda>count.
     if execSessionCapacity \<le> count then httpFail 503 ''exec coordinator session capacity is exhausted''
     else bind cwTime (\<lambda>t.
       let r = queuedRecord req t in
       bindE (persistRecord r) (\<lambda>_.
       bind (cwDo (CwLaunch req)) (\<lambda>_. Ret (Inr (xs_Result r))))))"

definition startExec :: "workerExecRequest \<Rightarrow> (workerErr + workerExecResult) cw" where
  "startExec req =
     (case validatePersistentExecRequest (wq_Exec req) of
        Inl e \<Rightarrow> httpFail 400 (errorText e)
      | Inr _ \<Rightarrow>
        bind cwTime (\<lambda>t.
        bindE (gcLocked t) (\<lambda>_.
        bindE (findByRequest (wq_CallerKey req) (wq_RequestID req)) (\<lambda>byRequest.
        case byRequest of
          Some r \<Rightarrow>
            if xs_Fingerprint r \<noteq> wq_Fingerprint req then httpFail 409 keyReused else Ret (Inr (xs_Result r))
        | None \<Rightarrow>
            bindE (readRecord (wq_SessionID req)) (\<lambda>existing.
            case existing of
              Some r \<Rightarrow>
                if xs_CallerKey r \<noteq> wq_CallerKey req then httpFail 403 otherCaller
                else if xs_RequestID r \<noteq> wq_RequestID req \<or> xs_Fingerprint r \<noteq> wq_Fingerprint req then httpFail 409 keyReused
                else Ret (Inr (xs_Result r))
            | None \<Rightarrow> createSession req)))))"

definition boundRecord :: "workerExecRequest \<Rightarrow> (workerErr + execSessionRecord) cw" where
  "boundRecord req =
     bindE (readRecord (wq_SessionID req)) (\<lambda>found.
     case found of
       None \<Rightarrow> httpFail 404 ''execution session not found''
     | Some r \<Rightarrow>
         if xs_CallerKey r \<noteq> wq_CallerKey req then httpFail 403 otherCaller
         else if wq_RequestID req \<noteq> [] \<and> xs_RequestID r \<noteq> wq_RequestID req
         then httpFail 403 ''execution request belongs to another caller request''
         else Ret (Inr r))"

definition pollExec :: "workerExecRequest \<Rightarrow> (workerErr + workerExecResult) cw" where
  "pollExec req = bindE (boundRecord req) (\<lambda>r. Ret (Inr (xs_Result r)))"

definition withState :: "string \<Rightarrow> int \<Rightarrow> execSessionRecord \<Rightarrow> execSessionRecord" where
  "withState state t r = r\<lparr>xs_Result := (xs_Result r)\<lparr>wr_State := state\<rparr>, xs_UpdatedAt := t\<rparr>"

definition cancelExec :: "workerExecRequest \<Rightarrow> (workerErr + workerExecResult) cw" where
  "cancelExec req =
     bindE (boundRecord req) (\<lambda>r.
     if workerTerminal (wr_State (xs_Result r)) then Ret (Inr (xs_Result r))
     else bind (cwDo (CwCancel (wq_SessionID req))) (\<lambda>_.
       bind cwTime (\<lambda>t.
       let r' = withState ''canceled'' t r in
       bindE (persistRecord r') (\<lambda>_. Ret (Inr (xs_Result r'))))))"

fun wrapWorker :: "string \<Rightarrow> workerErr \<Rightarrow> workerErr" where
  "wrapWorker f (WorkerErr e) = WorkerErr (Wrapf f [] e)"
| "wrapWorker f (WorkerHTTP status message) = WorkerErr (Wrapf f [] (Errorf message []))"

definition setRunning :: "string \<Rightarrow> (workerErr + bool) cw" where
  "setRunning sessionID =
     bindE (wrapE (wrapWorker ''read queued execution session: %w'') (readRecord sessionID)) (\<lambda>found.
     case found of
       None \<Rightarrow> Ret (Inl (WorkerErr (Errorf ''durable queued execution record disappeared'' [])))
     | Some r \<Rightarrow>
         if workerTerminal (wr_State (xs_Result r)) then Ret (Inr False)
         else bind cwTime (\<lambda>t.
           bindE (wrapE (wrapWorker ''persist running execution session: %w'') (persistRecord (withState ''running'' t r))) (\<lambda>_.
           Ret (Inr True))))"

text \<open>\<^verbatim>\<open>finish\<close> up to the end of its critical section; an error is the one it hands to \<^verbatim>\<open>fatalPersistence\<close>.\<close>

definition finishedRecord :: "workerExecResult \<Rightarrow> goError option \<Rightarrow> int \<Rightarrow> execSessionRecord \<Rightarrow> execSessionRecord" where
  "finishedRecord result runErr t r =
     (let result' = result\<lparr>wr_SessionID := xs_SessionID r, wr_RequestID := xs_RequestID r,
            wr_Stderr := (case runErr of Some e \<Rightarrow> if wr_Stderr result = [] then errorText e else wr_Stderr result
                                       | None \<Rightarrow> wr_Stderr result)\<rparr>
      in r\<lparr>xs_Result := result', xs_UpdatedAt := t\<rparr>)"

definition finishSession :: "string \<Rightarrow> workerExecResult \<Rightarrow> goError option \<Rightarrow> (workerErr option) cw" where
  "finishSession sessionID result runErr =
     bind (readRecord sessionID) (\<lambda>found.
     case found of
       Inl e \<Rightarrow> bind (cwDo (CwDropActive sessionID)) (\<lambda>_. Ret (Some e))
     | Inr None \<Rightarrow> bind (cwDo (CwDropActive sessionID)) (\<lambda>_.
         Ret (Some (WorkerErr (Errorf ''durable execution record disappeared'' []))))
     | Inr (Some r) \<Rightarrow>
         if workerTerminal (wr_State (xs_Result r)) then bind (cwDo (CwDropActive sessionID)) (\<lambda>_. Ret None)
         else bind cwTime (\<lambda>t.
           bind (persistRecord (finishedRecord result runErr t r)) (\<lambda>p.
           bind (cwDo (CwDropActive sessionID)) (\<lambda>_.
           Ret (case p of Inl e \<Rightarrow> Some e | Inr _ \<Rightarrow> None)))))"

text \<open>After a restart: what was not finished has failed.\<close>

definition interruptedRecord :: "int \<Rightarrow> execSessionRecord \<Rightarrow> execSessionRecord" where
  "interruptedRecord t r =
     r\<lparr>xs_Result := (xs_Result r)\<lparr>wr_State := ''failed'',
         wr_Stderr := ''execution interrupted by coordinator restart; command was not redispatched''\<rparr>, xs_UpdatedAt := t\<rparr>"

fun recoverEntries :: "(string \<times> bool) list \<Rightarrow> (workerErr + unit) cw" where
  "recoverEntries [] = Ret (Inr ())"
| "recoverEntries ((name, isDir) # es) =
     (if isDir \<or> \<not> isRecordName name then recoverEntries es
      else bindE (readRecord (sessionOf name)) (\<lambda>found.
        case found of
          Some r \<Rightarrow>
            if \<not> workerTerminal (wr_State (xs_Result r))
            then bind cwTime (\<lambda>t. bindE (persistRecord (interruptedRecord t r)) (\<lambda>_. recoverEntries es))
            else recoverEntries es
        | None \<Rightarrow> recoverEntries es))"

definition recoverSessions :: "(workerErr + unit) cw" where
  "recoverSessions =
     bindE readDir (\<lambda>entries.
     bindE (recoverEntries entries) (\<lambda>_.
     bind cwTime gcLocked))"

section \<open>The endpoint\<close>

text \<open>\<^verbatim>\<open>diff |= a[i] ^ b[i]\<close> over the bytes.\<close>

definition subtleConstantTimeCompare :: "string \<Rightarrow> string \<Rightarrow> bool" where
  "subtleConstantTimeCompare a b \<longleftrightarrow>
     length a = length b \<and> fold (\<lambda>(x, y) diff. diff OR (of_char x XOR of_char y)) (zip a b) (0 :: nat) = 0"

lemma constant_time_fold:
  "fold (\<lambda>(x, y) diff. diff OR (of_char x XOR of_char y)) xys (d :: nat) = 0 \<longleftrightarrow> d = 0 \<and> (\<forall>(x, y) \<in> set xys. x = y)"
proof (induction xys arbitrary: d)
  case (Cons xy xys)
  have x: "(of_char x XOR of_char y = (0 :: nat)) \<longleftrightarrow> x = y" for x y :: char
  proof
    assume "of_char x XOR of_char y = (0 :: nat)"
    then have "bit (of_char x :: nat) n = bit (of_char y :: nat) n" for n
      using bit_xor_iff [of "of_char x :: nat" "of_char y" n] by simp
    then have "(of_char x :: nat) = of_char y" by (rule bit_eqI)
    then show "x = y" by (simp only: of_char_eq_iff)
  qed simp
  show ?case
  proof (cases xy)
    case (Pair a b)
    have "(d OR (of_char a XOR of_char b) = 0) \<longleftrightarrow> d = 0 \<and> a = b" unfolding or_eq_0_iff x by (rule refl)
    then show ?thesis using Cons.IH [of "d OR (of_char a XOR of_char b)"] by (simp add: Pair)
  qed
qed simp

lemma zip_same: "length a = length b \<Longrightarrow> (\<forall>(x, y) \<in> set (zip a b). x = y) \<longleftrightarrow> a = b"
  by (induction a b rule: list_induct2) simp_all

lemma constant_time_eq [simp]: "subtleConstantTimeCompare a b \<longleftrightarrow> a = b"
proof (cases "length a = length b")
  case True
  then show ?thesis
    by (simp only: subtleConstantTimeCompare_def constant_time_fold zip_same simp_thms)
next
  case False
  then show ?thesis by (auto simp only: subtleConstantTimeCompare_def)
qed

definition workerReply :: "workerErr + workerExecResult \<Rightarrow> workerExecResult agReply" where
  "workerReply r =
     (case r of
        Inr result \<Rightarrow> AgJSON 200 result
      | Inl (WorkerHTTP status message) \<Rightarrow> AgError status (Errorf message [])
      | Inl (WorkerErr e) \<Rightarrow> AgError 500 e)"

definition execAction :: "workerExecRequest \<Rightarrow> (workerErr + workerExecResult) cw" where
  "execAction req =
     (if wq_Action req = ''start'' then startExec req
      else if wq_Action req = ''poll'' then pollExec req
      else if wq_Action req = ''cancel'' then cancelExec req
      else httpFail 400 ''unknown exec action'')"

definition serveCoordinator :: "string \<Rightarrow> string \<Rightarrow> string \<Rightarrow> string \<Rightarrow> workerExecRequest jsonBody \<Rightarrow> workerExecResult agReply cw" where
  "serveCoordinator token path method header body =
     (if path \<noteq> ''/exec'' then Ret (AgError 404 (Errorf ''404 page not found'' []))
      else if method \<noteq> ''POST'' then Ret (AgError 405 (Errorf ''method not allowed'' []))
      else if \<not> subtleConstantTimeCompare header token then Ret (AgError 401 (Errorf ''unauthorized'' []))
      else (case body of
          BodyInvalid e \<Rightarrow> Ret (AgError 400 (Wrapf ''invalid JSON body: %w'' [] e))
        | BodyTrailing \<Rightarrow> Ret (AgError 400 (Errorf ''request body must contain one JSON object'' []))
        | BodyValue req \<Rightarrow>
            (case validateWorkerIdentity req of
               Inl e \<Rightarrow> Ret (AgError 400 e)
             | Inr _ \<Rightarrow> bind (execAction req) (\<lambda>r. Ret (workerReply r)))))"

section \<open>The goroutine of a command\<close>

text \<open>\<open>RnSetRunning\<close> and \<open>RnFinish\<close> are the critical sections above; the command is sent with \<open>RnDispatch\<close> and its outcome is
  the answer to \<open>RnAwait\<close>; \<open>RnFatal\<close> ends the process.\<close>

datatype rnAsk =
    RnLock
  | RnUnlock
  | RnCtxErr
  | RnSetRunning string
  | RnClearActive string
  | RnDispatch persistentExecRequest
  | RnAwait
  | RnFinish string workerExecResult "goError option"
  | RnFatal workerErr

record rnAnswer =
  rn_done :: bool
  rn_running :: "workerErr + bool"
  rn_response :: "execResponse \<times> goError option"
  rn_fatal :: "workerErr option"

type_synonym 'a rn = "(rnAsk, rnAnswer, 'a) prog"

definition rnDo :: "rnAsk \<Rightarrow> unit rn" where "rnDo q = Ask q (\<lambda>_. Ret ())"

definition rnFinish :: "string \<Rightarrow> workerExecResult \<Rightarrow> goError option \<Rightarrow> unit rn" where
  "rnFinish sessionID result runErr =
     Ask (RnFinish sessionID result runErr) (\<lambda>a. case rn_fatal a of Some e \<Rightarrow> rnDo (RnFatal e) | None \<Rightarrow> Ret ())"

definition runExecSession :: "workerExecRequest \<Rightarrow> unit rn" where
  "runExecSession req =
     (let sid = wq_SessionID req; unlock = rnDo RnUnlock in
      Ask RnLock (\<lambda>_.
      Ask RnCtxErr (\<lambda>c.
      if rn_done c then bind (rnFinish sid (emptyResult ''canceled'') (Some errCanceled)) (\<lambda>_. unlock)
      else Ask (RnSetRunning sid) (\<lambda>s.
        case rn_running s of
          Inl e \<Rightarrow> Ask (RnClearActive sid) (\<lambda>_. Ask (RnFatal e) (\<lambda>_. unlock))
        | Inr False \<Rightarrow> Ask (RnClearActive sid) (\<lambda>_. unlock)
        | Inr True \<Rightarrow>
            Ask (RnDispatch (wq_Exec req)) (\<lambda>_.
            Ask RnAwait (\<lambda>d.
            case rn_response d of (response, runErr) \<Rightarrow>
              bind (rnFinish sid (workerResultFromExec response runErr) runErr) (\<lambda>_. unlock)))))))"

end
