(* ===== verification/Agent_Sessions.thy ===== *)
theory Agent_Sessions
  imports Agent_Coordinator
begin

text \<open>
  The coordinator as a running system: its directory of records, the map of active sessions, one
  goroutine per accepted command, the lock they share with workspace mutations, and a process that may stop at
  any point, also inside a critical section, and start again on the directory it left. Every call may fail, and a
  write that reports an error may have taken effect. The log of launches, dispatches and removals is what the
  theorems count; the code does not keep it.
\<close>

section \<open>State\<close>

datatype diskFile = RecordFile execSessionRecord | OtherFile | SubDir

datatype lockHolder = HeldByExec nat | HeldBySync

datatype coordEvent = Launched string | Dispatched string | Removed string

record execThread =
  th_req :: workerExecRequest
  th_sent :: bool
  th_prog :: "unit rn"

record coord =
  cd_disk :: "string \<rightharpoonup> diskFile"
  cd_active :: "string \<rightharpoonup> nat"
  cd_cancelled :: "nat set"
  cd_threads :: "nat \<rightharpoonup> execThread"
  cd_lock :: "lockHolder option"
  cd_up :: bool
  cd_log :: "coordEvent list"

definition listing :: "(string \<rightharpoonup> diskFile) \<Rightarrow> (string \<times> bool) list" where
  "listing d = map (\<lambda>n. (n, d n = Some SubDir)) (sorted_list_of_set (dom d))"

definition recordAt :: "coord \<Rightarrow> string \<Rightarrow> execSessionRecord option" where
  "recordAt s sid = (case cd_disk s (recordPath sid) of Some (RecordFile r) \<Rightarrow> Some r | _ \<Rightarrow> None)"

definition terminalRecord :: "execSessionRecord \<Rightarrow> bool" where
  "terminalRecord r \<longleftrightarrow> workerTerminal (wr_State (xs_Result r))"

section \<open>Calls under the mutex\<close>

definition putRecord :: "execSessionRecord \<Rightarrow> coord \<Rightarrow> coord" where
  "putRecord r s = s\<lparr>cd_disk := (cd_disk s)(recordPath (xs_SessionID r) \<mapsto> RecordFile r)\<rparr>"

definition dropFile :: "string \<Rightarrow> coord \<Rightarrow> coord" where
  "dropFile name s = s\<lparr>cd_disk := (cd_disk s)(name := None),
     cd_log := cd_log s @ (case cd_disk s name of None \<Rightarrow> [] | Some _ \<Rightarrow> [Removed (sessionOf name)])\<rparr>"

definition launch :: "workerExecRequest \<Rightarrow> nat \<Rightarrow> coord \<Rightarrow> coord" where
  "launch req i s = s\<lparr>cd_active := (cd_active s)(wq_SessionID req \<mapsto> i),
     cd_threads := (cd_threads s)(i \<mapsto> \<lparr>th_req = req, th_sent = False, th_prog = runExecSession req\<rparr>),
     cd_log := cd_log s @ [Launched (wq_SessionID req)]\<rparr>"

definition cancelActive :: "string \<Rightarrow> coord \<Rightarrow> coord" where
  "cancelActive sid s = (case cd_active s sid of
     Some i \<Rightarrow> s\<lparr>cd_cancelled := insert i (cd_cancelled s)\<rparr> | None \<Rightarrow> s)"

inductive cwCall :: "coord \<Rightarrow> cwAsk \<Rightarrow> cwAnswer \<Rightarrow> coord \<Rightarrow> bool" where
  now: "cwCall s CwNow a s"
| list: "cw_err a = None \<Longrightarrow> cw_entries a = listing (cd_disk s) \<Longrightarrow> cwCall s CwReadDir a s"
| list_fails: "cw_err a = Some e \<Longrightarrow> cwCall s CwReadDir a s"
| read: "cd_disk s name = Some (RecordFile r) \<Longrightarrow> cw_err a = None \<Longrightarrow> cw_record a = Inr r \<Longrightarrow> cwCall s (CwReadFile name) a s"
| read_undecodable: "cd_disk s name = Some OtherFile \<Longrightarrow> cw_err a = None \<Longrightarrow> cw_record a = Inl e \<Longrightarrow> cwCall s (CwReadFile name) a s"
| read_absent: "cd_disk s name = None \<Longrightarrow> cw_err a = Some e \<Longrightarrow> errorsIs errNotExist e \<Longrightarrow> cwCall s (CwReadFile name) a s"
| read_fails: "cw_err a = Some e \<Longrightarrow> \<not> errorsIs errNotExist e \<Longrightarrow> cwCall s (CwReadFile name) a s"
| written: "cw_err a = None \<Longrightarrow> cwCall s (CwWrite r) a (putRecord r s)"
| write_applied: "cw_err a = Some e \<Longrightarrow> cwCall s (CwWrite r) a (putRecord r s)"
| write_fails: "cw_err a = Some e \<Longrightarrow> cwCall s (CwWrite r) a s"
| write_leaves: "cw_err a = Some e \<Longrightarrow> \<not> isRecordName tmp \<Longrightarrow>
    cwCall s (CwWrite r) a (s\<lparr>cd_disk := (cd_disk s)(tmp \<mapsto> OtherFile)\<rparr>)"
| remove: "cw_err a = None \<Longrightarrow> cwCall s (CwRemove name) a (dropFile name s)"
| remove_applied: "cw_err a = Some e \<Longrightarrow> cwCall s (CwRemove name) a (dropFile name s)"
| remove_fails: "cw_err a = Some e \<Longrightarrow> cwCall s (CwRemove name) a s"
| launch: "cd_threads s i = None \<Longrightarrow> i \<notin> cd_cancelled s \<Longrightarrow> i \<notin> ran (cd_active s) \<Longrightarrow> cwCall s (CwLaunch req) a (launch req i s)"
| cancel: "cwCall s (CwCancel sid) a (cancelActive sid s)"
| drop: "cwCall s (CwDropActive sid) a (s\<lparr>cd_active := (cd_active s)(sid := None)\<rparr>)"

text \<open>A critical section runs to its end, or the process stops inside it (no result).\<close>

inductive criticalSection :: "coord \<Rightarrow> 'a cw \<Rightarrow> coord \<Rightarrow> 'a option \<Rightarrow> bool" where
  finished: "criticalSection s (Ret x) s (Some x)"
| stopped: "criticalSection s (Ask q k) s None"
| called: "cwCall s q a s' \<Longrightarrow> criticalSection s' (k a) s'' r \<Longrightarrow> criticalSection s (Ask q k) s'' r"

inductive_cases cwCallE [elim!]:
  "cwCall s CwNow a s'" "cwCall s CwReadDir a s'" "cwCall s (CwReadFile n) a s'" "cwCall s (CwWrite r) a s'"
  "cwCall s (CwRemove n) a s'" "cwCall s (CwLaunch q) a s'" "cwCall s (CwCancel c) a s'" "cwCall s (CwDropActive c) a s'"

section \<open>Steps\<close>

definition halt :: "coord \<Rightarrow> coord" where
  "halt s = s\<lparr>cd_active := Map.empty, cd_cancelled := {}, cd_threads := Map.empty, cd_lock := None, cd_up := False\<rparr>"

definition setProg :: "nat \<Rightarrow> unit rn \<Rightarrow> coord \<Rightarrow> coord" where
  "setProg i p s = s\<lparr>cd_threads := (cd_threads s)(i := map_option (\<lambda>t. t\<lparr>th_prog := p\<rparr>) (cd_threads s i))\<rparr>"

definition dispatch :: "nat \<Rightarrow> coord \<Rightarrow> coord" where
  "dispatch i s = (case cd_threads s i of
     Some t \<Rightarrow> s\<lparr>cd_threads := (cd_threads s)(i \<mapsto> t\<lparr>th_sent := True\<rparr>),
                 cd_log := cd_log s @ [Dispatched (wq_SessionID (th_req t))]\<rparr>
   | None \<Rightarrow> s)"

text \<open>A call of goroutine \<open>i\<close>; \<open>RnFatal\<close> has no answer, the process ends.\<close>

inductive rnCall :: "nat \<Rightarrow> coord \<Rightarrow> rnAsk \<Rightarrow> rnAnswer \<Rightarrow> coord \<Rightarrow> bool" for i where
  lock: "cd_lock s = None \<Longrightarrow> rnCall i s RnLock a (s\<lparr>cd_lock := Some (HeldByExec i)\<rparr>)"
| unlock: "rnCall i s RnUnlock a (s\<lparr>cd_lock := None\<rparr>)"
| ctx: "rn_done a \<longleftrightarrow> i \<in> cd_cancelled s \<Longrightarrow> rnCall i s RnCtxErr a s"
| set_running: "criticalSection s (setRunning sid) s' (Some (rn_running a)) \<Longrightarrow> rnCall i s (RnSetRunning sid) a s'"
| clear: "criticalSection s (cwDo (CwDropActive sid)) s' (Some ()) \<Longrightarrow> rnCall i s (RnClearActive sid) a s'"
| send: "rnCall i s (RnDispatch req) a (dispatch i s)"
| await: "rnCall i s RnAwait a s"
| finish: "criticalSection s (finishSession sid result err) s' (Some (rn_fatal a)) \<Longrightarrow> rnCall i s (RnFinish sid result err) a s'"

text \<open>The critical section a call of a goroutine enters, if any: the process may stop inside it.\<close>

fun rnStops :: "coord \<Rightarrow> rnAsk \<Rightarrow> coord \<Rightarrow> bool" where
  "rnStops s (RnSetRunning sid) s' \<longleftrightarrow> criticalSection s (setRunning sid) s' None"
| "rnStops s (RnFinish sid result err) s' \<longleftrightarrow> criticalSection s (finishSession sid result err) s' None"
| "rnStops s q s' \<longleftrightarrow> s' = s"

inductive coordStep :: "coord \<Rightarrow> coord \<Rightarrow> bool" where
  boot: "\<not> cd_up s \<Longrightarrow> criticalSection s recoverSessions s' (Some (Inr ())) \<Longrightarrow> coordStep s (s'\<lparr>cd_up := True\<rparr>)"
| boot_fails: "\<not> cd_up s \<Longrightarrow> criticalSection s recoverSessions s' r \<Longrightarrow> coordStep s (halt s')"
| request: "cd_up s \<Longrightarrow> criticalSection s (serveCoordinator token path method header body) s' (Some reply) \<Longrightarrow> coordStep s s'"
| request_stops: "cd_up s \<Longrightarrow> criticalSection s (serveCoordinator token path method header body) s' None \<Longrightarrow> coordStep s (halt s')"
| thread: "cd_up s \<Longrightarrow> cd_threads s i = Some t \<Longrightarrow> th_prog t = Ask q k \<Longrightarrow> rnCall i s q a s' \<Longrightarrow> coordStep s (setProg i (k a) s')"
| thread_stops: "cd_up s \<Longrightarrow> cd_threads s i = Some t \<Longrightarrow> th_prog t = Ask q k \<Longrightarrow> rnStops s q s' \<Longrightarrow> coordStep s (halt s')"
| sync_locks: "cd_up s \<Longrightarrow> cd_lock s = None \<Longrightarrow> coordStep s (s\<lparr>cd_lock := Some HeldBySync\<rparr>)"
| sync_unlocks: "cd_up s \<Longrightarrow> cd_lock s = Some HeldBySync \<Longrightarrow> coordStep s (s\<lparr>cd_lock := None\<rparr>)"
| stops: "cd_up s \<Longrightarrow> coordStep s (halt s)"

definition recordNames :: "coord \<Rightarrow> string set" where
  "recordNames s = {n. isRecordName n \<and> (\<exists>f. cd_disk s n = Some f \<and> f \<noteq> SubDir)}"

text \<open>A directory to start on: finite, records under their own name, within the capacity.\<close>

definition coordDisk :: "coord \<Rightarrow> bool" where
  "coordDisk s \<longleftrightarrow> finite (dom (cd_disk s)) \<and> card (recordNames s) \<le> execSessionCapacity \<and>
     (\<forall>n r. cd_disk s n = Some (RecordFile r) \<longrightarrow> n = recordPath (xs_SessionID r))"

definition coordInit :: "coord \<Rightarrow> bool" where
  "coordInit s \<longleftrightarrow> coordDisk s \<and> s = halt s \<and> cd_log s = []"

inductive coordReach :: "coord \<Rightarrow> bool" where
  init: "coordInit s \<Longrightarrow> coordReach s"
| step: "coordReach s \<Longrightarrow> coordStep s s' \<Longrightarrow> coordReach s'"

end
