(* ===== verification/Agent_Session_Contract.thy ===== *)
theory Agent_Session_Contract
  imports Agent_Sessions
begin

text \<open>
  What the running coordinator guarantees on every interleaving, with every failure and every stop of the process:
  a command is sent at most once, commands and workspace mutations exclude each other, finished sessions
  are final, a restart closes what was open, the directory is bounded.
\<close>

section \<open>Names\<close>

lemma isRecordName_suffix: "isRecordName n \<longleftrightarrow> suffix ''.json'' n"
  by (simp only: isRecordName_def hasSuffix_def hasPrefix_prefix suffix_to_prefix)

lemma isRecordName_recordPath [simp]: "isRecordName (recordPath sid)"
  by (simp add: isRecordName_suffix recordPath_def suffix_def)

lemma sessionOf_recordPath [simp]: "sessionOf (recordPath sid) = sid"
  unfolding sessionOf_def by simp (simp add: recordPath_def)

lemma recordPath_sessionOf [simp]: "isRecordName n \<Longrightarrow> recordPath (sessionOf n) = n"
  by (auto simp: sessionOf_def) (auto simp: isRecordName_suffix recordPath_def suffix_def)

lemma recordPath_eq [simp]: "recordPath a = recordPath b \<longleftrightarrow> a = b"
  by (simp add: recordPath_def)

section \<open>Counts\<close>

definition launches :: "coord \<Rightarrow> string \<Rightarrow> nat" where
  "launches s sid = count_list (cd_log s) (Launched sid)"

definition dispatches :: "coord \<Rightarrow> string \<Rightarrow> nat" where
  "dispatches s sid = count_list (cd_log s) (Dispatched sid)"

definition removals :: "coord \<Rightarrow> string \<Rightarrow> nat" where
  "removals s sid = count_list (cd_log s) (Removed sid)"

lemmas counts = launches_def dispatches_def removals_def

definition waitingThreads :: "coord \<Rightarrow> string \<Rightarrow> nat set" where
  "waitingThreads s sid = {i. \<exists>t. cd_threads s i = Some t \<and> wq_SessionID (th_req t) = sid \<and> \<not> th_sent t}"

section \<open>Discipline of a goroutine\<close>

primrec neverSends :: "unit rn \<Rightarrow> bool" where
  "neverSends (Ret u) \<longleftrightarrow> True"
| "neverSends (Ask q k) \<longleftrightarrow> (\<forall>req. q \<noteq> RnDispatch req) \<and> (\<forall>a. neverSends (k a))"

primrec sendsOnce :: "unit rn \<Rightarrow> bool" where
  "sendsOnce (Ret u) \<longleftrightarrow> True"
| "sendsOnce (Ask q k) \<longleftrightarrow> (if \<exists>req. q = RnDispatch req then \<forall>a. neverSends (k a) else \<forall>a. sendsOnce (k a))"

text \<open>Every call but the acquisition is made with the lock, and the lock is given back.\<close>

primrec locked :: "bool \<Rightarrow> unit rn \<Rightarrow> bool" where
  "locked b (Ret u) \<longleftrightarrow> \<not> b"
| "locked b (Ask q k) \<longleftrightarrow> (if q = RnLock then \<not> b else b) \<and> (\<forall>a. locked (q \<noteq> RnUnlock) (k a))"

definition sendDiscipline :: "execThread \<Rightarrow> bool" where
  "sendDiscipline t \<longleftrightarrow> (if th_sent t then neverSends (th_prog t) else sendsOnce (th_prog t))"

definition threadOk :: "coord \<Rightarrow> nat \<Rightarrow> execThread \<Rightarrow> bool" where
  "threadOk s i t \<longleftrightarrow> sendDiscipline t \<and> locked (cd_lock s = Some (HeldByExec i)) (th_prog t)"

lemma never_once: "neverSends p \<Longrightarrow> sendsOnce p"
  by (induction p) auto

lemma runExecSession_once: "sendsOnce (runExecSession req)"
  by (auto simp: runExecSession_def rnFinish_def rnDo_def Let_def intro!: never_once split: sum.split bool.split option.split prod.split)

lemma runExecSession_locked: "locked False (runExecSession req)"
  by (auto simp: runExecSession_def rnFinish_def rnDo_def Let_def split: sum.split bool.split option.split prod.split)

section \<open>Invariant\<close>

definition coordOk :: "coord \<Rightarrow> bool" where
  "coordOk s \<longleftrightarrow> coordDisk s
     \<and> (\<forall>sid. launches s sid \<le> removals s sid + (if cd_disk s (recordPath sid) = None then 0 else 1))
     \<and> finite (dom (cd_threads s))
     \<and> (\<forall>sid. dispatches s sid + card (waitingThreads s sid) \<le> launches s sid)
     \<and> (\<forall>i t. cd_threads s i = Some t \<longrightarrow> threadOk s i t)
     \<and> (\<forall>i. cd_lock s = Some (HeldByExec i) \<longrightarrow> cd_threads s i \<noteq> None)"

definition sameIdentity :: "execSessionRecord \<Rightarrow> execSessionRecord \<Rightarrow> bool" where
  "sameIdentity r r' \<longleftrightarrow> xs_SessionID r' = xs_SessionID r \<and> xs_RequestID r' = xs_RequestID r \<and> xs_CallerKey r' = xs_CallerKey r
     \<and> xs_Fingerprint r' = xs_Fingerprint r \<and> xs_CreatedAt r' = xs_CreatedAt r"

text \<open>How records change: while it is not removed a session keeps its identity, and once finished its result.\<close>

definition evolves :: "coord \<Rightarrow> coord \<Rightarrow> bool" where
  "evolves s s' \<longleftrightarrow> (\<exists>es. cd_log s' = cd_log s @ es) \<and>
     (\<forall>sid r. recordAt s sid = Some r \<longrightarrow> removals s' sid = removals s sid \<longrightarrow>
        (\<exists>r'. recordAt s' sid = Some r' \<and> sameIdentity r r' \<and> (terminalRecord r \<longrightarrow> r' = r)))"

lemma sameIdentity_refl [simp]: "sameIdentity r r"
  by (simp add: sameIdentity_def)

lemma sameIdentity_trans: "sameIdentity a b \<Longrightarrow> sameIdentity b c \<Longrightarrow> sameIdentity a c"
  by (simp add: sameIdentity_def)

lemma evolves_refl [simp]: "evolves s s"
  by (auto simp: evolves_def)

lemma removals_mono: "cd_log s' = cd_log s @ es \<Longrightarrow> removals s sid \<le> removals s' sid"
  by (simp add: removals_def)

lemma evolves_trans:
  assumes a: "evolves s s'" and b: "evolves s' s''"
  shows "evolves s s''"
proof -
  obtain es fs where log: "cd_log s' = cd_log s @ es" "cd_log s'' = cd_log s' @ fs"
    using a b by (auto simp: evolves_def)
  have "\<exists>r''. recordAt s'' sid = Some r'' \<and> sameIdentity r r'' \<and> (terminalRecord r \<longrightarrow> r'' = r)"
    if r: "recordAt s sid = Some r" and eq: "removals s'' sid = removals s sid" for sid r
  proof -
    have eqs: "removals s' sid = removals s sid" "removals s'' sid = removals s' sid"
      using removals_mono [OF log(1), of sid] removals_mono [OF log(2), of sid] eq by auto
    obtain r' where r': "recordAt s' sid = Some r'" "sameIdentity r r'" "terminalRecord r \<longrightarrow> r' = r"
      using a r eqs(1) unfolding evolves_def by blast
    moreover obtain r'' where "recordAt s'' sid = Some r''" "sameIdentity r' r''" "terminalRecord r' \<longrightarrow> r'' = r'"
      using b r'(1) eqs(2) unfolding evolves_def by blast
    ultimately show ?thesis using sameIdentity_trans by blast
  qed
  moreover have "\<exists>gs. cd_log s'' = cd_log s @ gs" using log by simp
  ultimately show ?thesis unfolding evolves_def by blast
qed

section \<open>Guarded critical sections\<close>

definition removable :: "coord \<Rightarrow> string \<Rightarrow> bool" where
  "removable s n \<longleftrightarrow> cd_disk s n = None \<or> (\<exists>r. cd_disk s n = Some (RecordFile r) \<and> terminalRecord r)"

definition replaces :: "coord \<Rightarrow> execSessionRecord \<Rightarrow> bool" where
  "replaces s r \<longleftrightarrow> (\<exists>r0. recordAt s (xs_SessionID r) = Some r0 \<and> \<not> terminalRecord r0 \<and> sameIdentity r0 r)"

definition creates :: "coord \<Rightarrow> execSessionRecord \<Rightarrow> bool" where
  "creates s r \<longleftrightarrow> cd_disk s (recordPath (xs_SessionID r)) = None \<and> card (recordNames s) < execSessionCapacity"

fun allowed :: "coord \<Rightarrow> cwAsk \<Rightarrow> bool" where
  "allowed s (CwWrite r) \<longleftrightarrow> replaces s r \<or> creates s r"
| "allowed s (CwRemove n) \<longleftrightarrow> removable s n"
| "allowed s (CwLaunch req) \<longleftrightarrow> recordAt s (wq_SessionID req) \<noteq> None \<and> launches s (wq_SessionID req) \<le> removals s (wq_SessionID req)"
| "allowed s q \<longleftrightarrow> True"

primrec guarded :: "('a \<Rightarrow> coord \<Rightarrow> bool) \<Rightarrow> 'a cw \<Rightarrow> coord \<Rightarrow> bool" where
  "guarded Q (Ret x) s \<longleftrightarrow> Q x s"
| "guarded Q (Ask q k) s \<longleftrightarrow> allowed s q \<and> (\<forall>a s'. cwCall s q a s' \<longrightarrow> coordOk s' \<longrightarrow> guarded Q (k a) s')"

lemma guarded_bind: "guarded Q (bind p f) s = guarded (\<lambda>x. guarded Q (f x)) p s"
  by (induction p arbitrary: s) auto

lemma guarded_Ret: "guarded Q (Ret x) = Q x"
  by (rule ext) simp

lemma guarded_bindE:
  "guarded Q (bindE p f) s = guarded (\<lambda>x s'. case x of Inl e \<Rightarrow> Q (Inl e) s' | Inr a \<Rightarrow> guarded Q (f a) s') p s"
proof -
  have e: "\<And>x. guarded Q (case x of Inl e \<Rightarrow> Ret (Inl e) | Inr a \<Rightarrow> f a)
      = (\<lambda>s'. case x of Inl e \<Rightarrow> Q (Inl e) s' | Inr a \<Rightarrow> guarded Q (f a) s')"
    by (auto split: sum.split)
  show ?thesis unfolding bindE_def guarded_bind by (simp only: e)
qed

lemma guarded_wrapE:
  "guarded Q (wrapE w p) s = guarded (\<lambda>x. Q (case x of Inl e \<Rightarrow> Inl (w e) | Inr a \<Rightarrow> Inr a)) p s"
  unfolding wrapE_def guarded_bind by (simp only: guarded_Ret)

lemmas guarded_rules = guarded_bind guarded_bindE guarded_wrapE

lemma guarded_mono: "guarded Q p s \<Longrightarrow> (\<And>x s'. Q x s' \<Longrightarrow> R x s') \<Longrightarrow> guarded R p s"
  by (induction p arbitrary: s) auto

section \<open>Every allowed call keeps the invariant\<close>

lemma coordOkD:
  assumes "coordOk s"
  shows "finite (dom (cd_disk s))" "cd_disk s n = Some (RecordFile r) \<Longrightarrow> n = recordPath (xs_SessionID r)"
    "card (recordNames s) \<le> execSessionCapacity"
    "launches s sid \<le> removals s sid + (if cd_disk s (recordPath sid) = None then 0 else 1)"
    "finite (dom (cd_threads s))" "dispatches s sid + card (waitingThreads s sid) \<le> launches s sid"
    "cd_threads s i = Some t \<Longrightarrow> threadOk s i t" "cd_lock s = Some (HeldByExec i) \<Longrightarrow> cd_threads s i \<noteq> None"
  using assms by (simp_all add: coordOk_def coordDisk_def del: split_paired_All split_paired_Ex)

lemma recordAt_disk: "recordAt s sid = Some r \<longleftrightarrow> cd_disk s (recordPath sid) = Some (RecordFile r)"
  by (auto simp: recordAt_def split: option.splits diskFile.splits)

lemma recordNames_finite [simp]: "coordOk s \<Longrightarrow> finite (recordNames s)"
  by (rule finite_subset [of _ "dom (cd_disk s)"]) (auto simp: recordNames_def coordOkD(1))

text \<open>Calls that do not touch the counts, the threads and the lock.\<close>

lemma coordOk_disk:
  assumes ok: "coordOk s" and frame: "cd_log s' = cd_log s" "cd_threads s' = cd_threads s" "cd_lock s' = cd_lock s"
    and disk: "coordDisk s'" and keep: "\<And>sid. cd_disk s' (recordPath sid) = None \<Longrightarrow> cd_disk s (recordPath sid) = None"
  shows "coordOk s'"
proof -
  have "launches s' sid \<le> removals s' sid + (if cd_disk s' (recordPath sid) = None then 0 else 1)" for sid
    using coordOkD(4) [OF ok, of sid] keep [of sid] by (auto simp: counts frame split: if_splits)
  moreover have "dispatches s' sid + card (waitingThreads s' sid) \<le> launches s' sid" for sid
    using coordOkD(6) [OF ok, of sid] by (simp add: counts frame waitingThreads_def)
  moreover have "\<forall>i t. cd_threads s' i = Some t \<longrightarrow> threadOk s' i t"
    using coordOkD(7) [OF ok] by (simp add: frame threadOk_def)
  moreover have "\<forall>i. cd_lock s' = Some (HeldByExec i) \<longrightarrow> cd_threads s' i \<noteq> None"
    using coordOkD(8) [OF ok] by (simp add: frame)
  ultimately show ?thesis using coordOkD(5) [OF ok] disk unfolding coordOk_def by (simp add: frame)
qed

lemma coordOk_frame:
  assumes ok: "coordOk s"
    and frame: "cd_disk s' = cd_disk s" "cd_log s' = cd_log s" "cd_threads s' = cd_threads s" "cd_lock s' = cd_lock s"
  shows "coordOk s' \<and> evolves s s'"
proof
  have "recordNames s' = recordNames s" by (simp add: recordNames_def frame)
  then have "coordDisk s'" using coordOkD(1,2,3) [OF ok] by (auto simp: coordDisk_def frame)
  then show "coordOk s'" by (rule coordOk_disk [OF ok frame(2,3,4)]) (simp add: frame)
  show "evolves s s'" by (auto simp: evolves_def recordAt_def frame)
qed

lemma recordNames_put: "recordNames (putRecord r s) = insert (recordPath (xs_SessionID r)) (recordNames s)"
  by (auto simp: recordNames_def putRecord_def)

lemma putRecord_frame [simp]:
  "cd_log (putRecord r s) = cd_log s" "cd_threads (putRecord r s) = cd_threads s" "cd_lock (putRecord r s) = cd_lock s"
  "cd_up (putRecord r s) = cd_up s"
  by (simp_all add: putRecord_def)

lemma put_ok:
  assumes ok: "coordOk s" and al: "replaces s r \<or> creates s r"
  shows "coordOk (putRecord r s) \<and> evolves s (putRecord r s)"
proof
  have card: "card (recordNames (putRecord r s)) \<le> execSessionCapacity"
  proof (cases "replaces s r")
    case True
    then have "recordPath (xs_SessionID r) \<in> recordNames s"
      by (auto simp: replaces_def recordAt_disk recordNames_def)
    then show ?thesis using coordOkD(3) [OF ok] by (simp add: recordNames_put insert_absorb)
  next
    case False
    then have "card (recordNames s) < execSessionCapacity" using al by (simp add: creates_def)
    then show ?thesis using ok by (simp add: recordNames_put card_insert_if)
  qed
  have "coordDisk (putRecord r s)"
    using coordOkD(1,2) [OF ok] card by (auto simp: coordDisk_def putRecord_def)
  then show "coordOk (putRecord r s)"
    by (rule coordOk_disk [OF ok, rotated 3]) (auto simp: putRecord_def split: if_splits)
  show "evolves s (putRecord r s)"
    using al coordOkD(2) [OF ok]
    by (auto simp: evolves_def recordAt_disk putRecord_def replaces_def creates_def)
qed

lemma leave_ok:
  assumes ok: "coordOk s" and tmp: "\<not> isRecordName tmp"
  shows "coordOk (s\<lparr>cd_disk := (cd_disk s)(tmp \<mapsto> OtherFile)\<rparr>) \<and> evolves s (s\<lparr>cd_disk := (cd_disk s)(tmp \<mapsto> OtherFile)\<rparr>)"
proof
  let ?s = "s\<lparr>cd_disk := (cd_disk s)(tmp \<mapsto> OtherFile)\<rparr>"
  have neq: "\<And>sid. recordPath sid \<noteq> tmp" using tmp isRecordName_recordPath by blast
  have "recordNames ?s = recordNames s" using tmp by (auto simp: recordNames_def)
  then have "coordDisk ?s" using coordOkD(1,2,3) [OF ok] by (auto simp: coordDisk_def)
  then show "coordOk ?s" by (rule coordOk_disk [OF ok, rotated 3]) (auto split: if_splits)
  show "evolves s ?s" using neq by (auto simp: evolves_def recordAt_disk)
qed

lemma count_list_append: "count_list (xs @ ys) a = count_list xs a + count_list ys a"
  by (induction xs) auto

lemma drop_ok:
  assumes ok: "coordOk s" and al: "removable s n"
  shows "coordOk (dropFile n s) \<and> evolves s (dropFile n s)"
proof (cases "cd_disk s n")
  case None
  then have "dropFile n s = s" by (simp add: dropFile_def fun_upd_idem)
  then show ?thesis using ok by simp
next
  case (Some f)
  let ?s = "dropFile n s"
  obtain r where r: "cd_disk s n = Some (RecordFile r)" "terminalRecord r" using al Some by (auto simp: removable_def)
  then have n: "n = recordPath (xs_SessionID r)" using coordOkD(2) [OF ok] by blast
  have log: "cd_log ?s = cd_log s @ [Removed (xs_SessionID r)]" unfolding dropFile_def r(1) by (simp add: n)
  have disk: "cd_disk ?s = (cd_disk s)(recordPath (xs_SessionID r) := None)" by (simp add: dropFile_def n)
  have frame: "cd_threads ?s = cd_threads s" "cd_lock ?s = cd_lock s" by (simp_all add: dropFile_def)
  have "recordNames ?s \<subseteq> recordNames s" by (auto simp: recordNames_def disk split: if_splits)
  then have "card (recordNames ?s) \<le> execSessionCapacity"
    using coordOkD(3) [OF ok] card_mono [OF recordNames_finite [OF ok]] order_trans by blast
  then have d: "coordDisk ?s" using coordOkD(1,2) [OF ok] by (auto simp: coordDisk_def disk split: if_splits)
  have "launches ?s sid \<le> removals ?s sid + (if cd_disk ?s (recordPath sid) = None then 0 else 1)" for sid
    using coordOkD(4) [OF ok, of sid] by (auto simp: counts log disk count_list_append split: if_splits)
  moreover have "dispatches ?s sid + card (waitingThreads ?s sid) \<le> launches ?s sid" for sid
    using coordOkD(6) [OF ok, of sid] by (simp add: counts log count_list_append waitingThreads_def frame)
  moreover have "\<forall>i t. cd_threads ?s i = Some t \<longrightarrow> threadOk ?s i t" "\<forall>i. cd_lock ?s = Some (HeldByExec i) \<longrightarrow> cd_threads ?s i \<noteq> None"
    using coordOkD(7,8) [OF ok] by (simp_all add: frame threadOk_def)
  ultimately have "coordOk ?s" using d coordOkD(5) [OF ok] unfolding coordOk_def by (simp add: frame)
  moreover have "evolves s ?s"
    by (auto simp: evolves_def log removals_def count_list_append recordAt_disk disk split: if_splits)
  ultimately show ?thesis ..
qed

lemma launch_ok:
  assumes ok: "coordOk s" and al: "allowed s (CwLaunch req)" and new: "cd_threads s i = None"
  shows "coordOk (launch req i s) \<and> evolves s (launch req i s)"
proof
  let ?s = "launch req i s" and ?sid = "wq_SessionID req"
  have frame: "cd_disk ?s = cd_disk s" "cd_lock ?s = cd_lock s" "cd_log ?s = cd_log s @ [Launched ?sid]"
    "cd_threads ?s = (cd_threads s)(i \<mapsto> \<lparr>th_req = req, th_sent = False, th_prog = runExecSession req\<rparr>)"
    by (simp_all add: launch_def)
  have disk: "cd_disk s (recordPath ?sid) \<noteq> None" "launches s ?sid \<le> removals s ?sid"
    using al by (auto simp: recordAt_disk)
  have "launches ?s sid \<le> removals ?s sid + (if cd_disk ?s (recordPath sid) = None then 0 else 1)" for sid
    using coordOkD(4) [OF ok, of sid] disk by (auto simp: counts frame count_list_append)
  moreover have "dispatches ?s sid + card (waitingThreads ?s sid) \<le> launches ?s sid" for sid
  proof -
    have fin: "finite (waitingThreads s sid)"
      by (rule finite_subset [OF _ coordOkD(5) [OF ok]]) (auto simp: waitingThreads_def)
    have "waitingThreads ?s sid = (if sid = ?sid then insert i (waitingThreads s sid) else waitingThreads s sid)"
      using new by (auto simp: waitingThreads_def frame)
    moreover have "i \<notin> waitingThreads s sid" using new by (simp add: waitingThreads_def)
    ultimately show ?thesis using coordOkD(6) [OF ok, of sid] fin by (auto simp: counts frame count_list_append)
  qed
  moreover have "threadOk ?s j t" if "cd_threads ?s j = Some t" for j t
  proof (cases "j = i")
    case True
    then have t: "t = \<lparr>th_req = req, th_sent = False, th_prog = runExecSession req\<rparr>" using that by (simp add: frame)
    have "cd_lock s \<noteq> Some (HeldByExec i)" using coordOkD(8) [OF ok] new by blast
    then show ?thesis
      by (simp add: threadOk_def t True frame sendDiscipline_def runExecSession_once runExecSession_locked)
  next
    case False
    then show ?thesis using that coordOkD(7) [OF ok, of j t] by (simp add: frame threadOk_def)
  qed
  moreover have "\<forall>j. cd_lock ?s = Some (HeldByExec j) \<longrightarrow> cd_threads ?s j \<noteq> None"
    using coordOkD(8) [OF ok] by (simp add: frame)
  moreover have "recordNames ?s = recordNames s" by (simp add: recordNames_def frame)
  then have "coordDisk ?s" using coordOkD(1,2,3) [OF ok] by (auto simp: coordDisk_def frame)
  ultimately show "coordOk ?s" using coordOkD(5) [OF ok] unfolding coordOk_def by (simp add: frame)
  show "evolves s ?s" by (auto simp: evolves_def recordAt_def frame)
qed

lemma cwCall_ok:
  assumes "cwCall s q a s'" and "coordOk s" and "allowed s q"
  shows "coordOk s' \<and> evolves s s'"
  using assms
proof (cases rule: cwCall.cases)
  case (cancel sid)
  then show ?thesis using assms(2) by (simp add: coordOk_frame cancelActive_def split: option.split)
next
  case (drop sid)
  then show ?thesis using assms(2) by (simp add: coordOk_frame)
qed (use put_ok leave_ok drop_ok launch_ok assms in auto)

theorem section_ok:
  "criticalSection s p s' r \<Longrightarrow> coordOk s \<Longrightarrow> guarded Q p s \<Longrightarrow>
   coordOk s' \<and> evolves s s' \<and> (\<forall>x. r = Some x \<longrightarrow> Q x s')"
proof (induction rule: criticalSection.induct)
  case (called s q a s' k s'' r)
  then have one: "coordOk s'" "evolves s s'" using cwCall_ok [OF called(1)] by auto
  moreover have "guarded Q (k a) s'" using called one by auto
  ultimately show ?case using called.IH evolves_trans by blast
qed auto

section \<open>The calls in a section\<close>

named_theorems guardI \<open>introduction rules for critical sections\<close>

lemma readRecord_guarded [guardI]:
  assumes "\<And>e. Q (Inl e) s" and "cd_disk s (recordPath sid) = None \<Longrightarrow> Q (Inr None) s"
    and "\<And>r. recordAt s sid = Some r \<Longrightarrow> Q (Inr (Some r)) s"
  shows "guarded Q (readRecord sid) s"
  using assms by (auto simp: readRecord_def recordAt_disk split: option.split sum.split)

lemma readDir_guarded [guardI]:
  assumes "\<And>e. Q (Inl e) s" and "Q (Inr (listing (cd_disk s))) s"
  shows "guarded Q readDir s"
  using assms by (auto simp: readDir_def split: option.split)

lemma cwTime_guarded [guardI]: "(\<And>t. Q t s) \<Longrightarrow> guarded Q cwTime s"
  by (auto simp: cwTime_def)

lemma persistRecord_guarded [guardI]:
  assumes "replaces s r \<or> creates s r" and "\<And>e s'. coordOk s' \<Longrightarrow> Q (Inl e) s'"
    and "coordOk (putRecord r s) \<Longrightarrow> Q (Inr ()) (putRecord r s)"
  shows "guarded Q (persistRecord r) s"
  using assms by (auto simp: persistRecord_def split: option.split)

lemma removeRecord_guarded [guardI]:
  assumes "removable s n" and "\<And>x. Q x s" and "\<And>x. coordOk (dropFile n s) \<Longrightarrow> Q x (dropFile n s)"
  shows "guarded Q (removeRecord n) s"
  using assms by (auto simp: removeRecord_def split: option.split)

lemma recordAt_name:
  assumes "coordOk s" and "recordAt s sid = Some r"
  shows "xs_SessionID r = sid"
  using coordOkD(2) [OF assms(1), of "recordPath sid" r] assms(2) by (simp add: recordAt_disk)

lemma recordAt_put [simp]:
  "recordAt (putRecord r s) sid = (if sid = xs_SessionID r then Some r else recordAt s sid)"
  by (simp add: recordAt_def putRecord_def)

subsection \<open>The sweep\<close>

primrec sweepable :: "coord \<Rightarrow> (string \<times> int) list \<Rightarrow> bool" where
  "sweepable s [] \<longleftrightarrow> True"
| "sweepable s (t # ts) \<longleftrightarrow> removable s (fst t) \<and> sweepable s ts"

lemma collectTerminal_guarded:
  assumes ok: "coordOk s" and Q: "\<And>e. Q (Inl e) s" "\<And>ts. sweepable s ts \<Longrightarrow> Q (Inr ts) s"
  shows "guarded Q (collectTerminal es) s"
  using Q
proof (induction es arbitrary: Q)
  case (Cons e es)
  have *: "removable s (recordPath (xs_SessionID r))"
    if "recordAt s (sessionOf (fst e)) = Some r" "workerTerminal (wr_State (xs_Result r))" for r
    using that recordAt_name [OF ok that(1)] by (auto simp: removable_def recordAt_disk terminalRecord_def)
  show ?case
    using Cons.prems * by (cases e) (auto simp: guarded_bindE intro!: Cons.IH readRecord_guarded)
qed auto

lemma removable_drop: "removable s n \<Longrightarrow> removable (dropFile m s) n"
  by (auto simp: removable_def dropFile_def)

lemma sweepable_drop: "sweepable s ts \<Longrightarrow> sweepable (dropFile m s) ts"
  by (induction ts) (auto simp: removable_drop)

lemma sweepable_sort [simp]: "sweepable s (sort_key k ts) \<longleftrightarrow> sweepable s ts"
proof -
  have "sweepable s us \<longleftrightarrow> (\<forall>t \<in> set us. removable s (fst t))" for us by (induction us) auto
  then show ?thesis by simp
qed

text \<open>Nothing but finished records goes.\<close>

definition swept :: "coord \<Rightarrow> coord \<Rightarrow> bool" where
  "swept s s' \<longleftrightarrow> (\<forall>sid r. recordAt s' sid = Some r \<longrightarrow> recordAt s sid = Some r)
     \<and> (\<forall>sid r. recordAt s sid = Some r \<longrightarrow> \<not> terminalRecord r \<longrightarrow> recordAt s' sid = Some r)"

lemma swept_refl [simp]: "swept s s"
  by (simp add: swept_def)

lemma swept_trans: "swept s s' \<Longrightarrow> swept s' s'' \<Longrightarrow> swept s s''"
  unfolding swept_def by blast

lemma swept_drop: "removable s n \<Longrightarrow> swept s (dropFile n s)"
  by (auto simp: swept_def removable_def dropFile_def recordAt_disk split: if_splits)

lemma sweepTerminal_guarded:
  assumes "coordOk s" and "sweepable s ts" and "\<And>x s'. coordOk s' \<Longrightarrow> swept s s' \<Longrightarrow> Q x s'"
  shows "guarded Q (sweepTerminal t left ts) s"
  using assms
proof (induction t left ts arbitrary: s rule: sweepTerminal.induct)
  case (2 t left f at ts)
  have al: "removable s f" and rest: "sweepable s ts" using 2(3) by auto
  have down: "swept s s'" if "swept (dropFile f s) s'" for s' using that swept_drop [OF al] swept_trans by blast
  have keep: "guarded Q (sweepTerminal t (left - 1) ts) s" by (rule 2(1)) (use 2 rest in auto)
  have gone: "guarded Q (sweepTerminal t (left - 1) ts) (dropFile f s)" if "coordOk (dropFile f s)"
    by (rule 2(1)) (use that rest 2(4) down sweepable_drop in auto)
  have err: "Q (Inl e) s'" if "s' = s \<or> s' = dropFile f s" "coordOk s'" for e s'
    using that 2(2,4) swept_drop [OF al] by auto
  have "guarded Q (bindE (removeRecord f) (\<lambda>_. sweepTerminal t (left - 1) ts)) s"
    unfolding guarded_bindE by (rule removeRecord_guarded [OF al]) (use keep gone err 2(2) in \<open>auto split: sum.split\<close>)
  then show ?case using keep by simp
qed auto

lemma gcLocked_guarded [guardI]:
  assumes ok: "coordOk s" and Q: "\<And>x s'. coordOk s' \<Longrightarrow> swept s s' \<Longrightarrow> Q x s'"
  shows "guarded Q (gcLocked t) s"
  using assms
  by (auto simp: gcLocked_def guarded_bindE intro!: readDir_guarded collectTerminal_guarded sweepTerminal_guarded)

subsection \<open>Counting and searching\<close>

lemma count_recordNames:
  assumes "coordOk s"
  shows "length (filter (\<lambda>(name, isDir). \<not> isDir \<and> isRecordName name) (listing (cd_disk s))) = card (recordNames s)"
proof -
  let ?ns = "sorted_list_of_set (dom (cd_disk s))"
  have "length (filter (\<lambda>(name, isDir). \<not> isDir \<and> isRecordName name) (listing (cd_disk s)))
      = length (filter (\<lambda>n. cd_disk s n \<noteq> Some SubDir \<and> isRecordName n) ?ns)"
    by (simp add: listing_def filter_map o_def)
  also have "\<dots> = card (set (filter (\<lambda>n. cd_disk s n \<noteq> Some SubDir \<and> isRecordName n) ?ns))"
    by (rule distinct_card [symmetric]) simp
  also have "set (filter (\<lambda>n. cd_disk s n \<noteq> Some SubDir \<and> isRecordName n) ?ns) = recordNames s"
    using coordOkD(1) [OF assms] by (auto simp: recordNames_def)
  finally show ?thesis .
qed

lemma recordCount_guarded [guardI]:
  assumes "coordOk s" and "\<And>e. Q (Inl e) s" and "Q (Inr (card (recordNames s))) s"
  shows "guarded Q recordCount s"
  using assms by (auto simp: recordCount_def guarded_bindE count_recordNames intro!: readDir_guarded)

lemma scanForRequest_guarded:
  assumes "\<And>e. Q (Inl e) s" and "Q (Inr None) s"
    and "\<And>sid r. recordAt s sid = Some r \<Longrightarrow> xs_CallerKey r = caller \<Longrightarrow> xs_RequestID r = request \<Longrightarrow> Q (Inr (Some r)) s"
  shows "guarded Q (scanForRequest caller request es) s"
  using assms
  by (induction caller request es rule: scanForRequest.induct) (auto simp: guarded_bindE intro!: readRecord_guarded)

lemma findByRequest_guarded [guardI]:
  assumes "\<And>e. Q (Inl e) s" and "Q (Inr None) s"
    and "\<And>sid r. recordAt s sid = Some r \<Longrightarrow> xs_CallerKey r = caller \<Longrightarrow> xs_RequestID r = request \<Longrightarrow> Q (Inr (Some r)) s"
  shows "guarded Q (findByRequest caller request) s"
  using assms by (auto simp: findByRequest_def guarded_bindE intro!: readDir_guarded scanForRequest_guarded)

section \<open>The operations\<close>

text \<open>A result is one of the caller's own records, and of the request it names.\<close>

definition ownResult :: "workerExecRequest \<Rightarrow> coord \<Rightarrow> workerExecResult \<Rightarrow> bool" where
  "ownResult req s result \<longleftrightarrow> (\<exists>sid r. recordAt s sid = Some r \<and> xs_Result r = result \<and> xs_CallerKey r = wq_CallerKey req
     \<and> (wq_RequestID req \<noteq> [] \<longrightarrow> xs_RequestID r = wq_RequestID req))"

abbreviation answersOwn :: "workerExecRequest \<Rightarrow> workerErr + workerExecResult \<Rightarrow> coord \<Rightarrow> bool" where
  "answersOwn req x s \<equiv> (\<forall>result. x = Inr result \<longrightarrow> ownResult req s result)"

lemma ownResultI:
  "recordAt s sid = Some r \<Longrightarrow> xs_CallerKey r = wq_CallerKey req \<Longrightarrow> (wq_RequestID req \<noteq> [] \<Longrightarrow> xs_RequestID r = wq_RequestID req) \<Longrightarrow>
   ownResult req s (xs_Result r)"
  unfolding ownResult_def by blast

lemma httpFail_guarded [simp]: "guarded Q (httpFail status message) s \<longleftrightarrow> Q (Inl (WorkerHTTP status message)) s"
  by (simp add: httpFail_def)

lemma queuedRecord_simps [simp]:
  "xs_SessionID (queuedRecord req t) = wq_SessionID req" "xs_CallerKey (queuedRecord req t) = wq_CallerKey req"
  "xs_RequestID (queuedRecord req t) = wq_RequestID req"
  by (simp_all add: queuedRecord_def)

lemma recordAt_launch [simp]: "recordAt (launch req i s) = recordAt s"
  by (rule ext) (simp add: recordAt_def launch_def)

lemma createSession_guarded:
  assumes ok: "coordOk s" and new: "cd_disk s (recordPath (wq_SessionID req)) = None"
  shows "guarded (answersOwn req) (createSession req) s"
proof -
  have fresh: "launches s (wq_SessionID req) \<le> removals s (wq_SessionID req)"
    using coordOkD(4) [OF ok, of "wq_SessionID req"] new by simp
  have own: "ownResult req s' (xs_Result (queuedRecord req t))" if "recordAt s' (wq_SessionID req) = Some (queuedRecord req t)" for s' t
    using that by (rule ownResultI) auto
  show ?thesis unfolding createSession_def guarded_bindE
  proof (rule recordCount_guarded [OF ok])
    show "case Inr (card (recordNames s)) of Inl e \<Rightarrow> answersOwn req (Inl e) s
      | Inr count \<Rightarrow> guarded (answersOwn req) (if execSessionCapacity \<le> count
          then httpFail 503 ''exec coordinator session capacity is exhausted''
          else bind cwTime (\<lambda>t. let r = queuedRecord req t in
            bindE (persistRecord r) (\<lambda>_. bind (cwDo (CwLaunch req)) (\<lambda>_. Ret (Inr (xs_Result r)))))) s"
      using new fresh own
      by (auto simp: guarded_bind guarded_bindE Let_def creates_def cwDo_def counts
          intro!: cwTime_guarded persistRecord_guarded)
  qed simp
qed

lemma startExec_guarded:
  assumes ok: "coordOk s"
  shows "guarded (answersOwn req) (startExec req) s"
  using ok
  by (auto simp: startExec_def guarded_bind guarded_bindE
      intro!: cwTime_guarded gcLocked_guarded findByRequest_guarded readRecord_guarded createSession_guarded ownResultI
      split: sum.split)

lemma boundRecord_guarded [guardI]:
  assumes "\<And>e. Q (Inl e) s"
    and "\<And>r. recordAt s (wq_SessionID req) = Some r \<Longrightarrow> xs_CallerKey r = wq_CallerKey req \<Longrightarrow>
          (wq_RequestID req \<noteq> [] \<Longrightarrow> xs_RequestID r = wq_RequestID req) \<Longrightarrow> Q (Inr r) s"
  shows "guarded Q (boundRecord req) s"
  using assms by (auto simp: boundRecord_def guarded_bindE intro!: readRecord_guarded)

lemma pollExec_guarded: "guarded (answersOwn req) (pollExec req) s"
  by (auto simp: pollExec_def guarded_bindE intro!: boundRecord_guarded ownResultI)

lemma withState_simps [simp]:
  "xs_SessionID (withState st t r) = xs_SessionID r" "xs_CallerKey (withState st t r) = xs_CallerKey r"
  "xs_RequestID (withState st t r) = xs_RequestID r" "sameIdentity r (withState st t r)"
  by (simp_all add: withState_def sameIdentity_def)

lemma recordAt_cancelActive [simp]: "recordAt (cancelActive sid s) = recordAt s"
  by (rule ext) (simp add: recordAt_def cancelActive_def split: option.split)

lemma cancelExec_guarded:
  assumes ok: "coordOk s"
  shows "guarded (answersOwn req) (cancelExec req) s"
  using recordAt_name [OF ok]
  by (auto simp: cancelExec_def guarded_bind guarded_bindE cwDo_def Let_def replaces_def terminalRecord_def
      intro!: boundRecord_guarded ownResultI [where sid = "wq_SessionID req"] cwTime_guarded persistRecord_guarded)

lemma execAction_guarded: "coordOk s \<Longrightarrow> guarded (answersOwn req) (execAction req) s"
  by (simp add: execAction_def startExec_guarded pollExec_guarded cancelExec_guarded)

lemma setRunning_guarded: "coordOk s \<Longrightarrow> guarded (\<lambda>_ _. True) (setRunning sid) s"
  using recordAt_name [of s sid]
  by (auto simp: setRunning_def guarded_bind guarded_rules replaces_def terminalRecord_def
      intro!: readRecord_guarded cwTime_guarded persistRecord_guarded split: sum.split option.split)

lemma finishExec_guarded: "coordOk s \<Longrightarrow> guarded (\<lambda>_ _. True) (finishSession sid result err) s"
  using recordAt_name [of s sid]
  by (auto simp: finishSession_def guarded_bind cwDo_def replaces_def terminalRecord_def finishedRecord_def sameIdentity_def Let_def
      intro!: readRecord_guarded cwTime_guarded persistRecord_guarded split: sum.split option.split)

subsection \<open>Recovery\<close>

definition allClosed :: "coord \<Rightarrow> bool" where
  "allClosed s \<longleftrightarrow> (\<forall>sid r. recordAt s sid = Some r \<longrightarrow> terminalRecord r)"

definition openAmong :: "(string \<times> bool) list \<Rightarrow> coord \<Rightarrow> bool" where
  "openAmong es s \<longleftrightarrow> (\<forall>sid r. recordAt s sid = Some r \<longrightarrow> \<not> terminalRecord r \<longrightarrow> (recordPath sid, False) \<in> set es)"

lemma interruptedRecord_simps [simp]:
  "xs_SessionID (interruptedRecord t r) = xs_SessionID r" "sameIdentity r (interruptedRecord t r)"
  "terminalRecord (interruptedRecord t r)"
  by (simp_all add: interruptedRecord_def sameIdentity_def terminalRecord_def workerTerminal_def)

lemma openAmong_listing: "coordOk s \<Longrightarrow> openAmong (listing (cd_disk s)) s"
  by (auto simp: openAmong_def recordAt_disk listing_def coordOkD(1) image_iff)

lemma openAmong_skip:
  "openAmong ((n, d) # es) s \<Longrightarrow> d \<or> \<not> isRecordName n \<or> cd_disk s n = None \<or>
     (\<exists>r. recordAt s (sessionOf n) = Some r \<and> terminalRecord r) \<Longrightarrow> openAmong es s"
  by (fastforce simp: openAmong_def recordAt_disk)

lemma openAmong_close:
  assumes "openAmong ((n, d) # es) s" and "recordAt s (sessionOf n) = Some r" and "coordOk s" and "isRecordName n"
  shows "openAmong es (putRecord (interruptedRecord t r) s)"
  using assms(1) recordAt_name [OF assms(3,2)] assms(4) unfolding openAmong_def
  by (auto split: if_splits) (metis sessionOf_recordPath)

lemma recoverEntries_guarded:
  assumes "coordOk s" and "openAmong es s" and "\<And>e s'. coordOk s' \<Longrightarrow> Q (Inl e) s'"
    and "\<And>s'. coordOk s' \<Longrightarrow> allClosed s' \<Longrightarrow> Q (Inr ()) s'"
  shows "guarded Q (recoverEntries es) s"
  using assms
proof (induction es arbitrary: s)
  case Nil
  then show ?case by (auto simp: openAmong_def allClosed_def)
next
  case (Cons e es)
  obtain n d where e: "e = (n, d)" by force
  show ?case
  proof (cases "d \<or> \<not> isRecordName n")
    case True
    then have "openAmong es s" using Cons.prems(2) openAmong_skip [of n d es s] by (auto simp: e)
    then have "guarded Q (recoverEntries es) s" using Cons by blast
    then show ?thesis using True by (auto simp: e)
  next
    case False
    have rep: "replaces s (interruptedRecord t r)" if "recordAt s (sessionOf n) = Some r" "\<not> terminalRecord r" for t r
      using that recordAt_name [OF Cons.prems(1) that(1)] by (auto simp: replaces_def)
    have next1: "guarded Q (recoverEntries es) (putRecord (interruptedRecord t r) s)"
      if "recordAt s (sessionOf n) = Some r" "coordOk (putRecord (interruptedRecord t r) s)" for t r
      by (rule Cons.IH) (use that False Cons.prems openAmong_close [of n d es s r t] e in auto)
    have next2: "guarded Q (recoverEntries es) s" if "cd_disk s n = None \<or> (\<exists>r. recordAt s (sessionOf n) = Some r \<and> terminalRecord r)"
      by (rule Cons.IH) (use that Cons.prems openAmong_skip [of n d es s] e in auto)
    define K where "K = (\<lambda>found. case found of
          Some r \<Rightarrow> if \<not> workerTerminal (wr_State (xs_Result r))
            then bind cwTime (\<lambda>t. bindE (persistRecord (interruptedRecord t r)) (\<lambda>_. recoverEntries es)) else recoverEntries es
        | None \<Rightarrow> recoverEntries es)"
    have "guarded Q (K None) s" if "cd_disk s (recordPath (sessionOf n)) = None"
      using that False next2 by (simp add: K_def)
    moreover have "guarded Q (K (Some r)) s" if r: "recordAt s (sessionOf n) = Some r" for r
    proof (cases "terminalRecord r")
      case True
      then show ?thesis using r next2 by (simp add: K_def terminalRecord_def)
    next
      case unfinished: False
      have "guarded Q (bindE (persistRecord (interruptedRecord t r)) (\<lambda>_. recoverEntries es)) s" for t
        unfolding guarded_bindE
        by (rule persistRecord_guarded) (use rep [OF r unfinished] next1 [OF r] Cons.prems(3) in auto)
      then show ?thesis using unfinished by (simp add: K_def terminalRecord_def guarded_bind cwTime_guarded)
    qed
    ultimately have "guarded Q (bindE (readRecord (sessionOf n)) K) s"
      unfolding guarded_bindE by (intro readRecord_guarded) (use Cons.prems(1,3) in auto)
    then show ?thesis using False by (simp add: e K_def)
  qed
qed

lemma swept_closed: "swept s s' \<Longrightarrow> allClosed s \<Longrightarrow> allClosed s'"
  unfolding swept_def allClosed_def by blast

lemma recoverSessions_guarded:
  assumes ok: "coordOk s"
  shows "guarded (\<lambda>x s'. x = Inr () \<longrightarrow> allClosed s') recoverSessions s"
proof -
  let ?Q = "\<lambda>x s'. x = Inr () \<longrightarrow> allClosed s'"
  have gc: "guarded ?Q (bind cwTime gcLocked) s'" if "coordOk s'" "allClosed s'" for s'
    unfolding guarded_bind
    by (rule cwTime_guarded, rule gcLocked_guarded [OF that(1)]) (use that swept_closed in blast)
  have "guarded ?Q (bindE (recoverEntries (listing (cd_disk s))) (\<lambda>_. bind cwTime gcLocked)) s"
    unfolding guarded_bindE
    by (rule recoverEntries_guarded [OF ok openAmong_listing [OF ok]]) (use gc in auto)
  then show ?thesis unfolding recoverSessions_def guarded_bindE [of _ readDir] by (intro readDir_guarded) auto
qed

section \<open>Steps of the system\<close>

lemma cwCall_frame:
  "cwCall s q a s' \<Longrightarrow> cd_lock s' = cd_lock s \<and> cd_threads s \<subseteq>\<^sub>m cd_threads s'"
  by (induction rule: cwCall.induct)
    (simp_all add: putRecord_def dropFile_def launch_def cancelActive_def map_le_def dom_def split: option.split)

lemma section_frame:
  "criticalSection s p s' r \<Longrightarrow> cd_lock s' = cd_lock s \<and> cd_threads s \<subseteq>\<^sub>m cd_threads s'"
proof (induction rule: criticalSection.induct)
  case (called s q a s' k s'' r)
  then show ?case using cwCall_frame [OF called(1)] map_le_trans by metis
qed simp_all

lemma halt_ok: "coordOk s \<Longrightarrow> coordOk (halt s) \<and> evolves s (halt s)"
proof
  assume ok: "coordOk s"
  have "recordNames (halt s) = recordNames s" by (simp add: recordNames_def halt_def)
  then have "coordDisk (halt s)" using coordOkD(1,2,3) [OF ok] by (auto simp: coordDisk_def halt_def)
  moreover have "launches (halt s) sid \<le> removals (halt s) sid + (if cd_disk (halt s) (recordPath sid) = None then 0 else 1)" for sid
    using coordOkD(4) [OF ok, of sid] by (simp add: counts halt_def)
  moreover have "dispatches (halt s) sid + card (waitingThreads (halt s) sid) \<le> launches (halt s) sid" for sid
    using coordOkD(6) [OF ok, of sid] by (simp add: counts halt_def waitingThreads_def)
  ultimately show "coordOk (halt s)" unfolding coordOk_def by (simp add: halt_def)
  show "evolves s (halt s)" by (auto simp: evolves_def halt_def recordAt_def)
qed

text \<open>A goroutine moves: its program, the lock, and the log when it sends its command.\<close>

definition moved :: "nat \<Rightarrow> execThread \<Rightarrow> lockHolder option \<Rightarrow> coordEvent list \<Rightarrow> coord \<Rightarrow> coord" where
  "moved i t l es s = s\<lparr>cd_threads := (cd_threads s)(i \<mapsto> t), cd_lock := l, cd_log := cd_log s @ es\<rparr>"

lemma moved_ok:
  assumes ok: "coordOk s" and old: "cd_threads s i = Some t0" and req: "th_req t = th_req t0"
    and sent: "es = [] \<and> th_sent t = th_sent t0 \<or> es = [Dispatched (wq_SessionID (th_req t0))] \<and> \<not> th_sent t0 \<and> th_sent t"
    and disc: "sendDiscipline t" and here: "locked (l = Some (HeldByExec i)) (th_prog t)"
    and others: "\<And>j. j \<noteq> i \<Longrightarrow> l = Some (HeldByExec j) \<longleftrightarrow> cd_lock s = Some (HeldByExec j)"
  shows "coordOk (moved i t l es s) \<and> evolves s (moved i t l es s)"
proof
  let ?s = "moved i t l es s"
  have frame: "cd_disk ?s = cd_disk s" "cd_log ?s = cd_log s @ es" "cd_lock ?s = l" "cd_threads ?s = (cd_threads s)(i \<mapsto> t)"
    by (simp_all add: moved_def)
  have "recordNames ?s = recordNames s" by (simp add: recordNames_def frame)
  then have "coordDisk ?s" using coordOkD(1,2,3) [OF ok] by (auto simp: coordDisk_def frame)
  moreover have "launches ?s sid \<le> removals ?s sid + (if cd_disk ?s (recordPath sid) = None then 0 else 1)" for sid
    using coordOkD(4) [OF ok, of sid] sent by (auto simp: counts frame count_list_append)
  moreover have "dispatches ?s sid + card (waitingThreads ?s sid) \<le> launches ?s sid" for sid
  proof (cases "es = [] \<or> sid \<noteq> wq_SessionID (th_req t0)")
    case True
    then have "waitingThreads ?s sid = waitingThreads s sid"
      using sent old req unfolding waitingThreads_def frame by auto
    then show ?thesis using coordOkD(6) [OF ok, of sid] sent True by (auto simp: counts frame count_list_append)
  next
    case False
    then have w: "waitingThreads ?s sid = waitingThreads s sid - {i}" "i \<in> waitingThreads s sid"
      using sent old req unfolding waitingThreads_def frame by auto
    have "finite (waitingThreads s sid)"
      by (rule finite_subset [OF _ coordOkD(5) [OF ok]]) (auto simp: waitingThreads_def)
    then have "card (waitingThreads s sid) = Suc (card (waitingThreads ?s sid))"
      using w by (metis card_Suc_Diff1)
    moreover have "dispatches ?s sid = Suc (dispatches s sid)" "launches ?s sid = launches s sid"
      unfolding counts frame using sent False by (auto simp: count_list_append)
    ultimately show ?thesis using coordOkD(6) [OF ok, of sid] by simp
  qed
  moreover have "threadOk ?s j u" if "cd_threads ?s j = Some u" for j u
  proof (cases "j = i")
    case True
    then show ?thesis using that disc here unfolding threadOk_def frame by simp
  next
    case False
    then show ?thesis using that coordOkD(7) [OF ok, of j u] others [OF False] unfolding threadOk_def frame by simp
  qed
  moreover have "cd_threads ?s j \<noteq> None" if "cd_lock ?s = Some (HeldByExec j)" for j
    using that coordOkD(8) [OF ok, of j] others [of j] unfolding frame by auto
  ultimately show "coordOk ?s" using coordOkD(5) [OF ok] unfolding coordOk_def by (simp add: frame)
  show "evolves s ?s" by (auto simp: evolves_def recordAt_def frame removals_def count_list_append)
qed

lemma setProg_moved: "cd_threads s i = Some t \<Longrightarrow> setProg i p s = moved i (t\<lparr>th_prog := p\<rparr>) (cd_lock s) [] s"
  by (simp add: setProg_def moved_def)

lemma threadOk_step:
  assumes "coordOk s" and "cd_threads s i = Some t" and "th_prog t = Ask q k"
  shows "locked (q \<noteq> RnUnlock) (k a)" "cd_lock s = Some (HeldByExec i) \<longleftrightarrow> q \<noteq> RnLock"
    "\<forall>req. q \<noteq> RnDispatch req \<Longrightarrow> sendDiscipline (t\<lparr>th_prog := k a\<rparr>)"
    "q = RnDispatch req \<Longrightarrow> \<not> th_sent t \<and> neverSends (k a)"
  using coordOkD(7) [OF assms(1,2)] assms(3)
  by (auto simp: threadOk_def sendDiscipline_def split: if_splits)

lemma thread_after_section:
  assumes ok: "coordOk s" and t: "cd_threads s i = Some t" and p: "th_prog t = Ask q k"
    and sec: "criticalSection s c s' r" "guarded (\<lambda>_ _. True) c s"
    and q: "q \<noteq> RnLock" "q \<noteq> RnUnlock" "\<forall>req. q \<noteq> RnDispatch req"
  shows "coordOk (setProg i (k a) s') \<and> evolves s (setProg i (k a) s')"
proof -
  have s': "coordOk s'" "evolves s s'" using section_ok [OF sec(1) ok sec(2)] by auto
  have fr: "cd_lock s' = cd_lock s" "cd_threads s' i = Some t" using section_frame [OF sec(1)] t by (auto simp: map_le_def) (metis domI)
  have "locked True (k a)" "cd_lock s = Some (HeldByExec i)" "sendDiscipline (t\<lparr>th_prog := k a\<rparr>)"
    using threadOk_step [OF ok t p] q by auto
  then have "coordOk (setProg i (k a) s') \<and> evolves s' (setProg i (k a) s')"
    unfolding setProg_moved [OF fr(2)] by (intro moved_ok [OF s'(1) fr(2)]) (auto simp: fr)
  then show ?thesis using s'(2) evolves_trans by blast
qed

lemma drop_guarded: "guarded (\<lambda>_ _. True) (cwDo (CwDropActive sid)) s"
  by (simp add: cwDo_def)

lemma thread_ok:
  assumes ok: "coordOk s" and t: "cd_threads s i = Some t" and p: "th_prog t = Ask q k" and call: "rnCall i s q a s'"
  shows "coordOk (setProg i (k a) s') \<and> evolves s (setProg i (k a) s')"
proof -
  note T = threadOk_step [OF ok t p]
  have still: "coordOk (setProg i (k a) (s\<lparr>cd_lock := l\<rparr>)) \<and> evolves s (setProg i (k a) (s\<lparr>cd_lock := l\<rparr>))"
    if "locked (l = Some (HeldByExec i)) (k a)" "\<forall>req. q \<noteq> RnDispatch req"
      "\<And>j. j \<noteq> i \<Longrightarrow> l = Some (HeldByExec j) \<longleftrightarrow> cd_lock s = Some (HeldByExec j)" for l
  proof -
    have "setProg i (k a) (s\<lparr>cd_lock := l\<rparr>) = moved i (t\<lparr>th_prog := k a\<rparr>) l [] s"
      using t by (simp add: setProg_def moved_def)
    moreover have "coordOk (moved i (t\<lparr>th_prog := k a\<rparr>) l [] s) \<and> evolves s (moved i (t\<lparr>th_prog := k a\<rparr>) l [] s)"
      by (rule moved_ok [OF ok t]) (use T(3) that in auto)
    ultimately show ?thesis by simp
  qed
  have same: "s\<lparr>cd_lock := cd_lock s\<rparr> = s" by simp
  show ?thesis using call
  proof (cases rule: rnCall.cases)
    case lock
    then show ?thesis using still [of "Some (HeldByExec i)"] T(1) by simp
  next
    case unlock
    then show ?thesis using still [of None] T(1,2) by simp
  next
    case ctx
    then show ?thesis using still [of "cd_lock s"] T(1,2) same by simp
  next
    case (set_running sid)
    then show ?thesis using thread_after_section [OF ok t p _ setRunning_guarded [OF ok]] by blast
  next
    case (clear sid)
    then show ?thesis using thread_after_section [OF ok t p _ drop_guarded] by blast
  next
    case (send req)
    have "setProg i (k a) s' = moved i (t\<lparr>th_sent := True, th_prog := k a\<rparr>) (cd_lock s) [Dispatched (wq_SessionID (th_req t))] s"
      using send t by (simp add: setProg_def moved_def dispatch_def)
    moreover have "coordOk \<dots> \<and> evolves s \<dots>"
      by (rule moved_ok [OF ok t]) (use T(1,2,4) send in \<open>auto simp: sendDiscipline_def\<close>)
    ultimately show ?thesis by simp
  next
    case await
    then show ?thesis using still [of "cd_lock s"] T(1,2) same by simp
  next
    case (finish sid result err)
    then show ?thesis using thread_after_section [OF ok t p _ finishExec_guarded [OF ok]] by blast
  qed
qed

lemma serve_guarded:
  assumes ok: "coordOk s"
  shows "guarded (\<lambda>reply s'. \<forall>result. reply = AgJSON 200 result \<longrightarrow>
      (given = token \<and> (\<exists>req. body = BodyValue req \<and> ownResult req s' result)))
    (serveCoordinator token path verb given body) s"
proof (cases "path = ''/exec'' \<and> verb = ''POST'' \<and> given = token")
  case True
  have "guarded (\<lambda>x s'. \<forall>result. workerReply x = AgJSON 200 result \<longrightarrow> ownResult req s' result) (execAction req) s" for req
    by (rule guarded_mono [OF execAction_guarded [OF ok]]) (auto simp: workerReply_def split: sum.splits workerErr.splits)
  then show ?thesis using True
    by (auto simp: serveCoordinator_def guarded_bind guarded_Ret split: jsonBody.split sum.split)
qed (auto simp: serveCoordinator_def)

lemma coordOk_lock:
  assumes ok: "coordOk s" and l: "\<And>i. l = Some (HeldByExec i) \<longleftrightarrow> cd_lock s = Some (HeldByExec i)"
  shows "coordOk (s\<lparr>cd_lock := l\<rparr>) \<and> evolves s (s\<lparr>cd_lock := l\<rparr>)"
proof
  have "coordDisk (s\<lparr>cd_lock := l\<rparr>)" using coordOkD(1,2,3) [OF ok] by (simp add: coordDisk_def recordNames_def)
  then show "coordOk (s\<lparr>cd_lock := l\<rparr>)"
    using ok l unfolding coordOk_def by (simp add: counts waitingThreads_def threadOk_def)
  show "evolves s (s\<lparr>cd_lock := l\<rparr>)" by (auto simp: evolves_def recordAt_def)
qed

lemma coordOk_up: "coordOk s \<Longrightarrow> coordOk (s\<lparr>cd_up := b\<rparr>) \<and> evolves s (s\<lparr>cd_up := b\<rparr>)"
  by (rule coordOk_frame) auto

lemma rnStops_ok: "coordOk s \<Longrightarrow> rnStops s q s' \<Longrightarrow> coordOk s' \<and> evolves s s'"
  using section_ok [OF _ _ setRunning_guarded] section_ok [OF _ _ finishExec_guarded]
  by (cases "(s, q, s')" rule: rnStops.cases) auto

lemma chain: "coordOk s' \<and> evolves s s' \<Longrightarrow> (coordOk s' \<Longrightarrow> coordOk s'' \<and> evolves s' s'') \<Longrightarrow> coordOk s'' \<and> evolves s s''"
  using evolves_trans by blast

lemma step_ok:
  assumes "coordStep s s'" and ok: "coordOk s"
  shows "coordOk s' \<and> evolves s s'"
  using assms(1)
proof (cases rule: coordStep.cases)
  case (boot s1)
  have "coordOk s1 \<and> evolves s s1" using section_ok [OF boot(3) ok recoverSessions_guarded [OF ok]] by blast
  then show ?thesis unfolding boot(1) by (rule chain) (rule coordOk_up)
next
  case (boot_fails s1 r)
  have "coordOk s1 \<and> evolves s s1" using section_ok [OF boot_fails(3) ok recoverSessions_guarded [OF ok]] by blast
  then show ?thesis unfolding boot_fails(1) by (rule chain) (rule halt_ok)
next
  case (request token path verb given body reply)
  then show ?thesis using section_ok [OF request(2) ok serve_guarded [OF ok]] by blast
next
  case (request_stops token path verb given body s1)
  have "coordOk s1 \<and> evolves s s1" using section_ok [OF request_stops(3) ok serve_guarded [OF ok]] by blast
  then show ?thesis unfolding request_stops(1) by (rule chain) (rule halt_ok)
next
  case (thread i t q k a s1)
  then show ?thesis using thread_ok [OF ok] by blast
next
  case (thread_stops i t q k s1)
  then have "coordOk s1 \<and> evolves s s1" using rnStops_ok [OF ok] by blast
  then show ?thesis unfolding thread_stops(1) by (rule chain) (rule halt_ok)
next
  case sync_locks
  then show ?thesis using coordOk_lock [OF ok, of "Some HeldBySync"] by simp
next
  case sync_unlocks
  then show ?thesis using coordOk_lock [OF ok, of None] by simp
next
  case stops
  then show ?thesis using halt_ok [OF ok] by simp
qed

lemma init_ok: "coordInit s \<Longrightarrow> coordOk s"
proof -
  assume i: "coordInit s"
  then have h: "cd_threads s = Map.empty" "cd_lock s = None" "cd_log s = []" "coordDisk s"
    unfolding coordInit_def halt_def by (auto dest: arg_cong [where f = cd_threads] arg_cong [where f = cd_lock])
  then show ?thesis by (simp add: coordOk_def counts waitingThreads_def)
qed

lemma reach_ok: "coordReach s \<Longrightarrow> coordOk s"
  by (induction rule: coordReach.induct) (auto simp: init_ok dest: step_ok)

lemma steps_ok: "coordStep\<^sup>*\<^sup>* s s' \<Longrightarrow> coordOk s \<Longrightarrow> coordOk s' \<and> evolves s s'"
proof (induction rule: rtranclp_induct)
  case (step y z)
  then show ?case using step_ok evolves_trans by blast
qed simp

end
