(* ===== verification/Agent_Session_Safety.thy ===== *)
theory Agent_Session_Safety
  imports Agent_Session_Contract
begin

text \<open>
  The theorems on the running coordinator, and executions that show what they speak of: a command that is sent, a session closed by a restart, a
  session that no goroutine will ever run.
\<close>

section \<open>Executions\<close>

lemma sec_bind:
  "criticalSection s p s' (Some x) \<Longrightarrow> criticalSection s' (f x) s'' r \<Longrightarrow> criticalSection s (bind p f) s'' r"
proof (induction s p s' "Some x" rule: criticalSection.induct)
  case (called s q a s1 k s2)
  then show ?case using criticalSection.called [OF called(1)] by simp
qed simp

lemma sec_bindE:
  "criticalSection s p s' (Some (Inr x)) \<Longrightarrow> criticalSection s' (f x) s'' r \<Longrightarrow> criticalSection s (bindE p f) s'' r"
  unfolding bindE_def by (rule sec_bind) auto

lemma sec_bindE_err:
  "criticalSection s p s' (Some (Inl e)) \<Longrightarrow> criticalSection s (bindE p f) s' (Some (Inl e))"
  unfolding bindE_def by (rule sec_bind) (auto intro: criticalSection.finished)

lemma sec_Ret [intro]: "x = y \<Longrightarrow> criticalSection s (Ret x) s (Some y)"
  by (simp add: criticalSection.finished)

definition quiet :: cwAnswer where
  "quiet = \<lparr>cw_err = None, cw_entries = [], cw_record = Inl errNotExist, cw_now = 0\<rparr>"

lemma quiet_simps [simp]: "cw_err quiet = None" "cw_now quiet = 0"
  by (simp_all add: quiet_def)

lemma sec_readDir: "criticalSection s readDir s (Some (Inr (listing (cd_disk s))))"
proof -
  have "cwCall s CwReadDir (quiet\<lparr>cw_entries := listing (cd_disk s)\<rparr>) s" by (rule cwCall.list) simp_all
  then show ?thesis unfolding readDir_def by (rule criticalSection.called) auto
qed

lemma sec_absent:
  assumes "cd_disk s (recordPath sid) = None"
  shows "criticalSection s (readRecord sid) s (Some (Inr None))"
proof -
  have "cwCall s (CwReadFile (recordPath sid)) (quiet\<lparr>cw_err := Some errNotExist\<rparr>) s"
    by (rule cwCall.read_absent [OF assms, where e = errNotExist]) (simp_all add: errNotExist_def)
  moreover have "errorsIs errNotExist errNotExist" by (simp add: errNotExist_def)
  ultimately show ?thesis unfolding readRecord_def by (elim criticalSection.called) auto
qed

lemma sec_record:
  assumes "recordAt s sid = Some r"
  shows "criticalSection s (readRecord sid) s (Some (Inr (Some r)))"
proof -
  have "cwCall s (CwReadFile (recordPath sid)) (quiet\<lparr>cw_record := Inr r\<rparr>) s"
    by (rule cwCall.read) (use assms in \<open>simp_all add: recordAt_disk\<close>)
  then show ?thesis unfolding readRecord_def by (rule criticalSection.called) auto
qed

lemma sec_time: "criticalSection s cwTime s (Some 0)"
proof -
  have "cwCall s CwNow quiet s" by (rule cwCall.now)
  then show ?thesis unfolding cwTime_def by (rule criticalSection.called) auto
qed

lemma sec_persist: "criticalSection s (persistRecord r) (putRecord r s) (Some (Inr ()))"
proof -
  have "cwCall s (CwWrite r) quiet (putRecord r s)" by (rule cwCall.written) simp
  then show ?thesis unfolding persistRecord_def by (rule criticalSection.called) auto
qed

lemma sec_persist_err: "criticalSection s (persistRecord r) (putRecord r s) (Some (Inl (WorkerErr e)))"
proof -
  have "cwCall s (CwWrite r) (quiet\<lparr>cw_err := Some e\<rparr>) (putRecord r s)" by (rule cwCall.write_applied) simp
  then show ?thesis unfolding persistRecord_def by (rule criticalSection.called) auto
qed

lemma sec_launch:
  assumes "cd_threads s i = None" and "i \<notin> cd_cancelled s" and "i \<notin> ran (cd_active s)"
  shows "criticalSection s (cwDo (CwLaunch req)) (launch req i s) (Some ())"
proof -
  have "cwCall s (CwLaunch req) quiet (launch req i s)" by (rule cwCall.launch [OF assms])
  then show ?thesis unfolding cwDo_def by (rule criticalSection.called) auto
qed

definition coordStart :: "(string \<rightharpoonup> diskFile) \<Rightarrow> coord" where
  "coordStart d = \<lparr>cd_disk = d, cd_active = Map.empty, cd_cancelled = {}, cd_threads = Map.empty, cd_lock = None, cd_up = False,
     cd_log = []\<rparr>"

lemma listing_empty [simp]: "listing Map.empty = []"
  by (simp add: listing_def)

lemma listing_one [simp]: "listing [n \<mapsto> f] = [(n, f = SubDir)]"
  by (simp add: listing_def)

lemma reach_boot:
  assumes "coordDisk (coordStart d)" and "criticalSection (coordStart d) recoverSessions s (Some (Inr ()))"
  shows "coordReach (s\<lparr>cd_up := True\<rparr>)"
proof (rule coordReach.step)
  show "coordReach (coordStart d)"
    by (rule coordReach.init) (use assms(1) in \<open>simp add: coordInit_def halt_def coordStart_def\<close>)
  show "coordStep (coordStart d) (s\<lparr>cd_up := True\<rparr>)"
    by (rule coordStep.boot [OF _ assms(2)]) (simp add: coordStart_def)
qed

subsection \<open>An empty directory\<close>

definition idle :: coord where "idle = (coordStart Map.empty)\<lparr>cd_up := True\<rparr>"

lemma gc_empty: "cd_disk s = Map.empty \<Longrightarrow> criticalSection s (gcLocked t) s (Some (Inr ()))"
  unfolding gcLocked_def by (rule sec_bindE [OF sec_readDir]) auto

lemma reach_idle: "coordReach idle"
  unfolding idle_def
proof (rule reach_boot)
  let ?s = "coordStart Map.empty"
  have d: "cd_disk ?s = Map.empty" by (simp add: coordStart_def)
  show "coordDisk ?s" by (simp add: coordDisk_def d recordNames_def)
  have "criticalSection ?s (bind cwTime gcLocked) ?s (Some (Inr ()))" by (rule sec_bind [OF sec_time gc_empty [OF d]])
  then show "criticalSection ?s recoverSessions ?s (Some (Inr ()))"
    unfolding recoverSessions_def by (intro sec_bindE [OF sec_readDir]) (simp add: d)
qed

definition sampleRequest :: workerExecRequest where
  "sampleRequest = \<lparr>wq_Action = ''start'', wq_SessionID = replicate 32 (CHR ''a''), wq_RequestID = ''r1'', wq_CallerKey = ''c'',
     wq_Fingerprint = replicate 64 (CHR ''b''),
     wq_Exec = \<lparr>pq_Argv = [''true''], pq_WorkDir = [], pq_TimeoutMS = 0, pq_MaxOutputBytes = 0, pq_SourceRevision = 1,
       pq_SourceDigest = replicate 64 (CHR ''0'')\<rparr>\<rparr>"

lemma sample_valid: "validatePersistentExecRequest (wq_Exec sampleRequest) = Inr ()" "validateWorkerIdentity sampleRequest = Inr ()"
  by code_simp+

lemma sample_serve:
  assumes "criticalSection s (startExec sampleRequest) s' (Some x)"
  shows "criticalSection s (serveCoordinator [] ''/exec'' ''POST'' [] (BodyValue sampleRequest)) s' (Some (workerReply x))"
proof -
  have "criticalSection s (execAction sampleRequest) s' (Some x)"
    using assms by (simp add: execAction_def sampleRequest_def)
  then have "criticalSection s (bind (execAction sampleRequest) (\<lambda>r. Ret (workerReply r))) s' (Some (workerReply x))"
    by (rule sec_bind) auto
  then show ?thesis by (simp add: serveCoordinator_def sample_valid(2))
qed

text \<open>\<^verbatim>\<open>start\<close> on an empty directory comes to the creation of the session.\<close>

lemma start_empty:
  assumes d: "cd_disk s = Map.empty" and c: "criticalSection s (createSession sampleRequest) s' (Some x)"
  shows "criticalSection s (startExec sampleRequest) s' (Some x)"
proof -
  have find: "criticalSection s (findByRequest c q) s (Some (Inr None))" for c q
    unfolding findByRequest_def by (rule sec_bindE [OF sec_readDir]) (auto simp: d)
  show ?thesis unfolding startExec_def sample_valid(1) sum.case
    by (rule sec_bind [OF sec_time], rule sec_bindE [OF gc_empty [OF d]], rule sec_bindE [OF find], simp only: option.case,
        rule sec_bindE [OF sec_absent], simp add: d, simp only: option.case, rule c)
qed

lemma count_empty: "cd_disk s = Map.empty \<Longrightarrow> criticalSection s recordCount s (Some (Inr 0))"
  unfolding recordCount_def by (rule sec_bindE [OF sec_readDir]) auto

definition sampleRecord :: execSessionRecord where "sampleRecord = queuedRecord sampleRequest 0"

definition queued :: coord where "queued = putRecord sampleRecord idle"

definition launched :: coord where "launched = launch sampleRequest 0 queued"

lemma start_served:
  "criticalSection idle (serveCoordinator [] ''/exec'' ''POST'' [] (BodyValue sampleRequest)) launched (Some (AgJSON 200 (xs_Result sampleRecord)))"
proof -
  have d: "cd_disk idle = Map.empty" by (simp add: idle_def coordStart_def)
  have "criticalSection queued (bind (cwDo (CwLaunch sampleRequest)) (\<lambda>_. Ret (Inr (xs_Result sampleRecord)))) launched
      (Some (Inr (xs_Result sampleRecord)))" unfolding launched_def
    by (rule sec_bind [OF sec_launch]) (auto simp: queued_def idle_def coordStart_def putRecord_def)
  then have "criticalSection idle (bindE (persistRecord sampleRecord) (\<lambda>_. bind (cwDo (CwLaunch sampleRequest))
      (\<lambda>_. Ret (Inr (xs_Result sampleRecord))))) launched (Some (Inr (xs_Result sampleRecord)))"
    unfolding queued_def by (rule sec_bindE [OF sec_persist])
  then have "criticalSection idle (bind cwTime (\<lambda>t. let r = queuedRecord sampleRequest t in
      bindE (persistRecord r) (\<lambda>_. bind (cwDo (CwLaunch sampleRequest)) (\<lambda>_. Ret (Inr (xs_Result r)))))) launched
      (Some (Inr (xs_Result sampleRecord)))"
    by (intro sec_bind [OF sec_time]) (simp add: Let_def sampleRecord_def)
  then have "criticalSection idle (createSession sampleRequest) launched (Some (Inr (xs_Result sampleRecord)))"
    unfolding createSession_def by (intro sec_bindE [OF count_empty [OF d]]) (simp add: execSessionCapacity_def)
  then show ?thesis using sample_serve [OF start_empty [OF d]] by (fastforce simp: workerReply_def)
qed

lemma reach_launched: "coordReach launched"
  by (rule coordReach.step [OF reach_idle coordStep.request [OF _ start_served]]) (simp add: idle_def)

subsection \<open>The goroutine up to its command\<close>

definition quietRn :: rnAnswer where
  "quietRn = \<lparr>rn_done = False, rn_running = Inr True, rn_response = (undefined, None), rn_fatal = None\<rparr>"

lemma reach_thread:
  assumes "coordReach s" and "cd_up s" and "cd_threads s i = Some t" and "th_prog t = Ask q k" and "rnCall i s q a s'" and "k a = p"
  shows "coordReach (setProg i p s')"
  using coordReach.step [OF assms(1) coordStep.thread [OF assms(2,3,4,5)]] assms(6) by simp

text \<open>The goroutine is at \<open>p\<close>, with the record queued, or with its command sent.\<close>

definition atProg :: "unit rn \<Rightarrow> nat \<Rightarrow> lockHolder option \<Rightarrow> coord \<Rightarrow> bool" where
  "atProg p n l s \<longleftrightarrow> coordReach s \<and> cd_up s \<and> cd_cancelled s = {} \<and> cd_lock s = l \<and> dispatches s (wq_SessionID sampleRequest) = n
     \<and> (\<exists>t. cd_threads s 0 = Some t \<and> th_req t = sampleRequest \<and> th_prog t = p)
     \<and> (\<exists>r. recordAt s (wq_SessionID sampleRequest) = Some r \<and> \<not> terminalRecord r \<and> xs_SessionID r = wq_SessionID sampleRequest)"

lemma atProg_launched: "atProg (runExecSession sampleRequest) 0 None launched"
  unfolding atProg_def using reach_launched
  by (auto simp: launched_def launch_def queued_def putRecord_def idle_def coordStart_def dispatches_def recordAt_disk
      terminalRecord_def sampleRecord_def queuedRecord_def emptyResult_def workerTerminal_def)

lemma atProg_move:
  assumes "atProg (Ask q k) n l s" and "rnCall 0 s q a s'" and "k a = p"
    and "cd_up s' = cd_up s" "cd_cancelled s' = cd_cancelled s" "cd_lock s' = l'" "dispatches s' (wq_SessionID sampleRequest) = n'"
    and "\<exists>t. cd_threads s' 0 = Some t \<and> th_req t = sampleRequest"
    and "\<exists>r. recordAt s' (wq_SessionID sampleRequest) = Some r \<and> \<not> terminalRecord r \<and> xs_SessionID r = wq_SessionID sampleRequest"
  shows "atProg p n' l' (setProg 0 p s')"
proof -
  obtain t where "coordReach s" "cd_up s" "cd_threads s 0 = Some t" "th_prog t = Ask q k" using assms(1) by (auto simp: atProg_def)
  then have "coordReach (setProg 0 p s')" using assms(2,3) by (rule reach_thread)
  then show ?thesis using assms unfolding atProg_def by (auto simp: setProg_def dispatches_def recordAt_def)
qed

lemma runExecSession_spine:
  "\<exists>k0. runExecSession req = Ask RnLock k0 \<and> (\<exists>k1. k0 quietRn = Ask RnCtxErr k1
     \<and> (\<exists>k2. k1 quietRn = Ask (RnSetRunning (wq_SessionID req)) k2
     \<and> (\<exists>k3. k2 quietRn = Ask (RnDispatch (wq_Exec req)) k3 \<and> (\<exists>k4. k3 quietRn = Ask RnAwait k4))))"
  by (simp add: runExecSession_def quietRn_def Let_def)

lemma sec_wrapE: "criticalSection s p s' (Some (Inr x)) \<Longrightarrow> criticalSection s (wrapE w p) s' (Some (Inr x))"
  unfolding wrapE_def by (rule sec_bind) auto

lemma running_open [simp]: "\<not> terminalRecord (withState ''running'' t r)"
  by (simp add: terminalRecord_def withState_def workerTerminal_def)

lemma running_section:
  assumes "recordAt s sid = Some r" and "\<not> terminalRecord r"
  shows "criticalSection s (setRunning sid) (putRecord (withState ''running'' 0 r) s) (Some (Inr True))"
proof -
  let ?s = "putRecord (withState ''running'' 0 r) s"
  have "criticalSection s (bind cwTime (\<lambda>t. bindE (wrapE (wrapWorker ''persist running execution session: %w'')
      (persistRecord (withState ''running'' t r))) (\<lambda>_. Ret (Inr True)))) ?s (Some (Inr True))"
    by (rule sec_bind [OF sec_time], rule sec_bindE [OF sec_wrapE [OF sec_persist]]) auto
  then show ?thesis unfolding setRunning_def
    by (intro sec_bindE [OF sec_wrapE [OF sec_record [OF assms(1)]]]) (use assms(2) in \<open>simp add: terminalRecord_def\<close>)
qed

lemma cancelled_put: "cd_cancelled (putRecord r s) = cd_cancelled s"
  by (simp add: putRecord_def)

lemma reach_sent: "\<exists>s k. atProg (Ask RnAwait k) 1 (Some (HeldByExec 0)) s"
proof -
  let ?sid = "wq_SessionID sampleRequest" and ?l = "Some (HeldByExec 0)"
  obtain k0 k1 k2 k3 k4 where k: "runExecSession sampleRequest = Ask RnLock k0" "k0 quietRn = Ask RnCtxErr k1"
      "k1 quietRn = Ask (RnSetRunning ?sid) k2" "k2 quietRn = Ask (RnDispatch (wq_Exec sampleRequest)) k3" "k3 quietRn = Ask RnAwait k4"
    using runExecSession_spine by blast
  have keep: "(\<exists>t. cd_threads s 0 = Some t \<and> th_req t = sampleRequest)" "dispatches s ?sid = n" "cd_lock s = l"
      "\<exists>r. recordAt s ?sid = Some r \<and> \<not> terminalRecord r \<and> xs_SessionID r = ?sid" "cd_up s" "cd_cancelled s = {}" if "atProg p n l s" for p n l s
    using that by (auto simp: atProg_def)
  have s1: "\<exists>s. atProg (Ask RnCtxErr k1) 0 ?l s"
    using atProg_move [OF atProg_launched [unfolded k(1)] rnCall.lock k(2)] keep [OF atProg_launched]
    by (auto simp: recordAt_def dispatches_def) 
  then obtain s1 where s1: "atProg (Ask RnCtxErr k1) 0 ?l s1" ..
  have "atProg (Ask (RnSetRunning ?sid) k2) 0 ?l (setProg 0 (k1 quietRn) s1)"
    unfolding k(3) by (rule atProg_move [OF s1 rnCall.ctx k(3)]) (use keep [OF s1] in \<open>auto simp: quietRn_def\<close>)
  then obtain s2 where s2: "atProg (Ask (RnSetRunning ?sid) k2) 0 ?l s2" ..
  obtain r where r: "recordAt s2 ?sid = Some r" "\<not> terminalRecord r" "xs_SessionID r = ?sid" using keep(4) [OF s2] by blast
  let ?s2 = "putRecord (withState ''running'' 0 r) s2"
  have run: "rnCall 0 s2 (RnSetRunning ?sid) quietRn ?s2"
    by (rule rnCall.set_running) (simp add: quietRn_def running_section [OF r(1,2)])
  have "atProg (Ask (RnDispatch (wq_Exec sampleRequest)) k3) 0 ?l (setProg 0 (k2 quietRn) ?s2)"
    unfolding k(4) by (rule atProg_move [OF s2 run k(4)])
      (use keep [OF s2] r in \<open>auto simp: dispatches_def cancelled_put\<close>)
  then obtain s3 where s3: "atProg (Ask (RnDispatch (wq_Exec sampleRequest)) k3) 0 ?l s3" ..
  have "atProg (Ask RnAwait k4) 1 ?l (setProg 0 (k3 quietRn) (dispatch 0 s3))"
    unfolding k(5) by (rule atProg_move [OF s3 rnCall.send k(5)])
      (use keep [OF s3] in \<open>auto simp: dispatch_def dispatches_def recordAt_def count_list_append\<close>)
  then show ?thesis by blast
qed

subsection \<open>A directory with one session\<close>

definition oneSession :: "execSessionRecord \<Rightarrow> coord" where
  "oneSession r = coordStart [recordPath (xs_SessionID r) \<mapsto> RecordFile r]"

lemma oneSession_simps [simp]:
  "cd_disk (oneSession r) = [recordPath (xs_SessionID r) \<mapsto> RecordFile r]" "cd_up (oneSession r) = False"
  "recordAt (oneSession r) (xs_SessionID r) = Some r" "cd_log (oneSession r) = []"
  by (simp_all add: oneSession_def coordStart_def recordAt_disk)

lemma reach_one: "coordReach (oneSession r)"
proof (rule coordReach.init)
  have "recordNames (oneSession r) = {recordPath (xs_SessionID r)}" by (auto simp: recordNames_def)
  then have "coordDisk (oneSession r)" by (auto simp: coordDisk_def execSessionCapacity_def)
  then show "coordInit (oneSession r)" by (simp add: coordInit_def oneSession_def halt_def coordStart_def)
qed

lemma gc_one:
  assumes d: "cd_disk s = [recordPath (xs_SessionID r) \<mapsto> RecordFile r]" and t: "terminalRecord r" and at: "xs_UpdatedAt r = 0"
  shows "criticalSection s (gcLocked 0) s (Some (Inr ()))"
proof -
  let ?n = "recordPath (xs_SessionID r)"
  have r: "recordAt s (xs_SessionID r) = Some r" by (simp add: recordAt_disk d)
  have "criticalSection s (collectTerminal [(?n, False)]) s (Some (Inr [(?n, 0)]))"
    using t at by (auto simp: terminalRecord_def intro!: sec_bindE [OF sec_record [OF r]])
  moreover have "sweepTerminal 0 1 [(?n, 0)] = Ret (Inr ())"
    by (simp add: execSessionRetention_def second_def execSessionCapacity_def)
  ultimately have "criticalSection s (bindE (collectTerminal [(?n, False)]) (\<lambda>ts. sweepTerminal 0 1 (sort_key snd ts))) s (Some (Inr ()))"
    by (intro sec_bindE) (auto simp del: sweepTerminal.simps)
  then show ?thesis unfolding gcLocked_def
    by (intro sec_bindE [OF sec_readDir]) (simp add: d del: collectTerminal.simps sweepTerminal.simps)
qed

definition closedRecord :: execSessionRecord where "closedRecord = interruptedRecord 0 sampleRecord"

lemma closed_terminal [simp]: "terminalRecord closedRecord" "xs_UpdatedAt closedRecord = 0" "xs_SessionID closedRecord = xs_SessionID sampleRecord"
  by (simp_all add: closedRecord_def interruptedRecord_def sampleRecord_def queuedRecord_def terminalRecord_def workerTerminal_def)

lemma boot_one: "coordStep (oneSession sampleRecord) ((putRecord closedRecord (oneSession sampleRecord))\<lparr>cd_up := True\<rparr>)"
proof (rule coordStep.boot)
  let ?s = "oneSession sampleRecord" and ?n = "recordPath (xs_SessionID sampleRecord)"
  let ?s' = "putRecord closedRecord ?s"
  have r: "recordAt ?s (xs_SessionID sampleRecord) = Some sampleRecord" by simp
  have op: "\<not> workerTerminal (wr_State (xs_Result sampleRecord))"
    by (simp add: sampleRecord_def queuedRecord_def emptyResult_def workerTerminal_def)
  have d: "cd_disk ?s' = [recordPath (xs_SessionID closedRecord) \<mapsto> RecordFile closedRecord]" by (simp add: putRecord_def)
  have "criticalSection ?s (bind cwTime (\<lambda>t. bindE (persistRecord (interruptedRecord t sampleRecord)) (\<lambda>_. Ret (Inr ())))) ?s' (Some (Inr ()))"
    by (rule sec_bind [OF sec_time], rule sec_bindE, rule sec_persist) (auto simp: closedRecord_def)
  then have e: "criticalSection ?s (recoverEntries [(?n, False)]) ?s' (Some (Inr ()))"
    using op by (auto intro!: sec_bindE [OF sec_record [OF r]])
  have g: "criticalSection ?s' (bind cwTime gcLocked) ?s' (Some (Inr ()))"
    by (rule sec_bind [OF sec_time], rule gc_one [OF d]) simp_all
  show "criticalSection ?s recoverSessions ?s' (Some (Inr ()))"
    unfolding recoverSessions_def by (rule sec_bindE [OF sec_readDir]) (simp add: sec_bindE [OF e g] del: recoverEntries.simps)
qed simp

section \<open>Theorems\<close>

text \<open>C20: The command of a session is sent to the executor at most once, whatever fails and wherever the process stops
  and restarts; a second time is possible only after the record of the session was removed from the directory, at most once more per
  removal.\<close>

theorem command_sent_at_most_once:
  "coordReach s \<Longrightarrow> dispatches s sid \<le> Suc (removals s sid)"
  using coordOkD(4,6) [OF reach_ok, of s sid] by (auto split: if_splits)

theorem command_sent_at_most_once_witness:
  "\<exists>s. coordReach s \<and> dispatches s (wq_SessionID sampleRequest) = 1
     \<and> dispatches s (wq_SessionID sampleRequest) \<le> Suc (removals s (wq_SessionID sampleRequest))"
proof -
  obtain s k where s: "atProg (Ask RnAwait k) 1 (Some (HeldByExec 0)) s" using reach_sent by blast
  then have "coordReach s" "dispatches s (wq_SessionID sampleRequest) = 1" by (simp_all add: atProg_def)
  then show ?thesis using command_sent_at_most_once [of s "wq_SessionID sampleRequest"] by blast
qed

text \<open>The goroutines that are past the acquisition of the lock and have not finished.\<close>

definition busy :: "coord \<Rightarrow> nat set" where
  "busy s = {i. \<exists>t q k. cd_threads s i = Some t \<and> th_prog t = Ask q k \<and> q \<noteq> RnLock}"

lemma busy_holds: "coordReach s \<Longrightarrow> i \<in> busy s \<Longrightarrow> cd_lock s = Some (HeldByExec i)"
  using threadOk_step(2) [OF reach_ok] by (auto simp: busy_def)

text \<open>C21: In the coordinator, dispatches of commands exclude each other and exclude workspace mutations: at every reachable state at
  most one goroutine is between its acquisition of the lock and its end, and while there is one, it is the holder of the lock that
  mutations take. (This is the coordinator's side only: a goroutine that is cancelled, or stopped by a restart, ends
  while the executor may still be running the command.)\<close>

theorem dispatches_exclusive:
  assumes "coordReach s" and "i \<in> busy s"
  shows "busy s = {i} \<and> cd_lock s = Some (HeldByExec i)"
proof -
  have "cd_lock s = Some (HeldByExec i)" by (rule busy_holds [OF assms])
  moreover have "j = i" if "j \<in> busy s" for j using busy_holds [OF assms(1) that] calculation by simp
  ultimately show ?thesis using assms(2) by blast
qed

theorem dispatches_exclusive_witness: "\<exists>s. coordReach s \<and> 0 \<in> busy s \<and> busy s = {0} \<and> cd_lock s = Some (HeldByExec 0)"
proof -
  obtain s k where s: "atProg (Ask RnAwait k) 1 (Some (HeldByExec 0)) s" using reach_sent by blast
  then have "coordReach s" "0 \<in> busy s" by (auto simp: atProg_def busy_def)
  then show ?thesis using dispatches_exclusive [of s 0] by blast
qed

text \<open>C22: A finished session is final: as long as its record is not removed, its result never changes again, whatever else
  happens, cancellation, a late answer of the executor and restarts included.\<close>

theorem finished_session_final:
  assumes "coordReach s" and "coordStep\<^sup>*\<^sup>* s s'" and "recordAt s sid = Some r" and "terminalRecord r"
    and "removals s' sid = removals s sid"
  shows "recordAt s' sid = Some r"
  using steps_ok [OF assms(2) reach_ok [OF assms(1)]] assms(3-5) unfolding evolves_def by blast

theorem finished_session_final_witness:
  "recordAt (halt (oneSession closedRecord)) (xs_SessionID closedRecord) = Some closedRecord"
proof (rule finished_session_final [OF reach_one [of closedRecord]])
  have "coordStep (oneSession closedRecord) (halt (oneSession closedRecord))"
    by (rule coordStep.boot_fails [where r = None])
      (auto simp: recoverSessions_def readDir_def intro: criticalSection.stopped)
  then show "coordStep\<^sup>*\<^sup>* (oneSession closedRecord) (halt (oneSession closedRecord))" by blast
  show "recordAt (oneSession closedRecord) (xs_SessionID closedRecord) = Some closedRecord" by (rule oneSession_simps)
qed (simp_all add: removals_def halt_def)

text \<open>A restart closes what the stop left open: once the coordinator serves, every record of the directory is
  finished and no goroutine is running, so an interrupted command is reported as failed and not sent again.\<close>

theorem restart_closes_sessions:
  assumes "coordReach s" and "\<not> cd_up s" and "coordStep s s'" and "cd_up s'"
  shows "allClosed s'"
  using assms(3)
proof (cases rule: coordStep.cases)
  case (boot s1)
  then have "allClosed s1" using section_ok [OF boot(3) reach_ok [OF assms(1)] recoverSessions_guarded [OF reach_ok [OF assms(1)]]] by blast
  then show ?thesis using boot(1) by (simp add: allClosed_def recordAt_def)
qed (use assms(2,4) in \<open>auto simp: halt_def\<close>)

theorem restart_closes_sessions_witness:
  "\<not> terminalRecord sampleRecord \<and> allClosed ((putRecord closedRecord (oneSession sampleRecord))\<lparr>cd_up := True\<rparr>)"
proof
  show "\<not> terminalRecord sampleRecord"
    by (simp add: sampleRecord_def queuedRecord_def emptyResult_def terminalRecord_def workerTerminal_def)
  show "allClosed ((putRecord closedRecord (oneSession sampleRecord))\<lparr>cd_up := True\<rparr>)"
    by (rule restart_closes_sessions [OF reach_one _ boot_one]) simp_all
qed

text \<open>The directory of sessions stays within its capacity of 128 records.\<close>

theorem session_directory_bounded:
  "coordReach s \<Longrightarrow> card (recordNames s) \<le> 128"
  using coordOkD(3) [OF reach_ok, of s] by (simp add: execSessionCapacity_def)

theorem session_directory_bounded_witness: "card (recordNames launched) \<le> 128"
  by (rule session_directory_bounded [OF reach_launched])

text \<open>C23: Only the holder of the control token gets a result, and only the result of a session of its own caller key, of its own request
  where it names one: \<^verbatim>\<open>start\<close>, \<^verbatim>\<open>poll\<close> and \<^verbatim>\<open>cancel\<close> alike.\<close>

theorem session_result_own:
  assumes "coordReach s" and "criticalSection s (serveCoordinator token path method header body) s' (Some (AgJSON 200 result))"
  shows "header = token \<and> (\<exists>req. body = BodyValue req \<and> ownResult req s' result)"
  using section_ok [OF assms(2) reach_ok [OF assms(1)] serve_guarded [OF reach_ok [OF assms(1)]]] by blast

theorem session_result_own_witness:
  "\<exists>s. coordReach s \<and> (\<exists>req. BodyValue sampleRequest = BodyValue req \<and> ownResult req s (xs_Result sampleRecord))"
proof (rule exI, rule conjI)
  show "coordReach launched" by (rule reach_launched)
  show "\<exists>req. BodyValue sampleRequest = BodyValue req \<and> ownResult req launched (xs_Result sampleRecord)"
    using session_result_own [OF reach_idle start_served] by blast
qed

section \<open>Two weaknesses\<close>

text \<open>The eviction by number never makes room: with at most 128 entries in the directory the sweep removes no record that is not
  expired, while \<^verbatim>\<open>start\<close> refuses at 128 records.\<close>

theorem eviction_makes_no_room:
  "left \<le> execSessionCapacity \<Longrightarrow> (\<And>n at. (n, at) \<in> set ts \<Longrightarrow> t - execSessionRetention \<le> at) \<Longrightarrow>
   sweepTerminal t left ts = Ret (Inr ())"
proof (induction t left ts rule: sweepTerminal.induct)
  case (2 t left f at ts)
  have "sweepTerminal t (left - 1) ts = Ret (Inr ())" by (rule 2(1)) (use 2(2,3) in auto)
  moreover have "\<not> (at < t - execSessionRetention \<or> execSessionCapacity < left)" using 2(2) 2(3) [of f at] by simp
  ultimately show ?case by simp
qed simp

text \<open>A \<^verbatim>\<open>start\<close> whose record was written but whose write reports an error (the directory's \<^verbatim>\<open>fsync\<close>, say) leaves a
  queued session that no goroutine runs.\<close>

theorem queued_without_goroutine:
  "\<exists>s r. coordReach s \<and> cd_up s \<and> cd_threads s = Map.empty \<and> recordAt s (wq_SessionID sampleRequest) = Some r
     \<and> wr_State (xs_Result r) = ''queued''"
proof -
  have "coordReach queued"
  proof (rule coordReach.step [OF reach_idle], rule coordStep.request [OF _ sample_serve [OF start_empty]])
    show "cd_up idle" "cd_disk idle = Map.empty" by (simp_all add: idle_def coordStart_def)
    have d: "cd_disk idle = Map.empty" by (simp add: idle_def coordStart_def)
    have "criticalSection idle (bind cwTime (\<lambda>t. let r = queuedRecord sampleRequest t in
        bindE (persistRecord r) (\<lambda>_. bind (cwDo (CwLaunch sampleRequest)) (\<lambda>_. Ret (Inr (xs_Result r)))))) queued
        (Some (Inl (WorkerErr errNotDir)))"
      by (intro sec_bind [OF sec_time]) (simp add: Let_def sampleRecord_def [symmetric] queued_def sec_bindE_err [OF sec_persist_err])
    then show "criticalSection idle (createSession sampleRequest) queued (Some (Inl (WorkerErr errNotDir)))"
      unfolding createSession_def by (intro sec_bindE [OF count_empty [OF d]]) (simp add: execSessionCapacity_def)
  qed
  moreover have "cd_up queued" "cd_threads queued = Map.empty" "recordAt queued (wq_SessionID sampleRequest) = Some sampleRecord"
    by (simp_all add: queued_def idle_def coordStart_def putRecord_def recordAt_disk sampleRecord_def)
  moreover have "wr_State (xs_Result sampleRecord) = ''queued''" by (simp add: sampleRecord_def queuedRecord_def emptyResult_def)
  ultimately show ?thesis by blast
qed

end
