(* ===== verification/Agent_Glob.thy ===== *)
theory Agent_Glob
  imports Go_Prelude
begin

text \<open>
  UTF-8 and \<^verbatim>\<open>path.Match\<close>, as the reload rules of a sandbox use them: patterns with \<^verbatim>\<open>*\<close>, \<^verbatim>\<open>?\<close>, classes and escapes against
  slash-separated paths. The functions follow the library's: chunks between stars, the shortest skip first.
\<close>

section \<open>UTF-8\<close>

definition byteVal :: "char \<Rightarrow> nat" where "byteVal c = of_char c"

definition runeError :: nat where "runeError = 65533"

definition inBytes :: "nat \<Rightarrow> nat \<Rightarrow> char \<Rightarrow> bool" where
  "inBytes lo hi c \<longleftrightarrow> lo \<le> byteVal c \<and> byteVal c \<le> hi"

text \<open>\<^verbatim>\<open>utf8.DecodeRuneInString\<close>: the rune and its width.\<close>

fun decodeRune :: "string \<Rightarrow> nat \<times> nat" where
  "decodeRune [] = (runeError, 0)"
| "decodeRune (a # s) =
     (let x = byteVal a; bad = (runeError, 1) in
      if x < 128 then (x, 1)
      else if 194 \<le> x \<and> x \<le> 223 then
        (case s of b # _ \<Rightarrow> if inBytes 128 191 b then ((x mod 32) * 64 + byteVal b mod 64, 2) else bad | [] \<Rightarrow> bad)
      else if 224 \<le> x \<and> x \<le> 239 then
        (case s of b # c # _ \<Rightarrow>
           if inBytes (if x = 224 then 160 else 128) (if x = 237 then 159 else 191) b \<and> inBytes 128 191 c
           then ((x mod 16) * 4096 + (byteVal b mod 64) * 64 + byteVal c mod 64, 3) else bad
         | _ \<Rightarrow> bad)
      else if 240 \<le> x \<and> x \<le> 244 then
        (case s of b # c # d # _ \<Rightarrow>
           if inBytes (if x = 240 then 144 else 128) (if x = 244 then 143 else 191) b \<and> inBytes 128 191 c \<and> inBytes 128 191 d
           then ((x mod 8) * 262144 + (byteVal b mod 64) * 4096 + (byteVal c mod 64) * 64 + byteVal d mod 64, 4) else bad
         | _ \<Rightarrow> bad)
      else bad)"

lemma decodeRune_width: "s \<noteq> [] \<Longrightarrow> 1 \<le> snd (decodeRune s)"
  by (cases s) (auto simp: Let_def split: list.split)

text \<open>\<^verbatim>\<open>utf8.Valid\<close>.\<close>

function utf8Valid :: "string \<Rightarrow> bool" where
  "utf8Valid s =
     (if s = [] then True
      else (case decodeRune s of (r, n) \<Rightarrow> if r = runeError \<and> n = 1 then False else utf8Valid (drop n s)))"
  by pat_completeness auto
termination
proof (relation "measure length")
  fix s :: string and r n :: nat
  assume "s \<noteq> []" and "(r, n) = decodeRune s"
  then have "1 \<le> n" using decodeRune_width [of s] by (metis snd_conv)
  then show "(drop n s, s) \<in> measure length" using \<open>s \<noteq> []\<close> by simp
qed simp

declare utf8Valid.simps [simp del]

lemma utf8Valid_Nil [simp]: "utf8Valid []"
  by (subst utf8Valid.simps) simp

lemma utf8Valid_ascii [simp]: "byteVal c < 128 \<Longrightarrow> utf8Valid (c # s) = utf8Valid s"
  by (subst utf8Valid.simps) (simp add: Let_def runeError_def)

section \<open>Chunks\<close>

text \<open>\<^verbatim>\<open>scanChunk\<close> after the leading stars: up to the next star outside a class.\<close>

fun scanTo :: "bool \<Rightarrow> string \<Rightarrow> string \<times> string" where
  "scanTo inrange [] = ([], [])"
| "scanTo inrange [c] = (if c = CHR ''*'' \<and> \<not> inrange then ([], [c]) else ([c], []))"
| "scanTo inrange (c # d # p) =
     (if c = CHR 0x5C then (case scanTo inrange p of (a, b) \<Rightarrow> (c # d # a, b))
      else if c = CHR ''*'' \<and> \<not> inrange then ([], c # d # p)
      else (case scanTo (if c = CHR ''['' then True else if c = CHR '']'' then False else inrange) (d # p) of (a, b) \<Rightarrow> (c # a, b)))"

definition scanChunk :: "string \<Rightarrow> bool \<times> string \<times> string" where
  "scanChunk pattern =
     (let p = dropWhile (\<lambda>c. c = CHR ''*'') pattern in
      case scanTo False p of (chunk, rest) \<Rightarrow> (p \<noteq> pattern, chunk, rest))"

lemma scanTo_split: "scanTo r p = (a, b) \<Longrightarrow> p = a @ b"
  by (induction r p arbitrary: a b rule: scanTo.induct) (auto split: if_splits prod.splits)

lemma scanTo_empty: "scanTo False p = ([], b) \<Longrightarrow> p = [] \<or> hd p = CHR ''*''"
  by (cases "(False, p)" rule: scanTo.cases) (auto split: if_splits prod.splits)

lemma scanChunk_rest: "scanChunk p = (star, chunk, rest) \<Longrightarrow> p \<noteq> [] \<Longrightarrow> length rest < length p"
proof -
  assume a: "scanChunk p = (star, chunk, rest)" "p \<noteq> []"
  let ?q = "dropWhile (\<lambda>c. c = CHR ''*'') p"
  have s: "scanTo False ?q = (chunk, rest)" "star = (?q \<noteq> p)" using a by (auto simp: scanChunk_def Let_def split: prod.splits)
  have len: "length ?q = length chunk + length rest" using scanTo_split [OF s(1)] by (metis length_append)
  show ?thesis
  proof (cases "?q = p")
    case True
    then have "chunk \<noteq> []" using scanTo_empty [of ?q rest] s(1) a(2) hd_dropWhile [of "\<lambda>c. c = CHR ''*''" p] by metis
    then show ?thesis using len True by simp
  next
    case False
    then have "takeWhile (\<lambda>c. c = CHR ''*'') p \<noteq> []" by (metis append_Nil takeWhile_dropWhile_id)
    moreover have "length p = length (takeWhile (\<lambda>c. c = CHR ''*'') p) + length ?q" by (metis length_append takeWhile_dropWhile_id)
    ultimately have "length ?q < length p" by simp
    then show ?thesis using len by simp
  qed
qed

section \<open>One chunk\<close>

text \<open>\<^verbatim>\<open>getEsc\<close>: a character of a class, possibly escaped; nothing for a bad pattern.\<close>

definition getEscRune :: "string \<Rightarrow> (nat \<times> string) option" where
  "getEscRune chunk =
     (case decodeRune chunk of (r, n) \<Rightarrow>
        if r = runeError \<and> n = 1 then None
        else if drop n chunk = [] then None else Some (r, drop n chunk))"

definition getEsc :: "string \<Rightarrow> (nat \<times> string) option" where
  "getEsc chunk =
     (if chunk = [] \<or> hd chunk = CHR ''-'' \<or> hd chunk = CHR '']'' then None
      else if hd chunk = CHR 0x5C then (if tl chunk = [] then None else getEscRune (tl chunk))
      else getEscRune chunk)"

lemma getEsc_length: "getEsc chunk = Some (r, rest) \<Longrightarrow> length rest < length chunk"
proof -
  have e: "length rest < length s" if "getEscRune s = Some (r, rest)" "s \<noteq> []" for s
    using that decodeRune_width [OF that(2)] by (auto simp: getEscRune_def split: prod.splits if_splits)
  show "getEsc chunk = Some (r, rest) \<Longrightarrow> length rest < length chunk"
    using e [of chunk] e [of "tl chunk"] by (cases chunk) (auto simp: getEsc_def split: if_splits)
qed

text \<open>The ranges of a class; \<open>m\<close> is whether one matched, \<open>started\<close> whether there was one.\<close>

function classRanges :: "nat \<Rightarrow> bool \<Rightarrow> bool \<Rightarrow> string \<Rightarrow> (bool \<times> string) option" where
  "classRanges r m started chunk =
     (if started \<and> chunk \<noteq> [] \<and> hd chunk = CHR '']'' then Some (m, tl chunk)
      else (case getEsc chunk of
              None \<Rightarrow> None
            | Some (lo, c1) \<Rightarrow>
                if hd c1 = CHR ''-''
                then (case getEsc (tl c1) of
                        None \<Rightarrow> None
                      | Some (hi, c2) \<Rightarrow> classRanges r (m \<or> (lo \<le> r \<and> r \<le> hi)) True c2)
                else classRanges r (m \<or> lo = r) True c1))"
  by pat_completeness auto
termination
proof (relation "measure (\<lambda>(r, m, started, chunk). length chunk)")
  fix r :: nat and m started :: bool and chunk :: string and x :: "nat \<times> string" and lo :: nat and c1 :: string
    and y :: "nat \<times> string" and hi :: nat and c2 :: string
  assume a: "getEsc chunk = Some x" "(lo, c1) = x"
  then have "length c1 < length chunk" using getEsc_length by auto
  then show "((r, m \<or> lo = r, True, c1), r, m, started, chunk) \<in> measure (\<lambda>(r, m, started, chunk). length chunk)" by simp
  assume b: "getEsc (tl c1) = Some y" "(hi, c2) = y"
  have "length c2 < length (tl c1)" using getEsc_length [of "tl c1"] b by auto
  then show "((r, m \<or> lo \<le> r \<and> r \<le> hi, True, c2), r, m, started, chunk) \<in> measure (\<lambda>(r, m, started, chunk). length chunk)"
    using \<open>length c1 < length chunk\<close> by simp
qed simp

declare classRanges.simps [simp del]

lemma classRanges_length: "classRanges r m started chunk = Some (b, rest) \<Longrightarrow> length rest < length chunk"
proof (induction r m started chunk rule: classRanges.induct)
  case (1 r m started chunk)
  show ?case
    using 1(3) 1(1) 1(2) getEsc_length
    by (subst (asm) classRanges.simps) (fastforce split: if_splits option.splits prod.splits dest: getEsc_length)
qed

text \<open>\<^verbatim>\<open>matchChunk\<close>: nothing for a bad pattern, otherwise the rest of the name, or that it does not match.\<close>

function matchChunk :: "bool \<Rightarrow> string \<Rightarrow> string \<Rightarrow> (string option) option" where
  "matchChunk failed0 [] s = Some (if failed0 then None else Some s)"
| "matchChunk failed0 (c # chunk) s =
     (let failed = (failed0 \<or> s = []) in
      if c = CHR ''['' then
        (let r = (if failed then 0 else fst (decodeRune s)); s' = (if failed then s else drop (snd (decodeRune s)) s);
             negated = (chunk \<noteq> [] \<and> hd chunk = CHR ''^'') in
         case classRanges r False False (if negated then tl chunk else chunk) of
           None \<Rightarrow> None
         | Some (m, rest) \<Rightarrow> matchChunk (failed \<or> m = negated) rest s')
      else if c = CHR ''?'' then
        (if failed then matchChunk True chunk s
         else matchChunk (hd s = CHR ''/'') chunk (drop (snd (decodeRune s)) s))
      else if c = CHR 0x5C \<and> chunk = [] then None
      else let lit = (if c = CHR 0x5C then hd chunk else c); rest = (if c = CHR 0x5C then tl chunk else chunk) in
        if failed then matchChunk True rest s else matchChunk (lit \<noteq> hd s) rest (tl s))"
  by pat_completeness auto
termination
proof (relation "measure (\<lambda>(f, chunk, s). length chunk)")
qed (auto dest!: classRanges_length split: if_splits)

section \<open>Patterns\<close>

text \<open>The skips of a star: the chunk at every position up to the next slash, the shortest skip first.\<close>

fun matchSkips :: "string \<Rightarrow> bool \<Rightarrow> string \<Rightarrow> (string option) option" where
  "matchSkips chunk final [] = Some None"
| "matchSkips chunk final (c # name) =
     (if c = CHR ''/'' then Some None
      else (case matchChunk False chunk name of
              None \<Rightarrow> None
            | Some None \<Rightarrow> matchSkips chunk final name
            | Some (Some t) \<Rightarrow> if final \<and> t \<noteq> [] then matchSkips chunk final name else Some (Some t)))"

text \<open>\<^verbatim>\<open>path.Match\<close>, read for its first result only: whether the name matches a well-formed pattern. The check of the rest of the
  pattern after a mismatch only decides the error.\<close>

function pathMatch :: "string \<Rightarrow> string \<Rightarrow> bool" where
  "pathMatch pattern name =
     (if pattern = [] then name = []
      else (case scanChunk pattern of (star, chunk, rest) \<Rightarrow>
        if star \<and> chunk = [] then CHR ''/'' \<notin> set name
        else (case matchChunk False chunk name of
                None \<Rightarrow> False
              | Some here \<Rightarrow>
                  (case (if (case here of Some t \<Rightarrow> t = [] \<or> rest \<noteq> [] | None \<Rightarrow> False) then Some here
                         else if star then matchSkips chunk (rest = []) name else None) of
                     Some (Some t) \<Rightarrow> pathMatch rest t
                   | _ \<Rightarrow> False))))"
  by pat_completeness auto
termination
  by (relation "measure (\<lambda>(pattern, name). length pattern)") (auto dest!: scanChunk_rest [OF sym])

declare pathMatch.simps [simp del]

end
