(* ===== verification/Agent_Sync.thy ===== *)
theory Agent_Sync
  imports Agent_Coordinator Agent_Glob
begin

text \<open>
  Synchronization of a sandbox's workspace (\<^verbatim>\<open>dev-agent/main.go\<close>): the wire format and its limits, the reload rules, and the handler of
  \<^verbatim>\<open>/sync\<close> as a program over the calls of the file system and of the runtime. An authoritative sync names a revision and the
  digest of its files; a plain one gets the next revision.
\<close>

section \<open>Configuration\<close>

record agentReloadRule =
  rl_Paths :: "string list"
  rl_Command :: string

record agentConfig =
  gc_WorkDir :: string
  gc_ControlToken :: string
  gc_AllowInsecureControl :: bool
  gc_ReloadStrategy :: string
  gc_ReloadRules :: "agentReloadRule list"
  gc_unmarshal :: "string \<Rightarrow> goError + workspaceManifest"  \<comment> \<open>the JSON decoder\<close>

text \<open>\<^verbatim>\<open>authorizeControl\<close>: the reply it writes, if it refuses.\<close>

definition authorizeControl :: "agentConfig \<Rightarrow> string \<Rightarrow> (nat \<times> goError) option" where
  "authorizeControl C header =
     (let token = trimSpace (gc_ControlToken C) in
      if token = [] then (if gc_AllowInsecureControl C then None else Some (401, Errorf ''dev agent control token is not configured'' []))
      else if subtleConstantTimeCompare header token then None
      else Some (401, Errorf ''unauthorized'' []))"

section \<open>Reload rules\<close>

definition reloadRulesValid :: "agentReloadRule list \<Rightarrow> goError + unit" where
  "reloadRulesValid rules =
     (case find (\<lambda>(i, r). rl_Paths r = [] \<or> trimSpace (rl_Command r) = []) (enumerate 0 rules) of
        Some (i, r) \<Rightarrow> Inl (Errorf ''RAILGRID_DEV_RELOAD_RULES[%d] needs paths and a command'' [showNat i])
      | None \<Rightarrow> Inr ())"

definition matchAny :: "string \<Rightarrow> string list \<Rightarrow> bool" where
  "matchAny pattern changed =
     list_ex (\<lambda>p. pathMatch pattern p \<or> (\<not> contains pattern ''/'' \<and> pathMatch pattern (pathBase p))) changed"

fun matchReloadRules :: "string list \<Rightarrow> agentReloadRule list \<Rightarrow> string list \<Rightarrow> string list" where
  "matchReloadRules seen [] changed = []"
| "matchReloadRules seen (rule # rules) changed =
     (if rl_Command rule \<in> set seen then matchReloadRules seen rules changed
      else if list_ex (\<lambda>pattern. matchAny pattern changed) (rl_Paths rule)
      then rl_Command rule # matchReloadRules (rl_Command rule # seen) rules changed
      else matchReloadRules seen rules changed)"

text \<open>\<open>seen\<close> holds the commands taken so far.\<close>

fun mergeCommands :: "string list \<Rightarrow> string list \<Rightarrow> string list" where
  "mergeCommands seen [] = []"
| "mergeCommands seen (raw # rs) =
     (let command = trimSpace raw in
      if command = [] \<or> command \<in> set seen then mergeCommands seen rs
      else command # mergeCommands (command # seen) rs)"

definition mergeReloadCommands :: "string list list \<Rightarrow> string list" where
  "mergeReloadCommands groups = mergeCommands [] (concat groups)"

definition isStartupAffectingPath :: "string \<Rightarrow> bool" where
  "isStartupAffectingPath clean \<longleftrightarrow>
     pathBase clean \<in> {''package.json'', ''package-lock.json'', ''npm-shrinkwrap.json'', ''yarn.lock'', ''pnpm-lock.yaml'', ''bun.lockb'', ''server.js''}
   \<or> hasPrefix (pathBase clean) ''vite.config.''"

section \<open>The wire format\<close>

definition syncMaxFiles :: nat where "syncMaxFiles = 500"
definition syncMaxFileBytes :: nat where "syncMaxFileBytes = 26214400"
definition syncMaxTotalBytes :: nat where "syncMaxTotalBytes = 50331648"

definition errSyncTooLarge :: goError where "errSyncTooLarge = Errorf ''sync request too large'' []"

record syncFile =
  sf_Path :: string
  sf_Content :: string
  sf_Encoding :: string

record decodedSyncFile =
  df_Path :: string
  df_Content :: string
  df_Binary :: bool

record syncRequest =
  sq_Files :: "syncFile list"
  sq_DeletePaths :: "string list"
  sq_Restart :: string
  sq_SourceRevision :: "64 word"
  sq_SourceDigest :: string

record syncResponse =
  sr_Phase :: string
  sr_Changed :: "string list"
  sr_Deleted :: "string list"
  sr_ReloadRuns :: "string list"
  sr_Restarted :: bool
  sr_ReloadError :: string
  sr_SourceRevision :: "64 word"
  sr_SourceDigest :: string

text \<open>\<^verbatim>\<open>base64.StdEncoding.Strict()\<close> on content without line breaks: groups of four digits, padding only at the end, no
  unused bits set.\<close>

definition stdVal :: "char \<Rightarrow> nat option" where
  "stdVal c =
     (let n = byteVal c in
      if 65 \<le> n \<and> n \<le> 90 then Some (n - 65)
      else if 97 \<le> n \<and> n \<le> 122 then Some (n - 71)
      else if 48 \<le> n \<and> n \<le> 57 then Some (n + 4)
      else if n = 43 then Some 62
      else if n = 47 then Some 63
      else None)"

fun stdDecode :: "string \<Rightarrow> nat list option" where
  "stdDecode [] = Some []"
| "stdDecode (a # b # c # d # r) =
     (case (stdVal a, stdVal b) of
        (Some x, Some y) \<Rightarrow>
          if c = CHR ''='' then (if d = CHR ''='' \<and> r = [] \<and> y mod 16 = 0 then Some [x * 4 + y div 16] else None)
          else (case stdVal c of
                  None \<Rightarrow> None
                | Some z \<Rightarrow>
                    if d = CHR ''='' then (if r = [] \<and> z mod 4 = 0 then Some [x * 4 + y div 16, (y mod 16) * 16 + z div 4] else None)
                    else (case stdVal d of
                            None \<Rightarrow> None
                          | Some v \<Rightarrow> map_option (\<lambda>t. (x * 4 + y div 16) # ((y mod 16) * 16 + z div 4) # ((z mod 4) * 64 + v) # t) (stdDecode r)))
      | _ \<Rightarrow> None)"
| "stdDecode _ = None"

definition decodeStdStrict :: "string \<Rightarrow> string option" where
  "decodeStdStrict s = map_option (map char_of) (stdDecode s)"

definition decodeSyncContent :: "syncFile \<Rightarrow> goError + (string \<times> bool)" where
  "decodeSyncContent f =
     (if sf_Encoding f = [] \<or> sf_Encoding f = ''utf-8'' then Inr (sf_Content f, False)
      else if sf_Encoding f = ''base64'' then
        (if containsAny (sf_Content f) [CHR 0x0D, CHR 0x0A]
         then Inl (Errorf ''file %q: base64 content must not contain line breaks'' [sf_Path f])
         else (case decodeStdStrict (sf_Content f) of
                 None \<Rightarrow> Inl (Errorf ''file %q: invalid base64 content: %v'' [sf_Path f, ''illegal base64 data''])
               | Some decoded \<Rightarrow> Inr (decoded, True)))
      else Inl (Errorf ''file %q: unsupported encoding %q (want %q or %q)'' [sf_Path f, sf_Encoding f, ''utf-8'', ''base64'']))"

fun decodeSyncEntries :: "bool \<Rightarrow> nat \<Rightarrow> syncFile list \<Rightarrow> goError + decodedSyncFile list" where
  "decodeSyncEntries enforce sofar [] = Inr []"
| "decodeSyncEntries enforce sofar (f # fs) =
     andThen (cleanWorkspacePath (sf_Path f)) (\<lambda>clean.
     andThen (decodeSyncContent f) (\<lambda>(content, binary).
     if enforce \<and> syncMaxFileBytes < length content
     then Inl (Wrapf ''%w: file %q is %d bytes after decoding, above the %d-byte per-file limit''
                 [clean, showNat (length content), showNat syncMaxFileBytes] errSyncTooLarge)
     else if enforce \<and> syncMaxTotalBytes < sofar + length content
     then Inl (Wrapf ''%w: files exceed the %d-byte total decoded limit; send fewer files per request'' [showNat syncMaxTotalBytes] errSyncTooLarge)
     else andThen (decodeSyncEntries enforce (sofar + length content) fs) (\<lambda>rest.
       Inr (\<lparr>df_Path = clean, df_Content = content, df_Binary = binary\<rparr> # rest))))"

definition decodeSyncFiles :: "syncFile list \<Rightarrow> bool \<Rightarrow> goError + decodedSyncFile list" where
  "decodeSyncFiles files enforce =
     (if enforce \<and> syncMaxFiles < length files
      then Inl (Wrapf ''%w: %d files; at most %d files may be sent per request'' [showNat (length files), showNat syncMaxFiles] errSyncTooLarge)
      else decodeSyncEntries enforce 0 files)"

text \<open>The paths of the bundle; \<open>seen\<close> holds those so far.\<close>

fun validateBundle :: "string list \<Rightarrow> decodedSyncFile list \<Rightarrow> goError + string list" where
  "validateBundle seen [] = Inr seen"
| "validateBundle seen (f # fs) =
     andThen (validateManagedWorkspacePath (df_Path f)) (\<lambda>_.
     if \<not> df_Binary f \<and> (\<not> utf8Valid (df_Content f) \<or> CHR 0x00 \<in> set (df_Content f))
     then Inl (Errorf ''source file %q must be UTF-8 text without NUL bytes (send binary files with encoding %q)'' [df_Path f, ''base64''])
     else if df_Path f \<in> set seen then Inl (Errorf ''duplicate source path %q'' [df_Path f])
     else validateBundle (df_Path f # seen) fs)"

definition validateAuthoritativeSyncFiles :: "decodedSyncFile list \<Rightarrow> goError + string list" where
  "validateAuthoritativeSyncFiles files = validateBundle [] files"

definition digestDecodedSyncFiles :: "decodedSyncFile list \<Rightarrow> string" where
  "digestDecodedSyncFiles files =
     digesterSum (fold (\<lambda>f d. digesterAdd d (df_Path f) (df_Content f)) (sort_key df_Path files) [])"

definition digestSyncFiles :: "syncFile list \<Rightarrow> goError + string" where
  "digestSyncFiles files =
     andThen (decodeSyncFiles files False) (\<lambda>decoded.
     andThen (firstErr (\<lambda>f. validateManagedWorkspacePath (df_Path f)) decoded) (\<lambda>_.
     Inr (digestDecodedSyncFiles decoded)))"

section \<open>Steps of a sync\<close>

text \<open>A step ends the request with a reply, or goes on with a value.\<close>

type_synonym ('r, 'a) agStep = "('r agReply + 'a) ag"
type_synonym 'a syncStep = "(syncResponse, 'a) agStep"

definition stop :: "nat \<Rightarrow> goError \<Rightarrow> ('r, 'a) agStep" where
  "stop status e = Ret (Inl (AgError status e))"

definition orStop :: "nat \<Rightarrow> (goError \<Rightarrow> goError) \<Rightarrow> (goError + 'a) ag \<Rightarrow> ('r, 'a) agStep" where
  "orStop status f p = wrapE (\<lambda>e. AgError status (f e)) p"

definition writeFailed :: "string \<Rightarrow> goError \<Rightarrow> goError" where
  "writeFailed clean e = Errorf ''write %q: %v'' [clean, errorText e]"

definition writeOne :: "decodedSyncFile \<Rightarrow> bool syncStep" where
  "writeOne f =
     (let clean = df_Path f in
      bindE (orStop 409 (writeFailed clean) (ensureExecPathNoSymlink clean False)) (\<lambda>_.
      bindE (orStop 409 (writeFailed clean) (ensureExecPathNoSymlink clean True)) (\<lambda>_.
      bind (workspaceFileContentChanged clean (df_Content f)) (\<lambda>differs.
      if \<not> differs then Ret (Inr False)
      else bindE (orStop 500 (writeFailed clean) (writeWorkspaceFile clean (df_Content f))) (\<lambda>_. Ret (Inr True))))))"

text \<open>The files written; the paths that changed.\<close>

fun writeFiles :: "decodedSyncFile list \<Rightarrow> string list syncStep" where
  "writeFiles [] = Ret (Inr [])"
| "writeFiles (f # fs) =
     bindE (writeOne f) (\<lambda>differs.
     bindE (writeFiles fs) (\<lambda>rest. Ret (Inr (if differs then df_Path f # rest else rest))))"

fun restoreFiles :: "decodedSyncFile list \<Rightarrow> (goError + unit) ag" where
  "restoreFiles [] = Ret (Inr ())"
| "restoreFiles (f # fs) =
     (let clean = df_Path f in
      bindE (ensureExecPathNoSymlink clean False) (\<lambda>_.
      bindE (ensureExecPathNoSymlink clean True) (\<lambda>_.
      bind (workspaceFileContentChanged clean (df_Content f)) (\<lambda>differs.
      bindE (if differs then wrapE (Wrapf ''restore %q: %w'' [clean]) (writeWorkspaceFile clean (df_Content f)) else Ret (Inr ())) (\<lambda>_.
      restoreFiles fs)))))"

definition restoreAuthoritativeWorkspaceFiles :: "decodedSyncFile list \<Rightarrow> (goError + unit) ag" where
  "restoreAuthoritativeWorkspaceFiles files =
     (case validateAuthoritativeSyncFiles files of Inl e \<Rightarrow> Ret (Inl e) | Inr _ \<Rightarrow> restoreFiles files)"

text \<open>\<open>managed\<close> is the managed set when there was a manifest.\<close>

fun deleteCandidates :: "string list option \<Rightarrow> string list \<Rightarrow> string list \<Rightarrow> (goError + string list) ag" where
  "deleteCandidates managed incoming [] = Ret (Inr [])"
| "deleteCandidates managed incoming (raw # rs) =
     (if raw \<in> set incoming \<or> (case managed of Some m \<Rightarrow> raw \<notin> set m | None \<Rightarrow> False) then deleteCandidates managed incoming rs
      else bindE (wrapE (Wrapf ''delete %q: %w'' [raw]) (removeManagedWorkspaceFile raw)) (\<lambda>removed.
        bindE (deleteCandidates managed incoming rs) (\<lambda>rest. Ret (Inr (if removed then raw # rest else rest)))))"

definition previousFiles :: "workspaceManifest option \<Rightarrow> string list" where
  "previousFiles previous = (case previous of Some m \<Rightarrow> wm_Files m | None \<Rightarrow> [])"

definition deleteAuthoritativeWorkspaceCandidates ::
    "workspaceManifest option \<Rightarrow> string list \<Rightarrow> string list \<Rightarrow> (goError + string list) ag" where
  "deleteAuthoritativeWorkspaceCandidates previous deletePaths incoming =
     deleteCandidates (map_option wm_Files previous) incoming (sort (remdups (previousFiles previous @ deletePaths)))"

fun removeTrees :: "string list \<Rightarrow> unit syncStep" where
  "removeTrees [] = Ret (Inr ())"
| "removeTrees (clean # cs) =
     bindE (orStop 500 (\<lambda>e. Errorf ''delete %q: %v'' [clean, errorText e]) (agDo (AgRemoveAll (InRoot clean)))) (\<lambda>_. removeTrees cs)"

subsection \<open>The revision of a plain sync\<close>

definition beneath :: "string \<Rightarrow> string \<Rightarrow> bool" where
  "beneath clean removed \<longleftrightarrow> clean = removed \<or> hasPrefix clean (removed @ ''/'')"

definition stampManaged :: "workspaceManifest option \<Rightarrow> string list \<Rightarrow> string list \<Rightarrow> string list" where
  "stampManaged previous written deletedPaths =
     sort (remdups (filter (\<lambda>clean. \<not> list_ex (beneath clean) deletedPaths)
       (previousFiles previous @ filter (\<lambda>clean. validateManagedWorkspacePath clean = Inr ()) written)))"

definition inspectFailed :: "string \<Rightarrow> goError \<Rightarrow> goError" where
  "inspectFailed clean = Wrapf ''inspect %q: %w'' [clean]"

definition unmanageable :: "goError \<Rightarrow> bool" where
  "unmanageable e \<longleftrightarrow> errorsIs errExecSymlink e \<or> errorsIs errNotExist e \<or> errorsIs errNotDir e \<or> contains (errorText e) ''is not a directory''"

text \<open>The digest over the regular files of the set, and which they are.\<close>

fun stampFiles :: "string \<Rightarrow> string list \<Rightarrow> (goError + string \<times> string list) ag" where
  "stampFiles d [] = Ret (Inr (d, []))"
| "stampFiles d (clean # ps) =
     bind (ensureExecPathNoSymlink clean True) (\<lambda>r.
     case r of
       Inl e \<Rightarrow> if unmanageable e then stampFiles d ps else Ret (Inl (inspectFailed clean e))
     | Inr _ \<Rightarrow>
         bind (lstat (InRoot clean)) (\<lambda>r.
         case r of
           Inl e \<Rightarrow> if errorsIs errNotExist e then stampFiles d ps else Ret (Inl (inspectFailed clean e))
         | Inr info \<Rightarrow>
             if fi_Kind info \<noteq> KFile then stampFiles d ps
             else bindE (wrapE (Wrapf ''read %q: %w'' [clean]) (digesterAddFile d clean)) (\<lambda>(d', _, _).
               bindE (stampFiles d' ps) (\<lambda>(d'', files). Ret (Inr (d'', clean # files))))))"

definition stampedManifest :: "workspaceManifest option \<Rightarrow> string \<Rightarrow> string list \<Rightarrow> string list \<Rightarrow> goError + workspaceManifest" where
  "stampedManifest previous digest files pending =
     (case previous of
        None \<Rightarrow> Inr \<lparr>wm_SourceRevision = 1, wm_SourceDigest = digest, wm_Files = files, wm_PendingReloadCommands = pending\<rparr>
      | Some p \<Rightarrow>
          if digest = normalizeSourceDigest (wm_SourceDigest p)
          then Inr \<lparr>wm_SourceRevision = wm_SourceRevision p, wm_SourceDigest = wm_SourceDigest p, wm_Files = files, wm_PendingReloadCommands = pending\<rparr>
          else if wm_SourceRevision p = - 1 then Inl (Errorf ''workspace revision exhausted'' [])
          else Inr \<lparr>wm_SourceRevision = wm_SourceRevision p + 1, wm_SourceDigest = digest, wm_Files = files, wm_PendingReloadCommands = pending\<rparr>)"

text \<open>Nothing is written when there is neither a manifest nor a managed file.\<close>

definition stampPlainSyncManifest ::
    "workspaceManifest option \<Rightarrow> string list \<Rightarrow> string list \<Rightarrow> string list \<Rightarrow> (goError + workspaceManifest option) ag" where
  "stampPlainSyncManifest previous written deletedPaths pending =
     bindE (stampFiles [] (stampManaged previous written deletedPaths)) (\<lambda>(d, files).
     if previous = None \<and> files = [] then Ret (Inr None)
     else (case stampedManifest previous (digesterSum d) files pending of
             Inl e \<Rightarrow> Ret (Inl e)
           | Inr manifest \<Rightarrow> bindE (writeWorkspaceManifest manifest) (\<lambda>_. Ret (Inr (Some manifest)))))"

subsection \<open>Restart\<close>

definition shouldRestartAfterSync :: "string \<Rightarrow> bool \<Rightarrow> bool \<Rightarrow> string list \<Rightarrow> (goError + bool) ag" where
  "shouldRestartAfterSync policy ruleFired rulesDeclared touched =
     (let p = toLower (trimSpace policy) in
      if p = ''always'' then Ret (Inr True)
      else if p = ''auto'' then
        bindE (agGet ag_status AgStatus) (\<lambda>status.
        Ret (Inr (if \<not> ps_Configured status then False
                  else if \<not> ps_Running status \<or> ruleFired then True
                  else \<not> rulesDeclared \<and> list_ex isStartupAffectingPath touched)))
      else Ret (Inr False))"

definition runtimeReload :: "string list \<Rightarrow> goError option ag" where
  "runtimeReload commands = Ask (AgReload commands) (\<lambda>a. Ret (ag_err a))"

section \<open>The handler\<close>

text \<open>The deletions a request asks for, cleaned.\<close>

fun cleanDeletes :: "bool \<Rightarrow> string list \<Rightarrow> goError + string list" where
  "cleanDeletes authoritative [] = Inr []"
| "cleanDeletes authoritative (raw # rs) =
     andThen (cleanWorkspacePath raw) (\<lambda>clean.
     andThen (if authoritative then validateManagedWorkspacePath clean else Inr ()) (\<lambda>_.
     andThen (cleanDeletes authoritative rs) (\<lambda>rest. Inr (clean # rest))))"

definition isAuthoritative :: "syncRequest \<Rightarrow> bool" where
  "isAuthoritative req \<longleftrightarrow> sq_SourceRevision req \<noteq> 0 \<or> trimSpace (sq_SourceDigest req) \<noteq> []"

definition syncedAs :: "64 word \<Rightarrow> string \<Rightarrow> syncResponse" where
  "syncedAs revision digest = \<lparr>sr_Phase = ''Synced'', sr_Changed = [], sr_Deleted = [], sr_ReloadRuns = [], sr_Restarted = False,
     sr_ReloadError = [], sr_SourceRevision = revision, sr_SourceDigest = digest\<rparr>"

text \<open>The checks of an authoritative bundle against the manifest; the value is the set of its paths.\<close>

definition checkRevision :: "syncRequest \<Rightarrow> string \<Rightarrow> workspaceManifest option \<Rightarrow> unit syncStep" where
  "checkRevision req gotDigest previous =
     (case previous of
        None \<Rightarrow> Ret (Inr ())
      | Some p \<Rightarrow>
          if sq_SourceRevision req < wm_SourceRevision p
          then stop 409 (Errorf ''workspace sync revision is older than the applied revision'' [])
          else if sq_SourceRevision req = wm_SourceRevision p \<and> normalizeSourceDigest (wm_SourceDigest p) \<noteq> gotDigest
          then stop 409 (Errorf ''workspace sync revision was already applied with a different digest'' [])
          else if sq_SourceRevision req = wm_SourceRevision p \<and> wm_PendingReloadCommands p = []
          then bind (verifyWorkspaceManifest p) (\<lambda>v.
                 if v = Inr () then Ret (Inl (AgJSON 200 (syncedAs (wm_SourceRevision p) (wm_SourceDigest p)))) else Ret (Inr ()))
          else Ret (Inr ()))"

definition checkBundle :: "syncRequest \<Rightarrow> decodedSyncFile list \<Rightarrow> workspaceManifest option \<Rightarrow> string list syncStep" where
  "checkBundle req files previous =
     (case validateAuthoritativeSyncFiles files of
        Inl e \<Rightarrow> stop 400 e
      | Inr incoming \<Rightarrow>
          let gotDigest = digestDecodedSyncFiles files in
          if normalizeSourceDigest (sq_SourceDigest req) \<noteq> gotDigest
          then stop 409 (Errorf ''sourceDigest does not match the supplied workspace files'' [])
          else bindE (checkRevision req gotDigest previous) (\<lambda>_. Ret (Inr incoming)))"

definition manifestFailed :: "goError \<Rightarrow> goError" where
  "manifestFailed e = Errorf ''write workspace manifest: %v'' [errorText e]"

text \<open>After a reload hook: the submitted files, the manifest and the deletions once more, and the verification.\<close>

definition repairAuthoritative ::
    "decodedSyncFile list \<Rightarrow> workspaceManifest \<Rightarrow> workspaceManifest option \<Rightarrow> string list \<Rightarrow> string list \<Rightarrow> unit syncStep" where
  "repairAuthoritative files applied previous deletePaths incoming =
     bindE (orStop 500 (Wrapf ''restore authoritative workspace after reload: %w'' []) (restoreAuthoritativeWorkspaceFiles files)) (\<lambda>_.
     bindE (orStop 500 (Wrapf ''restore workspace manifest after reload: %w'' []) (writeWorkspaceManifest applied)) (\<lambda>_.
     bindE (orStop 500 (Wrapf ''re-delete authoritative workspace files after reload: %w'' [])
              (deleteAuthoritativeWorkspaceCandidates previous deletePaths incoming)) (\<lambda>_.
     orStop 500 (Wrapf ''workspace manifest verification after reload: %w'' []) (verifyWorkspaceManifest applied))))"

text \<open>\<^verbatim>\<open>stampPlain\<close>, which sets the revision and the digest of the response.\<close>

definition stampPlain ::
    "workspaceManifest option \<Rightarrow> string list \<Rightarrow> string list \<Rightarrow> string list \<Rightarrow> syncResponse \<Rightarrow> syncResponse syncStep" where
  "stampPlain previous written deletePaths pending resp =
     bindE (orStop 500 manifestFailed (stampPlainSyncManifest previous written deletePaths pending)) (\<lambda>m.
     Ret (Inr (case m of None \<Rightarrow> resp
       | Some manifest \<Rightarrow> resp\<lparr>sr_SourceRevision := wm_SourceRevision manifest, sr_SourceDigest := wm_SourceDigest manifest\<rparr>)))"

definition restartAfterSync :: "agentConfig \<Rightarrow> bool \<Rightarrow> syncResponse \<Rightarrow> syncResponse syncStep" where
  "restartAfterSync C restartNeeded resp =
     (if \<not> restartNeeded then Ret (Inr resp)
      else if gc_ReloadStrategy C = ''container''
      then bindE (orStop 502 (Wrapf ''restart container: %w'' []) (agDo AgExitContainer)) (\<lambda>_. Ret (Inr (resp\<lparr>sr_Restarted := True\<rparr>)))
      else bindE (orStop 500 (Wrapf ''restart: %w'' []) (agDo AgRestart)) (\<lambda>_. Ret (Inr (resp\<lparr>sr_Restarted := True\<rparr>))))"

text \<open>The manifest of an authoritative sync.\<close>

definition authoritativeManifest :: "syncRequest \<Rightarrow> string list \<Rightarrow> string list \<Rightarrow> workspaceManifest" where
  "authoritativeManifest req incoming pending =
     \<lparr>wm_SourceRevision = sq_SourceRevision req, wm_SourceDigest = sq_SourceDigest req, wm_Files = sort incoming,
      wm_PendingReloadCommands = pending\<rparr>"

text \<open>From the reload on: \<open>incoming\<close> is nothing for a plain sync.\<close>

definition finishSync ::
    "agentConfig \<Rightarrow> syncRequest \<Rightarrow> decodedSyncFile list \<Rightarrow> workspaceManifest option \<Rightarrow> string list \<Rightarrow> string list option \<Rightarrow>
     string list \<Rightarrow> bool \<Rightarrow> syncResponse \<Rightarrow> syncResponse syncStep" where
  "finishSync C req files previous deletePaths incoming ruleCommands restartNeeded resp =
     (let plain = (\<lambda>pending r. stampPlain previous (map df_Path files) deletePaths pending r) in
      if restartNeeded \<and> ruleCommands \<noteq> []
      then bind (runtimeReload ruleCommands) (\<lambda>reloadErr.
        let resp = resp\<lparr>sr_ReloadRuns := ruleCommands\<rparr> in
        bindE (case incoming of
                 Some paths \<Rightarrow> repairAuthoritative files (authoritativeManifest req paths ruleCommands) previous deletePaths paths
               | None \<Rightarrow> Ret (Inr ())) (\<lambda>_.
        case reloadErr of
          Some e \<Rightarrow>
            let resp = resp\<lparr>sr_ReloadError := errorText e\<rparr> in
            (if incoming = None then plain ruleCommands resp else Ret (Inr resp))
        | None \<Rightarrow>
            bindE (case incoming of
                     Some paths \<Rightarrow> orStop 500 (Wrapf ''clear completed workspace reload: %w'' [])
                                     (writeWorkspaceManifest (authoritativeManifest req paths []))
                   | None \<Rightarrow> Ret (Inr ())) (\<lambda>_.
            bindE (if incoming = None then plain [] resp else Ret (Inr resp)) (restartAfterSync C restartNeeded))))
      else bindE (if incoming = None then plain ruleCommands resp else Ret (Inr resp)) (restartAfterSync C restartNeeded))"

text \<open>What is done to the files, the manifest of an authoritative sync, and the decision to restart.\<close>

definition applySync ::
    "agentConfig \<Rightarrow> syncRequest \<Rightarrow> decodedSyncFile list \<Rightarrow> workspaceManifest option \<Rightarrow> string list \<Rightarrow> string list option \<Rightarrow> syncResponse syncStep" where
  "applySync C req files previous deletePaths incoming =
     bindE (writeFiles files) (\<lambda>changed.
     bindE (case incoming of
              Some paths \<Rightarrow> orStop 500 (Wrapf ''delete authoritative workspace files: %w'' [])
                              (deleteAuthoritativeWorkspaceCandidates previous deletePaths paths)
            | None \<Rightarrow> bindE (removeTrees deletePaths) (\<lambda>_. Ret (Inr deletePaths))) (\<lambda>deleted.
     let touched = changed @ deleted;
         matched = matchReloadRules [] (gc_ReloadRules C) touched;
         ruleCommands = (case previous of Some p \<Rightarrow> mergeReloadCommands [wm_PendingReloadCommands p, matched] | None \<Rightarrow> matched);
         resp = (syncedAs (sq_SourceRevision req) (sq_SourceDigest req))\<lparr>sr_Changed := changed, sr_Deleted := deleted\<rparr> in
     bindE (case incoming of
              Some paths \<Rightarrow> orStop 500 manifestFailed (writeWorkspaceManifest (authoritativeManifest req paths ruleCommands))
            | None \<Rightarrow> Ret (Inr ())) (\<lambda>_.
     bindE (orStop 502 (Wrapf ''runtime status: %w'' [])
              (shouldRestartAfterSync (sq_Restart req) (ruleCommands \<noteq> []) (gc_ReloadRules C \<noteq> []) touched)) (\<lambda>restartNeeded.
     finishSync C req files previous deletePaths incoming ruleCommands restartNeeded resp))))"

definition lockedSync :: "agentConfig \<Rightarrow> syncRequest \<Rightarrow> decodedSyncFile list \<Rightarrow> syncResponse syncStep" where
  "lockedSync C req files =
     bindE (orStop 500 (Wrapf ''open workspace: %w'' []) (openWorkspaceRoot (gc_WorkDir C))) (\<lambda>_.
     if isAuthoritative req \<and> (sq_SourceRevision req = 0 \<or> trimSpace (sq_SourceDigest req) = [])
     then stop 400 (Errorf ''sourceRevision and sourceDigest must be supplied together'' [])
     else bind (readWorkspaceManifest (gc_unmarshal C)) (\<lambda>read.
       let previous = (case read of Inr m \<Rightarrow> m | Inl _ \<Rightarrow> None) in
       case cleanDeletes (isAuthoritative req) (sq_DeletePaths req) of
         Inl e \<Rightarrow> stop 400 e
       | Inr deletePaths \<Rightarrow>
           if isAuthoritative req
           then bindE (checkBundle req files previous) (\<lambda>paths. applySync C req files previous deletePaths (Some paths))
           else applySync C req files previous deletePaths None))"

definition replyOf :: "'a agReply + 'a \<Rightarrow> 'a agReply" where
  "replyOf r = (case r of Inl reply \<Rightarrow> reply | Inr a \<Rightarrow> AgJSON 200 a)"

datatype syncBody = SyncTooLarge | SyncInvalid goError | SyncBody syncRequest

definition handleSync :: "agentConfig \<Rightarrow> string \<Rightarrow> string \<Rightarrow> syncBody \<Rightarrow> syncResponse agReply ag" where
  "handleSync C method header body =
     (if method \<noteq> ''POST'' then Ret (AgError 405 (Errorf ''method not allowed'' []))
      else (case authorizeControl C header of
        Some (status, e) \<Rightarrow> Ret (AgError status e)
      | None \<Rightarrow>
        (case body of
           SyncTooLarge \<Rightarrow> Ret (AgError 413 (Errorf ''sync request body exceeds %d bytes; send fewer or smaller files per request'' [''100663296'']))
         | SyncInvalid e \<Rightarrow> Ret (AgError 400 (Wrapf ''invalid JSON body: %w'' [] e))
         | SyncBody req \<Rightarrow>
             (case decodeSyncFiles (sq_Files req) True of
                Inl e \<Rightarrow> Ret (AgError (if errorsIs errSyncTooLarge e then 413 else 400) e)
              | Inr files \<Rightarrow>
                  Ask AgLock (\<lambda>_. bind (lockedSync C req files) (\<lambda>r. Ask AgUnlock (\<lambda>_. Ret (replyOf r))))))))"

end
