(* ===== verification/Agent_Sync_Contract.thy ===== *)
theory Agent_Sync_Contract
  imports Agent_Sync Agent_Exec_Contract
begin

text \<open>
  What a sync guarantees whatever the file system and the runtime answer: where it writes and removes, that an accepted bundle is the
  one on disk, that a revision never stands for two contents and never goes back, and that reload commands are carried until they have run.
\<close>

section \<open>Parents\<close>

lemma cleanElems_trailing: "list_all plainElem es \<Longrightarrow> cleanElems r st (es @ [[]]) = rev st @ es"
  by (induction es arbitrary: st) (auto simp: plainElem_def)

lemma joinWith_snoc: "bs \<noteq> [] \<Longrightarrow> joinWith sep (bs @ [e]) = joinWith sep bs @ sep @ e"
  by (induction sep bs rule: joinWith.induct) auto

lemma joinWith_splitAll: "joinWith [d] (splitAll d s) = s"
proof (induction s)
  case (Cons c s)
  show ?case
  proof (cases "splitAll d s")
    case Nil
    then show ?thesis by (metis splitAll_not_Nil)
  next
    case inner: (Cons w ws)
    then show ?thesis using Cons by (cases ws) auto
  qed
qed simp

lemma pathDir_elems:
  assumes p: "list_all plainElem (splitAll (CHR ''/'') p)"
  shows "pathDir p = (let bs = butlast (splitAll (CHR ''/'') p) in if bs = [] then ''.'' else joinWith ''/'' bs)"
proof -
  let ?es = "splitAll (CHR ''/'') p"
  let ?bs = "butlast ?es" and ?e = "List.last ?es"
  have es: "?es = ?bs @ [?e]" by simp
  have noslash: "CHR ''/'' \<notin> set ?e" using es splitAll_noslash [of ?e "CHR ''/''" p] last_in_set [of ?es] by simp
  have pl: "list_all plainElem ?bs" using p by (metis es list_all_append)
  show ?thesis
  proof (cases "?bs = []")
    case True
    then have "p = ?e" using joinWith_splitAll [of "CHR ''/''" p] es by (metis append_Nil joinWith.simps(2))
    with noslash have "CHR ''/'' \<notin> set p" by argo
    then have "\<forall>c \<in> set (rev p). c \<noteq> CHR ''/''" unfolding set_rev by blast
    then have "dropWhile (\<lambda>c. c \<noteq> CHR ''/'') (rev p) = []" unfolding dropWhile_eq_Nil_conv .
    then show ?thesis using True by (simp add: pathDir_def pathClean_def)
  next
    case False
    then have "p = joinWith ''/'' ?bs @ ''/'' @ ?e" using joinWith_splitAll [of "CHR ''/''" p] es joinWith_snoc by metis
    then have "rev p = rev (joinWith ''/'' ?bs @ ''/'' @ ?e)" by (rule arg_cong)
    also have "\<dots> = rev ?e @ CHR ''/'' # rev (joinWith ''/'' ?bs)" by simp
    finally have r: "rev p = rev ?e @ CHR ''/'' # rev (joinWith ''/'' ?bs)" .
    have "dropWhile (\<lambda>c. c \<noteq> CHR ''/'') (rev p) = CHR ''/'' # rev (joinWith ''/'' ?bs)"
      unfolding r by (subst dropWhile_append2) (use noslash in auto)
    then have d: "rev (dropWhile (\<lambda>c. c \<noteq> CHR ''/'') (rev p)) = joinWith ''/'' ?bs @ ''/''" by simp
    have ne: "joinWith ''/'' ?bs \<noteq> []" "hd (joinWith ''/'' ?bs @ ''/'') \<noteq> CHR ''/''"
    proof -
      obtain b cs where b: "?bs = b # cs" using False by (cases ?bs) auto
      then have "b \<noteq> []" "CHR ''/'' \<notin> set b" using pl by (auto simp: plainElem_def)
      then have "joinWith ''/'' ?bs \<noteq> [] \<and> hd (joinWith ''/'' ?bs) = hd b" unfolding b by (cases cs) auto
      then show "joinWith ''/'' ?bs \<noteq> []" "hd (joinWith ''/'' ?bs @ ''/'') \<noteq> CHR ''/''"
        using \<open>b \<noteq> []\<close> \<open>CHR ''/'' \<notin> set b\<close> by (auto, metis hd_in_set)
    qed
    have "joinWith ''/'' ?bs @ ''/'' = joinWith ''/'' (?bs @ [[]])" using joinWith_snoc [OF False, of "''/''" "[]"] by simp
    moreover have "splitAll (CHR ''/'') (joinWith ''/'' (?bs @ [[]])) = ?bs @ [[]]"
      by (rule splitAll_joinWith) (use pl in \<open>auto simp: list_all_iff plainElem_def\<close>)
    ultimately have s: "splitAll (CHR ''/'') (joinWith ''/'' ?bs @ ''/'') = ?bs @ [[]]" by simp
    show ?thesis
      unfolding pathDir_def d pathClean_def Let_def s cleanElems_trailing [OF pl] using ne False by simp
  qed
qed

definition parentOk :: "string \<Rightarrow> bool" where
  "parentOk d \<longleftrightarrow> list_all plainElem (splitAll (CHR ''/'') d)"

lemma pathDir_ok:
  assumes "confinedPath p" and "p \<noteq> ''.''" and "pathDir p \<noteq> ''.''"
  shows "parentOk (pathDir p) \<and> set (splitAll (CHR ''/'') (pathDir p)) \<subseteq> set (splitAll (CHR ''/'') p)"
proof -
  let ?es = "splitAll (CHR ''/'') p"
  have p: "list_all plainElem ?es" using assms(1,2) by (simp add: confinedPath_def)
  then have pl: "list_all plainElem (butlast ?es)" by (auto simp: list_all_iff dest: in_set_butlastD)
  have d: "pathDir p = joinWith ''/'' (butlast ?es)" "butlast ?es \<noteq> []"
    using assms(3) pathDir_elems [OF p] by (auto simp: Let_def split: if_splits)
  have "splitAll (CHR ''/'') (joinWith ''/'' (butlast ?es)) = butlast ?es"
    by (rule splitAll_joinWith [OF d(2)]) (use pl in \<open>auto simp: list_all_iff plainElem_def\<close>)
  then show ?thesis using pl unfolding parentOk_def d(1) by (auto dest: in_set_butlastD)
qed

section \<open>Where a sync writes\<close>

text \<open>A path whose directories and name are not reserved, or with \<open>strict\<close> off any path of the workspace.\<close>

definition targetOk :: "bool \<Rightarrow> string \<Rightarrow> bool" where
  "targetOk strict p \<longleftrightarrow> (if strict then managedPath p else workspacePath p)"

definition dirOk :: "bool \<Rightarrow> string \<Rightarrow> bool" where
  "dirOk strict d \<longleftrightarrow> parentOk d \<and> (strict \<longrightarrow> (\<forall>part \<in> set (splitAll (CHR ''/'') d). \<not> reservedComponent part))"

fun confinedAsk :: "string \<Rightarrow> bool \<Rightarrow> agAsk \<Rightarrow> bool" where
  "confinedAsk workdir strict (AgMkdirAll l) \<longleftrightarrow> l = OnHost workdir \<or> (\<exists>d. l = InRoot d \<and> dirOk strict d)"
| "confinedAsk workdir strict (AgOpenRoot d) \<longleftrightarrow> d = workdir"
| "confinedAsk workdir strict (AgWriteFile l content) \<longleftrightarrow> l = InRoot manifestTmp \<or> (\<exists>p. l = InRoot p \<and> targetOk strict p)"
| "confinedAsk workdir strict (AgRename a b) \<longleftrightarrow> a = InRoot manifestTmp \<and> b = InRoot workspaceManifestName"
| "confinedAsk workdir strict (AgRemove l) \<longleftrightarrow> l = InRoot manifestTmp \<or> (\<exists>p. l = InRoot p \<and> workspacePath p)"
| "confinedAsk workdir strict (AgRemoveAll l) \<longleftrightarrow> \<not> strict \<and> (\<exists>p. l = InRoot p \<and> workspacePath p)"
| "confinedAsk workdir strict AgLock \<longleftrightarrow> False"
| "confinedAsk workdir strict AgUnlock \<longleftrightarrow> False"
| "confinedAsk workdir strict q \<longleftrightarrow> True"

abbreviation confinedProg :: "string \<Rightarrow> bool \<Rightarrow> 'a ag \<Rightarrow> bool" where
  "confinedProg workdir strict p \<equiv> onlyAsks (confinedAsk workdir strict) p"

lemma calls_confined [footprint]:
  "confinedProg w st (lstat l)" "confinedProg w st (readFile l)" "confinedProg w st (streamFile l)"
  "confinedProg w st (agGet f (AgStat l))" "confinedProg w st (agGet g AgStatus)" "confinedProg w st (runtimeReload cs)"
  "confinedProg w st (agDo AgRestart)" "confinedProg w st (agDo AgExitContainer)"
  by (simp_all add: lstat_def readFile_def streamFile_def agGet_def runtimeReload_def agDo_def)

lemma openWorkspaceRoot_confined [footprint]: "confinedProg w st (openWorkspaceRoot w)"
  by (auto simp: openWorkspaceRoot_def agDo_def split: option.split)

lemma walkNoSymlink_confined: "confinedProg w st (walkNoSymlink ps b)"
  by (induction ps b rule: walkNoSymlink.induct) (auto simp: footprint intro!: onlyAsks_bind split: sum.split)

lemma checks_confined [footprint]:
  "confinedProg w st (ensureExecPathNoSymlink clean b)" "confinedProg w st (readWorkspaceManifest U)"
  "confinedProg w st (digesterAddFile d clean)" "confinedProg w st (workspaceFileContentChanged clean c)"
  by (auto simp: ensureExecPathNoSymlink_def walkNoSymlink_confined readWorkspaceManifest_def digesterAddFile_def
      workspaceFileContentChanged_def footprint intro!: onlyAsks_bind onlyAsks_bindE split: sum.split)

lemma digestOnDisk_confined: "confinedProg w st (digestOnDisk d ps)"
  by (induction d ps rule: digestOnDisk.induct) (auto simp: footprint intro!: onlyAsks_bindE)

lemma verify_confined [footprint]: "confinedProg w st (verifyWorkspaceManifest m)"
  by (auto simp: verifyWorkspaceManifest_def digestOnDisk_confined intro!: onlyAsks_bindE split: sum.split)

lemma writeManifest_confined [footprint]: "confinedProg w st (writeWorkspaceManifest m)"
  by (auto simp: writeWorkspaceManifest_def agDo_def Let_def intro!: onlyAsks_bindE split: sum.split option.split)

lemma remove_confined [footprint]: "confinedProg w st (removeManagedWorkspaceFile raw)"
  by (auto simp: removeManagedWorkspaceFile_def footprint agDo_def cleanWorkspacePath_ok
      intro!: onlyAsks_bind onlyAsks_bindE split: sum.split option.split)

lemma targetOk_workspace: "targetOk st p \<Longrightarrow> workspacePath p"
  by (auto simp: targetOk_def managedPath_def split: if_splits)

lemma pathDir_dirOk:
  assumes t: "targetOk st p" and "pathDir p \<noteq> ''.''"
  shows "dirOk st (pathDir p)"
proof -
  have "confinedPath p \<and> p \<noteq> ''.''" using targetOk_workspace [OF t] unfolding workspacePath_def by blast
  then have d: "parentOk (pathDir p)" "set (splitAll (CHR ''/'') (pathDir p)) \<subseteq> set (splitAll (CHR ''/'') p)"
    using pathDir_ok [of p] assms(2) by blast+
  moreover have "\<not> reservedComponent part" if "st" "part \<in> set (splitAll (CHR ''/'') p)" for part
    using t that unfolding targetOk_def managedPath_def by (simp only: if_True) blast
  ultimately show ?thesis unfolding dirOk_def by blast
qed

lemma writeFile_confined: "targetOk st p \<Longrightarrow> confinedProg w st (writeWorkspaceFile p content)"
  by (auto simp: writeWorkspaceFile_def agDo_def Let_def pathDir_dirOk intro!: onlyAsks_bindE onlyAsks_wrapE)

lemma orStop_confined: "confinedProg w st p \<Longrightarrow> confinedProg w st (orStop status f p)"
  unfolding orStop_def by (rule onlyAsks_wrapE)

abbreviation bundleOk :: "bool \<Rightarrow> decodedSyncFile list \<Rightarrow> bool" where
  "bundleOk st files \<equiv> (\<forall>f \<in> set files. targetOk st (df_Path f))"

lemma writeOne_confined: "targetOk st (df_Path f) \<Longrightarrow> confinedProg w st (writeOne f)"
  by (auto simp: writeOne_def Let_def footprint writeFile_confined intro!: onlyAsks_bindE onlyAsks_bind orStop_confined)

lemma writeFiles_confined: "bundleOk st files \<Longrightarrow> confinedProg w st (writeFiles files)"
  by (induction files) (auto simp: writeOne_confined intro!: onlyAsks_bindE)

lemma restore_confined: "bundleOk st files \<Longrightarrow> confinedProg w st (restoreAuthoritativeWorkspaceFiles files)"
proof -
  have "bundleOk st files \<Longrightarrow> confinedProg w st (restoreFiles files)"
    by (induction files) (auto simp: Let_def footprint writeFile_confined intro!: onlyAsks_bindE onlyAsks_bind onlyAsks_wrapE)
  then show "bundleOk st files \<Longrightarrow> ?thesis" by (simp add: restoreAuthoritativeWorkspaceFiles_def split: sum.split)
qed

lemma deletes_confined [footprint]: "confinedProg w st (deleteAuthoritativeWorkspaceCandidates previous ds incoming)"
proof -
  have "confinedProg w st (deleteCandidates m incoming ps)" for m ps
    by (induction m incoming ps rule: deleteCandidates.induct) (auto simp: footprint intro!: onlyAsks_bindE onlyAsks_wrapE)
  then show ?thesis by (simp add: deleteAuthoritativeWorkspaceCandidates_def)
qed

lemma removeTrees_confined: "\<forall>d \<in> set ds. workspacePath d \<Longrightarrow> confinedProg w False (removeTrees ds)"
  by (induction ds) (auto simp: agDo_def intro!: onlyAsks_bindE orStop_confined)

lemma stampFiles_confined: "confinedProg w st (stampFiles d ps)"
  by (induction d ps rule: stampFiles.induct) (auto simp: footprint intro!: onlyAsks_bind onlyAsks_bindE onlyAsks_wrapE split: sum.split)

lemma stamp_confined [footprint]: "confinedProg w st (stampPlain previous written ds pending resp)"
  by (auto simp: stampPlain_def stampPlainSyncManifest_def stampFiles_confined footprint
      intro!: onlyAsks_bindE orStop_confined split: sum.split)

lemma repair_confined: "bundleOk st files \<Longrightarrow> confinedProg w st (repairAuthoritative files m previous ds paths)"
  by (auto simp: repairAuthoritative_def footprint restore_confined intro!: onlyAsks_bindE orStop_confined)

lemma restart_confined [footprint]: "confinedProg w st (restartAfterSync C needed resp)"
  by (auto simp: restartAfterSync_def footprint intro!: onlyAsks_bindE orStop_confined)

lemma shouldRestart_confined [footprint]: "confinedProg w st (shouldRestartAfterSync policy a b touched)"
  by (auto simp: shouldRestartAfterSync_def Let_def footprint intro!: onlyAsks_bindE)

lemma finishSync_confined: "bundleOk st files \<Longrightarrow> confinedProg w st (finishSync C req files previous ds incoming cmds needed resp)"
  by (auto simp: finishSync_def Let_def footprint repair_confined
      intro!: onlyAsks_bind onlyAsks_bindE orStop_confined split: option.split)

lemma applySync_confined:
  assumes "bundleOk st files" and "incoming = None \<Longrightarrow> \<not> st \<and> (\<forall>d \<in> set ds. workspacePath d)"
  shows "confinedProg w st (applySync C req files previous ds incoming)"
  using assms
  by (auto simp: applySync_def Let_def footprint writeFiles_confined finishSync_confined removeTrees_confined
      intro!: onlyAsks_bindE orStop_confined split: option.split)

subsection \<open>The checks of the paths\<close>

lemma decodeSyncEntries_paths:
  "decodeSyncEntries enforce n files = Inr out \<Longrightarrow> f \<in> set out \<Longrightarrow> workspacePath (df_Path f)"
proof (induction enforce n files arbitrary: out rule: decodeSyncEntries.induct)
  case (2 enforce n sf fs)
  obtain clean content binary rest where o: "cleanWorkspacePath (sf_Path sf) = Inr clean"
      "decodeSyncEntries enforce (n + length content) fs = Inr rest" "out = \<lparr>df_Path = clean, df_Content = content, df_Binary = binary\<rparr> # rest"
    using 2(2) by (auto simp: andThen_Inr split: if_splits)
  have "df_Path f = clean \<or> f \<in> set rest" using 2(3) o(3) by auto
  moreover have "f \<in> set rest \<Longrightarrow> workspacePath (df_Path f)"
    using 2(1) 2(2) o by (auto simp: andThen_Inr split: if_splits)
  ultimately show ?case using cleanWorkspacePath_ok [OF o(1)] by blast
qed simp

lemma decodeSyncFiles_paths: "decodeSyncFiles files e = Inr out \<Longrightarrow> f \<in> set out \<Longrightarrow> workspacePath (df_Path f)"
  by (auto simp: decodeSyncFiles_def decodeSyncEntries_paths split: if_splits)

lemma validateBundle_ok:
  assumes "validateBundle seen files = Inr paths" and "\<forall>f \<in> set files. workspacePath (df_Path f)"
  shows "(\<forall>f \<in> set files. managedPath (df_Path f)) \<and> set paths = set seen \<union> df_Path ` set files \<and> distinct (map df_Path files)
    \<and> set seen \<inter> df_Path ` set files = {}"
  using assms
proof (induction seen files rule: validateBundle.induct)
  case (2 seen f fs)
  have v: "validateManagedWorkspacePath (df_Path f) = Inr ()" "df_Path f \<notin> set seen" "validateBundle (df_Path f # seen) fs = Inr paths"
    using 2(2) by (auto simp: andThen_Inr split: if_splits)
  have "managedPath (df_Path f)" using validateManaged_ok [of "df_Path f"] v(1) 2(3) by simp
  moreover have "(\<forall>g \<in> set fs. managedPath (df_Path g)) \<and> set paths = set (df_Path f # seen) \<union> df_Path ` set fs
      \<and> distinct (map df_Path fs) \<and> set (df_Path f # seen) \<inter> df_Path ` set fs = {}"
    by (rule 2(1)) (use 2(2,3) v in \<open>auto simp: andThen_Inr split: if_splits\<close>)
  ultimately show ?case using v(2) by auto
qed auto

lemma cleanDeletes_ok:
  "cleanDeletes a raws = Inr ds \<Longrightarrow> \<forall>d \<in> set ds. workspacePath d \<and> (a \<longrightarrow> managedPath d)"
proof (induction raws arbitrary: ds)
  case (Cons raw raws)
  obtain clean rest where o: "cleanWorkspacePath raw = Inr clean" "a \<longrightarrow> validateManagedWorkspacePath clean = Inr ()"
      "cleanDeletes a raws = Inr rest" "ds = clean # rest"
    using Cons.prems by (auto simp: andThen_Inr split: if_splits)
  then show ?case using Cons.IH [OF o(3)] cleanWorkspacePath_ok [OF o(1)] validateManaged_ok [of clean] by auto
qed simp

lemma checkBundle_paths:
  assumes "\<forall>f \<in> set files. workspacePath (df_Path f)" and "validateAuthoritativeSyncFiles files = Inr paths"
  shows "bundleOk True files" "set paths = df_Path ` set files" "distinct (map df_Path files)"
  using validateBundle_ok [of "[]" files paths] assms by (auto simp: validateAuthoritativeSyncFiles_def targetOk_def)

lemma checkBundle_confined [footprint]: "confinedProg w st (checkBundle req files previous)"
  by (auto simp: checkBundle_def checkRevision_def stop_def Let_def footprint intro!: onlyAsks_bind onlyAsks_bindE split: sum.split option.split)

lemma lockedSync_confined:
  assumes "decodeSyncFiles (sq_Files req) True = Inr files"
  shows "confinedProg (gc_WorkDir C) (isAuthoritative req) (lockedSync C req files)"
proof -
  have f: "\<forall>f \<in> set files. workspacePath (df_Path f)" using decodeSyncFiles_paths [OF assms] by blast
  have auth: "confinedProg (gc_WorkDir C) True (bindE (checkBundle req files previous) (\<lambda>paths. applySync C req files previous ds (Some paths)))"
    for previous ds
  proof (cases "validateAuthoritativeSyncFiles files")
    case (Inr paths)
    then show ?thesis using checkBundle_paths(1) [OF f Inr]
      by (auto intro!: onlyAsks_bindE applySync_confined simp: footprint)
  qed (simp add: checkBundle_def stop_def)
  have plain: "confinedProg (gc_WorkDir C) False (applySync C req files previous ds None)" if "cleanDeletes a raws = Inr ds" for a raws previous ds
    using f cleanDeletes_ok [OF that] by (auto intro!: applySync_confined simp: targetOk_def)
  show ?thesis
    unfolding lockedSync_def
    by (cases "isAuthoritative req")
      (auto simp: stop_def Let_def footprint auth intro!: onlyAsks_bindE onlyAsks_bind orStop_confined split: sum.split dest!: plain)
qed

lemma run_onlyAsks: "onlyAsks P p \<Longrightarrow> run w p h = (h', a) \<Longrightarrow> \<exists>t. h' = h @ t \<and> (\<forall>e \<in> set t. P (fst e))"
proof (induction p arbitrary: h)
  case (Ask q k)
  have "run w (k (w h q)) (h @ [(q, w h q)]) = (h', a)" "onlyAsks P (k (w h q))" using Ask.prems by simp_all
  then obtain t where "h' = (h @ [(q, w h q)]) @ t" "\<forall>e \<in> set t. P (fst e)" using Ask.IH [OF rangeI] by blast
  then show ?case using Ask.prems(1) by (intro exI [of _ "(q, w h q) # t"]) simp
qed simp

text \<open>The request a body holds is an authoritative sync.\<close>

definition authoritativeBody :: "syncBody \<Rightarrow> bool" where
  "authoritativeBody body \<longleftrightarrow> (case body of SyncBody req \<Rightarrow> isAuthoritative req | _ \<Rightarrow> False)"

lemma handleSync_cases:
  "(\<exists>status e. handleSync C verb given body = Ret (AgError status e)) \<or>
   (\<exists>req files. body = SyncBody req \<and> decodeSyncFiles (sq_Files req) True = Inr files \<and> authorizeControl C given = None \<and>
      handleSync C verb given body = Ask AgLock (\<lambda>_. bind (lockedSync C req files) (\<lambda>r. Ask AgUnlock (\<lambda>_. Ret (replyOf r)))))"
  by (auto simp: handleSync_def split: syncBody.split option.split sum.split)

lemma handleSync_run:
  assumes "run w (handleSync C verb given body) [] = (tr, reply)"
  shows "(tr = [] \<and> (\<exists>status e. reply = AgError status e)) \<or>
    (\<exists>req files a b t r. body = SyncBody req \<and> decodeSyncFiles (sq_Files req) True = Inr files \<and> authorizeControl C given = None
       \<and> run w (lockedSync C req files) [(AgLock, a)] = ((AgLock, a) # t, r) \<and> tr = (AgLock, a) # t @ [(AgUnlock, b)] \<and> reply = replyOf r)"
  using handleSync_cases [of C verb given body]
proof (elim disjE exE conjE)
  fix req files
  assume r: "body = SyncBody req" "decodeSyncFiles (sq_Files req) True = Inr files" "authorizeControl C given = None"
    "handleSync C verb given body = Ask AgLock (\<lambda>_. bind (lockedSync C req files) (\<lambda>r. Ask AgUnlock (\<lambda>_. Ret (replyOf r))))"
  define a where "a = w [] AgLock"
  obtain h' x where hx: "run w (lockedSync C req files) [(AgLock, a)] = (h', x)" by force
  then obtain t where t: "h' = (AgLock, a) # t" using run_prefix [of "[(AgLock, a)]" w "lockedSync C req files"] by (auto simp: prefix_def)
  have "tr = (AgLock, a) # t @ [(AgUnlock, w h' AgUnlock)]" "reply = replyOf x"
    using assms hx t unfolding r(4) by (auto simp: run_bind a_def)
  then show ?thesis using r hx t by blast
qed (use assms in auto)

text \<open>C29: A sync touches nothing outside the workspace: every file it writes is a clean path below the root (for an authoritative sync one
  without reserved components), and so is every directory it makes; it removes only clean paths below the root, the manifest is
  only ever replaced by renaming its temporary file. All of it, reload and restart included, happens under the mutation lock, which
  is taken first, released last and at no time in between.\<close>

theorem sync_confined:
  assumes "run w (handleSync C verb given body) [] = (tr, reply)"
  shows "tr = [] \<or> (\<exists>a t b. tr = (AgLock, a) # t @ [(AgUnlock, b)]
    \<and> (\<forall>e \<in> set t. confinedAsk (gc_WorkDir C) (authoritativeBody body) (fst e) \<and> fst e \<noteq> AgLock \<and> fst e \<noteq> AgUnlock))"
  using handleSync_run [OF assms]
proof (elim disjE exE conjE)
  fix req files a b t r
  assume r: "body = SyncBody req" "decodeSyncFiles (sq_Files req) True = Inr files"
    "run w (lockedSync C req files) [(AgLock, a)] = ((AgLock, a) # t, r)" "tr = (AgLock, a) # t @ [(AgUnlock, b)]"
  obtain t' where "(AgLock, a) # t = [(AgLock, a)] @ t'" "\<forall>e \<in> set t'. confinedAsk (gc_WorkDir C) (isAuthoritative req) (fst e)"
    using run_onlyAsks [OF lockedSync_confined [OF r(2)] r(3)] by blast
  moreover have "q \<noteq> AgLock \<and> q \<noteq> AgUnlock" if "confinedAsk w st q" for w st q using that by auto
  ultimately show ?thesis using r(1,4) by (auto simp: authoritativeBody_def)
qed simp

section \<open>Revisions\<close>

text \<open>The manifest as \<^verbatim>\<open>readWorkspaceManifest\<close> takes it from an answer, and the one a sync found.\<close>

definition manifestOf :: "agentConfig \<Rightarrow> agAnswer \<Rightarrow> workspaceManifest option" where
  "manifestOf C a = (case ag_err a of Some _ \<Rightarrow> None
     | None \<Rightarrow> (case andThen (gc_unmarshal C (ag_bytes a)) checkManifest of Inr m \<Rightarrow> Some m | Inl _ \<Rightarrow> None))"

definition foundManifest :: "agentConfig \<Rightarrow> agHistory \<Rightarrow> workspaceManifest option" where
  "foundManifest C h =
     (case find (\<lambda>e. fst e = AgReadFile (InRoot workspaceManifestName)) h of Some e \<Rightarrow> manifestOf C (snd e) | None \<Rightarrow> None)"

definition manifestSeen :: "agentConfig \<Rightarrow> agHistory \<Rightarrow> workspaceManifest option \<Rightarrow> bool" where
  "manifestSeen C h p \<longleftrightarrow> (\<exists>e. find (\<lambda>e. fst e = AgReadFile (InRoot workspaceManifestName)) h = Some e \<and> manifestOf C (snd e) = p)"

lemma find_prefix: "prefix h h' \<Longrightarrow> find P h = Some e \<Longrightarrow> find P h' = Some e"
proof -
  have "find P xs = Some e \<Longrightarrow> find P (xs @ ys) = Some e" for xs ys by (induction xs) auto
  then show "prefix h h' \<Longrightarrow> find P h = Some e \<Longrightarrow> find P h' = Some e" by (auto simp: prefix_def)
qed

lemma manifestSeen_prefix: "manifestSeen C h p \<Longrightarrow> prefix h h' \<Longrightarrow> manifestSeen C h' p"
  unfolding manifestSeen_def by (elim exE conjE, drule (1) find_prefix, intro exI conjI)

lemma manifestSeen_found: "manifestSeen C h p \<Longrightarrow> foundManifest C h = p"
  by (auto simp: manifestSeen_def foundManifest_def)

text \<open>A revision follows another: a higher number, or the same one for the same content.\<close>

definition follows :: "workspaceManifest \<Rightarrow> workspaceManifest \<Rightarrow> bool" where
  "follows p m \<longleftrightarrow> wm_SourceRevision p < wm_SourceRevision m
     \<or> wm_SourceRevision p = wm_SourceRevision m \<and> normalizeSourceDigest (wm_SourceDigest p) = normalizeSourceDigest (wm_SourceDigest m)"

text \<open>What was left to reload is still to do, or was run with success.\<close>

definition carried :: "workspaceManifest \<Rightarrow> workspaceManifest \<Rightarrow> agHistory \<Rightarrow> bool" where
  "carried p m h \<longleftrightarrow> (\<forall>c \<in> set (wm_PendingReloadCommands p). c \<in> set (wm_PendingReloadCommands m)
     \<or> (\<exists>cmds a. (AgReload cmds, a) \<in> set h \<and> ag_err a = None \<and> c \<in> set cmds))"

lemma carried_mono: "carried p m h \<Longrightarrow> set h \<subseteq> set h' \<Longrightarrow> carried p m h'"
  unfolding carried_def by blast

text \<open>The manifest is installed right after its temporary file was written, and it succeeds the one found.\<close>

definition installOk :: "agentConfig \<Rightarrow> agHistory \<Rightarrow> agAsk \<Rightarrow> bool" where
  "installOk C h q \<longleftrightarrow> (\<forall>a b. q = AgRename a b \<longrightarrow>
     (\<exists>h0 m r. h = h0 @ [(AgWriteFile (InRoot manifestTmp) (marshalManifest m), r)] \<and> ag_err r = None
        \<and> (\<forall>p. foundManifest C h0 = Some p \<longrightarrow> follows p m \<and> carried p m h0)))"

definition notRename :: "agAsk \<Rightarrow> bool" where
  "notRename q \<longleftrightarrow> (\<forall>a b. q \<noteq> AgRename a b)"

lemma notRename_ok: "notRename q \<Longrightarrow> installOk C h q"
  by (auto simp: notRename_def installOk_def)

lemma wp_notRename: "onlyAsks notRename p \<Longrightarrow> (\<And>x h'. prefix h h' \<Longrightarrow> Q x h') \<Longrightarrow> wp (installOk C) p Q h"
  by (rule wp_onlyAsks [where P = notRename]) (simp_all add: notRename_ok)

lemma writeManifest_install:
  assumes "\<And>p. foundManifest C h = Some p \<Longrightarrow> follows p m \<and> carried p m h" and Q: "\<And>x h'. prefix h h' \<Longrightarrow> Q x h'"
  shows "wp (installOk C) (writeWorkspaceManifest m) Q h"
proof -
  let ?m = "m\<lparr>wm_Files := sort (wm_Files m)\<rparr>"
  have f: "follows p ?m \<and> carried p ?m h" if "foundManifest C h = Some p" for p
    using assms(1) [OF that] by (simp add: follows_def carried_def)
  have "installOk C (h @ [(AgWriteFile (InRoot manifestTmp) (marshalManifest ?m), r)]) (AgRename a b)" if "ag_err r = None" for r a b
    unfolding installOk_def using that f by blast
  moreover have "installOk C h' (AgWriteFile l x)" "installOk C h' (AgRemove l)" for h' l x by (simp_all add: notRename_ok notRename_def)
  ultimately show ?thesis using Q
    by (auto simp: writeWorkspaceManifest_def Let_def agDo_def split: option.split)
qed

subsection \<open>Pieces without an installation\<close>

lemma calls_notRename [footprint]:
  "onlyAsks notRename (lstat l)" "onlyAsks notRename (readFile l)" "onlyAsks notRename (streamFile l)"
  "onlyAsks notRename (agGet f (AgStat l))" "onlyAsks notRename (agGet g AgStatus)" "onlyAsks notRename (runtimeReload cs)"
  "onlyAsks notRename (agDo AgRestart)" "onlyAsks notRename (agDo AgExitContainer)" "onlyAsks notRename (agDo (AgRemove l))"
  "onlyAsks notRename (agDo (AgRemoveAll l))" "onlyAsks notRename (agDo (AgMkdirAll l))" "onlyAsks notRename (agDo (AgWriteFile l c))"
  by (simp_all add: lstat_def readFile_def streamFile_def agGet_def runtimeReload_def agDo_def notRename_def)

lemma walkNoSymlink_notRename: "onlyAsks notRename (walkNoSymlink ps b)"
  by (induction ps b rule: walkNoSymlink.induct) (auto simp: footprint intro!: onlyAsks_bind split: sum.split)

lemma checks_notRename [footprint]:
  "onlyAsks notRename (ensureExecPathNoSymlink clean b)" "onlyAsks notRename (readWorkspaceManifest U)"
  "onlyAsks notRename (digesterAddFile d clean)" "onlyAsks notRename (workspaceFileContentChanged clean c)"
  "onlyAsks notRename (writeWorkspaceFile clean c)"
  by (auto simp: ensureExecPathNoSymlink_def walkNoSymlink_notRename readWorkspaceManifest_def digesterAddFile_def writeWorkspaceFile_def
      workspaceFileContentChanged_def Let_def footprint intro!: onlyAsks_bind onlyAsks_bindE onlyAsks_wrapE split: sum.split)

lemma digestOnDisk_notRename: "onlyAsks notRename (digestOnDisk d ps)"
  by (induction d ps rule: digestOnDisk.induct) (auto simp: footprint intro!: onlyAsks_bindE)

lemma verify_notRename [footprint]: "onlyAsks notRename (verifyWorkspaceManifest m)"
  by (auto simp: verifyWorkspaceManifest_def digestOnDisk_notRename intro!: onlyAsks_bindE split: sum.split)

lemma remove_notRename [footprint]: "onlyAsks notRename (removeManagedWorkspaceFile raw)"
  by (auto simp: removeManagedWorkspaceFile_def footprint intro!: onlyAsks_bind onlyAsks_bindE split: sum.split)

lemma orStop_notRename: "onlyAsks notRename p \<Longrightarrow> onlyAsks notRename (orStop status f p)"
  unfolding orStop_def by (rule onlyAsks_wrapE)

lemma writeOne_notRename: "onlyAsks notRename (writeOne f)"
  by (auto simp: writeOne_def Let_def footprint intro!: onlyAsks_bindE onlyAsks_bind orStop_notRename)

lemma writeFiles_notRename [footprint]: "onlyAsks notRename (writeFiles files)"
  by (induction files) (auto simp: writeOne_notRename intro!: onlyAsks_bindE)

lemma restore_notRename [footprint]: "onlyAsks notRename (restoreAuthoritativeWorkspaceFiles files)"
proof -
  have "onlyAsks notRename (restoreFiles files)"
    by (induction files) (auto simp: Let_def footprint intro!: onlyAsks_bindE onlyAsks_bind onlyAsks_wrapE)
  then show ?thesis by (simp add: restoreAuthoritativeWorkspaceFiles_def split: sum.split)
qed

lemma deletes_notRename [footprint]: "onlyAsks notRename (deleteAuthoritativeWorkspaceCandidates previous ds incoming)"
proof -
  have "onlyAsks notRename (deleteCandidates m incoming ps)" for m ps
    by (induction m incoming ps rule: deleteCandidates.induct) (auto simp: footprint intro!: onlyAsks_bindE onlyAsks_wrapE)
  then show ?thesis by (simp add: deleteAuthoritativeWorkspaceCandidates_def)
qed

lemma removeTrees_notRename [footprint]: "onlyAsks notRename (removeTrees ds)"
  by (induction ds) (auto simp: footprint intro!: onlyAsks_bindE orStop_notRename)

lemma stampFiles_notRename [footprint]: "onlyAsks notRename (stampFiles d ps)"
  by (induction d ps rule: stampFiles.induct) (auto simp: footprint intro!: onlyAsks_bind onlyAsks_bindE onlyAsks_wrapE split: sum.split)

lemma tail_notRename [footprint]:
  "onlyAsks notRename (restartAfterSync C needed resp)" "onlyAsks notRename (shouldRestartAfterSync policy a b touched)"
  "onlyAsks notRename (checkBundle req files previous)"
  by (auto simp: restartAfterSync_def shouldRestartAfterSync_def checkBundle_def checkRevision_def stop_def Let_def footprint
      intro!: onlyAsks_bind onlyAsks_bindE orStop_notRename split: sum.split option.split)

subsection \<open>The installations\<close>

abbreviation installs :: "agentConfig \<Rightarrow> 'a ag \<Rightarrow> agHistory \<Rightarrow> bool" where
  "installs C p h \<equiv> wp (installOk C) p (\<lambda>_ _. True) h"

lemma installs_bindE:
  "installs C p h \<Longrightarrow> (\<And>x h'. prefix h h' \<Longrightarrow> installs C (f x) h') \<Longrightarrow> installs C (bindE p f) h"
  unfolding wp_bindE by (erule wp_mono) (auto split: sum.split)

lemma installs_bind:
  "installs C p h \<Longrightarrow> (\<And>x h'. prefix h h' \<Longrightarrow> installs C (f x) h') \<Longrightarrow> installs C (bind p f) h"
  unfolding wp_bind by (erule wp_mono) auto

lemma installs_orStop: "installs C p h \<Longrightarrow> installs C (orStop status f p) h"
  unfolding orStop_def wp_wrapE by (erule wp_mono) auto

lemma installs_none: "onlyAsks notRename p \<Longrightarrow> installs C p h"
  by (rule wp_notRename) auto

text \<open>\<open>okNext\<close>: installing \<open>m\<close> would be right now.\<close>

definition okNext :: "workspaceManifest option \<Rightarrow> workspaceManifest \<Rightarrow> agHistory \<Rightarrow> bool" where
  "okNext previous m h \<longleftrightarrow> (\<forall>p. previous = Some p \<longrightarrow> follows p m \<and> carried p m h)"

lemma okNext_prefix: "okNext previous m h \<Longrightarrow> prefix h h' \<Longrightarrow> okNext previous m h'"
  unfolding okNext_def using carried_mono set_mono_prefix by blast

lemma installs_manifest: "manifestSeen C h previous \<Longrightarrow> okNext previous m h \<Longrightarrow> installs C (writeWorkspaceManifest m) h"
  by (rule writeManifest_install) (auto simp: okNext_def dest: manifestSeen_found)

lemma less_Suc_word:
  assumes "(r :: 64 word) \<noteq> - 1"
  shows "r < r + 1"
proof -
  have "1 + r \<noteq> 0" using assms by (metis add_eq_0_iff)
  then show ?thesis by (simp add: word_less_nat_alt unatSuc add.commute)
qed

lemma stamped_follows:
  assumes "stampedManifest (Some p) digest files pending = Inr m"
  shows "follows p m" "wm_PendingReloadCommands m = pending"
  using assms by (auto simp: stampedManifest_def follows_def less_Suc_word split: if_splits)

lemma installs_stamp:
  assumes seen: "manifestSeen C h previous"
    and pending: "\<And>p. previous = Some p \<Longrightarrow> \<forall>c \<in> set (wm_PendingReloadCommands p). c \<in> set pending
        \<or> (\<exists>cmds a. (AgReload cmds, a) \<in> set h \<and> ag_err a = None \<and> c \<in> set cmds)"
  shows "installs C (stampPlain previous written ds pending resp) h"
proof -
  have "installs C (writeWorkspaceManifest m) h'"
    if "prefix h h'" "stampedManifest previous digest files pending = Inr m" for h' digest files m
  proof (rule installs_manifest [OF manifestSeen_prefix [OF seen that(1)]])
    have "carried p m h" if "previous = Some p" for p
      using pending [OF that] stamped_follows(2) \<open>stampedManifest previous digest files pending = Inr m\<close> that
      by (auto simp: carried_def)
    then show "okNext previous m h'"
      using that stamped_follows(1) carried_mono set_mono_prefix unfolding okNext_def by blast
  qed
  then have "installs C (bindE (stampFiles [] (stampManaged previous written ds)) (\<lambda>(d, files).
      if previous = None \<and> files = [] then Ret (Inr None)
      else (case stampedManifest previous (digesterSum d) files pending of
             Inl e \<Rightarrow> Ret (Inl e) | Inr manifest \<Rightarrow> bindE (writeWorkspaceManifest manifest) (\<lambda>_. Ret (Inr (Some manifest)))))) h"
    by (intro installs_bindE [OF installs_none [OF stampFiles_notRename]]) (auto intro!: installs_bindE split: sum.split)
  then show ?thesis unfolding stampPlain_def stampPlainSyncManifest_def by (rule installs_bindE [OF installs_orStop]) simp
qed

lemma installs_repair:
  assumes "manifestSeen C h previous" and "okNext previous m h"
  shows "installs C (repairAuthoritative files m previous ds paths) h"
  unfolding repairAuthoritative_def
proof (rule installs_bindE [OF installs_orStop [OF installs_none [OF restore_notRename]]])
  fix h' assume p: "prefix h h'"
  show "installs C (bindE (orStop 500 (Wrapf ''restore workspace manifest after reload: %w'' []) (writeWorkspaceManifest m)) (\<lambda>_.
     bindE (orStop 500 (Wrapf ''re-delete authoritative workspace files after reload: %w'' [])
              (deleteAuthoritativeWorkspaceCandidates previous ds paths)) (\<lambda>_.
     orStop 500 (Wrapf ''workspace manifest verification after reload: %w'' []) (verifyWorkspaceManifest m)))) h'"
    by (rule installs_bindE [OF installs_orStop [OF installs_manifest [OF manifestSeen_prefix [OF assms(1) p] okNext_prefix [OF assms(2) p]]]])
      (rule installs_none, intro onlyAsks_bindE orStop_notRename deletes_notRename verify_notRename)
qed

subsection \<open>Pending commands\<close>

text \<open>The pending commands of a manifest that was read are trimmed, so merging keeps them.\<close>

definition pendingTrimmed :: "workspaceManifest option \<Rightarrow> bool" where
  "pendingTrimmed previous \<longleftrightarrow> (\<forall>p. previous = Some p \<longrightarrow> (\<forall>c \<in> set (wm_PendingReloadCommands p). trimSpace c = c \<and> c \<noteq> []))"

lemma checkManifestPending_trimmed: "checkManifestPending i cs = Inr out \<Longrightarrow> c \<in> set out \<Longrightarrow> trimSpace c = c \<and> c \<noteq> []"
proof (induction cs arbitrary: i out)
  case (Cons r cs)
  then obtain rest where "checkManifestPending (Suc i) cs = Inr rest" "out = trimSpace r # rest" "trimSpace r \<noteq> []"
    by (auto simp: Let_def andThen_Inr split: if_splits)
  then show ?case using Cons.IH [of "Suc i" rest] Cons.prems(2) by auto
qed simp

lemma manifestOf_trimmed: "pendingTrimmed (manifestOf C a)"
proof -
  have "trimSpace c = c \<and> c \<noteq> []" if "checkManifest m = Inr p" "c \<in> set (wm_PendingReloadCommands p)" for m p c
    using that by (auto simp: checkManifest_def andThen_Inr split: if_splits dest: checkManifestPending_trimmed)
  then show ?thesis
    by (auto simp: pendingTrimmed_def manifestOf_def andThen_Inr split: option.splits sum.splits)
qed

lemma mergeCommands_keeps: "c \<in> set cs \<Longrightarrow> trimSpace c = c \<Longrightarrow> c \<noteq> [] \<Longrightarrow> c \<in> set seen \<or> c \<in> set (mergeCommands seen cs)"
  by (induction seen cs rule: mergeCommands.induct) (auto simp: Let_def)

lemma merge_keeps_pending:
  "pendingTrimmed (Some p) \<Longrightarrow> set (wm_PendingReloadCommands p) \<subseteq> set (mergeReloadCommands [wm_PendingReloadCommands p, matched])"
  unfolding mergeReloadCommands_def pendingTrimmed_def
  using mergeCommands_keeps [of _ "concat [wm_PendingReloadCommands p, matched]" "[]"] by auto

text \<open>\<open>due\<close>: the commands cover what was pending.\<close>

definition coversPending :: "workspaceManifest option \<Rightarrow> string list \<Rightarrow> bool" where
  "coversPending previous cmds \<longleftrightarrow> (\<forall>p. previous = Some p \<longrightarrow> set (wm_PendingReloadCommands p) \<subseteq> set cmds)"

text \<open>\<open>reloaded\<close>: the commands were run with success.\<close>

definition reloaded :: "string list \<Rightarrow> agHistory \<Rightarrow> bool" where
  "reloaded cmds h \<longleftrightarrow> (\<exists>a. (AgReload cmds, a) \<in> set h \<and> ag_err a = None)"

lemma reloaded_prefix: "reloaded cmds h \<Longrightarrow> prefix h h' \<Longrightarrow> reloaded cmds h'"
  unfolding reloaded_def using set_mono_prefix by blast

definition supersedes :: "workspaceManifest option \<Rightarrow> syncRequest \<Rightarrow> bool" where
  "supersedes previous req \<longleftrightarrow> (\<forall>p. previous = Some p \<longrightarrow> follows p (authoritativeManifest req [] []))"

lemma covers_carried:
  assumes "coversPending previous cmds" and "pending = cmds \<or> reloaded cmds h" and "previous = Some p"
  shows "\<forall>c \<in> set (wm_PendingReloadCommands p). c \<in> set pending \<or> (\<exists>cmds a. (AgReload cmds, a) \<in> set h \<and> ag_err a = None \<and> c \<in> set cmds)"
proof -
  have "set (wm_PendingReloadCommands p) \<subseteq> set cmds" using assms(1,3) by (simp add: coversPending_def)
  then show ?thesis using assms(2) unfolding reloaded_def by blast
qed

lemma okNext_authoritative:
  assumes "supersedes previous req" and "coversPending previous cmds" and "pending = cmds \<or> reloaded cmds h"
  shows "okNext previous (authoritativeManifest req paths pending) h"
  unfolding okNext_def
proof (intro allI impI conjI)
  fix p assume p: "previous = Some p"
  show "follows p (authoritativeManifest req paths pending)"
    using assms(1) p by (simp add: supersedes_def follows_def authoritativeManifest_def)
  show "carried p (authoritativeManifest req paths pending) h"
    using covers_carried [OF assms(2,3) p] by (simp add: carried_def authoritativeManifest_def)
qed

lemma installs_plain:
  assumes "manifestSeen C h previous" and "coversPending previous cmds" and "pending = cmds \<or> reloaded cmds h"
  shows "installs C (stampPlain previous written ds pending resp) h"
  by (rule installs_stamp [OF assms(1)]) (rule covers_carried [OF assms(2,3)])

lemma installs_restart: "installs C (restartAfterSync C needed resp) h"
  by (rule installs_none [OF tail_notRename(1)])

lemma installs_runtimeReload:
  assumes "\<And>a. installs C (f (ag_err a)) (h @ [(AgReload cmds, a)])"
  shows "installs C (bind (runtimeReload cmds) f) h"
  using assms by (simp add: runtimeReload_def notRename_ok notRename_def)

lemma finishSync_installs:
  assumes seen: "manifestSeen C h previous" and cover: "coversPending previous cmds" and newer: "incoming \<noteq> None \<Longrightarrow> supersedes previous req"
  shows "installs C (finishSync C req files previous ds incoming cmds needed resp) h"
proof (cases "needed \<and> cmds \<noteq> []")
  case False
  have "installs C (bindE (if incoming = None then stampPlain previous (map df_Path files) ds cmds resp else Ret (Inr resp))
      (restartAfterSync C needed)) h"
    by (cases incoming) (auto intro!: installs_bindE installs_restart installs_plain [OF seen cover])
  then show ?thesis unfolding finishSync_def Let_def if_not_P [OF False] .
next
  case True
  show ?thesis
    unfolding finishSync_def Let_def if_P [OF True]
  proof (rule installs_runtimeReload, goal_cases)
    case (1 a)
    let ?h = "h @ [(AgReload cmds, a)]"
    have seen1: "manifestSeen C ?h previous" using manifestSeen_prefix [OF seen] by simp
    have ran: "reloaded cmds ?h" if "ag_err a = None" using that unfolding reloaded_def by auto
    show ?case
    proof (cases incoming)
      case None
      have "installs C (bindE (stampPlain previous (map df_Path files) ds [] r) (restartAfterSync C needed)) ?h" if "ag_err a = None" for r
        by (rule installs_bindE [OF installs_plain [OF seen1 cover]]) (use ran [OF that] in \<open>auto intro: installs_restart\<close>)
      moreover have "installs C (stampPlain previous (map df_Path files) ds cmds r) ?h" for r
        by (rule installs_plain [OF seen1 cover]) simp
      ultimately show ?thesis using None by (cases "ag_err a") simp_all
    next
      case (Some paths)
      have next_ok: "okNext previous (authoritativeManifest req paths cmds) ?h"
        by (rule okNext_authoritative [OF _ cover]) (use newer Some in auto)
      have clear: "installs C (bindE (orStop 500 f (writeWorkspaceManifest (authoritativeManifest req paths []))) (\<lambda>_. restartAfterSync C needed r)) h'"
        if "prefix ?h h'" "ag_err a = None" for h' f r
      proof (rule installs_bindE [OF installs_orStop [OF installs_manifest [OF manifestSeen_prefix [OF seen1 that(1)]]]])
        show "okNext previous (authoritativeManifest req paths []) h'"
          by (rule okNext_authoritative [OF _ cover]) (use newer Some reloaded_prefix [OF ran [OF that(2)] that(1)] in auto)
      qed (rule installs_restart)
      show ?thesis
        unfolding Some option.case
      proof (rule installs_bindE [OF installs_repair [OF seen1 next_ok]], goal_cases)
        case (1 x h')
        then show ?case using clear [OF 1] by (cases "ag_err a") simp_all
      qed
    qed
  qed
qed

lemma applySync_installs:
  assumes seen: "manifestSeen C h previous" and trimmed: "pendingTrimmed previous" and newer: "incoming \<noteq> None \<Longrightarrow> supersedes previous req"
  shows "installs C (applySync C req files previous ds incoming) h"
  unfolding applySync_def
proof (rule installs_bindE [OF installs_none [OF writeFiles_notRename]], rule installs_bindE, goal_cases)
  case (1 differing h1)
  show ?case by (cases incoming) (auto intro!: installs_none onlyAsks_bindE orStop_notRename simp: footprint)
next
  case (2 differing h1 deleted h2)
  have seen2: "manifestSeen C h2 previous" using manifestSeen_prefix [OF manifestSeen_prefix [OF seen 2(1)] 2(2)] .
  define matched where "matched = matchReloadRules [] (gc_ReloadRules C) (differing @ deleted)"
  define cmds where "cmds = (case previous of Some p \<Rightarrow> mergeReloadCommands [wm_PendingReloadCommands p, matched] | None \<Rightarrow> matched)"
  have cover: "coversPending previous cmds"
    using merge_keeps_pending trimmed by (cases previous) (auto simp: coversPending_def cmds_def)
  show ?case
    unfolding Let_def matched_def [symmetric] cmds_def [symmetric]
  proof (rule installs_bindE, goal_cases)
    case 1
    show ?case
    proof (cases incoming)
      case (Some paths)
      have "okNext previous (authoritativeManifest req paths cmds) h2" by (rule okNext_authoritative [OF _ cover]) (use newer Some in auto)
      then show ?thesis using installs_orStop [OF installs_manifest [OF seen2]] Some by simp
    qed simp
  next
    case (2 x h3)
    then show ?case
      by (intro installs_bindE [OF installs_orStop [OF installs_none [OF tail_notRename(2)]]]
          finishSync_installs [OF manifestSeen_prefix [OF manifestSeen_prefix [OF seen2]] cover newer])
  qed
qed

lemma supersedes_None [simp]: "supersedes None req"
  by (simp add: supersedes_def)

lemma supersedes_Some:
  "supersedes (Some p) req \<longleftrightarrow> wm_SourceRevision p < sq_SourceRevision req
     \<or> wm_SourceRevision p = sq_SourceRevision req \<and> normalizeSourceDigest (wm_SourceDigest p) = normalizeSourceDigest (sq_SourceDigest req)"
  by (simp add: supersedes_def follows_def authoritativeManifest_def)

lemma checkRevision_supersedes:
  assumes digest: "normalizeSourceDigest (sq_SourceDigest req) = got"
    and Q: "\<And>x h'. prefix h h' \<Longrightarrow> supersedes previous req \<Longrightarrow> Q (Inr x) h'" "\<And>e h'. prefix h h' \<Longrightarrow> Q (Inl e) h'"
  shows "wp (installOk C) (checkRevision req got previous) Q h"
proof (cases previous)
  case (Some p)
  show ?thesis
  proof (cases "supersedes previous req")
    case False
    then show ?thesis using Some digest Q(2) [of h] by (auto simp: checkRevision_def stop_def supersedes_Some not_less order_less_le)
  next
    case True
    have any: "prefix h h' \<Longrightarrow> Q x h'" for x h'
      using Q(2) [of h'] Q(1) [OF _ True, of h'] by (cases x) auto
    have "onlyAsks notRename (checkRevision req got (Some p))"
      by (auto simp: checkRevision_def stop_def footprint intro!: onlyAsks_bind)
    then have "wp (installOk C) (checkRevision req got (Some p)) Q h" by (rule wp_notRename) (rule any)
    then show ?thesis using Some by simp
  qed
qed (use Q(1) [of h] in \<open>simp add: checkRevision_def\<close>)

lemma checkBundle_supersedes:
  assumes Q: "\<And>x h'. prefix h h' \<Longrightarrow> supersedes previous req \<Longrightarrow> Q (Inr x) h'" "\<And>e h'. prefix h h' \<Longrightarrow> Q (Inl e) h'"
  shows "wp (installOk C) (checkBundle req files previous) Q h"
proof (cases "validateAuthoritativeSyncFiles files")
  case (Inr incoming)
  show ?thesis
    unfolding checkBundle_def Inr sum.case Let_def
  proof (cases "normalizeSourceDigest (sq_SourceDigest req) = digestDecodedSyncFiles files", goal_cases)
    case 1
    have "wp (installOk C) (bindE (checkRevision req (digestDecodedSyncFiles files) previous) (\<lambda>_. Ret (Inr incoming))) Q h"
      unfolding wp_bindE wp_Ret by (rule checkRevision_supersedes [OF 1]) (simp_all add: Q)
    then show ?case using 1 by simp
  qed (use Q(2) [of h] in \<open>simp add: stop_def\<close>)
qed (use Q(2) [of h] in \<open>simp add: checkBundle_def stop_def\<close>)

lemma find_none_append: "find P h = None \<Longrightarrow> P e \<Longrightarrow> find P (h @ [e]) = Some e"
  by (induction h) auto

lemma readManifest_seen:
  assumes "find (\<lambda>e. fst e = AgReadFile (InRoot workspaceManifestName)) h = None"
    and Q: "\<And>read h'. manifestSeen C h' (case read of Inr m \<Rightarrow> m | Inl _ \<Rightarrow> None) \<Longrightarrow>
        pendingTrimmed (case read of Inr m \<Rightarrow> m | Inl _ \<Rightarrow> None) \<Longrightarrow> Q read h'"
  shows "wp (installOk C) (readWorkspaceManifest (gc_unmarshal C)) Q h"
proof -
  have "Q (case (case ag_err r of Some e \<Rightarrow> Inl e | None \<Rightarrow> Inr (ag_bytes r)) of
          Inl e \<Rightarrow> if errorsIs errNotExist e then Inr None else Inl e
        | Inr raw \<Rightarrow> andThen (gc_unmarshal C raw) (\<lambda>m. andThen (checkManifest m) (\<lambda>m'. Inr (Some m'))))
      (h @ [(AgReadFile (InRoot workspaceManifestName), r)])" (is "Q ?read ?h") for r
  proof -
    have m: "(case ?read of Inr m \<Rightarrow> m | Inl _ \<Rightarrow> None) = manifestOf C r"
      by (auto simp: manifestOf_def split: option.split sum.splits) (auto simp: andThen_Inr)
    have "manifestSeen C ?h (manifestOf C r)"
      unfolding manifestSeen_def by (intro exI conjI, rule find_none_append [OF assms(1)]) simp_all
    then show ?thesis using Q [where read = ?read and h' = ?h] manifestOf_trimmed [of C r] unfolding m by blast
  qed
  then show ?thesis
    by (simp add: readWorkspaceManifest_def readFile_def agGet_def notRename_ok notRename_def)
qed

lemma openWorkspaceRoot_ready:
  assumes "\<And>x h'. find (\<lambda>e. fst e = AgReadFile (InRoot workspaceManifestName)) h' = None \<Longrightarrow> Q x h'"
  shows "wp (installOk C) (openWorkspaceRoot d) Q [(AgLock, a)]"
  using assms by (auto simp: openWorkspaceRoot_def agDo_def notRename_ok notRename_def split: option.split)

lemma lockedSync_installs: "installs C (lockedSync C req files) [(AgLock, a)]"
  unfolding lockedSync_def wp_bindE orStop_def wp_wrapE
proof (rule openWorkspaceRoot_ready, goal_cases)
  case (1 x h1)
  show ?case
  proof (cases x)
    case (Inr u)
    show ?thesis
    proof (cases "isAuthoritative req \<and> (sq_SourceRevision req = 0 \<or> trimSpace (sq_SourceDigest req) = [])")
      case False
      show ?thesis
        unfolding Inr sum.case if_not_P [OF False] wp_bind Let_def
      proof (rule readManifest_seen [OF 1], goal_cases)
        case (1 read h2)
        show ?case
        proof (cases "cleanDeletes (isAuthoritative req) (sq_DeletePaths req)")
          case (Inr ds)
          show ?thesis
            unfolding Inr sum.case
            by (cases "isAuthoritative req")
              (auto simp: wp_bindE intro!: checkBundle_supersedes applySync_installs [OF manifestSeen_prefix [OF 1(1)] 1(2)] applySync_installs [OF 1])
        qed (simp add: stop_def)
      qed
    qed (simp add: Inr stop_def)
  qed simp
qed

lemma handleSync_installs:
  assumes "run w (handleSync C verb given body) [] = (tr, reply)"
  shows "obeys (installOk C) 0 tr"
proof -
  have "installs C (handleSync C verb given body) []"
    using handleSync_cases [of C verb given body]
  proof (elim disjE exE conjE)
    fix req files
    assume h: "handleSync C verb given body = Ask AgLock (\<lambda>_. bind (lockedSync C req files) (\<lambda>r. Ask AgUnlock (\<lambda>_. Ret (replyOf r))))"
    have u: "wp (installOk C) (lockedSync C req files) (\<lambda>r. installs C (Ask AgUnlock (\<lambda>_. Ret (replyOf r)))) [(AgLock, a)]" for a
      by (rule wp_mono [OF lockedSync_installs]) (simp add: notRename_ok notRename_def)
    have l: "installOk C [] AgLock" by (simp add: notRename_ok notRename_def)
    show ?thesis unfolding h wp.simps(2) [of _ AgLock] wp_bind append_Nil by (rule conjI [OF l], rule allI, rule u)
  qed simp
  from wp_trace [OF this assms] show ?thesis by (rule conjunct1)
qed

text \<open>C27: A sync never takes the workspace back. Whenever it installs a manifest, the request just before was a complete, successful
  write of that manifest's temporary file, and the manifest follows the one the sync found: its revision is higher, or it is the
  same revision of the same content.\<close>

theorem manifest_never_goes_back:
  assumes "run w (handleSync C verb given body) [] = (tr, reply)" and "i < length tr" and "fst (tr ! i) = AgRename a b"
  shows "\<exists>m r. 0 < i \<and> tr ! (i - 1) = (AgWriteFile (InRoot manifestTmp) (marshalManifest m), r) \<and> ag_err r = None
    \<and> (case foundManifest C (take (i - 1) tr) of None \<Rightarrow> True | Some p \<Rightarrow> follows p m)"
proof -
  have "installOk C (take i tr) (AgRename a b)" using handleSync_installs [OF assms(1)] assms(2,3) by (auto simp: obeys_def)
  then obtain h0 m r where h: "take i tr = h0 @ [(AgWriteFile (InRoot manifestTmp) (marshalManifest m), r)]" "ag_err r = None"
      "\<forall>p. foundManifest C h0 = Some p \<longrightarrow> follows p m" unfolding installOk_def by blast
  have l: "length h0 = i - 1" "0 < i" using arg_cong [OF h(1), of length] assms(2) by auto
  have "take (i - 1) tr = h0" using arg_cong [OF h(1), of "take (i - 1)"] l by (simp add: min_def)
  moreover have "tr ! (i - 1) = (AgWriteFile (InRoot manifestTmp) (marshalManifest m), r)"
    using arg_cong [OF h(1), of "\<lambda>xs. xs ! (i - 1)"] l by (simp add: nth_append)
  ultimately show ?thesis using h(2,3) l(2) by (auto split: option.split)
qed

text \<open>C28: A sync does not forget a reload that is owed: every command that was pending in the manifest a request to \<^verbatim>\<open>/sync\<close> found and could
  read is pending in each manifest that request installs, unless it has run it with success before. (This is of the one request: a
  mutation or a restoration stores a manifest without pending commands, and a manifest with more than 32 of them cannot be read.)\<close>

theorem pending_reloads_kept:
  assumes "run w (handleSync C verb given body) [] = (tr, reply)" and "i < length tr" and "fst (tr ! i) = AgRename a b"
    and "foundManifest C (take (i - 1) tr) = Some p" and "c \<in> set (wm_PendingReloadCommands p)"
  shows "(\<exists>m r. tr ! (i - 1) = (AgWriteFile (InRoot manifestTmp) (marshalManifest m), r) \<and> c \<in> set (wm_PendingReloadCommands m))
    \<or> (\<exists>j cmds r. j < i - 1 \<and> tr ! j = (AgReload cmds, r) \<and> ag_err r = None \<and> c \<in> set cmds)"
proof -
  have "installOk C (take i tr) (AgRename a b)" using handleSync_installs [OF assms(1)] assms(2,3) by (auto simp: obeys_def)
  then obtain h0 m r where h: "take i tr = h0 @ [(AgWriteFile (InRoot manifestTmp) (marshalManifest m), r)]"
      "\<forall>p. foundManifest C h0 = Some p \<longrightarrow> carried p m h0" unfolding installOk_def by blast
  have l: "length h0 = i - 1" "0 < i" using arg_cong [OF h(1), of length] assms(2) by auto
  have t: "take (i - 1) tr = h0" using arg_cong [OF h(1), of "take (i - 1)"] l by (simp add: min_def)
  have m: "tr ! (i - 1) = (AgWriteFile (InRoot manifestTmp) (marshalManifest m), r)"
    using arg_cong [OF h(1), of "\<lambda>xs. xs ! (i - 1)"] l by (simp add: nth_append)
  have "carried p m h0" using h(2) assms(4) t by blast
  then consider "c \<in> set (wm_PendingReloadCommands m)" | cmds r' where "(AgReload cmds, r') \<in> set h0" "ag_err r' = None" "c \<in> set cmds"
    using assms(5) unfolding carried_def by blast
  then show ?thesis
  proof cases
    case 1
    then show ?thesis using m by blast
  next
    case 2
    then obtain j where j: "j < i - 1" "h0 ! j = (AgReload cmds, r')" using l by (auto simp: in_set_conv_nth)
    then have "tr ! j = (AgReload cmds, r')" using t by (metis nth_take)
    then show ?thesis using 2 j(1) by blast
  qed
qed

section \<open>What a successful sync has done\<close>

text \<open>The content was written to the path, or read back from it.\<close>

definition placed :: "agHistory \<Rightarrow> decodedSyncFile \<Rightarrow> bool" where
  "placed h f \<longleftrightarrow> (\<exists>a. ag_err a = None \<and> ((AgWriteFile (InRoot (df_Path f)) (df_Content f), a) \<in> set h
     \<or> (AgReadFile (InRoot (df_Path f)), a) \<in> set h \<and> ag_bytes a = df_Content f))"

definition stored :: "agHistory \<Rightarrow> workspaceManifest \<Rightarrow> bool" where
  "stored h m \<longleftrightarrow> (\<exists>a b. ag_err a = None \<and> ag_err b = None \<and> (AgWriteFile (InRoot manifestTmp) (marshalManifest m), a) \<in> set h
     \<and> (AgRename (InRoot manifestTmp) (InRoot workspaceManifestName), b) \<in> set h)"

lemma placed_mono: "placed h f \<Longrightarrow> prefix h h' \<Longrightarrow> placed h' f"
  unfolding placed_def using set_mono_prefix by blast

lemma stored_mono: "stored h m \<Longrightarrow> prefix h h' \<Longrightarrow> stored h' m"
  unfolding stored_def using set_mono_prefix by blast

lemma verified_mono: "verifiedSource h m \<Longrightarrow> prefix h h' \<Longrightarrow> verifiedSource h' m"
  unfolding verifiedSource_def using streamed_mono set_mono_prefix by (metis (no_types, lifting) list_all2_mono)

text \<open>A step that yields a value establishes \<open>Q\<close>; otherwise the reply is an error.\<close>

definition isError :: "'a agReply \<Rightarrow> bool" where
  "isError r \<longleftrightarrow> (\<forall>status a. r \<noteq> AgJSON status a)"

definition yields :: "('r, 'a) agStep \<Rightarrow> ('a \<Rightarrow> agHistory \<Rightarrow> bool) \<Rightarrow> agHistory \<Rightarrow> bool" where
  "yields p Q h \<longleftrightarrow> wp (\<lambda>_ _. True) p (\<lambda>x h'. case x of Inr a \<Rightarrow> Q a h' | Inl r \<Rightarrow> isError r) h"

lemma yields_bindE:
  assumes "yields p Q h" and "\<And>a h'. prefix h h' \<Longrightarrow> Q a h' \<Longrightarrow> yields (f a) R h'"
  shows "yields (bindE p f) R h"
  unfolding yields_def wp_bindE
proof (rule wp_mono [OF assms(1) [unfolded yields_def]], goal_cases)
  case (1 x h')
  then show ?case using assms(2) [of h'] by (cases x) (simp_all add: yields_def)
qed

lemma yields_Ret: "Q a h \<Longrightarrow> yields (Ret (Inr a)) Q h"
  by (simp add: yields_def)

lemma yields_orStop:
  "wp (\<lambda>_ _. True) p (\<lambda>x h'. \<forall>a. x = Inr a \<longrightarrow> Q a h') h \<Longrightarrow> yields (orStop status f p) Q h"
  unfolding yields_def orStop_def wp_wrapE by (erule wp_mono) (auto simp: isError_def split: sum.split)

lemma wp_total: "(\<And>x h'. prefix h h' \<Longrightarrow> Q x h') \<Longrightarrow> wp (\<lambda>_ _. True) p Q h"
  by (rule wp_onlyAsks [where P = "\<lambda>_. True"]) simp_all

lemma yields_stop: "(\<And>a h'. prefix h h' \<Longrightarrow> Q a h') \<Longrightarrow> yields (orStop status f p) Q h"
  by (rule yields_orStop [OF wp_total]) blast

lemma writeOne_places: "yields (writeOne f) (\<lambda>_ h'. placed h' f) h"
  unfolding writeOne_def Let_def
proof (rule yields_bindE [OF yields_stop [where Q = "\<lambda>_ _. True"]], simp, rule yields_bindE [OF yields_stop [where Q = "\<lambda>_ _. True"]], simp, goal_cases)
  case (1 a h1 b h2)
  have differs: "wp (\<lambda>_ _. True) (workspaceFileContentChanged (df_Path f) (df_Content f)) (\<lambda>d h'. \<not> d \<longrightarrow> placed h' f) h2"
    by (auto simp: workspaceFileContentChanged_def agGet_def readFile_def placed_def split: option.split)
  have put: "yields (bindE (orStop s g (writeWorkspaceFile (df_Path f) (df_Content f))) (\<lambda>_. Ret (Inr True)) :: bool syncStep) (\<lambda>_ h'. placed h' f) h3"
    for s g h3
  proof (rule yields_bindE [OF yields_orStop])
    show "wp (\<lambda>_ _. True) (writeWorkspaceFile (df_Path f) (df_Content f)) (\<lambda>x h'. \<forall>a. x = Inr a \<longrightarrow> placed h' f) h3"
      unfolding writeWorkspaceFile_def Let_def wp_bindE
      by (rule wp_total) (auto simp: agDo_def placed_def split: sum.split option.split)
  qed (rule yields_Ret)
  show ?case
    unfolding yields_def wp_bind
    by (rule wp_mono [OF differs]) (use put in \<open>simp add: yields_def\<close>)
qed

lemma writeFiles_places: "yields (writeFiles files) (\<lambda>_ h'. \<forall>f \<in> set files. placed h' f) h"
proof (induction files arbitrary: h)
  case (Cons f fs)
  show ?case
    unfolding writeFiles.simps
  proof (rule yields_bindE [OF writeOne_places], rule yields_bindE [OF Cons.IH], rule yields_Ret)
    fix h1 h2 :: agHistory
    assume "placed h1 f" "prefix h1 h2" "\<forall>f \<in> set fs. placed h2 f"
    then show "\<forall>g \<in> set (f # fs). placed h2 g" using placed_mono by auto
  qed
qed (simp add: yields_Ret)

lemma writeManifest_stores: "yields (orStop s g (writeWorkspaceManifest m)) (\<lambda>_ h'. stored h' (m\<lparr>wm_Files := sort (wm_Files m)\<rparr>)) h"
  by (rule yields_orStop) (auto simp: writeWorkspaceManifest_def Let_def agDo_def stored_def split: option.split)

lemma authoritative_sorted [simp]:
  "(authoritativeManifest req paths pending)\<lparr>wm_Files := sort (wm_Files (authoritativeManifest req paths pending))\<rparr>
     = authoritativeManifest req paths pending"
  by (simp add: authoritativeManifest_def sorted_sort_id)

lemma verified_pending: "verifiedSource h (authoritativeManifest req paths a) \<Longrightarrow> verifiedSource h (authoritativeManifest req paths b)"
  by (simp add: verifiedSource_def authoritativeManifest_def)

lemma repair_verifies: "yields (repairAuthoritative files m previous ds paths) (\<lambda>_ h'. verifiedSource h' m) h"
  unfolding repairAuthoritative_def
  by (rule yields_bindE [OF yields_stop [where Q = "\<lambda>_ _. True"]], simp,
      rule yields_bindE [OF yields_stop [where Q = "\<lambda>_ _. True"]], simp,
      rule yields_bindE [OF yields_stop [where Q = "\<lambda>_ _. True"]], simp,
      rule yields_orStop, rule wp_mono [OF verifyWorkspaceManifest_wp]) auto

lemma restart_keeps: "yields (restartAfterSync C needed resp) (\<lambda>r h'. sr_ReloadRuns r = sr_ReloadRuns resp) h"
proof -
  have "yields (bindE (orStop st f p) (\<lambda>_. Ret (Inr (resp\<lparr>sr_Restarted := True\<rparr>))) :: syncResponse syncStep) (\<lambda>r h'. sr_ReloadRuns r = sr_ReloadRuns resp) h"
    for st f and p :: "(goError + unit) ag"
    by (rule yields_bindE [OF yields_stop [where Q = "\<lambda>_ _. True"]]) (simp_all add: yields_Ret)
  then show ?thesis by (simp add: restartAfterSync_def yields_Ret)
qed

lemma finishSync_verifies:
  assumes "sr_ReloadRuns resp = []"
  shows "yields (finishSync C req files previous ds (Some paths) cmds needed resp)
    (\<lambda>r h'. sr_ReloadRuns r \<noteq> [] \<longrightarrow> verifiedSource h' (authoritativeManifest req paths cmds)) h"
proof -
  let ?v = "\<lambda>h'. verifiedSource h' (authoritativeManifest req paths cmds)"
  have tail: "yields (restartAfterSync C needed r) (\<lambda>r h'. sr_ReloadRuns r \<noteq> [] \<longrightarrow> ?v h') h2"
    if "sr_ReloadRuns r \<noteq> [] \<longrightarrow> ?v h2" for r h2
    unfolding yields_def
    by (rule wp_mono [OF restart_keeps [unfolded yields_def, where resp = r]]) (use that verified_mono in \<open>auto split: sum.splits\<close>)
  show ?thesis
  proof (cases "needed \<and> cmds \<noteq> []")
    case False
    have "yields (restartAfterSync C needed resp) (\<lambda>r h'. sr_ReloadRuns r \<noteq> [] \<longrightarrow> ?v h') h" by (rule tail) (simp add: assms)
    then show ?thesis unfolding finishSync_def Let_def if_not_P [OF False] by simp
  next
    case True
    have go: "yields (bindE (repairAuthoritative files (authoritativeManifest req paths cmds) previous ds paths) k)
        (\<lambda>r h'. sr_ReloadRuns r \<noteq> [] \<longrightarrow> ?v h') h1"
      if "\<And>x h2. ?v h2 \<Longrightarrow> yields (k x) (\<lambda>r h'. sr_ReloadRuns r \<noteq> [] \<longrightarrow> ?v h') h2" for k h1
      by (rule yields_bindE [OF repair_verifies]) (rule that)
    have clear: "yields (bindE (orStop st f (writeWorkspaceManifest m)) (\<lambda>_. restartAfterSync C needed r))
        (\<lambda>r h'. sr_ReloadRuns r \<noteq> [] \<longrightarrow> ?v h') h2" if "?v h2" for st f m r h2
      by (rule yields_bindE [OF yields_stop [where Q = "\<lambda>_. ?v"]]) (use that verified_mono in \<open>auto intro: tail\<close>)
    show ?thesis
      unfolding finishSync_def Let_def if_P [OF True] runtimeReload_def bind.simps yields_def wp.simps
    proof (intro conjI allI TrueI, fold yields_def, unfold option.case, rule go)
      fix a x h2
      assume "?v h2"
      then show "yields (case ag_err a of
          Some e \<Rightarrow> if Some paths = None then stampPlain previous (map df_Path files) ds cmds (resp\<lparr>sr_ReloadRuns := cmds, sr_ReloadError := errorText e\<rparr>)
            else Ret (Inr (resp\<lparr>sr_ReloadRuns := cmds, sr_ReloadError := errorText e\<rparr>))
        | None \<Rightarrow> bindE (orStop 500 (Wrapf ''clear completed workspace reload: %w'' []) (writeWorkspaceManifest (authoritativeManifest req paths [])))
            (\<lambda>_. bindE (if Some paths = None then stampPlain previous (map df_Path files) ds [] (resp\<lparr>sr_ReloadRuns := cmds\<rparr>)
                   else Ret (Inr (resp\<lparr>sr_ReloadRuns := cmds\<rparr>))) (restartAfterSync C needed)))
         (\<lambda>r h'. sr_ReloadRuns r \<noteq> [] \<longrightarrow> ?v h') h2"
        by (cases "ag_err a") (simp_all add: clear yields_Ret)
    qed
  qed
qed

text \<open>The bundle of the request, on disk and entered in the manifest; verified once more when a reload was run.\<close>

definition bundleInstalled :: "syncRequest \<Rightarrow> decodedSyncFile list \<Rightarrow> syncResponse \<Rightarrow> agHistory \<Rightarrow> bool" where
  "bundleInstalled req files resp h \<longleftrightarrow>
     (\<exists>paths pending. validateAuthoritativeSyncFiles files = Inr paths \<and> (\<forall>f \<in> set files. placed h f)
        \<and> stored h (authoritativeManifest req paths pending)
        \<and> (sr_ReloadRuns resp \<noteq> [] \<longrightarrow> verifiedSource h (authoritativeManifest req paths pending)))"

text \<open>The manifest found has the revision and the content of the request, nothing is owed, and its files were verified.\<close>

definition alreadyApplied :: "agentConfig \<Rightarrow> syncRequest \<Rightarrow> agHistory \<Rightarrow> bool" where
  "alreadyApplied C req h \<longleftrightarrow>
     (\<exists>p. foundManifest C h = Some p \<and> wm_SourceRevision p = sq_SourceRevision req
        \<and> normalizeSourceDigest (wm_SourceDigest p) = normalizeSourceDigest (sq_SourceDigest req)
        \<and> wm_PendingReloadCommands p = [] \<and> verifiedSource h p)"

lemma applySync_bundle:
  assumes "validateAuthoritativeSyncFiles files = Inr paths"
  shows "yields (applySync C req files previous ds (Some paths)) (\<lambda>resp h'. bundleInstalled req files resp h') h"
  unfolding applySync_def option.case
proof (rule yields_bindE [OF writeFiles_places], rule yields_bindE [OF yields_stop [where Q = "\<lambda>_ _. True"]], simp, unfold Let_def, goal_cases)
  case (1 differing h1 deleted h2)
  define cmds where "cmds = (case previous of None \<Rightarrow> matchReloadRules [] (gc_ReloadRules C) (differing @ deleted)
     | Some p \<Rightarrow> mergeReloadCommands [wm_PendingReloadCommands p, matchReloadRules [] (gc_ReloadRules C) (differing @ deleted)])"
  show ?case
    unfolding cmds_def [symmetric]
  proof (rule yields_bindE [OF writeManifest_stores], rule yields_bindE [OF yields_stop [where Q = "\<lambda>_ _. True"]], simp, goal_cases)
    case (1 u h3 needed h4)
    have placed4: "\<forall>f \<in> set files. placed h4 f" using 1 \<open>prefix h1 h2\<close> \<open>\<forall>f \<in> set files. placed h1 f\<close> placed_mono by blast
    have stored4: "stored h4 (authoritativeManifest req paths cmds)" using 1 stored_mono by fastforce
    have installed: "bundleInstalled req files resp h5"
      if "prefix h4 h5" "sr_ReloadRuns resp \<noteq> [] \<longrightarrow> verifiedSource h5 (authoritativeManifest req paths cmds)" for resp h5
      unfolding bundleInstalled_def using that assms placed4 placed_mono stored_mono [OF stored4] by blast
    show ?case
      unfolding yields_def
      by (rule wp_mono [OF finishSync_verifies [unfolded yields_def]]) (auto simp: syncedAs_def intro: installed split: sum.splits)
  qed
qed

text \<open>What the check of a bundle hands on, and what its early success stands for.\<close>

definition bundleNamed :: "syncRequest \<Rightarrow> decodedSyncFile list \<Rightarrow> bool" where
  "bundleNamed req files \<longleftrightarrow> normalizeSourceDigest (sq_SourceDigest req) = digestDecodedSyncFiles files"

definition sameApplied :: "syncRequest \<Rightarrow> workspaceManifest option \<Rightarrow> agHistory \<Rightarrow> bool" where
  "sameApplied req previous h \<longleftrightarrow>
     (\<exists>p. previous = Some p \<and> wm_SourceRevision p = sq_SourceRevision req
        \<and> normalizeSourceDigest (wm_SourceDigest p) = normalizeSourceDigest (sq_SourceDigest req)
        \<and> wm_PendingReloadCommands p = [] \<and> verifiedSource h p)"

lemma checkRevision_same:
  assumes "bundleNamed req files"
  shows "wp (\<lambda>_ _. True) (checkRevision req (digestDecodedSyncFiles files) previous)
    (\<lambda>x h'. \<forall>status r. x = Inl (AgJSON status r) \<longrightarrow> sameApplied req previous h') h"
proof (cases previous)
  case (Some p)
  show ?thesis
  proof (cases "sq_SourceRevision req = wm_SourceRevision p \<and> wm_PendingReloadCommands p = []
      \<and> normalizeSourceDigest (wm_SourceDigest p) = digestDecodedSyncFiles files")
    case True
    have "wp (\<lambda>_ _. True) (checkRevision req (digestDecodedSyncFiles files) (Some p))
      (\<lambda>x h'. \<forall>status r. x = Inl (AgJSON status r) \<longrightarrow> sameApplied req (Some p) h') h"
    proof (simp add: checkRevision_def True wp_bind, rule wp_mono [OF verifyWorkspaceManifest_wp], goal_cases)
      case (1 x h')
      then show ?case using True assms by (auto simp: sameApplied_def bundleNamed_def)
    qed
    then show ?thesis using Some by simp
  qed (use Some in \<open>auto simp: checkRevision_def stop_def\<close>)
qed (simp add: checkRevision_def)

lemma checkBundle_same:
  "wp (\<lambda>_ _. True) (checkBundle req files previous)
    (\<lambda>x h'. (\<forall>paths. x = Inr paths \<longrightarrow> bundleNamed req files \<and> validateAuthoritativeSyncFiles files = Inr paths)
       \<and> (\<forall>status r. x = Inl (AgJSON status r) \<longrightarrow> bundleNamed req files \<and> sameApplied req previous h')) h"
proof (cases "validateAuthoritativeSyncFiles files")
  case (Inr incoming)
  show ?thesis
  proof (cases "bundleNamed req files")
    case True
    then have c: "checkBundle req files previous = bindE (checkRevision req (digestDecodedSyncFiles files) previous) (\<lambda>_. Ret (Inr incoming))"
      by (simp add: checkBundle_def Inr bundleNamed_def Let_def)
    show ?thesis
      unfolding c wp_bindE by (rule wp_mono [OF checkRevision_same [OF True]]) (use True Inr in \<open>auto split: sum.split\<close>)
  qed (simp add: checkBundle_def Inr bundleNamed_def stop_def Let_def)
qed (simp add: checkBundle_def stop_def)

text \<open>The outcome of the locked part of an authoritative sync.\<close>

definition soundOutcome :: "agentConfig \<Rightarrow> syncRequest \<Rightarrow> decodedSyncFile list \<Rightarrow> syncResponse agReply + syncResponse \<Rightarrow> agHistory \<Rightarrow> bool" where
  "soundOutcome C req files x h \<longleftrightarrow>
     (\<forall>status resp. replyOf x = AgJSON status resp \<longrightarrow> bundleNamed req files \<and> (alreadyApplied C req h \<or> bundleInstalled req files resp h))"

lemma wp_anyGuard: "wp G p Q h \<Longrightarrow> wp (\<lambda>_ _. True) p Q h"
  by (erule wp_weaken) simp

lemma lockedSync_sound:
  assumes "isAuthoritative req"
  shows "wp (\<lambda>_ _. True) (lockedSync C req files) (soundOutcome C req files) [(AgLock, a)]"
  unfolding lockedSync_def wp_bindE orStop_def wp_wrapE
proof (rule wp_anyGuard [OF openWorkspaceRoot_ready], goal_cases)
  case (1 x h1)
  have err: "soundOutcome C req files (Inl (AgError st e)) h" for st e h by (simp add: soundOutcome_def replyOf_def)
  show ?case
  proof (cases x)
    case (Inr u)
    show ?thesis
    proof (cases "isAuthoritative req \<and> (sq_SourceRevision req = 0 \<or> trimSpace (sq_SourceDigest req) = [])")
      case False
      show ?thesis
        unfolding Inr sum.case if_not_P [OF False] wp_bind Let_def if_P [OF assms]
      proof (rule wp_anyGuard [OF readManifest_seen [OF 1]], goal_cases)
        case (1 read h2)
        define previous where "previous = (case read of Inr m \<Rightarrow> m | Inl _ \<Rightarrow> None)"
        have seen: "manifestSeen C h2 previous" using 1(1) by (simp add: previous_def)
        show ?case
          unfolding previous_def [symmetric]
        proof (cases "cleanDeletes (isAuthoritative req) (sq_DeletePaths req)", goal_cases)
          case (2 ds)
          show ?case
            unfolding 2 sum.case wp_bindE
          proof (rule wp_mono [OF checkBundle_same], goal_cases)
            case (1 y h3)
            show ?case
            proof (cases y)
              case (Inl r)
              have "alreadyApplied C req h3" if "sameApplied req previous h3"
                using that manifestSeen_found [OF manifestSeen_prefix [OF seen 1(1)]] by (auto simp: sameApplied_def alreadyApplied_def)
              then show ?thesis using Inl 1(2) by (auto simp: soundOutcome_def replyOf_def)
            next
              case (Inr paths)
              then have ok: "bundleNamed req files" "validateAuthoritativeSyncFiles files = Inr paths" using 1(2) by auto
              have "soundOutcome C req files z h4" if "case z of Inl r \<Rightarrow> isError r | Inr resp \<Rightarrow> bundleInstalled req files resp h4" for z h4
                using that ok(1) by (auto simp: soundOutcome_def replyOf_def isError_def split: sum.splits)
              then show ?thesis
                unfolding Inr sum.case by (rule wp_mono [OF applySync_bundle [OF ok(2), unfolded yields_def]])
            qed
          qed
        qed (simp add: stop_def err)
      qed
    qed (simp add: Inr stop_def err)
  qed (simp add: err)
qed

lemma foundManifest_prefix: "foundManifest C h = Some p \<Longrightarrow> prefix h h' \<Longrightarrow> foundManifest C h' = Some p"
  unfolding foundManifest_def by (auto dest: find_prefix split: option.splits)

lemma soundOutcome_mono:
  assumes "soundOutcome C req files x h" and "prefix h h'"
  shows "soundOutcome C req files x h'"
proof -
  have "alreadyApplied C req h \<Longrightarrow> alreadyApplied C req h'"
    unfolding alreadyApplied_def using foundManifest_prefix [OF _ assms(2)] verified_mono [OF _ assms(2)] by blast
  moreover have "bundleInstalled req files resp h \<Longrightarrow> bundleInstalled req files resp h'" for resp
    unfolding bundleInstalled_def using placed_mono [OF _ assms(2)] stored_mono [OF _ assms(2)] verified_mono [OF _ assms(2)] by blast
  ultimately show ?thesis using assms(1) unfolding soundOutcome_def by blast
qed

text \<open>C26: An authoritative sync that reports success was given the content its digest names, and the sandbox now has it: either the manifest found
  is of that revision and content, nothing is left to reload and its files, read again, have its digest; or every file of the
  bundle was written or read back, and the manifest that lists exactly them was stored, and if a reload command ran, the files were verified
  against the digest after it.\<close>

theorem sync_success_installs_bundle:
  assumes "run w (handleSync C verb given (SyncBody req)) [] = (tr, AgJSON status resp)" and "isAuthoritative req"
  shows "\<exists>files. decodeSyncFiles (sq_Files req) True = Inr files \<and> bundleNamed req files
    \<and> (alreadyApplied C req tr \<or> bundleInstalled req files resp tr)"
  using handleSync_run [OF assms(1)]
proof (elim disjE exE conjE)
  fix req' files a b t r
  assume r: "SyncBody req = SyncBody req'" "decodeSyncFiles (sq_Files req') True = Inr files"
    "run w (lockedSync C req' files) [(AgLock, a)] = ((AgLock, a) # t, r)" "tr = (AgLock, a) # t @ [(AgUnlock, b)]" "AgJSON status resp = replyOf r"
  have "soundOutcome C req files r ((AgLock, a) # t)"
    using wp_run [OF lockedSync_sound [OF assms(2), where C = C and files = files and a = a], of w] r(1,3) by simp
  then have "soundOutcome C req files r tr" by (rule soundOutcome_mono) (simp add: r(4))
  then show ?thesis using r(1,2) r(5) [symmetric] unfolding soundOutcome_def by auto
qed simp

section \<open>Runs\<close>

text \<open>A plain sync without files on a workspace that owes a reload, and an authoritative one with a single file.\<close>

definition owedManifest :: workspaceManifest where
  "owedManifest = \<lparr>wm_SourceRevision = 1, wm_SourceDigest = ''d'', wm_Files = [], wm_PendingReloadCommands = [''r'']\<rparr>"

definition openAgent :: "(string \<Rightarrow> goError + workspaceManifest) \<Rightarrow> agentConfig" where
  "openAgent U = \<lparr>gc_WorkDir = ''/w'', gc_ControlToken = [], gc_AllowInsecureControl = True, gc_ReloadStrategy = [], gc_ReloadRules = [],
     gc_unmarshal = U\<rparr>"

definition emptySync :: syncRequest where
  "emptySync = \<lparr>sq_Files = [], sq_DeletePaths = [], sq_Restart = [], sq_SourceRevision = 0, sq_SourceDigest = []\<rparr>"

definition nextManifest :: workspaceManifest where
  "nextManifest = \<lparr>wm_SourceRevision = 2, wm_SourceDigest = sha256Hex [], wm_Files = [], wm_PendingReloadCommands = [''r'']\<rparr>"

definition oneFile :: syncRequest where
  "oneFile = emptySync\<lparr>sq_Files := [\<lparr>sf_Path = ''a'', sf_Content = ''x'', sf_Encoding = []\<rparr>], sq_SourceRevision := 1,
     sq_SourceDigest := digestDecodedSyncFiles [\<lparr>df_Path = ''a'', df_Content = ''x'', df_Binary = False\<rparr>]\<rparr>"

lemma sync_texts [simp]:
  "trimSpace ''r'' = ''r''" "normalizeSourceDigest ''d'' = ''d''" "cleanWorkspacePath ''a'' = Inr ''a''" "pathDir ''a'' = ''.''"
  "toLower [] = []"
  "validateManagedWorkspacePath ''a'' = Inr ()" "pathPrefixes ''a'' = [(''a'', ''a'', True)]"
  by code_simp+

lemma owed_ok: "checkManifest owedManifest = Inr owedManifest"
  by (simp add: checkManifest_def owedManifest_def Let_def)

lemma sha_not_d: "sha256Hex s \<noteq> ''d''"
proof
  assume "sha256Hex s = ''d''"
  then have "length (sha256Hex s) = length ''d''" by (rule arg_cong)
  then show False by simp
qed

lemma owed_fields [simp]:
  "wm_SourceRevision owedManifest = 1" "wm_SourceDigest owedManifest = ''d''" "wm_Files owedManifest = []"
  "wm_PendingReloadCommands owedManifest = [''r'']"
  by (simp_all add: owedManifest_def)

definition emptyTrace :: agHistory where
  "emptyTrace = map (\<lambda>q. (q, ex_fs calmAnswer)) [AgLock, AgMkdirAll (OnHost ''/w''), AgOpenRoot ''/w'', AgReadFile (InRoot workspaceManifestName),
     AgWriteFile (InRoot manifestTmp) (marshalManifest nextManifest), AgRename (InRoot manifestTmp) (InRoot workspaceManifestName), AgUnlock]"

lemma emptySync_run:
  "run (\<lambda>_ _. ex_fs calmAnswer) (handleSync (openAgent (\<lambda>_. Inr owedManifest)) ''POST'' [] (SyncBody emptySync)) []
     = (emptyTrace, AgJSON 200 (syncedAs 2 (sha256Hex [])))"
  by (simp add: emptyTrace_def handleSync_def openAgent_def authorizeControl_def emptySync_def decodeSyncFiles_def lockedSync_def openWorkspaceRoot_def agDo_def
    orStop_def wrapE_def isAuthoritative_def readWorkspaceManifest_def readFile_def agGet_def owed_ok applySync_def finishSync_def
    mergeReloadCommands_def shouldRestartAfterSync_def stampPlain_def stampPlainSyncManifest_def stampManaged_def previousFiles_def
    stampedManifest_def nextManifest_def digesterSum_def sha_not_d writeWorkspaceManifest_def restartAfterSync_def replyOf_def
    syncedAs_def Let_def)

lemma x_valid [simp]: "utf8Valid ''x''"
  by (simp add: byteVal_def)

lemma trimSpace_sha [simp]: "trimSpace (sha256Hex s) = sha256Hex s"
  by (rule trimSpace_hex) (simp add: sha256Hex_def hexEncode_digits)

definition firstManifest :: workspaceManifest where
  "firstManifest = authoritativeManifest oneFile [''a''] []"

lemma oneFile_run:
  "run (\<lambda>_ _. ex_fs calmAnswer) (handleSync (openAgent (\<lambda>_. Inl errNotDir)) ''POST'' [] (SyncBody oneFile)) [] =
     (map (\<lambda>q. (q, ex_fs calmAnswer)) [AgLock, AgMkdirAll (OnHost ''/w''), AgOpenRoot ''/w'', AgReadFile (InRoot workspaceManifestName),
        AgLstat (InRoot ''a''), AgLstat (InRoot ''a''), AgStat (InRoot ''a''), AgWriteFile (InRoot ''a'') ''x'',
        AgWriteFile (InRoot manifestTmp) (marshalManifest firstManifest), AgRename (InRoot manifestTmp) (InRoot workspaceManifestName), AgUnlock],
      AgJSON 200 ((syncedAs 1 (sq_SourceDigest oneFile))\<lparr>sr_Changed := [''a'']\<rparr>))"
proof -
  have digest: "normalizeSourceDigest (digestDecodedSyncFiles fs) = digestDecodedSyncFiles fs" "trimSpace (digestDecodedSyncFiles fs) \<noteq> []" for fs
    by (simp_all add: digestDecodedSyncFiles_def digesterSum_def)
  show ?thesis
  by (simp add: handleSync_def openAgent_def authorizeControl_def emptySync_def oneFile_def decodeSyncFiles_def decodeSyncContent_def lockedSync_def openWorkspaceRoot_def agDo_def
    orStop_def wrapE_def isAuthoritative_def readWorkspaceManifest_def readFile_def agGet_def applySync_def finishSync_def syncMaxFiles_def
    syncMaxFileBytes_def syncMaxTotalBytes_def checkBundle_def checkRevision_def validateAuthoritativeSyncFiles_def digest
    writeOne_def ensureExecPathNoSymlink_def lstat_def workspaceFileContentChanged_def writeWorkspaceFile_def
    deleteAuthoritativeWorkspaceCandidates_def
    mergeReloadCommands_def shouldRestartAfterSync_def previousFiles_def
    firstManifest_def authoritativeManifest_def writeWorkspaceManifest_def restartAfterSync_def replyOf_def
    syncedAs_def Let_def)
qed

theorem sync_confined_witness:
  "\<exists>tr. run (\<lambda>_ _. ex_fs calmAnswer) (handleSync (openAgent (\<lambda>_. Inl errNotDir)) ''POST'' [] (SyncBody oneFile)) []
      = (tr, AgJSON 200 ((syncedAs 1 (sq_SourceDigest oneFile))\<lparr>sr_Changed := [''a'']\<rparr>))
    \<and> length tr = 11 \<and> (tr = [] \<or> (\<exists>a t b. tr = (AgLock, a) # t @ [(AgUnlock, b)]
        \<and> (\<forall>e \<in> set t. confinedAsk ''/w'' True (fst e) \<and> fst e \<noteq> AgLock \<and> fst e \<noteq> AgUnlock)))"
proof -
  have e: "gc_WorkDir (openAgent (\<lambda>_. Inl errNotDir)) = ''/w''" "authoritativeBody (SyncBody oneFile) = True"
    by (simp_all add: authoritativeBody_def isAuthoritative_def oneFile_def openAgent_def)
  show ?thesis
    by (intro exI conjI, rule oneFile_run, simp) (rule sync_confined [OF oneFile_run, unfolded e])
qed

lemma emptyTrace_facts:
  "length emptyTrace = 7" "fst (emptyTrace ! 5) = AgRename (InRoot manifestTmp) (InRoot workspaceManifestName)"
  "foundManifest (openAgent (\<lambda>_. Inr owedManifest)) (take 4 emptyTrace) = Some owedManifest"
  by (simp_all add: emptyTrace_def foundManifest_def manifestOf_def openAgent_def owed_ok)

theorem manifest_never_goes_back_witness:
  "run (\<lambda>_ _. ex_fs calmAnswer) (handleSync (openAgent (\<lambda>_. Inr owedManifest)) ''POST'' [] (SyncBody emptySync)) []
      = (emptyTrace, AgJSON 200 (syncedAs 2 (sha256Hex [])))
    \<and> (\<exists>m r. emptyTrace ! 4 = (AgWriteFile (InRoot manifestTmp) (marshalManifest m), r) \<and> follows owedManifest m)"
proof -
  have five: "5 < length emptyTrace" by (simp add: emptyTrace_facts)
  obtain m r where "emptyTrace ! (5 - 1) = (AgWriteFile (InRoot manifestTmp) (marshalManifest m), r)"
      "case foundManifest (openAgent (\<lambda>_. Inr owedManifest)) (take (5 - 1) emptyTrace) of None \<Rightarrow> True | Some p \<Rightarrow> follows p m"
    using manifest_never_goes_back [OF emptySync_run five emptyTrace_facts(2)] by blast
  then show ?thesis using emptySync_run emptyTrace_facts(3) by (intro conjI exI) simp_all
qed

theorem pending_reloads_kept_witness:
  "run (\<lambda>_ _. ex_fs calmAnswer) (handleSync (openAgent (\<lambda>_. Inr owedManifest)) ''POST'' [] (SyncBody emptySync)) []
      = (emptyTrace, AgJSON 200 (syncedAs 2 (sha256Hex [])))
    \<and> ((\<exists>m r. emptyTrace ! 4 = (AgWriteFile (InRoot manifestTmp) (marshalManifest m), r) \<and> ''r'' \<in> set (wm_PendingReloadCommands m))
      \<or> (\<exists>j cmds r. j < 4 \<and> emptyTrace ! j = (AgReload cmds, r) \<and> ''r'' \<in> set cmds))"
proof -
  have five: "5 < length emptyTrace" by (simp add: emptyTrace_facts)
  have four: "foundManifest (openAgent (\<lambda>_. Inr owedManifest)) (take (5 - 1) emptyTrace) = Some owedManifest" using emptyTrace_facts(3) by simp
  have r: "''r'' \<in> set (wm_PendingReloadCommands owedManifest)" by simp
  have n: "(5::nat) - 1 = 4" by simp
  show ?thesis
    using pending_reloads_kept [OF emptySync_run five emptyTrace_facts(2) four r, unfolded n] emptySync_run by blast
qed

theorem sync_success_installs_bundle_witness:
  "\<exists>tr resp. run (\<lambda>_ _. ex_fs calmAnswer) (handleSync (openAgent (\<lambda>_. Inl errNotDir)) ''POST'' [] (SyncBody oneFile)) [] = (tr, AgJSON 200 resp)
    \<and> (\<exists>files. decodeSyncFiles (sq_Files oneFile) True = Inr files \<and> bundleNamed oneFile files \<and> bundleInstalled oneFile files resp tr)"
proof -
  have "isAuthoritative oneFile" by (simp add: isAuthoritative_def oneFile_def)
  moreover have "\<not> alreadyApplied (openAgent (\<lambda>_. Inl errNotDir)) oneFile h" for h
    by (auto simp: alreadyApplied_def foundManifest_def manifestOf_def openAgent_def split: option.splits)
  ultimately show ?thesis using sync_success_installs_bundle [OF oneFile_run] oneFile_run by blast
qed

end
