(* ===== verification/Agent_Digest.thy ===== *)
theory Agent_Digest
  imports Agent_Sync_Contract
begin

text \<open>
  What the digest of a bundle identifies: for text the bytes hashed determine the files; for binary content they do not. And two
  cases in which a sync undoes its own work: a deletion whose path is cleaned twice, and a file under the name of the manifest's temporary file.
\<close>

section \<open>The bytes hashed\<close>

definition bundleStream :: "decodedSyncFile list \<Rightarrow> string" where
  "bundleStream files = fold (\<lambda>f d. digesterAdd d (df_Path f) (df_Content f)) (sort_key df_Path files) []"

definition fileBytes :: "decodedSyncFile \<Rightarrow> string" where
  "fileBytes f = df_Path f @ [CHR 0x00] @ df_Content f @ [CHR 0x00]"

definition nulFree :: "decodedSyncFile \<Rightarrow> bool" where
  "nulFree f \<longleftrightarrow> CHR 0x00 \<notin> set (df_Path f) \<and> CHR 0x00 \<notin> set (df_Content f)"

lemma fold_stream: "fold (\<lambda>f d. digesterAdd d (df_Path f) (df_Content f)) fs d = d @ concat (map fileBytes fs)"
  by (induction fs arbitrary: d) (simp_all add: digesterAdd_def fileBytes_def)

lemma bundleStream_concat: "bundleStream files = concat (map fileBytes (sort_key df_Path files))"
  by (simp add: bundleStream_def fold_stream)

lemma nul_split:
  assumes "CHR 0x00 \<notin> set a" "CHR 0x00 \<notin> set b" "a @ CHR 0x00 # r = b @ CHR 0x00 # s"
  shows "a = b \<and> r = s"
proof -
  have "takeWhile (\<lambda>c. c \<noteq> CHR 0x00) (x @ CHR 0x00 # t) = x" if "CHR 0x00 \<notin> set x" for x t
    using that by (induction x) auto
  then have "a = b" using assms by metis
  then show ?thesis using assms(3) by simp
qed

lemma stream_determines:
  "list_all nulFree as \<Longrightarrow> list_all nulFree bs \<Longrightarrow> concat (map fileBytes as) = concat (map fileBytes bs)
   \<Longrightarrow> map (\<lambda>f. (df_Path f, df_Content f)) as = map (\<lambda>f. (df_Path f, df_Content f)) bs"
proof (induction as arbitrary: bs)
  case Nil
  then show ?case by (cases bs) (auto simp: fileBytes_def)
next
  case (Cons a as)
  then obtain b bs' where bs: "bs = b # bs'" by (cases bs) (auto simp: fileBytes_def)
  have free: "nulFree a" "nulFree b" using Cons.prems bs by simp_all
  have "df_Path a @ CHR 0x00 # (df_Content a @ CHR 0x00 # concat (map fileBytes as))
      = df_Path b @ CHR 0x00 # (df_Content b @ CHR 0x00 # concat (map fileBytes bs'))"
    using Cons.prems(3) unfolding bs list.map concat.simps fileBytes_def [of a] fileBytes_def [of b] by simp
  then have p: "df_Path a = df_Path b"
      "df_Content a @ CHR 0x00 # concat (map fileBytes as) = df_Content b @ CHR 0x00 # concat (map fileBytes bs')"
    using nul_split free unfolding nulFree_def by blast+
  have "df_Content a = df_Content b" "concat (map fileBytes as) = concat (map fileBytes bs')"
    using nul_split [OF _ _ p(2)] free unfolding nulFree_def by blast+
  then show ?case using Cons bs p(1) by simp
qed

text \<open>C30: The digest of a text bundle stands for one set of files: it is the SHA-256 of a byte stream, and two bundles without NUL bytes whose streams
  are equal have the same paths with the same contents.\<close>

theorem text_digest_identifies_bundle:
  assumes "list_all nulFree a" and "list_all nulFree b" and "bundleStream a = bundleStream b"
  shows "digestDecodedSyncFiles a = sha256Hex (bundleStream a)
    \<and> map (\<lambda>f. (df_Path f, df_Content f)) (sort_key df_Path a) = map (\<lambda>f. (df_Path f, df_Content f)) (sort_key df_Path b)"
  using stream_determines [of "sort_key df_Path a" "sort_key df_Path b"] assms
  by (simp add: bundleStream_concat digestDecodedSyncFiles_def digesterSum_def fold_stream list_all_iff)

definition textFile :: "string \<Rightarrow> string \<Rightarrow> decodedSyncFile" where
  "textFile p c = \<lparr>df_Path = p, df_Content = c, df_Binary = False\<rparr>"

theorem text_digest_identifies_bundle_witness:
  "list_all nulFree [textFile ''b'' ''y'', textFile ''a'' ''x''] \<and> list_all nulFree [textFile ''a'' ''x'', textFile ''b'' ''y'']
   \<and> map (\<lambda>f. (df_Path f, df_Content f)) (sort_key df_Path [textFile ''b'' ''y'', textFile ''a'' ''x''])
     = map (\<lambda>f. (df_Path f, df_Content f)) (sort_key df_Path [textFile ''a'' ''x'', textFile ''b'' ''y''])"
proof -
  have "bundleStream [textFile ''b'' ''y'', textFile ''a'' ''x''] = bundleStream [textFile ''a'' ''x'', textFile ''b'' ''y'']"
    by (simp add: bundleStream_concat textFile_def fileBytes_def less_char_def)
  moreover have "list_all nulFree [textFile ''b'' ''y'', textFile ''a'' ''x'']" "list_all nulFree [textFile ''a'' ''x'', textFile ''b'' ''y'']"
    by (simp_all add: nulFree_def textFile_def)
  ultimately show ?thesis using text_digest_identifies_bundle by blast
qed

section \<open>Findings\<close>

text \<open>Binary content may hold NUL bytes, and then one file and two files have the same digest; both bundles pass the checks.\<close>

definition binaryFile :: "string \<Rightarrow> string \<Rightarrow> decodedSyncFile" where
  "binaryFile p c = \<lparr>df_Path = p, df_Content = c, df_Binary = True\<rparr>"

theorem binary_digest_ambiguous:
  "digestDecodedSyncFiles [binaryFile ''a'' [CHR ''x'', CHR 0x00, CHR ''b'', CHR 0x00, CHR ''y'']]
     = digestDecodedSyncFiles [binaryFile ''a'' ''x'', binaryFile ''b'' ''y'']
   \<and> validateAuthoritativeSyncFiles [binaryFile ''a'' [CHR ''x'', CHR 0x00, CHR ''b'', CHR 0x00, CHR ''y'']] = Inr [''a'']
   \<and> validateAuthoritativeSyncFiles [binaryFile ''a'' ''x'', binaryFile ''b'' ''y''] = Inr [''b'', ''a'']"
proof -
  have "validateManagedWorkspacePath ''b'' = Inr ()" by code_simp
  then show ?thesis
    by (simp add: digestDecodedSyncFiles_def digesterSum_def digesterAdd_def binaryFile_def less_char_def validateAuthoritativeSyncFiles_def)
qed

text \<open>A path is cleaned again when its file is removed. The cleaned path of this request keeps the blank that trimming would have dropped, so it passes the
  check of reserved components, and the removal drops the blank: the file removed is in the reserved directory.\<close>

theorem deletion_reaches_reserved_path:
  "cleanDeletes True [''x/../ .git/HEAD''] = Inr ['' .git/HEAD''] \<and> cleanWorkspacePath '' .git/HEAD'' = Inr ''.git/HEAD''
   \<and> validateManagedWorkspacePath ''.git/HEAD'' \<noteq> Inr ()"
proof -
  have "cleanDeletes True [''x/../ .git/HEAD''] = Inr ['' .git/HEAD'']" by code_simp
  moreover have "cleanWorkspacePath '' .git/HEAD'' = Inr ''.git/HEAD''" by code_simp
  moreover have "validateManagedWorkspacePath ''.git/HEAD'' \<noteq> Inr ()" by code_simp
  ultimately show ?thesis by blast
qed

text \<open>The name of the manifest's temporary file is not reserved: a bundle may hold a file of that name.\<close>

theorem manifest_temporary_not_reserved:
  "cleanWorkspacePath manifestTmp = Inr manifestTmp \<and> validateManagedWorkspacePath manifestTmp = Inr ()"
  unfolding manifestTmp_def workspaceManifestName_def by (intro conjI; code_simp)

end
