(* ===== verification/Agent_Workspace.thy ===== *)
theory Agent_Workspace
  imports Agent_Sync Go_Strconv Go_Format
begin

text \<open>
  The workspace API of the sandbox (\<^verbatim>\<open>dev-agent/workspace.go\<close>): the view of the managed files in which large and binary files
  are opaque, known by size and digest only, and the handlers that seed, list, read, mutate and compare them. Programs over the same
  calls as \<^verbatim>\<open>/sync\<close>; a mutation moves the same manifest forward.
\<close>

definition workspaceMaxFiles :: nat where "workspaceMaxFiles = 512"
definition workspaceMaxFileBytes :: nat where "workspaceMaxFileBytes = 1048576"
definition workspaceMaxReadBytes :: int where "workspaceMaxReadBytes = 4194304"
definition workspaceMaxListEntries :: int where "workspaceMaxListEntries = 4096"
definition workspaceMaxOperations :: nat where "workspaceMaxOperations = 256"

section \<open>Workspace files\<close>

record workspaceFile =
  wf_Path :: string
  wf_Content :: "string option"
  wf_Opaque :: bool
  wf_Size :: int
  wf_Digest :: string

definition onDisk :: "workspaceFile \<Rightarrow> bool" where
  "onDisk f \<longleftrightarrow> wf_Opaque f \<and> wf_Content f = None"

definition isWorkspaceText :: "string \<Rightarrow> bool" where
  "isWorkspaceText content \<longleftrightarrow> length content \<le> workspaceMaxFileBytes \<and> utf8Valid content \<and> CHR 0x00 \<notin> set content"

definition classifyWorkspaceBytes :: "string \<Rightarrow> string \<Rightarrow> bool \<Rightarrow> workspaceFile" where
  "classifyWorkspaceBytes clean content keepOpaque =
     (let file = \<lparr>wf_Path = clean, wf_Content = None, wf_Opaque = False, wf_Size = int (length content), wf_Digest = digestBytes content\<rparr> in
      if isWorkspaceText content then file\<lparr>wf_Content := Some content\<rparr>
      else if keepOpaque then file\<lparr>wf_Opaque := True, wf_Content := Some content\<rparr>
      else file\<lparr>wf_Opaque := True\<rparr>)"

text \<open>The bytes in memory; a nil slice has none.\<close>

definition wf_bytes :: "workspaceFile \<Rightarrow> string" where
  "wf_bytes f = (case wf_Content f of Some c \<Rightarrow> c | None \<Rightarrow> [])"

type_synonym fileMap = "(string \<times> workspaceFile) list"

definition workspaceFileIndex :: "workspaceFile list \<Rightarrow> fileMap" where
  "workspaceFileIndex files = fold (\<lambda>f m. mput (wf_Path f) f m) files []"

definition workspaceFilesFromMap :: "fileMap \<Rightarrow> workspaceFile list" where
  "workspaceFilesFromMap files = sort_key wf_Path (map snd files)"

definition workspaceFilePaths :: "workspaceFile list \<Rightarrow> string list" where
  "workspaceFilePaths files = sort (map wf_Path files)"

definition cleanWorkspaceDirectory :: "string \<Rightarrow> goError + string" where
  "cleanWorkspaceDirectory raw = (if trimSpace raw = [] \<or> trimSpace raw = ''.'' then Inr ''.'' else cleanWorkspacePath raw)"

text \<open>\<open>seen\<close> holds the clean paths so far.\<close>

fun cleanDistinct :: "string list \<Rightarrow> string list \<Rightarrow> goError + string list" where
  "cleanDistinct seen [] = Inr []"
| "cleanDistinct seen (v # vs) =
     andThen (cleanWorkspacePath v) (\<lambda>clean.
     if clean \<in> set seen then Inl (Errorf ''duplicate workspace path %q'' [clean])
     else andThen (cleanDistinct (clean # seen) vs) (\<lambda>rest. Inr (clean # rest)))"

definition normalizeWorkspacePaths :: "string list \<Rightarrow> goError + string list" where
  "normalizeWorkspacePaths raw = andThen (cleanDistinct [] raw) (\<lambda>paths. Inr (sort paths))"

definition readManagedFile :: "string \<Rightarrow> (goError + workspaceFile) ag" where
  "readManagedFile clean =
     bindE (ensureExecPathNoSymlink clean True) (\<lambda>_.
     bindE (lstat (InRoot clean)) (\<lambda>info.
     if fi_Kind info \<noteq> KFile then Ret (Inl (Errorf ''managed path %q is not a regular file'' [clean]))
     else if workspaceMaxFileBytes < fi_Size info
     then bindE (hashWorkspaceFile clean) (\<lambda>(digest, len).
       Ret (Inr \<lparr>wf_Path = clean, wf_Content = None, wf_Opaque = True, wf_Size = int len, wf_Digest = digest\<rparr>))
     else bindE (readFile (InRoot clean)) (\<lambda>content. Ret (Inr (classifyWorkspaceBytes clean content False)))))"

fun readManagedEach :: "string list \<Rightarrow> (goError + workspaceFile list) ag" where
  "readManagedEach [] = Ret (Inr [])"
| "readManagedEach (clean # cs) =
     bindE (readManagedFile clean) (\<lambda>f. bindE (readManagedEach cs) (\<lambda>rest. Ret (Inr (f # rest))))"

definition readManagedFiles :: "string list \<Rightarrow> (goError + workspaceFile list) ag" where
  "readManagedFiles paths = (case normalizeWorkspacePaths paths of Inl e \<Rightarrow> Ret (Inl e) | Inr cleaned \<Rightarrow> readManagedEach cleaned)"

definition verifyOpaqueWorkspaceFile :: "workspaceFile \<Rightarrow> (goError + unit) ag" where
  "verifyOpaqueWorkspaceFile f =
     bind (ensureExecPathNoSymlink (wf_Path f) True) (\<lambda>r.
     case r of
       Inl e \<Rightarrow> Ret (Inl (if errorsIs errNotExist e then Errorf ''is missing'' [] else e))
     | Inr _ \<Rightarrow>
         bind (lstat (InRoot (wf_Path f))) (\<lambda>r.
         case r of
           Inl e \<Rightarrow> Ret (Inl (if errorsIs errNotExist e then Errorf ''is missing'' [] else e))
         | Inr info \<Rightarrow>
             if fi_Kind info \<noteq> KFile then Ret (Inl (Errorf ''is not a regular file'' []))
             else bindE (hashWorkspaceFile (wf_Path f)) (\<lambda>(digest, len).
               if digest \<noteq> wf_Digest f \<or> int len \<noteq> wf_Size f
               then Ret (Inl (Errorf ''has changed (now %d bytes, sha256 %s)'' [showNat len, digest]))
               else Ret (Inr ()))))"

definition binaryReadFailed :: "string \<Rightarrow> goError \<Rightarrow> goError" where
  "binaryReadFailed clean = Wrapf ''read binary file %q: %w'' [clean]"

fun digestEach :: "string \<Rightarrow> workspaceFile list \<Rightarrow> (goError + string) ag" where
  "digestEach d [] = Ret (Inr d)"
| "digestEach d (f # fs) =
     (case andThen (cleanWorkspacePath (wf_Path f)) (\<lambda>clean. andThen (validateManagedWorkspacePath clean) (\<lambda>_. Inr clean)) of
        Inl e \<Rightarrow> Ret (Inl e)
      | Inr clean \<Rightarrow>
          if \<not> onDisk f then digestEach (digesterAdd d clean (wf_bytes f)) fs
          else bindE (wrapE (binaryReadFailed clean) (ensureExecPathNoSymlink clean True)) (\<lambda>_.
            bindE (wrapE (binaryReadFailed clean) (digesterAddFile d clean)) (\<lambda>(d', digest, len).
            if digest \<noteq> wf_Digest f \<or> int len \<noteq> wf_Size f
            then Ret (Inl (Errorf ''binary file %q changed while the workspace operation ran'' [clean]))
            else digestEach d' fs)))"

definition digestWorkspaceFiles :: "workspaceFile list \<Rightarrow> (goError + string) ag" where
  "digestWorkspaceFiles files = bindE (digestEach [] (sort_key wf_Path files)) (\<lambda>d. Ret (Inr (digesterSum d)))"

section \<open>Converging the workspace to a set of files\<close>

text \<open>The check of a path before it is written; a missing target is no error.\<close>

definition checkTarget :: "string \<Rightarrow> bool \<Rightarrow> (goError + unit) ag" where
  "checkTarget clean includeTarget =
     bind (ensureExecPathNoSymlink clean includeTarget) (\<lambda>r.
     Ret (case r of Inl e \<Rightarrow> if errorsIs errNotExist e then Inr () else Inl e | Inr _ \<Rightarrow> Inr ()))"

definition placeFile :: "workspaceFile \<Rightarrow> (goError + bool) ag" where
  "placeFile f =
     (let clean = wf_Path f in
      if onDisk f then Ret (Inr False)
      else bindE (checkTarget clean False) (\<lambda>_.
        bindE (checkTarget clean True) (\<lambda>_.
        bind (workspaceFileContentChanged clean (wf_bytes f)) (\<lambda>differs.
        if differs then bindE (writeWorkspaceFile clean (wf_bytes f)) (\<lambda>_. Ret (Inr True)) else Ret (Inr False)))))"

fun placeFiles :: "workspaceFile list \<Rightarrow> (goError + string list) ag" where
  "placeFiles [] = Ret (Inr [])"
| "placeFiles (f # fs) =
     bindE (placeFile f) (\<lambda>differs.
     bindE (placeFiles fs) (\<lambda>rest. Ret (Inr (if differs then wf_Path f # rest else rest))))"

fun removeStale :: "string list \<Rightarrow> string list \<Rightarrow> (goError + string list) ag" where
  "removeStale keep [] = Ret (Inr [])"
| "removeStale keep (clean # cs) =
     (if clean \<in> set keep then removeStale keep cs
      else bindE (removeManagedWorkspaceFile clean) (\<lambda>removed.
        bindE (removeStale keep cs) (\<lambda>rest. Ret (Inr (if removed then clean # rest else rest)))))"

fun cleanPrevious :: "string list \<Rightarrow> goError + string list" where
  "cleanPrevious [] = Inr []"
| "cleanPrevious (raw # rs) = andThen (cleanWorkspacePath raw) (\<lambda>clean. andThen (cleanPrevious rs) (\<lambda>rest. Inr (clean # rest)))"

text \<open>The paths written and the paths removed.\<close>

definition applyManagedContent :: "workspaceFile list \<Rightarrow> string list \<Rightarrow> (goError + string list \<times> string list) ag" where
  "applyManagedContent files previous =
     (case cleanPrevious previous of
        Inl e \<Rightarrow> Ret (Inl e)
      | Inr previousSet \<Rightarrow>
          bindE (placeFiles (sort_key wf_Path files)) (\<lambda>changed.
          bindE (removeStale (map wf_Path files) (sort (remdups previousSet))) (\<lambda>deleted. Ret (Inr (changed, deleted)))))"

section \<open>Comparing\<close>

record workspaceChange =
  ch_Path :: string
  ch_Kind :: string
  ch_BeforeDigest :: string
  ch_AfterDigest :: string
  ch_BeforeBytes :: int
  ch_AfterBytes :: int

text \<open>The overlay of proposed writes and deletions.\<close>

fun overlayWrites :: "fileMap \<Rightarrow> syncFile list \<Rightarrow> goError + fileMap" where
  "overlayWrites files [] = Inr files"
| "overlayWrites files (f # fs) =
     andThen (cleanWorkspacePath (sf_Path f)) (\<lambda>clean.
     andThen (validateManagedWorkspacePath clean) (\<lambda>_.
     andThen (decodeSyncContent f) (\<lambda>(content, binary).
     if binary \<and> syncMaxFileBytes < length content
     then Inl (Errorf ''candidate file %q is %d bytes, above the %d-byte limit'' [clean, showNat (length content), showNat syncMaxFileBytes])
     else if \<not> binary \<and> \<not> isWorkspaceText content then Inl (Errorf ''candidate file %q is invalid or too large'' [clean])
     else overlayWrites (mput clean (classifyWorkspaceBytes clean content True) files) fs)))"

fun overlayDeletes :: "fileMap \<Rightarrow> string list \<Rightarrow> goError + fileMap" where
  "overlayDeletes files [] = Inr files"
| "overlayDeletes files (raw # rs) = andThen (cleanWorkspacePath raw) (\<lambda>clean. overlayDeletes (mdel clean files) rs)"

definition candidateWorkspaceFiles :: "workspaceFile list \<Rightarrow> syncFile list \<Rightarrow> string list \<Rightarrow> goError + workspaceFile list" where
  "candidateWorkspaceFiles current writes deletes =
     andThen (overlayWrites (workspaceFileIndex current) writes) (\<lambda>files.
     andThen (overlayDeletes files deletes) (\<lambda>files.
     if workspaceMaxFiles < length files
     then Inl (Errorf ''candidate workspace exceeds %d files'' [showNat workspaceMaxFiles])
     else Inr (workspaceFilesFromMap files)))"

text \<open>The map of a view, by clean path.\<close>

fun viewMap :: "fileMap \<Rightarrow> workspaceFile list \<Rightarrow> goError + fileMap" where
  "viewMap m [] = Inr m"
| "viewMap m (f # fs) = andThen (cleanWorkspacePath (wf_Path f)) (\<lambda>clean. viewMap (mput clean f m) fs)"

definition changeOf :: "string \<Rightarrow> workspaceFile option \<Rightarrow> workspaceFile option \<Rightarrow> workspaceChange option" where
  "changeOf clean before after =
     (let change = \<lparr>ch_Path = clean, ch_Kind = [], ch_BeforeDigest = [], ch_AfterDigest = [], ch_BeforeBytes = 0, ch_AfterBytes = 0\<rparr>;
          old = (\<lambda>f c. c\<lparr>ch_BeforeDigest := wf_Digest f, ch_BeforeBytes := wf_Size f\<rparr>);
          new = (\<lambda>f c. c\<lparr>ch_AfterDigest := wf_Digest f, ch_AfterBytes := wf_Size f\<rparr>) in
      case (before, after) of
        (Some b, Some a) \<Rightarrow>
          if wf_Digest b = wf_Digest a \<and> wf_Size b = wf_Size a then None
          else Some (new a (old b (change\<lparr>ch_Kind := ''modified''\<rparr>)))
      | (Some b, None) \<Rightarrow> Some (old b (change\<lparr>ch_Kind := ''deleted''\<rparr>))
      | (None, Some a) \<Rightarrow> Some (new a (change\<lparr>ch_Kind := ''added''\<rparr>))
      | (None, None) \<Rightarrow> Some (change\<lparr>ch_Kind := ''added''\<rparr>))"

definition diffWorkspaceFiles :: "workspaceFile list \<Rightarrow> workspaceFile list \<Rightarrow> goError + workspaceChange list" where
  "diffWorkspaceFiles before after =
     andThen (viewMap [] before) (\<lambda>left.
     andThen (viewMap [] after) (\<lambda>right.
     Inr (List.map_filter (\<lambda>clean. changeOf clean (map_of left clean) (map_of right clean))
       (sort (remdups (mkeys left @ mkeys right))))))"
section \<open>Steps the handlers share\<close>

definition decodeBoundedJSON :: "'q jsonBody \<Rightarrow> goError + 'q" where
  "decodeBoundedJSON body =
     (case body of
        BodyInvalid e \<Rightarrow> Inl (Wrapf ''invalid JSON body: %w'' [] e)
      | BodyTrailing \<Rightarrow> Inl (Errorf ''request body must contain one JSON object'' [])
      | BodyValue q \<Rightarrow> Inr q)"

definition must :: "nat \<Rightarrow> goError + 'a \<Rightarrow> ('r, 'a) agStep" where
  "must status r = (case r of Inl e \<Rightarrow> stop status e | Inr a \<Rightarrow> Ret (Inr a))"

definition methodNotAllowed :: "('r, 'a) agStep" where
  "methodNotAllowed = stop 405 (Errorf ''method not allowed'' [])"

definition postedBody :: "string \<Rightarrow> 'q jsonBody \<Rightarrow> ('r, 'q) agStep" where
  "postedBody verb body = (if verb \<noteq> ''POST'' then methodNotAllowed else must 400 (decodeBoundedJSON body))"

definition openedRoot :: "agentConfig \<Rightarrow> ('r, unit) agStep" where
  "openedRoot C = orStop 500 (\<lambda>e. Errorf ''open workspace: %v'' [errorText e]) (openWorkspaceRoot (gc_WorkDir C))"

text \<open>The manifest found, after its files were verified.\<close>

definition seededManifest :: "agentConfig \<Rightarrow> ('r, workspaceManifest) agStep" where
  "seededManifest C =
     bindE (openedRoot C) (\<lambda>_.
     bind (readWorkspaceManifest (gc_unmarshal C)) (\<lambda>read.
     case read of
       Inr (Some manifest) \<Rightarrow>
         bindE (orStop 409 (\<lambda>e. Errorf ''workspace manifest verification failed: %v'' [errorText e]) (verifyWorkspaceManifest manifest)) (\<lambda>_.
         Ret (Inr manifest))
     | _ \<Rightarrow> stop 409 (Errorf ''workspace is not seeded'' [])))"

definition managedFilesOf :: "workspaceManifest \<Rightarrow> ('r, workspaceFile list) agStep" where
  "managedFilesOf manifest =
     orStop 409 (\<lambda>e. Errorf ''read managed workspace: %v'' [errorText e]) (readManagedFiles (wm_Files manifest))"

text \<open>The revision and digest a response reports, where there is a manifest.\<close>

definition manifestEvidence :: "agentConfig \<Rightarrow> (64 word \<times> string) ag" where
  "manifestEvidence C =
     bind (readWorkspaceManifest (gc_unmarshal C)) (\<lambda>read.
     Ret (case read of Inr (Some m) \<Rightarrow> (wm_SourceRevision m, wm_SourceDigest m) | _ \<Rightarrow> (0, [])))"

definition missingAs404 :: "goError \<Rightarrow> nat" where
  "missingAs404 e = (if errorsIs errNotExist e then 404 else 400)"

section \<open>Seeding\<close>

record workspaceSeedRequest =
  ws_Files :: "syncFile list"
  ws_Restart :: string
  ws_SourceRevision :: "64 word"
  ws_SourceDigest :: string

definition validateWorkspaceSeedFiles :: "syncFile list \<Rightarrow> goError + string list" where
  "validateWorkspaceSeedFiles files = andThen (decodeSyncFiles files True) validateAuthoritativeSyncFiles"

text \<open>The revision after the one found, 1 when there is none; the manifest is read without the lock.\<close>

definition seedRevision :: "agentConfig \<Rightarrow> workspaceSeedRequest \<Rightarrow> 64 word ag" where
  "seedRevision C req =
     (if ws_SourceRevision req = 0 \<and> trimSpace (ws_SourceDigest req) = []
      then bind (openWorkspaceRoot (gc_WorkDir C)) (\<lambda>r.
        case r of
          Inl _ \<Rightarrow> Ret 1
        | Inr _ \<Rightarrow>
            bind (readWorkspaceManifest (gc_unmarshal C)) (\<lambda>read.
            let revision = (case read of Inr (Some previous) \<Rightarrow> wm_SourceRevision previous + 1 | _ \<Rightarrow> 0) in
            Ret (if revision = 0 then 1 else revision)))
      else Ret (ws_SourceRevision req))"

text \<open>The request goes on to \<open>handleSync\<close> as the body that decodes to it.\<close>

definition handleWorkspaceSeed :: "agentConfig \<Rightarrow> string \<Rightarrow> string \<Rightarrow> workspaceSeedRequest jsonBody \<Rightarrow> syncResponse agReply ag" where
  "handleWorkspaceSeed C verb given body =
     bind (bindE (postedBody verb body) (\<lambda>req.
       if workspaceMaxFiles < length (ws_Files req)
       then stop 413 (Errorf ''seed may contain at most %d files'' [showNat workspaceMaxFiles])
       else (case validateWorkspaceSeedFiles (ws_Files req) of
               Inl e \<Rightarrow> stop (if errorsIs errSyncTooLarge e then 413 else 400) e
             | Inr _ \<Rightarrow>
                 bind (seedRevision C req) (\<lambda>revision.
                 bindE (must 400 (digestSyncFiles (ws_Files req))) (\<lambda>digest.
                 Ret (Inr \<lparr>sq_Files = ws_Files req, sq_DeletePaths = [], sq_Restart = ws_Restart req, sq_SourceRevision = revision,
                   sq_SourceDigest = (if trimSpace (ws_SourceDigest req) = [] then digest else ws_SourceDigest req)\<rparr>)))))) (\<lambda>r.
     case r of
       Inl reply \<Rightarrow> Ret reply
     | Inr req \<Rightarrow> handleSync C ''POST'' given (SyncBody req))"

section \<open>Listing\<close>

record workspaceEntry =
  we_Path :: string
  we_Type :: string
  we_Size :: nat
  we_Mode :: nat

record workspaceListRequest =
  lq_Path :: string
  lq_Recursive :: bool
  lq_MaxEntries :: int

record workspaceListResponse =
  ls_Path :: string
  ls_Entries :: "workspaceEntry list"
  ls_SourceRevision :: "64 word"
  ls_SourceDigest :: string

definition boundedWorkspaceListEntries :: "int \<Rightarrow> goError + int" where
  "boundedWorkspaceListEntries n =
     (if n \<le> 0 then Inr 256
      else if workspaceMaxListEntries < n then Inl (Errorf ''maxEntries must be at most %d'' [showInt workspaceMaxListEntries])
      else Inr n)"

definition entryKind :: "fileKind \<Rightarrow> string" where
  "entryKind k = (case k of KDir \<Rightarrow> ''directory'' | KSymlink \<Rightarrow> ''symlink'' | KSpecial \<Rightarrow> ''special'' | KFile \<Rightarrow> ''file'')"

text \<open>The children of a directory: the entries so far and the directories still to list.\<close>

fun listChildren :: "bool \<Rightarrow> int \<Rightarrow> string \<Rightarrow> string list \<Rightarrow> workspaceEntry list \<Rightarrow> string list \<Rightarrow>
    (goError + workspaceEntry list \<times> string list) ag" where
  "listChildren recursive maxEntries dir [] entries queue = Ret (Inr (entries, queue))"
| "listChildren recursive maxEntries dir (child # cs) entries queue =
     (if dir = ''.'' \<and> (child = workspaceManifestName \<or> child = manifestTmp) then listChildren recursive maxEntries dir cs entries queue
      else let childPath = (if dir \<noteq> ''.'' then pathJoin dir child else child) in
        bindE (lstat (InRoot childPath)) (\<lambda>info.
        let entries' = entries @ [\<lparr>we_Path = childPath, we_Type = entryKind (fi_Kind info), we_Size = fi_Size info, we_Mode = fi_Perm info\<rparr>] in
        if maxEntries < int (length entries')
        then Ret (Inl (Errorf ''workspace listing exceeds maxEntries %d'' [showInt maxEntries]))
        else listChildren recursive maxEntries dir cs entries' (if recursive \<and> fi_Kind info = KDir then queue @ [childPath] else queue)))"

definition listExhausted :: goError where "listExhausted = Errorf ''listing out of fuel'' []"

fun listQueue :: "nat \<Rightarrow> bool \<Rightarrow> int \<Rightarrow> workspaceEntry list \<Rightarrow> string list \<Rightarrow> (goError + workspaceEntry list) ag" where
  "listQueue fuel recursive maxEntries entries [] = Ret (Inr entries)"
| "listQueue 0 recursive maxEntries entries (dir # queue) = Ret (Inl listExhausted)"
| "listQueue (Suc fuel) recursive maxEntries entries (dir # queue) =
     bindE (agGet ag_entries (AgReadDir (InRoot dir))) (\<lambda>children.
     bindE (listChildren recursive maxEntries dir (sort (map fst children)) entries queue) (\<lambda>(entries', queue').
     listQueue fuel recursive maxEntries entries' queue'))"

text \<open>A directory is queued with an entry of its own, so there are never more than \<open>maxEntries\<close> beside the first.\<close>

definition listWorkspaceEntries :: "string \<Rightarrow> bool \<Rightarrow> int \<Rightarrow> (goError + workspaceEntry list) ag" where
  "listWorkspaceEntries base recursive maxEntries = listQueue (Suc (nat maxEntries)) recursive maxEntries [] [base]"

text \<open>\<open>query\<close> gives the values of the URL's query.\<close>

definition listRequest :: "string \<Rightarrow> (string \<Rightarrow> string) \<Rightarrow> workspaceListRequest jsonBody \<Rightarrow> (workspaceListResponse, workspaceListRequest) agStep" where
  "listRequest verb query body =
     (if verb = ''GET''
      then Ret (Inr \<lparr>lq_Path = query ''path'', lq_Recursive = (parseBool (query ''recursive'') = Some True),
             lq_MaxEntries = (if query ''maxEntries'' \<noteq> [] then atoiValue (query ''maxEntries'') else 0)\<rparr>)
      else if verb = ''POST'' then must 400 (decodeBoundedJSON body)
      else methodNotAllowed)"

definition handleWorkspaceList ::
    "agentConfig \<Rightarrow> string \<Rightarrow> (string \<Rightarrow> string) \<Rightarrow> workspaceListRequest jsonBody \<Rightarrow> (workspaceListResponse, workspaceListResponse) agStep" where
  "handleWorkspaceList C verb query body =
     bindE (listRequest verb query body) (\<lambda>req.
     bindE (must 400 (boundedWorkspaceListEntries (lq_MaxEntries req))) (\<lambda>maxEntries.
     bindE (must 400 (cleanWorkspaceDirectory (lq_Path req))) (\<lambda>base.
     bindE (openedRoot C) (\<lambda>_.
     bind (listWorkspaceEntries base (lq_Recursive req) maxEntries) (\<lambda>r.
     case r of
       Inl e \<Rightarrow> stop (missingAs404 e) e
     | Inr entries \<Rightarrow>
         bind (manifestEvidence C) (\<lambda>(revision, digest).
         Ret (Inr \<lparr>ls_Path = base, ls_Entries = entries, ls_SourceRevision = revision, ls_SourceDigest = digest\<rparr>)))))))"

section \<open>Reading\<close>

record workspaceReadRequest =
  wr_Paths :: "string list"
  wr_MaxBytes :: int

record workspaceReadFile =
  rd_Path :: string
  rd_Content :: string
  rd_Bytes :: nat
  rd_Digest :: string

record workspaceReadResponse =
  rr_Files :: "workspaceReadFile list"
  rr_SourceRevision :: "64 word"
  rr_SourceDigest :: string

definition boundedWorkspaceReadBytes :: "int \<Rightarrow> goError + int" where
  "boundedWorkspaceReadBytes n =
     (if n \<le> 0 then Inr workspaceMaxReadBytes
      else if workspaceMaxReadBytes < n then Inl (Errorf ''maxBytes must be at most %d'' [showInt workspaceMaxReadBytes])
      else Inr n)"

definition readFailed :: "string \<Rightarrow> goError \<Rightarrow> goError" where
  "readFailed clean e = Errorf ''read %q: %v'' [clean, errorText e]"

definition readWorkspaceText :: "int \<Rightarrow> string \<Rightarrow> (workspaceReadResponse, workspaceReadFile) agStep" where
  "readWorkspaceText remaining clean =
     bind (ensureExecPathNoSymlink clean True) (\<lambda>r.
     case r of
       Inl e \<Rightarrow> stop (missingAs404 e) (readFailed clean e)
     | Inr _ \<Rightarrow>
         bindE (orStop 404 (readFailed clean) (lstat (InRoot clean))) (\<lambda>info.
         if fi_Kind info \<noteq> KFile then stop 400 (Errorf ''read %q: path is not a regular file'' [clean])
         else if workspaceMaxFileBytes < fi_Size info
         then bindE (orStop 500 (readFailed clean) (hashWorkspaceFile clean)) (\<lambda>(digest, len).
           stop 413 (Errorf ''read %q is %d bytes (sha256 %s), above the %d-byte text limit; large and binary files are opaque to the workspace API''
             [clean, showNat len, digest, showNat workspaceMaxFileBytes]))
         else bindE (orStop 500 (readFailed clean) (readFile (InRoot clean))) (\<lambda>content.
           if workspaceMaxFileBytes < length content \<or> remaining < int (length content)
           then stop 413 (Errorf ''read %q exceeds the remaining %d-byte response limit'' [clean, showInt remaining])
           else if \<not> isWorkspaceText content
           then stop 422 (Errorf ''read %q is not UTF-8 text: it is a binary file (%d bytes, sha256 %s); binary files are opaque to the workspace API''
             [clean, showNat (length content), digestBytes content])
           else Ret (Inr \<lparr>rd_Path = clean, rd_Content = content, rd_Bytes = length content, rd_Digest = digestBytes content\<rparr>))))"

fun readWorkspaceTexts :: "int \<Rightarrow> string list \<Rightarrow> (workspaceReadResponse, workspaceReadFile list) agStep" where
  "readWorkspaceTexts remaining [] = Ret (Inr [])"
| "readWorkspaceTexts remaining (clean # cs) =
     bindE (readWorkspaceText remaining clean) (\<lambda>f.
     bindE (readWorkspaceTexts (remaining - int (rd_Bytes f)) cs) (\<lambda>rest. Ret (Inr (f # rest))))"

definition handleWorkspaceRead ::
    "agentConfig \<Rightarrow> string \<Rightarrow> workspaceReadRequest jsonBody \<Rightarrow> (workspaceReadResponse, workspaceReadResponse) agStep" where
  "handleWorkspaceRead C verb body =
     bindE (postedBody verb body) (\<lambda>req.
     if wr_Paths req = [] \<or> workspaceMaxFiles < length (wr_Paths req)
     then stop 400 (Errorf ''paths must contain between 1 and %d entries'' [showNat workspaceMaxFiles])
     else bindE (must 400 (boundedWorkspaceReadBytes (wr_MaxBytes req))) (\<lambda>maxBytes.
       bindE (must 400 (normalizeWorkspacePaths (wr_Paths req))) (\<lambda>paths.
       bindE (openedRoot C) (\<lambda>_.
       bindE (readWorkspaceTexts maxBytes paths) (\<lambda>files.
       bind (manifestEvidence C) (\<lambda>(revision, digest).
       Ret (Inr \<lparr>rr_Files = files, rr_SourceRevision = revision, rr_SourceDigest = digest\<rparr>)))))))"

section \<open>Mutating\<close>

record workspaceMutation =
  mu_Operation :: string
  mu_Path :: string
  mu_Content :: string

record workspaceMutateRequest =
  mq_ExpectedRevision :: "64 word"
  mq_ExpectedDigest :: string
  mq_Operations :: "workspaceMutation list"
  mq_Restart :: string

record workspaceMutateResponse =
  mr_Phase :: string
  mr_Changed :: "string list"
  mr_Deleted :: "string list"
  mr_Restarted :: bool
  mr_SourceRevision :: "64 word"
  mr_SourceDigest :: string

text \<open>One operation on the map of files, with the status of its refusal.\<close>

definition applyOperation :: "nat \<Rightarrow> string list \<Rightarrow> workspaceMutation \<Rightarrow> fileMap \<Rightarrow> (nat \<times> goError) + string \<times> fileMap" where
  "applyOperation i seen operation files =
     (let opError = (\<lambda>e. Errorf ''operations[%d]: %v'' [showNat i, errorText e]) in
      case cleanWorkspacePath (mu_Path operation) of
        Inl e \<Rightarrow> Inl (400, opError e)
      | Inr clean \<Rightarrow>
        (case validateManagedWorkspacePath clean of
           Inl e \<Rightarrow> Inl (400, opError e)
         | Inr _ \<Rightarrow>
             if clean \<in> set seen then Inl (400, Errorf ''duplicate mutation path %q'' [clean])
             else let op = toLower (trimSpace (mu_Operation operation)) in
               if op = ''write'' \<or> op = ''upsert'' then
                 (if workspaceMaxFileBytes < length (mu_Content operation)
                  then Inl (413, Errorf ''mutation %q exceeds %d bytes'' [clean, showNat workspaceMaxFileBytes])
                  else if \<not> utf8Valid (mu_Content operation) \<or> CHR 0x00 \<in> set (mu_Content operation)
                  then Inl (400, Errorf ''mutation %q must be UTF-8 text without NUL bytes'' [clean])
                  else Inr (clean, mput clean (classifyWorkspaceBytes clean (mu_Content operation) True) files))
               else if op = ''delete'' \<or> op = ''remove'' then Inr (clean, mdel clean files)
               else Inl (400, Errorf ''operations[%d].op must be write or delete'' [showNat i])))"

fun applyOperations :: "nat \<Rightarrow> string list \<Rightarrow> workspaceMutation list \<Rightarrow> fileMap \<Rightarrow> (nat \<times> goError) + fileMap" where
  "applyOperations i seen [] files = Inr files"
| "applyOperations i seen (operation # ops) files =
     andThen (applyOperation i seen operation files) (\<lambda>(clean, files'). applyOperations (Suc i) (clean # seen) ops files')"

text \<open>The files are converged and the manifest that lists them is stored under the next revision.\<close>

definition advanceManifest :: "workspaceManifest \<Rightarrow> string \<Rightarrow> workspaceFile list \<Rightarrow> workspaceManifest" where
  "advanceManifest manifest digest updated =
     manifest\<lparr>wm_SourceRevision := wm_SourceRevision manifest + 1, wm_SourceDigest := digest, wm_Files := workspaceFilePaths updated,
       wm_PendingReloadCommands := []\<rparr>"

definition replaceContent ::
    "string \<Rightarrow> workspaceManifest \<Rightarrow> string \<Rightarrow> workspaceFile list \<Rightarrow> ('r, string list \<times> string list) agStep" where
  "replaceContent what manifest digest updated =
     bindE (orStop 500 (\<lambda>e. Errorf (what @ '': %v'') [errorText e]) (applyManagedContent updated (wm_Files manifest))) (\<lambda>(changed, deleted).
     if wm_SourceRevision manifest = - 1 then stop 409 (Errorf ''workspace revision exhausted'' [])
     else bindE (orStop 500 manifestFailed (writeWorkspaceManifest (advanceManifest manifest digest updated))) (\<lambda>_.
       Ret (Inr (changed, deleted))))"

definition staleEvidence :: "('r, 'a) agStep" where
  "staleEvidence = stop 409 (Errorf ''workspace revision or digest no longer matches expected evidence'' [])"

definition mutated :: "workspaceManifest \<Rightarrow> string \<Rightarrow> workspaceMutateResponse" where
  "mutated manifest phase = \<lparr>mr_Phase = phase, mr_Changed = [], mr_Deleted = [], mr_Restarted = False,
     mr_SourceRevision = wm_SourceRevision manifest, mr_SourceDigest = wm_SourceDigest manifest\<rparr>"

text \<open>From the check of the number of files on.\<close>

definition installMutation ::
    "workspaceMutateRequest \<Rightarrow> workspaceManifest \<Rightarrow> fileMap \<Rightarrow> (workspaceMutateResponse, workspaceMutateResponse) agStep" where
  "installMutation req manifest filesByPath =
     (if workspaceMaxFiles < length filesByPath
      then stop 413 (Errorf ''mutation would exceed %d managed files'' [showNat workspaceMaxFiles])
      else let updated = workspaceFilesFromMap filesByPath in
        bindE (orStop 409 (\<lambda>e. Errorf ''digest mutated workspace: %v'' [errorText e]) (digestWorkspaceFiles updated)) (\<lambda>newDigest.
        if newDigest = normalizeSourceDigest (wm_SourceDigest manifest) then Ret (Inr (mutated manifest ''Unchanged''))
        else bindE (replaceContent ''apply workspace mutation'' manifest newDigest updated) (\<lambda>(changed, deleted).
          let response = (mutated (advanceManifest manifest newDigest updated) ''Mutated'')\<lparr>mr_Changed := changed, mr_Deleted := deleted\<rparr> in
          if equalFold (trimSpace (mq_Restart req)) ''always''
          then bindE (orStop 502 (\<lambda>e. Errorf ''restart: %v'' [errorText e]) (agDo AgRestart)) (\<lambda>_. Ret (Inr (response\<lparr>mr_Restarted := True\<rparr>)))
          else Ret (Inr response))))"

definition handleWorkspaceMutate ::
    "agentConfig \<Rightarrow> string \<Rightarrow> workspaceMutateRequest jsonBody \<Rightarrow> (workspaceMutateResponse, workspaceMutateResponse) agStep" where
  "handleWorkspaceMutate C verb body =
     bindE (postedBody verb body) (\<lambda>req.
     if mq_ExpectedRevision req = 0 \<or> normalizeSourceDigest (mq_ExpectedDigest req) = []
     then stop 400 (Errorf ''expectedRevision and expectedDigest are required'' [])
     else if mq_Operations req = [] \<or> workspaceMaxOperations < length (mq_Operations req)
     then stop 400 (Errorf ''operations must contain between 1 and %d entries'' [showNat workspaceMaxOperations])
     else bindE (seededManifest C) (\<lambda>manifest.
       if wm_SourceRevision manifest \<noteq> mq_ExpectedRevision req
         \<or> normalizeSourceDigest (wm_SourceDigest manifest) \<noteq> normalizeSourceDigest (mq_ExpectedDigest req)
       then staleEvidence
       else bindE (managedFilesOf manifest) (\<lambda>files.
         case applyOperations 0 [] (mq_Operations req) (workspaceFileIndex files) of
           Inl (status, e) \<Rightarrow> stop status e
         | Inr filesByPath \<Rightarrow> installMutation req manifest filesByPath)))"

end
