(* ===== verification/Agent_Checkpoint.thy ===== *)
theory Agent_Checkpoint
  imports Agent_Workspace
begin

text \<open>
  Checkpoints of a workspace (\<^verbatim>\<open>dev-agent/workspace.go\<close>): the text files by content, the opaque ones by digest and size; the store
  that keeps at most a fixed number of them, in memory or in a directory of the state; the comparison with one and its restoration;
  and the dispatch of the workspace API.
\<close>

definition workspaceMaxCheckpoints :: nat where "workspaceMaxCheckpoints = 64"
definition workspaceMaxCheckpointBytes :: nat where "workspaceMaxCheckpointBytes = 8388608"
definition workspaceCheckpointDir :: string where "workspaceCheckpointDir = ''workspace-checkpoints''"

section \<open>Checkpoints\<close>

record workspaceOpaqueFile =
  of_Path :: string
  of_Digest :: string
  of_Bytes :: int

record workspaceCheckpoint =
  ck_ID :: string
  ck_Label :: string
  ck_SourceRevision :: "64 word"
  ck_SourceDigest :: string
  ck_Files :: "syncFile list"
  ck_OpaqueFiles :: "workspaceOpaqueFile list"
  ck_EntriesDigest :: string
  ck_CreatedAt :: int

record workspaceCheckpointSummary =
  cs_ID :: string
  cs_Label :: string
  cs_SourceRevision :: "64 word"
  cs_SourceDigest :: string
  cs_FileCount :: nat
  cs_CreatedAt :: int

definition checkpointID :: "workspaceManifest \<Rightarrow> string" where
  "checkpointID manifest =
     ''ckpt-'' @ showNat (unat (wm_SourceRevision manifest)) @ ''-'' @ take 12 (normalizeSourceDigest (wm_SourceDigest manifest))"

definition validateCheckpointID :: "string \<Rightarrow> goError + unit" where
  "validateCheckpointID id0 =
     (let id = trimSpace id0 in
      if id = [] \<or> 128 < length id \<or> containsAny id [CHR ''/'', CHR 0x5C, CHR 0x00] \<or> id = ''.'' \<or> id = ''..''
      then Inl (Errorf ''checkpoint id is invalid'' []) else Inr ())"

definition checkpointSummary :: "workspaceCheckpoint \<Rightarrow> workspaceCheckpointSummary" where
  "checkpointSummary c = \<lparr>cs_ID = ck_ID c, cs_Label = ck_Label c, cs_SourceRevision = ck_SourceRevision c, cs_SourceDigest = ck_SourceDigest c,
     cs_FileCount = length (ck_Files c) + length (ck_OpaqueFiles c), cs_CreatedAt = ck_CreatedAt c\<rparr>"

text \<open>The JSON of the files, for the seal and for the store. A list that is set but empty is \<^verbatim>\<open>[]\<close>, and one that was never
  appended to is \<^verbatim>\<open>null\<close>.\<close>

definition jsonList :: "string list \<Rightarrow> string" where
  "jsonList xs = ''['' @ joinWith '','' xs @ '']''"

definition marshalSyncFile :: "syncFile \<Rightarrow> string" where
  "marshalSyncFile f =
     jsonFields ([(''path'', jsonString (sf_Path f)), (''content'', jsonString (sf_Content f))]
       @ (if sf_Encoding f = [] then [] else [(''encoding'', jsonString (sf_Encoding f))]))"

definition marshalOpaque :: "workspaceOpaqueFile \<Rightarrow> string" where
  "marshalOpaque f =
     jsonFields [(''path'', jsonString (of_Path f)), (''digest'', jsonString (of_Digest f)), (''bytes'', showInt (of_Bytes f))]"

definition checkpointEntriesDigest :: "workspaceCheckpoint \<Rightarrow> string" where
  "checkpointEntriesDigest c =
     digestBytes (jsonFields [(''files'', jsonList (map marshalSyncFile (ck_Files c))),
       (''opaqueFiles'', if ck_OpaqueFiles c = [] then ''null'' else jsonList (map marshalOpaque (ck_OpaqueFiles c)))])"

text \<open>\<^verbatim>\<open>time.Time\<close> has a JSON form for the years 0 to 9999 only.\<close>

definition marshalCheckpoint :: "workspaceCheckpoint \<Rightarrow> goError + string" where
  "marshalCheckpoint c =
     (case civilDate (ck_CreatedAt c div second div 86400) of (year, _, _) \<Rightarrow>
        if year < 0 \<or> 9999 < year then Inl (Errorf ''Time.MarshalJSON: year outside of range [0,9999]'' [])
        else Inr (jsonFields ([(''id'', jsonString (ck_ID c))]
          @ (if ck_Label c = [] then [] else [(''label'', jsonString (ck_Label c))])
          @ [(''sourceRevision'', showNat (unat (ck_SourceRevision c))), (''sourceDigest'', jsonString (ck_SourceDigest c)),
             (''files'', jsonList (map marshalSyncFile (ck_Files c)))]
          @ (if ck_OpaqueFiles c = [] then [] else [(''opaqueFiles'', jsonList (map marshalOpaque (ck_OpaqueFiles c)))])
          @ (if ck_EntriesDigest c = [] then [] else [(''entriesDigest'', jsonString (ck_EntriesDigest c))])
          @ [(''createdAt'', [CHR 0x22] @ formatRFC3339Nano (ck_CreatedAt c) @ [CHR 0x22])])))"

definition textEntry :: "workspaceFile \<Rightarrow> syncFile" where
  "textEntry f = \<lparr>sf_Path = wf_Path f, sf_Content = wf_bytes f, sf_Encoding = []\<rparr>"

definition opaqueEntry :: "workspaceFile \<Rightarrow> workspaceOpaqueFile" where
  "opaqueEntry f = \<lparr>of_Path = wf_Path f, of_Digest = wf_Digest f, of_Bytes = wf_Size f\<rparr>"

text \<open>\<open>now\<close> is the time of creation.\<close>

definition newWorkspaceCheckpoint :: "string \<Rightarrow> string \<Rightarrow> workspaceManifest \<Rightarrow> workspaceFile list \<Rightarrow> int \<Rightarrow> workspaceCheckpoint" where
  "newWorkspaceCheckpoint ckid label manifest files created =
     (let view = workspaceFilesFromMap (workspaceFileIndex files);
          checkpoint = \<lparr>ck_ID = ckid, ck_Label = label, ck_SourceRevision = wm_SourceRevision manifest,
            ck_SourceDigest = wm_SourceDigest manifest, ck_Files = map textEntry (filter (\<lambda>f. \<not> wf_Opaque f) view),
            ck_OpaqueFiles = map opaqueEntry (filter wf_Opaque view), ck_EntriesDigest = [], ck_CreatedAt = created\<rparr> in
      if ck_OpaqueFiles checkpoint \<noteq> [] then checkpoint\<lparr>ck_EntriesDigest := checkpointEntriesDigest checkpoint\<rparr> else checkpoint)"

definition opaqueFile :: "workspaceOpaqueFile \<Rightarrow> workspaceFile" where
  "opaqueFile f = \<lparr>wf_Path = of_Path f, wf_Content = None, wf_Opaque = True, wf_Size = of_Bytes f, wf_Digest = of_Digest f\<rparr>"

definition checkpointWorkspaceFiles :: "workspaceCheckpoint \<Rightarrow> workspaceFile list" where
  "checkpointWorkspaceFiles c =
     workspaceFilesFromMap (workspaceFileIndex
       (map (\<lambda>f. classifyWorkspaceBytes (sf_Path f) (sf_Content f) True) (ck_Files c) @ map opaqueFile (ck_OpaqueFiles c)))"

subsection \<open>Validation\<close>

definition claimPath :: "string list \<Rightarrow> string \<Rightarrow> goError + string" where
  "claimPath paths raw =
     andThen (cleanWorkspacePath raw) (\<lambda>clean.
     if clean \<noteq> raw then Inl (Errorf ''checkpoint path %q is not clean'' [raw])
     else andThen (validateManagedWorkspacePath clean) (\<lambda>_.
       if clean \<in> set paths then Inl (Errorf ''checkpoint duplicates path %q'' [clean]) else Inr clean))"

fun claimTexts :: "string list \<Rightarrow> syncFile list \<Rightarrow> goError + string list" where
  "claimTexts paths [] = Inr paths"
| "claimTexts paths (f # fs) =
     andThen (claimPath paths (sf_Path f)) (\<lambda>clean.
     if sf_Encoding f \<noteq> [] \<or> \<not> isWorkspaceText (sf_Content f)
     then Inl (Errorf ''checkpoint file %q must be UTF-8 text of at most %d bytes'' [sf_Path f, showNat workspaceMaxFileBytes])
     else claimTexts (clean # paths) fs)"

text \<open>\<^verbatim>\<open>hex.DecodeString\<close> gives 32 bytes: 64 digits of either case.\<close>

definition sha256Digits :: "string \<Rightarrow> bool" where
  "sha256Digits s \<longleftrightarrow> length s = 64 \<and> list_all (\<lambda>c. let n = byteVal c in 48 \<le> n \<and> n \<le> 57 \<or> 65 \<le> n \<and> n \<le> 70 \<or> 97 \<le> n \<and> n \<le> 102) s"

fun claimOpaques :: "string list \<Rightarrow> workspaceOpaqueFile list \<Rightarrow> goError + string list" where
  "claimOpaques paths [] = Inr paths"
| "claimOpaques paths (f # fs) =
     andThen (claimPath paths (of_Path f)) (\<lambda>clean.
     if \<not> sha256Digits (of_Digest f) \<or> of_Bytes f < 0
     then Inl (Errorf ''checkpoint binary file %q has an invalid digest or size'' [of_Path f])
     else claimOpaques (clean # paths) fs)"

definition validateWorkspaceCheckpoint :: "workspaceCheckpoint \<Rightarrow> goError + unit" where
  "validateWorkspaceCheckpoint c =
     (if workspaceMaxFiles < length (ck_Files c) + length (ck_OpaqueFiles c)
      then Inl (Errorf ''checkpoint has more than %d files'' [showNat workspaceMaxFiles])
      else andThen (claimTexts [] (ck_Files c)) (\<lambda>paths.
        andThen (claimOpaques paths (ck_OpaqueFiles c)) (\<lambda>_.
        if ck_OpaqueFiles c \<noteq> []
        then (if checkpointEntriesDigest c \<noteq> ck_EntriesDigest c then Inl (Errorf ''checkpoint digest does not match its files'' []) else Inr ())
        else andThen (digestSyncFiles (ck_Files c)) (\<lambda>digest.
          if normalizeSourceDigest digest \<noteq> normalizeSourceDigest (ck_SourceDigest c)
          then Inl (Errorf ''checkpoint digest does not match its files'' []) else Inr ()))))"

section \<open>The store\<close>

text \<open>The configuration with the coordinator's state directory, and the decoder of a stored checkpoint.\<close>

record workspaceConfig = agentConfig +
  wc_StateDir :: string
  wc_decodeCheckpoint :: "string \<Rightarrow> goError + workspaceCheckpoint"

type_synonym checkpointStore = "(string \<times> workspaceCheckpoint) list"

definition inMemory :: "workspaceConfig \<Rightarrow> bool" where
  "inMemory C \<longleftrightarrow> trimSpace (wc_StateDir C) = []"

definition checkpointDir :: "workspaceConfig \<Rightarrow> string" where
  "checkpointDir C = pathJoin (wc_StateDir C) workspaceCheckpointDir"

definition checkpointStorePath :: "workspaceConfig \<Rightarrow> string \<Rightarrow> goError + string" where
  "checkpointStorePath C ckid =
     andThen (validateCheckpointID ckid) (\<lambda>_.
     if inMemory C then Inl (Errorf ''checkpoint persistence requires coordinator state'' [])
     else Inr (pathJoin (checkpointDir C) (ckid @ ''.json'')))"

definition sameEvidence :: "workspaceCheckpoint \<Rightarrow> workspaceCheckpoint \<Rightarrow> bool" where
  "sameEvidence a b \<longleftrightarrow> ck_SourceRevision a = ck_SourceRevision b
     \<and> normalizeSourceDigest (ck_SourceDigest a) = normalizeSourceDigest (ck_SourceDigest b)"

definition checkpointTaken :: goError where
  "checkpointTaken = Errorf ''checkpoint id already exists for different workspace evidence'' []"

definition tooManyCheckpoints :: goError where
  "tooManyCheckpoints = Errorf ''at most %d checkpoints may be retained'' [showNat workspaceMaxCheckpoints]"

definition saveInMemory :: "workspaceCheckpoint \<Rightarrow> checkpointStore \<Rightarrow> goError + checkpointStore" where
  "saveInMemory c store =
     (case map_of store (ck_ID c) of
        Some existing \<Rightarrow> if \<not> sameEvidence existing c then Inl checkpointTaken else Inr store
      | None \<Rightarrow> if workspaceMaxCheckpoints \<le> length store then Inl tooManyCheckpoints else Inr (mput (ck_ID c) c store))"

definition saveOnHost :: "workspaceConfig \<Rightarrow> workspaceCheckpoint \<Rightarrow> string \<Rightarrow> (goError + unit) ag" where
  "saveOnHost C c raw =
     (let dir = checkpointDir C in
      bindE (wrapE (Wrapf ''create checkpoint state: %w'' []) (agDo (AgMkdirAll (OnHost dir)))) (\<lambda>_.
      case checkpointStorePath C (ck_ID c) of
        Inl e \<Rightarrow> Ret (Inl e)
      | Inr ckfile \<Rightarrow>
          bind (readFile (OnHost ckfile)) (\<lambda>r.
          case r of
            Inr existingRaw \<Rightarrow>
              Ret (case wc_decodeCheckpoint C existingRaw of
                     Inr existing \<Rightarrow> if sameEvidence existing c then Inr () else Inl checkpointTaken
                   | Inl _ \<Rightarrow> Inl checkpointTaken)
          | Inl e \<Rightarrow>
              if \<not> errorsIs errNotExist e then Ret (Inl e)
              else bind (agGet ag_entries (AgReadDir (OnHost dir))) (\<lambda>entries.
                if workspaceMaxCheckpoints \<le> length (case entries of Inr es \<Rightarrow> es | Inl _ \<Rightarrow> [])
                then Ret (Inl tooManyCheckpoints)
                else let tmp = ckfile @ ''.tmp'' in
                  bindE (agDo (AgWriteFile (OnHost tmp) raw)) (\<lambda>_.
                  bind (agDo (AgRename (OnHost tmp) (OnHost ckfile))) (\<lambda>r.
                  case r of
                    Inr _ \<Rightarrow> Ret (Inr ())
                  | Inl e \<Rightarrow> bind (agDo (AgRemove (OnHost tmp))) (\<lambda>_. Ret (Inl e))))))))"

text \<open>The store that \<^verbatim>\<open>saveWorkspaceCheckpoint\<close> leaves.\<close>

definition saveWorkspaceCheckpoint ::
    "workspaceConfig \<Rightarrow> workspaceCheckpoint \<Rightarrow> checkpointStore \<Rightarrow> (goError + checkpointStore) ag" where
  "saveWorkspaceCheckpoint C c store =
     (case andThen (validateCheckpointID (ck_ID c)) (\<lambda>_. andThen (validateWorkspaceCheckpoint c) (\<lambda>_. marshalCheckpoint c)) of
        Inl e \<Rightarrow> Ret (Inl e)
      | Inr raw \<Rightarrow>
          if workspaceMaxCheckpointBytes < length raw
          then Ret (Inl (Errorf ''checkpoint exceeds %d bytes'' [showNat workspaceMaxCheckpointBytes]))
          else if inMemory C then Ret (saveInMemory c store)
          else bindE (saveOnHost C c raw) (\<lambda>_. Ret (Inr store)))"

definition checkpointNotFound :: goError where "checkpointNotFound = Errorf ''checkpoint not found'' []"

definition loadWorkspaceCheckpoint :: "workspaceConfig \<Rightarrow> checkpointStore \<Rightarrow> string \<Rightarrow> (goError + workspaceCheckpoint) ag" where
  "loadWorkspaceCheckpoint C store ckid =
     (let checked = (\<lambda>c. andThen (validateWorkspaceCheckpoint c) (\<lambda>_. Inr c)) in
      if validateCheckpointID ckid \<noteq> Inr () then Ret (Inl (Errorf ''checkpoint id is invalid'' []))
      else if inMemory C then Ret (case map_of store ckid of None \<Rightarrow> Inl checkpointNotFound | Some c \<Rightarrow> checked c)
      else (case checkpointStorePath C ckid of
              Inl e \<Rightarrow> Ret (Inl e)
            | Inr ckfile \<Rightarrow>
                bind (readFile (OnHost ckfile)) (\<lambda>r.
                Ret (case r of
                       Inl _ \<Rightarrow> Inl checkpointNotFound
                     | Inr raw \<Rightarrow> (case wc_decodeCheckpoint C raw of
                                    Inl _ \<Rightarrow> Inl (Errorf ''checkpoint is corrupt'' [])
                                  | Inr c \<Rightarrow> checked c)))))"

definition trimSuffix :: "string \<Rightarrow> string \<Rightarrow> string" where
  "trimSuffix s suf = (if hasSuffix s suf then take (length s - length suf) s else s)"

text \<open>The summaries of a directory; an entry that does not load is left out.\<close>

fun loadSummaries :: "workspaceConfig \<Rightarrow> checkpointStore \<Rightarrow> (string \<times> fileKind) list \<Rightarrow> workspaceCheckpointSummary list ag" where
  "loadSummaries C store [] = Ret []"
| "loadSummaries C store ((name, kind) # es) =
     (if kind = KDir \<or> \<not> hasSuffix name ''.json'' then loadSummaries C store es
      else bind (loadWorkspaceCheckpoint C store (trimSuffix name ''.json'')) (\<lambda>r.
        bind (loadSummaries C store es) (\<lambda>rest.
        Ret (case r of Inl _ \<Rightarrow> rest | Inr c \<Rightarrow> checkpointSummary c # rest))))"

definition listWorkspaceCheckpoints :: "workspaceConfig \<Rightarrow> checkpointStore \<Rightarrow> (goError + workspaceCheckpointSummary list) ag" where
  "listWorkspaceCheckpoints C store =
     (if inMemory C then Ret (Inr (sort_key cs_ID (map (\<lambda>(_, c). checkpointSummary c) store)))
      else bind (agGet ag_entries (AgReadDir (OnHost (checkpointDir C)))) (\<lambda>r.
        case r of
          Inl e \<Rightarrow> Ret (if errorsIs errNotExist e then Inr [] else Inl e)
        | Inr entries \<Rightarrow> bind (loadSummaries C store entries) (\<lambda>out. Ret (Inr (sort_key cs_ID out)))))"

definition deleteWorkspaceCheckpoint :: "workspaceConfig \<Rightarrow> checkpointStore \<Rightarrow> string \<Rightarrow> (goError + checkpointStore) ag" where
  "deleteWorkspaceCheckpoint C store ckid =
     (if validateCheckpointID ckid \<noteq> Inr () then Ret (Inl (Errorf ''checkpoint id is invalid'' []))
      else if inMemory C
      then Ret (if map_of store ckid = None then Inl checkpointNotFound else Inr (mdel ckid store))
      else (case checkpointStorePath C ckid of
              Inl e \<Rightarrow> Ret (Inl e)
            | Inr ckfile \<Rightarrow>
                bind (agDo (AgRemove (OnHost ckfile))) (\<lambda>r. Ret (case r of Inl _ \<Rightarrow> Inl checkpointNotFound | Inr _ \<Rightarrow> Inr store))))"

section \<open>Comparing with a checkpoint or a candidate\<close>

record workspaceDiffRequest =
  dq_CheckpointID :: string
  dq_Files :: "syncFile list option"
  dq_DeletePaths :: "string list option"
  dq_ExpectedRevision :: "64 word"
  dq_ExpectedDigest :: string

record workspaceDiffResponse =
  dr_BaseRevision :: "64 word"
  dr_BaseDigest :: string
  dr_SourceRevision :: "64 word"
  dr_SourceDigest :: string
  dr_Changes :: "workspaceChange list"

definition listOf :: "'a list option \<Rightarrow> 'a list" where
  "listOf xs = (case xs of Some l \<Rightarrow> l | None \<Rightarrow> [])"

text \<open>The baseline and the files compared with it: a checkpoint before the current files, the current files before a candidate, or
  the current files twice. With them the revision and the digest of the baseline.\<close>

definition diffViews ::
    "workspaceConfig \<Rightarrow> checkpointStore \<Rightarrow> workspaceDiffRequest \<Rightarrow> workspaceManifest \<Rightarrow> workspaceFile list \<Rightarrow>
     (workspaceDiffResponse, workspaceFile list \<times> workspaceFile list \<times> 64 word \<times> string) agStep" where
  "diffViews C store req current files =
     (if trimSpace (dq_CheckpointID req) \<noteq> []
      then bindE (orStop 404 (\<lambda>e. e) (loadWorkspaceCheckpoint C store (dq_CheckpointID req))) (\<lambda>c.
        Ret (Inr (checkpointWorkspaceFiles c, files, ck_SourceRevision c, ck_SourceDigest c)))
      else if dq_Files req \<noteq> None \<or> dq_DeletePaths req \<noteq> None
      then bindE (must 400 (candidateWorkspaceFiles files (listOf (dq_Files req)) (listOf (dq_DeletePaths req)))) (\<lambda>candidate.
        Ret (Inr (files, candidate, wm_SourceRevision current, wm_SourceDigest current)))
      else Ret (Inr (files, files, wm_SourceRevision current, wm_SourceDigest current)))"

definition handleWorkspaceDiff ::
    "workspaceConfig \<Rightarrow> checkpointStore \<Rightarrow> string \<Rightarrow> workspaceDiffRequest jsonBody \<Rightarrow> (workspaceDiffResponse, workspaceDiffResponse) agStep" where
  "handleWorkspaceDiff C store verb body =
     bindE (postedBody verb body) (\<lambda>req.
     bindE (seededManifest (agentConfig.truncate C)) (\<lambda>current.
     bindE (managedFilesOf current) (\<lambda>currentFiles.
     bindE (diffViews C store req current currentFiles) (\<lambda>(baseline, files, baseRevision, baseDigest).
     if dq_ExpectedRevision req \<noteq> 0 \<and> dq_ExpectedRevision req \<noteq> wm_SourceRevision current
     then stop 409 (Errorf ''workspace revision no longer matches expected evidence'' [])
     else if trimSpace (dq_ExpectedDigest req) \<noteq> []
       \<and> normalizeSourceDigest (dq_ExpectedDigest req) \<noteq> normalizeSourceDigest (wm_SourceDigest current)
     then stop 409 (Errorf ''workspace digest no longer matches expected evidence'' [])
     else bindE (orStop 409 (\<lambda>e. Errorf ''digest workspace: %v'' [errorText e]) (digestWorkspaceFiles files)) (\<lambda>currentDigest.
       bindE (must 500 (mapErr (\<lambda>e. Errorf ''diff workspace: %v'' [errorText e]) (diffWorkspaceFiles baseline files))) (\<lambda>changes.
       Ret (Inr \<lparr>dr_BaseRevision = baseRevision, dr_BaseDigest = baseDigest, dr_SourceRevision = wm_SourceRevision current,
         dr_SourceDigest = currentDigest, dr_Changes = changes\<rparr>)))))))"

section \<open>The checkpoint operations\<close>

record workspaceCheckpointRequest =
  cq_Action :: string
  cq_ID :: string
  cq_Label :: string
  cq_ExpectedRevision :: "64 word"
  cq_ExpectedDigest :: string

record workspaceCheckpointResponse =
  cp_Action :: string
  cp_Checkpoint :: "workspaceCheckpointSummary option"
  cp_Checkpoints :: "workspaceCheckpointSummary list"
  cp_SourceRevision :: "64 word"
  cp_SourceDigest :: string
  cp_Changed :: "string list"
  cp_Deleted :: "string list"

definition checkpointDone :: "string \<Rightarrow> workspaceCheckpointResponse" where
  "checkpointDone action = \<lparr>cp_Action = action, cp_Checkpoint = None, cp_Checkpoints = [], cp_SourceRevision = 0, cp_SourceDigest = [],
     cp_Changed = [], cp_Deleted = []\<rparr>"

text \<open>The steps return the response with the store.\<close>

type_synonym checkpointStep = "(workspaceCheckpointResponse, workspaceCheckpointResponse \<times> checkpointStore) agStep"

definition evidenceMatches :: "workspaceCheckpointRequest \<Rightarrow> workspaceManifest \<Rightarrow> bool" where
  "evidenceMatches req manifest \<longleftrightarrow>
     \<not> (cq_ExpectedRevision req \<noteq> 0 \<and> cq_ExpectedRevision req \<noteq> wm_SourceRevision manifest
       \<or> trimSpace (cq_ExpectedDigest req) \<noteq> []
         \<and> normalizeSourceDigest (cq_ExpectedDigest req) \<noteq> normalizeSourceDigest (wm_SourceDigest manifest))"

definition createCheckpoint :: "workspaceConfig \<Rightarrow> checkpointStore \<Rightarrow> workspaceCheckpointRequest \<Rightarrow> checkpointStep" where
  "createCheckpoint C store req =
     bindE (seededManifest (agentConfig.truncate C)) (\<lambda>manifest.
     if \<not> evidenceMatches req manifest then staleEvidence
     else bindE (managedFilesOf manifest) (\<lambda>files.
       let ckid = (if trimSpace (cq_ID req) = [] then checkpointID manifest else trimSpace (cq_ID req)) in
       bindE (must 400 (validateCheckpointID ckid)) (\<lambda>_.
       Ask AgNow (\<lambda>a.
       let checkpoint = newWorkspaceCheckpoint ckid (trimSpace (cq_Label req)) manifest files (ag_now a) in
       bindE (orStop 409 (\<lambda>e. e) (saveWorkspaceCheckpoint C checkpoint store)) (\<lambda>store'.
       Ret (Inr ((checkpointDone ''create'')\<lparr>cp_Checkpoint := Some (checkpointSummary checkpoint),
         cp_SourceRevision := wm_SourceRevision manifest, cp_SourceDigest := wm_SourceDigest manifest\<rparr>, store')))))))"

text \<open>Every opaque file of the checkpoint must still be what it was, before anything is written.\<close>

definition restoreRefused :: "workspaceCheckpoint \<Rightarrow> workspaceFile \<Rightarrow> goError \<Rightarrow> goError" where
  "restoreRefused c f e =
     Errorf ''checkpoint %q cannot be restored: binary file %q (%d bytes, sha256 %s) is recorded by digest only and the workspace copy %v; sync that file back first''
       [ck_ID c, wf_Path f, showInt (wf_Size f), wf_Digest f, errorText e]"

fun verifyOpaques :: "workspaceCheckpoint \<Rightarrow> workspaceFile list \<Rightarrow> (workspaceCheckpointResponse, unit) agStep" where
  "verifyOpaques c [] = Ret (Inr ())"
| "verifyOpaques c (f # fs) =
     (if \<not> onDisk f then verifyOpaques c fs
      else bindE (orStop 409 (restoreRefused c f) (verifyOpaqueWorkspaceFile f)) (\<lambda>_. verifyOpaques c fs))"

definition restoreWorkspaceCheckpoint :: "workspaceConfig \<Rightarrow> checkpointStore \<Rightarrow> workspaceCheckpointRequest \<Rightarrow> checkpointStep" where
  "restoreWorkspaceCheckpoint C store req =
     (if trimSpace (cq_ID req) = [] then stop 400 (Errorf ''checkpoint id is required'' [])
      else bindE (orStop 404 (\<lambda>e. e) (loadWorkspaceCheckpoint C store (cq_ID req))) (\<lambda>checkpoint.
        bindE (seededManifest (agentConfig.truncate C)) (\<lambda>manifest.
        if \<not> evidenceMatches req manifest then staleEvidence
        else let target = checkpointWorkspaceFiles checkpoint in
          bindE (verifyOpaques checkpoint target) (\<lambda>_.
          bindE (orStop 409 (\<lambda>e. Errorf ''restore workspace checkpoint: %v'' [errorText e]) (digestWorkspaceFiles target)) (\<lambda>restoredDigest.
          if restoredDigest \<noteq> normalizeSourceDigest (ck_SourceDigest checkpoint)
          then stop 409 (Errorf ''checkpoint digest does not match its files'' [])
          else bindE (replaceContent ''restore workspace checkpoint'' manifest (ck_SourceDigest checkpoint) target) (\<lambda>(changed, deleted).
            Ret (Inr ((checkpointDone ''restore'')\<lparr>cp_Checkpoint := Some (checkpointSummary checkpoint),
              cp_SourceRevision := wm_SourceRevision manifest + 1, cp_SourceDigest := ck_SourceDigest checkpoint,
              cp_Changed := changed, cp_Deleted := deleted\<rparr>, store))))))))"

definition handleWorkspaceCheckpoint ::
    "workspaceConfig \<Rightarrow> checkpointStore \<Rightarrow> string \<Rightarrow> workspaceCheckpointRequest jsonBody \<Rightarrow> checkpointStep" where
  "handleWorkspaceCheckpoint C store verb body =
     bindE (postedBody verb body) (\<lambda>req.
     let action = toLower (trimSpace (cq_Action req)) in
     if action = ''list''
     then bindE (orStop 503 (\<lambda>e. e) (listWorkspaceCheckpoints C store)) (\<lambda>out. Ret (Inr ((checkpointDone ''list'')\<lparr>cp_Checkpoints := out\<rparr>, store)))
     else if action = ''delete''
     then (if trimSpace (cq_ID req) = [] then stop 400 (Errorf ''checkpoint id is required'' [])
       else bindE (orStop 404 (\<lambda>e. e) (deleteWorkspaceCheckpoint C store (cq_ID req))) (\<lambda>store'. Ret (Inr (checkpointDone ''delete'', store'))))
     else if action = ''restore'' then restoreWorkspaceCheckpoint C store req
     else if action = [] \<or> action = ''create'' then createCheckpoint C store req
     else stop 400 (Errorf ''checkpoint action must be create, list, restore, or delete'' []))"

section \<open>The dispatch\<close>

text \<open>The body of a request, as each operation decodes it, and the reply of the operation.\<close>

record workspaceBodies =
  wb_seed :: "workspaceSeedRequest jsonBody"
  wb_list :: "workspaceListRequest jsonBody"
  wb_read :: "workspaceReadRequest jsonBody"
  wb_mutate :: "workspaceMutateRequest jsonBody"
  wb_diff :: "workspaceDiffRequest jsonBody"
  wb_checkpoint :: "workspaceCheckpointRequest jsonBody"

datatype workspaceResponse =
    SeedReply syncResponse
  | ListReply workspaceListResponse
  | ReadReply workspaceReadResponse
  | MutateReply workspaceMutateResponse
  | DiffReply workspaceDiffResponse
  | CheckpointReply workspaceCheckpointResponse

definition mapReply :: "('a \<Rightarrow> 'b) \<Rightarrow> 'a agReply \<Rightarrow> 'b agReply" where
  "mapReply f r = (case r of AgError status e \<Rightarrow> AgError status e | AgJSON status a \<Rightarrow> AgJSON status (f a))"

definition storeAfter :: "checkpointStore \<Rightarrow> workspaceCheckpointResponse agReply + workspaceCheckpointResponse \<times> checkpointStore \<Rightarrow>
    workspaceCheckpointResponse agReply \<times> checkpointStore" where
  "storeAfter store r = (case r of Inl reply \<Rightarrow> (reply, store) | Inr (a, store') \<Rightarrow> (AgJSON 200 a, store'))"

text \<open>An operation other than the seed: the reply and the checkpoints kept in memory.\<close>

definition workspaceOperation ::
    "workspaceConfig \<Rightarrow> checkpointStore \<Rightarrow> string \<Rightarrow> string \<Rightarrow> (string \<Rightarrow> string) \<Rightarrow> workspaceBodies \<Rightarrow> (workspaceResponse agReply \<times> checkpointStore) ag" where
  "workspaceOperation C store op verb query body =
     (let A = agentConfig.truncate C; same = (\<lambda>reply. Ret (reply, store)) in
      if op = ''list'' then bind (handleWorkspaceList A verb query (wb_list body)) (\<lambda>r. same (mapReply ListReply (replyOf r)))
      else if op = ''read'' then bind (handleWorkspaceRead A verb (wb_read body)) (\<lambda>r. same (mapReply ReadReply (replyOf r)))
      else if op = ''mutate'' then bind (handleWorkspaceMutate A verb (wb_mutate body)) (\<lambda>r. same (mapReply MutateReply (replyOf r)))
      else if op = ''diff'' then bind (handleWorkspaceDiff C store verb (wb_diff body)) (\<lambda>r. same (mapReply DiffReply (replyOf r)))
      else if op = ''checkpoint''
      then bind (handleWorkspaceCheckpoint C store verb (wb_checkpoint body)) (\<lambda>r.
        case storeAfter store r of (reply, store') \<Rightarrow> Ret (mapReply CheckpointReply reply, store'))
      else same (AgError 404 (Errorf ''unknown workspace operation'' [])))"

definition handleWorkspace ::
    "workspaceConfig \<Rightarrow> checkpointStore \<Rightarrow> string \<Rightarrow> string \<Rightarrow> string \<Rightarrow> (string \<Rightarrow> string) \<Rightarrow> workspaceBodies \<Rightarrow>
     (workspaceResponse agReply \<times> checkpointStore) ag" where
  "handleWorkspace C store urlPath verb given query body =
     (let A = agentConfig.truncate C; op = trimPrefix (trimPrefix urlPath ''/workspace'') ''/'' in
      case authorizeControl A given of
        Some (status, e) \<Rightarrow> Ret (AgError status e, store)
      | None \<Rightarrow>
          if op = [] then Ret (AgError 404 (Errorf ''workspace operation is required'' []), store)
          else if op = ''seed''
          then bind (handleWorkspaceSeed A verb given (wb_seed body)) (\<lambda>reply. Ret (mapReply SeedReply reply, store))
          else Ask AgLock (\<lambda>_. bind (workspaceOperation C store op verb query body) (\<lambda>r. Ask AgUnlock (\<lambda>_. Ret r))))"

end
