(* ===== verification/Agent_Workspace_Contract.thy ===== *)
theory Agent_Workspace_Contract
  imports Agent_Checkpoint Agent_Sync_Contract "HOL-Library.Multiset"
begin

text \<open>
  What the workspace API computes: a mutation is an overlay on the map of files, and a comparison reports exactly the paths whose
  digest or size differ.
\<close>

section \<open>Views\<close>

lemma workspaceFileIndex_map:
  assumes "distinct (map wf_Path files)"
  shows "workspaceFileIndex files = map (\<lambda>f. (wf_Path f, f)) files"
proof -
  have put: "k \<notin> fst ` set m \<Longrightarrow> mput k v m = m @ [(k, v)]" for k and v :: workspaceFile and m
    by (induction k v m rule: mput.induct) auto
  have "distinct (map wf_Path files) \<Longrightarrow> fst ` set m \<inter> wf_Path ` set files = {} \<Longrightarrow>
      fold (\<lambda>f m. mput (wf_Path f) f m) files m = m @ map (\<lambda>f. (wf_Path f, f)) files" for m
    by (induction files arbitrary: m) (auto simp: put)
  with assms show ?thesis by (simp add: workspaceFileIndex_def)
qed

lemma view_sorted: "distinct (map wf_Path files) \<Longrightarrow> workspaceFilesFromMap (workspaceFileIndex files) = sort_key wf_Path files"
  by (simp add: workspaceFileIndex_map workspaceFilesFromMap_def comp_def)

lemma sort_paths_unique:
  assumes "mset xs = mset ys" and "distinct (map wf_Path ys)"
  shows "sort_key wf_Path xs = sort_key wf_Path ys"
proof (rule sort_key_inj_key_eq)
  show "mset xs = mset (sort_key wf_Path ys)" using assms(1) by simp
  show "inj_on wf_Path (set xs)" using assms mset_eq_setD [OF assms(1)] by (simp add: distinct_map)
qed simp

section \<open>Mutations\<close>

definition writesText :: "workspaceMutation \<Rightarrow> bool" where
  "writesText operation \<longleftrightarrow> toLower (trimSpace (mu_Operation operation)) \<in> {''write'', ''upsert''}"

definition operationAt :: "workspaceMutation list \<Rightarrow> string \<Rightarrow> workspaceMutation option" where
  "operationAt ops p = find (\<lambda>operation. cleanWorkspacePath (mu_Path operation) = Inr p) ops"

text \<open>A text file as the API sees it.\<close>

definition textFile :: "string \<Rightarrow> string \<Rightarrow> workspaceFile" where
  "textFile p c = \<lparr>wf_Path = p, wf_Content = Some c, wf_Opaque = False, wf_Size = int (length c), wf_Digest = digestBytes c\<rparr>"

lemma classify_text: "isWorkspaceText c \<Longrightarrow> classifyWorkspaceBytes p c k = textFile p c"
  by (simp add: classifyWorkspaceBytes_def textFile_def Let_def)

lemma applyOperation_ok:
  assumes "applyOperation i seen operation files = Inr (clean, files')"
  shows "cleanWorkspacePath (mu_Path operation) = Inr clean \<and> managedPath clean \<and> clean \<notin> set seen
    \<and> map_of files' = (map_of files)(clean := if writesText operation then Some (textFile clean (mu_Content operation)) else None)"
proof -
  obtain p where p: "cleanWorkspacePath (mu_Path operation) = Inr p"
    using assms by (cases "cleanWorkspacePath (mu_Path operation)") (simp_all add: applyOperation_def Let_def)
  have v: "validateManagedWorkspacePath p = Inr ()"
    using assms p by (cases "validateManagedWorkspacePath p") (simp_all add: applyOperation_def Let_def)
  have s: "p \<notin> set seen" using assms p v by (auto simp: applyOperation_def Let_def)
  let ?op = "toLower (trimSpace (mu_Operation operation))"
  have m: "managedPath p" using validateManaged_ok [OF cleanWorkspacePath_ok [OF p]] v by simp
  show ?thesis
  proof (cases "writesText operation")
    case True
    then have op: "?op = ''write'' \<or> ?op = ''upsert''" by (simp add: writesText_def)
    then have t: "\<not> workspaceMaxFileBytes < length (mu_Content operation)" "utf8Valid (mu_Content operation)" "CHR 0x00 \<notin> set (mu_Content operation)"
      using assms p v s by (simp_all add: applyOperation_def Let_def split: if_splits)
    then have "isWorkspaceText (mu_Content operation)" by (simp add: isWorkspaceText_def)
    then have "clean = p \<and> files' = mput p (textFile p (mu_Content operation)) files"
      using assms p v s op t by (auto simp: applyOperation_def Let_def classify_text)
    then show ?thesis using p m s True by simp
  next
    case False
    then have op: "\<not> (?op = ''write'' \<or> ?op = ''upsert'')" by (simp add: writesText_def)
    then have "(?op = ''delete'' \<or> ?op = ''remove'') \<and> clean = p \<and> files' = mdel p files"
      using assms p v s by (auto simp: applyOperation_def Let_def split: if_splits)
    then show ?thesis using p m s False by simp
  qed
qed

lemma all2_image: "list_all2 P xs ys \<Longrightarrow> x \<in> set xs \<Longrightarrow> \<exists>y \<in> set ys. P x y"
  by (induction rule: list_all2_induct) auto

lemma applyOperations_ok:
  assumes "applyOperations i seen ops files = Inr files'"
  shows "\<exists>ps. list_all2 (\<lambda>operation p. cleanWorkspacePath (mu_Path operation) = Inr p \<and> managedPath p) ops ps \<and> distinct ps \<and> set ps \<inter> set seen = {}
    \<and> (\<forall>p. map_of files' p = (case operationAt ops p of None \<Rightarrow> map_of files p
        | Some operation \<Rightarrow> if writesText operation then Some (textFile p (mu_Content operation)) else None))"
  using assms
proof (induction i seen ops files rule: applyOperations.induct)
  case (2 i seen operation ops files)
  obtain clean files1 where o: "applyOperation i seen operation files = Inr (clean, files1)"
      "applyOperations (Suc i) (clean # seen) ops files1 = Inr files'"
    using 2(2) by (auto simp: andThen_Inr)
  note one = applyOperation_ok [OF o(1)]
  obtain ps where ps: "list_all2 (\<lambda>operation p. cleanWorkspacePath (mu_Path operation) = Inr p \<and> managedPath p) ops ps" "distinct ps"
      "set ps \<inter> set (clean # seen) = {}"
      "\<forall>p. map_of files' p = (case operationAt ops p of None \<Rightarrow> map_of files1 p
        | Some operation \<Rightarrow> if writesText operation then Some (textFile p (mu_Content operation)) else None)"
    using 2(1) [OF o(2)] by blast
  have free: "operationAt ops clean = None"
  proof -
    have "cleanWorkspacePath (mu_Path x) \<noteq> Inr clean" if m: "x \<in> set ops" for x
    proof
      assume x: "cleanWorkspacePath (mu_Path x) = Inr clean"
      obtain q where "q \<in> set ps" "cleanWorkspacePath (mu_Path x) = Inr q" using all2_image [OF ps(1) m] by blast
      with x ps(3) show False by auto
    qed
    then show ?thesis by (simp add: operationAt_def find_None_iff)
  qed
  show ?case
  proof (intro exI conjI allI)
    show "list_all2 (\<lambda>operation p. cleanWorkspacePath (mu_Path operation) = Inr p \<and> managedPath p) (operation # ops) (clean # ps)"
      using one ps(1) by simp
    show "distinct (clean # ps)" "set (clean # ps) \<inter> set seen = {}" using one ps(2,3) by auto
    fix p
    show "map_of files' p = (case operationAt (operation # ops) p of None \<Rightarrow> map_of files p
        | Some operation \<Rightarrow> if writesText operation then Some (textFile p (mu_Content operation)) else None)"
      using ps(4) [rule_format, of p] one free by (cases "p = clean") (auto simp: operationAt_def split: option.split)
  qed
qed (simp add: operationAt_def)

text \<open>C35: The operations of a mutation are an overlay on the map of files, whatever their order: each names a managed path of its own, a
  path that an operation writes holds exactly its text afterwards, one it deletes is gone, and every other path is as before.\<close>

theorem mutations_overlay:
  assumes "applyOperations 0 [] ops files = Inr files'"
  shows "(\<exists>ps. list_all2 (\<lambda>operation p. cleanWorkspacePath (mu_Path operation) = Inr p \<and> managedPath p) ops ps \<and> distinct ps)
    \<and> (\<forall>p. map_of files' p = (case operationAt ops p of None \<Rightarrow> map_of files p
        | Some operation \<Rightarrow> if writesText operation then Some (textFile p (mu_Content operation)) else None))"
  using applyOperations_ok [OF assms] by blast

section \<open>Comparisons\<close>

definition viewAt :: "workspaceFile list \<Rightarrow> string \<Rightarrow> workspaceFile option" where
  "viewAt files p = find (\<lambda>f. cleanWorkspacePath (wf_Path f) = Inr p) (rev files)"

definition fingerprint :: "workspaceFile list \<Rightarrow> string \<Rightarrow> (string \<times> int) option" where
  "fingerprint files p = map_option (\<lambda>f. (wf_Digest f, wf_Size f)) (viewAt files p)"

lemma find_append: "find P (xs @ ys) = (case find P xs of Some x \<Rightarrow> Some x | None \<Rightarrow> find P ys)"
  by (induction xs) auto

lemma viewMap_ok: "viewMap m files = Inr m' \<Longrightarrow> map_of m' p = (case viewAt files p of Some f \<Rightarrow> Some f | None \<Rightarrow> map_of m p)"
proof (induction m files rule: viewMap.induct)
  case (2 m f fs)
  obtain clean where c: "cleanWorkspacePath (wf_Path f) = Inr clean" "viewMap (mput clean f m) fs = Inr m'"
    using 2(2) by (auto simp: andThen_Inr)
  show ?case using 2(1) [OF c(2)] c(1) by (auto simp: viewAt_def find_append split: option.splits)
qed (simp add: viewAt_def)

lemma viewMap_keys: "viewMap [] files = Inr m \<Longrightarrow> p \<in> set (mkeys m) \<longleftrightarrow> viewAt files p \<noteq> None"
  using viewMap_ok [of "[]" files m p] map_of_eq_None_iff [of m p] by (auto simp: mkeys_def split: option.splits)

lemma changeOf_path: "changeOf p b a = Some c \<Longrightarrow> ch_Path c = p"
  by (auto simp: changeOf_def Let_def split: option.splits if_splits)

lemma changes_path: "map ch_Path (List.map_filter (\<lambda>p. changeOf p (b p) (a p)) ps) = filter (\<lambda>p. changeOf p (b p) (a p) \<noteq> None) ps"
  by (induction ps) (auto simp: map_filter_simps dest: changeOf_path split: option.split)

lemma changes_member: "c \<in> set (List.map_filter (\<lambda>p. changeOf p (b p) (a p)) ps) \<Longrightarrow> changeOf (ch_Path c) (b (ch_Path c)) (a (ch_Path c)) = Some c"
  by (induction ps) (auto simp: map_filter_simps dest: changeOf_path split: option.splits)

lemma changeOf_fields:
  assumes "changeOf p b a = Some c" and "b \<noteq> None \<or> a \<noteq> None"
  shows "map_option (\<lambda>f. (wf_Digest f, wf_Size f)) b = (if ch_Kind c = ''added'' then None else Some (ch_BeforeDigest c, ch_BeforeBytes c))
    \<and> map_option (\<lambda>f. (wf_Digest f, wf_Size f)) a = (if ch_Kind c = ''deleted'' then None else Some (ch_AfterDigest c, ch_AfterBytes c))"
  using assms by (cases b; cases a) (auto simp: changeOf_def Let_def split: if_splits)

text \<open>A comparison of two views is exact: its changes are in the order of their paths, one for each path whose digest or size
  differ between the views (a path of only one of them included) and none for any other, and each says how its path differs, with the
  digests and sizes of both sides.\<close>

theorem diff_exact:
  assumes "diffWorkspaceFiles before after = Inr changes"
  shows "sorted_wrt (<) (map ch_Path changes)
    \<and> (\<forall>p. p \<in> ch_Path ` set changes \<longleftrightarrow> fingerprint before p \<noteq> fingerprint after p)
    \<and> (\<forall>c \<in> set changes. fingerprint before (ch_Path c) = (if ch_Kind c = ''added'' then None else Some (ch_BeforeDigest c, ch_BeforeBytes c))
        \<and> fingerprint after (ch_Path c) = (if ch_Kind c = ''deleted'' then None else Some (ch_AfterDigest c, ch_AfterBytes c)))"
proof -
  obtain left right where m: "viewMap [] before = Inr left" "viewMap [] after = Inr right"
    and c: "changes = List.map_filter (\<lambda>p. changeOf p (map_of left p) (map_of right p)) (sort (remdups (mkeys left @ mkeys right)))"
    using assms by (auto simp: diffWorkspaceFiles_def andThen_Inr)
  have l: "map_of left = viewAt before" and r: "map_of right = viewAt after"
    using viewMap_ok [OF m(1)] viewMap_ok [OF m(2)] by (auto split: option.splits intro!: ext)
  have paths: "map ch_Path changes = filter (\<lambda>p. changeOf p (viewAt before p) (viewAt after p) \<noteq> None) (sort (remdups (mkeys left @ mkeys right)))"
    unfolding c l r by (rule changes_path)
  have "sorted_wrt (<) (map ch_Path changes)"
    unfolding paths strict_sorted_iff by (simp add: sorted_wrt_filter)
  moreover have "p \<in> ch_Path ` set changes \<longleftrightarrow> fingerprint before p \<noteq> fingerprint after p" for p
  proof -
    have "p \<in> set (map ch_Path changes) \<longleftrightarrow> (viewAt before p \<noteq> None \<or> viewAt after p \<noteq> None) \<and> changeOf p (viewAt before p) (viewAt after p) \<noteq> None"
      unfolding paths using viewMap_keys [OF m(1), of p] viewMap_keys [OF m(2), of p] by auto
    then show ?thesis
      by (cases "viewAt before p"; cases "viewAt after p") (auto simp: fingerprint_def changeOf_def Let_def split: if_splits)
  qed
  moreover have "fingerprint before (ch_Path x) = (if ch_Kind x = ''added'' then None else Some (ch_BeforeDigest x, ch_BeforeBytes x))
        \<and> fingerprint after (ch_Path x) = (if ch_Kind x = ''deleted'' then None else Some (ch_AfterDigest x, ch_AfterBytes x))" if "x \<in> set changes" for x
  proof -
    have x: "changeOf (ch_Path x) (viewAt before (ch_Path x)) (viewAt after (ch_Path x)) = Some x"
      using changes_member [of x "map_of left" "map_of right"] that unfolding c l r by simp
    have "viewAt before (ch_Path x) \<noteq> None \<or> viewAt after (ch_Path x) \<noteq> None"
      using that viewMap_keys [OF m(1), of "ch_Path x"] viewMap_keys [OF m(2), of "ch_Path x"] arg_cong [OF paths, of set] by auto
    then show ?thesis unfolding fingerprint_def by (rule changeOf_fields [OF x])
  qed
  ultimately show ?thesis by blast
qed

end
