(* ===== verification/Agent_Checkpoint_Contract.thy ===== *)
theory Agent_Checkpoint_Contract
  imports Agent_Workspace_Contract
begin

text \<open>
  What the checkpoints of a workspace guarantee: a checkpoint stands for the files it was made of, and the store of them stays well
  formed and bounded and never changes one it holds.
\<close>

section \<open>Results of a program\<close>

text \<open>Every value a program can return satisfies \<open>Q\<close>.\<close>

abbreviation results :: "'a ag \<Rightarrow> ('a \<Rightarrow> bool) \<Rightarrow> agHistory \<Rightarrow> bool" where
  "results p Q h \<equiv> wp (\<lambda>_ _. True) p (\<lambda>x _. Q x) h"

text \<open>The same for the values that are no error.\<close>

abbreviation oks :: "('e + 'a) ag \<Rightarrow> ('a \<Rightarrow> bool) \<Rightarrow> agHistory \<Rightarrow> bool" where
  "oks p Q h \<equiv> results p (\<lambda>x. \<forall>a. x = Inr a \<longrightarrow> Q a) h"

lemma oks_bindE: "oks p Q h \<Longrightarrow> (\<And>a h'. Q a \<Longrightarrow> oks (f a) R h') \<Longrightarrow> oks (bindE p f) R h"
  unfolding wp_bindE by (erule wp_mono) (auto split: sum.split)

lemma oks_any: "(\<And>a. Q a) \<Longrightarrow> oks p Q h"
  by (rule wp_total) simp

lemma oks_orStop: "oks p Q h \<Longrightarrow> oks (orStop status f p) Q h"
  unfolding orStop_def wp_wrapE by (erule wp_mono) (auto split: sum.split)

lemma oks_wrapE: "oks p Q h \<Longrightarrow> oks (wrapE f p) Q h"
  unfolding wp_wrapE by (erule wp_mono) (auto split: sum.split)

lemma oks_must: "(\<And>a. r = Inr a \<Longrightarrow> Q a) \<Longrightarrow> oks (must status r) Q h"
  by (cases r) (simp_all add: must_def stop_def)

lemma oks_simps [simp]:
  "oks (stop status e) Q h" "oks (Ret (Inr a)) Q h \<longleftrightarrow> Q a" "oks methodNotAllowed Q h" "oks staleEvidence Q h"
  by (simp_all add: stop_def methodNotAllowed_def staleEvidence_def)

lemma results_bind: "results p P h \<Longrightarrow> (\<And>a h'. P a \<Longrightarrow> results (f a) Q h') \<Longrightarrow> results (bind p f) Q h"
  unfolding wp_bind by (erule wp_mono) blast

section \<open>The files of a workspace and their checkpoint\<close>

definition workspaceView :: "workspaceFile list \<Rightarrow> bool" where
  "workspaceView files \<longleftrightarrow> distinct (map wf_Path files)
     \<and> (\<forall>f \<in> set files. if wf_Opaque f then wf_Content f = None else \<exists>c. isWorkspaceText c \<and> f = textFile (wf_Path f) c)"

lemma cleanDistinct_ok: "cleanDistinct seen vs = Inr ps \<Longrightarrow> distinct ps \<and> set ps \<inter> set seen = {} \<and> (\<forall>p \<in> set ps. workspacePath p)"
proof (induction seen vs arbitrary: ps rule: cleanDistinct.induct)
  case (2 seen v vs)
  obtain clean rest where c: "cleanWorkspacePath v = Inr clean" "clean \<notin> set seen" "cleanDistinct (clean # seen) vs = Inr rest" "ps = clean # rest"
    using 2(2) by (auto simp: andThen_Inr split: if_splits)
  then show ?case using 2(1) [OF c(2,3)] cleanWorkspacePath_ok [OF c(1)] by auto
qed simp

lemma normalize_ok: "normalizeWorkspacePaths raw = Inr ps \<Longrightarrow> distinct ps \<and> sorted ps \<and> (\<forall>p \<in> set ps. workspacePath p)"
  using cleanDistinct_ok by (fastforce simp: normalizeWorkspacePaths_def andThen_Inr)

definition viewFile :: "string \<Rightarrow> workspaceFile \<Rightarrow> bool" where
  "viewFile p f \<longleftrightarrow> wf_Path f = p \<and> (if wf_Opaque f then wf_Content f = None else \<exists>c. isWorkspaceText c \<and> f = textFile p c)"

lemma viewFile_classify: "viewFile p (classifyWorkspaceBytes p c False)"
proof (cases "isWorkspaceText c")
  case True
  then have "classifyWorkspaceBytes p c False = textFile p c" by (rule classify_text)
  then show ?thesis using True by (auto simp: viewFile_def textFile_def)
qed (simp add: viewFile_def classifyWorkspaceBytes_def Let_def)

lemma readManagedFile_view: "oks (readManagedFile p) (viewFile p) h"
proof -
  have big: "oks (bindE (hashWorkspaceFile p) (\<lambda>(digest, len).
      Ret (Inr \<lparr>wf_Path = p, wf_Content = None, wf_Opaque = True, wf_Size = int len, wf_Digest = digest\<rparr>) :: (goError + workspaceFile) ag)) (viewFile p) h" for h
    by (rule oks_bindE [OF oks_any [where Q = "\<lambda>_. True"]]) (auto simp: viewFile_def)
  have small: "oks (bindE (readFile (InRoot p)) (\<lambda>content. Ret (Inr (classifyWorkspaceBytes p content False)) :: (goError + workspaceFile) ag)) (viewFile p) h" for h
    by (rule oks_bindE [OF oks_any [where Q = "\<lambda>_. True"]]) (simp_all add: viewFile_classify)
  show ?thesis
    unfolding readManagedFile_def
    by (rule oks_bindE [OF oks_any [where Q = "\<lambda>_. True"]], simp, rule oks_bindE [OF oks_any [where Q = "\<lambda>_. True"]], simp)
      (auto intro: big small)
qed

lemma readManagedEach_view: "oks (readManagedEach ps) (\<lambda>fs. list_all2 viewFile ps fs) h"
proof (induction ps arbitrary: h)
  case (Cons p ps)
  show ?case
    unfolding readManagedEach.simps
    by (rule oks_bindE [OF readManagedFile_view], rule oks_bindE [OF Cons.IH]) simp
qed simp

lemma view_paths: "list_all2 viewFile ps fs \<Longrightarrow> map wf_Path fs = ps"
  by (induction rule: list_all2_induct) (auto simp: viewFile_def)

lemma view_all2:
  assumes "list_all2 viewFile ps fs" and "distinct ps"
  shows "workspaceView fs"
proof -
  have "if wf_Opaque f then wf_Content f = None else \<exists>c. isWorkspaceText c \<and> f = textFile (wf_Path f) c" if "f \<in> set fs" for f
  proof -
    have "list_all2 (\<lambda>f p. viewFile p f) fs ps" using assms(1) by (simp add: list_all2_conv_all_nth)
    from all2_image [OF this \<open>f \<in> set fs\<close>] show ?thesis by (auto simp: viewFile_def)
  qed
  then show ?thesis using assms(2) view_paths [OF assms(1)] by (simp add: workspaceView_def)
qed

lemma readManagedFiles_view: "oks (readManagedFiles raw) workspaceView h"
proof (cases "normalizeWorkspacePaths raw")
  case (Inr ps)
  then have d: "distinct ps" using normalize_ok by blast
  show ?thesis
    unfolding readManagedFiles_def Inr sum.case by (rule wp_mono [OF readManagedEach_view]) (use view_all2 d in blast)
qed (simp add: readManagedFiles_def)

lemma opaque_entry: "wf_Opaque f \<Longrightarrow> wf_Content f = None \<Longrightarrow> opaqueFile (opaqueEntry f) = f"
  by (simp add: opaqueFile_def opaqueEntry_def)

lemma text_entry:
  assumes "isWorkspaceText c" and "f = textFile p c"
  shows "classifyWorkspaceBytes (sf_Path (textEntry f)) (sf_Content (textEntry f)) True = f"
  unfolding assms(2) by (simp add: textEntry_def wf_bytes_def classify_text [OF assms(1)] textFile_def)

lemma checkpoint_lists:
  "ck_Files (newWorkspaceCheckpoint ckid label m files created) = map textEntry (filter (\<lambda>f. \<not> wf_Opaque f) (workspaceFilesFromMap (workspaceFileIndex files)))"
  "ck_OpaqueFiles (newWorkspaceCheckpoint ckid label m files created) = map opaqueEntry (filter wf_Opaque (workspaceFilesFromMap (workspaceFileIndex files)))"
  by (simp_all add: newWorkspaceCheckpoint_def Let_def)

text \<open>A checkpoint stands for the files it was made of: for the files of a workspace, as it is read for every operation of the API, the
  view that a restoration or a comparison takes of a checkpoint of them is that of the files themselves, in the order of their paths.
  Every text is there with its content, every opaque file with its digest and size.\<close>

theorem checkpoint_roundtrip:
  assumes "workspaceView files"
  shows "checkpointWorkspaceFiles (newWorkspaceCheckpoint ckid label m files created) = sort_key wf_Path files"
proof -
  let ?v = "sort_key wf_Path files"
  have d: "distinct (map wf_Path files)" and each: "\<And>f. f \<in> set files \<Longrightarrow> if wf_Opaque f then wf_Content f = None else \<exists>c. isWorkspaceText c \<and> f = textFile (wf_Path f) c"
    using assms by (auto simp: workspaceView_def)
  have texts: "map (\<lambda>f. classifyWorkspaceBytes (sf_Path (textEntry f)) (sf_Content (textEntry f)) True) (filter (\<lambda>f. \<not> wf_Opaque f) ?v) = filter (\<lambda>f. \<not> wf_Opaque f) ?v"
  proof (rule map_idI)
    fix f assume "f \<in> set (filter (\<lambda>f. \<not> wf_Opaque f) ?v)"
    then obtain c where "isWorkspaceText c" "f = textFile (wf_Path f) c" using each [of f] by auto
    then show "classifyWorkspaceBytes (sf_Path (textEntry f)) (sf_Content (textEntry f)) True = f" by (rule text_entry)
  qed
  have opaques: "map (\<lambda>f. opaqueFile (opaqueEntry f)) (filter wf_Opaque ?v) = filter wf_Opaque ?v"
  proof (rule map_idI)
    fix f assume "f \<in> set (filter wf_Opaque ?v)"
    then show "opaqueFile (opaqueEntry f) = f" using each [of f] opaque_entry [of f] by simp
  qed
  let ?p = "filter (\<lambda>f. \<not> wf_Opaque f) ?v @ filter wf_Opaque ?v"
  have parts: "mset ?p = mset files" using multiset_partition [of "mset files" wf_Opaque] by (simp add: mset_filter union_commute)
  have "mset (map wf_Path ?p) = mset (map wf_Path files)" unfolding mset_map parts ..
  then have "distinct (map wf_Path ?p)" using d mset_eq_imp_distinct_iff by blast
  then have "checkpointWorkspaceFiles (newWorkspaceCheckpoint ckid label m files created) = sort_key wf_Path ?p"
    unfolding checkpointWorkspaceFiles_def checkpoint_lists view_sorted [OF d] map_map comp_def texts opaques by (rule view_sorted)
  also have "\<dots> = ?v" by (rule sort_paths_unique [OF parts d])
  finally show ?thesis .
qed

section \<open>The store of checkpoints\<close>

definition storeOk :: "checkpointStore \<Rightarrow> bool" where
  "storeOk store \<longleftrightarrow> distinct (map fst store) \<and> length store \<le> workspaceMaxCheckpoints
     \<and> (\<forall>(k, c) \<in> set store. k = ck_ID c \<and> validateCheckpointID k = Inr () \<and> validateWorkspaceCheckpoint c = Inr ())"

text \<open>What a checkpoint store may become: well formed still, and what both stores hold under an identifier is the same.\<close>

definition evolves :: "checkpointStore \<Rightarrow> checkpointStore \<Rightarrow> bool" where
  "evolves store store' \<longleftrightarrow> (storeOk store \<longrightarrow> storeOk store')
     \<and> (\<forall>k c c'. map_of store k = Some c \<longrightarrow> map_of store' k = Some c' \<longrightarrow> c' = c)"

lemma store_evolves_refl [simp]: "evolves store store"
  by (auto simp: evolves_def)

lemma evolves_put:
  assumes "map_of store (ck_ID c) = None" and "length store < workspaceMaxCheckpoints" and "validateCheckpointID (ck_ID c) = Inr ()"
    and "validateWorkspaceCheckpoint c = Inr ()"
  shows "evolves store (mput (ck_ID c) c store)"
proof -
  have new: "mput (ck_ID c) c store = store @ [(ck_ID c, c)]"
  proof -
    have "k \<notin> fst ` set m \<Longrightarrow> mput k v m = m @ [(k, v)]" for k and v :: workspaceCheckpoint and m
      by (induction k v m rule: mput.induct) auto
    then show ?thesis using assms(1) by (simp add: map_of_eq_None_iff)
  qed
  have "storeOk store \<Longrightarrow> storeOk (store @ [(ck_ID c, c)])"
    using assms by (auto simp: storeOk_def map_of_eq_None_iff)
  moreover have "map_of (store @ [(ck_ID c, c)]) k = Some c' \<Longrightarrow> map_of store k = Some d \<Longrightarrow> c' = d" for k c' d
    by (simp add: map_add_def)
  ultimately show ?thesis unfolding new evolves_def by blast
qed

lemma evolves_del: "evolves store (mdel k store)"
proof -
  have "storeOk store \<Longrightarrow> storeOk (mdel k store)"
    unfolding storeOk_def using length_mdel_le [of k store] by (auto simp: set_mdel)
  then show ?thesis by (auto simp: evolves_def split: if_splits)
qed

lemma save_evolves: "oks (saveWorkspaceCheckpoint C c store) (evolves store) h"
proof (cases "andThen (validateCheckpointID (ck_ID c)) (\<lambda>_. andThen (validateWorkspaceCheckpoint c) (\<lambda>_. marshalCheckpoint c))")
  case (Inr raw)
  then have v: "validateCheckpointID (ck_ID c) = Inr ()" "validateWorkspaceCheckpoint c = Inr ()" by (auto simp: andThen_Inr)
  have mem: "saveInMemory c store = Inr store' \<Longrightarrow> evolves store store'" for store'
    using evolves_put [of store c] v by (auto simp: saveInMemory_def split: option.splits if_splits)
  have host: "oks (bindE (saveOnHost C c raw) (\<lambda>_. Ret (Inr store))) (evolves store) h"
    by (rule oks_bindE [OF oks_any [where Q = "\<lambda>_. True"]]) simp_all
  show ?thesis using host mem by (simp add: saveWorkspaceCheckpoint_def Inr)
qed (simp add: saveWorkspaceCheckpoint_def)

lemma delete_evolves: "oks (deleteWorkspaceCheckpoint C store ckid) (evolves store) h"
proof -
  have "oks (bind (agDo q) (\<lambda>r. Ret (case r of Inl _ \<Rightarrow> Inl checkpointNotFound | Inr _ \<Rightarrow> Inr store))) (evolves store) h" for q
    by (rule results_bind [where P = "\<lambda>_. True"]) (auto simp: wp_total split: sum.split)
  then show ?thesis using evolves_del [of store ckid] by (auto simp: deleteWorkspaceCheckpoint_def split: sum.split)
qed

text \<open>The store that a step returns.\<close>

definition evolving :: "checkpointStore \<Rightarrow> checkpointStep \<Rightarrow> agHistory \<Rightarrow> bool" where
  "evolving store p h \<longleftrightarrow> oks p (\<lambda>rs. evolves store (snd rs)) h"

named_theorems evolve \<open>what becomes of the store\<close>

lemma evolving_bindE_oks: "oks p Q h \<Longrightarrow> (\<And>a h'. Q a \<Longrightarrow> evolving store (f a) h') \<Longrightarrow> evolving store (bindE p f) h"
  unfolding evolving_def by (rule oks_bindE)

lemma evolving_bindE: "(\<And>a h'. evolving store (f a) h') \<Longrightarrow> evolving store (bindE p f) h"
  by (rule evolving_bindE_oks [OF oks_any [where Q = "\<lambda>_. True"]]) simp_all

lemma evolving_Ask: "(\<And>a h'. evolving store (k a) h') \<Longrightarrow> evolving store (Ask q k) h"
  by (simp add: evolving_def)

lemma evolving_ends [evolve]:
  "evolving store (stop status e) h" "evolving store staleEvidence h" "evolves store store' \<Longrightarrow> evolving store (Ret (Inr (r, store'))) h"
  by (simp_all add: evolving_def stop_def staleEvidence_def)

lemmas evolving_rules = evolving_bindE evolving_Ask

lemma create_evolves [evolve]: "evolving store (createCheckpoint C store req) h"
proof -
  have "evolving store (bindE (orStop 409 (\<lambda>e. e) (saveWorkspaceCheckpoint C c store)) (\<lambda>store'. Ret (Inr (r store', store')))) h2" for c r h2
    by (rule evolving_bindE_oks [OF oks_orStop [OF save_evolves]]) (rule evolving_ends)
  note one = this
  have put: "evolving store (bindE (must 400 v) (\<lambda>_. Ask AgNow (\<lambda>a. bindE (orStop 409 (\<lambda>e. e) (saveWorkspaceCheckpoint C (c a) store))
      (\<lambda>store'. Ret (Inr (r a store', store')))))) h2" for c r h2 and v :: "goError + unit"
    by (rule evolving_bindE, rule evolving_Ask, rule one)
  show ?thesis
    unfolding createCheckpoint_def Let_def
  proof (rule evolving_bindE, goal_cases)
    case (1 manifest h1)
    show ?case
    proof (cases "evidenceMatches req manifest")
      case True
      show ?thesis by (simp only: True not_True_eq_False if_False) (rule evolving_bindE, rule put)
    qed (simp add: evolve)
  qed
qed

lemma restore_evolves [evolve]: "evolving store (restoreWorkspaceCheckpoint C store req) h"
  unfolding restoreWorkspaceCheckpoint_def Let_def by (auto intro!: evolving_rules simp: evolve split: prod.split)

lemma checkpoint_evolves: "evolving store (handleWorkspaceCheckpoint C store verb body) h"
proof -
  have "evolving store (bindE (orStop 404 (\<lambda>e. e) (deleteWorkspaceCheckpoint C store ckid)) (\<lambda>store'. Ret (Inr (r, store')))) h" for ckid r h
    by (rule evolving_bindE_oks [OF oks_orStop [OF delete_evolves]]) (rule evolving_ends)
  then show ?thesis unfolding handleWorkspaceCheckpoint_def Let_def by (auto intro!: evolving_bindE simp: evolve)
qed

abbreviation leaves :: "checkpointStore \<Rightarrow> ('b \<times> checkpointStore) ag \<Rightarrow> agHistory \<Rightarrow> bool" where
  "leaves store p h \<equiv> results p (\<lambda>rs. evolves store (snd rs)) h"

lemma workspace_evolves: "leaves store (handleWorkspace C store urlPath verb given query body) h"
proof -
  have same: "leaves store (bind p (\<lambda>r. Ret (g r, store))) h" for p g h
    by (rule results_bind [where P = "\<lambda>_. True"]) (simp_all add: wp_total)
  have ck: "leaves store (bind (handleWorkspaceCheckpoint C store verb b) (\<lambda>r. case storeAfter store r of (reply, store') \<Rightarrow> Ret (g reply, store'))) h" for b g h
    by (rule results_bind [OF checkpoint_evolves [unfolded evolving_def]]) (auto simp: storeAfter_def split: sum.split prod.split)
  have op: "leaves store (workspaceOperation C store op verb query body) h" for op h
    unfolding workspaceOperation_def Let_def by (simp add: same ck del: split_paired_All)
  have "leaves store (bind (workspaceOperation C store op verb query body) (\<lambda>r. Ask AgUnlock (\<lambda>_. Ret r))) h" for op h
    by (rule results_bind [OF op]) simp
  then show ?thesis unfolding handleWorkspace_def Let_def by (auto simp: same split: option.split)
qed

end
