(* ===== verification/Agent_Workspace_Confined.thy ===== *)
theory Agent_Workspace_Confined
  imports Agent_Checkpoint_Contract
begin

text \<open>
  Where the workspace API reaches: which files it writes and removes, whatever the file system answers and whatever a request, a
  manifest or a stored checkpoint says, and that listing, reading and comparing change nothing.
\<close>

section \<open>Requests that are allowed\<close>

text \<open>Writes of the checkpoint store, in files of its directory.\<close>

definition checkpointAsk :: "workspaceConfig \<Rightarrow> agAsk \<Rightarrow> bool" where
  "checkpointAsk C q \<longleftrightarrow> q = AgMkdirAll (OnHost (checkpointDir C))
     \<or> (\<exists>ckid p. checkpointStorePath C ckid = Inr p \<and>
         ((\<exists>raw. q = AgWriteFile (OnHost (p @ ''.tmp'')) raw) \<or> q = AgRename (OnHost (p @ ''.tmp'')) (OnHost p)
          \<or> q = AgRemove (OnHost (p @ ''.tmp'')) \<or> q = AgRemove (OnHost p)))"

text \<open>Taking and releasing the mutation lock.\<close>

definition lockAsk :: "agAsk \<Rightarrow> bool" where
  "lockAsk q \<longleftrightarrow> q = AgLock \<or> q = AgUnlock"

definition workspaceAsk :: "workspaceConfig \<Rightarrow> agAsk \<Rightarrow> bool" where
  "workspaceAsk C q \<longleftrightarrow> lockAsk q \<or> confinedAsk (gc_WorkDir C) True q \<or> checkpointAsk C q"

text \<open>A request that changes nothing but, at first, makes the workspace itself.\<close>

fun readingAsk :: "string \<Rightarrow> agAsk \<Rightarrow> bool" where
  "readingAsk workdir (AgMkdirAll l) \<longleftrightarrow> l = OnHost workdir"
| "readingAsk workdir (AgWriteFile l c) \<longleftrightarrow> False"
| "readingAsk workdir (AgRename a b) \<longleftrightarrow> False"
| "readingAsk workdir (AgRemove l) \<longleftrightarrow> False"
| "readingAsk workdir (AgRemoveAll l) \<longleftrightarrow> False"
| "readingAsk workdir (AgReload cs) \<longleftrightarrow> False"
| "readingAsk workdir AgRestart \<longleftrightarrow> False"
| "readingAsk workdir AgExitContainer \<longleftrightarrow> False"
| "readingAsk workdir (AgOpenRoot d) \<longleftrightarrow> d = workdir"
| "readingAsk workdir AgLock \<longleftrightarrow> False"
| "readingAsk workdir AgUnlock \<longleftrightarrow> False"
| "readingAsk workdir q \<longleftrightarrow> True"

lemma reading_confined: "readingAsk w q \<Longrightarrow> confinedAsk w True q"
  by (cases q) auto

abbreviation reading :: "string \<Rightarrow> 'a ag \<Rightarrow> bool" where
  "reading workdir p \<equiv> onlyAsks (readingAsk workdir) p"

section \<open>Operations that only read\<close>

lemma reading_calls [footprint]:
  "reading w (lstat l)" "reading w (readFile l)" "reading w (streamFile l)" "reading w (agGet f (AgStat l))" "reading w (agGet g (AgReadDir l))"
  by (simp_all add: lstat_def readFile_def streamFile_def agGet_def)

lemma reading_open [footprint]: "reading w (openWorkspaceRoot w)"
  by (auto simp: openWorkspaceRoot_def agDo_def split: option.split)

lemma reading_walk: "reading w (walkNoSymlink ps b)"
  by (induction ps b rule: walkNoSymlink.induct) (auto simp: footprint intro!: onlyAsks_bind split: sum.split)

lemma reading_checks [footprint]:
  "reading w (ensureExecPathNoSymlink clean b)" "reading w (readWorkspaceManifest U)" "reading w (digesterAddFile d clean)"
  "reading w (hashWorkspaceFile clean)" "reading w (workspaceFileContentChanged clean c)"
  by (auto simp: ensureExecPathNoSymlink_def reading_walk readWorkspaceManifest_def digesterAddFile_def hashWorkspaceFile_def
      workspaceFileContentChanged_def footprint intro!: onlyAsks_bind onlyAsks_bindE split: sum.split)

lemma reading_orStop: "reading w p \<Longrightarrow> reading w (orStop status f p)"
  unfolding orStop_def by (rule onlyAsks_wrapE)

lemma reading_ends [footprint]:
  "reading w (stop status e)" "reading w (must status r)" "reading w methodNotAllowed" "reading w staleEvidence" "reading w (postedBody verb body)"
  by (auto simp: stop_def must_def methodNotAllowed_def staleEvidence_def postedBody_def split: sum.split)

lemmas reading_rules = onlyAsks_bind onlyAsks_bindE onlyAsks_wrapE reading_orStop

lemma reading_digestOnDisk: "reading w (digestOnDisk d ps)"
  by (induction d ps rule: digestOnDisk.induct) (auto simp: footprint intro!: reading_rules)

lemma reading_verify [footprint]: "reading w (verifyWorkspaceManifest m)"
  by (auto simp: verifyWorkspaceManifest_def reading_digestOnDisk intro!: reading_rules split: sum.split)

lemma reading_root [footprint]: "w = gc_WorkDir C \<Longrightarrow> reading w (openedRoot C)"
  unfolding openedRoot_def by (auto simp: footprint intro!: reading_rules)

lemma reading_seeded [footprint]: "w = gc_WorkDir C \<Longrightarrow> reading w (seededManifest C)"
  unfolding seededManifest_def by (auto simp: footprint intro!: reading_rules split: sum.split option.split)

lemma reading_managed [footprint]: "reading w (managedFilesOf m)"
proof -
  have "reading w (readManagedFile p)" for p
    by (auto simp: readManagedFile_def footprint intro!: reading_rules split: prod.split)
  then have "reading w (readManagedEach ps)" for ps by (induction ps) (auto intro!: reading_rules)
  then show ?thesis by (auto simp: managedFilesOf_def readManagedFiles_def intro!: reading_rules split: sum.split)
qed

lemma reading_evidence [footprint]: "reading w (manifestEvidence C)"
  by (auto simp: manifestEvidence_def footprint intro!: reading_rules)

lemma reading_digest [footprint]: "reading w (digestWorkspaceFiles files)"
proof -
  have "reading w (digestEach d fs)" for d fs
    by (induction d fs rule: digestEach.induct) (auto simp: footprint intro!: reading_rules split: sum.split prod.split)
  then show ?thesis by (auto simp: digestWorkspaceFiles_def intro!: reading_rules)
qed

lemma reading_list: "w = gc_WorkDir C \<Longrightarrow> reading w (handleWorkspaceList C verb query body)"
proof -
  assume w: "w = gc_WorkDir C"
  have "reading w (listChildren r m dir cs es q)" for r m dir cs es q
    by (induction cs arbitrary: es q) (auto simp: footprint Let_def intro!: reading_rules)
  then have "reading w (listQueue fuel r m es q)" for fuel r m es q
    by (induction fuel r m es q rule: listQueue.induct) (auto simp: footprint intro!: reading_rules split: prod.split)
  then have "reading w (listWorkspaceEntries base r m)" for base r m unfolding listWorkspaceEntries_def by blast
  moreover have "reading w (listRequest verb query body)" by (auto simp: listRequest_def footprint)
  ultimately show ?thesis
    using w unfolding handleWorkspaceList_def
    by (auto simp: footprint intro!: reading_rules split: sum.split prod.split)
qed

lemma reading_read: "w = gc_WorkDir C \<Longrightarrow> reading w (handleWorkspaceRead C verb body)"
proof -
  assume w: "w = gc_WorkDir C"
  have "reading w (readWorkspaceText n p)" for n p
    by (auto simp: readWorkspaceText_def footprint intro!: reading_rules split: sum.split prod.split)
  then have "reading w (readWorkspaceTexts n ps)" for n ps by (induction n ps rule: readWorkspaceTexts.induct) (auto intro!: reading_rules)
  then show ?thesis
    using w unfolding handleWorkspaceRead_def by (auto simp: footprint intro!: reading_rules split: prod.split)
qed

lemma reading_load [footprint]: "reading w (loadWorkspaceCheckpoint C store ckid)"
  by (auto simp: loadWorkspaceCheckpoint_def Let_def footprint intro!: reading_rules split: option.split sum.split)

lemma reading_diff: "w = gc_WorkDir C \<Longrightarrow> reading w (handleWorkspaceDiff C store verb body)"
proof -
  assume w: "w = gc_WorkDir C"
  then have "w = gc_WorkDir (agentConfig.truncate C)" by (simp add: agentConfig.truncate_def)
  moreover have "reading w (diffViews C store req m files)" for req m files
    by (auto simp: diffViews_def footprint intro!: reading_rules)
  ultimately show ?thesis
    unfolding handleWorkspaceDiff_def by (auto simp: footprint intro!: reading_rules split: prod.split)
qed

section \<open>Operations that write\<close>

text \<open>Every request satisfies \<open>P\<close>, and a value that is no error satisfies \<open>Q\<close>.\<close>

abbreviation within :: "(agAsk \<Rightarrow> bool) \<Rightarrow> ('e + 'a) ag \<Rightarrow> ('a \<Rightarrow> bool) \<Rightarrow> agHistory \<Rightarrow> bool" where
  "within P p Q h \<equiv> wp (\<lambda>_ q. P q) p (\<lambda>x _. \<forall>a. x = Inr a \<longrightarrow> Q a) h"

lemma within_bindE: "within P p Q h \<Longrightarrow> (\<And>a h'. Q a \<Longrightarrow> within P (f a) R h') \<Longrightarrow> within P (bindE p f) R h"
  unfolding wp_bindE by (erule wp_mono) (auto split: sum.split)

lemma within_only: "onlyAsks P p \<Longrightarrow> oks p Q h \<Longrightarrow> within P p Q h"
  by (rule wp_conj_onlyAsks) simp_all

lemma within_any: "onlyAsks P p \<Longrightarrow> within P p (\<lambda>_. True) h"
  by (rule within_only) (simp_all add: wp_total)

abbreviation filesManaged :: "workspaceFile list \<Rightarrow> bool" where
  "filesManaged files \<equiv> (\<forall>f \<in> set files. managedPath (wf_Path f))"

lemma managed_target: "managedPath p \<Longrightarrow> targetOk True p"
  by (simp add: targetOk_def)

lemma place_confined: "managedPath (wf_Path f) \<Longrightarrow> confinedProg w True (placeFile f)"
  by (auto simp: placeFile_def checkTarget_def Let_def footprint managed_target writeFile_confined intro!: onlyAsks_rules)

lemma places_confined: "filesManaged files \<Longrightarrow> confinedProg w True (placeFiles files)"
  by (induction files) (auto simp: place_confined intro!: onlyAsks_rules)

lemma stale_confined: "confinedProg w True (removeStale keep ps)"
  by (induction ps) (auto simp: footprint intro!: onlyAsks_rules)

lemma replace_confined: "filesManaged files \<Longrightarrow> confinedProg w True (replaceContent what m d files)"
  by (auto simp: replaceContent_def applyManagedContent_def footprint places_confined stale_confined stop_def
      intro!: onlyAsks_rules orStop_confined split: sum.split prod.split)

lemma reading_confinedProg: "reading w p \<Longrightarrow> confinedProg w True p"
  by (erule onlyAsks_mono) (rule reading_confined)

subsection \<open>The paths of the files\<close>

lemma cleanManaged_distinct:
  "cleanManaged raws = Inr ps \<Longrightarrow> cleanDistinct seen raws = Inr qs \<Longrightarrow> qs = ps \<and> (\<forall>p \<in> set ps. managedPath p)"
proof (induction raws arbitrary: ps qs seen)
  case (Cons raw raws)
  obtain clean ps' qs' where c: "cleanWorkspacePath raw = Inr clean" "validateManagedWorkspacePath clean = Inr ()" "cleanManaged raws = Inr ps'"
      "ps = clean # ps'" "cleanDistinct (clean # seen) raws = Inr qs'" "qs = clean # qs'"
    using Cons.prems by (auto simp: andThen_Inr split: if_splits)
  then show ?case using Cons.IH [OF c(3,5)] validateManaged_ok [OF cleanWorkspacePath_ok [OF c(1)]] by auto
qed simp

lemma normalize_managed: "cleanManaged raws = Inr ps \<Longrightarrow> normalizeWorkspacePaths raws = Inr qs \<Longrightarrow> \<forall>p \<in> set qs. managedPath p"
  using cleanManaged_distinct by (fastforce simp: normalizeWorkspacePaths_def andThen_Inr)

definition manifestManaged :: "workspaceManifest \<Rightarrow> bool" where
  "manifestManaged m \<longleftrightarrow> isOk (cleanManaged (wm_Files m))"

lemma seeded_managed: "oks (seededManifest C) manifestManaged h"
proof -
  have v: "oks (verifyWorkspaceManifest m) (\<lambda>_. manifestManaged m) h" for m h
  proof (cases "cleanManaged (wm_Files m)")
    case (Inr ps)
    then show ?thesis by (intro oks_any) (simp add: manifestManaged_def isOk_def)
  qed (simp add: verifyWorkspaceManifest_def)
  have step: "oks (bindE (orStop 409 f (verifyWorkspaceManifest m)) (\<lambda>_. Ret (Inr m))) manifestManaged h" for f m h
    by (rule oks_bindE [OF oks_orStop [OF v]]) simp
  show ?thesis
    unfolding seededManifest_def
    by (rule oks_bindE [OF oks_any [where Q = "\<lambda>_. True"]], simp, rule results_bind [where P = "\<lambda>_. True"], simp add: wp_total)
      (auto simp: step split: sum.split option.split)
qed

lemma managedFiles_managed: "manifestManaged m \<Longrightarrow> oks (managedFilesOf m) filesManaged h"
proof -
  assume "manifestManaged m"
  then obtain ps where c: "cleanManaged (wm_Files m) = Inr ps" by (auto simp: manifestManaged_def isOk_def split: sum.splits)
  show ?thesis
    unfolding managedFilesOf_def
  proof (rule oks_orStop, cases "normalizeWorkspacePaths (wm_Files m)")
    case (Inr qs)
    have "filesManaged fs" if "list_all2 viewFile qs fs" for fs
      using view_paths [OF that] normalize_managed [OF c Inr] by auto
    then show "oks (readManagedFiles (wm_Files m)) filesManaged h"
      unfolding readManagedFiles_def Inr sum.case by (intro wp_mono [OF readManagedEach_view]) blast
  qed (simp add: readManagedFiles_def)
qed

definition mapManaged :: "fileMap \<Rightarrow> bool" where
  "mapManaged m \<longleftrightarrow> (\<forall>kf \<in> set m. managedPath (wf_Path (snd kf)))"

lemma mapManaged_put: "mapManaged m \<Longrightarrow> managedPath (wf_Path f) \<Longrightarrow> mapManaged (mput k f m)"
  by (induction k f m rule: mput.induct) (auto simp: mapManaged_def)

lemma mapManaged_del: "mapManaged m \<Longrightarrow> mapManaged (mdel k m)"
  by (auto simp: mapManaged_def set_mdel)

lemma mapManaged_index: "filesManaged files \<Longrightarrow> mapManaged (workspaceFileIndex files)"
proof -
  have "filesManaged files \<Longrightarrow> mapManaged m \<Longrightarrow> mapManaged (fold (\<lambda>f m. mput (wf_Path f) f m) files m)" for m
    by (induction files arbitrary: m) (auto intro: mapManaged_put)
  moreover have "mapManaged []" by (simp add: mapManaged_def)
  ultimately show "filesManaged files \<Longrightarrow> ?thesis" unfolding workspaceFileIndex_def by blast
qed

lemma mapManaged_files: "mapManaged m \<Longrightarrow> filesManaged (workspaceFilesFromMap m)"
  by (auto simp: mapManaged_def workspaceFilesFromMap_def)

lemma classify_path [simp]: "wf_Path (classifyWorkspaceBytes p c k) = p"
  by (simp add: classifyWorkspaceBytes_def Let_def)

lemma applyOperation_managed:
  assumes "applyOperation i seen operation files = Inr (clean, files')" and "mapManaged files"
  shows "mapManaged files'"
proof -
  have m: "managedPath clean" using applyOperation_ok [OF assms(1)] by blast
  have "files' = mput clean (classifyWorkspaceBytes clean (mu_Content operation) True) files \<or> files' = mdel clean files"
    using assms(1) by (auto simp: applyOperation_def Let_def split: sum.splits if_splits)
  then show ?thesis using mapManaged_put [OF assms(2)] mapManaged_del [OF assms(2)] m classify_path by metis
qed

lemma applyOperations_managed: "applyOperations i seen ops files = Inr files' \<Longrightarrow> mapManaged files \<Longrightarrow> mapManaged files'"
proof (induction ops arbitrary: i seen files)
  case (Cons operation ops)
  obtain clean files1 where o: "applyOperation i seen operation files = Inr (clean, files1)" "applyOperations (Suc i) (clean # seen) ops files1 = Inr files'"
    using Cons.prems(1) by (auto simp: andThen_Inr)
  show ?case by (rule Cons.IH [OF o(2) applyOperation_managed [OF o(1) Cons.prems(2)]])
qed simp

lemma claimPath_managed: "claimPath paths raw = Inr clean \<Longrightarrow> raw = clean \<and> managedPath clean"
  using validateManaged_ok cleanWorkspacePath_ok by (auto simp: claimPath_def andThen_Inr split: if_splits)

lemma claimTexts_managed: "claimTexts paths fs = Inr ps \<Longrightarrow> \<forall>f \<in> set fs. managedPath (sf_Path f)"
  by (induction paths fs arbitrary: ps rule: claimTexts.induct) (auto simp: andThen_Inr dest: claimPath_managed split: if_splits)

lemma claimOpaques_managed: "claimOpaques paths fs = Inr ps \<Longrightarrow> \<forall>f \<in> set fs. managedPath (of_Path f)"
  by (induction paths fs arbitrary: ps rule: claimOpaques.induct) (auto simp: andThen_Inr dest: claimPath_managed split: if_splits)

lemma checkpoint_managed: "validateWorkspaceCheckpoint c = Inr () \<Longrightarrow> filesManaged (checkpointWorkspaceFiles c)"
  unfolding checkpointWorkspaceFiles_def
  by (intro mapManaged_files mapManaged_index)
    (auto simp: validateWorkspaceCheckpoint_def andThen_Inr opaqueFile_def dest: claimTexts_managed claimOpaques_managed split: if_splits)

subsection \<open>The handlers\<close>

lemma mutate_confined: "w = gc_WorkDir C \<Longrightarrow> within (confinedAsk w True) (handleWorkspaceMutate C verb body) (\<lambda>_. True) h"
  unfolding handleWorkspaceMutate_def
proof (rule within_bindE [OF within_any [OF reading_confinedProg [OF reading_ends(5)]]], goal_cases)
  case (1 req h1)
  have install: "within (confinedAsk w True) (installMutation req m files') (\<lambda>_. True) h2" if "mapManaged files'" for m files' h2
    by (rule within_any) (auto simp: installMutation_def Let_def footprint reading_confinedProg replace_confined mapManaged_files [OF that] stop_def
        intro!: onlyAsks_rules orStop_confined split: prod.split)
  have ops: "within (confinedAsk w True) (bindE (managedFilesOf m) (\<lambda>files.
         case applyOperations 0 [] (mq_Operations req) (workspaceFileIndex files) of
           Inl (status, e) \<Rightarrow> stop status e | Inr filesByPath \<Rightarrow> installMutation req m filesByPath)) (\<lambda>_. True) h2"
    if "manifestManaged m" for m h2
  proof (rule within_bindE [OF within_only [OF reading_confinedProg [OF reading_managed] managedFiles_managed [OF that]]], goal_cases)
    case (1 files h3)
    show ?case
    proof (cases "applyOperations 0 [] (mq_Operations req) (workspaceFileIndex files)")
      case (Inr files')
      have "mapManaged files'" using applyOperations_managed [OF Inr mapManaged_index] 1 by blast
      then show ?thesis unfolding Inr sum.case by (rule install)
    qed (simp add: stop_def split: prod.split)
  qed
  have "within (confinedAsk w True) (bindE (seededManifest C) k) (\<lambda>_. True) h1"
    if "\<And>m h2. manifestManaged m \<Longrightarrow> within (confinedAsk w True) (k m) (\<lambda>_. True) h2" for k
    by (rule within_bindE [OF within_only [OF reading_confinedProg [OF reading_seeded [OF \<open>w = gc_WorkDir C\<close>]] seeded_managed]]) (rule that)
  note seeded = this
  show ?case
  proof (cases "mq_ExpectedRevision req = 0 \<or> normalizeSourceDigest (mq_ExpectedDigest req) = []")
    case required: False
    show ?thesis
    proof (cases "mq_Operations req = [] \<or> workspaceMaxOperations < length (mq_Operations req)")
      case bounded: False
      show ?thesis
        unfolding if_not_P [OF required] if_not_P [OF bounded]
      proof (rule seeded)
        fix m h2 assume m: "manifestManaged m"
        show "within (confinedAsk w True) (if wm_SourceRevision m \<noteq> mq_ExpectedRevision req
            \<or> normalizeSourceDigest (wm_SourceDigest m) \<noteq> normalizeSourceDigest (mq_ExpectedDigest req) then staleEvidence
          else bindE (managedFilesOf m) (\<lambda>files.
            case applyOperations 0 [] (mq_Operations req) (workspaceFileIndex files) of
              Inl (status, e) \<Rightarrow> stop status e | Inr filesByPath \<Rightarrow> installMutation req m filesByPath)) (\<lambda>_. True) h2"
          using ops [OF m, of h2] by (simp add: staleEvidence_def stop_def)
      qed
    qed (use required in \<open>simp add: stop_def\<close>)
  qed (simp add: stop_def)
qed

lemma load_valid: "oks (loadWorkspaceCheckpoint C store ckid) (\<lambda>c. validateWorkspaceCheckpoint c = Inr ()) h"
proof -
  have "oks (bind p (\<lambda>r. Ret (case r of Inl _ \<Rightarrow> Inl checkpointNotFound | Inr raw \<Rightarrow> (case U raw of Inl _ \<Rightarrow> Inl e
      | Inr c \<Rightarrow> andThen (validateWorkspaceCheckpoint c) (\<lambda>_. Inr c))))) (\<lambda>c. validateWorkspaceCheckpoint c = Inr ()) h"
    for p :: "(goError + string) ag" and U e
    by (rule results_bind [where P = "\<lambda>_. True"]) (auto simp: wp_total andThen_Inr split: sum.splits)
  then show ?thesis by (auto simp: loadWorkspaceCheckpoint_def Let_def andThen_Inr split: option.splits sum.split)
qed

lemma restore_confined_within:
  assumes "w = gc_WorkDir C"
  shows "within (confinedAsk w True) (restoreWorkspaceCheckpoint C store req) (\<lambda>_. True) h"
proof -
  have w: "w = gc_WorkDir (agentConfig.truncate C)" using assms by (simp add: agentConfig.truncate_def)
  have verify: "reading w (verifyOpaques c fs)" for c fs
    by (induction fs) (auto simp: verifyOpaqueWorkspaceFile_def footprint intro!: reading_rules split: sum.split prod.split)
  have rest: "within (confinedAsk w True) (bindE (verifyOpaques c (checkpointWorkspaceFiles c)) (\<lambda>_.
          bindE (orStop 409 f (digestWorkspaceFiles (checkpointWorkspaceFiles c))) (\<lambda>restoredDigest.
          if restoredDigest \<noteq> normalizeSourceDigest (ck_SourceDigest c) then stop 409 e
          else bindE (replaceContent what m d (checkpointWorkspaceFiles c)) (\<lambda>cd. Ret (Inr (r cd)))))) (\<lambda>_. True) h"
    if "validateWorkspaceCheckpoint c = Inr ()" for c f e what m d r h
    by (rule within_any) (auto simp: footprint reading_confinedProg verify replace_confined checkpoint_managed [OF that] stop_def
        intro!: onlyAsks_rules orStop_confined)
  show ?thesis
  proof (cases "trimSpace (cq_ID req) = []")
    case False
    show ?thesis
      unfolding restoreWorkspaceCheckpoint_def Let_def if_not_P [OF False]
    proof (rule within_bindE [OF within_only [OF reading_confinedProg [OF reading_orStop [OF reading_load]] oks_orStop [OF load_valid]]],
        rule within_bindE [OF within_any [OF reading_confinedProg [OF reading_seeded [OF w]]]], goal_cases)
      case (1 c h1 m h2)
      show ?case
      proof (cases "evidenceMatches req m")
        case True
        then have ev: "\<not> \<not> evidenceMatches req m" by simp
        show ?thesis unfolding if_not_P [OF ev] case_prod_beta by (rule rest [OF 1(1)])
      qed (simp add: staleEvidence_def stop_def)
    qed
  qed (simp add: restoreWorkspaceCheckpoint_def stop_def)
qed

abbreviation inWorkspace :: "workspaceConfig \<Rightarrow> 'a ag \<Rightarrow> bool" where
  "inWorkspace C p \<equiv> onlyAsks (workspaceAsk C) p"

lemma reading_inWorkspace: "w = gc_WorkDir C \<Longrightarrow> reading w p \<Longrightarrow> inWorkspace C p"
  by (erule onlyAsks_mono) (simp add: workspaceAsk_def reading_confined)

lemma confined_inWorkspace: "confinedProg (gc_WorkDir C) True p \<Longrightarrow> inWorkspace C p"
  by (erule onlyAsks_mono) (simp add: workspaceAsk_def)

lemma storePath_asks:
  assumes "checkpointStorePath C ckid = Inr p"
  shows "workspaceAsk C (AgWriteFile (OnHost (p @ ''.tmp'')) raw)" "workspaceAsk C (AgRename (OnHost (p @ ''.tmp'')) (OnHost p))"
    "workspaceAsk C (AgRemove (OnHost (p @ ''.tmp'')))" "workspaceAsk C (AgRemove (OnHost p))"
  using assms unfolding workspaceAsk_def checkpointAsk_def by blast+

lemma storeDir_ask: "workspaceAsk C (AgMkdirAll (OnHost (checkpointDir C)))"
  by (simp add: workspaceAsk_def checkpointAsk_def)

lemma agDo_asks: "P q \<Longrightarrow> onlyAsks P (agDo q)"
  by (simp add: agDo_def)

lemma get_inWorkspace [footprint]: "inWorkspace C (readFile l)" "inWorkspace C (agGet g (AgReadDir l))"
  by (simp_all add: readFile_def agGet_def workspaceAsk_def)

lemma orStop_inWorkspace: "inWorkspace C p \<Longrightarrow> inWorkspace C (orStop status f p)"
  unfolding orStop_def by (rule onlyAsks_wrapE)

lemma save_inWorkspace [footprint]: "inWorkspace C (saveWorkspaceCheckpoint C c store)"
proof -
  have "inWorkspace C (saveOnHost C c raw)" for raw
    by (auto simp: saveOnHost_def Let_def footprint storePath_asks storeDir_ask
        intro!: onlyAsks_rules agDo_asks split: sum.split)
  then show ?thesis
    by (auto simp: saveWorkspaceCheckpoint_def intro!: onlyAsks_rules split: sum.split)
qed

lemma delete_inWorkspace [footprint]: "inWorkspace C (deleteWorkspaceCheckpoint C store ckid)"
  by (auto simp: deleteWorkspaceCheckpoint_def storePath_asks intro!: onlyAsks_rules agDo_asks split: sum.split)

lemma list_inWorkspace [footprint]: "inWorkspace C (listWorkspaceCheckpoints C store)"
proof -
  have "inWorkspace C (loadWorkspaceCheckpoint C store ckid)" for ckid by (rule reading_inWorkspace [OF refl reading_load])
  then have "inWorkspace C (loadSummaries C store es)" for es
    by (induction es) (auto intro!: onlyAsks_rules)
  then show ?thesis by (auto simp: listWorkspaceCheckpoints_def footprint intro!: onlyAsks_rules split: sum.split)
qed

lemma create_inWorkspace: "inWorkspace C (createCheckpoint C store req)"
proof -
  have w: "gc_WorkDir C = gc_WorkDir (agentConfig.truncate C)" by (simp add: agentConfig.truncate_def)
  show ?thesis
    unfolding createCheckpoint_def Let_def
    by (auto intro!: onlyAsks_rules orStop_inWorkspace reading_inWorkspace [OF refl reading_seeded [OF w]] reading_inWorkspace [OF refl reading_managed]
        reading_inWorkspace [OF refl reading_ends(2)] reading_inWorkspace [OF refl reading_ends(4)] simp: save_inWorkspace workspaceAsk_def)
qed

lemma within_workspace: "within (confinedAsk (gc_WorkDir C) True) p Q h \<Longrightarrow> within (workspaceAsk C) p Q h"
  by (erule wp_weaken) (simp add: workspaceAsk_def)

abbreviation asksIn :: "workspaceConfig \<Rightarrow> 'a ag \<Rightarrow> agHistory \<Rightarrow> bool" where
  "asksIn C p h \<equiv> wp (\<lambda>_ q. workspaceAsk C q) p (\<lambda>_ _. True) h"

lemma asksIn_only: "inWorkspace C p \<Longrightarrow> asksIn C p h"
  by (rule wp_onlyAsks) simp_all

lemma wp_if: "(c \<Longrightarrow> wp G p Q h) \<Longrightarrow> (\<not> c \<Longrightarrow> wp G q Q h) \<Longrightarrow> wp G (if c then p else q) Q h"
  by simp

lemma wp_case_sum:
  "(\<And>e. x = Inl e \<Longrightarrow> wp G (f e) Q h) \<Longrightarrow> (\<And>a. x = Inr a \<Longrightarrow> wp G (g a) Q h) \<Longrightarrow> wp G (case x of Inl e \<Rightarrow> f e | Inr a \<Rightarrow> g a) Q h"
  by (cases x) simp_all

lemma asksIn_Ret: "asksIn C (Ret x) h"
  by simp

lemma asksIn_bind: "asksIn C p h \<Longrightarrow> (\<And>x h'. asksIn C (k x) h') \<Longrightarrow> asksIn C (bind p k) h"
  unfolding wp_bind by (erule wp_mono) blast

lemma checkpoint_within: "asksIn C (handleWorkspaceCheckpoint C store verb body) h"
proof -
  have list: "asksIn C (bindE (orStop 503 (\<lambda>e. e) (listWorkspaceCheckpoints C store)) (\<lambda>out. Ret (Inr (r out, store)))) h1" for r h1
    by (rule asksIn_only) (auto simp: footprint intro!: onlyAsks_rules orStop_inWorkspace)
  have delete: "asksIn C (bindE (orStop 404 (\<lambda>e. e) (deleteWorkspaceCheckpoint C store ckid)) (\<lambda>store'. Ret (Inr (r, store')))) h1" for ckid r h1
    by (rule asksIn_only) (auto simp: footprint intro!: onlyAsks_rules orStop_inWorkspace)
  have stopped: "asksIn C (stop status e) h1" for status e h1 by (simp add: stop_def)
  have restore: "asksIn C (restoreWorkspaceCheckpoint C store req) h1" for req h1
    using within_workspace [OF restore_confined_within [OF refl]] by simp
  have create: "asksIn C (createCheckpoint C store req) h1" for req h1 by (rule asksIn_only [OF create_inWorkspace])
  have posted: "asksIn C (bindE (postedBody verb body) k) h" if "\<And>req h1. asksIn C (k req) h1" for k
    using within_bindE [OF within_any [OF reading_inWorkspace [OF refl reading_ends(5)]], of C k "\<lambda>_. True"] that by simp
  show ?thesis
    unfolding handleWorkspaceCheckpoint_def Let_def by (rule posted) (simp add: list delete stopped restore create)
qed

lemma sync_inWorkspace:
  assumes "isAuthoritative req"
  shows "onlyAsks (\<lambda>q. lockAsk q \<or> confinedAsk (gc_WorkDir C) True q) (handleSync C verb given (SyncBody req))"
  using handleSync_cases [of C verb given "SyncBody req"]
proof (elim disjE exE conjE)
  fix req' files
  assume s: "SyncBody req = SyncBody req'" "decodeSyncFiles (sq_Files req') True = Inr files"
    "handleSync C verb given (SyncBody req) = Ask AgLock (\<lambda>_. bind (lockedSync C req' files) (\<lambda>r. Ask AgUnlock (\<lambda>_. Ret (replyOf r))))"
  then have "confinedProg (gc_WorkDir C) True (lockedSync C req' files)" using lockedSync_confined [OF s(2), of C] assms by simp
  then have "onlyAsks (\<lambda>q. lockAsk q \<or> confinedAsk (gc_WorkDir C) True q) (lockedSync C req' files)" by (rule onlyAsks_mono) simp
  then show ?thesis unfolding s(3) by (auto simp: lockAsk_def intro!: onlyAsks_bind)
qed simp

text \<open>A seed asks for the lock, and for what an authoritative sync may ask.\<close>

definition syncAsk :: "workspaceConfig \<Rightarrow> agAsk \<Rightarrow> bool" where
  "syncAsk C q \<longleftrightarrow> lockAsk q \<or> confinedAsk (gc_WorkDir C) True q"

lemma sync_workspaceAsk: "syncAsk C q \<Longrightarrow> workspaceAsk C q"
  by (auto simp: syncAsk_def workspaceAsk_def)

lemma reading_syncAsk: "w = gc_WorkDir C \<Longrightarrow> reading w p \<Longrightarrow> onlyAsks (syncAsk C) p"
  by (erule onlyAsks_mono) (simp add: syncAsk_def reading_confined)

lemma seed_syncs: "wp (\<lambda>_ q. syncAsk C q) (handleWorkspaceSeed (agentConfig.truncate C) verb given body) (\<lambda>_ _. True) h"
proof -
  let ?A = "agentConfig.truncate C"
  have w: "gc_WorkDir C = gc_WorkDir ?A" by (simp add: agentConfig.truncate_def)
  have rev: "reading (gc_WorkDir C) (seedRevision ?A req)" for req
    unfolding seedRevision_def by (auto simp: footprint w Let_def intro!: reading_rules split: sum.split)
  define make where "make = bindE (postedBody verb body) (\<lambda>req.
       if workspaceMaxFiles < length (ws_Files req)
       then stop 413 (Errorf ''seed may contain at most %d files'' [showNat workspaceMaxFiles])
       else (case validateWorkspaceSeedFiles (ws_Files req) of
               Inl e \<Rightarrow> stop (if errorsIs errSyncTooLarge e then 413 else 400) e
             | Inr _ \<Rightarrow>
                 bind (seedRevision ?A req) (\<lambda>revision.
                 bindE (must 400 (digestSyncFiles (ws_Files req))) (\<lambda>digest.
                 Ret (Inr \<lparr>sq_Files = ws_Files req, sq_DeletePaths = [], sq_Restart = ws_Restart req, sq_SourceRevision = revision,
                   sq_SourceDigest = (if trimSpace (ws_SourceDigest req) = [] then digest else ws_SourceDigest req)\<rparr>)))) :: syncRequest syncStep)"
  have "reading (gc_WorkDir C) make"
    unfolding make_def by (auto simp: footprint rev intro!: reading_rules split: sum.split)
  moreover have "oks make isAuthoritative h"
  proof -
    have digest: "trimSpace d \<noteq> []" if "digestSyncFiles fs = Inr d" for fs d
      using that by (auto simp: digestSyncFiles_def andThen_Inr digestDecodedSyncFiles_def digesterSum_def)
    have "oks (bindE (must 400 (digestSyncFiles fs)) (\<lambda>digest. Ret (Inr \<lparr>sq_Files = fs, sq_DeletePaths = [], sq_Restart = r, sq_SourceRevision = revision,
                   sq_SourceDigest = (if trimSpace given = [] then digest else given)\<rparr>)) :: syncRequest syncStep) isAuthoritative h"
      for fs r revision given h
      by (rule oks_bindE [OF oks_must [where Q = "\<lambda>d. trimSpace d \<noteq> []"]]) (auto simp: digest isAuthoritative_def)
    note auth = this
    have "oks (bind (seedRevision ?A req) (\<lambda>revision. bindE (must 400 (digestSyncFiles fs)) (\<lambda>digest. Ret (Inr \<lparr>sq_Files = fs, sq_DeletePaths = [],
        sq_Restart = r, sq_SourceRevision = revision, sq_SourceDigest = (if trimSpace given = [] then digest else given)\<rparr>)) :: syncRequest syncStep))
        isAuthoritative h" for req fs r given h
      by (rule results_bind [where P = "\<lambda>_. True"], simp add: wp_total) (rule auth)
    note step = this
    show ?thesis
      unfolding make_def
    proof (rule oks_bindE [OF oks_any [where Q = "\<lambda>_. True"]], goal_cases)
      case (2 req h1)
      show ?case by (rule wp_if, rule oks_simps(1), rule wp_case_sum, rule oks_simps(1), rule step)
    qed simp
  qed
  ultimately have m: "within (syncAsk C) make isAuthoritative h" by (rule within_only [OF reading_syncAsk [OF refl]])
  have sync: "wp (\<lambda>_ q. syncAsk C q) (handleSync ?A ''POST'' given (SyncBody req)) (\<lambda>_ _. True) h1" if "isAuthoritative req" for req h1
    by (rule wp_onlyAsks [OF onlyAsks_mono [OF sync_inWorkspace [OF that, of ?A]]]) (auto simp: syncAsk_def w)
  show ?thesis
    unfolding handleWorkspaceSeed_def make_def [symmetric] wp_bind [of _ make]
  proof (rule wp_mono [OF m], goal_cases)
    case (1 x h1)
    then show ?case by (cases x) (simp_all add: sync)
  qed
qed

lemma seed_within: "asksIn C (handleWorkspaceSeed (agentConfig.truncate C) verb given body) h"
  by (rule wp_weaken [OF seed_syncs]) (rule sync_workspaceAsk)

subsection \<open>The API\<close>

lemma workspace_asks: "asksIn C (handleWorkspace C store urlPath verb given query body) h"
proof -
  let ?A = "agentConfig.truncate C"
  have w: "gc_WorkDir C = gc_WorkDir ?A" by (simp add: agentConfig.truncate_def)
  have list: "asksIn C (handleWorkspaceList ?A verb query b) h" for b h
    by (rule asksIn_only [OF reading_inWorkspace [OF refl reading_list [OF w]]])
  have read: "asksIn C (handleWorkspaceRead ?A verb b) h" for b h
    by (rule asksIn_only [OF reading_inWorkspace [OF refl reading_read [OF w]]])
  have diff: "asksIn C (handleWorkspaceDiff C store verb b) h" for b h
    by (rule asksIn_only [OF reading_inWorkspace [OF refl reading_diff [OF refl]]])
  have mutate: "asksIn C (handleWorkspaceMutate ?A verb b) h" for b h
    using within_workspace [OF mutate_confined [OF w]] by simp
  have op: "asksIn C (workspaceOperation C store op verb query body) h" for op h
    unfolding workspaceOperation_def Let_def
    unfolding case_prod_beta by (intro wp_if asksIn_bind asksIn_Ret list read diff mutate checkpoint_within)
  have locked: "asksIn C (Ask AgLock (\<lambda>_. bind (workspaceOperation C store op verb query body) (\<lambda>r. Ask AgUnlock (\<lambda>_. Ret r)))) h" for op h
  proof -
    have "asksIn C (bind (workspaceOperation C store op verb query body) (\<lambda>r. Ask AgUnlock (\<lambda>_. Ret r))) h'" for h'
      by (rule asksIn_bind [OF op]) (simp add: workspaceAsk_def lockAsk_def)
    then show ?thesis by (simp add: workspaceAsk_def lockAsk_def)
  qed
  have seed: "asksIn C (bind (handleWorkspaceSeed ?A verb given b) (\<lambda>reply. Ret (mapReply SeedReply reply, store))) h" for b
    by (rule asksIn_bind [OF seed_within asksIn_Ret])
  show ?thesis
  proof (cases "authorizeControl ?A given")
    case None
    show ?thesis unfolding handleWorkspace_def Let_def None option.case by (intro wp_if asksIn_Ret seed locked)
  qed (simp add: handleWorkspace_def split: prod.split)
qed

definition operationOf :: "string \<Rightarrow> string" where
  "operationOf urlPath = trimPrefix (trimPrefix urlPath ''/workspace'') ''/''"

lemma workspace_reads:
  assumes "operationOf urlPath \<in> {''list'', ''read'', ''diff''}"
  shows "onlyAsks (\<lambda>q. lockAsk q \<or> readingAsk (gc_WorkDir C) q) (handleWorkspace C store urlPath verb given query body)"
proof -
  let ?A = "agentConfig.truncate C"
  have w: "gc_WorkDir C = gc_WorkDir ?A" by (simp add: agentConfig.truncate_def)
  have op: "reading (gc_WorkDir C) (workspaceOperation C store op verb query body)" if "op \<in> {''list'', ''read'', ''diff''}" for op
  proof -
    have r: "reading (gc_WorkDir C) (bind (handleWorkspaceList ?A verb query b1) (\<lambda>r. Ret (g1 r)))"
      "reading (gc_WorkDir C) (bind (handleWorkspaceRead ?A verb b2) (\<lambda>r. Ret (g2 r)))"
      "reading (gc_WorkDir C) (bind (handleWorkspaceDiff C store verb b3) (\<lambda>r. Ret (g3 r)))" for b1 b2 b3 g1 g2 g3
      by (rule onlyAsks_bind [OF reading_list [OF w]], simp, rule onlyAsks_bind [OF reading_read [OF w]], simp,
          rule onlyAsks_bind [OF reading_diff [OF refl]], simp)
    have "op = ''list'' \<or> op = ''read'' \<or> op = ''diff''" using that unfolding insert_iff empty_iff by (simp only: simp_thms)
    then show ?thesis by (elim disjE) (simp_all add: workspaceOperation_def Let_def r)
  qed
  have locked: "onlyAsks (\<lambda>q. lockAsk q \<or> readingAsk (gc_WorkDir C) q)
      (bind (workspaceOperation C store (operationOf urlPath) verb query body) (\<lambda>r. Ask AgUnlock (\<lambda>_. Ret r)))"
    by (rule onlyAsks_bind [OF onlyAsks_mono [OF op [OF assms]]]) (simp_all add: lockAsk_def)
  have "operationOf urlPath \<noteq> ''seed''" "operationOf urlPath \<noteq> []" using assms by (rule contrapos_pn, simp)+
  then show ?thesis
    using locked lockAsk_def [of AgLock] unfolding handleWorkspace_def Let_def operationOf_def
    by (cases "authorizeControl ?A given") (simp_all split: prod.split)
qed

text \<open>C33: The workspace API reaches no further than the workspace: whatever a request, a manifest or a stored checkpoint names, each file it
  writes is a clean path below the root without reserved components, or the temporary file of the manifest, and so is every
  directory it makes, the root itself apart; what it removes is a clean path below the root (a reserved one too, when a
  manifest lists it); the manifest is only ever replaced through its temporary file; and beside that it changes only the
  files of the checkpoint directory. Listing, reading and comparing change nothing but that they make the root when it is missing.\<close>

theorem workspace_api_confined:
  assumes "run w (handleWorkspace C store urlPath verb given query body) [] = (tr, reply)"
  shows "(\<forall>e \<in> set tr. lockAsk (fst e) \<or> confinedAsk (gc_WorkDir C) True (fst e) \<or> checkpointAsk C (fst e))
    \<and> (operationOf urlPath \<in> {''list'', ''read'', ''diff''} \<longrightarrow> (\<forall>e \<in> set tr. lockAsk (fst e) \<or> readingAsk (gc_WorkDir C) (fst e)))"
proof -
  have "obeys (\<lambda>_ q. workspaceAsk C q) 0 tr" using wp_trace [OF workspace_asks assms] by (rule conjunct1)
  then have "\<forall>e \<in> set tr. workspaceAsk C (fst e)" by (simp add: obeys_def all_set_conv_all_nth)
  moreover have "\<forall>e \<in> set tr. lockAsk (fst e) \<or> readingAsk (gc_WorkDir C) (fst e)" if "operationOf urlPath \<in> {''list'', ''read'', ''diff''}"
    using onlyAsks_trace [OF workspace_reads [OF that] assms] by blast
  ultimately show ?thesis unfolding workspaceAsk_def by blast
qed

end
