(* ===== verification/Agent_Workspace_Safety.thy ===== *)
theory Agent_Workspace_Safety
  imports Agent_Workspace_Confined
begin

text \<open>
  What the workspace API does to the workspace, whatever the file system answers: a listing ends within its bound, and a mutation or a
  restoration that reports success has moved verified files to the next revision: it has put each of them in place, has removed the
  files it replaces, and has written and removed nothing else.
\<close>

section \<open>Listings end\<close>

lemma bind_cong_results: "results p (\<lambda>x. f x = g x) h \<Longrightarrow> bind p f = bind p g"
proof (induction p arbitrary: h)
  case (Ask q k)
  have "bind (k r) f = bind (k r) g" for r by (rule Ask.IH [OF rangeI]) (use Ask.prems in auto)
  then show ?case by simp
qed simp

lemma bindE_cong_oks: "oks p (\<lambda>a. f a = g a) h \<Longrightarrow> bindE p f = bindE p g"
  unfolding bindE_def by (rule bind_cong_results [of _ _ _ h], erule wp_mono) (auto split: sum.split)

definition listRoom :: "int \<Rightarrow> workspaceEntry list \<Rightarrow> nat" where
  "listRoom maxEntries entries = nat (maxEntries - int (length entries))"

lemma listChildren_room:
  "oks (listChildren recursive maxEntries dir cs entries queue)
     (\<lambda>eq. listRoom maxEntries (fst eq) + length (snd eq) \<le> listRoom maxEntries entries + length queue) h"
proof (induction recursive maxEntries dir cs entries queue arbitrary: h rule: listChildren.induct)
  case (2 recursive maxEntries dir child cs entries queue)
  show ?case
  proof (cases "dir = ''.'' \<and> (child = workspaceManifestName \<or> child = manifestTmp)")
    case False
    let ?path = "if dir \<noteq> ''.'' then pathJoin dir child else child"
    let ?entry = "\<lambda>i :: fileInfo. \<lparr>we_Path = ?path, we_Type = entryKind (fi_Kind i), we_Size = fi_Size i, we_Mode = fi_Perm i\<rparr>"
    have step: "oks (if maxEntries < int (length (entries @ [?entry i]))
        then Ret (Inl (Errorf ''workspace listing exceeds maxEntries %d'' [showInt maxEntries]))
        else listChildren recursive maxEntries dir cs (entries @ [?entry i]) (if recursive \<and> fi_Kind i = KDir then queue @ [?path] else queue))
      (\<lambda>eq. listRoom maxEntries (fst eq) + length (snd eq) \<le> listRoom maxEntries entries + length queue) h1" for i h1
    proof (cases "maxEntries < int (length (entries @ [?entry i]))")
      case room: False
      have grows: "listRoom maxEntries (entries @ [?entry i]) + length (if recursive \<and> fi_Kind i = KDir then queue @ [?path] else queue)
          \<le> listRoom maxEntries entries + length queue"
        using room by (auto simp: listRoom_def)
      have ih: "oks (listChildren recursive maxEntries dir cs (entries @ [?entry i]) (if recursive \<and> fi_Kind i = KDir then queue @ [?path] else queue))
          (\<lambda>eq. listRoom maxEntries (fst eq) + length (snd eq) \<le> listRoom maxEntries (entries @ [?entry i])
             + length (if recursive \<and> fi_Kind i = KDir then queue @ [?path] else queue)) h1"
        by (rule 2(2) [OF False refl refl room])
      show ?thesis
        unfolding if_not_P [OF room] by (rule wp_mono [OF ih]) (use grows in fastforce)
    qed simp
    show ?thesis
      unfolding listChildren.simps(2) if_not_P [OF False] Let_def
      by (rule oks_bindE [OF oks_any [where Q = "\<lambda>_. True"]]) (simp, rule step)
  next
    case True
    show ?thesis unfolding listChildren.simps(2) if_P [OF True] by (rule 2(1) [OF True])
  qed
qed simp

lemma listQueue_fuel:
  "listRoom maxEntries entries + length queue \<le> fuel \<Longrightarrow> fuel \<le> fuel' \<Longrightarrow>
     listQueue fuel' recursive maxEntries entries queue = listQueue fuel recursive maxEntries entries queue"
proof (induction fuel arbitrary: fuel' entries queue)
  case (Suc fuel)
  obtain fuel1 where f: "fuel' = Suc fuel1" "fuel \<le> fuel1" using Suc.prems(2) by (cases fuel') auto
  show ?case
  proof (cases queue)
    case (Cons dir rest)
    have "bindE (listChildren recursive maxEntries dir cs entries rest) (\<lambda>(entries', queue'). listQueue fuel1 recursive maxEntries entries' queue')
        = bindE (listChildren recursive maxEntries dir cs entries rest) (\<lambda>(entries', queue'). listQueue fuel recursive maxEntries entries' queue')" for cs
    proof (rule bindE_cong_oks [OF wp_mono [OF listChildren_room [where h = "[]"]]], intro allI impI)
      fix x :: "goError + workspaceEntry list \<times> string list" and a :: "workspaceEntry list \<times> string list"
      assume "\<forall>a. x = Inr a \<longrightarrow> listRoom maxEntries (fst a) + length (snd a) \<le> listRoom maxEntries entries + length rest" "x = Inr a"
      then have "listRoom maxEntries (fst a) + length (snd a) \<le> fuel" using Suc.prems(1) Cons by simp
      then show "(case a of (entries', queue') \<Rightarrow> listQueue fuel1 recursive maxEntries entries' queue')
          = (case a of (entries', queue') \<Rightarrow> listQueue fuel recursive maxEntries entries' queue')"
        using Suc.IH [OF _ f(2)] by (auto split: prod.split)
    qed
    then show ?thesis by (simp add: Cons f(1))
  qed (simp add: f(1))
qed (cases fuel', auto)

text \<open>A listing of the workspace ends: its loop over the directories still to list has enough rounds, since any larger number of them is the
  same program, whatever directories, links or special files the workspace holds.\<close>

theorem listing_completes:
  assumes "Suc (nat maxEntries) \<le> fuel"
  shows "listQueue fuel recursive maxEntries [] [base] = listWorkspaceEntries base recursive maxEntries"
  unfolding listWorkspaceEntries_def by (rule listQueue_fuel) (use assms in \<open>simp_all add: listRoom_def\<close>)

theorem listing_completes_witness:
  "listQueue 300 True 256 [] [''.''] = listWorkspaceEntries ''.'' True 256"
  by (rule listing_completes) simp

section \<open>What success stands for\<close>

text \<open>A value that is no error establishes \<open>Q\<close>.\<close>

abbreviation gives :: "('e + 'a) ag \<Rightarrow> ('a \<Rightarrow> agHistory \<Rightarrow> bool) \<Rightarrow> agHistory \<Rightarrow> bool" where
  "gives p Q h \<equiv> wp (\<lambda>_ _. True) p (\<lambda>x h'. \<forall>a. x = Inr a \<longrightarrow> Q a h') h"

lemma gives_bindE: "gives p Q h \<Longrightarrow> (\<And>a h'. prefix h h' \<Longrightarrow> Q a h' \<Longrightarrow> gives (f a) R h') \<Longrightarrow> gives (bindE p f) R h"
  unfolding wp_bindE by (erule wp_mono) (auto split: sum.split)

lemma gives_any: "(\<And>a h'. prefix h h' \<Longrightarrow> Q a h') \<Longrightarrow> gives p Q h"
  by (rule wp_total) simp

lemma gives_orStop: "gives p Q h \<Longrightarrow> gives (orStop status f p) Q h"
  unfolding orStop_def wp_wrapE by (erule wp_mono) (auto split: sum.split)

lemma gives_wrapE: "gives p Q h \<Longrightarrow> gives (wrapE f p) Q h"
  unfolding wp_wrapE by (erule wp_mono) (auto split: sum.split)

lemma gives_must: "(\<And>a. r = Inr a \<Longrightarrow> Q a h) \<Longrightarrow> gives (must status r) Q h"
  by (cases r) (simp_all add: must_def stop_def)

lemma gives_Ret: "gives (Ret (Inr a)) Q h \<longleftrightarrow> Q a h"
  by simp

lemma gives_ends [simp]: "gives (stop status e) Q h" "gives methodNotAllowed Q h" "gives staleEvidence Q h" "gives (Ret (Inl e)) Q h"
  by (simp_all add: stop_def methodNotAllowed_def staleEvidence_def)

lemma gives_skip: "(\<And>a h'. prefix h h' \<Longrightarrow> gives (f a) R h') \<Longrightarrow> gives (bindE p f) R h"
  by (rule gives_bindE [OF gives_any [where Q = "\<lambda>_ _. True"]]) simp_all

lemma gives_keep:
  assumes "gives p Q h" and "P h" and "\<And>h'. prefix h h' \<Longrightarrow> P h \<Longrightarrow> P h'"
  shows "gives p (\<lambda>a h'. Q a h' \<and> P h') h"
  by (rule wp_mono [OF assms(1)]) (use assms(2,3) in blast)

text \<open>Every request so far satisfies \<open>P\<close>.\<close>

abbreviation asked :: "(agAsk \<Rightarrow> bool) \<Rightarrow> agHistory \<Rightarrow> bool" where
  "asked P h \<equiv> (\<forall>e \<in> set h. P (fst e))"

lemma gives_asked: "gives p Q h \<Longrightarrow> onlyAsks P p \<Longrightarrow> asked P h \<Longrightarrow> gives p (\<lambda>a h'. Q a h' \<and> asked P h') h"
  by (induction p arbitrary: h) auto

subsection \<open>The manifest found, and the files read\<close>

definition currentSource :: "agentConfig \<Rightarrow> agHistory \<Rightarrow> workspaceManifest \<Rightarrow> bool" where
  "currentSource C h m \<longleftrightarrow> foundManifest C h = Some m \<and> verifiedSource h m"

lemma currentSource_mono: "currentSource C h m \<Longrightarrow> prefix h h' \<Longrightarrow> currentSource C h' m"
  unfolding currentSource_def using foundManifest_prefix verified_mono by blast

definition unread :: "agHistory \<Rightarrow> bool" where
  "unread h \<longleftrightarrow> find (\<lambda>e. fst e = AgReadFile (InRoot workspaceManifestName)) h = None"

lemma unread_Nil [simp]: "unread []"
  by (simp add: unread_def)

lemma openedRoot_unread: "unread h \<Longrightarrow> gives (openedRoot C) (\<lambda>_ h'. unread h') h"
  unfolding openedRoot_def
  by (rule gives_orStop) (auto simp: openWorkspaceRoot_def agDo_def unread_def find_append split: option.split)

lemma readManifest_found:
  assumes "unread h"
  shows "wp (\<lambda>_ _. True) (readWorkspaceManifest (gc_unmarshal C)) (\<lambda>x h'. \<forall>m. x = Inr (Some m) \<longrightarrow> foundManifest C h' = Some m) h"
proof (rule wp_anyGuard [OF readManifest_seen [OF assms [unfolded unread_def]]], intro allI impI)
  fix read h' m
  assume "manifestSeen C h' (case read of Inr m \<Rightarrow> m | Inl _ \<Rightarrow> None)" "read = Inr (Some m)"
  then show "foundManifest C h' = Some m" using manifestSeen_found by simp
qed

lemma seeded_current:
  assumes "unread h"
  shows "gives (seededManifest C) (\<lambda>m h'. currentSource C h' m) h"
  unfolding seededManifest_def
proof (rule gives_bindE [OF openedRoot_unread [OF assms]], unfold wp_bind, rule wp_mono [OF readManifest_found], simp, goal_cases)
  case (1 a h1 x h2)
  have verify: "gives (bindE (orStop 409 f (verifyWorkspaceManifest m)) (\<lambda>_. Ret (Inr m))) (\<lambda>m' h'. currentSource C h' m') h2"
    if "x = Inr (Some m)" for m f
  proof (rule gives_bindE [OF gives_orStop [where Q = "\<lambda>_ h'. verifiedSource h' m"]])
    show "gives (verifyWorkspaceManifest m) (\<lambda>_ h'. verifiedSource h' m) h2"
      by (rule wp_mono [OF verifyWorkspaceManifest_wp]) auto
    fix u h3
    assume v: "prefix h2 h3" "verifiedSource h3 m"
    have "foundManifest C h2 = Some m" using 1 that by blast
    from foundManifest_prefix [OF this v(1)] v(2) show "gives (Ret (Inr m)) (\<lambda>m' h'. currentSource C h' m') h3"
      unfolding gives_Ret currentSource_def by (rule conjI)
  qed
  show ?case by (cases x; cases "projr x") (auto intro!: verify split: option.split sum.split)
qed

text \<open>The size and the digest of a file are those of bytes read from its path.\<close>

definition readOff :: "agHistory \<Rightarrow> workspaceFile \<Rightarrow> bool" where
  "readOff h f \<longleftrightarrow> (\<exists>a. ag_err a = None \<and> ((AgReadFile (InRoot (wf_Path f)), a) \<in> set h \<or> (AgStream (InRoot (wf_Path f)), a) \<in> set h)
     \<and> wf_Digest f = digestBytes (ag_bytes a) \<and> wf_Size f = int (length (ag_bytes a)))"

lemma readOff_mono: "readOff h f \<Longrightarrow> prefix h h' \<Longrightarrow> readOff h' f"
  unfolding readOff_def using set_mono_prefix by blast

lemma classify_fields [simp]:
  "wf_Path (classifyWorkspaceBytes p c k) = p" "wf_Digest (classifyWorkspaceBytes p c k) = digestBytes c"
  "wf_Size (classifyWorkspaceBytes p c k) = int (length c)"
  by (simp_all add: classifyWorkspaceBytes_def Let_def)

lemma readManagedFile_off: "gives (readManagedFile p) (\<lambda>f h'. viewFile p f \<and> readOff h' f) h"
proof -
  have big: "gives (bindE (hashWorkspaceFile p) (\<lambda>(digest, len).
      Ret (Inr \<lparr>wf_Path = p, wf_Content = None, wf_Opaque = True, wf_Size = int len, wf_Digest = digest\<rparr>) :: (goError + workspaceFile) ag))
      (\<lambda>f h'. viewFile p f \<and> readOff h' f) h" for h
    by (auto simp: hashWorkspaceFile_def streamFile_def agGet_def viewFile_def readOff_def split: option.split)
  have small: "gives (bindE (readFile (InRoot p)) (\<lambda>content. Ret (Inr (classifyWorkspaceBytes p content False)) :: (goError + workspaceFile) ag))
      (\<lambda>f h'. viewFile p f \<and> readOff h' f) h" for h
    by (auto simp: readFile_def agGet_def viewFile_classify readOff_def split: option.split)
  show ?thesis
    unfolding readManagedFile_def by (rule gives_skip, rule gives_skip) (auto intro: big small)
qed

lemma readManagedEach_off: "gives (readManagedEach ps) (\<lambda>fs h'. list_all2 viewFile ps fs \<and> (\<forall>f \<in> set fs. readOff h' f)) h"
proof (induction ps arbitrary: h)
  case (Cons p ps)
  show ?case
    unfolding readManagedEach.simps
  proof (rule gives_bindE [OF readManagedFile_off], rule gives_bindE [OF Cons.IH], unfold gives_Ret, goal_cases)
    case (1 f h1 fs h2)
    then show ?case using readOff_mono by auto
  qed
qed simp

text \<open>The managed files, as the operations of the API read them.\<close>

definition managedView :: "agHistory \<Rightarrow> workspaceManifest \<Rightarrow> workspaceFile list \<Rightarrow> bool" where
  "managedView h m files \<longleftrightarrow> normalizeWorkspacePaths (wm_Files m) = Inr (map wf_Path files) \<and> workspaceView files \<and> (\<forall>f \<in> set files. readOff h f)"

lemma managedView_mono: "managedView h m files \<Longrightarrow> prefix h h' \<Longrightarrow> managedView h' m files"
  unfolding managedView_def using readOff_mono by blast

lemma managedFiles_view: "gives (managedFilesOf m) (\<lambda>files h'. managedView h' m files) h"
  unfolding managedFilesOf_def
proof (rule gives_orStop, cases "normalizeWorkspacePaths (wm_Files m)")
  case (Inr ps)
  show "gives (readManagedFiles (wm_Files m)) (\<lambda>files h'. managedView h' m files) h"
    unfolding readManagedFiles_def Inr sum.case
  proof (rule wp_mono [OF readManagedEach_off], intro allI impI, goal_cases)
    case (1 x h' files)
    then have "list_all2 viewFile ps files" "\<forall>f \<in> set files. readOff h' f" by auto
    moreover have "distinct ps" using normalize_ok [OF Inr] by blast
    ultimately show ?case using view_paths view_all2 Inr by (auto simp: managedView_def)
  qed
qed (simp add: readManagedFiles_def)

subsection \<open>What is written and removed\<close>

text \<open>The requests that may be made on the way to \<open>files\<close>: contents are written to the files that have them and to the manifest's
  temporary file only, which alone is renamed, and none of the files is removed.\<close>

fun convergesTo :: "workspaceFile list \<Rightarrow> agAsk \<Rightarrow> bool" where
  "convergesTo files (AgWriteFile l c) \<longleftrightarrow> l = InRoot manifestTmp \<or> (\<exists>f \<in> set files. \<not> onDisk f \<and> l = InRoot (wf_Path f) \<and> c = wf_bytes f)"
| "convergesTo files (AgRename a b) \<longleftrightarrow> a = InRoot manifestTmp \<and> b = InRoot workspaceManifestName"
| "convergesTo files (AgRemove l) \<longleftrightarrow> l = InRoot manifestTmp \<or> (\<exists>p. l = InRoot p \<and> p \<notin> wf_Path ` set files)"
| "convergesTo files (AgRemoveAll l) \<longleftrightarrow> False"
| "convergesTo files q \<longleftrightarrow> True"

lemma reading_converges: "readingAsk w q \<Longrightarrow> convergesTo files q"
  by (cases q) auto

text \<open>A path the manifest lists that cleaning leaves as it is. Others are cleaned once more when they are removed.\<close>

definition steady :: "workspaceManifest \<Rightarrow> bool" where
  "steady m \<longleftrightarrow> (\<forall>p \<in> set (wm_Files m). cleanWorkspacePath p = Inr p)"

lemma steady_previous: "(\<forall>p \<in> set ps. cleanWorkspacePath p = Inr p) \<Longrightarrow> cleanPrevious ps = Inr ps"
  by (induction ps) auto

lemma converging_read: "reading w p \<Longrightarrow> onlyAsks (convergesTo files) p"
  by (erule onlyAsks_mono) (rule reading_converges)

lemma converging_place:
  assumes "f \<in> set files"
  shows "onlyAsks (convergesTo files) (placeFile f)"
proof (cases "onDisk f")
  case False
  then have w: "convergesTo files (AgWriteFile (InRoot (wf_Path f)) (wf_bytes f))" using assms by auto
  have "onlyAsks (convergesTo files) (writeWorkspaceFile (wf_Path f) (wf_bytes f))"
    unfolding writeWorkspaceFile_def Let_def by (intro onlyAsks_rules agDo_asks [where P = "convergesTo files"] w) (simp add: agDo_def onlyAsks_wrapE)
  moreover have "onlyAsks (convergesTo files) (checkTarget (wf_Path f) b)" for b
    by (auto simp: checkTarget_def intro!: onlyAsks_rules converging_read [OF reading_checks(1)])
  moreover have "onlyAsks (convergesTo files) (workspaceFileContentChanged (wf_Path f) (wf_bytes f))"
    by (rule converging_read [OF reading_checks(5)])
  ultimately show ?thesis using False by (auto simp: placeFile_def Let_def intro!: onlyAsks_rules)
qed (simp add: placeFile_def Let_def)

lemma converging_places: "set fs \<subseteq> set files \<Longrightarrow> onlyAsks (convergesTo files) (placeFiles fs)"
  by (induction fs) (auto intro!: onlyAsks_rules converging_place)

lemma converging_remove:
  assumes "cleanWorkspacePath p = Inr p" and "p \<notin> wf_Path ` set files"
  shows "onlyAsks (convergesTo files) (removeManagedWorkspaceFile p)"
proof -
  have "convergesTo files (AgRemove (InRoot p))" using assms(2) by auto
  then show ?thesis
    using assms(1) unfolding removeManagedWorkspaceFile_def
    by (auto intro!: onlyAsks_rules agDo_asks converging_read [OF reading_checks(1)] converging_read [OF reading_calls(1)] split: sum.split
        simp del: convergesTo.simps)
qed

lemma converging_stale:
  "\<forall>p \<in> set ps. cleanWorkspacePath p = Inr p \<Longrightarrow> onlyAsks (convergesTo files) (removeStale (map wf_Path files) ps)"
proof (induction ps)
  case (Cons p ps)
  show ?case
  proof (cases "p \<in> set (map wf_Path files)")
    case False
    then have "onlyAsks (convergesTo files) (removeManagedWorkspaceFile p)" using Cons.prems by (intro converging_remove) simp_all
    then show ?thesis using Cons False by (auto intro!: onlyAsks_rules)
  qed (use Cons in simp)
qed simp

lemma converging_manifest: "onlyAsks (convergesTo files) (writeWorkspaceManifest m)"
  by (auto simp: writeWorkspaceManifest_def Let_def agDo_def intro!: onlyAsks_rules split: sum.split)

lemma replace_converges:
  assumes "steady m"
  shows "onlyAsks (convergesTo files) (replaceContent what m d files)"
proof -
  have c: "cleanPrevious (wm_Files m) = Inr (wm_Files m)" using assms by (auto simp: steady_def intro: steady_previous)
  have "onlyAsks (convergesTo files) (removeStale (map wf_Path files) (sort (remdups (wm_Files m))))"
    by (rule converging_stale) (use assms in \<open>simp add: steady_def\<close>)
  then have "onlyAsks (convergesTo files) (applyManagedContent files (wm_Files m))"
    by (auto simp: applyManagedContent_def c intro!: onlyAsks_rules converging_places)
  then show ?thesis
    by (auto simp: replaceContent_def orStop_def stop_def intro!: onlyAsks_rules converging_manifest)
qed

text \<open>The file was removed, or looked for and not found.\<close>

definition removedAt :: "agHistory \<Rightarrow> string \<Rightarrow> bool" where
  "removedAt h p \<longleftrightarrow> (\<exists>a. (AgRemove (InRoot p), a) \<in> set h \<and> ag_err a = None)
     \<or> (\<exists>a e. (AgLstat (InRoot p), a) \<in> set h \<and> ag_err a = Some e \<and> errorsIs errNotExist e)"

lemma removedAt_mono: "removedAt h p \<Longrightarrow> prefix h h' \<Longrightarrow> removedAt h' p"
  unfolding removedAt_def using set_mono_prefix by blast

lemma walk_missing: "wp (\<lambda>_ _. True) (walkNoSymlink ps b) (\<lambda>r _. \<forall>e. r = Inl e \<longrightarrow> \<not> errorsIs errNotExist e) h"
  by (induction ps b arbitrary: h rule: walkNoSymlink.induct)
    (auto simp: lstat_def agGet_def errNotExist_def errExecSymlink_def split: option.split)

lemma remove_removes:
  assumes "cleanWorkspacePath p = Inr p"
  shows "gives (removeManagedWorkspaceFile p) (\<lambda>_ h'. removedAt h' p) h"
  unfolding removeManagedWorkspaceFile_def assms sum.case ensureExecPathNoSymlink_def wp_bind
proof (rule wp_mono [OF walk_missing], goal_cases)
  case (1 r h1)
  then show ?case by (cases r) (auto simp: lstat_def agGet_def agDo_def removedAt_def split: option.split)
qed

lemma stale_removed:
  "\<forall>p \<in> set ps. cleanWorkspacePath p = Inr p \<Longrightarrow> gives (removeStale keep ps) (\<lambda>_ h'. \<forall>p \<in> set ps - set keep. removedAt h' p) h"
proof (induction ps arbitrary: h)
  case (Cons p ps)
  show ?case
  proof (cases "p \<in> set keep")
    case True
    then show ?thesis
      unfolding removeStale.simps(2) if_P [OF True] using Cons.prems by (intro wp_mono [OF Cons.IH]) auto
  next
    case False
    have p: "cleanWorkspacePath p = Inr p" and ps: "\<forall>p \<in> set ps. cleanWorkspacePath p = Inr p" using Cons.prems by auto
    show ?thesis
      unfolding removeStale.simps(2) if_not_P [OF False]
    proof (rule gives_bindE [OF remove_removes [OF p]], rule gives_bindE [OF Cons.IH [OF ps]], unfold gives_Ret, goal_cases)
      case (1 a h1 b h2)
      then show ?case using removedAt_mono by auto
    qed
  qed
qed simp

subsection \<open>The files converged to\<close>

text \<open>The file is kept on disk as it is, or its content was written to its path or read back from it.\<close>

definition asDecoded :: "workspaceFile \<Rightarrow> decodedSyncFile" where
  "asDecoded f = \<lparr>df_Path = wf_Path f, df_Content = wf_bytes f, df_Binary = wf_Opaque f\<rparr>"

definition settled :: "agHistory \<Rightarrow> workspaceFile \<Rightarrow> bool" where
  "settled h f \<longleftrightarrow> onDisk f \<or> placed h (asDecoded f)"

lemma settled_mono: "settled h f \<Longrightarrow> prefix h h' \<Longrightarrow> settled h' f"
  unfolding settled_def using placed_mono by blast

lemma placed_written: "ag_err a = None \<Longrightarrow> (AgWriteFile (InRoot (wf_Path f)) (wf_bytes f), a) \<in> set h \<Longrightarrow> settled h f"
  unfolding settled_def placed_def asDecoded_def by auto

lemma placed_read: "ag_err a = None \<Longrightarrow> (AgReadFile (InRoot (wf_Path f)), a) \<in> set h \<Longrightarrow> ag_bytes a = wf_bytes f \<Longrightarrow> settled h f"
  unfolding settled_def placed_def asDecoded_def by auto

lemma placeFile_settles: "gives (placeFile f) (\<lambda>_ h'. settled h' f) h"
proof (cases "onDisk f")
  case False
  have differs: "wp (\<lambda>_ _. True) (workspaceFileContentChanged (wf_Path f) (wf_bytes f)) (\<lambda>d h'. \<not> d \<longrightarrow> settled h' f) h1" for h1
    by (auto simp: workspaceFileContentChanged_def agGet_def readFile_def intro: placed_read split: option.split)
  have put: "gives (writeWorkspaceFile (wf_Path f) (wf_bytes f)) (\<lambda>_ h'. settled h' f) h1" for h1
    unfolding writeWorkspaceFile_def Let_def
  proof (rule gives_skip)
    fix h2 show "gives (agDo (AgWriteFile (InRoot (wf_Path f)) (wf_bytes f))) (\<lambda>_ h'. settled h' f) h2"
      by (auto simp: agDo_def intro: placed_written split: option.split)
  qed
  have put2: "gives (bindE (writeWorkspaceFile (wf_Path f) (wf_bytes f)) (\<lambda>_. Ret (Inr True))) (\<lambda>_ h'. settled h' f) h1" for h1
    by (rule gives_bindE [OF put]) simp
  show ?thesis
    unfolding placeFile_def Let_def if_not_P [OF False]
    by (rule gives_skip, rule gives_skip, unfold wp_bind, rule wp_mono [OF differs]) (use put2 in auto)
qed (simp add: placeFile_def Let_def settled_def)

lemma placeFiles_settles: "gives (placeFiles files) (\<lambda>_ h'. \<forall>f \<in> set files. settled h' f) h"
proof (induction files arbitrary: h)
  case (Cons f fs)
  show ?case
    unfolding placeFiles.simps
  proof (rule gives_bindE [OF placeFile_settles], rule gives_bindE [OF Cons.IH], unfold gives_Ret, goal_cases)
    case (1 a h1 b h2)
    then show ?case using settled_mono by auto
  qed
qed simp

lemma content_settles: "gives (applyManagedContent files previous) (\<lambda>_ h'. (\<forall>f \<in> set files. settled h' f)
    \<and> ((\<forall>p \<in> set previous. cleanWorkspacePath p = Inr p) \<longrightarrow> (\<forall>p \<in> set previous - wf_Path ` set files. removedAt h' p))) h"
proof (cases "cleanPrevious previous")
  case (Inr ps)
  have stale: "gives (removeStale (map wf_Path files) (sort (remdups ps))) (\<lambda>_ h'. (\<forall>p \<in> set previous. cleanWorkspacePath p = Inr p)
      \<longrightarrow> (\<forall>p \<in> set previous - wf_Path ` set files. removedAt h' p)) h1" for h1
  proof (cases "\<forall>p \<in> set previous. cleanWorkspacePath p = Inr p")
    case True
    then have "ps = previous" using Inr steady_previous by fastforce
    then show ?thesis using stale_removed [of "sort (remdups ps)" "map wf_Path files" h1] True by simp
  qed (rule gives_any, blast)
  show ?thesis
    unfolding applyManagedContent_def Inr sum.case
  proof (rule gives_bindE [OF placeFiles_settles], rule gives_bindE [OF stale], unfold gives_Ret, goal_cases)
    case (1 a h1 b h2)
    then show ?case using settled_mono by auto
  qed
qed (simp add: applyManagedContent_def)

text \<open>The content of a file that was digested: that of the view, or for a file known by its digest the bytes read from its path,
  which have that digest and size.\<close>

definition contentOf :: "agHistory \<Rightarrow> workspaceFile \<Rightarrow> string \<times> string \<Rightarrow> bool" where
  "contentOf h f pc \<longleftrightarrow> cleanWorkspacePath (wf_Path f) = Inr (fst pc) \<and> managedPath (fst pc)
     \<and> (if onDisk f then (\<exists>a. (AgStream (InRoot (fst pc)), a) \<in> set h \<and> ag_err a = None \<and> ag_bytes a = snd pc)
            \<and> digestBytes (snd pc) = wf_Digest f \<and> int (length (snd pc)) = wf_Size f
        else snd pc = wf_bytes f)"

definition digestText :: "(string \<times> string) list \<Rightarrow> string" where
  "digestText pcs = concat (map (\<lambda>(p, c). digesterAdd [] p c) pcs)"

text \<open>The digest is that of the files' paths and contents, in the order of the paths.\<close>

definition digested :: "agHistory \<Rightarrow> workspaceFile list \<Rightarrow> string \<Rightarrow> bool" where
  "digested h files digest \<longleftrightarrow> (\<exists>pcs. list_all2 (contentOf h) (sort_key wf_Path files) pcs \<and> digest = sha256Hex (digestText pcs))"

lemma contentOf_mono: "contentOf h f pc \<Longrightarrow> prefix h h' \<Longrightarrow> contentOf h' f pc"
  unfolding contentOf_def using set_mono_prefix by (metis (mono_tags, lifting) subsetD)

lemma digested_mono: "digested h files d \<Longrightarrow> prefix h h' \<Longrightarrow> digested h' files d"
  unfolding digested_def using contentOf_mono by (metis (no_types, lifting) list_all2_mono)

lemma digesterAdd_app: "digesterAdd d p c = d @ digestText [(p, c)]"
  by (simp add: digesterAdd_def digestText_def)

lemma digestText_Cons: "digestText (pc # pcs) = digestText [pc] @ digestText pcs"
  by (simp add: digestText_def)

lemma digestEach_ok:
  "gives (digestEach d files) (\<lambda>d' h'. \<exists>pcs. list_all2 (contentOf h') files pcs \<and> d' = d @ digestText pcs) h"
proof (induction files arbitrary: d h)
  case (Cons f fs d h)
  have rest: "gives (digestEach (digesterAdd d p c) fs) (\<lambda>d' h'. \<exists>pcs. list_all2 (contentOf h') (f # fs) pcs \<and> d' = d @ digestText pcs) h1"
    if c: "contentOf h1 f (p, c)" for p c h1
  proof (rule wp_mono [OF Cons.IH [of "digesterAdd d p c" h1]], intro allI impI)
    fix x :: "goError + string" and h2 d'
    assume h: "prefix h1 h2" "x = Inr d'" "\<forall>d'. x = Inr d' \<longrightarrow> (\<exists>pcs. list_all2 (contentOf h2) fs pcs \<and> d' = digesterAdd d p c @ digestText pcs)"
    then obtain pcs where "list_all2 (contentOf h2) fs pcs" "d' = digesterAdd d p c @ digestText pcs" by blast
    then have "list_all2 (contentOf h2) (f # fs) ((p, c) # pcs) \<and> d' = d @ digestText ((p, c) # pcs)"
      using contentOf_mono [OF c h(1)] digestText_Cons [of "(p, c)" pcs] by (simp add: digesterAdd_app)
    then show "\<exists>pcs. list_all2 (contentOf h2) (f # fs) pcs \<and> d' = d @ digestText pcs" by blast
  qed
  show ?case
  proof (cases "andThen (cleanWorkspacePath (wf_Path f)) (\<lambda>clean. andThen (validateManagedWorkspacePath clean) (\<lambda>_. Inr clean))")
    case (Inr clean)
    then have p: "cleanWorkspacePath (wf_Path f) = Inr clean" "managedPath clean"
      using validateManaged_ok cleanWorkspacePath_ok by (auto simp: andThen_Inr)
    show ?thesis
    proof (cases "onDisk f")
      case False
      then have "contentOf h f (clean, wf_bytes f)" using p by (simp add: contentOf_def)
      then show ?thesis unfolding digestEach.simps(2) Inr sum.case if_P [OF False] by (rule rest)
    next
      case True
      have stream: "gives (digesterAddFile d clean) (\<lambda>(d', digest, len) h'. \<exists>a c. (AgStream (InRoot clean), a) \<in> set h' \<and> ag_err a = None
          \<and> ag_bytes a = c \<and> d' = digesterAdd d clean c \<and> digest = digestBytes c \<and> len = length c) h1" for h1
        by (auto simp: digesterAddFile_def streamFile_def agGet_def split: option.split)
      have no: "\<not> \<not> onDisk f" using True by simp
      show ?thesis
        unfolding digestEach.simps(2) Inr sum.case if_not_P [OF no]
      proof (rule gives_skip, rule gives_bindE [OF gives_wrapE [OF stream]], goal_cases)
        case (1 a h1 t h2)
        obtain b c where t: "(AgStream (InRoot clean), b) \<in> set h2" "ag_err b = None" "ag_bytes b = c" "t = (digesterAdd d clean c, digestBytes c, length c)"
          using 1(3) by (auto split: prod.splits)
        show ?case
        proof (cases "digestBytes c = wf_Digest f \<and> int (length c) = wf_Size f")
          case same: True
          then have "contentOf h2 f (clean, c)" using p True t(1-3) by (auto simp: contentOf_def)
          from rest [OF this] show ?thesis unfolding t(4) by (simp add: same)
        qed (auto simp: t(4))
      qed
    qed
  qed simp
qed (simp add: digestText_def)

lemma digest_ok: "gives (digestWorkspaceFiles files) (\<lambda>digest h'. digested h' files digest) h"
  unfolding digestWorkspaceFiles_def
  by (rule gives_bindE [OF digestEach_ok]) (auto simp: digested_def digesterSum_def)

text \<open>The files are converged to, no other request having been made, the files listed that are none of them are gone, and the manifest
  that lists them under the next revision has been stored.\<close>

definition movedTo :: "agHistory \<Rightarrow> workspaceManifest \<Rightarrow> string \<Rightarrow> workspaceFile list \<Rightarrow> bool" where
  "movedTo h m digest files \<longleftrightarrow> wm_SourceRevision m < wm_SourceRevision m + 1 \<and> (\<forall>f \<in> set files. settled h f)
     \<and> (steady m \<longrightarrow> asked (convergesTo files) h \<and> (\<forall>p \<in> set (wm_Files m) - wf_Path ` set files. removedAt h p))
     \<and> stored h (advanceManifest m digest files)"

lemma movedTo_mono: "movedTo h m d files \<Longrightarrow> prefix h h' \<Longrightarrow> asked (convergesTo files) h' \<Longrightarrow> movedTo h' m d files"
  unfolding movedTo_def using settled_mono stored_mono removedAt_mono by blast

lemma advance_sorted: "(advanceManifest m d files)\<lparr>wm_Files := sort (wm_Files (advanceManifest m d files))\<rparr> = advanceManifest m d files"
  by (simp add: advanceManifest_def workspaceFilePaths_def sorted_sort_id)

lemma writeManifest_stored: "gives (writeWorkspaceManifest m) (\<lambda>_ h'. stored h' (m\<lparr>wm_Files := sort (wm_Files m)\<rparr>)) h"
  by (auto simp: writeWorkspaceManifest_def Let_def agDo_def stored_def split: option.split)

lemma replace_settles:
  "gives (replaceContent what m digest files) (\<lambda>_ h'. wm_SourceRevision m < wm_SourceRevision m + 1 \<and> (\<forall>f \<in> set files. settled h' f)
     \<and> (steady m \<longrightarrow> (\<forall>p \<in> set (wm_Files m) - wf_Path ` set files. removedAt h' p)) \<and> stored h' (advanceManifest m digest files)) h"
  unfolding replaceContent_def
proof (rule gives_bindE [OF gives_orStop [OF content_settles]], goal_cases)
  case (1 a h1)
  show ?case
  proof (cases "wm_SourceRevision m = - 1")
    case False
    have "gives (bindE (orStop 500 manifestFailed (writeWorkspaceManifest (advanceManifest m digest files))) (\<lambda>_. Ret (Inr a)))
        (\<lambda>_ h'. wm_SourceRevision m < wm_SourceRevision m + 1 \<and> (\<forall>f \<in> set files. settled h' f)
     \<and> (steady m \<longrightarrow> (\<forall>p \<in> set (wm_Files m) - wf_Path ` set files. removedAt h' p)) \<and> stored h' (advanceManifest m digest files)) h1"
    proof (rule gives_bindE [OF gives_orStop [OF writeManifest_stored]], unfold gives_Ret advance_sorted, goal_cases)
      case (1 u h2)
      note earlier = \<open>prefix h h1\<close> \<open>(\<forall>f \<in> set files. settled h1 f) \<and> _\<close>
      have "\<forall>f \<in> set files. settled h2 f" using earlier(2) settled_mono [OF _ 1(1)] by blast
      moreover have "steady m \<longrightarrow> (\<forall>p \<in> set (wm_Files m) - wf_Path ` set files. removedAt h2 p)"
        using earlier(2) removedAt_mono [OF _ 1(1)] unfolding steady_def by blast
      ultimately show ?case using 1(2) less_Suc_word [OF False] by blast
    qed
    then show ?thesis using False by (simp split: prod.split)
  qed (simp add: stop_def split: prod.split)
qed

lemma replace_moves:
  assumes "asked (readingAsk w) h"
  shows "gives (replaceContent what m digest files) (\<lambda>_ h'. movedTo h' m digest files \<and> (steady m \<longrightarrow> asked (convergesTo files) h')) h"
proof (cases "steady m")
  case True
  have "asked (convergesTo files) h" using assms reading_converges by blast
  from gives_asked [OF replace_settles replace_converges [OF True] this] show ?thesis
    by (rule wp_mono) (auto simp: movedTo_def)
next
  case False
  then show ?thesis by (intro wp_mono [OF replace_settles]) (auto simp: movedTo_def)
qed

subsection \<open>Mutations\<close>

lemma posted_ok: "unread h \<Longrightarrow> gives (postedBody verb body) (\<lambda>req h'. body = BodyValue req \<and> unread h') h"
  by (cases body) (auto simp: postedBody_def must_def decodeBoundedJSON_def methodNotAllowed_def stop_def)

text \<open>The map of files of a mutation holds every file under its path.\<close>

definition keyed :: "fileMap \<Rightarrow> bool" where
  "keyed m \<longleftrightarrow> distinct (map fst m) \<and> (\<forall>(k, f) \<in> set m. k = wf_Path f)"

lemma keyed_put: "keyed m \<Longrightarrow> keyed (mput (wf_Path f) f m)"
proof -
  have keys: "\<forall>(k, f) \<in> set m. k = wf_Path f \<Longrightarrow> \<forall>(k, f) \<in> set (mput (wf_Path g) g m). k = wf_Path f" for g m
    by (induction m) (auto split: if_splits)
  assume "keyed m"
  then show ?thesis unfolding keyed_def by (intro conjI mwf_mput keys) simp_all
qed

lemma keyed_del: "keyed m \<Longrightarrow> keyed (mdel k m)"
  by (auto simp: keyed_def mdel_def distinct_map_filter)

lemma keyed_index: "keyed (workspaceFileIndex files)"
proof -
  have "keyed m \<Longrightarrow> keyed (fold (\<lambda>f m. mput (wf_Path f) f m) files m)" for m
    by (induction files arbitrary: m) (auto intro: keyed_put)
  moreover have "keyed []" by (simp add: keyed_def)
  ultimately show ?thesis unfolding workspaceFileIndex_def by blast
qed

lemma applyOperations_keyed: "applyOperations i seen ops files = Inr files' \<Longrightarrow> keyed files \<Longrightarrow> keyed files'"
proof (induction ops arbitrary: i seen files)
  case (Cons operation ops)
  obtain clean files1 where o: "applyOperation i seen operation files = Inr (clean, files1)" "applyOperations (Suc i) (clean # seen) ops files1 = Inr files'"
    using Cons.prems(1) by (auto simp: andThen_Inr)
  have "files1 = mput clean (classifyWorkspaceBytes clean (mu_Content operation) True) files \<or> files1 = mdel clean files"
    using o(1) by (auto simp: applyOperation_def Let_def split: sum.splits if_splits)
  then have "keyed files1" using keyed_put [OF Cons.prems(2)] keyed_del [OF Cons.prems(2)] classify_path by metis
  then show ?case by (rule Cons.IH [OF o(2)])
qed simp

lemma keyed_distinct: "keyed m \<Longrightarrow> distinct (map wf_Path (workspaceFilesFromMap m))"
proof -
  assume k: "keyed m"
  have "map (\<lambda>kf. wf_Path (snd kf)) m = map fst m" by (rule map_cong) (use k in \<open>auto simp: keyed_def\<close>)
  then have "distinct (map wf_Path (map snd m))" using k unfolding keyed_def map_map comp_def by argo
  moreover have "distinct (map wf_Path xs) \<Longrightarrow> distinct (map wf_Path (sort_key wf_Path xs))" for xs
    by (simp add: distinct_map)
  ultimately show ?thesis unfolding workspaceFilesFromMap_def by blast
qed

text \<open>What a mutation of the files \<open>files\<close> to \<open>files'\<close> that answers \<open>resp\<close> has done.\<close>

definition mutationDone :: "string \<Rightarrow> agHistory \<Rightarrow> workspaceManifest \<Rightarrow> workspaceFile list \<Rightarrow> workspaceMutateResponse \<Rightarrow> bool" where
  "mutationDone workdir h m files resp \<longleftrightarrow>
     (\<exists>digest. digested h files digest
        \<and> (resp = mutated m ''Unchanged'' \<and> digest = normalizeSourceDigest (wm_SourceDigest m) \<and> asked (readingAsk workdir) h
           \<or> mr_Phase resp = ''Mutated'' \<and> movedTo h m digest files
             \<and> mr_SourceRevision resp = wm_SourceRevision m + 1 \<and> mr_SourceDigest resp = digest))"

lemma install_done:
  assumes "asked (readingAsk w) h"
  shows "gives (installMutation req m files') (\<lambda>resp h'. mutationDone w h' m (workspaceFilesFromMap files') resp) h"
proof (cases "workspaceMaxFiles < length files'")
  case False
  let ?files = "workspaceFilesFromMap files'"
  let ?done = "\<lambda>resp h'. mutationDone w h' m ?files resp"
  show ?thesis
    unfolding installMutation_def Let_def if_not_P [OF False]
  proof (rule gives_bindE [OF gives_asked [OF gives_orStop [OF digest_ok] reading_orStop [OF reading_digest] assms]], goal_cases)
    case (1 digest h1)
    note d = 1(2)
    show ?case
    proof (cases "digest = normalizeSourceDigest (wm_SourceDigest m)")
      case True
      then show ?thesis using d unfolding if_P [OF True] gives_Ret mutationDone_def by blast
    next
      case False
      show ?thesis
        unfolding if_not_P [OF False]
      proof (rule gives_bindE [OF replace_moves [OF conjunct2 [OF d]]], goal_cases)
        case (1 cd h2)
        note moved = 1(2)
        have ok: "?done resp h3" if "prefix h2 h3" "movedTo h3 m digest ?files" "mr_Phase resp = ''Mutated''"
          "mr_SourceRevision resp = wm_SourceRevision m + 1" "mr_SourceDigest resp = digest" for h3 resp
          unfolding mutationDone_def
          using digested_mono [OF conjunct1 [OF d] prefix_order.trans [OF 1(1) that(1)]] that(2-5) by blast
        have base: "mr_Phase (mutated (advanceManifest m digest ?files) ''Mutated'') = ''Mutated''"
          "mr_SourceRevision (mutated (advanceManifest m digest ?files) ''Mutated'') = wm_SourceRevision m + 1"
          "mr_SourceDigest (mutated (advanceManifest m digest ?files) ''Mutated'') = digest"
          by (simp_all add: mutated_def advanceManifest_def)
        have restarted: "movedTo (h2 @ [(AgRestart, a)]) m digest ?files" for a
        proof (cases "steady m")
          case True
          then have "asked (convergesTo ?files) (h2 @ [(AgRestart, a)])" using moved by simp
          from movedTo_mono [OF conjunct1 [OF moved] _ this] show ?thesis by simp
        next
          case False
          have "prefix h2 (h2 @ [(AgRestart, a)])" by simp
          then show ?thesis using moved False settled_mono stored_mono unfolding movedTo_def by blast
        qed
        have restart: "gives (bindE (orStop 502 f (agDo AgRestart)) (\<lambda>_. Ret (Inr resp))) ?done h2"
          if "\<And>h3. prefix h2 h3 \<Longrightarrow> movedTo h3 m digest ?files \<Longrightarrow> ?done resp h3" for f resp
        proof (rule gives_bindE [OF gives_orStop [where Q = "\<lambda>_ h3. movedTo h3 m digest ?files"]])
          show "gives (agDo AgRestart) (\<lambda>_ h3. movedTo h3 m digest ?files) h2" by (simp add: agDo_def restarted)
        qed (simp add: that)
        show ?case
          by (cases cd) (use moved in \<open>auto intro!: restart ok simp: base\<close>)
      qed
    qed
  qed
qed (simp add: installMutation_def)

lemma reading_posted: "reading w (postedBody verb body)"
  by (simp add: footprint)

lemma mutate_gives:
  "gives (handleWorkspaceMutate C verb body) (\<lambda>resp h'. \<exists>req m files files'. body = BodyValue req \<and> currentSource C h' m
      \<and> wm_SourceRevision m = mq_ExpectedRevision req
      \<and> normalizeSourceDigest (wm_SourceDigest m) = normalizeSourceDigest (mq_ExpectedDigest req)
      \<and> managedView h' m files \<and> applyOperations 0 [] (mq_Operations req) (workspaceFileIndex files) = Inr files'
      \<and> mutationDone (gc_WorkDir C) h' m (workspaceFilesFromMap files') resp) []"
  unfolding handleWorkspaceMutate_def
proof (rule gives_bindE [OF gives_asked [OF posted_ok [OF unread_Nil] reading_posted [of "gc_WorkDir C"]]], simp, goal_cases)
  case (1 req h1)
  note posted = 1(2)
  show ?case
  proof (cases "mq_ExpectedRevision req = 0 \<or> normalizeSourceDigest (mq_ExpectedDigest req) = []")
    case required: False
    show ?thesis
    proof (cases "mq_Operations req = [] \<or> workspaceMaxOperations < length (mq_Operations req)")
      case bounded: False
      show ?thesis
        unfolding if_not_P [OF required] if_not_P [OF bounded]
      proof (rule gives_bindE [OF gives_asked [OF seeded_current reading_seeded [OF refl]]], use posted in blast, use posted in blast, goal_cases)
        case (1 m h2)
        note cur = 1(2)
        show ?case
        proof (cases "wm_SourceRevision m \<noteq> mq_ExpectedRevision req
            \<or> normalizeSourceDigest (wm_SourceDigest m) \<noteq> normalizeSourceDigest (mq_ExpectedDigest req)")
          case evidence: False
          show ?thesis
            unfolding if_not_P [OF evidence]
          proof (rule gives_bindE [OF gives_asked [OF managedFiles_view reading_managed conjunct2 [OF cur]]], goal_cases)
            case (1 files h3)
            note view = 1
            show ?case
            proof (cases "applyOperations 0 [] (mq_Operations req) (workspaceFileIndex files)")
              case (Inr files')
              show ?thesis
                unfolding Inr sum.case
              proof (rule wp_mono [OF install_done [OF conjunct2 [OF view(2)]]], intro allI impI, goal_cases)
                case (1 x h4 resp)
                have "currentSource C h4 m" "managedView h4 m files" "mutationDone (gc_WorkDir C) h4 m (workspaceFilesFromMap files') resp"
                  using currentSource_mono [OF conjunct1 [OF cur] prefix_order.trans [OF view(1) 1(1)]]
                    managedView_mono [OF conjunct1 [OF view(2)] 1(1)] 1(2,3) by blast+
                then show ?case using evidence Inr posted by blast
              qed
            qed (simp split: prod.split)
          qed
        qed simp
      qed
    qed (use required in simp)
  qed simp
qed

text \<open>C31: A mutation that reports success was made of the workspace the caller expected: the manifest found has the revision and digest of the
  request and its files were verified against it, the files it lists were read, and the operations were applied to them. Then
  either the response is the manifest found, as \<^verbatim>\<open>Unchanged\<close>: the result has the digest found, and nothing was written or
  removed. Or every file of the result was written, or read back with this content (a file known by its digest was read and has
  it), and the manifest that lists exactly these files was stored under the next revision with the digest of their content,
  which the response reports; and, when cleaning the listed paths leaves them as they are, every file listed before that is not
  in the result was removed or not found, while no file of the result was removed and none was written but with its
  content.\<close>

theorem mutation_installs:
  assumes "run w (handleWorkspaceMutate C verb body) [] = (tr, Inr resp)"
  shows "\<exists>req m files files'. body = BodyValue req \<and> currentSource C tr m
      \<and> wm_SourceRevision m = mq_ExpectedRevision req
      \<and> normalizeSourceDigest (wm_SourceDigest m) = normalizeSourceDigest (mq_ExpectedDigest req)
      \<and> managedView tr m files \<and> applyOperations 0 [] (mq_Operations req) (workspaceFileIndex files) = Inr files'
      \<and> distinct (map wf_Path (workspaceFilesFromMap files')) \<and> mutationDone (gc_WorkDir C) tr m (workspaceFilesFromMap files') resp"
proof -
  obtain req m files files' where r: "body = BodyValue req" "currentSource C tr m" "wm_SourceRevision m = mq_ExpectedRevision req"
      "normalizeSourceDigest (wm_SourceDigest m) = normalizeSourceDigest (mq_ExpectedDigest req)" "managedView tr m files"
      "applyOperations 0 [] (mq_Operations req) (workspaceFileIndex files) = Inr files'"
      "mutationDone (gc_WorkDir C) tr m (workspaceFilesFromMap files') resp"
    using conjunct2 [OF wp_trace [OF mutate_gives assms]] by blast
  show ?thesis
    by (intro exI conjI) (rule r keyed_distinct [OF applyOperations_keyed [OF r(6) keyed_index]])+
qed

text \<open>A listed path that cleaning changes again is removed as another one: when the files converged to have \<open>a\<close>, and \<open> a\<close> was listed and
  is not among them, \<open>a\<close> is removed.\<close>

lemma unsteady_removal:
  "cleanPrevious [''./ a''] = Inr ['' a''] \<and> removeStale [''a''] ['' a''] = bindE (removeManagedWorkspaceFile ''a'') (\<lambda>removed.
     Ret (Inr (if removed then ['' a''] else [])))"
proof -
  have "removeManagedWorkspaceFile '' a'' = removeManagedWorkspaceFile ''a''"
  proof -
    have "cleanWorkspacePath '' a'' = cleanWorkspacePath ''a''" by code_simp
    then show ?thesis unfolding removeManagedWorkspaceFile_def by simp
  qed
  moreover have "cleanPrevious [''./ a''] = Inr ['' a'']" by code_simp
  ultimately show ?thesis by simp
qed

subsection \<open>Restorations\<close>

text \<open>The checkpoint was found under its identifier, in memory or in its file, and is a valid one.\<close>

definition checkpointFound :: "workspaceConfig \<Rightarrow> checkpointStore \<Rightarrow> string \<Rightarrow> agHistory \<Rightarrow> workspaceCheckpoint \<Rightarrow> bool" where
  "checkpointFound C store ckid h c \<longleftrightarrow> validateWorkspaceCheckpoint c = Inr ()
     \<and> (if inMemory C then map_of store ckid = Some c
        else (\<exists>p a. checkpointStorePath C ckid = Inr p \<and> (AgReadFile (OnHost p), a) \<in> set h \<and> ag_err a = None
           \<and> wc_decodeCheckpoint C (ag_bytes a) = Inr c))"

lemma checkpointFound_mono: "checkpointFound C store ckid h c \<Longrightarrow> prefix h h' \<Longrightarrow> checkpointFound C store ckid h' c"
  unfolding checkpointFound_def using set_mono_prefix by (metis (mono_tags, lifting) subsetD)

lemma load_found:
  assumes "unread h"
  shows "gives (loadWorkspaceCheckpoint C store ckid) (\<lambda>c h'. checkpointFound C store ckid h' c \<and> unread h') h"
proof (cases "inMemory C")
  case True
  then show ?thesis
    using assms by (auto simp: loadWorkspaceCheckpoint_def Let_def checkpointFound_def andThen_Inr split: option.splits)
next
  case False
  show ?thesis
  proof (cases "checkpointStorePath C ckid")
    case (Inr p)
    have u: "unread (h @ [(AgReadFile (OnHost p), a)])" for a using assms by (simp add: unread_def find_append)
    show ?thesis
      using u by (auto simp: loadWorkspaceCheckpoint_def Let_def checkpointFound_def False Inr readFile_def agGet_def andThen_Inr
          split: option.splits sum.splits)
  qed (simp add: loadWorkspaceCheckpoint_def Let_def False)
qed

definition restored :: "workspaceConfig \<Rightarrow> agHistory \<Rightarrow> workspaceCheckpointRequest \<Rightarrow> workspaceCheckpoint \<Rightarrow> workspaceCheckpointResponse \<Rightarrow> bool" where
  "restored C h req c resp \<longleftrightarrow> (\<exists>m. currentSource (agentConfig.truncate C) h m \<and> evidenceMatches req m
     \<and> digested h (checkpointWorkspaceFiles c) (normalizeSourceDigest (ck_SourceDigest c))
     \<and> movedTo h m (ck_SourceDigest c) (checkpointWorkspaceFiles c)
     \<and> cp_SourceRevision resp = wm_SourceRevision m + 1 \<and> cp_SourceDigest resp = ck_SourceDigest c)"

lemma reading_opaques: "reading w (verifyOpaques c fs)"
  by (induction fs) (auto simp: verifyOpaqueWorkspaceFile_def footprint intro!: reading_rules split: sum.split prod.split)

lemma restore_gives:
  "gives (restoreWorkspaceCheckpoint C store req)
     (\<lambda>rs h'. \<exists>c. checkpointFound C store (cq_ID req) h' c \<and> restored C h' req c (fst rs) \<and> snd rs = store) []"
proof (cases "trimSpace (cq_ID req) = []")
  case False
  let ?w = "gc_WorkDir (agentConfig.truncate C)"
  have loaded: "gives (orStop st f (loadWorkspaceCheckpoint C store (cq_ID req)))
      (\<lambda>c h'. (checkpointFound C store (cq_ID req) h' c \<and> unread h') \<and> asked (readingAsk ?w) h') []" for st f
    by (rule gives_asked [OF gives_orStop [OF load_found [OF unread_Nil]] reading_orStop [OF reading_load]]) simp
  show ?thesis
    unfolding restoreWorkspaceCheckpoint_def Let_def if_not_P [OF False]
  proof (rule gives_bindE [OF loaded], goal_cases)
    case (1 c h1)
    note found = 1(2)
    show ?case
    proof (rule gives_bindE [OF gives_asked [OF seeded_current reading_seeded [OF refl] conjunct2 [OF found]]], use found in blast, goal_cases)
      case (1 m h2)
      note cur = 1
      show ?case
      proof (cases "evidenceMatches req m")
        case True
        then have ev: "\<not> \<not> evidenceMatches req m" by simp
        have opaques: "gives (verifyOpaques c fs) (\<lambda>_ h3. True \<and> asked (readingAsk ?w) h3) h2" for fs
          by (rule gives_asked [OF gives_any reading_opaques conjunct2 [OF cur(2)]]) simp
        show ?thesis
          unfolding if_not_P [OF ev]
        proof (rule gives_bindE [OF opaques], goal_cases)
          case (1 u h3)
          note op = 1
          show ?case
          proof (rule gives_bindE [OF gives_asked [OF gives_orStop [OF digest_ok] reading_orStop [OF reading_digest] conjunct2 [OF op(2)]]], goal_cases)
            case (1 digest h4)
            note d = 1
            show ?case
            proof (cases "digest \<noteq> normalizeSourceDigest (ck_SourceDigest c)")
              case same: False
              show ?thesis
                unfolding if_not_P [OF same]
              proof (rule gives_bindE [OF replace_moves [OF conjunct2 [OF d(2)]]], goal_cases)
                case (1 cd h5)
                have p: "prefix h2 h5" "prefix h1 h5"
                  using cur(1) op(1) d(1) 1(1) prefix_order.trans by blast+
                have f: "checkpointFound C store (cq_ID req) h5 c" using found checkpointFound_mono [OF _ p(2)] by blast
                have "currentSource (agentConfig.truncate C) h5 m" using currentSource_mono [OF _ p(1)] cur(2) by blast
                moreover have "digested h5 (checkpointWorkspaceFiles c) (normalizeSourceDigest (ck_SourceDigest c))"
                  using digested_mono [OF conjunct1 [OF d(2)] 1(1)] same by simp
                ultimately have "restored C h5 req c resp"
                  if "cp_SourceRevision resp = wm_SourceRevision m + 1" "cp_SourceDigest resp = ck_SourceDigest c" for resp
                  unfolding restored_def using 1(2) True that by blast
                note r = this
                show ?case unfolding case_prod_beta gives_Ret by (intro exI conjI, rule f, rule r) simp_all
              qed
            qed (simp add: stop_def)
          qed
        qed
      qed (simp add: staleEvidence_def stop_def)
    qed
  qed
qed (simp add: restoreWorkspaceCheckpoint_def stop_def)

text \<open>What is kept under the identifier is the checkpoint: in memory, or in its file, as often as it is read.\<close>

definition keptAs :: "workspaceConfig \<Rightarrow> checkpointStore \<Rightarrow> agHistory \<Rightarrow> string \<Rightarrow> workspaceCheckpoint \<Rightarrow> bool" where
  "keptAs C store h ckid c \<longleftrightarrow> (if inMemory C then map_of store ckid = Some c
     else (\<forall>p a. checkpointStorePath C ckid = Inr p \<longrightarrow> (AgReadFile (OnHost p), a) \<in> set h \<longrightarrow> ag_err a = None
       \<longrightarrow> wc_decodeCheckpoint C (ag_bytes a) = Inr c))"

text \<open>C32: A restoration brings back what was saved: if the checkpoint under the identifier, kept in memory or in its file of the state
  directory, was made of the files \<open>files\<close> of the workspace and restoring it reports success, then each of these files is in its
  place again (its text written or read back, or an opaque file found with the recorded digest and size), and the manifest that
  lists exactly their paths was stored under the revision after the one found, with the digest the workspace had when it was
  saved. When cleaning the paths listed by the manifest found leaves them as they are, every file it lists that is none of these
  was removed or not found, and none of these was removed, or written but with its content.\<close>

theorem restore_brings_back:
  assumes "run w (restoreWorkspaceCheckpoint C store req) [] = (tr, Inr (resp, store'))"
    and "keptAs C store tr (cq_ID req) (newWorkspaceCheckpoint ckid label m0 files created)" and "workspaceView files"
  shows "(\<forall>f \<in> set files. settled tr f \<and> (\<exists>pc. contentOf tr f pc))
    \<and> (\<exists>m. currentSource (agentConfig.truncate C) tr m \<and> cp_SourceRevision resp = wm_SourceRevision m + 1
        \<and> wm_SourceRevision m < cp_SourceRevision resp \<and> cp_SourceDigest resp = wm_SourceDigest m0
        \<and> (steady m \<longrightarrow> asked (convergesTo files) tr \<and> (\<forall>p \<in> set (wm_Files m) - wf_Path ` set files. removedAt tr p))
        \<and> stored tr \<lparr>wm_SourceRevision = cp_SourceRevision resp, wm_SourceDigest = wm_SourceDigest m0,
            wm_Files = sort (map wf_Path files), wm_PendingReloadCommands = []\<rparr>)"
proof -
  obtain c m where f: "checkpointFound C store (cq_ID req) tr c" and r: "currentSource (agentConfig.truncate C) tr m"
      "digested tr (checkpointWorkspaceFiles c) (normalizeSourceDigest (ck_SourceDigest c))"
      "movedTo tr m (ck_SourceDigest c) (checkpointWorkspaceFiles c)"
      "cp_SourceRevision resp = wm_SourceRevision m + 1" "cp_SourceDigest resp = ck_SourceDigest c"
    using conjunct2 [OF wp_trace [OF restore_gives assms(1)]] unfolding restored_def by auto
  have c: "c = newWorkspaceCheckpoint ckid label m0 files created"
    using f assms(2) by (auto simp: checkpointFound_def keptAs_def split: if_splits)
  have target: "checkpointWorkspaceFiles c = sort_key wf_Path files" unfolding c by (rule checkpoint_roundtrip [OF assms(3)])
  have digest: "ck_SourceDigest c = wm_SourceDigest m0" unfolding c by (simp add: newWorkspaceCheckpoint_def Let_def)
  have "\<exists>pc. contentOf tr f pc" if "f \<in> set files" for f
  proof -
    obtain pcs where "list_all2 (contentOf tr) (sort_key wf_Path (sort_key wf_Path files)) pcs" using r(2) unfolding digested_def target by blast
    from all2_image [OF this, of f] that show ?thesis by auto
  qed
  moreover have "stored tr \<lparr>wm_SourceRevision = cp_SourceRevision resp, wm_SourceDigest = wm_SourceDigest m0,
      wm_Files = sort (map wf_Path files), wm_PendingReloadCommands = []\<rparr>"
  proof -
    have "mset (map wf_Path (sort_key wf_Path files)) = mset (map wf_Path files)" unfolding mset_map by simp
    then have "sort (map wf_Path (sort_key wf_Path files)) = sort (map wf_Path files)"
      by (intro properties_for_sort) (simp_all del: mset_map)
    then have "advanceManifest m (ck_SourceDigest c) (checkpointWorkspaceFiles c) = \<lparr>wm_SourceRevision = cp_SourceRevision resp,
        wm_SourceDigest = wm_SourceDigest m0, wm_Files = sort (map wf_Path files), wm_PendingReloadCommands = []\<rparr>"
      unfolding advanceManifest_def workspaceFilePaths_def target digest r(4) by simp
    then show ?thesis using r(3) unfolding movedTo_def by simp
  qed
  moreover have "convergesTo (sort_key wf_Path files) = convergesTo files"
  proof (rule ext)
    show "convergesTo (sort_key wf_Path files) q = convergesTo files q" for q by (cases q) simp_all
  qed
  ultimately show ?thesis using r digest unfolding movedTo_def target by (intro conjI exI [of _ m]) auto
qed

end
