(* ===== verification/Agent_Checkpoint_Store.thy ===== *)
theory Agent_Checkpoint_Store
  imports Agent_Workspace_Confined
begin

text \<open>
  The store of checkpoints over the workspace API: in memory, where it is part of the state, and in the files of the state directory,
  where it is what the requests to the file system make of it. Whatever the file system answers, a checkpoint that is there is
  not written over, only valid ones are stored, and no more than the limit.
\<close>

section \<open>What is written on the host\<close>

text \<open>The checkpoint \<open>c\<close> may be stored as \<open>raw\<close> in the file \<open>p\<close>: that is the file of its valid identifier, \<open>raw\<close> is its encoding within
  the bound, the file was looked for and is not there, and the directory was listed and does not hold 64 entries (a listing that
  fails counts as an empty one, as in the code).\<close>

definition savable :: "workspaceConfig \<Rightarrow> agHistory \<Rightarrow> workspaceCheckpoint \<Rightarrow> string \<Rightarrow> string \<Rightarrow> bool" where
  "savable C h c p raw \<longleftrightarrow> \<not> inMemory C \<and> validateCheckpointID (ck_ID c) = Inr () \<and> checkpointStorePath C (ck_ID c) = Inr p
     \<and> validateWorkspaceCheckpoint c = Inr () \<and> marshalCheckpoint c = Inr raw \<and> length raw \<le> workspaceMaxCheckpointBytes
     \<and> (\<exists>a e. (AgReadFile (OnHost p), a) \<in> set h \<and> ag_err a = Some e \<and> errorsIs errNotExist e)
     \<and> (\<exists>a. (AgReadDir (OnHost (checkpointDir C)), a) \<in> set h \<and> (ag_err a = None \<longrightarrow> length (ag_entries a) < workspaceMaxCheckpoints))"

text \<open>A file of the host is written only as the temporary file of a checkpoint that may be stored, and renamed to its file only once it
  was written.\<close>

fun hostGuard :: "workspaceConfig \<Rightarrow> agHistory \<Rightarrow> agAsk \<Rightarrow> bool" where
  "hostGuard C h (AgWriteFile (OnHost t) raw) \<longleftrightarrow> (\<exists>c p. t = p @ ''.tmp'' \<and> savable C h c p raw)"
| "hostGuard C h (AgRename t (OnHost p)) \<longleftrightarrow> (\<exists>c raw a. t = OnHost (p @ ''.tmp'') \<and> savable C h c p raw
     \<and> (AgWriteFile t raw, a) \<in> set h \<and> ag_err a = None)"
| "hostGuard C h q \<longleftrightarrow> True"

fun quietHost :: "agAsk \<Rightarrow> bool" where
  "quietHost (AgWriteFile (OnHost t) raw) \<longleftrightarrow> False"
| "quietHost (AgRename t (OnHost p)) \<longleftrightarrow> False"
| "quietHost q \<longleftrightarrow> True"

lemma quiet_guard: "quietHost q \<Longrightarrow> hostGuard C h q"
  by (cases "(C, h, q)" rule: hostGuard.cases) auto

lemma sync_quiet: "syncAsk C q \<Longrightarrow> quietHost q"
  by (cases q rule: quietHost.cases) (auto simp: syncAsk_def lockAsk_def)

abbreviation hostSafe :: "workspaceConfig \<Rightarrow> 'a ag \<Rightarrow> agHistory \<Rightarrow> bool" where
  "hostSafe C p h \<equiv> wp (hostGuard C) p (\<lambda>_ _. True) h"

lemma hostSafe_quiet: "onlyAsks quietHost p \<Longrightarrow> hostSafe C p h"
  by (erule wp_onlyAsks) (simp_all add: quiet_guard)

lemma hostSafe_sync: "wp (\<lambda>_ q. syncAsk C q) p (\<lambda>_ _. True) h \<Longrightarrow> hostSafe C p h"
  by (erule wp_weaken) (auto intro: quiet_guard sync_quiet)

lemma hostSafe_reading: "w = gc_WorkDir C \<Longrightarrow> reading w p \<Longrightarrow> hostSafe C p h"
  by (rule hostSafe_quiet, erule onlyAsks_mono) (auto simp: syncAsk_def reading_confined intro: sync_quiet [of C])

lemma hostSafe_confined: "within (confinedAsk (gc_WorkDir C) True) p (\<lambda>_. True) h \<Longrightarrow> hostSafe C p h"
  by (rule hostSafe_sync, erule wp_weaken [THEN wp_mono]) (simp_all add: syncAsk_def)

lemma hostSafe_bind: "hostSafe C p h \<Longrightarrow> (\<And>x h'. hostSafe C (k x) h') \<Longrightarrow> hostSafe C (bind p k) h"
  unfolding wp_bind by (erule wp_mono) blast

lemma hostSafe_bindE: "hostSafe C p h \<Longrightarrow> (\<And>x h'. hostSafe C (k x) h') \<Longrightarrow> hostSafe C (bindE p k) h"
  unfolding bindE_def by (erule hostSafe_bind) (simp split: sum.split)

lemma hostSafe_wrapE: "hostSafe C p h \<Longrightarrow> hostSafe C (wrapE f p) h"
  unfolding wp_wrapE .

lemma hostSafe_Ret: "hostSafe C (Ret x) h"
  by simp

section \<open>Saving\<close>

lemma saveOnHost_guarded:
  assumes "\<not> inMemory C" and "validateCheckpointID (ck_ID c) = Inr ()" and "validateWorkspaceCheckpoint c = Inr ()"
    and "marshalCheckpoint c = Inr raw" and "length raw \<le> workspaceMaxCheckpointBytes"
  shows "hostSafe C (saveOnHost C c raw) h"
proof (cases "checkpointStorePath C (ck_ID c)")
  case (Inr p)
  have put: "hostSafe C (bindE (agDo (AgWriteFile (OnHost (p @ ''.tmp'')) raw)) (\<lambda>_.
      bind (agDo (AgRename (OnHost (p @ ''.tmp'')) (OnHost p))) (\<lambda>r. case r of Inr _ \<Rightarrow> Ret (Inr ())
        | Inl e \<Rightarrow> bind (agDo (AgRemove (OnHost (p @ ''.tmp'')))) (\<lambda>_. Ret (Inl e))))) h1"
    if s: "savable C h1 c p raw" for h1
  proof -
    have s2: "savable C (h1 @ [e]) c p raw" for e using s unfolding savable_def by auto
    have "hostGuard C (h1 @ [(AgWriteFile (OnHost (p @ ''.tmp'')) raw, a)]) (AgRename (OnHost (p @ ''.tmp'')) (OnHost p))" if "ag_err a = None" for a
      using s2 that unfolding hostGuard.simps by (intro exI [of _ c] exI [of _ raw] exI [of _ a]) simp
    moreover have "hostGuard C h1 (AgWriteFile (OnHost (p @ ''.tmp'')) raw)" using s unfolding hostGuard.simps by blast
    ultimately show ?thesis by (simp add: agDo_def split: option.split del: hostGuard.simps(1,2))
  qed
  have new: "savable C (h1 @ [(AgReadFile (OnHost p), a), (AgReadDir (OnHost (checkpointDir C)), b)]) c p raw"
    if "errorsIs errNotExist e" "ag_err a = Some e" "ag_err b = None \<longrightarrow> length (ag_entries b) < workspaceMaxCheckpoints" for h1 a b e
    using that assms Inr unfolding savable_def by fastforce
  show ?thesis
    unfolding saveOnHost_def Let_def Inr sum.case
  proof (rule hostSafe_bindE, goal_cases)
    case (2 u h1)
    show ?case
      unfolding wp_bind readFile_def agGet_def by (auto intro!: put new split: option.split)
  qed (simp add: agDo_def wp_wrapE)
qed (simp add: saveOnHost_def Let_def agDo_def wrapE_def split: option.split)

lemma save_guarded: "hostSafe C (saveWorkspaceCheckpoint C c store) h"
proof (cases "andThen (validateCheckpointID (ck_ID c)) (\<lambda>_. andThen (validateWorkspaceCheckpoint c) (\<lambda>_. marshalCheckpoint c))")
  case (Inr raw)
  then have v: "validateCheckpointID (ck_ID c) = Inr ()" "validateWorkspaceCheckpoint c = Inr ()" "marshalCheckpoint c = Inr raw"
    by (auto simp: andThen_Inr)
  show ?thesis
    using saveOnHost_guarded [OF _ v] unfolding saveWorkspaceCheckpoint_def Inr sum.case by (auto intro!: hostSafe_bindE)
qed (simp add: saveWorkspaceCheckpoint_def)

section \<open>The API\<close>

lemma create_guarded: "hostSafe C (createCheckpoint C store req) h"
proof -
  have w: "gc_WorkDir C = gc_WorkDir (agentConfig.truncate C)" by (simp add: agentConfig.truncate_def)
  have save: "hostSafe C (bindE (orStop 409 (\<lambda>e. e) (saveWorkspaceCheckpoint C c store)) (\<lambda>store'. Ret (Inr (r store', store')))) h1" for c r h1
    unfolding orStop_def by (intro hostSafe_bindE hostSafe_wrapE save_guarded hostSafe_Ret)
  have put: "hostSafe C (bindE (must 400 v) (\<lambda>_. Ask AgNow (\<lambda>a. bindE (orStop 409 (\<lambda>e. e) (saveWorkspaceCheckpoint C (c a) store))
      (\<lambda>store'. Ret (Inr (r a store', store')))))) h1" for c r h1 and v :: "goError + unit"
    by (rule hostSafe_bindE [OF hostSafe_reading [OF refl reading_ends(2)]]) (simp add: save)
  show ?thesis
    unfolding createCheckpoint_def Let_def
  proof (rule hostSafe_bindE [OF hostSafe_reading [OF refl reading_seeded [OF w]]], rule wp_if, goal_cases)
    case (2 m h1)
    show ?case by (rule hostSafe_bindE [OF hostSafe_reading [OF refl reading_managed]]) (rule put)
  qed (simp add: staleEvidence_def stop_def)
qed

lemma checkpoint_guarded: "hostSafe C (handleWorkspaceCheckpoint C store verb body) h"
proof -
  have summaries: "reading w (loadSummaries C store es)" for w es
    by (induction es) (auto simp: footprint intro!: reading_rules)
  have "reading w (listWorkspaceCheckpoints C store)" for w
    by (auto simp: listWorkspaceCheckpoints_def footprint summaries intro!: reading_rules split: sum.split)
  then have list: "hostSafe C (bindE (orStop 503 (\<lambda>e. e) (listWorkspaceCheckpoints C store)) (\<lambda>out. Ret (Inr (r out, store)))) h1" for r h1
    unfolding orStop_def by (intro hostSafe_bindE hostSafe_wrapE hostSafe_Ret hostSafe_reading [OF refl])
  have "onlyAsks quietHost (deleteWorkspaceCheckpoint C store ckid)" for ckid
    by (auto simp: deleteWorkspaceCheckpoint_def agDo_def split: sum.split)
  then have delete: "hostSafe C (bindE (orStop 404 (\<lambda>e. e) (deleteWorkspaceCheckpoint C store ckid)) (\<lambda>store'. Ret (Inr (r, store')))) h1" for ckid r h1
    unfolding orStop_def by (intro hostSafe_bindE hostSafe_wrapE hostSafe_Ret hostSafe_quiet)
  have stopped: "hostSafe C (stop status e) h1" for status e h1 by (simp add: stop_def)
  have restore: "hostSafe C (restoreWorkspaceCheckpoint C store req) h1" for req h1
    using hostSafe_confined [OF restore_confined_within [OF refl]] by simp
  show ?thesis
    unfolding handleWorkspaceCheckpoint_def Let_def
    by (rule hostSafe_bindE [OF hostSafe_reading [OF refl reading_ends(5)]]) (simp add: list delete stopped restore create_guarded)
qed

lemma workspace_guarded: "hostSafe C (handleWorkspace C store urlPath verb given query body) h"
proof -
  let ?A = "agentConfig.truncate C"
  have w: "gc_WorkDir C = gc_WorkDir ?A" by (simp add: agentConfig.truncate_def)
  have list: "hostSafe C (handleWorkspaceList ?A verb query b) h" for b h by (rule hostSafe_reading [OF refl reading_list [OF w]])
  have read: "hostSafe C (handleWorkspaceRead ?A verb b) h" for b h by (rule hostSafe_reading [OF refl reading_read [OF w]])
  have diff: "hostSafe C (handleWorkspaceDiff C store verb b) h" for b h by (rule hostSafe_reading [OF refl reading_diff [OF refl]])
  have mutate: "hostSafe C (handleWorkspaceMutate ?A verb b) h" for b h by (rule hostSafe_confined [OF mutate_confined [OF w]])
  have op: "hostSafe C (workspaceOperation C store op verb query body) h" for op h
    unfolding workspaceOperation_def Let_def
    unfolding case_prod_beta by (intro wp_if hostSafe_bind hostSafe_Ret list read diff mutate checkpoint_guarded)
  have locked: "hostSafe C (Ask AgLock (\<lambda>_. bind (workspaceOperation C store op verb query body) (\<lambda>r. Ask AgUnlock (\<lambda>_. Ret r)))) h" for op h
  proof -
    have "hostSafe C (bind (workspaceOperation C store op verb query body) (\<lambda>r. Ask AgUnlock (\<lambda>_. Ret r))) h'" for h'
      by (rule hostSafe_bind [OF op]) simp
    then show ?thesis by simp
  qed
  have seed: "hostSafe C (bind (handleWorkspaceSeed ?A verb given b) (\<lambda>reply. Ret (mapReply SeedReply reply, store))) h" for b
    by (rule hostSafe_bind [OF hostSafe_sync [OF seed_syncs] hostSafe_Ret])
  show ?thesis
  proof (cases "authorizeControl ?A given")
    case None
    show ?thesis unfolding handleWorkspace_def Let_def None option.case by (intro wp_if hostSafe_Ret seed locked)
  qed (simp add: handleWorkspace_def split: prod.split)
qed

text \<open>C34: The store of checkpoints stays well formed and never changes one it holds, over every request of the workspace API. In memory: if
  it was a well-formed store before, it is one after, each checkpoint under its own valid identifier, each with a digest that
  matches its files, at most 64 of them; and what is found under an identifier later, if anything, is the same. In the state
  directory, whatever the file system answers: a file of the host is only written as the temporary file of a valid checkpoint's own
  file, holding its encoding within the bound, and only renamed to that file once it has been written, both after the file was
  looked for and found missing and the directory was listed below 64 entries (a listing that fails counts as empty).\<close>

theorem checkpoint_store_wellformed:
  assumes "run w (handleWorkspace C store urlPath verb given query body) [] = (tr, (reply, store'))"
  shows "(storeOk store \<longrightarrow> storeOk store' \<and> (\<forall>k. map_of store k = None \<or> map_of store' k = None \<or> map_of store' k = map_of store k))
    \<and> (\<forall>i < length tr. \<forall>t raw a. tr ! i = (AgWriteFile (OnHost t) raw, a) \<longrightarrow> (\<exists>c p. t = p @ ''.tmp'' \<and> savable C (take i tr) c p raw))
    \<and> (\<forall>i < length tr. \<forall>t p a. tr ! i = (AgRename t (OnHost p), a) \<longrightarrow> (\<exists>c raw b. t = OnHost (p @ ''.tmp'') \<and> savable C (take i tr) c p raw
         \<and> (AgWriteFile t raw, b) \<in> set (take i tr) \<and> ag_err b = None))"
proof (intro conjI)
  have "evolves store store'" using wp_trace [OF workspace_evolves assms] by simp
  then show "storeOk store \<longrightarrow> storeOk store' \<and> (\<forall>k. map_of store k = None \<or> map_of store' k = None \<or> map_of store' k = map_of store k)"
    unfolding evolves_def by (metis not_Some_eq)
  have g: "hostGuard C (take i tr) (fst (tr ! i))" if "i < length tr" for i
    using wp_trace [OF workspace_guarded assms] that unfolding obeys_def by blast
  show "\<forall>i < length tr. \<forall>t raw a. tr ! i = (AgWriteFile (OnHost t) raw, a) \<longrightarrow> (\<exists>c p. t = p @ ''.tmp'' \<and> savable C (take i tr) c p raw)"
    using g by fastforce
  show "\<forall>i < length tr. \<forall>t p a. tr ! i = (AgRename t (OnHost p), a) \<longrightarrow> (\<exists>c raw b. t = OnHost (p @ ''.tmp'') \<and> savable C (take i tr) c p raw
         \<and> (AgWriteFile t raw, b) \<in> set (take i tr) \<and> ag_err b = None)"
    using g by fastforce
qed

end
