(* ===== verification/Agent_Workspace_Runs.thy ===== *)
theory Agent_Workspace_Runs
  imports Agent_Workspace_Safety Agent_Checkpoint_Store
begin

text \<open>
  Runs of the workspace API in a world that answers every call calmly (no error, directories, empty contents, no entries), at which the
  statements about it apply.
\<close>

section \<open>A file and a checkpoint\<close>

definition fileA :: workspaceFile where "fileA = textFile ''a'' ''x''"

lemma x_text [simp]: "isWorkspaceText ''x''"
  by (simp add: isWorkspaceText_def workspaceMaxFileBytes_def)

lemma fileA_fields [simp]:
  "wf_Path fileA = ''a''" "wf_Content fileA = Some ''x''" "\<not> wf_Opaque fileA" "wf_bytes fileA = ''x''" "\<not> onDisk fileA" "wf_Size fileA = 1"
  by (simp_all add: fileA_def textFile_def wf_bytes_def onDisk_def)

lemma viewA: "workspaceView [fileA]"
  using x_text by (auto simp: workspaceView_def fileA_def textFile_def)

definition digestA :: string where "digestA = sha256Hex (digesterAdd [] ''a'' ''x'')"

lemma digestA_normal [simp]: "normalizeSourceDigest digestA = digestA"
  by (simp add: digestA_def)

definition savedManifest :: workspaceManifest where
  "savedManifest = \<lparr>wm_SourceRevision = 1, wm_SourceDigest = digestA, wm_Files = [''a''], wm_PendingReloadCommands = []\<rparr>"

definition savedA :: workspaceCheckpoint where
  "savedA = newWorkspaceCheckpoint ''k'' [] savedManifest [fileA] 0"

lemma savedA_fields [simp]:
  "ck_ID savedA = ''k''" "ck_Files savedA = [textEntry fileA]" "ck_OpaqueFiles savedA = []" "ck_SourceDigest savedA = digestA"
  "ck_SourceRevision savedA = 1"
  by (simp_all add: savedA_def newWorkspaceCheckpoint_def Let_def workspaceFileIndex_def workspaceFilesFromMap_def savedManifest_def)

lemma k_texts [simp]: "validateCheckpointID ''k'' = Inr ()" "trimSpace ''k'' = ''k''"
  by code_simp+

lemma savedA_valid [simp]: "validateWorkspaceCheckpoint savedA = Inr ()"
proof -
  have e: "sf_Path (textEntry fileA) = ''a''" "sf_Content (textEntry fileA) = ''x''" "sf_Encoding (textEntry fileA) = []"
    by (simp_all add: textEntry_def)
  have "digestSyncFiles [textEntry fileA] = Inr digestA"
    by (simp add: digestSyncFiles_def decodeSyncFiles_def decodeSyncContent_def e digestDecodedSyncFiles_def digesterSum_def digestA_def)
  then show ?thesis
    by (simp add: validateWorkspaceCheckpoint_def claimPath_def e workspaceMaxFiles_def)
qed

section \<open>Applied statements\<close>

theorem checkpoint_roundtrip_witness: "checkpointWorkspaceFiles savedA = [fileA]"
  using checkpoint_roundtrip [OF viewA, of "''k''" "[]" savedManifest 0] unfolding savedA_def by simp

definition sampleOps :: "workspaceMutation list" where
  "sampleOps = [\<lparr>mu_Operation = ''write'', mu_Path = ''a'', mu_Content = ''x''\<rparr>, \<lparr>mu_Operation = ''delete'', mu_Path = ''b'', mu_Content = []\<rparr>]"

lemma op_texts [simp]:
  "toLower (trimSpace ''write'') = ''write''" "toLower (trimSpace ''delete'') = ''delete''" "cleanWorkspacePath ''b'' = Inr ''b''"
  "validateManagedWorkspacePath ''b'' = Inr ()"
  by code_simp+

lemma sampleOps_applied: "applyOperations 0 [] sampleOps [(''b'', textFile ''b'' [])] = Inr [(''a'', fileA)]"
  by (simp add: sampleOps_def applyOperation_def Let_def workspaceMaxFileBytes_def classify_text fileA_def mdel_def)

theorem mutations_overlay_witness:
  "applyOperations 0 [] sampleOps [(''b'', textFile ''b'' [])] = Inr [(''a'', fileA)]
   \<and> (\<exists>operation. operationAt sampleOps ''a'' = Some operation \<and> writesText operation \<and> mu_Content operation = ''x'')
   \<and> map_of [(''a'', fileA)] ''a'' = Some (textFile ''a'' ''x'') \<and> map_of [(''a'', fileA)] ''b'' = None"
proof -
  have a: "operationAt sampleOps ''a'' = Some \<lparr>mu_Operation = ''write'', mu_Path = ''a'', mu_Content = ''x''\<rparr>"
    by (simp add: operationAt_def sampleOps_def)
  have b: "operationAt sampleOps ''b'' = Some \<lparr>mu_Operation = ''delete'', mu_Path = ''b'', mu_Content = []\<rparr>"
    by (simp add: operationAt_def sampleOps_def)
  have w: "writesText \<lparr>mu_Operation = ''write'', mu_Path = ''a'', mu_Content = ''x''\<rparr>" "\<not> writesText \<lparr>mu_Operation = ''delete'', mu_Path = ''b'', mu_Content = []\<rparr>"
    by (simp_all add: writesText_def)
  note m = conjunct2 [OF mutations_overlay [OF sampleOps_applied], rule_format]
  show ?thesis using sampleOps_applied m [of "''a''"] m [of "''b''"] w by (simp add: a b)
qed

lemma sampleDiff: "diffWorkspaceFiles [fileA] [textFile ''b'' []] = Inr
   [\<lparr>ch_Path = ''a'', ch_Kind = ''deleted'', ch_BeforeDigest = wf_Digest fileA, ch_AfterDigest = [], ch_BeforeBytes = 1, ch_AfterBytes = 0\<rparr>,
    \<lparr>ch_Path = ''b'', ch_Kind = ''added'', ch_BeforeDigest = [], ch_AfterDigest = digestBytes [], ch_BeforeBytes = 0, ch_AfterBytes = 0\<rparr>]"
  by (simp add: diffWorkspaceFiles_def textFile_def mkeys_def changeOf_def Let_def map_filter_simps)

theorem diff_exact_witness:
  "fingerprint [fileA] ''a'' = Some (wf_Digest fileA, 1) \<and> fingerprint [textFile ''b'' []] ''a'' = None
   \<and> (\<exists>changes. diffWorkspaceFiles [fileA] [textFile ''b'' []] = Inr changes \<and> map ch_Path changes = [''a'', ''b''] \<and> map ch_Kind changes = [''deleted'', ''added''])"
  using diff_exact [OF sampleDiff] sampleDiff by simp

text \<open>Cleaning a path twice is not cleaning it once.\<close>

lemma cleaning_not_idempotent: "cleanWorkspacePath ''./ a'' = Inr '' a'' \<and> cleanWorkspacePath '' a'' = Inr ''a''"
  by code_simp

section \<open>Runs\<close>

abbreviation calmWorld :: "(agAsk, agAnswer) world" where "calmWorld \<equiv> \<lambda>_ _. ex_fs calmAnswer"

definition sampleAgent :: agentConfig where "sampleAgent = openAgent (\<lambda>_. Inr sampleManifest)"

definition sampleWorkspace :: workspaceConfig where
  "sampleWorkspace = agentConfig.extend sampleAgent (workspaceConfig.fields [] (\<lambda>_. Inl errNotDir))"

lemma sampleWorkspace_fields [simp]:
  "agentConfig.truncate sampleWorkspace = sampleAgent" "gc_WorkDir sampleWorkspace = ''/w''" "inMemory sampleWorkspace"
  "gc_WorkDir sampleAgent = ''/w''" "gc_unmarshal sampleAgent = (\<lambda>_. Inr sampleManifest)" "authorizeControl sampleAgent given = None"
  by (simp_all add: sampleWorkspace_def sampleAgent_def openAgent_def agentConfig.defs workspaceConfig.defs inMemory_def authorizeControl_def)

definition seededTrace :: agHistory where
  "seededTrace = map (\<lambda>q. (q, ex_fs calmAnswer)) [AgMkdirAll (OnHost ''/w''), AgOpenRoot ''/w'', AgReadFile (InRoot workspaceManifestName)]"

lemma seeded_run: "run calmWorld (bindE (seededManifest sampleAgent) k) h = run calmWorld (k sampleManifest) (h @ seededTrace)"
  by (simp add: seededTrace_def seededManifest_def openedRoot_def openWorkspaceRoot_def agDo_def orStop_def wrapE_def readWorkspaceManifest_def
      readFile_def agGet_def sampleManifest_ok verifyWorkspaceManifest_def digesterSum_def)

lemma managed_run: "bindE (managedFilesOf sampleManifest) k = k []"
  by (simp add: managedFilesOf_def readManagedFiles_def normalizeWorkspacePaths_def orStop_def wrapE_def)

lemma digest_run: "bindE (orStop st f (digestWorkspaceFiles [fileA])) k = k digestA"
  by (simp add: digestWorkspaceFiles_def orStop_def wrapE_def digesterSum_def digestA_def)

definition placeTrace :: "string \<Rightarrow> agHistory" where
  "placeTrace d = map (\<lambda>q. (q, ex_fs calmAnswer)) [AgLstat (InRoot ''a''), AgLstat (InRoot ''a''), AgStat (InRoot ''a''),
     AgWriteFile (InRoot ''a'') ''x'', AgWriteFile (InRoot manifestTmp) (marshalManifest (advanceManifest sampleManifest d [fileA])),
     AgRename (InRoot manifestTmp) (InRoot workspaceManifestName)]"

lemma place_run: "run calmWorld (bindE (replaceContent what sampleManifest d [fileA]) k) h = run calmWorld (k ([''a''], [])) (h @ placeTrace d)"
proof -
  have "(advanceManifest sampleManifest d [fileA])\<lparr>wm_Files := sort (wm_Files (advanceManifest sampleManifest d [fileA]))\<rparr>
      = advanceManifest sampleManifest d [fileA]" by (rule advance_sorted)
  then show ?thesis
    by (simp add: placeTrace_def replaceContent_def applyManagedContent_def placeFile_def checkTarget_def Let_def ensureExecPathNoSymlink_def lstat_def agGet_def
        workspaceFileContentChanged_def writeWorkspaceFile_def agDo_def orStop_def wrapE_def writeWorkspaceManifest_def)
qed

definition sampleMutation :: workspaceMutateRequest where
  "sampleMutation = \<lparr>mq_ExpectedRevision = 1, mq_ExpectedDigest = sha256Hex [],
     mq_Operations = [\<lparr>mu_Operation = ''write'', mu_Path = ''a'', mu_Content = ''x''\<rparr>], mq_Restart = []\<rparr>"

lemma sampleMutation_fields [simp]:
  "mq_ExpectedRevision sampleMutation = 1" "mq_ExpectedDigest sampleMutation = sha256Hex []" "mq_Restart sampleMutation = []"
  "mq_Operations sampleMutation = [\<lparr>mu_Operation = ''write'', mu_Path = ''a'', mu_Content = ''x''\<rparr>]"
  by (simp_all add: sampleMutation_def)

lemma mutation_run: "\<exists>tr resp. run calmWorld (handleWorkspaceMutate sampleAgent ''POST'' (BodyValue sampleMutation)) [] = (tr, Inr resp)"
proof -
  have ops: "applyOperations 0 [] [\<lparr>mu_Operation = ''write'', mu_Path = ''a'', mu_Content = ''x''\<rparr>] (workspaceFileIndex []) = Inr [(''a'', fileA)]"
    by (simp add: applyOperation_def Let_def workspaceMaxFileBytes_def classify_text fileA_def workspaceFileIndex_def)
  have ffm: "workspaceFilesFromMap [(''a'', fileA)] = [fileA]" by (simp add: workspaceFilesFromMap_def)
  have e: "\<not> equalFold [] ''always''" by code_simp
  have install: "\<exists>tr resp. run calmWorld (installMutation sampleMutation sampleManifest [(''a'', fileA)]) h = (tr, Inr resp)" for h
  proof (cases "digestA = sha256Hex []")
    case True
    then show ?thesis by (simp add: installMutation_def workspaceMaxFiles_def ffm digest_run Let_def)
  next
    case False
    then show ?thesis by (simp add: installMutation_def workspaceMaxFiles_def ffm digest_run place_run Let_def e)
  qed
  have post: "bindE (postedBody ''POST'' (BodyValue sampleMutation)) k = k sampleMutation" for k :: "workspaceMutateRequest \<Rightarrow> (workspaceMutateResponse, workspaceMutateResponse) agStep"
    by (simp add: postedBody_def must_def decodeBoundedJSON_def)
  show ?thesis
    unfolding handleWorkspaceMutate_def post
    using install by (simp add: workspaceMaxOperations_def seeded_run managed_run ops del: applyOperations.simps)
qed

theorem mutation_installs_witness:
  "\<exists>tr resp m files files'. run calmWorld (handleWorkspaceMutate sampleAgent ''POST'' (BodyValue sampleMutation)) [] = (tr, Inr resp)
     \<and> currentSource sampleAgent tr m \<and> managedView tr m files
     \<and> applyOperations 0 [] (mq_Operations sampleMutation) (workspaceFileIndex files) = Inr files'
     \<and> mutationDone ''/w'' tr m (workspaceFilesFromMap files') resp"
proof -
  obtain tr resp where r: "run calmWorld (handleWorkspaceMutate sampleAgent ''POST'' (BodyValue sampleMutation)) [] = (tr, Inr resp)"
    using mutation_run by blast
  from mutation_installs [OF r] show ?thesis unfolding jsonBody.inject sampleWorkspace_fields using r by blast
qed

text \<open>The same workspace with a state directory, where the checkpoint is read from its file.\<close>

definition hostWorkspace :: workspaceConfig where
  "hostWorkspace = agentConfig.extend sampleAgent (workspaceConfig.fields ''/s'' (\<lambda>_. Inr savedA))"

lemma hostWorkspace_fields [simp]:
  "agentConfig.truncate hostWorkspace = sampleAgent" "wc_decodeCheckpoint hostWorkspace = (\<lambda>_. Inr savedA)" "\<not> inMemory hostWorkspace"
  by (simp_all add: hostWorkspace_def sampleAgent_def openAgent_def agentConfig.defs workspaceConfig.defs inMemory_def) code_simp

abbreviation restoreK :: workspaceCheckpointRequest where
  "restoreK \<equiv> \<lparr>cq_Action = ''restore'', cq_ID = ''k'', cq_Label = [], cq_ExpectedRevision = 0, cq_ExpectedDigest = []\<rparr>"

lemma host_path: "\<exists>p. checkpointStorePath hostWorkspace ''k'' = Inr p"
  by (simp add: checkpointStorePath_def)

lemma host_load:
  assumes "checkpointStorePath hostWorkspace ''k'' = Inr p"
  shows "run calmWorld (bindE (orStop st f (loadWorkspaceCheckpoint hostWorkspace store ''k'')) k) h
    = run calmWorld (k savedA) (h @ [(AgReadFile (OnHost p), ex_fs calmAnswer)])"
  by (simp add: loadWorkspaceCheckpoint_def Let_def orStop_def wrapE_def assms readFile_def agGet_def)

lemma restore_run: "\<exists>tr resp. run calmWorld (restoreWorkspaceCheckpoint hostWorkspace store restoreK) [] = (tr, Inr (resp, store))"
proof -
  obtain p where p: "checkpointStorePath hostWorkspace ''k'' = Inr p" using host_path by blast
  have evidence: "evidenceMatches restoreK m" for m
    by (simp add: evidenceMatches_def)
  have files: "checkpointWorkspaceFiles savedA = [fileA]"
    by (simp add: checkpointWorkspaceFiles_def textEntry_def classify_text workspaceFileIndex_def workspaceFilesFromMap_def fileA_def textFile_def wf_bytes_def)
  show ?thesis
    by (simp add: restoreWorkspaceCheckpoint_def host_load [OF p] seeded_run evidence files digest_run place_run Let_def)
qed

theorem restore_brings_back_witness:
  "\<exists>tr resp. run calmWorld (restoreWorkspaceCheckpoint hostWorkspace [] restoreK) [] = (tr, Inr (resp, []))
     \<and> settled tr fileA \<and> cp_SourceDigest resp = digestA \<and> (\<exists>m. currentSource sampleAgent tr m \<and> (steady m \<longrightarrow> asked (convergesTo [fileA]) tr))"
proof -
  obtain tr resp where r: "run calmWorld (restoreWorkspaceCheckpoint hostWorkspace [] restoreK) [] = (tr, Inr (resp, []))"
    using restore_run by blast
  have "keptAs hostWorkspace [] tr (cq_ID restoreK) (newWorkspaceCheckpoint ''k'' [] savedManifest [fileA] 0)"
    by (simp add: keptAs_def savedA_def)
  note rb = restore_brings_back [OF r this viewA]
  have "settled tr fileA" using conjunct1 [OF rb] by simp
  moreover obtain m where "currentSource sampleAgent tr m" "cp_SourceDigest resp = digestA" "steady m \<longrightarrow> asked (convergesTo [fileA]) tr"
    using conjunct2 [OF rb] by (elim exE conjE) (simp add: savedManifest_def)
  ultimately show ?thesis using r by blast
qed

section \<open>The dispatch\<close>

definition sampleBodies :: workspaceBodies where
  "sampleBodies = \<lparr>wb_seed = BodyTrailing, wb_list = BodyTrailing, wb_read = BodyTrailing, wb_mutate = BodyTrailing, wb_diff = BodyTrailing,
     wb_checkpoint = BodyValue \<lparr>cq_Action = ''delete'', cq_ID = ''k'', cq_Label = [], cq_ExpectedRevision = 0, cq_ExpectedDigest = []\<rparr>\<rparr>"

lemma delete_run:
  "run calmWorld (handleWorkspace sampleWorkspace [(''k'', savedA)] ''/workspace/checkpoint'' ''POST'' [] (\<lambda>_. []) sampleBodies) []
     = ([(AgLock, ex_fs calmAnswer), (AgUnlock, ex_fs calmAnswer)], (AgJSON 200 (CheckpointReply (checkpointDone ''delete'')), []))"
proof -
  have t: "trimPrefix (trimPrefix ''/workspace/checkpoint'' ''/workspace'') ''/'' = ''checkpoint''" "toLower (trimSpace ''delete'') = ''delete''"
    by code_simp+
  show ?thesis
    by (simp add: handleWorkspace_def Let_def t workspaceOperation_def handleWorkspaceCheckpoint_def sampleBodies_def postedBody_def must_def
      decodeBoundedJSON_def deleteWorkspaceCheckpoint_def orStop_def wrapE_def storeAfter_def mapReply_def mdel_def)
qed

text \<open>A checkpoint of the same workspace is created in the state directory, where there is none yet.\<close>

lemma hex_escape: "list_all isHexDigit s \<Longrightarrow> escapeBytes 0 s = s"
proof (induction s)
  case (Cons c s)
  then have "isHexDigit c" by simp
  then have "byteOf c < 0x80 \<and> escapeAscii c = [c]"
    unfolding isHexDigit_def set_simps insert_iff empty_iff by (elim disjE) (simp_all add: escapeAscii_def byteOf_def)
  then show ?case using Cons by simp
qed simp

definition emptySaved :: workspaceCheckpoint where
  "emptySaved = newWorkspaceCheckpoint ''k'' [] sampleManifest [] 0"

lemma emptySaved_fields [simp]:
  "ck_ID emptySaved = ''k''" "ck_Label emptySaved = []" "ck_Files emptySaved = []" "ck_OpaqueFiles emptySaved = []" "ck_EntriesDigest emptySaved = []"
  "ck_SourceDigest emptySaved = sha256Hex []" "ck_SourceRevision emptySaved = 1" "ck_CreatedAt emptySaved = 0"
  by (simp_all add: emptySaved_def newWorkspaceCheckpoint_def Let_def workspaceFileIndex_def workspaceFilesFromMap_def sampleManifest_def)

lemma emptySaved_valid: "validateWorkspaceCheckpoint emptySaved = Inr ()"
  by (simp add: validateWorkspaceCheckpoint_def workspaceMaxFiles_def digestSyncFiles_def decodeSyncFiles_def digestDecodedSyncFiles_def digesterSum_def)

lemma emptySaved_raw: "\<exists>raw. marshalCheckpoint emptySaved = Inr raw \<and> length raw \<le> workspaceMaxCheckpointBytes"
proof -
  have texts: "civilDate 0 = (1970, 1, 1)" "jsonString ''id'' = [CHR 0x22] @ ''id'' @ [CHR 0x22]"
    "length (jsonString ''k'') = 3" "length (jsonString ''sourceRevision'') = 16" "length (jsonString ''sourceDigest'') = 14"
    "length (jsonString ''files'') = 7" "length (jsonString ''createdAt'') = 11" "length (formatRFC3339Nano 0) = 20"
    "length (showNat (Suc 0)) = 1" "length (jsonList []) = 2"
    by code_simp+
  have digest: "length (jsonString (sha256Hex [])) = 66"
    using hex_escape [OF hexEncode_digits, of "sum256 []"] length_sha256Hex [of "[]"] by (simp add: jsonString_def sha256Hex_def del: length_sha256Hex)
  show ?thesis
    by (simp add: marshalCheckpoint_def texts digest jsonFields_def workspaceMaxCheckpointBytes_def)
qed

definition missingWorld :: "(agAsk, agAnswer) world" where
  "missingWorld h q = (case q of AgReadFile (OnHost p) \<Rightarrow> (ex_fs calmAnswer)\<lparr>ag_err := Some errNotExist\<rparr> | _ \<Rightarrow> ex_fs calmAnswer)"

definition createBodies :: workspaceBodies where
  "createBodies = sampleBodies\<lparr>wb_checkpoint := BodyValue \<lparr>cq_Action = ''create'', cq_ID = ''k'', cq_Label = [], cq_ExpectedRevision = 0, cq_ExpectedDigest = []\<rparr>\<rparr>"

lemma create_run:
  assumes "checkpointStorePath hostWorkspace ''k'' = Inr p" and "marshalCheckpoint emptySaved = Inr raw" and "length raw \<le> workspaceMaxCheckpointBytes"
  shows "\<exists>tr reply. run missingWorld (handleWorkspace hostWorkspace [] ''/workspace/checkpoint'' ''POST'' [] (\<lambda>_. []) createBodies) [] = (tr, reply, [])
    \<and> 9 < length tr \<and> fst (tr ! 9) = AgRename (OnHost (p @ ''.tmp'')) (OnHost p)"
proof -
  have t: "trimPrefix (trimPrefix ''/workspace/checkpoint'' ''/workspace'') ''/'' = ''checkpoint''" "toLower (trimSpace ''create'') = ''create''"
    "trimSpace [] = []"
    by code_simp+
  have evidence: "evidenceMatches \<lparr>cq_Action = ''create'', cq_ID = ''k'', cq_Label = [], cq_ExpectedRevision = 0, cq_ExpectedDigest = []\<rparr> m" for m
    by (simp add: evidenceMatches_def t)
  have missing: "errorsIs errNotExist errNotExist" "\<not> workspaceMaxCheckpointBytes < length raw" using assms(3) by (simp_all add: errNotExist_def)
  have now: "ag_now (ex_fs calmAnswer) = 0" "ag_entries (ex_fs calmAnswer) = []" by (simp_all add: calmAnswer_def)
  show ?thesis
    by (simp add: handleWorkspace_def Let_def t workspaceOperation_def handleWorkspaceCheckpoint_def createBodies_def postedBody_def must_def
      decodeBoundedJSON_def createCheckpoint_def seededManifest_def openedRoot_def openWorkspaceRoot_def agDo_def orStop_def wrapE_def
      readWorkspaceManifest_def readFile_def agGet_def sampleManifest_ok verifyWorkspaceManifest_def digesterSum_def missingWorld_def evidence managed_run
      now emptySaved_def [symmetric] saveWorkspaceCheckpoint_def emptySaved_valid assms(1,2) missing saveOnHost_def workspaceMaxCheckpoints_def storeAfter_def)
qed

theorem checkpoint_store_wellformed_witness:
  "\<exists>tr reply p c raw b. run missingWorld (handleWorkspace hostWorkspace [] ''/workspace/checkpoint'' ''POST'' [] (\<lambda>_. []) createBodies) [] = (tr, reply, [])
     \<and> checkpointStorePath hostWorkspace ''k'' = Inr p \<and> savable hostWorkspace (take 9 tr) c p raw
     \<and> (AgWriteFile (OnHost (p @ ''.tmp'')) raw, b) \<in> set (take 9 tr)"
proof -
  obtain p where p: "checkpointStorePath hostWorkspace ''k'' = Inr p" using host_path by blast
  obtain tr reply where r: "run missingWorld (handleWorkspace hostWorkspace [] ''/workspace/checkpoint'' ''POST'' [] (\<lambda>_. []) createBodies) [] = (tr, reply, [])"
      "9 < length tr" "fst (tr ! 9) = AgRename (OnHost (p @ ''.tmp'')) (OnHost p)"
    using create_run [OF p] emptySaved_raw by blast
  obtain a where "tr ! 9 = (AgRename (OnHost (p @ ''.tmp'')) (OnHost p), a)" using r(3) by (cases "tr ! 9") simp
  with conjunct2 [OF conjunct2 [OF checkpoint_store_wellformed [OF r(1)]], rule_format, OF r(2)]
  obtain c raw b where "savable hostWorkspace (take 9 tr) c p raw" "(AgWriteFile (OnHost (p @ ''.tmp'')) raw, b) \<in> set (take 9 tr)" by blast
  then show ?thesis using r(1) p by blast
qed

lemma list_run:
  "\<exists>reply. run calmWorld (handleWorkspace sampleWorkspace [] ''/workspace/list'' ''GET'' [] (\<lambda>_. []) sampleBodies) [] =
     (map (\<lambda>q. (q, ex_fs calmAnswer)) [AgLock, AgMkdirAll (OnHost ''/w''), AgOpenRoot ''/w'', AgReadDir (InRoot ''.''),
        AgReadFile (InRoot workspaceManifestName), AgUnlock], (AgJSON 200 reply, []))"
proof -
  have t: "trimPrefix (trimPrefix ''/workspace/list'' ''/workspace'') ''/'' = ''list''" "parseBool [] = None" "cleanWorkspaceDirectory [] = Inr ''.''"
    by code_simp+
  have entries: "ag_entries (ex_fs calmAnswer) = []" by (simp add: calmAnswer_def)
  show ?thesis
    by (simp add: handleWorkspace_def Let_def t workspaceOperation_def handleWorkspaceList_def listRequest_def boundedWorkspaceListEntries_def must_def
      openedRoot_def openWorkspaceRoot_def agDo_def orStop_def wrapE_def listWorkspaceEntries_def agGet_def entries manifestEvidence_def
      readWorkspaceManifest_def readFile_def sampleManifest_ok replyOf_def mapReply_def)
qed

theorem workspace_api_confined_witness:
  "\<exists>tr reply. run calmWorld (handleWorkspace sampleWorkspace [] ''/workspace/list'' ''GET'' [] (\<lambda>_. []) sampleBodies) [] = (tr, (AgJSON 200 reply, []))
     \<and> length tr = 6 \<and> (\<forall>e \<in> set tr. lockAsk (fst e) \<or> readingAsk ''/w'' (fst e))"
proof -
  obtain reply where r: "run calmWorld (handleWorkspace sampleWorkspace [] ''/workspace/list'' ''GET'' [] (\<lambda>_. []) sampleBodies) [] =
     (map (\<lambda>q. (q, ex_fs calmAnswer)) [AgLock, AgMkdirAll (OnHost ''/w''), AgOpenRoot ''/w'', AgReadDir (InRoot ''.''),
        AgReadFile (InRoot workspaceManifestName), AgUnlock], (AgJSON 200 reply, []))" using list_run by blast
  have o: "operationOf ''/workspace/list'' = ''list''" by code_simp
  have "\<forall>e \<in> set (map (\<lambda>q. (q, ex_fs calmAnswer)) [AgLock, AgMkdirAll (OnHost ''/w''), AgOpenRoot ''/w'', AgReadDir (InRoot ''.''),
        AgReadFile (InRoot workspaceManifestName), AgUnlock]). lockAsk (fst e) \<or> readingAsk ''/w'' (fst e)"
    using conjunct2 [OF workspace_api_confined [OF r], rule_format] unfolding sampleWorkspace_fields o by blast
  then show ?thesis by (intro exI conjI) (rule r, simp)
qed

end
