(* ===== verification/Agent_Supervisor.thy ===== *)
theory Agent_Supervisor
  imports Agent_Workspace
begin

text \<open>
  The runtime supervisor of a sandbox (\<^verbatim>\<open>dev-agent/main.go\<close>): the log of the running process, the environment it is started
  with, starting and stopping it, the reload commands, and the HTTP server through which the coordinator asks for all
  that. Operations of the supervisor run under its mutex; each is a program over the calls to the system that passes the
  supervisor along. What the scanners of the output append to the log meanwhile is a sequence of events of the log.
\<close>

section \<open>The log\<close>

record ringLog =
  lg_limit :: nat
  lg_attempt :: "64 word"
  lg_linesBuf :: "string list"

definition newRingLog :: "nat \<Rightarrow> ringLog" where
  "newRingLog limit = \<lparr>lg_limit = limit, lg_attempt = 0, lg_linesBuf = []\<rparr>"

definition appendLocked :: "string \<Rightarrow> ringLog \<Rightarrow> ringLog" where
  "appendLocked line r =
     (let buf = lg_linesBuf r @ [line] in
      if lg_limit r < length buf then r\<lparr>lg_linesBuf := take (lg_limit r) (drop (length buf - lg_limit r) buf)\<rparr>
      else r\<lparr>lg_linesBuf := buf\<rparr>)"

definition beginAttempt :: "ringLog \<Rightarrow> ringLog" where
  "beginAttempt r = r\<lparr>lg_attempt := lg_attempt r + 1, lg_linesBuf := []\<rparr>"

definition appendAttempt :: "64 word \<Rightarrow> string \<Rightarrow> ringLog \<Rightarrow> ringLog" where
  "appendAttempt attempt line r = (if attempt \<noteq> lg_attempt r then r else appendLocked line r)"

text \<open>Each operation holds the mutex of the log, so that any interleaving of its users is a list of events.\<close>

datatype logEvent = LogAppend string | LogBegin | LogFrom "64 word" string

primrec logStep :: "logEvent \<Rightarrow> ringLog \<Rightarrow> ringLog" where
  "logStep (LogAppend line) r = appendLocked line r"
| "logStep LogBegin r = beginAttempt r"
| "logStep (LogFrom attempt line) r = appendAttempt attempt line r"

section \<open>The environment of the process\<close>

definition maxRuntimeEnvKeys :: nat where "maxRuntimeEnvKeys = 32"

definition reservedEnvPrefixes :: "string list" where "reservedEnvPrefixes = [''RAILGRID_DEV_'']"

definition hasReservedEnvPrefix :: "string \<Rightarrow> bool" where
  "hasReservedEnvPrefix name = list_ex (hasPrefix name) reservedEnvPrefixes"

definition envLetter :: "char \<Rightarrow> bool" where
  "envLetter c \<longleftrightarrow> (let n = byteOf c in 65 \<le> n \<and> n \<le> 90 \<or> 97 \<le> n \<and> n \<le> 122 \<or> c = CHR ''_'')"

definition envDigit :: "char \<Rightarrow> bool" where
  "envDigit c \<longleftrightarrow> (let n = byteOf c in 48 \<le> n \<and> n \<le> 57)"

definition isValidRuntimeEnvName :: "string \<Rightarrow> bool" where
  "isValidRuntimeEnvName name \<longleftrightarrow> name \<noteq> [] \<and> envLetter (hd name) \<and> list_all (\<lambda>c. envLetter c \<or> envDigit c) (tl name)"

definition secretMarkers :: "string list" where
  "secretMarkers = [''SECRET'', ''TOKEN'', ''PASSWORD'', ''PASSWD'', ''APIKEY'', ''API_KEY'', ''PRIVATE_KEY'', ''CREDENTIAL'', ''ACCESS_KEY'']"

text \<open>Only names that are valid, hence ASCII, are looked at.\<close>

definition isSecretLikeRuntimeEnvName :: "string \<Rightarrow> bool" where
  "isSecretLikeRuntimeEnvName name \<longleftrightarrow>
     (let upper = toUpper name in list_ex (contains upper) secretMarkers \<or> upper = ''KEY'' \<or> hasSuffix upper ''_KEY'')"

definition checkEnvName :: "string \<Rightarrow> goError + unit" where
  "checkEnvName key =
     (let name = trimSpace key in
      if \<not> isValidRuntimeEnvName name then Inl (Errorf ''invalid environment variable name %q; use letters, digits, and underscores'' [key])
      else if hasReservedEnvPrefix name then Inl (Errorf ''environment variable %q is reserved for the dev agent'' [name])
      else if isSecretLikeRuntimeEnvName name
      then Inl (Errorf ''secret-looking environment variable %q cannot be set through /env'' [name])
      else Inr ())"

text \<open>The map is given in the order in which the code ranges over it.\<close>

definition setEnv :: "string smap \<Rightarrow> string smap \<Rightarrow> goError + string list \<times> string smap" where
  "setEnv env customEnv =
     (if env = [] then Inl (Errorf ''at least one environment variable is required'' [])
      else if maxRuntimeEnvKeys < length env
      then Inl (Errorf ''at most %d environment variables may be set in one call'' [showNat maxRuntimeEnvKeys])
      else andThen (firstErr checkEnvName (mkeys env)) (\<lambda>_.
        Inr (sort (map trimSpace (mkeys env)), fold (\<lambda>(key, v). mput (trimSpace key) v) env customEnv)))"

text \<open>The name of an entry, and whether it has one.\<close>

definition entryName :: "string \<Rightarrow> string" where
  "entryName entry = fst (cutAt (CHR ''='') entry)"

definition entryNamed :: "string \<Rightarrow> bool" where
  "entryNamed entry = snd (snd (cutAt (CHR ''='') entry))"

definition sanitizedChildEnv :: "string list \<Rightarrow> string list" where
  "sanitizedChildEnv env = filter (\<lambda>entry. \<not> hasReservedEnvPrefix (entryName entry)) env"

text \<open>The entries, and where each name is found.\<close>

type_synonym childEnv = "string list \<times> nat smap"

definition envEntry :: "string \<Rightarrow> string \<Rightarrow> string" where
  "envEntry name v = name @ ''='' @ v"

definition indexEnv :: "string list \<Rightarrow> nat smap" where
  "indexEnv out = fold (\<lambda>(i, entry) index. if entryNamed entry then mput (entryName entry) i index else index) (enumerate 0 out) []"

definition setChild :: "string \<Rightarrow> string \<Rightarrow> bool \<Rightarrow> childEnv \<Rightarrow> childEnv" where
  "setChild name v override s =
     (case s of (out, index) \<Rightarrow>
       (case map_of index name of
          Some i \<Rightarrow> if override then (out[i := envEntry name v], index) else (out, index)
        | None \<Rightarrow> (out @ [envEntry name v], mput name (length out) index)))"

definition customNames :: "string smap \<Rightarrow> string list" where
  "customNames custom = sort (filter (\<lambda>name. name \<noteq> [] \<and> \<not> hasReservedEnvPrefix name) (mkeys custom))"

definition setCustom :: "string smap \<Rightarrow> string \<Rightarrow> childEnv \<Rightarrow> childEnv" where
  "setCustom custom name s = (case map_of custom name of Some v \<Rightarrow> setChild name v True s | None \<Rightarrow> s)"

definition mergeChildEnv :: "string list \<Rightarrow> string smap \<Rightarrow> string \<Rightarrow> string list" where
  "mergeChildEnv base custom devPort =
     (let out = sanitizedChildEnv base;
          s = (out, indexEnv out);
          port = trimSpace devPort;
          s = (if port \<noteq> [] then setChild ''PORT'' port False s else s) in
      fst (fold (setCustom custom) (customNames custom) s))"

section \<open>The supervisor\<close>

record supervisorConfig =
  vc_WorkDir :: string
  vc_StartCommand :: string
  vc_Port :: string

text \<open>\<open>su_cmd\<close> is the process identifier; \<^verbatim>\<open>cmd\<close> and \<^verbatim>\<open>done\<close> are set and cleared together.\<close>

record supervisor =
  su_cmd :: "nat option"
  su_attempt :: "64 word"
  su_attemptStarted :: "int option"
  su_customEnv :: "string smap"

definition newSupervisor :: supervisor where
  "newSupervisor = \<lparr>su_cmd = None, su_attempt = 0, su_attemptStarted = None, su_customEnv = []\<rparr>"

datatype signal = SIGTERM | SIGKILL

datatype svAsk =
    SvEnviron
  | SvMkdirAll string
  | SvPipe
  | SvStart string string "string list"  \<comment> \<open>\<^verbatim>\<open>/bin/sh -lc\<close>, in a process group of its own\<close>
  | SvRun string string "string list"  \<comment> \<open>\<^verbatim>\<open>/bin/sh -lc\<close>, to its end, with its output\<close>
  | SvBeginAttempt
  | SvAppend string
  | SvLines
  | SvWatch "64 word" nat  \<comment> \<open>start the scanners and the waiter of a process\<close>
  | SvNow
  | SvKill nat signal  \<comment> \<open>to the process group\<close>
  | SvAwait nat int  \<comment> \<open>the end of the process, for so long\<close>
  | SvEnded nat
  | SvDial string
  | SvExit int

record svAnswer =
  sv_err :: "goError option"
  sv_environ :: "string list"
  sv_pid :: nat
  sv_attempt :: "64 word"
  sv_output :: string
  sv_lines :: "string list"
  sv_ended :: bool
  sv_now :: int

type_synonym 'a sv = "(svAsk, svAnswer, 'a) prog"

definition svDo :: "svAsk \<Rightarrow> (goError + unit) sv" where
  "svDo q = Ask q (\<lambda>a. Ret (case sv_err a of Some e \<Rightarrow> Inl e | None \<Rightarrow> Inr ()))"

definition svGet :: "(svAnswer \<Rightarrow> 'a) \<Rightarrow> svAsk \<Rightarrow> 'a sv" where
  "svGet f q = Ask q (\<lambda>a. Ret (f a))"

definition svTell :: "svAsk \<Rightarrow> unit sv" where
  "svTell q = svGet (\<lambda>_. ()) q"

text \<open>The environment of a process started now.\<close>

definition processEnv :: "supervisorConfig \<Rightarrow> string smap \<Rightarrow> string list sv" where
  "processEnv C customEnv = svGet (\<lambda>a. mergeChildEnv (sv_environ a) customEnv (vc_Port C)) SvEnviron"

definition startLocked :: "supervisorConfig \<Rightarrow> supervisor \<Rightarrow> (goError + supervisor) sv" where
  "startLocked C s =
     bindE (svDo (SvMkdirAll (vc_WorkDir C))) (\<lambda>_.
     bind (processEnv C (su_customEnv s)) (\<lambda>env.
     bindE (svDo SvPipe) (\<lambda>_.
     bindE (svDo SvPipe) (\<lambda>_.
     Ask (SvStart (vc_StartCommand C) (vc_WorkDir C) env) (\<lambda>started.
     case sv_err started of
       Some e \<Rightarrow> Ret (Inl e)
     | None \<Rightarrow>
         bind (svGet sv_attempt SvBeginAttempt) (\<lambda>attempt.
         bind (svGet sv_now SvNow) (\<lambda>t.
         bind (svTell (SvWatch attempt (sv_pid started))) (\<lambda>_.
         Ret (Inr (s\<lparr>su_cmd := Some (sv_pid started), su_attempt := attempt, su_attemptStarted := Some t\<rparr>))))))))))"

definition stopLocked :: "supervisor \<Rightarrow> supervisor sv" where
  "stopLocked s =
     (case su_cmd s of
        None \<Rightarrow> Ret s
      | Some pid \<Rightarrow>
          bind (svTell (SvKill pid SIGTERM)) (\<lambda>_.
          bind (svGet sv_ended (SvAwait pid (3 * second))) (\<lambda>ended.
          bind (if ended then Ret ()
                else bind (svTell (SvKill pid SIGKILL)) (\<lambda>_. bind (svGet sv_ended (SvAwait pid second)) (\<lambda>_. Ret ()))) (\<lambda>_.
          Ret (s\<lparr>su_cmd := None\<rparr>)))))"

text \<open>The result of an operation, and the supervisor after it.\<close>

type_synonym 'a svOp = "supervisor \<Rightarrow> ((goError + 'a) \<times> supervisor) sv"

definition startFrom :: "supervisorConfig \<Rightarrow> unit svOp" where
  "startFrom C s =
     (if vc_StartCommand C = [] then Ret (Inr (), s)
      else bind (startLocked C s) (\<lambda>r. Ret (case r of Inl e \<Rightarrow> (Inl e, s) | Inr s' \<Rightarrow> (Inr (), s'))))"

definition start :: "supervisorConfig \<Rightarrow> unit svOp" where
  "start C s = startFrom C s"

definition restart :: "supervisorConfig \<Rightarrow> unit svOp" where
  "restart C s = bind (stopLocked s) (startFrom C)"

definition stopSupervisor :: "unit svOp" where
  "stopSupervisor s = bind (stopLocked s) (\<lambda>s'. Ret (Inr (), s'))"

fun appendEach :: "string list \<Rightarrow> unit sv" where
  "appendEach [] = Ret ()"
| "appendEach (line # ls) = bind (if line = [] then Ret () else svTell (SvAppend line)) (\<lambda>_. appendEach ls)"

definition reloadLogged :: "string \<Rightarrow> string" where
  "reloadLogged command = ''[railgrid reload] '' @ command"

fun runCommands :: "supervisorConfig \<Rightarrow> string smap \<Rightarrow> string list \<Rightarrow> (goError + unit) sv" where
  "runCommands C customEnv [] = Ret (Inr ())"
| "runCommands C customEnv (command # cs) =
     bind (svTell (SvAppend (reloadLogged command))) (\<lambda>_.
     bind (processEnv C customEnv) (\<lambda>env.
     Ask (SvRun command (vc_WorkDir C) env) (\<lambda>a.
     bind (appendEach (splitAll (CHR 0x0A) (trimRightSet [CHR 0x0A] (sv_output a)))) (\<lambda>_.
     case sv_err a of
       Some e \<Rightarrow>
         bind (svTell (SvAppend (reloadLogged (''failed: '' @ errorText e)))) (\<lambda>_.
         Ret (Inl (Wrapf ''reload command %q: %w'' [command] e)))
     | None \<Rightarrow> runCommands C customEnv cs))))"

definition runReloadCommands :: "supervisorConfig \<Rightarrow> string list \<Rightarrow> unit svOp" where
  "runReloadCommands C commands s = bind (runCommands C (su_customEnv s) commands) (\<lambda>r. Ret (r, s))"

definition setEnvOp :: "string smap \<Rightarrow> string list svOp" where
  "setEnvOp env s =
     Ret (case setEnv env (su_customEnv s) of
            Inl e \<Rightarrow> (Inl e, s)
          | Inr (applied, customEnv) \<Rightarrow> (Inr applied, s\<lparr>su_customEnv := customEnv\<rparr>))"

record processStatusResponse =
  pr_AttemptID :: "64 word"
  pr_AttemptStarted :: int
  pr_Configured :: bool
  pr_Running :: bool
  pr_Port :: string
  pr_PortReachable :: bool
  pr_ActionsEnabled :: bool
  pr_ActionsReady :: bool
  pr_ActionsTokenExpiresAt :: int
  pr_SourceRevision :: "64 word"
  pr_SourceDigest :: string
  pr_SyncEncodings :: "string list"

definition processRunning :: "supervisor \<Rightarrow> bool sv" where
  "processRunning s = (case su_cmd s of None \<Rightarrow> Ret False | Some pid \<Rightarrow> svGet (\<lambda>a. \<not> sv_ended a) (SvEnded pid))"

definition joinLocal :: "string \<Rightarrow> string" where
  "joinLocal port = ''127.0.0.1:'' @ port"

definition supervisorStatus :: "supervisorConfig \<Rightarrow> supervisor \<Rightarrow> processStatusResponse sv" where
  "supervisorStatus C s =
     bind (processRunning s) (\<lambda>running.
     let status = \<lparr>pr_AttemptID = su_attempt s,
           pr_AttemptStarted = (case su_attemptStarted s of None \<Rightarrow> 0 | Some t \<Rightarrow> t div 1000000),
           pr_Configured = (trimSpace (vc_StartCommand C) \<noteq> []), pr_Running = running, pr_Port = trimSpace (vc_Port C),
           pr_PortReachable = False, pr_ActionsEnabled = False, pr_ActionsReady = False, pr_ActionsTokenExpiresAt = 0,
           pr_SourceRevision = 0, pr_SourceDigest = [], pr_SyncEncodings = []\<rparr> in
     if running \<and> pr_Port status \<noteq> []
     then svGet (\<lambda>a. status\<lparr>pr_PortReachable := (sv_err a = None)\<rparr>) (SvDial (joinLocal (pr_Port status)))
     else Ret status)"

section \<open>The server of the supervisor\<close>

datatype runtimePayload =
    PlRestarted | PlExiting | PlReloaded
  | PlApplied "string list"
  | PlStatus processStatusResponse

datatype runtimeReply = RtJSON nat runtimePayload | RtError nat goError | RtText string

text \<open>The pattern of the mux that matches the request, with the body as its decoder reads it.\<close>

datatype runtimeRoute =
    RouteRestart
  | RouteExit "unit jsonBody"
  | RouteReload "string list jsonBody"
  | RouteEnv "string smap jsonBody"
  | RouteLogs
  | RouteStatus

definition commandInvalid :: "string \<Rightarrow> bool" where
  "commandInvalid command \<longleftrightarrow> trimSpace command = [] \<or> 4096 < length command"

definition answered :: "nat \<Rightarrow> ('a \<Rightarrow> runtimePayload) \<Rightarrow> goError + 'a \<Rightarrow> runtimeReply" where
  "answered status f r = (case r of Inl e \<Rightarrow> RtError status e | Inr a \<Rightarrow> RtJSON 200 (f a))"

definition svAnswering :: "nat \<Rightarrow> ('a \<Rightarrow> runtimePayload) \<Rightarrow> 'a svOp \<Rightarrow> supervisor \<Rightarrow> (runtimeReply \<times> supervisor) sv" where
  "svAnswering status f oper s = bind (oper s) (\<lambda>(r, s'). Ret (answered status f r, s'))"

definition runtimeMethod :: "runtimeRoute \<Rightarrow> string" where
  "runtimeMethod route = (case route of RouteLogs \<Rightarrow> ''GET'' | RouteStatus \<Rightarrow> ''GET'' | _ \<Rightarrow> ''POST'')"

definition runtimeServer ::
    "supervisorConfig \<Rightarrow> string \<Rightarrow> runtimeRoute \<Rightarrow> supervisor \<Rightarrow> (runtimeReply \<times> supervisor) sv" where
  "runtimeServer C verb route s =
     (if verb \<noteq> runtimeMethod route then Ret (RtError 405 (Errorf ''method not allowed'' []), s)
      else case route of
        RouteRestart \<Rightarrow> svAnswering 500 (\<lambda>_. PlRestarted) (restart C) s
      | RouteExit body \<Rightarrow>
          (case decodeBoundedJSON body of
             Inl e \<Rightarrow> Ret (RtError 400 e, s)
           | Inr _ \<Rightarrow> bind (svTell (SvExit 0)) (\<lambda>_. Ret (RtJSON 200 PlExiting, s)))
      | RouteReload body \<Rightarrow>
          (case decodeBoundedJSON body of
             Inl e \<Rightarrow> Ret (RtError 400 e, s)
           | Inr commands \<Rightarrow>
               if commands = [] \<or> 32 < length commands then Ret (RtError 400 (Errorf ''reload requires 1 to 32 commands'' []), s)
               else if list_ex commandInvalid commands then Ret (RtError 400 (Errorf ''reload command is empty or too large'' []), s)
               else svAnswering 500 (\<lambda>_. PlReloaded) (runReloadCommands C commands) s)
      | RouteEnv body \<Rightarrow>
          (case decodeBoundedJSON body of
             Inl e \<Rightarrow> Ret (RtError 400 e, s)
           | Inr env \<Rightarrow> svAnswering 400 PlApplied (setEnvOp env) s)
      | RouteLogs \<Rightarrow> bind (svGet sv_lines SvLines) (\<lambda>ls. Ret (RtText (joinWith [CHR 0x0A] ls), s))
      | RouteStatus \<Rightarrow> bind (supervisorStatus C s) (\<lambda>status. Ret (RtJSON 200 (PlStatus status), s)))"

end
