(* ===== verification/Agent_Supervisor_Contract.thy ===== *)
theory Agent_Supervisor_Contract
  imports Agent_Supervisor
begin

text \<open>
  What the runtime supervisor promises: the log shows the last lines of the current attempt and nothing else; a process
  sees the values set last and none of the agent's own variables; a process is asked to stop, and killed if it does not,
  before the next one is started; the variables set at run time are always acceptable ones.
\<close>

section \<open>The log\<close>

definition lastN :: "nat \<Rightarrow> 'a list \<Rightarrow> 'a list" where
  "lastN n xs = drop (length xs - n) xs"

primrec shownIn :: "64 word \<Rightarrow> logEvent \<Rightarrow> string option" where
  "shownIn a (LogAppend line) = Some line"
| "shownIn a LogBegin = None"
| "shownIn a (LogFrom b line) = (if b = a then Some line else None)"

definition attempts :: "logEvent list \<Rightarrow> 64 word" where
  "attempts evs = of_nat (length (filter (\<lambda>e. e = LogBegin) evs))"

definition sinceBegin :: "logEvent list \<Rightarrow> logEvent list" where
  "sinceBegin evs = rev (takeWhile (\<lambda>e. e \<noteq> LogBegin) (rev evs))"

definition shownLines :: "logEvent list \<Rightarrow> string list" where
  "shownLines evs = List.map_filter (shownIn (attempts evs)) (sinceBegin evs)"

lemma lastN_snoc: "lastN n (lastN n xs @ [x]) = lastN n (xs @ [x])"
proof (cases "n \<le> length xs")
  case True
  then show ?thesis by (cases n) (simp_all add: lastN_def Suc_diff_Suc Suc_le_eq)
qed (simp add: lastN_def)

lemma appendLocked_eq: "appendLocked line r = r\<lparr>lg_linesBuf := lastN (lg_limit r) (lg_linesBuf r @ [line])\<rparr>"
  by (simp add: appendLocked_def lastN_def Let_def)

lemma sinceBegin_snoc: "sinceBegin (evs @ [e]) = (if e = LogBegin then [] else sinceBegin evs @ [e])"
  by (simp add: sinceBegin_def)

lemma attempts_snoc: "attempts (evs @ [e]) = (if e = LogBegin then attempts evs + 1 else attempts evs)"
  by (simp add: attempts_def)

lemma map_filter_snoc: "List.map_filter f (xs @ [x]) = List.map_filter f xs @ (case f x of None \<Rightarrow> [] | Some y \<Rightarrow> [y])"
  by (simp add: List.map_filter_def split: option.split)

lemma shownLines_snoc:
  "shownLines (evs @ [e]) = (if e = LogBegin then [] else shownLines evs @ (case shownIn (attempts evs) e of None \<Rightarrow> [] | Some y \<Rightarrow> [y]))"
  by (simp add: shownLines_def sinceBegin_snoc attempts_snoc map_filter_snoc)

text \<open>C36: After any sequence of events, from the supervisor and from the scanners of any attempt, the log holds the last lines, up
  to its limit, that the supervisor or the current attempt wrote since that attempt began: no line of an earlier attempt.\<close>

theorem log_shows_current_attempt:
  "fold logStep evs (newRingLog n) =
     \<lparr>lg_limit = n, lg_attempt = attempts evs, lg_linesBuf = lastN n (shownLines evs)\<rparr>"
proof (induction evs rule: rev_induct)
  case Nil
  show ?case by (simp add: newRingLog_def attempts_def shownLines_def sinceBegin_def lastN_def)
next
  case (snoc e evs)
  have "fold logStep (evs @ [e]) (newRingLog n) = logStep e (fold logStep evs (newRingLog n))" by simp
  also have "\<dots> = \<lparr>lg_limit = n, lg_attempt = attempts (evs @ [e]), lg_linesBuf = lastN n (shownLines (evs @ [e]))\<rparr>"
    unfolding snoc.IH
    by (cases e) (simp_all add: shownLines_snoc attempts_snoc appendLocked_eq appendAttempt_def beginAttempt_def lastN_snoc, simp_all add: lastN_def)
  finally show ?case .
qed

section \<open>Reading an environment\<close>

definition entryValue :: "string \<Rightarrow> string" where
  "entryValue entry = fst (snd (cutAt (CHR ''='') entry))"

definition namedAs :: "string \<Rightarrow> string \<Rightarrow> bool" where
  "namedAs name entry \<longleftrightarrow> entryNamed entry \<and> entryName entry = name"

text \<open>The last entry of a name counts.\<close>

fun envValue :: "string \<Rightarrow> string list \<Rightarrow> string option" where
  "envValue name [] = None"
| "envValue name (e # es) =
     (case envValue name es of Some v \<Rightarrow> Some v | None \<Rightarrow> if namedAs name e then Some (entryValue e) else None)"

lemma cutAt_entry: "CHR ''='' \<notin> set name \<Longrightarrow> cutAt (CHR ''='') (name @ CHR ''='' # v) = (name, v, True)"
  by (induction name) auto

lemma entry_simps:
  assumes "CHR ''='' \<notin> set name"
  shows "entryName (envEntry name v) = name" "entryNamed (envEntry name v)" "entryValue (envEntry name v) = v"
  using cutAt_entry [OF assms] by (simp_all add: entryName_def entryNamed_def entryValue_def envEntry_def)

lemma namedAs_entry: "CHR ''='' \<notin> set name \<Longrightarrow> namedAs n (envEntry name v) \<longleftrightarrow> n = name"
  by (auto simp: namedAs_def entry_simps)

lemma envValue_append: "envValue n (xs @ ys) = (case envValue n ys of Some v \<Rightarrow> Some v | None \<Rightarrow> envValue n xs)"
  by (induction xs) (auto split: option.split)

lemma envValue_none: "envValue n es = None \<longleftrightarrow> (\<forall>e \<in> set es. \<not> namedAs n e)"
  by (induction es) (auto split: option.split)

lemma envValue_update:
  "i < length es \<Longrightarrow> \<not> namedAs n (es ! i) \<Longrightarrow> \<not> namedAs n e \<Longrightarrow> envValue n (es[i := e]) = envValue n es"
proof (induction es arbitrary: i)
  case (Cons a es)
  then show ?case by (cases i) simp_all
qed simp

lemma envValue_at:
  assumes "i < length es" "namedAs n (es ! i)" "\<And>j. i < j \<Longrightarrow> j < length es \<Longrightarrow> \<not> namedAs n (es ! j)"
  shows "envValue n es = Some (entryValue (es ! i))"
proof -
  have "es = take i es @ es ! i # drop (Suc i) es" using assms(1) by (rule id_take_nth_drop)
  moreover have "envValue n (drop (Suc i) es) = None"
    unfolding envValue_none by (auto simp: in_set_conv_nth assms(3))
  ultimately show ?thesis
    using assms(2) envValue_append [of n "take i es" "es ! i # drop (Suc i) es"] by simp
qed

section \<open>The index of names\<close>

definition indexed :: "childEnv \<Rightarrow> bool" where
  "indexed s \<longleftrightarrow> (\<forall>n. case map_of (snd s) n of
       None \<Rightarrow> \<forall>e \<in> set (fst s). \<not> namedAs n e
     | Some i \<Rightarrow> i < length (fst s) \<and> namedAs n (fst s ! i) \<and> (\<forall>j. i < j \<longrightarrow> j < length (fst s) \<longrightarrow> \<not> namedAs n (fst s ! j)))"

lemma indexedD:
  assumes "indexed (out, index)"
  shows "map_of index n = None \<Longrightarrow> envValue n out = None"
    and "map_of index n = Some i \<Longrightarrow> i < length out \<and> namedAs n (out ! i) \<and> envValue n out = Some (entryValue (out ! i))"
    and "map_of index n = Some i \<Longrightarrow> i < j \<Longrightarrow> j < length out \<Longrightarrow> \<not> namedAs n (out ! j)"
proof -
  have s: "case map_of index n of
       None \<Rightarrow> \<forall>e \<in> set out. \<not> namedAs n e
     | Some i \<Rightarrow> i < length out \<and> namedAs n (out ! i) \<and> (\<forall>j. i < j \<longrightarrow> j < length out \<longrightarrow> \<not> namedAs n (out ! j))"
    using spec [OF assms [unfolded indexed_def], of n] by (simp only: fst_conv snd_conv)
  show "map_of index n = None \<Longrightarrow> envValue n out = None" using s by (simp add: envValue_none)
  show "map_of index n = Some i \<Longrightarrow> i < length out \<and> namedAs n (out ! i) \<and> envValue n out = Some (entryValue (out ! i))"
    using s by (simp add: envValue_at)
  show "map_of index n = Some i \<Longrightarrow> i < j \<Longrightarrow> j < length out \<Longrightarrow> \<not> namedAs n (out ! j)" using s by simp
qed

lemma indexed_snoc:
  assumes "indexed (out, index)"
  shows "indexed (out @ [e], if entryNamed e then mput (entryName e) (length out) index else index)"
  unfolding indexed_def
proof (intro allI)
  fix n
  show "case map_of (snd (out @ [e], if entryNamed e then mput (entryName e) (length out) index else index)) n of
       None \<Rightarrow> \<forall>x \<in> set (fst (out @ [e], if entryNamed e then mput (entryName e) (length out) index else index)). \<not> namedAs n x
     | Some i \<Rightarrow> i < length (fst (out @ [e], if entryNamed e then mput (entryName e) (length out) index else index))
         \<and> namedAs n (fst (out @ [e], if entryNamed e then mput (entryName e) (length out) index else index) ! i)
         \<and> (\<forall>j. i < j \<longrightarrow> j < length (fst (out @ [e], if entryNamed e then mput (entryName e) (length out) index else index))
              \<longrightarrow> \<not> namedAs n (fst (out @ [e], if entryNamed e then mput (entryName e) (length out) index else index) ! j))"
  proof (cases "namedAs n e")
    case True
    then show ?thesis by (auto simp: namedAs_def)
  next
    case no: False
    then have m: "map_of (if entryNamed e then mput (entryName e) (length out) index else index) n = map_of index n"
      by (auto simp: namedAs_def)
    show ?thesis
    proof (cases "map_of index n")
      case None
      then show ?thesis using m no indexedD(1) [OF assms None] by (auto simp: envValue_none)
    next
      case (Some i)
      then show ?thesis using m no indexedD(2,3) [OF assms Some] by (auto simp: nth_append)
    qed
  qed
qed

lemma indexed_indexEnv: "indexed (out, indexEnv out)"
proof (induction out rule: rev_induct)
  case Nil
  show ?case by (simp add: indexed_def indexEnv_def)
next
  case (snoc e out)
  have "indexEnv (out @ [e]) = (if entryNamed e then mput (entryName e) (length out) (indexEnv out) else indexEnv out)"
    by (simp add: indexEnv_def enumerate_append_eq)
  then show ?case using indexed_snoc [OF snoc.IH, of e] by simp
qed

lemma indexed_update:
  assumes "indexed (out, index)" "map_of index name = Some i" "namedAs name e" "\<And>n. namedAs n e \<Longrightarrow> n = name"
  shows "indexed (out[i := e], index)"
  unfolding indexed_def
proof (intro allI)
  fix n
  have i: "i < length out" "namedAs name (out ! i)" using indexedD(2) [OF assms(1,2)] by simp_all
  show "case map_of (snd (out[i := e], index)) n of
       None \<Rightarrow> \<forall>x \<in> set (fst (out[i := e], index)). \<not> namedAs n x
     | Some k \<Rightarrow> k < length (fst (out[i := e], index)) \<and> namedAs n (fst (out[i := e], index) ! k)
         \<and> (\<forall>j. k < j \<longrightarrow> j < length (fst (out[i := e], index)) \<longrightarrow> \<not> namedAs n (fst (out[i := e], index) ! j))"
  proof (cases "map_of index n")
    case None
    then have "n \<noteq> name" using assms(2) by auto
    then have "\<not> namedAs n e" using assms(4) by blast
    then show ?thesis using None indexedD(1) [OF assms(1) None] set_update_subset_insert [of out i e]
      by (auto simp: envValue_none)
  next
    case (Some k)
    show ?thesis
    proof (cases "n = name")
      case True
      then have "k = i" using Some assms(2) by simp
      then show ?thesis using True Some i assms(3) indexedD(3) [OF assms(1,2)] by auto
    next
      case False
      then have "\<not> namedAs n e" using assms(4) by blast
      moreover have "\<not> namedAs n (out ! i)" using False i(2) by (auto simp: namedAs_def)
      then have "k \<noteq> i" using indexedD(2) [OF assms(1) Some] by auto
      moreover have "\<not> namedAs n (out[i := e] ! j)" if "k < j" "j < length out" for j
        using indexedD(3) [OF assms(1) Some that] calculation(1) that(2) by (cases "j = i") simp_all
      ultimately show ?thesis using Some indexedD(2) [OF assms(1) Some] by auto
    qed
  qed
qed

section \<open>What is set\<close>

definition plainName :: "string \<Rightarrow> bool" where
  "plainName name \<longleftrightarrow> CHR ''='' \<notin> set name"

lemma setChild_spec:
  assumes ix: "indexed (out, index)" and name: "plainName name"
  shows "indexed (setChild name v ov (out, index))"
    and "envValue n (fst (setChild name v ov (out, index))) =
          (if n = name \<and> (ov \<or> envValue name out = None) then Some v else envValue n out)"
proof -
  have name: "CHR ''='' \<notin> set name" using name by (simp add: plainName_def)
  have new: "namedAs name (envEntry name v)" "\<And>m. namedAs m (envEntry name v) \<Longrightarrow> m = name"
    using namedAs_entry [OF name] by simp_all
  show "indexed (setChild name v ov (out, index))"
  proof (cases "map_of index name")
    case None
    then show ?thesis using indexed_snoc [OF ix, of "envEntry name v"] by (simp add: setChild_def entry_simps [OF name])
  next
    case (Some i)
    then show ?thesis using ix indexed_update [OF ix Some new] by (simp add: setChild_def)
  qed
  show "envValue n (fst (setChild name v ov (out, index))) =
          (if n = name \<and> (ov \<or> envValue name out = None) then Some v else envValue n out)"
  proof (cases "map_of index name")
    case None
    then show ?thesis using indexedD(1) [OF ix None]
      by (simp add: setChild_def envValue_append namedAs_entry [OF name] entry_simps [OF name])
  next
    case (Some i)
    note at = indexedD(2) [OF ix Some]
    have i: "i < length out" using at by simp
    have same: "n \<noteq> name \<Longrightarrow> envValue n (out[i := envEntry name v]) = envValue n out"
      using at new(2) by (intro envValue_update) (auto simp: namedAs_def)
    have "envValue name (out[i := envEntry name v]) = Some (entryValue (out[i := envEntry name v] ! i))"
      using i new(1) indexedD(3) [OF ix Some] by (intro envValue_at) auto
    then have this_one: "envValue name (out[i := envEntry name v]) = Some v" using i by (simp add: entry_simps [OF name])
    show ?thesis
    proof (cases ov)
      case True
      then show ?thesis using Some same this_one by (simp add: setChild_def)
    next
      case False
      then show ?thesis using Some at by (simp add: setChild_def)
    qed
  qed
qed

lemma setCustom_fold:
  assumes "indexed (out, index)" "\<forall>name \<in> set names. plainName name \<and> map_of custom name \<noteq> None"
  shows "envValue n (fst (fold (setCustom custom) names (out, index))) = (if n \<in> set names then map_of custom n else envValue n out)"
  using assms
proof (induction names arbitrary: out index)
  case (Cons name names)
  obtain v where v: "map_of custom name = Some v" using Cons.prems(2) by auto
  obtain out' index' where s: "setChild name v True (out, index) = (out', index')" by force
  have p: "plainName name" using Cons.prems(2) by simp
  have ix: "indexed (out', index')" using setChild_spec(1) [OF Cons.prems(1) p, of v True] s by simp
  have val: "envValue n out' = (if n = name then Some v else envValue n out)"
    using setChild_spec(2) [OF Cons.prems(1) p, of n v True] s by simp
  show ?case using Cons.IH [OF ix] Cons.prems(2) val v s by (auto simp: setCustom_def)
qed simp

lemma envValue_sanitized: "envValue n (sanitizedChildEnv base) = (if hasReservedEnvPrefix n then None else envValue n base)"
proof (induction base)
  case (Cons e base)
  then show ?case by (auto simp: sanitizedChildEnv_def namedAs_def split: option.split)
qed (simp add: sanitizedChildEnv_def)

lemma port_free: "\<not> hasReservedEnvPrefix ''PORT''" "plainName ''PORT''"
  by (simp_all add: hasReservedEnvPrefix_def reservedEnvPrefixes_def hasPrefix_def plainName_def)

lemma set_customNames:
  "n \<in> set (customNames custom) \<longleftrightarrow> n \<noteq> [] \<and> \<not> hasReservedEnvPrefix n \<and> map_of custom n \<noteq> None"
  by (auto simp: customNames_def mkeys_def map_of_eq_None_iff)

definition portDefault :: "string \<Rightarrow> string \<Rightarrow> string option" where
  "portDefault port n = (if n = ''PORT'' \<and> trimSpace port \<noteq> [] then Some (trimSpace port) else None)"

definition orElse :: "'a option \<Rightarrow> 'a option \<Rightarrow> 'a option" where
  "orElse a b = (case a of None \<Rightarrow> b | Some v \<Rightarrow> Some v)"

lemma mergeChildEnv_value:
  assumes "\<forall>name \<in> set (mkeys custom). plainName name"
  shows "envValue n (mergeChildEnv base custom port) =
           (if hasReservedEnvPrefix n then None
            else if n \<noteq> [] \<and> map_of custom n \<noteq> None then map_of custom n
            else orElse (envValue n base) (portDefault port n))"
proof -
  let ?out = "sanitizedChildEnv base"
  obtain out index where s: "(if trimSpace port \<noteq> [] then setChild ''PORT'' (trimSpace port) False (?out, indexEnv ?out) else (?out, indexEnv ?out)) = (out, index)"
    by force
  have ix: "indexed (out, index)"
    using s indexed_indexEnv [of ?out] setChild_spec(1) [OF indexed_indexEnv [of ?out] port_free(2)] by (metis prod.sel)
  have val: "envValue n out = (if hasReservedEnvPrefix n then None else orElse (envValue n base) (portDefault port n))"
  proof (cases "trimSpace port = []")
    case True
    then show ?thesis using s by (auto simp: envValue_sanitized orElse_def portDefault_def split: option.split)
  next
    case False
    then have "out = fst (setChild ''PORT'' (trimSpace port) False (?out, indexEnv ?out))" using s by simp
    then have "envValue n out = (if n = ''PORT'' \<and> envValue ''PORT'' base = None then Some (trimSpace port)
        else if hasReservedEnvPrefix n then None else envValue n base)"
      using setChild_spec(2) [OF indexed_indexEnv [of ?out] port_free(2), of n "trimSpace port" False]
      by (simp add: envValue_sanitized port_free(1))
    then show ?thesis using False port_free(1) by (auto simp: orElse_def portDefault_def split: option.split)
  qed
  have "mergeChildEnv base custom port = fst (fold (setCustom custom) (customNames custom) (out, index))"
    using s by (simp add: mergeChildEnv_def Let_def)
  moreover have "\<forall>name \<in> set (customNames custom). plainName name \<and> map_of custom name \<noteq> None"
    using assms by (auto simp: set_customNames mkeys_def map_of_eq_None_iff)
  ultimately have "envValue n (mergeChildEnv base custom port) =
      (if n \<in> set (customNames custom) then map_of custom n else envValue n out)"
    using setCustom_fold [OF ix, of "customNames custom" custom n] by simp
  then show ?thesis unfolding val set_customNames
    by (cases "hasReservedEnvPrefix n"; cases "n \<noteq> [] \<and> map_of custom n \<noteq> None") (auto simp del: not_None_eq)
qed

section \<open>Acceptable names\<close>

definition acceptableName :: "string \<Rightarrow> bool" where
  "acceptableName n \<longleftrightarrow> isValidRuntimeEnvName n \<and> \<not> hasReservedEnvPrefix n \<and> \<not> isSecretLikeRuntimeEnvName n"

definition envOk :: "string smap \<Rightarrow> bool" where
  "envOk m \<longleftrightarrow> mwf m \<and> (\<forall>n \<in> set (mkeys m). acceptableName n)"

lemma valid_plain: "isValidRuntimeEnvName n \<Longrightarrow> plainName n"
proof -
  have "\<not> envLetter (CHR ''='')" "\<not> envDigit (CHR ''='')" by (simp_all add: envLetter_def envDigit_def byteOf_def)
  then show "isValidRuntimeEnvName n \<Longrightarrow> plainName n"
    unfolding isValidRuntimeEnvName_def plainName_def list_all_iff by (cases n) auto
qed

lemma checkEnvName_ok: "checkEnvName key = Inr () \<longleftrightarrow> acceptableName (trimSpace key)"
  by (simp add: checkEnvName_def acceptableName_def Let_def)

text \<open>The variables a call sets, the last of a name first.\<close>

definition assigned :: "string smap \<Rightarrow> string smap" where
  "assigned env = rev (map (\<lambda>(key, v). (trimSpace key, v)) env)"

lemma fold_mput: "map_of (fold (\<lambda>(key, v). mput (trimSpace key) v) env m) = map_of m ++ map_of (assigned env)"
proof (induction env arbitrary: m)
  case (Cons kv env)
  then show ?case by (cases kv) (auto simp: assigned_def map_add_def fun_eq_iff split: option.split)
qed (simp add: assigned_def)

lemma envOk_fold:
  "envOk m \<Longrightarrow> \<forall>key \<in> set (mkeys env). acceptableName (trimSpace key) \<Longrightarrow> envOk (fold (\<lambda>(key, v). mput (trimSpace key) v) env m)"
proof (induction env arbitrary: m)
  case (Cons kv env)
  have "envOk (mput (trimSpace (fst kv)) (snd kv) m)"
    using Cons.prems by (simp add: envOk_def mkeys_def keys_mput)
  then show ?case using Cons.IH Cons.prems(2) by (simp add: mkeys_def split_beta)
qed simp

lemma setEnv_cases:
  assumes "setEnv env m = Inr (applied, m')"
  shows "\<forall>key \<in> set (mkeys env). acceptableName (trimSpace key)" "applied = sort (map trimSpace (mkeys env))"
    "m' = fold (\<lambda>(key, v). mput (trimSpace key) v) env m"
proof -
  have *: "firstErr checkEnvName (mkeys env) = Inr ()"
    using assms by (cases "firstErr checkEnvName (mkeys env)") (simp_all add: setEnv_def andThen_def split: if_splits)
  then show "applied = sort (map trimSpace (mkeys env))" "m' = fold (\<lambda>(key, v). mput (trimSpace key) v) env m"
    using assms by (simp_all add: setEnv_def andThen_def split: if_splits)
  show "\<forall>key \<in> set (mkeys env). acceptableName (trimSpace key)"
    using * by (simp add: firstErr_ok checkEnvName_ok)
qed

lemma assigned_name: "map_of (assigned env) n = Some v \<Longrightarrow> \<exists>key \<in> set (mkeys env). n = trimSpace key"
  by (drule map_of_SomeD) (force simp: assigned_def mkeys_def)

lemma envOk_plain: "envOk m \<Longrightarrow> \<forall>name \<in> set (mkeys m). plainName name"
  by (auto simp: envOk_def acceptableName_def intro: valid_plain)

text \<open>Variables set at run time reach the process that is started next: each name set has its last value, whatever the environment
  of the agent holds, and every other name reads as it would have without the call. The answer lists the names.\<close>

theorem runtime_env_reaches_process:
  assumes "envOk m" "setEnv env m = Inr (applied, m')"
  shows "envValue n (mergeChildEnv base m' port) = orElse (map_of (assigned env) n) (envValue n (mergeChildEnv base m port))
    \<and> applied = sort (map trimSpace (mkeys env))"
proof -
  note s = setEnv_cases [OF assms(2)]
  have m': "envOk m'" "map_of m' = map_of m ++ map_of (assigned env)"
    using envOk_fold [OF assms(1) s(1)] fold_mput [of env m] s(3) by simp_all
  show ?thesis
  proof (cases "map_of (assigned env) n")
    case None
    then show ?thesis using s(2) m'(2) mergeChildEnv_value [OF envOk_plain [OF m'(1)], of n base port]
        mergeChildEnv_value [OF envOk_plain [OF assms(1)], of n base port] by (cases "n = []") (simp_all add: orElse_def map_add_def)
  next
    case (Some v)
    then have "acceptableName n" using assigned_name [OF Some] s(1) by auto
    then have "\<not> hasReservedEnvPrefix n" "n \<noteq> []" by (simp_all add: acceptableName_def isValidRuntimeEnvName_def)
    then show ?thesis using Some s(2) m'(2) mergeChildEnv_value [OF envOk_plain [OF m'(1)], of n base port]
      by (simp add: orElse_def map_add_def)
  qed
qed

section \<open>The agent's own variables\<close>

definition unreserved :: "string \<Rightarrow> bool" where
  "unreserved e \<longleftrightarrow> \<not> hasPrefix e ''RAILGRID_DEV_''"

lemma entryName_takeWhile: "entryName e = takeWhile (\<lambda>c. c \<noteq> CHR ''='') e"
proof -
  have "fst (cutAt d e) = takeWhile (\<lambda>c. c \<noteq> d) e \<and> (snd (snd (cutAt d e)) \<or> takeWhile (\<lambda>c. c \<noteq> d) e = e)" for d
    by (induction e) (auto split: prod.split simp del: takeWhile_eq_all_conv)
  then show ?thesis by (simp add: entryName_def)
qed

lemma hasPrefix_name:
  assumes "hasPrefix e p" "CHR ''='' \<notin> set p"
  shows "hasPrefix (takeWhile (\<lambda>c. c \<noteq> CHR ''='') e) p"
proof -
  have "e = p @ drop (length p) e" using assms(1) append_take_drop_id [of "length p" e] by (simp add: hasPrefix_def)
  then have "takeWhile (\<lambda>c. c \<noteq> CHR ''='') e = takeWhile (\<lambda>c. c \<noteq> CHR ''='') (p @ drop (length p) e)" by (rule arg_cong)
  also have "\<dots> = p @ takeWhile (\<lambda>c. c \<noteq> CHR ''='') (drop (length p) e)"
    using assms(2) by (intro takeWhile_append2) auto
  finally show ?thesis by (simp add: hasPrefix_def)
qed

lemma unreserved_name: "\<not> hasReservedEnvPrefix (entryName e) \<Longrightarrow> unreserved e"
  unfolding unreserved_def entryName_takeWhile hasReservedEnvPrefix_def reservedEnvPrefixes_def
  by (rule notI, drule hasPrefix_name) simp_all

lemma unreserved_entry:
  assumes "\<not> hasReservedEnvPrefix name"
  shows "unreserved (envEntry name v)"
proof (rule unreserved_name)
  have "entryName (envEntry name v) = takeWhile (\<lambda>c. c \<noteq> CHR ''='') name"
    by (induction name) (simp_all add: entryName_takeWhile envEntry_def)
  moreover have "hasPrefix (takeWhile (\<lambda>c. c \<noteq> CHR ''='') name) p \<Longrightarrow> hasPrefix name p" for p
    unfolding hasPrefix_def by (metis takeWhile_eq_take min.absorb1 length_take length_takeWhile_le take_take)
  ultimately show "\<not> hasReservedEnvPrefix (entryName (envEntry name v))"
    using assms by (auto simp: hasReservedEnvPrefix_def list_ex_iff)
qed

lemma unreserved_setChild:
  "list_all unreserved out \<Longrightarrow> \<not> hasReservedEnvPrefix name \<Longrightarrow> list_all unreserved (fst (setChild name v ov (out, index)))"
  using set_update_subset_insert [of out _ "envEntry name v"] unreserved_entry [of name v]
  by (auto simp: setChild_def list_all_iff split: option.split)

lemma unreserved_fold:
  "list_all unreserved (fst s) \<Longrightarrow> \<forall>n \<in> set ns. \<not> hasReservedEnvPrefix n \<Longrightarrow> list_all unreserved (fst (fold (setCustom custom) ns s))"
proof (induction ns arbitrary: s)
  case (Cons n ns)
  have "list_all unreserved (fst (setCustom custom n s))"
    using Cons.prems unreserved_setChild [of "fst s" n _ True "snd s"] by (simp add: setCustom_def split: option.split)
  then show ?case using Cons.IH Cons.prems(2) by simp
qed simp

lemma mergeChildEnv_unreserved: "list_all unreserved (mergeChildEnv base custom port)"
proof -
  have "list_all unreserved (sanitizedChildEnv base)"
    using unreserved_name by (auto simp: sanitizedChildEnv_def list_all_iff)
  then have "list_all unreserved (fst (if trimSpace port \<noteq> [] then setChild ''PORT'' (trimSpace port) False (sanitizedChildEnv base, index)
      else (sanitizedChildEnv base, index)))" for index
    using unreserved_setChild [OF _ port_free(1)] by simp
  then show ?thesis unfolding mergeChildEnv_def Let_def
    by (intro unreserved_fold) (auto simp: set_customNames)
qed

definition cleanStart :: "svAsk \<Rightarrow> bool" where
  "cleanStart q \<longleftrightarrow> (case q of SvStart c d env \<Rightarrow> list_all unreserved env | SvRun c d env \<Rightarrow> list_all unreserved env | _ \<Rightarrow> True)"

lemma cleanStart_simps [simp]:
  "cleanStart SvEnviron" "cleanStart (SvMkdirAll d)" "cleanStart SvPipe" "cleanStart SvBeginAttempt" "cleanStart (SvAppend l)"
  "cleanStart SvLines" "cleanStart (SvWatch w p)" "cleanStart SvNow" "cleanStart (SvKill p g)" "cleanStart (SvAwait p t)"
  "cleanStart (SvEnded p)" "cleanStart (SvDial x)" "cleanStart (SvExit i)"
  "cleanStart (SvStart c d env) = list_all unreserved env" "cleanStart (SvRun c d env) = list_all unreserved env"
  by (simp_all add: cleanStart_def)

lemma sv_simps:
  "onlyAsks P (svDo q) = P q" "onlyAsks P (svGet f q) = P q" "onlyAsks P (svTell q) = P q"
  by (simp_all add: svDo_def svGet_def svTell_def)

lemma asks_processEnv:
  "P SvEnviron \<Longrightarrow> (\<And>env. list_all unreserved env \<Longrightarrow> onlyAsks P (f env)) \<Longrightarrow> onlyAsks P (bind (processEnv C m) f)"
  by (simp add: processEnv_def svGet_def mergeChildEnv_unreserved)

lemma asks_appendEach: "(\<And>l. P (SvAppend l)) \<Longrightarrow> onlyAsks P (appendEach ls)"
  by (induction ls) (auto intro!: onlyAsks_bind simp: sv_simps)

lemma asks_startLocked: "onlyAsks cleanStart (startLocked C s)"
  unfolding startLocked_def
  by (rule onlyAsks_bindE, simp add: sv_simps, rule asks_processEnv, simp)
     (auto intro!: onlyAsks_bindE onlyAsks_bind simp: sv_simps split: option.split)

lemma asks_stopLocked: "onlyAsks cleanStart (stopLocked s)"
  unfolding stopLocked_def by (auto intro!: onlyAsks_bind simp: sv_simps split: option.split)

lemma asks_startFrom: "onlyAsks cleanStart (startFrom C s)"
  unfolding startFrom_def by (auto intro!: onlyAsks_bind asks_startLocked)

lemma asks_runCommands: "onlyAsks cleanStart (runCommands C m commands)"
proof (induction commands)
  case (Cons command cs)
  show ?case unfolding runCommands.simps
    by (rule onlyAsks_bind, simp add: sv_simps, rule asks_processEnv, simp)
       (auto intro!: onlyAsks_bind asks_appendEach Cons.IH simp: sv_simps split: option.split)
qed simp

lemma asks_answering: "(\<And>s. onlyAsks P (oper s)) \<Longrightarrow> onlyAsks P (svAnswering status f oper s)"
  unfolding svAnswering_def by (auto intro!: onlyAsks_bind)

lemma asks_status: "onlyAsks cleanStart (supervisorStatus C s)"
  unfolding supervisorStatus_def processRunning_def
  by (auto intro!: onlyAsks_bind simp: sv_simps Let_def split: option.split)

lemma asks_runtimeServer: "onlyAsks cleanStart (runtimeServer C verb route s)"
proof -
  have "onlyAsks cleanStart (restart C s)" for s
    unfolding restart_def by (intro onlyAsks_bind asks_stopLocked asks_startFrom)
  moreover have "onlyAsks cleanStart (runReloadCommands C commands s)" for commands s
    unfolding runReloadCommands_def by (intro onlyAsks_bind asks_runCommands) simp
  moreover have "onlyAsks cleanStart (setEnvOp env s)" for env s by (simp add: setEnvOp_def)
  moreover have "cleanStart (SvExit 0)" "cleanStart SvLines" by simp_all
  ultimately show ?thesis unfolding runtimeServer_def
    by (auto intro!: asks_answering onlyAsks_bind asks_status simp: sv_simps split: runtimeRoute.split sum.split)
qed

section \<open>What a supervisor keeps\<close>

lemma wp_svGet: "wp G (svGet f q) Q h \<longleftrightarrow> G h q \<and> (\<forall>a. Q (f a) (h @ [(q, a)]))"
  by (simp add: svGet_def)

lemma wp_svTell: "wp G (svTell q) Q h \<longleftrightarrow> G h q \<and> (\<forall>a. Q () (h @ [(q, a)]))"
  by (simp add: svTell_def wp_svGet)

lemma wp_svDo: "wp G (svDo q) Q h \<longleftrightarrow> G h q \<and> (\<forall>a. Q (case sv_err a of Some e \<Rightarrow> Inl e | None \<Rightarrow> Inr ()) (h @ [(q, a)]))"
  by (simp add: svDo_def)

lemma wp_anything: "(\<And>a h'. Q a h') \<Longrightarrow> (\<And>h' q. G h' q) \<Longrightarrow> wp G p Q h"
  by (induction p arbitrary: h) auto

text \<open>A predicate on the supervisor that holds whatever the calls answer.\<close>

definition keeps :: "(supervisor \<Rightarrow> bool) \<Rightarrow> ('a \<times> supervisor) sv \<Rightarrow> bool" where
  "keeps I p \<longleftrightarrow> (\<forall>h. wp (\<lambda>_ _. True) p (\<lambda>r _. I (snd r)) h)"

lemma keeps_Ret: "I (snd r) \<Longrightarrow> keeps I (Ret r)"
  by (simp add: keeps_def)

lemma keeps_bind: "(\<And>a. keeps I (f a)) \<Longrightarrow> keeps I (bind p f)"
  by (simp add: keeps_def wp_bind wp_anything)

lemma keeps_bind_from: "keeps I p \<Longrightarrow> (\<And>a. I (snd a) \<Longrightarrow> keeps I (f a)) \<Longrightarrow> keeps I (bind p f)"
  unfolding keeps_def wp_bind by (intro allI) (rule wp_mono, blast, blast)

lemma env_startLocked:
  "wp (\<lambda>_ _. True) (startLocked C s) (\<lambda>r _. case r of Inl e \<Rightarrow> True | Inr s' \<Rightarrow> su_customEnv s' = su_customEnv s) h"
  unfolding startLocked_def processEnv_def by (simp add: wp_bindE wp_bind wp_svDo wp_svGet wp_svTell split: option.split)

lemma env_stopLocked: "wp (\<lambda>_ _. True) (stopLocked s) (\<lambda>s' _. su_customEnv s' = su_customEnv s) h"
  unfolding stopLocked_def by (simp add: wp_bind wp_svGet wp_svTell split: option.split)

definition envKept :: "supervisor \<Rightarrow> bool" where
  "envKept s \<longleftrightarrow> envOk (su_customEnv s)"

lemma keeps_restart: "envKept s \<Longrightarrow> keeps envKept (restart C s)"
proof -
  assume s: "envKept s"
  have start: "wp (\<lambda>_ _. True) (startFrom C s') (\<lambda>r _. envKept (snd r)) h'" if "envKept s'" for s' h'
    unfolding startFrom_def using that
    by (auto simp: wp_bind envKept_def split: sum.split intro!: wp_mono [OF env_startLocked [of C s' h']])
  show ?thesis unfolding keeps_def restart_def wp_bind
    using s by (intro allI) (rule wp_mono [OF env_stopLocked], rule start, simp add: envKept_def)
qed

lemma keeps_setEnv: "envKept s \<Longrightarrow> keeps envKept (setEnvOp env s)"
  unfolding setEnvOp_def
proof (rule keeps_Ret)
  assume s: "envKept s"
  show "envKept (snd (case setEnv env (su_customEnv s) of Inl e \<Rightarrow> (Inl e, s)
      | Inr (applied, customEnv) \<Rightarrow> (Inr applied, s\<lparr>su_customEnv := customEnv\<rparr>)))"
  proof (cases "setEnv env (su_customEnv s)")
    case (Inr r)
    then have "setEnv env (su_customEnv s) = Inr (fst r, snd r)" by simp
    from setEnv_cases(1,3) [OF this] have "envOk (snd r)" using s envOk_fold by (simp add: envKept_def)
    then show ?thesis using Inr by (simp add: envKept_def split_beta)
  qed (simp add: s)
qed

lemma keeps_answering: "keeps I (oper s) \<Longrightarrow> keeps I (svAnswering status f oper s)"
  unfolding svAnswering_def by (erule keeps_bind_from) (auto intro: keeps_Ret)

lemma keeps_runtimeServer: "envKept s \<Longrightarrow> keeps envKept (runtimeServer C verb route s)"
  unfolding runtimeServer_def
  by (auto intro!: keeps_Ret keeps_answering keeps_restart keeps_setEnv keeps_bind
      simp: runReloadCommands_def split: runtimeRoute.split sum.split)

text \<open>A supervisor answering one request after the other.\<close>

fun serveAll :: "supervisorConfig \<Rightarrow> (string \<times> runtimeRoute) list \<Rightarrow> supervisor \<Rightarrow> supervisor sv" where
  "serveAll C [] s = Ret s"
| "serveAll C ((verb, route) # rs) s = bind (runtimeServer C verb route s) (\<lambda>r. serveAll C rs (snd r))"

lemma serveAll_keeps:
  "envKept s \<Longrightarrow> wp (\<lambda>h q. cleanStart q) (serveAll C reqs s) (\<lambda>s' h. envKept s') h"
proof (induction reqs arbitrary: s h)
  case (Cons req reqs s h)
  have "wp (\<lambda>h q. cleanStart q) (runtimeServer C (fst req) (snd req) s) (\<lambda>r h. envKept (snd r)) h"
    by (rule wp_conj_onlyAsks [OF asks_runtimeServer], assumption)
       (use keeps_runtimeServer [OF Cons.prems] in \<open>simp add: keeps_def\<close>)
  then show ?case using Cons.IH by (cases req) (auto simp: wp_bind intro: wp_mono)
qed simp

text \<open>C37: However the coordinator calls the supervisor, no process and no reload command is ever given a variable of the agent's own, such
  as its control token, and the variables set at run time have valid names that are neither reserved nor look like secrets.\<close>

theorem runtime_env_invariant:
  "wp (\<lambda>h q. \<forall>c d env. q = SvStart c d env \<or> q = SvRun c d env \<longrightarrow> (\<forall>e \<in> set env. \<not> hasPrefix e ''RAILGRID_DEV_''))
     (serveAll C reqs newSupervisor)
     (\<lambda>s h. mwf (su_customEnv s) \<and> (\<forall>n \<in> set (mkeys (su_customEnv s)).
        isValidRuntimeEnvName n \<and> \<not> hasPrefix n ''RAILGRID_DEV_'' \<and> \<not> isSecretLikeRuntimeEnvName n)) []"
proof -
  have "envKept newSupervisor" by (simp add: envKept_def envOk_def newSupervisor_def mkeys_def)
  from serveAll_keeps [OF this, of C reqs "[]"]
  have "wp (\<lambda>h q. cleanStart q) (serveAll C reqs newSupervisor) (\<lambda>s h. mwf (su_customEnv s) \<and> (\<forall>n \<in> set (mkeys (su_customEnv s)).
        isValidRuntimeEnvName n \<and> \<not> hasPrefix n ''RAILGRID_DEV_'' \<and> \<not> isSecretLikeRuntimeEnvName n)) []"
    by (rule wp_mono) (simp add: envKept_def envOk_def acceptableName_def hasReservedEnvPrefix_def reservedEnvPrefixes_def)
  then show ?thesis by (rule wp_weaken) (auto simp: cleanStart_def list_all_iff unreserved_def)
qed

section \<open>One process at a time\<close>

text \<open>The group was asked to end, and then it ended or was killed.\<close>

definition stopped :: "nat \<Rightarrow> (svAsk, svAnswer) history \<Rightarrow> bool" where
  "stopped pid h \<longleftrightarrow> (\<exists>h1 a h2. h = h1 @ (SvKill pid SIGTERM, a) # h2 \<and>
     ((\<exists>t b. (SvAwait pid t, b) \<in> set h2 \<and> sv_ended b) \<or> (\<exists>b. (SvKill pid SIGKILL, b) \<in> set h2)))"

lemma stopped_more: "stopped pid h \<Longrightarrow> prefix h h' \<Longrightarrow> stopped pid h'"
proof -
  assume "stopped pid h" and p: "prefix h h'"
  then obtain h1 a h2 where h: "h = h1 @ (SvKill pid SIGTERM, a) # h2"
    "(\<exists>t b. (SvAwait pid t, b) \<in> set h2 \<and> sv_ended b) \<or> (\<exists>b. (SvKill pid SIGKILL, b) \<in> set h2)" unfolding stopped_def by blast
  obtain z where "h' = h @ z" using p by (auto elim: prefixE)
  then have "h' = h1 @ (SvKill pid SIGTERM, a) # (h2 @ z)" using h(1) by simp
  moreover have "(\<exists>t b. (SvAwait pid t, b) \<in> set (h2 @ z) \<and> sv_ended b) \<or> (\<exists>b. (SvKill pid SIGKILL, b) \<in> set (h2 @ z))"
    using h(2) by auto
  ultimately show ?thesis unfolding stopped_def by blast
qed

definition startsAfter :: "nat \<Rightarrow> (svAsk, svAnswer) history \<Rightarrow> svAsk \<Rightarrow> bool" where
  "startsAfter pid h q \<longleftrightarrow> (\<forall>c d env. q = SvStart c d env \<longrightarrow> stopped pid h)"

definition noStart :: "svAsk \<Rightarrow> bool" where
  "noStart q \<longleftrightarrow> (\<forall>c d env. q \<noteq> SvStart c d env)"

lemma wp_noStart: "onlyAsks noStart p \<Longrightarrow> (\<And>a h'. Q a h') \<Longrightarrow> wp (startsAfter pid) p Q h"
  by (erule wp_onlyAsks) (auto simp: noStart_def startsAfter_def)

lemma stopLocked_stops:
  assumes "su_cmd s = Some pid"
  shows "wp (startsAfter pid) (stopLocked s) (\<lambda>s' h'. stopped pid h') h"
proof -
  have quiet: "startsAfter pid h (SvKill pid sig)" "startsAfter pid h (SvAwait pid t)" for h sig t
    by (simp_all add: startsAfter_def)
  have "stopped pid (h @ [(SvKill pid SIGTERM, a), (SvAwait pid (3 * second), b)])" if "sv_ended b" for a b
    unfolding stopped_def using that by (intro exI [of _ h] exI [of _ a] exI [of _ "[(SvAwait pid (3 * second), b)]"]) auto
  moreover have "stopped pid (h @ [(SvKill pid SIGTERM, a), (SvAwait pid (3 * second), b), (SvKill pid SIGKILL, c), (SvAwait pid second, d)])" for a b c d
    unfolding stopped_def
    by (intro exI [of _ h] exI [of _ a] exI [of _ "[(SvAwait pid (3 * second), b), (SvKill pid SIGKILL, c), (SvAwait pid second, d)]"]) auto
  ultimately show ?thesis using assms unfolding stopLocked_def by (simp add: wp_bind wp_svGet wp_svTell quiet)
qed

lemma startFrom_after: "stopped pid h \<Longrightarrow> wp (startsAfter pid) (startFrom C s) (\<lambda>r h'. stopped pid h') h"
proof -
  assume h: "stopped pid h"
  have "wp (\<lambda>_ _. True) (startFrom C s) (\<lambda>r h'. True) h" by (rule wp_anything) simp_all
  then have "wp (\<lambda>h' q. prefix h h') (startFrom C s) (\<lambda>r h'. prefix h h') h"
    by (intro wp_onlyAsks [where P = "\<lambda>_. True"]) simp_all
  then have "wp (startsAfter pid) (startFrom C s) (\<lambda>r h'. prefix h h') h"
    by (rule wp_weaken) (auto simp: startsAfter_def intro: stopped_more [OF h])
  then show ?thesis by (rule wp_mono) (rule stopped_more [OF h])
qed

text \<open>A request other than the restart starts nothing and leaves the process in place.\<close>

lemma noStart_parts:
  "onlyAsks noStart (runCommands C m commands)" "onlyAsks noStart (supervisorStatus C s)" "onlyAsks noStart (setEnvOp env s)"
proof -
  show "onlyAsks noStart (runCommands C m commands)"
    by (induction commands)
       (auto intro!: onlyAsks_bind asks_appendEach simp: sv_simps noStart_def processEnv_def split: option.split)
  show "onlyAsks noStart (supervisorStatus C s)"
    unfolding supervisorStatus_def processRunning_def
    by (auto intro!: onlyAsks_bind simp: sv_simps noStart_def Let_def split: option.split)
  show "onlyAsks noStart (setEnvOp env s)" by (simp add: setEnvOp_def)
qed

lemma noStart_server: "route \<noteq> RouteRestart \<Longrightarrow> onlyAsks noStart (runtimeServer C verb route s)"
  unfolding runtimeServer_def
  by (auto simp: runReloadCommands_def sv_simps noStart_def [of "SvExit 0"] noStart_def [of SvLines] noStart_parts
      split: runtimeRoute.split sum.split intro!: asks_answering onlyAsks_bind)

lemma keeps_process:
  assumes "route \<noteq> RouteRestart" and "su_cmd s = Some pid"
  shows "keeps (\<lambda>s'. su_cmd s' = Some pid) (runtimeServer C verb route s)"
proof -
  have "keeps (\<lambda>s'. su_cmd s' = Some pid) (setEnvOp env s)" for env
    using assms(2) by (auto simp: setEnvOp_def keeps_def split: sum.split)
  then show ?thesis
    using assms unfolding runtimeServer_def
    by (auto simp: runReloadCommands_def split: runtimeRoute.split sum.split intro!: keeps_answering keeps_bind keeps_Ret)
qed

text \<open>C38: No request starts a process while another one runs: the old process group is asked to end first, and killed unless it ends in
  time; a request that does not do so leaves the process in place.\<close>

theorem one_process_at_a_time:
  assumes "su_cmd s = Some pid"
  shows "wp (\<lambda>h q. \<forall>c d env. q = SvStart c d env \<longrightarrow> stopped pid h) (runtimeServer C verb route s)
           (\<lambda>r h. su_cmd (snd r) = Some pid \<or> stopped pid h) []"
proof -
  let ?Q = "\<lambda>(r :: runtimeReply \<times> supervisor) h. su_cmd (snd r) = Some pid \<or> stopped pid h"
  have "wp (startsAfter pid) (runtimeServer C verb route s) ?Q []"
  proof (cases "route = RouteRestart")
    case True
    have "wp (startsAfter pid) (restart C s) (\<lambda>r h. stopped pid h) []"
      unfolding restart_def wp_bind by (rule wp_mono [OF stopLocked_stops [OF assms]], rule startFrom_after)
    then show ?thesis using True assms
      by (auto simp: runtimeServer_def svAnswering_def wp_bind split_beta intro: wp_mono)
  next
    case False
    have "wp (\<lambda>_ _. True) (runtimeServer C verb route s) ?Q []"
      using keeps_process [OF False assms, of C verb] by (auto simp: keeps_def intro: wp_mono)
    then show ?thesis
      by (rule wp_conj_onlyAsks [OF noStart_server [OF False], rotated 1]) (simp add: noStart_def startsAfter_def)
  qed
  then show ?thesis by (rule wp_weaken) (simp add: startsAfter_def)
qed

end
