(* ===== verification/Agent_Runtime.thy ===== *)
theory Agent_Runtime
  imports Agent_Supervisor_Contract
begin

text \<open>
  How the control plane of a sandbox reaches the runtime (\<^verbatim>\<open>dev-agent/main.go\<close>): the operations of the runtime, their two
  providers -- the supervisor of the same process and the HTTP client of a supervisor in another container -- and the
  handlers that use them. The codec of JSON bodies is an argument; the two providers are shown to behave alike.
\<close>

section \<open>The operations and the local provider\<close>

datatype runtimeAsk =
    RtRestart
  | RtExitContainer
  | RtReload "string list"
  | RtSetEnv "string smap"
  | RtLogs
  | RtStatus

datatype runtimeValue =
    RvNone
  | RvApplied "string list"
  | RvLogs string
  | RvStatus processStatusResponse

type_synonym runtimeResult = "goError + runtimeValue"

definition noValue :: "goError + unit \<Rightarrow> runtimeResult" where
  "noValue r = (case r of Inl e \<Rightarrow> Inl e | Inr _ \<Rightarrow> Inr RvNone)"

definition valued :: "('a \<Rightarrow> runtimeValue) \<Rightarrow> goError + 'a \<Rightarrow> runtimeResult" where
  "valued f r = (case r of Inl e \<Rightarrow> Inl e | Inr a \<Rightarrow> Inr (f a))"

definition giving :: "('a \<Rightarrow> 'b) \<Rightarrow> ('a \<times> supervisor) sv \<Rightarrow> ('b \<times> supervisor) sv" where
  "giving f p = bind p (\<lambda>(a, s). Ret (f a, s))"

definition joinedLogs :: "string sv" where
  "joinedLogs = svGet (\<lambda>a. joinWith [CHR 0x0A] (sv_lines a)) SvLines"

fun localRuntime :: "supervisorConfig \<Rightarrow> runtimeAsk \<Rightarrow> supervisor \<Rightarrow> (runtimeResult \<times> supervisor) sv" where
  "localRuntime C RtRestart s = giving noValue (restart C s)"
| "localRuntime C RtExitContainer s = Ret (Inl (Errorf ''container exit is unavailable in the in-process runtime adapter'' []), s)"
| "localRuntime C (RtReload commands) s = giving noValue (runReloadCommands C commands s)"
| "localRuntime C (RtSetEnv env) s = giving (valued RvApplied) (setEnvOp env s)"
| "localRuntime C RtLogs s = bind joinedLogs (\<lambda>t. Ret (Inr (RvLogs t), s))"
| "localRuntime C RtStatus s = bind (supervisorStatus C s) (\<lambda>status. Ret (Inr (RvStatus status), s))"

section \<open>The HTTP client\<close>

record runtimeCodec =
  rc_emptyBody :: string
  rc_commandsBody :: "string list \<Rightarrow> string"
  rc_envBody :: "string smap \<Rightarrow> string"
  rc_readEmpty :: "string \<Rightarrow> unit jsonBody"  \<comment> \<open>at most 1024 bytes, no unknown field\<close>
  rc_readCommands :: "string \<Rightarrow> string list jsonBody"  \<comment> \<open>at most 64 KB, no unknown field\<close>
  rc_readEnv :: "string \<Rightarrow> string smap jsonBody"
  rc_payload :: "runtimePayload \<Rightarrow> string"
  rc_readApplied :: "string \<Rightarrow> goError + string list"
  rc_readStatus :: "string \<Rightarrow> goError + processStatusResponse"

record httpAnswer =
  ha_err :: "goError option"  \<comment> \<open>of the exchange\<close>
  ha_status :: nat
  ha_body :: string
  ha_readErr :: "goError option"  \<comment> \<open>while reading the body\<close>

datatype httpAsk = HttpDo string string "string option"  \<comment> \<open>method, URL, JSON body\<close>

type_synonym 'a http = "(httpAsk, httpAnswer, 'a) prog"

definition runtimeURL :: "string \<Rightarrow> string \<Rightarrow> string" where
  "runtimeURL baseURL operation = trimRightSet ''/'' baseURL @ ''/internal/'' @ operation"

definition zeroStatus :: processStatusResponse where
  "zeroStatus = \<lparr>pr_AttemptID = 0, pr_AttemptStarted = 0, pr_Configured = False, pr_Running = False, pr_Port = [], pr_PortReachable = False,
     pr_ActionsEnabled = False, pr_ActionsReady = False, pr_ActionsTokenExpiresAt = 0, pr_SourceRevision = 0, pr_SourceDigest = [],
     pr_SyncEncodings = []\<rparr>"

definition rejected :: "string \<Rightarrow> string \<Rightarrow> goError" where
  "rejected operation raw = Errorf ''runtime supervisor %s rejected request: %s'' [operation, trimSpace raw]"

text \<open>\<open>decode\<close> reads a response that is not empty; \<open>missing\<close> is what an empty one leaves.\<close>

definition call :: "string \<Rightarrow> string \<Rightarrow> string \<Rightarrow> string option \<Rightarrow> (string \<Rightarrow> goError + 'a) \<Rightarrow> 'a \<Rightarrow> (goError + 'a) http" where
  "call baseURL verb operation body decode missing =
     Ask (HttpDo verb (runtimeURL baseURL operation) body) (\<lambda>a. Ret
       (case ha_err a of
          Some e \<Rightarrow> Inl (Wrapf ''runtime supervisor %s: %w'' [operation] e)
        | None \<Rightarrow>
            (case ha_readErr a of
               Some e \<Rightarrow> Inl e
             | None \<Rightarrow>
                 let raw = take 1048576 (ha_body a) in
                 if ha_status a \<noteq> 200 then Inl (rejected operation raw)
                 else if raw \<noteq> [] then decode raw
                 else Inr missing)))"

definition callLogs :: "string \<Rightarrow> (goError + string) http" where
  "callLogs baseURL =
     Ask (HttpDo ''GET'' (runtimeURL baseURL ''logs'') None) (\<lambda>a. Ret
       (case ha_err a of
          Some e \<Rightarrow> Inl e
        | None \<Rightarrow>
            (case ha_readErr a of
               Some e \<Rightarrow> Inl e
             | None \<Rightarrow>
                 let raw = take 524288 (ha_body a) in
                 if ha_status a \<noteq> 200 then Inl (Errorf ''runtime supervisor logs: %s'' [trimSpace raw]) else Inr raw)))"

definition mapped :: "('a \<Rightarrow> 'b) \<Rightarrow> 'a http \<Rightarrow> 'b http" where
  "mapped f p = bind p (\<lambda>a. Ret (f a))"

definition ignoring :: "string \<Rightarrow> goError + unit" where
  "ignoring raw = Inr ()"

fun httpRuntimeClient :: "runtimeCodec \<Rightarrow> string \<Rightarrow> runtimeAsk \<Rightarrow> runtimeResult http" where
  "httpRuntimeClient K u RtRestart = mapped noValue (call u ''POST'' ''restart'' (Some (rc_emptyBody K)) ignoring ())"
| "httpRuntimeClient K u RtExitContainer = mapped noValue (call u ''POST'' ''exit'' (Some (rc_emptyBody K)) ignoring ())"
| "httpRuntimeClient K u (RtReload commands) = mapped noValue (call u ''POST'' ''reload'' (Some (rc_commandsBody K commands)) ignoring ())"
| "httpRuntimeClient K u (RtSetEnv env) = mapped (valued RvApplied) (call u ''POST'' ''env'' (Some (rc_envBody K env)) (rc_readApplied K) [])"
| "httpRuntimeClient K u RtLogs = mapped (valued RvLogs) (callLogs u)"
| "httpRuntimeClient K u RtStatus = mapped (valued RvStatus) (call u ''GET'' ''status'' None (rc_readStatus K) zeroStatus)"

section \<open>Client and server together\<close>

text \<open>The pattern of \<^verbatim>\<open>newRuntimeSupervisorServer\<close> that a path matches, with the body decoded under its limit.\<close>

definition routeOf :: "runtimeCodec \<Rightarrow> string \<Rightarrow> string \<Rightarrow> runtimeRoute option" where
  "routeOf K path body =
     (if path = ''/internal/restart'' then Some RouteRestart
      else if path = ''/internal/exit'' then Some (RouteExit (rc_readEmpty K body))
      else if path = ''/internal/reload'' then Some (RouteReload (rc_readCommands K body))
      else if path = ''/internal/env'' then Some (RouteEnv (rc_readEnv K body))
      else if path = ''/internal/logs'' then Some RouteLogs
      else if path = ''/internal/status'' then Some RouteStatus
      else None)"

text \<open>What is sent: \<^verbatim>\<open>writeJSON\<close> and \<^verbatim>\<open>http.Error\<close> end the body with a line break.\<close>

definition sentReply :: "runtimeCodec \<Rightarrow> runtimeReply \<Rightarrow> nat \<times> string" where
  "sentReply K reply =
     (case reply of
        RtJSON status p \<Rightarrow> (status, rc_payload K p @ [CHR 0x0A])
      | RtError status e \<Rightarrow> (status, errorText e @ [CHR 0x0A])
      | RtText t \<Rightarrow> (200, t))"

definition serveHTTP :: "runtimeCodec \<Rightarrow> supervisorConfig \<Rightarrow> string \<Rightarrow> string \<Rightarrow> string \<Rightarrow> supervisor \<Rightarrow> ((nat \<times> string) \<times> supervisor) sv" where
  "serveHTTP K C verb path body s =
     (case routeOf K path body of
        None \<Rightarrow> Ret ((404, ''404 page not found'' @ [CHR 0x0A]), s)
      | Some route \<Rightarrow> giving (sentReply K) (runtimeServer C verb route s))"

text \<open>A client whose exchanges are answered by the supervisor that listens at the base URL.\<close>

primrec overHTTP :: "runtimeCodec \<Rightarrow> supervisorConfig \<Rightarrow> string \<Rightarrow> 'a http \<Rightarrow> supervisor \<Rightarrow> ('a \<times> supervisor) sv" where
  "overHTTP K C u (Ret x) = (\<lambda>s. Ret (x, s))"
| "overHTTP K C u (Ask q k) = (\<lambda>s. case q of HttpDo verb url body \<Rightarrow>
     bind (serveHTTP K C verb (drop (length (trimRightSet ''/'' u)) url) (case body of Some b \<Rightarrow> b | None \<Rightarrow> []) s) (\<lambda>((status, sent), s').
       overHTTP K C u (k \<lparr>ha_err = None, ha_status = status, ha_body = sent, ha_readErr = None\<rparr>) s'))"

section \<open>Handlers of the control plane\<close>

type_synonym 'a rt = "(runtimeAsk, runtimeResult, 'a) prog"

datatype controlValue =
    CvRestarted
  | CvEnvUpdated "string list" bool
  | CvOK
  | CvReady bool bool "int option"  \<comment> \<open>enabled, ready, expiry\<close>

datatype controlReply = CrJSON nat controlValue | CrError nat goError | CrText string

text \<open>The error of a result; no caller looks at the value of \<^verbatim>\<open>Restart\<close>.\<close>

definition handleRestart :: "agentConfig \<Rightarrow> string \<Rightarrow> string \<Rightarrow> controlReply rt" where
  "handleRestart C verb token =
     (if verb \<noteq> ''POST'' then Ret (CrError 405 (Errorf ''method not allowed'' []))
      else (case authorizeControl C token of
        Some (status, e) \<Rightarrow> Ret (CrError status e)
      | None \<Rightarrow>
          Ask RtRestart (\<lambda>r. Ret (case r of Inl e \<Rightarrow> CrError 500 e | Inr _ \<Rightarrow> CrJSON 200 CvRestarted))))"

record envRequest =
  eq_Env :: "string smap"
  eq_Restart :: bool

text \<open>\<open>body\<close> is what \<^verbatim>\<open>json.Decoder\<close> makes of the first megabyte.\<close>

definition handleEnv :: "agentConfig \<Rightarrow> string \<Rightarrow> string \<Rightarrow> goError + envRequest \<Rightarrow> controlReply rt" where
  "handleEnv C verb token body =
     (if verb \<noteq> ''POST'' then Ret (CrError 405 (Errorf ''method not allowed'' []))
      else (case authorizeControl C token of
        Some (status, e) \<Rightarrow> Ret (CrError status e)
      | None \<Rightarrow>
        (case body of
           Inl e \<Rightarrow> Ret (CrError 400 (Errorf ''invalid JSON body: %s'' [errorText e]))
         | Inr req \<Rightarrow>
             Ask (RtSetEnv (eq_Env req)) (\<lambda>r.
             case r of
               Inl e \<Rightarrow> Ret (CrError 400 e)
             | Inr v \<Rightarrow>
                 let applied = (case v of RvApplied names \<Rightarrow> names | _ \<Rightarrow> []) in
                 if eq_Restart req
                 then Ask RtRestart (\<lambda>r'. Ret (case r' of
                        Inl e \<Rightarrow> CrError 500 (Errorf ''restart: %s'' [errorText e])
                      | Inr _ \<Rightarrow> CrJSON 200 (CvEnvUpdated applied True)))
                 else Ret (CrJSON 200 (CvEnvUpdated applied False))))))"

definition handleLogs :: "agentConfig \<Rightarrow> string \<Rightarrow> controlReply rt" where
  "handleLogs C token =
     (case authorizeControl C token of
        Some (status, e) \<Rightarrow> Ret (CrError status e)
      | None \<Rightarrow> Ask RtLogs (\<lambda>r. Ret (case r of
            Inl e \<Rightarrow> CrError 502 e
          | Inr v \<Rightarrow> CrText (case v of RvLogs t \<Rightarrow> t | _ \<Rightarrow> []))))"

text \<open>The state of the actions token, as \<^verbatim>\<open>snapshot\<close> reports it.\<close>

record actionsSnapshot =
  as_Enabled :: bool
  as_Ready :: bool
  as_ExpiresAt :: "int option"

definition handleHealthz :: controlReply where
  "handleHealthz = CrJSON 200 CvOK"

definition handleReadyz :: "actionsSnapshot \<Rightarrow> controlReply" where
  "handleReadyz a = CrJSON (if as_Ready a then 200 else 503) (CvReady (as_Enabled a) (as_Ready a) (as_ExpiresAt a))"

text \<open>The revision the workspace is at, when its files are those of the manifest and no reload is owed.\<close>

definition currentSource :: "agentConfig \<Rightarrow> (64 word \<times> string) option ag" where
  "currentSource C =
     bind (openWorkspaceRoot (gc_WorkDir C)) (\<lambda>opened.
     case opened of
       Inl e \<Rightarrow> Ret None
     | Inr _ \<Rightarrow>
         bind (readWorkspaceManifest (gc_unmarshal C)) (\<lambda>read.
         case read of
           Inr (Some manifest) \<Rightarrow>
             if wm_PendingReloadCommands manifest = []
             then bind (verifyWorkspaceManifest manifest) (\<lambda>v.
                    Ret (if v = Inr () then Some (wm_SourceRevision manifest, wm_SourceDigest manifest) else None))
             else Ret None
         | _ \<Rightarrow> Ret None))"

definition syncEncodings :: "string list" where "syncEncodings = [''utf-8'', ''base64'']"

text \<open>\<open>status\<close> is what the runtime answered.\<close>

definition handleStatus ::
    "agentConfig \<Rightarrow> string \<Rightarrow> string \<Rightarrow> goError + processStatusResponse \<Rightarrow> actionsSnapshot \<Rightarrow> processStatusResponse agReply ag" where
  "handleStatus C verb token status actions =
     (if verb \<noteq> ''GET'' then Ret (AgError 405 (Errorf ''method not allowed'' []))
      else (case authorizeControl C token of
        Some (code, e) \<Rightarrow> Ret (AgError code e)
      | None \<Rightarrow>
        (case status of
           Inl e \<Rightarrow> Ret (AgError 502 e)
         | Inr st \<Rightarrow>
             bind (currentSource C) (\<lambda>current.
             let st = (case current of None \<Rightarrow> st | Some (revision, digest) \<Rightarrow> st\<lparr>pr_SourceRevision := revision, pr_SourceDigest := digest\<rparr>) in
             Ret (AgJSON 200 (st\<lparr>pr_SyncEncodings := syncEncodings, pr_ActionsEnabled := as_Enabled actions, pr_ActionsReady := as_Ready actions,
               pr_ActionsTokenExpiresAt := (case as_ExpiresAt actions of None \<Rightarrow> pr_ActionsTokenExpiresAt st | Some t \<Rightarrow> t div 1000000)\<rparr>))))))"

end
