(* ===== verification/Agent_Runtime_Contract.thy ===== *)
theory Agent_Runtime_Contract
  imports Agent_Runtime
begin

text \<open>
  The HTTP client of the runtime together with the server of the supervisor behaves as the supervisor called in the same
  process; a request to change variables and restart takes effect in the process it starts. The last section evaluates
  the statements about the supervisor on concrete runs.
\<close>

section \<open>The two providers\<close>

definition operationName :: "runtimeAsk \<Rightarrow> string" where
  "operationName q = (case q of RtRestart \<Rightarrow> ''restart'' | RtExitContainer \<Rightarrow> ''exit'' | RtReload _ \<Rightarrow> ''reload'' | RtSetEnv _ \<Rightarrow> ''env''
     | RtLogs \<Rightarrow> ''logs'' | RtStatus \<Rightarrow> ''status'')"

text \<open>The operations both providers have, within the limits of the server, and with bodies that survive the codec: a reload of 1 to 32
  commands, none blank or longer than the limit; variables that read back, and the names that come back for them. The
  container's exit is none of them: the local runtime refuses it.\<close>

definition carried :: "runtimeCodec \<Rightarrow> runtimeAsk \<Rightarrow> bool" where
  "carried K q \<longleftrightarrow>
     (case q of
        RtReload cs \<Rightarrow> rc_readCommands K (rc_commandsBody K cs) = BodyValue cs \<and> cs \<noteq> [] \<and> length cs \<le> 32 \<and> \<not> list_ex commandInvalid cs
      | RtSetEnv env \<Rightarrow> rc_readEnv K (rc_envBody K env) = BodyValue env
          \<and> (let names = sort (map trimSpace (mkeys env)) in
               rc_readApplied K (take 1048576 (rc_payload K (PlApplied names) @ [CHR 0x0A])) = Inr names)
      | RtExitContainer \<Rightarrow> False
      | _ \<Rightarrow> True)"

text \<open>The encoding of the status fits into the megabyte that is read, and reads back as the status. That is not so of every status:
  \<^verbatim>\<open>encoding/json\<close> replaces what is not valid UTF-8.\<close>

definition statusCarried :: "runtimeCodec \<Rightarrow> processStatusResponse \<Rightarrow> bool" where
  "statusCarried K st \<longleftrightarrow> length (rc_payload K (PlStatus st)) < 1048576 \<and> rc_readStatus K (rc_payload K (PlStatus st) @ [CHR 0x0A]) = Inr st"

text \<open>A result as it arrives over HTTP: an error as the text of the rejection, the log up to half a megabyte, and a status as itself when
  it is carried, else as what the codec makes of the megabyte that is read.\<close>

definition asSeen :: "runtimeCodec \<Rightarrow> runtimeAsk \<Rightarrow> runtimeResult \<Rightarrow> runtimeResult" where
  "asSeen K q r =
     (case r of
        Inl e \<Rightarrow> Inl (rejected (operationName q) (take 1048576 (errorText e @ [CHR 0x0A])))
      | Inr (RvLogs t) \<Rightarrow> Inr (RvLogs (take 524288 t))
      | Inr (RvStatus st) \<Rightarrow>
          if statusCarried K st then Inr (RvStatus st)
          else valued RvStatus (rc_readStatus K (take 1048576 (rc_payload K (PlStatus st) @ [CHR 0x0A])))
      | Inr v \<Rightarrow> Inr v)"

lemma url_path: "drop (length (trimRightSet ''/'' u)) (runtimeURL u operation) = ''/internal/'' @ operation"
  by (simp add: runtimeURL_def)

lemma routes:
  "routeOf K (''/internal/'' @ ''restart'') b = Some RouteRestart"
  "routeOf K (''/internal/'' @ ''reload'') b = Some (RouteReload (rc_readCommands K b))"
  "routeOf K (''/internal/'' @ ''env'') b = Some (RouteEnv (rc_readEnv K b))"
  "routeOf K (''/internal/'' @ ''logs'') b = Some RouteLogs"
  "routeOf K (''/internal/'' @ ''status'') b = Some RouteStatus"
  by (simp_all add: routeOf_def)

lemma giving_giving: "giving g (giving f p) = giving (\<lambda>a. g (f a)) p"
  by (simp add: giving_def bind_assoc case_prod_unfold)

lemma overHTTP_ask:
  "overHTTP K C u (Ask (HttpDo verb (runtimeURL u operation) body) (\<lambda>a. Ret (f a))) s =
     giving (\<lambda>r. f \<lparr>ha_err = None, ha_status = fst r, ha_body = snd r, ha_readErr = None\<rparr>)
       (serveHTTP K C verb (''/internal/'' @ operation) (case body of Some b \<Rightarrow> b | None \<Rightarrow> []) s)"
  by (simp add: url_path giving_def case_prod_unfold)

lemma mapped_call:
  "mapped g (call u verb operation body decode missing) =
     Ask (HttpDo verb (runtimeURL u operation) body) (\<lambda>a. Ret (g (case ha_err a of
          Some e \<Rightarrow> Inl (Wrapf ''runtime supervisor %s: %w'' [operation] e)
        | None \<Rightarrow>
            (case ha_readErr a of
               Some e \<Rightarrow> Inl e
             | None \<Rightarrow>
                 let raw = take 1048576 (ha_body a) in
                 if ha_status a \<noteq> 200 then Inl (rejected operation raw)
                 else if raw \<noteq> [] then decode raw
                 else Inr missing))))"
  by (simp add: mapped_def call_def)

lemma overHTTP_call:
  "overHTTP K C u (mapped g (call u verb operation body decode missing)) s =
     giving (\<lambda>(status, sent). g (if status \<noteq> 200 then Inl (rejected operation (take 1048576 sent))
         else if take 1048576 sent \<noteq> [] then decode (take 1048576 sent) else Inr missing))
       (serveHTTP K C verb (''/internal/'' @ operation) (case body of Some b \<Rightarrow> b | None \<Rightarrow> []) s)"
  unfolding mapped_call overHTTP_ask by (simp add: Let_def case_prod_unfold)

lemma answered_sent:
  assumes "status \<noteq> 200"
  shows "(\<lambda>(code, sent). g (if code \<noteq> 200 then Inl (rejected operation (take 1048576 sent))
         else if take 1048576 sent \<noteq> [] then decode (take 1048576 sent) else Inr missing)) (sentReply K (answered status f r)) =
      (case r of Inl e \<Rightarrow> g (Inl (rejected operation (take 1048576 (errorText e @ [CHR 0x0A]))))
       | Inr a \<Rightarrow> g (decode (take 1048576 (rc_payload K (f a) @ [CHR 0x0A]))))"
  using assms by (cases r) (simp_all add: answered_def sentReply_def)

lemma giving_answering: "giving f (svAnswering status g oper s) = giving (\<lambda>r. f (answered status g r)) (oper s)"
  by (simp add: giving_def svAnswering_def bind_assoc case_prod_unfold)

lemma via_answering:
  assumes "routeOf K (''/internal/'' @ operation) (case body of Some b \<Rightarrow> b | None \<Rightarrow> []) = Some route"
    and "runtimeServer C verb route s = svAnswering status f oper s" "status \<noteq> 200"
  shows "overHTTP K C u (mapped g (call u verb operation body decode missing)) s =
     giving (\<lambda>r. case r of Inl e \<Rightarrow> g (Inl (rejected operation (take 1048576 (errorText e @ [CHR 0x0A]))))
       | Inr a \<Rightarrow> g (decode (take 1048576 (rc_payload K (f a) @ [CHR 0x0A])))) (oper s)"
  unfolding overHTTP_call serveHTTP_def assms(1,2) option.case giving_giving giving_answering answered_sent [OF assms(3)] by (rule refl)

lemma giving_cong: "(\<And>a. f a = g a) \<Longrightarrow> giving f p = giving g p"
  by (simp add: giving_def)

lemma http_runtime_same:
  assumes "carried K q"
  shows "overHTTP K C u (httpRuntimeClient K u q) s = giving (asSeen K q) (localRuntime C q s)"
proof (cases q)
  case RtRestart
  have "runtimeServer C ''POST'' RouteRestart s = svAnswering 500 (\<lambda>_. PlRestarted) (restart C) s"
    by (simp add: runtimeServer_def runtimeMethod_def)
  note via = via_answering [OF routes(1) this]
  show ?thesis unfolding RtRestart httpRuntimeClient.simps localRuntime.simps giving_giving
    by (subst via) (auto simp: asSeen_def noValue_def ignoring_def operationName_def intro!: giving_cong split: sum.split)
next
  case (RtReload cs)
  have c: "rc_readCommands K (rc_commandsBody K cs) = BodyValue cs" "cs \<noteq> []" "\<not> 32 < length cs" "\<not> list_ex commandInvalid cs"
    using assms RtReload by (simp_all add: carried_def)
  have r: "routeOf K (''/internal/'' @ ''reload'') (case Some (rc_commandsBody K cs) of Some b \<Rightarrow> b | None \<Rightarrow> []) = Some (RouteReload (BodyValue cs))"
    using routes(2) c(1) by simp
  have "runtimeServer C ''POST'' (RouteReload (BodyValue cs)) s = svAnswering 500 (\<lambda>_. PlReloaded) (runReloadCommands C cs) s"
    using c(2-4) by (simp add: runtimeServer_def runtimeMethod_def decodeBoundedJSON_def)
  note via = via_answering [OF r this]
  show ?thesis unfolding RtReload httpRuntimeClient.simps localRuntime.simps giving_giving
    by (subst via) (auto simp: asSeen_def noValue_def ignoring_def operationName_def intro!: giving_cong split: sum.split)
next
  case (RtSetEnv env)
  have c: "rc_readEnv K (rc_envBody K env) = BodyValue env"
    using assms RtSetEnv by (simp add: carried_def)
  have read: "rc_readApplied K (take 1048576 (rc_payload K (PlApplied names) @ [CHR 0x0A])) = Inr names"
    if "names = sort (map trimSpace (mkeys env))" for names
    using assms RtSetEnv that by (simp add: carried_def Let_def del: take_append)
  have sets: "setEnvOp env s = Ret r \<Longrightarrow> fst r = Inr names \<Longrightarrow> names = sort (map trimSpace (mkeys env))" for r names
    by (cases "setEnv env (su_customEnv s)") (auto simp: setEnvOp_def dest: setEnv_cases(2))
  have r: "routeOf K (''/internal/'' @ ''env'') (case Some (rc_envBody K env) of Some b \<Rightarrow> b | None \<Rightarrow> []) = Some (RouteEnv (BodyValue env))"
    using routes(3) c by simp
  have "runtimeServer C ''POST'' (RouteEnv (BodyValue env)) s = svAnswering 400 PlApplied (setEnvOp env) s"
    by (simp add: runtimeServer_def runtimeMethod_def decodeBoundedJSON_def)
  note via = via_answering [OF r this]
  show ?thesis unfolding RtSetEnv httpRuntimeClient.simps localRuntime.simps giving_giving
  proof (subst via)
    obtain r where r: "setEnvOp env s = Ret r" by (simp add: setEnvOp_def)
    show "giving (\<lambda>r. case r of Inl e \<Rightarrow> valued RvApplied (Inl (rejected ''env'' (take 1048576 (errorText e @ [CHR 0x0A]))))
         | Inr a \<Rightarrow> valued RvApplied (rc_readApplied K (take 1048576 (rc_payload K (PlApplied a) @ [CHR 0x0A])))) (setEnvOp env s)
       = giving (\<lambda>a. asSeen K (RtSetEnv env) (valued RvApplied a)) (setEnvOp env s)"
    proof (cases "fst r")
      case (Inl e)
      then show ?thesis using r by (simp add: giving_def asSeen_def valued_def operationName_def case_prod_unfold)
    next
      case (Inr names)
      from read [OF sets [OF r Inr]] show ?thesis
        using r Inr by (simp add: giving_def asSeen_def valued_def case_prod_unfold del: take_append)
    qed
  qed simp
next
  case RtStatus
  have c: "rc_readStatus K (take 1048576 (rc_payload K (PlStatus st) @ [CHR 0x0A])) = Inr st" if "statusCarried K st" for st
  proof -
    have "take 1048576 (rc_payload K (PlStatus st) @ [CHR 0x0A]) = rc_payload K (PlStatus st) @ [CHR 0x0A]"
      using that by (intro take_all) (simp add: statusCarried_def)
    then show ?thesis using that by (simp add: statusCarried_def del: take_append)
  qed
  have "runtimeServer C ''GET'' RouteStatus s = bind (supervisorStatus C s) (\<lambda>status. Ret (RtJSON 200 (PlStatus status), s))"
    by (simp add: runtimeServer_def runtimeMethod_def)
  then show ?thesis unfolding RtStatus httpRuntimeClient.simps overHTTP_call serveHTTP_def routes
    using c by (auto simp: giving_def bind_assoc sentReply_def valued_def asSeen_def fun_eq_iff simp del: take_append
        intro!: arg_cong [where f = "bind _"])
next
  case RtLogs
  have "runtimeServer C ''GET'' RouteLogs s = bind (svGet sv_lines SvLines) (\<lambda>ls. Ret (RtText (joinWith [CHR 0x0A] ls), s))"
    by (simp add: runtimeServer_def runtimeMethod_def)
  then show ?thesis unfolding RtLogs httpRuntimeClient.simps mapped_def callLogs_def bind.simps overHTTP_ask serveHTTP_def routes
    by (simp add: giving_def bind_assoc sentReply_def valued_def asSeen_def joinedLogs_def svGet_def)
qed (use assms in \<open>simp add: carried_def\<close>)

text \<open>C39: The HTTP client of the coordinator, talking to the server of the supervisor, does to the supervisor what the local runtime does,
  with the same result, for a restart, the log, the status, variables whose request and names survive the codec, and a reload of
  1 to 32 commands, none blank or too long, that survives it. An error arrives as the text of the rejection, the log up to its size
  limit, and the status as itself when its own encoding is short enough and reads back. Not covered are the container's exit, which
  the local runtime refuses, and reloads that the server rejects and the local runtime would run.\<close>

theorem http_runtime_equivalent:
  assumes "carried K q"
  shows "overHTTP K C u (httpRuntimeClient K u q) s = giving (asSeen K q) (localRuntime C q s)"
  using assms by (rule http_runtime_same)

section \<open>Setting variables and restarting\<close>

text \<open>A handler whose calls of the runtime are answered by a provider; \<open>among n\<close> happens to the supervisor before the call number \<open>n\<close>.\<close>

primrec overRuntime :: "(runtimeAsk \<Rightarrow> supervisor \<Rightarrow> (runtimeResult \<times> supervisor) sv) \<Rightarrow> (nat \<Rightarrow> supervisor \<Rightarrow> supervisor sv) \<Rightarrow>
    'a rt \<Rightarrow> nat \<Rightarrow> supervisor \<Rightarrow> ('a \<times> supervisor) sv" where
  "overRuntime provider among (Ret x) = (\<lambda>n s. Ret (x, s))"
| "overRuntime provider among (Ask q k) = (\<lambda>n s. bind (among n s) (\<lambda>s.
     bind (provider q s) (\<lambda>(r, s'). overRuntime provider among (k r) (Suc n) s')))"

lemma overRuntime_cong:
  "onlyAsks P p \<Longrightarrow> (\<And>q s. P q \<Longrightarrow> provider q s = provider' q s) \<Longrightarrow> overRuntime provider among p n s = overRuntime provider' among p n s"
proof (induction p arbitrary: n s)
  case (Ask q k)
  have "overRuntime provider among (k r) m s' = overRuntime provider' among (k r) m s'" for r m s'
    by (rule Ask.IH [OF rangeI]) (use Ask.prems in auto)
  then show ?case using Ask.prems by simp
qed simp

text \<open>The coordinator's provider, with other requests served in between.\<close>

abbreviation coordinated :: "runtimeCodec \<Rightarrow> supervisorConfig \<Rightarrow> string \<Rightarrow> (nat \<Rightarrow> (string \<times> runtimeRoute) list) \<Rightarrow> 'a rt \<Rightarrow> supervisor \<Rightarrow>
    ('a \<times> supervisor) sv" where
  "coordinated K C u others p s \<equiv> overRuntime (\<lambda>q. overHTTP K C u (httpRuntimeClient K u q)) (\<lambda>n. serveAll C (others n)) p 0 s"

definition setsVariables :: "runtimeRoute \<Rightarrow> bool" where
  "setsVariables route \<longleftrightarrow> (case route of RouteEnv b \<Rightarrow> True | _ \<Rightarrow> False)"

lemma keeps_variables:
  assumes "\<not> setsVariables route" and "su_customEnv s = m"
  shows "keeps (\<lambda>s'. su_customEnv s' = m) (runtimeServer C verb route s)"
proof -
  have start: "wp (\<lambda>_ _. True) (startFrom C s') (\<lambda>r _. su_customEnv (snd r) = m) h'" if "su_customEnv s' = m" for s' h'
    unfolding startFrom_def using that
    by (auto simp: wp_bind split: sum.split intro!: wp_mono [OF env_startLocked [of C s' h']])
  have "keeps (\<lambda>s'. su_customEnv s' = m) (restart C s)"
    unfolding keeps_def restart_def wp_bind
    using assms(2) by (intro allI) (rule wp_mono [OF env_stopLocked], rule start, simp)
  then show ?thesis
    using assms unfolding runtimeServer_def
    by (auto intro!: keeps_Ret keeps_answering keeps_bind simp: runReloadCommands_def setsVariables_def split: runtimeRoute.split sum.split)
qed

lemma serveAll_variables:
  "list_all (\<lambda>(verb, route). \<not> setsVariables route) reqs \<Longrightarrow> su_customEnv s = m \<Longrightarrow>
     wp (\<lambda>_ _. True) (serveAll C reqs s) (\<lambda>s' _. su_customEnv s' = m) h"
proof (induction reqs arbitrary: s h)
  case (Cons req reqs s h)
  have "wp (\<lambda>_ _. True) (runtimeServer C (fst req) (snd req) s) (\<lambda>r _. su_customEnv (snd r) = m) h"
    using keeps_variables [of "snd req" s m C "fst req"] Cons.prems by (simp add: keeps_def split_beta)
  then show ?case using Cons by (cases req) (auto simp: wp_bind intro: wp_mono)
qed simp

text \<open>The process runs with an environment in which every variable that was set has its value.\<close>

definition startedWith :: "supervisorConfig \<Rightarrow> string smap \<Rightarrow> supervisor \<Rightarrow> (svAsk, svAnswer) history \<Rightarrow> bool" where
  "startedWith C vars s h \<longleftrightarrow> (\<exists>env a. (SvStart (vc_StartCommand C) (vc_WorkDir C) env, a) \<in> set h \<and> su_cmd s = Some (sv_pid a)
     \<and> (\<forall>n v. map_of vars n = Some v \<longrightarrow> envValue n env = Some v))"

lemma startLocked_env:
  assumes "\<And>base n v. map_of vars n = Some v \<Longrightarrow> envValue n (mergeChildEnv base (su_customEnv s) (vc_Port C)) = Some v"
  shows "wp (\<lambda>_ _. True) (startLocked C s) (\<lambda>r h. case r of Inl e \<Rightarrow> True | Inr s' \<Rightarrow> startedWith C vars s' h) h"
  unfolding startLocked_def processEnv_def
  by (auto simp: wp_bindE wp_bind wp_svDo wp_svGet wp_svTell startedWith_def split: option.split)
     (blast intro: assms)

lemma restart_env:
  assumes "\<And>base n v. map_of vars n = Some v \<Longrightarrow> envValue n (mergeChildEnv base (su_customEnv s) (vc_Port C)) = Some v"
    and "vc_StartCommand C \<noteq> []"
  shows "wp (\<lambda>_ _. True) (restart C s) (\<lambda>r h. fst r = Inr () \<longrightarrow> startedWith C vars (snd r) h) h"
proof -
  have "wp (\<lambda>_ _. True) (startFrom C s') (\<lambda>r h. fst r = Inr () \<longrightarrow> startedWith C vars (snd r) h) h'"
    if "su_customEnv s' = su_customEnv s" for s' h'
  proof -
    have "wp (\<lambda>_ _. True) (startLocked C s') (\<lambda>r h. case r of Inl e \<Rightarrow> True | Inr s' \<Rightarrow> startedWith C vars s' h) h'"
      using that assms(1) by (intro startLocked_env) simp
    then show ?thesis unfolding startFrom_def using assms(2)
      by (auto simp: wp_bind intro: wp_mono split: sum.splits)
  qed
  then show ?thesis unfolding restart_def wp_bind by (intro wp_mono [OF env_stopLocked])
qed

lemma setEnv_any:
  assumes "setEnv env m0 = Inr (applied, m1)"
  obtains m' where "setEnv env m = Inr (applied, m')"
proof -
  have "firstErr checkEnvName (mkeys env) = Inr ()"
    using assms by (cases "firstErr checkEnvName (mkeys env)") (simp_all add: setEnv_def andThen_def split: if_splits)
  then show thesis using assms that by (simp add: setEnv_def andThen_def split: if_splits)
qed

lemma http_setEnv:
  assumes "carried K (RtSetEnv env)" and "setEnv env (su_customEnv s) = Inr (applied, m')"
  shows "overHTTP K C u (httpRuntimeClient K u (RtSetEnv env)) s = Ret (Inr (RvApplied applied), s\<lparr>su_customEnv := m'\<rparr>)"
  unfolding http_runtime_same [OF assms(1)] by (simp add: setEnvOp_def assms(2) giving_def valued_def asSeen_def)

lemma http_restart:
  "overHTTP K C u (httpRuntimeClient K u RtRestart) s = giving (\<lambda>r. asSeen K RtRestart (noValue r)) (restart C s)"
proof -
  have "carried K RtRestart" by (simp add: carried_def)
  from http_runtime_same [OF this] show ?thesis by (simp add: giving_giving)
qed

text \<open>The handler, once it is past its checks.\<close>

lemma env_coordinated:
  assumes "authorizeControl A token = None" "eq_Restart req" "carried K (RtSetEnv (eq_Env req))" "setEnv (eq_Env req) m0 = Inr (applied, m1)"
    and "envKept s" "list_all (\<lambda>(verb, route). \<not> setsVariables route) (others 1)"
    and restarted: "\<And>s2 h. envKept s2 \<Longrightarrow> (\<And>n v. map_of (assigned (eq_Env req)) n = Some v \<Longrightarrow> map_of (su_customEnv s2) n = Some v) \<Longrightarrow>
      wp (\<lambda>_ _. True) (restart C s2) (\<lambda>r h. fst r = Inr () \<longrightarrow> Q (snd r) h) h"
  shows "wp (\<lambda>_ _. True) (coordinated K C u others (handleEnv A ''POST'' token (Inr req)) s)
     (\<lambda>r h. fst r = CrJSON 200 (CvEnvUpdated applied True) \<and> Q (snd r) h \<or> (\<exists>e. fst r = CrError 500 e)) h"
proof -
  let ?P = "\<lambda>r h. fst r = CrJSON 200 (CvEnvUpdated applied True) \<and> Q (snd r) h \<or> (\<exists>e. fst r = CrError 500 e)"
  have last: "wp (\<lambda>_ _. True) (bind (overHTTP K C u (httpRuntimeClient K u RtRestart) s2) (\<lambda>(r, s'). overRuntime p am
        (Ret (case r of Inl e \<Rightarrow> CrError 500 (Errorf ''restart: %s'' [errorText e]) | Inr _ \<Rightarrow> CrJSON 200 (CvEnvUpdated applied True))) k s')) ?P h"
    if s2: "envKept s2" "\<And>n v. map_of (assigned (eq_Env req)) n = Some v \<Longrightarrow> map_of (su_customEnv s2) n = Some v" for s2 p am k h
    unfolding http_restart giving_def wp_bind
    by (rule wp_mono [OF restarted [OF s2]]) (auto simp: noValue_def asSeen_def split: sum.splits)
  have second: "wp (\<lambda>_ _. True) (bind (serveAll C (others 1) (s1\<lparr>su_customEnv := m'\<rparr>)) (\<lambda>s2.
        bind (overHTTP K C u (httpRuntimeClient K u RtRestart) s2) (\<lambda>(r, s'). overRuntime p am
        (Ret (case r of Inl e \<Rightarrow> CrError 500 (Errorf ''restart: %s'' [errorText e]) | Inr _ \<Rightarrow> CrJSON 200 (CvEnvUpdated applied True))) k s'))) ?P h"
    if s1: "envKept s1" "setEnv (eq_Env req) (su_customEnv s1) = Inr (applied, m')" for s1 m' p am k h
  proof -
    have m: "envOk m'" "map_of m' = map_of (su_customEnv s1) ++ map_of (assigned (eq_Env req))"
      using setEnv_cases [OF s1(2)] envOk_fold [of "su_customEnv s1" "eq_Env req"] fold_mput [of "eq_Env req" "su_customEnv s1"] s1(1)
      by (simp_all add: envKept_def)
    show ?thesis
      unfolding wp_bind [of _ "serveAll C (others 1) (s1\<lparr>su_customEnv := m'\<rparr>)"]
    proof (rule wp_mono [OF serveAll_variables [OF assms(6)]], simp, rule last, goal_cases)
      case (1 s2 h2)
      then show ?case using m(1) by (simp add: envKept_def)
    next
      case (2 s2 h2 n v)
      then show ?case using m(2) by simp
    qed
  qed
  have "wp (\<lambda>_ _. True) (serveAll C (others 0) s) (\<lambda>s1 _. envKept s1) h"
    by (rule wp_weaken [OF serveAll_keeps [OF assms(5)]]) simp
  note first = this
  have handler: "handleEnv A ''POST'' token (Inr req) = Ask (RtSetEnv (eq_Env req)) (\<lambda>r. case r of Inl e \<Rightarrow> Ret (CrError 400 e)
      | Inr v \<Rightarrow> let applied = (case v of RvApplied names \<Rightarrow> names | _ \<Rightarrow> []) in
          Ask RtRestart (\<lambda>r'. Ret (case r' of Inl e \<Rightarrow> CrError 500 (Errorf ''restart: %s'' [errorText e]) | Inr _ \<Rightarrow> CrJSON 200 (CvEnvUpdated applied True))))"
    using assms(1,2) unfolding handleEnv_def Let_def by simp
  show ?thesis
    unfolding handler overRuntime.simps(2) wp_bind [of _ "serveAll C (others 0) s"]
  proof (rule wp_mono [OF first], goal_cases)
    case (1 s1 h1)
    obtain m' where m': "setEnv (eq_Env req) (su_customEnv s1) = Inr (applied, m')" using setEnv_any [OF assms(4)] by blast
    show ?case using second [OF 1(2) m'] unfolding http_setEnv [OF assms(3) m'] by (simp add: wp_bind)
  qed
qed

text \<open>C40: A request to set variables and restart, handled by the coordinator over its HTTP client, is answered as an error of the restart, or
  else it has replaced the process by one that was started with the configured command and in whose environment every variable of
  the request has its value. The variables are acceptable and survive the codec, a start command is configured, and whatever else the
  supervisor is asked before the variables are set, and between that and the restart, no request in between sets variables.\<close>

theorem env_restart_takes_effect:
  assumes "authorizeControl A token = None" "eq_Restart req" "vc_StartCommand C \<noteq> []" "envKept s"
    and "setEnv (eq_Env req) [] = Inr (applied, m0)" "carried K (RtSetEnv (eq_Env req))"
    and "list_all (\<lambda>(verb, route). \<not> setsVariables route) (others 1)"
  shows "wp (\<lambda>_ _. True) (coordinated K C u others (handleEnv A ''POST'' token (Inr req)) s)
     (\<lambda>r h. fst r = CrJSON 200 (CvEnvUpdated applied True) \<and> startedWith C (assigned (eq_Env req)) (snd r) h
        \<or> (\<exists>e. fst r = CrError 500 e)) []"
proof (rule env_coordinated [where others = others, OF assms(1,2,6,5,4,7)], goal_cases)
  case (1 s2 h)
  have "envValue n (mergeChildEnv base (su_customEnv s2) (vc_Port C)) = Some v" if "map_of (assigned (eq_Env req)) n = Some v" for base n v
    using mergeChildEnv_value [of "su_customEnv s2" n base "vc_Port C"] that 1 setEnv_cases [OF assms(5)] assigned_name [OF that]
    by (auto simp: envKept_def envOk_plain acceptableName_def isValidRuntimeEnvName_def)
  then show ?case by (rule restart_env [OF _ assms(3)])
qed

text \<open>Without a start command the same request is answered as restarted, and there is no process.\<close>

lemma env_restart_without_command:
  assumes "authorizeControl A token = None" "eq_Restart req" "vc_StartCommand C = []" "envKept s"
    and "setEnv (eq_Env req) [] = Inr (applied, m0)" "carried K (RtSetEnv (eq_Env req))"
    and "list_all (\<lambda>(verb, route). \<not> setsVariables route) (others 1)"
  shows "wp (\<lambda>_ _. True) (coordinated K C u others (handleEnv A ''POST'' token (Inr req)) s)
     (\<lambda>r h. fst r = CrJSON 200 (CvEnvUpdated applied True) \<and> su_cmd (snd r) = None \<or> (\<exists>e. fst r = CrError 500 e)) []"
proof (rule env_coordinated [where others = others, OF assms(1,2,6,5,4,7)], goal_cases)
  case (1 s2 h)
  have "wp (\<lambda>_ _. True) (stopLocked s2) (\<lambda>s' _. su_cmd s' = None) h"
    unfolding stopLocked_def by (simp add: wp_bind wp_svGet wp_svTell split: option.split)
  then show ?case unfolding restart_def startFrom_def wp_bind by (rule wp_mono) (simp add: assms(3))
qed

section \<open>Concrete runs\<close>

definition sampleConfig :: supervisorConfig where
  "sampleConfig = \<lparr>vc_WorkDir = ''/workspace'', vc_StartCommand = ''npm run dev'', vc_Port = ''3000''\<rparr>"

definition sampleWorld :: "(svAsk, svAnswer) world" where
  "sampleWorld h q = \<lparr>sv_err = None, sv_environ = [''RAILGRID_DEV_CONTROL_TOKEN=t'', ''MODE=prod''], sv_pid = 7, sv_attempt = 1,
     sv_output = [], sv_lines = [], sv_ended = False, sv_now = 0\<rparr>"

definition sampleVars :: "string smap" where "sampleVars = [(''MODE'', ''dev'')]"

definition sampleRequests :: "(string \<times> runtimeRoute) list" where
  "sampleRequests = [(''POST'', RouteEnv (BodyValue sampleVars)), (''POST'', RouteRestart)]"

lemma sample_set: "setEnv sampleVars [] = Inr ([''MODE''], sampleVars)"
  by code_simp

theorem runtime_env_reaches_process_witness:
  "envValue ''MODE'' (mergeChildEnv [''RAILGRID_DEV_CONTROL_TOKEN=t'', ''MODE=prod''] sampleVars ''3000'') = Some ''dev''"
proof -
  have "envOk []" by (simp add: envOk_def mkeys_def)
  from runtime_env_reaches_process [OF this sample_set, of "''MODE''" "[''RAILGRID_DEV_CONTROL_TOKEN=t'', ''MODE=prod'']" "''3000''"]
  have "envValue ''MODE'' (mergeChildEnv [''RAILGRID_DEV_CONTROL_TOKEN=t'', ''MODE=prod''] sampleVars ''3000'') =
    orElse (map_of (assigned sampleVars) ''MODE'') (envValue ''MODE'' (mergeChildEnv [''RAILGRID_DEV_CONTROL_TOKEN=t'', ''MODE=prod''] [] ''3000''))" by blast
  also have "\<dots> = Some ''dev''" by code_simp
  finally show ?thesis .
qed

lemma sample_run:
  "snd (run sampleWorld (serveAll sampleConfig sampleRequests newSupervisor) []) =
     \<lparr>su_cmd = Some 7, su_attempt = 1, su_attemptStarted = Some 0, su_customEnv = sampleVars\<rparr>"
  "(SvStart ''npm run dev'' ''/workspace'' [''MODE=dev'', ''PORT=3000''], sampleWorld [] SvNow)
     \<in> set (fst (run sampleWorld (serveAll sampleConfig sampleRequests newSupervisor) []))"
  by code_simp+

text \<open>After the two requests the supervisor holds acceptable variables, and every process was started without the agent's own.\<close>

theorem runtime_env_invariant_witness:
  "(\<exists>s tr. run sampleWorld (serveAll sampleConfig sampleRequests newSupervisor) [] = (tr, s) \<and> su_customEnv s = sampleVars
     \<and> obeys (\<lambda>h q. \<forall>c d env. q = SvStart c d env \<or> q = SvRun c d env \<longrightarrow> (\<forall>e \<in> set env. \<not> hasPrefix e ''RAILGRID_DEV_'')) 0 tr
     \<and> (SvStart ''npm run dev'' ''/workspace'' [''MODE=dev'', ''PORT=3000''], sampleWorld [] SvNow) \<in> set tr)"
proof -
  obtain tr s where r: "run sampleWorld (serveAll sampleConfig sampleRequests newSupervisor) [] = (tr, s)" by force
  show ?thesis
    using wp_trace [OF runtime_env_invariant r] sample_run r by (intro exI [of _ s] exI [of _ tr]) simp
qed

definition sampleSupervisor :: supervisor where
  "sampleSupervisor = \<lparr>su_cmd = Some 5, su_attempt = 1, su_attemptStarted = Some 0, su_customEnv = []\<rparr>"

lemma sample_restart: "su_cmd (snd (snd (run sampleWorld (runtimeServer sampleConfig ''POST'' RouteRestart sampleSupervisor) []))) = Some 7"
  by code_simp

theorem one_process_at_a_time_witness:
  "\<exists>r tr. run sampleWorld (runtimeServer sampleConfig ''POST'' RouteRestart sampleSupervisor) [] = (tr, r)
     \<and> obeys (\<lambda>h q. \<forall>c d env. q = SvStart c d env \<longrightarrow> stopped 5 h) 0 tr \<and> su_cmd (snd r) = Some 7 \<and> stopped 5 tr"
proof -
  obtain tr r where r: "run sampleWorld (runtimeServer sampleConfig ''POST'' RouteRestart sampleSupervisor) [] = (tr, r)" by (rule prod.exhaust)
  have "su_cmd sampleSupervisor = Some 5" by (simp add: sampleSupervisor_def)
  from wp_trace [OF one_process_at_a_time [OF this] r] show ?thesis
    using sample_restart r by (intro exI [of _ r] exI [of _ tr]) auto
qed

text \<open>A codec of one line per entry, and of a status without a process that is configured and has a port.\<close>

definition sampleStatus :: processStatusResponse where
  "sampleStatus = zeroStatus\<lparr>pr_Configured := True, pr_Port := ''3000''\<rparr>"

definition joinLines :: "string list \<Rightarrow> string" where "joinLines = joinWith [CHR 0x0A]"

definition readVar :: "string \<Rightarrow> string \<times> string" where "readVar l = (entryName l, fst (snd (cutAt (CHR ''='') l)))"

definition samplePayload :: "runtimePayload \<Rightarrow> string" where
  "samplePayload p = (case p of PlApplied names \<Rightarrow> joinLines names | PlStatus st \<Rightarrow> pr_Port st | _ \<Rightarrow> ''ok'')"

definition sampleCodec :: runtimeCodec where
  "sampleCodec = \<lparr>rc_emptyBody = ''{}'', rc_commandsBody = joinLines, rc_envBody = (\<lambda>env. joinLines (map (\<lambda>(n, v). envEntry n v) env)),
     rc_readEmpty = (\<lambda>b. if b = ''{}'' then BodyValue () else BodyTrailing),
     rc_readCommands = (\<lambda>b. BodyValue (splitAll (CHR 0x0A) b)), rc_readEnv = (\<lambda>b. BodyValue (map readVar (splitAll (CHR 0x0A) b))),
     rc_payload = samplePayload, rc_readApplied = (\<lambda>b. Inr (splitAll (CHR 0x0A) (butlast b))),
     rc_readStatus = (\<lambda>b. Inr (sampleStatus\<lparr>pr_Port := butlast b\<rparr>))\<rparr>"

abbreviation sampleSame :: "runtimeAsk \<Rightarrow> bool" where
  "sampleSame q \<equiv> overHTTP sampleCodec sampleConfig ''http://127.0.0.1:9100/'' (httpRuntimeClient sampleCodec ''http://127.0.0.1:9100/'' q) sampleSupervisor
     = giving (asSeen sampleCodec q) (localRuntime sampleConfig q sampleSupervisor)"

lemma codec_texts:
  "map readVar (splitAll (CHR 0x0A) (joinLines (map (\<lambda>(n, v). envEntry n v) sampleVars))) = sampleVars"
  "sort (map trimSpace (mkeys sampleVars)) = [''MODE'']" "splitAll (CHR 0x0A) (butlast (''MODE'' @ [CHR 0x0A])) = [''MODE'']"
  "splitAll (CHR 0x0A) (joinLines [''npm ci'', ''npm run build'']) = [''npm ci'', ''npm run build'']"
  "trimSpace ''npm ci'' \<noteq> []" "trimSpace ''npm run build'' \<noteq> []" "joinLines [''MODE''] = ''MODE''"
  by code_simp+

lemma sample_carried: "carried sampleCodec (RtSetEnv sampleVars)" "carried sampleCodec (RtReload [''npm ci'', ''npm run build''])"
  "statusCarried sampleCodec sampleStatus"
  using codec_texts by (simp_all add: carried_def statusCarried_def sampleCodec_def samplePayload_def commandInvalid_def sampleStatus_def zeroStatus_def)

theorem http_runtime_equivalent_witness:
  "sampleSame (RtSetEnv sampleVars) \<and> sampleSame (RtReload [''npm ci'', ''npm run build'']) \<and> sampleSame RtRestart \<and> sampleSame RtLogs
     \<and> sampleSame RtStatus \<and> asSeen sampleCodec RtStatus (Inr (RvStatus sampleStatus)) = Inr (RvStatus sampleStatus)"
proof -
  have "sampleSame RtRestart" by (rule http_runtime_equivalent) (simp add: carried_def)
  moreover have "sampleSame RtLogs" by (rule http_runtime_equivalent) (simp add: carried_def)
  moreover have "sampleSame RtStatus" by (rule http_runtime_equivalent) (simp add: carried_def)
  moreover have "sampleSame (RtSetEnv sampleVars)" by (rule http_runtime_equivalent [OF sample_carried(1)])
  moreover have "sampleSame (RtReload [''npm ci'', ''npm run build''])" by (rule http_runtime_equivalent [OF sample_carried(2)])
  moreover have "asSeen sampleCodec RtStatus (Inr (RvStatus sampleStatus)) = Inr (RvStatus sampleStatus)"
    using sample_carried(3) by (simp add: asSeen_def)
  ultimately show ?thesis by blast
qed

definition sampleRequest :: envRequest where
  "sampleRequest = \<lparr>eq_Env = sampleVars, eq_Restart = True\<rparr>"

definition sampleAgent :: agentConfig where
  "sampleAgent = \<lparr>gc_WorkDir = ''/workspace'', gc_ControlToken = ''t'', gc_AllowInsecureControl = False, gc_ReloadStrategy = ''process'',
     gc_ReloadRules = [], gc_unmarshal = (\<lambda>_. Inl errCanceled)\<rparr>"

text \<open>Before the variables are set, others are; between that and the restart the log and the status are asked for.\<close>

definition sampleOthers :: "nat \<Rightarrow> (string \<times> runtimeRoute) list" where
  "sampleOthers n = (if n = 0 then [(''POST'', RouteEnv (BodyValue [(''MODE'', ''test'')]))] else [(''GET'', RouteLogs), (''GET'', RouteStatus)])"

abbreviation sampleHandled :: "(controlReply \<times> supervisor) sv" where
  "sampleHandled \<equiv> coordinated sampleCodec sampleConfig ''http://127.0.0.1:9100/'' sampleOthers
     (handleEnv sampleAgent ''POST'' ''t'' (Inr sampleRequest)) sampleSupervisor"

lemma sample_local:
  "sampleHandled = overRuntime (\<lambda>q s. giving (asSeen sampleCodec q) (localRuntime sampleConfig q s)) (\<lambda>n. serveAll sampleConfig (sampleOthers n))
     (handleEnv sampleAgent ''POST'' ''t'' (Inr sampleRequest)) 0 sampleSupervisor"
proof (rule overRuntime_cong [of "carried sampleCodec"])
  have "carried sampleCodec RtRestart" by (simp add: carried_def)
  then show "onlyAsks (carried sampleCodec) (handleEnv sampleAgent ''POST'' ''t'' (Inr sampleRequest))"
    using sample_carried(1) by (auto simp: handleEnv_def sampleRequest_def Let_def split: option.split sum.split)
qed (rule http_runtime_same)

lemma sample_reply: "fst (snd (run sampleWorld sampleHandled [])) = CrJSON 200 (CvEnvUpdated [''MODE''] True)"
  unfolding sample_local by code_simp

theorem env_restart_takes_effect_witness:
  "\<exists>r tr. run sampleWorld sampleHandled [] = (tr, r)
     \<and> fst r = CrJSON 200 (CvEnvUpdated [''MODE''] True) \<and> startedWith sampleConfig (assigned sampleVars) (snd r) tr"
proof -
  obtain tr r where r: "run sampleWorld sampleHandled [] = (tr, r)" by (rule prod.exhaust)
  have "authorizeControl sampleAgent ''t'' = None" by code_simp
  moreover have "vc_StartCommand sampleConfig \<noteq> []" by (simp add: sampleConfig_def)
  moreover have "envKept sampleSupervisor" by (simp add: envKept_def envOk_def sampleSupervisor_def mkeys_def)
  moreover have "setEnv (eq_Env sampleRequest) [] = Inr ([''MODE''], sampleVars)"
    using sample_set by (simp add: sampleRequest_def)
  moreover have "eq_Restart sampleRequest" "carried sampleCodec (RtSetEnv (eq_Env sampleRequest))"
    using sample_carried(1) by (simp_all add: sampleRequest_def)
  moreover have "list_all (\<lambda>(verb, route). \<not> setsVariables route) (sampleOthers 1)" by (simp add: sampleOthers_def setsVariables_def)
  ultimately have "wp (\<lambda>_ _. True) sampleHandled (\<lambda>r h. fst r = CrJSON 200 (CvEnvUpdated [''MODE''] True) \<and> startedWith sampleConfig (assigned (eq_Env sampleRequest)) (snd r) h
        \<or> (\<exists>e. fst r = CrError 500 e)) []" by (intro env_restart_takes_effect)
  from wp_trace [OF this r] show ?thesis
    using sample_reply r by (intro exI [of _ r] exI [of _ tr]) (auto simp: sampleRequest_def)
qed

end
