(* ===== verification/Spec2Isabelle.thy ===== *)
theory Spec2Isabelle
  imports Template_Validation Universal_Contract Handler_Contract Convergence_Contract Access_Routing Access_SignIn
    Agent_Exec_Contract Agent_Session_Safety Agent_Digest Agent_Workspace_Runs Agent_Runtime_Contract
begin

text \<open>
  \<^bold>\<open>The infrastructure provider\<close>

  The program (\<^verbatim>\<open>src/\<close>, Go) lets tenants of a control plane create Instances from a catalog of
  Templates. A controller materialises each Instance as a custom resource on a runtime cluster,
  isolates the tenant's namespace there and mirrors the status back; a data-plane handler lets callers reach the
  endpoints and development sandboxes of an Instance through the provider. This development models these
  parts and proves what makes them correct. A published instance sits behind an access proxy of its own, which lets in
  only browsers and API callers the platform's hub has authorised.

  \<^bold>\<open>Parts, theories and correspondence\<close>

  \<^item> Shared: \<open>Go_Prelude\<close> (Go strings, maps, errors, paths), \<open>Json_Model\<close> (JSON values and the accessors of
    unstructured objects), \<open>Json_Text\<close> (JSON output), \<open>Sha256\<close>, \<open>Base64\<close>, \<open>Net_Url\<close> (Go's URLs), \<open>Go_Time\<close>, \<open>Go_Format\<close>, \<open>Go_Strconv\<close>, \<open>Interaction\<close> (programs that ask an
    environment and their trace semantics).
  \<^item> Templates: \<open>Api_Types\<close> (\<^verbatim>\<open>apis/v1alpha1/types_template.go\<close>), \<open>Template_Validation\<close>
    (\<^verbatim>\<open>template_validation.go\<close>), \<open>Universal_Validation\<close> and \<open>Universal_Contract\<close>
    (\<^verbatim>\<open>universal_validation.go\<close>): acceptance is characterised by a declarative specification, files are routed to
    at most one component, and the platform's coding sandbox is confined in pod, egress and surface.
  \<^item> Data plane (\<^verbatim>\<open>dataplane/\<close>): \<open>Data_Plane_Resolver\<close> (\<^verbatim>\<open>resolver.go\<close>), \<open>Data_Plane_Exec\<close>
    (\<^verbatim>\<open>exec.go\<close>, \<^verbatim>\<open>exec_run.go\<close>, \<^verbatim>\<open>persistent_executor.go\<close>), \<open>Data_Plane_Handler\<close>
    (\<^verbatim>\<open>handler.go\<close>, \<^verbatim>\<open>proxy.go\<close>, \<^verbatim>\<open>identity.go\<close>, \<^verbatim>\<open>authorizer.go\<close>, \<^verbatim>\<open>runtime.go\<close>); \<open>Exec_Contract\<close> and
    \<open>Handler_Contract\<close> hold the properties: order of authorisation, confinement to the runtime
    namespace, credentials, bounds, and that a synchronous run returns.
  \<^item> Names: \<open>Kro_Naming\<close> (\<^verbatim>\<open>kro/namespace.go\<close>, \<^verbatim>\<open>apps/host.go\<close>).
  \<^item> Instances (\<^verbatim>\<open>instancespec/\<close>, \<^verbatim>\<open>networkpolicy/\<close>, \<^verbatim>\<open>controller/instance/\<close>): \<open>Instance_Spec\<close> (values
    contract, exposure gate), \<open>Instance_Lifecycle\<close> (expiry, requeue, readiness, network phase), \<open>Instance_Status\<close>
    (merging of specs, mirrored status), \<open>Network_Policy\<close> (the isolation policy and what it admits),
    \<open>Kube_Api\<close> (the requests the controller makes), \<open>Instance_Controller\<close> (namespaces, policies, secrets) and
    \<open>Instance_Reconcile\<close> (synchronisation, finalization, the reconcile loop). \<open>Instance_Contract\<close>,
    \<open>Release_Contract\<close> and \<open>Convergence_Contract\<close> hold what one reconcile guarantees whatever the API
    servers answer, and that it converges.
  \<^item> Access proxy (\<^verbatim>\<open>accessproxy/\<close>, \<^verbatim>\<open>cmd/access-proxy/\<close>): \<open>Access_Config\<close> (\<^verbatim>\<open>config.go\<close>: validation and normal form,
    routes), \<open>Access_Headers\<close> (what passes), \<open>Access_Store\<close> (sessions, used states and cached verdicts with their bounds),
    \<open>Access_Proxy\<close> (the request handlers of \<^verbatim>\<open>proxy.go\<close> and \<^verbatim>\<open>bearer.go\<close>). \<open>Access_Sessions\<close> (a locale of bounded
    maps with eviction, interpreted for both maps), \<open>Access_Filters\<close>, \<open>Access_Routing\<close> and \<open>Access_SignIn\<close> hold
    the properties of each; \<open>Access_System\<close> runs any number of requests interleaved on one store and proves that nothing
    is forwarded without a grant in force.
  \<^item> Sandbox agent (\<^verbatim>\<open>dev-agent/\<close>): \<open>Agent_Paths\<close> and \<open>Agent_Files\<close> (path checks, files, manifest and digest), \<open>Agent_Exec\<close>
    (\<^verbatim>\<open>exec_server.go\<close>, \<^verbatim>\<open>process_cleanup_linux.go\<close>: one command from validation to the proof that its processes are gone),
    \<open>Agent_Coordinator\<close> (\<^verbatim>\<open>exec_worker.go\<close>: critical sections and goroutines) and \<open>Agent_Sessions\<close> (the coordinator as a step
    relation with failures, stops and restarts), \<open>Agent_Glob\<close> (\<^verbatim>\<open>path.Match\<close>) and \<open>Agent_Sync\<close> (\<^verbatim>\<open>main.go\<close>: the \<^verbatim>\<open>/sync\<close> handler).
    \<open>Agent_Exec_Contract\<close>, \<open>Agent_Session_Contract\<close>, \<open>Agent_Session_Safety\<close>, \<open>Agent_Sync_Contract\<close> and \<open>Agent_Digest\<close> hold the
    properties: what a command runs on, that its session is dispatched at most once, what a sync installs and where it writes.
  \<^item> Workspace API of the agent (\<^verbatim>\<open>dev-agent/workspace.go\<close>): \<open>Agent_Workspace\<close> (files, listing, reading, mutation, comparison) and
    \<open>Agent_Checkpoint\<close> (checkpoints, their store and the dispatch). \<open>Agent_Workspace_Contract\<close>, \<open>Agent_Checkpoint_Contract\<close>,
    \<open>Agent_Workspace_Confined\<close>, \<open>Agent_Workspace_Safety\<close> and \<open>Agent_Checkpoint_Store\<close> hold the properties (what mutations and
    comparisons compute, where the API writes, that a mutation installs its result and a restoration brings back what was saved,
    what becomes of stored checkpoints), \<open>Agent_Workspace_Runs\<close> their witnesses.
  \<^item> Runtime of the agent (\<^verbatim>\<open>dev-agent/main.go\<close>): \<open>Agent_Supervisor\<close> (the log, the environment, starting and stopping the
    process, reload commands, the internal server) and \<open>Agent_Runtime\<close> (the runtime's operations, the in-process provider, the HTTP
    client, the control handlers). \<open>Agent_Supervisor_Contract\<close> and \<open>Agent_Runtime_Contract\<close> hold the properties: what the log shows,
    which environment a process gets, one process at a time, that both providers behave alike for the operations both have, and
    that variables set with a restart are in the environment of the process it starts.
  \<^item> This theory holds the property that spans the controller and the data plane.

  \<^bold>\<open>Conventions\<close>

  A struct is a record whose fields carry a short prefix, a Go error a value of \<open>goError\<close> (format string,
  arguments, wrapped error), a fallible function returns a sum, a Go map is an association list with
  distinct keys in the order of iteration. A function that talks to other systems is a program of the theory
  \<open>Interaction\<close> over the requests of \<open>Kube_Api\<close>, or (in the data plane) returns the trace of its external
  actions; a theorem about all runs quantifies over the answers. Libraries outside the repository (the
  apimachinery accessors \<open>unstr\<close>, the schema library \<open>schemaLib\<close>, converters) are arguments; what a
  theorem needs of them is a named law that the reference instance satisfies. The polling loop of a synchronous run, the loop
  that cleans up processes and the loop that lists a workspace have fuel bounds that are proved to be enough; every other recursion terminates by its data.

  \<^bold>\<open>Not modelled\<close>

  Wiring of managers, clients and flags (\<^verbatim>\<open>main.go\<close>, \<^verbatim>\<open>server/\<close>, \<^verbatim>\<open>cmd/\<close>, \<^verbatim>\<open>operator/\<close>), installation of API objects
  (\<^verbatim>\<open>install/\<close>), generated deep copies, logging, and the portal; the template controller, the graph
  backend (\<^verbatim>\<open>backend/kro\<close>), the MCP server and, of the agent inside a sandbox (\<^verbatim>\<open>dev-agent/\<close>), the
  start-up code are listed in the manifest with their status.
\<close>

section \<open>The exec gate and the controller\<close>

text \<open>The data plane reads of an Instance exactly the status the controller wrote.\<close>

definition readsStatus :: "unstr \<Rightarrow> json \<Rightarrow> jmap \<Rightarrow> bool" where
  "readsStatus U i st \<longleftrightarrow>
     (\<forall>f. nestedField U i [''status'', f] = Inr (map_of st f))
   \<and> (\<forall>s. nestedStr U i [''status'', ''phase''] = Inr (Some s) \<longleftrightarrow> map_of st ''phase'' = Some (JStr s))"

text \<open>C6: The exec gate of the data plane is sound for the status the controller composed in its last pass. If the gate is open for an
  Instance, then its values were valid in that pass and the pass saw the Instance at the generation the gate sees. For the
  universal coding sandbox, whose Template has a development block, moreover the runtime object of the pass had selected the
  runtime network phase and was ready at its own current generation. (For other templates the gate does not look at the
  network phase, and nothing is said of the runtime object.)\<close>

theorem exec_gate_sound:
  assumes "readsStatus U i (nextStatus U gv inst tmpl obj (Some v) oidc n1 n2)" and "instanceReadyForExec U (Some i) templateName"
  shows "cs_status v \<and> getGeneration U i = getGeneration U inst
    \<and> (\<forall>t. templateName = UniversalCodingSandboxTemplateName \<and> tmpl = Some t \<and> ts_Development (tm_Spec t) \<noteq> None
         \<longrightarrow> (\<exists>ob. obj = Some ob \<and> specPhase U ob = RuntimePhase \<and> readyAtGeneration U ob))"
proof (intro conjI allI impI)
  let ?st = "nextStatus U gv inst tmpl obj (Some v) oidc n1 n2"
  have ph: "map_of ?st ''phase'' = Some (JStr ''Ready'')"
    using assms unfolding instanceReadyForExec_def readsStatus_def Let_def by auto
  show "cs_status v"
  proof (rule ccontr)
    assume "\<not> cs_status v"
    then have "jget ?st ''phase'' = JStr ''Failed''" by (rule nextStatus_failed_phase)
    with ph show False by (simp add: jget_def)
  qed
  have "map_of ?st ''observedGeneration'' = Some (JInt (getGeneration U inst))"
    using nextStatus_observedGeneration [of U gv inst tmpl obj "Some v" oidc n1 n2] by (simp add: jget_def split: option.splits)
  then have "nestedField U i [''status'', ''observedGeneration''] = Inr (Some (JInt (getGeneration U inst)))"
    using assms(1) by (simp add: readsStatus_def)
  then show "getGeneration U i = getGeneration U inst"
    using assms(2) by (simp add: instanceReadyForExec_def Let_def observedGenerationValue_def)
  fix t assume t: "templateName = UniversalCodingSandboxTemplateName \<and> tmpl = Some t \<and> ts_Development (tm_Spec t) \<noteq> None"
  have np: "map_of ?st NetworkPhaseStatusField = Some (JStr NetworkPhaseRuntime)"
    using assms t unfolding instanceReadyForExec_def readsStatus_def Let_def by auto
  from t have "runtimeNetworkPhase U tmpl obj \<noteq> None" unfolding runtimeNetworkPhase_def by (cases obj) auto
  then obtain p where p: "runtimeNetworkPhase U tmpl obj = Some p" by blast
  have "jget ?st NetworkPhaseStatusField = JStr NetworkPhaseRuntime" using np by (simp add: jget_def)
  then have "runtimeNetworkPhase U (Some t) obj = Some NetworkPhaseRuntime"
    using p t unfolding nextStatus_networkPhase by simp
  with phase_consts show "\<exists>ob. obj = Some ob \<and> specPhase U ob = RuntimePhase \<and> readyAtGeneration U ob"
    unfolding runtimeNetworkPhase_def
    by (cases obj) (auto simp: specPhase_runtime runtimeReadyForNetwork_iff split: if_splits)
qed

text \<open>A sandbox in the runtime phase, ready at its generation, and the Instance with the status mirrored from it.\<close>

definition readyRuntime :: json where
  "readyRuntime = JObj [(''metadata'', JObj [(''generation'', JInt 4), (''name'', JStr ''box''), (''namespace'', JStr ''c1-team'')]),
     (''spec'', JObj [(NetworkPhaseField, JStr ''runtime'')]),
     (''status'', JObj [(''phase'', JStr ''Ready''), (''observedGeneration'', JInt 4),
        (''conditions'', JArr [JObj [(''type'', JStr ''Ready''), (''status'', JStr ''True'')]])])]"

definition mirroredStatus :: jmap where
  "mirroredStatus = nextStatus reference_unstr (\<lambda>g v. g @ ''/'' @ v) (JObj [(''metadata'', JObj [(''generation'', JInt 2)])])
     (Some demoTemplate) (Some readyRuntime) (Some (validCondition True ''Ready'' [])) None (formatRFC3339 0) []"

definition mirroredInstance :: json where
  "mirroredInstance = JObj [(''metadata'', JObj [(''generation'', JInt 2)]), (''status'', JObj mirroredStatus)]"

theorem exec_gate_sound_witness:
  "instanceReadyForExec reference_unstr (Some mirroredInstance) UniversalCodingSandboxTemplateName
   \<and> specPhase reference_unstr readyRuntime = RuntimePhase \<and> readyAtGeneration reference_unstr readyRuntime"
proof -
  have o: "instanceReadyForExec reference_unstr (Some mirroredInstance) UniversalCodingSandboxTemplateName" by code_simp
  have "readsStatus reference_unstr mirroredInstance mirroredStatus"
    unfolding readsStatus_def mirroredInstance_def
    by (auto simp: reference_unstr_def refTyped_def isStr_def split: option.splits json.splits)
  then have r: "readsStatus reference_unstr mirroredInstance
      (nextStatus reference_unstr (\<lambda>g v. g @ ''/'' @ v) (JObj [(''metadata'', JObj [(''generation'', JInt 2)])])
         (Some demoTemplate) (Some readyRuntime) (Some (validCondition True ''Ready'' [])) None (formatRFC3339 0) [])"
    unfolding mirroredStatus_def .
  have d: "ts_Development (tm_Spec demoTemplate) \<noteq> None" by (simp add: demoTemplate_def)
  from exec_gate_sound [OF r o] d o show ?thesis by auto
qed

end
